(* ===== verification/Prelude.thy ===== *)
theory Prelude
  imports Main "HOL-Library.AList" "HOL-Library.Monad_Syntax"
begin

text \<open>
  Shared vocabulary of the development: Go's fallible results as sums, the signed
  64-bit \<open>int\<close> of the target platform, the handful of functions of
  \<^verbatim>\<open>strings\<close>, \<^verbatim>\<open>strconv\<close> and \<^verbatim>\<open>fmt\<close> the
  sources use on ASCII text, association lists for Go maps that are iterated, and the
  interface of the string-valued enumerations that occur all over the program.

  Strings are lists of bytes.  Case folding and trimming are those of ASCII text: the
  Unicode tables of Go's standard library are not modelled.
\<close>

section \<open>Collections of rewrite rules\<close>

named_theorems enum_defs \<open>definitions of the constants and tables of the enumerations\<close>
named_theorems go_num \<open>facts on the signed 64-bit integers\<close>

section \<open>Results\<close>

text \<open>A Go function returning \<open>(T, error)\<close> is a sum: the error on the left, the value on
  the right.\<close>

abbreviation Ok :: "'a \<Rightarrow> 'e + 'a" where "Ok \<equiv> Inr"
abbreviation Err :: "'e \<Rightarrow> 'e + 'a" where "Err \<equiv> Inl"

definition is_ok :: "'e + 'a \<Rightarrow> bool" where
  "is_ok r = (case r of Err _ \<Rightarrow> False | Ok _ \<Rightarrow> True)"

definition result_bind :: "'e + 'a \<Rightarrow> ('a \<Rightarrow> 'e + 'b) \<Rightarrow> 'e + 'b" where
  "result_bind r f = (case r of Err e \<Rightarrow> Err e | Ok v \<Rightarrow> f v)"

text \<open>A guard: fail with \<open>e\<close> when the condition of the early return holds.\<close>

definition fail_if :: "bool \<Rightarrow> 'e \<Rightarrow> 'e + unit" where
  "fail_if b e = (if b then Err e else Ok ())"

section \<open>Machine integers\<close>

text \<open>Go's \<open>int\<close> and \<open>int64\<close>: two's complement wrap-around written out.\<close>

definition i64 :: "int \<Rightarrow> int" where
  "i64 x = (x + 2 ^ 63) mod 2 ^ 64 - 2 ^ 63"

abbreviation MaxInt64 :: int where "MaxInt64 \<equiv> 9223372036854775807"

definition fits64 :: "int \<Rightarrow> bool" where
  "fits64 x \<longleftrightarrow> - (2 ^ 63) \<le> x \<and> x < 2 ^ 63"

section \<open>Bytes and strings\<close>

definition is_digit :: "char \<Rightarrow> bool" where
  "is_digit c \<longleftrightarrow> 48 \<le> (of_char c :: nat) \<and> (of_char c :: nat) \<le> 57"

definition digit_val :: "char \<Rightarrow> int" where
  "digit_val c = int (of_char c) - 48"

definition digit_char :: "nat \<Rightarrow> char" where
  "digit_char d = char_of (48 + d)"

definition is_upper :: "char \<Rightarrow> bool" where
  "is_upper c \<longleftrightarrow> 65 \<le> (of_char c :: nat) \<and> (of_char c :: nat) \<le> 90"

text \<open>\<^verbatim>\<open>strings.ToLower\<close> on ASCII.\<close>

definition lower_char :: "char \<Rightarrow> char" where
  "lower_char c = (if is_upper c then char_of ((of_char c :: nat) + 32) else c)"

definition ToLower :: "string \<Rightarrow> string" where
  "ToLower s = map lower_char s"

text \<open>The ASCII white space of \<^verbatim>\<open>unicode.IsSpace\<close>: tab, newline, vertical tab, form
  feed, carriage return and blank.\<close>

definition is_space :: "char \<Rightarrow> bool" where
  "is_space c \<longleftrightarrow> (let n = (of_char c :: nat) in (9 \<le> n \<and> n \<le> 13) \<or> n = 32)"

definition TrimSpace :: "string \<Rightarrow> string" where
  "TrimSpace s = rev (dropWhile is_space (rev (dropWhile is_space s)))"

definition HasPrefix :: "string \<Rightarrow> string \<Rightarrow> bool" where
  "HasPrefix s p \<longleftrightarrow> take (length p) s = p"

text \<open>\<^verbatim>\<open>%d\<close> of a non-negative and of a signed integer.\<close>

fun dec_nat :: "nat \<Rightarrow> string" where
  "dec_nat n = (if n < 10 then [digit_char n] else dec_nat (n div 10) @ [digit_char (n mod 10)])"

declare dec_nat.simps [simp del]

definition dec_int :: "int \<Rightarrow> string" where
  "dec_int i = (if i < 0 then CHR ''-'' # dec_nat (nat (- i)) else dec_nat (nat i))"

text \<open>The value a run of decimal digits accumulates in a Go \<open>int\<close>, with its wrap-around
  (\<open>num = num*10 + int(ch-'0')\<close>).\<close>

definition acc_digits :: "string \<Rightarrow> int" where
  "acc_digits ds = foldl (\<lambda>num c. i64 (num * 10 + digit_val c)) 0 ds"

text \<open>\<^verbatim>\<open>%q\<close> (\<^verbatim>\<open>strconv.Quote\<close>) of ASCII text: the short escapes, and
  \<^verbatim>\<open>\xNN\<close> for the other control bytes.\<close>

definition hex_char :: "nat \<Rightarrow> char" where
  "hex_char d = (if d < 10 then char_of (48 + d) else char_of (87 + d))"

definition quote_char :: "char \<Rightarrow> string" where
  "quote_char c = (let n = (of_char c :: nat); bs = char_of (92::nat) in
     if n = 34 \<or> n = 92 then [bs, c]
     else if n = 7 then [bs, CHR ''a''] else if n = 8 then [bs, CHR ''b'']
     else if n = 9 then [bs, CHR ''t''] else if n = 10 then [bs, CHR ''n'']
     else if n = 11 then [bs, CHR ''v''] else if n = 12 then [bs, CHR ''f'']
     else if n = 13 then [bs, CHR ''r'']
     else if n < 32 \<or> n = 127 then [bs, CHR ''x'', hex_char (n div 16), hex_char (n mod 16)]
     else [c])"

definition quote :: "string \<Rightarrow> string" where
  "quote s = char_of (34::nat) # concat (map quote_char s) @ [char_of (34::nat)]"

fun join :: "string \<Rightarrow> string list \<Rightarrow> string" where
  "join sep [] = []"
| "join sep [s] = s"
| "join sep (s # t # ss) = s @ sep @ join sep (t # ss)"

text \<open>\<^verbatim>\<open>%v\<close> of a slice of strings.\<close>

definition fmt_slice :: "string list \<Rightarrow> string" where
  "fmt_slice ss = ''['' @ join '' '' ss @ '']''"

section \<open>Lemmas on results\<close>

lemma is_ok_simps [simp]: "is_ok (Ok v)" "\<not> is_ok (Err e)"
  by (simp_all add: is_ok_def)

lemma result_bind_simps [simp]:
  "result_bind (Ok v) f = f v" "result_bind (Err e) f = Err e"
  by (simp_all add: result_bind_def)

lemma result_bind_Ok_iff [simp]:
  "result_bind r f = Ok v \<longleftrightarrow> (\<exists>u. r = Ok u \<and> f u = Ok v)"
  by (cases r) simp_all

lemma fail_if_simps [simp]:
  "fail_if b e = Ok u \<longleftrightarrow> \<not> b" "fail_if b e = Err e' \<longleftrightarrow> b \<and> e' = e"
  by (auto simp: fail_if_def)

lemma if_Err_eq_Ok: "(if b then Err e else r) = Ok v \<longleftrightarrow> \<not> b \<and> r = Ok v"
  by simp

section \<open>Lemmas on machine integers\<close>

lemma fits64_alt: "fits64 x \<longleftrightarrow> -9223372036854775808 \<le> x \<and> x \<le> 9223372036854775807"
  by (auto simp: fits64_def)

lemma i64_fits [simp, go_num]: "fits64 (i64 x)"
proof -
  have "0 \<le> (x + 2 ^ 63) mod (2 ^ 64 :: int)" "(x + 2 ^ 63) mod (2 ^ 64 :: int) < 2 ^ 64"
    by simp_all
  then show ?thesis by (simp add: i64_def fits64_def)
qed

lemma i64_id [go_num]: "fits64 x \<Longrightarrow> i64 x = x"
  by (simp add: i64_def fits64_def mod_pos_pos_trivial)

lemma i64_wrap_up [go_num]: "2 ^ 63 \<le> x \<Longrightarrow> x < 2 ^ 63 + 2 ^ 64 \<Longrightarrow> i64 x = x - 2 ^ 64"
proof -
  assume a: "2 ^ 63 \<le> x" "x < 2 ^ 63 + 2 ^ 64"
  have "(x + 2 ^ 63) mod 2 ^ 64 = (x + 2 ^ 63 - 2 ^ 64) mod 2 ^ 64"
    by (metis minus_mod_self2)
  also have "\<dots> = x + 2 ^ 63 - 2 ^ 64"
    using a by (intro mod_pos_pos_trivial) simp_all
  finally show ?thesis by (simp add: i64_def)
qed

section \<open>Lemmas on strings\<close>

lemma of_char_char_of_small [simp]: "n < 256 \<Longrightarrow> (of_char (char_of n) :: nat) = n"
  by (simp add: of_char_of)

lemma is_digit_digit_char [simp]: "d < 10 \<Longrightarrow> is_digit (digit_char d)"
  by (simp add: is_digit_def digit_char_def)

lemma digit_val_digit_char [simp]: "d < 10 \<Longrightarrow> digit_val (digit_char d) = int d"
  by (simp add: digit_val_def digit_char_def)

lemma digit_val_bounds: "is_digit c \<Longrightarrow> 0 \<le> digit_val c \<and> digit_val c \<le> 9"
  by (auto simp: is_digit_def digit_val_def)

lemma dec_nat_digits: "c \<in> set (dec_nat n) \<Longrightarrow> is_digit c"
proof (induction n rule: dec_nat.induct)
  case (1 n)
  show ?case
  proof (cases "n < 10")
    case True
    then show ?thesis using "1.prems" by (simp add: dec_nat.simps [of n])
  next
    case False
    then have "c \<in> set (dec_nat (n div 10)) \<or> c = digit_char (n mod 10)"
      using "1.prems" by (subst (asm) dec_nat.simps) auto
    then show ?thesis using "1.IH" False by auto
  qed
qed

lemma dec_nat_not_Nil [simp]: "dec_nat n \<noteq> []"
  by (subst dec_nat.simps) simp

lemma acc_digits_snoc: "acc_digits (ds @ [c]) = i64 (acc_digits ds * 10 + digit_val c)"
  by (simp add: acc_digits_def)

lemma acc_digits_dec_nat: "int n < 2 ^ 63 \<Longrightarrow> acc_digits (dec_nat n) = int n"
proof (induction n rule: dec_nat.induct)
  case (1 n)
  have fits: "i64 (int n) = int n"
    using "1.prems" by (intro i64_id) (simp add: fits64_def)
  show ?case
  proof (cases "n < 10")
    case True
    then show ?thesis using fits
      by (subst dec_nat.simps) (simp add: acc_digits_def)
  next
    case False
    have "int (n div 10) < 2 ^ 63"
      using "1.prems" by (intro le_less_trans [of "int (n div 10)" "int n"]) simp_all
    then have "acc_digits (dec_nat (n div 10)) = int (n div 10)"
      using "1.IH" False by simp
    moreover have "int (n div 10) * 10 + int (n mod 10) = int n"
      by (metis div_mult_mod_eq of_nat_add of_nat_mult of_nat_numeral)
    ultimately show ?thesis using fits False
      by (subst dec_nat.simps) (simp add: acc_digits_snoc)
  qed
qed

lemma dec_nat_inj: "int m < 2 ^ 63 \<Longrightarrow> int n < 2 ^ 63 \<Longrightarrow> dec_nat m = dec_nat n \<longleftrightarrow> m = n"
  by (metis acc_digits_dec_nat of_nat_eq_iff)

lemma is_upper_lower_char [simp]: "\<not> is_upper (lower_char c)"
  by (auto simp: lower_char_def is_upper_def)

lemma lower_char_idem [simp]: "lower_char (lower_char c) = lower_char c"
  by (simp add: lower_char_def [of "lower_char c"])

lemma ToLower_idem [simp]: "ToLower (ToLower s) = ToLower s"
  by (simp add: ToLower_def)

lemma length_ToLower [simp]: "length (ToLower s) = length s"
  by (simp add: ToLower_def)

lemma is_space_lower_char [simp]: "is_space (lower_char c) = is_space c"
  by (auto simp: lower_char_def is_space_def is_upper_def Let_def)

lemma dropWhile_map_lower: "dropWhile is_space (map lower_char s) = map lower_char (dropWhile is_space s)"
  by (induction s) simp_all

lemma TrimSpace_ToLower: "TrimSpace (ToLower s) = ToLower (TrimSpace s)"
  by (simp add: TrimSpace_def ToLower_def dropWhile_map_lower rev_map)

lemma length_TrimSpace: "length (TrimSpace s) \<le> length s"
  using length_dropWhile_le [of is_space "rev (dropWhile is_space s)"]
    length_dropWhile_le [of is_space s]
  by (simp add: TrimSpace_def)

lemma dropWhile_dropWhile [simp]: "dropWhile P (dropWhile P xs) = dropWhile P xs"
  by (induction xs) simp_all

text \<open>Trimming leaves a text alone that is empty or has no white space at either end.\<close>

lemma TrimSpace_id: "s = [] \<or> (\<not> is_space (hd s) \<and> \<not> is_space (last s)) \<Longrightarrow> TrimSpace s = s"
proof -
  have hd: "dropWhile is_space xs = xs" if "xs = [] \<or> \<not> is_space (hd xs)" for xs
    using that by (cases xs) auto
  assume "s = [] \<or> (\<not> is_space (hd s) \<and> \<not> is_space (last s))"
  then show ?thesis by (auto simp: TrimSpace_def hd hd_rev)
qed

lemma is_digit_not_space: "is_digit c \<Longrightarrow> \<not> is_space c"
  by (simp add: is_digit_def is_space_def Let_def)

lemma lower_char_digit: "is_digit c \<Longrightarrow> lower_char c = c"
  by (simp add: is_digit_def lower_char_def is_upper_def)

lemma join_append:
  "xs \<noteq> [] \<Longrightarrow> ys \<noteq> [] \<Longrightarrow> join sep (xs @ ys) = join sep xs @ sep @ join sep ys"
proof (induction sep xs rule: join.induct)
  case (2 sep s)
  then show ?case by (cases ys) simp_all
qed simp_all

section \<open>String enumerations\<close>

text \<open>
  Most enumerations of the program are named string types with three parts that have to
  agree: the constants, a slice \<open>All...\<close> in declaration order, and an \<open>IsValid\<close> method
  written as a switch.  The interface says that the switch and the slice list the same
  values, each once.
\<close>

locale wire_enum =
  fixes all :: "'a list" and valid :: "'a \<Rightarrow> bool"
  assumes valid_iff: "valid x \<longleftrightarrow> x \<in> set all"
    and distinct_all: "distinct all"
begin

lemma finite_valid: "finite {x. valid x}"
  by (simp add: valid_iff)

lemma card_valid: "card {x. valid x} = length all"
  using distinct_all by (simp add: valid_iff distinct_card)

lemma valid_nth: "i < length all \<Longrightarrow> valid (all ! i)"
  by (simp add: valid_iff)

lemma unique_index: "valid x \<Longrightarrow> \<exists>!i. i < length all \<and> all ! i = x"
  using distinct_all by (auto simp: valid_iff in_set_conv_nth nth_eq_iff_index_eq)

end

section \<open>Decimal integers\<close>

text \<open>\<open>strconv.Atoi\<close>: an optional sign and digits, refused when the value does not fit.\<close>

definition digits_value :: "string \<Rightarrow> int" where
  "digits_value ds = foldl (\<lambda>acc c. acc * 10 + digit_val c) 0 ds"

definition Atoi :: "string \<Rightarrow> int option" where
  "Atoi s =
     (let (sgn, ds) = (case s of [] \<Rightarrow> (1, [])
            | c # cs \<Rightarrow> if c = CHR ''-'' then (-1, cs) else if c = CHR ''+'' then (1, cs) else (1, s)) in
      if ds = [] \<or> \<not> list_all is_digit ds then None
      else let v = sgn * digits_value ds in if fits64 v then Some v else None)"

lemma digits_value_dec_nat: "digits_value (dec_nat n) = int n"
proof (induction n rule: dec_nat.induct)
  case (1 n)
  have "int (n div 10) * 10 + int (n mod 10) = int n" by presburger
  then show ?case using 1 by (subst dec_nat.simps) (auto simp: digits_value_def)
qed

section \<open>Deterministic machines and their invariants\<close>

text \<open>
  A component whose operations are total functions on its state is a machine that runs a
  list of operations.  An invariant that every operation keeps holds after every run; one
  that holds of the initial state holds in every reachable state.
\<close>

definition run :: "('s \<Rightarrow> 'op \<Rightarrow> 's) \<Rightarrow> 's \<Rightarrow> 'op list \<Rightarrow> 's" where
  "run step s ops = foldl step s ops"

lemma run_simps [simp]:
  "run step s [] = s" "run step s (op # ops) = run step (step s op) ops"
  "run step s (xs @ ys) = run step (run step s xs) ys"
  by (simp_all add: run_def)

locale machine_invariant =
  fixes step :: "'s \<Rightarrow> 'op \<Rightarrow> 's" and inv :: "'s \<Rightarrow> bool"
  assumes inv_step: "inv s \<Longrightarrow> inv (step s op)"
begin

lemma inv_run: "inv s \<Longrightarrow> inv (run step s ops)"
  by (induction ops arbitrary: s) (simp_all add: inv_step)

end

text \<open>A property that an operation can only break or establish one step at a time: if it
  fails at the start and holds at the end, some operation established it.\<close>

lemma run_first_change:
  assumes "\<not> P s" "P (run step s ops)"
  shows "\<exists>pre op post. ops = pre @ op # post \<and> \<not> P (run step s pre) \<and> P (step (run step s pre) op)"
  using assms
proof (induction ops arbitrary: s)
  case (Cons op ops)
  show ?case
  proof (cases "P (step s op)")
    case True
    then show ?thesis using Cons.prems by (intro exI [of _ "[]"]) simp
  next
    case False
    then obtain pre op' post where "ops = pre @ op' # post"
      "\<not> P (run step (step s op) pre)" "P (step (run step (step s op) pre) op')"
      using Cons.IH [of "step s op"] Cons.prems by auto
    then show ?thesis by (intro exI [of _ "op # pre"]) auto
  qed
qed simp

section \<open>Three-way comparisons\<close>

text \<open>
  Go's comparison functions return \<open>-1\<close>, \<open>0\<close> or \<open>+1\<close>.  The interface of a comparison that
  orders its arguments: results of opposite sign when the arguments are exchanged, and
  transitivity.  Values that compare equal need not be identical (versions differing in build
  metadata), but nothing tells them apart afterwards.
\<close>

locale go_comparator =
  fixes cmp :: "'a \<Rightarrow> 'a \<Rightarrow> int"
  assumes cmp_range: "cmp x y = -1 \<or> cmp x y = 0 \<or> cmp x y = 1"
    and cmp_swap: "cmp y x = - cmp x y"
    and cmp_le_trans: "cmp x y \<le> 0 \<Longrightarrow> cmp y z \<le> 0 \<Longrightarrow> cmp x z \<le> 0"
begin

lemma cmp_refl [simp]: "cmp x x = 0"
  using cmp_swap [of x x] by simp

lemma cmp_total: "cmp x y \<le> 0 \<or> cmp y x \<le> 0"
  using cmp_swap [of x y] by auto

lemma cmp_eq_sym: "cmp x y = 0 \<longleftrightarrow> cmp y x = 0"
  using cmp_swap [of x y] by auto

lemma cmp_ge_trans: "0 \<le> cmp x y \<Longrightarrow> 0 \<le> cmp y z \<Longrightarrow> 0 \<le> cmp x z"
  using cmp_le_trans [of z y x] cmp_swap [of x y] cmp_swap [of y z] cmp_swap [of x z] by simp

lemma cmp_eq_left: "cmp x y = 0 \<Longrightarrow> cmp x z = cmp y z"
proof -
  assume e: "cmp x y = 0"
  then have e': "cmp y x = 0" by (simp add: cmp_eq_sym)
  have "cmp x z \<le> 0 \<longleftrightarrow> cmp y z \<le> 0"
    using e e' cmp_le_trans [of y x z] cmp_le_trans [of x y z] by auto
  moreover have "0 \<le> cmp x z \<longleftrightarrow> 0 \<le> cmp y z"
    using e e' cmp_ge_trans [of y x z] cmp_ge_trans [of x y z] by auto
  ultimately show ?thesis using cmp_range [of x z] cmp_range [of y z] by auto
qed

lemma cmp_less_trans: "cmp x y = -1 \<Longrightarrow> cmp y z \<le> 0 \<Longrightarrow> cmp x z = -1"
proof -
  assume a: "cmp x y = -1" "cmp y z \<le> 0"
  have "cmp x z \<le> 0" using a cmp_le_trans [of x y z] by simp
  moreover have "cmp x z \<noteq> 0"
  proof
    assume "cmp x z = 0"
    then have "cmp y x = cmp y z" using cmp_eq_left [of x z y] cmp_swap [of x y] cmp_swap [of z y] by simp
    then show False using a cmp_swap [of x y] by simp
  qed
  ultimately show ?thesis using cmp_range [of x z] by auto
qed

lemma cmp_le_less_trans: "cmp x y \<le> 0 \<Longrightarrow> cmp y z = -1 \<Longrightarrow> cmp x z = -1"
  using cmp_less_trans [of x y z] cmp_range [of x y] cmp_eq_left [of x y z] by auto

end

text \<open>Comparing first by one key and, where that is undecided, by another.\<close>

definition lex_cmp :: "('a \<Rightarrow> 'a \<Rightarrow> int) \<Rightarrow> ('a \<Rightarrow> 'a \<Rightarrow> int) \<Rightarrow> 'a \<Rightarrow> 'a \<Rightarrow> int" where
  "lex_cmp c d x y = (if c x y \<noteq> 0 then c x y else d x y)"

locale comparator_pair = major: go_comparator c + minor: go_comparator d
  for c d :: "'a \<Rightarrow> 'a \<Rightarrow> int"
begin

lemma lex_le_trans:
  assumes "lex_cmp c d x y \<le> 0" "lex_cmp c d y z \<le> 0"
  shows "lex_cmp c d x z \<le> 0"
proof -
  consider "c x y = -1" | "c x y = 0" "d x y \<le> 0"
    using assms(1) major.cmp_range [of x y] by (auto simp: lex_cmp_def split: if_splits)
  then show ?thesis
  proof cases
    case 1
    have "c y z \<le> 0" using assms(2) by (auto simp: lex_cmp_def split: if_splits)
    then show ?thesis using 1 major.cmp_less_trans [of x y z] by (simp add: lex_cmp_def)
  next
    case 2
    then show ?thesis using assms(2) major.cmp_eq_left [of x y z] minor.cmp_le_trans [of x y z]
      by (auto simp: lex_cmp_def split: if_splits)
  qed
qed

lemma lex_comparator: "go_comparator (lex_cmp c d)"
proof
  fix x y z :: 'a
  show "lex_cmp c d x y = -1 \<or> lex_cmp c d x y = 0 \<or> lex_cmp c d x y = 1"
    using major.cmp_range [of x y] minor.cmp_range [of x y] by (auto simp: lex_cmp_def)
  show "lex_cmp c d y x = - lex_cmp c d x y"
    using major.cmp_swap [of y x] minor.cmp_swap [of y x] by (auto simp: lex_cmp_def)
qed (rule lex_le_trans)

end

text \<open>A comparison of keys orders the values that carry them.\<close>

lemma go_comparator_key: "go_comparator c \<Longrightarrow> go_comparator (\<lambda>x y. c (f x) (f y))"
proof -
  assume "go_comparator c"
  then show ?thesis
    unfolding go_comparator_def by blast
qed

section \<open>Splitting text\<close>

text \<open>\<open>strings.Split\<close> with a separator of one byte, and \<open>strings.Cut\<close> at the first one.\<close>

fun Split :: "char \<Rightarrow> string \<Rightarrow> string list" where
  "Split c [] = [[]]"
| "Split c (x # xs) =
     (if x = c then [] # Split c xs
      else (case Split c xs of [] \<Rightarrow> [[x]] | p # ps \<Rightarrow> (x # p) # ps))"

definition Cut :: "char \<Rightarrow> string \<Rightarrow> (string \<times> string) option" where
  "Cut c s = (if c \<in> set s then Some (takeWhile (\<lambda>x. x \<noteq> c) s, tl (dropWhile (\<lambda>x. x \<noteq> c) s)) else None)"

lemma Split_not_Nil [simp]: "Split c s \<noteq> []"
  by (induction s) (auto split: list.splits)

lemma Split_no_sep: "c \<notin> set s \<Longrightarrow> Split c s = [s]"
  by (induction s) auto

lemma Split_append: "c \<notin> set p \<Longrightarrow> Split c (p @ c # s) = p # Split c s"
  by (induction p) auto

lemma Split_join: "ps \<noteq> [] \<Longrightarrow> \<forall>p\<in>set ps. c \<notin> set p \<Longrightarrow> Split c (join [c] ps) = ps"
proof (induction ps rule: induct_list012)
  case (3 p q ps)
  then show ?case by (simp add: Split_append)
qed (auto simp: Split_no_sep)

lemma join_Split: "join [c] (Split c s) = s"
proof (induction s)
  case (Cons x xs)
  have j: "join [c] ([] # ps) = c # join [c] ps" if "ps \<noteq> []" for ps
    using that by (cases ps) auto
  have k: "join [c] ((x # p) # ps) = x # join [c] (p # ps)" for p ps
    by (cases ps) auto
  show ?case using Cons j [of "Split c xs"] by (cases "Split c xs") (auto simp: k)
qed simp

lemma Split_no_sep_inside: "p \<in> set (Split c s) \<Longrightarrow> c \<notin> set p"
proof (induction s arbitrary: p)
  case (Cons x xs)
  then show ?case by (cases "Split c xs") (auto split: if_splits)
qed simp

lemma Cut_Some: "Cut c s = Some (a, b) \<longleftrightarrow> s = a @ c # b \<and> c \<notin> set a"
proof
  assume "Cut c s = Some (a, b)"
  then have c: "c \<in> set s" and a: "a = takeWhile (\<lambda>x. x \<noteq> c) s"
    and b: "b = tl (dropWhile (\<lambda>x. x \<noteq> c) s)"
    by (auto simp: Cut_def split: if_splits)
  have "dropWhile (\<lambda>x. x \<noteq> c) s = c # b"
    using c b hd_dropWhile [of "\<lambda>x. x \<noteq> c" s] by (cases "dropWhile (\<lambda>x. x \<noteq> c) s") auto
  then show "s = a @ c # b \<and> c \<notin> set a"
    using takeWhile_dropWhile_id [of "\<lambda>x. x \<noteq> c" s] a set_takeWhileD by metis
next
  assume h: "s = a @ c # b \<and> c \<notin> set a"
  have "takeWhile (\<lambda>x. x \<noteq> c) (a @ c # b) = a \<and> dropWhile (\<lambda>x. x \<noteq> c) (a @ c # b) = c # b"
    if "c \<notin> set a" for a
    using that by (induction a) auto
  then show "Cut c s = Some (a, b)" using h by (simp add: Cut_def)
qed

lemma Cut_None: "Cut c s = None \<longleftrightarrow> c \<notin> set s"
  by (simp add: Cut_def)

section \<open>Unsigned decimal integers\<close>

text \<open>\<open>strconv.ParseUint(s, 10, 64)\<close>: digits only, refused when the value needs more than 64 bits.\<close>

definition ParseUint64 :: "string \<Rightarrow> nat option" where
  "ParseUint64 s = (if s = [] \<or> \<not> list_all is_digit s then None
     else let v = digits_value s in if v < 2 ^ 64 then Some (nat v) else None)"

lemma ParseUint64_dec_nat: "n < 2 ^ 64 \<Longrightarrow> ParseUint64 (dec_nat n) = Some n"
  by (simp add: ParseUint64_def digits_value_dec_nat list_all_iff dec_nat_digits Let_def)

lemma digits_value_snoc: "digits_value (ds @ [c]) = digits_value ds * 10 + digit_val c"
  by (simp add: digits_value_def)

lemma digits_value_nonneg: "list_all is_digit ds \<Longrightarrow> 0 \<le> digits_value ds"
proof (induction ds rule: rev_induct)
  case (snoc c ds)
  then show ?case using digit_val_bounds [of c] by (simp add: digits_value_snoc)
qed (simp add: digits_value_def)

text \<open>A run of digits without a leading zero is the decimal spelling of its value.\<close>

definition canonical_digits :: "string \<Rightarrow> bool" where
  "canonical_digits s \<longleftrightarrow> s \<noteq> [] \<and> list_all is_digit s \<and> (length s > 1 \<longrightarrow> hd s \<noteq> CHR ''0'')"

lemma digit_char_val: "is_digit c \<Longrightarrow> digit_char (nat (digit_val c)) = c"
  by (simp add: digit_char_def digit_val_def is_digit_def nat_diff_distrib')

lemma digit_val_0_iff: "digit_val c = 0 \<longleftrightarrow> c = CHR ''0''"
proof
  assume "digit_val c = 0"
  then have "of_char c = (of_char CHR ''0'' :: nat)" by (simp add: digit_val_def)
  then show "c = CHR ''0''" by (simp only: of_char_eq_iff)
qed (simp add: digit_val_def)

lemma canonical_digits_pos:
  "canonical_digits s \<Longrightarrow> length s > 1 \<Longrightarrow> 1 \<le> digits_value s"
proof (induction s rule: rev_induct)
  case (snoc c s)
  have dc: "is_digit c" "list_all is_digit s" using snoc.prems by (auto simp: canonical_digits_def)
  then have "1 \<le> digits_value s"
  proof (cases "length s > 1")
    case True
    then show ?thesis using snoc by (auto simp: canonical_digits_def hd_append split: if_splits)
  next
    case False
    then obtain d where "s = [d]" using snoc.prems by (cases s) (auto simp: canonical_digits_def)
    moreover from this have "d \<noteq> CHR ''0''" "is_digit d" using snoc.prems by (auto simp: canonical_digits_def)
    then have "digit_val d \<noteq> 0" by (simp add: digit_val_0_iff)
    ultimately show ?thesis using digit_val_bounds [of d] dc by (auto simp: digits_value_def)
  qed
  then show ?case using digit_val_bounds [OF dc(1)] by (simp add: digits_value_snoc)
qed (simp add: canonical_digits_def)

lemma dec_nat_digits_value: "canonical_digits s \<Longrightarrow> dec_nat (nat (digits_value s)) = s"
proof (induction s rule: rev_induct)
  case (snoc c s)
  have dc: "is_digit c" and ds: "list_all is_digit s"
    using snoc.prems by (auto simp: canonical_digits_def)
  have b: "0 \<le> digit_val c" "digit_val c \<le> 9" using digit_val_bounds [OF dc] by auto
  show ?case
  proof (cases "s = []")
    case True
    then show ?thesis using b dc by (subst dec_nat.simps) (simp add: digits_value_def digit_char_val)
  next
    case False
    have cs: "canonical_digits s"
      using snoc.prems False by (auto simp: canonical_digits_def hd_append split: if_splits)
    have p: "1 \<le> digits_value s"
    proof (cases "length s > 1")
      case True
      then show ?thesis using canonical_digits_pos [OF cs] by simp
    next
      case False
      then obtain d where "s = [d]" using cs by (cases s) (auto simp: canonical_digits_def)
      moreover from this have "d \<noteq> CHR ''0''" "is_digit d"
        using snoc.prems by (auto simp: canonical_digits_def)
      ultimately show ?thesis using digit_val_0_iff [of d] digit_val_bounds [of d]
        by (auto simp: digits_value_def)
    qed
    let ?n = "nat (digits_value s * 10 + digit_val c)"
    have "?n = nat (digits_value s) * 10 + nat (digit_val c)"
      using p b by (simp add: nat_add_distrib nat_mult_distrib)
    moreover have "nat (digit_val c) < 10" using b by simp
    ultimately have "?n div 10 = nat (digits_value s)" "?n mod 10 = nat (digit_val c)" "\<not> ?n < 10"
      using p by auto
    then show ?thesis using snoc.IH [OF cs] dc
      by (subst dec_nat.simps) (simp add: digits_value_snoc digit_char_val)
  qed
qed (simp add: canonical_digits_def)

end
