(* ===== verification/Protocol.thy ===== *)
theory Protocol
  imports Prelude
begin

text \<open>
  The public data model of \<^verbatim>\<open>pkg/protocol\<close>: the string enumerations with their
  \<open>IsValid\<close> switches and \<open>All...\<close> slices (\<^verbatim>\<open>types.go\<close>, \<^verbatim>\<open>enums.go\<close>,
  \<^verbatim>\<open>constants.go\<close>, \<^verbatim>\<open>signals.go\<close>, \<^verbatim>\<open>context_kind.go\<close>,
  \<^verbatim>\<open>agent_categories.go\<close>), the pipeline and the flexible phase parser, the signal
  payloads, the audit event, and the deterministic identifiers derived from them
  (\<^verbatim>\<open>dedup.go\<close>, \<open>ReviewWorkflowID\<close>).

  A Go enumeration of this program is a named string type, so a value off the list is
  representable; the model keeps strings for that reason.
\<close>

section \<open>Enumerations\<close>

subsection \<open>PhaseId\<close>

text \<open>The phases of an epoch, by wire name.\<close>

type_synonym PhaseId = string

definition PhaseRequest :: PhaseId where [enum_defs]: "PhaseRequest = ''request''"
definition PhaseElicit :: PhaseId where [enum_defs]: "PhaseElicit = ''elicit''"
definition PhasePropose :: PhaseId where [enum_defs]: "PhasePropose = ''propose''"
definition PhaseReview :: PhaseId where [enum_defs]: "PhaseReview = ''review''"
definition PhasePlanReview :: PhaseId where [enum_defs]: "PhasePlanReview = ''plan-review''"
definition PhaseRatify :: PhaseId where [enum_defs]: "PhaseRatify = ''ratify''"
definition PhaseHandoff :: PhaseId where [enum_defs]: "PhaseHandoff = ''handoff''"
definition PhaseImplPlan :: PhaseId where [enum_defs]: "PhaseImplPlan = ''impl-plan''"
definition PhaseWorkerSlices :: PhaseId where [enum_defs]: "PhaseWorkerSlices = ''worker-slices''"
definition PhaseCodeReview :: PhaseId where [enum_defs]: "PhaseCodeReview = ''code-review''"
definition PhaseImplUAT :: PhaseId where [enum_defs]: "PhaseImplUAT = ''impl-uat''"
definition PhaseLanding :: PhaseId where [enum_defs]: "PhaseLanding = ''landing''"
definition PhaseComplete :: PhaseId where [enum_defs]: "PhaseComplete = ''complete''"

definition AllPhaseIds :: "PhaseId list" where [enum_defs]:
  "AllPhaseIds = [PhaseRequest, PhaseElicit, PhasePropose, PhaseReview, PhasePlanReview, PhaseRatify,
     PhaseHandoff, PhaseImplPlan, PhaseWorkerSlices, PhaseCodeReview, PhaseImplUAT,
     PhaseLanding, PhaseComplete]"

definition PhaseId_IsValid :: "PhaseId \<Rightarrow> bool" where [enum_defs]:
  "PhaseId_IsValid x \<longleftrightarrow> x = PhaseRequest \<or> x = PhaseElicit \<or> x = PhasePropose \<or>
     x = PhaseReview \<or> x = PhasePlanReview \<or> x = PhaseRatify \<or>
     x = PhaseHandoff \<or> x = PhaseImplPlan \<or> x = PhaseWorkerSlices \<or>
     x = PhaseCodeReview \<or> x = PhaseImplUAT \<or> x = PhaseLanding \<or>
     x = PhaseComplete"

subsection \<open>EventType\<close>

text \<open>The kinds of audit event.\<close>

type_synonym EventType = string

definition EventPhaseTransition :: EventType where [enum_defs]: "EventPhaseTransition = ''PhaseTransition''"
definition EventPhaseAdvance :: EventType where [enum_defs]: "EventPhaseAdvance = ''PhaseAdvance''"
definition EventVoteRecorded :: EventType where [enum_defs]: "EventVoteRecorded = ''VoteRecorded''"
definition EventConstraintChecked :: EventType where [enum_defs]: "EventConstraintChecked = ''ConstraintChecked''"
definition EventSliceStarted :: EventType where [enum_defs]: "EventSliceStarted = ''SliceStarted''"
definition EventSliceCompleted :: EventType where [enum_defs]: "EventSliceCompleted = ''SliceCompleted''"
definition EventSessionRegistered :: EventType where [enum_defs]: "EventSessionRegistered = ''SessionRegistered''"
definition EventReviewCycleStarted :: EventType where [enum_defs]: "EventReviewCycleStarted = ''ReviewCycleStarted''"
definition EventEpochCancelled :: EventType where [enum_defs]: "EventEpochCancelled = ''EpochCancelled''"

definition AllEventTypes :: "EventType list" where [enum_defs]:
  "AllEventTypes = [EventPhaseTransition, EventPhaseAdvance, EventVoteRecorded, EventConstraintChecked,
     EventSliceStarted, EventSliceCompleted, EventSessionRegistered,
     EventReviewCycleStarted, EventEpochCancelled]"

definition EventType_IsValid :: "EventType \<Rightarrow> bool" where [enum_defs]:
  "EventType_IsValid x \<longleftrightarrow> x = EventPhaseTransition \<or> x = EventPhaseAdvance \<or>
     x = EventVoteRecorded \<or> x = EventConstraintChecked \<or>
     x = EventSliceStarted \<or> x = EventSliceCompleted \<or>
     x = EventSessionRegistered \<or> x = EventReviewCycleStarted \<or>
     x = EventEpochCancelled"

subsection \<open>VoteType\<close>

text \<open>The binary review vote.\<close>

type_synonym VoteType = string

definition VoteAccept :: VoteType where [enum_defs]: "VoteAccept = ''ACCEPT''"
definition VoteRevise :: VoteType where [enum_defs]: "VoteRevise = ''REVISE''"

definition AllVoteTypes :: "VoteType list" where [enum_defs]:
  "AllVoteTypes = [VoteAccept, VoteRevise]"

definition VoteType_IsValid :: "VoteType \<Rightarrow> bool" where [enum_defs]:
  "VoteType_IsValid x \<longleftrightarrow> x = VoteAccept \<or> x = VoteRevise"

subsection \<open>ReviewAxis\<close>

text \<open>The three dimensions of a review.\<close>

type_synonym ReviewAxis = string

definition AxisCorrectness :: ReviewAxis where [enum_defs]: "AxisCorrectness = ''correctness''"
definition AxisTestQuality :: ReviewAxis where [enum_defs]: "AxisTestQuality = ''test_quality''"
definition AxisElegance :: ReviewAxis where [enum_defs]: "AxisElegance = ''elegance''"

definition AllReviewAxes :: "ReviewAxis list" where [enum_defs]:
  "AllReviewAxes = [AxisCorrectness, AxisTestQuality, AxisElegance]"

definition ReviewAxis_IsValid :: "ReviewAxis \<Rightarrow> bool" where [enum_defs]:
  "ReviewAxis_IsValid x \<longleftrightarrow> x = AxisCorrectness \<or> x = AxisTestQuality \<or> x = AxisElegance"

subsection \<open>SeverityLevel\<close>

text \<open>The severity of a review finding.\<close>

type_synonym SeverityLevel = string

definition SeverityBlocker :: SeverityLevel where [enum_defs]: "SeverityBlocker = ''blocker''"
definition SeverityImportant :: SeverityLevel where [enum_defs]: "SeverityImportant = ''important''"
definition SeverityMinor :: SeverityLevel where [enum_defs]: "SeverityMinor = ''minor''"

definition AllSeverityLevels :: "SeverityLevel list" where [enum_defs]:
  "AllSeverityLevels = [SeverityBlocker, SeverityImportant, SeverityMinor]"

definition SeverityLevel_IsValid :: "SeverityLevel \<Rightarrow> bool" where [enum_defs]:
  "SeverityLevel_IsValid x \<longleftrightarrow> x = SeverityBlocker \<or> x = SeverityImportant \<or> x = SeverityMinor"

subsection \<open>RoleId\<close>

text \<open>The agent roles.\<close>

type_synonym RoleId = string

definition RoleEpoch :: RoleId where [enum_defs]: "RoleEpoch = ''epoch''"
definition RoleArchitect :: RoleId where [enum_defs]: "RoleArchitect = ''architect''"
definition RoleReviewer :: RoleId where [enum_defs]: "RoleReviewer = ''reviewer''"
definition RoleSupervisor :: RoleId where [enum_defs]: "RoleSupervisor = ''supervisor''"
definition RoleWorker :: RoleId where [enum_defs]: "RoleWorker = ''worker''"

definition AllRoleIds :: "RoleId list" where [enum_defs]:
  "AllRoleIds = [RoleEpoch, RoleArchitect, RoleReviewer, RoleSupervisor, RoleWorker]"

definition RoleId_IsValid :: "RoleId \<Rightarrow> bool" where [enum_defs]:
  "RoleId_IsValid x \<longleftrightarrow> x = RoleEpoch \<or> x = RoleArchitect \<or> x = RoleReviewer \<or>
     x = RoleSupervisor \<or> x = RoleWorker"

subsection \<open>SignalTopic\<close>

text \<open>The topics of the durable signals.\<close>

type_synonym SignalTopic = string

definition SignalAdvancePhase :: SignalTopic where [enum_defs]: "SignalAdvancePhase = ''advance_phase''"
definition SignalSubmitVote :: SignalTopic where [enum_defs]: "SignalSubmitVote = ''submit_vote''"
definition SignalSliceProgress :: SignalTopic where [enum_defs]: "SignalSliceProgress = ''slice_progress''"
definition SignalRegisterSession :: SignalTopic where [enum_defs]: "SignalRegisterSession = ''register_session''"
definition SignalStartSlice :: SignalTopic where [enum_defs]: "SignalStartSlice = ''start_slice''"
definition SignalCompleteSlice :: SignalTopic where [enum_defs]: "SignalCompleteSlice = ''complete_slice''"

definition AllSignalTopics :: "SignalTopic list" where [enum_defs]:
  "AllSignalTopics = [SignalAdvancePhase, SignalSubmitVote, SignalSliceProgress, SignalRegisterSession,
     SignalStartSlice, SignalCompleteSlice]"

definition SignalTopic_IsValid :: "SignalTopic \<Rightarrow> bool" where [enum_defs]:
  "SignalTopic_IsValid x \<longleftrightarrow> x = SignalAdvancePhase \<or> x = SignalSubmitVote \<or>
     x = SignalSliceProgress \<or> x = SignalRegisterSession \<or>
     x = SignalStartSlice \<or> x = SignalCompleteSlice"

subsection \<open>QueryName\<close>

text \<open>The read-only state queries.\<close>

type_synonym QueryName = string

definition QueryCurrentState :: QueryName where [enum_defs]: "QueryCurrentState = ''current_state''"
definition QueryAvailableTransitions :: QueryName where [enum_defs]: "QueryAvailableTransitions = ''available_transitions''"
definition QueryFullState :: QueryName where [enum_defs]: "QueryFullState = ''full_state''"
definition QuerySliceProgressState :: QueryName where [enum_defs]: "QuerySliceProgressState = ''slice_progress_state''"
definition QueryActiveSessions :: QueryName where [enum_defs]: "QueryActiveSessions = ''active_sessions''"

definition AllQueryNames :: "QueryName list" where [enum_defs]:
  "AllQueryNames = [QueryCurrentState, QueryAvailableTransitions, QueryFullState,
     QuerySliceProgressState, QueryActiveSessions]"

definition QueryName_IsValid :: "QueryName \<Rightarrow> bool" where [enum_defs]:
  "QueryName_IsValid x \<longleftrightarrow> x = QueryCurrentState \<or> x = QueryAvailableTransitions \<or>
     x = QueryFullState \<or> x = QuerySliceProgressState \<or>
     x = QueryActiveSessions"

subsection \<open>SliceExecutionMode\<close>

text \<open>How a slice is run.\<close>

type_synonym SliceExecutionMode = string

definition SliceMock :: SliceExecutionMode where [enum_defs]: "SliceMock = ''mock''"
definition SliceTmux :: SliceExecutionMode where [enum_defs]: "SliceTmux = ''tmux''"
definition SliceSubprocess :: SliceExecutionMode where [enum_defs]: "SliceSubprocess = ''subprocess''"

definition AllSliceExecutionModes :: "SliceExecutionMode list" where [enum_defs]:
  "AllSliceExecutionModes = [SliceMock, SliceTmux, SliceSubprocess]"

definition SliceExecutionMode_IsValid :: "SliceExecutionMode \<Rightarrow> bool" where [enum_defs]:
  "SliceExecutionMode_IsValid x \<longleftrightarrow> x = SliceMock \<or> x = SliceTmux \<or> x = SliceSubprocess"

subsection \<open>ContextKind\<close>

text \<open>The kinds of context an audit event may attach to.\<close>

type_synonym ContextKind = string

definition ContextNone :: ContextKind where [enum_defs]: "ContextNone = ''None''"
definition ContextEpoch :: ContextKind where [enum_defs]: "ContextEpoch = ''EpochContext''"
definition ContextSlice :: ContextKind where [enum_defs]: "ContextSlice = ''SliceContext''"
definition ContextReview :: ContextKind where [enum_defs]: "ContextReview = ''ReviewContext''"
definition ContextFollowup :: ContextKind where [enum_defs]: "ContextFollowup = ''FollowupContext''"
definition ContextGit :: ContextKind where [enum_defs]: "ContextGit = ''GitContext''"
definition ContextSkill :: ContextKind where [enum_defs]: "ContextSkill = ''SkillContext''"
definition ContextSession :: ContextKind where [enum_defs]: "ContextSession = ''SessionContext''"

definition AllContextKinds :: "ContextKind list" where [enum_defs]:
  "AllContextKinds = [ContextNone, ContextEpoch, ContextSlice, ContextReview, ContextFollowup,
     ContextGit, ContextSkill, ContextSession]"

definition ContextKind_IsValid :: "ContextKind \<Rightarrow> bool" where [enum_defs]:
  "ContextKind_IsValid x \<longleftrightarrow> x = ContextNone \<or> x = ContextEpoch \<or> x = ContextSlice \<or>
     x = ContextReview \<or> x = ContextFollowup \<or> x = ContextGit \<or>
     x = ContextSkill \<or> x = ContextSession"

subsection \<open>AutomatonRole\<close>

text \<open>The roles of rules-based automata.\<close>

type_synonym AutomatonRole = string

definition AutomatonRoleNone :: AutomatonRole where [enum_defs]: "AutomatonRoleNone = ''None''"
definition AutomatonRoleConstraintChecker :: AutomatonRole where [enum_defs]: "AutomatonRoleConstraintChecker = ''ConstraintChecker''"
definition AutomatonRoleTransitionGate :: AutomatonRole where [enum_defs]: "AutomatonRoleTransitionGate = ''TransitionGate''"
definition AutomatonRoleHookHandler :: AutomatonRole where [enum_defs]: "AutomatonRoleHookHandler = ''HookHandler''"
definition AutomatonRoleConsensusReached :: AutomatonRole where [enum_defs]: "AutomatonRoleConsensusReached = ''ConsensusReached''"
definition AutomatonRoleCreateFollowup :: AutomatonRole where [enum_defs]: "AutomatonRoleCreateFollowup = ''CreateFollowup''"

definition AllAutomatonRoles :: "AutomatonRole list" where [enum_defs]:
  "AllAutomatonRoles = [AutomatonRoleNone, AutomatonRoleConstraintChecker, AutomatonRoleTransitionGate,
     AutomatonRoleHookHandler, AutomatonRoleConsensusReached,
     AutomatonRoleCreateFollowup]"

definition AutomatonRole_IsValid :: "AutomatonRole \<Rightarrow> bool" where [enum_defs]:
  "AutomatonRole_IsValid x \<longleftrightarrow> x = AutomatonRoleNone \<or> x = AutomatonRoleConstraintChecker \<or>
     x = AutomatonRoleTransitionGate \<or> x = AutomatonRoleHookHandler \<or>
     x = AutomatonRoleConsensusReached \<or> x = AutomatonRoleCreateFollowup"

subsection \<open>PastureRole\<close>

text \<open>The roles of human and model agents.\<close>

type_synonym PastureRole = string

definition PastureRoleNone :: PastureRole where [enum_defs]: "PastureRoleNone = ''None''"
definition PastureRoleArchitect :: PastureRole where [enum_defs]: "PastureRoleArchitect = ''Architect''"
definition PastureRoleSupervisor :: PastureRole where [enum_defs]: "PastureRoleSupervisor = ''Supervisor''"
definition PastureRoleWorker :: PastureRole where [enum_defs]: "PastureRoleWorker = ''Worker''"
definition PastureRoleReviewer :: PastureRole where [enum_defs]: "PastureRoleReviewer = ''Reviewer''"

definition AllPastureRoles :: "PastureRole list" where [enum_defs]:
  "AllPastureRoles = [PastureRoleNone, PastureRoleArchitect, PastureRoleSupervisor, PastureRoleWorker,
     PastureRoleReviewer]"

definition PastureRole_IsValid :: "PastureRole \<Rightarrow> bool" where [enum_defs]:
  "PastureRole_IsValid x \<longleftrightarrow> x = PastureRoleNone \<or> x = PastureRoleArchitect \<or>
     x = PastureRoleSupervisor \<or> x = PastureRoleWorker \<or>
     x = PastureRoleReviewer"

section \<open>The pipeline\<close>

type_synonym Pipeline = "PhaseId list"

definition DefaultPipeline :: Pipeline where [enum_defs]:
  "DefaultPipeline = [PhaseRequest, PhaseElicit, PhasePropose, PhaseReview, PhasePlanReview,
     PhaseRatify, PhaseHandoff, PhaseImplPlan, PhaseWorkerSlices, PhaseCodeReview, PhaseImplUAT,
     PhaseLanding]"

primrec index_from :: "int \<Rightarrow> Pipeline \<Rightarrow> PhaseId \<Rightarrow> int" where
  "index_from i [] x = -1"
| "index_from i (phase # p) x = (if phase = x then i else index_from (i + 1) p x)"

definition Pipeline_Index :: "Pipeline \<Rightarrow> PhaseId \<Rightarrow> int" where
  "Pipeline_Index p x = index_from 0 p x"

definition Pipeline_Contains :: "Pipeline \<Rightarrow> PhaseId \<Rightarrow> bool" where
  "Pipeline_Contains p x \<longleftrightarrow> Pipeline_Index p x \<ge> 0"

definition PhaseNumber :: "Pipeline \<Rightarrow> PhaseId \<Rightarrow> int" where
  "PhaseNumber p x = (let i = Pipeline_Index p x in if i < 0 then -1 else i + 1)"

text \<open>\<open>PhaseAt\<close> returns \<open>("", false)\<close> out of range: \<open>None\<close>.\<close>

definition PhaseAt :: "Pipeline \<Rightarrow> int \<Rightarrow> PhaseId option" where
  "PhaseAt p number =
     (if number < 1 \<or> number > int (length p) then None else Some (p ! nat (number - 1)))"

definition Pipeline_Next :: "Pipeline \<Rightarrow> PhaseId \<Rightarrow> PhaseId" where
  "Pipeline_Next p x = (let i = Pipeline_Index p x in
     if i < 0 \<or> i \<ge> int (length p) - 1 then PhaseComplete else p ! nat (i + 1))"

section \<open>Parsing a phase\<close>

text \<open>The switch on the trimmed, lower-cased name.\<close>

definition phase_names :: "(string \<times> PhaseId) list" where
  "phase_names =
     [(''request'', PhaseRequest), (''elicit'', PhaseElicit), (''propose'', PhasePropose),
      (''review'', PhaseReview),
      (''plan-review'', PhasePlanReview), (''planreview'', PhasePlanReview),
      (''plan_review'', PhasePlanReview),
      (''ratify'', PhaseRatify), (''handoff'', PhaseHandoff),
      (''impl-plan'', PhaseImplPlan), (''implplan'', PhaseImplPlan), (''impl_plan'', PhaseImplPlan),
      (''worker-slices'', PhaseWorkerSlices), (''workerslices'', PhaseWorkerSlices),
      (''worker_slices'', PhaseWorkerSlices), (''slice'', PhaseWorkerSlices),
      (''slices'', PhaseWorkerSlices),
      (''code-review'', PhaseCodeReview), (''codereview'', PhaseCodeReview),
      (''code_review'', PhaseCodeReview),
      (''impl-uat'', PhaseImplUAT), (''impluat'', PhaseImplUAT), (''impl_uat'', PhaseImplUAT),
      (''uat'', PhaseImplUAT),
      (''landing'', PhaseLanding), (''complete'', PhaseComplete)]"

definition phase_name_switch :: "string \<Rightarrow> PhaseId option" where
  "phase_name_switch lower = map_of phase_names lower"

definition strip_separator :: "string \<Rightarrow> string" where
  "strip_separator suffix = (case suffix of
     [] \<Rightarrow> [] | c # cs \<Rightarrow> if c = CHR ''-'' \<or> c = CHR ''_'' then cs else suffix)"

text \<open>The number-only format; an accumulator that wraps is still looked up.\<close>

definition parse_phase_number :: "string \<Rightarrow> PhaseId option" where
  "parse_phase_number lower =
     (if lower \<noteq> [] \<and> list_all is_digit lower then PhaseAt DefaultPipeline (acc_digits lower)
      else None)"

text \<open>The only error of the parser carries the unrecognised input.\<close>

datatype phase_error = UnrecognizedPhase string

lemma strip_separator_length: "length (strip_separator s) \<le> length s"
  by (cases s) (simp_all add: strip_separator_def)

lemma parse_suffix_shorter:
  "HasPrefix lower ''p'' \<Longrightarrow> length lower \<le> n \<Longrightarrow>
     length (strip_separator (dropWhile is_digit (drop 1 lower))) < n"
  using strip_separator_length [of "dropWhile is_digit (drop 1 lower)"]
    length_dropWhile_le [of is_digit "drop 1 lower"]
  by (cases lower) (auto simp: HasPrefix_def)

function ParsePhaseId :: "string \<Rightarrow> phase_error + PhaseId" where
  "ParsePhaseId s =
     (let lower = ToLower (TrimSpace s) in
      case phase_name_switch lower of Some p \<Rightarrow> Ok p | None \<Rightarrow>
      let rest = drop 1 lower; numStr = takeWhile is_digit rest;
          suffix = strip_separator (dropWhile is_digit rest);
          byNumber = (case parse_phase_number lower of
              Some p \<Rightarrow> Ok p | None \<Rightarrow> Err (UnrecognizedPhase s)) in
      if HasPrefix lower ''p'' \<and> numStr \<noteq> [] then
        if suffix \<noteq> [] then ParsePhaseId suffix
        else (case PhaseAt DefaultPipeline (acc_digits numStr) of
            Some p \<Rightarrow> Ok p | None \<Rightarrow> byNumber)
      else byNumber)"
  by pat_completeness auto
termination
  by (relation "measure length") (auto intro!: parse_suffix_shorter [simplified] simp: length_TrimSpace)

declare ParsePhaseId.simps [simp del]

definition ParseQueryName :: "string \<Rightarrow> QueryName \<times> bool" where
  "ParseQueryName s = (s, QueryName_IsValid s)"

section \<open>Signals, audit events and contexts\<close>

type_synonym timestamp = int

record PhaseAdvanceSignal =
  pas_ToPhase :: PhaseId
  pas_TriggeredBy :: string
  pas_ConditionMet :: string

record ReviewVoteSignal =
  rvs_Axis :: ReviewAxis
  rvs_Vote :: VoteType
  rvs_ReviewerId :: string

record SliceProgressSignal =
  sps_SliceId :: string
  sps_LeafTaskId :: string
  sps_StageName :: string
  sps_Completed :: bool

record RegisterSessionSignal =
  rss_EpochId :: string
  rss_SessionId :: string
  rss_Role :: string
  rss_ModelHarness :: string
  rss_Model :: string

record SliceStartSignal =
  sss_Mode :: SliceExecutionMode
  sss_Command :: string
  sss_TimeoutSeconds :: int

record SliceCompleteSignal =
  scs_Success :: bool
  scs_Output :: string
  scs_Error :: "string option"

text \<open>The payload is the list of its keys and string values, in key order.\<close>

record AuditEvent =
  ae_ID :: int
  ae_EpochId :: string
  ae_Phase :: PhaseId
  ae_Role :: string
  ae_EventType :: EventType
  ae_Payload :: "(string \<times> string) list"
  ae_Timestamp :: timestamp
  ae_DedupKey :: string

record ProtocolContext =
  ctx_Kind :: ContextKind
  ctx_ContextId :: string

section \<open>Derived identifiers\<close>

definition ReviewWorkflowID :: "string \<Rightarrow> string \<Rightarrow> int \<Rightarrow> string" where
  "ReviewWorkflowID epochId phaseId round =
     epochId @ ''-review-'' @ phaseId @ ''-r'' @ dec_int round"

text \<open>The version-5 UUID over the pinned namespace is code outside the repository: the
  parameter \<open>uuid5\<close>.\<close>

definition dedup_name :: "string \<Rightarrow> string \<Rightarrow> string \<Rightarrow> string \<Rightarrow> string" where
  "dedup_name epochID phase kind stepSeq =
     epochID @ ''/'' @ phase @ ''/'' @ kind @ ''/'' @ stepSeq"

definition DedupKey ::
    "(string \<Rightarrow> string) \<Rightarrow> string \<Rightarrow> string \<Rightarrow> string \<Rightarrow> string \<Rightarrow> string" where
  "DedupKey uuid5 epochID phase kind stepSeq = uuid5 (dedup_name epochID phase kind stepSeq)"

section \<open>The enumerations are well formed\<close>

lemma distinct_phases: "distinct AllPhaseIds"
  by (simp add: enum_defs)

interpretation phase: wire_enum AllPhaseIds PhaseId_IsValid
  by unfold_locales (simp_all add: distinct_phases, simp add: PhaseId_IsValid_def AllPhaseIds_def)

interpretation event_type: wire_enum AllEventTypes EventType_IsValid
  by unfold_locales (simp add: EventType_IsValid_def AllEventTypes_def, simp add: enum_defs)

interpretation vote: wire_enum AllVoteTypes VoteType_IsValid
  by unfold_locales (simp add: VoteType_IsValid_def AllVoteTypes_def, simp add: enum_defs)

interpretation axis: wire_enum AllReviewAxes ReviewAxis_IsValid
  by unfold_locales (simp add: ReviewAxis_IsValid_def AllReviewAxes_def, simp add: enum_defs)

interpretation severity: wire_enum AllSeverityLevels SeverityLevel_IsValid
  by unfold_locales (simp add: SeverityLevel_IsValid_def AllSeverityLevels_def, simp add: enum_defs)

interpretation role: wire_enum AllRoleIds RoleId_IsValid
  by unfold_locales (simp add: RoleId_IsValid_def AllRoleIds_def, simp add: enum_defs)

interpretation topic: wire_enum AllSignalTopics SignalTopic_IsValid
  by unfold_locales (simp add: SignalTopic_IsValid_def AllSignalTopics_def, simp add: enum_defs)

interpretation query: wire_enum AllQueryNames QueryName_IsValid
  by unfold_locales (simp add: QueryName_IsValid_def AllQueryNames_def, simp add: enum_defs)

interpretation slice_mode: wire_enum AllSliceExecutionModes SliceExecutionMode_IsValid
  by unfold_locales
    (simp add: SliceExecutionMode_IsValid_def AllSliceExecutionModes_def, simp add: enum_defs)

interpretation context_kind: wire_enum AllContextKinds ContextKind_IsValid
  by unfold_locales (simp add: ContextKind_IsValid_def AllContextKinds_def, simp add: enum_defs)

interpretation automaton: wire_enum AllAutomatonRoles AutomatonRole_IsValid
  by unfold_locales (simp add: AutomatonRole_IsValid_def AllAutomatonRoles_def, simp add: enum_defs)

interpretation pasture_role: wire_enum AllPastureRoles PastureRole_IsValid
  by unfold_locales (simp add: PastureRole_IsValid_def AllPastureRoles_def, simp add: enum_defs)

lemmas phase_consts =
  PhaseRequest_def PhaseElicit_def PhasePropose_def PhaseReview_def PhasePlanReview_def
  PhaseRatify_def PhaseHandoff_def PhaseImplPlan_def PhaseWorkerSlices_def PhaseCodeReview_def
  PhaseImplUAT_def PhaseLanding_def PhaseComplete_def


lemma phase_neqs [simp]:
  "PhaseRequest \<noteq> PhaseComplete" "PhaseElicit \<noteq> PhaseComplete" "PhasePropose \<noteq> PhaseComplete"
  "PhaseReview \<noteq> PhaseComplete" "PhasePlanReview \<noteq> PhaseComplete" "PhaseRatify \<noteq> PhaseComplete"
  "PhaseHandoff \<noteq> PhaseComplete" "PhaseImplPlan \<noteq> PhaseComplete"
  "PhaseWorkerSlices \<noteq> PhaseComplete" "PhaseCodeReview \<noteq> PhaseComplete"
  "PhaseImplUAT \<noteq> PhaseComplete" "PhaseLanding \<noteq> PhaseComplete"
  by (simp_all add: phase_consts)

lemma all_phases_conv: "AllPhaseIds = DefaultPipeline @ [PhaseComplete]"
  by (simp add: AllPhaseIds_def DefaultPipeline_def)

lemma pipeline_valid: "p \<in> set DefaultPipeline \<Longrightarrow> PhaseId_IsValid p"
  by (simp add: phase.valid_iff all_phases_conv)

lemma distinct_pipeline: "distinct DefaultPipeline"
  using distinct_phases by (simp add: all_phases_conv)

lemma length_pipeline [simp]: "length DefaultPipeline = 12"
  by (simp add: DefaultPipeline_def)

section \<open>Pipeline positions\<close>

lemma index_from_mem: "x \<in> set p \<Longrightarrow>
    \<exists>k < length p. index_from i p x = i + int k \<and> p ! k = x"
proof (induction p arbitrary: i)
  case (Cons y p)
  show ?case
  proof (cases "y = x")
    case False
    then obtain k where "k < length p" "index_from (i + 1) p x = i + 1 + int k" "p ! k = x"
      using Cons by auto
    then show ?thesis using False by (intro exI [of _ "Suc k"]) simp
  qed auto
qed simp

lemma index_from_not_mem: "x \<notin> set p \<Longrightarrow> index_from i p x = -1"
  by (induction p arbitrary: i) auto

lemma Pipeline_Index_nth: "distinct p \<Longrightarrow> k < length p \<Longrightarrow> Pipeline_Index p (p ! k) = int k"
  using index_from_mem [of "p ! k" p 0] nth_eq_iff_index_eq [of p]
  by (auto simp: Pipeline_Index_def)

lemma Pipeline_Contains_iff: "Pipeline_Contains p x \<longleftrightarrow> x \<in> set p"
  using index_from_mem [of x p 0] index_from_not_mem [of x p 0]
  by (cases "x \<in> set p") (auto simp: Pipeline_Contains_def Pipeline_Index_def)

lemma PhaseAt_PhaseNumber:
  assumes "x \<in> set p" shows "PhaseAt p (PhaseNumber p x) = Some x"
  using index_from_mem [OF assms, of 0]
  by (auto simp: PhaseAt_def PhaseNumber_def Pipeline_Index_def Let_def)

lemma PhaseNumber_PhaseAt:
  assumes "distinct p" "PhaseAt p n = Some x" shows "PhaseNumber p x = n"
proof -
  have "1 \<le> n" "nat (n - 1) < length p" "x = p ! nat (n - 1)"
    using assms(2) by (auto simp: PhaseAt_def split: if_splits)
  then show ?thesis
    using Pipeline_Index_nth [OF assms(1)] by (simp add: PhaseNumber_def)
qed

lemma PhaseAt_mem: "PhaseAt p n = Some x \<Longrightarrow> x \<in> set p"
  by (auto simp: PhaseAt_def split: if_splits)

section \<open>The phase parser\<close>

lemma phase_name_switch_valid: "phase_name_switch s = Some p \<Longrightarrow> PhaseId_IsValid p"
proof -
  have "list_all (PhaseId_IsValid \<circ> snd) phase_names"
    by (simp add: phase_names_def PhaseId_IsValid_def)
  then show "phase_name_switch s = Some p \<Longrightarrow> PhaseId_IsValid p"
    by (auto simp: phase_name_switch_def list_all_iff dest!: map_of_SomeD)
qed

lemma phase_name_switch_self: "p \<in> set AllPhaseIds \<Longrightarrow> phase_name_switch p = Some p"
proof -
  have "list_all (\<lambda>p. map_of phase_names p = Some p) AllPhaseIds" by code_simp
  then show "p \<in> set AllPhaseIds \<Longrightarrow> phase_name_switch p = Some p"
    by (simp add: list_all_iff phase_name_switch_def)
qed

lemma phase_normal: "p \<in> set AllPhaseIds \<Longrightarrow> ToLower (TrimSpace p) = p"
  by (auto simp: AllPhaseIds_def phase_consts TrimSpace_def ToLower_def is_space_def
      lower_char_def is_upper_def)

lemma ParsePhaseId_Ok_valid: "ParsePhaseId s = Ok p \<Longrightarrow> PhaseId_IsValid p"
proof (induction s rule: ParsePhaseId.induct)
  case (1 s)
  show ?case
    using "1.prems" "1.IH" [OF refl _ refl refl refl refl]
    by (subst (asm) ParsePhaseId.simps)
      (auto simp: Let_def parse_phase_number_def split: option.splits if_splits
        dest: phase_name_switch_valid PhaseAt_mem pipeline_valid)
qed

lemma ParsePhaseId_name: "p \<in> set AllPhaseIds \<Longrightarrow> ParsePhaseId p = Ok p"
  by (simp add: ParsePhaseId.simps [of p] phase_normal phase_name_switch_self)

text \<open>Spelling: only the trimmed, lower-cased text matters, except in the error.\<close>

definition forget_input :: "phase_error + PhaseId \<Rightarrow> PhaseId option" where
  "forget_input r = (case r of Ok p \<Rightarrow> Some p | Err _ \<Rightarrow> None)"

lemma TrimSpace_idem [simp]: "TrimSpace (TrimSpace s) = TrimSpace s"
proof -
  have "dropWhile is_space (TrimSpace s) = TrimSpace s"
  proof (cases "TrimSpace s")
    case (Cons c cs)
    have "dropWhile is_space s =
        TrimSpace s @ rev (takeWhile is_space (rev (dropWhile is_space s)))"
      unfolding TrimSpace_def by (metis rev_append rev_rev_ident takeWhile_dropWhile_id)
    then obtain zs where "dropWhile is_space s = c # zs" using Cons by simp
    then have "\<not> is_space c" by (simp add: dropWhile_eq_Cons_conv)
    then show ?thesis by (simp add: Cons)
  qed simp
  then show ?thesis by (simp add: TrimSpace_def)
qed

lemma ParsePhaseId_spelling:
  "forget_input (ParsePhaseId (ToLower (TrimSpace s))) = forget_input (ParsePhaseId s)"
  by (subst (1 2) ParsePhaseId.simps)
    (simp add: TrimSpace_ToLower Let_def forget_input_def split: option.splits)

lemma prefixed_normal:
  assumes "ds \<noteq> []" "list_all is_digit ds" "p \<in> set AllPhaseIds"
  shows "ToLower (TrimSpace (''p'' @ ds @ ''-'' @ p)) = ''p'' @ ds @ ''-'' @ p"
proof -
  have ne: "p \<noteq> []" and last: "\<not> is_space (last p)" and low: "ToLower p = p"
    using assms(3)
    by (auto simp: AllPhaseIds_def phase_consts is_space_def ToLower_def lower_char_def is_upper_def)
  have "TrimSpace (''p'' @ ds @ ''-'' @ p) = ''p'' @ ds @ ''-'' @ p"
    using ne last by (intro TrimSpace_id) (simp add: is_space_def)
  moreover have "map lower_char ds = ds"
    using assms(2) by (simp add: map_idI list_all_iff lower_char_digit)
  ultimately show ?thesis
    using low by (simp add: ToLower_def lower_char_def is_upper_def)
qed

lemma phase_name_switch_prefixed:
  assumes "ds \<noteq> []" "list_all is_digit ds"
  shows "phase_name_switch (''p'' @ ds @ t) = None"
proof -
  have "list_all (\<lambda>(k, p). \<not> is_digit (hd (tl k))) phase_names"
    by (simp add: phase_names_def is_digit_def)
  moreover have "is_digit (hd (tl (''p'' @ ds @ t)))" using assms by (cases ds) auto
  ultimately have "(''p'' @ ds @ t, b) \<notin> set phase_names" for b
    unfolding list_all_iff by blast
  then show ?thesis by (auto simp: phase_name_switch_def map_of_eq_None_iff)
qed

lemma ParsePhaseId_prefixed:
  assumes ds: "ds \<noteq> []" "list_all is_digit ds" and p: "p \<in> set AllPhaseIds"
  shows "ParsePhaseId (''p'' @ ds @ ''-'' @ p) = Ok p"
proof -
  have digits: "takeWhile is_digit (ds @ CHR ''-'' # p) = ds"
    "dropWhile is_digit (ds @ CHR ''-'' # p) = CHR ''-'' # p"
    using ds by (simp_all add: list_all_iff takeWhile_append2 dropWhile_append2 is_digit_def)
  have "p \<noteq> []" using p by (auto simp: AllPhaseIds_def phase_consts)
  then show ?thesis
    using prefixed_normal [OF ds p] phase_name_switch_prefixed [OF ds, of "''-'' @ p"]
      digits ParsePhaseId_name [OF p] ds(1)
    by (subst ParsePhaseId.simps) (simp add: Let_def HasPrefix_def strip_separator_def)
qed

text \<open>A decimal number below \<open>2 ^ 63\<close>, alone or after \<open>p\<close>.\<close>

lemma digits_normal: "list_all is_digit ds \<Longrightarrow> ToLower (TrimSpace ds) = ds"
proof -
  assume ds: "list_all is_digit ds"
  then have "ds = [] \<or> (\<not> is_space (hd ds) \<and> \<not> is_space (last ds))"
    by (cases "ds = []") (auto simp: list_all_iff is_digit_not_space)
  then have "TrimSpace ds = ds" by (rule TrimSpace_id)
  then show ?thesis using ds by (simp add: ToLower_def map_idI list_all_iff lower_char_digit)
qed

lemma dec_nat_list_all [simp]: "list_all is_digit (dec_nat n)"
  using dec_nat_digits by (auto simp: list_all_iff)

lemma phase_name_switch_digits: "list_all is_digit ds \<Longrightarrow> phase_name_switch ds = None"
proof -
  assume ds: "list_all is_digit ds"
  have "list_all (\<lambda>(k, p). \<not> list_all is_digit k) phase_names"
    by (simp add: phase_names_def is_digit_def)
  then show ?thesis using ds
    by (auto simp: phase_name_switch_def map_of_eq_None_iff list_all_iff)
qed

lemma ParsePhaseId_digits:
  assumes "ds \<noteq> []" "list_all is_digit ds"
  shows "ParsePhaseId ds = (case PhaseAt DefaultPipeline (acc_digits ds) of
    Some p \<Rightarrow> Ok p | None \<Rightarrow> Err (UnrecognizedPhase ds))"
proof -
  have "\<not> HasPrefix ds ''p''"
    using assms by (cases ds) (auto simp: HasPrefix_def is_digit_def)
  then show ?thesis using assms
    by (subst ParsePhaseId.simps)
      (simp add: Let_def digits_normal phase_name_switch_digits parse_phase_number_def)
qed

lemma ParsePhaseId_p_digits:
  assumes "ds \<noteq> []" "list_all is_digit ds"
  shows "ParsePhaseId (CHR ''p'' # ds) = (case PhaseAt DefaultPipeline (acc_digits ds) of
    Some p \<Rightarrow> Ok p | None \<Rightarrow> Err (UnrecognizedPhase (CHR ''p'' # ds)))"
proof -
  have "TrimSpace (CHR ''p'' # ds) = CHR ''p'' # ds"
    using assms is_digit_not_space [of "last ds"]
    by (intro TrimSpace_id) (simp add: list_all_iff, simp add: is_space_def)
  then have norm: "ToLower (TrimSpace (CHR ''p'' # ds)) = CHR ''p'' # ds"
    using assms by (simp add: ToLower_def map_idI list_all_iff lower_char_digit)
      (simp add: lower_char_def is_upper_def)
  have tw: "takeWhile is_digit ds = ds" and dw: "strip_separator (dropWhile is_digit ds) = []"
    using assms by (simp_all add: list_all_iff takeWhile_eq_all_conv strip_separator_def
        dropWhile_eq_Nil_conv [THEN iffD2])
  have num: "parse_phase_number (CHR ''p'' # ds) = None"
    by (simp add: parse_phase_number_def is_digit_def)
  have name: "phase_name_switch (CHR ''p'' # ds) = None"
    using phase_name_switch_prefixed [OF assms, of "[]"] by simp
  show ?thesis using assms(1)
    by (subst ParsePhaseId.simps) (simp add: norm name num tw dw HasPrefix_def split: option.split)
qed

section \<open>Derived identifiers\<close>

text \<open>Splitting at the last separator: the part after it holds none.\<close>

lemma append_sep_inj:
  assumes "c \<notin> set u" "c \<notin> set v" "xs @ c # u = ys @ c # v"
  shows "xs = ys \<and> u = v"
  using assms
proof (induction xs arbitrary: ys)
  case Nil
  then show ?case by (cases ys) auto
next
  case (Cons x xs)
  then show ?case by (cases ys) auto
qed

lemma dedup_name_inj:
  assumes "CHR ''/'' \<notin> set (p @ k @ s)" "CHR ''/'' \<notin> set (p' @ k' @ s')"
    and "dedup_name e p k s = dedup_name e' p' k' s'"
  shows "e = e' \<and> p = p' \<and> k = k' \<and> s = s'"
proof -
  have 1: "(e @ ''/'' @ p @ ''/'' @ k) @ CHR ''/'' # s = (e' @ ''/'' @ p' @ ''/'' @ k') @ CHR ''/'' # s'"
    using assms(3) by (simp add: dedup_name_def)
  then have "s = s'" and 2: "(e @ ''/'' @ p) @ CHR ''/'' # k = (e' @ ''/'' @ p') @ CHR ''/'' # k'"
    using append_sep_inj [OF _ _ 1] assms(1,2) by auto
  then have "k = k'" and 3: "e @ CHR ''/'' # p = e' @ CHR ''/'' # p'"
    using append_sep_inj [OF _ _ 2] assms(1,2) by auto
  then show ?thesis using append_sep_inj [OF _ _ 3] assms(1,2) \<open>s = s'\<close> by auto
qed

lemma ReviewWorkflowID_round_inj:
  assumes "0 \<le> r" "r < 2 ^ 63" "0 \<le> r'" "r' < 2 ^ 63"
    and "ReviewWorkflowID e p r = ReviewWorkflowID e' p' r'"
  shows "r = r' \<and> e @ ''-review-'' @ p = e' @ ''-review-'' @ p'"
proof -
  have no_r: "CHR ''r'' \<notin> set (dec_nat n)" for n
    using dec_nat_digits [of "CHR ''r''" n] by (auto simp: is_digit_def)
  have eq: "(e @ ''-review-'' @ p @ ''-'') @ CHR ''r'' # dec_nat (nat r) =
      (e' @ ''-review-'' @ p' @ ''-'') @ CHR ''r'' # dec_nat (nat r')"
    using assms by (simp add: ReviewWorkflowID_def dec_int_def)
  have "dec_nat (nat r) = dec_nat (nat r')"
    "(e @ ''-review-'' @ p) @ ''-'' = (e' @ ''-review-'' @ p') @ ''-''"
    using append_sep_inj [OF no_r no_r eq] by simp_all
  moreover have "r = r'"
    using dec_nat_inj [of "nat r" "nat r'"] assms(1-4) calculation(1) by (simp add: nat_eq_iff)
  ultimately show ?thesis by simp
qed

section \<open>Properties\<close>

text \<open>C38: the phase parser inverts every documented spelling of a phase: the wire name, the
  wire name after any numeric prefix \<open>pN-\<close>, and, for the phases of the pipeline, the number
  and \<open>pN\<close>; it ignores case and surrounding blanks, and it returns nothing but phases.\<close>

theorem parse_phase_roundtrip:
  assumes "PhaseId_IsValid p" "ds \<noteq> []" "list_all is_digit ds" "i < 12"
  shows "ParsePhaseId p = Ok p \<and>
    ParsePhaseId (''p'' @ ds @ ''-'' @ p) = Ok p \<and>
    ParsePhaseId (dec_nat (Suc i)) = Ok (DefaultPipeline ! i) \<and>
    ParsePhaseId (''p'' @ dec_nat (Suc i)) = Ok (DefaultPipeline ! i) \<and>
    forget_input (ParsePhaseId (ToLower (TrimSpace s))) = forget_input (ParsePhaseId s) \<and>
    (ParsePhaseId s = Ok q \<longrightarrow> PhaseId_IsValid q)"
proof (intro conjI impI)
  have p: "p \<in> set AllPhaseIds" using assms(1) phase.valid_iff by simp
  show "ParsePhaseId p = Ok p" using p by (rule ParsePhaseId_name)
  show "ParsePhaseId (''p'' @ ds @ ''-'' @ p) = Ok p" using assms(2,3) p by (rule ParsePhaseId_prefixed)
  have acc: "acc_digits (dec_nat (Suc i)) = int (Suc i)"
    using assms(4) by (intro acc_digits_dec_nat) simp
  then have at: "PhaseAt DefaultPipeline (acc_digits (dec_nat (Suc i))) = Some (DefaultPipeline ! i)"
    using assms(4) by (simp add: PhaseAt_def)
  show "ParsePhaseId (dec_nat (Suc i)) = Ok (DefaultPipeline ! i)"
    using ParsePhaseId_digits [of "dec_nat (Suc i)"] at by simp
  show "ParsePhaseId (''p'' @ dec_nat (Suc i)) = Ok (DefaultPipeline ! i)"
    using ParsePhaseId_p_digits [of "dec_nat (Suc i)"] at by simp
  show "forget_input (ParsePhaseId (ToLower (TrimSpace s))) = forget_input (ParsePhaseId s)"
    by (rule ParsePhaseId_spelling)
  show "ParsePhaseId s = Ok q \<Longrightarrow> PhaseId_IsValid q" by (rule ParsePhaseId_Ok_valid)
qed

theorem parse_phase_roundtrip_witness:
  "ParsePhaseId (''p'' @ ''10'' @ ''-'' @ PhaseCodeReview) = Ok PhaseCodeReview \<and>
   ParsePhaseId (''p'' @ dec_nat (Suc 9)) = Ok (DefaultPipeline ! 9)"
  using parse_phase_roundtrip [of PhaseCodeReview "''10''" 9]
  by (simp add: PhaseId_IsValid_def is_digit_def)

text \<open>C15: a decimal number below \<open>2 ^ 63\<close> names a phase exactly when it lies between one and
  twelve; everything else is refused.\<close>

theorem parse_phase_number_exact:
  assumes "n < 2 ^ 63"
  shows "ParsePhaseId (dec_nat n) =
    (if 1 \<le> n \<and> n \<le> 12 then Ok (DefaultPipeline ! (n - 1)) else Err (UnrecognizedPhase (dec_nat n)))"
proof -
  have "int n < 2 ^ 63" using assms by (metis of_nat_less_iff of_nat_numeral of_nat_power)
  then show ?thesis
    using acc_digits_dec_nat [of n] ParsePhaseId_digits [of "dec_nat n"]
    by (auto simp: PhaseAt_def nat_diff_distrib')
qed

theorem parse_phase_number_exact_witness:
  "ParsePhaseId (dec_nat 13) = Err (UnrecognizedPhase (dec_nat 13))"
  using parse_phase_number_exact [of 13] by simp

text \<open>C40: beyond \<open>2 ^ 63\<close> the unchecked accumulator wraps around: the number
  \<open>2 ^ 64 + 1\<close> is read as phase one.\<close>

theorem parse_phase_number_wraps:
  "ParsePhaseId ''18446744073709551617'' = Ok PhaseRequest"
proof -
  have "acc_digits ''18446744073709551617'' = 1" by code_simp
  then show ?thesis
    using ParsePhaseId_digits [of "''18446744073709551617''"]
    by (simp add: is_digit_def PhaseAt_def DefaultPipeline_def)
qed

text \<open>The phase number and the phase at a number are inverse on the pipeline, and the
  successor of a phase is the one with the next number, the terminal phase after the last.\<close>

theorem pipeline_positions:
  "(PhaseAt DefaultPipeline n = Some p) = (PhaseNumber DefaultPipeline p = n \<and> p \<in> set DefaultPipeline) \<and>
   Pipeline_Contains DefaultPipeline p = (p \<in> set DefaultPipeline) \<and>
   map (Pipeline_Next DefaultPipeline) DefaultPipeline = tl AllPhaseIds"
proof (intro conjI)
  show "(PhaseAt DefaultPipeline n = Some p) = (PhaseNumber DefaultPipeline p = n \<and> p \<in> set DefaultPipeline)"
    using PhaseAt_PhaseNumber [of p DefaultPipeline] PhaseNumber_PhaseAt [OF distinct_pipeline, of n p]
      PhaseAt_mem [of DefaultPipeline n p] by blast
  show "Pipeline_Contains DefaultPipeline p = (p \<in> set DefaultPipeline)" by (rule Pipeline_Contains_iff)
  show "map (Pipeline_Next DefaultPipeline) DefaultPipeline = tl AllPhaseIds" by code_simp
qed

text \<open>Two deduplication names agree only when epoch, phase, kind and step agree, whatever
  separators the epoch id contains, provided the other three hold no slash; with a
  collision-free name-based UUID the keys of distinct emissions are distinct.\<close>

theorem dedup_key_injective:
  assumes "inj uuid5"
    and "CHR ''/'' \<notin> set (p @ k @ s)" "CHR ''/'' \<notin> set (p' @ k' @ s')"
  shows "DedupKey uuid5 e p k s = DedupKey uuid5 e' p' k' s' \<longleftrightarrow> (e, p, k, s) = (e', p', k', s')"
  using dedup_name_inj [OF assms(2,3), of e e'] inj_eq [OF assms(1)]
  unfolding DedupKey_def by blast

theorem dedup_key_injective_witness:
  "DedupKey id ''ns/1'' PhaseReview EventPhaseTransition ''3'' \<noteq>
   DedupKey id ''ns/2'' PhaseReview EventPhaseTransition ''3''"
  using dedup_key_injective [of id PhaseReview EventPhaseTransition "''3''"
      PhaseReview EventPhaseTransition "''3''" "''ns/1''" "''ns/2''"]
  by (simp add: enum_defs)

text \<open>Successive rounds of a review never share a workflow id, so a durable runtime that
  memoizes by id runs each round afresh.\<close>

theorem review_rounds_distinct:
  assumes "0 \<le> r" "r < r'" "r' < 2 ^ 63"
  shows "ReviewWorkflowID e p r \<noteq> ReviewWorkflowID e' p' r'"
  using ReviewWorkflowID_round_inj [of r r' e p e' p'] assms by auto

theorem review_rounds_distinct_witness:
  "ReviewWorkflowID ''e'' ''review'' 1 \<noteq> ReviewWorkflowID ''e'' ''review'' 2"
  by (rule review_rounds_distinct) simp_all

end
