(* ===== verification/EpochMachine.thy ===== *)
theory EpochMachine
  imports Protocol
begin

text \<open>
  The pure epoch state machine of \<^verbatim>\<open>pkg/protocol/state_machine.go\<close> and its state
  (\<^verbatim>\<open>epoch_state.go\<close>): the transition table, the consensus, blocker and REVISE gates,
  \<open>Advance\<close>, the vote and blocker counters, and the failed-transition record.  A method with
  a pointer receiver takes the machine and returns it updated.  Go maps that the code
  iterates (the votes) are association lists without duplicate keys; the order in which such
  a map is listed in an error text is the model's, the program's being unspecified.
\<close>

section \<open>State\<close>

record TransitionRecord =
  tr_FromPhase :: PhaseId
  tr_ToPhase :: PhaseId
  tr_Timestamp :: timestamp
  tr_TriggeredBy :: string
  tr_ConditionMet :: string
  tr_Success :: bool

type_synonym votes = "(ReviewAxis \<times> VoteType) list"

record ReviewCycleRecord =
  rc_SliceId :: string
  rc_Round :: int
  rc_Votes :: votes
  rc_FindingCounts :: "(SeverityLevel \<times> int) list"
  rc_Timestamp :: timestamp

record EpochState =
  EpochId :: string
  CurrentPhase :: PhaseId
  CurrentRole :: RoleId
  CompletedPhases :: "PhaseId list"
  ReviewVotes :: votes
  BlockerCount :: int
  TransitionHistory :: "TransitionRecord list"
  ReviewCycles :: "(string \<times> ReviewCycleRecord list) list"
  LastError :: "string option"
  ActiveSessionCount :: int
  ActiveSessions :: "RegisterSessionSignal list"
  SliceProgress :: "SliceProgressSignal list"

record PhaseSpec =
  Transitions :: "PhaseId list"

type_synonym specs = "PhaseId \<rightharpoonup> PhaseSpec"

record EpochStateMachine =
  sm_state :: EpochState
  sm_specs :: specs

section \<open>Tables\<close>

definition PhaseSpecs_table :: "(PhaseId \<times> PhaseId list) list" where
  "PhaseSpecs_table =
     [(PhaseRequest, [PhaseElicit]), (PhaseElicit, [PhasePropose]), (PhasePropose, [PhaseReview]),
      (PhaseReview, [PhasePlanReview, PhasePropose]), (PhasePlanReview, [PhaseRatify]),
      (PhaseRatify, [PhaseHandoff]), (PhaseHandoff, [PhaseImplPlan]),
      (PhaseImplPlan, [PhaseWorkerSlices]), (PhaseWorkerSlices, [PhaseCodeReview]),
      (PhaseCodeReview, [PhaseImplUAT, PhaseWorkerSlices]), (PhaseImplUAT, [PhaseLanding]),
      (PhaseLanding, [PhaseComplete])]"

definition PhaseSpecs :: specs where
  "PhaseSpecs p = map_option (\<lambda>ts. \<lparr>Transitions = ts\<rparr>) (map_of PhaseSpecs_table p)"

definition consensusGated :: "(PhaseId \<times> PhaseId) list" where
  "consensusGated = [(PhaseReview, PhasePlanReview), (PhaseCodeReview, PhaseImplUAT)]"

definition blockerGated :: "(PhaseId \<times> PhaseId) list" where
  "blockerGated = [(PhaseCodeReview, PhaseImplUAT)]"

definition reviseDrivesBackPhases :: "PhaseId list" where
  "reviseDrivesBackPhases = [PhaseReview, PhaseCodeReview]"

section \<open>Construction\<close>

definition NewEpochStateMachine :: "string \<Rightarrow> specs option \<Rightarrow> EpochStateMachine" where
  "NewEpochStateMachine epochId specs =
     \<lparr>sm_state = \<lparr>EpochId = epochId, CurrentPhase = PhaseRequest, CurrentRole = RoleEpoch,
        CompletedPhases = [], ReviewVotes = [], BlockerCount = 0, TransitionHistory = [],
        ReviewCycles = [], LastError = None, ActiveSessionCount = 0, ActiveSessions = [],
        SliceProgress = []\<rparr>,
      sm_specs = (case specs of None \<Rightarrow> PhaseSpecs | Some t \<Rightarrow> t)\<rparr>"

text \<open>A nil vote map and an empty one are the same association list.\<close>

definition NewEpochStateMachineFromState :: "EpochState \<Rightarrow> specs option \<Rightarrow> EpochStateMachine" where
  "NewEpochStateMachineFromState state specs =
     \<lparr>sm_state = state, sm_specs = (case specs of None \<Rightarrow> PhaseSpecs | Some t \<Rightarrow> t)\<rparr>"

section \<open>Queries\<close>

definition HasConsensus :: "EpochStateMachine \<Rightarrow> bool" where
  "HasConsensus sm \<longleftrightarrow>
     list_all (\<lambda>ax. map_of (ReviewVotes (sm_state sm)) ax = Some VoteAccept) AllReviewAxes"

definition hasAnyRevise :: "EpochStateMachine \<Rightarrow> bool" where
  "hasAnyRevise sm \<longleftrightarrow> list_ex (\<lambda>(ax, v). v = VoteRevise) (ReviewVotes (sm_state sm))"

definition AvailableTransitions :: "EpochStateMachine \<Rightarrow> PhaseId list" where
  "AvailableTransitions sm =
     (let current = CurrentPhase (sm_state sm) in
      if current = PhaseComplete then []
      else case sm_specs sm current of
        None \<Rightarrow> []
      | Some spec \<Rightarrow>
          if current \<in> set reviseDrivesBackPhases \<and> hasAnyRevise sm
          then filter (\<lambda>to. (current, to) \<notin> set consensusGated \<and> (current, to) \<notin> set blockerGated)
                 (Transitions spec)
          else
            let filtered = filter (\<lambda>to. \<not> ((current, to) \<in> set consensusGated \<and> \<not> HasConsensus sm))
                             (Transitions spec) in
            if BlockerCount (sm_state sm) > 0
            then filter (\<lambda>to. (current, to) \<notin> set blockerGated) filtered
            else filtered)"

definition arrow :: string where
  "arrow = [CHR '' '', CHR 0xE2, CHR 0x86, CHR 0x92, CHR '' '']"

definition ValidateAdvance :: "EpochStateMachine \<Rightarrow> PhaseId \<Rightarrow> string list" where
  "ValidateAdvance sm toPhase =
     (let current = CurrentPhase (sm_state sm) in
      if current = PhaseComplete
      then [''epoch is already COMPLETE; no further transitions are possible'']
      else case sm_specs sm current of
        None \<Rightarrow> [''current phase '' @ quote current @ '' has no spec in the transition table'']
      | Some spec \<Rightarrow>
          if toPhase \<notin> set (Transitions spec)
          then [''transition '' @ quote current @ arrow @ quote toPhase @
                '' is not in the transition table; valid targets: '' @
                fmt_slice (remdups (Transitions spec))]
          else
            (if (current, toPhase) \<in> set consensusGated \<and> \<not> HasConsensus sm
             then [''consensus required for '' @ quote current @ arrow @ quote toPhase @
                   '': all 3 axes (correctness, test_quality, elegance) must ACCEPT; accepted so far: '' @
                   fmt_slice (map fst (filter (\<lambda>(ax, v). v = VoteAccept) (ReviewVotes (sm_state sm))))]
             else []) @
            (if (current, toPhase) \<in> set blockerGated \<and> BlockerCount (sm_state sm) > 0
             then [''BLOCKER gate for '' @ quote current @ arrow @ quote toPhase @ '': '' @
                   dec_int (BlockerCount (sm_state sm)) @
                   '' unresolved blocker(s) must be resolved first'']
             else []))"

section \<open>Operations\<close>

datatype TransitionError = TransitionError (Violations: "string list")

definition TransitionError_Error :: "TransitionError \<Rightarrow> string" where
  "TransitionError_Error e =
     (case Violations e of
        [v] \<Rightarrow> v
      | vs \<Rightarrow> dec_nat (length vs) @ '' transition violations: '' @ join ''; '' vs)"

definition Advance :: "EpochStateMachine \<Rightarrow> PhaseId \<Rightarrow> string \<Rightarrow> string \<Rightarrow> timestamp \<Rightarrow>
    (TransitionError + TransitionRecord) \<times> EpochStateMachine" where
  "Advance sm toPhase triggeredBy conditionMet timestamp =
     (let violations = ValidateAdvance sm toPhase; st = sm_state sm in
      if violations \<noteq> [] then (Err (TransitionError violations), sm)
      else
        let rec = \<lparr>tr_FromPhase = CurrentPhase st, tr_ToPhase = toPhase, tr_Timestamp = timestamp,
              tr_TriggeredBy = triggeredBy, tr_ConditionMet = conditionMet, tr_Success = True\<rparr> in
        (Ok rec, sm\<lparr>sm_state := st\<lparr>
           CompletedPhases := CompletedPhases st @ [CurrentPhase st],
           CurrentPhase := toPhase,
           TransitionHistory := TransitionHistory st @ [rec],
           ReviewVotes := [],
           LastError := None\<rparr>\<rparr>))"

datatype vote_error = InvalidReviewAxis ReviewAxis

definition RecordVote :: "EpochStateMachine \<Rightarrow> ReviewAxis \<Rightarrow> VoteType \<Rightarrow>
    (vote_error + unit) \<times> EpochStateMachine" where
  "RecordVote sm axis vote =
     (if \<not> ReviewAxis_IsValid axis then (Err (InvalidReviewAxis axis), sm)
      else (Ok (), sm\<lparr>sm_state := (sm_state sm)\<lparr>
        ReviewVotes := AList.update axis vote (ReviewVotes (sm_state sm))\<rparr>\<rparr>))"

definition RecordBlocker :: "EpochStateMachine \<Rightarrow> bool \<Rightarrow> EpochStateMachine" where
  "RecordBlocker sm resolved =
     (let n = BlockerCount (sm_state sm) in
      sm\<lparr>sm_state := (sm_state sm)\<lparr>BlockerCount :=
        if resolved then (if n > 0 then i64 (n - 1) else n) else i64 (n + 1)\<rparr>\<rparr>)"

text \<open>The error argument is its text, \<open>err.Error()\<close>.\<close>

definition RecordFailedTransition ::
    "EpochStateMachine \<Rightarrow> PhaseId \<Rightarrow> PhaseId \<Rightarrow> timestamp \<Rightarrow> string \<Rightarrow> string \<Rightarrow> EpochStateMachine" where
  "RecordFailedTransition sm fromPhase toPhase timestamp triggeredBy err =
     (let st = sm_state sm in
      sm\<lparr>sm_state := st\<lparr>
        TransitionHistory := TransitionHistory st @
          [\<lparr>tr_FromPhase = fromPhase, tr_ToPhase = toPhase, tr_Timestamp = timestamp,
            tr_TriggeredBy = triggeredBy, tr_ConditionMet = ''FAILED: '' @ err,
            tr_Success = False\<rparr>],
        LastError := Some err\<rparr>\<rparr>)"

text \<open>A missing key of a Go map reads as the zero value: no vote, no findings.\<close>

definition IsCleanExit :: "ReviewCycleRecord \<Rightarrow> bool" where
  "IsCleanExit r \<longleftrightarrow>
     list_all (\<lambda>ax. case map_of (rc_Votes r) ax of None \<Rightarrow> [] = VoteAccept | Some v \<Rightarrow> v = VoteAccept)
       AllReviewAxes \<and>
     (case map_of (rc_FindingCounts r) SeverityBlocker of None \<Rightarrow> (0::int) | Some n \<Rightarrow> n) = 0 \<and>
     (case map_of (rc_FindingCounts r) SeverityImportant of None \<Rightarrow> (0::int) | Some n \<Rightarrow> n) = 0"

section \<open>Runs\<close>

text \<open>The operations a driver may perform on a machine, in any order.\<close>

datatype epoch_op =
    OpAdvance PhaseId string string timestamp
  | OpVote ReviewAxis VoteType
  | OpBlocker bool
  | OpFailed PhaseId PhaseId timestamp string string

fun apply_op :: "EpochStateMachine \<Rightarrow> epoch_op \<Rightarrow> EpochStateMachine" where
  "apply_op sm (OpAdvance to by cond ts) = snd (Advance sm to by cond ts)"
| "apply_op sm (OpVote ax v) = snd (RecordVote sm ax v)"
| "apply_op sm (OpBlocker resolved) = RecordBlocker sm resolved"
| "apply_op sm (OpFailed from to ts by err) = RecordFailedTransition sm from to ts by err"

abbreviation epoch_run :: "EpochStateMachine \<Rightarrow> epoch_op list \<Rightarrow> EpochStateMachine" where
  "epoch_run \<equiv> run apply_op"

abbreviation phase_of :: "EpochStateMachine \<Rightarrow> PhaseId" where
  "phase_of sm \<equiv> CurrentPhase (sm_state sm)"

abbreviation blockers_of :: "EpochStateMachine \<Rightarrow> int" where
  "blockers_of sm \<equiv> BlockerCount (sm_state sm)"

section \<open>The transition table\<close>

lemma PhaseSpecs_simps [simp]:
  "PhaseSpecs PhaseRequest = Some \<lparr>Transitions = [PhaseElicit]\<rparr>"
  "PhaseSpecs PhaseElicit = Some \<lparr>Transitions = [PhasePropose]\<rparr>"
  "PhaseSpecs PhasePropose = Some \<lparr>Transitions = [PhaseReview]\<rparr>"
  "PhaseSpecs PhaseReview = Some \<lparr>Transitions = [PhasePlanReview, PhasePropose]\<rparr>"
  "PhaseSpecs PhasePlanReview = Some \<lparr>Transitions = [PhaseRatify]\<rparr>"
  "PhaseSpecs PhaseRatify = Some \<lparr>Transitions = [PhaseHandoff]\<rparr>"
  "PhaseSpecs PhaseHandoff = Some \<lparr>Transitions = [PhaseImplPlan]\<rparr>"
  "PhaseSpecs PhaseImplPlan = Some \<lparr>Transitions = [PhaseWorkerSlices]\<rparr>"
  "PhaseSpecs PhaseWorkerSlices = Some \<lparr>Transitions = [PhaseCodeReview]\<rparr>"
  "PhaseSpecs PhaseCodeReview = Some \<lparr>Transitions = [PhaseImplUAT, PhaseWorkerSlices]\<rparr>"
  "PhaseSpecs PhaseImplUAT = Some \<lparr>Transitions = [PhaseLanding]\<rparr>"
  "PhaseSpecs PhaseLanding = Some \<lparr>Transitions = [PhaseComplete]\<rparr>"
  "PhaseSpecs PhaseComplete = None"
  by (simp_all add: PhaseSpecs_def PhaseSpecs_table_def phase_consts)

lemma PhaseSpecs_mem:
  "PhaseSpecs p = Some spec \<Longrightarrow> (p, Transitions spec) \<in> set PhaseSpecs_table"
  by (auto simp: PhaseSpecs_def dest: map_of_SomeD)

text \<open>Every phase but the terminal one has a specification, and every target is a phase.\<close>

lemma PhaseSpecs_dom: "PhaseSpecs p \<noteq> None \<longleftrightarrow> p \<in> set DefaultPipeline"
  by (simp add: PhaseSpecs_def map_of_eq_None_iff PhaseSpecs_table_def DefaultPipeline_def)

lemma PhaseSpecs_targets:
  assumes "PhaseSpecs p = Some spec" "q \<in> set (Transitions spec)"
  shows "q \<in> set AllPhaseIds"
proof -
  have "list_all (\<lambda>(p, ts). set ts \<subseteq> set AllPhaseIds) PhaseSpecs_table"
    by (simp add: PhaseSpecs_table_def AllPhaseIds_def)
  then show ?thesis using PhaseSpecs_mem [OF assms(1)] assms(2) by (auto simp: list_all_iff)
qed

lemma blocker_gate_in_consensus_gate: "set blockerGated \<subseteq> set consensusGated"
  by (simp add: blockerGated_def consensusGated_def)

section \<open>The operations, branch by branch\<close>

lemma Advance_fst_Ok_iff: "is_ok (fst (Advance sm to by cond ts)) \<longleftrightarrow> ValidateAdvance sm to = []"
  by (simp add: Advance_def Let_def)

lemma Advance_error_unchanged:
  "fst (Advance sm to by cond ts) = Err e \<Longrightarrow> snd (Advance sm to by cond ts) = sm \<and> Violations e \<noteq> []"
  by (auto simp: Advance_def Let_def split: if_splits)

definition advanced :: "EpochStateMachine \<Rightarrow> PhaseId \<Rightarrow> string \<Rightarrow> string \<Rightarrow> timestamp \<Rightarrow> EpochState" where
  "advanced sm to by cond ts = (sm_state sm)\<lparr>
     CompletedPhases := CompletedPhases (sm_state sm) @ [phase_of sm],
     CurrentPhase := to,
     TransitionHistory := TransitionHistory (sm_state sm) @
       [\<lparr>tr_FromPhase = phase_of sm, tr_ToPhase = to, tr_Timestamp = ts,
         tr_TriggeredBy = by, tr_ConditionMet = cond, tr_Success = True\<rparr>],
     ReviewVotes := [], LastError := None\<rparr>"

lemma snd_Advance:
  "snd (Advance sm to by cond ts) =
     (if ValidateAdvance sm to = [] then sm\<lparr>sm_state := advanced sm to by cond ts\<rparr> else sm)"
  by (simp add: Advance_def Let_def advanced_def)

lemma advanced_sel [simp]:
  "CurrentPhase (advanced sm to by cond ts) = to"
  "ReviewVotes (advanced sm to by cond ts) = []"
  "BlockerCount (advanced sm to by cond ts) = blockers_of sm"
  "LastError (advanced sm to by cond ts) = None"
  "CompletedPhases (advanced sm to by cond ts) = CompletedPhases (sm_state sm) @ [phase_of sm]"
  "TransitionHistory (advanced sm to by cond ts) = TransitionHistory (sm_state sm) @
     [\<lparr>tr_FromPhase = phase_of sm, tr_ToPhase = to, tr_Timestamp = ts,
       tr_TriggeredBy = by, tr_ConditionMet = cond, tr_Success = True\<rparr>]"
  "EpochId (advanced sm to by cond ts) = EpochId (sm_state sm)"
  "ActiveSessions (advanced sm to by cond ts) = ActiveSessions (sm_state sm)"
  "ActiveSessionCount (advanced sm to by cond ts) = ActiveSessionCount (sm_state sm)"
  by (simp_all add: advanced_def)

lemma snd_RecordVote:
  "snd (RecordVote sm ax v) =
     (if ReviewAxis_IsValid ax
      then sm\<lparr>sm_state := (sm_state sm)\<lparr>ReviewVotes := AList.update ax v (ReviewVotes (sm_state sm))\<rparr>\<rparr>
      else sm)"
  by (simp add: RecordVote_def)

lemmas op_simps = snd_Advance snd_RecordVote RecordBlocker_def RecordFailedTransition_def Let_def

lemma apply_op_specs [simp]: "sm_specs (apply_op sm op) = sm_specs sm"
  by (cases op) (simp_all add: op_simps)

lemma epoch_run_specs [simp]: "sm_specs (epoch_run sm ops) = sm_specs sm"
  by (induction ops arbitrary: sm) simp_all

text \<open>Only a successful \<open>Advance\<close> moves the machine.\<close>

lemma apply_op_phase_change:
  assumes "phase_of (apply_op sm op) \<noteq> phase_of sm"
  shows "\<exists>to by cond ts. op = OpAdvance to by cond ts \<and> ValidateAdvance sm to = [] \<and>
    phase_of (apply_op sm op) = to"
  using assms by (cases op) (auto simp: op_simps split: if_splits)

text \<open>What an empty list of violations says.\<close>

lemma ValidateAdvance_Nil_iff:
  "ValidateAdvance sm to = [] \<longleftrightarrow>
     phase_of sm \<noteq> PhaseComplete \<and>
     (\<exists>spec. sm_specs sm (phase_of sm) = Some spec \<and> to \<in> set (Transitions spec)) \<and>
     ((phase_of sm, to) \<in> set consensusGated \<longrightarrow> HasConsensus sm) \<and>
     ((phase_of sm, to) \<in> set blockerGated \<longrightarrow> blockers_of sm \<le> 0)"
  by (auto simp: ValidateAdvance_def Let_def split: option.splits if_splits)

section \<open>Votes\<close>

definition votes_ok :: "EpochStateMachine \<Rightarrow> bool" where
  "votes_ok sm \<longleftrightarrow> distinct (map fst (ReviewVotes (sm_state sm))) \<and>
     list_all (ReviewAxis_IsValid \<circ> fst) (ReviewVotes (sm_state sm))"

lemma votes_ok_new: "votes_ok (NewEpochStateMachine e specs)"
  by (simp add: votes_ok_def NewEpochStateMachine_def)

lemma set_update_fst: "fst ` set (AList.update k v al) = insert k (fst ` set al)"
  using dom_update [of k v al] by simp

lemma votes_ok_apply: "votes_ok sm \<Longrightarrow> votes_ok (apply_op sm op)"
proof (cases op)
  case (OpVote ax v)
  assume "votes_ok sm"
  then have ok: "distinct (map fst (ReviewVotes (sm_state sm)))"
    "\<forall>a \<in> fst ` set (ReviewVotes (sm_state sm)). ReviewAxis_IsValid a"
    by (auto simp: votes_ok_def list_all_iff)
  let ?u = "AList.update ax v (ReviewVotes (sm_state sm))"
  have "\<forall>a \<in> fst ` set ?u. ReviewAxis_IsValid a" if "ReviewAxis_IsValid ax"
    using ok(2) that by (simp add: set_update_fst)
  then show ?thesis using OpVote \<open>votes_ok sm\<close> distinct_update [OF ok(1), of ax v]
    by (auto simp: op_simps votes_ok_def list_all_iff)
qed (auto simp: op_simps votes_ok_def)

interpretation epoch_votes: machine_invariant apply_op votes_ok
  by unfold_locales (rule votes_ok_apply)

text \<open>A recorded REVISE excludes consensus.\<close>

lemma revise_excludes_consensus:
  assumes "votes_ok sm" "hasAnyRevise sm" shows "\<not> HasConsensus sm"
proof
  assume cons: "HasConsensus sm"
  obtain ax where mem: "(ax, VoteRevise) \<in> set (ReviewVotes (sm_state sm))"
    using assms(2) by (auto simp: hasAnyRevise_def list_ex_iff)
  then have "map_of (ReviewVotes (sm_state sm)) ax = Some VoteRevise"
    using assms(1) by (simp add: votes_ok_def)
  moreover have "ax \<in> set AllReviewAxes"
    using mem assms(1) axis.valid_iff by (force simp: votes_ok_def list_all_iff)
  ultimately show False using cons
    by (auto simp: HasConsensus_def list_all_iff VoteAccept_def VoteRevise_def)
qed

lemma available_iff_valid:
  assumes "votes_ok sm"
  shows "to \<in> set (AvailableTransitions sm) \<longleftrightarrow> ValidateAdvance sm to = []"
proof (cases "sm_specs sm (phase_of sm)")
  case None
  then show ?thesis by (simp add: AvailableTransitions_def ValidateAdvance_Nil_iff Let_def)
next
  case (Some spec)
  then show ?thesis
    using revise_excludes_consensus [OF assms] blocker_gate_in_consensus_gate
    by (auto simp: AvailableTransitions_def ValidateAdvance_Nil_iff Let_def)
qed

section \<open>Blockers\<close>

definition count_new_blockers :: "epoch_op list \<Rightarrow> nat" where
  "count_new_blockers ops = length (filter (\<lambda>op. op = OpBlocker False) ops)"

lemma blockers_bounds:
  assumes "0 \<le> blockers_of sm" "blockers_of sm + int (count_new_blockers ops) < 2 ^ 63"
  shows "0 \<le> blockers_of (epoch_run sm ops) \<and>
    blockers_of (epoch_run sm ops) \<le> blockers_of sm + int (count_new_blockers ops)"
  using assms
proof (induction ops arbitrary: sm)
  case (Cons op ops)
  let ?d = "if op = OpBlocker False then 1 else 0 :: int"
  have "count_new_blockers (op # ops) = nat ?d + count_new_blockers ops"
    by (simp add: count_new_blockers_def)
  moreover have "0 \<le> blockers_of (apply_op sm op) \<and> blockers_of (apply_op sm op) \<le> blockers_of sm + ?d"
    using Cons.prems calculation
    by (cases op) (auto simp: op_simps i64_id fits64_def)
  ultimately show ?case
    using Cons.IH [of "apply_op sm op"] Cons.prems by auto
qed (simp add: count_new_blockers_def)

section \<open>History\<close>

primrec phase_chain :: "PhaseId \<Rightarrow> TransitionRecord list \<Rightarrow> PhaseId \<Rightarrow> bool" where
  "phase_chain p [] q \<longleftrightarrow> p = q"
| "phase_chain p (r # rs) q \<longleftrightarrow> tr_FromPhase r = p \<and> phase_chain (tr_ToPhase r) rs q"

lemma phase_chain_snoc:
  "phase_chain p (rs @ [r]) q \<longleftrightarrow> phase_chain p rs (tr_FromPhase r) \<and> tr_ToPhase r = q"
  by (induction rs arbitrary: p) auto

definition taken :: "EpochState \<Rightarrow> TransitionRecord list" where
  "taken st = filter tr_Success (TransitionHistory st)"

definition history_ok :: "EpochStateMachine \<Rightarrow> bool" where
  "history_ok sm \<longleftrightarrow> (let st = sm_state sm in
     phase_chain PhaseRequest (taken st) (CurrentPhase st) \<and>
     CompletedPhases st = map tr_FromPhase (taken st) \<and>
     list_all (\<lambda>r. case sm_specs sm (tr_FromPhase r) of None \<Rightarrow> False
        | Some spec \<Rightarrow> tr_ToPhase r \<in> set (Transitions spec)) (taken st))"

lemma history_ok_new: "history_ok (NewEpochStateMachine e specs)"
  by (simp add: history_ok_def NewEpochStateMachine_def taken_def)

lemma history_ok_apply: "history_ok sm \<Longrightarrow> history_ok (apply_op sm op)"
  by (cases op) (auto simp: op_simps history_ok_def taken_def phase_chain_snoc ValidateAdvance_Nil_iff)

interpretation epoch_history: machine_invariant apply_op history_ok
  by unfold_locales (rule history_ok_apply)

section \<open>Which phase comes after which gate\<close>

text \<open>A set of phases that can only be entered through one gated transition: whoever is in
  it has passed the gate.\<close>

lemma gate_passed:
  assumes "phase_of sm \<notin> S" "phase_of (epoch_run sm ops) \<in> S"
    and entry: "\<And>p spec q. sm_specs sm p = Some spec \<Longrightarrow> p \<notin> S \<Longrightarrow> q \<in> set (Transitions spec) \<Longrightarrow>
      q \<in> S \<Longrightarrow> (p, q) = gate"
  shows "\<exists>pre op post. ops = pre @ op # post \<and> phase_of (epoch_run sm pre) = fst gate \<and>
    phase_of (epoch_run sm (pre @ [op])) = snd gate \<and>
    (gate \<in> set consensusGated \<longrightarrow> HasConsensus (epoch_run sm pre)) \<and>
    (gate \<in> set blockerGated \<longrightarrow> blockers_of (epoch_run sm pre) \<le> 0)"
proof -
  obtain pre op post where ops: "ops = pre @ op # post"
    and out: "phase_of (epoch_run sm pre) \<notin> S"
    and inn: "phase_of (apply_op (epoch_run sm pre) op) \<in> S"
    using run_first_change [of "\<lambda>s. phase_of s \<in> S" sm apply_op ops] assms(1,2) by auto
  let ?s = "epoch_run sm pre"
  obtain to where valid: "ValidateAdvance ?s to = []" and to: "phase_of (apply_op ?s op) = to"
    using apply_op_phase_change [of ?s op] out inn by fastforce
  then obtain spec where "sm_specs sm (phase_of ?s) = Some spec" "to \<in> set (Transitions spec)"
    by (auto simp: ValidateAdvance_Nil_iff)
  then have "(phase_of ?s, to) = gate" using entry out inn to by blast
  then show ?thesis using valid ops to
    by (intro exI [of _ pre] exI [of _ op] exI [of _ post]) (auto simp: ValidateAdvance_Nil_iff)
qed

definition after_code_review :: "PhaseId set" where
  "after_code_review = {PhaseImplUAT, PhaseLanding, PhaseComplete}"

definition after_plan_review :: "PhaseId set" where
  "after_plan_review = {PhasePlanReview, PhaseRatify, PhaseHandoff, PhaseImplPlan, PhaseWorkerSlices,
     PhaseCodeReview, PhaseImplUAT, PhaseLanding, PhaseComplete}"

lemma after_code_review_entry:
  assumes "PhaseSpecs p = Some spec" "p \<notin> after_code_review" "q \<in> set (Transitions spec)"
    "q \<in> after_code_review"
  shows "(p, q) = (PhaseCodeReview, PhaseImplUAT)"
proof -
  have "list_all (\<lambda>(p, ts). list_all (\<lambda>q. p \<notin> after_code_review \<longrightarrow> q \<in> after_code_review \<longrightarrow>
      p = PhaseCodeReview \<and> q = PhaseImplUAT) ts) PhaseSpecs_table"
    by (simp add: PhaseSpecs_table_def after_code_review_def) (simp add: phase_consts)
  then show ?thesis using PhaseSpecs_mem [OF assms(1)] assms(2-4) by (auto simp: list_all_iff)
qed

lemma after_plan_review_entry:
  assumes "PhaseSpecs p = Some spec" "p \<notin> after_plan_review" "q \<in> set (Transitions spec)"
    "q \<in> after_plan_review"
  shows "(p, q) = (PhaseReview, PhasePlanReview)"
proof -
  have "list_all (\<lambda>(p, ts). list_all (\<lambda>q. p \<notin> after_plan_review \<longrightarrow> q \<in> after_plan_review \<longrightarrow>
      p = PhaseReview \<and> q = PhasePlanReview) ts) PhaseSpecs_table"
    by (simp add: PhaseSpecs_table_def after_plan_review_def) (simp add: phase_consts)
  then show ?thesis using PhaseSpecs_mem [OF assms(1)] assms(2-4) by (auto simp: list_all_iff)
qed

section \<open>Progress\<close>

definition blockers_fit :: "EpochStateMachine \<Rightarrow> bool" where
  "blockers_fit sm \<longleftrightarrow> fits64 (blockers_of sm)"

interpretation epoch_blockers: machine_invariant apply_op blockers_fit
proof unfold_locales
  fix sm op
  show "blockers_fit sm \<Longrightarrow> blockers_fit (apply_op sm op)"
    by (cases op) (auto simp: op_simps blockers_fit_def)
qed

lemma blockers_fit_new: "blockers_fit (NewEpochStateMachine e specs)"
  by (simp add: blockers_fit_def NewEpochStateMachine_def fits64_def)

lemma resolve_blockers:
  assumes "fits64 (blockers_of sm)" "blockers_of sm \<le> int k"
  shows "\<exists>n \<le> 0. epoch_run sm (replicate k (OpBlocker True)) =
    sm\<lparr>sm_state := (sm_state sm)\<lparr>BlockerCount := n\<rparr>\<rparr>"
  using assms
proof (induction k arbitrary: sm)
  case 0
  then show ?case by (intro exI [of _ "blockers_of sm"]) simp
next
  case (Suc k)
  let ?sm = "apply_op sm (OpBlocker True)"
  have "fits64 (blockers_of ?sm)" "blockers_of ?sm \<le> int k"
    using Suc.prems i64_id [of "blockers_of sm - 1"]
    by (auto simp: op_simps fits64_def)
  then obtain n where "n \<le> 0" "epoch_run ?sm (replicate k (OpBlocker True)) =
      ?sm\<lparr>sm_state := (sm_state ?sm)\<lparr>BlockerCount := n\<rparr>\<rparr>"
    using Suc.IH by blast
  then show ?case by (intro exI [of _ n]) (simp add: op_simps)
qed

definition accept_all :: "epoch_op list" where
  "accept_all = map (\<lambda>ax. OpVote ax VoteAccept) AllReviewAxes"

lemma accept_all_consensus:
  "HasConsensus (epoch_run sm accept_all) \<and> phase_of (epoch_run sm accept_all) = phase_of sm \<and>
   blockers_of (epoch_run sm accept_all) = blockers_of sm"
  by (simp add: accept_all_def HasConsensus_def AllReviewAxes_def op_simps update_conv'
      ReviewAxis_IsValid_def enum_defs)

definition clear_gates :: "EpochStateMachine \<Rightarrow> epoch_op list" where
  "clear_gates sm = replicate (nat (blockers_of sm)) (OpBlocker True) @ accept_all"

lemma clear_gates_opens:
  assumes "blockers_fit sm"
  shows "HasConsensus (epoch_run sm (clear_gates sm)) \<and>
    phase_of (epoch_run sm (clear_gates sm)) = phase_of sm \<and>
    blockers_of (epoch_run sm (clear_gates sm)) \<le> 0"
proof -
  obtain n where "n \<le> 0" "epoch_run sm (replicate (nat (blockers_of sm)) (OpBlocker True)) =
      sm\<lparr>sm_state := (sm_state sm)\<lparr>BlockerCount := n\<rparr>\<rparr>"
    using resolve_blockers [of sm "nat (blockers_of sm)"] assms
    unfolding blockers_fit_def by (meson nat_le_iff order_refl)
  then show ?thesis using accept_all_consensus by (simp add: clear_gates_def)
qed

lemma next_is_target:
  assumes "i < 12"
  shows "\<exists>spec. PhaseSpecs (AllPhaseIds ! i) = Some spec \<and> AllPhaseIds ! Suc i \<in> set (Transitions spec)"
proof -
  have "list_all (\<lambda>i. case map_of PhaseSpecs_table (AllPhaseIds ! i) of None \<Rightarrow> False
      | Some ts \<Rightarrow> AllPhaseIds ! Suc i \<in> set ts) [0..<12]"
    by code_simp
  then have "case map_of PhaseSpecs_table (AllPhaseIds ! i) of None \<Rightarrow> False
      | Some ts \<Rightarrow> AllPhaseIds ! Suc i \<in> set ts"
    using assms unfolding list_all_iff by simp
  then show ?thesis by (simp add: PhaseSpecs_def split: option.splits)
qed

lemma length_phases [simp]: "length AllPhaseIds = 13"
  by (simp add: AllPhaseIds_def)

lemma pipeline_not_complete: "i < 12 \<Longrightarrow> AllPhaseIds ! i \<noteq> PhaseComplete"
  using distinct_phases nth_eq_iff_index_eq [of AllPhaseIds i 12]
  by (simp add: AllPhaseIds_def)

lemma step_forward:
  assumes "blockers_fit sm" "sm_specs sm = PhaseSpecs" "phase_of sm = AllPhaseIds ! i" "i < 12"
  shows "phase_of (epoch_run sm (clear_gates sm @ [OpAdvance (AllPhaseIds ! Suc i) by cond ts])) =
    AllPhaseIds ! Suc i"
proof -
  have "ValidateAdvance (epoch_run sm (clear_gates sm)) (AllPhaseIds ! Suc i) = []"
    using clear_gates_opens [OF assms(1)] next_is_target [OF assms(4)] assms(2,3)
      pipeline_not_complete [OF assms(4)]
    by (simp add: ValidateAdvance_Nil_iff)
  then show ?thesis by (simp add: op_simps)
qed

lemma can_complete:
  assumes "blockers_fit sm" "sm_specs sm = PhaseSpecs" "phase_of sm = AllPhaseIds ! i" "i \<le> 12"
  shows "\<exists>ops. phase_of (epoch_run sm ops) = PhaseComplete"
  using assms
proof (induction "12 - i" arbitrary: i sm)
  case 0
  then have "phase_of (epoch_run sm []) = PhaseComplete" by (simp add: AllPhaseIds_def)
  then show ?case by blast
next
  case (Suc d)
  let ?ops = "clear_gates sm @ [OpAdvance (AllPhaseIds ! Suc i) [] [] 0]"
  have "i < 12" using Suc by simp
  then have "phase_of (epoch_run sm ?ops) = AllPhaseIds ! Suc i"
    by (rule step_forward [OF Suc.prems(1-3)])
  then obtain ops where "phase_of (epoch_run (epoch_run sm ?ops) ops) = PhaseComplete"
    using Suc.hyps(1) [of "Suc i" "epoch_run sm ?ops"] Suc.hyps(2) Suc.prems(2) \<open>i < 12\<close>
      epoch_blockers.inv_run [OF Suc.prems(1), of ?ops] epoch_run_specs [of sm ?ops]
    by (metis Suc_leI diff_Suc_Suc diff_diff_left nat.inject plus_1_eq_Suc Suc_diff_Suc)
  then show ?case by (intro exI [of _ "?ops @ ops"]) simp
qed

text \<open>Every reachable phase is one of the thirteen.\<close>

definition phase_ok :: "EpochStateMachine \<Rightarrow> bool" where
  "phase_ok sm \<longleftrightarrow> sm_specs sm = PhaseSpecs \<and> phase_of sm \<in> set AllPhaseIds"

interpretation epoch_phase: machine_invariant apply_op phase_ok
proof unfold_locales
  fix sm op
  assume ok: "phase_ok sm"
  show "phase_ok (apply_op sm op)"
  proof (cases "phase_of (apply_op sm op) = phase_of sm")
    case False
    then show ?thesis using ok apply_op_phase_change [OF False] PhaseSpecs_targets
      by (auto simp: phase_ok_def ValidateAdvance_Nil_iff)
  qed (use ok in \<open>simp add: phase_ok_def\<close>)
qed

lemma phase_ok_new: "phase_ok (NewEpochStateMachine e None)"
  by (simp add: phase_ok_def NewEpochStateMachine_def AllPhaseIds_def)

section \<open>Properties\<close>

text \<open>C1: an epoch that is past code review got there through the gate: at some earlier point
  of the run it was in the code-review phase with ACCEPT on all three axes and no open
  blocker, and moved from there to the implementation UAT.\<close>

theorem code_review_gate:
  assumes "phase_of (epoch_run (NewEpochStateMachine e None) ops) \<in> after_code_review"
    and "count_new_blockers ops < 2 ^ 63"
  shows "\<exists>pre op post. ops = pre @ op # post \<and>
    (let sm = epoch_run (NewEpochStateMachine e None) pre in
     phase_of sm = PhaseCodeReview \<and> HasConsensus sm \<and> blockers_of sm = 0 \<and>
     phase_of (apply_op sm op) = PhaseImplUAT)"
proof -
  let ?new = "NewEpochStateMachine e None"
  have start: "phase_of ?new \<notin> after_code_review"
    by (simp add: NewEpochStateMachine_def after_code_review_def phase_consts)
  have specs: "sm_specs ?new = PhaseSpecs" by (simp add: NewEpochStateMachine_def)
  obtain pre op post where ops: "ops = pre @ op # post"
    and at: "phase_of (epoch_run ?new pre) = PhaseCodeReview"
      "phase_of (epoch_run ?new (pre @ [op])) = PhaseImplUAT"
      "HasConsensus (epoch_run ?new pre)" "blockers_of (epoch_run ?new pre) \<le> 0"
    using gate_passed [OF start assms(1), of "(PhaseCodeReview, PhaseImplUAT)"]
      after_code_review_entry specs
    by (auto simp: consensusGated_def blockerGated_def)
  have "count_new_blockers pre \<le> count_new_blockers ops"
    by (simp add: ops count_new_blockers_def)
  then have "0 \<le> blockers_of (epoch_run ?new pre)"
    using blockers_bounds [of ?new pre] assms(2) by (simp add: NewEpochStateMachine_def)
  then show ?thesis using ops at
    by (intro exI [of _ pre] exI [of _ op] exI [of _ post]) simp
qed

theorem code_review_gate_witness:
  "\<exists>ops. phase_of (epoch_run (NewEpochStateMachine ''e'' None) ops) \<in> after_code_review \<and>
    (\<exists>pre op post. ops = pre @ op # post \<and>
      (let sm = epoch_run (NewEpochStateMachine ''e'' None) pre in
       phase_of sm = PhaseCodeReview \<and> HasConsensus sm \<and> blockers_of sm = 0 \<and>
       phase_of (apply_op sm op) = PhaseImplUAT))"
proof -
  let ?adv = "\<lambda>p. OpAdvance p ''e'' ''ok'' 0"
  let ?ops = "map ?adv [PhaseElicit, PhasePropose, PhaseReview] @ accept_all @
    map ?adv [PhasePlanReview, PhaseRatify, PhaseHandoff, PhaseImplPlan, PhaseWorkerSlices, PhaseCodeReview] @
    [OpBlocker False, OpBlocker True] @ accept_all @ [?adv PhaseImplUAT]"
  have "phase_of (epoch_run (NewEpochStateMachine ''e'' None) ?ops) = PhaseImplUAT" by code_simp
  then have 1: "phase_of (epoch_run (NewEpochStateMachine ''e'' None) ?ops) \<in> after_code_review"
    by (simp add: after_code_review_def)
  have 2: "count_new_blockers ?ops < 2 ^ 63"
    by (simp add: count_new_blockers_def accept_all_def AllReviewAxes_def)
  show ?thesis using code_review_gate [OF 1 2] 1 by blast
qed

text \<open>C29: an epoch that is past plan review got there with ACCEPT on all three axes.\<close>

theorem plan_review_gate:
  assumes "phase_of (epoch_run (NewEpochStateMachine e None) ops) \<in> after_plan_review"
  shows "\<exists>pre op post. ops = pre @ op # post \<and>
    (let sm = epoch_run (NewEpochStateMachine e None) pre in
     phase_of sm = PhaseReview \<and> HasConsensus sm \<and> phase_of (apply_op sm op) = PhasePlanReview)"
proof -
  let ?new = "NewEpochStateMachine e None"
  have start: "phase_of ?new \<notin> after_plan_review"
    by (simp add: NewEpochStateMachine_def after_plan_review_def phase_consts)
  have specs: "sm_specs ?new = PhaseSpecs" by (simp add: NewEpochStateMachine_def)
  show ?thesis
    using gate_passed [OF start assms, of "(PhaseReview, PhasePlanReview)"]
      after_plan_review_entry specs
    by (fastforce simp: consensusGated_def)
qed

theorem plan_review_gate_witness:
  "\<exists>pre op post. map (\<lambda>p. OpAdvance p ''e'' ''ok'' 0) [PhaseElicit, PhasePropose, PhaseReview] @
      accept_all @ [OpAdvance PhasePlanReview ''e'' ''ok'' 0] = pre @ op # post \<and>
    (let sm = epoch_run (NewEpochStateMachine ''e'' None) pre in
     phase_of sm = PhaseReview \<and> HasConsensus sm \<and> phase_of (apply_op sm op) = PhasePlanReview)"
proof (rule plan_review_gate)
  have "phase_of (epoch_run (NewEpochStateMachine ''e'' None)
      (map (\<lambda>p. OpAdvance p ''e'' ''ok'' 0) [PhaseElicit, PhasePropose, PhaseReview] @
      accept_all @ [OpAdvance PhasePlanReview ''e'' ''ok'' 0])) = PhasePlanReview"
    by code_simp
  then show "phase_of (epoch_run (NewEpochStateMachine ''e'' None)
      (map (\<lambda>p. OpAdvance p ''e'' ''ok'' 0) [PhaseElicit, PhasePropose, PhaseReview] @
      accept_all @ [OpAdvance PhasePlanReview ''e'' ''ok'' 0])) \<in> after_plan_review"
    by (simp add: after_plan_review_def)
qed

text \<open>C26: after any sequence of operations, with any transition table, the list of available
  transitions holds exactly the targets for which an advance would be accepted: the filter
  of the query surface and the validation of the command agree.\<close>

theorem available_transitions_exact:
  "to \<in> set (AvailableTransitions (epoch_run (NewEpochStateMachine e specs) ops)) \<longleftrightarrow>
   is_ok (fst (Advance (epoch_run (NewEpochStateMachine e specs) ops) to by cond ts))"
  by (simp add: available_iff_valid epoch_votes.inv_run votes_ok_new Advance_fst_Ok_iff)

text \<open>With a REVISE recorded, a review phase offers its backward transition only.\<close>

theorem revise_drives_back:
  assumes "sm = epoch_run (NewEpochStateMachine e None) ops" "hasAnyRevise sm"
  shows "(phase_of sm = PhaseReview \<longrightarrow> AvailableTransitions sm = [PhasePropose]) \<and>
    (phase_of sm = PhaseCodeReview \<longrightarrow> AvailableTransitions sm = [PhaseWorkerSlices])"
proof -
  have "sm_specs sm = PhaseSpecs" using assms(1) by (simp add: NewEpochStateMachine_def)
  then show ?thesis using assms(2)
    by (auto simp: AvailableTransitions_def reviseDrivesBackPhases_def consensusGated_def
        blockerGated_def Let_def)
      (simp_all add: phase_consts)
qed

theorem revise_drives_back_witness:
  "AvailableTransitions (epoch_run (NewEpochStateMachine ''e'' None)
     (map (\<lambda>p. OpAdvance p [] [] 0) [PhaseElicit, PhasePropose, PhaseReview] @ accept_all @
      [OpVote AxisElegance VoteRevise])) = [PhasePropose]"
proof -
  let ?sm = "epoch_run (NewEpochStateMachine ''e'' None)
     (map (\<lambda>p. OpAdvance p [] [] 0) [PhaseElicit, PhasePropose, PhaseReview] @ accept_all @
      [OpVote AxisElegance VoteRevise])"
  have "hasAnyRevise ?sm" "phase_of ?sm = PhaseReview" by code_simp+
  then show ?thesis using revise_drives_back [OF refl, of "''e''"] by blast
qed

text \<open>In every reachable state the successful records of the history form a chain from the
  request phase to the current phase along the transition table, and the completed phases
  are the phases that chain left, in order.\<close>

theorem epoch_history_consistent:
  "let sm = epoch_run (NewEpochStateMachine e specs) ops; hist = taken (sm_state sm) in
    phase_chain PhaseRequest hist (phase_of sm) \<and>
    CompletedPhases (sm_state sm) = map tr_FromPhase hist \<and>
    list_all (\<lambda>r. case sm_specs sm (tr_FromPhase r) of None \<Rightarrow> False
      | Some spec \<Rightarrow> tr_ToPhase r \<in> set (Transitions spec)) hist"
  using epoch_history.inv_run [OF history_ok_new, of e specs ops]
  by (simp add: history_ok_def Let_def)

text \<open>An epoch is never stuck: from every reachable state some sequence of operations
  leads to the terminal phase, whatever votes, blockers and failed attempts it carries.\<close>

theorem epoch_can_complete:
  "\<exists>more. phase_of (epoch_run (NewEpochStateMachine e None) (ops @ more)) = PhaseComplete"
proof -
  let ?sm = "epoch_run (NewEpochStateMachine e None) ops"
  have "phase_ok ?sm" by (intro epoch_phase.inv_run phase_ok_new)
  then obtain i where "i < 13" "phase_of ?sm = AllPhaseIds ! i" "sm_specs ?sm = PhaseSpecs"
    unfolding phase_ok_def in_set_conv_nth length_phases by metis
  then show ?thesis
    using can_complete [of ?sm i] epoch_blockers.inv_run [OF blockers_fit_new] by simp
qed

text \<open>The terminal phase is final, and a refused advance changes nothing: it reports at
  least one violation and leaves the whole machine as it was; an accepted one moves to its
  target, appends its record and the phase left, and clears the votes and the last error.\<close>

theorem advance_is_atomic:
  "(phase_of sm = PhaseComplete \<longrightarrow> phase_of (epoch_run sm ops) = PhaseComplete) \<and>
   (case Advance sm to by cond ts of
      (Err e, sm') \<Rightarrow> sm' = sm \<and> Violations e \<noteq> [] \<and> Violations e = ValidateAdvance sm to
    | (Ok r, sm') \<Rightarrow> phase_of sm' = to \<and> ReviewVotes (sm_state sm') = [] \<and> \<not> HasConsensus sm' \<and>
        LastError (sm_state sm') = None \<and> blockers_of sm' = blockers_of sm \<and>
        TransitionHistory (sm_state sm') = TransitionHistory (sm_state sm) @ [r] \<and>
        CompletedPhases (sm_state sm') = CompletedPhases (sm_state sm) @ [phase_of sm])"
proof (intro conjI impI)
  have keep: "phase_of (apply_op s op) = PhaseComplete" if "phase_of s = PhaseComplete" for s op
    using apply_op_phase_change [of s op] that by (auto simp: ValidateAdvance_Nil_iff)
  show "phase_of (epoch_run sm ops) = PhaseComplete" if "phase_of sm = PhaseComplete"
    using that by (induction ops arbitrary: sm) (simp_all add: keep)
next
  show "case Advance sm to by cond ts of
      (Err e, sm') \<Rightarrow> sm' = sm \<and> Violations e \<noteq> [] \<and> Violations e = ValidateAdvance sm to
    | (Ok r, sm') \<Rightarrow> phase_of sm' = to \<and> ReviewVotes (sm_state sm') = [] \<and> \<not> HasConsensus sm' \<and>
        LastError (sm_state sm') = None \<and> blockers_of sm' = blockers_of sm \<and>
        TransitionHistory (sm_state sm') = TransitionHistory (sm_state sm) @ [r] \<and>
        CompletedPhases (sm_state sm') = CompletedPhases (sm_state sm) @ [phase_of sm]"
    by (auto simp: Advance_def Let_def HasConsensus_def AllReviewAxes_def)
qed

theorem advance_is_atomic_witness:
  "phase_of (epoch_run ((NewEpochStateMachine ''e'' None)\<lparr>sm_state :=
      (sm_state (NewEpochStateMachine ''e'' None))\<lparr>CurrentPhase := PhaseComplete\<rparr>\<rparr>)
     [OpAdvance PhaseRequest [] [] 0, OpVote AxisElegance VoteAccept]) = PhaseComplete"
  by (rule advance_is_atomic [THEN conjunct1, rule_format]) simp

text \<open>C8: the blocker counter never goes below zero and never above the number of blockers
  reported, as long as fewer than \<open>2 ^ 63\<close> are reported in all.\<close>

theorem blocker_counter_bounds:
  assumes "count_new_blockers ops < 2 ^ 63"
  shows "0 \<le> blockers_of (epoch_run (NewEpochStateMachine e specs) ops) \<and>
    blockers_of (epoch_run (NewEpochStateMachine e specs) ops) \<le> int (count_new_blockers ops)"
  using blockers_bounds [of "NewEpochStateMachine e specs" ops] assms
  by (simp add: NewEpochStateMachine_def)

theorem blocker_counter_bounds_witness:
  "0 \<le> blockers_of (epoch_run (NewEpochStateMachine ''e'' None)
     [OpBlocker True, OpBlocker False, OpBlocker False, OpBlocker True])"
  using blocker_counter_bounds [of "[OpBlocker True, OpBlocker False, OpBlocker False, OpBlocker True]" "''e''" None]
  by (simp add: count_new_blockers_def)

text \<open>A review round exits cleanly exactly when every axis accepted and neither a blocker
  nor an important finding was counted.\<close>

theorem clean_exit_iff:
  "IsCleanExit r \<longleftrightarrow>
     {ax. map_of (rc_Votes r) ax = Some VoteAccept} \<supseteq> {ax. ReviewAxis_IsValid ax} \<and>
     map_of (rc_FindingCounts r) SeverityBlocker \<in> {None, Some 0} \<and>
     map_of (rc_FindingCounts r) SeverityImportant \<in> {None, Some 0}"
proof -
  have "(case map_of (rc_FindingCounts r) s of None \<Rightarrow> 0 | Some n \<Rightarrow> n) = 0 \<longleftrightarrow>
      map_of (rc_FindingCounts r) s \<in> {None, Some 0}" for s
    by (cases "map_of (rc_FindingCounts r) s") auto
  moreover have "(case map_of (rc_Votes r) ax of None \<Rightarrow> [] = VoteAccept | Some v \<Rightarrow> v = VoteAccept) \<longleftrightarrow>
      map_of (rc_Votes r) ax = Some VoteAccept" for ax
    by (cases "map_of (rc_Votes r) ax") (auto simp: VoteAccept_def)
  ultimately show ?thesis
    by (auto simp: IsCleanExit_def axis.valid_iff list_all_iff)
qed

end
