(* ===== verification/AuditTrail.thy ===== *)
theory AuditTrail
  imports Protocol "HOL-Library.Sublist"
begin

text \<open>
  The audit trail of \<^verbatim>\<open>internal/audit\<close>: the in-memory implementation
  (\<^verbatim>\<open>memory.go\<close>) and the SQLite one (\<^verbatim>\<open>sqlite.go\<close>, \<^verbatim>\<open>query.go\<close>), whose
  tables are modelled as lists of rows in insertion order.  A write of the SQLite trail is
  one transaction: its statements act on a copy of the tables, which replaces them when the
  callback returns without an error (the transaction shell itself, with its retries, is in
  theory \<open>AuditWrite\<close>).  Payloads are maps from strings to strings, whose JSON round trip is
  exact, so the payload column holds the map; the writers of the repository put nothing but
  strings into a payload.  A timestamp is its number of nanoseconds, which is what the column
  holds and what is read back.  The UUID generator is a parameter.

  The interface \<open>audit_trail\<close> states what both promise: a write appends at most one
  event, and a query returns the events of an epoch in the order they were written.
\<close>

section \<open>Session entries\<close>

record SessionEntry =
  se_SessionId :: string
  se_EntryIndex :: int
  se_Provider :: string
  se_EntryType :: string
  se_Role :: string
  se_TimestampMs :: "int option"
  se_ContentPreview :: "string option"
  se_TokensIn :: "int option"
  se_TokensOut :: "int option"
  se_HasToolUse :: bool
  se_ToolKind :: "string option"
  se_ToolNamesCsv :: "string option"
  se_HasThinking :: bool
  se_IsError :: bool
  se_StopReason :: "string option"
  se_RawByteLength :: "int option"
  se_ToolCallId :: "string option"
  se_EntryId :: "string option"
  se_ParentEntryId :: "string option"
  se_Depth :: int
  se_ParentIndex :: "int option"
  se_ToolInput :: "string option"
  se_ToolOutput :: "string option"
  se_Extra :: "string option"

section \<open>The in-memory trail\<close>

record InMemoryAuditTrail =
  mem_events :: "AuditEvent list"
  mem_sessionEntries :: "SessionEntry list"
  mem_lastEventId :: int

definition NewInMemoryAuditTrail :: InMemoryAuditTrail where
  "NewInMemoryAuditTrail = \<lparr>mem_events = [], mem_sessionEntries = [], mem_lastEventId = 0\<rparr>"

definition mem_RecordEventReturningId ::
    "InMemoryAuditTrail \<Rightarrow> AuditEvent \<Rightarrow> int \<times> InMemoryAuditTrail" where
  "mem_RecordEventReturningId m event =
     (let n = i64 (mem_lastEventId m + 1) in
      (n, m\<lparr>mem_lastEventId := n, mem_events := mem_events m @ [event\<lparr>ae_ID := n\<rparr>]\<rparr>))"

definition mem_QueryEvents ::
    "InMemoryAuditTrail \<Rightarrow> string \<Rightarrow> PhaseId option \<Rightarrow> string option \<Rightarrow> AuditEvent list" where
  "mem_QueryEvents m epochId phase role =
     filter (\<lambda>ev. ae_EpochId ev = epochId \<and>
        (case phase of None \<Rightarrow> True | Some p \<Rightarrow> ae_Phase ev = p) \<and>
        (case role of None \<Rightarrow> True | Some r \<Rightarrow> ae_Role ev = r)) (mem_events m)"

definition mem_RecordSessionEntries ::
    "InMemoryAuditTrail \<Rightarrow> SessionEntry list \<Rightarrow> InMemoryAuditTrail" where
  "mem_RecordSessionEntries m entries =
     (if entries = [] then m
      else m\<lparr>mem_sessionEntries := mem_sessionEntries m @ entries\<rparr>)"

text \<open>\<^verbatim>\<open>sort.SliceStable\<close> by entry index is the stable insertion sort.\<close>

definition mem_QuerySessionEntries :: "InMemoryAuditTrail \<Rightarrow> string \<Rightarrow> SessionEntry list" where
  "mem_QuerySessionEntries m sessionId =
     sort_key se_EntryIndex (filter (\<lambda>e. se_SessionId e = sessionId) (mem_sessionEntries m))"

section \<open>The SQLite trail\<close>

record event_row =
  er_id :: int
  er_phase :: string
  er_agent_id :: string
  er_event_type :: string
  er_payload :: "(string \<times> string) list"
  er_timestamp :: int
  er_dedup_key :: "string option"

text \<open>The tables; \<open>db_seq\<close> is the \<^verbatim>\<open>AUTOINCREMENT\<close> sequence of
  \<^verbatim>\<open>audit_events\<close>, and session rows carry their row id.\<close>

record AuditDB =
  db_events :: "event_row list"
  db_edges :: "(int \<times> string \<times> string) list"
  db_agents :: "(string \<times> int) list"
  db_agents_software :: "(string \<times> string) list"
  db_seq :: int
  db_session_entries :: "(nat \<times> SessionEntry) list"

record SqliteAuditTrail =
  st_db :: AuditDB
  st_roleToAgentId :: "(string \<times> string) list"

datatype audit_error =
    NoRole string EventType
  | UuidFailed string
  | AgentRefused string
  | AgentNameRefused string
  | InvalidRowId int

definition legacyRoleAgentNamePrefix :: string where
  "legacyRoleAgentNamePrefix = ''pasture/legacy-role/''"

definition legacyRoleAgentNamespace :: string where
  "legacyRoleAgentNamespace = ''pasture''"

text \<open>The registry lookup by name, software agents (kind 2) only, first match.\<close>

definition find_software_agent :: "AuditDB \<Rightarrow> string \<Rightarrow> string option" where
  "find_software_agent db name =
     (case filter (\<lambda>(aid, n). n = name \<and> map_of (db_agents db) aid = Some 2) (db_agents_software db) of
        [] \<Rightarrow> None | (aid, _) # _ \<Rightarrow> Some aid)"

text \<open>The create branch: both inserts refuse a duplicate primary key, and the name column is
  unique.\<close>

definition mint_legacy_agent :: "string option \<Rightarrow> AuditDB \<Rightarrow> string \<Rightarrow> audit_error + (string \<times> AuditDB)" where
  "mint_legacy_agent newV7 db role =
     (case newV7 of
        None \<Rightarrow> Err (UuidFailed role)
      | Some u \<Rightarrow>
          let agentId = legacyRoleAgentNamespace @ ''/'' @ u; name = legacyRoleAgentNamePrefix @ role in
          if agentId \<in> fst ` set (db_agents db) then Err (AgentRefused role)
          else if agentId \<in> fst ` set (db_agents_software db) \<or> name \<in> snd ` set (db_agents_software db)
          then Err (AgentNameRefused role)
          else Ok (agentId, db\<lparr>db_agents := db_agents db @ [(agentId, 2)],
                 db_agents_software := db_agents_software db @ [(agentId, name)]\<rparr>))"

definition resolveLegacyRoleAgentId ::
    "string option \<Rightarrow> (string \<times> string) list \<Rightarrow> AuditDB \<Rightarrow> string \<Rightarrow>
     audit_error + (string \<times> AuditDB)" where
  "resolveLegacyRoleAgentId newV7 cache db role =
     (case map_of cache role of Some cached \<Rightarrow> Ok (cached, db) | None \<Rightarrow>
      case (if HasPrefix role ''pasture/automaton/'' then find_software_agent db role else None) of
        Some direct \<Rightarrow> Ok (direct, db)
      | None \<Rightarrow>
        (case find_software_agent db (legacyRoleAgentNamePrefix @ role) of
           Some existing \<Rightarrow> Ok (existing, db)
         | None \<Rightarrow> mint_legacy_agent newV7 db role))"

text \<open>The rows that already carry the deduplication key of an event; an empty key is
  \<open>NULL\<close>, which the partial index ignores.\<close>

definition replay_of :: "AuditDB \<Rightarrow> AuditEvent \<Rightarrow> event_row list" where
  "replay_of db event =
     (if ae_DedupKey event = [] then []
      else filter (\<lambda>r. er_dedup_key r = Some (ae_DedupKey event)) (db_events db))"

definition insert_event :: "AuditDB \<Rightarrow> string \<Rightarrow> AuditEvent \<Rightarrow> audit_error + (int \<times> AuditDB)" where
  "insert_event db agentId event =
     (let eventId = i64 (db_seq db + 1);
          row = \<lparr>er_id = eventId, er_phase = ae_Phase event, er_agent_id = agentId,
            er_event_type = ae_EventType event, er_payload = ae_Payload event,
            er_timestamp = ae_Timestamp event,
            er_dedup_key = (if ae_DedupKey event = [] then None else Some (ae_DedupKey event))\<rparr>;
          edge = (eventId, ''EpochContext'', ae_EpochId event) in
      if eventId \<le> 0 then Err (InvalidRowId eventId)
      else Ok (eventId, db\<lparr>
        db_events := db_events db @ [row], db_seq := eventId,
        db_edges := (if ae_EpochId event \<noteq> [] \<and> edge \<notin> set (db_edges db)
                     then db_edges db @ [edge] else db_edges db)\<rparr>))"

text \<open>The callback of the event transaction: resolve the agent, insert unless the
  deduplication key exists, link the epoch.\<close>

definition record_event_tx ::
    "string option \<Rightarrow> (string \<times> string) list \<Rightarrow> AuditDB \<Rightarrow> AuditEvent \<Rightarrow>
     audit_error + (string \<times> int \<times> AuditDB)" where
  "record_event_tx newV7 cache db0 event =
     result_bind (resolveLegacyRoleAgentId newV7 cache db0 (ae_Role event)) (\<lambda>(agentId, db).
       case replay_of db event of
         row # _ \<Rightarrow> Ok (agentId, er_id row, db)
       | [] \<Rightarrow> result_bind (insert_event db agentId event) (\<lambda>(eventId, db'). Ok (agentId, eventId, db')))"

definition RecordEventReturningId ::
    "SqliteAuditTrail \<Rightarrow> string option \<times> AuditEvent \<Rightarrow> (audit_error + int) \<times> SqliteAuditTrail" where
  "RecordEventReturningId s = (\<lambda>(newV7, event).
     if ae_Role event = [] then (Err (NoRole (ae_EpochId event) (ae_EventType event)), s)
     else case record_event_tx newV7 (st_roleToAgentId s) (st_db s) event of
       Err e \<Rightarrow> (Err e, s)
     | Ok (agentId, eventId, db) \<Rightarrow>
         (Ok eventId, s\<lparr>st_db := db,
            st_roleToAgentId := (if agentId \<noteq> [] then AList.update (ae_Role event) agentId (st_roleToAgentId s)
              else st_roleToAgentId s)\<rparr>))"

definition stripLegacyRolePrefix :: "string \<Rightarrow> string" where
  "stripLegacyRolePrefix name =
     (if HasPrefix name legacyRoleAgentNamePrefix then drop (length legacyRoleAgentNamePrefix) name
      else name)"

text \<open>The joined name of a row's agent: \<open>COALESCE(asw.name, '')\<close> of a left join.\<close>

definition agent_name :: "AuditDB \<Rightarrow> string \<Rightarrow> string option" where
  "agent_name db aid = map_of (db_agents_software db) aid"

definition read_event :: "AuditDB \<Rightarrow> string \<Rightarrow> event_row \<Rightarrow> AuditEvent" where
  "read_event db epochId r =
     \<lparr>ae_ID = er_id r, ae_EpochId = epochId, ae_Phase = er_phase r,
      ae_Role = stripLegacyRolePrefix (case agent_name db (er_agent_id r) of None \<Rightarrow> [] | Some n \<Rightarrow> n),
      ae_EventType = er_event_type r, ae_Payload = er_payload r, ae_Timestamp = er_timestamp r,
      ae_DedupKey = []\<rparr>"

definition row_matches :: "AuditDB \<Rightarrow> string \<Rightarrow> PhaseId option \<Rightarrow> string option \<Rightarrow> event_row \<Rightarrow> bool" where
  "row_matches db epochId phase role r \<longleftrightarrow>
     (er_id r, ''EpochContext'', epochId) \<in> set (db_edges db) \<and>
     (case phase of None \<Rightarrow> True | Some p \<Rightarrow> er_phase r = p) \<and>
     (case role of None \<Rightarrow> True
      | Some ro \<Rightarrow> agent_name db (er_agent_id r) = Some (legacyRoleAgentNamePrefix @ ro))"

definition QueryEventsOn ::
    "AuditDB \<Rightarrow> string \<Rightarrow> PhaseId option \<Rightarrow> string option \<Rightarrow> AuditEvent list" where
  "QueryEventsOn db epochId phase role =
     map (read_event db epochId) (sort_key er_id (filter (row_matches db epochId phase role) (db_events db)))"

definition RecordSessionEntries :: "AuditDB \<Rightarrow> SessionEntry list \<Rightarrow> AuditDB" where
  "RecordSessionEntries db entries =
     (if entries = [] then db
      else db\<lparr>db_session_entries := db_session_entries db @
        zip [Suc (length (db_session_entries db))..<Suc (length (db_session_entries db) + length entries)]
          entries\<rparr>)"

text \<open>\<^verbatim>\<open>ORDER BY entry_index ASC, id ASC\<close>: a stable sort by id, then by index.\<close>

definition QuerySessionEntries :: "AuditDB \<Rightarrow> string \<Rightarrow> SessionEntry list" where
  "QuerySessionEntries db sessionId =
     map snd (sort_key (se_EntryIndex \<circ> snd) (sort_key fst
       (filter (\<lambda>(i, e). se_SessionId e = sessionId) (db_session_entries db))))"

definition emptyAuditDB :: AuditDB where
  "emptyAuditDB = \<lparr>db_events = [], db_edges = [], db_agents = [], db_agents_software = [],
     db_seq = 0, db_session_entries = []\<rparr>"

definition NewSqliteAuditTrail :: "AuditDB \<Rightarrow> SqliteAuditTrail" where
  "NewSqliteAuditTrail db = \<lparr>st_db = db, st_roleToAgentId = []\<rparr>"

section \<open>The interface of a trail\<close>

definition selects :: "string \<Rightarrow> PhaseId option \<Rightarrow> AuditEvent \<Rightarrow> bool" where
  "selects epochId phase ev \<longleftrightarrow> ae_EpochId ev = epochId \<and>
     (case phase of None \<Rightarrow> True | Some p \<Rightarrow> ae_Phase ev = p)"

text \<open>The events a sequence of writes appends, given what each single put appends.\<close>

primrec trail_log :: "('t \<Rightarrow> 'i \<Rightarrow> 't) \<Rightarrow> ('t \<Rightarrow> 'i \<Rightarrow> AuditEvent option) \<Rightarrow> 't \<Rightarrow> 'i list \<Rightarrow> AuditEvent list" where
  "trail_log put stored t [] = []"
| "trail_log put stored t (i # is) =
     (case stored t i of None \<Rightarrow> [] | Some ev \<Rightarrow> [ev]) @ trail_log put stored (put t i) is"

locale audit_trail =
  fixes put :: "'t \<Rightarrow> 'i \<Rightarrow> 't"
    and query :: "'t \<Rightarrow> string \<Rightarrow> PhaseId option \<Rightarrow> AuditEvent list"
    and inv :: "'t \<Rightarrow> bool"
    and stored :: "'t \<Rightarrow> 'i \<Rightarrow> AuditEvent option"
  assumes inv_put: "inv t \<Longrightarrow> inv (put t i)"
    and query_put: "inv t \<Longrightarrow> e \<noteq> [] \<Longrightarrow> query (put t i) e p =
      query t e p @ filter (selects e p) (case stored t i of None \<Rightarrow> [] | Some ev \<Rightarrow> [ev])"
begin

lemma inv_puts: "inv t \<Longrightarrow> inv (run put t is)"
  by (induction "is" arbitrary: t) (simp_all add: inv_put)

lemma query_writes:
  "inv t \<Longrightarrow> e \<noteq> [] \<Longrightarrow>
     query (run put t is) e p = query t e p @ filter (selects e p) (trail_log put stored t is)"
  by (induction "is" arbitrary: t) (simp_all add: inv_put query_put)

lemma append_only: "inv t \<Longrightarrow> e \<noteq> [] \<Longrightarrow> prefix (query t e p) (query (run put t is) e p)"
  by (simp add: query_writes)

end

section \<open>The in-memory trail is a trail\<close>

abbreviation mem_write :: "InMemoryAuditTrail \<Rightarrow> AuditEvent \<Rightarrow> InMemoryAuditTrail" where
  "mem_write m ev \<equiv> snd (mem_RecordEventReturningId m ev)"

definition mem_stored :: "InMemoryAuditTrail \<Rightarrow> AuditEvent \<Rightarrow> AuditEvent option" where
  "mem_stored m ev = Some (ev\<lparr>ae_ID := i64 (mem_lastEventId m + 1)\<rparr>)"

interpretation mem: audit_trail mem_write "\<lambda>m e p. mem_QueryEvents m e p None" "\<lambda>_. True" mem_stored
  by unfold_locales
    (simp_all add: mem_RecordEventReturningId_def mem_QueryEvents_def mem_stored_def selects_def Let_def)

section \<open>The SQLite trail is a trail\<close>

lemma HasPrefix_prefix: "HasPrefix s p \<longleftrightarrow> prefix p s"
  by (auto simp: HasPrefix_def prefix_def) (metis append_take_drop_id)

lemma strip_legacy [simp]: "stripLegacyRolePrefix (legacyRoleAgentNamePrefix @ role) = role"
  by (simp add: stripLegacyRolePrefix_def HasPrefix_def)

lemma strip_automaton: "HasPrefix role ''pasture/automaton/'' \<Longrightarrow> stripLegacyRolePrefix role = role"
proof -
  assume "HasPrefix role ''pasture/automaton/''"
  then have "prefix (''pasture/automaton/'') role" by (simp add: HasPrefix_prefix)
  moreover have "\<not> prefix (''pasture/automaton/'') legacyRoleAgentNamePrefix"
    "\<not> prefix legacyRoleAgentNamePrefix (''pasture/automaton/'')"
    by (simp_all add: legacyRoleAgentNamePrefix_def)
  ultimately have "\<not> prefix legacyRoleAgentNamePrefix role"
    using prefix_same_cases by blast
  then show ?thesis by (simp add: stripLegacyRolePrefix_def HasPrefix_prefix)
qed

definition db_ok :: "AuditDB \<Rightarrow> bool" where
  "db_ok db \<longleftrightarrow>
     sorted_wrt (<) (map er_id (db_events db)) \<and>
     (\<forall>r \<in> set (db_events db). 0 < er_id r \<and> er_id r \<le> db_seq db) \<and>
     0 \<le> db_seq db \<and> db_seq db \<le> MaxInt64 \<and>
     (\<forall>(i, k, c) \<in> set (db_edges db). i \<le> db_seq db) \<and>
     distinct (map fst (db_agents_software db)) \<and> [] \<notin> fst ` set (db_agents_software db) \<and>
     (\<forall>r \<in> set (db_events db). agent_name db (er_agent_id r) \<noteq> None) \<and>
     distinct (filter (\<lambda>k. k \<noteq> None) (map er_dedup_key (db_events db)))"

definition cache_ok :: "AuditDB \<Rightarrow> (string \<times> string) list \<Rightarrow> bool" where
  "cache_ok db cache \<longleftrightarrow>
     (\<forall>role aid. map_of cache role = Some aid \<longrightarrow>
        (\<exists>n. agent_name db aid = Some n \<and> stripLegacyRolePrefix n = role))"

definition trail_ok :: "SqliteAuditTrail \<Rightarrow> bool" where
  "trail_ok s \<longleftrightarrow> db_ok (st_db s) \<and> cache_ok (st_db s) (st_roleToAgentId s)"

text \<open>What resolving a role does to the tables: at most two registry rows are added, every
  name already registered stays.\<close>

definition same_but_agents :: "AuditDB \<Rightarrow> AuditDB \<Rightarrow> bool" where
  "same_but_agents db db' \<longleftrightarrow> db_events db' = db_events db \<and> db_edges db' = db_edges db \<and>
     db_seq db' = db_seq db \<and> db_session_entries db' = db_session_entries db \<and>
     (\<forall>aid n. agent_name db aid = Some n \<longrightarrow> agent_name db' aid = Some n) \<and>
     (distinct (map fst (db_agents_software db)) \<longrightarrow> distinct (map fst (db_agents_software db'))) \<and>
     ([] \<notin> fst ` set (db_agents_software db) \<longrightarrow> [] \<notin> fst ` set (db_agents_software db'))"

lemma same_but_agentsD:
  assumes "same_but_agents db db'"
  shows "db_events db' = db_events db" "db_edges db' = db_edges db" "db_seq db' = db_seq db"
    "db_session_entries db' = db_session_entries db"
  using assms by (simp_all add: same_but_agents_def)

lemma find_software_agent_Some:
  "find_software_agent db name = Some aid \<Longrightarrow> (aid, name) \<in> set (db_agents_software db)"
proof -
  let ?f = "filter (\<lambda>(aid, n). n = name \<and> map_of (db_agents db) aid = Some 2) (db_agents_software db)"
  assume "find_software_agent db name = Some aid"
  then obtain n xs where "?f = (aid, n) # xs"
    by (auto simp: find_software_agent_def split: list.splits)
  then have "(aid, n) \<in> set ?f" by (simp only: list.set_intros)
  then show ?thesis by auto
qed

lemma mint_ok:
  assumes "mint_legacy_agent u db role = Ok (aid, db')"
  shows "same_but_agents db db' \<and> (\<exists>n. agent_name db' aid = Some n \<and> stripLegacyRolePrefix n = role)"
proof -
  have new: "aid \<notin> fst ` set (db_agents_software db)" "aid \<noteq> []" and db': "db' = db\<lparr>db_agents := db_agents db @ [(aid, 2)],
      db_agents_software := db_agents_software db @ [(aid, legacyRoleAgentNamePrefix @ role)]\<rparr>"
    using assms by (auto simp: mint_legacy_agent_def Let_def legacyRoleAgentNamespace_def
        split: option.splits if_splits)
  then have none: "map_of (db_agents_software db) aid = None" by (simp add: map_of_eq_None_iff)
  have "agent_name db' x = Some n" if "agent_name db x = Some n" for x n
    using that none by (auto simp: agent_name_def db' map_add_def split: option.splits)
  moreover have "agent_name db' aid = Some (legacyRoleAgentNamePrefix @ role)"
    using none by (simp add: agent_name_def db' map_add_def)
  ultimately show ?thesis using new by (auto simp: same_but_agents_def db')
qed

lemma resolve_ok:
  assumes "resolveLegacyRoleAgentId u cache db role = Ok (aid, db')"
    and "db_ok db" "cache_ok db cache"
  shows "same_but_agents db db' \<and> (\<exists>n. agent_name db' aid = Some n \<and> stripLegacyRolePrefix n = role)"
proof (cases "map_of cache role")
  case (Some a)
  then show ?thesis using assms
    by (auto simp: resolveLegacyRoleAgentId_def cache_ok_def same_but_agents_def)
next
  case None
  have dist: "distinct (map fst (db_agents_software db))" using assms(2) by (simp add: db_ok_def)
  have found: "agent_name db x = Some n" if "find_software_agent db n = Some x" for x n
    using find_software_agent_Some [OF that] dist by (simp add: agent_name_def)
  let ?name = "legacyRoleAgentNamePrefix @ role"
  let ?direct = "if HasPrefix role ''pasture/automaton/'' then find_software_agent db role else None"
  consider (direct) "?direct = Some aid" "db' = db"
    | (existing) "find_software_agent db ?name = Some aid" "db' = db"
    | (minted) "mint_legacy_agent u db role = Ok (aid, db')"
    using assms(1) None unfolding resolveLegacyRoleAgentId_def
    by (cases ?direct; cases "find_software_agent db ?name") simp_all
  then show ?thesis
  proof cases
    case direct
    then have "HasPrefix role ''pasture/automaton/''" "agent_name db aid = Some role"
      using found by (simp_all split: if_splits)
    then show ?thesis using strip_automaton [of role] direct(2) by (simp add: same_but_agents_def)
  next
    case existing
    then show ?thesis using found by (simp add: same_but_agents_def)
  next
    case minted
    then show ?thesis by (rule mint_ok)
  qed
qed

lemma read_event_cong:
  assumes "same_but_agents db db'" "agent_name db (er_agent_id r) \<noteq> None"
  shows "read_event db' e r = read_event db e r"
  using assms by (auto simp: same_but_agents_def read_event_def)

text \<open>A sorted table is read in table order.\<close>

lemma sort_key_id: "sorted_wrt (<) (map f xs) \<Longrightarrow> sort_key f (filter P xs) = filter P xs" for f :: "'a \<Rightarrow> int"
proof -
  assume "sorted_wrt (<) (map f xs)"
  then have "sorted_wrt (<) (map f (filter P xs))"
    by (simp add: sorted_wrt_map sorted_wrt_filter)
  then have "sorted (map f (filter P xs))" by (rule strict_sorted_imp_sorted)
  then show ?thesis by (rule sort_key_id_if_sorted)
qed

lemma QueryEventsOn_ok:
  "db_ok db \<Longrightarrow> QueryEventsOn db e p None =
     map (read_event db e) (filter (row_matches db e p None) (db_events db))"
  by (simp add: QueryEventsOn_def db_ok_def sort_key_id)

definition inserted_row :: "AuditDB \<Rightarrow> string \<Rightarrow> AuditEvent \<Rightarrow> event_row" where
  "inserted_row db agentId event = \<lparr>er_id = db_seq db + 1, er_phase = ae_Phase event,
     er_agent_id = agentId, er_event_type = ae_EventType event, er_payload = ae_Payload event,
     er_timestamp = ae_Timestamp event,
     er_dedup_key = (if ae_DedupKey event = [] then None else Some (ae_DedupKey event))\<rparr>"

lemma record_event_tx_cases:
  assumes "record_event_tx u cache db event = Ok (aid, n, db2)" "db_ok db" "cache_ok db cache"
  obtains db1 where "same_but_agents db db1"
    "\<exists>m. agent_name db1 aid = Some m \<and> stripLegacyRolePrefix m = ae_Role event"
    "\<exists>row rows. replay_of db event = row # rows \<and> n = er_id row \<and> db2 = db1"
  | db1 where "same_but_agents db db1"
    "\<exists>m. agent_name db1 aid = Some m \<and> stripLegacyRolePrefix m = ae_Role event"
    "replay_of db event = []" "n = db_seq db + 1" "db_seq db < MaxInt64"
    "db2 = db1\<lparr>db_events := db_events db @ [inserted_row db aid event], db_seq := db_seq db + 1,
       db_edges := (if ae_EpochId event \<noteq> [] then db_edges db @ [(db_seq db + 1, ''EpochContext'', ae_EpochId event)]
         else db_edges db)\<rparr>"
proof -
  obtain db1 where res: "resolveLegacyRoleAgentId u cache db (ae_Role event) = Ok (aid, db1)"
    and rest: "(case replay_of db1 event of row # _ \<Rightarrow> Ok (aid, er_id row, db1)
       | [] \<Rightarrow> result_bind (insert_event db1 aid event) (\<lambda>(eventId, db'). Ok (aid, eventId, db'))) = Ok (aid, n, db2)"
  proof -
    obtain a db1 where 1: "resolveLegacyRoleAgentId u cache db (ae_Role event) = Ok (a, db1)"
      and 2: "(case replay_of db1 event of row # _ \<Rightarrow> Ok (a, er_id row, db1)
       | [] \<Rightarrow> result_bind (insert_event db1 a event) (\<lambda>(eventId, db'). Ok (a, eventId, db'))) = Ok (aid, n, db2)"
      using assms(1) unfolding record_event_tx_def result_bind_Ok_iff by auto
    have "a = aid" using 2 by (cases "replay_of db1 event") auto
    then show thesis using that 1 2 by blast
  qed
  have same: "same_but_agents db db1"
    and name: "\<exists>m. agent_name db1 aid = Some m \<and> stripLegacyRolePrefix m = ae_Role event"
    using resolve_ok [OF res assms(2,3)] by auto
  have tabs: "db_events db1 = db_events db" "db_seq db1 = db_seq db" "db_edges db1 = db_edges db"
    using same by (auto simp: same_but_agents_def)
  have pos: "0 \<le> db_seq db" "db_seq db \<le> MaxInt64"
    and fresh: "(db_seq db + 1, k, c) \<notin> set (db_edges db)" for k c
    using assms(2) by (auto simp: db_ok_def)
  have rep: "replay_of db1 event = replay_of db event" by (simp add: replay_of_def tabs)
  show thesis
  proof (cases "replay_of db event")
    case Nil
    then have ins: "insert_event db1 aid event = Ok (n, db2)" using rest by (auto simp: rep)
    then have below: "db_seq db < MaxInt64"
      using pos i64_wrap_up [of "db_seq db + 1"]
      by (cases "db_seq db = MaxInt64") (auto simp: insert_event_def Let_def tabs split: if_splits)
    then have n: "i64 (db_seq db + 1) = db_seq db + 1"
      using pos by (intro i64_id) (simp add: fits64_alt)
    from ins
    have "n = db_seq db + 1 \<and> db2 = db1\<lparr>db_events := db_events db @ [inserted_row db aid event],
        db_seq := db_seq db + 1,
        db_edges := (if ae_EpochId event \<noteq> [] then db_edges db @ [(db_seq db + 1, ''EpochContext'', ae_EpochId event)]
         else db_edges db)\<rparr>"
      using pos fresh by (auto simp: insert_event_def Let_def tabs n inserted_row_def split: if_splits)
    then show thesis using that(2) [OF same name Nil _ below] by blast
  next
    case (Cons row rows)
    then have "n = er_id row \<and> db2 = db1" using rest by (auto simp: rep)
    then show thesis using that(1) [OF same name] Cons by blast
  qed
qed

lemma distinct_filter_snoc:
  "distinct (filter P xs) \<Longrightarrow> (P x \<Longrightarrow> x \<notin> set xs) \<Longrightarrow> distinct (filter P (xs @ [x]))"
  by auto

lemma db_ok_record:
  assumes tx: "record_event_tx u cache db event = Ok (aid, n, db2)" "db_ok db" "cache_ok db cache"
  shows "db_ok db2"
  using tx
proof (cases rule: record_event_tx_cases)
  case (1 db1)
  have "\<forall>r \<in> set (db_events db). agent_name db2 (er_agent_id r) \<noteq> None"
    using 1 assms(2) unfolding db_ok_def same_but_agents_def by force
  then show ?thesis using assms(2) 1 by (auto simp: db_ok_def same_but_agents_def)
next
  case (2 db1)
  have key: "er_dedup_key (inserted_row db aid event) \<noteq> None \<Longrightarrow>
      er_dedup_key (inserted_row db aid event) \<notin> set (map er_dedup_key (db_events db))"
    using 2(3) by (auto simp: replay_of_def inserted_row_def filter_empty_conv split: if_splits)
  have tabs: "db_events db2 = db_events db @ [inserted_row db aid event]" "db_seq db2 = db_seq db + 1"
    "set (db_edges db2) \<subseteq> insert (db_seq db + 1, ''EpochContext'', ae_EpochId event) (set (db_edges db))"
    "db_agents_software db2 = db_agents_software db1" "\<And>x. agent_name db2 x = agent_name db1 x"
    by (auto simp: 2(6) agent_name_def)
  have new: "er_id (inserted_row db aid event) = db_seq db + 1" "er_agent_id (inserted_row db aid event) = aid"
    by (simp_all add: inserted_row_def)
  have "sorted_wrt (<) (map er_id (db_events db2))"
    using assms(2) by (auto simp: db_ok_def sorted_wrt_append tabs new)
  moreover have "distinct (filter (\<lambda>k. k \<noteq> None) (map er_dedup_key (db_events db2)))"
    using distinct_filter_snoc [of "\<lambda>k. k \<noteq> None" "map er_dedup_key (db_events db)"
        "er_dedup_key (inserted_row db aid event)"] key assms(2)
    by (auto simp: db_ok_def tabs)
  moreover have "\<forall>r \<in> set (db_events db2). agent_name db2 (er_agent_id r) \<noteq> None"
    using assms(2) 2(1,2) unfolding tabs db_ok_def same_but_agents_def by (auto simp: new)
  moreover have "distinct (map fst (db_agents_software db2)) \<and> [] \<notin> fst ` set (db_agents_software db2)"
    using assms(2) 2(1) unfolding tabs db_ok_def same_but_agents_def by blast
  moreover have "\<forall>(i, k, c) \<in> set (db_edges db2). i \<le> db_seq db2"
    using assms(2) tabs(2,3) unfolding db_ok_def by fastforce
  moreover have "\<forall>r \<in> set (db_events db2). 0 < er_id r \<and> er_id r \<le> db_seq db2"
    using assms(2) unfolding tabs db_ok_def by (auto simp: new)
  moreover have "0 \<le> db_seq db2 \<and> db_seq db2 \<le> MaxInt64"
    using assms(2) 2(5) unfolding tabs db_ok_def by auto
  ultimately show ?thesis unfolding db_ok_def by blast
qed

lemma cache_ok_mono:
  "cache_ok db cache \<Longrightarrow> same_but_agents db db1 \<Longrightarrow> cache_ok db1 cache"
  by (fastforce simp: cache_ok_def same_but_agents_def)

lemma cache_ok_update:
  "cache_ok db cache \<Longrightarrow> agent_name db aid = Some m \<Longrightarrow> stripLegacyRolePrefix m = role \<Longrightarrow>
     cache_ok db (AList.update role aid cache)"
  by (auto simp: cache_ok_def update_conv')

abbreviation sqlite_put :: "SqliteAuditTrail \<Rightarrow> string option \<times> AuditEvent \<Rightarrow> SqliteAuditTrail" where
  "sqlite_put s i \<equiv> snd (RecordEventReturningId s i)"

lemma trail_ok_put: "trail_ok s \<Longrightarrow> trail_ok (sqlite_put s i)"
proof (cases "\<exists>aid n db2. record_event_tx (fst i) (st_roleToAgentId s) (st_db s) (snd i) = Ok (aid, n, db2)")
  case False
  assume "trail_ok s"
  then show ?thesis using False
    by (cases "record_event_tx (fst i) (st_roleToAgentId s) (st_db s) (snd i)")
      (auto simp: RecordEventReturningId_def split: prod.splits)
next
  case True
  assume ok: "trail_ok s"
  obtain aid n db2 where tx: "record_event_tx (fst i) (st_roleToAgentId s) (st_db s) (snd i) = Ok (aid, n, db2)"
    using True by blast
  have inv: "db_ok (st_db s)" "cache_ok (st_db s) (st_roleToAgentId s)"
    using ok by (simp_all add: trail_ok_def)
  obtain m where m: "agent_name db2 aid = Some m" "stripLegacyRolePrefix m = ae_Role (snd i)"
    and c: "cache_ok db2 (st_roleToAgentId s)"
    using tx inv
  proof (cases rule: record_event_tx_cases)
    case (1 db1)
    then show thesis using that cache_ok_mono [OF inv(2) 1(1)] by auto
  next
    case (2 db1)
    then have "agent_name db2 = agent_name db1" by (simp add: agent_name_def fun_eq_iff)
    then show thesis using that cache_ok_mono [OF inv(2) 2(1)] 2(2) by (auto simp: cache_ok_def)
  qed
  show ?thesis
    using db_ok_record [OF tx inv] cache_ok_update [OF c m] c ok tx
    by (auto simp: RecordEventReturningId_def trail_ok_def split: prod.splits)
qed

definition sqlite_stored :: "SqliteAuditTrail \<Rightarrow> string option \<times> AuditEvent \<Rightarrow> AuditEvent option" where
  "sqlite_stored s = (\<lambda>(u, ev).
     if ae_Role ev \<noteq> [] \<and> is_ok (record_event_tx u (st_roleToAgentId s) (st_db s) ev) \<and>
        replay_of (st_db s) ev = []
     then Some (ev\<lparr>ae_ID := db_seq (st_db s) + 1, ae_DedupKey := []\<rparr>) else None)"

lemma map_filter_cong:
  "(\<And>x. x \<in> set xs \<Longrightarrow> P x = Q x) \<Longrightarrow> (\<And>x. x \<in> set xs \<Longrightarrow> f x = g x) \<Longrightarrow>
     map f (filter P xs) = map g (filter Q xs)"
  by (induction xs) auto

text \<open>The rows already in the table are read as before.\<close>

lemma old_rows_unchanged:
  assumes "db_ok db" "same_but_agents db db1" "e \<noteq> []"
    and "\<And>aid. agent_name db2 aid = agent_name db1 aid"
    and "set (db_edges db2) \<subseteq> insert (db_seq db + 1, k, c) (set (db_edges db))"
    and "set (db_edges db) \<subseteq> set (db_edges db2)"
  shows "map (read_event db2 e) (filter (row_matches db2 e p None) (db_events db)) = QueryEventsOn db e p None"
  unfolding QueryEventsOn_ok [OF assms(1)]
proof (rule map_filter_cong)
  fix r
  assume r: "r \<in> set (db_events db)"
  then have "er_id r \<le> db_seq db" "agent_name db (er_agent_id r) \<noteq> None"
    using assms(1) by (auto simp: db_ok_def)
  then show "row_matches db2 e p None r = row_matches db e p None r"
    "read_event db2 e r = read_event db e r"
    using assms(4-6) read_event_cong [OF assms(2), of r e]
    by (auto simp: row_matches_def read_event_def)
qed

lemma sqlite_query_put:
  assumes "trail_ok s" "e \<noteq> []"
  shows "QueryEventsOn (st_db (sqlite_put s i)) e p None =
    QueryEventsOn (st_db s) e p None @
    filter (selects e p) (case sqlite_stored s i of None \<Rightarrow> [] | Some ev \<Rightarrow> [ev])"
proof (cases "ae_Role (snd i) \<noteq> [] \<and> is_ok (record_event_tx (fst i) (st_roleToAgentId s) (st_db s) (snd i))")
  case False
  then show ?thesis
    by (cases "record_event_tx (fst i) (st_roleToAgentId s) (st_db s) (snd i)")
      (auto simp: RecordEventReturningId_def sqlite_stored_def split: prod.splits)
next
  case True
  let ?db = "st_db s"
  obtain aid n db2 where tx: "record_event_tx (fst i) (st_roleToAgentId s) ?db (snd i) = Ok (aid, n, db2)"
    using True by (cases "record_event_tx (fst i) (st_roleToAgentId s) ?db (snd i)") auto
  have inv: "db_ok ?db" "cache_ok ?db (st_roleToAgentId s)"
    using assms(1) by (simp_all add: trail_ok_def)
  have put: "st_db (sqlite_put s i) = db2"
    using True tx by (auto simp: RecordEventReturningId_def split: prod.splits)
  note q2 = QueryEventsOn_ok [OF db_ok_record [OF tx inv]]
  from tx inv show ?thesis
  proof (cases rule: record_event_tx_cases)
    case (1 db1)
    then have "QueryEventsOn db2 e p None = QueryEventsOn ?db e p None"
      using old_rows_unchanged [OF inv(1) 1(1) assms(2), of db2 "[]" "[]" p] q2 [of e p]
      by (auto simp: same_but_agents_def subset_insertI)
    then show ?thesis using 1(3) put by (auto simp: sqlite_stored_def split: prod.splits)
  next
    case (2 db1)
    have name: "agent_name db2 x = agent_name db1 x" for x using 2 by (simp add: agent_name_def)
    let ?row = "inserted_row ?db aid (snd i)"
    have "set (db_edges db2) \<subseteq> insert (db_seq ?db + 1, ''EpochContext'', ae_EpochId (snd i)) (set (db_edges ?db))"
      "set (db_edges ?db) \<subseteq> set (db_edges db2)" "db_events db2 = db_events ?db @ [?row]"
      by (auto simp: 2(6))
    then have "QueryEventsOn db2 e p None = QueryEventsOn ?db e p None @
        map (read_event db2 e) (filter (row_matches db2 e p None) [?row])"
      using old_rows_unchanged [OF inv(1) 2(1) assms(2) name] q2 [of e p] by simp
    moreover have "(db_seq ?db + 1, k, c) \<notin> set (db_edges ?db)" for k c
      using inv(1) by (auto simp: db_ok_def)
    then have "row_matches db2 e p None ?row \<longleftrightarrow> selects e p (snd i)"
      using assms(2)
      by (auto simp: 2(6) row_matches_def selects_def inserted_row_def split: option.splits)
    moreover have "read_event db2 e ?row = (snd i)\<lparr>ae_ID := db_seq ?db + 1, ae_DedupKey := []\<rparr>"
      if "ae_EpochId (snd i) = e"
      using 2(2) that name by (auto simp: read_event_def inserted_row_def)
    moreover have "sqlite_stored s i = Some ((snd i)\<lparr>ae_ID := db_seq ?db + 1, ae_DedupKey := []\<rparr>)"
      using 2(3) True by (cases i) (simp add: sqlite_stored_def)
    moreover have "selects e p (ev\<lparr>ae_ID := k, ae_DedupKey := d\<rparr>) = selects e p ev" for ev :: AuditEvent and k d
      by (simp add: selects_def split: option.split)
    ultimately show ?thesis using put by (simp add: selects_def)
  qed
qed

interpretation sqlite: audit_trail sqlite_put "\<lambda>s e p. QueryEventsOn (st_db s) e p None" trail_ok sqlite_stored
  by unfold_locales (rule trail_ok_put, assumption, rule sqlite_query_put)

lemma trail_ok_new: "trail_ok (NewSqliteAuditTrail emptyAuditDB)"
  by (simp add: trail_ok_def NewSqliteAuditTrail_def emptyAuditDB_def db_ok_def cache_ok_def)

section \<open>Replays\<close>

text \<open>A write that succeeds leaves its role in the cache, and neither the cached roles nor
  the rows of the table ever go away.\<close>

lemma put_ok_cached:
  assumes "trail_ok s" "RecordEventReturningId s (u, ev) = (Ok n, s')"
  shows "map_of (st_roleToAgentId s') (ae_Role ev) \<noteq> None"
proof -
  obtain aid db2 where tx: "record_event_tx u (st_roleToAgentId s) (st_db s) ev = Ok (aid, n, db2)"
    and s': "s' = s\<lparr>st_db := db2, st_roleToAgentId := (if aid \<noteq> []
      then AList.update (ae_Role ev) aid (st_roleToAgentId s) else st_roleToAgentId s)\<rparr>"
    using assms(2) by (auto simp: RecordEventReturningId_def split: if_splits sum.splits)
  have inv: "db_ok (st_db s)" "cache_ok (st_db s) (st_roleToAgentId s)"
    using assms(1) by (simp_all add: trail_ok_def)
  have "agent_name db2 aid \<noteq> None"
    using tx inv
  proof (cases rule: record_event_tx_cases)
    case (2 db1)
    then have "agent_name db2 = agent_name db1" by (simp add: agent_name_def fun_eq_iff)
    then show ?thesis using 2(2) by auto
  qed auto
  then have "aid \<in> fst ` set (db_agents_software db2)"
    by (auto simp: agent_name_def map_of_eq_None_iff)
  moreover have "[] \<notin> fst ` set (db_agents_software db2)"
    using db_ok_record [OF tx inv] by (simp add: db_ok_def)
  ultimately have "aid \<noteq> []" by blast
  then show ?thesis by (simp add: s' update_conv')
qed

lemma put_grows:
  assumes "trail_ok s"
  shows "prefix (db_events (st_db s)) (db_events (st_db (sqlite_put s i))) \<and>
    dom (map_of (st_roleToAgentId s)) \<subseteq> dom (map_of (st_roleToAgentId (sqlite_put s i)))"
proof (cases "record_event_tx (fst i) (st_roleToAgentId s) (st_db s) (snd i)")
  case (Inl e)
  then show ?thesis by (auto simp: RecordEventReturningId_def split: prod.splits)
next
  case (Inr r)
  obtain aid n db2 where tx: "record_event_tx (fst i) (st_roleToAgentId s) (st_db s) (snd i) = Ok (aid, n, db2)"
    using Inr by (cases r) auto
  have inv: "db_ok (st_db s)" "cache_ok (st_db s) (st_roleToAgentId s)"
    using assms(1) by (simp_all add: trail_ok_def)
  have "prefix (db_events (st_db s)) (db_events db2)"
    using tx inv by (cases rule: record_event_tx_cases) (auto simp: same_but_agents_def)
  then show ?thesis using tx
    by (auto simp: RecordEventReturningId_def update_conv' split: prod.splits)
qed

lemma puts_grow:
  assumes "trail_ok s"
  shows "prefix (db_events (st_db s)) (db_events (st_db (run sqlite_put s is))) \<and>
    dom (map_of (st_roleToAgentId s)) \<subseteq> dom (map_of (st_roleToAgentId (run sqlite_put s is)))"
  using assms
proof (induction "is" arbitrary: s)
  case (Cons i "is")
  then show ?case
    using put_grows [OF Cons.prems, of i] Cons.IH [OF trail_ok_put [OF Cons.prems, of i]]
    unfolding run_simps by (meson order_trans prefix_order.trans)
qed simp

text \<open>A row with the key is in the table after a successful write, under the id returned.\<close>

lemma put_ok_row:
  assumes "trail_ok s" "RecordEventReturningId s (u, ev) = (Ok n, s')" "ae_DedupKey ev \<noteq> []"
  shows "\<exists>row \<in> set (db_events (st_db s')). er_dedup_key row = Some (ae_DedupKey ev) \<and> er_id row = n"
proof -
  obtain aid db2 where tx: "record_event_tx u (st_roleToAgentId s) (st_db s) ev = Ok (aid, n, db2)"
    and s': "st_db s' = db2"
    using assms(2) by (auto simp: RecordEventReturningId_def split: if_splits sum.splits)
  have inv: "db_ok (st_db s)" "cache_ok (st_db s) (st_roleToAgentId s)"
    using assms(1) by (simp_all add: trail_ok_def)
  from tx inv show ?thesis
  proof (cases rule: record_event_tx_cases)
    case (1 db1)
    then obtain row rows where rep: "replay_of (st_db s) ev = row # rows" "n = er_id row" "db2 = db1" by auto
    then have "row \<in> set (replay_of (st_db s) ev)" by simp
    then show ?thesis using assms(3) s' rep(2,3)
      by (auto simp: replay_of_def same_but_agentsD [OF 1(1)] simp del: filter_set)
  next
    case (2 db1)
    then show ?thesis using assms(3) s' by (auto simp: inserted_row_def)
  qed
qed

text \<open>In a table with unique keys the rows with a given key are that one row.\<close>

lemma unique_key_filter:
  assumes "distinct (filter (\<lambda>k. k \<noteq> None) (map er_dedup_key rows))"
    and "row \<in> set rows" "er_dedup_key row = Some k"
  shows "filter (\<lambda>r. er_dedup_key r = Some k) rows = [row]"
  using assms
proof (induction rows)
  case (Cons r rows)
  have none: "filter (\<lambda>r. er_dedup_key r = Some k) rows = []" if "er_dedup_key r = Some k"
    using Cons.prems(1) that by (force simp: filter_empty_conv)
  show ?case
  proof (cases "er_dedup_key r = Some k")
    case True
    then have "row = r" using Cons.prems(2,3) none by (auto simp: filter_empty_conv)
    then show ?thesis using True none by simp
  next
    case False
    then show ?thesis using Cons by (auto split: if_splits)
  qed
qed simp

lemma replay_returns_same:
  assumes "trail_ok s" "ae_Role ev \<noteq> []" "ae_DedupKey ev \<noteq> []"
    and "map_of (st_roleToAgentId s) (ae_Role ev) = Some aid"
    and "row \<in> set (db_events (st_db s))" "er_dedup_key row = Some (ae_DedupKey ev)"
  shows "fst (RecordEventReturningId s (u, ev)) = Ok (er_id row) \<and>
    st_db (sqlite_put s (u, ev)) = st_db s"
proof -
  have "distinct (filter (\<lambda>k. k \<noteq> None) (map er_dedup_key (db_events (st_db s))))"
    using assms(1) by (simp add: trail_ok_def db_ok_def)
  then have "replay_of (st_db s) ev = [row]"
    using unique_key_filter [OF _ assms(5,6)] assms(3) by (simp add: replay_of_def)
  then show ?thesis using assms(2,4)
    by (simp add: RecordEventReturningId_def record_event_tx_def resolveLegacyRoleAgentId_def)
qed

section \<open>Session entries\<close>

lemma map_insort_key: "map f (insort_key (\<lambda>a. g (f a)) x xs) = insort_key g (f x) (map f xs)"
  by (induction xs) simp_all

lemma map_sort_key: "map f (sort_key (g \<circ> f) xs) = sort_key g (map f xs)"
  by (induction xs) (simp_all add: map_insort_key)

definition sessions_numbered :: "AuditDB \<Rightarrow> bool" where
  "sessions_numbered db \<longleftrightarrow>
     map fst (db_session_entries db) = [1..<Suc (length (db_session_entries db))]"

lemma RecordSessionEntries_numbered:
  "sessions_numbered db \<Longrightarrow> sessions_numbered (RecordSessionEntries db es)"
  using upt_add_eq_append [of 1 "Suc (length (db_session_entries db))" "length es"]
  by (simp add: sessions_numbered_def RecordSessionEntries_def del: upt_Suc)

lemma RecordSessionEntries_snd:
  "map snd (db_session_entries (RecordSessionEntries db es)) = map snd (db_session_entries db) @ es"
  by (simp add: RecordSessionEntries_def del: upt_Suc)

lemma QuerySessionEntries_snd:
  assumes "sessions_numbered db"
  shows "QuerySessionEntries db sid =
    sort_key se_EntryIndex (filter (\<lambda>e. se_SessionId e = sid) (map snd (db_session_entries db)))"
proof -
  let ?f = "filter (\<lambda>(i, e). se_SessionId e = sid) (db_session_entries db)"
  have "sorted_wrt (<) (map fst (db_session_entries db))"
    using assms by (simp add: sessions_numbered_def del: upt_Suc)
  then have "sorted (map fst ?f)"
    by (intro strict_sorted_imp_sorted) (simp add: sorted_wrt_map sorted_wrt_filter)
  then have "QuerySessionEntries db sid = map snd (sort_key (se_EntryIndex \<circ> snd) ?f)"
    by (simp add: QuerySessionEntries_def sort_key_id_if_sorted)
  also have "\<dots> = sort_key se_EntryIndex (map snd ?f)" by (rule map_sort_key)
  finally show ?thesis by (simp add: filter_map case_prod_unfold comp_def)
qed

section \<open>Properties\<close>

text \<open>C30: the SQLite trail is append-only and loses nothing: after any sequence of writes, a
  query for an epoch returns, in order and with their roles, exactly the events whose write
  was accepted and was not a replay.\<close>

theorem sqlite_trail_contents:
  assumes "e \<noteq> []"
  shows "QueryEventsOn (st_db (run sqlite_put (NewSqliteAuditTrail emptyAuditDB) is)) e p None =
      filter (selects e p) (trail_log sqlite_put sqlite_stored (NewSqliteAuditTrail emptyAuditDB) is) \<and>
    prefix (QueryEventsOn (st_db (run sqlite_put (NewSqliteAuditTrail emptyAuditDB) is)) e p None)
      (QueryEventsOn (st_db (run sqlite_put (NewSqliteAuditTrail emptyAuditDB) (is @ rest))) e p None)"
proof -
  let ?new = "NewSqliteAuditTrail emptyAuditDB"
  have "QueryEventsOn (st_db ?new) e p None = []"
    by (simp add: QueryEventsOn_def NewSqliteAuditTrail_def emptyAuditDB_def)
  then show ?thesis
    using sqlite.query_writes [OF trail_ok_new assms, of "is" p]
      sqlite.append_only [OF sqlite.inv_puts [OF trail_ok_new, of "is"] assms, of p rest]
    by simp
qed

theorem sqlite_trail_contents_witness:
  "QueryEventsOn (st_db (run sqlite_put (NewSqliteAuditTrail emptyAuditDB)
     [(Some ''u'', \<lparr>ae_ID = 0, ae_EpochId = ''e'', ae_Phase = PhaseReview, ae_Role = ''reviewer'',
        ae_EventType = EventVoteRecorded, ae_Payload = [], ae_Timestamp = 1, ae_DedupKey = ''k''\<rparr>)])) ''e'' None None =
   [\<lparr>ae_ID = 1, ae_EpochId = ''e'', ae_Phase = PhaseReview, ae_Role = ''reviewer'',
        ae_EventType = EventVoteRecorded, ae_Payload = [], ae_Timestamp = 1, ae_DedupKey = []\<rparr>]"
proof -
  let ?i = "(Some ''u'', \<lparr>ae_ID = 0, ae_EpochId = ''e'', ae_Phase = PhaseReview, ae_Role = ''reviewer'',
        ae_EventType = EventVoteRecorded, ae_Payload = [], ae_Timestamp = 1, ae_DedupKey = ''k''\<rparr>)"
  have "filter (selects ''e'' None) (trail_log sqlite_put sqlite_stored (NewSqliteAuditTrail emptyAuditDB) [?i]) =
    [\<lparr>ae_ID = 1, ae_EpochId = ''e'', ae_Phase = PhaseReview, ae_Role = ''reviewer'',
        ae_EventType = EventVoteRecorded, ae_Payload = [], ae_Timestamp = 1, ae_DedupKey = []\<rparr>]"
    by code_simp
  then show ?thesis using sqlite_trail_contents [of "''e''" "[?i]" None "[]"] by simp
qed



text \<open>The two backends return the same session entries in the same order, after any
  sequence of batches.\<close>

theorem session_entries_backends_agree:
  "QuerySessionEntries (foldl RecordSessionEntries emptyAuditDB batches) sid =
   mem_QuerySessionEntries (foldl mem_RecordSessionEntries NewInMemoryAuditTrail batches) sid"
proof -
  have "sessions_numbered (foldl RecordSessionEntries db batches) \<and>
      map snd (db_session_entries (foldl RecordSessionEntries db batches)) =
        map snd (db_session_entries db) @ concat batches"
    if "sessions_numbered db" for db
    using that
    by (induction batches arbitrary: db)
      (simp_all add: RecordSessionEntries_numbered RecordSessionEntries_snd)
  moreover have "sessions_numbered emptyAuditDB"
    by (simp add: sessions_numbered_def emptyAuditDB_def)
  moreover have "mem_sessionEntries (foldl mem_RecordSessionEntries m batches) = mem_sessionEntries m @ concat batches" for m
    by (induction batches arbitrary: m) (simp_all add: mem_RecordSessionEntries_def)
  ultimately show ?thesis
    by (simp add: QuerySessionEntries_snd mem_QuerySessionEntries_def NewInMemoryAuditTrail_def emptyAuditDB_def)
qed

text \<open>The role filter of the SQLite query does not find the events of a registered
  automaton: such an event is returned by the unfiltered query with its role, but a query
  filtered by that very role, which the in-memory trail answers, returns nothing.\<close>

theorem role_filter_misses_automata:
  "\<exists>db ev role. let s = sqlite_put (NewSqliteAuditTrail db) (None, ev) in
     db_ok db \<and> ae_Role ev = role \<and>
     map ae_Role (QueryEventsOn (st_db s) (ae_EpochId ev) None None) = [role] \<and>
     QueryEventsOn (st_db s) (ae_EpochId ev) None (Some role) = [] \<and>
     map ae_Role (mem_QueryEvents (mem_write NewInMemoryAuditTrail ev) (ae_EpochId ev) None (Some role)) = [role]"
proof -
  let ?role = "''pasture/automaton/gate''"
  let ?db = "emptyAuditDB\<lparr>db_agents := [(''a'', 2)], db_agents_software := [(''a'', ?role)]\<rparr>"
  let ?ev = "\<lparr>ae_ID = 0, ae_EpochId = ''e'', ae_Phase = PhaseReview, ae_Role = ?role,
        ae_EventType = EventConstraintChecked, ae_Payload = [], ae_Timestamp = 1, ae_DedupKey = []\<rparr>"
  have "db_ok ?db" by (simp add: db_ok_def emptyAuditDB_def)
  moreover have "map ae_Role (QueryEventsOn (st_db (sqlite_put (NewSqliteAuditTrail ?db) (None, ?ev))) ''e'' None None) = [?role]"
    by code_simp
  moreover have "QueryEventsOn (st_db (sqlite_put (NewSqliteAuditTrail ?db) (None, ?ev))) ''e'' None (Some ?role) = []"
    by code_simp
  moreover have "map ae_Role (mem_QueryEvents (mem_write NewInMemoryAuditTrail ?ev) ''e'' None (Some ?role)) = [?role]"
    by code_simp
  ultimately show ?thesis
    by (intro exI [of _ ?db] exI [of _ ?ev] exI [of _ ?role]) simp
qed

end
