(* ===== verification/AuditMigrate.thy ===== *)
theory AuditMigrate
  imports Prelude "HOL-Library.Sublist"
begin

text \<open>
  The schema migrator of \<^verbatim>\<open>internal/audit/migrate.go\<close>, with the dry-run plan of
  \<^verbatim>\<open>plan.go\<close> and the version table of \<^verbatim>\<open>schema_meta.go\<close>.

  The tables a step rewrites are an arbitrary type \<open>'d\<close>, and the schema and data work of
  the step that starts at a version is the parameter \<open>body\<close>: the migrator itself never looks
  into it.  Every step ends by stamping its target version in the same transaction.

  Other processes may run between the lock attempts of this one; what they did to the file
  before a lock was obtained is part of the environment, as are the failures of the driver
  and the cancellation of the caller's context.  The relation \<open>migrators\<close> is what migrators of
  other processes can make of a file; the lemmas show that under it every step is still
  applied once and in order.
\<close>

section \<open>The database file\<close>

text \<open>\<open>meta\<close> is the version table with its rows, absent in a legacy file.\<close>

record 'd versioned_db =
  meta :: "int list option"
  tables :: 'd

definition MaxKnownSchemaVersion :: int where "MaxKnownSchemaVersion = 13"

text \<open>\<open>SELECT MAX(version)\<close>; a missing or empty table is version one.\<close>

definition readVersion :: "'d versioned_db \<Rightarrow> int" where
  "readVersion db = (case meta db of None \<Rightarrow> 1 | Some [] \<Rightarrow> 1 | Some (v # vs) \<Rightarrow> foldl max v vs)"

text \<open>\<open>INSERT OR IGNORE\<close>.\<close>

definition writeVersion :: "int \<Rightarrow> 'd versioned_db \<Rightarrow> 'd versioned_db" where
  "writeVersion v db =
     (let vs = (case meta db of None \<Rightarrow> [] | Some vs \<Rightarrow> vs) in
      db\<lparr>meta := Some (if v \<in> set vs then vs else vs @ [v])\<rparr>)"

section \<open>Steps\<close>

record migrationStep =
  fromVersion :: int
  toVersion :: int

definition migrationSteps :: "migrationStep list" where
  "migrationSteps = map (\<lambda>v. \<lparr>fromVersion = v, toVersion = v + 1\<rparr>) [1, 2, 3, 4, 5, 6, 7, 8, 9, 10, 11, 12]"

datatype migrate_error =
    ContextMissing
  | Cancelled string
  | NewerSchema int int
  | VersionGap int int
  | ChangedUnderneath int
  | LockRefused string
  | StepFailed string
  | CommitFailed

text \<open>The transaction of a step: its body, then the stamp.\<close>

definition step_apply ::
    "(int \<Rightarrow> 'd \<Rightarrow> string + 'd) \<Rightarrow> migrationStep \<Rightarrow> 'd versioned_db \<Rightarrow> migrate_error + 'd versioned_db" where
  "step_apply body step db =
     (case body (fromVersion step) (tables db) of
        Err e \<Rightarrow> Err (StepFailed e)
      | Ok d \<Rightarrow> Ok (writeVersion (toVersion step) (db\<lparr>tables := d\<rparr>)))"

text \<open>What happens around a step: the lock attempt may fail, other processes may have moved
  the file before the lock was obtained, the context may be cancelled at each check, and the
  commit may fail, in which case the driver does not say whether it took effect.\<close>

datatype commit_outcome = Committed | FailedBefore | FailedAfter

record 'd step_env =
  lock_error :: "string option"
  others :: "'d versioned_db \<Rightarrow> 'd versioned_db"
  cancelled_before_apply :: bool
  cancelled_before_commit :: bool
  commit_result :: commit_outcome

text \<open>The result of a step: its error, and the file as it is afterwards.\<close>

definition runStep ::
    "(int \<Rightarrow> 'd \<Rightarrow> string + 'd) \<Rightarrow> 'd step_env \<Rightarrow> migrationStep \<Rightarrow> 'd versioned_db \<Rightarrow>
     migrate_error option \<times> 'd versioned_db" where
  "runStep body env step db0 =
     (let db = others env db0 in
      case lock_error env of Some e \<Rightarrow> (Some (LockRefused e), db) | None \<Rightarrow>
      let current = readVersion db in
      if current \<ge> toVersion step then (None, db)
      else if current \<noteq> fromVersion step then (Some (ChangedUnderneath current), db)
      else if cancelled_before_apply env then (Some (Cancelled ''before applying step''), db)
      else case step_apply body step db of
        Err e \<Rightarrow> (Some e, db)
      | Ok db' \<Rightarrow>
          if cancelled_before_commit env then (Some (Cancelled ''before step commit''), db)
          else case commit_result env of
            Committed \<Rightarrow> (None, db')
          | FailedBefore \<Rightarrow> (Some CommitFailed, db)
          | FailedAfter \<Rightarrow> (Some CommitFailed, db'))"

text \<open>The loop over the registry; \<open>cancelled\<close> and \<open>env\<close> give the context check and the
  environment of the step that starts at a version.\<close>

fun migrate_loop ::
    "(int \<Rightarrow> 'd \<Rightarrow> string + 'd) \<Rightarrow> (int \<Rightarrow> bool) \<Rightarrow> (int \<Rightarrow> 'd step_env) \<Rightarrow> int \<Rightarrow>
     migrationStep list \<Rightarrow> int \<Rightarrow> 'd versioned_db \<Rightarrow> migrate_error option \<times> 'd versioned_db" where
  "migrate_loop body cancelled env ceiling [] current db = (None, db)"
| "migrate_loop body cancelled env ceiling (step # steps) current db =
     (if cancelled (fromVersion step) then (Some (Cancelled ''before next step''), db)
      else if fromVersion step < current then migrate_loop body cancelled env ceiling steps current db
      else if fromVersion step \<noteq> current then (Some (VersionGap current (fromVersion step)), db)
      else case runStep body (env (fromVersion step)) step db of
        (Some e, db') \<Rightarrow> (Some e, db')
      | (None, db') \<Rightarrow>
          if toVersion step \<ge> ceiling then (None, db')
          else migrate_loop body cancelled env ceiling steps (toVersion step) db')"

definition MigrateContextToCeiling ::
    "(int \<Rightarrow> 'd \<Rightarrow> string + 'd) \<Rightarrow> (int \<Rightarrow> bool) option \<Rightarrow> (int \<Rightarrow> 'd step_env) \<Rightarrow> int \<Rightarrow>
     'd versioned_db \<Rightarrow> migrate_error option \<times> 'd versioned_db" where
  "MigrateContextToCeiling body ctx env ceiling0 db =
     (case ctx of None \<Rightarrow> (Some ContextMissing, db) | Some cancelled \<Rightarrow>
      if cancelled 0 then (Some (Cancelled ''before schema read''), db)
      else
        let ceiling = (if ceiling0 \<le> 0 \<or> ceiling0 > MaxKnownSchemaVersion then MaxKnownSchemaVersion
              else ceiling0);
            current = readVersion db in
        if current > MaxKnownSchemaVersion then (Some (NewerSchema current MaxKnownSchemaVersion), db)
        else if current \<ge> ceiling then (None, db)
        else migrate_loop body cancelled env ceiling migrationSteps current db)"

text \<open>The offline cutover applies the remaining steps in one transaction of its caller.\<close>

fun ceiling_loop ::
    "(int \<Rightarrow> 'd \<Rightarrow> string + 'd) \<Rightarrow> migrationStep list \<Rightarrow> int \<Rightarrow> 'd versioned_db \<Rightarrow>
     migrate_error + 'd versioned_db" where
  "ceiling_loop body [] version db = Ok db"
| "ceiling_loop body (step # steps) version db =
     (if fromVersion step < version then ceiling_loop body steps version db
      else if fromVersion step \<noteq> version then Err (VersionGap version (fromVersion step))
      else result_bind (step_apply body step db) (\<lambda>db'.
        if toVersion step \<ge> MaxKnownSchemaVersion then Ok db'
        else ceiling_loop body steps (toVersion step) db'))"

definition ApplyCeilingInTx ::
    "(int \<Rightarrow> 'd \<Rightarrow> string + 'd) \<Rightarrow> int \<Rightarrow> 'd versioned_db \<Rightarrow> migrate_error + 'd versioned_db" where
  "ApplyCeilingInTx body fromV db =
     (if fromV \<ge> MaxKnownSchemaVersion then Ok db
      else ceiling_loop body migrationSteps fromV db)"

section \<open>The dry-run plan\<close>

record MigrationStepSummary =
  sum_FromVersion :: int
  sum_ToVersion :: int
  sum_Description :: string

definition stepDescription :: "int \<Rightarrow> int \<Rightarrow> string" where
  "stepDescription from to =
     (if from = 1 \<and> to = 2 then ''add the schema-version tracker table (no data is changed)''
      else if from = 2 \<and> to = 3 then ''add the context-edge, agent-category, and known-agent tables, then backfill agent IDs into audit events and drop the legacy role column''
      else if from = 3 \<and> to = 4 then ''backfill epoch IDs into the context-edge table, then drop the legacy epoch_id column''
      else if from = 4 \<and> to = 5 then ''add deterministic deduplication keys to audit events''
      else if from = 5 \<and> to = 6 then ''add content-addressed lifecycle payload storage and replay-derived occurrence projections''
      else if from = 8 \<and> to = 9 then ''remove the retired gate assignment-index tables and triggers; session claims are kept; '' @
        ''an older pasture binary will then refuse this database for every command until it is upgraded''
      else if from = 9 \<and> to = 10 then ''require the slash task-identity format before opening the database; '' @
        ''a populated store must be converted first with 'pasture migrate ids', and '' @
        ''an older pasture binary will then refuse this database for every command until it is upgraded''
      else if from = 10 \<and> to = 11 then ''add independent session prompt, end and resume watermarks and invalidate the session read cache once; '' @
        ''an older pasture binary will then refuse this database for every command until it is upgraded''
      else ''schema migration'')"

fun plan_loop :: "int \<Rightarrow> migrationStep list \<Rightarrow> MigrationStepSummary list" where
  "plan_loop current [] = []"
| "plan_loop current (step # steps) =
     (if fromVersion step < current then plan_loop current steps
      else if fromVersion step \<ge> MaxKnownSchemaVersion then []
      else \<lparr>sum_FromVersion = fromVersion step, sum_ToVersion = toVersion step,
            sum_Description = stepDescription (fromVersion step) (toVersion step)\<rparr> # plan_loop current steps)"

definition PlanMigrations :: "int \<Rightarrow> MigrationStepSummary list" where
  "PlanMigrations currentVersion =
     (if currentVersion \<ge> MaxKnownSchemaVersion then [] else plan_loop currentVersion migrationSteps)"

section \<open>Versions\<close>

lemma foldl_max_bounds: "v \<le> foldl max v vs \<and> (\<forall>w \<in> set vs. w \<le> foldl max v vs)" for v :: int
proof (induction vs arbitrary: v)
  case (Cons w vs)
  have "max v w \<le> foldl max (max v w) vs" "\<forall>u \<in> set vs. u \<le> foldl max (max v w) vs"
    using Cons [of "max v w"] by blast+
  then show ?case by auto
qed simp

lemma readVersion_write:
  assumes "readVersion db < v"
  shows "readVersion (writeVersion v db) = v"
proof (cases "meta db")
  case None
  then show ?thesis by (simp add: readVersion_def writeVersion_def)
next
  case (Some vs)
  show ?thesis
  proof (cases vs)
    case Nil
    then show ?thesis using Some by (simp add: readVersion_def writeVersion_def)
  next
    case (Cons w ws)
    then have lt: "foldl max w ws < v" using assms Some by (simp add: readVersion_def)
    moreover have "v \<notin> set vs" using foldl_max_bounds [of w ws] lt Cons by auto
    ultimately show ?thesis using Some Cons by (simp add: readVersion_def writeVersion_def Let_def)
  qed
qed

lemma readVersion_tables [simp]: "readVersion (db\<lparr>tables := d\<rparr>) = readVersion db"
  by (simp add: readVersion_def)

lemma tables_writeVersion [simp]: "tables (writeVersion v db) = tables db"
  by (simp add: writeVersion_def Let_def)

section \<open>The registry\<close>

definition step_at :: "int \<Rightarrow> migrationStep" where
  "step_at v = \<lparr>fromVersion = v, toVersion = v + 1\<rparr>"

lemma step_at_sel [simp]: "fromVersion (step_at v) = v" "toVersion (step_at v) = v + 1"
  by (simp_all add: step_at_def)

lemma migrationSteps_upto: "migrationSteps = map step_at [1..12]"
proof -
  have "[1..12] = [1, 2, 3, 4, 5, 6, 7, 8, 9, 10, 11, 12 :: int]" by code_simp
  then show ?thesis by (simp add: migrationSteps_def step_at_def)
qed

lemma upto_12: "n \<le> 12 \<Longrightarrow> [n..12] = n # [n + 1..12::int]"
  by (rule upto_rec1)

section \<open>Running the steps\<close>

fun run_bodies :: "(int \<Rightarrow> 'd \<Rightarrow> string + 'd) \<Rightarrow> int list \<Rightarrow> 'd \<Rightarrow> string + 'd" where
  "run_bodies body [] d = Ok d"
| "run_bodies body (v # vs) d = result_bind (body v d) (run_bodies body vs)"

lemma step_apply_ok:
  assumes "step_apply body (step_at v) db = Ok db'" "readVersion db = v"
  shows "body v (tables db) = Ok (tables db') \<and> readVersion db' = v + 1"
  using assms readVersion_write [of "db\<lparr>tables := d\<rparr>" "v + 1" for d]
  by (auto simp: step_apply_def split: sum.splits)

text \<open>A step moves the file over a whole step or not at all.\<close>

lemma runStep_quiet:
  assumes "runStep body env (step_at v) db = (r, db')" "others env = id" "readVersion db = v"
  shows "(r = None \<longrightarrow> readVersion db' = v + 1) \<and>
    (db' = db \<or> (body v (tables db) = Ok (tables db') \<and> readVersion db' = v + 1))"
  using assms step_apply_ok [of body v db]
  by (auto simp: runStep_def Let_def split: option.splits if_splits sum.splits commit_outcome.splits)

lemma runStep_others: "runStep body env step db = runStep body (env\<lparr>others := id\<rparr>) step (others env db)"
  by (simp add: runStep_def Let_def split: option.split sum.split commit_outcome.split)

lemma runStep_reached: "runStep body env (step_at v) db = (None, db') \<Longrightarrow> v + 1 \<le> readVersion db'"
  using step_apply_ok [of body v "others env db"]
  by (auto simp: runStep_def Let_def split: option.splits if_splits sum.splits commit_outcome.splits)

section \<open>Several migrators on one file\<close>

text \<open>What the migrators of other processes make of a file: any of their steps, each with any failures
  of its own, in any order.  The write lock lets one step run at a time, so what a step of another
  process waited for is part of the interleaving and its own \<open>others\<close> does nothing.\<close>

inductive migrators :: "(int \<Rightarrow> 'd \<Rightarrow> string + 'd) \<Rightarrow> 'd versioned_db \<Rightarrow> 'd versioned_db \<Rightarrow> bool"
  for body where
  idle: "migrators body db db"
| step: "migrators body db db1 \<Longrightarrow> 1 \<le> v \<Longrightarrow> v \<le> 12 \<Longrightarrow> others env = id \<Longrightarrow>
    runStep body env (step_at v) db1 = (r, db2) \<Longrightarrow> migrators body db db2"

text \<open>Between the two files whole steps were run, each once and in the order of the registry.\<close>

definition whole_steps :: "(int \<Rightarrow> 'd \<Rightarrow> string + 'd) \<Rightarrow> 'd versioned_db \<Rightarrow> 'd versioned_db \<Rightarrow> bool" where
  "whole_steps body db db' \<longleftrightarrow> readVersion db \<le> readVersion db' \<and>
     run_bodies body [readVersion db..readVersion db' - 1] (tables db) = Ok (tables db')"

lemma run_bodies_append: "run_bodies body (xs @ ys) d = result_bind (run_bodies body xs d) (run_bodies body ys)"
  by (induction xs arbitrary: d) (auto simp: result_bind_def split: sum.split)

lemma whole_steps_snoc:
  assumes "whole_steps body db db1" "body (readVersion db1) (tables db1) = Ok (tables db2)"
    "readVersion db2 = readVersion db1 + 1"
  shows "whole_steps body db db2"
proof -
  have "[readVersion db..readVersion db1] = [readVersion db..readVersion db1 - 1] @ [readVersion db1]"
    using assms(1) by (intro upto_rec2) (simp add: whole_steps_def)
  then show ?thesis using assms by (simp add: whole_steps_def run_bodies_append)
qed

lemma migrators_whole: "migrators body db db' \<Longrightarrow> whole_steps body db db'"
proof (induction rule: migrators.induct)
  case (idle db)
  show ?case by (simp add: whole_steps_def)
next
  case (step db db1 v env r db2)
  show ?case
  proof (cases "db2 = db1")
    case False
    then have "readVersion db1 = v"
      using step.hyps(4,5) by (auto simp: runStep_def Let_def split: option.splits if_splits)
    then show ?thesis
      using runStep_quiet [OF step.hyps(5,4)] False by (intro whole_steps_snoc [OF step.IH]) auto
  qed (use step.IH in simp)
qed

lemma migrators_trans:
  assumes "migrators body db1 db2" "migrators body db db1" shows "migrators body db db2"
  using assms by (induction rule: migrators.induct) (blast intro: migrators.step)+

lemma runStep_migrators:
  assumes "runStep body env (step_at v) db = (r, db')" "migrators body db (others env db)" "1 \<le> v" "v \<le> 12"
  shows "migrators body db db'"
  using migrators.step [OF assms(2,3,4), of "env\<lparr>others := id\<rparr>"] assms(1) runStep_others [of body env] by simp

text \<open>The loop at a step that is due, and past steps that are not.\<close>

lemma migrate_loop_cancelled:
  "n \<le> 12 \<Longrightarrow> cancelled n \<Longrightarrow>
     migrate_loop body cancelled env ceiling (map step_at [n..12]) current db =
       (Some (Cancelled ''before next step''), db)"
  by (simp add: upto_12)

lemma migrate_loop_skip:
  "n \<le> 12 \<Longrightarrow> \<not> cancelled n \<Longrightarrow> n < current \<Longrightarrow>
     migrate_loop body cancelled env ceiling (map step_at [n..12]) current db =
       migrate_loop body cancelled env ceiling (map step_at [n + 1..12]) current db"
  by (simp add: upto_12)

lemma migrate_loop_due:
  "n \<le> 12 \<Longrightarrow> \<not> cancelled n \<Longrightarrow> runStep body (env n) (step_at n) db = (r1, db1) \<Longrightarrow>
     migrate_loop body cancelled env ceiling (map step_at [n..12]) n db =
       (if r1 = None \<and> n + 1 < ceiling
        then migrate_loop body cancelled env ceiling (map step_at [n + 1..12]) (n + 1) db1
        else (r1, db1))"
  by (simp add: upto_12 split: option.split)

text \<open>Without the help of other processes: the file ends at the version of the steps that
  ran, and they ran completely.\<close>

lemma migrate_loop_quiet:
  assumes "migrate_loop body cancelled env ceiling (map step_at [n..12]) current db = (r, db')"
    and "\<And>v. others (env v) = id" "readVersion db = current" "1 \<le> current" "current < ceiling"
      "ceiling \<le> 13" "n \<le> current"
  shows "\<exists>k. current \<le> k \<and> k \<le> ceiling \<and> readVersion db' = k \<and>
    run_bodies body [current..k - 1] (tables db) = Ok (tables db') \<and> (r = None \<longrightarrow> k = ceiling)"
  using assms
proof (induction "nat (13 - n)" arbitrary: n current db)
  case 0
  then show ?case by simp
next
  case (Suc d)
  then have n12: "n \<le> 12" by simp
  have d: "d = nat (13 - (n + 1))" using Suc.hyps(2) n12 by simp
  consider "cancelled n" | "\<not> cancelled n" "n < current" | "\<not> cancelled n" "n = current"
    using Suc.prems by linarith
  then show ?case
  proof cases
    case 1
    then have "r \<noteq> None" "db' = db" using Suc.prems(1) n12 by (auto simp: migrate_loop_cancelled)
    then show ?thesis using Suc.prems by (intro exI [of _ current]) simp
  next
    case 2
    then show ?thesis using Suc.hyps(1) [of "n + 1" current db] Suc.hyps(2) Suc.prems n12
      by (simp add: migrate_loop_skip)
  next
    case 3
    obtain r1 db1 where step: "runStep body (env n) (step_at n) db = (r1, db1)" by fastforce
    have loop: "(if r1 = None \<and> n + 1 < ceiling
        then migrate_loop body cancelled env ceiling (map step_at [n + 1..12]) (n + 1) db1
        else (r1, db1)) = (r, db')"
      using Suc.prems(1) migrate_loop_due [of n cancelled body env db r1 db1 ceiling] n12 3 step by simp
    have moved: "(r1 = None \<longrightarrow> readVersion db1 = n + 1) \<and>
        (db1 = db \<or> (body n (tables db) = Ok (tables db1) \<and> readVersion db1 = n + 1))"
      using runStep_quiet [OF step] Suc.prems 3 by simp
    show ?thesis
    proof (cases "r1 = None \<and> n + 1 < ceiling")
      case False
      then have "db' = db1" "r = r1" using loop by auto
      moreover have "r1 = None \<Longrightarrow> n + 1 = ceiling" using False Suc.prems 3 by simp
      moreover have "readVersion db = n" using Suc.prems 3 by simp
      ultimately show ?thesis using moved Suc.prems 3
        by (cases "readVersion db1 = n + 1")
          (auto intro!: exI [of _ "n + 1"] exI [of _ n])
    next
      case True
      have ver: "readVersion db1 = n + 1" using moved True by simp
      then have body: "body n (tables db) = Ok (tables db1)"
        using moved Suc.prems(3) 3 by auto
      have rest: "migrate_loop body cancelled env ceiling (map step_at [n + 1..12]) (n + 1) db1 = (r, db')"
        using loop True by simp
      obtain k where "n + 1 \<le> k" "k \<le> ceiling" "readVersion db' = k"
        "run_bodies body [n + 1..k - 1] (tables db1) = Ok (tables db')" "r = None \<longrightarrow> k = ceiling"
        using Suc.hyps(1) [OF d rest Suc.prems(2) ver] Suc.prems 3 True by auto
      then show ?thesis using body 3 upto_rec1 [of n "k - 1"]
        by (intro exI [of _ k]) auto
    qed
  qed
qed

lemma migrate_loop_migrators:
  assumes "migrate_loop body cancelled env ceiling (map step_at [n..12]) current db = (r, db')"
    and "\<And>v d. migrators body d (others (env v) d)" "current < ceiling" "ceiling \<le> 13" "1 \<le> n" "n \<le> current"
  shows "migrators body db db' \<and> (r = None \<longrightarrow> ceiling \<le> readVersion db')"
  using assms
proof (induction "nat (13 - n)" arbitrary: n current db)
  case 0
  then show ?case by simp
next
  case (Suc d)
  then have n12: "n \<le> 12" by simp
  have d: "d = nat (13 - (n + 1))" using Suc.hyps(2) n12 by simp
  consider "cancelled n" | "\<not> cancelled n" "n < current" | "\<not> cancelled n" "n = current"
    using Suc.prems by linarith
  then show ?case
  proof cases
    case 1
    then show ?thesis using Suc.prems(1) n12 by (auto simp: migrate_loop_cancelled intro: migrators.idle)
  next
    case 2
    then show ?thesis using Suc.hyps(1) [of "n + 1" current db] Suc.hyps(2) Suc.prems n12
      by (simp add: migrate_loop_skip)
  next
    case 3
    obtain r1 db1 where step: "runStep body (env n) (step_at n) db = (r1, db1)" by fastforce
    have loop: "(if r1 = None \<and> n + 1 < ceiling
        then migrate_loop body cancelled env ceiling (map step_at [n + 1..12]) (n + 1) db1
        else (r1, db1)) = (r, db')"
      using Suc.prems(1) migrate_loop_due [of n cancelled body env db r1 db1 ceiling] n12 3 step by simp
    have moved: "migrators body db db1" "r1 = None \<Longrightarrow> n + 1 \<le> readVersion db1"
      using runStep_migrators [OF step Suc.prems(2) Suc.prems(5) n12] runStep_reached [of body "env n" n db db1] step
      by auto
    show ?thesis
    proof (cases "r1 = None \<and> n + 1 < ceiling")
      case False
      then show ?thesis using loop moved by auto
    next
      case True
      then have rest: "migrate_loop body cancelled env ceiling (map step_at [n + 1..12]) (n + 1) db1 = (r, db')"
        using loop by simp
      then have "migrators body db1 db' \<and> (r = None \<longrightarrow> ceiling \<le> readVersion db')"
        using Suc.hyps(1) [OF d rest Suc.prems(2)] Suc.prems(4,5) True by auto
      then show ?thesis using migrators_trans moved(1) by blast
    qed
  qed
qed

definition effective_ceiling :: "int \<Rightarrow> int" where
  "effective_ceiling c = (if c \<le> 0 \<or> c > MaxKnownSchemaVersion then MaxKnownSchemaVersion else c)"

lemma effective_ceiling_bounds: "1 \<le> effective_ceiling c \<and> effective_ceiling c \<le> 13"
  by (simp add: effective_ceiling_def MaxKnownSchemaVersion_def)

lemma Migrate_unfold:
  "MigrateContextToCeiling body (Some cancelled) env c db =
     (if cancelled 0 then (Some (Cancelled ''before schema read''), db)
      else if readVersion db > 13 then (Some (NewerSchema (readVersion db) 13), db)
      else if readVersion db \<ge> effective_ceiling c then (None, db)
      else migrate_loop body cancelled env (effective_ceiling c) (map step_at [1..12]) (readVersion db) db)"
  by (simp add: MigrateContextToCeiling_def effective_ceiling_def Let_def migrationSteps_upto
      MaxKnownSchemaVersion_def)

lemma ceiling_loop_whole:
  assumes "ceiling_loop body (map step_at [n..12]) version db = Ok db'" "readVersion db = version"
    "n \<le> version" "version < 13"
  shows "readVersion db' = 13 \<and> run_bodies body [version..12] (tables db) = Ok (tables db')"
  using assms
proof (induction "nat (13 - n)" arbitrary: n version db)
  case 0
  then show ?case by simp
next
  case (Suc d)
  then have n12: "n \<le> 12" by simp
  show ?case
  proof (cases "n < version")
    case True
    then show ?thesis using Suc.hyps(1) [of "n + 1" version db] Suc.hyps(2) Suc.prems n12
      by (simp add: upto_12)
  next
    case False
    then have v: "version = n" using Suc.prems(3) by simp
    have due: "ceiling_loop body (map step_at [n..12]) n db = result_bind (step_apply body (step_at n) db)
        (\<lambda>db1. if n + 1 \<ge> 13 then Ok db1 else ceiling_loop body (map step_at [n + 1..12]) (n + 1) db1)"
      using n12 by (simp add: upto_12 MaxKnownSchemaVersion_def cong: if_cong)
    obtain db1 where ap: "step_apply body (step_at n) db = Ok db1"
      and rest: "(if n + 1 \<ge> 13 then Ok db1 else ceiling_loop body (map step_at [n + 1..12]) (n + 1) db1) = Ok db'"
      using Suc.prems(1) unfolding v due result_bind_Ok_iff by blast
    have one: "body n (tables db) = Ok (tables db1)" "readVersion db1 = n + 1"
      using step_apply_ok [OF ap] Suc.prems(2) v by auto
    show ?thesis
    proof (cases "n + 1 \<ge> 13")
      case True
      then have "n = 12" "db' = db1" using n12 rest by auto
      then show ?thesis using one v by simp
    next
      case False
      then show ?thesis using Suc.hyps(1) [of "n + 1" "n + 1" db1] Suc.hyps(2) rest one v n12
        by (simp add: upto_12)
    qed
  qed
qed

lemma plan_loop_from:
  "n \<le> 13 \<Longrightarrow> map sum_FromVersion (plan_loop v (map step_at [n..12])) = [max v n..12]"
proof (induction "nat (13 - n)" arbitrary: n)
  case 0
  then show ?case by simp
next
  case (Suc d)
  then have n12: "n \<le> 12" by simp
  have rest: "map sum_FromVersion (plan_loop v (map step_at [n + 1..12])) = [max v (n + 1)..12]"
    using Suc.hyps(1) [of "n + 1"] Suc.hyps(2) n12 by simp
  show ?case
  proof (cases "n < v")
    case True
    then have "max v (n + 1) = max v n" by simp
    then show ?thesis using rest True n12 by (simp add: upto_12)
  next
    case False
    then have "max v n = n" "max v (n + 1) = n + 1" by simp_all
    then show ?thesis using rest False n12 by (simp add: upto_12 MaxKnownSchemaVersion_def)
  qed
qed

lemma migration_whole_steps_aux:
  assumes "MigrateContextToCeiling body (Some cancelled) env c db = (r, db')"
    and "\<And>v. others (env v) = id" "1 \<le> readVersion db" "readVersion db \<le> 13"
  shows "\<exists>k. readVersion db \<le> k \<and> k \<le> max (readVersion db) (effective_ceiling c) \<and>
    readVersion db' = k \<and> run_bodies body [readVersion db..k - 1] (tables db) = Ok (tables db') \<and>
    (r = None \<longrightarrow> k = max (readVersion db) (effective_ceiling c))"
proof (cases "cancelled 0 \<or> readVersion db \<ge> effective_ceiling c")
  case True
  then have "db' = db \<and> (r = None \<longrightarrow> readVersion db \<ge> effective_ceiling c)"
    using assms(1,4) by (auto simp: Migrate_unfold split: if_splits)
  then show ?thesis by (intro exI [of _ "readVersion db"]) auto
next
  case False
  then have "migrate_loop body cancelled env (effective_ceiling c) (map step_at [1..12]) (readVersion db) db = (r, db')"
    using assms(1,4) by (simp add: Migrate_unfold)
  then show ?thesis
    using migrate_loop_quiet [OF _ assms(2) refl assms(3)] False effective_ceiling_bounds [of c] assms(3)
    by fastforce
qed

section \<open>Properties\<close>

text \<open>Migration is all or nothing by steps: whatever fails or is cancelled, the file is left
  at a version reached by running whole steps in order from the version it had, with exactly
  their effect on the tables; when the migrator reports success that version is the ceiling.\<close>

theorem migration_whole_steps:
  assumes "MigrateContextToCeiling body (Some cancelled) env c db = (r, db')"
    and "\<And>v. others (env v) = id" "1 \<le> readVersion db" "readVersion db \<le> 13"
  shows "\<exists>k. readVersion db \<le> k \<and> k \<le> max (readVersion db) (effective_ceiling c) \<and>
    readVersion db' = k \<and> run_bodies body [readVersion db..k - 1] (tables db) = Ok (tables db') \<and>
    (r = None \<longrightarrow> k = max (readVersion db) (effective_ceiling c))"
  by (rule migration_whole_steps_aux [OF assms])

theorem migration_whole_steps_witness:
  "readVersion (snd (MigrateContextToCeiling (\<lambda>v d. if v = 7 then Err ''disk full'' else Ok (d @ [v]))
     (Some (\<lambda>v. False)) (\<lambda>v. \<lparr>lock_error = None, others = id, cancelled_before_apply = False,
        cancelled_before_commit = False, commit_result = Committed\<rparr>) 0
     \<lparr>meta = Some [2, 3, 4], tables = []\<rparr>)) \<ge> 4"
proof -
  let ?m = "MigrateContextToCeiling (\<lambda>v d. if v = 7 then Err ''disk full'' else Ok (d @ [v]))
     (Some (\<lambda>v. False)) (\<lambda>v. \<lparr>lock_error = None, others = id, cancelled_before_apply = False,
        cancelled_before_commit = False, commit_result = Committed\<rparr>) 0
     \<lparr>meta = Some [2, 3, 4], tables = []\<rparr>"
  have v: "readVersion \<lparr>meta = Some [2, 3, 4], tables = [] :: int list\<rparr> = 4" by (simp add: readVersion_def)
  show ?thesis
    using migration_whole_steps [of _ _ _ _ _ "fst ?m" "snd ?m", OF prod.collapse [symmetric]] v by auto
qed

text \<open>C17: with the migrators of other processes running their steps beside this one, before each of
  its locks and with whatever failures, every step is applied once and in order: whatever the
  outcome, the tables are exactly the effect of the steps from the version the file had to the
  version it has, whoever ran them, and the version has not gone down; success means the file
  has reached the ceiling.  The run is itself one of these interleavings, so any number of
  migrators may do the same.\<close>

theorem migration_concurrent:
  assumes "MigrateContextToCeiling body (Some cancelled) env c db = (r, db')"
    and "\<And>v d. migrators body d (others (env v) d)"
    and "1 \<le> readVersion db"
  shows "readVersion db \<le> readVersion db' \<and>
    run_bodies body [readVersion db..readVersion db' - 1] (tables db) = Ok (tables db') \<and>
    (r = None \<longrightarrow> effective_ceiling c \<le> readVersion db') \<and> migrators body db db'"
proof -
  have "migrators body db db' \<and> (r = None \<longrightarrow> effective_ceiling c \<le> readVersion db')"
  proof (cases "cancelled 0 \<or> readVersion db > 13 \<or> readVersion db \<ge> effective_ceiling c")
    case True
    then show ?thesis using assms(1) by (auto simp: Migrate_unfold intro: migrators.idle split: if_splits)
  next
    case False
    then have "migrate_loop body cancelled env (effective_ceiling c) (map step_at [1..12]) (readVersion db) db = (r, db')"
      using assms(1) by (simp add: Migrate_unfold)
    then show ?thesis
      using migrate_loop_migrators [of body cancelled env "effective_ceiling c" 1 "readVersion db" db r db'] assms(2,3)
        False effective_ceiling_bounds [of c]
      by simp
  qed
  then show ?thesis using migrators_whole [of body db db'] by (simp add: whole_steps_def)
qed

text \<open>Two migrators race for the last step: the other one takes the lock first and runs it, and this one
  does not run it again.\<close>

theorem migration_concurrent_witness:
  "let quiet = \<lparr>lock_error = None, others = id, cancelled_before_apply = False,
        cancelled_before_commit = False, commit_result = Committed\<rparr>;
       body = (\<lambda>v d. Ok (d @ [v]));
       rival = (\<lambda>db. snd (runStep body quiet (step_at 12) db)) in
   tables (snd (MigrateContextToCeiling body (Some (\<lambda>v. False)) (\<lambda>v. quiet\<lparr>others := rival\<rparr>) 13
     \<lparr>meta = Some [12], tables = [] :: int list\<rparr>)) = [12]"
proof -
  let ?quiet = "\<lparr>lock_error = None, others = id, cancelled_before_apply = False,
        cancelled_before_commit = False, commit_result = Committed\<rparr> :: int list step_env"
  let ?body = "\<lambda>v d. Ok (d @ [v])"
  let ?rival = "\<lambda>db. snd (runStep ?body ?quiet (step_at 12) db)"
  let ?db = "\<lparr>meta = Some [12], tables = [] :: int list\<rparr>"
  let ?m = "MigrateContextToCeiling ?body (Some (\<lambda>v. False)) (\<lambda>v. ?quiet\<lparr>others := ?rival\<rparr>) 13 ?db"
  have rival: "migrators ?body d (?rival d)" for d
    by (rule migrators.step [OF migrators.idle, of 12 ?quiet _ _ "fst (runStep ?body ?quiet (step_at 12) d)"]) auto
  have v: "readVersion ?db = 12" by (simp add: readVersion_def)
  have w: "readVersion (snd ?m) = 13" by code_simp
  have "run_bodies ?body [12..12] [] = Ok (tables (snd ?m))"
    using migration_concurrent [of ?body _ "\<lambda>v. ?quiet\<lparr>others := ?rival\<rparr>" 13 ?db "fst ?m" "snd ?m",
        OF prod.collapse [symmetric]] rival v w
    by simp
  then show ?thesis by (simp add: Let_def)
qed

text \<open>A file written by a newer pasture is refused and left alone; a file at or above the
  ceiling is left alone without an error.\<close>

theorem migration_refuses_newer:
  assumes "\<not> cancelled 0"
  shows "(readVersion db > MaxKnownSchemaVersion \<longrightarrow>
      MigrateContextToCeiling body (Some cancelled) env c db =
        (Some (NewerSchema (readVersion db) MaxKnownSchemaVersion), db)) \<and>
    (effective_ceiling c \<le> readVersion db \<and> readVersion db \<le> MaxKnownSchemaVersion \<longrightarrow>
      MigrateContextToCeiling body (Some cancelled) env c db = (None, db))"
  using assms by (simp add: Migrate_unfold MaxKnownSchemaVersion_def)

theorem migration_refuses_newer_witness:
  "MigrateContextToCeiling (\<lambda>v d. Ok d) (Some (\<lambda>v. False))
     (\<lambda>v. \<lparr>lock_error = None, others = id, cancelled_before_apply = False,
        cancelled_before_commit = False, commit_result = Committed\<rparr>) 0 \<lparr>meta = Some [14], tables = ()\<rparr> =
     (Some (NewerSchema 14 MaxKnownSchemaVersion), \<lparr>meta = Some [14], tables = ()\<rparr>)"
  using migration_refuses_newer [of "\<lambda>v. False" "\<lparr>meta = Some [14], tables = ()\<rparr>" "\<lambda>v d. Ok d"
      "\<lambda>v. \<lparr>lock_error = None, others = id, cancelled_before_apply = False,
        cancelled_before_commit = False, commit_result = Committed\<rparr>" 0]
  by (simp add: readVersion_def MaxKnownSchemaVersion_def)

text \<open>The refusal of newer files is a check made once, before any lock is taken: a newer
  binary that upgrades the file between that check and the lock is not noticed, and the
  migrator reports success on a file above the version it knows.\<close>

theorem migration_newer_race:
  "\<exists>env db db'. readVersion db = 12 \<and>
     MigrateContextToCeiling (\<lambda>v d. Ok d) (Some (\<lambda>v. False)) env 0 (db :: unit versioned_db) = (None, db') \<and>
     readVersion db' > MaxKnownSchemaVersion"
proof -
  let ?env = "\<lambda>v :: int. \<lparr>lock_error = None, others = writeVersion 14, cancelled_before_apply = False,
        cancelled_before_commit = False, commit_result = Committed\<rparr> :: unit step_env"
  let ?db = "\<lparr>meta = Some [12], tables = ()\<rparr>"
  have run: "runStep (\<lambda>v d. Ok d) (?env 12) (step_at 12) ?db = (None, writeVersion 14 ?db)"
    by (simp add: runStep_def Let_def writeVersion_def readVersion_def)
  have "map step_at [1..12] = map step_at [1..11] @ [step_at 12]" by code_simp
  moreover have "migrate_loop (\<lambda>v d. Ok d) (\<lambda>v. False) ?env 13 (map step_at xs @ [step_at 12]) 12 ?db =
      (None, writeVersion 14 ?db)" if "\<forall>x \<in> set xs. x < 12" for xs
    using that run by (induction xs) auto
  ultimately have "MigrateContextToCeiling (\<lambda>v d. Ok d) (Some (\<lambda>v. False)) ?env 0 ?db = (None, writeVersion 14 ?db)"
    by (simp add: Migrate_unfold readVersion_def effective_ceiling_def MaxKnownSchemaVersion_def)
  moreover have "readVersion (writeVersion 14 ?db) = 14" "readVersion ?db = 12"
    by (simp_all add: readVersion_def writeVersion_def)
  ultimately show ?thesis
    by (intro exI [of _ ?env] exI [of _ ?db] exI [of _ "writeVersion 14 ?db"])
      (simp add: MaxKnownSchemaVersion_def)
qed

text \<open>The dry run tells the truth: the plan for a file lists, in order, exactly the steps a
  successful migration of that file runs, and so does the ceiling step of the cutover.\<close>

theorem plan_matches_apply:
  assumes "MigrateContextToCeiling body (Some cancelled) env 0 db = (None, db')"
    and "\<And>v. others (env v) = id" "1 \<le> readVersion db" "readVersion db \<le> 13"
  shows "run_bodies body (map sum_FromVersion (PlanMigrations (readVersion db))) (tables db) = Ok (tables db') \<and>
    (ApplyCeilingInTx body (readVersion db) db = Ok db2 \<longrightarrow> tables db2 = tables db')"
proof -
  have plan: "map sum_FromVersion (PlanMigrations (readVersion db)) = [readVersion db..12]"
    using assms(3,4) plan_loop_from [of 1 "readVersion db"]
    by (auto simp: PlanMigrations_def migrationSteps_upto MaxKnownSchemaVersion_def max_def)
  have "effective_ceiling 0 = 13" by (simp add: effective_ceiling_def MaxKnownSchemaVersion_def)
  then have mig: "run_bodies body [readVersion db..12] (tables db) = Ok (tables db')"
    using migration_whole_steps_aux [OF assms] assms(4) by auto
  moreover have "run_bodies body [readVersion db..12] (tables db) = Ok (tables db2)"
    if "ApplyCeilingInTx body (readVersion db) db = Ok db2"
    using that ceiling_loop_whole [of body 1 "readVersion db" db db2] assms(3,4)
    by (auto simp: ApplyCeilingInTx_def migrationSteps_upto MaxKnownSchemaVersion_def split: if_splits)
  ultimately show ?thesis using plan by auto
qed

theorem plan_matches_apply_witness:
  "let env = (\<lambda>v. \<lparr>lock_error = None, others = id, cancelled_before_apply = False,
        cancelled_before_commit = False, commit_result = Committed\<rparr>);
       db = \<lparr>meta = None, tables = [] :: int list\<rparr>;
       body = (\<lambda>v d. Ok (d @ [v]));
       res = MigrateContextToCeiling body (Some (\<lambda>v. False)) env 0 db in
   fst res = None \<and>
   run_bodies body (map sum_FromVersion (PlanMigrations (readVersion db))) (tables db) = Ok (tables (snd res))"
proof -
  let ?env = "\<lambda>v. \<lparr>lock_error = None, others = id, cancelled_before_apply = False,
        cancelled_before_commit = False, commit_result = Committed\<rparr>"
  let ?db = "\<lparr>meta = None, tables = [] :: int list\<rparr>"
  let ?res = "MigrateContextToCeiling (\<lambda>v d. Ok (d @ [v])) (Some (\<lambda>v. False)) ?env 0 ?db"
  have ok: "fst ?res = None" by code_simp
  then have "?res = (None, snd ?res)" by (simp add: prod_eq_iff)
  then show ?thesis
    using plan_matches_apply [of "\<lambda>v d. Ok (d @ [v])" "\<lambda>v. False" ?env ?db "snd ?res"] ok
    by (simp add: readVersion_def Let_def)
qed

end
