(* ===== verification/AuditWrite.thy ===== *)
theory AuditWrite
  imports Prelude
begin

text \<open>
  The transaction shell of every audit write (\<^verbatim>\<open>internal/audit/write_retry.go\<close>): one
  attempt with its begin, callback, commit, rollback and connection clean-up, and the loop
  that retries it on lock contention within one budget.  What the driver, the logger and the
  caller's context do at each point of an attempt is the environment of that attempt; the
  effect of a commit whose failure is reported is part of it, because the driver does not
  reveal it.  The loop carries the clock: every round adds the time of its attempt, its own wait
  and what the timer is late, and a context is done at its deadline.  The lemmas show that a
  write takes effect at most once and that the loop's own waits end it.
\<close>

section \<open>One attempt\<close>

text \<open>An error carries a SQLite result code, or none.\<close>

datatype db_error = Coded int | Uncoded

text \<open>\<open>code & 255\<close> of a two's complement integer is its remainder modulo 256.\<close>

definition isAuditWriteContention :: "db_error \<Rightarrow> bool" where
  "isAuditWriteContention e =
     (case e of Coded c \<Rightarrow> c mod 256 = 5 \<or> c mod 256 = 6 | Uncoded \<Rightarrow> False)"

datatype commit_reply = CommitOk | CommitErr db_error (took_effect: bool)
datatype rollback_reply = RollbackOk | RollbackTxDone | RollbackErr
datatype restore_reply = RestoreOk | RestoreDeadline | RestoreErr

record attempt_env =
  ctx_done_entry :: bool
  conn_error :: "db_error option"
  pragma_error :: "db_error option"
  ctx_done_begin :: bool
  begin_error :: "db_error option"
  op_error :: "db_error option"
  ctx_done_commit :: bool
  commit_reply :: commit_reply
  rollback_reply :: rollback_reply
  ctx_done_rollback :: bool
  restore_reply :: restore_reply
  retire_ok :: bool
  defensive_retire_ok :: bool
  close_error :: bool
  warn_ok :: bool

datatype impact = Unchanged | NeverReachedCommit | AtomicWriteCommitted | OutcomeUnconfirmed

text \<open>The result handed to the loop.\<close>

record auditAttemptResult =
  ar_err :: bool
  ar_retry :: bool
  ar_impact :: impact

datatype stage = SetBusyTimeout | BeginImmediate | ExecuteWrite | CommitStage

text \<open>The statements up to the commit: the stage reached, the error if any, and whether a
  transaction is open.\<close>

definition tx_outcome :: "attempt_env \<Rightarrow> stage \<times> db_error option \<times> bool" where
  "tx_outcome a =
     (case pragma_error a of Some e \<Rightarrow> (SetBusyTimeout, Some e, False) | None \<Rightarrow>
      if ctx_done_begin a then (BeginImmediate, Some Uncoded, False)
      else case begin_error a of Some e \<Rightarrow> (BeginImmediate, Some e, False) | None \<Rightarrow>
      case op_error a of Some e \<Rightarrow> (ExecuteWrite, Some e, True) | None \<Rightarrow>
      if ctx_done_commit a then (ExecuteWrite, Some Uncoded, True)
      else case commit_reply a of
        CommitOk \<Rightarrow> (CommitStage, None, True)
      | CommitErr e _ \<Rightarrow> (CommitStage, Some e, True))"

definition attempt_committed :: "attempt_env \<Rightarrow> bool" where
  "attempt_committed a \<longleftrightarrow> (case tx_outcome a of (st, err, open) \<Rightarrow> st = CommitStage \<and> err = None)"

definition attempt_uncertain :: "attempt_env \<Rightarrow> bool" where
  "attempt_uncertain a \<longleftrightarrow> (case tx_outcome a of (st, err, open) \<Rightarrow> st = CommitStage \<and> err \<noteq> None)"

definition attempt_discard :: "attempt_env \<Rightarrow> bool" where
  "attempt_discard a \<longleftrightarrow> (case tx_outcome a of (st, err, open) \<Rightarrow>
     open \<and> \<not> attempt_committed a \<and> rollback_reply a \<noteq> RollbackOk \<and>
     \<not> (st \<noteq> CommitStage \<and> ctx_done_rollback a \<and> rollback_reply a = RollbackTxDone))"

text \<open>The clean-up: restore the busy tier, or retire the connection, then close it.\<close>

definition restore_failed :: "attempt_env \<Rightarrow> bool" where
  "restore_failed a \<longleftrightarrow> \<not> attempt_uncertain a \<and> \<not> attempt_discard a \<and> restore_reply a \<noteq> RestoreOk"

definition must_retire :: "attempt_env \<Rightarrow> bool" where
  "must_retire a \<longleftrightarrow> attempt_uncertain a \<or> attempt_discard a \<or> restore_failed a"

definition cleanup_failed :: "attempt_env \<Rightarrow> bool" where
  "cleanup_failed a \<longleftrightarrow> restore_failed a \<or> (must_retire a \<and> \<not> retire_ok a) \<or> close_error a"

definition cleanup_deadline :: "attempt_env \<Rightarrow> bool" where
  "cleanup_deadline a \<longleftrightarrow> \<not> attempt_uncertain a \<and> \<not> attempt_discard a \<and> restore_reply a = RestoreDeadline"

definition degraded_success :: "attempt_env \<Rightarrow> bool" where
  "degraded_success a \<longleftrightarrow> attempt_committed a \<and> cleanup_deadline a \<and> retire_ok a \<and> \<not> close_error a \<and> warn_ok a"

definition auditWriteAttempt :: "attempt_env \<Rightarrow> auditAttemptResult" where
  "auditWriteAttempt a =
     (if ctx_done_entry a then \<lparr>ar_err = True, ar_retry = False, ar_impact = Unchanged\<rparr>
      else case conn_error a of
        Some e \<Rightarrow> \<lparr>ar_err = True, ar_retry = isAuditWriteContention e, ar_impact = Unchanged\<rparr>
      | None \<Rightarrow>
        (case tx_outcome a of (st, err, open) \<Rightarrow>
           if degraded_success a \<or> (err = None \<and> \<not> cleanup_failed a)
           then \<lparr>ar_err = False, ar_retry = False, ar_impact = Unchanged\<rparr>
           else \<lparr>ar_err = True,
             ar_retry = \<not> attempt_committed a \<and> \<not> attempt_uncertain a \<and> \<not> attempt_discard a \<and>
               \<not> cleanup_failed a \<and> (case err of None \<Rightarrow> False | Some e \<Rightarrow> isAuditWriteContention e),
             ar_impact =
               (if attempt_uncertain a then OutcomeUnconfirmed
                else if attempt_committed a then AtomicWriteCommitted
                else if attempt_discard a then NeverReachedCommit else Unchanged)\<rparr>))"

text \<open>Whether the write of the attempt is in the database afterwards.\<close>

definition attempt_durable :: "attempt_env \<Rightarrow> bool" where
  "attempt_durable a \<longleftrightarrow> \<not> ctx_done_entry a \<and> conn_error a = None \<and>
     (attempt_committed a \<or> (attempt_uncertain a \<and> took_effect (commit_reply a)))"

text \<open>What becomes of the reserved connection, whose busy timeout the attempt has lowered.  A
  failed retirement is tried once more with the built-in routine.\<close>

datatype conn_fate = TierRestored | Retired | TierLowered

definition conn_after :: "attempt_env \<Rightarrow> conn_fate" where
  "conn_after a =
     (if must_retire a
      then if retire_ok a \<or> defensive_retire_ok a then Retired else TierLowered
      else if restore_reply a = RestoreOk then TierRestored else TierLowered)"

section \<open>The retry loop\<close>

record auditWriterPolicy =
  wp_ceiling :: int
  wp_initialDelay :: int
  wp_maxDelay :: int

text \<open>Nanoseconds.\<close>

definition defaultAuditWriterPolicy :: auditWriterPolicy where
  "defaultAuditWriterPolicy =
     \<lparr>wp_ceiling = 30000000000, wp_initialDelay = 25000000, wp_maxDelay = 1000000000\<rparr>"

text \<open>One round of the loop, as the world makes it: whether the caller has cancelled when the loop
  looks at its context before and after the attempt, what the attempt meets and how long it
  takes, the time that passes before the loop computes its wait, whether the context is chosen
  in the back-off, and how late the timer fires.  Times are nanoseconds.\<close>

record retry_round =
  rd_cancelled_before :: bool
  rd_attempt :: attempt_env
  rd_attempt_time :: nat
  rd_cancelled_after :: bool
  rd_drift :: nat
  rd_ctx_wait :: bool
  rd_timer_late :: nat

text \<open>\<^verbatim>\<open>ctx.Err() != nil\<close>: cancelled by the caller, or at its deadline.\<close>

definition ctx_done :: "int option \<Rightarrow> bool \<Rightarrow> int \<Rightarrow> bool" where
  "ctx_done deadline cancelled now \<longleftrightarrow>
     cancelled \<or> (case deadline of None \<Rightarrow> False | Some d \<Rightarrow> d \<le> now)"

datatype write_result = WriteOk | WriteFailed (wr_impact: impact) (wr_attempts: nat) | NilContext

text \<open>What a call did: its result, the attempts it made (the calls of \<^verbatim>\<open>afterAttempt\<close>) and the waits it
  began (the calls of \<^verbatim>\<open>onBackoff\<close>).\<close>

record write_run =
  wr_result :: write_result
  wr_attempted :: "attempt_env list"
  wr_waits :: "int list"

definition returned :: "write_result \<Rightarrow> attempt_env list \<Rightarrow> int list \<Rightarrow> write_run option" where
  "returned r attempts waits = Some \<lparr>wr_result = r, wr_attempted = attempts, wr_waits = waits\<rparr>"

definition round_before :: "attempt_env \<Rightarrow> int \<Rightarrow> write_run \<Rightarrow> write_run" where
  "round_before a wait rn =
     rn\<lparr>wr_attempted := a # wr_attempted rn, wr_waits := wait # wr_waits rn\<rparr>"

text \<open>The loop in round \<open>k\<close> at time \<open>now\<close>; \<open>None\<close> when it is still running after \<open>fuel\<close> rounds.\<close>

fun retryAuditWrite ::
    "nat \<Rightarrow> auditWriterPolicy \<Rightarrow> int option \<Rightarrow> (nat \<Rightarrow> retry_round) \<Rightarrow> nat \<Rightarrow> int \<Rightarrow> int \<Rightarrow> write_run option" where
  "retryAuditWrite 0 p deadline rounds k delay now = None"
| "retryAuditWrite (Suc fuel) p deadline rounds k delay now =
     (let rd = rounds k in
      if ctx_done deadline (rd_cancelled_before rd) now then returned (WriteFailed Unchanged k) [] []
      else
        let a = rd_attempt rd;
            res = auditWriteAttempt a;
            now1 = now + int (rd_attempt_time rd) in
        if \<not> ar_err res then returned WriteOk [a] []
        else if ctx_done deadline (rd_cancelled_after rd) now1
        then returned (WriteFailed (ar_impact res) (Suc k)) [a] []
        else if \<not> ar_retry res then returned (WriteFailed (ar_impact res) (Suc k)) [a] []
        else
          let now2 = now1 + int (rd_drift rd);
              wait = (case deadline of None \<Rightarrow> delay | Some d \<Rightarrow> min delay (max (d - now2) 0)) in
          if rd_ctx_wait rd then returned (WriteFailed (ar_impact res) (Suc k)) [a] [wait]
          else map_option (round_before a wait)
            (retryAuditWrite fuel p deadline rounds (Suc k) (min (delay * 2) (wp_maxDelay p))
               (now2 + wait + int (rd_timer_late rd))))"

text \<open>The entry point: a policy without a ceiling gets the default timing, and the budget ends at the
  ceiling or at the caller's own deadline, whichever is earlier.\<close>

definition withAuditWrite ::
    "nat \<Rightarrow> bool \<Rightarrow> int option \<Rightarrow> int \<Rightarrow> auditWriterPolicy \<Rightarrow> (nat \<Rightarrow> retry_round) \<Rightarrow> write_run option" where
  "withAuditWrite fuel nil_ctx caller_deadline now p rounds =
     (if nil_ctx then returned NilContext [] []
      else let p' = (if wp_ceiling p = 0 then defaultAuditWriterPolicy else p);
               ends = now + wp_ceiling p';
               deadline = (case caller_deadline of None \<Rightarrow> ends | Some d \<Rightarrow> min d ends)
        in retryAuditWrite fuel p' (Some deadline) rounds 0 (wp_initialDelay p') now)"

section \<open>Lemmas\<close>

lemma retry_not_durable: "ar_retry (auditWriteAttempt a) \<Longrightarrow> \<not> attempt_durable a"
  by (auto simp: auditWriteAttempt_def attempt_durable_def split: option.splits if_splits prod.splits)

lemma success_durable: "\<not> ar_err (auditWriteAttempt a) \<Longrightarrow> attempt_durable a"
  by (auto simp: auditWriteAttempt_def attempt_durable_def degraded_success_def attempt_committed_def
      tx_outcome_def split: option.splits if_splits prod.splits commit_reply.splits)

lemma impact_truth:
  assumes "ar_err (auditWriteAttempt a)"
  shows "(ar_impact (auditWriteAttempt a) \<in> {Unchanged, NeverReachedCommit} \<longrightarrow> \<not> attempt_durable a) \<and>
    (ar_impact (auditWriteAttempt a) = AtomicWriteCommitted \<longrightarrow> attempt_durable a)"
  using assms
  by (auto simp: auditWriteAttempt_def attempt_durable_def split: option.splits if_splits prod.splits)

text \<open>The accounting of a run: at most one of its attempts took effect, and its result says how many.\<close>

definition accounted :: "write_run \<Rightarrow> bool" where
  "accounted rn \<longleftrightarrow>
     (let durable = length (filter attempt_durable (wr_attempted rn)) in
      durable \<le> 1 \<and>
      (case wr_result rn of
         WriteOk \<Rightarrow> durable = 1
       | WriteFailed Unchanged _ \<Rightarrow> durable = 0
       | WriteFailed NeverReachedCommit _ \<Rightarrow> durable = 0
       | WriteFailed AtomicWriteCommitted _ \<Rightarrow> durable = 1
       | WriteFailed OutcomeUnconfirmed _ \<Rightarrow> True
       | NilContext \<Rightarrow> durable = 0))"

lemma accounted_last:
  assumes "ar_err (auditWriteAttempt a)"
  shows "accounted \<lparr>wr_result = WriteFailed (ar_impact (auditWriteAttempt a)) n, wr_attempted = [a], wr_waits = ws\<rparr>"
  using impact_truth [OF assms] by (auto simp: accounted_def Let_def split: impact.split)

lemma accounted_round_before:
  "\<not> attempt_durable a \<Longrightarrow> accounted rn \<Longrightarrow> accounted (round_before a wait rn)"
  by (simp add: accounted_def round_before_def)

lemma retryAuditWrite_accounted:
  "retryAuditWrite fuel p deadline rounds k delay now = Some rn \<Longrightarrow> accounted rn"
proof (induction fuel arbitrary: k delay now rn)
  case (Suc fuel)
  let ?a = "rd_attempt (rounds k)"
  have ok: "accounted \<lparr>wr_result = WriteOk, wr_attempted = [?a], wr_waits = []\<rparr>" if "\<not> ar_err (auditWriteAttempt ?a)"
    using success_durable [OF that] by (simp add: accounted_def)
  have none: "accounted \<lparr>wr_result = WriteFailed Unchanged k, wr_attempted = [], wr_waits = []\<rparr>"
    by (simp add: accounted_def)
  show ?case using Suc.prems ok none accounted_last [of ?a] accounted_round_before [OF retry_not_durable [of ?a]] Suc.IH
    by (auto simp: Let_def returned_def split: if_splits)
qed simp

lemma retryAuditWrite_not_nil:
  "retryAuditWrite fuel p deadline rounds k delay now = Some rn \<Longrightarrow> wr_result rn \<noteq> NilContext"
  by (induction fuel arbitrary: k delay now rn)
    (auto simp: Let_def returned_def round_before_def split: if_splits)

text \<open>The delay of round \<open>k\<close>.\<close>

primrec backoff :: "auditWriterPolicy \<Rightarrow> nat \<Rightarrow> int" where
  "backoff p 0 = wp_initialDelay p"
| "backoff p (Suc k) = min (backoff p k * 2) (wp_maxDelay p)"

lemma backoff_nonneg: "0 \<le> wp_initialDelay p \<Longrightarrow> 0 \<le> wp_maxDelay p \<Longrightarrow> 0 \<le> backoff p k"
  by (induction k) auto

text \<open>Running out of fuel takes time: a loop that has begun \<open>n\<close> more rounds at a time before its deadline
  has waited the next \<open>n\<close> delays of the schedule in full.\<close>

lemma retry_running:
  assumes "retryAuditWrite (Suc n) p (Some d) rounds k (backoff p k) now = None"
    and "0 \<le> wp_initialDelay p" "0 \<le> wp_maxDelay p"
  shows "now + sum_list (map (backoff p) [k..<k + n]) < d"
  using assms(1)
proof (induction n arbitrary: k now)
  case 0
  then show ?case by (auto simp: Let_def returned_def ctx_done_def split: if_splits)
next
  case (Suc n)
  let ?rd = "rounds k"
  let ?now2 = "now + int (rd_attempt_time ?rd) + int (rd_drift ?rd)"
  let ?wait = "min (backoff p k) (max (d - ?now2) 0)"
  have rest: "retryAuditWrite (Suc n) p (Some d) rounds (Suc k) (backoff p (Suc k)) (?now2 + ?wait + int (rd_timer_late ?rd)) = None"
    using Suc.prems
    by (simp only: retryAuditWrite.simps(2) [of "Suc n"] Let_def returned_def option.simps option.map_disc_iff
        backoff.simps split: if_splits)
  have "?now2 + ?wait + int (rd_timer_late ?rd) + sum_list (map (backoff p) [Suc k..<Suc k + n]) < d"
    by (rule Suc.IH [OF rest])
  moreover have "0 \<le> sum_list (map (backoff p) [Suc k..<Suc k + n])"
    by (rule sum_list_nonneg) (use backoff_nonneg [OF assms(2,3)] in auto)
  moreover have "[k..<k + Suc n] = k # [Suc k..<Suc k + n]" by (simp add: upt_rec)
  ultimately show ?case by (simp add: min_def max_def split: if_splits)
qed

lemma retry_attempts:
  "retryAuditWrite fuel p deadline rounds k delay now = Some rn \<Longrightarrow> length (wr_attempted rn) \<le> fuel"
proof (induction fuel arbitrary: k delay now rn)
  case (Suc fuel)
  then show ?case by (fastforce simp: Let_def returned_def round_before_def split: if_splits)
qed simp

text \<open>The waits of a run: each is the delay of its round or what is left of the budget, and together
  they fit into what was left at the start.\<close>

lemma retry_waits:
  assumes "retryAuditWrite fuel p (Some d) rounds k (backoff p k) now = Some rn"
    and "0 \<le> wp_initialDelay p" "0 \<le> wp_maxDelay p"
  shows "(\<forall>i < length (wr_waits rn). 0 \<le> wr_waits rn ! i \<and> wr_waits rn ! i \<le> backoff p (k + i)) \<and>
    (\<forall>i. Suc i < length (wr_waits rn) \<longrightarrow> wr_waits rn ! i = backoff p (k + i)) \<and>
    sum_list (wr_waits rn) \<le> max (d - now) 0"
  using assms(1)
proof (induction fuel arbitrary: k now rn)
  case (Suc fuel)
  let ?rd = "rounds k"
  let ?now2 = "now + int (rd_attempt_time ?rd) + int (rd_drift ?rd)"
  let ?wait = "min (backoff p k) (max (d - ?now2) 0)"
  let ?next = "?now2 + ?wait + int (rd_timer_late ?rd)"
  have wait: "0 \<le> ?wait" "?wait \<le> backoff p k" "?wait \<le> max (d - now) 0"
    using backoff_nonneg [OF assms(2,3), of k] by (auto simp: min_def max_def)
  from Suc.prems consider "wr_waits rn = []" | "wr_waits rn = [?wait]"
    | rn' where "retryAuditWrite fuel p (Some d) rounds (Suc k) (backoff p (Suc k)) ?next = Some rn'"
        "wr_waits rn = ?wait # wr_waits rn'"
    by (auto simp: Let_def returned_def round_before_def split: if_splits)
  then show ?case
  proof cases
    case 3
    note IH = Suc.IH [OF 3(1)]
    have "fuel \<noteq> 0" using 3(1) by (cases fuel) simp_all
    have full: "?wait = backoff p k" if "wr_waits rn' \<noteq> []"
    proof (rule ccontr)
      assume "?wait \<noteq> backoff p k"
      then have "d \<le> ?next" by (auto simp: min_def max_def split: if_splits)
      then have "wr_waits rn' = []"
        using 3(1) \<open>fuel \<noteq> 0\<close> by (cases fuel) (auto simp: Let_def ctx_done_def returned_def)
      then show False using that by simp
    qed
    have sum: "?wait + max (d - ?next) 0 \<le> max (d - now) 0"
      using wait(3) by (auto simp: min_def max_def split: if_splits)
    show ?thesis
    proof (intro conjI allI impI)
      fix i assume "i < length (wr_waits rn)"
      then show "0 \<le> wr_waits rn ! i" "wr_waits rn ! i \<le> backoff p (k + i)"
        using IH wait by (auto simp: 3(2) nth_Cons split: nat.split)
    next
      fix i assume "Suc i < length (wr_waits rn)"
      then show "wr_waits rn ! i = backoff p (k + i)"
        using IH full by (auto simp: 3(2) nth_Cons split: nat.split)
    next
      show "sum_list (wr_waits rn) \<le> max (d - now) 0" using IH sum by (simp add: 3(2))
    qed
  qed (use wait in auto)
qed simp

section \<open>Properties\<close>

text \<open>C18: at most one of the attempts of an audit write takes effect; a reported success means
  exactly one did, and the reported impact is true: unchanged means none did, committed
  means exactly one did.\<close>

theorem audit_write_at_most_once:
  assumes "withAuditWrite fuel False caller now p rounds = Some rn"
  shows "let durable = length (filter attempt_durable (wr_attempted rn)) in
    durable \<le> 1 \<and>
    (case wr_result rn of WriteOk \<Rightarrow> durable = 1
     | WriteFailed Unchanged _ \<Rightarrow> durable = 0
     | WriteFailed NeverReachedCommit _ \<Rightarrow> durable = 0
     | WriteFailed AtomicWriteCommitted _ \<Rightarrow> durable = 1
     | WriteFailed OutcomeUnconfirmed _ \<Rightarrow> True
     | NilContext \<Rightarrow> False)"
proof -
  obtain p' d delay where r: "retryAuditWrite fuel p' d rounds 0 delay now = Some rn"
    using assms unfolding withAuditWrite_def Let_def by auto
  show ?thesis
    using retryAuditWrite_accounted [OF r] retryAuditWrite_not_nil [OF r]
    by (auto simp: accounted_def Let_def split: write_result.split impact.split)
qed

text \<open>The witnesses run a first attempt that meets a locked database and a second one that
  commits.\<close>

definition quiet_attempt :: attempt_env where
  "quiet_attempt = \<lparr>ctx_done_entry = False, conn_error = None, pragma_error = None, ctx_done_begin = False,
     begin_error = None, op_error = None, ctx_done_commit = False, commit_reply = CommitOk,
     rollback_reply = RollbackOk, ctx_done_rollback = False, restore_reply = RestoreOk, retire_ok = True,
     defensive_retire_ok = True, close_error = False, warn_ok = True\<rparr>"

definition locked_then_ok :: "nat \<Rightarrow> retry_round" where
  "locked_then_ok k = \<lparr>rd_cancelled_before = False,
     rd_attempt = (if k = 0 then quiet_attempt\<lparr>begin_error := Some (Coded 517)\<rparr> else quiet_attempt),
     rd_attempt_time = 3, rd_cancelled_after = False, rd_drift = 1, rd_ctx_wait = False, rd_timer_late = 2\<rparr>"

lemma locked_then_ok_result:
  "withAuditWrite 36 False None 7 defaultAuditWriterPolicy locked_then_ok =
     Some \<lparr>wr_result = WriteOk, wr_attempted = [quiet_attempt\<lparr>begin_error := Some (Coded 517)\<rparr>, quiet_attempt],
       wr_waits = [25000000]\<rparr>"
  by code_simp

theorem audit_write_at_most_once_witness:
  "\<exists>rn. withAuditWrite 36 False None 7 defaultAuditWriterPolicy locked_then_ok = Some rn \<and>
     wr_result rn = WriteOk \<and> length (filter attempt_durable (wr_attempted rn)) = 1"
  using audit_write_at_most_once [OF locked_then_ok_result] locked_then_ok_result by (simp add: Let_def)

text \<open>C39: an audit write always returns, whatever the attempts meet and however the caller and the timers
  behave: with the default budget of thirty seconds and delays that double from twenty-five
  milliseconds to one second the loop's own waits bring it to its deadline within 36 rounds.  It
  waits the delays of the schedule, the last wait at most its delay, and no longer altogether
  than the budget.\<close>

theorem audit_write_returns:
  assumes "wp_ceiling p = 0"
  shows "\<exists>rn. withAuditWrite 36 False caller now p rounds = Some rn \<and>
    length (wr_attempted rn) \<le> 36 \<and>
    (\<forall>i < length (wr_waits rn). 0 \<le> wr_waits rn ! i \<and> wr_waits rn ! i \<le> backoff defaultAuditWriterPolicy i) \<and>
    (\<forall>i. Suc i < length (wr_waits rn) \<longrightarrow> wr_waits rn ! i = backoff defaultAuditWriterPolicy i) \<and>
    sum_list (wr_waits rn) \<le> 30000000000"
proof -
  let ?p = defaultAuditWriterPolicy
  let ?d = "case caller of None \<Rightarrow> now + wp_ceiling ?p | Some d \<Rightarrow> min d (now + wp_ceiling ?p)"
  have d: "?d \<le> now + 30000000000" by (simp add: defaultAuditWriterPolicy_def split: option.split)
  have nonneg: "0 \<le> wp_initialDelay ?p" "0 \<le> wp_maxDelay ?p" by (simp_all add: defaultAuditWriterPolicy_def)
  have start: "withAuditWrite 36 False caller now p rounds = retryAuditWrite (Suc 35) ?p (Some ?d) rounds 0 (backoff ?p 0) now"
    using assms by (simp add: withAuditWrite_def Let_def del: retryAuditWrite.simps)
  have "sum_list (map (backoff ?p) [0..<0 + 35]) = 30575000000" by code_simp
  then have "retryAuditWrite (Suc 35) ?p (Some ?d) rounds 0 (backoff ?p 0) now \<noteq> None"
    using retry_running [of 35 ?p ?d rounds 0 now] nonneg d by auto
  then obtain rn where rn: "retryAuditWrite (Suc 35) ?p (Some ?d) rounds 0 (backoff ?p 0) now = Some rn" by auto
  have "sum_list (wr_waits rn) \<le> 30000000000"
    using retry_waits [OF rn nonneg] d by auto
  then show ?thesis
    using retry_waits [OF rn nonneg] retry_attempts [OF rn] start rn by auto
qed

text \<open>A write that meets a locked database in every round gives up at its deadline; one whose caller's
  deadline is earlier gives up there.\<close>

definition always_locked :: "nat \<Rightarrow> retry_round" where
  "always_locked k = (locked_then_ok 0)\<lparr>rd_attempt_time := 0\<rparr>"

theorem audit_write_returns_witness:
  "\<exists>rn. withAuditWrite 36 False (Some 100000000) 0 \<lparr>wp_ceiling = 0, wp_initialDelay = 0, wp_maxDelay = 0\<rparr> always_locked = Some rn
     \<and> wr_waits rn ! 0 = 25000000 \<and> wr_waits rn ! 1 = 50000000 \<and> length (wr_waits rn) = 3"
proof -
  let ?p = "\<lparr>wp_ceiling = 0, wp_initialDelay = 0, wp_maxDelay = 0\<rparr>"
  obtain rn where rn: "withAuditWrite 36 False (Some 100000000) 0 ?p always_locked = Some rn"
    and waits: "\<forall>i. Suc i < length (wr_waits rn) \<longrightarrow> wr_waits rn ! i = backoff defaultAuditWriterPolicy i"
    using audit_write_returns [of ?p "Some 100000000" 0 always_locked] by auto
  have "map_option (length \<circ> wr_waits) (withAuditWrite 36 False (Some 100000000) 0 ?p always_locked) = Some 3"
    by code_simp
  then have len: "length (wr_waits rn) = 3" by (simp add: rn)
  have "backoff defaultAuditWriterPolicy 0 = 25000000" "backoff defaultAuditWriterPolicy 1 = 50000000"
    by (simp_all add: defaultAuditWriterPolicy_def)
  then show ?thesis using rn len waits by auto
qed

text \<open>An attempt lowers the busy timeout of its connection; one that reports success has
  restored it or removed the connection from the pool, and a connection that could not be
  removed is reported as an error that is not retried.\<close>

theorem audit_write_no_policy_leak:
  assumes "\<not> ctx_done_entry a" "conn_error a = None"
  shows "(\<not> ar_err (auditWriteAttempt a) \<longrightarrow> conn_after a \<in> {TierRestored, Retired}) \<and>
   (conn_after a = TierLowered \<longrightarrow>
      \<not> retire_ok a \<and> \<not> defensive_retire_ok a \<and> ar_err (auditWriteAttempt a) \<and> \<not> ar_retry (auditWriteAttempt a))"
proof -
  have lowered: "must_retire a \<and> \<not> retire_ok a \<and> \<not> defensive_retire_ok a" if "conn_after a = TierLowered"
    using that by (auto simp: conn_after_def must_retire_def restore_failed_def split: if_splits)
  have reported: "ar_err (auditWriteAttempt a) \<and> \<not> ar_retry (auditWriteAttempt a)"
    if "must_retire a" "\<not> retire_ok a"
    using that assms
    by (auto simp: auditWriteAttempt_def degraded_success_def cleanup_failed_def split: prod.splits)
  show ?thesis using lowered reported by (cases "conn_after a") auto
qed

theorem audit_write_no_policy_leak_witness:
  "ar_err (auditWriteAttempt (quiet_attempt\<lparr>restore_reply := RestoreErr, retire_ok := False,
     defensive_retire_ok := False\<rparr>)) \<and>
   conn_after (quiet_attempt\<lparr>restore_reply := RestoreDeadline\<rparr>) \<in> {TierRestored, Retired}"
proof -
  have "conn_after (quiet_attempt\<lparr>restore_reply := RestoreErr, retire_ok := False, defensive_retire_ok := False\<rparr>)
      = TierLowered" "\<not> ar_err (auditWriteAttempt (quiet_attempt\<lparr>restore_reply := RestoreDeadline\<rparr>))"
    by code_simp+
  then show ?thesis
    using audit_write_no_policy_leak
        [of "quiet_attempt\<lparr>restore_reply := RestoreErr, retire_ok := False, defensive_retire_ok := False\<rparr>"]
      audit_write_no_policy_leak [of "quiet_attempt\<lparr>restore_reply := RestoreDeadline\<rparr>"]
    by (simp add: quiet_attempt_def)
qed

end
