(* ===== verification/Engine.thy ===== *)
theory Engine
  imports EpochMachine AuditTrail
begin

text \<open>
  The durable drivers of an epoch (\<^verbatim>\<open>internal/engine/workflow.go\<close>,
  \<^verbatim>\<open>control.go\<close>) and the state projection they maintain
  (\<^verbatim>\<open>projection.go\<close>).

  The durable runtime is code outside the repository.  What it does is an argument of the
  definitions: the outcome of every receive is an element of a queue, the step ordinal that
  \<open>GetStepID\<close> returns is a function of the number of durable operations performed so far, and
  so are the clock and the failures of the database and of the transition hook.  A durable
  step is its body, run once; the replay of a step that a crash interrupted is the subject of
  section \<open>Crash and replay\<close>.
\<close>

section \<open>Environment and world\<close>

datatype 'a recv = Msg 'a | TimedOut | RecvFailed string

datatype engine_error =
    MarshalError string
  | ProjectionError string
  | CorruptProjection string
  | TrailError audit_error
  | TrailWriteError string
  | HookError string
  | StepIdError string
  | RecvError string

text \<open>\<open>env_now n i\<close> is the \<open>i\<close>-th reading of the clock after \<open>n\<close> durable operations.\<close>

record engine_env =
  env_specs :: "specs option"
  env_uuid5 :: "string \<Rightarrow> string"
  env_marshal :: "EpochState \<Rightarrow> string + string"
  env_unmarshal :: "string \<Rightarrow> string + EpochState"
  env_step_id :: "nat \<Rightarrow> string + int"
  env_now :: "nat \<Rightarrow> nat \<Rightarrow> timestamp"
  env_newV7 :: "nat \<Rightarrow> string option"
  env_upsert_error :: "nat \<Rightarrow> string option"
  env_trail_error :: "nat \<Rightarrow> string option"
  env_hook_error :: "nat \<Rightarrow> string option"

record projection_row =
  pr_current_phase :: PhaseId
  pr_state_json :: string
  pr_updated_at :: timestamp

record world =
  w_ops :: nat
  w_projection :: "string \<rightharpoonup> projection_row"
  w_trail :: SqliteAuditTrail

definition tick :: "world \<Rightarrow> world" where
  "tick w = w\<lparr>w_ops := Suc (w_ops w)\<rparr>"

text \<open>The body of a durable step: an error, or none, and the world it leaves.  A body stops at
  its first error.\<close>

type_synonym step = "world \<Rightarrow> engine_error option \<times> world"

definition and_then :: "step \<Rightarrow> step \<Rightarrow> step" where
  "and_then f g w = (case f w of (Some e, w') \<Rightarrow> (Some e, w') | (None, w') \<Rightarrow> g w')"

text \<open>\<open>dbos.RunAsStep\<close> counts one durable operation, whether the body succeeds or not.\<close>

definition RunAsStep :: "step \<Rightarrow> step" where
  "RunAsStep f w = (case f w of (r, w') \<Rightarrow> (r, tick w'))"

section \<open>The projection\<close>

definition WriteProjection :: "engine_env \<Rightarrow> EpochState \<Rightarrow> timestamp \<Rightarrow> step" where
  "WriteProjection env state nowUnixNano w =
     (case env_marshal env state of
        Err e \<Rightarrow> (Some (MarshalError e), w)
      | Ok blob \<Rightarrow>
          (case env_upsert_error env (w_ops w) of
             Some e \<Rightarrow> (Some (ProjectionError e), w)
           | None \<Rightarrow> (None, w\<lparr>w_projection := (w_projection w)(EpochId state \<mapsto>
               \<lparr>pr_current_phase = CurrentPhase state, pr_state_json = blob,
                pr_updated_at = nowUnixNano\<rparr>)\<rparr>)))"

text \<open>\<open>read_error\<close> is the error of the query itself.\<close>

definition ReadProjection ::
    "engine_env \<Rightarrow> string option \<Rightarrow> (string \<rightharpoonup> projection_row) \<Rightarrow> string \<Rightarrow> engine_error + EpochState option" where
  "ReadProjection env read_error proj epochId =
     (case read_error of Some e \<Rightarrow> Err (ProjectionError e) | None \<Rightarrow>
      case proj epochId of None \<Rightarrow> Ok None
      | Some row \<Rightarrow>
          (case env_unmarshal env (pr_state_json row) of
             Err e \<Rightarrow> Err (CorruptProjection e)
           | Ok state \<Rightarrow> Ok (Some state)))"

definition projectState :: "engine_env \<Rightarrow> EpochState \<Rightarrow> step" where
  "projectState env state w = RunAsStep (WriteProjection env state (env_now env (w_ops w) 2)) w"

section \<open>Emission\<close>

definition record_event :: "engine_env \<Rightarrow> AuditEvent \<Rightarrow> step" where
  "record_event env ev w =
     (case env_trail_error env (w_ops w) of
        Some e \<Rightarrow> (Some (TrailWriteError e), w)
      | None \<Rightarrow>
          (case RecordEventReturningId (w_trail w) (env_newV7 env (w_ops w), ev) of
             (Err e, t) \<Rightarrow> (Some (TrailError e), w\<lparr>w_trail := t\<rparr>)
           | (Ok _, t) \<Rightarrow> (None, w\<lparr>w_trail := t\<rparr>)))"

definition transition_event :: "string \<Rightarrow> string \<Rightarrow> TransitionRecord \<Rightarrow> string \<Rightarrow> AuditEvent" where
  "transition_event epochId role rec dedupKey =
     \<lparr>ae_ID = 0, ae_EpochId = epochId, ae_Phase = tr_ToPhase rec, ae_Role = role,
      ae_EventType = EventPhaseTransition,
      ae_Payload = [(''conditionMet'', tr_ConditionMet rec), (''from'', tr_FromPhase rec), (''to'', tr_ToPhase rec)],
      ae_Timestamp = tr_Timestamp rec, ae_DedupKey = dedupKey\<rparr>"

definition emitTransition :: "engine_env \<Rightarrow> string \<Rightarrow> string \<Rightarrow> TransitionRecord \<Rightarrow> string \<Rightarrow> step" where
  "emitTransition env epochId role rec dedupKey =
     record_event env (transition_event epochId role rec dedupKey)"

definition run_hook :: "engine_env \<Rightarrow> step" where
  "run_hook env w =
     (case env_hook_error env (w_ops w) of Some e \<Rightarrow> (Some (HookError e), w) | None \<Rightarrow> (None, w))"

definition transition_key :: "engine_env \<Rightarrow> string \<Rightarrow> TransitionRecord \<Rightarrow> string \<Rightarrow> string" where
  "transition_key env epochId rec stepSeq =
     DedupKey (env_uuid5 env) epochId (tr_ToPhase rec) EventPhaseTransition stepSeq"

text \<open>The three actions of the transition step, in order.\<close>

definition commit_actions ::
    "engine_env \<Rightarrow> string \<Rightarrow> string \<Rightarrow> TransitionRecord \<Rightarrow> EpochState \<Rightarrow> string \<Rightarrow> timestamp \<Rightarrow> step list" where
  "commit_actions env epochId role rec state stepSeq now =
     [WriteProjection env state now,
      emitTransition env epochId role rec (transition_key env epochId rec stepSeq),
      run_hook env]"

definition commitTransition ::
    "engine_env \<Rightarrow> string \<Rightarrow> string \<Rightarrow> TransitionRecord \<Rightarrow> EpochState \<Rightarrow> string \<Rightarrow> step" where
  "commitTransition env epochId role rec state stepSeq w =
     RunAsStep
       (foldr and_then (commit_actions env epochId role rec state stepSeq (env_now env (w_ops w) 2)) (Pair None)) w"

definition vote_event :: "string \<Rightarrow> PhaseId \<Rightarrow> ReviewVoteSignal \<Rightarrow> timestamp \<Rightarrow> string \<Rightarrow> AuditEvent" where
  "vote_event epochId phase vote now dedupKey =
     (let reviewer = (if rvs_ReviewerId vote = [] then RoleReviewer else rvs_ReviewerId vote) in
      \<lparr>ae_ID = 0, ae_EpochId = epochId, ae_Phase = phase, ae_Role = reviewer,
       ae_EventType = EventVoteRecorded,
       ae_Payload = [(''axis'', rvs_Axis vote), (''reviewerId'', reviewer), (''vote'', rvs_Vote vote)],
       ae_Timestamp = now, ae_DedupKey = dedupKey\<rparr>)"

definition emitVoteRecorded ::
    "engine_env \<Rightarrow> string \<Rightarrow> PhaseId \<Rightarrow> ReviewVoteSignal \<Rightarrow> string \<Rightarrow> step" where
  "emitVoteRecorded env epochId phase vote stepSeq w =
     RunAsStep (record_event env (vote_event epochId phase vote (env_now env (w_ops w) 3)
       (DedupKey (env_uuid5 env) epochId phase EventVoteRecorded stepSeq))) w"

section \<open>The scripted driver\<close>

record AdvanceStep =
  as_ToPhase :: PhaseId
  as_TriggeredBy :: string
  as_ConditionMet :: string
  as_Votes :: "ReviewVoteSignal list"
  as_BlockerDelta :: int

record EpochInput =
  ein_EpochId :: string
  ein_Advances :: "AdvanceStep list"

text \<open>The negation of the delta wraps.\<close>

definition applyBlockerDelta :: "EpochStateMachine \<Rightarrow> int \<Rightarrow> EpochStateMachine" where
  "applyBlockerDelta sm delta =
     (if delta > 0 then ((\<lambda>s. RecordBlocker s False) ^^ nat delta) sm
      else ((\<lambda>s. RecordBlocker s True) ^^ nat (i64 (- delta))) sm)"

definition or_epoch_role :: "string \<Rightarrow> string" where
  "or_epoch_role by = (if by = [] then RoleEpoch else by)"

text \<open>The part both drivers share: capture the step ordinal, advance, and either record the
  failed attempt and project it or commit the transition.\<close>

definition drive_advance ::
    "engine_env \<Rightarrow> string \<Rightarrow> PhaseId \<Rightarrow> string \<Rightarrow> string \<Rightarrow> EpochStateMachine \<Rightarrow> world \<Rightarrow>
     engine_error option \<times> EpochStateMachine \<times> world" where
  "drive_advance env epochId toPhase triggeredBy conditionMet sm w =
     (case env_step_id env (w_ops w) of
        Err e \<Rightarrow> (Some (StepIdError e), sm, w)
      | Ok stepSeqInt \<Rightarrow>
          (case Advance sm toPhase triggeredBy conditionMet (env_now env (w_ops w) 0) of
             (Err err, sm1) \<Rightarrow>
               let sm2 = RecordFailedTransition sm1 (CurrentPhase (sm_state sm)) toPhase
                     (env_now env (w_ops w) 1) triggeredBy (TransitionError_Error err);
                   (r, w') = projectState env (sm_state sm2) w
               in (r, sm2, w')
           | (Ok rec, sm1) \<Rightarrow>
               let (r, w') = commitTransition env epochId triggeredBy rec (sm_state sm1) (dec_int stepSeqInt) w
               in (r, sm1, w')))"

fun epoch_plan ::
    "engine_env \<Rightarrow> string \<Rightarrow> AdvanceStep list \<Rightarrow> EpochStateMachine \<Rightarrow> world \<Rightarrow>
     engine_error option \<times> EpochStateMachine \<times> world" where
  "epoch_plan env epochId [] sm w = (None, sm, w)"
| "epoch_plan env epochId (adv # advs) sm w =
     (let sm1 = foldl (\<lambda>s v. snd (RecordVote s (rvs_Axis v) (rvs_Vote v))) sm (as_Votes adv);
          sm2 = applyBlockerDelta sm1 (as_BlockerDelta adv) in
      case drive_advance env epochId (as_ToPhase adv) (or_epoch_role (as_TriggeredBy adv))
             (as_ConditionMet adv) sm2 w of
        (Some e, sm3, w') \<Rightarrow> (Some e, sm3, w')
      | (None, sm3, w') \<Rightarrow> epoch_plan env epochId advs sm3 w')"

definition EpochWorkflow :: "engine_env \<Rightarrow> EpochInput \<Rightarrow> world \<Rightarrow> engine_error option \<times> EpochState \<times> world" where
  "EpochWorkflow env input w =
     (case epoch_plan env (ein_EpochId input) (ein_Advances input)
             (NewEpochStateMachine (ein_EpochId input) (env_specs env)) w of
        (r, sm, w') \<Rightarrow> (r, sm_state sm, w'))"

section \<open>The signal-driven driver\<close>

record queues =
  q_votes :: "ReviewVoteSignal recv list"
  q_sessions :: "RegisterSessionSignal recv list"
  q_progress :: "SliceProgressSignal recv list"

text \<open>A receive with no time to wait on an empty queue times out.\<close>

fun drain_votes ::
    "engine_env \<Rightarrow> string \<Rightarrow> ReviewVoteSignal recv list \<Rightarrow> bool \<Rightarrow> EpochStateMachine \<Rightarrow> world \<Rightarrow>
     engine_error option \<times> bool \<times> EpochStateMachine \<times> ReviewVoteSignal recv list \<times> world" where
  "drain_votes env epochId [] changed sm w = (None, changed, sm, [], tick w)"
| "drain_votes env epochId (TimedOut # q) changed sm w = (None, changed, sm, q, tick w)"
| "drain_votes env epochId (RecvFailed e # q) changed sm w = (Some (RecvError e), changed, sm, q, tick w)"
| "drain_votes env epochId (Msg vote # q) changed sm w =
     (let w1 = tick w in
      if rvs_Axis vote = [] then (None, changed, sm, q, w1)
      else case RecordVote sm (rvs_Axis vote) (rvs_Vote vote) of
        (Err _, sm1) \<Rightarrow> drain_votes env epochId q changed sm1 w1
      | (Ok _, sm1) \<Rightarrow>
          (case env_step_id env (w_ops w1) of
             Err e \<Rightarrow> (Some (StepIdError e), changed, sm1, q, w1)
           | Ok n \<Rightarrow>
               (case emitVoteRecorded env epochId (CurrentPhase (sm_state sm1)) vote (dec_int n) w1 of
                  (Some e, w2) \<Rightarrow> (Some e, changed, sm1, q, w2)
                | (None, w2) \<Rightarrow> drain_votes env epochId q True sm1 w2)))"

definition addSession :: "EpochState \<Rightarrow> RegisterSessionSignal \<Rightarrow> bool \<times> EpochState" where
  "addSession state sess =
     (if list_ex (\<lambda>existing. rss_SessionId existing = rss_SessionId sess) (ActiveSessions state)
      then (False, state)
      else let sessions = ActiveSessions state @ [sess] in
        (True, state\<lparr>ActiveSessions := sessions, ActiveSessionCount := int (length sessions)\<rparr>))"

fun drain_sessions ::
    "RegisterSessionSignal recv list \<Rightarrow> bool \<Rightarrow> EpochState \<Rightarrow> world \<Rightarrow>
     engine_error option \<times> bool \<times> EpochState \<times> RegisterSessionSignal recv list \<times> world" where
  "drain_sessions [] changed st w = (None, changed, st, [], tick w)"
| "drain_sessions (TimedOut # q) changed st w = (None, changed, st, q, tick w)"
| "drain_sessions (RecvFailed e # q) changed st w = (Some (RecvError e), changed, st, q, tick w)"
| "drain_sessions (Msg sess # q) changed st w =
     (if rss_SessionId sess = [] then (None, changed, st, q, tick w)
      else let (added, st') = addSession st sess in
        drain_sessions q (changed \<or> added) st' (tick w))"

fun drain_progress ::
    "SliceProgressSignal recv list \<Rightarrow> bool \<Rightarrow> EpochState \<Rightarrow> world \<Rightarrow>
     engine_error option \<times> bool \<times> EpochState \<times> SliceProgressSignal recv list \<times> world" where
  "drain_progress [] changed st w = (None, changed, st, [], tick w)"
| "drain_progress (TimedOut # q) changed st w = (None, changed, st, q, tick w)"
| "drain_progress (RecvFailed e # q) changed st w = (Some (RecvError e), changed, st, q, tick w)"
| "drain_progress (Msg prog # q) changed st w =
     (if sps_SliceId prog = [] \<and> sps_LeafTaskId prog = [] then (None, changed, st, q, tick w)
      else drain_progress q True (st\<lparr>SliceProgress := SliceProgress st @ [prog]\<rparr>) (tick w))"

definition drainSideChannels ::
    "engine_env \<Rightarrow> string \<Rightarrow> EpochStateMachine \<Rightarrow> queues \<Rightarrow> world \<Rightarrow>
     engine_error option \<times> bool \<times> EpochStateMachine \<times> queues \<times> world" where
  "drainSideChannels env epochId sm q w =
     (case drain_votes env epochId (q_votes q) False sm w of
        (Some e, changed, sm1, qv, w1) \<Rightarrow> (Some e, changed, sm1, q\<lparr>q_votes := qv\<rparr>, w1)
      | (None, changed, sm1, qv, w1) \<Rightarrow>
          (case drain_sessions (q_sessions q) changed (sm_state sm1) w1 of
             (Some e, changed2, st2, qs, w2) \<Rightarrow>
               (Some e, changed2, sm1\<lparr>sm_state := st2\<rparr>, q\<lparr>q_votes := qv, q_sessions := qs\<rparr>, w2)
           | (None, changed2, st2, qs, w2) \<Rightarrow>
               (case drain_progress (q_progress q) changed2 st2 w2 of
                  (r, changed3, st3, qp, w3) \<Rightarrow>
                    (r, changed3, sm1\<lparr>sm_state := st3\<rparr>,
                     \<lparr>q_votes = qv, q_sessions = qs, q_progress = qp\<rparr>, w3))))"

text \<open>One round of the loop: what the receive on the advance topic returned, and the signals
  that had arrived on the side channels by then.\<close>

record control_round =
  cr_advance :: "PhaseAdvanceSignal recv"
  cr_arrived :: queues

definition arrive :: "queues \<Rightarrow> queues \<Rightarrow> queues" where
  "arrive q new = \<lparr>q_votes = q_votes q @ q_votes new, q_sessions = q_sessions q @ q_sessions new,
     q_progress = q_progress q @ q_progress new\<rparr>"

definition control_step ::
    "engine_env \<Rightarrow> string \<Rightarrow> control_round \<Rightarrow> EpochStateMachine \<Rightarrow> queues \<Rightarrow> world \<Rightarrow>
     engine_error option \<times> EpochStateMachine \<times> queues \<times> world" where
  "control_step env epochId r sm q w =
     (let w0 = tick w; q0 = arrive q (cr_arrived r) in
      case cr_advance r of
        RecvFailed e \<Rightarrow> (Some (RecvError e), sm, q0, w0)
      | TimedOut \<Rightarrow>
          (case drainSideChannels env epochId sm q0 w0 of
             (Some e, changed, sm1, q1, w1) \<Rightarrow> (Some e, sm1, q1, w1)
           | (None, changed, sm1, q1, w1) \<Rightarrow>
               if changed then let (r, w2) = projectState env (sm_state sm1) w1 in (r, sm1, q1, w2)
               else (None, sm1, q1, w1))
      | Msg adv \<Rightarrow>
          (case drainSideChannels env epochId sm q0 w0 of
             (Some e, changed, sm1, q1, w1) \<Rightarrow> (Some e, sm1, q1, w1)
           | (None, changed, sm1, q1, w1) \<Rightarrow>
               if pas_ToPhase adv = []
               then let (r, w2) = projectState env (sm_state sm1) w1 in (r, sm1, q1, w2)
               else let (r, sm2, w2) = drive_advance env epochId (pas_ToPhase adv)
                      (or_epoch_role (pas_TriggeredBy adv)) (pas_ConditionMet adv) sm1 w1
                    in (r, sm2, q1, w2)))"

datatype control_outcome =
    Parked EpochStateMachine queues world
  | Finished "engine_error option" EpochStateMachine world

fun control_loop ::
    "engine_env \<Rightarrow> string \<Rightarrow> control_round list \<Rightarrow> EpochStateMachine \<Rightarrow> queues \<Rightarrow> world \<Rightarrow> control_outcome" where
  "control_loop env epochId [] sm q w =
     (if CurrentPhase (sm_state sm) = PhaseComplete then Finished None sm w else Parked sm q w)"
| "control_loop env epochId (r # rs) sm q w =
     (if CurrentPhase (sm_state sm) = PhaseComplete then Finished None sm w
      else case control_step env epochId r sm q w of
        (Some e, sm1, q1, w1) \<Rightarrow> Finished (Some e) sm1 w1
      | (None, sm1, q1, w1) \<Rightarrow> control_loop env epochId rs sm1 q1 w1)"

text \<open>The workflow; when the rounds run out before the terminal phase it is parked in its
  receive.\<close>

definition EpochControlWorkflow :: "engine_env \<Rightarrow> string \<Rightarrow> control_round list \<Rightarrow> world \<Rightarrow> control_outcome" where
  "EpochControlWorkflow env epochId rs w =
     control_loop env epochId rs (NewEpochStateMachine epochId (env_specs env))
       \<lparr>q_votes = [], q_sessions = [], q_progress = []\<rparr> w"

section \<open>What the drivers do to the machine\<close>

text \<open>Every driver acts on its machine through these operations only.\<close>

datatype driver_op = Fsm epoch_op | AddSession RegisterSessionSignal | AddProgress SliceProgressSignal

fun apply_driver :: "EpochStateMachine \<Rightarrow> driver_op \<Rightarrow> EpochStateMachine" where
  "apply_driver sm (Fsm op) = apply_op sm op"
| "apply_driver sm (AddSession s) = sm\<lparr>sm_state := snd (addSession (sm_state sm) s)\<rparr>"
| "apply_driver sm (AddProgress p) =
     sm\<lparr>sm_state := (sm_state sm)\<lparr>SliceProgress := SliceProgress (sm_state sm) @ [p]\<rparr>\<rparr>"

definition driven :: "(driver_op \<Rightarrow> bool) \<Rightarrow> EpochStateMachine \<Rightarrow> EpochStateMachine \<Rightarrow> bool" where
  "driven P sm sm' \<longleftrightarrow> (\<exists>ops. list_all P ops \<and> sm' = run apply_driver sm ops)"

text \<open>The signal-driven driver uses all of them but the blocker operations.\<close>

definition no_blocker :: "driver_op \<Rightarrow> bool" where
  "no_blocker op \<longleftrightarrow> (case op of Fsm (OpBlocker b) \<Rightarrow> False | _ \<Rightarrow> True)"

abbreviation steered :: "EpochStateMachine \<Rightarrow> EpochStateMachine \<Rightarrow> bool" where
  "steered \<equiv> driven no_blocker"

lemma driven_refl: "driven P sm sm"
  unfolding driven_def by (rule exI [of _ "[]"]) simp

lemma driven_trans: "driven P a b \<Longrightarrow> driven P b c \<Longrightarrow> driven P a c"
  unfolding driven_def by (metis run_simps(3) list_all_append)

lemma driven_op: "P op \<Longrightarrow> driven P sm (apply_driver sm op)"
  unfolding driven_def by (rule exI [of _ "[op]"]) simp

lemma driven_mono: "driven P sm sm' \<Longrightarrow> (\<And>op. P op \<Longrightarrow> Q op) \<Longrightarrow> driven Q sm sm'"
  unfolding driven_def by (metis list.pred_mono_strong)

lemma driven_vote: "steered sm (snd (RecordVote sm ax v))"
  using driven_op [of no_blocker "Fsm (OpVote ax v)" sm] by (simp add: no_blocker_def)

lemma driven_session: "steered (sm\<lparr>sm_state := st\<rparr>) (sm\<lparr>sm_state := snd (addSession st s)\<rparr>)"
  using driven_op [of no_blocker "AddSession s" "sm\<lparr>sm_state := st\<rparr>"] by (simp add: no_blocker_def)

lemma driven_progress:
  "steered (sm\<lparr>sm_state := st\<rparr>) (sm\<lparr>sm_state := st\<lparr>SliceProgress := SliceProgress st @ [p]\<rparr>\<rparr>)"
  using driven_op [of no_blocker "AddProgress p" "sm\<lparr>sm_state := st\<rparr>"] by (simp add: no_blocker_def)

lemma driven_advance: "steered sm (snd (Advance sm to by cond ts))"
  using driven_op [of no_blocker "Fsm (OpAdvance to by cond ts)" sm] by (simp add: no_blocker_def)

lemma driven_failed: "steered sm (RecordFailedTransition sm from to ts by err)"
  using driven_op [of no_blocker "Fsm (OpFailed from to ts by err)" sm] by (simp add: no_blocker_def)

lemma driven_blocker: "driven (\<lambda>_. True) sm (RecordBlocker sm resolved)"
  using driven_op [of "\<lambda>_. True" "Fsm (OpBlocker resolved)" sm] by simp

text \<open>One vote of the drain.\<close>

lemma drain_votes_msg:
  assumes "drain_votes env e (Msg vote # q) ch sm w = (r, ch', sm', q', w')"
  obtains (drained) "r = None" "ch' = ch" "sm' = sm" "w' = tick w"
  | (invalid) "drain_votes env e q ch sm (tick w) = (r, ch', sm', q', w')"
  | (ordinal) er where "r = Some er" "sm' = snd (RecordVote sm (rvs_Axis vote) (rvs_Vote vote))" "w' = tick w"
  | (failed) n er phase where "env_step_id env (w_ops (tick w)) = Ok n" "r = Some er"
    "sm' = snd (RecordVote sm (rvs_Axis vote) (rvs_Vote vote))"
    "emitVoteRecorded env e phase vote (dec_int n) (tick w) = (Some er, w')"
  | (emitted) n phase w2 where "env_step_id env (w_ops (tick w)) = Ok n"
    "emitVoteRecorded env e phase vote (dec_int n) (tick w) = (None, w2)"
    "drain_votes env e q True (snd (RecordVote sm (rvs_Axis vote) (rvs_Vote vote))) w2 = (r, ch', sm', q', w')"
proof -
  obtain res sm1 where rv: "RecordVote sm (rvs_Axis vote) (rvs_Vote vote) = (res, sm1)" by fastforce
  show thesis
  proof (cases "rvs_Axis vote = []")
    case True
    then show thesis using drained assms by simp
  next
    case axis: False
    show thesis
    proof (cases res)
      case (Inl er)
      then have "sm1 = sm" using rv by (auto simp: RecordVote_def split: if_splits)
      then show thesis using invalid assms axis rv Inl by simp
    next
      case ok: (Inr u)
      show thesis
      proof (cases "env_step_id env (w_ops (tick w))")
        case (Inl er)
        then show thesis using ordinal [of "StepIdError er"] assms axis rv ok by simp
      next
        case (Inr n)
        obtain r2 w2 where em: "emitVoteRecorded env e (CurrentPhase (sm_state sm1)) vote (dec_int n) (tick w) = (r2, w2)"
          by fastforce
        show thesis
          using failed [OF Inr, of _ "CurrentPhase (sm_state sm1)"] emitted [OF Inr, of "CurrentPhase (sm_state sm1)" w2]
            assms axis rv ok Inr em
          by (cases r2) simp_all
      qed
    qed
  qed
qed

lemma driven_drain_votes:
  "drain_votes env e q ch sm w = (r, ch', sm', q', w') \<Longrightarrow> steered sm sm'"
proof (induction q arbitrary: ch sm w)
  case (Cons m q)
  show ?case
  proof (cases m)
    case (Msg vote)
    have step: "steered sm (snd (RecordVote sm (rvs_Axis vote) (rvs_Vote vote)))" by (rule driven_vote)
    from Cons.prems [unfolded Msg] show ?thesis
      by (cases rule: drain_votes_msg) (use step Cons.IH driven_refl driven_trans in blast)+
  qed (use Cons.prems driven_refl in auto)
qed (simp add: driven_refl)

lemma driven_drain_sessions:
  "drain_sessions q ch st w = (r, ch', st', q', w') \<Longrightarrow> steered (sm\<lparr>sm_state := st\<rparr>) (sm\<lparr>sm_state := st'\<rparr>)"
proof (induction q ch st w arbitrary: r ch' st' q' w' rule: drain_sessions.induct)
  case (4 sess q ch st w)
  then show ?case
    using driven_session [of st sm sess]
    by (cases "addSession st sess") (auto intro: driven_refl driven_trans split: if_splits)
qed (auto intro: driven_refl)

lemma driven_drain_progress:
  "drain_progress q ch st w = (r, ch', st', q', w') \<Longrightarrow> steered (sm\<lparr>sm_state := st\<rparr>) (sm\<lparr>sm_state := st'\<rparr>)"
proof (induction q ch st w arbitrary: r ch' st' q' w' rule: drain_progress.induct)
  case (4 prog q ch st w)
  then show ?case
    using driven_progress [of st sm prog]
    by (auto intro: driven_refl driven_trans split: if_splits)
qed (auto intro: driven_refl)

lemma driven_drain:
  assumes "drainSideChannels env e sm q w = (r, ch, sm', q', w')"
  shows "steered sm sm'"
proof -
  obtain r1 ch1 sm1 qv w1 where v: "drain_votes env e (q_votes q) False sm w = (r1, ch1, sm1, qv, w1)"
    by (rule prod_cases5)
  obtain r2 ch2 st2 qs w2 where s: "drain_sessions (q_sessions q) ch1 (sm_state sm1) w1 = (r2, ch2, st2, qs, w2)"
    by (rule prod_cases5)
  obtain r3 ch3 st3 qp w3 where p: "drain_progress (q_progress q) ch2 st2 w2 = (r3, ch3, st3, qp, w3)"
    by (rule prod_cases5)
  have "steered sm sm1" using v by (rule driven_drain_votes)
  moreover have "steered sm1 (sm1\<lparr>sm_state := st2\<rparr>)" using driven_drain_sessions [OF s, of sm1] by simp
  moreover have "steered (sm1\<lparr>sm_state := st2\<rparr>) (sm1\<lparr>sm_state := st3\<rparr>)"
    using p by (rule driven_drain_progress)
  moreover have "sm' = (if r1 \<noteq> None then sm1 else if r2 \<noteq> None then sm1\<lparr>sm_state := st2\<rparr> else sm1\<lparr>sm_state := st3\<rparr>)"
    using assms v s p by (auto simp: drainSideChannels_def split: option.splits)
  ultimately show ?thesis by (metis driven_trans)
qed

lemma driven_drive_advance:
  assumes "drive_advance env e to by cond sm w = (r, sm', w')"
  shows "steered sm sm'"
proof -
  let ?A = "Advance sm to by cond (env_now env (w_ops w) 0)"
  have adv: "steered sm (snd ?A)" by (rule driven_advance)
  have fail: "steered (snd ?A) (RecordFailedTransition (snd ?A) from to ts by err)" for "from" ts err
    by (rule driven_failed)
  have "sm' = sm \<or> sm' = snd ?A \<or> (\<exists>from ts err. sm' = RecordFailedTransition (snd ?A) from to ts by err)"
    using assms by (auto simp: drive_advance_def Let_def split: sum.splits prod.splits)
  then show ?thesis using adv fail driven_refl driven_trans by blast
qed

lemma driven_control_step:
  assumes "control_step env e rd sm q w = (r, sm', q', w')"
  shows "steered sm sm'"
proof -
  obtain r1 ch1 sm1 q1 w1
    where d: "drainSideChannels env e sm (arrive q (cr_arrived rd)) (tick w) = (r1, ch1, sm1, q1, w1)"
    by (rule prod_cases5)
  have "steered sm sm1" using d by (rule driven_drain)
  moreover have "sm' = sm \<or> sm' = sm1 \<or>
      (\<exists>to by cond r2 w2. drive_advance env e to by cond sm1 w1 = (r2, sm', w2))"
    using assms d
    by (auto simp: control_step_def Let_def split: recv.splits option.splits prod.splits if_splits)
  ultimately show ?thesis using driven_refl driven_trans driven_drive_advance by metis
qed

fun outcome_machine :: "control_outcome \<Rightarrow> EpochStateMachine" where
  "outcome_machine (Parked sm q w) = sm"
| "outcome_machine (Finished r sm w) = sm"

lemma driven_control_loop: "steered sm (outcome_machine (control_loop env e rs sm q w))"
proof (induction rs arbitrary: sm q w)
  case (Cons rd rs)
  obtain r sm1 q1 w1 where s: "control_step env e rd sm q w = (r, sm1, q1, w1)" by (rule prod_cases4)
  then have "steered sm sm1" by (rule driven_control_step)
  then show ?case using Cons driven_trans driven_refl by (fastforce simp: s split: option.split)
qed (simp add: driven_refl)

text \<open>The scripted driver.\<close>

lemma driven_votes: "driven (\<lambda>_. True) sm (foldl (\<lambda>s v. snd (RecordVote s (rvs_Axis v) (rvs_Vote v))) sm vs)"
proof (induction vs arbitrary: sm)
  case (Cons v vs)
  have "driven (\<lambda>_. True) sm (snd (RecordVote sm (rvs_Axis v) (rvs_Vote v)))"
    by (rule driven_mono [OF driven_vote]) simp
  then show ?case
    using driven_trans [OF _ Cons.IH [of "snd (RecordVote sm (rvs_Axis v) (rvs_Vote v))"]] by simp
qed (simp add: driven_refl)

lemma driven_funpow: "driven (\<lambda>_. True) sm (((\<lambda>s. RecordBlocker s resolved) ^^ n) sm)"
  by (induction n) (auto intro: driven_refl driven_trans driven_blocker)

lemma driven_epoch_plan: "epoch_plan env e advs sm w = (r, sm', w') \<Longrightarrow> driven (\<lambda>_. True) sm sm'"
proof (induction advs arbitrary: sm w)
  case (Cons adv advs)
  let ?sm1 = "foldl (\<lambda>s v. snd (RecordVote s (rvs_Axis v) (rvs_Vote v))) sm (as_Votes adv)"
  let ?sm2 = "applyBlockerDelta ?sm1 (as_BlockerDelta adv)"
  obtain r3 sm3 w3 where d: "drive_advance env e (as_ToPhase adv) (or_epoch_role (as_TriggeredBy adv))
      (as_ConditionMet adv) ?sm2 w = (r3, sm3, w3)" by (rule prod_cases3)
  have "driven (\<lambda>_. True) ?sm1 ?sm2" unfolding applyBlockerDelta_def using driven_funpow by simp
  then have "driven (\<lambda>_. True) sm ?sm2" using driven_votes driven_trans by blast
  moreover have "driven (\<lambda>_. True) ?sm2 sm3" using driven_mono [OF driven_drive_advance [OF d]] by simp
  moreover have "driven (\<lambda>_. True) sm3 sm'"
    using Cons.IH [of sm3 w3] Cons.prems driven_refl by (cases r3) (simp_all add: Let_def d)
  ultimately show ?case by (meson driven_trans)
qed (simp add: driven_refl)

section \<open>The state machine inside a driver\<close>

text \<open>Sessions and slice progress do not enter any gate: without them a driven machine is a
  run of the epoch machine.\<close>

definition core :: "EpochStateMachine \<Rightarrow> EpochStateMachine" where
  "core sm = sm\<lparr>sm_state := (sm_state sm)\<lparr>ActiveSessionCount := 0, ActiveSessions := [], SliceProgress := []\<rparr>\<rparr>"

lemma core_sel [simp]:
  "sm_specs (core sm) = sm_specs sm" "phase_of (core sm) = phase_of sm"
  "ReviewVotes (sm_state (core sm)) = ReviewVotes (sm_state sm)"
  "blockers_of (core sm) = blockers_of sm" "HasConsensus (core sm) = HasConsensus sm"
  by (simp_all add: core_def HasConsensus_def)

lemma core_validate [simp]: "ValidateAdvance (core sm) to = ValidateAdvance sm to"
  unfolding ValidateAdvance_def core_sel ..

lemma core_new [simp]: "core (NewEpochStateMachine e specs) = NewEpochStateMachine e specs"
  by (simp add: core_def NewEpochStateMachine_def)

lemma core_apply_op [simp]: "core (apply_op sm op) = apply_op (core sm) op"
  by (cases op) (simp_all add: op_simps advanced_def, simp_all add: core_def)

lemma core_session [simp]: "core (apply_driver sm (AddSession s)) = core sm"
  by (simp add: core_def addSession_def Let_def)

lemma core_progress [simp]: "core (apply_driver sm (AddProgress p)) = core sm"
  by (simp add: core_def)

fun fsm_ops :: "driver_op list \<Rightarrow> epoch_op list" where
  "fsm_ops [] = []"
| "fsm_ops (Fsm op # ops) = op # fsm_ops ops"
| "fsm_ops (_ # ops) = fsm_ops ops"

lemma core_run: "core (run apply_driver sm ops) = epoch_run (core sm) (fsm_ops ops)"
  by (induction ops arbitrary: sm rule: fsm_ops.induct) (simp_all del: apply_driver.simps(2,3))

lemma driven_core: "driven P sm sm' \<Longrightarrow> \<exists>ops. core sm' = epoch_run (core sm) ops"
  unfolding driven_def using core_run by blast

text \<open>Without blocker operations the counter stays put.\<close>

lemma steered_blockers: "steered sm sm' \<Longrightarrow> blockers_of sm' = blockers_of sm"
proof -
  have "blockers_of (run apply_driver sm ops) = blockers_of sm" if "list_all no_blocker ops" for ops
    using that
  proof (induction ops arbitrary: sm)
    case (Cons op ops)
    have "blockers_of (apply_driver sm op) = blockers_of sm"
    proof (cases op)
      case (Fsm fop)
      then show ?thesis using Cons.prems by (cases fop) (simp_all add: op_simps no_blocker_def)
    qed (simp_all add: addSession_def Let_def)
    then show ?case using Cons by simp
  qed simp
  then show "steered sm sm' \<Longrightarrow> ?thesis" unfolding driven_def by blast
qed

lemma steered_specs: "steered sm sm' \<Longrightarrow> sm_specs sm' = sm_specs sm"
  using driven_core [of no_blocker sm sm'] by (metis core_sel(1) epoch_run_specs)

text \<open>The session list.\<close>

definition sessions_ok :: "EpochStateMachine \<Rightarrow> bool" where
  "sessions_ok sm \<longleftrightarrow> (let st = sm_state sm in
     distinct (map rss_SessionId (ActiveSessions st)) \<and>
     ActiveSessionCount st = int (length (ActiveSessions st)))"

interpretation driver_sessions: machine_invariant apply_driver sessions_ok
proof unfold_locales
  fix sm op
  assume ok: "sessions_ok sm"
  show "sessions_ok (apply_driver sm op)"
  proof (cases op)
    case (Fsm fop)
    then show ?thesis using ok by (cases fop) (simp_all add: op_simps sessions_ok_def)
  next
    case (AddSession s)
    then show ?thesis using ok by (auto simp: sessions_ok_def addSession_def Let_def list_ex_iff)
  qed (use ok in \<open>simp add: sessions_ok_def Let_def\<close>)
qed

lemma driven_sessions_ok: "driven P sm sm' \<Longrightarrow> sessions_ok sm \<Longrightarrow> sessions_ok sm'"
  unfolding driven_def using driver_sessions.inv_run by blast

lemma sessions_ok_new: "sessions_ok (NewEpochStateMachine e specs)"
  by (simp add: sessions_ok_def NewEpochStateMachine_def)

section \<open>The trail mirrors the transitions\<close>

text \<open>What the drivers rely on: the runtime gives different operations different step ordinals,
  and the name-based UUID is not empty and free of collisions.\<close>

definition ordinals_ok :: "engine_env \<Rightarrow> bool" where
  "ordinals_ok env \<longleftrightarrow>
     (\<forall>k n. env_step_id env k = Ok n \<longrightarrow> 0 \<le> n \<and> n < 2 ^ 63) \<and>
     (\<forall>k k' n. env_step_id env k = Ok n \<longrightarrow> env_step_id env k' = Ok n \<longrightarrow> k = k')"

definition uuid_ok :: "engine_env \<Rightarrow> bool" where
  "uuid_ok env \<longleftrightarrow> inj (env_uuid5 env) \<and> (\<forall>s. env_uuid5 env s \<noteq> [])"

text \<open>No row of the trail has a key that an operation still to come would use.\<close>

definition keys_before :: "engine_env \<Rightarrow> string \<Rightarrow> world \<Rightarrow> bool" where
  "keys_before env e w \<longleftrightarrow>
     (\<forall>k n p kind. w_ops w \<le> k \<longrightarrow> env_step_id env k = Ok n \<longrightarrow>
        Some (DedupKey (env_uuid5 env) e p kind (dec_int n)) \<notin> er_dedup_key ` set (db_events (st_db (w_trail w))))"

type_synonym transition_view = "PhaseId \<times> string \<times> (string \<times> string) list \<times> timestamp"

definition event_view :: "AuditEvent \<Rightarrow> transition_view" where
  "event_view ev = (ae_Phase ev, ae_Role ev, ae_Payload ev, ae_Timestamp ev)"

definition record_view :: "TransitionRecord \<Rightarrow> transition_view" where
  "record_view rec = event_view (transition_event [] (tr_TriggeredBy rec) rec [])"

text \<open>The transition events of an epoch, as the trail returns them, and the transitions the
  machine has taken.\<close>

definition transition_log :: "world \<Rightarrow> string \<Rightarrow> transition_view list" where
  "transition_log w e = map event_view
     (filter (\<lambda>ev. ae_EventType ev = EventPhaseTransition) (QueryEventsOn (st_db (w_trail w)) e None None))"

definition transitions_of :: "EpochStateMachine \<Rightarrow> transition_view list" where
  "transitions_of sm = map record_view (taken (sm_state sm))"

definition trail_inv :: "engine_env \<Rightarrow> string \<Rightarrow> EpochStateMachine \<Rightarrow> world \<Rightarrow> bool" where
  "trail_inv env e sm w \<longleftrightarrow>
     trail_ok (w_trail w) \<and> keys_before env e w \<and> transition_log w e = transitions_of sm"

lemma keys_beforeD:
  "keys_before env e w \<Longrightarrow> w_ops w \<le> k \<Longrightarrow> env_step_id env k = Ok n \<Longrightarrow>
     Some (DedupKey (env_uuid5 env) e p kind (dec_int n)) \<notin> er_dedup_key ` set (db_events (st_db (w_trail w)))"
  unfolding keys_before_def by blast

lemma dec_int_ordinal:
  "0 \<le> n \<Longrightarrow> n < 2 ^ 63 \<Longrightarrow> 0 \<le> n' \<Longrightarrow> n' < 2 ^ 63 \<Longrightarrow> dec_int n = dec_int n' \<longleftrightarrow> n = n'"
  using dec_nat_inj [of "nat n" "nat n'"] by (auto simp: dec_int_def)

lemma ordinal_no_slash: "0 \<le> n \<Longrightarrow> CHR ''/'' \<notin> set (dec_int n)"
  using dec_nat_digits [of "CHR ''/''" "nat n"] by (auto simp: dec_int_def is_digit_def)

text \<open>Keys of different ordinals differ, whatever the phase and the kind.\<close>

lemma key_ordinal:
  assumes "uuid_ok env" "0 \<le> n" "n < 2 ^ 63" "0 \<le> n'" "n' < 2 ^ 63"
    and "DedupKey (env_uuid5 env) e p k (dec_int n) = DedupKey (env_uuid5 env) e p' k' (dec_int n')"
  shows "n = n'"
proof -
  have "dedup_name e p k (dec_int n) = dedup_name e p' k' (dec_int n')"
    using assms(1,6) by (simp add: DedupKey_def uuid_ok_def inj_eq)
  then have eq: "(e @ ''/'' @ p @ ''/'' @ k) @ CHR ''/'' # dec_int n = (e @ ''/'' @ p' @ ''/'' @ k') @ CHR ''/'' # dec_int n'"
    by (simp add: dedup_name_def)
  have "dec_int n = dec_int n'"
    using append_sep_inj [OF ordinal_no_slash ordinal_no_slash eq] assms(2,4) by blast
  then show ?thesis using dec_int_ordinal assms(2-5) by blast
qed

lemma put_keys:
  assumes "trail_ok s" "ae_DedupKey ev \<noteq> []"
  shows "er_dedup_key ` set (db_events (st_db (sqlite_put s (u, ev)))) \<subseteq>
    insert (Some (ae_DedupKey ev)) (er_dedup_key ` set (db_events (st_db s)))"
proof (cases "record_event_tx u (st_roleToAgentId s) (st_db s) ev")
  case (Inl a)
  then show ?thesis by (auto simp: RecordEventReturningId_def)
next
  case (Inr b)
  obtain aid n db2 where tx: "record_event_tx u (st_roleToAgentId s) (st_db s) ev = Ok (aid, n, db2)"
    using Inr by (cases b) auto
  have inv: "db_ok (st_db s)" "cache_ok (st_db s) (st_roleToAgentId s)"
    using assms(1) by (simp_all add: trail_ok_def)
  from tx inv
  have "er_dedup_key ` set (db_events db2) \<subseteq>
      insert (Some (ae_DedupKey ev)) (er_dedup_key ` set (db_events (st_db s)))"
    by (cases rule: record_event_tx_cases) (auto simp: same_but_agents_def inserted_row_def assms(2))
  then show ?thesis using tx by (auto simp: RecordEventReturningId_def)
qed

lemma record_event_frame:
  assumes "record_event env ev w = (r, w')"
  shows "w_ops w' = w_ops w \<and> w_projection w' = w_projection w \<and>
    (w_trail w' = w_trail w \<or> w_trail w' = sqlite_put (w_trail w) (env_newV7 env (w_ops w), ev))"
  using assms by (auto simp: record_event_def split: option.splits sum.splits prod.splits)

lemma record_event_fails:
  assumes "record_event env ev w = (Some er, w')"
  shows "w_trail w' = w_trail w"
  using assms
  by (auto simp: record_event_def RecordEventReturningId_def split: option.splits sum.splits prod.splits if_splits)

lemma record_event_keys:
  assumes "record_event env ev w = (r, w')" "trail_ok (w_trail w)" "uuid_ok env" "ordinals_ok env"
    and "keys_before env e w" "env_step_id env (w_ops w) = Ok n"
    and "ae_DedupKey ev = DedupKey (env_uuid5 env) e p kind (dec_int n)"
  shows "trail_ok (w_trail w') \<and> keys_before env e (tick w') \<and> replay_of (st_db (w_trail w)) ev = []"
proof -
  have frame: "w_ops w' = w_ops w"
    "w_trail w' = w_trail w \<or> w_trail w' = sqlite_put (w_trail w) (env_newV7 env (w_ops w), ev)"
    using record_event_frame [OF assms(1)] by auto
  have key: "ae_DedupKey ev \<noteq> []" using assms(3,7) by (simp add: uuid_ok_def DedupKey_def)
  have new: "er_dedup_key ` set (db_events (st_db (w_trail w'))) \<subseteq>
      insert (Some (ae_DedupKey ev)) (er_dedup_key ` set (db_events (st_db (w_trail w))))"
    using frame(2)
  proof
    assume "w_trail w' = w_trail w"
    then show ?thesis by auto
  next
    assume "w_trail w' = sqlite_put (w_trail w) (env_newV7 env (w_ops w), ev)"
    then show ?thesis using put_keys [OF assms(2) key] by simp
  qed
  have "Some (DedupKey (env_uuid5 env) e p' kind' (dec_int n')) \<notin> er_dedup_key ` set (db_events (st_db (w_trail w')))"
    if "Suc (w_ops w) \<le> k" "env_step_id env k = Ok n'" for k n' p' kind'
  proof -
    have old: "Some (DedupKey (env_uuid5 env) e p' kind' (dec_int n')) \<notin> er_dedup_key ` set (db_events (st_db (w_trail w)))"
      using that by (intro keys_beforeD [OF assms(5)]) simp_all
    have "n' \<noteq> n" using assms(4,6) that unfolding ordinals_ok_def by (metis Suc_n_not_le_n)
    then have "DedupKey (env_uuid5 env) e p' kind' (dec_int n') \<noteq> ae_DedupKey ev"
      using key_ordinal [OF assms(3)] assms(4,6,7) that(2) unfolding ordinals_ok_def by metis
    then show ?thesis using old new by auto
  qed
  then have "keys_before env e (tick w')" by (simp add: keys_before_def tick_def frame(1))
  moreover have "trail_ok (w_trail w')" using frame(2) trail_ok_put [OF assms(2)] assms(2) by auto
  moreover have "Some (ae_DedupKey ev) \<notin> er_dedup_key ` set (db_events (st_db (w_trail w)))"
    using keys_beforeD [OF assms(5) order_refl assms(6)] by (simp add: assms(7))
  then have "replay_of (st_db (w_trail w)) ev = []" by (force simp: replay_of_def filter_empty_conv)
  ultimately show ?thesis by simp
qed

lemma record_event_appends:
  assumes "record_event env ev w = (None, w')" "trail_ok (w_trail w)"
    and "replay_of (st_db (w_trail w)) ev = []" "ae_EpochId ev = e" "e \<noteq> []"
  shows "\<exists>n. QueryEventsOn (st_db (w_trail w')) e None None =
    QueryEventsOn (st_db (w_trail w)) e None None @ [ev\<lparr>ae_ID := n, ae_DedupKey := []\<rparr>]"
proof -
  let ?i = "(env_newV7 env (w_ops w), ev)"
  obtain n where ok: "fst (RecordEventReturningId (w_trail w) ?i) = Ok n"
    and w': "w_trail w' = sqlite_put (w_trail w) ?i"
    using assms(1) by (auto simp: record_event_def split: option.splits sum.splits prod.splits)
  have "sqlite_stored (w_trail w) ?i = Some (ev\<lparr>ae_ID := db_seq (st_db (w_trail w)) + 1, ae_DedupKey := []\<rparr>)"
    using ok assms(3)
    by (auto simp: RecordEventReturningId_def sqlite_stored_def split: if_splits sum.splits)
  then show ?thesis
    using sqlite.query_put [OF assms(2,5), of ?i None] assms(4) by (auto simp: w' selects_def)
qed

lemma keys_before_tick: "keys_before env e w \<Longrightarrow> keys_before env e (tick w)"
  unfolding keys_before_def [of env e "tick w"]
  by (intro allI impI) (simp add: tick_def keys_beforeD [OF _ Suc_leD])

lemma tick_sel [simp]:
  "w_trail (tick w) = w_trail w" "w_projection (tick w) = w_projection w" "w_ops (tick w) = Suc (w_ops w)"
  by (simp_all add: tick_def)

lemma transition_log_tick [simp]: "transition_log (tick w) e = transition_log w e"
  by (simp add: transition_log_def)

lemma trail_inv_tick: "trail_inv env e sm w \<Longrightarrow> trail_inv env e sm (tick w)"
  by (simp add: trail_inv_def keys_before_tick)

lemma trail_inv_cong:
  "trail_inv env e sm w \<Longrightarrow> taken (sm_state sm') = taken (sm_state sm) \<Longrightarrow> trail_inv env e sm' w"
  by (simp add: trail_inv_def transitions_of_def)

text \<open>Only a successful advance adds to the transitions taken.\<close>

lemma taken_vote [simp]: "taken (sm_state (snd (RecordVote sm ax v))) = taken (sm_state sm)"
  by (simp add: op_simps taken_def)

lemma taken_failed [simp]: "taken (sm_state (RecordFailedTransition sm from to ts by err)) = taken (sm_state sm)"
  by (simp add: op_simps taken_def)

lemma taken_blocker [simp]: "taken (sm_state (RecordBlocker sm b)) = taken (sm_state sm)"
  by (simp add: op_simps taken_def)

lemma taken_sessions [simp]: "taken (snd (addSession st s)) = taken st"
  by (simp add: addSession_def taken_def Let_def)

lemma taken_progress [simp]: "taken (st\<lparr>SliceProgress := ps\<rparr>) = taken st"
  by (simp add: taken_def)

lemma taken_advance:
  "Advance sm to by cond ts = (Ok rec, sm') \<Longrightarrow> taken (sm_state sm') = taken (sm_state sm) @ [rec] \<and> tr_TriggeredBy rec = by"
  by (auto simp: Advance_def Let_def taken_def split: if_splits)

lemma Advance_Err: "Advance sm to by cond ts = (Err err, sm') \<Longrightarrow> sm' = sm"
  by (auto simp: Advance_def Let_def split: if_splits)

lemma trail_inv_vote:
  assumes "trail_inv env e sm w" "uuid_ok env" "ordinals_ok env" "e \<noteq> []"
    and "env_step_id env (w_ops w) = Ok n"
    and "emitVoteRecorded env e phase vote (dec_int n) w = (r, w')"
  shows "trail_inv env e sm w'"
proof -
  let ?ev = "vote_event e phase vote (env_now env (w_ops w) 3)
    (DedupKey (env_uuid5 env) e phase EventVoteRecorded (dec_int n))"
  obtain w1 where rec: "record_event env ?ev w = (r, w1)" and w': "w' = tick w1"
    using assms(6) by (auto simp: emitVoteRecorded_def RunAsStep_def split: prod.splits)
  have inv: "trail_ok (w_trail w)" "keys_before env e w" "transition_log w e = transitions_of sm"
    using assms(1) by (simp_all add: trail_inv_def)
  have ok: "trail_ok (w_trail w1) \<and> keys_before env e (tick w1) \<and> replay_of (st_db (w_trail w)) ?ev = []"
    by (rule record_event_keys [OF rec inv(1) assms(2,3) inv(2) assms(5)]) (simp add: vote_event_def Let_def)
  have "transition_log w1 e = transition_log w e"
  proof (cases r)
    case None
    then show ?thesis
      using record_event_appends [OF rec [unfolded None] inv(1) _ _ assms(4)] ok
      by (auto simp: transition_log_def vote_event_def Let_def EventVoteRecorded_def EventPhaseTransition_def)
  next
    case (Some er)
    then show ?thesis using record_event_fails [OF rec [unfolded Some]] by (simp add: transition_log_def)
  qed
  then show ?thesis using ok inv(3) by (simp add: trail_inv_def w')
qed

lemma trail_inv_drain_votes:
  assumes "uuid_ok env" "ordinals_ok env" "e \<noteq> []"
  shows "drain_votes env e q ch sm w = (r, ch', sm', q', w') \<Longrightarrow> trail_inv env e sm w \<Longrightarrow> trail_inv env e sm' w'"
proof (induction q arbitrary: ch sm w)
  case (Cons m q)
  note t0 = trail_inv_tick [OF Cons.prems(2)]
  show ?case
  proof (cases m)
    case (Msg vote)
    let ?sm1 = "snd (RecordVote sm (rvs_Axis vote) (rvs_Vote vote))"
    have t1: "trail_inv env e ?sm1 (tick w)" using t0 by (rule trail_inv_cong) simp
    from Cons.prems(1) [unfolded Msg] show ?thesis
    proof (cases rule: drain_votes_msg)
      case (failed n er phase)
      then show ?thesis using trail_inv_vote [OF t1 assms] by blast
    next
      case (emitted n phase w2)
      then show ?thesis using trail_inv_vote [OF t1 assms] Cons.IH by blast
    qed (use t0 t1 Cons.IH in blast)+
  qed (use Cons.prems(1) t0 in auto)
qed (auto intro: trail_inv_tick)

lemma trail_inv_drain_sessions:
  "drain_sessions q ch st w = (r, ch', st', q', w') \<Longrightarrow> taken st = taken (sm_state sm) \<Longrightarrow>
     trail_inv env e sm w \<Longrightarrow> trail_inv env e sm w' \<and> taken st' = taken (sm_state sm)"
proof (induction q ch st w arbitrary: r ch' st' q' w' rule: drain_sessions.induct)
  case (4 sess q ch st w)
  then show ?case
    using taken_sessions [of st sess] trail_inv_tick [OF "4.prems"(3)]
    by (cases "addSession st sess") (auto split: if_splits)
qed (auto intro: trail_inv_tick)

lemma trail_inv_drain_progress:
  "drain_progress q ch st w = (r, ch', st', q', w') \<Longrightarrow> taken st = taken (sm_state sm) \<Longrightarrow>
     trail_inv env e sm w \<Longrightarrow> trail_inv env e sm w' \<and> taken st' = taken (sm_state sm)"
proof (induction q ch st w arbitrary: r ch' st' q' w' rule: drain_progress.induct)
  case (4 prog q ch st w)
  then show ?case using trail_inv_tick [OF "4.prems"(3)] by (auto split: if_splits)
qed (auto intro: trail_inv_tick)

lemma drain_split:
  assumes "drainSideChannels env e sm q w = (r, ch, sm', q', w')"
  obtains (votes) qv where "drain_votes env e (q_votes q) False sm w = (r, ch, sm', qv, w')" "r \<noteq> None"
  | (sessions) ch1 sm1 qv w1 st2 qs where "drain_votes env e (q_votes q) False sm w = (None, ch1, sm1, qv, w1)"
    "drain_sessions (q_sessions q) ch1 (sm_state sm1) w1 = (r, ch, st2, qs, w')" "sm' = sm1\<lparr>sm_state := st2\<rparr>" "r \<noteq> None"
  | (progress) ch1 sm1 qv w1 ch2 st2 qs w2 st3 qp where
    "drain_votes env e (q_votes q) False sm w = (None, ch1, sm1, qv, w1)"
    "drain_sessions (q_sessions q) ch1 (sm_state sm1) w1 = (None, ch2, st2, qs, w2)"
    "drain_progress (q_progress q) ch2 st2 w2 = (r, ch, st3, qp, w')" "sm' = sm1\<lparr>sm_state := st3\<rparr>"
  using assms by (auto simp: drainSideChannels_def split: option.splits prod.splits)

lemma trail_inv_drain:
  assumes "uuid_ok env" "ordinals_ok env" "e \<noteq> []"
    and "drainSideChannels env e sm q w = (r, ch, sm', q', w')" "trail_inv env e sm w"
  shows "trail_inv env e sm' w'"
  using assms(4)
proof (cases rule: drain_split)
  case (votes qv)
  then show ?thesis using trail_inv_drain_votes [OF assms(1-3)] assms(5) by blast
next
  case (sessions ch1 sm1 qv w1 st2 qs)
  have "trail_inv env e sm1 w1" using trail_inv_drain_votes [OF assms(1-3) sessions(1) assms(5)] .
  then show ?thesis
    using trail_inv_drain_sessions [OF sessions(2) refl] sessions(3) trail_inv_cong by fastforce
next
  case (progress ch1 sm1 qv w1 ch2 st2 qs w2 st3 qp)
  have "trail_inv env e sm1 w1" using trail_inv_drain_votes [OF assms(1-3) progress(1) assms(5)] .
  then have "trail_inv env e sm1 w2" "taken st2 = taken (sm_state sm1)"
    using trail_inv_drain_sessions [OF progress(2) refl] by auto
  then show ?thesis
    using trail_inv_drain_progress [OF progress(3)] progress(4) trail_inv_cong by fastforce
qed

lemma WriteProjection_frame:
  assumes "WriteProjection env st now w = (r, w')"
  shows "w_trail w' = w_trail w \<and> w_ops w' = w_ops w"
  using assms by (auto simp: WriteProjection_def split: sum.splits option.splits)

lemma trail_inv_project:
  assumes "projectState env st w = (r, w')" "trail_inv env e sm w"
  shows "trail_inv env e sm w'"
proof -
  obtain w1 where "WriteProjection env st (env_now env (w_ops w) 2) w = (r, w1)" "w' = tick w1"
    using assms(1) by (auto simp: projectState_def RunAsStep_def split: prod.splits)
  then have "w_trail w' = w_trail w" "w_ops w' = w_ops (tick w)"
    using WriteProjection_frame by simp_all
  then show ?thesis using trail_inv_tick [OF assms(2)]
    by (simp add: trail_inv_def keys_before_def transition_log_def)
qed

text \<open>The transition step: on success its event is in the trail, on failure it may be.\<close>

lemma commit_split:
  assumes "commitTransition env e role rec st s w = (r, w')"
  obtains (projection) er where "r = Some er" "w_trail w' = w_trail w"
  | (emission) er w1 w2 where "WriteProjection env st (env_now env (w_ops w) 2) w = (None, w1)"
    "emitTransition env e role rec (transition_key env e rec s) w1 = (Some er, w2)" "r = Some er" "w' = tick w2"
  | (hook) w1 w2 where "WriteProjection env st (env_now env (w_ops w) 2) w = (None, w1)"
    "emitTransition env e role rec (transition_key env e rec s) w1 = (None, w2)" "w' = tick w2"
proof -
  obtain r1 w1 where p: "WriteProjection env st (env_now env (w_ops w) 2) w = (r1, w1)" by fastforce
  obtain r2 w2 where em: "emitTransition env e role rec (transition_key env e rec s) w1 = (r2, w2)" by fastforce
  show thesis
  proof (cases r1)
    case (Some er)
    then show thesis
      using projection [of er] assms p WriteProjection_frame [OF p]
      by (auto simp: commitTransition_def RunAsStep_def commit_actions_def and_then_def)
  next
    case None
    note r1 = this
    show thesis
    proof (cases r2)
      case (Some er)
      then show thesis
        using emission [of w1 er w2] assms p em r1
        by (simp add: commitTransition_def RunAsStep_def commit_actions_def and_then_def)
    next
      case None
      then show thesis
        using hook [of w1 w2] assms p em r1
        by (auto simp: commitTransition_def RunAsStep_def commit_actions_def and_then_def run_hook_def
            split: option.splits)
    qed
  qed
qed

lemma commit_keeps_trail:
  assumes inv: "trail_inv env e sm w" "uuid_ok env" "ordinals_ok env" "e \<noteq> []"
    and "env_step_id env (w_ops w) = Ok n"
    and "taken (sm_state sm') = taken (sm_state sm) @ [rec]" "tr_TriggeredBy rec = role"
    and com: "commitTransition env e role rec st (dec_int n) w = (r, w')"
  shows "(r = None \<longrightarrow> trail_inv env e sm' w') \<and>
    (transition_log w' e = transitions_of sm \<or> transition_log w' e = transitions_of sm')"
  using com
proof (cases rule: commit_split)
  case (projection er)
  then show ?thesis using inv(1) by (simp add: trail_inv_def transition_log_def)
next
  case (emission er w1 w2)
  then have "w_trail w2 = w_trail w"
    using WriteProjection_frame [OF emission(1)] record_event_fails
    by (fastforce simp: emitTransition_def)
  then show ?thesis using emission inv(1) by (simp add: trail_inv_def transition_log_def)
next
  case (hook w1 w2)
  let ?ev = "transition_event e role rec (transition_key env e rec (dec_int n))"
  have frame: "w_trail w1 = w_trail w" "w_ops w1 = w_ops w" using WriteProjection_frame [OF hook(1)] by auto
  then have kb: "keys_before env e w1" and ok1: "trail_ok (w_trail w1)"
    using inv(1) by (simp_all add: trail_inv_def keys_before_def)
  have rec: "record_event env ?ev w1 = (None, w2)" using hook(2) by (simp add: emitTransition_def)
  have ok2: "trail_ok (w_trail w2) \<and> keys_before env e (tick w2) \<and> replay_of (st_db (w_trail w1)) ?ev = []"
    by (rule record_event_keys [OF rec ok1 inv(2,3) kb])
      (simp_all add: frame assms(5) transition_event_def transition_key_def)
  obtain k where "QueryEventsOn (st_db (w_trail w2)) e None None =
      QueryEventsOn (st_db (w_trail w)) e None None @ [?ev\<lparr>ae_ID := k, ae_DedupKey := []\<rparr>]"
    using record_event_appends [OF rec ok1 _ _ inv(4)] ok2 frame by (auto simp: transition_event_def)
  then have "transition_log w2 e = transition_log w e @ [record_view rec]"
    using assms(7) by (simp add: transition_log_def record_view_def event_view_def transition_event_def)
  then have "transition_log w' e = transitions_of sm'"
    using inv(1) assms(6) hook(3) by (simp add: trail_inv_def transitions_of_def)
  then show ?thesis using ok2 hook(3) by (simp add: trail_inv_def)
qed

text \<open>An outcome is consistent when the trail has every transition taken, or the driver failed
  and the trail lacks at most the last one.\<close>

definition consistent :: "engine_error option \<Rightarrow> engine_env \<Rightarrow> string \<Rightarrow> EpochStateMachine \<Rightarrow> world \<Rightarrow> bool" where
  "consistent r env e sm w \<longleftrightarrow>
     (r = None \<longrightarrow> trail_inv env e sm w) \<and>
     (transition_log w e = transitions_of sm \<or>
      transitions_of sm \<noteq> [] \<and> transition_log w e = butlast (transitions_of sm))"

lemma trail_inv_consistent: "trail_inv env e sm w \<Longrightarrow> consistent r env e sm w"
  by (simp add: consistent_def trail_inv_def)

lemma consistent_drive_advance:
  assumes inv: "trail_inv env e sm w" "uuid_ok env" "ordinals_ok env" "e \<noteq> []"
    and drive: "drive_advance env e to by cond sm w = (r, sm', w')"
  shows "consistent r env e sm' w'"
proof (cases "env_step_id env (w_ops w)")
  case (Inl er)
  then show ?thesis using drive inv(1) trail_inv_consistent by (auto simp: drive_advance_def)
next
  case (Inr n)
  obtain res sm1 where adv: "Advance sm to by cond (env_now env (w_ops w) 0) = (res, sm1)" by fastforce
  show ?thesis
  proof (cases res)
    case (Inl err)
    have "trail_inv env e sm' w"
      using drive Inl Inr adv inv(1) Advance_Err [OF adv [unfolded Inl]]
      by (auto simp: drive_advance_def Let_def intro: trail_inv_cong split: prod.splits)
    then show ?thesis
      using drive Inl Inr adv trail_inv_project trail_inv_consistent
      by (fastforce simp: drive_advance_def Let_def split: prod.splits)
  next
    case rec: (Inr rec)
    have tk: "taken (sm_state sm1) = taken (sm_state sm) @ [rec] \<and> tr_TriggeredBy rec = by"
      using adv rec taken_advance by blast
    have com: "commitTransition env e by rec (sm_state sm1) (dec_int n) w = (r, w')" and "sm' = sm1"
      using drive Inr adv rec by (auto simp: drive_advance_def Let_def split: prod.splits)
    then show ?thesis
      using commit_keeps_trail [OF inv Inr _ _ com, of sm1] tk
      by (auto simp: consistent_def transitions_of_def)
  qed
qed

lemma consistent_control_step:
  assumes inv: "trail_inv env e sm w" "uuid_ok env" "ordinals_ok env" "e \<noteq> []"
    and step: "control_step env e rd sm q w = (r, sm', q', w')"
  shows "consistent r env e sm' w'"
proof -
  obtain r1 ch1 sm1 q1 w1
    where d: "drainSideChannels env e sm (arrive q (cr_arrived rd)) (tick w) = (r1, ch1, sm1, q1, w1)"
    by (rule prod_cases5)
  have t0: "trail_inv env e sm (tick w)" using inv(1) by (rule trail_inv_tick)
  have t1: "trail_inv env e sm1 w1" by (rule trail_inv_drain [OF inv(2-4) d t0])
  have "trail_inv env e sm' w' \<or>
      (\<exists>st. projectState env st w1 = (r, w') \<and> sm' = sm1) \<or>
      (\<exists>to by cond. drive_advance env e to by cond sm1 w1 = (r, sm', w'))"
    using step d t0 t1
    by (auto simp: control_step_def Let_def split: recv.splits option.splits prod.splits if_splits)
  then show ?thesis
    using trail_inv_consistent trail_inv_project [OF _ t1] consistent_drive_advance [OF t1 inv(2-4)] by blast
qed

fun outcome_error :: "control_outcome \<Rightarrow> engine_error option" where
  "outcome_error (Parked sm q w) = None"
| "outcome_error (Finished r sm w) = r"

fun outcome_world :: "control_outcome \<Rightarrow> world" where
  "outcome_world (Parked sm q w) = w"
| "outcome_world (Finished r sm w) = w"

lemma consistent_control_loop:
  assumes "uuid_ok env" "ordinals_ok env" "e \<noteq> []" "trail_inv env e sm w"
  shows "let out = control_loop env e rs sm q w in
    consistent (outcome_error out) env e (outcome_machine out) (outcome_world out)"
  using assms(4)
proof (induction rs arbitrary: sm q w)
  case (Cons rd rs)
  obtain r sm1 q1 w1 where s: "control_step env e rd sm q w = (r, sm1, q1, w1)" by (rule prod_cases4)
  have "consistent r env e sm1 w1" by (rule consistent_control_step [OF Cons.prems assms(1-3) s])
  then show ?case
    using Cons trail_inv_consistent by (cases r) (auto simp: s Let_def consistent_def)
qed (simp add: trail_inv_consistent)

lemma taken_script:
  "taken (sm_state (applyBlockerDelta (foldl (\<lambda>s v. snd (RecordVote s (rvs_Axis v) (rvs_Vote v))) sm vs) d)) =
     taken (sm_state sm)"
proof -
  have "taken (sm_state (foldl (\<lambda>s v. snd (RecordVote s (rvs_Axis v) (rvs_Vote v))) sm vs)) = taken (sm_state sm)"
    by (induction vs arbitrary: sm) simp_all
  moreover have "taken (sm_state (((\<lambda>s. RecordBlocker s b) ^^ n) sm)) = taken (sm_state sm)" for b n sm
    by (induction n) simp_all
  ultimately show ?thesis by (simp add: applyBlockerDelta_def)
qed

lemma consistent_epoch_plan:
  assumes "uuid_ok env" "ordinals_ok env" "e \<noteq> []"
  shows "trail_inv env e sm w \<Longrightarrow> epoch_plan env e advs sm w = (r, sm', w') \<Longrightarrow> consistent r env e sm' w'"
proof (induction advs arbitrary: sm w)
  case (Cons adv advs)
  let ?sm2 = "applyBlockerDelta (foldl (\<lambda>s v. snd (RecordVote s (rvs_Axis v) (rvs_Vote v))) sm (as_Votes adv))
    (as_BlockerDelta adv)"
  obtain r3 sm3 w3 where d: "drive_advance env e (as_ToPhase adv) (or_epoch_role (as_TriggeredBy adv))
      (as_ConditionMet adv) ?sm2 w = (r3, sm3, w3)" by (rule prod_cases3)
  have "trail_inv env e ?sm2 w" using Cons.prems(1) taken_script by (rule trail_inv_cong)
  then have "consistent r3 env e sm3 w3" using assms d by (rule consistent_drive_advance)
  then show ?case
    using Cons.IH [of sm3 w3] Cons.prems(2) by (cases r3) (auto simp: Let_def d consistent_def)
qed (auto intro: trail_inv_consistent)

section \<open>The projection follows the machine\<close>

definition json_ok :: "engine_env \<Rightarrow> bool" where
  "json_ok env \<longleftrightarrow> (\<forall>st blob. env_marshal env st = Ok blob \<longrightarrow> env_unmarshal env blob = Ok st)"

text \<open>The row of the epoch holds the state of the machine; without a row the machine is new.\<close>

definition projection_inv :: "engine_env \<Rightarrow> string \<Rightarrow> EpochStateMachine \<Rightarrow> world \<Rightarrow> bool" where
  "projection_inv env e sm w \<longleftrightarrow> EpochId (sm_state sm) = e \<and>
     (case w_projection w e of
        None \<Rightarrow> sm_state sm = sm_state (NewEpochStateMachine e (env_specs env))
      | Some row \<Rightarrow> env_unmarshal env (pr_state_json row) = Ok (sm_state sm) \<and> pr_current_phase row = phase_of sm)"

lemma EpochId_driver: "EpochId (sm_state (apply_driver sm op)) = EpochId (sm_state sm)"
proof (cases op)
  case (Fsm fop)
  then show ?thesis by (cases fop) (simp_all add: op_simps)
qed (simp_all add: addSession_def Let_def)

lemma EpochId_driven: "driven P sm sm' \<Longrightarrow> EpochId (sm_state sm') = EpochId (sm_state sm)"
proof -
  have "EpochId (sm_state (run apply_driver sm ops)) = EpochId (sm_state sm)" for ops
    by (induction ops arbitrary: sm) (simp_all add: EpochId_driver)
  then show "driven P sm sm' \<Longrightarrow> ?thesis" unfolding driven_def by blast
qed

lemma projection_inv_tick [simp]: "projection_inv env e sm (tick w) = projection_inv env e sm w"
  by (simp add: projection_inv_def)

lemma emitVoteRecorded_frame:
  assumes "emitVoteRecorded env e p vote s w = (r, w')"
  shows "w_projection w' = w_projection w"
proof -
  let ?ev = "vote_event e p vote (env_now env (w_ops w) 3) (DedupKey (env_uuid5 env) e p EventVoteRecorded s)"
  obtain w1 where "record_event env ?ev w = (r, w1)" "w' = tick w1"
    using assms by (auto simp: emitVoteRecorded_def RunAsStep_def split: prod.splits)
  then show ?thesis using record_event_frame by fastforce
qed

lemma drain_votes_quiet:
  "drain_votes env e q ch sm w = (r, ch', sm', q', w') \<Longrightarrow>
     w_projection w' = w_projection w \<and> (\<not> ch' \<longrightarrow> r = None \<longrightarrow> sm' = sm \<and> \<not> ch)"
proof (induction q arbitrary: ch sm w)
  case (Cons m q)
  show ?case
  proof (cases m)
    case (Msg vote)
    from Cons.prems [unfolded Msg] show ?thesis
    proof (cases rule: drain_votes_msg)
      case (emitted n phase w2)
      then show ?thesis using Cons.IH [OF emitted(3)] emitVoteRecorded_frame [OF emitted(2)] by auto
    next
      case (failed n er phase)
      then show ?thesis using emitVoteRecorded_frame [OF failed(4)] by simp
    next
      case invalid
      then show ?thesis using Cons.IH [OF invalid] by simp
    qed simp_all
  qed (use Cons.prems in auto)
qed auto

lemma drain_sessions_quiet:
  "drain_sessions q ch st w = (r, ch', st', q', w') \<Longrightarrow>
     w_projection w' = w_projection w \<and> (\<not> ch' \<longrightarrow> st' = st \<and> \<not> ch)"
proof (induction q ch st w arbitrary: r ch' st' q' w' rule: drain_sessions.induct)
  case (4 sess q ch st w)
  have "fst (addSession st sess) \<or> snd (addSession st sess) = st" by (simp add: addSession_def Let_def)
  then show ?case using 4 by (cases "addSession st sess") (auto split: if_splits)
qed auto

lemma drain_progress_quiet:
  "drain_progress q ch st w = (r, ch', st', q', w') \<Longrightarrow>
     w_projection w' = w_projection w \<and> (\<not> ch' \<longrightarrow> st' = st \<and> \<not> ch)"
proof (induction q ch st w arbitrary: r ch' st' q' w' rule: drain_progress.induct)
  case (4 prog q ch st w)
  then show ?case by (auto split: if_splits)
qed auto

lemma drain_quiet:
  assumes "drainSideChannels env e sm q w = (r, ch, sm', q', w')"
  shows "w_projection w' = w_projection w \<and> (\<not> ch \<longrightarrow> r = None \<longrightarrow> sm' = sm)"
  using assms
proof (cases rule: drain_split)
  case (votes qv)
  then show ?thesis using drain_votes_quiet by blast
next
  case (sessions ch1 sm1 qv w1 st2 qs)
  then show ?thesis using drain_votes_quiet [OF sessions(1)] drain_sessions_quiet [OF sessions(2)] by simp
next
  case (progress ch1 sm1 qv w1 ch2 st2 qs w2 st3 qp)
  then show ?thesis
    using drain_votes_quiet [OF progress(1)] drain_sessions_quiet [OF progress(2)] drain_progress_quiet [OF progress(3)]
    by auto
qed

lemma WriteProjection_ok:
  assumes "WriteProjection env (sm_state sm) now w = (None, w')" "json_ok env" "EpochId (sm_state sm) = e"
  shows "projection_inv env e sm w'"
  using assms by (auto simp: WriteProjection_def json_ok_def projection_inv_def split: sum.splits option.splits)

lemma projectState_ok:
  assumes "projectState env (sm_state sm) w = (None, w')" "json_ok env" "EpochId (sm_state sm) = e"
  shows "projection_inv env e sm w'"
proof -
  obtain w1 where "WriteProjection env (sm_state sm) (env_now env (w_ops w) 2) w = (None, w1)" "w' = tick w1"
    using assms(1) by (auto simp: projectState_def RunAsStep_def split: prod.splits)
  then show ?thesis using WriteProjection_ok [OF _ assms(2,3)] by simp
qed

lemma commitTransition_ok:
  assumes "commitTransition env e' role rec (sm_state sm) s w = (None, w')" "json_ok env" "EpochId (sm_state sm) = e"
  shows "projection_inv env e sm w'"
  using assms(1)
proof (cases rule: commit_split)
  case (hook w1 w2)
  then have "w_projection w' = w_projection w1"
    using record_event_frame by (fastforce simp: emitTransition_def)
  then show ?thesis using WriteProjection_ok [OF hook(1) assms(2,3)] by (simp add: projection_inv_def)
qed simp_all

lemma drive_advance_ok:
  assumes "drive_advance env e' to by cond sm w = (None, sm', w')" "json_ok env" "EpochId (sm_state sm) = e"
  shows "projection_inv env e sm' w'"
proof -
  have e: "EpochId (sm_state sm') = e"
    using EpochId_driven [OF driven_drive_advance [OF assms(1)]] assms(3) by simp
  have "projectState env (sm_state sm') w = (None, w') \<or>
      (\<exists>rec s. commitTransition env e' by rec (sm_state sm') s w = (None, w'))"
    using assms(1) by (auto simp: drive_advance_def Let_def split: sum.splits prod.splits)
  then show ?thesis using projectState_ok [OF _ assms(2) e] commitTransition_ok [OF _ assms(2) e] by blast
qed

lemma projection_inv_control_step:
  assumes "projection_inv env e sm w" "json_ok env"
    and step: "control_step env e rd sm q w = (None, sm', q', w')"
  shows "projection_inv env e sm' w'"
proof -
  obtain r1 ch1 sm1 q1 w1
    where d: "drainSideChannels env e sm (arrive q (cr_arrived rd)) (tick w) = (r1, ch1, sm1, q1, w1)"
    by (rule prod_cases5)
  have e1: "EpochId (sm_state sm1) = e"
    using EpochId_driven [OF driven_drain [OF d]] assms(1) by (simp add: projection_inv_def)
  have quiet: "projection_inv env e sm1 w1" if "\<not> ch1" "r1 = None"
    using drain_quiet [OF d] that assms(1) by (simp add: projection_inv_def)
  have "(\<not> ch1 \<and> r1 = None \<and> sm' = sm1 \<and> w' = w1) \<or>
      (projectState env (sm_state sm1) w1 = (None, w') \<and> sm' = sm1) \<or>
      (\<exists>to by cond. drive_advance env e to by cond sm1 w1 = (None, sm', w'))"
    using step d by (auto simp: control_step_def Let_def split: recv.splits option.splits prod.splits if_splits)
  then show ?thesis
    using quiet projectState_ok [OF _ assms(2) e1] drive_advance_ok [OF _ assms(2) e1] by blast
qed

lemma projection_inv_control_loop:
  assumes "projection_inv env e sm w" "json_ok env" "outcome_error (control_loop env e rs sm q w) = None"
  shows "projection_inv env e (outcome_machine (control_loop env e rs sm q w))
    (outcome_world (control_loop env e rs sm q w))"
  using assms
proof (induction rs arbitrary: sm q w)
  case (Cons rd rs)
  obtain r sm1 q1 w1 where s: "control_step env e rd sm q w = (r, sm1, q1, w1)" by (rule prod_cases4)
  then show ?case
    using Cons projection_inv_control_step [OF Cons.prems(1,2)] by (cases r) (auto split: if_splits)
qed simp

section \<open>Crash and replay\<close>

text \<open>A crash interrupts the transition step after some of its actions; the runtime then runs
  the body again from its start.  The machine is rebuilt by replaying the workflow, so the
  record is the same but for its timestamp, and the process is new: its clock, its failures
  and its identifiers are its own, and the cache of the trail is empty.\<close>

record crashed_attempt =
  ca_env :: engine_env
  ca_timestamp :: timestamp
  ca_done :: nat

definition restart :: "world \<Rightarrow> world" where
  "restart w = w\<lparr>w_trail := NewSqliteAuditTrail (st_db (w_trail w))\<rparr>"

definition replay_attempt ::
    "string \<Rightarrow> string \<Rightarrow> TransitionRecord \<Rightarrow> EpochState \<Rightarrow> string \<Rightarrow> world \<Rightarrow> crashed_attempt \<Rightarrow> world" where
  "replay_attempt epochId role rec state stepSeq w a =
     restart (snd (foldr and_then (take (ca_done a) (commit_actions (ca_env a) epochId role
       (rec\<lparr>tr_Timestamp := ca_timestamp a\<rparr>) state stepSeq (env_now (ca_env a) (w_ops w) 2))) (Pair None) w))"

text \<open>The table is the old one, or the old one and one row with the key.\<close>

definition at_most_once :: "event_row list \<Rightarrow> string \<Rightarrow> world \<Rightarrow> bool" where
  "at_most_once evs key w \<longleftrightarrow> trail_ok (w_trail w) \<and>
     (db_events (st_db (w_trail w)) = evs \<or>
      (\<exists>row. db_events (st_db (w_trail w)) = evs @ [row] \<and> er_dedup_key row = Some key))"

definition exactly_once :: "event_row list \<Rightarrow> string \<Rightarrow> world \<Rightarrow> bool" where
  "exactly_once evs key w \<longleftrightarrow> trail_ok (w_trail w) \<and>
     (\<exists>row. db_events (st_db (w_trail w)) = evs @ [row] \<and> er_dedup_key row = Some key)"

lemma trail_ok_restart: "trail_ok (w_trail w) \<Longrightarrow> trail_ok (w_trail (restart w))"
  by (simp add: restart_def trail_ok_def NewSqliteAuditTrail_def cache_ok_def)

lemma at_most_once_restart: "at_most_once evs key w \<Longrightarrow> at_most_once evs key (restart w)"
  using trail_ok_restart [of w] by (simp add: at_most_once_def restart_def NewSqliteAuditTrail_def)

lemma put_once:
  assumes "trail_ok s" "ae_DedupKey ev = key" "key \<noteq> []"
    and "db_events (st_db s) = evs \<or> (\<exists>row. db_events (st_db s) = evs @ [row] \<and> er_dedup_key row = Some key)"
  shows "db_events (st_db (sqlite_put s (u, ev))) = db_events (st_db s) \<or>
    db_events (st_db s) = evs \<and> (\<exists>row. db_events (st_db (sqlite_put s (u, ev))) = evs @ [row] \<and> er_dedup_key row = Some key)"
proof (cases "record_event_tx u (st_roleToAgentId s) (st_db s) ev")
  case (Inl a)
  then show ?thesis by (auto simp: RecordEventReturningId_def)
next
  case (Inr b)
  obtain aid n db2 where tx: "record_event_tx u (st_roleToAgentId s) (st_db s) ev = Ok (aid, n, db2)"
    using Inr by (cases b) auto
  have inv: "db_ok (st_db s)" "cache_ok (st_db s) (st_roleToAgentId s)"
    using assms(1) by (simp_all add: trail_ok_def)
  from tx inv
  have "db_events db2 = db_events (st_db s) \<or>
      db_events (st_db s) = evs \<and> (\<exists>row. db_events db2 = evs @ [row] \<and> er_dedup_key row = Some key)"
  proof (cases rule: record_event_tx_cases)
    case (1 db1)
    then show ?thesis by (auto simp: same_but_agents_def)
  next
    case (2 db1)
    have "db_events (st_db s) = evs"
      using assms(2-4) 2(3) by (auto simp: replay_of_def)
    then show ?thesis using 2(6) assms(2,3) by (simp add: inserted_row_def)
  qed
  then show ?thesis using tx by (auto simp: RecordEventReturningId_def)
qed

lemma record_event_once:
  assumes "at_most_once evs key w" "ae_DedupKey ev = key" "key \<noteq> []" "record_event env ev w = (r, w')"
    and fresh: "Some key \<notin> er_dedup_key ` set evs"
  shows "at_most_once evs key w' \<and> (r = None \<longrightarrow> exactly_once evs key w')"
proof -
  have ok: "trail_ok (w_trail w)"
    and evs: "db_events (st_db (w_trail w)) = evs \<or>
      (\<exists>row. db_events (st_db (w_trail w)) = evs @ [row] \<and> er_dedup_key row = Some key)"
    using assms(1) by (simp_all add: at_most_once_def)
  note frame = record_event_frame [OF assms(4)]
  have ok': "trail_ok (w_trail w')" using frame ok trail_ok_put by auto
  have amo: "at_most_once evs key w'"
    using frame put_once [OF ok assms(2,3) evs, of "env_newV7 env (w_ops w)"] evs ok'
    by (auto simp: at_most_once_def)
  moreover have "exactly_once evs key w'" if none: "r = None"
  proof -
    obtain n where res: "RecordEventReturningId (w_trail w) (env_newV7 env (w_ops w), ev) = (Ok n, w_trail w')"
      using assms(4) none by (auto simp: record_event_def split: option.splits sum.splits prod.splits)
    obtain row where "row \<in> set (db_events (st_db (w_trail w')))" "er_dedup_key row = Some key"
      using put_ok_row [OF ok res] assms(2,3) by auto
    then have "Some key \<in> er_dedup_key ` set (db_events (st_db (w_trail w')))" by (metis imageI)
    then show ?thesis using amo fresh by (auto simp: at_most_once_def exactly_once_def)
  qed
  ultimately show ?thesis by blast
qed

lemma emitTransition_once:
  assumes "at_most_once evs key w" "key \<noteq> []" "Some key \<notin> er_dedup_key ` set evs"
    and "emitTransition env e role rec key w = (r, w')"
  shows "at_most_once evs key w' \<and> (r = None \<longrightarrow> exactly_once evs key w')"
  by (rule record_event_once [OF assms(1) _ assms(2) assms(4) [unfolded emitTransition_def] assms(3)])
    (simp add: transition_event_def)

lemma at_most_once_cong: "at_most_once evs key w \<Longrightarrow> w_trail w' = w_trail w \<Longrightarrow> at_most_once evs key w'"
  by (simp add: at_most_once_def)


text \<open>A prefix of the actions of the transition step.\<close>

lemma commit_actions_once:
  assumes once: "at_most_once evs key w" and "key \<noteq> []" "Some key \<notin> er_dedup_key ` set evs"
    and key: "transition_key env e rec s = key"
  shows "at_most_once evs key
    (snd (foldr and_then (take k (commit_actions env e role rec st s now)) (Pair None) w))"
proof -
  obtain r1 w1 where p: "WriteProjection env st now w = (r1, w1)" by fastforce
  have w1: "at_most_once evs key w1"
    using at_most_once_cong [OF once] WriteProjection_frame [OF p] by blast
  obtain r2 w2 where em: "emitTransition env e role rec (transition_key env e rec s) w1 = (r2, w2)" by fastforce
  have w2: "at_most_once evs key w2"
    using emitTransition_once [OF w1 assms(2,3)] em key by blast
  consider "k = 0" | "k = 1" | "k = 2" | "k \<ge> 3" by linarith
  then show ?thesis
  proof cases
    case 4
    then show ?thesis using w1 w2 p em
      by (cases r1; cases r2) (simp_all add: commit_actions_def and_then_def run_hook_def split: option.split)
  qed (use once w1 w2 p em in \<open>cases r1; cases r2; simp add: commit_actions_def and_then_def\<close>)+
qed

lemma replay_attempt_once:
  assumes "at_most_once evs key w" "key \<noteq> []" "Some key \<notin> er_dedup_key ` set evs"
    and "transition_key (ca_env a) e rec s = key"
  shows "at_most_once evs key (replay_attempt e role rec st s w a)"
  unfolding replay_attempt_def
  using assms(4) by (intro at_most_once_restart commit_actions_once [OF assms(1-3)]) (simp add: transition_key_def)

lemma replay_attempts_once:
  assumes "at_most_once evs key w" "key \<noteq> []" "Some key \<notin> er_dedup_key ` set evs"
    and "list_all (\<lambda>a. transition_key (ca_env a) e rec s = key) as"
  shows "at_most_once evs key (foldl (replay_attempt e role rec st s) w as)"
  using assms(1,4)
proof (induction as arbitrary: w)
  case (Cons a as)
  then show ?case using replay_attempt_once [OF _ assms(2,3)] by simp
qed simp

lemma commitTransition_once:
  assumes "at_most_once evs key w" "key \<noteq> []" "Some key \<notin> er_dedup_key ` set evs"
    and "transition_key env e rec s = key" "commitTransition env e role rec st s w = (None, w')"
  shows "exactly_once evs key w'"
  using assms(5)
proof (cases rule: commit_split)
  case (hook w1 w2)
  have "at_most_once evs key w1"
    using at_most_once_cong [OF assms(1)] WriteProjection_frame [OF hook(1)] by blast
  then have "exactly_once evs key w2"
    using emitTransition_once [OF _ assms(2,3)] hook(2) assms(4) by blast
  then show ?thesis using hook(3) by (simp add: exactly_once_def)
qed simp_all

section \<open>A run\<close>

text \<open>An environment without failures and the signals of a whole epoch, for the witnesses.\<close>

definition demo_env :: engine_env where
  "demo_env = \<lparr>env_specs = None, env_uuid5 = (\<lambda>s. CHR ''u'' # s), env_marshal = (\<lambda>st. Ok []),
    env_unmarshal = (\<lambda>s. Err []), env_step_id = (\<lambda>n. if n < 1000 then Ok (int n) else Err []),
    env_now = (\<lambda>n i. int n), env_newV7 = (\<lambda>n. Some (dec_nat n)), env_upsert_error = (\<lambda>_. None),
    env_trail_error = (\<lambda>_. None), env_hook_error = (\<lambda>_. None)\<rparr>"

definition demo_world :: world where
  "demo_world = \<lparr>w_ops = 0, w_projection = (\<lambda>_. None), w_trail = NewSqliteAuditTrail emptyAuditDB\<rparr>"

definition demo_queues :: queues where
  "demo_queues =
     \<lparr>q_votes = map (\<lambda>ax. Msg \<lparr>rvs_Axis = ax, rvs_Vote = VoteAccept, rvs_ReviewerId = ''r''\<rparr>) AllReviewAxes,
      q_sessions = [], q_progress = []\<rparr>"

definition demo_rounds :: "control_round list" where
  "demo_rounds = map (\<lambda>p. \<lparr>cr_advance = Msg \<lparr>pas_ToPhase = p, pas_TriggeredBy = [], pas_ConditionMet = ''ok''\<rparr>,
     cr_arrived = (if p \<in> {PhasePlanReview, PhaseImplUAT} then demo_queues
       else demo_queues\<lparr>q_votes := []\<rparr>)\<rparr>) (tl AllPhaseIds)"

definition demo_plan :: EpochInput where
  "demo_plan = \<lparr>ein_EpochId = ''e'', ein_Advances = replicate 2
     \<lparr>as_ToPhase = PhaseElicit, as_TriggeredBy = [], as_ConditionMet = ''ok'', as_Votes = [], as_BlockerDelta = 1\<rparr>\<rparr>"

lemma demo_env_ok: "uuid_ok demo_env \<and> ordinals_ok demo_env"
  by (auto simp: demo_env_def uuid_ok_def ordinals_ok_def inj_def split: if_splits)

lemma demo_world_ok: "trail_ok (w_trail demo_world) \<and> keys_before env e demo_world"
  using trail_ok_new
  by (simp add: demo_world_def keys_before_def NewSqliteAuditTrail_def emptyAuditDB_def)

section \<open>Properties\<close>

text \<open>C4: the forensic trail mirrors the epoch: whenever the signal-driven workflow is parked or
  has completed, the transition events the trail returns for the epoch are, one for one and
  in order, the transitions the machine has taken, with their phases, actors, conditions and
  times; when it failed, at most the last transition is missing.\<close>

theorem trail_mirrors_history:
  assumes "uuid_ok env" "ordinals_ok env" "e \<noteq> []"
    and "trail_ok (w_trail w)" "keys_before env e w" "QueryEventsOn (st_db (w_trail w)) e None None = []"
  shows "let out = EpochControlWorkflow env e rs w; sm = outcome_machine out;
             log = transition_log (outcome_world out) e in
    (outcome_error out = None \<longrightarrow> log = transitions_of sm) \<and>
    (log = transitions_of sm \<or> transitions_of sm \<noteq> [] \<and> log = butlast (transitions_of sm))"
proof -
  have "trail_inv env e (NewEpochStateMachine e (env_specs env)) w"
    using assms(4-6)
    by (simp add: trail_inv_def transition_log_def transitions_of_def taken_def NewEpochStateMachine_def)
  from consistent_control_loop [OF assms(1-3) this]
  show ?thesis by (auto simp: EpochControlWorkflow_def Let_def consistent_def trail_inv_def)
qed

theorem trail_mirrors_history_witness:
  "transition_log (outcome_world (EpochControlWorkflow demo_env ''e'' (take 4 demo_rounds) demo_world)) ''e'' =
     transitions_of (outcome_machine (EpochControlWorkflow demo_env ''e'' (take 4 demo_rounds) demo_world))"
proof -
  have "outcome_error (EpochControlWorkflow demo_env ''e'' (take 4 demo_rounds) demo_world) = None"
    "QueryEventsOn (st_db (w_trail demo_world)) ''e'' None None = []"
    by code_simp+
  then show ?thesis
    using trail_mirrors_history [of demo_env "''e''" demo_world "take 4 demo_rounds"] demo_env_ok demo_world_ok
    by (simp add: Let_def)
qed

text \<open>C37: whenever the workflow is parked or has completed, reading the projection of its epoch
  returns the state of the machine; there is no row only as long as the machine is new.\<close>

theorem projection_is_current:
  assumes "json_ok env" "w_projection w e = None"
    and "outcome_error (EpochControlWorkflow env e rs w) = None"
  shows "let out = EpochControlWorkflow env e rs w; st = sm_state (outcome_machine out) in
    ReadProjection env None (w_projection (outcome_world out)) e =
      (case w_projection (outcome_world out) e of None \<Rightarrow> Ok None | Some _ \<Rightarrow> Ok (Some st)) \<and>
    (w_projection (outcome_world out) e = None \<longrightarrow> st = sm_state (NewEpochStateMachine e (env_specs env)))"
proof -
  have "projection_inv env e (NewEpochStateMachine e (env_specs env)) w"
    using assms(2) by (simp add: projection_inv_def) (simp add: NewEpochStateMachine_def)
  from projection_inv_control_loop [OF this assms(1) assms(3) [unfolded EpochControlWorkflow_def]]
  show ?thesis
    by (auto simp: EpochControlWorkflow_def Let_def projection_inv_def ReadProjection_def split: option.splits)
qed

theorem projection_is_current_witness:
  "let st1 = sm_state (outcome_machine (EpochControlWorkflow demo_env ''e'' (take 1 demo_rounds) demo_world));
       env = demo_env\<lparr>env_marshal := (\<lambda>st. if st = st1 then Ok ''s'' else Err []), env_unmarshal := (\<lambda>b. Ok st1)\<rparr>;
       out = EpochControlWorkflow env ''e'' (take 1 demo_rounds) demo_world in
   ReadProjection env None (w_projection (outcome_world out)) ''e'' = Ok (Some (sm_state (outcome_machine out)))"
proof -
  let ?st1 = "sm_state (outcome_machine (EpochControlWorkflow demo_env ''e'' (take 1 demo_rounds) demo_world))"
  let ?env = "demo_env\<lparr>env_marshal := (\<lambda>st. if st = ?st1 then Ok ''s'' else Err []), env_unmarshal := (\<lambda>b. Ok ?st1)\<rparr>"
  let ?out = "EpochControlWorkflow ?env ''e'' (take 1 demo_rounds) demo_world"
  have "outcome_error ?out = None" "w_projection (outcome_world ?out) ''e'' \<noteq> None" "w_projection demo_world ''e'' = None"
    by code_simp+
  moreover have "json_ok ?env" by (simp add: json_ok_def split: if_splits)
  ultimately show ?thesis
    using projection_is_current [of ?env demo_world "''e''" "take 1 demo_rounds"] by (auto simp: Let_def)
qed

section \<open>The signals behind a gate\<close>

text \<open>The workflow after its first \<open>k\<close> rounds, and the votes the next round takes from its queue.\<close>

abbreviation control_at :: "engine_env \<Rightarrow> string \<Rightarrow> control_round list \<Rightarrow> world \<Rightarrow> nat \<Rightarrow> control_outcome" where
  "control_at env e rs w k \<equiv> EpochControlWorkflow env e (take k rs) w"

abbreviation phase_at :: "engine_env \<Rightarrow> string \<Rightarrow> control_round list \<Rightarrow> world \<Rightarrow> nat \<Rightarrow> PhaseId" where
  "phase_at env e rs w k \<equiv> phase_of (outcome_machine (control_at env e rs w k))"

definition drained_votes :: "engine_env \<Rightarrow> string \<Rightarrow> control_round \<Rightarrow> control_outcome \<Rightarrow> ReviewVoteSignal recv list" where
  "drained_votes env e rd out =
     (case out of Finished _ _ _ \<Rightarrow> []
      | Parked sm q w \<Rightarrow>
          let pending = q_votes (arrive q (cr_arrived rd)) in
          case drain_votes env e pending False sm (tick w) of
            (_, _, _, rest, _) \<Rightarrow> take (length pending - length rest) pending)"

text \<open>The machine the round has when it has taken its signals and before it advances.\<close>

definition drained_machine :: "engine_env \<Rightarrow> string \<Rightarrow> control_round \<Rightarrow> control_outcome \<Rightarrow> EpochStateMachine" where
  "drained_machine env e rd out =
     (case out of Finished _ sm _ \<Rightarrow> sm
      | Parked sm q w \<Rightarrow> fst (snd (snd (drainSideChannels env e sm (arrive q (cr_arrived rd)) (tick w)))))"

lemma set_AList_update: "set (AList.update k v al) \<subseteq> insert (k, v) (set al)"
  by (induction al) auto

lemma RecordVote_votes:
  "x \<in> set (ReviewVotes (sm_state (snd (RecordVote sm ax v)))) \<Longrightarrow>
     x \<in> set (ReviewVotes (sm_state sm)) \<or> x = (ax, v)"
  using set_AList_update [of ax v "ReviewVotes (sm_state sm)"] by (auto simp: RecordVote_def split: if_splits)

lemma RecordVote_phase [simp]: "phase_of (snd (RecordVote sm ax v)) = phase_of sm"
  by (simp add: RecordVote_def)

text \<open>A drain takes a prefix of the queue; every vote it leaves in the machine was there before or is in that
  prefix, and the phase stays.\<close>

definition votes_from :: "EpochStateMachine \<Rightarrow> ReviewVoteSignal recv list \<Rightarrow> EpochStateMachine \<Rightarrow> bool" where
  "votes_from sm c sm' \<longleftrightarrow> phase_of sm' = phase_of sm \<and>
     (\<forall>x \<in> set (ReviewVotes (sm_state sm')). x \<in> set (ReviewVotes (sm_state sm)) \<or>
        (\<exists>vote. Msg vote \<in> set c \<and> x = (rvs_Axis vote, rvs_Vote vote)))"

lemma votes_from_refl: "votes_from sm c sm"
  by (simp add: votes_from_def)

lemma votes_from_step:
  "votes_from (snd (RecordVote sm (rvs_Axis vote) (rvs_Vote vote))) c sm' \<Longrightarrow> votes_from sm (Msg vote # c) sm'"
  using RecordVote_votes [of _ sm "rvs_Axis vote" "rvs_Vote vote"] by (fastforce simp: votes_from_def)

lemma drain_votes_from:
  "drain_votes env e q ch sm w = (r, ch', sm', q', w') \<Longrightarrow> \<exists>c. q = c @ q' \<and> votes_from sm c sm'"
proof (induction q arbitrary: ch sm w)
  case (Cons m q)
  show ?case
  proof (cases m)
    case (Msg vote)
    let ?sm1 = "snd (RecordVote sm (rvs_Axis vote) (rvs_Vote vote))"
    have "q' = q \<and> (sm' = sm \<or> sm' = ?sm1) \<or> (\<exists>ch1 w1. drain_votes env e q ch1 ?sm1 w1 = (r, ch', sm', q', w'))"
      using Cons.prems unfolding Msg drain_votes.simps Let_def
      by (auto split: if_splits sum.splits prod.splits option.splits)
    moreover have "votes_from sm [Msg vote] sm" "votes_from sm [Msg vote] ?sm1"
      using votes_from_step [OF votes_from_refl] votes_from_refl by auto
    moreover have "\<exists>c. Msg vote # q = c @ q' \<and> votes_from sm c sm'"
      if rest: "drain_votes env e q ch1 ?sm1 w1 = (r, ch', sm', q', w')" for ch1 w1
    proof -
      obtain c where "q = c @ q'" "votes_from ?sm1 c sm'" using Cons.IH [OF rest] by blast
      then show ?thesis using votes_from_step by (intro exI [of _ "Msg vote # c"]) simp
    qed
    ultimately show ?thesis unfolding Msg by (metis append_Cons append_Nil)
  qed (use Cons.prems in \<open>auto intro!: exI [of _ "[m]"] votes_from_refl\<close>)
qed (simp add: votes_from_refl)

lemma drain_sessions_votes:
  "drain_sessions q ch st w = (r, ch', st', q', w') \<Longrightarrow>
     CurrentPhase st' = CurrentPhase st \<and> ReviewVotes st' = ReviewVotes st"
proof (induction q ch st w arbitrary: r ch' st' q' w' rule: drain_sessions.induct)
  case (4 sess q ch st w)
  have "CurrentPhase (snd (addSession st sess)) = CurrentPhase st" "ReviewVotes (snd (addSession st sess)) = ReviewVotes st"
    by (simp_all add: addSession_def Let_def)
  then show ?case using 4 by (cases "addSession st sess") (auto split: if_splits)
qed auto

lemma drain_progress_votes:
  "drain_progress q ch st w = (r, ch', st', q', w') \<Longrightarrow>
     CurrentPhase st' = CurrentPhase st \<and> ReviewVotes st' = ReviewVotes st"
  by (induction q ch st w arbitrary: r ch' st' q' w' rule: drain_progress.induct) (fastforce split: if_splits)+

lemma drained_from:
  "votes_from sm (drained_votes env e rd (Parked sm q w)) (drained_machine env e rd (Parked sm q w))"
proof -
  let ?q = "arrive q (cr_arrived rd)"
  obtain r1 ch1 sm1 rest w1 where v: "drain_votes env e (q_votes ?q) False sm (tick w) = (r1, ch1, sm1, rest, w1)"
    by (rule prod_cases5)
  obtain r2 ch2 st2 qs w2 where s: "drain_sessions (q_sessions ?q) ch1 (sm_state sm1) w1 = (r2, ch2, st2, qs, w2)"
    by (rule prod_cases5)
  obtain r3 ch3 st3 qp w3 where p: "drain_progress (q_progress ?q) ch2 st2 w2 = (r3, ch3, st3, qp, w3)"
    by (rule prod_cases5)
  obtain c where c: "q_votes ?q = c @ rest" "votes_from sm c sm1" using drain_votes_from [OF v] by blast
  have "drained_votes env e rd (Parked sm q w) = c" using v c(1) by (simp add: drained_votes_def Let_def)
  moreover have "phase_of (drained_machine env e rd (Parked sm q w)) = phase_of sm1 \<and>
      ReviewVotes (sm_state (drained_machine env e rd (Parked sm q w))) = ReviewVotes (sm_state sm1)"
    using v s p drain_sessions_votes [OF s] drain_progress_votes [OF p]
    by (auto simp: drained_machine_def drainSideChannels_def split: option.split)
  ultimately show ?thesis using c(2) by (simp add: votes_from_def)
qed

lemma drive_advance_effect:
  assumes "drive_advance env e to by cond sm w = (r, sm', w')"
  shows "phase_of sm' = phase_of sm \<and> ReviewVotes (sm_state sm') = ReviewVotes (sm_state sm) \<or>
    ValidateAdvance sm to = [] \<and> phase_of sm' = to \<and> ReviewVotes (sm_state sm') = []"
  using assms
  by (auto simp: drive_advance_def Advance_def RecordFailedTransition_def Let_def split: sum.splits prod.splits if_splits)

text \<open>A round either stays in its phase, with no votes but those it had and those it drained, or its advance
  signal passed the validation of the drained machine and cleared the votes.\<close>

lemma control_step_effect:
  assumes "control_step env e rd sm q w = (r, sm', q', w')"
  defines "sm1 \<equiv> drained_machine env e rd (Parked sm q w)"
  shows "votes_from sm (drained_votes env e rd (Parked sm q w)) sm' \<or>
    (\<exists>adv. cr_advance rd = Msg adv \<and> ValidateAdvance sm1 (pas_ToPhase adv) = [] \<and>
       phase_of sm' = pas_ToPhase adv \<and> ReviewVotes (sm_state sm') = [])"
proof -
  obtain r1 ch1 sm2 q1 w1
    where d: "drainSideChannels env e sm (arrive q (cr_arrived rd)) (tick w) = (r1, ch1, sm2, q1, w1)"
    by (rule prod_cases5)
  then have sm2: "sm2 = sm1" by (simp add: sm1_def drained_machine_def)
  have from1: "votes_from sm (drained_votes env e rd (Parked sm q w)) sm1" unfolding sm1_def by (rule drained_from)
  have "sm' = sm \<or> sm' = sm1 \<or> (\<exists>adv r2 w2. cr_advance rd = Msg adv \<and>
      drive_advance env e (pas_ToPhase adv) (or_epoch_role (pas_TriggeredBy adv)) (pas_ConditionMet adv) sm1 w1 = (r2, sm', w2))"
    using assms(1) d unfolding sm2
    by (auto simp: control_step_def Let_def split: recv.splits option.splits prod.splits if_splits)
  then show ?thesis
  proof (elim disjE exE conjE)
    fix adv r2 w2
    assume adv: "cr_advance rd = Msg adv"
      "drive_advance env e (pas_ToPhase adv) (or_epoch_role (pas_TriggeredBy adv)) (pas_ConditionMet adv) sm1 w1 = (r2, sm', w2)"
    from drive_advance_effect [OF adv(2)] show ?thesis
    proof
      assume "phase_of sm' = phase_of sm1 \<and> ReviewVotes (sm_state sm') = ReviewVotes (sm_state sm1)"
      then show ?thesis using from1 by (intro disjI1) (simp add: votes_from_def)
    qed (use adv(1) in blast)
  qed (use from1 votes_from_refl in simp_all)
qed

lemma control_loop_snoc:
  "control_loop env e (rs @ [rd]) sm q w =
     (case control_loop env e rs sm q w of
        Finished r sm1 w1 \<Rightarrow> Finished r sm1 w1
      | Parked sm1 q1 w1 \<Rightarrow> control_loop env e [rd] sm1 q1 w1)"
  by (induction rs arbitrary: sm q w) (auto split: option.split prod.split)

lemma control_at_Suc:
  assumes "k < length rs"
  shows "control_at env e rs w (Suc k) =
     (case control_at env e rs w k of
        Finished r sm1 w1 \<Rightarrow> Finished r sm1 w1
      | Parked sm1 q1 w1 \<Rightarrow> control_loop env e [rs ! k] sm1 q1 w1)"
  unfolding EpochControlWorkflow_def take_Suc_conv_app_nth [OF assms] by (rule control_loop_snoc)

lemma control_at_effect:
  fixes env :: engine_env and e :: string and rs :: "control_round list" and w :: world and k :: nat
  assumes "k < length rs"
  defines "sm \<equiv> outcome_machine (control_at env e rs w k)" and "sm' \<equiv> outcome_machine (control_at env e rs w (Suc k))"
    and "rd \<equiv> rs ! k" and "out \<equiv> control_at env e rs w k"
  shows "votes_from sm (drained_votes env e rd out) sm' \<or>
    (\<exists>adv. cr_advance rd = Msg adv \<and> ValidateAdvance (drained_machine env e rd out) (pas_ToPhase adv) = [] \<and>
       phase_of sm' = pas_ToPhase adv \<and> ReviewVotes (sm_state sm') = [])"
    and "votes_from sm (drained_votes env e rd out) (drained_machine env e rd out)"
    and "steered sm (drained_machine env e rd out)"
proof -
  have park: "sm = m" if "out = Parked m q v" for m q v using that by (simp add: sm_def out_def)
  show "votes_from sm (drained_votes env e rd out) (drained_machine env e rd out)"
    by (cases out) (use park drained_from votes_from_refl in \<open>auto simp: drained_machine_def sm_def out_def\<close>)
  show "steered sm (drained_machine env e rd out)"
  proof (cases out)
    case (Parked m q v)
    obtain r1 ch1 sm2 q1 w1
      where d: "drainSideChannels env e m (arrive q (cr_arrived rd)) (tick v) = (r1, ch1, sm2, q1, w1)"
      by (rule prod_cases5)
    then show ?thesis using driven_drain [OF d] park [OF Parked] Parked by (simp add: drained_machine_def)
  qed (simp add: drained_machine_def sm_def out_def driven_refl)
  show "votes_from sm (drained_votes env e rd out) sm' \<or>
    (\<exists>adv. cr_advance rd = Msg adv \<and> ValidateAdvance (drained_machine env e rd out) (pas_ToPhase adv) = [] \<and>
       phase_of sm' = pas_ToPhase adv \<and> ReviewVotes (sm_state sm') = [])"
  proof (cases out)
    case (Finished r m v)
    then show ?thesis using control_at_Suc [OF assms(1), of env e w]
      by (simp add: sm_def sm'_def out_def votes_from_refl)
  next
    case (Parked m q v)
    obtain r1 m1 q1 v1 where s: "control_step env e rd m q v = (r1, m1, q1, v1)" by (rule prod_cases4)
    have "sm' = m \<or> sm' = m1"
      using control_at_Suc [OF assms(1), of env e w] Parked s
      by (cases r1) (auto simp: sm'_def out_def rd_def)
    then show ?thesis
      using control_step_effect [OF s] park [OF Parked] Parked votes_from_refl by auto
  qed
qed

text \<open>The votes of the machine were all drained in rounds since the phase it is in was entered.\<close>

definition votes_heard :: "engine_env \<Rightarrow> string \<Rightarrow> control_round list \<Rightarrow> world \<Rightarrow> nat \<Rightarrow> bool" where
  "votes_heard env e rs w k \<longleftrightarrow>
     (\<forall>x \<in> set (ReviewVotes (sm_state (outcome_machine (control_at env e rs w k)))).
        \<exists>j < k. \<exists>vote. Msg vote \<in> set (drained_votes env e (rs ! j) (control_at env e rs w j)) \<and>
          x = (rvs_Axis vote, rvs_Vote vote) \<and> (\<forall>i. j \<le> i \<and> i \<le> k \<longrightarrow> phase_at env e rs w i = phase_at env e rs w k))"

lemma control_at_0: "outcome_machine (control_at env e rs w 0) = NewEpochStateMachine e (env_specs env)"
  by (simp add: EpochControlWorkflow_def)

lemma votes_heard: "k \<le> length rs \<Longrightarrow> votes_heard env e rs w k"
proof (induction k)
  case 0
  show ?case unfolding votes_heard_def control_at_0 by (simp add: NewEpochStateMachine_def)
next
  case (Suc k)
  then have k: "k < length rs" and IH: "votes_heard env e rs w k" by simp_all
  from control_at_effect(1) [OF k, of env e w] show ?case
  proof
    assume v: "votes_from (outcome_machine (control_at env e rs w k))
        (drained_votes env e (rs ! k) (control_at env e rs w k)) (outcome_machine (control_at env e rs w (Suc k)))"
    then have ph: "phase_at env e rs w (Suc k) = phase_at env e rs w k" by (simp add: votes_from_def)
    have phase_upto: "\<forall>i. j \<le> i \<and> i \<le> Suc k \<longrightarrow> phase_at env e rs w i = phase_at env e rs w (Suc k)"
      if "\<forall>i. j \<le> i \<and> i \<le> k \<longrightarrow> phase_at env e rs w i = phase_at env e rs w k" for j
    proof (intro allI impI)
      fix i assume i: "j \<le> i \<and> i \<le> Suc k"
      show "phase_at env e rs w i = phase_at env e rs w (Suc k)"
      proof (cases "i = Suc k")
        case False
        then have "i \<le> k" using i by simp
        then show ?thesis using that i ph by metis
      qed simp
    qed
    show ?thesis unfolding votes_heard_def
    proof
      fix x assume "x \<in> set (ReviewVotes (sm_state (outcome_machine (control_at env e rs w (Suc k)))))"
      then consider "x \<in> set (ReviewVotes (sm_state (outcome_machine (control_at env e rs w k))))"
        | vote where "Msg vote \<in> set (drained_votes env e (rs ! k) (control_at env e rs w k))" "x = (rvs_Axis vote, rvs_Vote vote)"
        using v by (auto simp: votes_from_def)
      then show "\<exists>j < Suc k. \<exists>vote. Msg vote \<in> set (drained_votes env e (rs ! j) (control_at env e rs w j)) \<and>
          x = (rvs_Axis vote, rvs_Vote vote) \<and> (\<forall>i. j \<le> i \<and> i \<le> Suc k \<longrightarrow> phase_at env e rs w i = phase_at env e rs w (Suc k))"
      proof cases
        case 1
        then obtain j vote where "j < k" "Msg vote \<in> set (drained_votes env e (rs ! j) (control_at env e rs w j))"
          "x = (rvs_Axis vote, rvs_Vote vote)" "\<forall>i. j \<le> i \<and> i \<le> k \<longrightarrow> phase_at env e rs w i = phase_at env e rs w k"
          using bspec [OF IH [unfolded votes_heard_def] 1] by (elim exE conjE) (rule that)
        then show ?thesis using less_SucI phase_upto by blast
      next
        case 2
        moreover have "\<forall>i. k \<le> i \<and> i \<le> k \<longrightarrow> phase_at env e rs w i = phase_at env e rs w k" by (metis le_antisym)
        ultimately show ?thesis using lessI phase_upto by blast
      qed
    qed
  qed (auto simp: votes_heard_def)
qed

lemma control_at_specs: "sm_specs (outcome_machine (control_at env e rs w k)) = sm_specs (NewEpochStateMachine e (env_specs env))"
proof -
  have "steered (NewEpochStateMachine e (env_specs env)) (outcome_machine (control_at env e rs w k))"
    unfolding EpochControlWorkflow_def by (rule driven_control_loop)
  then show ?thesis by (rule steered_specs)
qed

text \<open>The first round that leaves a set of phases.\<close>

lemma first_entry:
  assumes "\<not> P (f 0)" "P (f n)"
  shows "\<exists>k < n. \<not> P (f k) \<and> P (f (Suc k))"
  using assms by (induction n) (auto intro: less_SucI)

lemma control_passed_gate:
  assumes fin: "phase_at env e rs w (length rs) \<in> after_code_review" and specs: "env_specs env = None"
  obtains k adv where "k < length rs" "cr_advance (rs ! k) = Msg adv" "pas_ToPhase adv = PhaseImplUAT"
    "phase_at env e rs w k = PhaseCodeReview" "phase_at env e rs w (Suc k) = PhaseImplUAT"
    "HasConsensus (drained_machine env e (rs ! k) (control_at env e rs w k))"
proof -
  have "phase_at env e rs w 0 \<notin> after_code_review"
    unfolding control_at_0 by (simp add: NewEpochStateMachine_def after_code_review_def phase_consts)
  then obtain k where k: "k < length rs" "phase_at env e rs w k \<notin> after_code_review"
    "phase_at env e rs w (Suc k) \<in> after_code_review"
    using first_entry [of "\<lambda>p. p \<in> after_code_review" "phase_at env e rs w" "length rs"] fin by auto
  let ?sm1 = "drained_machine env e (rs ! k) (control_at env e rs w k)"
  have ph: "phase_of ?sm1 = phase_at env e rs w k"
    using control_at_effect(2) [OF k(1), of env e w] by (simp add: votes_from_def)
  have sp: "sm_specs ?sm1 = PhaseSpecs"
    using steered_specs [OF control_at_effect(3) [OF k(1), of env e w]] control_at_specs [of env e k rs w] specs
    by (simp add: NewEpochStateMachine_def)
  have "\<not> votes_from (outcome_machine (control_at env e rs w k)) (drained_votes env e (rs ! k) (control_at env e rs w k))
      (outcome_machine (control_at env e rs w (Suc k)))"
    using k(2,3) by (auto simp: votes_from_def)
  then obtain adv where adv: "cr_advance (rs ! k) = Msg adv" "ValidateAdvance ?sm1 (pas_ToPhase adv) = []"
    "phase_at env e rs w (Suc k) = pas_ToPhase adv"
    using control_at_effect(1) [OF k(1), of env e w] by blast
  obtain spec where spec: "PhaseSpecs (phase_of ?sm1) = Some spec" "pas_ToPhase adv \<in> set (Transitions spec)"
    "(phase_of ?sm1, pas_ToPhase adv) \<in> set consensusGated \<longrightarrow> HasConsensus ?sm1"
    using adv(2) by (auto simp: ValidateAdvance_Nil_iff sp)
  have gate: "(phase_of ?sm1, pas_ToPhase adv) = (PhaseCodeReview, PhaseImplUAT)"
    by (rule after_code_review_entry [OF spec(1) _ spec(2)]) (use k(2,3) ph adv(3) in simp_all)
  then have "HasConsensus ?sm1" using spec(3) by (simp add: consensusGated_def)
  then show thesis using that [OF k(1) adv(1)] gate ph adv(3) by simp
qed

text \<open>C28: a workflow that returns without an error has completed its epoch, and it passed the code-review
  gate on signals it received: in some round it was in the code-review phase, the machine it had when
  it had taken the signals of that round had consensus, and an advance signal moved it on to the
  implementation UAT; and for each axis there is an ACCEPT vote signal that it took from its queue in that
  round or an earlier one, with the epoch in code review in every round between.\<close>

theorem control_completes_through_gate:
  assumes "EpochControlWorkflow env e rs w = Finished None sm w'" "env_specs env = None"
  shows "phase_of sm = PhaseComplete \<and>
    (\<exists>k < length rs. \<exists>adv. cr_advance (rs ! k) = Msg adv \<and> pas_ToPhase adv = PhaseImplUAT \<and>
       phase_at env e rs w k = PhaseCodeReview \<and> phase_at env e rs w (Suc k) = PhaseImplUAT \<and>
       HasConsensus (drained_machine env e (rs ! k) (control_at env e rs w k)) \<and>
       (\<forall>ax \<in> set AllReviewAxes. \<exists>j \<le> k. \<exists>vote.
          Msg vote \<in> set (drained_votes env e (rs ! j) (control_at env e rs w j)) \<and>
          rvs_Axis vote = ax \<and> rvs_Vote vote = VoteAccept \<and>
          (\<forall>i. j \<le> i \<and> i \<le> k \<longrightarrow> phase_at env e rs w i = PhaseCodeReview)))"
proof -
  have complete: "phase_of sm = PhaseComplete"
    if "control_loop env e rs sm0 q w = Finished None sm w'" for sm0 q
    using that
  proof (induction rs arbitrary: sm0 q w)
    case (Cons rd rs)
    then show ?case by (auto split: if_splits prod.splits option.splits)
  qed (auto split: if_splits)
  have fin: "phase_of sm = PhaseComplete"
    using complete assms(1) by (simp add: EpochControlWorkflow_def)
  then have "phase_at env e rs w (length rs) \<in> after_code_review"
    using assms(1) by (simp add: after_code_review_def)
  then obtain k adv where k: "k < length rs" "cr_advance (rs ! k) = Msg adv" "pas_ToPhase adv = PhaseImplUAT"
    "phase_at env e rs w k = PhaseCodeReview" "phase_at env e rs w (Suc k) = PhaseImplUAT"
    "HasConsensus (drained_machine env e (rs ! k) (control_at env e rs w k))"
    by (rule control_passed_gate [OF _ assms(2)])
  have "\<exists>j \<le> k. \<exists>vote. Msg vote \<in> set (drained_votes env e (rs ! j) (control_at env e rs w j)) \<and>
      rvs_Axis vote = ax \<and> rvs_Vote vote = VoteAccept \<and> (\<forall>i. j \<le> i \<and> i \<le> k \<longrightarrow> phase_at env e rs w i = PhaseCodeReview)"
    if "ax \<in> set AllReviewAxes" for ax
  proof -
    have "(ax, VoteAccept) \<in> set (ReviewVotes (sm_state (drained_machine env e (rs ! k) (control_at env e rs w k))))"
      using k(6) that by (auto simp: HasConsensus_def list_all_iff dest: map_of_SomeD)
    then consider "(ax, VoteAccept) \<in> set (ReviewVotes (sm_state (outcome_machine (control_at env e rs w k))))"
      | vote where "Msg vote \<in> set (drained_votes env e (rs ! k) (control_at env e rs w k))" "(ax, VoteAccept) = (rvs_Axis vote, rvs_Vote vote)"
      using control_at_effect(2) [OF k(1), of env e w] unfolding votes_from_def by blast
    then show ?thesis
    proof cases
      case 1
      then obtain j vote where "j < k" "Msg vote \<in> set (drained_votes env e (rs ! j) (control_at env e rs w j))"
        "(ax, VoteAccept) = (rvs_Axis vote, rvs_Vote vote)"
        "\<forall>i. j \<le> i \<and> i \<le> k \<longrightarrow> phase_at env e rs w i = phase_at env e rs w k"
        using votes_heard [of k rs env e w] k(1) unfolding votes_heard_def by (meson less_imp_le)
      then show ?thesis using k(4) by (intro exI [of _ j]) auto
    next
      case 2
      then show ?thesis using k(4) by (intro exI [of _ k]) auto
    qed
  qed
  then show ?thesis using fin k by blast
qed

theorem control_completes_through_gate_witness:
  "phase_of (outcome_machine (EpochControlWorkflow (demo_env\<lparr>env_uuid5 := \<lambda>_. []\<rparr>) ''e'' demo_rounds demo_world)) = PhaseComplete"
proof -
  have "case EpochControlWorkflow (demo_env\<lparr>env_uuid5 := \<lambda>_. []\<rparr>) ''e'' demo_rounds demo_world of
      Finished None sm w' \<Rightarrow> True | _ \<Rightarrow> False"
    by code_simp
  then obtain sm w' where run: "EpochControlWorkflow (demo_env\<lparr>env_uuid5 := \<lambda>_. []\<rparr>) ''e'' demo_rounds demo_world = Finished None sm w'"
    by (auto split: control_outcome.splits option.splits)
  have "env_specs (demo_env\<lparr>env_uuid5 := \<lambda>_. []\<rparr>) = None" by (simp add: demo_env_def)
  from control_completes_through_gate [OF run this] show ?thesis by (simp add: run)
qed

text \<open>The blocker gate never acts in the signal-driven workflow: no signal records a
  blocker, so the counter the gate reads is zero in every state the workflow reaches.\<close>

theorem control_blocker_gate_inert:
  "blockers_of (outcome_machine (EpochControlWorkflow env e rs w)) = 0"
  using steered_blockers [OF driven_control_loop]
  by (simp add: EpochControlWorkflow_def) (simp add: NewEpochStateMachine_def)

text \<open>Registering a session is idempotent: in every outcome the session ids of an epoch are
  distinct and the session count is their number.\<close>

theorem control_sessions_consistent:
  "let st = sm_state (outcome_machine (EpochControlWorkflow env e rs w)) in
     distinct (map rss_SessionId (ActiveSessions st)) \<and>
     ActiveSessionCount st = int (length (ActiveSessions st))"
  using driven_sessions_ok [OF driven_control_loop sessions_ok_new]
  by (simp add: EpochControlWorkflow_def sessions_ok_def)

text \<open>C7: a transition that crashes any number of times at any point of its durable step, and is
  re-executed each time by a new process with another clock, leaves exactly one row in the
  trail once the step completes.\<close>

theorem crash_replay_exactly_once:
  assumes "trail_ok (w_trail w)"
    and "env_uuid5 env (dedup_name e (tr_ToPhase rec) EventPhaseTransition s) = key" "key \<noteq> []"
    and "Some key \<notin> er_dedup_key ` set (db_events (st_db (w_trail w)))"
    and "list_all (\<lambda>a. env_uuid5 (ca_env a) = env_uuid5 env) crashes"
    and "commitTransition env e role rec st s (foldl (replay_attempt e role rec st s) w crashes) = (None, w')"
  shows "\<exists>row. db_events (st_db (w_trail w')) = db_events (st_db (w_trail w)) @ [row] \<and> er_dedup_key row = Some key"
proof -
  let ?evs = "db_events (st_db (w_trail w))"
  have key: "transition_key env e rec s = key" using assms(2) by (simp add: transition_key_def DedupKey_def)
  have "list_all (\<lambda>a. transition_key (ca_env a) e rec s = key) crashes"
    using assms(5) key by (simp add: transition_key_def list_all_iff)
  then have "at_most_once ?evs key (foldl (replay_attempt e role rec st s) w crashes)"
    using assms(1) by (intro replay_attempts_once [OF _ assms(3,4)]) (simp_all add: at_most_once_def)
  then show ?thesis
    using commitTransition_once [OF _ assms(3,4) key assms(6)] by (simp add: exactly_once_def)
qed

theorem crash_replay_exactly_once_witness:
  "let rec = \<lparr>tr_FromPhase = PhaseRequest, tr_ToPhase = PhaseElicit, tr_Timestamp = 1, tr_TriggeredBy = ''epoch'',
         tr_ConditionMet = [], tr_Success = True\<rparr>;
       st = sm_state (NewEpochStateMachine ''e'' None);
       crashes = [\<lparr>ca_env = demo_env, ca_timestamp = 5, ca_done = 1\<rparr>, \<lparr>ca_env = demo_env, ca_timestamp = 9, ca_done = 2\<rparr>] in
   \<exists>row. db_events (st_db (w_trail (snd (commitTransition demo_env ''e'' ''epoch'' rec st ''0''
       (foldl (replay_attempt ''e'' ''epoch'' rec st ''0'') demo_world crashes))))) = [row]"
proof -
  let ?rec = "\<lparr>tr_FromPhase = PhaseRequest, tr_ToPhase = PhaseElicit, tr_Timestamp = 1, tr_TriggeredBy = ''epoch'',
         tr_ConditionMet = [], tr_Success = True\<rparr>"
  let ?st = "sm_state (NewEpochStateMachine ''e'' None)"
  let ?crashes = "[\<lparr>ca_env = demo_env, ca_timestamp = 5, ca_done = 1\<rparr>, \<lparr>ca_env = demo_env, ca_timestamp = 9, ca_done = 2\<rparr>]"
  let ?res = "commitTransition demo_env ''e'' ''epoch'' ?rec ?st ''0''
    (foldl (replay_attempt ''e'' ''epoch'' ?rec ?st ''0'') demo_world ?crashes)"
  have "fst ?res = None" by code_simp
  then have "?res = (None, snd ?res)" by (simp add: prod_eq_iff)
  moreover have "db_events (st_db (w_trail demo_world)) = []"
    by (simp add: demo_world_def NewSqliteAuditTrail_def emptyAuditDB_def)
  ultimately show ?thesis
    using crash_replay_exactly_once [of demo_world demo_env "''e''" ?rec "''0''" _ ?crashes "''epoch''" ?st "snd ?res"]
      demo_world_ok
    by (auto simp: Let_def demo_env_def)
qed

text \<open>A vote without an axis hides the votes behind it: the drain takes it for the end of the
  queue, so an advance that was sent after three accepting votes is refused, and the same
  signals without the blank vote pass the gate.\<close>

theorem blank_vote_hides_votes:
  "\<exists>env e sm w. let accepts = map (\<lambda>ax. Msg \<lparr>rvs_Axis = ax, rvs_Vote = VoteAccept, rvs_ReviewerId = ''r''\<rparr>) AllReviewAxes;
       blank = Msg \<lparr>rvs_Axis = [], rvs_Vote = VoteAccept, rvs_ReviewerId = ''r''\<rparr>;
       advance = \<lparr>pas_ToPhase = PhaseImplUAT, pas_TriggeredBy = [], pas_ConditionMet = []\<rparr>;
       none = \<lparr>q_votes = [], q_sessions = [], q_progress = []\<rparr>;
       after = (\<lambda>votes. case control_step env e \<lparr>cr_advance = Msg advance, cr_arrived = none\<lparr>q_votes := votes\<rparr>\<rparr> sm none w
         of (r, sm', q', w') \<Rightarrow> (r, phase_of sm')) in
     phase_of sm = PhaseCodeReview \<and>
     after accepts = (None, PhaseImplUAT) \<and> after (blank # accepts) = (None, PhaseCodeReview)"
proof -
  let ?env = "\<lparr>env_specs = None, env_uuid5 = (\<lambda>s. CHR ''u'' # s), env_marshal = (\<lambda>st. Ok []),
    env_unmarshal = (\<lambda>s. Err []), env_step_id = (\<lambda>n. Ok (int n)), env_now = (\<lambda>n i. int n),
    env_newV7 = (\<lambda>n. Some (dec_nat n)), env_upsert_error = (\<lambda>_. None), env_trail_error = (\<lambda>_. None),
    env_hook_error = (\<lambda>_. None)\<rparr>"
  let ?sm0 = "NewEpochStateMachine ''e'' None"
  let ?sm = "?sm0\<lparr>sm_state := (sm_state ?sm0)\<lparr>CurrentPhase := PhaseCodeReview\<rparr>\<rparr>"
  let ?w = "\<lparr>w_ops = 0, w_projection = (\<lambda>_. None), w_trail = NewSqliteAuditTrail emptyAuditDB\<rparr>"
  show ?thesis
    by (rule exI [of _ ?env], rule exI [of _ "''e''"], rule exI [of _ ?sm], rule exI [of _ ?w]) code_simp
qed

text \<open>The scripted workflow keeps the same correspondence: after a plan that ran to its end
  the trail holds exactly the transitions the plan took, refused ones excluded, and a plan
  that stopped with an error lacks at most the last of them.\<close>

theorem scripted_trail_mirrors_history:
  assumes "uuid_ok env" "ordinals_ok env" "ein_EpochId input \<noteq> []" "trail_ok (w_trail w)"
    and "keys_before env (ein_EpochId input) w"
    and "QueryEventsOn (st_db (w_trail w)) (ein_EpochId input) None None = []"
    and "EpochWorkflow env input w = (r, st, w')"
  shows "let log = transition_log w' (ein_EpochId input); transitions = map record_view (filter tr_Success (TransitionHistory st)) in
    (r = None \<longrightarrow> log = transitions) \<and> (log = transitions \<or> transitions \<noteq> [] \<and> log = butlast transitions)"
proof -
  let ?e = "ein_EpochId input"
  obtain sm where plan: "epoch_plan env ?e (ein_Advances input) (NewEpochStateMachine ?e (env_specs env)) w = (r, sm, w')"
    and st: "st = sm_state sm"
    using assms(7) by (auto simp: EpochWorkflow_def split: prod.splits)
  have "trail_inv env ?e (NewEpochStateMachine ?e (env_specs env)) w"
    using assms(4-6)
    by (simp add: trail_inv_def transition_log_def transitions_of_def taken_def NewEpochStateMachine_def)
  from consistent_epoch_plan [OF assms(1-3) this plan]
  show ?thesis by (auto simp: st Let_def consistent_def trail_inv_def transitions_of_def taken_def)
qed

theorem scripted_trail_mirrors_history_witness:
  "let res = EpochWorkflow demo_env demo_plan demo_world in
   transition_log (snd (snd res)) ''e'' = map record_view (filter tr_Success (TransitionHistory (fst (snd res)))) \<and>
   length (transition_log (snd (snd res)) ''e'') = 1 \<and> length (TransitionHistory (fst (snd res))) = 2"
proof -
  have facts: "fst (EpochWorkflow demo_env demo_plan demo_world) = None"
    "length (transition_log (snd (snd (EpochWorkflow demo_env demo_plan demo_world))) ''e'') = 1"
    "length (TransitionHistory (fst (snd (EpochWorkflow demo_env demo_plan demo_world)))) = 2"
    "QueryEventsOn (st_db (w_trail demo_world)) ''e'' None None = []" "ein_EpochId demo_plan = ''e''"
    by code_simp+
  obtain r st w' where res: "EpochWorkflow demo_env demo_plan demo_world = (r, st, w')" by (rule prod_cases3)
  show ?thesis
    using scripted_trail_mirrors_history [OF _ _ _ _ _ _ res] facts demo_env_ok demo_world_ok
    by (simp add: Let_def res)
qed

end
