(* ===== verification/Hooks.thy ===== *)
theory Hooks
  imports Protocol "HOL-Library.Multiset"
begin

text \<open>
  The hook manager (\<^verbatim>\<open>internal/hooks/hooks.go\<close>): the hook events, registration of
  handlers per event, and the concurrent dispatch that collects every handler's outcome.  A
  handler is what it does with a payload: the audit rows it recorded and its error, if any,
  the deadline of its context included.  Each handler runs in a goroutine of its own, so the
  order in which outcomes and errors reach the two channels is any order; it is an argument
  of the dispatch.
\<close>

section \<open>Events\<close>

type_synonym HookEvent = string

definition HookPhaseTransition :: HookEvent where [enum_defs]: "HookPhaseTransition = ''phase_transition''"
definition HookVoteRecorded :: HookEvent where [enum_defs]: "HookVoteRecorded = ''vote_recorded''"
definition HookSliceStarted :: HookEvent where [enum_defs]: "HookSliceStarted = ''slice_started''"
definition HookSliceCompleted :: HookEvent where [enum_defs]: "HookSliceCompleted = ''slice_completed''"
definition HookEpochStarted :: HookEvent where [enum_defs]: "HookEpochStarted = ''epoch_started''"
definition HookEpochCompleted :: HookEvent where [enum_defs]: "HookEpochCompleted = ''epoch_completed''"
definition HookReviewCycle :: HookEvent where [enum_defs]: "HookReviewCycle = ''review_cycle''"
definition HookSliceFailed :: HookEvent where [enum_defs]: "HookSliceFailed = ''slice_failed''"
definition HookConstraintViolation :: HookEvent where [enum_defs]: "HookConstraintViolation = ''constraint_violation''"
definition HookConnectionLost :: HookEvent where [enum_defs]: "HookConnectionLost = ''connection_lost''"
definition HookSessionStarted :: HookEvent where [enum_defs]: "HookSessionStarted = ''session_started''"
definition HookSessionEnded :: HookEvent where [enum_defs]: "HookSessionEnded = ''session_ended''"
definition HookGitCommit :: HookEvent where [enum_defs]: "HookGitCommit = ''git_commit''"

definition AllHookEvents :: "HookEvent list" where [enum_defs]:
  "AllHookEvents = [HookPhaseTransition, HookVoteRecorded, HookSliceStarted, HookSliceCompleted,
     HookEpochStarted, HookEpochCompleted, HookReviewCycle, HookSliceFailed, HookConstraintViolation,
     HookConnectionLost, HookSessionStarted, HookSessionEnded, HookGitCommit]"

text \<open>The data of a payload is a map from strings; the values the engine sends are strings.\<close>

record HookPayload =
  hp_Event :: HookEvent
  hp_EpochId :: string
  hp_Phase :: PhaseId
  hp_Data :: "(string \<times> string) list"

section \<open>The manager\<close>

record HandleOutcome =
  RecordedEventIDs :: "int list"

record HookHandler =
  hh_Events :: "HookEvent list"
  hh_Handle :: "HookPayload \<Rightarrow> HandleOutcome \<times> string option"

record Manager =
  mg_handlers :: "HookEvent \<Rightarrow> HookHandler list"
  mg_dispatchTimeout :: int

definition DefaultDispatchTimeout :: int where "DefaultDispatchTimeout = 5000000000"

definition WithDispatchTimeout :: "int \<Rightarrow> Manager \<Rightarrow> Manager" where
  "WithDispatchTimeout d m = (if d > 0 then m\<lparr>mg_dispatchTimeout := d\<rparr> else m)"

definition NewManager :: "(Manager \<Rightarrow> Manager) list \<Rightarrow> Manager" where
  "NewManager opts = foldl (\<lambda>m opt. opt m)
     \<lparr>mg_handlers = (\<lambda>_. []), mg_dispatchTimeout = DefaultDispatchTimeout\<rparr> opts"

definition Register :: "Manager \<Rightarrow> HookHandler \<Rightarrow> Manager" where
  "Register m h = m\<lparr>mg_handlers :=
     foldl (\<lambda>hs event. hs(event := hs event @ [h])) (mg_handlers m) (hh_Events h)\<rparr>"

text \<open>\<open>finish\<close> is the order in which the goroutines finish: the indices of the snapshot,
  rearranged.  The channels are buffered, so a goroutine's error and outcome arrive when it
  finishes.\<close>

definition Dispatch :: "nat list \<Rightarrow> Manager \<Rightarrow> HookPayload \<Rightarrow> int list \<times> string list option" where
  "Dispatch finish m payload =
     (let snapshot = mg_handlers m (hp_Event payload) in
      if length snapshot = 0 then ([], None)
      else
        let results = map (\<lambda>i. hh_Handle (snapshot ! i) payload) finish;
            outcomes = map fst results;
            errs = List.map_filter snd results;
            ids = foldl (\<lambda>acc oc. if length (RecordedEventIDs oc) > 0 then acc @ RecordedEventIDs oc else acc) [] outcomes
        in (ids, if length errs = 0 then None else Some errs))"

definition dispatchErrors_Error :: "string list \<Rightarrow> string" where
  "dispatchErrors_Error errs =
     (case errs of
        [e] \<Rightarrow> ''hooks.Manager: 1 handler returned an error: '' @ e
      | _ \<Rightarrow> foldl (\<lambda>result m. result @ [CHR 10] @ ''  '' @ m)
          (''hooks.Manager: '' @ dec_nat (length errs) @ '' handlers returned errors:'')
          (map (\<lambda>(i, e). ''['' @ dec_nat (i + 1) @ ''] '' @ e) (List.enumerate 0 errs)))"

section \<open>Lemmas\<close>


lemma register_handlers:
  "mg_handlers (Register m h) ev = mg_handlers m ev @ replicate (count_list (hh_Events h) ev) h"
proof -
  have "foldl (\<lambda>hs event. hs(event := hs event @ [h])) f evs ev = f ev @ replicate (count_list evs ev) h" for f evs
    by (induction evs arbitrary: f) (auto simp: replicate_app_Cons_same)
  then show ?thesis by (simp add: Register_def)
qed

lemma foldl_collect:
  "foldl (\<lambda>acc oc. if length (g oc) > 0 then acc @ g oc else acc) acc ocs = acc @ concat (map g ocs)"
  by (induction ocs arbitrary: acc) auto

lemma Dispatch_nonempty:
  assumes "mg_handlers m (hp_Event payload) \<noteq> []"
  shows "Dispatch finish m payload =
    (let results = map (\<lambda>i. hh_Handle (mg_handlers m (hp_Event payload) ! i) payload) finish in
     (concat (map (\<lambda>r. RecordedEventIDs (fst r)) results),
      if List.map_filter snd results = [] then None else Some (List.map_filter snd results)))"
  using assms unfolding Dispatch_def Let_def foldl_collect by (simp add: comp_def)

lemma mset_map_perm:
  assumes "mset finish = mset [0..<length xs]"
  shows "mset (map (\<lambda>i. f (xs ! i)) finish) = mset (map f xs)"
proof -
  have "mset (map (\<lambda>i. f (xs ! i)) finish) = image_mset (\<lambda>i. f (xs ! i)) (mset [0..<length xs])"
    by (simp only: mset_map assms)
  also have "\<dots> = mset (map (\<lambda>i. f (xs ! i)) [0..<length xs])" by (simp only: mset_map)
  also have "map (\<lambda>i. f (xs ! i)) [0..<length xs] = map f xs" by (rule nth_equalityI) simp_all
  finally show ?thesis .
qed

lemma mset_concat_cong: "mset xs = mset ys \<Longrightarrow> mset (concat xs) = mset (concat ys)"
  by (simp add: mset_concat sum_mset_sum_list [symmetric] mset_map [symmetric] del: mset_map)
    (metis mset_map sum_mset_sum_list)

lemma mset_map_filter_cong: "mset xs = mset ys \<Longrightarrow> mset (List.map_filter f xs) = mset (List.map_filter f ys)"
  by (simp add: map_filter_def mset_map mset_filter)

section \<open>Properties\<close>

text \<open>A dispatch loses nothing and does not depend on the order in which the handlers finish:
  the ids it reports are those of all subscribed handlers, failed ones included, and the
  errors are those of all failed handlers.\<close>

theorem dispatch_collects_all:
  assumes "mset finish = mset [0..<length (mg_handlers m (hp_Event payload))]"
    and "Dispatch finish m payload = (ids, errs)"
  shows "mset ids = mset (concat (map (\<lambda>h. RecordedEventIDs (fst (hh_Handle h payload))) (mg_handlers m (hp_Event payload)))) \<and>
    mset (case errs of None \<Rightarrow> [] | Some es \<Rightarrow> es) =
      mset (List.map_filter (\<lambda>h. snd (hh_Handle h payload)) (mg_handlers m (hp_Event payload))) \<and>
    (errs = None \<longleftrightarrow> (\<forall>h \<in> set (mg_handlers m (hp_Event payload)). snd (hh_Handle h payload) = None))"
proof -
  let ?hs = "mg_handlers m (hp_Event payload)"
  let ?results = "map (\<lambda>i. hh_Handle (?hs ! i) payload) finish"
  have res: "mset ?results = mset (map (\<lambda>h. hh_Handle h payload) ?hs)"
    using mset_map_perm [OF assms(1)] .
  have ids: "ids = concat (map (\<lambda>r. RecordedEventIDs (fst r)) ?results)"
    and errs: "errs = (if List.map_filter snd ?results = [] then None else Some (List.map_filter snd ?results))"
    using assms Dispatch_nonempty [of m payload finish]
    by (cases "?hs = []"; auto simp: Dispatch_def Let_def map_filter_def)+
  have 1: "mset ids = mset (concat (map (\<lambda>r. RecordedEventIDs (fst r)) (map (\<lambda>h. hh_Handle h payload) ?hs)))"
    unfolding ids by (rule mset_concat_cong) (use res in \<open>simp only: mset_map\<close>)
  have same: "List.map_filter snd (map (\<lambda>h. hh_Handle h payload) ?hs) = List.map_filter (\<lambda>h. snd (hh_Handle h payload)) ?hs"
    by (simp add: map_filter_def filter_map comp_def)
  have 2: "mset (List.map_filter snd ?results) = mset (List.map_filter (\<lambda>h. snd (hh_Handle h payload)) ?hs)"
    unfolding same [symmetric] by (rule mset_map_filter_cong [OF res])
  have case_errs: "(case errs of None \<Rightarrow> [] | Some es \<Rightarrow> es) = List.map_filter snd ?results"
    by (simp add: errs)
  have "errs = None \<longleftrightarrow> List.map_filter (\<lambda>h. snd (hh_Handle h payload)) ?hs = []"
    using 2 errs by (metis mset_zero_iff option.distinct(1))
  then have 3: "errs = None \<longleftrightarrow> (\<forall>h \<in> set ?hs. snd (hh_Handle h payload) = None)"
    by (auto simp: map_filter_def filter_empty_conv)
  show ?thesis unfolding case_errs using 1 2 3 by (simp only: map_map comp_def)
qed

definition demo_manager :: Manager where
  "demo_manager = Register (Register (NewManager [])
     \<lparr>hh_Events = [HookGitCommit], hh_Handle = (\<lambda>_. (\<lparr>RecordedEventIDs = [7]\<rparr>, Some ''late''))\<rparr>)
     \<lparr>hh_Events = [HookGitCommit, HookSliceFailed], hh_Handle = (\<lambda>_. (\<lparr>RecordedEventIDs = [8]\<rparr>, None))\<rparr>"

definition demo_payload :: HookPayload where
  "demo_payload = \<lparr>hp_Event = HookGitCommit, hp_EpochId = [], hp_Phase = [], hp_Data = []\<rparr>"

theorem dispatch_collects_all_witness:
  "mset (fst (Dispatch [1, 0] demo_manager demo_payload)) = mset [7, 8]"
proof -
  have facts: "length (mg_handlers demo_manager (hp_Event demo_payload)) = 2"
    "concat (map (\<lambda>h. RecordedEventIDs (fst (hh_Handle h demo_payload))) (mg_handlers demo_manager (hp_Event demo_payload))) = [7, 8]"
    by code_simp+
  then have perm: "mset [1, 0] = mset [0..<length (mg_handlers demo_manager (hp_Event demo_payload))]"
    by (simp add: upt_rec)
  obtain ids errs where d: "Dispatch [1, 0] demo_manager demo_payload = (ids, errs)" by fastforce
  show ?thesis unfolding d using dispatch_collects_all [OF perm d] facts(2) by simp
qed

end
