(* ===== verification/Timeouts.thy ===== *)
theory Timeouts
  imports Prelude
begin

text \<open>
  The ordered timeout hierarchy of \<^verbatim>\<open>internal/timeouts\<close>: the constructor that refuses
  an inverted profile, the three known profiles and the operator's overrides.  Durations are
  nanoseconds, kept as integers: the code only compares them.
\<close>

section \<open>Profiles\<close>

text \<open>\<open>Kind\<close> is an unsigned byte; the known kinds are 1, 2 and 3.\<close>

type_synonym Kind = nat

definition Production :: Kind where "Production = 1"
definition Test :: Kind where "Test = 2"
definition DeadlineTest :: Kind where "DeadlineTest = 3"

record Profile =
  p_kind :: Kind
  p_sqliteBusy :: int
  p_ingress :: int
  p_startSlice :: int
  p_hookInvocation :: int
  p_workflowResult :: int

datatype profile_error =
    UnknownKind Kind
  | NotPositive
  | BusyNotBelowWindows
  | HookNotAboveWindows
  | ResultNotAboveHook
  | ResultNotAboveWindows
  | NegativeOverride

definition New :: "Kind \<Rightarrow> int \<Rightarrow> int \<Rightarrow> int \<Rightarrow> int \<Rightarrow> int \<Rightarrow> profile_error + Profile" where
  "New kind sqliteBusy ingress startSlice hookInvocation workflowResult =
     result_bind (fail_if (kind \<noteq> Production \<and> kind \<noteq> Test \<and> kind \<noteq> DeadlineTest) (UnknownKind kind)) (\<lambda>_.
     result_bind (fail_if (sqliteBusy \<le> 0 \<or> ingress \<le> 0 \<or> startSlice \<le> 0 \<or> hookInvocation \<le> 0 \<or> workflowResult \<le> 0)
       NotPositive) (\<lambda>_.
     result_bind (fail_if (sqliteBusy \<ge> ingress \<or> sqliteBusy \<ge> startSlice) BusyNotBelowWindows) (\<lambda>_.
     result_bind (fail_if (hookInvocation \<le> ingress \<or> hookInvocation \<le> startSlice) HookNotAboveWindows) (\<lambda>_.
     result_bind (fail_if (workflowResult \<le> hookInvocation) ResultNotAboveHook) (\<lambda>_.
     result_bind (fail_if (workflowResult \<le> ingress \<or> workflowResult \<le> startSlice) ResultNotAboveWindows) (\<lambda>_.
     Ok \<lparr>p_kind = kind, p_sqliteBusy = sqliteBusy, p_ingress = ingress, p_startSlice = startSlice,
       p_hookInvocation = hookInvocation, p_workflowResult = workflowResult\<rparr>))))))"

definition Validate :: "Profile \<Rightarrow> profile_error option" where
  "Validate p =
     (case New (p_kind p) (p_sqliteBusy p) (p_ingress p) (p_startSlice p) (p_hookInvocation p) (p_workflowResult p) of
        Err e \<Rightarrow> Some e | Ok _ \<Rightarrow> None)"

text \<open>The known profiles; a panic of \<open>must\<close> is \<open>None\<close>.\<close>

definition must :: "profile_error + Profile \<Rightarrow> Profile option" where
  "must r = (case r of Err _ \<Rightarrow> None | Ok p \<Rightarrow> Some p)"

definition ProductionProfile :: "Profile option" where
  "ProductionProfile = must (New Production 1500000000 2000000000 2000000000 5000000000 30000000000)"

definition TestProfile :: "Profile option" where
  "TestProfile = must (New Test 500000000 2000000000 3000000000 6000000000 30000000000)"

definition DeadlineTestProfile :: "Profile option" where
  "DeadlineTestProfile = must (New DeadlineTest 25000000 250000000 500000000 1000000000 2000000000)"

definition KnownProfiles :: "Profile option list" where
  "KnownProfiles = [ProductionProfile, TestProfile, DeadlineTestProfile]"

section \<open>Overrides\<close>

record Override =
  o_HookInvocation :: int
  o_Ingress :: int
  o_StartSlice :: int

definition Override_IsZero :: "Override \<Rightarrow> bool" where
  "Override_IsZero ov \<longleftrightarrow> o_HookInvocation ov = 0 \<and> o_Ingress ov = 0 \<and> o_StartSlice ov = 0"

definition WithOverride :: "Profile \<Rightarrow> Override \<Rightarrow> profile_error + Profile" where
  "WithOverride base ov =
     (if Override_IsZero ov then Ok base
      else if o_HookInvocation ov < 0 \<or> o_Ingress ov < 0 \<or> o_StartSlice ov < 0 then Err NegativeOverride
      else
        let ingress = (if o_Ingress ov > 0 then o_Ingress ov else p_ingress base);
            startSlice = (if o_StartSlice ov > 0 then o_StartSlice ov else p_startSlice base);
            hookInvocation = (if o_HookInvocation ov > 0 then o_HookInvocation ov else p_hookInvocation base)
        in New (p_kind base) (p_sqliteBusy base) ingress startSlice hookInvocation (p_workflowResult base))"

section \<open>Lemmas\<close>

text \<open>The order of the tiers.\<close>

definition ordered :: "Profile \<Rightarrow> bool" where
  "ordered p \<longleftrightarrow> p_kind p \<in> {Production, Test, DeadlineTest} \<and> 0 < p_sqliteBusy p \<and>
     p_sqliteBusy p < p_ingress p \<and> p_sqliteBusy p < p_startSlice p \<and>
     p_ingress p < p_hookInvocation p \<and> p_startSlice p < p_hookInvocation p \<and>
     p_hookInvocation p < p_workflowResult p"

lemma New_OkD:
  "New k b i s h r = Ok p \<Longrightarrow> ordered p \<and> p_kind p = k \<and> p_sqliteBusy p = b \<and> p_ingress p = i \<and>
     p_startSlice p = s \<and> p_hookInvocation p = h \<and> p_workflowResult p = r"
  by (auto simp: New_def ordered_def)

lemma Validate_iff: "Validate p = None \<longleftrightarrow> ordered p"
  by (auto simp: Validate_def New_def ordered_def fail_if_def)

section \<open>Properties\<close>

text \<open>The constructor accepts exactly the ordered profiles, so a validated profile nests every
  wait strictly inside the one that contains it; the three known profiles are accepted.\<close>

theorem profile_accepted_iff_ordered:
  "(Validate p = None \<longleftrightarrow> ordered p) \<and>
   list_all (\<lambda>q. case q of None \<Rightarrow> False | Some p \<Rightarrow> ordered p) KnownProfiles"
proof -
  have "list_all (\<lambda>q. case q of None \<Rightarrow> False | Some p \<Rightarrow> ordered p) KnownProfiles"
    by code_simp
  then show ?thesis using Validate_iff by simp
qed

text \<open>An override is honoured or refused, never clamped: an accepted override of an ordered
  profile is ordered, has every requested value exactly and keeps every tier that was not
  requested; the empty override changes nothing.\<close>

theorem override_exact:
  assumes "ordered base" "WithOverride base ov = Ok p"
  shows "ordered p \<and>
    p_ingress p = (if o_Ingress ov = 0 then p_ingress base else o_Ingress ov) \<and>
    p_startSlice p = (if o_StartSlice ov = 0 then p_startSlice base else o_StartSlice ov) \<and>
    p_hookInvocation p = (if o_HookInvocation ov = 0 then p_hookInvocation base else o_HookInvocation ov) \<and>
    p_sqliteBusy p = p_sqliteBusy base \<and> p_workflowResult p = p_workflowResult base \<and> p_kind p = p_kind base"
proof (cases "Override_IsZero ov")
  case True
  then show ?thesis using assms by (auto simp: WithOverride_def Override_IsZero_def)
next
  case False
  then have "\<not> (o_HookInvocation ov < 0 \<or> o_Ingress ov < 0 \<or> o_StartSlice ov < 0)"
    using assms(2) by (auto simp: WithOverride_def)
  moreover have "New (p_kind base) (p_sqliteBusy base) (if o_Ingress ov > 0 then o_Ingress ov else p_ingress base)
      (if o_StartSlice ov > 0 then o_StartSlice ov else p_startSlice base)
      (if o_HookInvocation ov > 0 then o_HookInvocation ov else p_hookInvocation base) (p_workflowResult base) = Ok p"
    using assms(2) False calculation by (simp add: WithOverride_def Let_def)
  ultimately show ?thesis using New_OkD by fastforce
qed

theorem override_exact_witness:
  "\<exists>base p. ProductionProfile = Some base \<and>
     WithOverride base \<lparr>o_HookInvocation = 4000000000, o_Ingress = 0, o_StartSlice = 0\<rparr> = Ok p \<and>
     p_hookInvocation p = 4000000000 \<and> ordered p"
proof -
  let ?base = "\<lparr>p_kind = Production, p_sqliteBusy = 1500000000, p_ingress = 2000000000, p_startSlice = 2000000000,
    p_hookInvocation = 5000000000, p_workflowResult = 30000000000\<rparr>"
  let ?ov = "\<lparr>o_HookInvocation = 4000000000, o_Ingress = 0, o_StartSlice = 0\<rparr>"
  have base: "ProductionProfile = Some ?base" "ordered ?base" by code_simp+
  have p: "WithOverride ?base ?ov = Ok (?base\<lparr>p_hookInvocation := 4000000000\<rparr>)" by code_simp
  show ?thesis using override_exact [OF base(2) p] p base(1) by auto
qed

end
