(* ===== verification/SubWorkflows.thy ===== *)
theory SubWorkflows
  imports Engine Hooks Timeouts
begin

text \<open>
  The sub-workflows of the engine and their dispatch: the review of one phase
  (\<^verbatim>\<open>internal/engine/review.go\<close>), the execution of one slice
  (\<^verbatim>\<open>slice.go\<close>), and the queue operations that start them and set their concurrency
  (\<^verbatim>\<open>queue.go\<close>).  As in theory \<open>Engine\<close> the outcome of every receive is given; the
  durable runtime's answer to an enqueue or to a change of the queue's settings is a
  parameter.
\<close>

section \<open>Reviews\<close>

record ReviewInput =
  ri_EpochId :: string
  ri_PhaseId :: string
  ri_Round :: int

record ReviewResult =
  rr_PhaseId :: string
  rr_Success :: bool
  rr_VoteResult :: votes

definition allAxesVoted :: "votes \<Rightarrow> bool" where
  "allAxesVoted vs \<longleftrightarrow> list_all (\<lambda>ax. map_of vs ax \<noteq> None) AllReviewAxes"

text \<open>The verdict over the collected votes.\<close>

definition review_result :: "ReviewInput \<Rightarrow> votes \<Rightarrow> ReviewResult" where
  "review_result input vs =
     \<lparr>rr_PhaseId = ri_PhaseId input,
      rr_Success = (allAxesVoted vs \<and> list_all (\<lambda>ax. map_of vs ax = Some VoteAccept) AllReviewAxes),
      rr_VoteResult = vs\<rparr>"

text \<open>A workflow that is still waiting for a signal, one that has returned.\<close>

datatype 'r workflow_run = Waiting | Returned "engine_error + 'r"

text \<open>The collecting loop.  It looks at the votes before each receive.\<close>

fun review_loop :: "ReviewInput \<Rightarrow> ReviewVoteSignal recv list \<Rightarrow> votes \<Rightarrow> ReviewResult workflow_run" where
  "review_loop input [] vs =
     (if allAxesVoted vs then Returned (Ok (review_result input vs)) else Waiting)"
| "review_loop input (m # ms) vs =
     (if allAxesVoted vs then Returned (Ok (review_result input vs))
      else case m of
        TimedOut \<Rightarrow> review_loop input ms vs
      | RecvFailed e \<Rightarrow> Returned (Err (RecvError e))
      | Msg sig \<Rightarrow>
          if \<not> ReviewAxis_IsValid (rvs_Axis sig) \<or> \<not> VoteType_IsValid (rvs_Vote sig)
          then review_loop input ms vs
          else review_loop input ms (AList.update (rvs_Axis sig) (rvs_Vote sig) vs))"

definition ReviewSubWorkflow :: "ReviewInput \<Rightarrow> ReviewVoteSignal recv list \<Rightarrow> ReviewResult workflow_run" where
  "ReviewSubWorkflow input ms = review_loop input ms []"

section \<open>Slices\<close>

record SliceInput =
  si_EpochId :: string
  si_SliceId :: string
  si_ParentWorkflowId :: string

text \<open>The failure texts of the program, by cause.\<close>

datatype slice_failure =
    NoStartSignal string
  | NotImplemented string SliceExecutionMode
  | UnrecognisedMode string SliceExecutionMode
  | StepFailed string
  | Reported string

record SliceResult =
  sr_SliceId :: string
  sr_Success :: bool
  sr_Output :: string
  sr_Error :: "slice_failure option"

definition runSlice :: "string \<Rightarrow> SliceExecutionMode \<Rightarrow> SliceResult" where
  "runSlice sliceId mode =
     (if mode = SliceMock
      then \<lparr>sr_SliceId = sliceId, sr_Success = True, sr_Output = ''mock: completed'', sr_Error = None\<rparr>
      else if mode = SliceTmux \<or> mode = SliceSubprocess
      then \<lparr>sr_SliceId = sliceId, sr_Success = False, sr_Output = [], sr_Error = Some (NotImplemented sliceId mode)\<rparr>
      else \<lparr>sr_SliceId = sliceId, sr_Success = False, sr_Output = [], sr_Error = Some (UnrecognisedMode sliceId mode)\<rparr>)"

text \<open>What a slice does beside returning: the hook payloads it dispatches and the progress
  signals it delivers to its parent.\<close>

record slice_effects =
  fx_hooks :: "(HookEvent \<times> string \<times> (string \<times> slice_failure option \<times> string) list) list"
  fx_progress :: "(string \<times> SliceProgressSignal) list"

text \<open>What the runtime does to one slice.\<close>

record slice_env =
  sv_start :: "SliceStartSignal recv"
  sv_complete :: "SliceCompleteSignal recv"
  sv_step_error :: "string option"
  sv_has_hooks :: bool
  sv_send_ok :: bool

text \<open>A value of the payload is a text: a plain one, or the text of a failure.\<close>

definition dispatchHook ::
    "slice_env \<Rightarrow> HookEvent \<Rightarrow> string \<Rightarrow> (string \<times> slice_failure option \<times> string) list \<Rightarrow> slice_effects \<Rightarrow> slice_effects" where
  "dispatchHook env event epochId data fx =
     (if sv_has_hooks env then fx\<lparr>fx_hooks := fx_hooks fx @ [(event, epochId, data)]\<rparr> else fx)"

definition send_progress :: "slice_env \<Rightarrow> SliceInput \<Rightarrow> bool \<Rightarrow> slice_effects \<Rightarrow> slice_effects" where
  "send_progress env input completed fx =
     (if si_ParentWorkflowId input \<noteq> [] \<and> sv_send_ok env
      then fx\<lparr>fx_progress := fx_progress fx @ [(si_ParentWorkflowId input,
        \<lparr>sps_SliceId = si_SliceId input, sps_LeafTaskId = si_SliceId input, sps_StageName = ''execute'',
         sps_Completed = completed\<rparr>)]\<rparr>
      else fx)"

definition SliceSubWorkflow :: "slice_env \<Rightarrow> SliceInput \<Rightarrow> (engine_error + SliceResult) \<times> slice_effects" where
  "SliceSubWorkflow env input =
     (let fx0 = \<lparr>fx_hooks = [], fx_progress = []\<rparr>; sid = si_SliceId input; eid = si_EpochId input in
      case sv_start env of
        RecvFailed e \<Rightarrow> (Err (RecvError e), fx0)
      | TimedOut \<Rightarrow>
          let res = \<lparr>sr_SliceId = sid, sr_Success = False, sr_Output = [], sr_Error = Some (NoStartSignal sid)\<rparr>;
              fx1 = dispatchHook env HookSliceFailed eid
                [(''error'', Some (NoStartSignal sid), []), (''sliceId'', None, sid)] fx0
          in (Ok res, send_progress env input False fx1)
      | Msg startSig \<Rightarrow>
          let mode = sss_Mode startSig;
              fx1 = dispatchHook env HookSliceStarted eid [(''mode'', None, mode), (''sliceId'', None, sid)] fx0;
              res1 = (case sv_step_error env of
                  None \<Rightarrow> runSlice sid mode
                | Some e \<Rightarrow> \<lparr>sr_SliceId = sid, sr_Success = False, sr_Output = [], sr_Error = Some (StepFailed e)\<rparr>);
              res2 = (case sv_complete env of
                  Msg c \<Rightarrow> \<lparr>sr_SliceId = sid, sr_Success = scs_Success c, sr_Output = scs_Output c,
                    sr_Error = map_option Reported (scs_Error c)\<rparr>
                | _ \<Rightarrow> res1);
              fx2 = (if sr_Success res2
                then dispatchHook env HookSliceCompleted eid [(''output'', None, sr_Output res2), (''sliceId'', None, sid)] fx1
                else dispatchHook env HookSliceFailed eid [(''error'', sr_Error res2, []), (''sliceId'', None, sid)] fx1)
          in (Ok res2, send_progress env input (sr_Success res2) fx2))"

section \<open>Queues\<close>

definition SliceQueueName :: string where "SliceQueueName = ''pasture-slice-queue''"
definition ControlQueueName :: string where "ControlQueueName = ''pasture-control-queue''"
definition DefaultSliceQueueConcurrency :: int where "DefaultSliceQueueConcurrency = 8"

datatype queue_error =
    InvalidConcurrencyEnv string
  | NonPositiveLimit int
  | NoQueue
  | QueueWrite string
  | QueueReadBack string
  | QueueDisagreement int "int option"
  | EmptySliceId
  | EmptyEpochId
  | EmptyPhaseId
  | EnqueueRejected string

text \<open>\<open>envStr\<close> is the value of the environment variable, empty when it is unset.\<close>

definition ResolveSliceConcurrency :: "int \<Rightarrow> string \<Rightarrow> queue_error + int" where
  "ResolveSliceConcurrency flagVal envStr =
     (if flagVal > 0 then Ok flagVal
      else if envStr \<noteq> []
      then case Atoi envStr of
          None \<Rightarrow> Err (InvalidConcurrencyEnv envStr)
        | Some v \<Rightarrow> if v \<le> 0 then Err (InvalidConcurrencyEnv envStr) else Ok v
      else Ok DefaultSliceQueueConcurrency)"

text \<open>The options of a registration.\<close>

datatype queue_option = WorkerConcurrency int | OnConflictAlwaysUpdate | BasePollingInterval int

definition queueOptions :: "int \<Rightarrow> queue_option list \<Rightarrow> queue_option list" where
  "queueOptions basePollingInterval opts =
     opts @ [OnConflictAlwaysUpdate] @ (if basePollingInterval > 0 then [BasePollingInterval basePollingInterval] else [])"

definition newSliceQueue :: "(string \<Rightarrow> queue_option list \<Rightarrow> 'q) \<Rightarrow> int \<Rightarrow> int \<Rightarrow> 'q" where
  "newSliceQueue registerQueue concurrency basePollingInterval =
     registerQueue SliceQueueName (queueOptions basePollingInterval [WorkerConcurrency concurrency])"

definition newControlQueue :: "(string \<Rightarrow> queue_option list \<Rightarrow> 'q) \<Rightarrow> int \<Rightarrow> 'q" where
  "newControlQueue registerQueue basePollingInterval =
     registerQueue ControlQueueName (queueOptions basePollingInterval [WorkerConcurrency 1])"

definition EnqueueSlice :: "(string \<Rightarrow> SliceInput \<Rightarrow> string + 'h) \<Rightarrow> SliceInput \<Rightarrow> queue_error + 'h" where
  "EnqueueSlice runWorkflow input =
     (if si_SliceId input = [] then Err EmptySliceId
      else if si_EpochId input = [] then Err EmptyEpochId
      else case runWorkflow (si_SliceId input) input of Err e \<Rightarrow> Err (EnqueueRejected e) | Ok h \<Rightarrow> Ok h)"

definition EnqueueReview :: "(string \<Rightarrow> ReviewInput \<Rightarrow> string + 'h) \<Rightarrow> ReviewInput \<Rightarrow> queue_error + 'h" where
  "EnqueueReview runWorkflow input =
     (if ri_EpochId input = [] then Err EmptyEpochId
      else if ri_PhaseId input = [] then Err EmptyPhaseId
      else let round = (if ri_Round input \<le> 0 then 1 else ri_Round input);
               wfID = ReviewWorkflowID (ri_EpochId input) (ri_PhaseId input) round in
        case runWorkflow wfID input of Err e \<Rightarrow> Err (EnqueueRejected e) | Ok h \<Rightarrow> Ok h)"

text \<open>The settings row of the slice queue, shared by all processes, and the engine's copy of it.\<close>

record queue_state =
  qs_registered :: bool
  qs_row :: "int option"
  qs_sliceConcurrency :: int

text \<open>\<open>other\<close> is what another process writes between the write and the read.\<close>

definition SetSliceConcurrency ::
    "string option \<Rightarrow> (int option \<Rightarrow> int option) \<Rightarrow> string option \<Rightarrow> queue_state \<Rightarrow> int \<Rightarrow>
     (queue_error option \<times> int) \<times> queue_state" where
  "SetSliceConcurrency write_error other read_error s k =
     (if k \<le> 0 then ((Some (NonPositiveLimit k), 0), s)
      else if \<not> qs_registered s then ((Some NoQueue, 0), s)
      else case write_error of
        Some e \<Rightarrow> ((Some (QueueWrite e), 0), s)
      | None \<Rightarrow>
          let s1 = s\<lparr>qs_row := other (Some k)\<rparr> in
          case read_error of
            Some e \<Rightarrow> ((Some (QueueReadBack e), 0), s1)
          | None \<Rightarrow>
              (case qs_row s1 of
                 None \<Rightarrow> ((Some (QueueDisagreement k None), 0), s1)
               | Some got \<Rightarrow>
                   let s2 = s1\<lparr>qs_sliceConcurrency := i64 got\<rparr> in
                   if got \<noteq> k then ((Some (QueueDisagreement k (Some got)), got), s2)
                   else ((None, got), s2)))"

section \<open>Votes and their order\<close>

text \<open>The valid votes among the received signals, and the one that counts for an axis: the
  last.\<close>

definition valid_vote :: "ReviewVoteSignal recv \<Rightarrow> (ReviewAxis \<times> VoteType) option" where
  "valid_vote m = (case m of
     Msg sig \<Rightarrow> if ReviewAxis_IsValid (rvs_Axis sig) \<and> VoteType_IsValid (rvs_Vote sig)
       then Some (rvs_Axis sig, rvs_Vote sig) else None
   | _ \<Rightarrow> None)"

definition last_vote :: "ReviewVoteSignal recv list \<Rightarrow> ReviewAxis \<Rightarrow> VoteType option" where
  "last_vote ms = map_of (rev (List.map_filter valid_vote ms))"

text \<open>The votes of the loop after some signals, when it started with \<open>vs\<close>.\<close>

definition collected :: "ReviewVoteSignal recv list \<Rightarrow> votes \<Rightarrow> votes" where
  "collected ms vs = foldl (\<lambda>vs (ax, v). AList.update ax v vs) vs (List.map_filter valid_vote ms)"

lemma map_filter_valid_simps:
  "List.map_filter valid_vote [] = []"
  "List.map_filter valid_vote (m # ms) =
     (case valid_vote m of None \<Rightarrow> [] | Some p \<Rightarrow> [p]) @ List.map_filter valid_vote ms"
  by (simp_all add: map_filter_def split: option.split)

lemma collected_simps [simp]:
  "collected [] vs = vs"
  "collected (m # ms) vs =
     collected ms (case valid_vote m of None \<Rightarrow> vs | Some (ax, v) \<Rightarrow> AList.update ax v vs)"
  by (simp_all add: collected_def map_filter_valid_simps split: option.split)

lemma foldl_update_map_of:
  "map_of (foldl (\<lambda>vs (ax, v). AList.update ax v vs) vs xs) ax =
     (case map_of (rev xs) ax of None \<Rightarrow> map_of vs ax | Some v \<Rightarrow> Some v)"
  by (induction xs arbitrary: vs) (auto simp: update_conv' map_add_def split: option.splits)

lemma collected_last_vote: "map_of (collected ms []) ax = last_vote ms ax"
  by (simp add: collected_def last_vote_def foldl_update_map_of split: option.split)

lemma allAxesVoted_collected:
  "allAxesVoted (collected ms []) \<longleftrightarrow> (\<forall>ax \<in> set AllReviewAxes. last_vote ms ax \<noteq> None)"
  by (simp add: allAxesVoted_def list_all_iff collected_last_vote)

text \<open>One turn of the loop, in terms of the vote it takes.\<close>

lemma review_loop_Cons:
  "review_loop input (m # ms) vs =
     (if allAxesVoted vs then Returned (Ok (review_result input vs))
      else case m of RecvFailed e \<Rightarrow> Returned (Err (RecvError e))
      | _ \<Rightarrow> review_loop input ms (collected [m] vs))"
  by (simp add: valid_vote_def split: recv.split)

lemma review_loop_result:
  "review_loop input ms vs = Returned (Ok res) \<Longrightarrow>
     \<exists>pre post. ms = pre @ post \<and> res = review_result input (collected pre vs) \<and>
       allAxesVoted (collected pre vs) \<and> (\<forall>pre'. strict_prefix pre' pre \<longrightarrow> \<not> allAxesVoted (collected pre' vs))"
proof (induction ms arbitrary: vs)
  case Nil
  then show ?case by (intro exI [of _ "[]"]) (auto split: if_splits)
next
  case (Cons m ms)
  show ?case
  proof (cases "allAxesVoted vs")
    case True
    then show ?thesis using Cons.prems by (intro exI [of _ "[]"] exI [of _ "m # ms"]) auto
  next
    case False
    then have "review_loop input ms (collected [m] vs) = Returned (Ok res)"
      using Cons.prems by (auto simp: review_loop_Cons simp del: review_loop.simps split: recv.splits)
    then obtain pre post where "ms = pre @ post" "res = review_result input (collected pre (collected [m] vs))"
      "allAxesVoted (collected pre (collected [m] vs))"
      "\<forall>pre'. strict_prefix pre' pre \<longrightarrow> \<not> allAxesVoted (collected pre' (collected [m] vs))"
      using Cons.IH by blast
    then show ?thesis using False
      by (intro exI [of _ "m # pre"] exI [of _ post]) (auto simp: strict_prefix_def prefix_Cons)
  qed
qed

lemma review_loop_returns:
  assumes "\<forall>e. RecvFailed e \<notin> set ms" "allAxesVoted (collected ms vs)"
  shows "\<exists>res. review_loop input ms vs = Returned (Ok res)"
  using assms
proof (induction ms arbitrary: vs)
  case (Cons m ms)
  have "\<exists>res. review_loop input ms (collected [m] vs) = Returned (Ok res)"
    using Cons.IH [of "collected [m] vs"] Cons.prems by simp
  moreover have "\<nexists>e. m = RecvFailed e" using Cons.prems(1) by auto
  ultimately show ?case by (cases m) (auto simp: review_loop_Cons simp del: review_loop.simps)
qed simp

section \<open>Properties\<close>

text \<open>The verdict of a review is that of the last valid vote of each axis at the moment the
  third axis has voted: the review succeeds exactly when all of them accept, malformed votes
  never count, and the verdict is given no later than that moment.\<close>

theorem review_verdict:
  assumes "ReviewSubWorkflow input ms = Returned (Ok res)"
  shows "\<exists>pre post. ms = pre @ post \<and>
    (\<forall>ax. map_of (rr_VoteResult res) ax = last_vote pre ax) \<and>
    (\<forall>ax \<in> set AllReviewAxes. last_vote pre ax \<noteq> None) \<and>
    (rr_Success res \<longleftrightarrow> (\<forall>ax \<in> set AllReviewAxes. last_vote pre ax = Some VoteAccept)) \<and>
    (\<forall>pre'. strict_prefix pre' pre \<longrightarrow> (\<exists>ax \<in> set AllReviewAxes. last_vote pre' ax = None))"
proof -
  obtain pre post where "ms = pre @ post" "res = review_result input (collected pre [])"
    "allAxesVoted (collected pre [])" "\<forall>pre'. strict_prefix pre' pre \<longrightarrow> \<not> allAxesVoted (collected pre' [])"
    using review_loop_result assms unfolding ReviewSubWorkflow_def by blast
  then show ?thesis
    by (intro exI [of _ pre] exI [of _ post])
      (auto simp: review_result_def collected_last_vote allAxesVoted_collected list_all_iff)
qed

definition demo_vote :: "ReviewAxis \<Rightarrow> VoteType \<Rightarrow> ReviewVoteSignal recv" where
  "demo_vote ax v = Msg \<lparr>rvs_Axis = ax, rvs_Vote = v, rvs_ReviewerId = []\<rparr>"

definition demo_votes :: "ReviewVoteSignal recv list" where
  "demo_votes = [demo_vote AxisElegance VoteRevise, TimedOut, demo_vote ''elegence'' VoteAccept,
     demo_vote AxisCorrectness VoteAccept, demo_vote AxisElegance VoteAccept, demo_vote AxisTestQuality VoteAccept]"

definition demo_review :: ReviewInput where
  "demo_review = \<lparr>ri_EpochId = ''e'', ri_PhaseId = ''review'', ri_Round = 1\<rparr>"

theorem review_verdict_witness:
  "\<exists>res pre post. ReviewSubWorkflow demo_review demo_votes = Returned (Ok res) \<and> rr_Success res \<and>
     demo_votes = pre @ post \<and> (\<forall>ax \<in> set AllReviewAxes. last_vote pre ax = Some VoteAccept)"
proof -
  have "case ReviewSubWorkflow demo_review demo_votes of Returned (Ok res) \<Rightarrow> rr_Success res | _ \<Rightarrow> False"
    by code_simp
  then obtain res where res: "ReviewSubWorkflow demo_review demo_votes = Returned (Ok res)" "rr_Success res"
    by (auto split: workflow_run.splits sum.splits)
  then obtain pre post where "demo_votes = pre @ post" "\<forall>ax \<in> set AllReviewAxes. last_vote pre ax = Some VoteAccept"
    using review_verdict [OF res(1)] by blast
  then show ?thesis using res by (intro exI conjI)
qed

text \<open>A review returns as soon as every axis has a valid vote, whatever timeouts and malformed
  signals come in between.\<close>

theorem review_returns:
  assumes "\<forall>e. RecvFailed e \<notin> set ms" "\<forall>ax \<in> set AllReviewAxes. last_vote ms ax \<noteq> None"
  shows "\<exists>res. ReviewSubWorkflow input ms = Returned (Ok res)"
  unfolding ReviewSubWorkflow_def
  using review_loop_returns [OF assms(1)] assms(2) by (simp add: allAxesVoted_collected)

theorem review_returns_witness: "\<exists>res. ReviewSubWorkflow demo_review demo_votes = Returned (Ok res)"
proof (rule review_returns)
  show "\<forall>e. RecvFailed e \<notin> set demo_votes" by (simp add: demo_votes_def demo_vote_def)
  show "\<forall>ax \<in> set AllReviewAxes. last_vote demo_votes ax \<noteq> None" by code_simp
qed

text \<open>A slice never fabricates success.  It succeeds exactly when it was started and either
  the completion report says so or, without a report, its mock execution succeeded; the
  parent is told the same outcome, and the hooks are a start hook exactly when it was
  started and then one final hook, completed or failed, that agrees with the outcome.\<close>

theorem slice_outcome_honest:
  assumes "SliceSubWorkflow env input = (Ok res, fx)"
  shows "(sr_Success res \<longleftrightarrow> (\<exists>s. sv_start env = Msg s \<and>
       (case sv_complete env of Msg c \<Rightarrow> scs_Success c | _ \<Rightarrow> sv_step_error env = None \<and> sss_Mode s = SliceMock))) \<and>
    map (sps_Completed \<circ> snd) (fx_progress fx) =
      (if si_ParentWorkflowId input \<noteq> [] \<and> sv_send_ok env then [sr_Success res] else []) \<and>
    map fst (fx_hooks fx) =
      (if \<not> sv_has_hooks env then []
       else (case sv_start env of Msg s \<Rightarrow> [HookSliceStarted] | _ \<Rightarrow> []) @
         [if sr_Success res then HookSliceCompleted else HookSliceFailed])"
proof (cases "sv_start env")
  case (Msg s)
  then show ?thesis using assms
    by (auto simp: SliceSubWorkflow_def Let_def dispatchHook_def send_progress_def runSlice_def SliceMock_def
        SliceTmux_def SliceSubprocess_def split: recv.splits option.splits if_splits)
qed (use assms in \<open>auto simp: SliceSubWorkflow_def Let_def dispatchHook_def send_progress_def\<close>)

definition demo_slice :: SliceInput where
  "demo_slice = \<lparr>si_EpochId = ''e'', si_SliceId = ''s'', si_ParentWorkflowId = ''e''\<rparr>"

definition demo_slice_env :: slice_env where
  "demo_slice_env = \<lparr>sv_start = Msg \<lparr>sss_Mode = SliceTmux, sss_Command = ''make'', sss_TimeoutSeconds = 5\<rparr>,
     sv_complete = Msg \<lparr>scs_Success = True, scs_Output = ''done'', scs_Error = None\<rparr>, sv_step_error = None,
     sv_has_hooks = True, sv_send_ok = True\<rparr>"

theorem slice_outcome_honest_witness:
  "map fst (fx_hooks (snd (SliceSubWorkflow demo_slice_env demo_slice))) = [HookSliceStarted, HookSliceCompleted] \<and>
   map (sps_Completed \<circ> snd) (fx_progress (snd (SliceSubWorkflow demo_slice_env demo_slice))) = [True]"
proof -
  have "case fst (SliceSubWorkflow demo_slice_env demo_slice) of Ok res \<Rightarrow> sr_Success res | Err _ \<Rightarrow> False"
    by code_simp
  then obtain res fx where run: "SliceSubWorkflow demo_slice_env demo_slice = (Ok res, fx)" and "sr_Success res"
    by (cases "SliceSubWorkflow demo_slice_env demo_slice") (auto split: sum.splits)
  then show ?thesis
    using slice_outcome_honest [OF run] by (simp add: run demo_slice_env_def demo_slice_def)
qed

text \<open>The concurrency limit a process starts with is positive, the flag wins over the
  environment, and every positive number that fits an integer can be given in the
  environment by its decimal digits.\<close>

theorem concurrency_resolution:
  assumes "0 < n" "n < 2 ^ 63" "flag \<le> 0"
  shows "ResolveSliceConcurrency flag (dec_int n) = Ok n \<and> ResolveSliceConcurrency n text = Ok n \<and>
    ResolveSliceConcurrency flag [] = Ok DefaultSliceQueueConcurrency \<and>
    (\<forall>k. ResolveSliceConcurrency flag text = Ok k \<longrightarrow> 0 < k)"
proof -
  have digits: "dec_int n = dec_nat (nat n)" using assms(1) by (simp add: dec_int_def)
  have all: "list_all is_digit (dec_nat (nat n))" using dec_nat_digits by (auto simp: list_all_iff)
  obtain c cs where cons: "dec_nat (nat n) = c # cs" by (cases "dec_nat (nat n)") auto
  have c: "c \<noteq> CHR ''-'' \<and> c \<noteq> CHR ''+''" using all cons by (auto simp: is_digit_def)
  have "Atoi (c # cs) = Some n"
    using all c assms(1,2) digits_value_dec_nat [of "nat n"]
    by (simp add: Atoi_def Let_def cons fits64_def)
  then show ?thesis using assms digits cons
    by (auto simp: ResolveSliceConcurrency_def DefaultSliceQueueConcurrency_def split: option.splits if_splits)
qed

theorem concurrency_resolution_witness:
  "ResolveSliceConcurrency 0 (dec_int 12) = Ok 12 \<and> ResolveSliceConcurrency 0 [] = Ok DefaultSliceQueueConcurrency"
  using concurrency_resolution [of 12 0 "[]"] by simp

end
