(* ===== verification/WriteLane.thy ===== *)
theory WriteLane
  imports Timeouts "HOL-Library.Sublist"
begin

text \<open>
  The serialized write lane of the daemon (\<^verbatim>\<open>internal/writelane\<close>): the budget and its
  derivation from a timeout profile (\<^verbatim>\<open>budget.go\<close>), and the lane itself
  (\<^verbatim>\<open>lane.go\<close>): a bounded staging queue fed by concurrent submitters, and one goroutine
  that commits the staged records in bounded batches.

  The lane is a transition system.  Its transitions are the critical sections of the code,
  between which goroutines interleave freely: a submitter finding room, finding the lane
  closed or giving up, the close, and the turns of the commit goroutine.  The accumulation
  signal, a channel that is closed and replaced, is the number of replacements: a captured
  channel is closed when its number is below the current one.  What a turn does to the
  store (preparing a record, applying a batch, settling a record) is code of the records and
  of the provenance library, given with each commit.  The ghost fields list the records
  admitted, answered and refused so far.
\<close>

section \<open>Budget\<close>

record WriteLaneBudget =
  QueueRecords :: int
  QueueBytes :: int
  BatchRecords :: int
  BatchBytes :: int
  FlushInterval :: int
  HoldTarget :: int

definition maxDerivedHoldTarget :: int where "maxDerivedHoldTarget = 1000000000"
definition derivedQueueRecords :: int where "derivedQueueRecords = 1024"
definition productionFlushInterval :: int where "productionFlushInterval = 50000000"
definition ingressPayloadFloor :: int where "ingressPayloadFloor = 1048576"
definition derivedBatchBytes :: int where "derivedBatchBytes = 67108864"

definition ExceedsWriteBatch :: "WriteLaneBudget \<Rightarrow> int \<Rightarrow> int \<Rightarrow> int \<Rightarrow> bool" where
  "ExceedsWriteBatch b pendingRecords pendingBytes nextBytes \<longleftrightarrow>
     (if pendingRecords \<ge> BatchRecords b then True
      else pendingRecords > 0 \<and> i64 (pendingBytes + nextBytes) > BatchBytes b)"

datatype budget_error =
    QueueRecordsNotPositive
  | QueueBytesNotPositive
  | BatchRecordsNotPositive
  | BatchRecordsAboveQueue
  | BatchRecordsAboveCap
  | BatchBytesNotPositive
  | BatchBytesAboveQueue
  | BatchBytesBelowFloor
  | FlushIntervalNotPositive
  | HoldTargetNotPositive
  | FlushNotBelowHold
  | InvalidProfile profile_error

text \<open>\<open>maxBatch\<close> is the batch cap of the provenance library.\<close>

definition Budget_Validate :: "int \<Rightarrow> WriteLaneBudget \<Rightarrow> budget_error option" where
  "Budget_Validate maxBatch b =
     (if QueueRecords b \<le> 0 then Some QueueRecordsNotPositive
      else if QueueBytes b \<le> 0 then Some QueueBytesNotPositive
      else if BatchRecords b \<le> 0 then Some BatchRecordsNotPositive
      else if BatchRecords b > QueueRecords b then Some BatchRecordsAboveQueue
      else if BatchRecords b > maxBatch then Some BatchRecordsAboveCap
      else if BatchBytes b \<le> 0 then Some BatchBytesNotPositive
      else if BatchBytes b > QueueBytes b then Some BatchBytesAboveQueue
      else if BatchBytes b < ingressPayloadFloor then Some BatchBytesBelowFloor
      else if FlushInterval b \<le> 0 then Some FlushIntervalNotPositive
      else if HoldTarget b \<le> 0 then Some HoldTargetNotPositive
      else if FlushInterval b \<ge> HoldTarget b then Some FlushNotBelowHold
      else None)"

text \<open>Go's integer division truncates towards zero.\<close>

definition quot :: "int \<Rightarrow> int \<Rightarrow> int" where
  "quot a d = (if a < 0 then - ((- a) div d) else a div d)"

definition BudgetFromProfile :: "int \<Rightarrow> Profile \<Rightarrow> budget_error + WriteLaneBudget" where
  "BudgetFromProfile maxBatch profile =
     (case Validate profile of Some e \<Rightarrow> Err (InvalidProfile e) | None \<Rightarrow>
      let hold0 = quot (i64 (p_sqliteBusy profile * 4)) 5;
          hold = (if hold0 > maxDerivedHoldTarget then maxDerivedHoldTarget else hold0);
          flush = (if p_kind profile = Production then productionFlushInterval
            else let quarter = quot hold 4;
                     f1 = (if quarter < 25000000 then quarter else 25000000)
                 in (if f1 < 1000000 then 1000000 else f1));
          budget = \<lparr>QueueRecords = derivedQueueRecords, QueueBytes = derivedBatchBytes * 4,
            BatchRecords = maxBatch, BatchBytes = derivedBatchBytes, FlushInterval = flush, HoldTarget = hold\<rparr>
      in case Budget_Validate maxBatch budget of Some e \<Rightarrow> Err e | None \<Rightarrow> Ok budget)"

section \<open>The outcome of a batch\<close>

datatype batch_outcome =
    BatchRecordCommitted
  | BatchRecordShortCircuited
  | BatchRecordConflict
  | BatchRecordFailed
  | BatchRecordNotRecorded

record BatchRecordResult =
  br_Outcome :: batch_outcome
  br_Err :: "string option"

definition OutcomeIsDurable :: "batch_outcome \<Rightarrow> bool" where
  "OutcomeIsDurable out \<longleftrightarrow> out = BatchRecordCommitted \<or> out = BatchRecordShortCircuited"

definition batchOutcome :: "BatchRecordResult list \<Rightarrow> nat \<Rightarrow> string option \<Rightarrow> BatchRecordResult" where
  "batchOutcome results index applyErr =
     (if index < length results
      then let out = results ! index in
        if br_Err out = None \<and> \<not> OutcomeIsDurable (br_Outcome out) then out\<lparr>br_Err := applyErr\<rparr> else out
      else \<lparr>br_Outcome = BatchRecordNotRecorded, br_Err = applyErr\<rparr>)"

text \<open>The reported error; the last text names the outcome.\<close>

datatype report = Reported string | NoOutcomeError batch_outcome

definition Report :: "BatchRecordResult \<Rightarrow> report option" where
  "Report out =
     (if OutcomeIsDurable (br_Outcome out) then None
      else case br_Err out of Some e \<Rightarrow> Some (Reported e) | None \<Rightarrow> Some (NoOutcomeError (br_Outcome out)))"

section \<open>One turn\<close>

record item =
  it_id :: nat
  it_bytes :: int

text \<open>The work of one turn: preparing a record, applying the prepared operations in one
  transaction, settling a record with its outcome, and how long the turn took.\<close>

record 'op turn =
  tn_prepare :: "item \<Rightarrow> report + 'op"
  tn_apply :: "'op list \<Rightarrow> BatchRecordResult list \<times> string option"
  tn_settle :: "item \<Rightarrow> BatchRecordResult \<Rightarrow> report option"
  tn_held :: int

text \<open>The preparation loop: the reports of the failed records, and the prepared records with
  their index and operation.\<close>

fun prepare_all :: "'op turn \<Rightarrow> nat \<Rightarrow> item list \<Rightarrow> report option list \<times> (nat \<times> item \<times> 'op) list" where
  "prepare_all t i [] = ([], [])"
| "prepare_all t i (it # its) =
     (let (reports, prepared) = prepare_all t (Suc i) its in
      case tn_prepare t it of
        Err e \<Rightarrow> (Some e # reports, prepared)
      | Ok op \<Rightarrow> (None # reports, (i, it, op) # prepared))"

definition commitRecords :: "'op turn \<Rightarrow> item list \<Rightarrow> report option list" where
  "commitRecords t batch =
     (let (reports, prepared) = prepare_all t 0 batch; inputs = map (snd \<circ> snd) prepared in
      if inputs = [] then reports
      else let (results, applyErr) = tn_apply t inputs in
        foldl (\<lambda>reports (k, (i, it, op)). reports[i := tn_settle t it (batchOutcome results k applyErr)])
          reports (List.enumerate 0 prepared))"

section \<open>The lane\<close>

record Stats =
  sx_Records :: int
  sx_Batches :: int
  sx_MaxBatchRecords :: int
  sx_MaxHold :: int
  sx_HoldExceeded :: int

text \<open>Where the commit goroutine is: before \<open>takeFirst\<close>, after it, waiting for a companion,
  about to flush, or gone.\<close>

datatype worker =
    Idle
  | Collected "item list" int nat bool
  | Accumulating "item list" int nat
  | Flushing "item list" string
  | Stopped

datatype refusal = LaneClosed | ContextEnded | NegativeSize

record lane =
  ln_budget :: WriteLaneBudget
  ln_pending :: "item list"
  ln_pendingBytes :: int
  ln_closed :: bool
  ln_arrived :: nat
  ln_worker :: worker
  ln_stats :: Stats
  ln_admitted :: "item list"
  ln_answered :: "(item \<times> report option) list"
  ln_refused :: "(item \<times> refusal) list"

definition New_lane :: "int \<Rightarrow> WriteLaneBudget \<Rightarrow> budget_error + lane" where
  "New_lane maxBatch budget =
     (case Budget_Validate maxBatch budget of Some e \<Rightarrow> Err e | None \<Rightarrow>
      Ok \<lparr>ln_budget = budget, ln_pending = [], ln_pendingBytes = 0, ln_closed = False, ln_arrived = 0,
        ln_worker = Idle, ln_stats = \<lparr>sx_Records = 0, sx_Batches = 0, sx_MaxBatchRecords = 0, sx_MaxHold = 0, sx_HoldExceeded = 0\<rparr>,
        ln_admitted = [], ln_answered = [], ln_refused = []\<rparr>)"

definition roomForLocked :: "lane \<Rightarrow> int \<Rightarrow> bool" where
  "roomForLocked l bytes \<longleftrightarrow>
     \<not> int (length (ln_pending l)) \<ge> QueueRecords (ln_budget l) \<and>
     \<not> (length (ln_pending l) > 0 \<and> i64 (ln_pendingBytes l + bytes) > QueueBytes (ln_budget l))"

text \<open>One look of a submitter at the lane, with its context ended or not: refused, admitted, or
  (\<open>None\<close>) waiting for a change.\<close>

definition Submit :: "item \<Rightarrow> bool \<Rightarrow> lane \<Rightarrow> lane option" where
  "Submit it ctx_ended l =
     (if it_bytes it < 0 then Some (l\<lparr>ln_refused := ln_refused l @ [(it, NegativeSize)]\<rparr>)
      else if ln_closed l then Some (l\<lparr>ln_refused := ln_refused l @ [(it, LaneClosed)]\<rparr>)
      else if roomForLocked l (it_bytes it)
      then Some (l\<lparr>ln_pending := ln_pending l @ [it], ln_pendingBytes := i64 (ln_pendingBytes l + it_bytes it),
        ln_arrived := Suc (ln_arrived l), ln_admitted := ln_admitted l @ [it]\<rparr>)
      else if ctx_ended then Some (l\<lparr>ln_refused := ln_refused l @ [(it, ContextEnded)]\<rparr>)
      else None)"

definition Close :: "lane \<Rightarrow> lane" where
  "Close l = l\<lparr>ln_closed := True, ln_arrived := Suc (ln_arrived l)\<rparr>"

text \<open>\<open>None\<close>: still waiting.  The commit goroutine ends when the lane is closed and empty.\<close>

definition takeFirst :: "lane \<Rightarrow> lane option" where
  "takeFirst l =
     (case ln_pending l of
        [] \<Rightarrow> if ln_closed l then Some (l\<lparr>ln_worker := Stopped\<rparr>) else None
      | one # rest \<Rightarrow>
          Some (l\<lparr>ln_pending := rest, ln_pendingBytes := i64 (ln_pendingBytes l - it_bytes one),
            ln_worker := Collected [one] (it_bytes one) (ln_arrived l) (rest \<noteq> [])\<rparr>))"

fun absorb_loop ::
    "WriteLaneBudget \<Rightarrow> item list \<Rightarrow> int \<Rightarrow> item list \<Rightarrow> int \<Rightarrow> item list \<times> int \<times> item list \<times> int" where
  "absorb_loop b batch bytes [] pb = (batch, bytes, [], pb)"
| "absorb_loop b batch bytes (nxt # rest) pb =
     (if ExceedsWriteBatch b (int (length batch)) bytes (it_bytes nxt) then (batch, bytes, nxt # rest, pb)
      else absorb_loop b (batch @ [nxt]) (i64 (bytes + it_bytes nxt)) rest (i64 (pb - it_bytes nxt)))"

definition absorb :: "item list \<Rightarrow> int \<Rightarrow> lane \<Rightarrow> item list \<times> int \<times> bool \<times> bool \<times> nat \<times> lane" where
  "absorb batch bytes l =
     (case absorb_loop (ln_budget l) batch bytes (ln_pending l) (ln_pendingBytes l) of
        (batch', bytes', rest, pb) \<Rightarrow>
          (batch', bytes', rest = [], ln_closed l, ln_arrived l, l\<lparr>ln_pending := rest, ln_pendingBytes := pb\<rparr>))"

definition flush_reason :: "bool \<Rightarrow> bool \<Rightarrow> string" where
  "flush_reason drained stopped = (if stopped then ''stopped'' else if drained then ''drained'' else ''full'')"

text \<open>The first decision of a turn, after \<open>takeFirst\<close>.\<close>

definition begin_turn :: "item list \<Rightarrow> int \<Rightarrow> nat \<Rightarrow> bool \<Rightarrow> lane \<Rightarrow> lane" where
  "begin_turn batch bytes arrival staged l =
     (if staged
      then case absorb batch bytes l of (batch', bytes', drained, stopped, arrival', l') \<Rightarrow>
        if drained \<or> stopped \<or> ExceedsWriteBatch (ln_budget l) (int (length batch')) bytes' 0
        then l'\<lparr>ln_worker := Flushing batch' (flush_reason drained stopped)\<rparr>
        else l'\<lparr>ln_worker := Accumulating batch' bytes' arrival'\<rparr>
      else l\<lparr>ln_worker := Accumulating batch bytes arrival\<rparr>)"

text \<open>A wake-up of the accumulation wait.\<close>

definition on_arrival :: "item list \<Rightarrow> int \<Rightarrow> lane \<Rightarrow> lane" where
  "on_arrival batch bytes l =
     (case absorb batch bytes l of (batch', bytes', drained, stopped, arrival', l') \<Rightarrow>
        if drained \<or> stopped then l'\<lparr>ln_worker := Flushing batch' (flush_reason drained stopped)\<rparr>
        else if ExceedsWriteBatch (ln_budget l) (int (length batch')) bytes' 0
        then l'\<lparr>ln_worker := Flushing batch' ''full''\<rparr>
        else l'\<lparr>ln_worker := Accumulating batch' bytes' arrival'\<rparr>)"

definition raiseMax :: "int \<Rightarrow> int \<Rightarrow> int" where
  "raiseMax current v = (if v \<le> current then current else v)"

definition commitBatch :: "'op turn \<Rightarrow> item list \<Rightarrow> lane \<Rightarrow> lane" where
  "commitBatch t batch l =
     (let reports = commitRecords t batch; st = ln_stats l in
      l\<lparr>ln_answered := ln_answered l @ zip batch reports, ln_worker := Idle,
        ln_stats := \<lparr>sx_Records = i64 (sx_Records st + int (length batch)), sx_Batches = i64 (sx_Batches st + 1),
          sx_MaxBatchRecords = raiseMax (sx_MaxBatchRecords st) (int (length batch)),
          sx_MaxHold = raiseMax (sx_MaxHold st) (tn_held t),
          sx_HoldExceeded = (if tn_held t > HoldTarget (ln_budget l) then i64 (sx_HoldExceeded st + 1) else sx_HoldExceeded st)\<rparr>\<rparr>)"

section \<open>Transitions\<close>

datatype 'op lane_event =
    EvSubmit item bool
  | EvClose
  | EvTake
  | EvBegin
  | EvArrival
  | EvTimer
  | EvCommit "'op turn"

fun lane_exec :: "'op lane_event \<Rightarrow> lane \<Rightarrow> lane option" where
  "lane_exec (EvSubmit it ended) l = Submit it ended l"
| "lane_exec EvClose l = Some (Close l)"
| "lane_exec EvTake l = (case ln_worker l of Idle \<Rightarrow> takeFirst l | _ \<Rightarrow> None)"
| "lane_exec EvBegin l =
     (case ln_worker l of Collected batch bytes arrival staged \<Rightarrow> Some (begin_turn batch bytes arrival staged l) | _ \<Rightarrow> None)"
| "lane_exec EvArrival l =
     (case ln_worker l of Accumulating batch bytes arrival \<Rightarrow>
        if arrival < ln_arrived l then Some (on_arrival batch bytes l) else None | _ \<Rightarrow> None)"
| "lane_exec EvTimer l =
     (case ln_worker l of Accumulating batch bytes arrival \<Rightarrow> Some (l\<lparr>ln_worker := Flushing batch ''timer''\<rparr>) | _ \<Rightarrow> None)"
| "lane_exec (EvCommit t) l = (case ln_worker l of Flushing batch reason \<Rightarrow> Some (commitBatch t batch l) | _ \<Rightarrow> None)"

inductive reachable :: "lane \<Rightarrow> lane \<Rightarrow> bool" for l0 where
  start: "reachable l0 l0"
| step: "reachable l0 l \<Longrightarrow> lane_exec (ev :: string lane_event) l = Some l' \<Longrightarrow> reachable l0 l'"

inductive_cases reachable_stepE: "reachable l0 l"

section \<open>Budgets\<close>

definition budget_ok :: "int \<Rightarrow> WriteLaneBudget \<Rightarrow> bool" where
  "budget_ok maxBatch b \<longleftrightarrow> 0 < BatchRecords b \<and> BatchRecords b \<le> QueueRecords b \<and> BatchRecords b \<le> maxBatch \<and>
     ingressPayloadFloor \<le> BatchBytes b \<and> BatchBytes b \<le> QueueBytes b \<and>
     0 < FlushInterval b \<and> FlushInterval b < HoldTarget b"

lemma Budget_Validate_iff: "Budget_Validate maxBatch b = None \<longleftrightarrow> budget_ok maxBatch b"
  by (auto simp: Budget_Validate_def budget_ok_def ingressPayloadFloor_def)

section \<open>What a turn reports\<close>

text \<open>The reports of a turn, record by record: the \<open>k\<close>-th prepared record is settled with the
  \<open>k\<close>-th outcome.\<close>

fun settle_all :: "'op turn \<Rightarrow> BatchRecordResult list \<Rightarrow> string option \<Rightarrow> nat \<Rightarrow> item list \<Rightarrow> report option list" where
  "settle_all t results err k [] = []"
| "settle_all t results err k (it # its) =
     (case tn_prepare t it of
        Err e \<Rightarrow> Some e # settle_all t results err k its
      | Ok op \<Rightarrow> tn_settle t it (batchOutcome results k err) # settle_all t results err (Suc k) its)"

definition prepared_ops :: "'op turn \<Rightarrow> item list \<Rightarrow> 'op list" where
  "prepared_ops t batch = List.map_filter (\<lambda>it. case tn_prepare t it of Err _ \<Rightarrow> None | Ok op \<Rightarrow> Some op) batch"

lemma prepared_ops_Nil [simp]: "prepared_ops t [] = []"
  by (simp add: prepared_ops_def map_filter_def)

lemma prepared_ops_Cons:
  "prepared_ops t (it # its) = (case tn_prepare t it of Err _ \<Rightarrow> [] | Ok op \<Rightarrow> [op]) @ prepared_ops t its"
  by (auto simp: prepared_ops_def map_filter_def split: sum.splits)

lemma prepare_all_ops: "map (snd \<circ> snd) (snd (prepare_all t i its)) = prepared_ops t its"
  by (induction its arbitrary: i) (auto simp: prepared_ops_Cons split_def Let_def split: sum.splits)

lemma prepare_all_none: "snd (prepare_all t i its) = [] \<Longrightarrow> fst (prepare_all t i its) = settle_all t results err k its"
  by (induction its arbitrary: i) (auto simp: split_def Let_def split: sum.splits)

lemma foldl_settle:
  "foldl (\<lambda>reports (k, (i, it, op)). reports[i := tn_settle t it (batchOutcome results k err)])
     (pre @ fst (prepare_all t (length pre) its)) (List.enumerate k (snd (prepare_all t (length pre) its))) =
   pre @ settle_all t results err k its"
proof (induction its arbitrary: pre k)
  case (Cons it its)
  show ?case
  proof (cases "tn_prepare t it")
    case (Inl e)
    then show ?thesis using Cons.IH [of "pre @ [Some e]" k] by (simp add: split_def Let_def)
  next
    case (Inr op)
    then show ?thesis
      using Cons.IH [of "pre @ [tn_settle t it (batchOutcome results k err)]" "Suc k"]
      by (simp add: split_def Let_def)
  qed
qed simp

lemma commitRecords_settle:
  "commitRecords t batch = settle_all t (fst (tn_apply t (prepared_ops t batch))) (snd (tn_apply t (prepared_ops t batch))) 0 batch"
proof (cases "snd (prepare_all t 0 batch) = []")
  case True
  then show ?thesis using prepare_all_none by (simp add: commitRecords_def split_def Let_def)
next
  case False
  then have "commitRecords t batch =
      foldl (\<lambda>reports (k, (i, it, op)). reports[i := tn_settle t it (batchOutcome (fst (tn_apply t (prepared_ops t batch))) k
        (snd (tn_apply t (prepared_ops t batch))))])
        (fst (prepare_all t 0 batch)) (List.enumerate 0 (snd (prepare_all t 0 batch)))"
    using prepare_all_ops [of t 0 batch] by (simp add: commitRecords_def split_def Let_def)
  then show ?thesis using foldl_settle [of t _ _ "[]" batch 0] by simp
qed

lemma length_settle_all [simp]: "length (settle_all t results err k its) = length its"
  by (induction its arbitrary: k) (auto split: sum.split)

lemma length_commitRecords [simp]: "length (commitRecords t batch) = length batch"
  by (simp add: commitRecords_settle)

definition prepared_before :: "'op turn \<Rightarrow> item list \<Rightarrow> nat \<Rightarrow> nat" where
  "prepared_before t batch i = length (prepared_ops t (take i batch))"

lemma settle_all_nth:
  "i < length its \<Longrightarrow> settle_all t results err k its ! i =
     (case tn_prepare t (its ! i) of Err e \<Rightarrow> Some e
      | Ok op \<Rightarrow> tn_settle t (its ! i) (batchOutcome results (k + prepared_before t its i) err))"
proof (induction its arbitrary: i k)
  case (Cons it its)
  show ?case
  proof (cases i)
    case 0
    then show ?thesis by (simp add: prepared_before_def split: sum.split)
  next
    case (Suc j)
    then show ?thesis using Cons.IH [of j] Cons.prems
      by (auto simp: prepared_before_def prepared_ops_Cons split: sum.split)
  qed
qed simp

lemma prepared_ops_nth:
  "i < length its \<Longrightarrow> tn_prepare t (its ! i) = Ok op \<Longrightarrow>
     prepared_before t its i < length (prepared_ops t its) \<and> prepared_ops t its ! prepared_before t its i = op"
proof (induction its arbitrary: i)
  case (Cons it its)
  then show ?case
    by (cases i) (auto simp: prepared_before_def prepared_ops_Cons nth_append split: sum.splits)
qed simp

section \<open>The invariant of the lane\<close>

definition total :: "item list \<Rightarrow> int" where
  "total its = sum_list (map it_bytes its)"

lemma total_simps [simp]:
  "total [] = 0" "total (it # its) = it_bytes it + total its" "total (xs @ ys) = total xs + total ys"
  by (simp_all add: total_def)

text \<open>Sizes far from the end of the integers: a payload is a slice in memory.\<close>

definition sizes_ok :: "item list \<Rightarrow> bool" where
  "sizes_ok its \<longleftrightarrow> list_all (\<lambda>it. 0 \<le> it_bytes it \<and> it_bytes it < 2 ^ 62) its"

lemma sizes_ok_simps [simp]:
  "sizes_ok []" "sizes_ok (it # its) \<longleftrightarrow> 0 \<le> it_bytes it \<and> it_bytes it < 2 ^ 62 \<and> sizes_ok its"
  "sizes_ok (xs @ ys) \<longleftrightarrow> sizes_ok xs \<and> sizes_ok ys"
  by (auto simp: sizes_ok_def)

lemma total_nonneg: "sizes_ok its \<Longrightarrow> 0 \<le> total its"
  by (induction its) auto

text \<open>A group of records within a byte limit, or one record alone.\<close>

definition fits_in :: "int \<Rightarrow> item list \<Rightarrow> bool" where
  "fits_in limit its \<longleftrightarrow> length its \<le> 1 \<or> total its \<le> limit"

lemma fits_in_small: "fits_in limit its \<Longrightarrow> sizes_ok its \<Longrightarrow> limit < 2 ^ 62 \<Longrightarrow> total its < 2 ^ 62"
  by (cases its) (auto simp: fits_in_def)

lemma fits_in_tl: "fits_in limit (it # its) \<Longrightarrow> sizes_ok (it # its) \<Longrightarrow> fits_in limit its"
  by (auto simp: fits_in_def)

lemma i64_small: "- (2 ^ 62) \<le> x \<Longrightarrow> x < 2 ^ 63 \<Longrightarrow> i64 x = x"
  by (rule i64_id) (simp add: fits64_def)

text \<open>The records a goroutine holds between staging and answer.\<close>

fun in_flight :: "worker \<Rightarrow> item list" where
  "in_flight Idle = []"
| "in_flight (Collected batch bytes arrival staged) = batch"
| "in_flight (Accumulating batch bytes arrival) = batch"
| "in_flight (Flushing batch reason) = batch"
| "in_flight Stopped = []"

definition batch_inv :: "WriteLaneBudget \<Rightarrow> item list \<Rightarrow> bool" where
  "batch_inv b batch \<longleftrightarrow> int (length batch) \<le> BatchRecords b \<and> fits_in (BatchBytes b) batch"

fun worker_inv :: "WriteLaneBudget \<Rightarrow> worker \<Rightarrow> bool" where
  "worker_inv b (Collected batch bytes arrival staged) \<longleftrightarrow> batch \<noteq> [] \<and> batch_inv b batch \<and> bytes = total batch"
| "worker_inv b (Accumulating batch bytes arrival) \<longleftrightarrow> batch \<noteq> [] \<and> batch_inv b batch \<and> bytes = total batch"
| "worker_inv b (Flushing batch reason) \<longleftrightarrow> batch \<noteq> [] \<and> batch_inv b batch"
| "worker_inv b _ \<longleftrightarrow> True"

definition lane_inv :: "WriteLaneBudget \<Rightarrow> lane \<Rightarrow> bool" where
  "lane_inv b l \<longleftrightarrow> ln_budget l = b \<and>
     map fst (ln_answered l) @ in_flight (ln_worker l) @ ln_pending l = ln_admitted l \<and>
     ln_pendingBytes l = total (ln_pending l) \<and>
     int (length (ln_pending l)) \<le> QueueRecords b \<and> fits_in (QueueBytes b) (ln_pending l) \<and>
     worker_inv b (ln_worker l) \<and>
     (ln_worker l = Stopped \<longrightarrow> ln_closed l \<and> ln_pending l = [])"

lemma absorb_loop_spec:
  assumes "absorb_loop b batch bytes pend pb = (batch', bytes', rest, pb')"
    and "bytes = total batch" "pb = total pend" "batch \<noteq> []" "batch_inv b batch" "fits_in (QueueBytes b) pend"
    and "sizes_ok batch" "sizes_ok pend" "BatchBytes b < 2 ^ 62" "QueueBytes b < 2 ^ 62"
  shows "batch' @ rest = batch @ pend \<and> bytes' = total batch' \<and> pb' = total rest \<and> batch' \<noteq> [] \<and>
    batch_inv b batch' \<and> fits_in (QueueBytes b) rest \<and> length rest \<le> length pend"
  using assms
proof (induction b batch bytes pend pb rule: absorb_loop.induct)
  case (2 b batch bytes nxt rest0 pb)
  show ?case
  proof (cases "ExceedsWriteBatch b (int (length batch)) bytes (it_bytes nxt)")
    case True
    then show ?thesis using 2 by auto
  next
    case False
    have small: "total batch < 2 ^ 62" "0 \<le> total batch"
      using fits_in_small [of "BatchBytes b" batch] total_nonneg 2 by (auto simp: batch_inv_def)
    have pend: "total (nxt # rest0) < 2 ^ 62" "0 \<le> total rest0"
      using fits_in_small [of "QueueBytes b" "nxt # rest0"] total_nonneg [of rest0] 2 by auto
    have sum: "i64 (bytes + it_bytes nxt) = total (batch @ [nxt])"
      using small 2 by (simp add: i64_small)
    have pb: "i64 (pb - it_bytes nxt) = total rest0" using pend 2 by (simp add: i64_small)
    have "batch_inv b (batch @ [nxt])"
      using False sum 2(6) by (auto simp: ExceedsWriteBatch_def batch_inv_def fits_in_def split: if_splits)
    moreover have "fits_in (QueueBytes b) rest0" using fits_in_tl [of "QueueBytes b" nxt rest0] 2 by auto
    ultimately show ?thesis using 2(1) [OF False] 2 False sum pb by auto
  qed
qed auto

lemma absorb_spec:
  assumes "absorb batch bytes l = (batch', bytes', drained, stopped, arrival, l')"
    and "lane_inv b l" "in_flight (ln_worker l) = batch" "bytes = total batch" "batch \<noteq> []" "batch_inv b batch"
    and "sizes_ok (ln_admitted l)" "BatchBytes b < 2 ^ 62" "QueueBytes b < 2 ^ 62"
  shows "batch' @ ln_pending l' = batch @ ln_pending l \<and> bytes' = total batch' \<and> batch' \<noteq> [] \<and> batch_inv b batch' \<and>
    ln_pendingBytes l' = total (ln_pending l') \<and> fits_in (QueueBytes b) (ln_pending l') \<and>
    length (ln_pending l') \<le> length (ln_pending l) \<and> ln_budget l' = b \<and>
    l' = l\<lparr>ln_pending := ln_pending l', ln_pendingBytes := ln_pendingBytes l'\<rparr>"
proof -
  obtain rest pb where loop: "absorb_loop (ln_budget l) batch bytes (ln_pending l) (ln_pendingBytes l) = (batch', bytes', rest, pb)"
    and l': "l' = l\<lparr>ln_pending := rest, ln_pendingBytes := pb\<rparr>"
    using assms(1) by (auto simp: absorb_def split: prod.splits)
  have adm: "ln_admitted l = map fst (ln_answered l) @ batch @ ln_pending l"
    using assms(2,3) by (simp add: lane_inv_def)
  have "sizes_ok batch" "sizes_ok (ln_pending l)" using assms(7) unfolding adm by simp_all
  then show ?thesis
    using absorb_loop_spec [OF loop [unfolded lane_inv_def]] assms
    by (auto simp: l' lane_inv_def)
qed

definition limits_ok :: "WriteLaneBudget \<Rightarrow> bool" where
  "limits_ok b \<longleftrightarrow> 0 < BatchRecords b \<and> BatchBytes b \<le> QueueBytes b \<and> QueueBytes b < 2 ^ 62"

lemma lane_inv_submit:
  assumes "Submit it ended l = Some l'" "lane_inv b l" "limits_ok b" "sizes_ok (ln_admitted l')"
  shows "lane_inv b l'"
proof (cases "it_bytes it < 0 \<or> ln_closed l \<or> \<not> roomForLocked l (it_bytes it)")
  case True
  then show ?thesis using assms(1,2)
    by (auto simp: Submit_def lane_inv_def split: if_splits)
next
  case False
  then have l': "l' = l\<lparr>ln_pending := ln_pending l @ [it], ln_pendingBytes := i64 (ln_pendingBytes l + it_bytes it),
      ln_arrived := Suc (ln_arrived l), ln_admitted := ln_admitted l @ [it]\<rparr>"
    using assms(1) by (simp add: Submit_def)
  have adm: "ln_admitted l = map fst (ln_answered l) @ in_flight (ln_worker l) @ ln_pending l"
    and pb: "ln_pendingBytes l = total (ln_pending l)" and fit: "fits_in (QueueBytes b) (ln_pending l)"
    and bud: "ln_budget l = b"
    using assms(2) by (simp_all add: lane_inv_def)
  have "sizes_ok (ln_admitted l @ [it])" using assms(4) by (simp add: l')
  then have sz: "sizes_ok (ln_pending l)" "0 \<le> it_bytes it" "it_bytes it < 2 ^ 62" unfolding adm by simp_all
  have "total (ln_pending l) < 2 ^ 62" "0 \<le> total (ln_pending l)"
    using fits_in_small [OF fit sz(1)] total_nonneg [OF sz(1)] assms(3) by (simp_all add: limits_ok_def)
  then have sum: "i64 (ln_pendingBytes l + it_bytes it) = total (ln_pending l @ [it])"
    using sz by (simp add: pb i64_small)
  have room: "int (length (ln_pending l)) < QueueRecords b"
    "ln_pending l = [] \<or> total (ln_pending l @ [it]) \<le> QueueBytes b"
    using False sum by (auto simp: roomForLocked_def bud)
  then have "fits_in (QueueBytes b) (ln_pending l @ [it])" by (auto simp: fits_in_def)
  then show ?thesis using assms(2) False room(1) sum by (auto simp: l' lane_inv_def)
qed

lemma lane_inv_take:
  assumes "takeFirst l = Some l'" "ln_worker l = Idle" "lane_inv b l" "limits_ok b" "sizes_ok (ln_admitted l)"
  shows "lane_inv b l'"
proof (cases "ln_pending l")
  case Nil
  then show ?thesis using assms(1-3) by (auto simp: takeFirst_def lane_inv_def split: if_splits)
next
  case (Cons one rest)
  have adm: "ln_admitted l = map fst (ln_answered l) @ one # rest"
    and pb: "ln_pendingBytes l = it_bytes one + total rest" and fit: "fits_in (QueueBytes b) (one # rest)"
    using assms(2,3) Cons by (simp_all add: lane_inv_def)
  have sz: "sizes_ok (one # rest)" using assms(5) unfolding adm by simp
  have "total (one # rest) < 2 ^ 62" "0 \<le> total rest"
    using fits_in_small [OF fit sz] total_nonneg [of rest] assms(4) sz by (simp_all add: limits_ok_def)
  then have sum: "i64 (ln_pendingBytes l - it_bytes one) = total rest" using sz by (simp add: pb i64_small)
  have l': "l' = l\<lparr>ln_pending := rest, ln_pendingBytes := total rest,
      ln_worker := Collected [one] (it_bytes one) (ln_arrived l) (rest \<noteq> [])\<rparr>"
    using assms(1) Cons sum by (simp add: takeFirst_def)
  have "fits_in (QueueBytes b) rest" using fits_in_tl [OF fit sz] .
  then show ?thesis using assms(2-4) Cons
    by (auto simp: l' lane_inv_def batch_inv_def fits_in_def limits_ok_def)
qed

lemma lane_inv_absorbed:
  assumes "absorb batch bytes l = (batch', bytes', drained, stopped, arrival, l')"
    and "lane_inv b l" "worker_inv b (ln_worker l)" "in_flight (ln_worker l) = batch" "bytes = total batch"
    and "batch \<noteq> []" "batch_inv b batch" "sizes_ok (ln_admitted l)" "limits_ok b"
    and "in_flight wk = batch'" "worker_inv b wk" "wk \<noteq> Stopped"
  shows "lane_inv b (l'\<lparr>ln_worker := wk\<rparr>)"
proof -
  have "BatchBytes b < 2 ^ 62" "QueueBytes b < 2 ^ 62" using assms(9) by (simp_all add: limits_ok_def)
  note spec = absorb_spec [OF assms(1,2,4-7,8) this]
  have eq: "l' = l\<lparr>ln_pending := ln_pending l', ln_pendingBytes := ln_pendingBytes l'\<rparr>" using spec by blast
  have sel: "ln_answered l' = ln_answered l" "ln_admitted l' = ln_admitted l" "ln_closed l' = ln_closed l"
    by (subst eq, simp)+
  show ?thesis using assms(2,4,10-12) spec unfolding lane_inv_def by (simp add: sel)
qed

lemma lane_inv_begin:
  assumes "ln_worker l = Collected batch bytes arrival staged" "lane_inv b l" "limits_ok b" "sizes_ok (ln_admitted l)"
  shows "lane_inv b (begin_turn batch bytes arrival staged l)"
proof -
  have w: "batch \<noteq> []" "batch_inv b batch" "bytes = total batch" "worker_inv b (ln_worker l)"
    "in_flight (ln_worker l) = batch"
    using assms(1,2) by (simp_all add: lane_inv_def)
  show ?thesis
  proof (cases staged)
    case False
    then show ?thesis using assms(1,2) w by (simp add: begin_turn_def lane_inv_def)
  next
    case True
    obtain batch' bytes' drained stopped arrival' l' where a: "absorb batch bytes l = (batch', bytes', drained, stopped, arrival', l')"
      by (rule prod_cases6)
    have "BatchBytes b < 2 ^ 62" "QueueBytes b < 2 ^ 62" using assms(3) by (simp_all add: limits_ok_def)
    then have "batch' \<noteq> [] \<and> batch_inv b batch' \<and> bytes' = total batch'"
      using absorb_spec [OF a assms(2) w(5,3,1,2) assms(4)] by blast
    then show ?thesis
      using lane_inv_absorbed [OF a assms(2) w(4,5,3,1,2) assms(4,3)] True
      by (simp add: begin_turn_def a)
  qed
qed

lemma lane_inv_arrival:
  assumes "ln_worker l = Accumulating batch bytes arrival" "lane_inv b l" "limits_ok b" "sizes_ok (ln_admitted l)"
  shows "lane_inv b (on_arrival batch bytes l)"
proof -
  have w: "batch \<noteq> []" "batch_inv b batch" "bytes = total batch" "worker_inv b (ln_worker l)"
    "in_flight (ln_worker l) = batch"
    using assms(1,2) by (simp_all add: lane_inv_def)
  obtain batch' bytes' drained stopped arrival' l' where a: "absorb batch bytes l = (batch', bytes', drained, stopped, arrival', l')"
    by (rule prod_cases6)
  have "BatchBytes b < 2 ^ 62" "QueueBytes b < 2 ^ 62" using assms(3) by (simp_all add: limits_ok_def)
  then have "batch' \<noteq> [] \<and> batch_inv b batch' \<and> bytes' = total batch'"
    using absorb_spec [OF a assms(2) w(5,3,1,2) assms(4)] by blast
  then show ?thesis
    using lane_inv_absorbed [OF a assms(2) w(4,5,3,1,2) assms(4,3)]
    by (simp add: on_arrival_def a)
qed

lemma map_fst_zip_reports: "map fst (zip batch (commitRecords t batch)) = batch"
  by simp

lemma admitted_grows: "lane_exec ev l = Some l' \<Longrightarrow> prefix (ln_admitted l) (ln_admitted l')"
  by (cases ev; cases "ln_worker l")
    (auto simp: Submit_def Close_def takeFirst_def begin_turn_def on_arrival_def absorb_def commitBatch_def Let_def
      split: if_splits list.splits prod.splits)

lemma sizes_ok_prefix: "sizes_ok ys \<Longrightarrow> prefix xs ys \<Longrightarrow> sizes_ok xs"
  by (auto simp: prefix_def)

lemma lane_inv_step:
  assumes "lane_exec ev l = Some l'" "lane_inv b l" "limits_ok b" "sizes_ok (ln_admitted l')"
  shows "lane_inv b l'"
proof -
  have sz: "sizes_ok (ln_admitted l)" using sizes_ok_prefix [OF assms(4) admitted_grows [OF assms(1)]] .
  show ?thesis
  proof (cases ev)
    case (EvSubmit it ended)
    then show ?thesis using assms lane_inv_submit by auto
  next
    case EvClose
    then show ?thesis using assms by (auto simp: Close_def lane_inv_def)
  next
    case EvTake
    then show ?thesis using assms sz lane_inv_take by (auto split: worker.splits)
  next
    case EvBegin
    then show ?thesis using assms sz lane_inv_begin by (auto split: worker.splits)
  next
    case EvArrival
    then show ?thesis using assms sz lane_inv_arrival by (auto split: worker.splits if_splits)
  next
    case EvTimer
    then show ?thesis using assms by (auto simp: lane_inv_def split: worker.splits)
  next
    case (EvCommit t)
    then show ?thesis using assms by (auto simp: lane_inv_def commitBatch_def Let_def split: worker.splits)
  qed
qed

lemma lane_inv_new: "New_lane maxBatch b = Ok l0 \<Longrightarrow> lane_inv b l0 \<and> budget_ok maxBatch b"
  by (auto simp: New_lane_def lane_inv_def fits_in_def Budget_Validate_iff budget_ok_def split: option.splits)

lemma lane_inv_reachable:
  assumes "reachable l0 l" "lane_inv b l0" "limits_ok b" "sizes_ok (ln_admitted l)"
  shows "lane_inv b l"
  using assms(1,4)
proof (induction rule: reachable.induct)
  case start
  show ?case by (rule assms(2))
next
  case (step l ev l')
  have "sizes_ok (ln_admitted l)" using sizes_ok_prefix [OF step.prems admitted_grows [OF step.hyps(2)]] .
  then show ?case using lane_inv_step [OF step.hyps(2) step.IH assms(3) step.prems] by blast
qed

section \<open>Progress\<close>

fun lane_run :: "'op lane_event list \<Rightarrow> lane \<Rightarrow> lane option" where
  "lane_run [] l = Some l"
| "lane_run (ev # evs) l = (case lane_exec ev l of None \<Rightarrow> None | Some l' \<Rightarrow> lane_run evs l')"

lemma lane_run_append:
  "lane_run xs l = Some l1 \<Longrightarrow> lane_run (xs @ ys) l = lane_run ys l1"
  by (induction xs arbitrary: l) (auto split: option.splits)

text \<open>The events of the commit goroutine alone.\<close>

fun worker_event :: "'op lane_event \<Rightarrow> bool" where
  "worker_event (EvSubmit it ended) = False"
| "worker_event EvClose = False"
| "worker_event _ = True"

lemma begin_turn_worker:
  "(\<exists>batch' reason. ln_worker (begin_turn batch bytes arrival staged l) = Flushing batch' reason) \<or>
   (\<exists>batch' bytes' arrival'. ln_worker (begin_turn batch bytes arrival staged l) = Accumulating batch' bytes' arrival')"
  by (simp add: begin_turn_def split: prod.split)

lemma absorb_loop_shrinks:
  "absorb_loop b batch bytes pend pb = (batch', bytes', rest, pb') \<Longrightarrow> length rest \<le> length pend"
  by (induction b batch bytes pend pb rule: absorb_loop.induct) (auto split: if_splits)

lemma begin_turn_frame:
  "ln_admitted (begin_turn batch bytes arrival staged l) = ln_admitted l \<and>
   length (ln_pending (begin_turn batch bytes arrival staged l)) \<le> length (ln_pending l)"
  using absorb_loop_shrinks [of "ln_budget l" batch bytes "ln_pending l"]
  by (auto simp: begin_turn_def absorb_def split: prod.split)

lemma flush_turn:
  assumes "(\<exists>batch reason. ln_worker l = Flushing batch reason) \<or> (\<exists>batch bytes arrival. ln_worker l = Accumulating batch bytes arrival)"
  shows "\<exists>(evs :: string lane_event list) l'. list_all worker_event evs \<and> lane_run evs l = Some l' \<and> ln_worker l' = Idle \<and>
    ln_admitted l' = ln_admitted l \<and> ln_pending l' = ln_pending l"
  using assms
proof (elim disjE exE)
  fix batch reason
  assume "ln_worker l = Flushing batch reason"
  then show ?thesis
    by (intro exI [of _ "[EvCommit t]" for t]) (simp add: commitBatch_def Let_def)
next
  fix batch bytes arrival
  assume "ln_worker l = Accumulating batch bytes arrival"
  then show ?thesis
    by (intro exI [of _ "[EvTimer, EvCommit t]" for t]) (simp add: commitBatch_def Let_def)
qed

lemma finish_turn:
  assumes "ln_worker l \<noteq> Stopped"
  shows "\<exists>(evs :: string lane_event list) l'. list_all worker_event evs \<and> lane_run evs l = Some l' \<and> ln_worker l' = Idle \<and>
    ln_admitted l' = ln_admitted l \<and> length (ln_pending l') \<le> length (ln_pending l)"
proof (cases "ln_worker l")
  case (Collected batch bytes arrival staged)
  let ?l1 = "begin_turn batch bytes arrival staged l"
  obtain evs :: "string lane_event list" and l' where "list_all worker_event evs" "lane_run evs ?l1 = Some l'" "ln_worker l' = Idle"
    "ln_admitted l' = ln_admitted ?l1" "ln_pending l' = ln_pending ?l1"
    using flush_turn [of ?l1] begin_turn_worker by blast
  then show ?thesis using Collected begin_turn_frame [of batch bytes arrival staged l]
    by (intro exI [of _ "EvBegin # evs"] exI [of _ l']) simp
next
  case Idle
  then show ?thesis by (intro exI [of _ "[]"] exI [of _ l]) simp
next
  case (Accumulating batch bytes arrival)
  then show ?thesis using flush_turn [of l] by (metis order_refl)
next
  case (Flushing batch reason)
  then show ?thesis using flush_turn [of l] by (metis order_refl)
qed (use assms in simp)

lemma drain_idle:
  "ln_worker l = Idle \<Longrightarrow> \<exists>(evs :: string lane_event list) l'. list_all worker_event evs \<and> lane_run evs l = Some l' \<and> ln_worker l' = Idle \<and>
     ln_admitted l' = ln_admitted l \<and> ln_pending l' = []"
proof (induction "length (ln_pending l)" arbitrary: l rule: less_induct)
  case less
  show ?case
  proof (cases "ln_pending l")
    case Nil
    then show ?thesis using less.prems by (intro exI [of _ "[]"] exI [of _ l]) simp
  next
    case (Cons one rest)
    obtain l1 where take: "takeFirst l = Some l1" and l1: "ln_worker l1 \<noteq> Stopped" "ln_admitted l1 = ln_admitted l"
      "length (ln_pending l1) < length (ln_pending l)"
      using Cons by (simp add: takeFirst_def)
    obtain evs1 :: "string lane_event list" and l2 where 1: "list_all worker_event evs1" "lane_run evs1 l1 = Some l2" "ln_worker l2 = Idle"
      "ln_admitted l2 = ln_admitted l1" "length (ln_pending l2) \<le> length (ln_pending l1)"
      using finish_turn [OF l1(1)] by blast
    obtain evs2 :: "string lane_event list" and l3 where 2: "list_all worker_event evs2" "lane_run evs2 l2 = Some l3" "ln_worker l3 = Idle"
      "ln_admitted l3 = ln_admitted l2" "ln_pending l3 = []"
      using less.hyps [OF _ 1(3)] 1(5) l1(3) by fastforce
    have "lane_run (EvTake # evs1 @ evs2) l = Some l3"
      using take less.prems lane_run_append [OF 1(2)] 2(2) by simp
    then show ?thesis using 1 2 l1(2) by (intro exI [of _ "EvTake # evs1 @ evs2"] exI [of _ l3]) simp
  qed
qed

lemma reachable_run: "reachable l0 l \<Longrightarrow> lane_run (evs :: string lane_event list) l = Some l' \<Longrightarrow> reachable l0 l'"
  by (induction evs arbitrary: l) (auto split: option.splits intro: reachable.step)

section \<open>Properties\<close>

text \<open>C10: no admitted record is lost, reordered or answered twice: in every reachable state the
  records answered, then those of the batch in flight, then those staged, are exactly the
  records admitted, in their order; the staged bytes counter is exact and the queue and the
  batch are within the budget, an oversize record excepted, which is alone.\<close>

theorem lane_conserves_records:
  assumes "New_lane maxBatch b = Ok l0" "reachable l0 l" "QueueBytes b < 2 ^ 62" "sizes_ok (ln_admitted l)"
  shows "map fst (ln_answered l) @ in_flight (ln_worker l) @ ln_pending l = ln_admitted l \<and>
    ln_pendingBytes l = total (ln_pending l) \<and> int (length (ln_pending l)) \<le> QueueRecords b \<and>
    fits_in (QueueBytes b) (ln_pending l) \<and> int (length (in_flight (ln_worker l))) \<le> maxBatch \<and>
    fits_in (BatchBytes b) (in_flight (ln_worker l))"
proof -
  have "lane_inv b l0" and bud: "budget_ok maxBatch b" using lane_inv_new [OF assms(1)] by simp_all
  moreover have "limits_ok b" using bud assms(3) by (simp add: limits_ok_def budget_ok_def)
  ultimately have inv: "lane_inv b l" using lane_inv_reachable [OF assms(2)] assms(4) by blast
  have "int (length (in_flight (ln_worker l))) \<le> BatchRecords b \<and> fits_in (BatchBytes b) (in_flight (ln_worker l))"
    using inv bud by (cases "ln_worker l") (simp_all add: lane_inv_def batch_inv_def budget_ok_def fits_in_def)
  then show ?thesis using inv bud by (auto simp: lane_inv_def budget_ok_def)
qed

text \<open>A lane with two records, the second larger than any batch.\<close>

definition demo_budget :: WriteLaneBudget where
  "demo_budget = \<lparr>QueueRecords = 4, QueueBytes = 2097152, BatchRecords = 2, BatchBytes = 1048576,
     FlushInterval = 1, HoldTarget = 2\<rparr>"

definition demo_turn :: "string turn" where
  "demo_turn = \<lparr>tn_prepare = (\<lambda>it. Ok ''op''),
     tn_apply = (\<lambda>ops. (map (\<lambda>_. \<lparr>br_Outcome = BatchRecordCommitted, br_Err = None\<rparr>) ops, None)),
     tn_settle = (\<lambda>it out. Report out), tn_held = 1\<rparr>"

definition demo_lane :: lane where
  "demo_lane = \<lparr>ln_budget = demo_budget, ln_pending = [], ln_pendingBytes = 0, ln_closed = False, ln_arrived = 0,
     ln_worker = Idle, ln_stats = \<lparr>sx_Records = 0, sx_Batches = 0, sx_MaxBatchRecords = 0, sx_MaxHold = 0, sx_HoldExceeded = 0\<rparr>,
     ln_admitted = [], ln_answered = [], ln_refused = []\<rparr>"

definition demo_events :: "string lane_event list" where
  "demo_events = [EvSubmit \<lparr>it_id = 1, it_bytes = 10\<rparr> False, EvSubmit \<lparr>it_id = 2, it_bytes = 1500000\<rparr> False,
     EvTake, EvBegin, EvTimer, EvCommit demo_turn, EvTake]"

lemma demo_lane_new: "New_lane 256 demo_budget = Ok demo_lane" by code_simp

theorem lane_conserves_records_witness:
  "\<exists>l. lane_run demo_events demo_lane = Some l \<and>
     map fst (ln_answered l) @ in_flight (ln_worker l) @ ln_pending l = ln_admitted l \<and>
     length (ln_answered l) = 1 \<and> length (in_flight (ln_worker l)) = 1"
proof -
  have "case lane_run demo_events demo_lane of None \<Rightarrow> False
      | Some l \<Rightarrow> sizes_ok (ln_admitted l) \<and> length (ln_answered l) = 1 \<and> length (in_flight (ln_worker l)) = 1"
    by code_simp
  then obtain l where l: "lane_run demo_events demo_lane = Some l" "sizes_ok (ln_admitted l)"
    "length (ln_answered l) = 1" "length (in_flight (ln_worker l)) = 1"
    by (auto split: option.splits)
  have "reachable demo_lane l" using reachable_run [OF reachable.start l(1)] .
  then show ?thesis
    using lane_conserves_records [OF demo_lane_new _ _ l(2)] l by (simp add: demo_budget_def)
qed

text \<open>C36: the lane never strands a record: from every reachable state the commit goroutine alone
  can answer everything admitted so far, and a goroutine that has stopped has answered
  everything.\<close>

theorem lane_answers_all:
  assumes "New_lane maxBatch b = Ok l0" "reachable l0 l" "QueueBytes b < 2 ^ 62" "sizes_ok (ln_admitted l)"
  shows "(\<exists>(evs :: string lane_event list) l'. list_all worker_event evs \<and> lane_run evs l = Some l' \<and>
      map fst (ln_answered l') = ln_admitted l) \<and>
    (ln_worker l = Stopped \<longrightarrow> map fst (ln_answered l) = ln_admitted l)"
proof -
  have "lane_inv b l0" and bud: "budget_ok maxBatch b" using lane_inv_new [OF assms(1)] by simp_all
  moreover have lim: "limits_ok b" using bud assms(3) by (simp add: limits_ok_def budget_ok_def)
  ultimately have inv: "lane_inv b l'" if "reachable l0 l'" "sizes_ok (ln_admitted l')" for l'
    using lane_inv_reachable [OF that(1)] that(2) by blast
  have stopped: "map fst (ln_answered l) = ln_admitted l" if "ln_worker l = Stopped"
    using inv [OF assms(2,4)] that by (auto simp: lane_inv_def)
  show ?thesis
  proof (cases "ln_worker l = Stopped")
    case True
    then show ?thesis using stopped by (intro conjI exI [of _ "[]"] exI [of _ l]) simp_all
  next
    case False
    obtain evs1 :: "string lane_event list" and l1 where 1: "list_all worker_event evs1" "lane_run evs1 l = Some l1" "ln_worker l1 = Idle"
      "ln_admitted l1 = ln_admitted l"
      using finish_turn [OF False] by blast
    obtain evs2 :: "string lane_event list" and l2 where 2: "list_all worker_event evs2" "lane_run evs2 l1 = Some l2" "ln_worker l2 = Idle"
      "ln_admitted l2 = ln_admitted l1" "ln_pending l2 = []"
      using drain_idle [OF 1(3)] by blast
    have run: "lane_run (evs1 @ evs2) l = Some l2" using lane_run_append [OF 1(2)] 2(2) by simp
    have "lane_inv b l2" using inv [OF reachable_run [OF assms(2) run]] 1(4) 2(4) assms(4) by simp
    then have "map fst (ln_answered l2) = ln_admitted l" using 1(4) 2 by (simp add: lane_inv_def)
    then show ?thesis using run 1(1) 2(1) False by (intro conjI exI [of _ "evs1 @ evs2"] exI [of _ l2]) simp_all
  qed
qed

theorem lane_answers_all_witness:
  "\<exists>l (evs :: string lane_event list) l'. lane_run demo_events demo_lane = Some l \<and> lane_run evs l = Some l' \<and>
     map fst (ln_answered l') = ln_admitted l"
proof -
  have "case lane_run demo_events demo_lane of None \<Rightarrow> False | Some l \<Rightarrow> sizes_ok (ln_admitted l)"
    by code_simp
  then obtain l where l: "lane_run demo_events demo_lane = Some l" "sizes_ok (ln_admitted l)"
    by (auto split: option.splits)
  have "reachable demo_lane l" using reachable_run [OF reachable.start l(1)] .
  then show ?thesis
    using lane_answers_all [OF demo_lane_new _ _ l(2)] l(1) by (auto simp: demo_budget_def)
qed

text \<open>No false acknowledgement: in a turn whose records settle honestly, a record is told it is
  recorded only if it was prepared and the outcome the batch reported for its own operation
  is durable; a record that failed to prepare gets its own error, and no other record does.\<close>

theorem turn_reports_honest:
  assumes "\<And>it out. tn_settle t it out = Report out" "i < length batch"
  shows "case tn_prepare t (batch ! i) of
      Err e \<Rightarrow> commitRecords t batch ! i = Some e
    | Ok op \<Rightarrow> (let ops = prepared_ops t batch; k = prepared_before t batch i; results = fst (tn_apply t ops) in
        k < length ops \<and> ops ! k = op \<and>
        (commitRecords t batch ! i = None \<longleftrightarrow> k < length results \<and> OutcomeIsDurable (br_Outcome (results ! k))))"
proof (cases "tn_prepare t (batch ! i)")
  case (Inl e)
  then show ?thesis by (simp add: commitRecords_settle settle_all_nth [OF assms(2)])
next
  case (Inr op)
  let ?ops = "prepared_ops t batch"
  have "commitRecords t batch ! i =
      Report (batchOutcome (fst (tn_apply t ?ops)) (prepared_before t batch i) (snd (tn_apply t ?ops)))"
    using Inr assms(1) by (simp add: commitRecords_settle settle_all_nth [OF assms(2)])
  moreover have "Report (batchOutcome results k err) = None \<longleftrightarrow>
      k < length results \<and> OutcomeIsDurable (br_Outcome (results ! k))" for results k err
    by (auto simp: Report_def batchOutcome_def Let_def OutcomeIsDurable_def split: option.splits if_splits)
  ultimately show ?thesis using prepared_ops_nth [OF assms(2) Inr] Inr by (simp add: Let_def)
qed

theorem turn_reports_honest_witness:
  "let t = demo_turn\<lparr>tn_prepare := (\<lambda>it. if it_id it = 1 then Err (Reported ''blob'') else Ok ''op'')\<rparr>;
       batch = [\<lparr>it_id = 1, it_bytes = 10\<rparr>, \<lparr>it_id = 2, it_bytes = 10\<rparr>] in
   commitRecords t batch ! 0 = Some (Reported ''blob'') \<and> commitRecords t batch ! 1 = None"
proof -
  let ?t = "demo_turn\<lparr>tn_prepare := (\<lambda>it. if it_id it = 1 then Err (Reported ''blob'') else Ok ''op'')\<rparr>"
  let ?batch = "[\<lparr>it_id = 1, it_bytes = 10\<rparr>, \<lparr>it_id = 2, it_bytes = 10\<rparr>]"
  have "\<And>it out. tn_settle ?t it out = Report out" by (simp add: demo_turn_def)
  note honest = turn_reports_honest [of ?t, OF this]
  show ?thesis
    using honest [of 0 ?batch] honest [of 1 ?batch]
    by (simp add: Let_def demo_turn_def prepared_ops_def map_filter_def prepared_before_def OutcomeIsDurable_def)
qed

text \<open>C40: the budget derived from a valid profile satisfies every bound the constructor of the lane
  checks, so the lane of the production profile starts; its hold target is below the lock
  wait of the other writers.\<close>

theorem derived_budget_valid:
  assumes "BudgetFromProfile maxBatch p = Ok b"
  shows "budget_ok maxBatch b \<and> is_ok (New_lane maxBatch b) \<and>
    (p_sqliteBusy p < 2 ^ 60 \<longrightarrow> HoldTarget b < p_sqliteBusy p \<and> FlushInterval b < p_hookInvocation p)"
proof -
  have ok: "ordered p" "budget_ok maxBatch b"
    using assms by (auto simp: BudgetFromProfile_def Let_def Validate_iff Budget_Validate_iff split: option.splits)
  have "HoldTarget b \<le> quot (i64 (p_sqliteBusy p * 4)) 5"
    using assms by (auto simp: BudgetFromProfile_def Let_def split: option.splits)
  moreover have "x * 4 div 5 < x" if "0 < x" for x :: int using that by presburger
  then have "quot (i64 (p_sqliteBusy p * 4)) 5 < p_sqliteBusy p" if "p_sqliteBusy p < 2 ^ 60"
    using that ok(1) by (simp add: i64_small quot_def ordered_def)
  moreover have "p_sqliteBusy p < p_hookInvocation p" "FlushInterval b < HoldTarget b"
    using ok by (simp_all add: ordered_def budget_ok_def)
  moreover have "Budget_Validate maxBatch b = None" using ok(2) by (simp add: Budget_Validate_iff)
  ultimately show ?thesis using ok by (auto simp: New_lane_def)
qed

theorem derived_budget_valid_witness:
  "list_all (\<lambda>q. case q of None \<Rightarrow> False | Some p \<Rightarrow>
     (case BudgetFromProfile 256 p of Err _ \<Rightarrow> False | Ok b \<Rightarrow> budget_ok 256 b)) KnownProfiles"
proof -
  have "list_all (\<lambda>q. case q of None \<Rightarrow> False | Some p \<Rightarrow> is_ok (BudgetFromProfile 256 p)) KnownProfiles"
    by code_simp
  then show ?thesis using derived_budget_valid
    by (auto simp: list_all_iff is_ok_def split: option.splits sum.splits)
qed

end
