(* ===== verification/HostVersion.thy ===== *)
theory HostVersion
  imports Prelude "HOL-Library.Char_ord" "HOL-Library.List_Lexorder"
begin

text \<open>
  Host versions (\<^verbatim>\<open>internal/runtime/version.go\<close>): the parser, the canonical spelling,
  semantic-version precedence, and the two shapes of a version constraint, a closed range and
  an open floor.  The lemmas show that the canonical spelling reads back, that precedence is a
  comparison in the sense of the prelude whose ties are exactly the versions that differ in
  build metadata only, and what a constraint admits.  The admission rule of every runtime
  contract and of the OpenCode dispatch rests on them.
\<close>

section \<open>Versions and their parser\<close>

record HostVersion =
  hv_major :: nat
  hv_minor :: nat
  hv_patch :: nat
  hv_prerelease :: "string list"
  hv_build :: "string list"
  hv_parsed :: bool

datatype series_domain = PrereleaseSeries | BuildSeries

datatype version_error =
    PaddedVersion string
  | EmptySeries series_domain
  | EmptyIdentifier series_domain
  | BadIdentifier series_domain string
  | LeadingZeroIdentifier string
  | NotATriple string
  | PaddedComponent string
  | NonNumericComponent string

definition series_char :: "char \<Rightarrow> bool" where
  "series_char r \<longleftrightarrow> r = CHR ''-'' \<or> is_digit r \<or> (97 \<le> (of_char r :: nat) \<and> (of_char r :: nat) \<le> 122)
     \<or> (65 \<le> (of_char r :: nat) \<and> (of_char r :: nat) \<le> 90)"

definition isAllDigits :: "string \<Rightarrow> bool" where
  "isAllDigits s \<longleftrightarrow> list_all is_digit s \<and> s \<noteq> []"

fun check_identifiers :: "series_domain \<Rightarrow> string list \<Rightarrow> version_error + unit" where
  "check_identifiers sd [] = Ok ()"
| "check_identifiers sd (field # parts) =
     (if field = [] then Err (EmptyIdentifier sd)
      else if \<not> list_all series_char field then Err (BadIdentifier sd field)
      else if sd = PrereleaseSeries \<and> length field > 1 \<and> hd field = CHR ''0'' \<and> isAllDigits field
      then Err (LeadingZeroIdentifier field)
      else check_identifiers sd parts)"

definition parseDotSeries :: "string \<Rightarrow> series_domain \<Rightarrow> version_error + string list" where
  "parseDotSeries raw sd =
     (if raw = [] then Err (EmptySeries sd)
      else let parts = Split CHR ''.'' raw in
        result_bind (check_identifiers sd parts) (\<lambda>_. Ok parts))"

fun parse_components :: "string \<Rightarrow> string list \<Rightarrow> version_error + nat list" where
  "parse_components value [] = Ok []"
| "parse_components value (field # parts) =
     (if field = [] \<or> (length field > 1 \<and> hd field = CHR ''0'') then Err (PaddedComponent value)
      else (case ParseUint64 field of
          None \<Rightarrow> Err (NonNumericComponent field)
        | Some n \<Rightarrow> result_bind (parse_components value parts) (\<lambda>ns. Ok (n # ns))))"

definition trim_v :: "string \<Rightarrow> string" where
  "trim_v s = (if HasPrefix s ''v'' then tl s else s)"

definition split_build :: "string \<Rightarrow> version_error + string \<times> string list" where
  "split_build core =
     (case Cut CHR ''+'' core of
        None \<Rightarrow> Ok (core, [])
      | Some (rest, raw) \<Rightarrow> result_bind (parseDotSeries raw BuildSeries) (\<lambda>build. Ok (rest, build)))"

definition split_prerelease :: "string \<Rightarrow> version_error + string \<times> string list" where
  "split_prerelease core =
     (case Cut CHR ''-'' core of
        None \<Rightarrow> Ok (core, [])
      | Some (rest, raw) \<Rightarrow> result_bind (parseDotSeries raw PrereleaseSeries) (\<lambda>pre. Ok (rest, pre)))"

definition ParseHostVersion :: "string \<Rightarrow> version_error + HostVersion" where
  "ParseHostVersion value =
     (if TrimSpace value \<noteq> value \<or> value = [] then Err (PaddedVersion value)
      else case split_build (trim_v value) of
          Err e \<Rightarrow> Err e
        | Ok (core, build) \<Rightarrow>
            (case split_prerelease core of
               Err e \<Rightarrow> Err e
             | Ok (triple, prerelease) \<Rightarrow>
                 (let parts = Split CHR ''.'' triple in
                  if length parts \<noteq> 3 then Err (NotATriple value)
                  else result_bind (parse_components value parts) (\<lambda>numbers.
                    Ok \<lparr>hv_major = numbers ! 0, hv_minor = numbers ! 1, hv_patch = numbers ! 2,
                        hv_prerelease = prerelease, hv_build = build, hv_parsed = True\<rparr>))))"

definition HasPrerelease :: "HostVersion \<Rightarrow> bool" where
  "HasPrerelease v \<longleftrightarrow> hv_prerelease v \<noteq> []"

definition HostVersion_String :: "HostVersion \<Rightarrow> string" where
  "HostVersion_String v =
     (if \<not> hv_parsed v then []
      else join ''.'' [dec_nat (hv_major v), dec_nat (hv_minor v), dec_nat (hv_patch v)]
        @ (if hv_prerelease v \<noteq> [] then ''-'' @ join ''.'' (hv_prerelease v) else [])
        @ (if hv_build v \<noteq> [] then ''+'' @ join ''.'' (hv_build v) else []))"

section \<open>Precedence\<close>

definition compareUint :: "nat \<Rightarrow> nat \<Rightarrow> int" where
  "compareUint a b = (if a < b then -1 else if a > b then 1 else 0)"

text \<open>\<open>strings.Compare\<close>: bytewise lexicographic.\<close>

definition strings_Compare :: "string \<Rightarrow> string \<Rightarrow> int" where
  "strings_Compare a b = (if a < b then -1 else if a > b then 1 else 0)"

definition parseNumericIdentifier :: "string \<Rightarrow> nat option" where
  "parseNumericIdentifier value =
     (if value = [] then None else if \<not> list_all is_digit value then None else ParseUint64 value)"

definition comparePrereleaseIdentifier :: "string \<Rightarrow> string \<Rightarrow> int" where
  "comparePrereleaseIdentifier a b =
     (case (parseNumericIdentifier a, parseNumericIdentifier b) of
        (Some m, Some n) \<Rightarrow> compareUint m n
      | (Some _, None) \<Rightarrow> -1
      | (None, Some _) \<Rightarrow> 1
      | (None, None) \<Rightarrow> strings_Compare a b)"

fun prerelease_loop :: "nat \<Rightarrow> nat \<Rightarrow> string list \<Rightarrow> string list \<Rightarrow> int" where
  "prerelease_loop la lb (x # xs) (y # ys) =
     (let c = comparePrereleaseIdentifier x y in if c \<noteq> 0 then c else prerelease_loop la lb xs ys)"
| "prerelease_loop la lb _ _ = compareUint la lb"

definition comparePrerelease :: "string list \<Rightarrow> string list \<Rightarrow> int" where
  "comparePrerelease a b =
     (if a = [] \<and> b = [] then 0 else if a = [] then 1 else if b = [] then -1
      else prerelease_loop (length a) (length b) a b)"

definition ComparePrecedence :: "HostVersion \<Rightarrow> HostVersion \<Rightarrow> int" where
  "ComparePrecedence a b =
     (let c = compareUint (hv_major a) (hv_major b) in if c \<noteq> 0 then c
      else let c = compareUint (hv_minor a) (hv_minor b) in if c \<noteq> 0 then c
      else let c = compareUint (hv_patch a) (hv_patch b) in if c \<noteq> 0 then c
      else comparePrerelease (hv_prerelease a) (hv_prerelease b))"

section \<open>Constraints\<close>

definition zero_version :: HostVersion where
  "zero_version = \<lparr>hv_major = 0, hv_minor = 0, hv_patch = 0, hv_prerelease = [], hv_build = [], hv_parsed = False\<rparr>"

record VersionConstraint =
  vc_min :: HostVersion
  vc_max :: HostVersion
  vc_includePrereleases :: bool
  vc_floor :: bool
  vc_constructed :: bool

datatype constraint_error = UnparsedBound | EmptyRange HostVersion HostVersion

definition NewVersionFloor :: "HostVersion \<Rightarrow> constraint_error + VersionConstraint" where
  "NewVersionFloor m =
     (if \<not> hv_parsed m then Err UnparsedBound
      else Ok \<lparr>vc_min = m, vc_max = zero_version, vc_includePrereleases = False,
              vc_floor = True, vc_constructed = True\<rparr>)"

definition NewVersionConstraint :: "HostVersion \<Rightarrow> HostVersion \<Rightarrow> bool \<Rightarrow> constraint_error + VersionConstraint" where
  "NewVersionConstraint lo hi includePrereleases =
     (if \<not> hv_parsed lo \<or> \<not> hv_parsed hi then Err UnparsedBound
      else if ComparePrecedence lo hi > 0 then Err (EmptyRange lo hi)
      else Ok \<lparr>vc_min = lo, vc_max = hi, vc_includePrereleases = includePrereleases,
              vc_floor = False, vc_constructed = True\<rparr>)"

definition NewExactVersion :: "HostVersion \<Rightarrow> constraint_error + VersionConstraint" where
  "NewExactVersion version = NewVersionConstraint version version False"

definition HasUpperBound :: "VersionConstraint \<Rightarrow> bool" where
  "HasUpperBound c \<longleftrightarrow> vc_constructed c \<and> \<not> vc_floor c"

definition Allows :: "VersionConstraint \<Rightarrow> HostVersion \<Rightarrow> bool" where
  "Allows c version =
     (if \<not> vc_constructed c \<or> \<not> hv_parsed version then False
      else if HasPrerelease version \<and> \<not> vc_includePrereleases c then False
      else if ComparePrecedence version (vc_min c) < 0 then False
      else if vc_floor c then True
      else ComparePrecedence version (vc_max c) \<le> 0)"

definition Describe :: "VersionConstraint \<Rightarrow> string" where
  "Describe c =
     (if \<not> vc_constructed c then []
      else if vc_floor c then ''at or above '' @ HostVersion_String (vc_min c)
      else if ComparePrecedence (vc_min c) (vc_max c) = 0 then ''exactly '' @ HostVersion_String (vc_min c)
      else ''from '' @ HostVersion_String (vc_min c) @ '' through '' @ HostVersion_String (vc_max c))"

section \<open>Well-formed versions\<close>

text \<open>What the parser guarantees of a version it returns.\<close>

definition wf_prerelease_id :: "string \<Rightarrow> bool" where
  "wf_prerelease_id f \<longleftrightarrow> f \<noteq> [] \<and> list_all series_char f
     \<and> \<not> (length f > 1 \<and> hd f = CHR ''0'' \<and> isAllDigits f)"

definition wf_build_id :: "string \<Rightarrow> bool" where
  "wf_build_id f \<longleftrightarrow> f \<noteq> [] \<and> list_all series_char f"

definition wf_version :: "HostVersion \<Rightarrow> bool" where
  "wf_version v \<longleftrightarrow> hv_parsed v \<and> hv_major v < 2 ^ 64 \<and> hv_minor v < 2 ^ 64 \<and> hv_patch v < 2 ^ 64
     \<and> list_all wf_prerelease_id (hv_prerelease v) \<and> list_all wf_build_id (hv_build v)"

lemma check_identifiers_pre: "check_identifiers PrereleaseSeries fs = Ok () \<longleftrightarrow> list_all wf_prerelease_id fs"
  by (induction fs) (auto simp: wf_prerelease_id_def)

lemma check_identifiers_build: "check_identifiers BuildSeries fs = Ok () \<longleftrightarrow> list_all wf_build_id fs"
  by (induction fs) (auto simp: wf_build_id_def)

lemma series_char_cases:
  "series_char c \<Longrightarrow> c \<noteq> CHR ''.'' \<and> c \<noteq> CHR ''+'' \<and> \<not> is_space c"
  by (auto simp: series_char_def is_digit_def is_space_def Let_def)

lemma digit_series_char: "is_digit c \<Longrightarrow> series_char c"
  by (simp add: series_char_def)

lemma digit_not_dash: "is_digit c \<Longrightarrow> c \<noteq> CHR ''-'' \<and> c \<noteq> CHR ''v''"
  by (auto simp: is_digit_def)

lemma wf_ids_series:
  "wf_prerelease_id f \<Longrightarrow> list_all series_char f" "wf_build_id f \<Longrightarrow> list_all series_char f"
  by (simp_all add: wf_prerelease_id_def wf_build_id_def)

lemma parseDotSeries_Ok:
  "parseDotSeries raw sd = Ok fs \<Longrightarrow> fs \<noteq> [] \<and> join ''.'' fs = raw \<and> check_identifiers sd fs = Ok ()"
  by (auto simp: parseDotSeries_def Let_def join_Split split: if_splits)

lemma parseDotSeries_join:
  assumes "fs \<noteq> []" "\<forall>f\<in>set fs. f \<noteq> [] \<and> list_all series_char f" "check_identifiers sd fs = Ok ()"
  shows "parseDotSeries (join ''.'' fs) sd = Ok fs"
proof -
  have "Split CHR ''.'' (join ''.'' fs) = fs"
    using assms by (intro Split_join) (auto simp: list_all_iff dest: series_char_cases)
  moreover have "join ''.'' fs \<noteq> []"
    using assms by (cases fs rule: remdups_adj.cases) auto
  ultimately show ?thesis using assms by (simp add: parseDotSeries_def)
qed

lemma parse_components_dec:
  "\<forall>n\<in>set ns. n < 2 ^ 64 \<Longrightarrow> parse_components value (map dec_nat ns) = Ok ns"
proof (induction ns)
  case (Cons n ns)
  have "\<not> (length (dec_nat n) > 1 \<and> hd (dec_nat n) = CHR ''0'')"
  proof (induction n rule: dec_nat.induct)
    case (1 n)
    show ?case
    proof (cases "n < 10")
      case True
      then show ?thesis by (subst (1 2) dec_nat.simps) simp
    next
      case False
      then have "hd (dec_nat n) = hd (dec_nat (n div 10))"
        by (subst dec_nat.simps) (simp add: hd_append)
      moreover have "hd (dec_nat (n div 10)) \<noteq> CHR ''0''"
      proof (cases "n div 10 < 10")
        case True
        then have "hd (dec_nat (n div 10)) = digit_char (n div 10)"
          by (subst dec_nat.simps) simp
        moreover have "digit_val (digit_char (n div 10)) \<noteq> 0" using True False by simp
        ultimately show ?thesis using digit_val_0_iff by metis
      next
        case l: False
        then have "length (dec_nat (n div 10)) > 1"
          by (subst dec_nat.simps) (simp add: length_greater_0_conv)
        then show ?thesis using 1 False by blast
      qed
      ultimately show ?thesis by simp
    qed
  qed
  then show ?case using Cons by (simp add: ParseUint64_dec_nat)
qed simp

lemma parse_components_bound:
  "parse_components value fs = Ok ns \<Longrightarrow> length ns = length fs \<and> (\<forall>n\<in>set ns. n < 2 ^ 64)"
  by (induction fs arbitrary: ns)
    (auto simp: ParseUint64_def Let_def split: if_splits option.splits)

section \<open>The canonical spelling reads back\<close>

lemma TrimSpace_no_space: "\<forall>c\<in>set s. \<not> is_space c \<Longrightarrow> TrimSpace s = s"
  by (intro TrimSpace_id) (cases "s = []", auto)

lemma set_join: "c \<in> set (join sep ps) \<Longrightarrow> c \<in> set sep \<or> (\<exists>p\<in>set ps. c \<in> set p)"
  by (induction sep ps rule: join.induct) auto

definition triple_text :: "HostVersion \<Rightarrow> string" where
  "triple_text v = join ''.'' [dec_nat (hv_major v), dec_nat (hv_minor v), dec_nat (hv_patch v)]"

lemma triple_text_chars: "c \<in> set (triple_text v) \<Longrightarrow> is_digit c \<or> c = CHR ''.''"
  by (auto simp: triple_text_def dec_nat_digits)

lemma triple_text_no_sep: "CHR ''-'' \<notin> set (triple_text v)" "CHR ''+'' \<notin> set (triple_text v)"
  using triple_text_chars [of "CHR ''-''" v] triple_text_chars [of "CHR ''+''" v]
  by (auto simp: is_digit_def)

lemma Split_triple: "Split CHR ''.'' (triple_text v) = map dec_nat [hv_major v, hv_minor v, hv_patch v]"
proof -
  have "CHR ''.'' \<notin> set (dec_nat n)" for n using dec_nat_digits by (force simp: is_digit_def)
  then show ?thesis unfolding triple_text_def by (subst Split_join) auto
qed

lemma series_text_chars:
  assumes "\<forall>f\<in>set fs. list_all series_char f" "c \<in> set (join ''.'' fs)"
  shows "c = CHR ''.'' \<or> series_char c"
  using assms(1) set_join [OF assms(2)] by (auto simp: list_all_iff)

lemma series_text_no_plus: "\<forall>f\<in>set fs. list_all series_char f \<Longrightarrow> CHR ''+'' \<notin> set (join ''.'' fs)"
  using series_text_chars [of fs "CHR ''+''"] series_char_cases by auto

lemma series_text_no_space:
  "\<forall>f\<in>set fs. list_all series_char f \<Longrightarrow> c \<in> set (join ''.'' fs) \<Longrightarrow> \<not> is_space c"
  using series_text_chars [of fs c] series_char_cases [of c] by (auto simp: is_space_def)

lemma wf_version_series:
  assumes "wf_version v"
  shows "\<forall>f\<in>set (hv_prerelease v). f \<noteq> [] \<and> list_all series_char f"
    "\<forall>f\<in>set (hv_build v). f \<noteq> [] \<and> list_all series_char f"
  using assms by (auto simp: wf_version_def list_all_iff wf_prerelease_id_def wf_build_id_def)

lemma HostVersion_String_parts:
  "hv_parsed v \<Longrightarrow> HostVersion_String v = triple_text v
     @ (if hv_prerelease v \<noteq> [] then CHR ''-'' # join ''.'' (hv_prerelease v) else [])
     @ (if hv_build v \<noteq> [] then CHR ''+'' # join ''.'' (hv_build v) else [])"
  by (simp add: HostVersion_String_def triple_text_def)

lemma HostVersion_String_head:
  assumes "wf_version v"
  shows "TrimSpace (HostVersion_String v) = HostVersion_String v" "HostVersion_String v \<noteq> []"
    "trim_v (HostVersion_String v) = HostVersion_String v"
proof -
  have p: "hv_parsed v" using assms by (simp add: wf_version_def)
  have "\<not> is_space c" if "c \<in> set (HostVersion_String v)" for c
    using that p wf_version_series [OF assms] triple_text_chars [of c v]
      series_text_no_space [of "hv_prerelease v" c] series_text_no_space [of "hv_build v" c]
    by (auto simp: HostVersion_String_parts is_space_def is_digit_def split: if_splits)
  then show "TrimSpace (HostVersion_String v) = HostVersion_String v" by (simp add: TrimSpace_no_space)
  obtain d ds where d: "dec_nat (hv_major v) = d # ds" by (cases "dec_nat (hv_major v)") auto
  then have "is_digit d" using dec_nat_digits [of d "hv_major v"] by simp
  then show "HostVersion_String v \<noteq> []" "trim_v (HostVersion_String v) = HostVersion_String v"
    using p d digit_not_dash [of d]
    by (auto simp: HostVersion_String_parts triple_text_def trim_v_def HasPrefix_def)
qed

lemma split_build_String:
  assumes wf: "wf_version v"
  shows "split_build (HostVersion_String v) = Ok (triple_text v
    @ (if hv_prerelease v \<noteq> [] then CHR ''-'' # join ''.'' (hv_prerelease v) else []), hv_build v)"
    (is "_ = Ok (?core, _)")
proof -
  note series = wf_version_series [OF wf]
  have noplus: "CHR ''+'' \<notin> set ?core"
    using triple_text_no_sep(2) series(1) series_text_no_plus [of "hv_prerelease v"] by auto
  have s: "HostVersion_String v = ?core @ (if hv_build v \<noteq> [] then CHR ''+'' # join ''.'' (hv_build v) else [])"
    using wf by (simp add: HostVersion_String_parts wf_version_def)
  show ?thesis
  proof (cases "hv_build v = []")
    case True
    then show ?thesis using noplus s Cut_None [of "CHR ''+''" ?core] by (simp add: split_build_def)
  next
    case False
    then have "Cut CHR ''+'' (HostVersion_String v) = Some (?core, join ''.'' (hv_build v))"
      using noplus s unfolding Cut_Some by simp
    moreover have "parseDotSeries (join ''.'' (hv_build v)) BuildSeries = Ok (hv_build v)"
      using False series(2) wf by (intro parseDotSeries_join) (auto simp: check_identifiers_build wf_version_def)
    ultimately show ?thesis by (simp add: split_build_def)
  qed
qed

lemma split_prerelease_String:
  assumes wf: "wf_version v"
  shows "split_prerelease (triple_text v
    @ (if hv_prerelease v \<noteq> [] then CHR ''-'' # join ''.'' (hv_prerelease v) else []))
    = Ok (triple_text v, hv_prerelease v)"
proof (cases "hv_prerelease v = []")
  case True
  then show ?thesis using triple_text_no_sep(1) Cut_None [of "CHR ''-''" "triple_text v"]
    by (simp add: split_prerelease_def)
next
  case False
  then have "Cut CHR ''-'' (triple_text v @ CHR ''-'' # join ''.'' (hv_prerelease v))
      = Some (triple_text v, join ''.'' (hv_prerelease v))"
    using triple_text_no_sep(1) unfolding Cut_Some by simp
  moreover have "parseDotSeries (join ''.'' (hv_prerelease v)) PrereleaseSeries = Ok (hv_prerelease v)"
    using False wf_version_series(1) [OF wf] wf
    by (intro parseDotSeries_join) (auto simp: check_identifiers_pre wf_version_def)
  ultimately show ?thesis using False by (simp add: split_prerelease_def)
qed

lemma ParseHostVersion_String:
  assumes wf: "wf_version v"
  shows "ParseHostVersion (HostVersion_String v) = Ok v"
proof -
  have "parse_components (HostVersion_String v) (map dec_nat [hv_major v, hv_minor v, hv_patch v])
      = Ok [hv_major v, hv_minor v, hv_patch v]"
    using wf by (intro parse_components_dec) (simp add: wf_version_def)
  then show ?thesis
    using HostVersion_String_head [OF wf] split_build_String [OF wf] split_prerelease_String [OF wf] wf
    by (simp add: ParseHostVersion_def Split_triple Let_def wf_version_def del: parse_components.simps)
qed

lemma ParseHostVersion_wf:
  assumes "ParseHostVersion s = Ok v"
  shows "wf_version v"
proof -
  from assms obtain core build triple pre ns where
    b: "split_build (trim_v s) = Ok (core, build)" and p: "split_prerelease core = Ok (triple, pre)"
    and n: "parse_components s (Split CHR ''.'' triple) = Ok ns" "length (Split CHR ''.'' triple) = 3"
    and v: "v = \<lparr>hv_major = ns ! 0, hv_minor = ns ! 1, hv_patch = ns ! 2,
                hv_prerelease = pre, hv_build = build, hv_parsed = True\<rparr>"
    by (auto simp: ParseHostVersion_def Let_def split: if_splits sum.splits)
  have "list_all wf_build_id build"
    using b by (auto simp: split_build_def check_identifiers_build split: option.splits dest!: parseDotSeries_Ok)
  moreover have "list_all wf_prerelease_id pre"
    using p by (auto simp: split_prerelease_def check_identifiers_pre split: option.splits dest!: parseDotSeries_Ok)
  moreover have "ns ! i < 2 ^ 64" if "i < 3" for i
    using parse_components_bound [OF n(1)] n(2) that nth_mem [of i ns] by simp
  ultimately show ?thesis by (simp add: v wf_version_def)
qed

text \<open>Parsing a host version yields a well-formed version, and every well-formed version is read
  back from its canonical spelling unchanged.\<close>

theorem host_version_roundtrip:
  "(ParseHostVersion s = Ok v \<longrightarrow> wf_version v \<and> ParseHostVersion (HostVersion_String v) = Ok v)
   \<and> (wf_version w \<longrightarrow> ParseHostVersion (HostVersion_String w) = Ok w)"
  using ParseHostVersion_wf ParseHostVersion_String by blast

theorem host_version_roundtrip_witness:
  "ParseHostVersion (HostVersion_String \<lparr>hv_major = 2, hv_minor = 0, hv_patch = 20,
      hv_prerelease = [''rc'', ''1''], hv_build = [''abc''], hv_parsed = True\<rparr>)
   = Ok \<lparr>hv_major = 2, hv_minor = 0, hv_patch = 20, hv_prerelease = [''rc'', ''1''],
        hv_build = [''abc''], hv_parsed = True\<rparr>
   \<and> is_ok (ParseHostVersion ''v2.1.261-rc.1+abc'')"
proof -
  have "wf_version \<lparr>hv_major = 2, hv_minor = 0, hv_patch = 20,
      hv_prerelease = [''rc'', ''1''], hv_build = [''abc''], hv_parsed = True\<rparr>"
    by (simp add: wf_version_def wf_prerelease_id_def wf_build_id_def series_char_def is_digit_def)
  moreover have "is_ok (ParseHostVersion ''v2.1.261-rc.1+abc'')" by code_simp
  ultimately show ?thesis using host_version_roundtrip by blast
qed

section \<open>Precedence orders versions\<close>

interpretation uint_cmp: go_comparator compareUint
  by unfold_locales (auto simp: compareUint_def split: if_splits)

interpretation string_cmp: go_comparator strings_Compare
  by unfold_locales (auto simp: strings_Compare_def split: if_splits)

lemma compareUint_0 [simp]: "compareUint m n = 0 \<longleftrightarrow> m = n"
  by (auto simp: compareUint_def)

lemma strings_Compare_0 [simp]: "strings_Compare a b = 0 \<longleftrightarrow> a = b"
  by (auto simp: strings_Compare_def)

interpretation ident_cmp: go_comparator comparePrereleaseIdentifier
proof
  fix x y z :: string
  show "comparePrereleaseIdentifier x y = -1 \<or> comparePrereleaseIdentifier x y = 0 \<or> comparePrereleaseIdentifier x y = 1"
    using uint_cmp.cmp_range string_cmp.cmp_range [of x y]
    by (auto simp: comparePrereleaseIdentifier_def split: option.splits)
  show "comparePrereleaseIdentifier y x = - comparePrereleaseIdentifier x y"
    using string_cmp.cmp_swap [of y x]
    by (auto simp: comparePrereleaseIdentifier_def compareUint_def split: option.splits)
  show "comparePrereleaseIdentifier x y \<le> 0 \<Longrightarrow> comparePrereleaseIdentifier y z \<le> 0
      \<Longrightarrow> comparePrereleaseIdentifier x z \<le> 0"
    using string_cmp.cmp_le_trans [of x y z]
    by (auto simp: comparePrereleaseIdentifier_def compareUint_def split: option.splits if_splits)
qed

text \<open>The index loop with its final comparison of lengths is the lexicographic comparison in
  which a proper prefix is smaller.\<close>

fun lex_idents :: "string list \<Rightarrow> string list \<Rightarrow> int" where
  "lex_idents [] [] = 0"
| "lex_idents [] (_ # _) = -1"
| "lex_idents (_ # _) [] = 1"
| "lex_idents (x # xs) (y # ys) =
     (if comparePrereleaseIdentifier x y \<noteq> 0 then comparePrereleaseIdentifier x y else lex_idents xs ys)"

lemma prerelease_loop_lex: "prerelease_loop (k + length a) (k + length b) a b = lex_idents a b"
proof (induction a b arbitrary: k rule: lex_idents.induct)
  case (4 x xs y ys)
  then show ?case using "4.IH" [of "Suc k"] by (simp add: Let_def)
qed (simp_all add: compareUint_def)

interpretation idents_cmp: go_comparator lex_idents
proof
  fix x y z :: "string list"
  show "lex_idents x y = -1 \<or> lex_idents x y = 0 \<or> lex_idents x y = 1"
    by (induction x y rule: lex_idents.induct) (use ident_cmp.cmp_range in auto)
  show "lex_idents y x = - lex_idents x y"
  proof (induction x y rule: lex_idents.induct)
    case (4 x xs y ys)
    then show ?case using ident_cmp.cmp_swap [of x y] by simp
  qed simp_all
  show "lex_idents x y \<le> 0 \<Longrightarrow> lex_idents y z \<le> 0 \<Longrightarrow> lex_idents x z \<le> 0"
  proof (induction x y arbitrary: z rule: lex_idents.induct)
    case (2 y ys)
    then show ?case by (cases z) auto
  next
    case (4 x xs y ys)
    obtain w ws where z: "z = w # ws" using "4.prems"(2) by (cases z) auto
    consider "comparePrereleaseIdentifier x y = -1" | "comparePrereleaseIdentifier x y = 0"
      using "4.prems"(1) ident_cmp.cmp_range [of x y] by auto
    then show ?case
    proof cases
      case 1
      then have "comparePrereleaseIdentifier x w = -1"
        using "4.prems"(2) z by (intro ident_cmp.cmp_less_trans [of x y w]) (auto split: if_splits)
      then show ?thesis by (simp add: z)
    next
      case 2
      then have "comparePrereleaseIdentifier x w = comparePrereleaseIdentifier y w"
        by (rule ident_cmp.cmp_eq_left)
      then show ?thesis using 2 4 z by (auto split: if_splits)
    qed
  qed auto
qed

definition pre_rank :: "string list \<Rightarrow> nat" where
  "pre_rank a = (if a = [] then 1 else 0)"

lemma comparePrerelease_lex:
  "comparePrerelease = lex_cmp (\<lambda>a b. compareUint (pre_rank a) (pre_rank b)) lex_idents"
proof (intro ext)
  fix a b
  show "comparePrerelease a b = lex_cmp (\<lambda>a b. compareUint (pre_rank a) (pre_rank b)) lex_idents a b"
    using prerelease_loop_lex [of 0 a b]
    by (auto simp: comparePrerelease_def lex_cmp_def pre_rank_def compareUint_def)
qed

interpretation pre_pair: comparator_pair "\<lambda>a b. compareUint (pre_rank a) (pre_rank b)" lex_idents
  by (rule comparator_pair.intro [OF go_comparator_key [OF uint_cmp.go_comparator_axioms]
        idents_cmp.go_comparator_axioms])

interpretation pre_cmp: go_comparator comparePrerelease
  unfolding comparePrerelease_lex by (rule pre_pair.lex_comparator)

lemma ComparePrecedence_lex:
  "ComparePrecedence = lex_cmp (\<lambda>a b. compareUint (hv_major a) (hv_major b))
     (lex_cmp (\<lambda>a b. compareUint (hv_minor a) (hv_minor b))
     (lex_cmp (\<lambda>a b. compareUint (hv_patch a) (hv_patch b))
     (\<lambda>a b. comparePrerelease (hv_prerelease a) (hv_prerelease b))))"
  by (intro ext) (simp add: ComparePrecedence_def lex_cmp_def Let_def)

lemma lex_uint_key: "go_comparator d \<Longrightarrow> go_comparator (lex_cmp (\<lambda>a b. compareUint (f a) (f b)) d)"
  by (rule comparator_pair.lex_comparator
      [OF comparator_pair.intro [OF go_comparator_key [OF uint_cmp.go_comparator_axioms]]])

interpretation precedence: go_comparator ComparePrecedence
  unfolding ComparePrecedence_lex
  by (intro lex_uint_key) (rule go_comparator_key [OF pre_cmp.go_comparator_axioms])

section \<open>Ties\<close>

lemma wf_numeric_canonical:
  "wf_prerelease_id f \<Longrightarrow> parseNumericIdentifier f = Some n \<Longrightarrow> dec_nat n = f"
proof -
  assume wf: "wf_prerelease_id f" and p: "parseNumericIdentifier f = Some n"
  have "canonical_digits f"
    using wf p by (auto simp: wf_prerelease_id_def canonical_digits_def isAllDigits_def
        parseNumericIdentifier_def split: if_splits)
  moreover have "n = nat (digits_value f)"
    using p by (auto simp: parseNumericIdentifier_def ParseUint64_def Let_def split: if_splits)
  ultimately show ?thesis by (simp add: dec_nat_digits_value)
qed

lemma ident_tie:
  "wf_prerelease_id f \<Longrightarrow> wf_prerelease_id g \<Longrightarrow> comparePrereleaseIdentifier f g = 0 \<longleftrightarrow> f = g"
proof -
  assume wf: "wf_prerelease_id f" "wf_prerelease_id g"
  show ?thesis
  proof
    assume "comparePrereleaseIdentifier f g = 0"
    then show "f = g"
      using wf wf_numeric_canonical [of f] wf_numeric_canonical [of g]
      by (auto simp: comparePrereleaseIdentifier_def split: option.splits)
  qed simp
qed

lemma idents_tie:
  "list_all wf_prerelease_id a \<Longrightarrow> list_all wf_prerelease_id b \<Longrightarrow> lex_idents a b = 0 \<longleftrightarrow> a = b"
  by (induction a b rule: lex_idents.induct) (auto simp: ident_tie)

lemma prerelease_tie:
  "list_all wf_prerelease_id a \<Longrightarrow> list_all wf_prerelease_id b \<Longrightarrow> comparePrerelease a b = 0 \<longleftrightarrow> a = b"
  by (auto simp: comparePrerelease_lex lex_cmp_def idents_tie pre_rank_def split: if_splits)

text \<open>Precedence is a total preorder on all versions, and two parsed versions tie exactly when
  they differ in build metadata only; a prerelease comes before its release.\<close>

theorem host_version_precedence:
  "ComparePrecedence b a = - ComparePrecedence a b
   \<and> (ComparePrecedence a b \<le> 0 \<longrightarrow> ComparePrecedence b c \<le> 0 \<longrightarrow> ComparePrecedence a c \<le> 0)
   \<and> (wf_version a \<longrightarrow> wf_version b \<longrightarrow>
       (ComparePrecedence a b = 0 \<longleftrightarrow> a\<lparr>hv_build := hv_build b\<rparr> = b))
   \<and> (hv_prerelease a \<noteq> [] \<longrightarrow> ComparePrecedence a (a\<lparr>hv_prerelease := []\<rparr>) = -1)"
proof (intro conjI impI)
  show "ComparePrecedence b a = - ComparePrecedence a b" by (rule precedence.cmp_swap)
  show "ComparePrecedence a b \<le> 0 \<Longrightarrow> ComparePrecedence b c \<le> 0 \<Longrightarrow> ComparePrecedence a c \<le> 0"
    by (rule precedence.cmp_le_trans)
  show "ComparePrecedence a b = 0 \<longleftrightarrow> a\<lparr>hv_build := hv_build b\<rparr> = b" if "wf_version a" "wf_version b"
    using that prerelease_tie [of "hv_prerelease a" "hv_prerelease b"]
    by (cases a; cases b) (auto simp: ComparePrecedence_def wf_version_def Let_def split: if_splits)
  show "ComparePrecedence a (a\<lparr>hv_prerelease := []\<rparr>) = -1" if "hv_prerelease a \<noteq> []"
    using that by (simp add: ComparePrecedence_def comparePrerelease_def Let_def)
qed

theorem host_version_precedence_witness:
  "case (ParseHostVersion ''2.0.20-rc.2'', ParseHostVersion ''2.0.20-rc.10'', ParseHostVersion ''2.0.20+x'') of
     (Ok a, Ok b, Ok c) \<Rightarrow> ComparePrecedence a b = -1 \<and> ComparePrecedence b c \<le> 0 \<and> ComparePrecedence a c \<le> 0
   | _ \<Rightarrow> False"
proof -
  let ?v = "\<lambda>p b. \<lparr>hv_major = 2, hv_minor = 0, hv_patch = 20, hv_prerelease = p, hv_build = b, hv_parsed = True\<rparr>"
  have p: "ParseHostVersion ''2.0.20-rc.2'' = Ok (?v [''rc'', ''2''] [])"
    "ParseHostVersion ''2.0.20-rc.10'' = Ok (?v [''rc'', ''10''] [])"
    "ParseHostVersion ''2.0.20+x'' = Ok (?v [] [''x''])"
    by code_simp+
  have c: "ComparePrecedence (?v [''rc'', ''2''] []) (?v [''rc'', ''10''] []) = -1"
    "ComparePrecedence (?v [''rc'', ''10''] []) (?v [] [''x'']) = -1"
    by code_simp+
  have "ComparePrecedence (?v [''rc'', ''2''] []) (?v [] [''x'']) \<le> 0"
    using host_version_precedence [where a = "?v [''rc'', ''2''] []" and b = "?v [''rc'', ''10''] []" and c = "?v [] [''x'']"] c
    by simp
  then show ?thesis using p c by simp
qed

text \<open>Numeric prerelease identifiers beyond 64 bits are compared as text, where semantic versioning
  compares them as numbers.\<close>

theorem huge_numeric_prerelease_misordered:
  "comparePrereleaseIdentifier ''99999999999999999999'' ''100000000000000000000'' = 1
   \<and> digits_value ''99999999999999999999'' < digits_value ''100000000000000000000''"
  by code_simp

section \<open>Admission\<close>

lemma Allows_floor:
  "NewVersionFloor m = Ok c \<Longrightarrow>
     Allows c v \<longleftrightarrow> hv_parsed v \<and> \<not> HasPrerelease v \<and> ComparePrecedence m v \<le> 0"
  using precedence.cmp_swap [of v m] by (auto simp: NewVersionFloor_def Allows_def split: if_splits)

lemma Allows_range:
  "NewVersionConstraint lo hi pre = Ok c \<Longrightarrow>
     Allows c v \<longleftrightarrow> hv_parsed v \<and> (HasPrerelease v \<longrightarrow> pre)
       \<and> ComparePrecedence lo v \<le> 0 \<and> ComparePrecedence v hi \<le> 0"
  using precedence.cmp_swap [of v lo] by (auto simp: NewVersionConstraint_def Allows_def split: if_splits)

lemma ComparePrecedence_build: "ComparePrecedence (v\<lparr>hv_build := b\<rparr>) w = ComparePrecedence v w"
  by (simp add: ComparePrecedence_lex lex_cmp_def)

lemma Allows_ignores_build: "Allows c (v\<lparr>hv_build := b\<rparr>) = Allows c v"
  by (simp add: Allows_def ComparePrecedence_build HasPrerelease_def)

text \<open>A floor admits its own release and every later release, and no prerelease; a closed range
  admits its bounds and everything between; build metadata never changes an admission.\<close>

theorem version_admission:
  assumes "NewVersionFloor m = Ok c" "NewVersionConstraint lo hi pre = Ok r"
  shows "(\<not> HasPrerelease m \<longrightarrow> Allows c m)
    \<and> (Allows c v \<longrightarrow> ComparePrecedence v w \<le> 0 \<longrightarrow> hv_parsed w \<longrightarrow> \<not> HasPrerelease w \<longrightarrow> Allows c w)
    \<and> (HasPrerelease v \<longrightarrow> \<not> Allows c v)
    \<and> ((HasPrerelease lo \<or> HasPrerelease hi \<longrightarrow> pre) \<longrightarrow> Allows r lo \<and> Allows r hi)
    \<and> (Allows r u \<longrightarrow> Allows r w \<longrightarrow> hv_parsed v \<longrightarrow> (HasPrerelease v \<longrightarrow> pre) \<longrightarrow>
        ComparePrecedence u v \<le> 0 \<longrightarrow> ComparePrecedence v w \<le> 0 \<longrightarrow> Allows r v)
    \<and> Allows c (v\<lparr>hv_build := b\<rparr>) = Allows c v \<and> Allows r (v\<lparr>hv_build := b\<rparr>) = Allows r v"
proof -
  have m: "hv_parsed m" "hv_parsed lo" "hv_parsed hi" "ComparePrecedence lo hi \<le> 0"
    using assms by (auto simp: NewVersionFloor_def NewVersionConstraint_def split: if_splits)
  note a = Allows_floor [OF assms(1)] and r = Allows_range [OF assms(2)]
  show ?thesis
    using m precedence.cmp_le_trans [of m v w] precedence.cmp_le_trans [of lo u v]
      precedence.cmp_le_trans [of v w hi]
    unfolding Allows_ignores_build by (auto simp: a r)
qed

theorem version_admission_witness:
  "\<exists>c r m v. NewVersionFloor m = Ok c \<and> NewVersionConstraint m v False = Ok r
     \<and> m = \<lparr>hv_major = 2, hv_minor = 0, hv_patch = 20, hv_prerelease = [], hv_build = [], hv_parsed = True\<rparr>
     \<and> v = \<lparr>hv_major = 3, hv_minor = 1, hv_patch = 0, hv_prerelease = [], hv_build = [], hv_parsed = True\<rparr>
     \<and> Allows c m \<and> Allows c v \<and> Allows r v"
proof -
  let ?m = "\<lparr>hv_major = 2, hv_minor = 0, hv_patch = 20, hv_prerelease = [], hv_build = [], hv_parsed = True\<rparr>"
  let ?v = "\<lparr>hv_major = 3, hv_minor = 1, hv_patch = 0, hv_prerelease = [], hv_build = [], hv_parsed = True\<rparr>"
  have o: "ComparePrecedence ?m ?v = -1" by (simp add: ComparePrecedence_def compareUint_def)
  obtain c where c: "NewVersionFloor ?m = Ok c" by (auto simp: NewVersionFloor_def)
  obtain r where r: "NewVersionConstraint ?m ?v False = Ok r" using o by (auto simp: NewVersionConstraint_def)
  have "Allows c ?m" "Allows c ?v" "Allows r ?v"
    using version_admission [OF c r, of ?m ?v] o by (auto simp: HasPrerelease_def)
  then show ?thesis using c r by blast
qed

end
