(* ===== verification/LifecycleRuntime.thy ===== *)
theory LifecycleRuntime
  imports HostVersion
begin

text \<open>
  The vocabulary of native lifecycle events (\<^verbatim>\<open>internal/runtime/lifecycle.go\<close>): the closed
  enumerations that classify a host event, the mapping record that a runtime contract holds for
  each event, its validation, the response capability derived from cited evidence, and the
  construction of a lifecycle contract from a table of mappings.

  An enumeration over \<^verbatim>\<open>uint8\<close> is a datatype with the declared constants and one constructor
  for every other value of the type; its argument \<open>0\<close> is the zero value.  The lemmas show what a
  validated mapping guarantees: which rows can refuse an operation, that a refusal by exit code
  always cites evidence, and that the capability in a contract is the derived one.
\<close>

section \<open>Enumerations\<close>

text \<open>The interface of an enumeration with canonical tokens: the valid values are the listed ones
  and their tokens are pairwise distinct, so that a token identifies its value.\<close>

locale token_enum =
  fixes valid :: "'a \<Rightarrow> bool" and token :: "'a \<Rightarrow> string" and members :: "'a list"
  assumes valid_iff: "valid x \<longleftrightarrow> x \<in> set members"
    and distinct_tokens: "distinct (map token members)"
begin

lemma token_inj: "valid x \<Longrightarrow> valid y \<Longrightarrow> token x = token y \<longleftrightarrow> x = y"
  using distinct_tokens by (auto simp: valid_iff distinct_map inj_on_def)

lemma find_token: "valid x \<Longrightarrow> find (\<lambda>y. token y = token x) members = Some x"
proof -
  assume v: "valid x"
  have "find (\<lambda>y. token y = token x) ms = Some x"
    if "x \<in> set ms" "\<forall>y\<in>set ms. valid y" for ms
    using that v by (induction ms) (auto simp: token_inj)
  then show ?thesis using v by (simp add: valid_iff)
qed

end

text \<open>Harnesses are named strings.\<close>

type_synonym Harness = string

definition HarnessClaudeCode :: Harness where "HarnessClaudeCode = ''claude-code''"
definition HarnessOpenCode :: Harness where "HarnessOpenCode = ''opencode''"
definition HarnessCodex :: Harness where "HarnessCodex = ''codex''"

lemmas harness_defs = HarnessClaudeCode_def HarnessOpenCode_def HarnessCodex_def

definition Harness_IsValid :: "Harness \<Rightarrow> bool" where
  "Harness_IsValid h \<longleftrightarrow> h = HarnessClaudeCode \<or> h = HarnessOpenCode \<or> h = HarnessCodex"

datatype EventSemantic = SemanticObservation | SemanticGateConsultation | SemanticExplicitHumanResponse | EventSemantic_value nat

fun EventSemantic_IsValid :: "EventSemantic \<Rightarrow> bool" where
  "EventSemantic_IsValid (EventSemantic_value _) = False"
| "EventSemantic_IsValid _ = True"

fun EventSemantic_String :: "EventSemantic \<Rightarrow> string" where
  "EventSemantic_String SemanticObservation = ''observation''"
| "EventSemantic_String SemanticGateConsultation = ''gate-consultation''"
| "EventSemantic_String SemanticExplicitHumanResponse = ''explicit-human-response''"
| "EventSemantic_String (EventSemantic_value _) = []"

interpretation es_tokens: token_enum EventSemantic_IsValid EventSemantic_String "[SemanticObservation, SemanticGateConsultation, SemanticExplicitHumanResponse]"
proof
  show "EventSemantic_IsValid x \<longleftrightarrow> x \<in> set [SemanticObservation, SemanticGateConsultation, SemanticExplicitHumanResponse]" for x by (cases x) auto
qed auto

datatype HookSurface = SurfaceClaudeCommandJSON | SurfaceCodexStrictCommandJSON | SurfaceOpenCodeNamedOutput | SurfaceOpenCodeCatchAllSSE | HookSurface_value nat

fun HookSurface_IsValid :: "HookSurface \<Rightarrow> bool" where
  "HookSurface_IsValid (HookSurface_value _) = False"
| "HookSurface_IsValid _ = True"

fun HookSurface_String :: "HookSurface \<Rightarrow> string" where
  "HookSurface_String SurfaceClaudeCommandJSON = ''claude-command-json''"
| "HookSurface_String SurfaceCodexStrictCommandJSON = ''codex-strict-command-json''"
| "HookSurface_String SurfaceOpenCodeNamedOutput = ''opencode-named-output''"
| "HookSurface_String SurfaceOpenCodeCatchAllSSE = ''opencode-catch-all-sse''"
| "HookSurface_String (HookSurface_value _) = []"

interpretation hs_tokens: token_enum HookSurface_IsValid HookSurface_String "[SurfaceClaudeCommandJSON, SurfaceCodexStrictCommandJSON, SurfaceOpenCodeNamedOutput, SurfaceOpenCodeCatchAllSSE]"
proof
  show "HookSurface_IsValid x \<longleftrightarrow> x \<in> set [SurfaceClaudeCommandJSON, SurfaceCodexStrictCommandJSON, SurfaceOpenCodeNamedOutput, SurfaceOpenCodeCatchAllSSE]" for x by (cases x) auto
qed auto

datatype BlockingMode = NonBlocking | Blocking | ConditionallyBlocking | BlockingMode_value nat

fun BlockingMode_IsValid :: "BlockingMode \<Rightarrow> bool" where
  "BlockingMode_IsValid (BlockingMode_value _) = False"
| "BlockingMode_IsValid _ = True"

fun BlockingMode_String :: "BlockingMode \<Rightarrow> string" where
  "BlockingMode_String NonBlocking = ''nonblocking''"
| "BlockingMode_String Blocking = ''blocking''"
| "BlockingMode_String ConditionallyBlocking = ''conditionally-blocking''"
| "BlockingMode_String (BlockingMode_value _) = []"

interpretation bm_tokens: token_enum BlockingMode_IsValid BlockingMode_String "[NonBlocking, Blocking, ConditionallyBlocking]"
proof
  show "BlockingMode_IsValid x \<longleftrightarrow> x \<in> set [NonBlocking, Blocking, ConditionallyBlocking]" for x by (cases x) auto
qed auto

datatype MutationMode = MutationNone | MutationInput | MutationOutput | MutationOutputObject | MutationMode_value nat

fun MutationMode_IsValid :: "MutationMode \<Rightarrow> bool" where
  "MutationMode_IsValid (MutationMode_value _) = False"
| "MutationMode_IsValid _ = True"

fun MutationMode_String :: "MutationMode \<Rightarrow> string" where
  "MutationMode_String MutationNone = ''none''"
| "MutationMode_String MutationInput = ''input''"
| "MutationMode_String MutationOutput = ''output''"
| "MutationMode_String MutationOutputObject = ''output-object''"
| "MutationMode_String (MutationMode_value _) = []"

interpretation mm_tokens: token_enum MutationMode_IsValid MutationMode_String "[MutationNone, MutationInput, MutationOutput, MutationOutputObject]"
proof
  show "MutationMode_IsValid x \<longleftrightarrow> x \<in> set [MutationNone, MutationInput, MutationOutput, MutationOutputObject]" for x by (cases x) auto
qed auto

datatype HandlerOrder = OrderConcurrentNative | OrderSequentialLoad | OrderObservationStream | HandlerOrder_value nat

fun HandlerOrder_IsValid :: "HandlerOrder \<Rightarrow> bool" where
  "HandlerOrder_IsValid (HandlerOrder_value _) = False"
| "HandlerOrder_IsValid _ = True"

fun HandlerOrder_String :: "HandlerOrder \<Rightarrow> string" where
  "HandlerOrder_String OrderConcurrentNative = ''concurrent-native''"
| "HandlerOrder_String OrderSequentialLoad = ''sequential-load-order''"
| "HandlerOrder_String OrderObservationStream = ''observation-stream''"
| "HandlerOrder_String (HandlerOrder_value _) = []"

interpretation ho_tokens: token_enum HandlerOrder_IsValid HandlerOrder_String "[OrderConcurrentNative, OrderSequentialLoad, OrderObservationStream]"
proof
  show "HandlerOrder_IsValid x \<longleftrightarrow> x \<in> set [OrderConcurrentNative, OrderSequentialLoad, OrderObservationStream]" for x by (cases x) auto
qed auto

datatype ReconciliationMode = ReconcileNone | ReconcileHostNative | ReconcileNoAdapterMerge | ReconcileSequentialMutation | ReconciliationMode_value nat

fun ReconciliationMode_IsValid :: "ReconciliationMode \<Rightarrow> bool" where
  "ReconciliationMode_IsValid (ReconciliationMode_value _) = False"
| "ReconciliationMode_IsValid _ = True"

fun ReconciliationMode_String :: "ReconciliationMode \<Rightarrow> string" where
  "ReconciliationMode_String ReconcileNone = ''none''"
| "ReconciliationMode_String ReconcileHostNative = ''host-native''"
| "ReconciliationMode_String ReconcileNoAdapterMerge = ''no-adapter-merge''"
| "ReconciliationMode_String ReconcileSequentialMutation = ''sequential-mutation''"
| "ReconciliationMode_String (ReconciliationMode_value _) = []"

interpretation rm_tokens: token_enum ReconciliationMode_IsValid ReconciliationMode_String "[ReconcileNone, ReconcileHostNative, ReconcileNoAdapterMerge, ReconcileSequentialMutation]"
proof
  show "ReconciliationMode_IsValid x \<longleftrightarrow> x \<in> set [ReconcileNone, ReconcileHostNative, ReconcileNoAdapterMerge, ReconcileSequentialMutation]" for x by (cases x) auto
qed auto

datatype FailureMode = FailureReportAndContinue | FailureExitTwoBlocks | FailureStrictHook | FailureStrictExitTwoBlocks | FailureThrowFailFast | FailureObserveOnly | FailureMode_value nat

fun FailureMode_IsValid :: "FailureMode \<Rightarrow> bool" where
  "FailureMode_IsValid (FailureMode_value _) = False"
| "FailureMode_IsValid _ = True"

fun FailureMode_String :: "FailureMode \<Rightarrow> string" where
  "FailureMode_String FailureReportAndContinue = ''report-and-continue''"
| "FailureMode_String FailureExitTwoBlocks = ''exit-2-blocks''"
| "FailureMode_String FailureStrictHook = ''strict-hook-failure''"
| "FailureMode_String FailureStrictExitTwoBlocks = ''strict-output-exit-2-blocks''"
| "FailureMode_String FailureThrowFailFast = ''throw-fail-fast''"
| "FailureMode_String FailureObserveOnly = ''observe-only''"
| "FailureMode_String (FailureMode_value _) = []"

interpretation fm_tokens: token_enum FailureMode_IsValid FailureMode_String "[FailureReportAndContinue, FailureExitTwoBlocks, FailureStrictHook, FailureStrictExitTwoBlocks, FailureThrowFailFast, FailureObserveOnly]"
proof
  show "FailureMode_IsValid x \<longleftrightarrow> x \<in> set [FailureReportAndContinue, FailureExitTwoBlocks, FailureStrictHook, FailureStrictExitTwoBlocks, FailureThrowFailFast, FailureObserveOnly]" for x by (cases x) auto
qed auto

datatype StopLoopPolicy = StopLoopNotApplicable | StopLoopConsultWhenInactive | StopLoopPolicy_value nat

fun StopLoopPolicy_IsValid :: "StopLoopPolicy \<Rightarrow> bool" where
  "StopLoopPolicy_IsValid (StopLoopPolicy_value _) = False"
| "StopLoopPolicy_IsValid _ = True"

fun StopLoopPolicy_String :: "StopLoopPolicy \<Rightarrow> string" where
  "StopLoopPolicy_String StopLoopNotApplicable = ''not-applicable''"
| "StopLoopPolicy_String StopLoopConsultWhenInactive = ''consult-when-inactive''"
| "StopLoopPolicy_String (StopLoopPolicy_value _) = []"

interpretation slp_tokens: token_enum StopLoopPolicy_IsValid StopLoopPolicy_String "[StopLoopNotApplicable, StopLoopConsultWhenInactive]"
proof
  show "StopLoopPolicy_IsValid x \<longleftrightarrow> x \<in> set [StopLoopNotApplicable, StopLoopConsultWhenInactive]" for x by (cases x) auto
qed auto

datatype NativeIdentityKind = IdentitySession | IdentityTurn | IdentityRequest | IdentityToolCall | IdentityAgent | IdentityMessage | NativeIdentityKind_value nat

fun NativeIdentityKind_IsValid :: "NativeIdentityKind \<Rightarrow> bool" where
  "NativeIdentityKind_IsValid (NativeIdentityKind_value _) = False"
| "NativeIdentityKind_IsValid _ = True"

fun NativeIdentityKind_String :: "NativeIdentityKind \<Rightarrow> string" where
  "NativeIdentityKind_String IdentitySession = ''session''"
| "NativeIdentityKind_String IdentityTurn = ''turn''"
| "NativeIdentityKind_String IdentityRequest = ''request''"
| "NativeIdentityKind_String IdentityToolCall = ''tool-call''"
| "NativeIdentityKind_String IdentityAgent = ''agent''"
| "NativeIdentityKind_String IdentityMessage = ''message''"
| "NativeIdentityKind_String (NativeIdentityKind_value _) = []"

interpretation nik_tokens: token_enum NativeIdentityKind_IsValid NativeIdentityKind_String "[IdentitySession, IdentityTurn, IdentityRequest, IdentityToolCall, IdentityAgent, IdentityMessage]"
proof
  show "NativeIdentityKind_IsValid x \<longleftrightarrow> x \<in> set [IdentitySession, IdentityTurn, IdentityRequest, IdentityToolCall, IdentityAgent, IdentityMessage]" for x by (cases x) auto
qed auto

datatype ResponseCapability = CapabilityUnset | CapabilityNone | CapabilityDeny | CapabilityDenyAsk | ResponseCapability_value nat

fun ResponseCapability_IsValid :: "ResponseCapability \<Rightarrow> bool" where
  "ResponseCapability_IsValid CapabilityUnset = False"
| "ResponseCapability_IsValid (ResponseCapability_value _) = False"
| "ResponseCapability_IsValid _ = True"

fun ResponseCapability_String :: "ResponseCapability \<Rightarrow> string" where
  "ResponseCapability_String CapabilityUnset = ''unset''"
| "ResponseCapability_String CapabilityNone = ''none''"
| "ResponseCapability_String CapabilityDeny = ''deny''"
| "ResponseCapability_String CapabilityDenyAsk = ''deny-ask''"
| "ResponseCapability_String (ResponseCapability_value _) = []"

interpretation rc_tokens: token_enum ResponseCapability_IsValid ResponseCapability_String "[CapabilityNone, CapabilityDeny, CapabilityDenyAsk]"
proof
  show "ResponseCapability_IsValid x \<longleftrightarrow> x \<in> set [CapabilityNone, CapabilityDeny, CapabilityDenyAsk]" for x by (cases x) auto
qed auto

definition AllowsDeny :: "ResponseCapability \<Rightarrow> bool" where
  "AllowsDeny c \<longleftrightarrow> c = CapabilityDeny \<or> c = CapabilityDenyAsk"

definition AllowsAsk :: "ResponseCapability \<Rightarrow> bool" where
  "AllowsAsk c \<longleftrightarrow> c = CapabilityDenyAsk"

definition BlocksByExitCode :: "FailureMode \<Rightarrow> bool" where
  "BlocksByExitCode m \<longleftrightarrow> m = FailureExitTwoBlocks \<or> m = FailureStrictExitTwoBlocks"

section \<open>Evidence\<close>

text \<open>A citation, empty when there is none.\<close>

record FailureEvidence = fe_Source :: string

definition Evidence_IsPresent :: "FailureEvidence \<Rightarrow> bool" where
  "Evidence_IsPresent e \<longleftrightarrow> TrimSpace (fe_Source e) \<noteq> []"

definition no_evidence :: FailureEvidence where
  "no_evidence = \<lparr>fe_Source = []\<rparr>"

lemma no_evidence_absent [simp]: "\<not> Evidence_IsPresent no_evidence"
  by (simp add: Evidence_IsPresent_def no_evidence_def TrimSpace_def)

definition evidenceBoundFailure :: "BlockingMode \<Rightarrow> FailureEvidence \<Rightarrow> FailureMode \<Rightarrow> FailureMode \<Rightarrow> FailureMode" where
  "evidenceBoundFailure blocking evidence blockingArm nonBlockingArm =
     (if blocking = NonBlocking then nonBlockingArm
      else if \<not> Evidence_IsPresent evidence then FailureReportAndContinue
      else blockingArm)"

definition declaredFailureArm :: "BlockingMode \<Rightarrow> FailureMode \<Rightarrow> FailureMode \<Rightarrow> FailureMode" where
  "declaredFailureArm blocking blockingArm nonBlockingArm =
     (if blocking = NonBlocking then nonBlockingArm else blockingArm)"

section \<open>Event mappings\<close>

record NativeIdentityField =
  nif_kind :: NativeIdentityKind
  nif_nativeName :: string
  nif_required :: bool

definition nativeIdentity :: "NativeIdentityKind \<Rightarrow> string \<Rightarrow> bool \<Rightarrow> NativeIdentityField" where
  "nativeIdentity kind nativeName required = \<lparr>nif_kind = kind, nif_nativeName = nativeName, nif_required = required\<rparr>"

definition NativeIdentityField_IsValid :: "NativeIdentityField \<Rightarrow> bool" where
  "NativeIdentityField_IsValid f \<longleftrightarrow> NativeIdentityKind_IsValid (nif_kind f) \<and> nif_nativeName f \<noteq> []
     \<and> TrimSpace (nif_nativeName f) = nif_nativeName f"

record LifecycleEventMapping =
  lm_nativeName :: string
  lm_semantic :: EventSemantic
  lm_surface :: HookSurface
  lm_blocking :: BlockingMode
  lm_identities :: "NativeIdentityField list"
  lm_unresolved :: "NativeIdentityKind list"
  lm_mutation :: MutationMode
  lm_order :: HandlerOrder
  lm_reconciliation :: ReconciliationMode
  lm_failure :: FailureMode
  lm_declaredFailure :: FailureMode
  lm_evidence :: FailureEvidence
  lm_stopLoop :: StopLoopPolicy
  lm_preAction :: bool
  lm_askEvidence :: FailureEvidence
  lm_response :: ResponseCapability

definition derivedResponse :: "LifecycleEventMapping \<Rightarrow> ResponseCapability" where
  "derivedResponse m =
     (if \<not> lm_preAction m \<or> lm_semantic m \<noteq> SemanticGateConsultation \<or> lm_blocking m = NonBlocking
         \<or> \<not> Evidence_IsPresent (lm_evidence m) then CapabilityNone
      else if Evidence_IsPresent (lm_askEvidence m) then CapabilityDenyAsk
      else CapabilityDeny)"

text \<open>One constructor per refusal of \<^verbatim>\<open>validate\<close> and of the contract constructor.\<close>

datatype runtime_error =
    PaddedNativeName string
  | InvalidEnum string
  | PaddedEvidence string string
  | UncitedBlocking string FailureMode
  | ResponseMismatch string ResponseCapability ResponseCapability
  | PreActionNotGate string
  | BadAskEvidence string
  | InvalidIdentity string
  | DuplicateIdentity string string
  | InvalidUnresolved string
  | DuplicateUnresolved string NativeIdentityKind
  | ResolvedAndUnresolved string NativeIdentityKind
  | MutatingObservation string
  | NonBlockingGate string
  | NoRequestIdentity string
  | MutatingResponse string
  | MisplacedStopLoop string
  | BadNamedCallback string
  | BadObservationStream string
  | InvalidBase
  | EventCountMismatch nat nat
  | DuplicateEvent nat
  | MissingMapping nat
  | DuplicateNativeName string
  | ZeroContract
  | UnboundEvent

fun identity_loop :: "string \<Rightarrow> string list \<Rightarrow> NativeIdentityField list \<Rightarrow> runtime_error + unit" where
  "identity_loop name seen [] = Ok ()"
| "identity_loop name seen (f # fs) =
     (if \<not> NativeIdentityField_IsValid f then Err (InvalidIdentity name)
      else if nif_nativeName f \<in> set seen then Err (DuplicateIdentity name (nif_nativeName f))
      else identity_loop name (nif_nativeName f # seen) fs)"

fun unresolved_loop :: "string \<Rightarrow> NativeIdentityKind list \<Rightarrow> NativeIdentityKind list \<Rightarrow> NativeIdentityKind list
    \<Rightarrow> runtime_error + unit" where
  "unresolved_loop name resolved seen [] = Ok ()"
| "unresolved_loop name resolved seen (k # ks) =
     (if \<not> NativeIdentityKind_IsValid k then Err (InvalidUnresolved name)
      else if k \<in> set seen then Err (DuplicateUnresolved name k)
      else if k \<in> set resolved then Err (ResolvedAndUnresolved name k)
      else unresolved_loop name resolved (k # seen) ks)"

definition hasRequiredRequestIdentity :: "LifecycleEventMapping \<Rightarrow> bool" where
  "hasRequiredRequestIdentity m \<longleftrightarrow>
     list_ex (\<lambda>f. nif_kind f = IdentityRequest \<and> nif_required f) (lm_identities m)"

definition enums_valid :: "LifecycleEventMapping \<Rightarrow> bool" where
  "enums_valid m \<longleftrightarrow> EventSemantic_IsValid (lm_semantic m) \<and> HookSurface_IsValid (lm_surface m)
     \<and> BlockingMode_IsValid (lm_blocking m) \<and> MutationMode_IsValid (lm_mutation m)
     \<and> HandlerOrder_IsValid (lm_order m) \<and> ReconciliationMode_IsValid (lm_reconciliation m)
     \<and> FailureMode_IsValid (lm_failure m) \<and> FailureMode_IsValid (lm_declaredFailure m)
     \<and> StopLoopPolicy_IsValid (lm_stopLoop m)"

text \<open>The checks after the two identity loops: what each semantic and each surface allows.\<close>

definition validate_semantic :: "LifecycleEventMapping \<Rightarrow> runtime_error + unit" where
  "validate_semantic m = (let name = lm_nativeName m in
     if lm_semantic m = SemanticObservation \<and> lm_mutation m \<noteq> MutationNone then Err (MutatingObservation name)
     else if lm_semantic m = SemanticGateConsultation \<and> lm_blocking m = NonBlocking then Err (NonBlockingGate name)
     else if lm_semantic m = SemanticExplicitHumanResponse \<and> \<not> hasRequiredRequestIdentity m
     then Err (NoRequestIdentity name)
     else if lm_semantic m = SemanticExplicitHumanResponse \<and> lm_mutation m \<noteq> MutationNone
     then Err (MutatingResponse name)
     else if lm_stopLoop m = StopLoopConsultWhenInactive
       \<and> (lm_semantic m \<noteq> SemanticGateConsultation \<or> lm_blocking m = NonBlocking)
     then Err (MisplacedStopLoop name)
     else Ok ())"

definition validate_surface :: "LifecycleEventMapping \<Rightarrow> runtime_error + unit" where
  "validate_surface m =
     (case lm_surface m of
        SurfaceOpenCodeNamedOutput \<Rightarrow>
          fail_if (lm_semantic m \<noteq> SemanticGateConsultation \<or> lm_blocking m \<noteq> Blocking
            \<or> lm_mutation m \<noteq> MutationOutputObject \<or> lm_order m \<noteq> OrderSequentialLoad
            \<or> lm_reconciliation m \<noteq> ReconcileSequentialMutation \<or> lm_failure m \<noteq> FailureThrowFailFast)
            (BadNamedCallback (lm_nativeName m))
      | SurfaceOpenCodeCatchAllSSE \<Rightarrow>
          fail_if (lm_semantic m \<noteq> SemanticObservation \<or> lm_blocking m \<noteq> NonBlocking
            \<or> lm_mutation m \<noteq> MutationNone \<or> lm_order m \<noteq> OrderObservationStream
            \<or> lm_reconciliation m \<noteq> ReconcileNone \<or> lm_failure m \<noteq> FailureObserveOnly)
            (BadObservationStream (lm_nativeName m))
      | _ \<Rightarrow> Ok ())"

definition validate :: "LifecycleEventMapping \<Rightarrow> runtime_error + unit" where
  "validate m = (let name = lm_nativeName m; evidence = lm_evidence m; ask = lm_askEvidence m in
     if name = [] \<or> TrimSpace name \<noteq> name then Err (PaddedNativeName name)
     else if \<not> enums_valid m then Err (InvalidEnum name)
     else if Evidence_IsPresent evidence \<and> fe_Source evidence \<noteq> TrimSpace (fe_Source evidence)
     then Err (PaddedEvidence name (fe_Source evidence))
     else if BlocksByExitCode (lm_failure m) \<and> \<not> Evidence_IsPresent evidence
     then Err (UncitedBlocking name (lm_failure m))
     else if lm_response m \<noteq> CapabilityUnset \<and> lm_response m \<noteq> derivedResponse m
     then Err (ResponseMismatch name (lm_response m) (derivedResponse m))
     else if lm_preAction m \<and> lm_semantic m \<noteq> SemanticGateConsultation then Err (PreActionNotGate name)
     else if Evidence_IsPresent ask \<and> (\<not> AllowsDeny (derivedResponse m) \<or> TrimSpace (fe_Source ask) \<noteq> fe_Source ask)
     then Err (BadAskEvidence name)
     else result_bind (identity_loop name [] (lm_identities m)) (\<lambda>_.
       result_bind (unresolved_loop name (map nif_kind (lm_identities m)) [] (lm_unresolved m)) (\<lambda>_.
       result_bind (validate_semantic m) (\<lambda>_. validate_surface m))))"

definition Mapping_IsValid :: "LifecycleEventMapping \<Rightarrow> bool" where
  "Mapping_IsValid m \<longleftrightarrow> ResponseCapability_IsValid (lm_response m) \<and> validate m = Ok ()"

text \<open>The pinned identity fields by their exact native spelling, and whether a row declares any.\<close>

definition DeclaredField :: "LifecycleEventMapping \<Rightarrow> string \<Rightarrow> NativeIdentityField option" where
  "DeclaredField m nativeName = find (\<lambda>f. nif_nativeName f = nativeName) (lm_identities m)"

datatype IdentityPolicy = IdentityPolicyInvalid | IdentityPolicyNone | IdentityPolicyDeclared

definition Mapping_IdentityPolicy :: "LifecycleEventMapping \<Rightarrow> IdentityPolicy" where
  "Mapping_IdentityPolicy m = (if lm_identities m = [] then IdentityPolicyNone else IdentityPolicyDeclared)"

section \<open>Contracts\<close>

text \<open>The part of a runtime contract that lifecycle contracts use: its identity, its admitted host
  versions and that it was constructed.\<close>

record RuntimeContract =
  rc_id :: string
  rc_versions :: VersionConstraint
  rc_constructed :: bool

record 'e LifecycleContract =
  lc_id :: string
  lc_versions :: VersionConstraint
  lc_events :: "'e list"
  lc_mappings :: "('e \<times> LifecycleEventMapping) list"
  lc_constructed :: bool

definition zero_constraint :: VersionConstraint where
  "zero_constraint = \<lparr>vc_min = zero_version, vc_max = zero_version, vc_includePrereleases = False,
     vc_floor = False, vc_constructed = False\<rparr>"

definition zero_contract :: "'e LifecycleContract" where
  "zero_contract = \<lparr>lc_id = [], lc_versions = zero_constraint, lc_events = [], lc_mappings = [],
     lc_constructed = False\<rparr>"

fun contract_loop :: "nat \<Rightarrow> ('e \<times> LifecycleEventMapping) list \<Rightarrow> 'e list \<Rightarrow> string list \<Rightarrow> 'e list
    \<Rightarrow> runtime_error + ('e \<times> LifecycleEventMapping) list" where
  "contract_loop i mappings seenEvents seenNames [] = Ok []"
| "contract_loop i mappings seenEvents seenNames (event # events) =
     (if event \<in> set seenEvents then Err (DuplicateEvent i)
      else case map_of mappings event of
          None \<Rightarrow> Err (MissingMapping i)
        | Some mapping \<Rightarrow>
            (case validate mapping of
               Err e \<Rightarrow> Err e
             | Ok _ \<Rightarrow>
                 if lm_nativeName mapping \<in> set seenNames then Err (DuplicateNativeName (lm_nativeName mapping))
                 else result_bind
                   (contract_loop (Suc i) mappings (event # seenEvents) (lm_nativeName mapping # seenNames) events)
                   (\<lambda>owned. Ok ((event, mapping\<lparr>lm_response := derivedResponse mapping\<rparr>) # owned))))"

text \<open>A Go map with its size is the association list of its entries.\<close>

definition newLifecycleContract :: "RuntimeContract \<Rightarrow> 'e list \<Rightarrow> ('e \<times> LifecycleEventMapping) list
    \<Rightarrow> runtime_error + 'e LifecycleContract" where
  "newLifecycleContract base events mappings =
     (if \<not> rc_constructed base \<or> \<not> vc_constructed (rc_versions base) then Err InvalidBase
      else if events = [] \<or> length events \<noteq> length mappings
      then Err (EventCountMismatch (length events) (length mappings))
      else result_bind (contract_loop 0 mappings [] [] events) (\<lambda>owned.
        Ok \<lparr>lc_id = rc_id base, lc_versions = rc_versions base, lc_events = events,
            lc_mappings = owned, lc_constructed = True\<rparr>))"

definition Contract_Mapping :: "'e LifecycleContract \<Rightarrow> 'e \<Rightarrow> runtime_error + LifecycleEventMapping" where
  "Contract_Mapping c event =
     (if \<not> lc_constructed c then Err ZeroContract
      else case map_of (lc_mappings c) event of None \<Rightarrow> Err UnboundEvent | Some m \<Rightarrow> Ok m)"

definition Contract_Supports :: "'e LifecycleContract \<Rightarrow> HostVersion \<Rightarrow> bool" where
  "Contract_Supports c version \<longleftrightarrow> lc_constructed c \<and> Allows (lc_versions c) version"

section \<open>What validation guarantees\<close>

lemma derivedResponse_response [simp]: "derivedResponse (m\<lparr>lm_response := r\<rparr>) = derivedResponse m"
  by (simp add: derivedResponse_def)

lemma derivedResponse_valid [simp]: "ResponseCapability_IsValid (derivedResponse m)"
  "derivedResponse m \<noteq> CapabilityUnset"
  by (simp_all add: derivedResponse_def)

lemma AllowsDeny_derived:
  "AllowsDeny (derivedResponse m) \<longleftrightarrow> lm_preAction m \<and> lm_semantic m = SemanticGateConsultation
     \<and> lm_blocking m \<noteq> NonBlocking \<and> Evidence_IsPresent (lm_evidence m)"
  by (auto simp: derivedResponse_def AllowsDeny_def)

lemma validate_iff:
  "validate m = Ok () \<longleftrightarrow>
     \<not> (lm_nativeName m = [] \<or> TrimSpace (lm_nativeName m) \<noteq> lm_nativeName m) \<and> enums_valid m
     \<and> \<not> (Evidence_IsPresent (lm_evidence m) \<and> fe_Source (lm_evidence m) \<noteq> TrimSpace (fe_Source (lm_evidence m)))
     \<and> \<not> (BlocksByExitCode (lm_failure m) \<and> \<not> Evidence_IsPresent (lm_evidence m))
     \<and> \<not> (lm_response m \<noteq> CapabilityUnset \<and> lm_response m \<noteq> derivedResponse m)
     \<and> \<not> (lm_preAction m \<and> lm_semantic m \<noteq> SemanticGateConsultation)
     \<and> \<not> (Evidence_IsPresent (lm_askEvidence m) \<and> (\<not> AllowsDeny (derivedResponse m)
           \<or> TrimSpace (fe_Source (lm_askEvidence m)) \<noteq> fe_Source (lm_askEvidence m)))
     \<and> identity_loop (lm_nativeName m) [] (lm_identities m) = Ok ()
     \<and> unresolved_loop (lm_nativeName m) (map nif_kind (lm_identities m)) [] (lm_unresolved m) = Ok ()
     \<and> validate_semantic m = Ok () \<and> validate_surface m = Ok ()"
  unfolding validate_def Let_def if_Err_eq_Ok result_bind_Ok_iff by simp

lemma validate_set_response:
  "validate m = Ok () \<Longrightarrow> validate (m\<lparr>lm_response := derivedResponse m\<rparr>) = Ok ()"
proof -
  have "enums_valid (m\<lparr>lm_response := r\<rparr>) = enums_valid m" for r by (simp add: enums_valid_def)
  moreover have "validate_semantic (m\<lparr>lm_response := r\<rparr>) = validate_semantic m" for r
    by (simp add: validate_semantic_def hasRequiredRequestIdentity_def Let_def cong: if_cong)
  moreover have "validate_surface (m\<lparr>lm_response := r\<rparr>) = validate_surface m" for r
    by (cases "lm_surface m") (simp_all add: validate_surface_def)
  moreover assume "validate m = Ok ()"
  ultimately show ?thesis unfolding validate_iff derivedResponse_response by simp
qed

lemma validate_Ok:
  assumes "validate m = Ok ()"
  shows "lm_nativeName m \<noteq> []" "enums_valid m"
    "BlocksByExitCode (lm_failure m) \<Longrightarrow> Evidence_IsPresent (lm_evidence m)"
    "lm_response m = CapabilityUnset \<or> lm_response m = derivedResponse m"
    "validate_semantic m = Ok ()" "validate_surface m = Ok ()"
    "lm_preAction m \<Longrightarrow> lm_semantic m = SemanticGateConsultation"
  using assms unfolding validate_iff by blast+

lemma Mapping_IsValid_response: "Mapping_IsValid m \<Longrightarrow> lm_response m = derivedResponse m"
  using validate_Ok(4) [of m] by (auto simp: Mapping_IsValid_def)

lemma Mapping_IsValid_AllowsDeny:
  "Mapping_IsValid m \<Longrightarrow> AllowsDeny (lm_response m) \<Longrightarrow>
     lm_semantic m = SemanticGateConsultation \<and> lm_blocking m \<noteq> NonBlocking \<and> Evidence_IsPresent (lm_evidence m)"
  by (simp add: Mapping_IsValid_response AllowsDeny_derived)

lemma Mapping_IsValid_enums:
  "Mapping_IsValid m \<Longrightarrow> EventSemantic_IsValid (lm_semantic m) \<and> HookSurface_IsValid (lm_surface m)
     \<and> StopLoopPolicy_IsValid (lm_stopLoop m) \<and> ResponseCapability_IsValid (lm_response m)
     \<and> FailureMode_IsValid (lm_failure m) \<and> FailureMode_IsValid (lm_declaredFailure m)"
  using validate_Ok(2) by (auto simp: Mapping_IsValid_def enums_valid_def)

lemma Mapping_IsValid_observation_surface:
  "Mapping_IsValid m \<Longrightarrow> lm_surface m = SurfaceOpenCodeCatchAllSSE \<Longrightarrow> lm_semantic m = SemanticObservation"
  using validate_Ok(6) by (force simp: Mapping_IsValid_def validate_surface_def)

lemma contract_loop_Ok:
  assumes "contract_loop i mappings seenE seenN events = Ok owned"
  shows "map fst owned = events" "distinct events" "set events \<inter> set seenE = {}"
    "distinct (map (lm_nativeName \<circ> snd) owned)" "set (map (lm_nativeName \<circ> snd) owned) \<inter> set seenN = {}"
    "\<forall>(e, m)\<in>set owned. Mapping_IsValid m
       \<and> (\<exists>m0. map_of mappings e = Some m0 \<and> m = m0\<lparr>lm_response := derivedResponse m0\<rparr>)"
proof -
  have "map fst owned = events \<and> distinct events \<and> set events \<inter> set seenE = {}
     \<and> distinct (map (lm_nativeName \<circ> snd) owned) \<and> set (map (lm_nativeName \<circ> snd) owned) \<inter> set seenN = {}
     \<and> (\<forall>(e, m)\<in>set owned. Mapping_IsValid m
         \<and> (\<exists>m0. map_of mappings e = Some m0 \<and> m = m0\<lparr>lm_response := derivedResponse m0\<rparr>))"
    using assms
  proof (induction events arbitrary: i seenE seenN owned)
    case (Cons e es)
    from Cons.prems obtain m rest where
      m: "e \<notin> set seenE" "map_of mappings e = Some m" "validate m = Ok ()" "lm_nativeName m \<notin> set seenN"
      and r: "contract_loop (Suc i) mappings (e # seenE) (lm_nativeName m # seenN) es = Ok rest"
      and o: "owned = (e, m\<lparr>lm_response := derivedResponse m\<rparr>) # rest"
      by (auto split: if_splits option.splits sum.splits)
    have "Mapping_IsValid (m\<lparr>lm_response := derivedResponse m\<rparr>)"
      using m by (simp add: Mapping_IsValid_def validate_set_response)
    then show ?case using Cons.IH [OF r] m o by auto
  qed simp
  then show "map fst owned = events" "distinct events" "set events \<inter> set seenE = {}"
    "distinct (map (lm_nativeName \<circ> snd) owned)" "set (map (lm_nativeName \<circ> snd) owned) \<inter> set seenN = {}"
    "\<forall>(e, m)\<in>set owned. Mapping_IsValid m
       \<and> (\<exists>m0. map_of mappings e = Some m0 \<and> m = m0\<lparr>lm_response := derivedResponse m0\<rparr>)"
    by auto
qed

text \<open>The interface every client of a constructed contract relies on: lookups answer exactly for
  the listed events, every answer is a valid mapping, and native names identify events.\<close>

locale lifecycle_contract =
  fixes contract :: "'e LifecycleContract"
  assumes constructed: "lc_constructed contract"
    and keys: "map fst (lc_mappings contract) = lc_events contract"
    and distinct_events: "distinct (lc_events contract)"
    and distinct_names: "distinct (map (lm_nativeName \<circ> snd) (lc_mappings contract))"
    and mappings_valid: "\<forall>(e, m)\<in>set (lc_mappings contract). Mapping_IsValid m"
begin

lemma Mapping_iff: "Contract_Mapping contract e = Ok m \<longleftrightarrow> (e, m) \<in> set (lc_mappings contract)"
proof -
  have "map_of (lc_mappings contract) e = Some m \<longleftrightarrow> (e, m) \<in> set (lc_mappings contract)"
    using keys distinct_events by (intro map_of_eq_Some_iff) simp
  then show ?thesis using constructed by (auto simp: Contract_Mapping_def split: option.splits)
qed

lemma Mapping_defined: "e \<in> set (lc_events contract) \<longleftrightarrow> (\<exists>m. Contract_Mapping contract e = Ok m)"
  unfolding Mapping_iff keys [symmetric] by force

lemma Mapping_valid: "Contract_Mapping contract e = Ok m \<Longrightarrow> Mapping_IsValid m"
  using mappings_valid by (auto simp: Mapping_iff)

lemma native_name_unique:
  assumes "Contract_Mapping contract e = Ok m" "Contract_Mapping contract f = Ok n"
    "lm_nativeName m = lm_nativeName n"
  shows "e = f \<and> m = n"
proof -
  have "(e, m) = (f, n)"
    using distinct_names assms unfolding Mapping_iff distinct_map inj_on_def by force
  then show ?thesis by simp
qed

end

lemma newLifecycleContract_contract:
  assumes "newLifecycleContract base events mappings = Ok c"
  shows "lifecycle_contract c"
proof -
  from assms obtain owned where l: "contract_loop 0 mappings [] [] events = Ok owned"
    and c: "c = \<lparr>lc_id = rc_id base, lc_versions = rc_versions base, lc_events = events,
            lc_mappings = owned, lc_constructed = True\<rparr>"
    by (auto simp: newLifecycleContract_def split: if_splits)
  show ?thesis
    using contract_loop_Ok [OF l] by unfold_locales (auto simp: c)
qed

end
