(* ===== verification/LifecycleProfiles.thy ===== *)
theory LifecycleProfiles
  imports LifecycleRuntime
begin

text \<open>
  The pinned lifecycle profiles of the three hosts
  (\<^verbatim>\<open>internal/runtime/lifecycle_profiles*.go\<close>, \<^verbatim>\<open>internal/runtime/profiles.go\<close>): the typed
  event catalogues with their native names, the table that classifies every event, and the
  lookups by native name.  A constructor that panics in the source is \<open>None\<close> here; the lemmas
  show that none of the four profiles panics, that every row is a valid mapping, and which events
  can refuse an operation at all.
\<close>

section \<open>Runtime contracts\<close>

definition production_profile :: "Harness \<Rightarrow> string option" where
  "production_profile h =
     (if h = HarnessClaudeCode then Some ''claude-code@2.1.261''
      else if h = HarnessOpenCode then Some ''opencode@2.0.20''
      else if h = HarnessCodex then Some ''codex@0.153.0''
      else None)"

text \<open>The canonical identity \<open>harness/profile\<close>.\<close>

definition NewRuntimeContractID :: "Harness \<Rightarrow> string \<Rightarrow> string option" where
  "NewRuntimeContractID h name =
     (if \<not> Harness_IsValid h then None
      else let prefix = h @ ''/'';
               value = (if HasPrefix name prefix then name else prefix @ name) in
        if list_ex (\<lambda>c. is_space c \<or> (of_char c :: nat) < 32 \<or> (of_char c :: nat) = 127) value \<or> length value \<le> length prefix then None else Some value)"

definition productionHostVersion :: "Harness \<Rightarrow> HostVersion option" where
  "productionHostVersion h = do {
     profile \<leftarrow> production_profile h;
     ident \<leftarrow> NewRuntimeContractID h profile;
     (_, version) \<leftarrow> Cut CHR ''@'' ident;
     (case ParseHostVersion version of Err _ \<Rightarrow> None | Ok host \<Rightarrow> Some host) }"

definition floor_contract :: "string \<Rightarrow> HostVersion \<Rightarrow> RuntimeContract option" where
  "floor_contract ident host =
     (case NewVersionFloor host of
        Err _ \<Rightarrow> None
      | Ok c \<Rightarrow> Some \<lparr>rc_id = ident, rc_versions = c, rc_constructed = True\<rparr>)"

definition mustFloorContract :: "Harness \<Rightarrow> RuntimeContract option" where
  "mustFloorContract h = do {
     profile \<leftarrow> production_profile h;
     ident \<leftarrow> NewRuntimeContractID h profile;
     host \<leftarrow> productionHostVersion h;
     floor_contract ident host }"

definition mustFrozenFloorContract :: "Harness \<Rightarrow> string \<Rightarrow> string \<Rightarrow> RuntimeContract option" where
  "mustFrozenFloorContract h contractID version = do {
     host \<leftarrow> (case ParseHostVersion version of Err _ \<Rightarrow> None | Ok host \<Rightarrow> Some host);
     ident \<leftarrow> NewRuntimeContractID h contractID;
     floor_contract ident host }"

definition ClaudeCode2_1_261 :: "RuntimeContract option" where
  "ClaudeCode2_1_261 = mustFloorContract HarnessClaudeCode"

definition Codex0_153_0 :: "RuntimeContract option" where
  "Codex0_153_0 = mustFloorContract HarnessCodex"

definition OpenCode2_0_20 :: "RuntimeContract option" where
  "OpenCode2_0_20 = mustFloorContract HarnessOpenCode"

definition OpenCode1_18_29 :: "RuntimeContract option" where
  "OpenCode1_18_29 = mustFrozenFloorContract HarnessOpenCode ''opencode@1.18.29'' ''1.18.29''"

definition mustLifecycleContract :: "RuntimeContract option \<Rightarrow> 'e list \<Rightarrow> ('e \<times> LifecycleEventMapping) list
    \<Rightarrow> 'e LifecycleContract option" where
  "mustLifecycleContract base events mappings =
     (case base of None \<Rightarrow> None
      | Some b \<Rightarrow> (case newLifecycleContract b events mappings of Err _ \<Rightarrow> None | Ok c \<Rightarrow> Some c))"

section \<open>Claude Code\<close>

datatype (plugins only: code) ClaudeLifecycleEvent =
    ClaudeEventSessionStart | ClaudeEventSetup | ClaudeEventSessionEnd |
    ClaudeEventUserPromptSubmit | ClaudeEventUserPromptExpansion | ClaudeEventStop |
    ClaudeEventStopFailure | ClaudeEventPreToolUse | ClaudeEventPermissionRequest |
    ClaudeEventPermissionDenied | ClaudeEventPostToolUse | ClaudeEventPostToolUseFailure |
    ClaudeEventPostToolBatch | ClaudeEventFileChanged | ClaudeEventCwdChanged |
    ClaudeEventConfigChange | ClaudeEventInstructionsLoaded | ClaudeEventWorktreeCreate |
    ClaudeEventWorktreeRemove | ClaudeEventSubagentStart | ClaudeEventSubagentStop |
    ClaudeEventTeammateIdle | ClaudeEventTaskCreated | ClaudeEventTaskCompleted |
    ClaudeEventPreCompact | ClaudeEventPostCompact | ClaudeEventNotification |
    ClaudeEventMessageDisplay | ClaudeEventElicitation | ClaudeEventElicitationResult |
    ClaudeEventPreModelSwitch | ClaudeEventPostModelSwitch | ClaudeEventDirectoryAdded

definition ClaudeLifecycleEvents :: "ClaudeLifecycleEvent list" where
  "ClaudeLifecycleEvents =
     [ClaudeEventSessionStart, ClaudeEventSetup, ClaudeEventSessionEnd, ClaudeEventUserPromptSubmit,
      ClaudeEventUserPromptExpansion, ClaudeEventStop, ClaudeEventStopFailure, ClaudeEventPreToolUse,
      ClaudeEventPermissionRequest, ClaudeEventPermissionDenied, ClaudeEventPostToolUse,
      ClaudeEventPostToolUseFailure, ClaudeEventPostToolBatch, ClaudeEventFileChanged,
      ClaudeEventCwdChanged, ClaudeEventConfigChange, ClaudeEventInstructionsLoaded,
      ClaudeEventWorktreeCreate, ClaudeEventWorktreeRemove, ClaudeEventSubagentStart,
      ClaudeEventSubagentStop, ClaudeEventTeammateIdle, ClaudeEventTaskCreated,
      ClaudeEventTaskCompleted, ClaudeEventPreCompact, ClaudeEventPostCompact,
      ClaudeEventNotification, ClaudeEventMessageDisplay, ClaudeEventElicitation,
      ClaudeEventElicitationResult, ClaudeEventPreModelSwitch, ClaudeEventPostModelSwitch,
      ClaudeEventDirectoryAdded]"

fun Claude_NativeName :: "ClaudeLifecycleEvent \<Rightarrow> string" where
  "Claude_NativeName ClaudeEventSessionStart = ''SessionStart''"
| "Claude_NativeName ClaudeEventSetup = ''Setup''"
| "Claude_NativeName ClaudeEventSessionEnd = ''SessionEnd''"
| "Claude_NativeName ClaudeEventUserPromptSubmit = ''UserPromptSubmit''"
| "Claude_NativeName ClaudeEventUserPromptExpansion = ''UserPromptExpansion''"
| "Claude_NativeName ClaudeEventStop = ''Stop''"
| "Claude_NativeName ClaudeEventStopFailure = ''StopFailure''"
| "Claude_NativeName ClaudeEventPreToolUse = ''PreToolUse''"
| "Claude_NativeName ClaudeEventPermissionRequest = ''PermissionRequest''"
| "Claude_NativeName ClaudeEventPermissionDenied = ''PermissionDenied''"
| "Claude_NativeName ClaudeEventPostToolUse = ''PostToolUse''"
| "Claude_NativeName ClaudeEventPostToolUseFailure = ''PostToolUseFailure''"
| "Claude_NativeName ClaudeEventPostToolBatch = ''PostToolBatch''"
| "Claude_NativeName ClaudeEventFileChanged = ''FileChanged''"
| "Claude_NativeName ClaudeEventCwdChanged = ''CwdChanged''"
| "Claude_NativeName ClaudeEventConfigChange = ''ConfigChange''"
| "Claude_NativeName ClaudeEventInstructionsLoaded = ''InstructionsLoaded''"
| "Claude_NativeName ClaudeEventWorktreeCreate = ''WorktreeCreate''"
| "Claude_NativeName ClaudeEventWorktreeRemove = ''WorktreeRemove''"
| "Claude_NativeName ClaudeEventSubagentStart = ''SubagentStart''"
| "Claude_NativeName ClaudeEventSubagentStop = ''SubagentStop''"
| "Claude_NativeName ClaudeEventTeammateIdle = ''TeammateIdle''"
| "Claude_NativeName ClaudeEventTaskCreated = ''TaskCreated''"
| "Claude_NativeName ClaudeEventTaskCompleted = ''TaskCompleted''"
| "Claude_NativeName ClaudeEventPreCompact = ''PreCompact''"
| "Claude_NativeName ClaudeEventPostCompact = ''PostCompact''"
| "Claude_NativeName ClaudeEventNotification = ''Notification''"
| "Claude_NativeName ClaudeEventMessageDisplay = ''MessageDisplay''"
| "Claude_NativeName ClaudeEventElicitation = ''Elicitation''"
| "Claude_NativeName ClaudeEventElicitationResult = ''ElicitationResult''"
| "Claude_NativeName ClaudeEventPreModelSwitch = ''PreModelSwitch''"
| "Claude_NativeName ClaudeEventPostModelSwitch = ''PostModelSwitch''"
| "Claude_NativeName ClaudeEventDirectoryAdded = ''DirectoryAdded''"

definition claudeSessionIdentity :: NativeIdentityField where
  "claudeSessionIdentity = nativeIdentity IdentitySession ''session_id'' True"
definition claudeRequestIdentity :: NativeIdentityField where
  "claudeRequestIdentity = nativeIdentity IdentityRequest ''request_id'' True"
definition claudeToolCallIdentity :: NativeIdentityField where
  "claudeToolCallIdentity = nativeIdentity IdentityToolCall ''tool_use_id'' True"
definition claudeAgentIdentity :: NativeIdentityField where
  "claudeAgentIdentity = nativeIdentity IdentityAgent ''agent_id'' True"

definition claudeHooksReference :: string where
  "claudeHooksReference = ''https://docs.claude.com/en/docs/claude-code/hooks''"

definition claudeInstalledBinaryHookTable2_1_261 :: string where
  "claudeInstalledBinaryHookTable2_1_261 = ''claude-code 2.1.261 installed binary hook-event table (~/.local/share/claude/versions/2.1.261): PreModelSwitch '' @
     [CHR 0x22] @
     ''Exit code 2 - block the switch and show stderr to user'' @
     [CHR 0x22]"

definition claudeLifecycleMapping :: "ClaudeLifecycleEvent \<Rightarrow> EventSemantic \<Rightarrow> BlockingMode \<Rightarrow> MutationMode
    \<Rightarrow> StopLoopPolicy \<Rightarrow> FailureEvidence \<Rightarrow> NativeIdentityField list \<Rightarrow> LifecycleEventMapping" where
  "claudeLifecycleMapping event semantic blocking mutation stopLoop evidence extraIdentities =
     \<lparr>lm_nativeName = Claude_NativeName event, lm_semantic = semantic,
      lm_surface = SurfaceClaudeCommandJSON, lm_blocking = blocking,
      lm_identities = [claudeSessionIdentity] @ extraIdentities, lm_unresolved = [],
      lm_mutation = mutation, lm_order = OrderConcurrentNative,
      lm_reconciliation = (if semantic \<noteq> SemanticObservation then ReconcileHostNative else ReconcileNone),
      lm_failure = evidenceBoundFailure blocking evidence FailureExitTwoBlocks FailureReportAndContinue,
      lm_declaredFailure = declaredFailureArm blocking FailureExitTwoBlocks FailureReportAndContinue,
      lm_evidence = evidence, lm_stopLoop = stopLoop,
      lm_preAction = (semantic = SemanticGateConsultation \<and> event \<noteq> ClaudeEventPostToolBatch),
      lm_askEvidence = no_evidence, lm_response = CapabilityUnset\<rparr>"

definition claude_observe :: "ClaudeLifecycleEvent \<Rightarrow> NativeIdentityField list \<Rightarrow> LifecycleEventMapping" where
  "claude_observe event extra =
     claudeLifecycleMapping event SemanticObservation NonBlocking MutationNone StopLoopNotApplicable no_evidence extra"

definition claude_gate :: "ClaudeLifecycleEvent \<Rightarrow> MutationMode \<Rightarrow> NativeIdentityField list \<Rightarrow> LifecycleEventMapping" where
  "claude_gate event mutation extra =
     claudeLifecycleMapping event SemanticGateConsultation Blocking mutation StopLoopNotApplicable no_evidence extra"

definition claude_documented :: FailureEvidence where
  "claude_documented = \<lparr>fe_Source = claudeHooksReference\<rparr>"

definition claude_evidencedGate :: "ClaudeLifecycleEvent \<Rightarrow> MutationMode \<Rightarrow> NativeIdentityField list \<Rightarrow> LifecycleEventMapping" where
  "claude_evidencedGate event mutation extra =
     claudeLifecycleMapping event SemanticGateConsultation Blocking mutation StopLoopNotApplicable claude_documented extra"

definition claude_binaryEvidencedGate :: "ClaudeLifecycleEvent \<Rightarrow> MutationMode \<Rightarrow> NativeIdentityField list \<Rightarrow> LifecycleEventMapping" where
  "claude_binaryEvidencedGate event mutation extra =
     claudeLifecycleMapping event SemanticGateConsultation Blocking mutation StopLoopNotApplicable
       \<lparr>fe_Source = claudeInstalledBinaryHookTable2_1_261\<rparr> extra"

text \<open>The row of \<^verbatim>\<open>PostToolBatch\<close> carries the correction the source makes after building the map.\<close>

definition claudeLifecycleMappings :: "(ClaudeLifecycleEvent \<times> LifecycleEventMapping) list" where
  "claudeLifecycleMappings =
    [(ClaudeEventSessionStart, claude_observe ClaudeEventSessionStart []),
     (ClaudeEventSetup, claude_observe ClaudeEventSetup []),
     (ClaudeEventSessionEnd, claude_observe ClaudeEventSessionEnd []),
     (ClaudeEventUserPromptSubmit, claude_evidencedGate ClaudeEventUserPromptSubmit MutationNone []),
     (ClaudeEventUserPromptExpansion, claude_gate ClaudeEventUserPromptExpansion MutationNone []),
     (ClaudeEventStop, claudeLifecycleMapping ClaudeEventStop SemanticGateConsultation Blocking MutationNone StopLoopConsultWhenInactive claude_documented []),
     (ClaudeEventStopFailure, claude_observe ClaudeEventStopFailure []),
     (ClaudeEventPreToolUse, claude_evidencedGate ClaudeEventPreToolUse MutationInput [claudeToolCallIdentity]),
     (ClaudeEventPermissionRequest, claude_gate ClaudeEventPermissionRequest MutationNone [claudeRequestIdentity]),
     (ClaudeEventPermissionDenied, claude_observe ClaudeEventPermissionDenied []),
     (ClaudeEventPostToolUse, claude_observe ClaudeEventPostToolUse [claudeToolCallIdentity]),
     (ClaudeEventPostToolUseFailure, claude_observe ClaudeEventPostToolUseFailure [claudeToolCallIdentity]),
     (ClaudeEventPostToolBatch, (claude_gate ClaudeEventPostToolBatch MutationNone [])\<lparr>lm_unresolved := [IdentityToolCall]\<rparr>),
     (ClaudeEventFileChanged, claude_observe ClaudeEventFileChanged []),
     (ClaudeEventCwdChanged, claude_observe ClaudeEventCwdChanged []),
     (ClaudeEventConfigChange, claudeLifecycleMapping ClaudeEventConfigChange SemanticGateConsultation ConditionallyBlocking MutationNone StopLoopNotApplicable no_evidence []),
     (ClaudeEventInstructionsLoaded, claude_observe ClaudeEventInstructionsLoaded []),
     (ClaudeEventWorktreeCreate, claude_gate ClaudeEventWorktreeCreate MutationNone []),
     (ClaudeEventWorktreeRemove, claude_observe ClaudeEventWorktreeRemove []),
     (ClaudeEventSubagentStart, claude_observe ClaudeEventSubagentStart [claudeAgentIdentity]),
     (ClaudeEventSubagentStop, claudeLifecycleMapping ClaudeEventSubagentStop SemanticGateConsultation Blocking MutationNone StopLoopConsultWhenInactive claude_documented [claudeAgentIdentity]),
     (ClaudeEventTeammateIdle, claude_gate ClaudeEventTeammateIdle MutationNone []),
     (ClaudeEventTaskCreated, claude_gate ClaudeEventTaskCreated MutationNone []),
     (ClaudeEventTaskCompleted, claude_gate ClaudeEventTaskCompleted MutationNone []),
     (ClaudeEventPreCompact, claude_gate ClaudeEventPreCompact MutationNone []),
     (ClaudeEventPostCompact, claude_observe ClaudeEventPostCompact []),
     (ClaudeEventNotification, claude_observe ClaudeEventNotification []),
     (ClaudeEventMessageDisplay, claude_observe ClaudeEventMessageDisplay []),
     (ClaudeEventElicitation, claude_gate ClaudeEventElicitation MutationNone [claudeRequestIdentity]),
     (ClaudeEventElicitationResult, claudeLifecycleMapping ClaudeEventElicitationResult SemanticExplicitHumanResponse Blocking MutationNone StopLoopNotApplicable no_evidence [claudeRequestIdentity]),
     (ClaudeEventPreModelSwitch, claude_binaryEvidencedGate ClaudeEventPreModelSwitch MutationNone []),
     (ClaudeEventPostModelSwitch, claude_observe ClaudeEventPostModelSwitch []),
     (ClaudeEventDirectoryAdded, claude_observe ClaudeEventDirectoryAdded [])]"

definition ClaudeCode2_1_261Lifecycle :: "ClaudeLifecycleEvent LifecycleContract option" where
  "ClaudeCode2_1_261Lifecycle = mustLifecycleContract ClaudeCode2_1_261 ClaudeLifecycleEvents claudeLifecycleMappings"

section \<open>Codex\<close>

datatype (plugins only: code) CodexLifecycleEvent =
    CodexEventSessionStart | CodexEventUserPromptSubmit | CodexEventPreToolUse |
    CodexEventPermissionRequest | CodexEventPostToolUse | CodexEventPreCompact |
    CodexEventPostCompact | CodexEventSubagentStart | CodexEventSubagentStop | CodexEventStop |
    CodexEventSessionEnd | CodexEventInterrupt

definition CodexLifecycleEvents :: "CodexLifecycleEvent list" where
  "CodexLifecycleEvents =
     [CodexEventSessionStart, CodexEventUserPromptSubmit, CodexEventPreToolUse,
      CodexEventPermissionRequest, CodexEventPostToolUse, CodexEventPreCompact,
      CodexEventPostCompact, CodexEventSubagentStart, CodexEventSubagentStop, CodexEventStop,
      CodexEventSessionEnd, CodexEventInterrupt]"

fun Codex_NativeName :: "CodexLifecycleEvent \<Rightarrow> string" where
  "Codex_NativeName CodexEventSessionStart = ''SessionStart''"
| "Codex_NativeName CodexEventUserPromptSubmit = ''UserPromptSubmit''"
| "Codex_NativeName CodexEventPreToolUse = ''PreToolUse''"
| "Codex_NativeName CodexEventPermissionRequest = ''PermissionRequest''"
| "Codex_NativeName CodexEventPostToolUse = ''PostToolUse''"
| "Codex_NativeName CodexEventPreCompact = ''PreCompact''"
| "Codex_NativeName CodexEventPostCompact = ''PostCompact''"
| "Codex_NativeName CodexEventSubagentStart = ''SubagentStart''"
| "Codex_NativeName CodexEventSubagentStop = ''SubagentStop''"
| "Codex_NativeName CodexEventStop = ''Stop''"
| "Codex_NativeName CodexEventSessionEnd = ''SessionEnd''"
| "Codex_NativeName CodexEventInterrupt = ''Interrupt''"

definition codexSessionIdentity :: NativeIdentityField where
  "codexSessionIdentity = nativeIdentity IdentitySession ''session_id'' True"
definition codexTurnIdentity :: NativeIdentityField where
  "codexTurnIdentity = nativeIdentity IdentityTurn ''turn_id'' True"
definition codexToolCallIdentity :: NativeIdentityField where
  "codexToolCallIdentity = nativeIdentity IdentityToolCall ''tool_use_id'' True"
definition codexAgentIdentity :: NativeIdentityField where
  "codexAgentIdentity = nativeIdentity IdentityAgent ''agent_id'' True"

definition codexLifecycleMapping :: "CodexLifecycleEvent \<Rightarrow> EventSemantic \<Rightarrow> BlockingMode \<Rightarrow> MutationMode
    \<Rightarrow> StopLoopPolicy \<Rightarrow> bool \<Rightarrow> FailureEvidence \<Rightarrow> NativeIdentityField list \<Rightarrow> LifecycleEventMapping" where
  "codexLifecycleMapping event semantic blocking mutation stopLoop turnScoped evidence extraIdentities =
     \<lparr>lm_nativeName = Codex_NativeName event, lm_semantic = semantic,
      lm_surface = SurfaceCodexStrictCommandJSON, lm_blocking = blocking,
      lm_identities = (if turnScoped then [codexSessionIdentity, codexTurnIdentity] else [codexSessionIdentity])
        @ extraIdentities, lm_unresolved = [],
      lm_mutation = mutation, lm_order = OrderConcurrentNative,
      lm_reconciliation = ReconcileNoAdapterMerge,
      lm_failure = evidenceBoundFailure blocking evidence FailureStrictExitTwoBlocks FailureStrictHook,
      lm_declaredFailure = declaredFailureArm blocking FailureStrictExitTwoBlocks FailureStrictHook,
      lm_evidence = evidence, lm_stopLoop = stopLoop,
      lm_preAction = (semantic = SemanticGateConsultation \<and> event \<noteq> CodexEventPostToolUse
        \<and> event \<noteq> CodexEventPostCompact),
      lm_askEvidence = no_evidence, lm_response = CapabilityUnset\<rparr>"

definition codex_gate :: "CodexLifecycleEvent \<Rightarrow> MutationMode \<Rightarrow> NativeIdentityField list \<Rightarrow> LifecycleEventMapping" where
  "codex_gate event mutation extra =
     codexLifecycleMapping event SemanticGateConsultation Blocking mutation StopLoopNotApplicable True no_evidence extra"

definition codexLifecycleMappings :: "(CodexLifecycleEvent \<times> LifecycleEventMapping) list" where
  "codexLifecycleMappings =
    [(CodexEventSessionStart, codexLifecycleMapping CodexEventSessionStart SemanticObservation NonBlocking MutationNone StopLoopNotApplicable False no_evidence []),
     (CodexEventUserPromptSubmit, codex_gate CodexEventUserPromptSubmit MutationNone []),
     (CodexEventPreToolUse, codex_gate CodexEventPreToolUse MutationInput [codexToolCallIdentity]),
     (CodexEventPermissionRequest, codex_gate CodexEventPermissionRequest MutationNone []),
     (CodexEventPostToolUse, codex_gate CodexEventPostToolUse MutationOutput [codexToolCallIdentity]),
     (CodexEventPreCompact, codex_gate CodexEventPreCompact MutationNone []),
     (CodexEventPostCompact, codex_gate CodexEventPostCompact MutationNone []),
     (CodexEventSubagentStart, codexLifecycleMapping CodexEventSubagentStart SemanticObservation NonBlocking MutationNone StopLoopNotApplicable True no_evidence [codexAgentIdentity]),
     (CodexEventSubagentStop, codexLifecycleMapping CodexEventSubagentStop SemanticGateConsultation Blocking MutationNone StopLoopConsultWhenInactive True no_evidence [codexAgentIdentity]),
     (CodexEventStop, codexLifecycleMapping CodexEventStop SemanticGateConsultation Blocking MutationNone StopLoopConsultWhenInactive True no_evidence []),
     (CodexEventSessionEnd, codexLifecycleMapping CodexEventSessionEnd SemanticObservation NonBlocking MutationNone StopLoopNotApplicable False no_evidence []),
     (CodexEventInterrupt, codexLifecycleMapping CodexEventInterrupt SemanticObservation NonBlocking MutationNone StopLoopNotApplicable True no_evidence [])]"

definition Codex0_153_0Lifecycle :: "CodexLifecycleEvent LifecycleContract option" where
  "Codex0_153_0Lifecycle = mustLifecycleContract Codex0_153_0 CodexLifecycleEvents codexLifecycleMappings"

section \<open>OpenCode\<close>

datatype (plugins only: code) OpenCodeLifecycleEvent =
    OpenCodeEventCommandExecuted | OpenCodeEventFileEdited | OpenCodeEventFileWatcherUpdated |
    OpenCodeEventInstallationUpdated | OpenCodeEventInstallationUpdateAvailable |
    OpenCodeEventLSPClientDiagnostics | OpenCodeEventLSPUpdated | OpenCodeEventMessageUpdated |
    OpenCodeEventMessageRemoved | OpenCodeEventMessagePartUpdated |
    OpenCodeEventMessagePartRemoved | OpenCodeEventPermissionUpdated |
    OpenCodeEventPermissionReplied | OpenCodeEventServerConnected |
    OpenCodeEventServerInstanceDisposed | OpenCodeEventSessionCreated |
    OpenCodeEventSessionUpdated | OpenCodeEventSessionDeleted | OpenCodeEventSessionCompacted |
    OpenCodeEventSessionDiff | OpenCodeEventSessionError | OpenCodeEventSessionIdle |
    OpenCodeEventSessionStatus | OpenCodeEventTodoUpdated | OpenCodeEventTUIPromptAppend |
    OpenCodeEventTUICommandExecute | OpenCodeEventTUIToastShow | OpenCodeEventPTYCreated |
    OpenCodeEventPTYUpdated | OpenCodeEventPTYExited | OpenCodeEventPTYDeleted |
    OpenCodeEventVCSBranchUpdated | OpenCodeEventChatMessage | OpenCodeEventChatParams |
    OpenCodeEventChatHeaders | OpenCodeEventPermissionAsk | OpenCodeEventCommandExecuteBefore |
    OpenCodeEventToolExecuteBefore | OpenCodeEventShellEnv | OpenCodeEventToolExecuteAfter |
    OpenCodeEventExperimentalChatMessagesTransform | OpenCodeEventExperimentalChatSystemTransform |
    OpenCodeEventExperimentalProviderSmallModel | OpenCodeEventExperimentalSessionCompacting |
    OpenCodeEventExperimentalCompactionAutocontinue | OpenCodeEventExperimentalTextComplete |
    OpenCodeEventToolDefinition

definition OpenCodeLifecycleEvents :: "OpenCodeLifecycleEvent list" where
  "OpenCodeLifecycleEvents =
     [OpenCodeEventCommandExecuted, OpenCodeEventFileEdited, OpenCodeEventFileWatcherUpdated,
      OpenCodeEventInstallationUpdated, OpenCodeEventInstallationUpdateAvailable,
      OpenCodeEventLSPClientDiagnostics, OpenCodeEventLSPUpdated, OpenCodeEventMessageUpdated,
      OpenCodeEventMessageRemoved, OpenCodeEventMessagePartUpdated, OpenCodeEventMessagePartRemoved,
      OpenCodeEventPermissionUpdated, OpenCodeEventPermissionReplied, OpenCodeEventServerConnected,
      OpenCodeEventServerInstanceDisposed, OpenCodeEventSessionCreated, OpenCodeEventSessionUpdated,
      OpenCodeEventSessionDeleted, OpenCodeEventSessionCompacted, OpenCodeEventSessionDiff,
      OpenCodeEventSessionError, OpenCodeEventSessionIdle, OpenCodeEventSessionStatus,
      OpenCodeEventTodoUpdated, OpenCodeEventTUIPromptAppend, OpenCodeEventTUICommandExecute,
      OpenCodeEventTUIToastShow, OpenCodeEventPTYCreated, OpenCodeEventPTYUpdated,
      OpenCodeEventPTYExited, OpenCodeEventPTYDeleted, OpenCodeEventVCSBranchUpdated,
      OpenCodeEventChatMessage, OpenCodeEventChatParams, OpenCodeEventChatHeaders,
      OpenCodeEventPermissionAsk, OpenCodeEventCommandExecuteBefore, OpenCodeEventToolExecuteBefore,
      OpenCodeEventShellEnv, OpenCodeEventToolExecuteAfter,
      OpenCodeEventExperimentalChatMessagesTransform, OpenCodeEventExperimentalChatSystemTransform,
      OpenCodeEventExperimentalProviderSmallModel, OpenCodeEventExperimentalSessionCompacting,
      OpenCodeEventExperimentalCompactionAutocontinue, OpenCodeEventExperimentalTextComplete,
      OpenCodeEventToolDefinition]"

fun OpenCode_NativeName :: "OpenCodeLifecycleEvent \<Rightarrow> string" where
  "OpenCode_NativeName OpenCodeEventCommandExecuted = ''command.executed''"
| "OpenCode_NativeName OpenCodeEventFileEdited = ''file.edited''"
| "OpenCode_NativeName OpenCodeEventFileWatcherUpdated = ''file.watcher.updated''"
| "OpenCode_NativeName OpenCodeEventInstallationUpdated = ''installation.updated''"
| "OpenCode_NativeName OpenCodeEventInstallationUpdateAvailable = ''installation.update-available''"
| "OpenCode_NativeName OpenCodeEventLSPClientDiagnostics = ''lsp.client.diagnostics''"
| "OpenCode_NativeName OpenCodeEventLSPUpdated = ''lsp.updated''"
| "OpenCode_NativeName OpenCodeEventMessageUpdated = ''message.updated''"
| "OpenCode_NativeName OpenCodeEventMessageRemoved = ''message.removed''"
| "OpenCode_NativeName OpenCodeEventMessagePartUpdated = ''message.part.updated''"
| "OpenCode_NativeName OpenCodeEventMessagePartRemoved = ''message.part.removed''"
| "OpenCode_NativeName OpenCodeEventPermissionUpdated = ''permission.updated''"
| "OpenCode_NativeName OpenCodeEventPermissionReplied = ''permission.replied''"
| "OpenCode_NativeName OpenCodeEventServerConnected = ''server.connected''"
| "OpenCode_NativeName OpenCodeEventServerInstanceDisposed = ''server.instance.disposed''"
| "OpenCode_NativeName OpenCodeEventSessionCreated = ''session.created''"
| "OpenCode_NativeName OpenCodeEventSessionUpdated = ''session.updated''"
| "OpenCode_NativeName OpenCodeEventSessionDeleted = ''session.deleted''"
| "OpenCode_NativeName OpenCodeEventSessionCompacted = ''session.compacted''"
| "OpenCode_NativeName OpenCodeEventSessionDiff = ''session.diff''"
| "OpenCode_NativeName OpenCodeEventSessionError = ''session.error''"
| "OpenCode_NativeName OpenCodeEventSessionIdle = ''session.idle''"
| "OpenCode_NativeName OpenCodeEventSessionStatus = ''session.status''"
| "OpenCode_NativeName OpenCodeEventTodoUpdated = ''todo.updated''"
| "OpenCode_NativeName OpenCodeEventTUIPromptAppend = ''tui.prompt.append''"
| "OpenCode_NativeName OpenCodeEventTUICommandExecute = ''tui.command.execute''"
| "OpenCode_NativeName OpenCodeEventTUIToastShow = ''tui.toast.show''"
| "OpenCode_NativeName OpenCodeEventPTYCreated = ''pty.created''"
| "OpenCode_NativeName OpenCodeEventPTYUpdated = ''pty.updated''"
| "OpenCode_NativeName OpenCodeEventPTYExited = ''pty.exited''"
| "OpenCode_NativeName OpenCodeEventPTYDeleted = ''pty.deleted''"
| "OpenCode_NativeName OpenCodeEventVCSBranchUpdated = ''vcs.branch.updated''"
| "OpenCode_NativeName OpenCodeEventChatMessage = ''chat.message''"
| "OpenCode_NativeName OpenCodeEventChatParams = ''chat.params''"
| "OpenCode_NativeName OpenCodeEventChatHeaders = ''chat.headers''"
| "OpenCode_NativeName OpenCodeEventPermissionAsk = ''permission.ask''"
| "OpenCode_NativeName OpenCodeEventCommandExecuteBefore = ''command.execute.before''"
| "OpenCode_NativeName OpenCodeEventToolExecuteBefore = ''tool.execute.before''"
| "OpenCode_NativeName OpenCodeEventShellEnv = ''shell.env''"
| "OpenCode_NativeName OpenCodeEventToolExecuteAfter = ''tool.execute.after''"
| "OpenCode_NativeName OpenCodeEventExperimentalChatMessagesTransform = ''experimental.chat.messages.transform''"
| "OpenCode_NativeName OpenCodeEventExperimentalChatSystemTransform = ''experimental.chat.system.transform''"
| "OpenCode_NativeName OpenCodeEventExperimentalProviderSmallModel = ''experimental.provider.small_model''"
| "OpenCode_NativeName OpenCodeEventExperimentalSessionCompacting = ''experimental.session.compacting''"
| "OpenCode_NativeName OpenCodeEventExperimentalCompactionAutocontinue = ''experimental.compaction.autocontinue''"
| "OpenCode_NativeName OpenCodeEventExperimentalTextComplete = ''experimental.text.complete''"
| "OpenCode_NativeName OpenCodeEventToolDefinition = ''tool.definition''"

definition openCodeSessionIdentity :: NativeIdentityField where
  "openCodeSessionIdentity = nativeIdentity IdentitySession ''sessionID'' True"
definition openCodeOptionalSessionIdentity :: NativeIdentityField where
  "openCodeOptionalSessionIdentity = nativeIdentity IdentitySession ''sessionID'' False"
definition openCodeCallIdentity :: NativeIdentityField where
  "openCodeCallIdentity = nativeIdentity IdentityToolCall ''callID'' True"
definition openCodeOptionalCallIdentity :: NativeIdentityField where
  "openCodeOptionalCallIdentity = nativeIdentity IdentityToolCall ''callID'' False"
definition openCodeMessageIdentity :: NativeIdentityField where
  "openCodeMessageIdentity = nativeIdentity IdentityMessage ''messageID'' False"

definition openCodeNamedMapping :: "OpenCodeLifecycleEvent \<Rightarrow> NativeIdentityField list \<Rightarrow> LifecycleEventMapping" where
  "openCodeNamedMapping event eventIdentities =
     \<lparr>lm_nativeName = OpenCode_NativeName event, lm_semantic = SemanticGateConsultation,
      lm_surface = SurfaceOpenCodeNamedOutput, lm_blocking = Blocking,
      lm_identities = eventIdentities, lm_unresolved = [],
      lm_mutation = MutationOutputObject, lm_order = OrderSequentialLoad,
      lm_reconciliation = ReconcileSequentialMutation,
      lm_failure = FailureThrowFailFast, lm_declaredFailure = FailureThrowFailFast,
      lm_evidence = no_evidence, lm_stopLoop = StopLoopNotApplicable,
      lm_preAction = (event \<noteq> OpenCodeEventToolExecuteAfter),
      lm_askEvidence = no_evidence, lm_response = CapabilityUnset\<rparr>"

definition openCodeObservationMapping :: "OpenCodeLifecycleEvent \<Rightarrow> NativeIdentityField list \<Rightarrow> LifecycleEventMapping" where
  "openCodeObservationMapping event eventIdentities =
     \<lparr>lm_nativeName = OpenCode_NativeName event, lm_semantic = SemanticObservation,
      lm_surface = SurfaceOpenCodeCatchAllSSE, lm_blocking = NonBlocking,
      lm_identities = eventIdentities, lm_unresolved = [],
      lm_mutation = MutationNone, lm_order = OrderObservationStream,
      lm_reconciliation = ReconcileNone,
      lm_failure = FailureObserveOnly, lm_declaredFailure = FailureObserveOnly,
      lm_evidence = no_evidence, lm_stopLoop = StopLoopNotApplicable, lm_preAction = False,
      lm_askEvidence = no_evidence, lm_response = CapabilityUnset\<rparr>"

definition openCodeLifecycleMappings :: "(OpenCodeLifecycleEvent \<times> LifecycleEventMapping) list" where
  "openCodeLifecycleMappings =
    [(OpenCodeEventCommandExecuted, openCodeObservationMapping OpenCodeEventCommandExecuted [openCodeSessionIdentity]),
     (OpenCodeEventFileEdited, openCodeObservationMapping OpenCodeEventFileEdited []),
     (OpenCodeEventFileWatcherUpdated, openCodeObservationMapping OpenCodeEventFileWatcherUpdated []),
     (OpenCodeEventInstallationUpdated, openCodeObservationMapping OpenCodeEventInstallationUpdated []),
     (OpenCodeEventInstallationUpdateAvailable, openCodeObservationMapping OpenCodeEventInstallationUpdateAvailable []),
     (OpenCodeEventLSPClientDiagnostics, openCodeObservationMapping OpenCodeEventLSPClientDiagnostics []),
     (OpenCodeEventLSPUpdated, openCodeObservationMapping OpenCodeEventLSPUpdated []),
     (OpenCodeEventMessageUpdated, openCodeObservationMapping OpenCodeEventMessageUpdated []),
     (OpenCodeEventMessageRemoved, openCodeObservationMapping OpenCodeEventMessageRemoved []),
     (OpenCodeEventMessagePartUpdated, openCodeObservationMapping OpenCodeEventMessagePartUpdated []),
     (OpenCodeEventMessagePartRemoved, openCodeObservationMapping OpenCodeEventMessagePartRemoved []),
     (OpenCodeEventPermissionUpdated, openCodeObservationMapping OpenCodeEventPermissionUpdated []),
     (OpenCodeEventPermissionReplied, openCodeObservationMapping OpenCodeEventPermissionReplied []),
     (OpenCodeEventServerConnected, openCodeObservationMapping OpenCodeEventServerConnected []),
     (OpenCodeEventServerInstanceDisposed, openCodeObservationMapping OpenCodeEventServerInstanceDisposed []),
     (OpenCodeEventSessionCreated, openCodeObservationMapping OpenCodeEventSessionCreated [openCodeSessionIdentity]),
     (OpenCodeEventSessionUpdated, openCodeObservationMapping OpenCodeEventSessionUpdated []),
     (OpenCodeEventSessionDeleted, openCodeObservationMapping OpenCodeEventSessionDeleted []),
     (OpenCodeEventSessionCompacted, openCodeObservationMapping OpenCodeEventSessionCompacted []),
     (OpenCodeEventSessionDiff, openCodeObservationMapping OpenCodeEventSessionDiff []),
     (OpenCodeEventSessionError, openCodeObservationMapping OpenCodeEventSessionError []),
     (OpenCodeEventSessionIdle, openCodeObservationMapping OpenCodeEventSessionIdle []),
     (OpenCodeEventSessionStatus, openCodeObservationMapping OpenCodeEventSessionStatus []),
     (OpenCodeEventTodoUpdated, openCodeObservationMapping OpenCodeEventTodoUpdated []),
     (OpenCodeEventTUIPromptAppend, openCodeObservationMapping OpenCodeEventTUIPromptAppend []),
     (OpenCodeEventTUICommandExecute, openCodeObservationMapping OpenCodeEventTUICommandExecute []),
     (OpenCodeEventTUIToastShow, openCodeObservationMapping OpenCodeEventTUIToastShow []),
     (OpenCodeEventPTYCreated, openCodeObservationMapping OpenCodeEventPTYCreated []),
     (OpenCodeEventPTYUpdated, openCodeObservationMapping OpenCodeEventPTYUpdated []),
     (OpenCodeEventPTYExited, openCodeObservationMapping OpenCodeEventPTYExited []),
     (OpenCodeEventPTYDeleted, openCodeObservationMapping OpenCodeEventPTYDeleted []),
     (OpenCodeEventVCSBranchUpdated, openCodeObservationMapping OpenCodeEventVCSBranchUpdated []),
     (OpenCodeEventChatMessage, openCodeNamedMapping OpenCodeEventChatMessage [openCodeSessionIdentity, openCodeMessageIdentity]),
     (OpenCodeEventChatParams, openCodeNamedMapping OpenCodeEventChatParams [openCodeSessionIdentity]),
     (OpenCodeEventChatHeaders, openCodeNamedMapping OpenCodeEventChatHeaders [openCodeSessionIdentity]),
     (OpenCodeEventPermissionAsk, openCodeNamedMapping OpenCodeEventPermissionAsk []),
     (OpenCodeEventCommandExecuteBefore, openCodeNamedMapping OpenCodeEventCommandExecuteBefore [openCodeSessionIdentity]),
     (OpenCodeEventToolExecuteBefore, openCodeNamedMapping OpenCodeEventToolExecuteBefore [openCodeSessionIdentity, openCodeCallIdentity]),
     (OpenCodeEventShellEnv, openCodeNamedMapping OpenCodeEventShellEnv [openCodeOptionalSessionIdentity, openCodeOptionalCallIdentity]),
     (OpenCodeEventToolExecuteAfter, openCodeNamedMapping OpenCodeEventToolExecuteAfter [openCodeSessionIdentity, openCodeCallIdentity]),
     (OpenCodeEventExperimentalChatMessagesTransform, openCodeNamedMapping OpenCodeEventExperimentalChatMessagesTransform []),
     (OpenCodeEventExperimentalChatSystemTransform, openCodeNamedMapping OpenCodeEventExperimentalChatSystemTransform [openCodeOptionalSessionIdentity]),
     (OpenCodeEventExperimentalProviderSmallModel, openCodeNamedMapping OpenCodeEventExperimentalProviderSmallModel []),
     (OpenCodeEventExperimentalSessionCompacting, openCodeNamedMapping OpenCodeEventExperimentalSessionCompacting [openCodeSessionIdentity]),
     (OpenCodeEventExperimentalCompactionAutocontinue, openCodeNamedMapping OpenCodeEventExperimentalCompactionAutocontinue [openCodeSessionIdentity]),
     (OpenCodeEventExperimentalTextComplete, openCodeNamedMapping OpenCodeEventExperimentalTextComplete [openCodeSessionIdentity, openCodeMessageIdentity]),
     (OpenCodeEventToolDefinition, openCodeNamedMapping OpenCodeEventToolDefinition [])]"

definition OpenCode1_18_29Lifecycle :: "OpenCodeLifecycleEvent LifecycleContract option" where
  "OpenCode1_18_29Lifecycle = mustLifecycleContract OpenCode1_18_29 OpenCodeLifecycleEvents openCodeLifecycleMappings"

datatype (plugins only: code) OpenCode2LifecycleEvent =
    OpenCode2EventSessionCreated | OpenCode2EventSessionPrompt | OpenCode2EventSessionContext |
    OpenCode2EventSessionCompaction | OpenCode2EventSessionGenerate | OpenCode2EventSessionTitle |
    OpenCode2EventSessionModelRequest | OpenCode2EventSessionHTTPRequest |
    OpenCode2EventSessionHTTPResponse | OpenCode2EventSessionExperimentalWSHandshake |
    OpenCode2EventSessionExperimentalWSSend | OpenCode2EventSessionExperimentalWSReceive |
    OpenCode2EventSessionRetry | OpenCode2EventToolExecuteBefore | OpenCode2EventToolExecuteAfter |
    OpenCode2EventPermissionEvaluate | OpenCode2EventShellCreateBefore

definition OpenCode2LifecycleEvents :: "OpenCode2LifecycleEvent list" where
  "OpenCode2LifecycleEvents =
     [OpenCode2EventSessionCreated, OpenCode2EventSessionPrompt, OpenCode2EventSessionContext,
      OpenCode2EventSessionCompaction, OpenCode2EventSessionGenerate, OpenCode2EventSessionTitle,
      OpenCode2EventSessionModelRequest, OpenCode2EventSessionHTTPRequest,
      OpenCode2EventSessionHTTPResponse, OpenCode2EventSessionExperimentalWSHandshake,
      OpenCode2EventSessionExperimentalWSSend, OpenCode2EventSessionExperimentalWSReceive,
      OpenCode2EventSessionRetry, OpenCode2EventToolExecuteBefore, OpenCode2EventToolExecuteAfter,
      OpenCode2EventPermissionEvaluate, OpenCode2EventShellCreateBefore]"

fun OpenCode2_NativeName :: "OpenCode2LifecycleEvent \<Rightarrow> string" where
  "OpenCode2_NativeName OpenCode2EventSessionCreated = ''session.created''"
| "OpenCode2_NativeName OpenCode2EventSessionPrompt = ''session.prompt''"
| "OpenCode2_NativeName OpenCode2EventSessionContext = ''session.context''"
| "OpenCode2_NativeName OpenCode2EventSessionCompaction = ''session.compaction''"
| "OpenCode2_NativeName OpenCode2EventSessionGenerate = ''session.generate''"
| "OpenCode2_NativeName OpenCode2EventSessionTitle = ''session.title''"
| "OpenCode2_NativeName OpenCode2EventSessionModelRequest = ''session.model.request''"
| "OpenCode2_NativeName OpenCode2EventSessionHTTPRequest = ''session.http.request''"
| "OpenCode2_NativeName OpenCode2EventSessionHTTPResponse = ''session.http.response''"
| "OpenCode2_NativeName OpenCode2EventSessionExperimentalWSHandshake = ''session.experimental.ws.handshake''"
| "OpenCode2_NativeName OpenCode2EventSessionExperimentalWSSend = ''session.experimental.ws.send''"
| "OpenCode2_NativeName OpenCode2EventSessionExperimentalWSReceive = ''session.experimental.ws.receive''"
| "OpenCode2_NativeName OpenCode2EventSessionRetry = ''session.retry''"
| "OpenCode2_NativeName OpenCode2EventToolExecuteBefore = ''tool.execute.before''"
| "OpenCode2_NativeName OpenCode2EventToolExecuteAfter = ''tool.execute.after''"
| "OpenCode2_NativeName OpenCode2EventPermissionEvaluate = ''permission.evaluate''"
| "OpenCode2_NativeName OpenCode2EventShellCreateBefore = ''shell.create.before''"

definition openCode2SessionIdentity :: NativeIdentityField where
  "openCode2SessionIdentity = nativeIdentity IdentitySession ''sessionID'' True"
definition openCode2CallIdentity :: NativeIdentityField where
  "openCode2CallIdentity = nativeIdentity IdentityToolCall ''id'' True"

definition openCode2PermissionEvaluateDenyCitation :: FailureEvidence where
  "openCode2PermissionEvaluateDenyCitation = \<lparr>fe_Source = ''opencode 2.0.21 live capture internal/lifecycle/ingress/opencode/testdata/fixtures/opencode_tool_execute_after_2_0_21.3.json (clearance: internal/lifecycle/ingress/opencode/testdata/fixtures/CLEARANCE.md): the host honoured pasture'' @
     [CHR 0x27] @
     ''s permission.evaluate deny '' @
     [CHR 0xE2] @
     [CHR 0x80] @
     [CHR 0x94] @
     '' Permission.BlockedError with reason unknown-actor, tool not run''\<rparr>"

definition openCode2NamedMapping :: "OpenCode2LifecycleEvent \<Rightarrow> FailureEvidence \<Rightarrow> NativeIdentityField list \<Rightarrow> LifecycleEventMapping" where
  "openCode2NamedMapping event evidence eventIdentities =
     \<lparr>lm_nativeName = OpenCode2_NativeName event, lm_semantic = SemanticGateConsultation,
      lm_surface = SurfaceOpenCodeNamedOutput, lm_blocking = Blocking,
      lm_identities = eventIdentities, lm_unresolved = [],
      lm_mutation = MutationOutputObject, lm_order = OrderSequentialLoad,
      lm_reconciliation = ReconcileSequentialMutation,
      lm_failure = FailureThrowFailFast, lm_declaredFailure = FailureThrowFailFast,
      lm_evidence = evidence, lm_stopLoop = StopLoopNotApplicable,
      lm_preAction = (event \<noteq> OpenCode2EventToolExecuteAfter),
      lm_askEvidence = no_evidence, lm_response = CapabilityUnset\<rparr>"

definition openCode2ObservationMapping :: "OpenCode2LifecycleEvent \<Rightarrow> NativeIdentityField list \<Rightarrow> LifecycleEventMapping" where
  "openCode2ObservationMapping event eventIdentities =
     \<lparr>lm_nativeName = OpenCode2_NativeName event, lm_semantic = SemanticObservation,
      lm_surface = SurfaceOpenCodeCatchAllSSE, lm_blocking = NonBlocking,
      lm_identities = eventIdentities, lm_unresolved = [],
      lm_mutation = MutationNone, lm_order = OrderObservationStream,
      lm_reconciliation = ReconcileNone,
      lm_failure = FailureObserveOnly, lm_declaredFailure = FailureObserveOnly,
      lm_evidence = no_evidence, lm_stopLoop = StopLoopNotApplicable, lm_preAction = False,
      lm_askEvidence = no_evidence, lm_response = CapabilityUnset\<rparr>"

definition openCode2LifecycleMappings :: "(OpenCode2LifecycleEvent \<times> LifecycleEventMapping) list" where
  "openCode2LifecycleMappings =
    [(OpenCode2EventSessionCreated, openCode2ObservationMapping OpenCode2EventSessionCreated [openCode2SessionIdentity]),
     (OpenCode2EventSessionPrompt, openCode2NamedMapping OpenCode2EventSessionPrompt no_evidence [openCode2SessionIdentity]),
     (OpenCode2EventSessionContext, openCode2NamedMapping OpenCode2EventSessionContext no_evidence [openCode2SessionIdentity]),
     (OpenCode2EventSessionCompaction, openCode2NamedMapping OpenCode2EventSessionCompaction no_evidence [openCode2SessionIdentity]),
     (OpenCode2EventSessionGenerate, openCode2NamedMapping OpenCode2EventSessionGenerate no_evidence [openCode2SessionIdentity]),
     (OpenCode2EventSessionTitle, openCode2NamedMapping OpenCode2EventSessionTitle no_evidence [openCode2SessionIdentity]),
     (OpenCode2EventSessionModelRequest, openCode2NamedMapping OpenCode2EventSessionModelRequest no_evidence [openCode2SessionIdentity]),
     (OpenCode2EventSessionHTTPRequest, openCode2NamedMapping OpenCode2EventSessionHTTPRequest no_evidence [openCode2SessionIdentity]),
     (OpenCode2EventSessionHTTPResponse, openCode2NamedMapping OpenCode2EventSessionHTTPResponse no_evidence [openCode2SessionIdentity]),
     (OpenCode2EventSessionExperimentalWSHandshake, openCode2NamedMapping OpenCode2EventSessionExperimentalWSHandshake no_evidence [openCode2SessionIdentity]),
     (OpenCode2EventSessionExperimentalWSSend, openCode2NamedMapping OpenCode2EventSessionExperimentalWSSend no_evidence [openCode2SessionIdentity]),
     (OpenCode2EventSessionExperimentalWSReceive, openCode2NamedMapping OpenCode2EventSessionExperimentalWSReceive no_evidence [openCode2SessionIdentity]),
     (OpenCode2EventSessionRetry, openCode2NamedMapping OpenCode2EventSessionRetry no_evidence [openCode2SessionIdentity]),
     (OpenCode2EventToolExecuteBefore, openCode2NamedMapping OpenCode2EventToolExecuteBefore no_evidence [openCode2SessionIdentity, openCode2CallIdentity]),
     (OpenCode2EventToolExecuteAfter, openCode2NamedMapping OpenCode2EventToolExecuteAfter no_evidence [openCode2SessionIdentity, openCode2CallIdentity]),
     (OpenCode2EventPermissionEvaluate, openCode2NamedMapping OpenCode2EventPermissionEvaluate openCode2PermissionEvaluateDenyCitation [openCode2SessionIdentity]),
     (OpenCode2EventShellCreateBefore, openCode2NamedMapping OpenCode2EventShellCreateBefore no_evidence [])]"

definition OpenCode2_0_20Lifecycle :: "OpenCode2LifecycleEvent LifecycleContract option" where
  "OpenCode2_0_20Lifecycle = mustLifecycleContract OpenCode2_0_20 OpenCode2LifecycleEvents openCode2LifecycleMappings"

section \<open>Lookups by native name\<close>

text \<open>The row of a native event in a contract; a profile that could not be built has no rows.\<close>

fun lookup_events :: "'e LifecycleContract \<Rightarrow> string \<Rightarrow> 'e list \<Rightarrow> LifecycleEventMapping option" where
  "lookup_events c name [] = None"
| "lookup_events c name (e # es) =
     (case Contract_Mapping c e of
        Err _ \<Rightarrow> lookup_events c name es
      | Ok m \<Rightarrow> if lm_nativeName m = name then Some m else lookup_events c name es)"

record LifecycleFailurePolicy =
  fp_Mode :: FailureMode
  fp_DeclaredMode :: FailureMode
  fp_Evidence :: FailureEvidence
  fp_Semantic :: EventSemantic
  fp_Blocking :: BlockingMode
  fp_Response :: ResponseCapability

definition failure_policy_of :: "LifecycleEventMapping \<Rightarrow> LifecycleFailurePolicy" where
  "failure_policy_of m = \<lparr>fp_Mode = lm_failure m, fp_DeclaredMode = lm_declaredFailure m,
     fp_Evidence = lm_evidence m, fp_Semantic = lm_semantic m, fp_Blocking = lm_blocking m,
     fp_Response = lm_response m\<rparr>"

definition lookupLifecycleFailure :: "'e LifecycleContract option \<Rightarrow> 'e list \<Rightarrow> string \<Rightarrow> LifecycleFailurePolicy option" where
  "lookupLifecycleFailure contract events nativeName =
     (case contract of None \<Rightarrow> None
      | Some c \<Rightarrow> map_option failure_policy_of (lookup_events c nativeName events))"

definition LookupLifecycleFailure :: "Harness \<Rightarrow> string \<Rightarrow> LifecycleFailurePolicy option" where
  "LookupLifecycleFailure harness nativeName =
     (if harness = HarnessClaudeCode then
        lookupLifecycleFailure ClaudeCode2_1_261Lifecycle ClaudeLifecycleEvents nativeName
      else if harness = HarnessCodex then
        lookupLifecycleFailure Codex0_153_0Lifecycle CodexLifecycleEvents nativeName
      else if harness = HarnessOpenCode then
        (case lookupLifecycleFailure OpenCode2_0_20Lifecycle OpenCode2LifecycleEvents nativeName of
           Some p \<Rightarrow> Some p
         | None \<Rightarrow> lookupLifecycleFailure OpenCode1_18_29Lifecycle OpenCodeLifecycleEvents nativeName)
      else None)"

definition FailurePolicy_Declared :: "LifecycleFailurePolicy \<Rightarrow> bool" where
  "FailurePolicy_Declared p \<longleftrightarrow> EventSemantic_IsValid (fp_Semantic p)"

section \<open>The profiles are constructible\<close>

text \<open>The native names of the rows of a contract with a property.\<close>

definition names_with :: "(LifecycleEventMapping \<Rightarrow> bool) \<Rightarrow> 'e LifecycleContract \<Rightarrow> string list" where
  "names_with P c = map lm_nativeName (filter P (map snd (lc_mappings c)))"

definition profile_digest :: "'e LifecycleContract \<Rightarrow> string list \<times> string list \<times> string list" where
  "profile_digest c = (names_with (\<lambda>m. AllowsDeny (lm_response m)) c,
     names_with (\<lambda>m. BlocksByExitCode (lm_failure m)) c,
     names_with (\<lambda>m. lm_semantic m = SemanticExplicitHumanResponse) c)"

lemma claude_profile:
  "map_option profile_digest ClaudeCode2_1_261Lifecycle =
     Some ([''UserPromptSubmit'', ''Stop'', ''PreToolUse'', ''SubagentStop'', ''PreModelSwitch''],
       [''UserPromptSubmit'', ''Stop'', ''PreToolUse'', ''SubagentStop'', ''PreModelSwitch''],
       [''ElicitationResult''])"
  by code_simp

lemma codex_profile: "map_option profile_digest Codex0_153_0Lifecycle = Some ([], [], [])"
  by code_simp

lemma opencode_profile: "map_option profile_digest OpenCode1_18_29Lifecycle = Some ([], [], [])"
  by code_simp

lemma opencode2_profile:
  "map_option profile_digest OpenCode2_0_20Lifecycle = Some ([''permission.evaluate''], [], [])"
  by code_simp

lemma profile_contract:
  assumes "mustLifecycleContract base events mappings = Some c"
  shows "lifecycle_contract c" "lc_events c = events"
proof -
  obtain b where n: "newLifecycleContract b events mappings = Ok c"
    using assms by (auto simp: mustLifecycleContract_def split: option.splits sum.splits)
  then show "lifecycle_contract c" by (rule newLifecycleContract_contract)
  show "lc_events c = events" using n by (auto simp: newLifecycleContract_def split: if_splits)
qed

lemma map_option_defined: "map_option f x = Some y \<Longrightarrow> x = Some (the x)"
  by (cases x) simp_all

lemma profiles_defined:
  "ClaudeCode2_1_261Lifecycle = Some (the ClaudeCode2_1_261Lifecycle)"
  "Codex0_153_0Lifecycle = Some (the Codex0_153_0Lifecycle)"
  "OpenCode1_18_29Lifecycle = Some (the OpenCode1_18_29Lifecycle)"
  "OpenCode2_0_20Lifecycle = Some (the OpenCode2_0_20Lifecycle)"
  by (rule map_option_defined [OF claude_profile] map_option_defined [OF codex_profile]
      map_option_defined [OF opencode_profile] map_option_defined [OF opencode2_profile])+

lemmas profiles_built =
  trans [OF ClaudeCode2_1_261Lifecycle_def [symmetric] profiles_defined(1)]
  trans [OF Codex0_153_0Lifecycle_def [symmetric] profiles_defined(2)]
  trans [OF OpenCode1_18_29Lifecycle_def [symmetric] profiles_defined(3)]
  trans [OF OpenCode2_0_20Lifecycle_def [symmetric] profiles_defined(4)]

interpretation claude: lifecycle_contract "the ClaudeCode2_1_261Lifecycle"
  by (rule profile_contract(1) [OF profiles_built(1)])

interpretation codex: lifecycle_contract "the Codex0_153_0Lifecycle"
  by (rule profile_contract(1) [OF profiles_built(2)])

interpretation opencode: lifecycle_contract "the OpenCode1_18_29Lifecycle"
  by (rule profile_contract(1) [OF profiles_built(3)])

interpretation opencode2: lifecycle_contract "the OpenCode2_0_20Lifecycle"
  by (rule profile_contract(1) [OF profiles_built(4)])

lemma profile_events:
  "lc_events (the ClaudeCode2_1_261Lifecycle) = ClaudeLifecycleEvents"
  "lc_events (the Codex0_153_0Lifecycle) = CodexLifecycleEvents"
  "lc_events (the OpenCode1_18_29Lifecycle) = OpenCodeLifecycleEvents"
  "lc_events (the OpenCode2_0_20Lifecycle) = OpenCode2LifecycleEvents"
  by (rule profile_contract(2) [OF profiles_built(1)] profile_contract(2) [OF profiles_built(2)]
      profile_contract(2) [OF profiles_built(3)] profile_contract(2) [OF profiles_built(4)])+

text \<open>The rows a built profile stores are the rows of its table, each with its derived capability.\<close>

definition owned_rows :: "('e \<times> LifecycleEventMapping) list \<Rightarrow> LifecycleEventMapping list" where
  "owned_rows mappings = map (\<lambda>(e, m). m\<lparr>lm_response := derivedResponse m\<rparr>) mappings"

lemma profile_rows:
  assumes "mustLifecycleContract base events mappings = Some c" "map fst mappings = events"
  shows "map snd (lc_mappings c) = owned_rows mappings"
proof -
  obtain b where "newLifecycleContract b events mappings = Ok c"
    using assms by (auto simp: mustLifecycleContract_def split: option.splits sum.splits)
  then have l: "contract_loop 0 mappings [] [] events = Ok (lc_mappings c)"
    by (auto simp: newLifecycleContract_def split: if_splits)
  note o = contract_loop_Ok [OF l]
  have d: "distinct (map fst mappings)" using o(2) assms(2) by simp
  have "snd (lc_mappings c ! i) = owned_rows mappings ! i" if i: "i < length mappings" for i
  proof -
    obtain e m where em: "lc_mappings c ! i = (e, m)" by (cases "lc_mappings c ! i")
    obtain e0 m0 where em0: "mappings ! i = (e0, m0)" by (cases "mappings ! i")
    have len: "length (lc_mappings c) = length mappings" using o(1) assms(2) by (metis length_map)
    have "map fst (lc_mappings c) ! i = map fst mappings ! i" using o(1) assms(2) by simp
    then have "e = e0" using i len em em0 by simp
    moreover have "map_of mappings e0 = Some m0" using d i em0 by (metis map_of_is_SomeI nth_mem)
    moreover have "(e, m) \<in> set (lc_mappings c)" using em i len by (metis nth_mem)
    ultimately have "m = m0\<lparr>lm_response := derivedResponse m0\<rparr>" using o(6) by auto
    then show ?thesis using em em0 i by (simp add: owned_rows_def)
  qed
  moreover have "length (lc_mappings c) = length mappings" using o(1) assms(2) by (metis length_map)
  ultimately show ?thesis by (intro nth_equalityI) (simp_all add: owned_rows_def)
qed

lemma tables_in_order:
  "map fst claudeLifecycleMappings = ClaudeLifecycleEvents"
  "map fst codexLifecycleMappings = CodexLifecycleEvents"
  "map fst openCodeLifecycleMappings = OpenCodeLifecycleEvents"
  "map fst openCode2LifecycleMappings = OpenCode2LifecycleEvents"
  by code_simp+

lemmas profile_row_tables =
  profile_rows [OF profiles_built(1) tables_in_order(1)] profile_rows [OF profiles_built(2) tables_in_order(2)]
  profile_rows [OF profiles_built(3) tables_in_order(3)] profile_rows [OF profiles_built(4) tables_in_order(4)]

context lifecycle_contract
begin

lemma lookup_Some:
  "lookup_events contract n es = Some m \<Longrightarrow> \<exists>e\<in>set es. Contract_Mapping contract e = Ok m \<and> lm_nativeName m = n"
  by (induction es) (auto split: sum.splits if_splits)

lemma lookup_iff:
  "lookup_events contract n (lc_events contract) = Some m
     \<longleftrightarrow> (\<exists>e. Contract_Mapping contract e = Ok m \<and> lm_nativeName m = n)"
proof
  assume "\<exists>e. Contract_Mapping contract e = Ok m \<and> lm_nativeName m = n"
  then obtain e where e: "Contract_Mapping contract e = Ok m" "lm_nativeName m = n" by blast
  have "lookup_events contract n es = Some m" if "e \<in> set es" "set es \<subseteq> set (lc_events contract)" for es
    using that
  proof (induction es)
    case (Cons f fs)
    obtain k where k: "Contract_Mapping contract f = Ok k" using Cons.prems Mapping_defined by auto
    show ?case
    proof (cases "lm_nativeName k = n")
      case True
      then have "k = m" using native_name_unique [OF k e(1)] e(2) by simp
      then show ?thesis using k True by simp
    next
      case False
      then have "f \<noteq> e" using e k by auto
      then show ?thesis using Cons k False by simp
    qed
  qed simp
  then show "lookup_events contract n (lc_events contract) = Some m" using e Mapping_defined by blast
qed (blast dest: lookup_Some)

lemma names_with_iff:
  "n \<in> set (names_with P contract) \<longleftrightarrow> (\<exists>m. lookup_events contract n (lc_events contract) = Some m \<and> P m)"
proof -
  have "n \<in> set (names_with P contract) \<longleftrightarrow> (\<exists>e m. Contract_Mapping contract e = Ok m \<and> P m \<and> lm_nativeName m = n)"
    unfolding Mapping_iff names_with_def by force
  then show ?thesis unfolding lookup_iff by blast
qed

lemma lookup_valid:
  "lookup_events contract n (lc_events contract) = Some m \<Longrightarrow> Mapping_IsValid m \<and> lm_nativeName m = n"
  using lookup_iff Mapping_valid by blast

end

section \<open>Which events can refuse\<close>

lemma lookup_failure_names:
  assumes "lifecycle_contract c" "lc_events c = events"
  shows "(\<exists>p. lookupLifecycleFailure (Some c) events n = Some p \<and> Q (fp_Response p) (fp_Mode p))
     \<longleftrightarrow> n \<in> set (names_with (\<lambda>m. Q (lm_response m) (lm_failure m)) c)"
  unfolding lifecycle_contract.names_with_iff [OF assms(1)]
  by (auto simp: lookupLifecycleFailure_def failure_policy_of_def assms(2))

lemma digest_names:
  assumes "map_option profile_digest p = Some (a, b, h)"
  shows "names_with (\<lambda>m. AllowsDeny (lm_response m)) (the p) = a"
    "names_with (\<lambda>m. BlocksByExitCode (lm_failure m)) (the p) = b"
  using assms by (auto simp: profile_digest_def)

lemmas deny_names = digest_names(1) [OF claude_profile] digest_names(1) [OF codex_profile]
  digest_names(1) [OF opencode_profile] digest_names(1) [OF opencode2_profile]
lemmas exit_names = digest_names(2) [OF claude_profile] digest_names(2) [OF codex_profile]
  digest_names(2) [OF opencode_profile] digest_names(2) [OF opencode2_profile]

lemma lookup_by_profile:
  "(\<exists>p. lookupLifecycleFailure ClaudeCode2_1_261Lifecycle ClaudeLifecycleEvents n = Some p \<and> Q (fp_Response p) (fp_Mode p))
    \<longleftrightarrow> n \<in> set (names_with (\<lambda>m. Q (lm_response m) (lm_failure m)) (the ClaudeCode2_1_261Lifecycle))"
  "(\<exists>p. lookupLifecycleFailure Codex0_153_0Lifecycle CodexLifecycleEvents n = Some p \<and> Q (fp_Response p) (fp_Mode p))
    \<longleftrightarrow> n \<in> set (names_with (\<lambda>m. Q (lm_response m) (lm_failure m)) (the Codex0_153_0Lifecycle))"
  "(\<exists>p. lookupLifecycleFailure OpenCode1_18_29Lifecycle OpenCodeLifecycleEvents n = Some p \<and> Q (fp_Response p) (fp_Mode p))
    \<longleftrightarrow> n \<in> set (names_with (\<lambda>m. Q (lm_response m) (lm_failure m)) (the OpenCode1_18_29Lifecycle))"
  "(\<exists>p. lookupLifecycleFailure OpenCode2_0_20Lifecycle OpenCode2LifecycleEvents n = Some p \<and> Q (fp_Response p) (fp_Mode p))
    \<longleftrightarrow> n \<in> set (names_with (\<lambda>m. Q (lm_response m) (lm_failure m)) (the OpenCode2_0_20Lifecycle))"
  by (rule lookup_failure_names [OF claude.lifecycle_contract_axioms profile_events(1), of n Q,
        unfolded profiles_defined(1) [symmetric]]
      lookup_failure_names [OF codex.lifecycle_contract_axioms profile_events(2), of n Q,
        unfolded profiles_defined(2) [symmetric]]
      lookup_failure_names [OF opencode.lifecycle_contract_axioms profile_events(3), of n Q,
        unfolded profiles_defined(3) [symmetric]]
      lookup_failure_names [OF opencode2.lifecycle_contract_axioms profile_events(4), of n Q,
        unfolded profiles_defined(4) [symmetric]])+

lemma harnesses_distinct:
  "HarnessClaudeCode \<noteq> HarnessCodex" "HarnessClaudeCode \<noteq> HarnessOpenCode" "HarnessCodex \<noteq> HarnessOpenCode"
  by (simp_all add: harness_defs)

text \<open>The pinned profiles let a policy denial reach the host for six events only, five of Claude
  Code and the permission evaluation of OpenCode 2; no Codex event and no event of OpenCode 1 can be
  refused, and only the five Claude Code events refuse through the exit code.\<close>

theorem refusable_events:
  "((\<exists>p. LookupLifecycleFailure h n = Some p \<and> AllowsDeny (fp_Response p)) \<longleftrightarrow>
      h = HarnessClaudeCode \<and> n \<in> {''UserPromptSubmit'', ''Stop'', ''PreToolUse'', ''SubagentStop'', ''PreModelSwitch''}
      \<or> h = HarnessOpenCode \<and> n = ''permission.evaluate'')
   \<and> ((\<exists>p. LookupLifecycleFailure h n = Some p \<and> BlocksByExitCode (fp_Mode p)) \<longleftrightarrow>
      h = HarnessClaudeCode \<and> n \<in> {''UserPromptSubmit'', ''Stop'', ''PreToolUse'', ''SubagentStop'', ''PreModelSwitch''})"
proof -
  note d = lookup_by_profile [where Q = "\<lambda>r m. AllowsDeny r" and n = n, unfolded deny_names]
  note x = lookup_by_profile [where Q = "\<lambda>r m. BlocksByExitCode m" and n = n, unfolded exit_names]
  have oc: "(\<exists>p. (case lookupLifecycleFailure OpenCode2_0_20Lifecycle OpenCode2LifecycleEvents n of
        Some p \<Rightarrow> Some p | None \<Rightarrow> lookupLifecycleFailure OpenCode1_18_29Lifecycle OpenCodeLifecycleEvents n) = Some p \<and> Q p)
     \<longleftrightarrow> (\<exists>p. lookupLifecycleFailure OpenCode2_0_20Lifecycle OpenCode2LifecycleEvents n = Some p \<and> Q p)"
    if "\<not> (\<exists>p. lookupLifecycleFailure OpenCode1_18_29Lifecycle OpenCodeLifecycleEvents n = Some p \<and> Q p)" for Q
    using that by (cases "lookupLifecycleFailure OpenCode2_0_20Lifecycle OpenCode2LifecycleEvents n") simp_all
  have deny: "\<not> (\<exists>p. lookupLifecycleFailure OpenCode1_18_29Lifecycle OpenCodeLifecycleEvents n = Some p \<and> AllowsDeny (fp_Response p))"
    unfolding d(3) by simp
  have exit: "\<not> (\<exists>p. lookupLifecycleFailure OpenCode1_18_29Lifecycle OpenCodeLifecycleEvents n = Some p \<and> BlocksByExitCode (fp_Mode p))"
    unfolding x(3) by simp
  consider "h = HarnessClaudeCode" | "h = HarnessCodex" | "h = HarnessOpenCode"
    | "h \<noteq> HarnessClaudeCode" "h \<noteq> HarnessCodex" "h \<noteq> HarnessOpenCode" by blast
  then show ?thesis
  proof cases
    case 1
    then show ?thesis using harnesses_distinct by (simp add: LookupLifecycleFailure_def d(1) x(1))
  next
    case 2
    then show ?thesis using harnesses_distinct by (simp add: LookupLifecycleFailure_def d(2) x(2))
  next
    case 3
    then show ?thesis using harnesses_distinct oc [OF deny] oc [OF exit]
      by (simp add: LookupLifecycleFailure_def d(4) x(4))
  next
    case 4
    then show ?thesis by (simp add: LookupLifecycleFailure_def)
  qed
qed

end
