(* ===== verification/Registration.thy ===== *)
theory Registration
  imports LifecycleProfiles
begin

text \<open>
  The registration manifests of the four pinned host contracts
  (\<^verbatim>\<open>internal/lifecycle/registration\<close>): the event and field numbers of
  \<^verbatim>\<open>event_kinds.gen.go\<close>, the record of a registered event and its lookups of \<^verbatim>\<open>types.go\<close>, and
  the rows of the four generated manifests.  The lemmas show that the manifests and the runtime
  profiles register the same events with the same blocking and stop-loop columns, and name
  the rows whose failure mode the manifest overstates.
\<close>

section \<open>Registered events\<close>

type_synonym ContractEventKind = nat
type_synonym NativeFieldID = nat

datatype RegBlockingMode = RegNonBlocking | RegBlocking | RegConditionallyBlocking
datatype RegMutationMode = RegMutationNone | RegMutationInput
datatype RegStopLoopPolicy = RegStopLoopNotApplicable | RegStopLoopConsultWhenInactive

datatype NativeBindingKind =
    BindingSession | BindingTurn | BindingRequest | BindingToolCall | BindingAgent | BindingMessage
  | BindingTask | BindingWorktree

datatype SessionTransition =
    SessionTransitionNone | SessionTransitionPrompt | SessionTransitionEnd | SessionTransitionResume

record Identity =
  id_Field :: NativeFieldID
  id_Binding :: NativeBindingKind
  id_Required :: bool

record Event =
  ev_Kind :: ContractEventKind
  ev_NativeName :: string
  ev_AllowedFields :: "NativeFieldID list"
  ev_Identities :: "Identity list"
  ev_Blocking :: RegBlockingMode
  ev_Mutation :: RegMutationMode
  ev_Failure :: FailureMode
  ev_StopLoop :: RegStopLoopPolicy
  ev_SessionTransition :: SessionTransition
  ev_TransitionSourceField :: string

record Manifest =
  mf_Harness :: Harness
  mf_Version :: string
  mf_Contract :: string
  mf_Events :: "Event list"

abbreviation Entries :: "Manifest \<Rightarrow> Event list" where
  "Entries m \<equiv> mf_Events m"

section \<open>Event kinds and field identifiers\<close>

abbreviation (input) EventSessionStart :: ContractEventKind where "EventSessionStart \<equiv> 1"
abbreviation (input) EventSetup :: ContractEventKind where "EventSetup \<equiv> 2"
abbreviation (input) EventSessionEnd :: ContractEventKind where "EventSessionEnd \<equiv> 3"
abbreviation (input) EventUserPromptSubmit :: ContractEventKind where "EventUserPromptSubmit \<equiv> 4"
abbreviation (input) EventUserPromptExpansion :: ContractEventKind where "EventUserPromptExpansion \<equiv> 5"
abbreviation (input) EventStop :: ContractEventKind where "EventStop \<equiv> 6"
abbreviation (input) EventStopFailure :: ContractEventKind where "EventStopFailure \<equiv> 7"
abbreviation (input) EventPreToolUse :: ContractEventKind where "EventPreToolUse \<equiv> 8"
abbreviation (input) EventPermissionRequest :: ContractEventKind where "EventPermissionRequest \<equiv> 9"
abbreviation (input) EventPermissionDenied :: ContractEventKind where "EventPermissionDenied \<equiv> 10"
abbreviation (input) EventPostToolUse :: ContractEventKind where "EventPostToolUse \<equiv> 11"
abbreviation (input) EventPostToolUseFailure :: ContractEventKind where "EventPostToolUseFailure \<equiv> 12"
abbreviation (input) EventPostToolBatch :: ContractEventKind where "EventPostToolBatch \<equiv> 13"
abbreviation (input) EventFileChanged :: ContractEventKind where "EventFileChanged \<equiv> 14"
abbreviation (input) EventCwdChanged :: ContractEventKind where "EventCwdChanged \<equiv> 15"
abbreviation (input) EventConfigChange :: ContractEventKind where "EventConfigChange \<equiv> 16"
abbreviation (input) EventInstructionsLoaded :: ContractEventKind where "EventInstructionsLoaded \<equiv> 17"
abbreviation (input) EventWorktreeCreate :: ContractEventKind where "EventWorktreeCreate \<equiv> 18"
abbreviation (input) EventWorktreeRemove :: ContractEventKind where "EventWorktreeRemove \<equiv> 19"
abbreviation (input) EventSubagentStart :: ContractEventKind where "EventSubagentStart \<equiv> 20"
abbreviation (input) EventSubagentStop :: ContractEventKind where "EventSubagentStop \<equiv> 21"
abbreviation (input) EventTeammateIdle :: ContractEventKind where "EventTeammateIdle \<equiv> 22"
abbreviation (input) EventTaskCreated :: ContractEventKind where "EventTaskCreated \<equiv> 23"
abbreviation (input) EventTaskCompleted :: ContractEventKind where "EventTaskCompleted \<equiv> 24"
abbreviation (input) EventPreCompact :: ContractEventKind where "EventPreCompact \<equiv> 25"
abbreviation (input) EventPostCompact :: ContractEventKind where "EventPostCompact \<equiv> 26"
abbreviation (input) EventNotification :: ContractEventKind where "EventNotification \<equiv> 27"
abbreviation (input) EventMessageDisplay :: ContractEventKind where "EventMessageDisplay \<equiv> 28"
abbreviation (input) EventElicitation :: ContractEventKind where "EventElicitation \<equiv> 29"
abbreviation (input) EventElicitationResult :: ContractEventKind where "EventElicitationResult \<equiv> 30"
abbreviation (input) EventPreModelSwitch :: ContractEventKind where "EventPreModelSwitch \<equiv> 31"
abbreviation (input) EventPostModelSwitch :: ContractEventKind where "EventPostModelSwitch \<equiv> 32"
abbreviation (input) EventDirectoryAdded :: ContractEventKind where "EventDirectoryAdded \<equiv> 33"
abbreviation (input) EventOpenCodeCommandExecuted :: ContractEventKind where "EventOpenCodeCommandExecuted \<equiv> 34"
abbreviation (input) EventOpenCodeFileEdited :: ContractEventKind where "EventOpenCodeFileEdited \<equiv> 35"
abbreviation (input) EventOpenCodeFileWatcherUpdated :: ContractEventKind where "EventOpenCodeFileWatcherUpdated \<equiv> 36"
abbreviation (input) EventOpenCodeInstallationUpdated :: ContractEventKind where "EventOpenCodeInstallationUpdated \<equiv> 37"
abbreviation (input) EventOpenCodeInstallationUpdate_available :: ContractEventKind where "EventOpenCodeInstallationUpdate_available \<equiv> 38"
abbreviation (input) EventOpenCodeLspClientDiagnostics :: ContractEventKind where "EventOpenCodeLspClientDiagnostics \<equiv> 39"
abbreviation (input) EventOpenCodeLspUpdated :: ContractEventKind where "EventOpenCodeLspUpdated \<equiv> 40"
abbreviation (input) EventOpenCodeMessageUpdated :: ContractEventKind where "EventOpenCodeMessageUpdated \<equiv> 41"
abbreviation (input) EventOpenCodeMessageRemoved :: ContractEventKind where "EventOpenCodeMessageRemoved \<equiv> 42"
abbreviation (input) EventOpenCodeMessagePartUpdated :: ContractEventKind where "EventOpenCodeMessagePartUpdated \<equiv> 43"
abbreviation (input) EventOpenCodeMessagePartRemoved :: ContractEventKind where "EventOpenCodeMessagePartRemoved \<equiv> 44"
abbreviation (input) EventOpenCodePermissionUpdated :: ContractEventKind where "EventOpenCodePermissionUpdated \<equiv> 45"
abbreviation (input) EventOpenCodePermissionReplied :: ContractEventKind where "EventOpenCodePermissionReplied \<equiv> 46"
abbreviation (input) EventOpenCodeServerConnected :: ContractEventKind where "EventOpenCodeServerConnected \<equiv> 47"
abbreviation (input) EventOpenCodeServerInstanceDisposed :: ContractEventKind where "EventOpenCodeServerInstanceDisposed \<equiv> 48"
abbreviation (input) EventOpenCodeSessionCreated :: ContractEventKind where "EventOpenCodeSessionCreated \<equiv> 49"
abbreviation (input) EventOpenCodeSessionUpdated :: ContractEventKind where "EventOpenCodeSessionUpdated \<equiv> 50"
abbreviation (input) EventOpenCodeSessionDeleted :: ContractEventKind where "EventOpenCodeSessionDeleted \<equiv> 51"
abbreviation (input) EventOpenCodeSessionCompacted :: ContractEventKind where "EventOpenCodeSessionCompacted \<equiv> 52"
abbreviation (input) EventOpenCodeSessionDiff :: ContractEventKind where "EventOpenCodeSessionDiff \<equiv> 53"
abbreviation (input) EventOpenCodeSessionError :: ContractEventKind where "EventOpenCodeSessionError \<equiv> 54"
abbreviation (input) EventOpenCodeSessionIdle :: ContractEventKind where "EventOpenCodeSessionIdle \<equiv> 55"
abbreviation (input) EventOpenCodeSessionStatus :: ContractEventKind where "EventOpenCodeSessionStatus \<equiv> 56"
abbreviation (input) EventOpenCodeTodoUpdated :: ContractEventKind where "EventOpenCodeTodoUpdated \<equiv> 57"
abbreviation (input) EventOpenCodeTuiPromptAppend :: ContractEventKind where "EventOpenCodeTuiPromptAppend \<equiv> 58"
abbreviation (input) EventOpenCodeTuiCommandExecute :: ContractEventKind where "EventOpenCodeTuiCommandExecute \<equiv> 59"
abbreviation (input) EventOpenCodeTuiToastShow :: ContractEventKind where "EventOpenCodeTuiToastShow \<equiv> 60"
abbreviation (input) EventOpenCodePtyCreated :: ContractEventKind where "EventOpenCodePtyCreated \<equiv> 61"
abbreviation (input) EventOpenCodePtyUpdated :: ContractEventKind where "EventOpenCodePtyUpdated \<equiv> 62"
abbreviation (input) EventOpenCodePtyExited :: ContractEventKind where "EventOpenCodePtyExited \<equiv> 63"
abbreviation (input) EventOpenCodePtyDeleted :: ContractEventKind where "EventOpenCodePtyDeleted \<equiv> 64"
abbreviation (input) EventOpenCodeVcsBranchUpdated :: ContractEventKind where "EventOpenCodeVcsBranchUpdated \<equiv> 65"
abbreviation (input) EventOpenCodeChatMessage :: ContractEventKind where "EventOpenCodeChatMessage \<equiv> 66"
abbreviation (input) EventOpenCodeChatParams :: ContractEventKind where "EventOpenCodeChatParams \<equiv> 67"
abbreviation (input) EventOpenCodeChatHeaders :: ContractEventKind where "EventOpenCodeChatHeaders \<equiv> 68"
abbreviation (input) EventOpenCodePermissionAsk :: ContractEventKind where "EventOpenCodePermissionAsk \<equiv> 69"
abbreviation (input) EventOpenCodeCommandExecuteBefore :: ContractEventKind where "EventOpenCodeCommandExecuteBefore \<equiv> 70"
abbreviation (input) EventOpenCodeToolExecuteBefore :: ContractEventKind where "EventOpenCodeToolExecuteBefore \<equiv> 71"
abbreviation (input) EventOpenCodeShellEnv :: ContractEventKind where "EventOpenCodeShellEnv \<equiv> 72"
abbreviation (input) EventOpenCodeToolExecuteAfter :: ContractEventKind where "EventOpenCodeToolExecuteAfter \<equiv> 73"
abbreviation (input) EventOpenCodeExperimentalChatMessagesTransform :: ContractEventKind where "EventOpenCodeExperimentalChatMessagesTransform \<equiv> 74"
abbreviation (input) EventOpenCodeExperimentalChatSystemTransform :: ContractEventKind where "EventOpenCodeExperimentalChatSystemTransform \<equiv> 75"
abbreviation (input) EventOpenCodeExperimentalProviderSmall_model :: ContractEventKind where "EventOpenCodeExperimentalProviderSmall_model \<equiv> 76"
abbreviation (input) EventOpenCodeExperimentalSessionCompacting :: ContractEventKind where "EventOpenCodeExperimentalSessionCompacting \<equiv> 77"
abbreviation (input) EventOpenCodeExperimentalCompactionAutocontinue :: ContractEventKind where "EventOpenCodeExperimentalCompactionAutocontinue \<equiv> 78"
abbreviation (input) EventOpenCodeExperimentalTextComplete :: ContractEventKind where "EventOpenCodeExperimentalTextComplete \<equiv> 79"
abbreviation (input) EventOpenCodeToolDefinition :: ContractEventKind where "EventOpenCodeToolDefinition \<equiv> 80"
abbreviation (input) EventCodexSessionStart :: ContractEventKind where "EventCodexSessionStart \<equiv> 81"
abbreviation (input) EventCodexUserPromptSubmit :: ContractEventKind where "EventCodexUserPromptSubmit \<equiv> 82"
abbreviation (input) EventCodexPreToolUse :: ContractEventKind where "EventCodexPreToolUse \<equiv> 83"
abbreviation (input) EventCodexPermissionRequest :: ContractEventKind where "EventCodexPermissionRequest \<equiv> 84"
abbreviation (input) EventCodexPostToolUse :: ContractEventKind where "EventCodexPostToolUse \<equiv> 85"
abbreviation (input) EventCodexPreCompact :: ContractEventKind where "EventCodexPreCompact \<equiv> 86"
abbreviation (input) EventCodexPostCompact :: ContractEventKind where "EventCodexPostCompact \<equiv> 87"
abbreviation (input) EventCodexSubagentStart :: ContractEventKind where "EventCodexSubagentStart \<equiv> 88"
abbreviation (input) EventCodexSubagentStop :: ContractEventKind where "EventCodexSubagentStop \<equiv> 89"
abbreviation (input) EventCodexStop :: ContractEventKind where "EventCodexStop \<equiv> 90"
abbreviation (input) EventCodexSessionEnd :: ContractEventKind where "EventCodexSessionEnd \<equiv> 91"
abbreviation (input) EventCodexInterrupt :: ContractEventKind where "EventCodexInterrupt \<equiv> 92"
abbreviation (input) EventOpenCode2SessionCreated :: ContractEventKind where "EventOpenCode2SessionCreated \<equiv> 93"
abbreviation (input) EventOpenCode2SessionPrompt :: ContractEventKind where "EventOpenCode2SessionPrompt \<equiv> 94"
abbreviation (input) EventOpenCode2SessionContext :: ContractEventKind where "EventOpenCode2SessionContext \<equiv> 95"
abbreviation (input) EventOpenCode2SessionCompaction :: ContractEventKind where "EventOpenCode2SessionCompaction \<equiv> 96"
abbreviation (input) EventOpenCode2SessionGenerate :: ContractEventKind where "EventOpenCode2SessionGenerate \<equiv> 97"
abbreviation (input) EventOpenCode2SessionTitle :: ContractEventKind where "EventOpenCode2SessionTitle \<equiv> 98"
abbreviation (input) EventOpenCode2SessionModelRequest :: ContractEventKind where "EventOpenCode2SessionModelRequest \<equiv> 99"
abbreviation (input) EventOpenCode2SessionHttpRequest :: ContractEventKind where "EventOpenCode2SessionHttpRequest \<equiv> 100"
abbreviation (input) EventOpenCode2SessionHttpResponse :: ContractEventKind where "EventOpenCode2SessionHttpResponse \<equiv> 101"
abbreviation (input) EventOpenCode2SessionExperimentalWsHandshake :: ContractEventKind where "EventOpenCode2SessionExperimentalWsHandshake \<equiv> 102"
abbreviation (input) EventOpenCode2SessionExperimentalWsSend :: ContractEventKind where "EventOpenCode2SessionExperimentalWsSend \<equiv> 103"
abbreviation (input) EventOpenCode2SessionExperimentalWsReceive :: ContractEventKind where "EventOpenCode2SessionExperimentalWsReceive \<equiv> 104"
abbreviation (input) EventOpenCode2SessionRetry :: ContractEventKind where "EventOpenCode2SessionRetry \<equiv> 105"
abbreviation (input) EventOpenCode2ToolExecuteBefore :: ContractEventKind where "EventOpenCode2ToolExecuteBefore \<equiv> 106"
abbreviation (input) EventOpenCode2ToolExecuteAfter :: ContractEventKind where "EventOpenCode2ToolExecuteAfter \<equiv> 107"
abbreviation (input) EventOpenCode2PermissionEvaluate :: ContractEventKind where "EventOpenCode2PermissionEvaluate \<equiv> 108"
abbreviation (input) EventOpenCode2ShellCreateBefore :: ContractEventKind where "EventOpenCode2ShellCreateBefore \<equiv> 109"

abbreviation (input) FieldSessionID :: NativeFieldID where "FieldSessionID \<equiv> 1"
abbreviation (input) FieldScratchpadDir :: NativeFieldID where "FieldScratchpadDir \<equiv> 2"
abbreviation (input) FieldTranscriptPath :: NativeFieldID where "FieldTranscriptPath \<equiv> 3"
abbreviation (input) FieldCWD :: NativeFieldID where "FieldCWD \<equiv> 4"
abbreviation (input) FieldPermissionMode :: NativeFieldID where "FieldPermissionMode \<equiv> 5"
abbreviation (input) FieldHookEventName :: NativeFieldID where "FieldHookEventName \<equiv> 6"
abbreviation (input) FieldEffort :: NativeFieldID where "FieldEffort \<equiv> 7"
abbreviation (input) FieldAgentID :: NativeFieldID where "FieldAgentID \<equiv> 8"
abbreviation (input) FieldAgentType :: NativeFieldID where "FieldAgentType \<equiv> 9"
abbreviation (input) FieldSource :: NativeFieldID where "FieldSource \<equiv> 10"
abbreviation (input) FieldModel :: NativeFieldID where "FieldModel \<equiv> 11"
abbreviation (input) FieldSessionTitle :: NativeFieldID where "FieldSessionTitle \<equiv> 12"
abbreviation (input) FieldTrigger :: NativeFieldID where "FieldTrigger \<equiv> 13"
abbreviation (input) FieldReason :: NativeFieldID where "FieldReason \<equiv> 14"
abbreviation (input) FieldPrompt :: NativeFieldID where "FieldPrompt \<equiv> 15"
abbreviation (input) FieldCommandName :: NativeFieldID where "FieldCommandName \<equiv> 16"
abbreviation (input) FieldStopHookActive :: NativeFieldID where "FieldStopHookActive \<equiv> 17"
abbreviation (input) FieldError :: NativeFieldID where "FieldError \<equiv> 18"
abbreviation (input) FieldErrorType :: NativeFieldID where "FieldErrorType \<equiv> 19"
abbreviation (input) FieldToolName :: NativeFieldID where "FieldToolName \<equiv> 20"
abbreviation (input) FieldToolInput :: NativeFieldID where "FieldToolInput \<equiv> 21"
abbreviation (input) FieldToolUseID :: NativeFieldID where "FieldToolUseID \<equiv> 22"
abbreviation (input) FieldRequestID :: NativeFieldID where "FieldRequestID \<equiv> 23"
abbreviation (input) FieldToolOutput :: NativeFieldID where "FieldToolOutput \<equiv> 24"
abbreviation (input) FieldBatchResults :: NativeFieldID where "FieldBatchResults \<equiv> 25"
abbreviation (input) FieldFilePath :: NativeFieldID where "FieldFilePath \<equiv> 26"
abbreviation (input) FieldConfigSource :: NativeFieldID where "FieldConfigSource \<equiv> 27"
abbreviation (input) FieldMemoryType :: NativeFieldID where "FieldMemoryType \<equiv> 28"
abbreviation (input) FieldLoadReason :: NativeFieldID where "FieldLoadReason \<equiv> 29"
abbreviation (input) FieldGlobs :: NativeFieldID where "FieldGlobs \<equiv> 30"
abbreviation (input) FieldTriggerFilePath :: NativeFieldID where "FieldTriggerFilePath \<equiv> 31"
abbreviation (input) FieldParentFilePath :: NativeFieldID where "FieldParentFilePath \<equiv> 32"
abbreviation (input) FieldAgentTranscriptPath :: NativeFieldID where "FieldAgentTranscriptPath \<equiv> 33"
abbreviation (input) FieldTeammateName :: NativeFieldID where "FieldTeammateName \<equiv> 34"
abbreviation (input) FieldTaskID :: NativeFieldID where "FieldTaskID \<equiv> 35"
abbreviation (input) FieldMessage :: NativeFieldID where "FieldMessage \<equiv> 36"
abbreviation (input) FieldNotificationType :: NativeFieldID where "FieldNotificationType \<equiv> 37"
abbreviation (input) FieldTitle :: NativeFieldID where "FieldTitle \<equiv> 38"
abbreviation (input) FieldContent :: NativeFieldID where "FieldContent \<equiv> 39"
abbreviation (input) FieldFields :: NativeFieldID where "FieldFields \<equiv> 40"
abbreviation (input) FieldMCPServerName :: NativeFieldID where "FieldMCPServerName \<equiv> 41"
abbreviation (input) FieldResponse :: NativeFieldID where "FieldResponse \<equiv> 42"
abbreviation (input) FieldPromptID :: NativeFieldID where "FieldPromptID \<equiv> 43"
abbreviation (input) FieldToolResponse :: NativeFieldID where "FieldToolResponse \<equiv> 44"
abbreviation (input) FieldDurationMS :: NativeFieldID where "FieldDurationMS \<equiv> 45"
abbreviation (input) FieldIsInterrupt :: NativeFieldID where "FieldIsInterrupt \<equiv> 46"
abbreviation (input) FieldToolCalls :: NativeFieldID where "FieldToolCalls \<equiv> 47"
abbreviation (input) FieldCustomInstructions :: NativeFieldID where "FieldCustomInstructions \<equiv> 48"
abbreviation (input) FieldCompactSummary :: NativeFieldID where "FieldCompactSummary \<equiv> 49"
abbreviation (input) FieldMode :: NativeFieldID where "FieldMode \<equiv> 50"
abbreviation (input) FieldRequestedSchema :: NativeFieldID where "FieldRequestedSchema \<equiv> 51"
abbreviation (input) FieldAction :: NativeFieldID where "FieldAction \<equiv> 52"
abbreviation (input) FieldOpenCodeSessionID :: NativeFieldID where "FieldOpenCodeSessionID \<equiv> 53"
abbreviation (input) FieldOpenCodeCallID :: NativeFieldID where "FieldOpenCodeCallID \<equiv> 54"
abbreviation (input) FieldCodexSessionID :: NativeFieldID where "FieldCodexSessionID \<equiv> 55"
abbreviation (input) FieldCodexTurnID :: NativeFieldID where "FieldCodexTurnID \<equiv> 56"
abbreviation (input) FieldCodexToolUseID :: NativeFieldID where "FieldCodexToolUseID \<equiv> 57"
abbreviation (input) FieldFileEvent :: NativeFieldID where "FieldFileEvent \<equiv> 58"
abbreviation (input) FieldCodexAgentID :: NativeFieldID where "FieldCodexAgentID \<equiv> 59"
abbreviation (input) FieldOpenCode2SessionID :: NativeFieldID where "FieldOpenCode2SessionID \<equiv> 60"
abbreviation (input) FieldOpenCode2CallID :: NativeFieldID where "FieldOpenCode2CallID \<equiv> 61"
abbreviation (input) FieldCodexSource :: NativeFieldID where "FieldCodexSource \<equiv> 62"

section \<open>The four manifests\<close>

definition req_identity :: "NativeFieldID \<Rightarrow> NativeBindingKind \<Rightarrow> bool \<Rightarrow> Identity" where
  "req_identity f b r = \<lparr>id_Field = f, id_Binding = b, id_Required = r\<rparr>"

definition reg_event :: "ContractEventKind \<Rightarrow> string \<Rightarrow> NativeFieldID list \<Rightarrow> Identity list \<Rightarrow> RegBlockingMode
    \<Rightarrow> RegMutationMode \<Rightarrow> FailureMode \<Rightarrow> RegStopLoopPolicy \<Rightarrow> SessionTransition \<Rightarrow> string \<Rightarrow> Event" where
  "reg_event k n fs is b m f s t src =
     \<lparr>ev_Kind = k, ev_NativeName = n, ev_AllowedFields = fs, ev_Identities = is, ev_Blocking = b, ev_Mutation = m,
      ev_Failure = f, ev_StopLoop = s, ev_SessionTransition = t, ev_TransitionSourceField = src\<rparr>"

definition manifest_of :: "Harness \<Rightarrow> string \<Rightarrow> Event list \<Rightarrow> Manifest option" where
  "manifest_of h v es = map_option (\<lambda>c. \<lparr>mf_Harness = h, mf_Version = v, mf_Contract = c, mf_Events = es\<rparr>)
     (NewRuntimeContractID h v)"

definition ClaudeCode__2_1_261_events :: "Event list" where
  "ClaudeCode__2_1_261_events =
    [reg_event EventSessionStart ''SessionStart''
       [FieldSessionID, FieldTranscriptPath, FieldCWD, FieldPermissionMode, FieldHookEventName, FieldEffort,
        FieldAgentID, FieldAgentType, FieldPromptID, FieldScratchpadDir, FieldSource, FieldModel, FieldSessionTitle]
       [req_identity FieldSessionID BindingSession True]
       RegNonBlocking RegMutationNone FailureReportAndContinue RegStopLoopNotApplicable SessionTransitionResume ''source'',
     reg_event EventSetup ''Setup''
       [FieldSessionID, FieldTranscriptPath, FieldCWD, FieldPermissionMode, FieldHookEventName, FieldEffort,
        FieldAgentID, FieldAgentType, FieldPromptID, FieldScratchpadDir, FieldTrigger]
       [req_identity FieldSessionID BindingSession True]
       RegNonBlocking RegMutationNone FailureReportAndContinue RegStopLoopNotApplicable SessionTransitionNone '''',
     reg_event EventSessionEnd ''SessionEnd''
       [FieldSessionID, FieldTranscriptPath, FieldCWD, FieldPermissionMode, FieldHookEventName, FieldEffort,
        FieldAgentID, FieldAgentType, FieldPromptID, FieldScratchpadDir, FieldReason]
       [req_identity FieldSessionID BindingSession True]
       RegNonBlocking RegMutationNone FailureReportAndContinue RegStopLoopNotApplicable SessionTransitionEnd '''',
     reg_event EventUserPromptSubmit ''UserPromptSubmit''
       [FieldSessionID, FieldTranscriptPath, FieldCWD, FieldPermissionMode, FieldHookEventName, FieldEffort,
        FieldAgentID, FieldAgentType, FieldPromptID, FieldScratchpadDir, FieldPrompt]
       [req_identity FieldSessionID BindingSession True]
       RegBlocking RegMutationNone FailureExitTwoBlocks RegStopLoopNotApplicable SessionTransitionPrompt '''',
     reg_event EventUserPromptExpansion ''UserPromptExpansion''
       [FieldSessionID, FieldTranscriptPath, FieldCWD, FieldPermissionMode, FieldHookEventName, FieldEffort,
        FieldAgentID, FieldAgentType, FieldPromptID, FieldScratchpadDir, FieldPrompt, FieldCommandName]
       [req_identity FieldSessionID BindingSession True]
       RegBlocking RegMutationNone FailureExitTwoBlocks RegStopLoopNotApplicable SessionTransitionNone '''',
     reg_event EventStop ''Stop''
       [FieldSessionID, FieldTranscriptPath, FieldCWD, FieldPermissionMode, FieldHookEventName, FieldEffort,
        FieldAgentID, FieldAgentType, FieldPromptID, FieldScratchpadDir, FieldStopHookActive]
       [req_identity FieldSessionID BindingSession True]
       RegBlocking RegMutationNone FailureExitTwoBlocks RegStopLoopConsultWhenInactive SessionTransitionNone '''',
     reg_event EventStopFailure ''StopFailure''
       [FieldSessionID, FieldTranscriptPath, FieldCWD, FieldPermissionMode, FieldHookEventName, FieldEffort,
        FieldAgentID, FieldAgentType, FieldPromptID, FieldScratchpadDir, FieldError, FieldErrorType]
       [req_identity FieldSessionID BindingSession True]
       RegNonBlocking RegMutationNone FailureReportAndContinue RegStopLoopNotApplicable SessionTransitionNone '''',
     reg_event EventPreToolUse ''PreToolUse''
       [FieldSessionID, FieldTranscriptPath, FieldCWD, FieldPermissionMode, FieldHookEventName, FieldEffort,
        FieldAgentID, FieldAgentType, FieldPromptID, FieldScratchpadDir, FieldToolName, FieldToolInput, FieldToolUseID]
       [req_identity FieldSessionID BindingSession True, req_identity FieldToolUseID BindingToolCall True]
       RegBlocking RegMutationInput FailureExitTwoBlocks RegStopLoopNotApplicable SessionTransitionNone '''',
     reg_event EventPermissionRequest ''PermissionRequest''
       [FieldSessionID, FieldTranscriptPath, FieldCWD, FieldPermissionMode, FieldHookEventName, FieldEffort,
        FieldAgentID, FieldAgentType, FieldPromptID, FieldScratchpadDir, FieldToolName, FieldToolInput, FieldRequestID]
       [req_identity FieldSessionID BindingSession True, req_identity FieldRequestID BindingRequest True]
       RegBlocking RegMutationNone FailureExitTwoBlocks RegStopLoopNotApplicable SessionTransitionNone '''',
     reg_event EventPermissionDenied ''PermissionDenied''
       [FieldSessionID, FieldTranscriptPath, FieldCWD, FieldPermissionMode, FieldHookEventName, FieldEffort,
        FieldAgentID, FieldAgentType, FieldPromptID, FieldScratchpadDir, FieldToolName, FieldToolInput]
       [req_identity FieldSessionID BindingSession True]
       RegNonBlocking RegMutationNone FailureReportAndContinue RegStopLoopNotApplicable SessionTransitionNone '''',
     reg_event EventPostToolUse ''PostToolUse''
       [FieldSessionID, FieldTranscriptPath, FieldCWD, FieldPermissionMode, FieldHookEventName, FieldEffort,
        FieldAgentID, FieldAgentType, FieldPromptID, FieldScratchpadDir, FieldToolName, FieldToolInput, FieldToolOutput,
        FieldToolResponse, FieldDurationMS, FieldToolUseID]
       [req_identity FieldSessionID BindingSession True, req_identity FieldToolUseID BindingToolCall True]
       RegNonBlocking RegMutationNone FailureReportAndContinue RegStopLoopNotApplicable SessionTransitionNone '''',
     reg_event EventPostToolUseFailure ''PostToolUseFailure''
       [FieldSessionID, FieldTranscriptPath, FieldCWD, FieldPermissionMode, FieldHookEventName, FieldEffort,
        FieldAgentID, FieldAgentType, FieldPromptID, FieldScratchpadDir, FieldToolName, FieldToolInput, FieldError,
        FieldIsInterrupt, FieldDurationMS, FieldToolUseID]
       [req_identity FieldSessionID BindingSession True, req_identity FieldToolUseID BindingToolCall True]
       RegNonBlocking RegMutationNone FailureReportAndContinue RegStopLoopNotApplicable SessionTransitionNone '''',
     reg_event EventPostToolBatch ''PostToolBatch''
       [FieldSessionID, FieldTranscriptPath, FieldCWD, FieldPermissionMode, FieldHookEventName, FieldEffort,
        FieldAgentID, FieldAgentType, FieldPromptID, FieldScratchpadDir, FieldBatchResults, FieldToolCalls]
       [req_identity FieldSessionID BindingSession True]
       RegBlocking RegMutationNone FailureExitTwoBlocks RegStopLoopNotApplicable SessionTransitionNone '''',
     reg_event EventFileChanged ''FileChanged''
       [FieldSessionID, FieldTranscriptPath, FieldCWD, FieldPermissionMode, FieldHookEventName, FieldEffort,
        FieldAgentID, FieldAgentType, FieldPromptID, FieldScratchpadDir, FieldFilePath, FieldFileEvent]
       [req_identity FieldSessionID BindingSession True]
       RegNonBlocking RegMutationNone FailureReportAndContinue RegStopLoopNotApplicable SessionTransitionNone '''',
     reg_event EventCwdChanged ''CwdChanged''
       [FieldSessionID, FieldTranscriptPath, FieldCWD, FieldPermissionMode, FieldHookEventName, FieldEffort,
        FieldAgentID, FieldAgentType, FieldPromptID, FieldScratchpadDir]
       [req_identity FieldSessionID BindingSession True]
       RegNonBlocking RegMutationNone FailureReportAndContinue RegStopLoopNotApplicable SessionTransitionNone '''',
     reg_event EventConfigChange ''ConfigChange''
       [FieldSessionID, FieldTranscriptPath, FieldCWD, FieldPermissionMode, FieldHookEventName, FieldEffort,
        FieldAgentID, FieldAgentType, FieldPromptID, FieldScratchpadDir, FieldConfigSource]
       [req_identity FieldSessionID BindingSession True]
       RegConditionallyBlocking RegMutationNone FailureExitTwoBlocks RegStopLoopNotApplicable SessionTransitionNone '''',
     reg_event EventInstructionsLoaded ''InstructionsLoaded''
       [FieldSessionID, FieldTranscriptPath, FieldCWD, FieldPermissionMode, FieldHookEventName, FieldEffort,
        FieldAgentID, FieldAgentType, FieldPromptID, FieldScratchpadDir, FieldFilePath, FieldMemoryType, FieldLoadReason,
        FieldGlobs, FieldTriggerFilePath, FieldParentFilePath]
       [req_identity FieldSessionID BindingSession True]
       RegNonBlocking RegMutationNone FailureReportAndContinue RegStopLoopNotApplicable SessionTransitionNone '''',
     reg_event EventWorktreeCreate ''WorktreeCreate''
       [FieldSessionID, FieldTranscriptPath, FieldCWD, FieldPermissionMode, FieldHookEventName, FieldEffort,
        FieldAgentID, FieldAgentType, FieldPromptID, FieldScratchpadDir]
       [req_identity FieldSessionID BindingSession True]
       RegBlocking RegMutationNone FailureExitTwoBlocks RegStopLoopNotApplicable SessionTransitionNone '''',
     reg_event EventWorktreeRemove ''WorktreeRemove''
       [FieldSessionID, FieldTranscriptPath, FieldCWD, FieldPermissionMode, FieldHookEventName, FieldEffort,
        FieldAgentID, FieldAgentType, FieldPromptID, FieldScratchpadDir]
       [req_identity FieldSessionID BindingSession True]
       RegNonBlocking RegMutationNone FailureReportAndContinue RegStopLoopNotApplicable SessionTransitionNone '''',
     reg_event EventSubagentStart ''SubagentStart''
       [FieldSessionID, FieldTranscriptPath, FieldCWD, FieldPermissionMode, FieldHookEventName, FieldEffort,
        FieldAgentID, FieldAgentType, FieldPromptID, FieldScratchpadDir]
       [req_identity FieldSessionID BindingSession True, req_identity FieldAgentID BindingAgent True]
       RegNonBlocking RegMutationNone FailureReportAndContinue RegStopLoopNotApplicable SessionTransitionNone '''',
     reg_event EventSubagentStop ''SubagentStop''
       [FieldSessionID, FieldTranscriptPath, FieldCWD, FieldPermissionMode, FieldHookEventName, FieldEffort,
        FieldAgentID, FieldAgentType, FieldPromptID, FieldScratchpadDir, FieldAgentTranscriptPath, FieldStopHookActive]
       [req_identity FieldSessionID BindingSession True, req_identity FieldAgentID BindingAgent True]
       RegBlocking RegMutationNone FailureExitTwoBlocks RegStopLoopConsultWhenInactive SessionTransitionNone '''',
     reg_event EventTeammateIdle ''TeammateIdle''
       [FieldSessionID, FieldTranscriptPath, FieldCWD, FieldPermissionMode, FieldHookEventName, FieldEffort,
        FieldAgentID, FieldAgentType, FieldPromptID, FieldScratchpadDir, FieldTeammateName]
       [req_identity FieldSessionID BindingSession True]
       RegBlocking RegMutationNone FailureExitTwoBlocks RegStopLoopNotApplicable SessionTransitionNone '''',
     reg_event EventTaskCreated ''TaskCreated''
       [FieldSessionID, FieldTranscriptPath, FieldCWD, FieldPermissionMode, FieldHookEventName, FieldEffort,
        FieldAgentID, FieldAgentType, FieldPromptID, FieldScratchpadDir, FieldTaskID]
       [req_identity FieldSessionID BindingSession True]
       RegBlocking RegMutationNone FailureExitTwoBlocks RegStopLoopNotApplicable SessionTransitionNone '''',
     reg_event EventTaskCompleted ''TaskCompleted''
       [FieldSessionID, FieldTranscriptPath, FieldCWD, FieldPermissionMode, FieldHookEventName, FieldEffort,
        FieldAgentID, FieldAgentType, FieldPromptID, FieldScratchpadDir, FieldTaskID]
       [req_identity FieldSessionID BindingSession True]
       RegBlocking RegMutationNone FailureExitTwoBlocks RegStopLoopNotApplicable SessionTransitionNone '''',
     reg_event EventPreCompact ''PreCompact''
       [FieldSessionID, FieldTranscriptPath, FieldCWD, FieldPermissionMode, FieldHookEventName, FieldEffort,
        FieldAgentID, FieldAgentType, FieldPromptID, FieldScratchpadDir, FieldTrigger, FieldCustomInstructions]
       [req_identity FieldSessionID BindingSession True]
       RegBlocking RegMutationNone FailureExitTwoBlocks RegStopLoopNotApplicable SessionTransitionNone '''',
     reg_event EventPostCompact ''PostCompact''
       [FieldSessionID, FieldTranscriptPath, FieldCWD, FieldPermissionMode, FieldHookEventName, FieldEffort,
        FieldAgentID, FieldAgentType, FieldPromptID, FieldScratchpadDir, FieldTrigger, FieldCompactSummary]
       [req_identity FieldSessionID BindingSession True]
       RegNonBlocking RegMutationNone FailureReportAndContinue RegStopLoopNotApplicable SessionTransitionNone '''',
     reg_event EventNotification ''Notification''
       [FieldSessionID, FieldTranscriptPath, FieldCWD, FieldPermissionMode, FieldHookEventName, FieldEffort,
        FieldAgentID, FieldAgentType, FieldPromptID, FieldScratchpadDir, FieldMessage, FieldNotificationType, FieldTitle]
       [req_identity FieldSessionID BindingSession True]
       RegNonBlocking RegMutationNone FailureReportAndContinue RegStopLoopNotApplicable SessionTransitionNone '''',
     reg_event EventMessageDisplay ''MessageDisplay''
       [FieldSessionID, FieldTranscriptPath, FieldCWD, FieldPermissionMode, FieldHookEventName, FieldEffort,
        FieldAgentID, FieldAgentType, FieldPromptID, FieldScratchpadDir, FieldMessage, FieldContent]
       [req_identity FieldSessionID BindingSession True]
       RegNonBlocking RegMutationNone FailureReportAndContinue RegStopLoopNotApplicable SessionTransitionNone '''',
     reg_event EventElicitation ''Elicitation''
       [FieldSessionID, FieldTranscriptPath, FieldCWD, FieldPermissionMode, FieldHookEventName, FieldEffort,
        FieldAgentID, FieldAgentType, FieldPromptID, FieldScratchpadDir, FieldRequestID, FieldFields, FieldMCPServerName,
        FieldMessage, FieldMode, FieldRequestedSchema]
       [req_identity FieldSessionID BindingSession True, req_identity FieldRequestID BindingRequest True]
       RegBlocking RegMutationNone FailureExitTwoBlocks RegStopLoopNotApplicable SessionTransitionNone '''',
     reg_event EventElicitationResult ''ElicitationResult''
       [FieldSessionID, FieldTranscriptPath, FieldCWD, FieldPermissionMode, FieldHookEventName, FieldEffort,
        FieldAgentID, FieldAgentType, FieldPromptID, FieldScratchpadDir, FieldRequestID, FieldResponse,
        FieldMCPServerName, FieldMode, FieldAction, FieldContent]
       [req_identity FieldSessionID BindingSession True, req_identity FieldRequestID BindingRequest True]
       RegBlocking RegMutationNone FailureExitTwoBlocks RegStopLoopNotApplicable SessionTransitionNone '''',
     reg_event EventPreModelSwitch ''PreModelSwitch''
       [FieldSessionID, FieldTranscriptPath, FieldCWD, FieldPermissionMode, FieldHookEventName, FieldEffort,
        FieldAgentID, FieldAgentType, FieldPromptID, FieldScratchpadDir]
       [req_identity FieldSessionID BindingSession True]
       RegBlocking RegMutationNone FailureExitTwoBlocks RegStopLoopNotApplicable SessionTransitionNone '''',
     reg_event EventPostModelSwitch ''PostModelSwitch''
       [FieldSessionID, FieldTranscriptPath, FieldCWD, FieldPermissionMode, FieldHookEventName, FieldEffort,
        FieldAgentID, FieldAgentType, FieldPromptID, FieldScratchpadDir]
       [req_identity FieldSessionID BindingSession True]
       RegNonBlocking RegMutationNone FailureReportAndContinue RegStopLoopNotApplicable SessionTransitionNone '''',
     reg_event EventDirectoryAdded ''DirectoryAdded''
       [FieldSessionID, FieldTranscriptPath, FieldCWD, FieldPermissionMode, FieldHookEventName, FieldEffort,
        FieldAgentID, FieldAgentType, FieldPromptID, FieldScratchpadDir]
       [req_identity FieldSessionID BindingSession True]
       RegNonBlocking RegMutationNone FailureReportAndContinue RegStopLoopNotApplicable SessionTransitionNone '''']"

definition ClaudeCode__2_1_261 :: "Manifest option" where
  "ClaudeCode__2_1_261 = manifest_of HarnessClaudeCode ''2.1.261'' ClaudeCode__2_1_261_events"

definition Codex__0_153_0_events :: "Event list" where
  "Codex__0_153_0_events =
    [reg_event EventCodexSessionStart ''SessionStart''
       [FieldCodexSessionID, FieldCodexSource]
       [req_identity FieldCodexSessionID BindingSession True]
       RegNonBlocking RegMutationNone FailureStrictHook RegStopLoopNotApplicable SessionTransitionResume ''source'',
     reg_event EventCodexUserPromptSubmit ''UserPromptSubmit''
       [FieldCodexSessionID, FieldCodexTurnID]
       [req_identity FieldCodexSessionID BindingSession True, req_identity FieldCodexTurnID BindingTurn True]
       RegBlocking RegMutationNone FailureReportAndContinue RegStopLoopNotApplicable SessionTransitionPrompt '''',
     reg_event EventCodexPreToolUse ''PreToolUse''
       [FieldCodexSessionID, FieldCodexTurnID, FieldCodexToolUseID]
       [req_identity FieldCodexSessionID BindingSession True, req_identity FieldCodexTurnID BindingTurn True, req_identity FieldCodexToolUseID BindingToolCall True]
       RegBlocking RegMutationInput FailureReportAndContinue RegStopLoopNotApplicable SessionTransitionNone '''',
     reg_event EventCodexPermissionRequest ''PermissionRequest''
       [FieldCodexSessionID, FieldCodexTurnID]
       [req_identity FieldCodexSessionID BindingSession True, req_identity FieldCodexTurnID BindingTurn True]
       RegBlocking RegMutationNone FailureReportAndContinue RegStopLoopNotApplicable SessionTransitionNone '''',
     reg_event EventCodexPostToolUse ''PostToolUse''
       [FieldCodexSessionID, FieldCodexTurnID, FieldCodexToolUseID]
       [req_identity FieldCodexSessionID BindingSession True, req_identity FieldCodexTurnID BindingTurn True, req_identity FieldCodexToolUseID BindingToolCall True]
       RegBlocking RegMutationNone FailureReportAndContinue RegStopLoopNotApplicable SessionTransitionNone '''',
     reg_event EventCodexPreCompact ''PreCompact''
       [FieldCodexSessionID, FieldCodexTurnID]
       [req_identity FieldCodexSessionID BindingSession True, req_identity FieldCodexTurnID BindingTurn True]
       RegBlocking RegMutationNone FailureReportAndContinue RegStopLoopNotApplicable SessionTransitionNone '''',
     reg_event EventCodexPostCompact ''PostCompact''
       [FieldCodexSessionID, FieldCodexTurnID]
       [req_identity FieldCodexSessionID BindingSession True, req_identity FieldCodexTurnID BindingTurn True]
       RegNonBlocking RegMutationNone FailureReportAndContinue RegStopLoopNotApplicable SessionTransitionNone '''',
     reg_event EventCodexSubagentStart ''SubagentStart''
       [FieldCodexSessionID, FieldCodexTurnID, FieldCodexAgentID]
       [req_identity FieldCodexSessionID BindingSession True, req_identity FieldCodexTurnID BindingTurn True, req_identity FieldCodexAgentID BindingAgent True]
       RegNonBlocking RegMutationNone FailureStrictHook RegStopLoopNotApplicable SessionTransitionNone '''',
     reg_event EventCodexSubagentStop ''SubagentStop''
       [FieldCodexSessionID, FieldCodexTurnID, FieldCodexAgentID]
       [req_identity FieldCodexSessionID BindingSession True, req_identity FieldCodexTurnID BindingTurn True, req_identity FieldCodexAgentID BindingAgent True]
       RegBlocking RegMutationNone FailureReportAndContinue RegStopLoopConsultWhenInactive SessionTransitionNone '''',
     reg_event EventCodexStop ''Stop''
       [FieldCodexSessionID, FieldCodexTurnID]
       [req_identity FieldCodexSessionID BindingSession True, req_identity FieldCodexTurnID BindingTurn True]
       RegBlocking RegMutationNone FailureReportAndContinue RegStopLoopConsultWhenInactive SessionTransitionNone '''',
     reg_event EventCodexSessionEnd ''SessionEnd''
       [FieldCodexSessionID]
       [req_identity FieldCodexSessionID BindingSession True]
       RegNonBlocking RegMutationNone FailureStrictHook RegStopLoopNotApplicable SessionTransitionEnd '''',
     reg_event EventCodexInterrupt ''Interrupt''
       [FieldCodexSessionID, FieldCodexTurnID]
       [req_identity FieldCodexSessionID BindingSession True, req_identity FieldCodexTurnID BindingTurn True]
       RegNonBlocking RegMutationNone FailureStrictHook RegStopLoopNotApplicable SessionTransitionNone '''']"

definition Codex__0_153_0 :: "Manifest option" where
  "Codex__0_153_0 = manifest_of HarnessCodex ''0.153.0'' Codex__0_153_0_events"

definition OpenCode__1_18_29_events :: "Event list" where
  "OpenCode__1_18_29_events =
    [reg_event EventOpenCodeCommandExecuted ''command.executed''
       []
       []
       RegNonBlocking RegMutationNone FailureObserveOnly RegStopLoopNotApplicable SessionTransitionNone '''',
     reg_event EventOpenCodeFileEdited ''file.edited''
       []
       []
       RegNonBlocking RegMutationNone FailureObserveOnly RegStopLoopNotApplicable SessionTransitionNone '''',
     reg_event EventOpenCodeFileWatcherUpdated ''file.watcher.updated''
       []
       []
       RegNonBlocking RegMutationNone FailureObserveOnly RegStopLoopNotApplicable SessionTransitionNone '''',
     reg_event EventOpenCodeInstallationUpdated ''installation.updated''
       []
       []
       RegNonBlocking RegMutationNone FailureObserveOnly RegStopLoopNotApplicable SessionTransitionNone '''',
     reg_event EventOpenCodeInstallationUpdate_available ''installation.update-available''
       []
       []
       RegNonBlocking RegMutationNone FailureObserveOnly RegStopLoopNotApplicable SessionTransitionNone '''',
     reg_event EventOpenCodeLspClientDiagnostics ''lsp.client.diagnostics''
       []
       []
       RegNonBlocking RegMutationNone FailureObserveOnly RegStopLoopNotApplicable SessionTransitionNone '''',
     reg_event EventOpenCodeLspUpdated ''lsp.updated''
       []
       []
       RegNonBlocking RegMutationNone FailureObserveOnly RegStopLoopNotApplicable SessionTransitionNone '''',
     reg_event EventOpenCodeMessageUpdated ''message.updated''
       []
       []
       RegNonBlocking RegMutationNone FailureObserveOnly RegStopLoopNotApplicable SessionTransitionNone '''',
     reg_event EventOpenCodeMessageRemoved ''message.removed''
       []
       []
       RegNonBlocking RegMutationNone FailureObserveOnly RegStopLoopNotApplicable SessionTransitionNone '''',
     reg_event EventOpenCodeMessagePartUpdated ''message.part.updated''
       []
       []
       RegNonBlocking RegMutationNone FailureObserveOnly RegStopLoopNotApplicable SessionTransitionNone '''',
     reg_event EventOpenCodeMessagePartRemoved ''message.part.removed''
       []
       []
       RegNonBlocking RegMutationNone FailureObserveOnly RegStopLoopNotApplicable SessionTransitionNone '''',
     reg_event EventOpenCodePermissionUpdated ''permission.updated''
       []
       []
       RegNonBlocking RegMutationNone FailureObserveOnly RegStopLoopNotApplicable SessionTransitionNone '''',
     reg_event EventOpenCodePermissionReplied ''permission.replied''
       []
       []
       RegNonBlocking RegMutationNone FailureObserveOnly RegStopLoopNotApplicable SessionTransitionNone '''',
     reg_event EventOpenCodeServerConnected ''server.connected''
       []
       []
       RegNonBlocking RegMutationNone FailureObserveOnly RegStopLoopNotApplicable SessionTransitionNone '''',
     reg_event EventOpenCodeServerInstanceDisposed ''server.instance.disposed''
       []
       []
       RegNonBlocking RegMutationNone FailureObserveOnly RegStopLoopNotApplicable SessionTransitionNone '''',
     reg_event EventOpenCodeSessionCreated ''session.created''
       [FieldOpenCodeSessionID]
       [req_identity FieldOpenCodeSessionID BindingSession True]
       RegNonBlocking RegMutationNone FailureObserveOnly RegStopLoopNotApplicable SessionTransitionNone '''',
     reg_event EventOpenCodeSessionUpdated ''session.updated''
       []
       []
       RegNonBlocking RegMutationNone FailureObserveOnly RegStopLoopNotApplicable SessionTransitionNone '''',
     reg_event EventOpenCodeSessionDeleted ''session.deleted''
       []
       []
       RegNonBlocking RegMutationNone FailureObserveOnly RegStopLoopNotApplicable SessionTransitionNone '''',
     reg_event EventOpenCodeSessionCompacted ''session.compacted''
       []
       []
       RegNonBlocking RegMutationNone FailureObserveOnly RegStopLoopNotApplicable SessionTransitionNone '''',
     reg_event EventOpenCodeSessionDiff ''session.diff''
       []
       []
       RegNonBlocking RegMutationNone FailureObserveOnly RegStopLoopNotApplicable SessionTransitionNone '''',
     reg_event EventOpenCodeSessionError ''session.error''
       []
       []
       RegNonBlocking RegMutationNone FailureObserveOnly RegStopLoopNotApplicable SessionTransitionNone '''',
     reg_event EventOpenCodeSessionIdle ''session.idle''
       []
       []
       RegNonBlocking RegMutationNone FailureObserveOnly RegStopLoopNotApplicable SessionTransitionNone '''',
     reg_event EventOpenCodeSessionStatus ''session.status''
       []
       []
       RegNonBlocking RegMutationNone FailureObserveOnly RegStopLoopNotApplicable SessionTransitionNone '''',
     reg_event EventOpenCodeTodoUpdated ''todo.updated''
       []
       []
       RegNonBlocking RegMutationNone FailureObserveOnly RegStopLoopNotApplicable SessionTransitionNone '''',
     reg_event EventOpenCodeTuiPromptAppend ''tui.prompt.append''
       []
       []
       RegNonBlocking RegMutationNone FailureObserveOnly RegStopLoopNotApplicable SessionTransitionNone '''',
     reg_event EventOpenCodeTuiCommandExecute ''tui.command.execute''
       []
       []
       RegNonBlocking RegMutationNone FailureObserveOnly RegStopLoopNotApplicable SessionTransitionNone '''',
     reg_event EventOpenCodeTuiToastShow ''tui.toast.show''
       []
       []
       RegNonBlocking RegMutationNone FailureObserveOnly RegStopLoopNotApplicable SessionTransitionNone '''',
     reg_event EventOpenCodePtyCreated ''pty.created''
       []
       []
       RegNonBlocking RegMutationNone FailureObserveOnly RegStopLoopNotApplicable SessionTransitionNone '''',
     reg_event EventOpenCodePtyUpdated ''pty.updated''
       []
       []
       RegNonBlocking RegMutationNone FailureObserveOnly RegStopLoopNotApplicable SessionTransitionNone '''',
     reg_event EventOpenCodePtyExited ''pty.exited''
       []
       []
       RegNonBlocking RegMutationNone FailureObserveOnly RegStopLoopNotApplicable SessionTransitionNone '''',
     reg_event EventOpenCodePtyDeleted ''pty.deleted''
       []
       []
       RegNonBlocking RegMutationNone FailureObserveOnly RegStopLoopNotApplicable SessionTransitionNone '''',
     reg_event EventOpenCodeVcsBranchUpdated ''vcs.branch.updated''
       []
       []
       RegNonBlocking RegMutationNone FailureObserveOnly RegStopLoopNotApplicable SessionTransitionNone '''',
     reg_event EventOpenCodeChatMessage ''chat.message''
       []
       []
       RegBlocking RegMutationNone FailureThrowFailFast RegStopLoopNotApplicable SessionTransitionNone '''',
     reg_event EventOpenCodeChatParams ''chat.params''
       []
       []
       RegBlocking RegMutationNone FailureThrowFailFast RegStopLoopNotApplicable SessionTransitionNone '''',
     reg_event EventOpenCodeChatHeaders ''chat.headers''
       []
       []
       RegBlocking RegMutationNone FailureThrowFailFast RegStopLoopNotApplicable SessionTransitionNone '''',
     reg_event EventOpenCodePermissionAsk ''permission.ask''
       []
       []
       RegBlocking RegMutationNone FailureThrowFailFast RegStopLoopNotApplicable SessionTransitionNone '''',
     reg_event EventOpenCodeCommandExecuteBefore ''command.execute.before''
       []
       []
       RegBlocking RegMutationNone FailureThrowFailFast RegStopLoopNotApplicable SessionTransitionNone '''',
     reg_event EventOpenCodeToolExecuteBefore ''tool.execute.before''
       [FieldOpenCodeSessionID, FieldOpenCodeCallID]
       [req_identity FieldOpenCodeSessionID BindingSession True, req_identity FieldOpenCodeCallID BindingToolCall True]
       RegBlocking RegMutationNone FailureThrowFailFast RegStopLoopNotApplicable SessionTransitionNone '''',
     reg_event EventOpenCodeShellEnv ''shell.env''
       []
       []
       RegBlocking RegMutationNone FailureThrowFailFast RegStopLoopNotApplicable SessionTransitionNone '''',
     reg_event EventOpenCodeToolExecuteAfter ''tool.execute.after''
       []
       []
       RegBlocking RegMutationNone FailureThrowFailFast RegStopLoopNotApplicable SessionTransitionNone '''',
     reg_event EventOpenCodeExperimentalChatMessagesTransform ''experimental.chat.messages.transform''
       []
       []
       RegBlocking RegMutationNone FailureThrowFailFast RegStopLoopNotApplicable SessionTransitionNone '''',
     reg_event EventOpenCodeExperimentalChatSystemTransform ''experimental.chat.system.transform''
       []
       []
       RegBlocking RegMutationNone FailureThrowFailFast RegStopLoopNotApplicable SessionTransitionNone '''',
     reg_event EventOpenCodeExperimentalProviderSmall_model ''experimental.provider.small_model''
       []
       []
       RegBlocking RegMutationNone FailureThrowFailFast RegStopLoopNotApplicable SessionTransitionNone '''',
     reg_event EventOpenCodeExperimentalSessionCompacting ''experimental.session.compacting''
       []
       []
       RegBlocking RegMutationNone FailureThrowFailFast RegStopLoopNotApplicable SessionTransitionNone '''',
     reg_event EventOpenCodeExperimentalCompactionAutocontinue ''experimental.compaction.autocontinue''
       []
       []
       RegBlocking RegMutationNone FailureThrowFailFast RegStopLoopNotApplicable SessionTransitionNone '''',
     reg_event EventOpenCodeExperimentalTextComplete ''experimental.text.complete''
       []
       []
       RegBlocking RegMutationNone FailureThrowFailFast RegStopLoopNotApplicable SessionTransitionNone '''',
     reg_event EventOpenCodeToolDefinition ''tool.definition''
       []
       []
       RegBlocking RegMutationNone FailureThrowFailFast RegStopLoopNotApplicable SessionTransitionNone '''']"

definition OpenCode__1_18_29 :: "Manifest option" where
  "OpenCode__1_18_29 = manifest_of HarnessOpenCode ''1.18.29'' OpenCode__1_18_29_events"

definition OpenCode__2_0_20_events :: "Event list" where
  "OpenCode__2_0_20_events =
    [reg_event EventOpenCode2SessionCreated ''session.created''
       [FieldOpenCode2SessionID]
       [req_identity FieldOpenCode2SessionID BindingSession True]
       RegNonBlocking RegMutationNone FailureObserveOnly RegStopLoopNotApplicable SessionTransitionNone '''',
     reg_event EventOpenCode2SessionPrompt ''session.prompt''
       [FieldOpenCode2SessionID]
       [req_identity FieldOpenCode2SessionID BindingSession True]
       RegBlocking RegMutationNone FailureThrowFailFast RegStopLoopNotApplicable SessionTransitionPrompt '''',
     reg_event EventOpenCode2SessionContext ''session.context''
       [FieldOpenCode2SessionID]
       [req_identity FieldOpenCode2SessionID BindingSession True]
       RegBlocking RegMutationNone FailureThrowFailFast RegStopLoopNotApplicable SessionTransitionNone '''',
     reg_event EventOpenCode2SessionCompaction ''session.compaction''
       [FieldOpenCode2SessionID]
       [req_identity FieldOpenCode2SessionID BindingSession True]
       RegBlocking RegMutationNone FailureThrowFailFast RegStopLoopNotApplicable SessionTransitionNone '''',
     reg_event EventOpenCode2SessionGenerate ''session.generate''
       [FieldOpenCode2SessionID]
       [req_identity FieldOpenCode2SessionID BindingSession True]
       RegBlocking RegMutationNone FailureThrowFailFast RegStopLoopNotApplicable SessionTransitionNone '''',
     reg_event EventOpenCode2SessionTitle ''session.title''
       [FieldOpenCode2SessionID]
       [req_identity FieldOpenCode2SessionID BindingSession True]
       RegBlocking RegMutationNone FailureThrowFailFast RegStopLoopNotApplicable SessionTransitionNone '''',
     reg_event EventOpenCode2SessionModelRequest ''session.model.request''
       [FieldOpenCode2SessionID]
       [req_identity FieldOpenCode2SessionID BindingSession True]
       RegBlocking RegMutationNone FailureThrowFailFast RegStopLoopNotApplicable SessionTransitionNone '''',
     reg_event EventOpenCode2SessionHttpRequest ''session.http.request''
       [FieldOpenCode2SessionID]
       [req_identity FieldOpenCode2SessionID BindingSession True]
       RegBlocking RegMutationNone FailureThrowFailFast RegStopLoopNotApplicable SessionTransitionNone '''',
     reg_event EventOpenCode2SessionHttpResponse ''session.http.response''
       [FieldOpenCode2SessionID]
       [req_identity FieldOpenCode2SessionID BindingSession True]
       RegBlocking RegMutationNone FailureThrowFailFast RegStopLoopNotApplicable SessionTransitionNone '''',
     reg_event EventOpenCode2SessionExperimentalWsHandshake ''session.experimental.ws.handshake''
       [FieldOpenCode2SessionID]
       [req_identity FieldOpenCode2SessionID BindingSession True]
       RegBlocking RegMutationNone FailureThrowFailFast RegStopLoopNotApplicable SessionTransitionNone '''',
     reg_event EventOpenCode2SessionExperimentalWsSend ''session.experimental.ws.send''
       [FieldOpenCode2SessionID]
       [req_identity FieldOpenCode2SessionID BindingSession True]
       RegBlocking RegMutationNone FailureThrowFailFast RegStopLoopNotApplicable SessionTransitionNone '''',
     reg_event EventOpenCode2SessionExperimentalWsReceive ''session.experimental.ws.receive''
       [FieldOpenCode2SessionID]
       [req_identity FieldOpenCode2SessionID BindingSession True]
       RegBlocking RegMutationNone FailureThrowFailFast RegStopLoopNotApplicable SessionTransitionNone '''',
     reg_event EventOpenCode2SessionRetry ''session.retry''
       [FieldOpenCode2SessionID]
       [req_identity FieldOpenCode2SessionID BindingSession True]
       RegBlocking RegMutationNone FailureThrowFailFast RegStopLoopNotApplicable SessionTransitionNone '''',
     reg_event EventOpenCode2ToolExecuteBefore ''tool.execute.before''
       [FieldOpenCode2SessionID, FieldOpenCode2CallID]
       [req_identity FieldOpenCode2SessionID BindingSession True, req_identity FieldOpenCode2CallID BindingToolCall True]
       RegBlocking RegMutationNone FailureThrowFailFast RegStopLoopNotApplicable SessionTransitionNone '''',
     reg_event EventOpenCode2ToolExecuteAfter ''tool.execute.after''
       [FieldOpenCode2SessionID, FieldOpenCode2CallID]
       [req_identity FieldOpenCode2SessionID BindingSession True, req_identity FieldOpenCode2CallID BindingToolCall True]
       RegBlocking RegMutationNone FailureThrowFailFast RegStopLoopNotApplicable SessionTransitionNone '''',
     reg_event EventOpenCode2PermissionEvaluate ''permission.evaluate''
       [FieldOpenCode2SessionID]
       [req_identity FieldOpenCode2SessionID BindingSession True]
       RegBlocking RegMutationNone FailureThrowFailFast RegStopLoopNotApplicable SessionTransitionNone '''',
     reg_event EventOpenCode2ShellCreateBefore ''shell.create.before''
       []
       []
       RegBlocking RegMutationNone FailureThrowFailFast RegStopLoopNotApplicable SessionTransitionNone '''']"

definition OpenCode__2_0_20 :: "Manifest option" where
  "OpenCode__2_0_20 = manifest_of HarnessOpenCode ''2.0.20'' OpenCode__2_0_20_events"

definition Manifests :: "Manifest list option" where
  "Manifests = those [ClaudeCode__2_1_261, Codex__0_153_0, OpenCode__1_18_29, OpenCode__2_0_20]"

definition ManifestFor :: "string \<Rightarrow> Manifest option" where
  "ManifestFor contract = Option.bind Manifests (find (\<lambda>m. mf_Contract m = contract))"

definition EventWithManifest :: "string \<Rightarrow> ContractEventKind \<Rightarrow> (Manifest \<times> Event) option" where
  "EventWithManifest contract kind =
     Option.bind (ManifestFor contract) (\<lambda>m.
       map_option (Pair m) (find (\<lambda>e. ev_Kind e = kind) (mf_Events m)))"

definition EventFor :: "string \<Rightarrow> ContractEventKind \<Rightarrow> Event option" where
  "EventFor contract kind = map_option snd (EventWithManifest contract kind)"

definition NativeName :: "string \<Rightarrow> ContractEventKind \<Rightarrow> string option" where
  "NativeName contract kind = map_option ev_NativeName (EventFor contract kind)"

section \<open>Manifests and profiles\<close>

fun reg_blocking :: "BlockingMode \<Rightarrow> RegBlockingMode option" where
  "reg_blocking NonBlocking = Some RegNonBlocking"
| "reg_blocking Blocking = Some RegBlocking"
| "reg_blocking ConditionallyBlocking = Some RegConditionallyBlocking"
| "reg_blocking (BlockingMode_value _) = None"

fun reg_stopLoop :: "StopLoopPolicy \<Rightarrow> RegStopLoopPolicy option" where
  "reg_stopLoop StopLoopNotApplicable = Some RegStopLoopNotApplicable"
| "reg_stopLoop StopLoopConsultWhenInactive = Some RegStopLoopConsultWhenInactive"
| "reg_stopLoop (StopLoopPolicy_value _) = None"

text \<open>The registered events whose column the profile row of the same name contradicts, for a
  manifest and the rows of a profile.\<close>

definition divergent :: "(Event \<Rightarrow> LifecycleEventMapping \<Rightarrow> bool) \<Rightarrow> LifecycleEventMapping list \<Rightarrow> Event list \<Rightarrow> string list" where
  "divergent agrees rows events =
     map (ev_NativeName \<circ> fst) (filter (\<lambda>(e, m). \<not> agrees e m) (zip events rows))"

definition registration_digest :: "LifecycleEventMapping list \<Rightarrow> Event list \<Rightarrow> bool \<times> string list \<times> string list \<times> string list" where
  "registration_digest rows events =
     (map ev_NativeName events = map lm_nativeName rows,
      divergent (\<lambda>e m. reg_blocking (lm_blocking m) = Some (ev_Blocking e)) rows events,
      divergent (\<lambda>e m. reg_stopLoop (lm_stopLoop m) = Some (ev_StopLoop e)) rows events,
      divergent (\<lambda>e m. lm_failure m = ev_Failure e) rows events)"

definition manifest_check :: "'e LifecycleContract option \<Rightarrow> Manifest option
    \<Rightarrow> (bool \<times> string list \<times> string list \<times> string list) option" where
  "manifest_check profile manifest =
     (case (profile, manifest) of
        (Some c, Some mf) \<Rightarrow> Some (registration_digest (map snd (lc_mappings c)) (mf_Events mf))
      | _ \<Rightarrow> None)"

lemma manifest_check_rows:
  assumes "p = Some (the p)" "map snd (lc_mappings (the p)) = owned_rows mappings"
    "map_option (\<lambda>mf. registration_digest (owned_rows mappings) (mf_Events mf)) manifest = Some d"
  shows "manifest_check p manifest = Some d"
  by (subst assms(1)) (use assms(2,3) in \<open>auto simp: manifest_check_def\<close>)

text \<open>For each pinned host contract the registration manifest and the runtime profile register the
  same events in the same order, with the same stop-loop column; their blocking columns differ for the Codex event
  PostCompact only, and their failure modes for eleven Claude Code events only.\<close>

theorem manifests_match_profiles:
  "manifest_check ClaudeCode2_1_261Lifecycle ClaudeCode__2_1_261 = Some (True, [], [],
     [''UserPromptExpansion'', ''PermissionRequest'', ''PostToolBatch'', ''ConfigChange'', ''WorktreeCreate'',
      ''TeammateIdle'', ''TaskCreated'', ''TaskCompleted'', ''PreCompact'', ''Elicitation'', ''ElicitationResult''])
   \<and> manifest_check Codex0_153_0Lifecycle Codex__0_153_0 = Some (True, [''PostCompact''], [], [])
   \<and> manifest_check OpenCode1_18_29Lifecycle OpenCode__1_18_29 = Some (True, [], [], [])
   \<and> manifest_check OpenCode2_0_20Lifecycle OpenCode__2_0_20 = Some (True, [], [], [])"
  by (intro conjI manifest_check_rows [OF profiles_defined(1) profile_row_tables(1)]
      manifest_check_rows [OF profiles_defined(2) profile_row_tables(2)]
      manifest_check_rows [OF profiles_defined(3) profile_row_tables(3)]
      manifest_check_rows [OF profiles_defined(4) profile_row_tables(4)]) code_simp+

section \<open>Lookups\<close>

lemma find_key:
  assumes "distinct (map f xs)" "x \<in> set xs"
  shows "find (\<lambda>y. f y = f x) xs = Some x"
  using assms by (induction xs) auto

lemma manifests_distinct:
  "map_option (\<lambda>ms. (distinct (map mf_Contract ms), distinct (map ev_Kind (concat (map mf_Events ms)))))
     Manifests = Some (True, True)"
  by code_simp

lemma distinct_concat_map:
  "distinct (map f (concat (map g xs))) \<Longrightarrow> x \<in> set xs \<Longrightarrow> distinct (map f (g x))"
  by (induction xs) auto

text \<open>Every contract in the inventory resolves to its own manifest, and every registered event of
  it is found by its kind, with the native spelling of its row.\<close>

theorem registration_roundtrip:
  assumes "Manifests = Some ms" "m \<in> set ms" "e \<in> set (Entries m)"
  shows "ManifestFor (mf_Contract m) = Some m \<and> EventWithManifest (mf_Contract m) (ev_Kind e) = Some (m, e)
    \<and> EventFor (mf_Contract m) (ev_Kind e) = Some e \<and> NativeName (mf_Contract m) (ev_Kind e) = Some (ev_NativeName e)"
proof -
  have d: "distinct (map mf_Contract ms)" "distinct (map ev_Kind (concat (map mf_Events ms)))"
    using manifests_distinct [unfolded assms(1)] by simp_all
  have m: "ManifestFor (mf_Contract m) = Some m"
    unfolding ManifestFor_def assms(1) using find_key [OF d(1) assms(2)] by simp
  then have e: "EventWithManifest (mf_Contract m) (ev_Kind e) = Some (m, e)"
    using find_key [OF distinct_concat_map [OF d(2) assms(2)] assms(3)] by (simp add: EventWithManifest_def)
  then show ?thesis using m by (simp add: EventFor_def NativeName_def)
qed

lemma manifests_head: "map_option (\<lambda>ms. map_option ev_NativeName (find (\<lambda>e. ev_Kind e = EventStop) (mf_Events (hd ms)))) Manifests
    = Some (Some ''Stop'')"
  by code_simp

theorem registration_roundtrip_witness:
  "\<exists>ms m e. Manifests = Some ms \<and> m \<in> set ms \<and> e \<in> set (Entries m) \<and> ev_Kind e = EventStop
     \<and> EventFor (mf_Contract m) (ev_Kind e) = Some e \<and> NativeName (mf_Contract m) EventStop = Some ''Stop''"
proof -
  obtain ms e where ms: "Manifests = Some ms"
    and e: "find (\<lambda>e. ev_Kind e = EventStop) (mf_Events (hd ms)) = Some e" "ev_NativeName e = ''Stop''"
    using manifests_head by (auto simp del: One_nat_def)
  have ne: "ms \<noteq> []" using ms unfolding Manifests_def by (auto split: option.splits)
  have k: "e \<in> set (Entries (hd ms))" "ev_Kind e = EventStop"
    using e(1) by (auto simp: find_Some_iff)
  note r = registration_roundtrip [OF ms hd_in_set [OF ne] k(1)]
  show ?thesis
    by (intro exI [of _ ms] exI [of _ "hd ms"] exI [of _ e]) (use r ms ne k e(2) in simp)
qed

end
