(* ===== verification/GateAuthority.thy ===== *)
theory GateAuthority
  imports Registration "HOL-Library.Word"
begin

text \<open>
  The facts and tables the gate reads (\<^verbatim>\<open>internal/lifecycle/gateauthority\<close>): action classes, task
  phases and assignment roles with their tokens (\<^verbatim>\<open>types.go\<close>), the two legality tables built from an
  allow rule and an exception list (\<^verbatim>\<open>tables.go\<close>), and the action class of every registered event with
  the reachability column of the denied cells (\<^verbatim>\<open>eventclass.go\<close>).  A panic of an initialiser is an
  error value.  The locale \<^verbatim>\<open>legality_grid\<close> is the contract of a table that could be built; both
  tables of the program are interpretations of it.
\<close>

section \<open>Action classes, phases and roles\<close>

datatype (plugins only: code) ActionClass =
    ActionUnset
  | ActionToolUse
  | ActionPromptSubmit
  | ActionStop
  | ActionSubagent
  | ActionWorktree
  | ActionCompact
  | ActionConfigChange
  | ActionTaskLifecycle
  | ActionPermission
  | ActionPostHoc
  | ActionObservation
  | ActionClass_value nat

definition ActionClasses :: "ActionClass list" where
  "ActionClasses =
    [ActionToolUse, ActionPromptSubmit, ActionStop, ActionSubagent,
     ActionWorktree, ActionCompact, ActionConfigChange, ActionTaskLifecycle,
     ActionPermission, ActionPostHoc, ActionObservation]"

fun ActionClass_IsValid :: "ActionClass \<Rightarrow> bool" where
  "ActionClass_IsValid ActionUnset = False"
| "ActionClass_IsValid (ActionClass_value _) = False"
| "ActionClass_IsValid _ = True"

fun ActionClass_String :: "ActionClass \<Rightarrow> string" where
  "ActionClass_String ActionUnset = ''action-unset''"
| "ActionClass_String ActionToolUse = ''tool-use''"
| "ActionClass_String ActionPromptSubmit = ''prompt-submit''"
| "ActionClass_String ActionStop = ''stop''"
| "ActionClass_String ActionSubagent = ''subagent''"
| "ActionClass_String ActionWorktree = ''worktree''"
| "ActionClass_String ActionCompact = ''compact''"
| "ActionClass_String ActionConfigChange = ''config-change''"
| "ActionClass_String ActionTaskLifecycle = ''task-lifecycle''"
| "ActionClass_String ActionPermission = ''permission''"
| "ActionClass_String ActionPostHoc = ''post-hoc''"
| "ActionClass_String ActionObservation = ''observation''"
| "ActionClass_String (ActionClass_value n) = ''ActionClass('' @ dec_nat n @ '')''"

datatype (plugins only: code) TaskPhase =
    TaskPhaseUnset
  | TaskPhaseRequest
  | TaskPhaseElicit
  | TaskPhasePropose
  | TaskPhaseReview
  | TaskPhasePlanUAT
  | TaskPhaseRatify
  | TaskPhaseHandoff
  | TaskPhaseImplPlan
  | TaskPhaseWorkerSlices
  | TaskPhaseCodeReview
  | TaskPhaseImplUAT
  | TaskPhaseLanding
  | TaskPhaseUnscoped
  | TaskPhase_value nat

definition TaskPhases :: "TaskPhase list" where
  "TaskPhases =
    [TaskPhaseRequest, TaskPhaseElicit, TaskPhasePropose, TaskPhaseReview,
     TaskPhasePlanUAT, TaskPhaseRatify, TaskPhaseHandoff, TaskPhaseImplPlan,
     TaskPhaseWorkerSlices, TaskPhaseCodeReview, TaskPhaseImplUAT, TaskPhaseLanding,
     TaskPhaseUnscoped]"

fun TaskPhase_IsValid :: "TaskPhase \<Rightarrow> bool" where
  "TaskPhase_IsValid TaskPhaseUnset = False"
| "TaskPhase_IsValid (TaskPhase_value _) = False"
| "TaskPhase_IsValid _ = True"

fun TaskPhase_String :: "TaskPhase \<Rightarrow> string" where
  "TaskPhase_String TaskPhaseUnset = ''phase-unset''"
| "TaskPhase_String TaskPhaseRequest = ''request''"
| "TaskPhase_String TaskPhaseElicit = ''elicit''"
| "TaskPhase_String TaskPhasePropose = ''propose''"
| "TaskPhase_String TaskPhaseReview = ''review''"
| "TaskPhase_String TaskPhasePlanUAT = ''plan_uat''"
| "TaskPhase_String TaskPhaseRatify = ''ratify''"
| "TaskPhase_String TaskPhaseHandoff = ''handoff''"
| "TaskPhase_String TaskPhaseImplPlan = ''impl_plan''"
| "TaskPhase_String TaskPhaseWorkerSlices = ''worker_slices''"
| "TaskPhase_String TaskPhaseCodeReview = ''code_review''"
| "TaskPhase_String TaskPhaseImplUAT = ''impl_uat''"
| "TaskPhase_String TaskPhaseLanding = ''landing''"
| "TaskPhase_String TaskPhaseUnscoped = ''unscoped''"
| "TaskPhase_String (TaskPhase_value n) = ''TaskPhase('' @ dec_nat n @ '')''"

datatype (plugins only: code) AssignmentRole =
    RoleUnset
  | RoleOwnerResponsibility
  | RoleGoverningSupervisor
  | RoleAxisReviewer
  | AssignmentRole_value nat

definition AssignmentRoles :: "AssignmentRole list" where
  "AssignmentRoles =
    [RoleOwnerResponsibility, RoleGoverningSupervisor, RoleAxisReviewer]"

fun AssignmentRole_IsValid :: "AssignmentRole \<Rightarrow> bool" where
  "AssignmentRole_IsValid RoleUnset = False"
| "AssignmentRole_IsValid (AssignmentRole_value _) = False"
| "AssignmentRole_IsValid _ = True"

fun AssignmentRole_String :: "AssignmentRole \<Rightarrow> string" where
  "AssignmentRole_String RoleUnset = ''role-unset''"
| "AssignmentRole_String RoleOwnerResponsibility = ''owner-responsibility''"
| "AssignmentRole_String RoleGoverningSupervisor = ''governing-supervisor''"
| "AssignmentRole_String RoleAxisReviewer = ''axis-reviewer''"
| "AssignmentRole_String (AssignmentRole_value n) = ''AssignmentRole('' @ dec_nat n @ '')''"

datatype (plugins only: code) Verdict =
    VerdictUnset
  | VerdictAllow
  | VerdictDeny
  | VerdictRefuse
  | Verdict_value nat

definition Verdicts :: "Verdict list" where
  "Verdicts =
    [VerdictAllow, VerdictDeny, VerdictRefuse]"

fun Verdict_IsValid :: "Verdict \<Rightarrow> bool" where
  "Verdict_IsValid VerdictUnset = False"
| "Verdict_IsValid (Verdict_value _) = False"
| "Verdict_IsValid _ = True"

fun Verdict_String :: "Verdict \<Rightarrow> string" where
  "Verdict_String VerdictUnset = ''verdict-unset''"
| "Verdict_String VerdictAllow = ''allow''"
| "Verdict_String VerdictDeny = ''deny''"
| "Verdict_String VerdictRefuse = ''refuse''"
| "Verdict_String (Verdict_value n) = ''Verdict('' @ dec_nat n @ '')''"

text \<open>The task store's own phase is an eight bit number of a library; which numbers it accepts is an
  argument.\<close>

definition phase_of_ordinal :: "nat \<Rightarrow> TaskPhase" where
  "phase_of_ordinal n =
     (if n = 0 then TaskPhaseUnset
      else if n \<le> length TaskPhases then TaskPhases ! (n - 1)
      else TaskPhase_value n)"

definition PhaseFromProvenance :: "(8 word \<Rightarrow> bool) \<Rightarrow> 8 word \<Rightarrow> TaskPhase option" where
  "PhaseFromProvenance store_valid p =
     (if \<not> store_valid p then None
      else let mapped = phase_of_ordinal (unat (p + 1)) in
        if TaskPhase_IsValid mapped then Some mapped else None)"

definition RoleFromToken :: "string \<Rightarrow> AssignmentRole option" where
  "RoleFromToken token = find (\<lambda>r. AssignmentRole_String r = token) AssignmentRoles"

record Episode =
  ep_Assignment :: string
  ep_Task :: string
  ep_Role :: AssignmentRole
  ep_Phase :: TaskPhase

record SessionClaim =
  cl_Bound :: bool
  cl_Actor :: string
  cl_Session :: string
  cl_Known :: bool
  cl_AttributionOnly :: bool

record ActorAuthority =
  au_Actor :: string
  au_Episodes :: "Episode list"

section \<open>The legality tables\<close>

definition neverDeniedActions :: "ActionClass list" where
  "neverDeniedActions = [ActionStop, ActionCompact, ActionPermission, ActionPostHoc, ActionPromptSubmit, ActionObservation]"

definition roleDenials :: "(AssignmentRole \<times> ActionClass list) list" where
  "roleDenials = [(RoleAxisReviewer, [ActionWorktree, ActionSubagent, ActionConfigChange, ActionTaskLifecycle])]"

definition phaseDenials :: "(TaskPhase \<times> ActionClass list) list" where
  "phaseDenials =
     [(TaskPhasePlanUAT, [ActionWorktree, ActionSubagent, ActionTaskLifecycle]),
      (TaskPhaseRatify, [ActionWorktree, ActionSubagent, ActionTaskLifecycle]),
      (TaskPhaseImplUAT, [ActionWorktree, ActionSubagent, ActionTaskLifecycle]),
      (TaskPhaseLanding, [ActionWorktree, ActionSubagent])]"

datatype 'row grid_panic =
    UnknownRow 'row
  | InvalidAction 'row ActionClass
  | NeverDenied 'row ActionClass
  | ListedTwice 'row ActionClass

type_synonym cells = "ActionClass \<rightharpoonup> Verdict"
type_synonym 'row grid = "'row \<rightharpoonup> cells"

fun deny_loop :: "'row \<Rightarrow> ActionClass list \<Rightarrow> cells \<Rightarrow> ActionClass list \<Rightarrow> 'row grid_panic + cells" where
  "deny_loop row seen cells [] = Ok cells"
| "deny_loop row seen cells (a # as) =
     (if \<not> ActionClass_IsValid a then Err (InvalidAction row a)
      else if a \<in> set neverDeniedActions then Err (NeverDenied row a)
      else if a \<in> set seen then Err (ListedTwice row a)
      else deny_loop row (a # seen) (cells(a \<mapsto> VerdictDeny)) as)"

definition allow_cells :: cells where
  "allow_cells = foldl (\<lambda>cells a. cells(a \<mapsto> VerdictAllow)) Map.empty ActionClasses"

definition row_denials :: "('row \<times> ActionClass list) list \<Rightarrow> 'row \<Rightarrow> ActionClass list" where
  "row_denials denials row = (case map_of denials row of None \<Rightarrow> [] | Some as \<Rightarrow> as)"

fun rows_loop :: "('row \<times> ActionClass list) list \<Rightarrow> 'row grid \<Rightarrow> 'row list \<Rightarrow> 'row grid_panic + 'row grid" where
  "rows_loop denials grid [] = Ok grid"
| "rows_loop denials grid (row # rows) =
     result_bind (deny_loop row [] allow_cells (row_denials denials row)) (\<lambda>cells.
       rows_loop denials (grid(row \<mapsto> cells)) rows)"

definition buildGrid :: "'row list \<Rightarrow> ('row \<times> ActionClass list) list \<Rightarrow> 'row grid_panic + 'row grid" where
  "buildGrid rows denials =
     (case find (\<lambda>(row, _). row \<notin> set rows) denials of
        Some (row, _) \<Rightarrow> Err (UnknownRow row)
      | None \<Rightarrow> rows_loop denials Map.empty rows)"

definition gridVerdict :: "'row grid \<Rightarrow> 'row \<Rightarrow> ActionClass \<Rightarrow> Verdict" where
  "gridVerdict grid row action =
     (case grid row of
        None \<Rightarrow> VerdictRefuse
      | Some cells \<Rightarrow>
          (case cells action of
             None \<Rightarrow> VerdictRefuse
           | Some v \<Rightarrow> if Verdict_IsValid v then v else VerdictRefuse))"

text \<open>Until its initialiser has run, a table is the nil map.\<close>

definition initialised :: "'row grid_panic + 'row grid \<Rightarrow> 'row grid" where
  "initialised t = (case t of Err _ \<Rightarrow> Map.empty | Ok g \<Rightarrow> g)"

definition RoleActionTable :: "AssignmentRole grid_panic + AssignmentRole grid" where
  "RoleActionTable = buildGrid AssignmentRoles roleDenials"

definition PhaseActionTable :: "TaskPhase grid_panic + TaskPhase grid" where
  "PhaseActionTable = buildGrid TaskPhases phaseDenials"

definition RoleVerdict :: "AssignmentRole \<Rightarrow> ActionClass \<Rightarrow> Verdict" where
  "RoleVerdict role action = gridVerdict (initialised RoleActionTable) role action"

definition PhaseVerdict :: "TaskPhase \<Rightarrow> ActionClass \<Rightarrow> Verdict" where
  "PhaseVerdict phase action = gridVerdict (initialised PhaseActionTable) phase action"

section \<open>The class of every registered event\<close>

definition claude_classes :: "(string \<times> ActionClass) list" where
  "claude_classes =
    [(''SessionStart'', ActionObservation),
     (''Setup'', ActionObservation),
     (''SessionEnd'', ActionObservation),
     (''InstructionsLoaded'', ActionObservation),
     (''Notification'', ActionObservation),
     (''MessageDisplay'', ActionObservation),
     (''TeammateIdle'', ActionObservation),
     (''FileChanged'', ActionObservation),
     (''CwdChanged'', ActionObservation),
     (''DirectoryAdded'', ActionObservation),
     (''Elicitation'', ActionObservation),
     (''ElicitationResult'', ActionObservation),
     (''PreModelSwitch'', ActionObservation),
     (''PostModelSwitch'', ActionObservation),
     (''StopFailure'', ActionObservation),
     (''PostCompact'', ActionObservation),
     (''WorktreeRemove'', ActionObservation),
     (''SubagentStart'', ActionObservation),
     (''PostToolUse'', ActionObservation),
     (''PostToolUseFailure'', ActionObservation),
     (''PermissionDenied'', ActionObservation),
     (''UserPromptSubmit'', ActionPromptSubmit),
     (''UserPromptExpansion'', ActionPromptSubmit),
     (''PreToolUse'', ActionToolUse),
     (''PermissionRequest'', ActionPermission),
     (''PostToolBatch'', ActionPostHoc),
     (''Stop'', ActionStop),
     (''SubagentStop'', ActionSubagent),
     (''PreCompact'', ActionCompact),
     (''ConfigChange'', ActionConfigChange),
     (''WorktreeCreate'', ActionWorktree),
     (''TaskCreated'', ActionTaskLifecycle),
     (''TaskCompleted'', ActionTaskLifecycle)]"

definition codex_classes :: "(string \<times> ActionClass) list" where
  "codex_classes =
    [(''SessionStart'', ActionObservation),
     (''SessionEnd'', ActionObservation),
     (''SubagentStart'', ActionObservation),
     (''Interrupt'', ActionObservation),
     (''UserPromptSubmit'', ActionPromptSubmit),
     (''PreToolUse'', ActionToolUse),
     (''PermissionRequest'', ActionPermission),
     (''PostToolUse'', ActionPostHoc),
     (''PreCompact'', ActionCompact),
     (''PostCompact'', ActionPostHoc),
     (''SubagentStop'', ActionSubagent),
     (''Stop'', ActionStop)]"

definition opencode_classes :: "(string \<times> ActionClass) list" where
  "opencode_classes =
    [(''command.executed'', ActionObservation),
     (''file.edited'', ActionObservation),
     (''file.watcher.updated'', ActionObservation),
     (''installation.updated'', ActionObservation),
     (''installation.update-available'', ActionObservation),
     (''lsp.client.diagnostics'', ActionObservation),
     (''lsp.updated'', ActionObservation),
     (''message.updated'', ActionObservation),
     (''message.removed'', ActionObservation),
     (''message.part.updated'', ActionObservation),
     (''message.part.removed'', ActionObservation),
     (''permission.updated'', ActionObservation),
     (''permission.replied'', ActionObservation),
     (''server.connected'', ActionObservation),
     (''server.instance.disposed'', ActionObservation),
     (''session.created'', ActionObservation),
     (''session.updated'', ActionObservation),
     (''session.deleted'', ActionObservation),
     (''session.compacted'', ActionObservation),
     (''session.diff'', ActionObservation),
     (''session.error'', ActionObservation),
     (''session.idle'', ActionObservation),
     (''session.status'', ActionObservation),
     (''todo.updated'', ActionObservation),
     (''tui.prompt.append'', ActionObservation),
     (''tui.command.execute'', ActionObservation),
     (''tui.toast.show'', ActionObservation),
     (''pty.created'', ActionObservation),
     (''pty.updated'', ActionObservation),
     (''pty.exited'', ActionObservation),
     (''pty.deleted'', ActionObservation),
     (''vcs.branch.updated'', ActionObservation),
     (''chat.message'', ActionObservation),
     (''chat.params'', ActionObservation),
     (''chat.headers'', ActionObservation),
     (''shell.env'', ActionObservation),
     (''experimental.chat.messages.transform'', ActionObservation),
     (''experimental.chat.system.transform'', ActionObservation),
     (''experimental.provider.small_model'', ActionObservation),
     (''experimental.session.compacting'', ActionObservation),
     (''experimental.compaction.autocontinue'', ActionObservation),
     (''experimental.text.complete'', ActionObservation),
     (''tool.definition'', ActionObservation),
     (''permission.ask'', ActionPermission),
     (''command.execute.before'', ActionToolUse),
     (''tool.execute.before'', ActionToolUse),
     (''tool.execute.after'', ActionPostHoc),
     (''session.prompt'', ActionPromptSubmit),
     (''session.context'', ActionObservation),
     (''session.compaction'', ActionCompact),
     (''session.generate'', ActionObservation),
     (''session.title'', ActionObservation),
     (''session.model.request'', ActionObservation),
     (''session.http.request'', ActionObservation),
     (''session.http.response'', ActionObservation),
     (''session.experimental.ws.handshake'', ActionObservation),
     (''session.experimental.ws.send'', ActionObservation),
     (''session.experimental.ws.receive'', ActionObservation),
     (''session.retry'', ActionObservation),
     (''permission.evaluate'', ActionPermission),
     (''shell.create.before'', ActionObservation)]"

definition eventClasses :: "Harness \<Rightarrow> (string \<times> ActionClass) list" where
  "eventClasses harness =
     (if harness = HarnessClaudeCode then claude_classes
      else if harness = HarnessCodex then codex_classes
      else if harness = HarnessOpenCode then opencode_classes
      else [])"

definition ClassForEvent :: "Harness \<Rightarrow> string \<Rightarrow> ActionClass option" where
  "ClassForEvent harness nativeName =
     (case map_of (eventClasses harness) nativeName of
        None \<Rightarrow> None
      | Some class \<Rightarrow> if ActionClass_IsValid class then Some class else None)"

datatype class_error =
    NoManifests
  | NoEvents
  | Unclassified "string list"
  | UnknownEvents "string list"

definition event_label :: "Harness \<Rightarrow> string \<Rightarrow> string" where
  "event_label harness name = harness @ '' '' @ name"

definition registered_names :: "Manifest list \<Rightarrow> Harness \<Rightarrow> string list" where
  "registered_names ms harness =
     concat (map (\<lambda>m. if mf_Harness m = harness then map ev_NativeName (Entries m) else []) ms)"

definition unclassified_events :: "Manifest list \<Rightarrow> string list" where
  "unclassified_events ms =
     concat (map (\<lambda>m. map (event_label (mf_Harness m))
       (filter (\<lambda>n. ClassForEvent (mf_Harness m) n = None) (map ev_NativeName (Entries m)))) ms)"

definition unknown_classes :: "Manifest list \<Rightarrow> string list" where
  "unknown_classes ms =
     concat (map (\<lambda>h. map (event_label h)
       (filter (\<lambda>n. n \<notin> set (registered_names ms h)) (map fst (eventClasses h))))
       [HarnessClaudeCode, HarnessCodex, HarnessOpenCode])"

definition checkEventClassesAreTotal :: "Manifest list \<Rightarrow> class_error + unit" where
  "checkEventClassesAreTotal ms =
     (if ms = [] then Err NoManifests
      else if concat (map Entries ms) = [] then Err NoEvents
      else if unclassified_events ms \<noteq> [] then Err (Unclassified (sort (unclassified_events ms)))
      else if unknown_classes ms \<noteq> [] then Err (UnknownEvents (sort (unknown_classes ms)))
      else Ok ())"

section \<open>The reachability column\<close>

datatype TableName = TableUnset | TableRole | TablePhase | TableName_value nat

record HarnessReach =
  hr_Harness :: Harness
  hr_Events :: "string list"

record CellReachability =
  cr_Table :: TableName
  cr_Role :: AssignmentRole
  cr_Phase :: TaskPhase
  cr_Action :: ActionClass
  cr_Harnesses :: "HarnessReach list"
  cr_Reachable :: bool

definition reachingEvents :: "Manifest \<Rightarrow> ActionClass \<Rightarrow> string list" where
  "reachingEvents manifest action =
     sort (map ev_NativeName (filter (\<lambda>e.
       ClassForEvent (mf_Harness manifest) (ev_NativeName e) = Some action
       \<and> (ev_Blocking e = RegBlocking \<or> ev_Blocking e = RegConditionallyBlocking)
       \<and> ev_StopLoop e = RegStopLoopNotApplicable) (Entries manifest)))"

text \<open>The union of the reaching events of the versions of one harness, each name once, in the order
  the manifests name them.\<close>

fun add_new :: "string list \<Rightarrow> string list \<Rightarrow> string list" where
  "add_new present [] = present"
| "add_new present (n # ns) = (if n \<in> set present then add_new present ns else add_new (present @ [n]) ns)"

fun reach_loop :: "ActionClass \<Rightarrow> HarnessReach list \<Rightarrow> Manifest list \<Rightarrow> HarnessReach list" where
  "reach_loop action reach [] = reach"
| "reach_loop action reach (m # ms) =
     (let reach1 = (if mf_Harness m \<in> set (map hr_Harness reach) then reach
                    else reach @ [\<lparr>hr_Harness = mf_Harness m, hr_Events = []\<rparr>]) in
      reach_loop action
        (map (\<lambda>r. if hr_Harness r = mf_Harness m
                  then r\<lparr>hr_Events := add_new (hr_Events r) (reachingEvents m action)\<rparr> else r) reach1) ms)"

definition add_reach :: "Manifest list \<Rightarrow> CellReachability \<Rightarrow> CellReachability" where
  "add_reach ms entry =
     (let reach = reach_loop (cr_Action entry) [] ms in
      entry\<lparr>cr_Harnesses := reach, cr_Reachable := list_ex (\<lambda>r. hr_Events r \<noteq> []) reach\<rparr>)"

definition cell_entry :: "TableName \<Rightarrow> AssignmentRole \<Rightarrow> TaskPhase \<Rightarrow> ActionClass \<Rightarrow> CellReachability" where
  "cell_entry t r p a = \<lparr>cr_Table = t, cr_Role = r, cr_Phase = p, cr_Action = a, cr_Harnesses = [], cr_Reachable = False\<rparr>"

definition buildDeniedCellReachability :: "Manifest list \<Rightarrow> CellReachability list" where
  "buildDeniedCellReachability ms =
     concat (map (\<lambda>r. map (\<lambda>a. add_reach ms (cell_entry TableRole r TaskPhaseUnset a))
       (filter (\<lambda>a. RoleVerdict r a = VerdictDeny) ActionClasses)) AssignmentRoles)
     @ concat (map (\<lambda>p. map (\<lambda>a. add_reach ms (cell_entry TablePhase RoleUnset p a))
       (filter (\<lambda>a. PhaseVerdict p a = VerdictDeny) ActionClasses)) TaskPhases)"

section \<open>A table that could be built\<close>

lemma valid_actions: "set ActionClasses = Collect ActionClass_IsValid"
proof -
  have "a \<in> set ActionClasses \<longleftrightarrow> ActionClass_IsValid a" for a
    by (cases a) (simp_all add: ActionClasses_def)
  then show ?thesis by auto
qed

lemma foldl_allow: "foldl (\<lambda>cells a. cells(a \<mapsto> v)) c as a = (if a \<in> set as then Some v else c a)"
  by (induction as arbitrary: c) auto

lemma allow_cells_iff: "allow_cells a = (if ActionClass_IsValid a then Some VerdictAllow else None)"
  unfolding allow_cells_def foldl_allow valid_actions by simp

lemma deny_loop_Ok:
  assumes "deny_loop row seen cells as = Ok out"
  shows "out a = (if a \<in> set as then Some VerdictDeny else cells a)"
    "\<forall>a\<in>set as. ActionClass_IsValid a \<and> a \<notin> set neverDeniedActions" "distinct as" "set as \<inter> set seen = {}"
proof -
  have "out a = (if a \<in> set as then Some VerdictDeny else cells a)
      \<and> (\<forall>a\<in>set as. ActionClass_IsValid a \<and> a \<notin> set neverDeniedActions) \<and> distinct as \<and> set as \<inter> set seen = {}"
    using assms
  proof (induction "as" arbitrary: seen cells)
    case (Cons b as)
    then have b: "ActionClass_IsValid b" "b \<notin> set neverDeniedActions" "b \<notin> set seen"
      and l: "deny_loop row (b # seen) (cells(b \<mapsto> VerdictDeny)) as = Ok out"
      by (simp_all add: if_Err_eq_Ok)
    show ?case using Cons.IH [OF l] b by auto
  qed simp
  then show "out a = (if a \<in> set as then Some VerdictDeny else cells a)"
    "\<forall>a\<in>set as. ActionClass_IsValid a \<and> a \<notin> set neverDeniedActions" "distinct as" "set as \<inter> set seen = {}"
    by blast+
qed

lemma rows_loop_Ok:
  assumes "rows_loop denials grid rows = Ok out"
  shows "\<forall>r\<in>set rows. \<exists>cells. deny_loop r [] allow_cells (row_denials denials r) = Ok cells \<and> out r = Some cells"
    "\<forall>r. r \<notin> set rows \<longrightarrow> out r = grid r"
proof -
  have "(\<forall>r\<in>set rows. \<exists>cells. deny_loop r [] allow_cells (row_denials denials r) = Ok cells \<and> out r = Some cells)
      \<and> (\<forall>r. r \<notin> set rows \<longrightarrow> out r = grid r)"
    using assms
  proof (induction rows arbitrary: grid)
    case (Cons row rows)
    then obtain cells where c: "deny_loop row [] allow_cells (row_denials denials row) = Ok cells"
      and o: "rows_loop denials (grid(row \<mapsto> cells)) rows = Ok out" by auto
    note ih = Cons.IH [OF o]
    have "out row = Some cells"
    proof (cases "row \<in> set rows")
      case True
      then show ?thesis using ih c by fastforce
    next
      case False
      then show ?thesis using ih by simp
    qed
    then show ?case using ih c by auto
  qed simp
  then show "\<forall>r\<in>set rows. \<exists>cells. deny_loop r [] allow_cells (row_denials denials r) = Ok cells \<and> out r = Some cells"
    "\<forall>r. r \<notin> set rows \<longrightarrow> out r = grid r" by blast+
qed

text \<open>The contract of a legality table: it was built without a panic.\<close>

locale legality_grid =
  fixes rows :: "'row list" and denials :: "('row \<times> ActionClass list) list" and table :: "'row grid_panic + 'row grid"
  assumes built: "table = buildGrid rows denials" "is_ok table"
begin

lemma rows_built: "rows_loop denials Map.empty rows = Ok (initialised table)"
  using built by (auto simp: buildGrid_def initialised_def split: option.splits sum.splits)

lemma verdict:
  "gridVerdict (initialised table) r a =
     (if r \<notin> set rows \<or> \<not> ActionClass_IsValid a then VerdictRefuse
      else if a \<in> set (row_denials denials r) then VerdictDeny else VerdictAllow)"
proof (cases "r \<in> set rows")
  case False
  then show ?thesis using rows_loop_Ok(2) [OF rows_built] by (simp add: gridVerdict_def)
next
  case True
  then obtain cells where c: "deny_loop r [] allow_cells (row_denials denials r) = Ok cells"
    and g: "initialised table r = Some cells" using rows_loop_Ok(1) [OF rows_built] by blast
  show ?thesis using True g deny_loop_Ok(1) [OF c, of a] deny_loop_Ok(2) [OF c] by (auto simp: gridVerdict_def allow_cells_iff)
qed

lemma never_denied:
  assumes "a \<in> set neverDeniedActions"
  shows "gridVerdict (initialised table) r a \<noteq> VerdictDeny"
proof
  assume "gridVerdict (initialised table) r a = VerdictDeny"
  then have r: "r \<in> set rows" and a: "a \<in> set (row_denials denials r)"
    by (auto simp: verdict split: if_splits)
  obtain cells where c: "deny_loop r [] allow_cells (row_denials denials r) = Ok cells"
    using rows_loop_Ok(1) [OF rows_built] r by blast
  show False using deny_loop_Ok(2) [OF c] a assms by blast
qed

lemma verdict_valid: "Verdict_IsValid (gridVerdict (initialised table) r a)"
  by (simp add: verdict)

end

interpretation roles: legality_grid AssignmentRoles roleDenials RoleActionTable
proof
  show "is_ok RoleActionTable" by code_simp
qed (simp add: RoleActionTable_def)

interpretation phases: legality_grid TaskPhases phaseDenials PhaseActionTable
proof
  show "is_ok PhaseActionTable" by code_simp
qed (simp add: PhaseActionTable_def)

lemma valid_roles: "r \<in> set AssignmentRoles \<longleftrightarrow> AssignmentRole_IsValid r"
  by (cases r) (simp_all add: AssignmentRoles_def)

lemma valid_phases: "p \<in> set TaskPhases \<longleftrightarrow> TaskPhase_IsValid p"
  by (cases p) (simp_all add: TaskPhases_def)

lemmas RoleVerdict_eq = roles.verdict [folded RoleVerdict_def, unfolded valid_roles]
lemmas PhaseVerdict_eq = phases.verdict [folded PhaseVerdict_def, unfolded valid_phases]

lemma role_denied_iff:
  "RoleVerdict r a = VerdictDeny \<longleftrightarrow>
     r = RoleAxisReviewer \<and> a \<in> {ActionWorktree, ActionSubagent, ActionConfigChange, ActionTaskLifecycle}"
  by (auto simp: RoleVerdict_eq row_denials_def roleDenials_def)

lemma phase_denied_iff:
  "PhaseVerdict p a = VerdictDeny \<longleftrightarrow>
     p \<in> {TaskPhasePlanUAT, TaskPhaseRatify, TaskPhaseImplUAT} \<and> a \<in> {ActionWorktree, ActionSubagent, ActionTaskLifecycle}
     \<or> p = TaskPhaseLanding \<and> a \<in> {ActionWorktree, ActionSubagent}"
  by (auto simp: PhaseVerdict_eq row_denials_def phaseDenials_def)

text \<open>The two legality tables are built at start-up without a panic and are total: every valid role
  and phase has a verdict for every valid action class, a pair outside the enumerations is refused and
  never denied, a cell is denied exactly when an exception lists it, and no exception touches the six
  classes that hold the user's own control.\<close>

theorem legality_tables:
  "is_ok RoleActionTable \<and> is_ok PhaseActionTable
   \<and> (RoleVerdict r a = VerdictRefuse \<longleftrightarrow> \<not> (AssignmentRole_IsValid r \<and> ActionClass_IsValid a))
   \<and> (PhaseVerdict p a = VerdictRefuse \<longleftrightarrow> \<not> (TaskPhase_IsValid p \<and> ActionClass_IsValid a))
   \<and> (RoleVerdict r a = VerdictDeny \<longleftrightarrow>
        r = RoleAxisReviewer \<and> a \<in> {ActionWorktree, ActionSubagent, ActionConfigChange, ActionTaskLifecycle})
   \<and> (PhaseVerdict p a = VerdictDeny \<longleftrightarrow>
        p \<in> {TaskPhasePlanUAT, TaskPhaseRatify, TaskPhaseImplUAT} \<and> a \<in> {ActionWorktree, ActionSubagent, ActionTaskLifecycle}
        \<or> p = TaskPhaseLanding \<and> a \<in> {ActionWorktree, ActionSubagent})
   \<and> \<not> (a \<in> set neverDeniedActions \<and> VerdictDeny \<in> {RoleVerdict r a, PhaseVerdict p a})"
proof (intro conjI)
  show "is_ok RoleActionTable" "is_ok PhaseActionTable" by (fact roles.built phases.built)+
  show "RoleVerdict r a = VerdictRefuse \<longleftrightarrow> \<not> (AssignmentRole_IsValid r \<and> ActionClass_IsValid a)"
    "PhaseVerdict p a = VerdictRefuse \<longleftrightarrow> \<not> (TaskPhase_IsValid p \<and> ActionClass_IsValid a)"
    by (simp_all add: RoleVerdict_eq PhaseVerdict_eq)
  show "RoleVerdict r a = VerdictDeny \<longleftrightarrow>
        r = RoleAxisReviewer \<and> a \<in> {ActionWorktree, ActionSubagent, ActionConfigChange, ActionTaskLifecycle}"
    by (rule role_denied_iff)
  show "PhaseVerdict p a = VerdictDeny \<longleftrightarrow>
        p \<in> {TaskPhasePlanUAT, TaskPhaseRatify, TaskPhaseImplUAT} \<and> a \<in> {ActionWorktree, ActionSubagent, ActionTaskLifecycle}
        \<or> p = TaskPhaseLanding \<and> a \<in> {ActionWorktree, ActionSubagent}"
    by (rule phase_denied_iff)
  show "\<not> (a \<in> set neverDeniedActions \<and> VerdictDeny \<in> {RoleVerdict r a, PhaseVerdict p a})"
    using roles.never_denied [of a r] phases.never_denied [of a p] by (auto simp: RoleVerdict_def PhaseVerdict_def)
qed

section \<open>Every registered event has a class\<close>

lemma event_classes_total: "map_option checkEventClassesAreTotal Manifests = Some (Ok ())"
  by code_simp

lemma checked_classes:
  assumes "checkEventClassesAreTotal ms = Ok ()"
  shows "m \<in> set ms \<Longrightarrow> e \<in> set (Entries m) \<Longrightarrow> ClassForEvent (mf_Harness m) (ev_NativeName e) \<noteq> None"
    "h \<in> {HarnessClaudeCode, HarnessCodex, HarnessOpenCode} \<Longrightarrow> n \<in> set (map fst (eventClasses h))
      \<Longrightarrow> n \<in> set (registered_names ms h)"
proof -
  have u: "unclassified_events ms = []" "unknown_classes ms = []"
    using assms by (simp_all add: checkEventClassesAreTotal_def if_Err_eq_Ok)
  show "ClassForEvent (mf_Harness m) (ev_NativeName e) \<noteq> None" if "m \<in> set ms" "e \<in> set (Entries m)"
    using u(1) that by (auto simp: unclassified_events_def filter_empty_conv)
  show "n \<in> set (registered_names ms h)"
    if "h \<in> {HarnessClaudeCode, HarnessCodex, HarnessOpenCode}" "n \<in> set (map fst (eventClasses h))"
    using u(2) that by (auto simp: unknown_classes_def filter_empty_conv)
qed

text \<open>The class check of the process start accepts the shipped manifests; every registered event has
  a valid action class, and every event a class is listed for is registered by a manifest of its
  harness.\<close>

theorem registered_events_classified:
  assumes "Manifests = Some ms"
  shows "checkEventClassesAreTotal ms = Ok ()
    \<and> (\<forall>m\<in>set ms. \<forall>e\<in>set (Entries m).
          \<exists>c. ClassForEvent (mf_Harness m) (ev_NativeName e) = Some c \<and> ActionClass_IsValid c)
    \<and> (\<forall>h n c. ClassForEvent h n = Some c \<longrightarrow> (\<exists>m\<in>set ms. mf_Harness m = h \<and> n \<in> set (map ev_NativeName (Entries m))))"
proof (intro conjI ballI allI impI)
  show ok: "checkEventClassesAreTotal ms = Ok ()" using event_classes_total [unfolded assms] by simp
  show "\<exists>c. ClassForEvent (mf_Harness m) (ev_NativeName e) = Some c \<and> ActionClass_IsValid c"
    if "m \<in> set ms" "e \<in> set (Entries m)" for m e
    using checked_classes(1) [OF ok that] by (auto simp: ClassForEvent_def split: option.splits if_splits)
  fix h n c
  assume "ClassForEvent h n = Some c"
  then have n: "n \<in> set (map fst (eventClasses h))"
    by (auto simp: ClassForEvent_def split: option.splits dest!: map_of_SomeD intro: rev_image_eqI)
  then have "h \<in> {HarnessClaudeCode, HarnessCodex, HarnessOpenCode}"
    by (auto simp: eventClasses_def split: if_splits)
  then have "n \<in> set (registered_names ms h)" using checked_classes(2) [OF ok _ n] by blast
  then show "\<exists>m\<in>set ms. mf_Harness m = h \<and> n \<in> set (map ev_NativeName (Entries m))"
    by (auto simp: registered_names_def split: if_splits)
qed

theorem registered_events_classified_witness:
  "\<exists>ms. Manifests = Some ms \<and> checkEventClassesAreTotal ms = Ok ()
     \<and> (\<exists>m\<in>set ms. mf_Harness m = HarnessCodex \<and> ''Stop'' \<in> set (map ev_NativeName (Entries m)))"
proof -
  obtain ms where ms: "Manifests = Some ms" using event_classes_total by (cases Manifests) auto
  have "ClassForEvent HarnessCodex ''Stop'' = Some ActionStop" by code_simp
  then show ?thesis using registered_events_classified [OF ms] ms by blast
qed

section \<open>Which denied cells a host can reach\<close>

text \<open>The events of a manifest that consult a gate outside the stop loop, with their class.\<close>

definition consulting_classes :: "Manifest \<Rightarrow> (string \<times> ActionClass option) list" where
  "consulting_classes m =
     map (\<lambda>e. (ev_NativeName e, ClassForEvent (mf_Harness m) (ev_NativeName e)))
       (filter (\<lambda>e. ev_Blocking e \<noteq> RegNonBlocking \<and> ev_StopLoop e = RegStopLoopNotApplicable) (Entries m))"

lemma reachingEvents_classes:
  "reachingEvents m a = sort (map fst (filter (\<lambda>(n, c). c = Some a) (consulting_classes m)))"
proof -
  have b: "(b = RegBlocking \<or> b = RegConditionallyBlocking) \<longleftrightarrow> b \<noteq> RegNonBlocking" for b
    by (cases b) simp_all
  show ?thesis unfolding reachingEvents_def b
    by (simp add: consulting_classes_def filter_map comp_def conj_commute conj_left_commute)
qed

text \<open>Of those, the events whose class some table denies.\<close>

definition deniable_events :: "Manifest \<Rightarrow> (string \<times> ActionClass option) list" where
  "deniable_events m = filter (\<lambda>(n, c). c \<in> set (map Some [ActionWorktree, ActionSubagent, ActionConfigChange, ActionTaskLifecycle]))
     (consulting_classes m)"

lemma deniable_manifests:
  "map_option (map (\<lambda>m. (mf_Harness m, deniable_events m))) Manifests =
     Some [(HarnessClaudeCode, [(''ConfigChange'', Some ActionConfigChange), (''WorktreeCreate'', Some ActionWorktree),
             (''TaskCreated'', Some ActionTaskLifecycle), (''TaskCompleted'', Some ActionTaskLifecycle)]),
           (HarnessCodex, []), (HarnessOpenCode, []), (HarnessOpenCode, [])]"
  by code_simp

lemma reachingEvents_deniable:
  assumes "a \<in> {ActionWorktree, ActionSubagent, ActionConfigChange, ActionTaskLifecycle}"
  shows "reachingEvents m a = sort (map fst (filter (\<lambda>(n, c). c = Some a) (deniable_events m)))"
proof -
  have "filter (\<lambda>(n, c). c = Some a) (deniable_events m) = filter (\<lambda>(n, c). c = Some a) (consulting_classes m)"
    using assms by (auto simp: deniable_events_def intro!: filter_cong)
  then show ?thesis by (simp add: reachingEvents_classes)
qed

lemma deniable_reach:
  assumes "map (\<lambda>m. (mf_Harness m, deniable_events m)) ms =
      [(HarnessClaudeCode, ds), (HarnessCodex, []), (HarnessOpenCode, []), (HarnessOpenCode, [])]"
    and a: "a \<in> {ActionWorktree, ActionSubagent, ActionConfigChange, ActionTaskLifecycle}"
  shows "reach_loop a [] ms =
    [\<lparr>hr_Harness = HarnessClaudeCode, hr_Events = add_new [] (sort (map fst (filter (\<lambda>(n, c). c = Some a) ds)))\<rparr>,
     \<lparr>hr_Harness = HarnessCodex, hr_Events = []\<rparr>, \<lparr>hr_Harness = HarnessOpenCode, hr_Events = []\<rparr>]"
proof -
  obtain m1 m2 m3 m4 where ms: "ms = [m1, m2, m3, m4]"
    and h: "mf_Harness m1 = HarnessClaudeCode" "mf_Harness m2 = HarnessCodex" "mf_Harness m3 = HarnessOpenCode"
      "mf_Harness m4 = HarnessOpenCode"
    and d: "deniable_events m1 = ds" "deniable_events m2 = []" "deniable_events m3 = []" "deniable_events m4 = []"
    using assms(1) by (auto simp: map_eq_Cons_conv)
  show ?thesis using harnesses_distinct harnesses_distinct [symmetric]
    by (simp add: ms h d reachingEvents_deniable [OF a])
qed

lemma add_new_empty: "add_new [] ns = [] \<longleftrightarrow> ns = []"
proof -
  have "set (add_new p ns) = set p \<union> set ns" for p by (induction p ns rule: add_new.induct) auto
  then show ?thesis by (metis set_empty sup_bot_left)
qed

text \<open>The published reachability column: a host can reach a denied cell only through Claude Code, and
  every denied cell is reachable there except those of the subagent class, which no registered event of
  any harness can reach.\<close>

theorem denied_cell_reachability:
  assumes "Manifests = Some ms" "c \<in> set (buildDeniedCellReachability ms)"
  shows "(cr_Reachable c \<longleftrightarrow> cr_Action c \<noteq> ActionSubagent)
    \<and> map hr_Harness (cr_Harnesses c) = [HarnessClaudeCode, HarnessCodex, HarnessOpenCode]
    \<and> (\<forall>r\<in>set (cr_Harnesses c). hr_Events r \<noteq> [] \<longrightarrow> hr_Harness r = HarnessClaudeCode)"
proof -
  obtain t r p a where c: "c = add_reach ms (cell_entry t r p a)"
    and a: "a \<in> {ActionWorktree, ActionSubagent, ActionConfigChange, ActionTaskLifecycle}"
    using assms(2) by (auto simp: buildDeniedCellReachability_def role_denied_iff phase_denied_iff)
  note d = deniable_reach [OF option.inject [THEN iffD1, OF deniable_manifests [unfolded assms(1) option.map]] a]
  show ?thesis using a
    by (auto simp: c add_reach_def cell_entry_def d add_new_empty Let_def)
qed

theorem denied_cell_reachability_witness:
  "\<exists>ms c. Manifests = Some ms \<and> c \<in> set (buildDeniedCellReachability ms) \<and> cr_Action c = ActionWorktree \<and> cr_Reachable c"
proof -
  obtain ms where ms: "Manifests = Some ms" using event_classes_total by (cases Manifests) auto
  let ?c = "add_reach ms (cell_entry TableRole RoleAxisReviewer TaskPhaseUnset ActionWorktree)"
  have c: "?c \<in> set (buildDeniedCellReachability ms)"
    by (simp add: buildDeniedCellReachability_def role_denied_iff AssignmentRoles_def ActionClasses_def)
  have a: "cr_Action ?c = ActionWorktree" by (simp add: add_reach_def cell_entry_def Let_def)
  show ?thesis using denied_cell_reachability [OF ms c] a ms c by auto
qed

end
