(* ===== verification/HostDecision.thy ===== *)
theory HostDecision
  imports LifecycleRuntime
begin

text \<open>
  Evaluated decisions and host responses (\<^verbatim>\<open>internal/lifecycle/waist/decision.go\<close>,
  \<^verbatim>\<open>internal/lifecycle/backend/backend.go\<close>): the closed vocabularies of verdicts and reasons, the
  pairs that describe an evaluated verdict, their canonical JSON, and the response to a host,
  which is either a decision or an evaluation fault.  The general JSON reader of the standard
  library is an argument of the decoder; what the decoder accepts does not depend on it.
\<close>

section \<open>Verdicts and reasons\<close>

datatype DecisionKind = DecisionKindUnset | DecisionProceed | DecisionDeny | DecisionRequireHuman | DecisionKind_value nat

fun DecisionKind_IsValid :: "DecisionKind \<Rightarrow> bool" where
  "DecisionKind_IsValid DecisionKindUnset = False"
| "DecisionKind_IsValid (DecisionKind_value _) = False"
| "DecisionKind_IsValid _ = True"

fun DecisionKind_String :: "DecisionKind \<Rightarrow> string" where
  "DecisionKind_String DecisionKindUnset = []"
| "DecisionKind_String DecisionProceed = ''proceed''"
| "DecisionKind_String DecisionDeny = ''deny''"
| "DecisionKind_String DecisionRequireHuman = ''require-human''"
| "DecisionKind_String (DecisionKind_value _) = []"

interpretation decisionKind_tokens: token_enum DecisionKind_IsValid DecisionKind_String "[DecisionProceed, DecisionDeny, DecisionRequireHuman]"
proof
  show "DecisionKind_IsValid x \<longleftrightarrow> x \<in> set [DecisionProceed, DecisionDeny, DecisionRequireHuman]" for x by (cases x) auto
qed auto

datatype DecisionReason = ReasonUnset | ReasonLegal | ReasonUnboundSession | ReasonStopLoopGuard | ReasonUnknownActor | ReasonNoActiveAssignment | ReasonRoleForbidsAction | ReasonPhaseForbidsAction | ReasonUnenforcedDeny | ReasonEvaluationFault | ReasonAttributionOnlySession | DecisionReason_value nat

fun DecisionReason_IsValid :: "DecisionReason \<Rightarrow> bool" where
  "DecisionReason_IsValid ReasonUnset = False"
| "DecisionReason_IsValid (DecisionReason_value _) = False"
| "DecisionReason_IsValid _ = True"

fun DecisionReason_String :: "DecisionReason \<Rightarrow> string" where
  "DecisionReason_String ReasonUnset = []"
| "DecisionReason_String ReasonLegal = ''legal''"
| "DecisionReason_String ReasonUnboundSession = ''unbound-session''"
| "DecisionReason_String ReasonStopLoopGuard = ''stop-loop-guard''"
| "DecisionReason_String ReasonUnknownActor = ''unknown-actor''"
| "DecisionReason_String ReasonNoActiveAssignment = ''no-active-assignment''"
| "DecisionReason_String ReasonRoleForbidsAction = ''role-forbids-action''"
| "DecisionReason_String ReasonPhaseForbidsAction = ''phase-forbids-action''"
| "DecisionReason_String ReasonUnenforcedDeny = ''unenforced-deny''"
| "DecisionReason_String ReasonEvaluationFault = ''evaluation-fault''"
| "DecisionReason_String ReasonAttributionOnlySession = ''attribution-only-session''"
| "DecisionReason_String (DecisionReason_value _) = []"

interpretation decisionReason_tokens: token_enum DecisionReason_IsValid DecisionReason_String "[ReasonLegal, ReasonUnboundSession, ReasonStopLoopGuard, ReasonUnknownActor, ReasonNoActiveAssignment, ReasonRoleForbidsAction, ReasonPhaseForbidsAction, ReasonUnenforcedDeny, ReasonEvaluationFault, ReasonAttributionOnlySession]"
proof
  show "DecisionReason_IsValid x \<longleftrightarrow> x \<in> set [ReasonLegal, ReasonUnboundSession, ReasonStopLoopGuard, ReasonUnknownActor, ReasonNoActiveAssignment, ReasonRoleForbidsAction, ReasonPhaseForbidsAction, ReasonUnenforcedDeny, ReasonEvaluationFault, ReasonAttributionOnlySession]" for x by (cases x) auto
qed auto

fun DecisionReason_Message :: "DecisionReason \<Rightarrow> string" where
  "DecisionReason_Message ReasonLegal =
     ''Pasture permits this action.''"
| "DecisionReason_Message ReasonUnboundSession =
     ''This session has no actor claim; the host continues without an assignment decision.''"
| "DecisionReason_Message ReasonStopLoopGuard =
     ''The stop-loop guard lets the host continue without another refusal.''"
| "DecisionReason_Message ReasonUnknownActor =
     ''Pasture denied this action because the session actor is unknown; bind the session to a registered actor.''"
| "DecisionReason_Message ReasonNoActiveAssignment =
     ''Pasture denied this action because the actor has no active assignment; start an authorized assignment before retrying.''"
| "DecisionReason_Message ReasonRoleForbidsAction =
     ''Pasture denied this action because the assignment role does not permit it; use an assignment with a permitted role.''"
| "DecisionReason_Message ReasonPhaseForbidsAction =
     ''Pasture denied this action because the assignment phase does not permit it; complete the required phase transition before retrying.''"
| "DecisionReason_Message ReasonUnenforcedDeny =
     ''The host continues because this event has no evidenced refusal channel; the policy denial is record-only.''"
| "DecisionReason_Message ReasonEvaluationFault =
     ''Pasture could not evaluate this event; this is not a policy denial. Read the lifecycle fault diagnostic and repair the failed evaluation before retrying.''"
| "DecisionReason_Message ReasonAttributionOnlySession =
     ''This session has an attribution-only actor; the host continues without an assignment decision.''"
| "DecisionReason_Message _ = []"

record Decision =
  d_kind :: DecisionKind
  d_reason :: DecisionReason

definition zero_decision :: Decision where
  "zero_decision = \<lparr>d_kind = DecisionKindUnset, d_reason = ReasonUnset\<rparr>"

definition Decision_IsValid :: "Decision \<Rightarrow> bool" where
  "Decision_IsValid d =
     (case d_kind d of
        DecisionProceed \<Rightarrow> d_reason d \<in> {ReasonLegal, ReasonUnboundSession, ReasonStopLoopGuard,
          ReasonUnenforcedDeny, ReasonAttributionOnlySession}
      | DecisionDeny \<Rightarrow> d_reason d \<in> {ReasonUnknownActor, ReasonNoActiveAssignment,
          ReasonRoleForbidsAction, ReasonPhaseForbidsAction}
      | DecisionRequireHuman \<Rightarrow> d_reason d \<in> {ReasonUnknownActor, ReasonNoActiveAssignment,
          ReasonRoleForbidsAction, ReasonPhaseForbidsAction}
      | _ \<Rightarrow> False)"

datatype decision_error =
    NotAVerdict DecisionKind DecisionReason
  | InvalidDecision
  | UnreadableRecord string
  | NotCanonical

definition NewDecision :: "DecisionKind \<Rightarrow> DecisionReason \<Rightarrow> decision_error + Decision" where
  "NewDecision kind reason = (let d = \<lparr>d_kind = kind, d_reason = reason\<rparr> in
     if \<not> Decision_IsValid d then Err (NotAVerdict kind reason) else Ok d)"

section \<open>Canonical JSON\<close>

text \<open>\<open>json.Marshal\<close> of the two string members; the tokens need no escaping.\<close>

definition dq :: char where "dq = CHR 0x22"

definition json_member :: "string \<Rightarrow> string \<Rightarrow> string" where
  "json_member key val = [dq] @ key @ [dq] @ '':'' @ [dq] @ val @ [dq]"

definition decision_json :: "string \<Rightarrow> string \<Rightarrow> string" where
  "decision_json kind reason = ''{'' @ json_member ''decision'' kind @ '','' @ json_member ''reason'' reason @ ''}''"

definition Decision_MarshalJSON :: "Decision \<Rightarrow> decision_error + string" where
  "Decision_MarshalJSON d =
     (if \<not> Decision_IsValid d then Err InvalidDecision
      else Ok (decision_json (DecisionKind_String (d_kind d)) (DecisionReason_String (d_reason d))))"

text \<open>The two candidate loops: the last candidate with the token, or the zero value.\<close>

definition kind_candidate :: "string \<Rightarrow> DecisionKind" where
  "kind_candidate s = foldl (\<lambda>acc c. if DecisionKind_String c = s then c else acc) DecisionKindUnset
     [DecisionProceed, DecisionDeny, DecisionRequireHuman]"

definition reason_candidate :: "string \<Rightarrow> DecisionReason" where
  "reason_candidate s = foldl (\<lambda>acc c. if DecisionReason_String c = s then c else acc) ReasonUnset
     [ReasonLegal, ReasonUnboundSession, ReasonStopLoopGuard, ReasonUnknownActor, ReasonNoActiveAssignment, ReasonRoleForbidsAction, ReasonPhaseForbidsAction, ReasonUnenforcedDeny, ReasonEvaluationFault, ReasonAttributionOnlySession]"

text \<open>\<open>json\<close> is \<open>json.Unmarshal\<close> into the two string members.  The result is the value left in
  the receiver, or the error that cleared it.\<close>

definition Decision_UnmarshalJSON :: "(string \<Rightarrow> string + string \<times> string) \<Rightarrow> string \<Rightarrow> decision_error + Decision" where
  "Decision_UnmarshalJSON json raw =
     (case json raw of
        Err e \<Rightarrow> Err (UnreadableRecord e)
      | Ok (k, r) \<Rightarrow>
          result_bind (NewDecision (kind_candidate k) (reason_candidate r)) (\<lambda>val.
            result_bind (Decision_MarshalJSON val) (\<lambda>canonical.
              if raw \<noteq> canonical then Err NotCanonical else Ok val)))"

section \<open>Host responses\<close>

record HostResponse =
  hr_decision :: Decision
  hr_fault :: bool
  hr_constructed :: bool

definition zero_response :: HostResponse where
  "zero_response = \<lparr>hr_decision = zero_decision, hr_fault = False, hr_constructed = False\<rparr>"

definition NewHostResponse :: "Decision \<Rightarrow> decision_error + HostResponse" where
  "NewHostResponse d =
     (if \<not> Decision_IsValid d then Err InvalidDecision
      else Ok \<lparr>hr_decision = d, hr_fault = False, hr_constructed = True\<rparr>)"

definition NewEvaluationFaultResponse :: HostResponse where
  "NewEvaluationFaultResponse = \<lparr>hr_decision = zero_decision, hr_fault = True, hr_constructed = True\<rparr>"

definition HostResponse_IsValid :: "HostResponse \<Rightarrow> bool" where
  "HostResponse_IsValid r \<longleftrightarrow> hr_constructed r
     \<and> ((hr_fault r \<and> hr_decision r = zero_decision) \<or> (\<not> hr_fault r \<and> Decision_IsValid (hr_decision r)))"

definition HostResponse_Value :: "HostResponse \<Rightarrow> Decision \<times> bool" where
  "HostResponse_Value r = (hr_decision r, HostResponse_IsValid r \<and> \<not> hr_fault r)"

definition IsEvaluationFault :: "HostResponse \<Rightarrow> bool" where
  "IsEvaluationFault r \<longleftrightarrow> HostResponse_IsValid r \<and> hr_fault r"

definition HostResponse_Reason :: "HostResponse \<Rightarrow> DecisionReason" where
  "HostResponse_Reason r =
     (if \<not> HostResponse_IsValid r then ReasonUnset
      else if hr_fault r then ReasonEvaluationFault else d_reason (hr_decision r))"

definition HostResponse_Decision :: "HostResponse \<Rightarrow> DecisionKind" where
  "HostResponse_Decision r =
     (if \<not> HostResponse_IsValid r then DecisionKindUnset
      else if hr_fault r then DecisionDeny else d_kind (hr_decision r))"

definition proceed_json :: string where
  "proceed_json = ''{'' @ json_member ''decision'' ''proceed'' @ ''}''"

definition HostResponse_MarshalJSON :: "HostResponse \<Rightarrow> decision_error + string" where
  "HostResponse_MarshalJSON r =
     (if \<not> HostResponse_IsValid r then Err InvalidDecision
      else if HostResponse_Decision r = DecisionProceed then Ok proceed_json
      else Ok (decision_json (DecisionKind_String (HostResponse_Decision r))
        (DecisionReason_String (HostResponse_Reason r))))"

section \<open>Lemmas\<close>

lemma Decision_IsValid_zero [simp]: "\<not> Decision_IsValid zero_decision"
  by (simp add: Decision_IsValid_def zero_decision_def)

lemma Decision_IsValid_cases:
  assumes "Decision_IsValid d"
  obtains "d_kind d = DecisionProceed" "d_reason d \<in> {ReasonLegal, ReasonUnboundSession,
      ReasonStopLoopGuard, ReasonUnenforcedDeny, ReasonAttributionOnlySession}"
  | "d_kind d \<in> {DecisionDeny, DecisionRequireHuman}" "d_reason d \<in> {ReasonUnknownActor,
      ReasonNoActiveAssignment, ReasonRoleForbidsAction, ReasonPhaseForbidsAction}"
  using assms by (cases "d_kind d") (auto simp: Decision_IsValid_def)

lemma Decision_IsValid_fields:
  "Decision_IsValid d \<Longrightarrow> DecisionKind_IsValid (d_kind d) \<and> DecisionReason_IsValid (d_reason d)"
  by (erule Decision_IsValid_cases) auto

lemma NewDecision_Ok [simp]:
  "NewDecision k r = Ok d \<longleftrightarrow> d = \<lparr>d_kind = k, d_reason = r\<rparr> \<and> Decision_IsValid d"
  by (auto simp: NewDecision_def Let_def)

lemma NewHostResponse_Ok [simp]:
  "NewHostResponse d = Ok r \<longleftrightarrow> Decision_IsValid d \<and> r = \<lparr>hr_decision = d, hr_fault = False, hr_constructed = True\<rparr>"
  by (auto simp: NewHostResponse_def)

lemma decided_response [simp]:
  assumes "Decision_IsValid d"
  shows "HostResponse_IsValid \<lparr>hr_decision = d, hr_fault = False, hr_constructed = True\<rparr>"
    "\<not> IsEvaluationFault \<lparr>hr_decision = d, hr_fault = False, hr_constructed = True\<rparr>"
    "HostResponse_Decision \<lparr>hr_decision = d, hr_fault = False, hr_constructed = True\<rparr> = d_kind d"
    "HostResponse_Reason \<lparr>hr_decision = d, hr_fault = False, hr_constructed = True\<rparr> = d_reason d"
  using assms by (simp_all add: HostResponse_IsValid_def IsEvaluationFault_def HostResponse_Decision_def
      HostResponse_Reason_def)

lemma zero_response_invalid [simp]: "\<not> HostResponse_IsValid zero_response"
  by (simp add: HostResponse_IsValid_def zero_response_def)

lemma kind_candidate_String: "DecisionKind_IsValid k \<Longrightarrow> kind_candidate (DecisionKind_String k) = k"
  by (cases k) (simp_all add: kind_candidate_def)

lemma reason_candidate_String: "DecisionReason_IsValid r \<Longrightarrow> reason_candidate (DecisionReason_String r) = r"
  by (cases r) (simp_all add: reason_candidate_def)

lemma separator_unique:
  "c \<notin> set a \<Longrightarrow> c \<notin> set b \<Longrightarrow> a @ c # x = b @ c # y \<Longrightarrow> a = b \<and> x = y"
proof (induction a arbitrary: b)
  case Nil
  then show ?case by (cases b) auto
next
  case (Cons z zs)
  then show ?case by (cases b) auto
qed

lemma json_member_inj:
  assumes "dq \<notin> set a" "dq \<notin> set b" "json_member k a @ x = json_member k b @ y"
  shows "a = b \<and> x = y"
proof -
  have "a @ dq # x = b @ dq # y" using assms(3) by (simp add: json_member_def)
  then show ?thesis by (rule separator_unique [OF assms(1,2)])
qed

lemma tokens_unquoted: "dq \<notin> set (DecisionKind_String k)" "dq \<notin> set (DecisionReason_String r)"
  by (cases k; simp add: dq_def) (cases r; simp add: dq_def)

lemma Decision_MarshalJSON_inj:
  assumes "Decision_MarshalJSON d = Ok s" "Decision_MarshalJSON e = Ok s"
  shows "d = e"
proof -
  have v: "Decision_IsValid d" "Decision_IsValid e"
    using assms by (auto simp: Decision_MarshalJSON_def split: if_splits)
  have "decision_json (DecisionKind_String (d_kind d)) (DecisionReason_String (d_reason d))
      = decision_json (DecisionKind_String (d_kind e)) (DecisionReason_String (d_reason e))"
    using assms v by (simp add: Decision_MarshalJSON_def)
  then have e: "json_member ''decision'' (DecisionKind_String (d_kind d))
        @ '','' @ json_member ''reason'' (DecisionReason_String (d_reason d)) @ ''}''
      = json_member ''decision'' (DecisionKind_String (d_kind e))
        @ '','' @ json_member ''reason'' (DecisionReason_String (d_reason e)) @ ''}''"
    by (simp add: decision_json_def)
  note k = json_member_inj [OF tokens_unquoted(1) tokens_unquoted(1) e]
  then have "json_member ''reason'' (DecisionReason_String (d_reason d)) @ ''}''
      = json_member ''reason'' (DecisionReason_String (d_reason e)) @ ''}''" by simp
  note r = json_member_inj [OF tokens_unquoted(2) tokens_unquoted(2) this]
  from k r have "d_kind d = d_kind e" "d_reason d = d_reason e"
    using v decisionKind_tokens.token_inj decisionReason_tokens.token_inj Decision_IsValid_fields by blast+
  then show ?thesis by simp
qed

text \<open>The decision codec is closed: whatever the JSON reader accepts, a decoded decision is a valid
  verdict and its record is byte for byte the canonical one, distinct decisions have distinct
  records, and where the reader understands the canonical record the decision is read back.\<close>

theorem decision_codec:
  "(Decision_UnmarshalJSON json raw = Ok d \<longrightarrow> Decision_IsValid d \<and> Decision_MarshalJSON d = Ok raw)
   \<and> (Decision_MarshalJSON d = Ok s \<longrightarrow> Decision_MarshalJSON e = Ok s \<longrightarrow> d = e)
   \<and> (Decision_MarshalJSON d = Ok s \<longrightarrow> json s = Ok (DecisionKind_String (d_kind d), DecisionReason_String (d_reason d))
       \<longrightarrow> Decision_UnmarshalJSON json s = Ok d)"
proof (intro conjI impI)
  assume "Decision_UnmarshalJSON json raw = Ok d"
  then show "Decision_IsValid d" "Decision_MarshalJSON d = Ok raw"
    by (auto simp: Decision_UnmarshalJSON_def split: sum.splits prod.splits if_splits)
next
  assume m: "Decision_MarshalJSON d = Ok s"
    and j: "json s = Ok (DecisionKind_String (d_kind d), DecisionReason_String (d_reason d))"
  have v: "Decision_IsValid d" using m by (simp add: Decision_MarshalJSON_def split: if_splits)
  have "\<lparr>d_kind = d_kind d, d_reason = d_reason d\<rparr> = d" by simp
  then have "NewDecision (d_kind d) (d_reason d) = Ok d" using v by simp
  then show "Decision_UnmarshalJSON json s = Ok d"
    using j m Decision_IsValid_fields [OF v]
    by (simp add: Decision_UnmarshalJSON_def kind_candidate_String reason_candidate_String
        del: NewDecision_Ok)
next
  show "d = e" if "Decision_MarshalJSON d = Ok s" "Decision_MarshalJSON e = Ok s"
    using that by (rule Decision_MarshalJSON_inj)
qed

theorem decision_codec_witness:
  "Decision_UnmarshalJSON (\<lambda>_. Ok (''deny'', ''unknown-actor''))
     (decision_json ''deny'' ''unknown-actor'')
   = Ok \<lparr>d_kind = DecisionDeny, d_reason = ReasonUnknownActor\<rparr>"
proof -
  let ?d = "\<lparr>d_kind = DecisionDeny, d_reason = ReasonUnknownActor\<rparr>"
  let ?s = "decision_json ''deny'' ''unknown-actor''"
  let ?json = "(\<lambda>_. Ok (''deny'', ''unknown-actor'')) :: string \<Rightarrow> string + string \<times> string"
  have m: "Decision_MarshalJSON ?d = Ok ?s" by code_simp
  have j: "?json ?s = Ok (DecisionKind_String (d_kind ?d), DecisionReason_String (d_reason ?d))" by simp
  show ?thesis
    by (rule mp [OF mp [OF conjunct2 [OF conjunct2 [OF decision_codec [of ?json ?s ?d ?s ?d]]] m] j])
qed

end
