(* ===== verification/HostExit.thy ===== *)
theory HostExit
  imports HostDecision
begin

text \<open>
  What the lifecycle hook tells its host: the exit authority
  (\<^verbatim>\<open>internal/lifecycle/hostexit/hostexit.go\<close>) with its fault table and its diagnostic, and the
  native encoders per host (\<^verbatim>\<open>internal/lifecycle/nativeresponse/nativeresponse.go\<close>).  Texts for
  the user are values that say which text it is; bytes the host reads are modelled byte for byte.
  The reader of the generated OpenCode adapter is modelled too.  The lemmas show that the encoder
  sends what was persisted, to the byte, that a fault fails open unless the
  operator asked for the opposite and the row cites evidence, and that failing open emits the
  same bytes as an evaluated proceed.
\<close>

section \<open>Exit status, continuation, stage and policy\<close>

datatype ExitStatus = ExitStatusUnset | ExitContinue | ExitNonBlockingError | ExitBlock | ExitStatus_value nat

fun ExitStatus_IsValid :: "ExitStatus \<Rightarrow> bool" where
  "ExitStatus_IsValid ExitStatusUnset = False"
| "ExitStatus_IsValid (ExitStatus_value _) = False"
| "ExitStatus_IsValid _ = True"

fun ExitStatus_String :: "ExitStatus \<Rightarrow> string" where
  "ExitStatus_String ExitStatusUnset = []"
| "ExitStatus_String ExitContinue = ''continue''"
| "ExitStatus_String ExitNonBlockingError = ''non-blocking-error''"
| "ExitStatus_String ExitBlock = ''block''"
| "ExitStatus_String (ExitStatus_value _) = []"

interpretation exitStatus_tokens: token_enum ExitStatus_IsValid ExitStatus_String "[ExitContinue, ExitNonBlockingError, ExitBlock]"
proof
  show "ExitStatus_IsValid x \<longleftrightarrow> x \<in> set [ExitContinue, ExitNonBlockingError, ExitBlock]" for x by (cases x) auto
qed auto

fun ExitStatus_Code :: "ExitStatus \<Rightarrow> nat option" where
  "ExitStatus_Code ExitContinue = Some 0"
| "ExitStatus_Code ExitNonBlockingError = Some 1"
| "ExitStatus_Code ExitBlock = Some 2"
| "ExitStatus_Code _ = None"

record Continuation =
  cont_set :: bool
  cont_bytes :: string

definition EmptyContinuation :: Continuation where
  "EmptyContinuation = \<lparr>cont_set = True, cont_bytes = []\<rparr>"

definition ContinuationOf :: "string \<Rightarrow> Continuation" where
  "ContinuationOf bytes = \<lparr>cont_set = True, cont_bytes = bytes\<rparr>"

datatype FaultStage = FaultStageUnset | FaultStageNotRecorded | FaultStageRecordUnknown | FaultStageRecorded | FaultStage_value nat

fun FaultStage_IsValid :: "FaultStage \<Rightarrow> bool" where
  "FaultStage_IsValid FaultStageUnset = False"
| "FaultStage_IsValid (FaultStage_value _) = False"
| "FaultStage_IsValid _ = True"

fun FaultStage_String :: "FaultStage \<Rightarrow> string" where
  "FaultStage_String FaultStageUnset = []"
| "FaultStage_String FaultStageNotRecorded = ''not-recorded''"
| "FaultStage_String FaultStageRecordUnknown = ''record-unknown''"
| "FaultStage_String FaultStageRecorded = ''recorded''"
| "FaultStage_String (FaultStage_value _) = []"

interpretation faultStage_tokens: token_enum FaultStage_IsValid FaultStage_String "[FaultStageNotRecorded, FaultStageRecordUnknown, FaultStageRecorded]"
proof
  show "FaultStage_IsValid x \<longleftrightarrow> x \<in> set [FaultStageNotRecorded, FaultStageRecordUnknown, FaultStageRecorded]" for x by (cases x) auto
qed auto

datatype FaultPolicy = FaultPolicyUnset | FaultFailOpen | FaultFailClosed | FaultPolicy_value nat

fun FaultPolicy_IsValid :: "FaultPolicy \<Rightarrow> bool" where
  "FaultPolicy_IsValid FaultPolicyUnset = False"
| "FaultPolicy_IsValid (FaultPolicy_value _) = False"
| "FaultPolicy_IsValid _ = True"

fun FaultPolicy_String :: "FaultPolicy \<Rightarrow> string" where
  "FaultPolicy_String FaultPolicyUnset = []"
| "FaultPolicy_String FaultFailOpen = ''fail-open''"
| "FaultPolicy_String FaultFailClosed = ''fail-closed''"
| "FaultPolicy_String (FaultPolicy_value _) = []"

interpretation faultPolicy_tokens: token_enum FaultPolicy_IsValid FaultPolicy_String "[FaultFailOpen, FaultFailClosed]"
proof
  show "FaultPolicy_IsValid x \<longleftrightarrow> x \<in> set [FaultFailOpen, FaultFailClosed]" for x by (cases x) auto
qed auto

section \<open>Faults\<close>

text \<open>The cause is the text of the error, absent for \<^verbatim>\<open>nil\<close>.\<close>

record Fault =
  ft_Mode :: FailureMode
  ft_DeclaredMode :: FailureMode
  ft_Undeclared :: bool
  ft_Evidence :: FailureEvidence
  ft_Policy :: FaultPolicy
  ft_Stage :: FaultStage
  ft_Continuation :: Continuation
  ft_Cause :: "string option"

text \<open>The clauses of the diagnostic a fault prints: what it says of the record, what it advises,
  what it says of the host.\<close>

datatype record_clause = NoOccurrenceRecorded | DeliveryCommitted | MayOrMayNotExist

datatype fix_clause =
    SetFailClosed
  | NoChannelUndeclared FailureMode
  | NoChannelUncited
  | NoChannelNoExitCode FailureMode
  | UnsetFailClosed
  | NoChannelOpenCode

datatype impact_clause =
    HostContinues record_clause
  | HostRefuses
  | HostContinuesNoOpenCodeChannel record_clause
  | HostContinuesSeeFaultRecord record_clause

datatype declared_clause = DeclaredAs FailureMode | TreatedAs FailureMode

record FaultDiagnostic =
  fd_impact :: impact_clause
  fd_fix :: fix_clause
  fd_declared :: declared_clause
  fd_mode :: FailureMode
  fd_policy :: FaultPolicy
  fd_evidence :: string
  fd_stage :: FaultStage
  fd_exit :: ExitStatus
  fd_cause :: "string option"

text \<open>Standard error: nothing, the message of a decision, the diagnostic of a fault, or the note
  that a fault could not be classified.\<close>

datatype unusable_input =
    UnusableMode | UnusableDeclaredMode | UnusablePolicy | UnusableStage | UnsetContinuation | NilCause

datatype stderr_text =
    StderrText string
  | StderrFault FaultDiagnostic
  | StderrUnclassifiable "unusable_input list" "string option"

record Outcome =
  out_Exit :: ExitStatus
  out_Stdout :: string
  out_Stderr :: stderr_text

definition zero_outcome :: Outcome where
  "zero_outcome = \<lparr>out_Exit = ExitStatusUnset, out_Stdout = [], out_Stderr = StderrText []\<rparr>"

definition UnusableInputs :: "Fault \<Rightarrow> unusable_input list" where
  "UnusableInputs f =
     (if \<not> FailureMode_IsValid (ft_Mode f) then [UnusableMode] else [])
     @ (if \<not> FailureMode_IsValid (ft_DeclaredMode f) then [UnusableDeclaredMode] else [])
     @ (if \<not> FaultPolicy_IsValid (ft_Policy f) then [UnusablePolicy] else [])
     @ (if \<not> FaultStage_IsValid (ft_Stage f) then [UnusableStage] else [])
     @ (if \<not> cont_set (ft_Continuation f) then [UnsetContinuation] else [])
     @ (if ft_Cause f = None then [NilCause] else [])"

definition recordClause :: "FaultStage \<Rightarrow> record_clause" where
  "recordClause s = (case s of FaultStageRecorded \<Rightarrow> DeliveryCommitted
     | FaultStageRecordUnknown \<Rightarrow> MayOrMayNotExist | _ \<Rightarrow> NoOccurrenceRecorded)"

definition failClosedAdvice :: "Fault \<Rightarrow> ExitStatus \<Rightarrow> fix_clause" where
  "failClosedAdvice f exit =
     (if ft_Policy f = FaultFailClosed \<and> exit \<noteq> ExitBlock then
        (if ft_Undeclared f then NoChannelUndeclared (ft_DeclaredMode f)
         else if BlocksByExitCode (ft_DeclaredMode f) then NoChannelUncited
         else NoChannelNoExitCode (ft_DeclaredMode f))
      else SetFailClosed)"

definition declaredModeClause :: "Fault \<Rightarrow> declared_clause" where
  "declaredModeClause f = (if ft_Undeclared f then TreatedAs (ft_DeclaredMode f) else DeclaredAs (ft_DeclaredMode f))"

definition evidenceState :: "FailureEvidence \<Rightarrow> string" where
  "evidenceState e = (if Evidence_IsPresent e then fe_Source e else ''none'')"

definition faultDiagnostic :: "Fault \<Rightarrow> ExitStatus \<Rightarrow> FaultDiagnostic" where
  "faultDiagnostic f exit =
     (let rc = recordClause (ft_Stage f);
          (impact, fx) =
            (if exit = ExitBlock then (HostRefuses, UnsetFailClosed)
             else if ft_Policy f = FaultFailClosed \<and> ft_Mode f = FailureThrowFailFast
             then (HostContinuesNoOpenCodeChannel rc, NoChannelOpenCode)
             else if ft_Stage f = FaultStageRecordUnknown
             then (HostContinuesSeeFaultRecord rc, failClosedAdvice f exit)
             else (HostContinues rc, failClosedAdvice f exit)) in
      \<lparr>fd_impact = impact, fd_fix = fx, fd_declared = declaredModeClause f, fd_mode = ft_Mode f,
       fd_policy = ft_Policy f, fd_evidence = evidenceState (ft_Evidence f), fd_stage = ft_Stage f,
       fd_exit = exit, fd_cause = ft_Cause f\<rparr>)"

definition ForFault :: "Fault \<Rightarrow> Outcome \<times> bool" where
  "ForFault f =
     (if UnusableInputs f \<noteq> [] then (zero_outcome, False)
      else if ft_Policy f = FaultFailClosed \<and> BlocksByExitCode (ft_Mode f) \<and> Evidence_IsPresent (ft_Evidence f)
      then (\<lparr>out_Exit = ExitBlock, out_Stdout = [], out_Stderr = StderrFault (faultDiagnostic f ExitBlock)\<rparr>, True)
      else (\<lparr>out_Exit = ExitContinue, out_Stdout = cont_bytes (ft_Continuation f),
             out_Stderr = StderrFault (faultDiagnostic f ExitContinue)\<rparr>, True))"

definition ForDecision :: "string \<Rightarrow> ExitStatus \<Rightarrow> string \<Rightarrow> Outcome" where
  "ForDecision native exit stderr = \<lparr>out_Exit = exit, out_Stdout = native, out_Stderr = StderrText stderr\<rparr>"

section \<open>Native responses\<close>

definition codexProceedContinuation :: string where
  "codexProceedContinuation = ''{'' @ [dq] @ ''continue'' @ [dq] @ '':true}''"

definition codexObservationContinuation :: string where
  "codexObservationContinuation = ''{}''"

definition canonicalProceedContinuation :: string where
  "canonicalProceedContinuation = ''{'' @ [dq] @ ''decision'' @ [dq] @ '':'' @ [dq] @ ''proceed'' @ [dq] @ ''}''"

datatype native_error =
    UnsupportedResponse string HookSurface ResponseCapability DecisionKind
  | UnvalidatedMapping
  | SurfaceMismatch string HookSurface
  | GateNotEvaluated string
  | DecisionError decision_error
  | RefusalNeedsOutcome
  | UnknownHarness Harness

definition unsupported :: "LifecycleEventMapping \<Rightarrow> DecisionKind \<Rightarrow> native_error" where
  "unsupported m kind = UnsupportedResponse (lm_nativeName m) (lm_surface m) (lm_response m) kind"

definition CodexContinuation :: "HostResponse \<Rightarrow> native_error + string" where
  "CodexContinuation response =
     (if HostResponse_IsValid response then
        (if HostResponse_Decision response \<noteq> DecisionProceed then Err RefusalNeedsOutcome
         else Ok codexProceedContinuation)
      else Ok codexObservationContinuation)"

definition CanonicalProceed :: "HostResponse \<Rightarrow> native_error + string" where
  "CanonicalProceed response =
     (if \<not> HostResponse_IsValid response then Ok []
      else if HostResponse_Decision response \<noteq> DecisionProceed then Err RefusalNeedsOutcome
      else case HostResponse_MarshalJSON response of Err e \<Rightarrow> Err (DecisionError e) | Ok s \<Rightarrow> Ok s)"

definition ClaudeContinuation :: "HostResponse \<Rightarrow> native_error + string" where
  "ClaudeContinuation response =
     (if HostResponse_IsValid response \<and> HostResponse_Decision response \<noteq> DecisionProceed
      then Err RefusalNeedsOutcome else Ok [])"

definition nativeDecision :: "LifecycleEventMapping \<Rightarrow> HostResponse \<Rightarrow> HookSurface list \<Rightarrow> native_error + DecisionKind" where
  "nativeDecision m response surfaces =
     (if \<not> Mapping_IsValid m then Err UnvalidatedMapping
      else if lm_surface m \<notin> set surfaces then Err (SurfaceMismatch (lm_nativeName m) (lm_surface m))
      else if \<not> HostResponse_IsValid response then
        (if lm_semantic m = SemanticObservation then Ok DecisionProceed
         else Err (GateNotEvaluated (lm_nativeName m)))
      else let kind = HostResponse_Decision response in
        if IsEvaluationFault response \<and> \<not> AllowsDeny (lm_response m) then Err (unsupported m kind)
        else if kind = DecisionDeny \<or> kind = DecisionRequireHuman then
          (if \<not> AllowsDeny (lm_response m) then Ok DecisionProceed
           else if kind = DecisionRequireHuman \<and> \<not> AllowsAsk (lm_response m) then Ok DecisionDeny
           else Ok kind)
        else Ok kind)"

definition NormalizeDecision :: "LifecycleEventMapping \<Rightarrow> Decision \<Rightarrow> native_error + Decision" where
  "NormalizeDecision m d =
     (case NewHostResponse d of
        Err e \<Rightarrow> Err (DecisionError e)
      | Ok response \<Rightarrow>
          result_bind (nativeDecision m response [lm_surface m]) (\<lambda>kind.
            let reason = (if kind = DecisionProceed \<and> d_kind d \<noteq> DecisionProceed
                          then ReasonUnenforcedDeny else d_reason d) in
            case NewDecision kind reason of Err e \<Rightarrow> Err (DecisionError e) | Ok n \<Rightarrow> Ok n))"

definition EncodeClaude :: "LifecycleEventMapping \<Rightarrow> HostResponse \<Rightarrow> native_error + Outcome" where
  "EncodeClaude m response =
     result_bind (nativeDecision m response [SurfaceClaudeCommandJSON]) (\<lambda>kind.
       case kind of
         DecisionProceed \<Rightarrow> Ok (ForDecision [] ExitContinue [])
       | DecisionDeny \<Rightarrow>
           (if \<not> BlocksByExitCode (lm_failure m) \<or> \<not> Evidence_IsPresent (lm_evidence m) then Err (unsupported m kind)
            else Ok (ForDecision [] ExitBlock (DecisionReason_Message (HostResponse_Reason response))))
       | _ \<Rightarrow> Err (unsupported m kind))"

definition EncodeCodex :: "LifecycleEventMapping \<Rightarrow> HostResponse \<Rightarrow> native_error + Outcome" where
  "EncodeCodex m response =
     result_bind (nativeDecision m response [SurfaceCodexStrictCommandJSON]) (\<lambda>kind.
       if kind \<noteq> DecisionProceed then Err (unsupported m kind)
       else if lm_semantic m = SemanticObservation then Ok (ForDecision codexObservationContinuation ExitContinue [])
       else Ok (ForDecision codexProceedContinuation ExitContinue []))"

definition EncodeOpenCode :: "LifecycleEventMapping \<Rightarrow> HostResponse \<Rightarrow> native_error + Outcome" where
  "EncodeOpenCode m response =
     result_bind (nativeDecision m response [SurfaceOpenCodeNamedOutput, SurfaceOpenCodeCatchAllSSE]) (\<lambda>kind.
       case kind of
         DecisionProceed \<Rightarrow>
           (if lm_semantic m = SemanticObservation then Ok (ForDecision [] ExitContinue [])
            else Ok (ForDecision canonicalProceedContinuation ExitContinue []))
       | DecisionDeny \<Rightarrow>
           (if IsEvaluationFault response then Err (unsupported m kind)
            else if \<not> AllowsDeny (lm_response m) then Err (unsupported m kind)
            else case HostResponse_MarshalJSON response of
                Err e \<Rightarrow> Err (DecisionError e)
              | Ok encoded \<Rightarrow> Ok (ForDecision encoded ExitContinue []))
       | _ \<Rightarrow> Err (unsupported m kind))"

definition FaultContinuation :: "Harness \<Rightarrow> EventSemantic \<Rightarrow> native_error + Continuation" where
  "FaultContinuation harness semantic =
     (if harness = HarnessClaudeCode then Ok EmptyContinuation
      else if harness = HarnessCodex then
        (if semantic = SemanticObservation then Ok (ContinuationOf codexObservationContinuation)
         else Ok (ContinuationOf codexProceedContinuation))
      else if harness = HarnessOpenCode then
        (if semantic = SemanticObservation then Ok EmptyContinuation
         else Ok (ContinuationOf canonicalProceedContinuation))
      else Err (UnknownHarness harness))"

section \<open>Normalisation\<close>

text \<open>The decision a host can be told, given what the row can enforce.\<close>

definition normalized :: "LifecycleEventMapping \<Rightarrow> Decision \<Rightarrow> Decision" where
  "normalized m d =
     (if d_kind d = DecisionProceed then d
      else if \<not> AllowsDeny (lm_response m) then \<lparr>d_kind = DecisionProceed, d_reason = ReasonUnenforcedDeny\<rparr>
      else if d_kind d = DecisionRequireHuman \<and> \<not> AllowsAsk (lm_response m)
      then \<lparr>d_kind = DecisionDeny, d_reason = d_reason d\<rparr>
      else d)"

lemma normalized_valid: "Decision_IsValid d \<Longrightarrow> Decision_IsValid (normalized m d)"
  by (auto simp: normalized_def Decision_IsValid_def split: DecisionKind.splits)

lemma normalized_simps:
  "d_kind d = DecisionProceed \<Longrightarrow> normalized m d = d"
  "d_kind d \<noteq> DecisionProceed \<Longrightarrow> \<not> AllowsDeny (lm_response m)
     \<Longrightarrow> normalized m d = \<lparr>d_kind = DecisionProceed, d_reason = ReasonUnenforcedDeny\<rparr>"
  "d_kind d = DecisionDeny \<Longrightarrow> AllowsDeny (lm_response m) \<Longrightarrow> normalized m d = d"
  "d_kind d = DecisionRequireHuman \<Longrightarrow> AllowsDeny (lm_response m) \<Longrightarrow> AllowsAsk (lm_response m)
     \<Longrightarrow> normalized m d = d"
  "d_kind d = DecisionRequireHuman \<Longrightarrow> AllowsDeny (lm_response m) \<Longrightarrow> \<not> AllowsAsk (lm_response m)
     \<Longrightarrow> normalized m d = \<lparr>d_kind = DecisionDeny, d_reason = d_reason d\<rparr>"
  by (simp_all add: normalized_def)

lemma normalized_cases:
  assumes "Decision_IsValid d"
  obtains "d_kind d = DecisionProceed" "normalized m d = d"
  | "d_kind d = DecisionDeny \<or> d_kind d = DecisionRequireHuman" "\<not> AllowsDeny (lm_response m)"
    "normalized m d = \<lparr>d_kind = DecisionProceed, d_reason = ReasonUnenforcedDeny\<rparr>"
  | "d_kind d = DecisionDeny" "AllowsDeny (lm_response m)" "normalized m d = d"
  | "d_kind d = DecisionRequireHuman" "AllowsDeny (lm_response m)" "AllowsAsk (lm_response m)" "normalized m d = d"
  | "d_kind d = DecisionRequireHuman" "AllowsDeny (lm_response m)" "\<not> AllowsAsk (lm_response m)"
    "normalized m d = \<lparr>d_kind = DecisionDeny, d_reason = d_reason d\<rparr>"
proof -
  from assms consider "d_kind d = DecisionProceed" | "d_kind d = DecisionDeny" | "d_kind d = DecisionRequireHuman"
    by (cases rule: Decision_IsValid_cases) blast+
  then show thesis
    by cases (metis normalized_simps that)+
qed

lemma nativeDecision_decided:
  assumes "Mapping_IsValid m" "Decision_IsValid d" "lm_surface m \<in> set ss"
  shows "nativeDecision m \<lparr>hr_decision = d, hr_fault = False, hr_constructed = True\<rparr> ss = Ok (d_kind (normalized m d))"
  using assms(2)
  by (cases rule: normalized_cases [of d m]) (use assms in \<open>auto simp: nativeDecision_def Let_def\<close>)

lemma normalized_reason:
  assumes "Decision_IsValid d"
  shows "(if d_kind (normalized m d) = DecisionProceed \<and> d_kind d \<noteq> DecisionProceed
      then ReasonUnenforcedDeny else d_reason d) = d_reason (normalized m d)"
  using assms by (cases rule: normalized_cases [of d m]) auto

lemma NormalizeDecision_eq:
  assumes m: "Mapping_IsValid m" and d: "Decision_IsValid d"
  shows "NormalizeDecision m d = Ok (normalized m d)"
proof -
  have r: "NewHostResponse d = Ok \<lparr>hr_decision = d, hr_fault = False, hr_constructed = True\<rparr>" using d by simp
  have nd: "NewDecision (d_kind (normalized m d)) (d_reason (normalized m d)) = Ok (normalized m d)"
    using normalized_valid [OF d, of m] by simp
  have "nativeDecision m \<lparr>hr_decision = d, hr_fault = False, hr_constructed = True\<rparr> [lm_surface m]
      = Ok (d_kind (normalized m d))"
    by (rule nativeDecision_decided [OF m d]) simp
  then show ?thesis
    unfolding NormalizeDecision_def r by (simp only: sum.case result_bind_simps Let_def normalized_reason [OF d] nd)
qed

lemma normalized_idem: "normalized m (normalized m d) = normalized m d"
  by (auto simp: normalized_def)

text \<open>C38: Normalising a decision for a valid row always succeeds and yields a valid decision; it keeps
  a proceed and an enforceable denial, records an unenforceable refusal as an unenforced proceed,
  and never turns a proceed into a refusal; normalising again changes nothing.\<close>

theorem normalize_decision:
  assumes "Mapping_IsValid m" "Decision_IsValid d"
  shows "\<exists>n. NormalizeDecision m d = Ok n \<and> Decision_IsValid n \<and> NormalizeDecision m n = Ok n
    \<and> (d_kind d = DecisionProceed \<longrightarrow> n = d)
    \<and> (d_kind d = DecisionDeny \<and> AllowsDeny (lm_response m) \<longrightarrow> n = d)
    \<and> (d_kind d \<noteq> DecisionProceed \<and> \<not> AllowsDeny (lm_response m)
        \<longrightarrow> n = \<lparr>d_kind = DecisionProceed, d_reason = ReasonUnenforcedDeny\<rparr>)
    \<and> (d_kind n \<noteq> DecisionProceed \<longrightarrow> d_kind d \<noteq> DecisionProceed \<and> d_reason n = d_reason d
        \<and> lm_semantic m = SemanticGateConsultation \<and> Evidence_IsPresent (lm_evidence m))"
proof (intro exI conjI impI)
  show "NormalizeDecision m d = Ok (normalized m d)" using assms by (rule NormalizeDecision_eq)
  show "Decision_IsValid (normalized m d)" using assms(2) by (rule normalized_valid)
  show "NormalizeDecision m (normalized m d) = Ok (normalized m d)"
    using NormalizeDecision_eq [OF assms(1) normalized_valid [OF assms(2)]] by (simp add: normalized_idem)
  show "normalized m d = d" if "d_kind d = DecisionProceed" using that by (simp add: normalized_def)
  show "normalized m d = d" if "d_kind d = DecisionDeny \<and> AllowsDeny (lm_response m)"
    using that by (simp add: normalized_def)
  show "normalized m d = \<lparr>d_kind = DecisionProceed, d_reason = ReasonUnenforcedDeny\<rparr>"
    if "d_kind d \<noteq> DecisionProceed \<and> \<not> AllowsDeny (lm_response m)"
    using that by (simp add: normalized_def)
  assume n: "d_kind (normalized m d) \<noteq> DecisionProceed"
  then show "d_kind d \<noteq> DecisionProceed" "d_reason (normalized m d) = d_reason d"
    by (auto simp: normalized_def split: if_splits)
  have "AllowsDeny (lm_response m)" using n by (auto simp: normalized_def split: if_splits)
  then show "lm_semantic m = SemanticGateConsultation" "Evidence_IsPresent (lm_evidence m)"
    using Mapping_IsValid_AllowsDeny [OF assms(1)] by simp_all
qed

text \<open>A row of the Claude profile with cited evidence, and one of the OpenCode profile.\<close>

definition sample_row :: LifecycleEventMapping where
  "sample_row = \<lparr>lm_nativeName = ''PreToolUse'', lm_semantic = SemanticGateConsultation,
     lm_surface = SurfaceClaudeCommandJSON, lm_blocking = Blocking,
     lm_identities = [nativeIdentity IdentitySession ''session_id'' True], lm_unresolved = [],
     lm_mutation = MutationInput, lm_order = OrderConcurrentNative, lm_reconciliation = ReconcileHostNative,
     lm_failure = FailureExitTwoBlocks, lm_declaredFailure = FailureExitTwoBlocks,
     lm_evidence = \<lparr>fe_Source = ''docs''\<rparr>, lm_stopLoop = StopLoopNotApplicable, lm_preAction = True,
     lm_askEvidence = no_evidence, lm_response = CapabilityDeny\<rparr>"

lemma sample_row_valid: "Mapping_IsValid sample_row"
  by code_simp

theorem normalize_decision_witness:
  "\<exists>n. NormalizeDecision sample_row \<lparr>d_kind = DecisionDeny, d_reason = ReasonUnknownActor\<rparr> = Ok n
     \<and> n = \<lparr>d_kind = DecisionDeny, d_reason = ReasonUnknownActor\<rparr>"
proof -
  have "Decision_IsValid \<lparr>d_kind = DecisionDeny, d_reason = ReasonUnknownActor\<rparr>"
    by (simp add: Decision_IsValid_def)
  moreover have "AllowsDeny (lm_response sample_row)" by (simp add: sample_row_def AllowsDeny_def)
  ultimately show ?thesis using normalize_decision [OF sample_row_valid] by fastforce
qed

section \<open>The host is told what was persisted\<close>

text \<open>A JSON value, and the response reader of the generated OpenCode adapter
  (\<^verbatim>\<open>parseResponse\<close> of \<^verbatim>\<open>internal/codegen/templates/opencode-lifecycle.ts\<close>): no decision for an
  empty body, an error for anything but the two canonical objects.  Bodies are ASCII; \<^verbatim>\<open>JSON.parse\<close> is a
  parameter; the keys of an object it returns are distinct.\<close>

datatype json_value =
    JsonNull
  | JsonBool bool
  | JsonNumber string
  | JsonString string
  | JsonArray "json_value list"
  | JsonObject "(string \<times> json_value) list"

datatype LifecycleResponse = RespondProceed | RespondDeny string

datatype response_error = ResponseNotJSON | ResponseNotCanonical

definition parseResponse :: "(string \<Rightarrow> json_value option) \<Rightarrow> string \<Rightarrow> response_error + LifecycleResponse option" where
  "parseResponse JSON_parse stdout =
     (if TrimSpace stdout = [] then Ok None
      else case JSON_parse stdout of
        None \<Rightarrow> Err ResponseNotJSON
      | Some (JsonObject record) \<Rightarrow>
          (if length record = 1 \<and> map_of record ''decision'' = Some (JsonString ''proceed'')
           then Ok (Some RespondProceed)
           else if length record = 2 \<and> map_of record ''decision'' = Some (JsonString ''deny'') then
             (case map_of record ''reason'' of
                Some (JsonString reason) \<Rightarrow>
                  if length reason > 0 then Ok (Some (RespondDeny reason)) else Err ResponseNotCanonical
              | _ \<Rightarrow> Err ResponseNotCanonical)
           else Err ResponseNotCanonical)
      | Some _ \<Rightarrow> Err ResponseNotCanonical)"

text \<open>What is used of \<^verbatim>\<open>JSON.parse\<close>: it reads an object of one or two members whose names and texts need no
  escape.\<close>

definition unescaped :: "string \<Rightarrow> bool" where
  "unescaped s \<longleftrightarrow> list_all (\<lambda>c. 32 \<le> (of_char c :: nat) \<and> (of_char c :: nat) < 128 \<and> c \<noteq> dq \<and> c \<noteq> CHR 0x5C) s"

definition reads_flat_objects :: "(string \<Rightarrow> json_value option) \<Rightarrow> bool" where
  "reads_flat_objects JSON_parse \<longleftrightarrow>
     (\<forall>k v. unescaped k \<and> unescaped v \<longrightarrow>
        JSON_parse (''{'' @ json_member k v @ ''}'') = Some (JsonObject [(k, JsonString v)])) \<and>
     (\<forall>k v l w. unescaped k \<and> unescaped v \<and> unescaped l \<and> unescaped w \<and> k \<noteq> l \<longrightarrow>
        JSON_parse (''{'' @ json_member k v @ '','' @ json_member l w @ ''}'') =
          Some (JsonObject [(k, JsonString v), (l, JsonString w)]))"

lemma parse_proceed:
  assumes "reads_flat_objects J"
  shows "parseResponse J canonicalProceedContinuation = Ok (Some RespondProceed)"
proof -
  have eq: "canonicalProceedContinuation = ''{'' @ json_member ''decision'' ''proceed'' @ ''}''"
    by (simp add: canonicalProceedContinuation_def json_member_def)
  have "unescaped ''decision'' \<and> unescaped ''proceed''" by code_simp
  then have "J canonicalProceedContinuation = Some (JsonObject [(''decision'', JsonString ''proceed'')])"
    using assms unfolding reads_flat_objects_def eq by blast
  moreover have "TrimSpace canonicalProceedContinuation \<noteq> []" by code_simp
  ultimately show ?thesis by (simp add: parseResponse_def)
qed

lemma TrimSpace_not_Nil: "\<not> is_space c \<Longrightarrow> TrimSpace (c # s) \<noteq> []"
  by (simp add: TrimSpace_def dropWhile_append)

lemma reason_unescaped: "DecisionReason_IsValid r \<Longrightarrow> unescaped (DecisionReason_String r) \<and> DecisionReason_String r \<noteq> []"
  by (cases r) (simp_all add: unescaped_def dq_def)

lemma parse_deny:
  assumes "reads_flat_objects J" "DecisionReason_IsValid r"
  shows "parseResponse J (decision_json ''deny'' (DecisionReason_String r)) = Ok (Some (RespondDeny (DecisionReason_String r)))"
proof -
  let ?b = "decision_json ''deny'' (DecisionReason_String r)"
  have "unescaped ''decision''" "unescaped ''deny''" "unescaped ''reason''" by code_simp+
  then have "J ?b = Some (JsonObject [(''decision'', JsonString ''deny''), (''reason'', JsonString (DecisionReason_String r))])"
    using assms(1) reason_unescaped [OF assms(2)] by (simp add: reads_flat_objects_def decision_json_def)
  moreover have "TrimSpace ?b \<noteq> []" by (simp add: decision_json_def TrimSpace_not_Nil is_space_def)
  ultimately show ?thesis using reason_unescaped [OF assms(2)] by (simp add: parseResponse_def)
qed

text \<open>The decision the outcome of a hook states on the wire of its row, from the exact exit status and bytes:
  a Claude hook writes nothing on standard output and states a denial by its exit code, a Codex hook
  writes the continuation object of its kind of event, an OpenCode hook the canonical decision
  object, or nothing for an observation.  Any other exit status or body states no decision.\<close>

definition wire_reasons :: "DecisionReason list" where
  "wire_reasons = [ReasonLegal, ReasonUnboundSession, ReasonStopLoopGuard, ReasonUnknownActor, ReasonNoActiveAssignment,
     ReasonRoleForbidsAction, ReasonPhaseForbidsAction, ReasonUnenforcedDeny, ReasonEvaluationFault,
     ReasonAttributionOnlySession]"

definition host_reads :: "LifecycleEventMapping \<Rightarrow> Outcome \<Rightarrow> DecisionKind option" where
  "host_reads m out =
     (case lm_surface m of
        SurfaceClaudeCommandJSON \<Rightarrow>
          (if out_Stdout out \<noteq> [] then None
           else if out_Exit out = ExitBlock then Some DecisionDeny
           else if out_Exit out = ExitContinue then Some DecisionProceed else None)
      | SurfaceCodexStrictCommandJSON \<Rightarrow>
          (if out_Exit out = ExitContinue \<and> out_Stdout out =
              (if lm_semantic m = SemanticObservation then codexObservationContinuation else codexProceedContinuation)
           then Some DecisionProceed else None)
      | HookSurface_value _ \<Rightarrow> None
      | _ \<Rightarrow>
          (if out_Exit out \<noteq> ExitContinue then None
           else if out_Stdout out = (if lm_semantic m = SemanticObservation then [] else canonicalProceedContinuation)
           then Some DecisionProceed
           else if list_ex (\<lambda>r. out_Stdout out = decision_json ''deny'' (DecisionReason_String r)) wire_reasons
           then Some DecisionDeny else None))"

text \<open>The encoder of a surface, as the dispatch rows of the handler select it.\<close>

definition encode_for :: "LifecycleEventMapping \<Rightarrow> HostResponse \<Rightarrow> native_error + Outcome" where
  "encode_for m r =
     (case lm_surface m of
        SurfaceClaudeCommandJSON \<Rightarrow> EncodeClaude m r
      | SurfaceCodexStrictCommandJSON \<Rightarrow> EncodeCodex m r
      | _ \<Rightarrow> EncodeOpenCode m r)"

abbreviation decided :: "Decision \<Rightarrow> HostResponse" where
  "decided d \<equiv> \<lparr>hr_decision = d, hr_fault = False, hr_constructed = True\<rparr>"

lemma nativeDecision_normalized:
  assumes "Mapping_IsValid m" "Decision_IsValid n" "normalized m n = n" "lm_surface m \<in> set ss"
  shows "nativeDecision m (decided n) ss = Ok (d_kind n)"
  using nativeDecision_decided [OF assms(1,2,4)] assms(3) by simp

lemma deny_json_not_proceed: "decision_json ''deny'' r \<noteq> canonicalProceedContinuation" "decision_json ''deny'' r \<noteq> []"
  by (simp_all add: decision_json_def json_member_def canonicalProceedContinuation_def dq_def)

text \<open>The exact outcome of a normalised decision, per row.\<close>

definition encoded :: "LifecycleEventMapping \<Rightarrow> Decision \<Rightarrow> Outcome option" where
  "encoded m n =
     (case lm_surface m of
        SurfaceClaudeCommandJSON \<Rightarrow>
          (if d_kind n = DecisionProceed then Some (ForDecision [] ExitContinue [])
           else if d_kind n = DecisionDeny \<and> BlocksByExitCode (lm_failure m)
           then Some (ForDecision [] ExitBlock (DecisionReason_Message (d_reason n))) else None)
      | SurfaceCodexStrictCommandJSON \<Rightarrow>
          (if d_kind n = DecisionProceed
           then Some (ForDecision (if lm_semantic m = SemanticObservation then codexObservationContinuation
                else codexProceedContinuation) ExitContinue []) else None)
      | HookSurface_value _ \<Rightarrow> None
      | _ \<Rightarrow>
          (if d_kind n = DecisionProceed
           then Some (ForDecision (if lm_semantic m = SemanticObservation then [] else canonicalProceedContinuation)
                ExitContinue [])
           else if d_kind n = DecisionDeny
           then Some (ForDecision (decision_json ''deny'' (DecisionReason_String (d_reason n))) ExitContinue [])
           else None))"

lemma encode_for_eq:
  assumes m: "Mapping_IsValid m" and d: "Decision_IsValid d" and n: "NormalizeDecision m d = Ok n"
    and r: "NewHostResponse n = Ok r"
  shows "(case encode_for m r of Ok out \<Rightarrow> encoded m n = Some out | Err _ \<Rightarrow> encoded m n = None)"
proof -
  have nn: "n = normalized m d" using n NormalizeDecision_eq [OF m d] by simp
  have v: "Decision_IsValid n" and i: "normalized m n = n"
    using nn normalized_valid [OF d] normalized_idem by simp_all
  have r: "r = decided n" using r by simp
  note nat = nativeDecision_normalized [OF m v i]
  have deny: "AllowsDeny (lm_response m)" "Evidence_IsPresent (lm_evidence m)" if "d_kind n = DecisionDeny"
  proof -
    show a: "AllowsDeny (lm_response m)" using i that by (auto simp: normalized_def split: if_splits)
    show "Evidence_IsPresent (lm_evidence m)" using Mapping_IsValid_AllowsDeny [OF m a] by simp
  qed
  have s: "HookSurface_IsValid (lm_surface m)" using Mapping_IsValid_enums [OF m] by simp
  have ocJ: "HostResponse_MarshalJSON (decided n) = Ok (decision_json ''deny'' (DecisionReason_String (d_reason n)))"
    if "d_kind n = DecisionDeny"
    using that v by (simp add: HostResponse_MarshalJSON_def)
  have oc: "EncodeOpenCode m (decided n) = (case d_kind n of
      DecisionProceed \<Rightarrow> Ok (ForDecision (if lm_semantic m = SemanticObservation then [] else canonicalProceedContinuation) ExitContinue [])
    | DecisionDeny \<Rightarrow> Ok (ForDecision (decision_json ''deny'' (DecisionReason_String (d_reason n))) ExitContinue [])
    | k \<Rightarrow> Err (unsupported m k))"
    if "lm_surface m \<in> set [SurfaceOpenCodeNamedOutput, SurfaceOpenCodeCatchAllSSE]"
    using nat [OF that] deny v ocJ by (cases "d_kind n") (simp_all add: EncodeOpenCode_def)
  show ?thesis
  proof (cases "lm_surface m")
    case SurfaceClaudeCommandJSON
    then show ?thesis using nat [of "[SurfaceClaudeCommandJSON]"] deny v
      by (cases "d_kind n") (auto simp: r encode_for_def EncodeClaude_def encoded_def)
  next
    case SurfaceCodexStrictCommandJSON
    then show ?thesis using nat [of "[SurfaceCodexStrictCommandJSON]"] v
      by (cases "d_kind n") (auto simp: r encode_for_def EncodeCodex_def encoded_def)
  next
    case SurfaceOpenCodeNamedOutput
    then show ?thesis using oc v
      by (cases "d_kind n") (auto simp: r encode_for_def encoded_def)
  next
    case SurfaceOpenCodeCatchAllSSE
    then show ?thesis using oc v
      by (cases "d_kind n") (auto simp: r encode_for_def encoded_def)
  next
    case (HookSurface_value x)
    then show ?thesis using s by simp
  qed
qed

lemma wire_reasons_iff: "r \<in> set wire_reasons \<longleftrightarrow> DecisionReason_IsValid r"
  by (cases r) (simp_all add: wire_reasons_def)

lemma Decision_reason_valid: "Decision_IsValid n \<Longrightarrow> DecisionReason_IsValid (d_reason n)"
  by (cases rule: Decision_IsValid_cases) auto

lemma NormalizeDecision_valid:
  assumes "Mapping_IsValid m" "Decision_IsValid d" "NormalizeDecision m d = Ok n"
  shows "Decision_IsValid n"
proof -
  have "n = normalized m d" using assms(3) NormalizeDecision_eq [OF assms(1,2)] by simp
  then show ?thesis using normalized_valid [OF assms(2), of m] by simp
qed

lemma encoded_reads:
  assumes "encoded m n = Some out" "Decision_IsValid n"
  shows "host_reads m out = Some (d_kind n)"
proof -
  have "list_ex (\<lambda>r. decision_json ''deny'' (DecisionReason_String (d_reason n)) = decision_json ''deny'' (DecisionReason_String r)) wire_reasons"
    unfolding list_ex_iff by (rule bexI [of _ "d_reason n"]) (simp_all add: wire_reasons_iff Decision_reason_valid [OF assms(2)])
  then have deny: "host_reads m out = Some DecisionDeny"
    if "lm_surface m \<in> {SurfaceOpenCodeNamedOutput, SurfaceOpenCodeCatchAllSSE}"
      "out = ForDecision (decision_json ''deny'' (DecisionReason_String (d_reason n))) ExitContinue []"
    using that deny_json_not_proceed by (auto simp: host_reads_def ForDecision_def)
  have proceed: "host_reads m out = Some DecisionProceed"
    if "lm_surface m \<in> {SurfaceOpenCodeNamedOutput, SurfaceOpenCodeCatchAllSSE}"
      "out = ForDecision (if lm_semantic m = SemanticObservation then [] else canonicalProceedContinuation) ExitContinue []"
    using that by (auto simp: host_reads_def ForDecision_def)
  show ?thesis
  proof (cases "lm_surface m \<in> {SurfaceOpenCodeNamedOutput, SurfaceOpenCodeCatchAllSSE}")
    case True
    then have "d_kind n = DecisionProceed \<and> out = ForDecision (if lm_semantic m = SemanticObservation then [] else canonicalProceedContinuation) ExitContinue []
        \<or> d_kind n = DecisionDeny \<and> out = ForDecision (decision_json ''deny'' (DecisionReason_String (d_reason n))) ExitContinue []"
      using assms(1) by (auto simp: encoded_def split: if_splits)
    then show ?thesis using deny [OF True] proceed [OF True] by metis
  next
    case False
    then show ?thesis using assms(1)
      by (cases "lm_surface m") (auto simp: encoded_def host_reads_def ForDecision_def split: if_splits)
  qed
qed

lemma host_told:
  assumes m: "Mapping_IsValid m" and d: "Decision_IsValid d" and n: "NormalizeDecision m d = Ok n"
    and r: "NewHostResponse n = Ok r" and out: "encode_for m r = Ok out"
  shows "host_reads m out = Some (d_kind n)"
  using encode_for_eq [OF m d n r] encoded_reads [OF _ NormalizeDecision_valid [OF m d n]] out by simp

text \<open>C12: The outcome the encoder produces for the persisted decision states exactly that decision on the wire
  of its row, and nothing else: Claude gets an empty standard output, exit status zero for a proceed
  and two for a denial, with the message of the recorded reason on standard error; Codex gets the
  continuation object of its kind of event; the reader of the OpenCode adapter gets the recorded
  decision with the recorded reason, and for an observation no decision.  The encoder refuses
  exactly a denial on a Claude row that does not block by exit code, a denial on Codex, and a
  request for a human.\<close>

theorem host_told_persisted_decision:
  assumes m: "Mapping_IsValid m" and d: "Decision_IsValid d" and n: "NormalizeDecision m d = Ok n"
    and r: "NewHostResponse n = Ok r" and J: "reads_flat_objects J"
  shows "(\<forall>out. encode_for m r = Ok out \<longrightarrow> host_reads m out = Some (d_kind n) \<and>
      (case lm_surface m of
         SurfaceClaudeCommandJSON \<Rightarrow> out_Stdout out = [] \<and>
           (if d_kind n = DecisionDeny
            then out_Exit out = ExitBlock \<and> out_Stderr out = StderrText (DecisionReason_Message (d_reason n))
            else out_Exit out = ExitContinue \<and> out_Stderr out = StderrText [])
       | SurfaceCodexStrictCommandJSON \<Rightarrow> out_Exit out = ExitContinue \<and> out_Stderr out = StderrText [] \<and>
           out_Stdout out = (if lm_semantic m = SemanticObservation then codexObservationContinuation else codexProceedContinuation)
       | _ \<Rightarrow> out_Exit out = ExitContinue \<and> out_Stderr out = StderrText [] \<and>
           parseResponse J (out_Stdout out) =
             Ok (if d_kind n = DecisionDeny then Some (RespondDeny (DecisionReason_String (d_reason n)))
                 else if lm_semantic m = SemanticObservation then None else Some RespondProceed)))
    \<and> (is_ok (encode_for m r) \<longleftrightarrow> d_kind n = DecisionProceed \<or> (d_kind n = DecisionDeny \<and>
         (lm_surface m \<in> {SurfaceOpenCodeNamedOutput, SurfaceOpenCodeCatchAllSSE}
          \<or> (lm_surface m = SurfaceClaudeCommandJSON \<and> BlocksByExitCode (lm_failure m)))))"
proof (intro conjI allI impI)
  note eq = encode_for_eq [OF m d n r]
  have v: "Decision_IsValid n" by (rule NormalizeDecision_valid [OF m d n])
  have s: "HookSurface_IsValid (lm_surface m)" using Mapping_IsValid_enums [OF m] by simp
  have empty: "parseResponse J [] = Ok None" by (simp add: parseResponse_def TrimSpace_def)
  have valid: "DecisionReason_IsValid (d_reason n)"
    by (rule Decision_reason_valid [OF v])
  show "host_reads m out = Some (d_kind n)" if "encode_for m r = Ok out" for out
    using host_told [OF m d n r that] .
  show "case lm_surface m of
         SurfaceClaudeCommandJSON \<Rightarrow> out_Stdout out = [] \<and>
           (if d_kind n = DecisionDeny
            then out_Exit out = ExitBlock \<and> out_Stderr out = StderrText (DecisionReason_Message (d_reason n))
            else out_Exit out = ExitContinue \<and> out_Stderr out = StderrText [])
       | SurfaceCodexStrictCommandJSON \<Rightarrow> out_Exit out = ExitContinue \<and> out_Stderr out = StderrText [] \<and>
           out_Stdout out = (if lm_semantic m = SemanticObservation then codexObservationContinuation else codexProceedContinuation)
       | _ \<Rightarrow> out_Exit out = ExitContinue \<and> out_Stderr out = StderrText [] \<and>
           parseResponse J (out_Stdout out) =
             Ok (if d_kind n = DecisionDeny then Some (RespondDeny (DecisionReason_String (d_reason n)))
                 else if lm_semantic m = SemanticObservation then None else Some RespondProceed)"
    if "encode_for m r = Ok out" for out
  proof -
    have "encoded m n = Some out" using eq that by simp
    then show ?thesis using parse_proceed [OF J] parse_deny [OF J valid] empty
      by (cases "lm_surface m") (auto simp: encoded_def ForDecision_def split: if_splits)
  qed
  have "is_ok (encode_for m r) \<longleftrightarrow> encoded m n \<noteq> None"
    using eq by (cases "encode_for m r") auto
  also have "\<dots> \<longleftrightarrow> d_kind n = DecisionProceed \<or> (d_kind n = DecisionDeny \<and>
         (lm_surface m \<in> {SurfaceOpenCodeNamedOutput, SurfaceOpenCodeCatchAllSSE}
          \<or> (lm_surface m = SurfaceClaudeCommandJSON \<and> BlocksByExitCode (lm_failure m))))"
    using s by (cases "lm_surface m") (auto simp: encoded_def)
  finally show "is_ok (encode_for m r) \<longleftrightarrow> d_kind n = DecisionProceed \<or> (d_kind n = DecisionDeny \<and>
         (lm_surface m \<in> {SurfaceOpenCodeNamedOutput, SurfaceOpenCodeCatchAllSSE}
          \<or> (lm_surface m = SurfaceClaudeCommandJSON \<and> BlocksByExitCode (lm_failure m))))" .
qed

text \<open>A reader of flat objects, and the two ends of the wire on an OpenCode gate.\<close>

definition flat_reader :: "string \<Rightarrow> json_value option" where
  "flat_reader s =
     (case Split dq s of
        [a, k, b, v, c] \<Rightarrow> if a = ''{'' \<and> b = '':'' \<and> c = ''}'' then Some (JsonObject [(k, JsonString v)]) else None
      | [a, k, b, v, c, l, e, w, f] \<Rightarrow>
          if a = ''{'' \<and> b = '':'' \<and> c = '','' \<and> e = '':'' \<and> f = ''}''
          then Some (JsonObject [(k, JsonString v), (l, JsonString w)]) else None
      | _ \<Rightarrow> None)"

definition sample_opencode_row :: LifecycleEventMapping where
  "sample_opencode_row = sample_row\<lparr>lm_surface := SurfaceOpenCodeNamedOutput, lm_mutation := MutationOutputObject,
     lm_order := OrderSequentialLoad, lm_reconciliation := ReconcileSequentialMutation,
     lm_failure := FailureThrowFailFast, lm_declaredFailure := FailureThrowFailFast\<rparr>"

lemma flat_reader_reads: "reads_flat_objects flat_reader"
proof -
  have quote: "dq \<notin> set s" if "unescaped s" for s
    using that by (auto simp: unescaped_def list_all_iff)
  have open_brace: "Split dq (CHR ''{'' # dq # s) = ''{'' # Split dq s"
    and colon: "Split dq (CHR '':'' # dq # s) = '':'' # Split dq s"
    and comma: "Split dq (CHR '','' # dq # s) = '','' # Split dq s" for s
    by (simp_all add: dq_def split: list.split)
  have close_brace: "Split dq ''}'' = [''}'']" by (simp add: dq_def)
  show ?thesis unfolding reads_flat_objects_def
    by (auto simp: flat_reader_def json_member_def open_brace colon comma close_brace quote Split_append simp del: Split.simps)
qed

lemma sample_opencode_row_valid: "Mapping_IsValid sample_opencode_row"
  by code_simp

theorem host_told_persisted_decision_witness:
  "(\<exists>out. encode_for sample_row (decided \<lparr>d_kind = DecisionDeny, d_reason = ReasonUnknownActor\<rparr>) = Ok out
     \<and> out_Exit out = ExitBlock \<and> out_Stdout out = []) \<and>
   (\<exists>out. encode_for sample_opencode_row (decided \<lparr>d_kind = DecisionDeny, d_reason = ReasonUnknownActor\<rparr>) = Ok out
     \<and> parseResponse flat_reader (out_Stdout out) = Ok (Some (RespondDeny ''unknown-actor'')))"
proof -
  let ?d = "\<lparr>d_kind = DecisionDeny, d_reason = ReasonUnknownActor\<rparr>"
  have v: "Decision_IsValid ?d" by (simp add: Decision_IsValid_def)
  have r: "NewHostResponse ?d = Ok (decided ?d)" using v by simp
  have "NormalizeDecision sample_row ?d = Ok ?d" "NormalizeDecision sample_opencode_row ?d = Ok ?d"
    using NormalizeDecision_eq [OF sample_row_valid v] NormalizeDecision_eq [OF sample_opencode_row_valid v]
    by (simp_all add: normalized_def sample_opencode_row_def sample_row_def AllowsDeny_def)
  note told = host_told_persisted_decision [OF sample_row_valid v this(1) r flat_reader_reads]
    host_told_persisted_decision [OF sample_opencode_row_valid v this(2) r flat_reader_reads]
  have "is_ok (encode_for sample_row (decided ?d))" "is_ok (encode_for sample_opencode_row (decided ?d))"
    using told by (simp_all add: sample_row_def sample_opencode_row_def BlocksByExitCode_def)
  then obtain out out' where o: "encode_for sample_row (decided ?d) = Ok out"
    "encode_for sample_opencode_row (decided ?d) = Ok out'"
    by (cases "encode_for sample_row (decided ?d)"; cases "encode_for sample_opencode_row (decided ?d)") auto
  have "lm_surface sample_row = SurfaceClaudeCommandJSON" "lm_surface sample_opencode_row = SurfaceOpenCodeNamedOutput"
    by (simp_all add: sample_row_def sample_opencode_row_def)
  then show ?thesis using told o by simp
qed

section \<open>Faults fail open\<close>

text \<open>C34: A fault whose inputs are usable always has an outcome: it refuses the action exactly when
  the operator asked to fail closed and the row both blocks by exit code and cites evidence, with
  nothing on standard output; otherwise the host continues on the bytes of its continuation.  The
  diagnostic names the exit that was taken, claims a refusal exactly when there is one, and never
  claims a record the stage does not have.\<close>

theorem fault_outcome:
  "case ForFault f of (out, ok) \<Rightarrow>
     (ok \<longleftrightarrow> UnusableInputs f = []) \<and> (\<not> ok \<longrightarrow> out = zero_outcome)
     \<and> (ok \<longrightarrow>
         (out_Exit out = ExitBlock \<longleftrightarrow> ft_Policy f = FaultFailClosed \<and> BlocksByExitCode (ft_Mode f)
            \<and> Evidence_IsPresent (ft_Evidence f))
       \<and> (out_Exit out = ExitBlock \<longrightarrow> out_Stdout out = [])
       \<and> (out_Exit out \<noteq> ExitBlock \<longrightarrow> out_Exit out = ExitContinue \<and> out_Stdout out = cont_bytes (ft_Continuation f))
       \<and> (\<exists>fd. out_Stderr out = StderrFault fd \<and> fd_exit fd = out_Exit out
            \<and> (fd_impact fd = HostRefuses \<longleftrightarrow> out_Exit out = ExitBlock)
            \<and> (fd_fix fd = UnsetFailClosed \<longleftrightarrow> out_Exit out = ExitBlock)
            \<and> (fd_fix fd = SetFailClosed \<longrightarrow> ft_Policy f = FaultFailOpen)
            \<and> (fd_impact fd \<in> {HostContinues DeliveryCommitted, HostContinuesNoOpenCodeChannel DeliveryCommitted,
                   HostContinuesSeeFaultRecord DeliveryCommitted} \<longrightarrow> ft_Stage f = FaultStageRecorded)
            \<and> (fd_impact fd \<in> {HostContinues NoOccurrenceRecorded, HostContinuesNoOpenCodeChannel NoOccurrenceRecorded,
                   HostContinuesSeeFaultRecord NoOccurrenceRecorded} \<longrightarrow> ft_Stage f = FaultStageNotRecorded)))"
proof (cases "UnusableInputs f = []")
  case False
  then show ?thesis by (simp add: ForFault_def)
next
  case True
  have p: "ft_Policy f = FaultFailOpen \<or> ft_Policy f = FaultFailClosed"
    and s: "ft_Stage f = FaultStageNotRecorded \<or> ft_Stage f = FaultStageRecordUnknown \<or> ft_Stage f = FaultStageRecorded"
    using True by (auto simp: UnusableInputs_def split: if_splits)
      (metis FaultPolicy_IsValid.elims(2), metis FaultStage_IsValid.elims(2))
  show ?thesis
  proof (cases "ft_Policy f = FaultFailClosed \<and> BlocksByExitCode (ft_Mode f) \<and> Evidence_IsPresent (ft_Evidence f)")
    case True
    then show ?thesis using \<open>UnusableInputs f = []\<close>
      by (simp add: ForFault_def faultDiagnostic_def)
  next
    case False
    then have o: "ForFault f = (\<lparr>out_Exit = ExitContinue, out_Stdout = cont_bytes (ft_Continuation f),
         out_Stderr = StderrFault (faultDiagnostic f ExitContinue)\<rparr>, True)"
      using True by (simp add: ForFault_def)
    show ?thesis unfolding o using s p False True
      by (auto simp: faultDiagnostic_def failClosedAdvice_def recordClause_def Let_def split: if_splits)
  qed
qed

definition sample_fault :: Fault where
  "sample_fault = \<lparr>ft_Mode = FailureExitTwoBlocks, ft_DeclaredMode = FailureExitTwoBlocks, ft_Undeclared = False,
     ft_Evidence = \<lparr>fe_Source = ''docs''\<rparr>, ft_Policy = FaultFailClosed, ft_Stage = FaultStageNotRecorded,
     ft_Continuation = EmptyContinuation, ft_Cause = Some ''store unavailable''\<rparr>"

theorem fault_outcome_witness:
  "\<exists>out. ForFault sample_fault = (out, True) \<and> out_Exit out = ExitBlock \<and> out_Stdout out = []"
proof -
  obtain out ok where o: "ForFault sample_fault = (out, ok)" by (cases "ForFault sample_fault")
  have "UnusableInputs sample_fault = []" "BlocksByExitCode (ft_Mode sample_fault)"
    "Evidence_IsPresent (ft_Evidence sample_fault)" "ft_Policy sample_fault = FaultFailClosed"
    by code_simp+
  then show ?thesis using fault_outcome [of sample_fault] o by auto
qed

text \<open>The host a hook surface belongs to.\<close>

definition surface_harness :: "HookSurface \<Rightarrow> Harness" where
  "surface_harness s = (case s of SurfaceClaudeCommandJSON \<Rightarrow> HarnessClaudeCode
     | SurfaceCodexStrictCommandJSON \<Rightarrow> HarnessCodex | _ \<Rightarrow> HarnessOpenCode)"

text \<open>For every valid row, the bytes a fault emits to let its host continue are the bytes of an
  evaluated proceed on the same row: a host cannot tell failing open from a legal action by its
  standard output.\<close>

theorem fault_continuation_is_proceed:
  assumes m: "Mapping_IsValid m" and d: "Decision_IsValid d" and k: "d_kind d = DecisionProceed"
  shows "\<exists>c out. FaultContinuation (surface_harness (lm_surface m)) (lm_semantic m) = Ok c \<and> cont_set c
    \<and> encode_for m (decided d) = Ok out \<and> out_Exit out = ExitContinue \<and> out_Stdout out = cont_bytes c"
proof -
  have s: "HookSurface_IsValid (lm_surface m)" using Mapping_IsValid_enums [OF m] by simp
  have n: "nativeDecision m (decided d) ss = Ok DecisionProceed" if "lm_surface m \<in> set ss" for ss
    using nativeDecision_decided [OF m d that] k by (simp add: normalized_simps)
  note defs = FaultContinuation_def surface_harness_def encode_for_def EmptyContinuation_def ContinuationOf_def
    ForDecision_def HarnessClaudeCode_def HarnessCodex_def HarnessOpenCode_def
  show ?thesis
  proof (cases "lm_surface m")
    case SurfaceClaudeCommandJSON
    then show ?thesis using n [of "[SurfaceClaudeCommandJSON]"] by (simp add: defs EncodeClaude_def)
  next
    case SurfaceCodexStrictCommandJSON
    then show ?thesis using n [of "[SurfaceCodexStrictCommandJSON]"] by (simp add: defs EncodeCodex_def)
  next
    case SurfaceOpenCodeNamedOutput
    then show ?thesis using n [of "[SurfaceOpenCodeNamedOutput, SurfaceOpenCodeCatchAllSSE]"]
      by (simp add: defs EncodeOpenCode_def)
  next
    case SurfaceOpenCodeCatchAllSSE
    then show ?thesis using n [of "[SurfaceOpenCodeNamedOutput, SurfaceOpenCodeCatchAllSSE]"]
      by (simp add: defs EncodeOpenCode_def)
  next
    case (HookSurface_value x)
    then show ?thesis using s by simp
  qed
qed

theorem fault_continuation_is_proceed_witness:
  "\<exists>c out. FaultContinuation (surface_harness (lm_surface sample_row)) (lm_semantic sample_row) = Ok c \<and> cont_set c
    \<and> encode_for sample_row (decided \<lparr>d_kind = DecisionProceed, d_reason = ReasonLegal\<rparr>) = Ok out
    \<and> out_Exit out = ExitContinue \<and> out_Stdout out = cont_bytes c"
  by (rule fault_continuation_is_proceed [OF sample_row_valid]) (simp_all add: Decision_IsValid_def)

end
