(* ===== verification/GatePolicy.thy ===== *)
theory GatePolicy
  imports GateAuthority HostExit
begin

text \<open>
  The gate policy (\<^verbatim>\<open>internal/lifecycle/gatepolicy/gatepolicy.go\<close>): the ordered rules that answer
  proceed or deny from the session claim and the episodes its actor holds, and that refuse to answer
  when the facts do not support an evaluation.  The lemmas give the closed form of the evaluation
  loop and show that the order of the episodes never matters; with the pinned profiles of
  \<^verbatim>\<open>LifecycleProfiles\<close> and the classes of \<^verbatim>\<open>GateAuthority\<close> they show which denials a host can be told.
\<close>

section \<open>Inputs and results\<close>

record Input =
  in_Event :: ContractEventKind
  in_Action :: ActionClass
  in_Semantic :: EventSemantic
  in_StopLoop :: StopLoopPolicy
  in_Capability :: ResponseCapability
  in_Claim :: SessionClaim
  in_Authority :: ActorAuthority

datatype RefusalKind = RefusalUnset | RefusalPhaseUnknown | RefusalPolicyUnlisted | RefusalKind_value nat

fun RefusalKind_IsValid :: "RefusalKind \<Rightarrow> bool" where
  "RefusalKind_IsValid RefusalPhaseUnknown = True"
| "RefusalKind_IsValid RefusalPolicyUnlisted = True"
| "RefusalKind_IsValid _ = False"

text \<open>A refusal is its kind, a result a decision and a refusal of which at most one is valid.\<close>

datatype policy_error =
    UnknownRefusalKind RefusalKind
  | InvalidSemantic EventSemantic
  | InvalidStopLoop StopLoopPolicy
  | InvalidCapability ResponseCapability
  | PolicyDecisionError decision_error

definition NewRefusal :: "RefusalKind \<Rightarrow> policy_error + RefusalKind" where
  "NewRefusal kind = (if \<not> RefusalKind_IsValid kind then Err (UnknownRefusalKind kind) else Ok kind)"

record Result =
  res_decision :: Decision
  res_refusal :: RefusalKind

definition zero_result :: Result where
  "zero_result = \<lparr>res_decision = zero_decision, res_refusal = RefusalUnset\<rparr>"

definition Decided :: "Decision \<Rightarrow> Result" where
  "Decided d = (if \<not> Decision_IsValid d then zero_result else \<lparr>res_decision = d, res_refusal = RefusalUnset\<rparr>)"

definition Refused :: "RefusalKind \<Rightarrow> Result" where
  "Refused r = (if \<not> RefusalKind_IsValid r then zero_result else \<lparr>res_decision = zero_decision, res_refusal = r\<rparr>)"

definition Result_Decision :: "Result \<Rightarrow> Decision option" where
  "Result_Decision r =
     (if \<not> Decision_IsValid (res_decision r) \<or> RefusalKind_IsValid (res_refusal r) then None else Some (res_decision r))"

definition Result_Refusal :: "Result \<Rightarrow> RefusalKind option" where
  "Result_Refusal r =
     (if \<not> RefusalKind_IsValid (res_refusal r) \<or> Decision_IsValid (res_decision r) then None else Some (res_refusal r))"

section \<open>The ordered rules\<close>

definition policy_decision :: "DecisionKind \<Rightarrow> DecisionReason \<Rightarrow> policy_error + Result" where
  "policy_decision kind reason =
     (case NewDecision kind reason of Err e \<Rightarrow> Err (PolicyDecisionError e) | Ok d \<Rightarrow> Ok (Decided d))"

definition policy_refusal :: "RefusalKind \<Rightarrow> policy_error + Result" where
  "policy_refusal kind = result_bind (NewRefusal kind) (\<lambda>r. Ok (Refused r))"

definition denied :: "ResponseCapability \<Rightarrow> DecisionReason \<Rightarrow> policy_error + Result" where
  "denied capability reason =
     (if capability = CapabilityNone then policy_decision DecisionProceed ReasonUnenforcedDeny
      else policy_decision DecisionDeny reason)"

text \<open>The loop over the episodes: \<^verbatim>\<open>None\<close> when a cell is unlisted, otherwise whether some role allows the
  action and whether some episode allows it by role and phase.\<close>

fun episode_loop :: "ActionClass \<Rightarrow> bool \<Rightarrow> bool \<Rightarrow> Episode list \<Rightarrow> (bool \<times> bool) option" where
  "episode_loop action roleAllowed bothAllowed [] = Some (roleAllowed, bothAllowed)"
| "episode_loop action roleAllowed bothAllowed (ep # eps) =
     (let role = RoleVerdict (ep_Role ep) action; phase = PhaseVerdict (ep_Phase ep) action in
      if role = VerdictRefuse \<or> phase = VerdictRefuse then None
      else if role = VerdictAllow
      then episode_loop action True (bothAllowed \<or> phase = VerdictAllow) eps
      else episode_loop action roleAllowed bothAllowed eps)"

definition Decide :: "Input \<Rightarrow> policy_error + Result" where
  "Decide i =
     (if \<not> EventSemantic_IsValid (in_Semantic i) then Err (InvalidSemantic (in_Semantic i))
      else if \<not> StopLoopPolicy_IsValid (in_StopLoop i) then Err (InvalidStopLoop (in_StopLoop i))
      else if \<not> ResponseCapability_IsValid (in_Capability i) then Err (InvalidCapability (in_Capability i))
      else if in_Semantic i = SemanticObservation then policy_decision DecisionProceed ReasonLegal
      else if in_StopLoop i = StopLoopConsultWhenInactive then policy_decision DecisionProceed ReasonStopLoopGuard
      else if \<not> cl_Bound (in_Claim i) then policy_decision DecisionProceed ReasonUnboundSession
      else if cl_AttributionOnly (in_Claim i) then policy_decision DecisionProceed ReasonAttributionOnlySession
      else if \<not> cl_Known (in_Claim i) then denied (in_Capability i) ReasonUnknownActor
      else if au_Episodes (in_Authority i) = [] then denied (in_Capability i) ReasonNoActiveAssignment
      else if list_ex (\<lambda>ep. ep_Phase ep = TaskPhaseUnset) (au_Episodes (in_Authority i))
      then policy_refusal RefusalPhaseUnknown
      else case episode_loop (in_Action i) False False (au_Episodes (in_Authority i)) of
          None \<Rightarrow> policy_refusal RefusalPolicyUnlisted
        | Some (roleAllowed, bothAllowed) \<Rightarrow>
            if bothAllowed then policy_decision DecisionProceed ReasonLegal
            else if roleAllowed then denied (in_Capability i) ReasonPhaseForbidsAction
            else denied (in_Capability i) ReasonRoleForbidsAction)"

section \<open>The evaluation in closed form\<close>

definition unlisted :: "ActionClass \<Rightarrow> Episode \<Rightarrow> bool" where
  "unlisted a ep \<longleftrightarrow> RoleVerdict (ep_Role ep) a = VerdictRefuse \<or> PhaseVerdict (ep_Phase ep) a = VerdictRefuse"

definition permits :: "ActionClass \<Rightarrow> Episode \<Rightarrow> bool" where
  "permits a ep \<longleftrightarrow> RoleVerdict (ep_Role ep) a = VerdictAllow \<and> PhaseVerdict (ep_Phase ep) a = VerdictAllow"

lemma episode_loop_eq:
  "episode_loop a r b eps =
     (if \<exists>ep\<in>set eps. unlisted a ep then None
      else Some (r \<or> (\<exists>ep\<in>set eps. RoleVerdict (ep_Role ep) a = VerdictAllow), b \<or> (\<exists>ep\<in>set eps. permits a ep)))"
  by (induction eps arbitrary: r b) (auto simp: Let_def unlisted_def permits_def)

lemma policy_decision_Ok:
  "Decision_IsValid \<lparr>d_kind = k, d_reason = r\<rparr>
    \<Longrightarrow> policy_decision k r = Ok \<lparr>res_decision = \<lparr>d_kind = k, d_reason = r\<rparr>, res_refusal = RefusalUnset\<rparr>"
  by (simp add: policy_decision_def NewDecision_def Decided_def Let_def)

lemma policy_refusal_Ok:
  "RefusalKind_IsValid k \<Longrightarrow> policy_refusal k = Ok \<lparr>res_decision = zero_decision, res_refusal = k\<rparr>"
  by (simp add: policy_refusal_def NewRefusal_def Refused_def)

text \<open>The reason of a denial, absent where the rules let the action through or cannot evaluate it.\<close>

definition denial_reason :: "Input \<Rightarrow> DecisionReason option" where
  "denial_reason i =
     (if in_Semantic i = SemanticObservation \<or> in_StopLoop i = StopLoopConsultWhenInactive
         \<or> \<not> cl_Bound (in_Claim i) \<or> cl_AttributionOnly (in_Claim i) then None
      else if \<not> cl_Known (in_Claim i) then Some ReasonUnknownActor
      else let eps = set (au_Episodes (in_Authority i)) in
        if eps = {} then Some ReasonNoActiveAssignment
        else if (\<exists>ep\<in>eps. unlisted (in_Action i) ep \<or> permits (in_Action i) ep) then None
        else if (\<exists>ep\<in>eps. RoleVerdict (ep_Role ep) (in_Action i) = VerdictAllow) then Some ReasonPhaseForbidsAction
        else Some ReasonRoleForbidsAction)"

text \<open>The policy is consulted when the host asks, outside the stop loop, for a session bound to a
  known actor that holds an assignment.\<close>

definition consults_assignments :: "Input \<Rightarrow> bool" where
  "consults_assignments i \<longleftrightarrow> in_Semantic i \<noteq> SemanticObservation \<and> in_StopLoop i \<noteq> StopLoopConsultWhenInactive
     \<and> cl_Bound (in_Claim i) \<and> \<not> cl_AttributionOnly (in_Claim i) \<and> cl_Known (in_Claim i)
     \<and> au_Episodes (in_Authority i) \<noteq> []"

definition proceed_reason :: "Input \<Rightarrow> DecisionReason" where
  "proceed_reason i =
     (if in_Semantic i = SemanticObservation then ReasonLegal
      else if in_StopLoop i = StopLoopConsultWhenInactive then ReasonStopLoopGuard
      else if \<not> cl_Bound (in_Claim i) then ReasonUnboundSession
      else if cl_AttributionOnly (in_Claim i) then ReasonAttributionOnlySession
      else ReasonLegal)"

definition decided_result :: "Decision \<Rightarrow> Result" where
  "decided_result d = \<lparr>res_decision = d, res_refusal = RefusalUnset\<rparr>"

definition refused_result :: "RefusalKind \<Rightarrow> Result" where
  "refused_result k = \<lparr>res_decision = zero_decision, res_refusal = k\<rparr>"

definition valid_vocabulary :: "Input \<Rightarrow> bool" where
  "valid_vocabulary i \<longleftrightarrow> EventSemantic_IsValid (in_Semantic i) \<and> StopLoopPolicy_IsValid (in_StopLoop i)
     \<and> ResponseCapability_IsValid (in_Capability i)"

lemma unset_phase_unlisted: "ep_Phase ep = TaskPhaseUnset \<Longrightarrow> unlisted a ep"
  by (simp add: unlisted_def PhaseVerdict_eq)

lemma policy_decision_valid [simp]:
  "r \<in> {ReasonLegal, ReasonUnboundSession, ReasonStopLoopGuard, ReasonUnenforcedDeny, ReasonAttributionOnlySession}
    \<Longrightarrow> policy_decision DecisionProceed r = Ok (decided_result \<lparr>d_kind = DecisionProceed, d_reason = r\<rparr>)"
  "r \<in> {ReasonUnknownActor, ReasonNoActiveAssignment, ReasonRoleForbidsAction, ReasonPhaseForbidsAction}
    \<Longrightarrow> policy_decision DecisionDeny r = Ok (decided_result \<lparr>d_kind = DecisionDeny, d_reason = r\<rparr>)"
  unfolding decided_result_def by (rule policy_decision_Ok; auto simp: Decision_IsValid_def)+

lemma policy_refusal_valid [simp]:
  "policy_refusal RefusalPhaseUnknown = Ok (refused_result RefusalPhaseUnknown)"
  "policy_refusal RefusalPolicyUnlisted = Ok (refused_result RefusalPolicyUnlisted)"
  by (simp_all add: policy_refusal_Ok refused_result_def)

definition denied_decision :: "ResponseCapability \<Rightarrow> DecisionReason \<Rightarrow> Decision" where
  "denied_decision cap r =
     (if cap = CapabilityNone then \<lparr>d_kind = DecisionProceed, d_reason = ReasonUnenforcedDeny\<rparr>
      else \<lparr>d_kind = DecisionDeny, d_reason = r\<rparr>)"

lemma denied_eq [simp]:
  "r \<in> {ReasonUnknownActor, ReasonNoActiveAssignment, ReasonRoleForbidsAction, ReasonPhaseForbidsAction}
    \<Longrightarrow> denied cap r = Ok (decided_result (denied_decision cap r))"
  by (simp add: denied_def denied_decision_def)

text \<open>The whole evaluation in one equation over the set of episodes.\<close>

definition policy_spec :: "Input \<Rightarrow> Result" where
  "policy_spec i =
     (let eps = set (au_Episodes (in_Authority i)) in
      if consults_assignments i \<and> (\<exists>ep\<in>eps. ep_Phase ep = TaskPhaseUnset) then refused_result RefusalPhaseUnknown
      else if consults_assignments i \<and> (\<exists>ep\<in>eps. unlisted (in_Action i) ep) then refused_result RefusalPolicyUnlisted
      else case denial_reason i of
          Some r \<Rightarrow> decided_result (denied_decision (in_Capability i) r)
        | None \<Rightarrow> decided_result \<lparr>d_kind = DecisionProceed, d_reason = proceed_reason i\<rparr>)"

lemma Decide_spec:
  assumes "valid_vocabulary i"
  shows "Decide i = Ok (policy_spec i)"
proof (cases "consults_assignments i")
  case False
  then show ?thesis using assms
    by (auto simp: Decide_def policy_spec_def consults_assignments_def valid_vocabulary_def denial_reason_def
        proceed_reason_def Let_def)
next
  case True
  have d: "Decide i = (if list_ex (\<lambda>ep. ep_Phase ep = TaskPhaseUnset) (au_Episodes (in_Authority i))
      then policy_refusal RefusalPhaseUnknown
      else case episode_loop (in_Action i) False False (au_Episodes (in_Authority i)) of
          None \<Rightarrow> policy_refusal RefusalPolicyUnlisted
        | Some (roleAllowed, bothAllowed) \<Rightarrow>
            if bothAllowed then policy_decision DecisionProceed ReasonLegal
            else if roleAllowed then denied (in_Capability i) ReasonPhaseForbidsAction
            else denied (in_Capability i) ReasonRoleForbidsAction)"
    using True assms by (simp add: Decide_def consults_assignments_def valid_vocabulary_def)
  have r: "denial_reason i = (let eps = set (au_Episodes (in_Authority i)) in
        if (\<exists>ep\<in>eps. unlisted (in_Action i) ep \<or> permits (in_Action i) ep) then None
        else if (\<exists>ep\<in>eps. RoleVerdict (ep_Role ep) (in_Action i) = VerdictAllow) then Some ReasonPhaseForbidsAction
        else Some ReasonRoleForbidsAction)"
    "proceed_reason i = ReasonLegal"
    using True by (simp_all add: denial_reason_def proceed_reason_def consults_assignments_def Let_def)
  show ?thesis unfolding d policy_spec_def r episode_loop_eq
    using True by (auto simp: list_ex_iff Let_def)
qed

text \<open>The verdict of the gate does not depend on the order in which the episodes of an actor are
  listed, nor on an episode being listed twice.\<close>

theorem decide_order_independent:
  assumes "set eps = set eps'"
  shows "Decide (i\<lparr>in_Authority := \<lparr>au_Actor = a, au_Episodes = eps\<rparr>\<rparr>)
    = Decide (i\<lparr>in_Authority := \<lparr>au_Actor = a, au_Episodes = eps'\<rparr>\<rparr>)"
proof -
  have "eps = [] \<longleftrightarrow> eps' = []" using assms by (metis set_empty)
  moreover have "list_ex P eps = list_ex P eps'" for P using assms by (simp add: list_ex_iff)
  moreover have "episode_loop c r b eps = episode_loop c r b eps'" for c r b
    using assms by (simp add: episode_loop_eq)
  ultimately show ?thesis by (simp add: Decide_def cong: if_cong split: option.split)
qed

lemma decide_answers:
  assumes "valid_vocabulary i"
  shows "\<exists>r. Decide i = Ok r
    \<and> (Result_Refusal r \<noteq> None \<longleftrightarrow> Result_Decision r = None)
    \<and> (Result_Refusal r \<noteq> None \<longleftrightarrow> consults_assignments i
         \<and> (\<exists>ep\<in>set (au_Episodes (in_Authority i)). unlisted (in_Action i) ep))
    \<and> (\<forall>d. Result_Decision r = Some d \<longrightarrow> Decision_IsValid d \<and> d_kind d \<in> {DecisionProceed, DecisionDeny}
         \<and> (d_kind d = DecisionDeny \<longleftrightarrow> in_Capability i \<noteq> CapabilityNone \<and> denial_reason i = Some (d_reason d))
         \<and> (d_reason d = ReasonUnenforcedDeny \<longleftrightarrow> in_Capability i = CapabilityNone \<and> denial_reason i \<noteq> None))"
proof -
  have pr: "proceed_reason i \<in> {ReasonLegal, ReasonUnboundSession, ReasonStopLoopGuard, ReasonAttributionOnlySession}"
    by (auto simp: proceed_reason_def)
  have dr: "r \<in> {ReasonUnknownActor, ReasonNoActiveAssignment, ReasonRoleForbidsAction, ReasonPhaseForbidsAction}"
    if "denial_reason i = Some r" for r
    using that by (auto simp: denial_reason_def Let_def split: if_splits)
  have z: "\<not> Decision_IsValid zero_decision" by (simp add: Decision_IsValid_def zero_decision_def)
  have vp: "Decision_IsValid \<lparr>d_kind = DecisionProceed, d_reason = proceed_reason i\<rparr>"
    using pr by (auto simp: Decision_IsValid_def)
  have vd: "Decision_IsValid (denied_decision c r)" if "denial_reason i = Some r" for c r
    using dr [OF that] by (auto simp: denied_decision_def Decision_IsValid_def)
  show ?thesis
  proof (cases "consults_assignments i \<and> (\<exists>ep\<in>set (au_Episodes (in_Authority i)). unlisted (in_Action i) ep)")
    case True
    then have "policy_spec i \<in> {refused_result RefusalPhaseUnknown, refused_result RefusalPolicyUnlisted}"
      by (auto simp: policy_spec_def Let_def)
    then show ?thesis using True Decide_spec [OF assms] z
      by (auto simp: Result_Refusal_def Result_Decision_def refused_result_def)
  next
    case False
    then have s: "policy_spec i = (case denial_reason i of
          Some r \<Rightarrow> decided_result (denied_decision (in_Capability i) r)
        | None \<Rightarrow> decided_result \<lparr>d_kind = DecisionProceed, d_reason = proceed_reason i\<rparr>)"
      using unset_phase_unlisted by (auto simp: policy_spec_def Let_def)
    show ?thesis
    proof (cases "denial_reason i")
      case None
      then show ?thesis using False Decide_spec [OF assms] s vp pr
        by (auto simp: Result_Refusal_def Result_Decision_def decided_result_def)
    next
      case (Some r)
      then show ?thesis using False Decide_spec [OF assms] s vd [OF Some] dr [OF Some]
        by (auto simp: Result_Refusal_def Result_Decision_def decided_result_def denied_decision_def)
    qed
  qed
qed

text \<open>C14: With valid runtime facts the gate always answers, with exactly one of a decision and a refusal.
  It refuses to evaluate exactly when an episode it must consult has no phase or no table cell; it denies
  exactly for the reason the rules give, and only where the row has an enforcement channel; a denial
  without a channel becomes a proceed that says so; and it never asks for a human.\<close>

theorem decide_verdicts:
  assumes "valid_vocabulary i"
  shows "\<exists>r. Decide i = Ok r
    \<and> (Result_Refusal r \<noteq> None \<longleftrightarrow> Result_Decision r = None)
    \<and> (Result_Refusal r \<noteq> None \<longleftrightarrow> consults_assignments i
         \<and> (\<exists>ep\<in>set (au_Episodes (in_Authority i)). unlisted (in_Action i) ep))
    \<and> (\<forall>d. Result_Decision r = Some d \<longrightarrow> Decision_IsValid d \<and> d_kind d \<in> {DecisionProceed, DecisionDeny}
         \<and> (d_kind d = DecisionDeny \<longleftrightarrow> in_Capability i \<noteq> CapabilityNone \<and> denial_reason i = Some (d_reason d))
         \<and> (d_reason d = ReasonUnenforcedDeny \<longleftrightarrow> in_Capability i = CapabilityNone \<and> denial_reason i \<noteq> None))"
  by (rule decide_answers [OF assms])

text \<open>An input for a bound reviewer whose one task is under review.\<close>

definition sample_input :: "Episode list \<Rightarrow> Input" where
  "sample_input eps =
     \<lparr>in_Event = EventPreToolUse, in_Action = ActionWorktree, in_Semantic = SemanticGateConsultation,
      in_StopLoop = StopLoopNotApplicable, in_Capability = CapabilityDeny,
      in_Claim = \<lparr>cl_Bound = True, cl_Actor = ''a'', cl_Session = ''s'', cl_Known = True, cl_AttributionOnly = False\<rparr>,
      in_Authority = \<lparr>au_Actor = ''a'', au_Episodes = eps\<rparr>\<rparr>"

definition sample_episode :: "AssignmentRole \<Rightarrow> Episode" where
  "sample_episode r = \<lparr>ep_Assignment = ''x'', ep_Task = ''t'', ep_Role = r, ep_Phase = TaskPhaseReview\<rparr>"

theorem decide_order_independent_witness:
  "Decide ((sample_input [])\<lparr>in_Authority := \<lparr>au_Actor = ''a'',
       au_Episodes = [sample_episode RoleAxisReviewer, sample_episode RoleOwnerResponsibility]\<rparr>\<rparr>)
   = Decide ((sample_input [])\<lparr>in_Authority := \<lparr>au_Actor = ''a'',
       au_Episodes = [sample_episode RoleOwnerResponsibility, sample_episode RoleAxisReviewer]\<rparr>\<rparr>)"
  by (rule decide_order_independent) auto

theorem decide_verdicts_witness:
  "\<exists>r d. Decide (sample_input [sample_episode RoleAxisReviewer]) = Ok r \<and> Result_Decision r = Some d
     \<and> d_kind d = DecisionDeny \<and> d_reason d = ReasonRoleForbidsAction"
proof -
  let ?i = "sample_input [sample_episode RoleAxisReviewer]"
  have v: "valid_vocabulary ?i" by code_simp
  have n: "denial_reason ?i = Some ReasonRoleForbidsAction" by code_simp
  have u: "\<not> unlisted ActionWorktree (sample_episode RoleAxisReviewer)" by code_simp
  obtain r where r: "Decide ?i = Ok r" "Result_Refusal r = None"
    "\<forall>d. Result_Decision r = Some d \<longrightarrow>
       (d_kind d = DecisionDeny \<longleftrightarrow> in_Capability ?i \<noteq> CapabilityNone \<and> denial_reason ?i = Some (d_reason d))
       \<and> (d_reason d = ReasonUnenforcedDeny \<longleftrightarrow> in_Capability ?i = CapabilityNone \<and> denial_reason ?i \<noteq> None)"
    "Result_Decision r \<noteq> None"
    using decide_verdicts [OF v] u by (auto simp: sample_input_def)
  have "Decide ?i = Ok (decided_result \<lparr>d_kind = DecisionDeny, d_reason = ReasonRoleForbidsAction\<rparr>)"
    by code_simp
  then show ?thesis using r by (auto simp: Result_Decision_def decided_result_def split: if_splits)
qed

section \<open>Which denials reach a host\<close>

text \<open>The rows of the pinned profiles of a harness.\<close>

definition contract_rows :: "'e LifecycleContract option \<Rightarrow> LifecycleEventMapping list" where
  "contract_rows c = (case c of None \<Rightarrow> [] | Some k \<Rightarrow> map snd (lc_mappings k))"

definition pinned_rows :: "Harness \<Rightarrow> LifecycleEventMapping list" where
  "pinned_rows h =
     (if h = HarnessClaudeCode then contract_rows ClaudeCode2_1_261Lifecycle
      else if h = HarnessCodex then contract_rows Codex0_153_0Lifecycle
      else if h = HarnessOpenCode then contract_rows OpenCode1_18_29Lifecycle @ contract_rows OpenCode2_0_20Lifecycle
      else [])"

text \<open>The rows of a table that can tell the host of a refusal and are not answered by the stop-loop guard.\<close>

definition enforceable :: "LifecycleEventMapping list \<Rightarrow> string list" where
  "enforceable rows = map lm_nativeName
     (filter (\<lambda>m. AllowsDeny (lm_response m) \<and> lm_stopLoop m \<noteq> StopLoopConsultWhenInactive) rows)"

lemma contract_rows_owned:
  assumes "p = Some (the p)" "map snd (lc_mappings (the p)) = owned_rows mappings"
  shows "contract_rows p = owned_rows mappings"
  by (subst assms(1)) (simp add: contract_rows_def assms(2))

lemmas contract_row_tables =
  contract_rows_owned [OF profiles_defined(1) profile_row_tables(1)]
  contract_rows_owned [OF profiles_defined(2) profile_row_tables(2)]
  contract_rows_owned [OF profiles_defined(3) profile_row_tables(3)]
  contract_rows_owned [OF profiles_defined(4) profile_row_tables(4)]

lemma enforceable_tables:
  "enforceable (owned_rows claudeLifecycleMappings) = [''UserPromptSubmit'', ''PreToolUse'', ''PreModelSwitch'']"
  "enforceable (owned_rows codexLifecycleMappings) = []"
  "enforceable (owned_rows openCodeLifecycleMappings) = []"
  "enforceable (owned_rows openCode2LifecycleMappings) = [''permission.evaluate'']"
  by code_simp+

lemma enforceable_append: "enforceable (xs @ ys) = enforceable xs @ enforceable ys"
  by (simp add: enforceable_def)

lemma pinned_enforceable:
  "set (enforceable (pinned_rows h)) \<subseteq>
     (if h = HarnessClaudeCode then {''UserPromptSubmit'', ''PreToolUse'', ''PreModelSwitch''}
      else if h = HarnessOpenCode then {''permission.evaluate''} else {})"
proof -
  have e: "enforceable [] = []" by (simp add: enforceable_def)
  show ?thesis using harnesses_distinct
    by (auto simp: pinned_rows_def contract_row_tables enforceable_tables enforceable_append e)
qed

lemma enforceable_classes:
  "ClassForEvent HarnessClaudeCode ''UserPromptSubmit'' = Some ActionPromptSubmit"
  "ClassForEvent HarnessClaudeCode ''PreToolUse'' = Some ActionToolUse"
  "ClassForEvent HarnessClaudeCode ''PreModelSwitch'' = Some ActionObservation"
  "ClassForEvent HarnessOpenCode ''permission.evaluate'' = Some ActionPermission"
  by code_simp+

lemma table_denial:
  assumes "denial_reason i = Some r" "r \<in> {ReasonRoleForbidsAction, ReasonPhaseForbidsAction}"
  shows "in_Action i \<in> {ActionWorktree, ActionSubagent, ActionConfigChange, ActionTaskLifecycle}"
    "in_StopLoop i \<noteq> StopLoopConsultWhenInactive"
proof -
  let ?eps = "set (au_Episodes (in_Authority i))" and ?a = "in_Action i"
  show "in_StopLoop i \<noteq> StopLoopConsultWhenInactive"
    using assms by (auto simp: denial_reason_def split: if_splits)
  have ne: "au_Episodes (in_Authority i) \<noteq> []" and all: "\<forall>ep\<in>?eps. \<not> unlisted ?a ep \<and> \<not> permits ?a ep"
    using assms by (auto simp: denial_reason_def Let_def split: if_splits)
  obtain ep where ep: "ep \<in> ?eps" "\<not> unlisted ?a ep" "\<not> permits ?a ep"
    using list.set_sel(1) [OF ne] all by blast
  have "RoleVerdict (ep_Role ep) ?a = VerdictDeny \<or> PhaseVerdict (ep_Phase ep) ?a = VerdictDeny"
    using ep(2,3) by (auto simp: unlisted_def permits_def RoleVerdict_eq PhaseVerdict_eq split: if_splits)
  then show "?a \<in> {ActionWorktree, ActionSubagent, ActionConfigChange, ActionTaskLifecycle}"
    unfolding role_denied_iff phase_denied_iff by blast
qed

text \<open>C19: With the pinned profiles and the shipped event classes, a denial a host can be told is always
  about who is asking: an unknown actor or an actor without an assignment.  No denial of the role or
  phase table is ever enforced; each becomes a proceed recorded as an unenforced denial.\<close>

theorem enforced_denials_are_about_identity:
  assumes row: "m \<in> set (pinned_rows h)" and cls: "ClassForEvent h (lm_nativeName m) = Some (in_Action i)"
    and facts: "in_StopLoop i = lm_stopLoop m" "in_Capability i = lm_response m" "valid_vocabulary i"
    and r: "Decide i = Ok r" "Result_Decision r = Some d" "denial_reason i = Some why"
  shows "(d_kind d = DecisionDeny \<longrightarrow> d_reason d = why \<and> why \<in> {ReasonUnknownActor, ReasonNoActiveAssignment})
    \<and> (why \<in> {ReasonRoleForbidsAction, ReasonPhaseForbidsAction} \<longrightarrow>
         d = \<lparr>d_kind = DecisionProceed, d_reason = ReasonUnenforcedDeny\<rparr>)"
proof -
  have d: "d = denied_decision (in_Capability i) why"
    using r Decide_spec [OF facts(3)]
    by (auto simp: policy_spec_def Let_def Result_Decision_def decided_result_def refused_result_def split: if_splits)
  have why: "why \<in> {ReasonUnknownActor, ReasonNoActiveAssignment, ReasonRoleForbidsAction, ReasonPhaseForbidsAction}"
    using r(3) by (auto simp: denial_reason_def Let_def split: if_splits)
  have "in_Capability i = CapabilityNone" if "why \<in> {ReasonRoleForbidsAction, ReasonPhaseForbidsAction}"
  proof (rule ccontr)
    assume "in_Capability i \<noteq> CapabilityNone"
    then have "AllowsDeny (lm_response m)"
      using facts(2,3) by (cases "lm_response m") (auto simp: valid_vocabulary_def AllowsDeny_def)
    then have n: "lm_nativeName m \<in> set (enforceable (pinned_rows h))"
      using row table_denial(2) [OF r(3) that] facts(1) by (auto simp: enforceable_def)
    then show False using subsetD [OF pinned_enforceable n] table_denial(1) [OF r(3) that] cls enforceable_classes
      by (auto split: if_splits)
  qed
  then show ?thesis using why d by (auto simp: denied_decision_def)
qed

lemma worktree_row:
  "map_option (\<lambda>m. (lm_stopLoop m, lm_response m))
     (find (\<lambda>m. lm_nativeName m = ''WorktreeCreate'') (owned_rows claudeLifecycleMappings))
   = Some (StopLoopNotApplicable, CapabilityNone)"
  by code_simp

theorem enforced_denials_are_about_identity_witness:
  "\<exists>m i r. m \<in> set (pinned_rows HarnessClaudeCode) \<and> lm_nativeName m = ''WorktreeCreate''
     \<and> in_Capability i = lm_response m \<and> denial_reason i = Some ReasonRoleForbidsAction \<and> Decide i = Ok r
     \<and> Result_Decision r = Some \<lparr>d_kind = DecisionProceed, d_reason = ReasonUnenforcedDeny\<rparr>"
proof -
  obtain m where f: "find (\<lambda>m. lm_nativeName m = ''WorktreeCreate'') (owned_rows claudeLifecycleMappings) = Some m"
    and p: "lm_stopLoop m = StopLoopNotApplicable" "lm_response m = CapabilityNone"
    using worktree_row by auto
  have m: "m \<in> set (owned_rows claudeLifecycleMappings)" "lm_nativeName m = ''WorktreeCreate''"
    "lm_stopLoop m = StopLoopNotApplicable" "lm_response m = CapabilityNone"
    using f p by (auto simp: find_Some_iff)
  have row: "m \<in> set (pinned_rows HarnessClaudeCode)"
    using m(1) by (simp add: pinned_rows_def contract_row_tables)
  let ?i = "(sample_input [sample_episode RoleAxisReviewer])\<lparr>in_Capability := CapabilityNone\<rparr>"
  have c: "ClassForEvent HarnessClaudeCode (lm_nativeName m) = Some (in_Action ?i)"
    unfolding m(2) by code_simp
  have v: "valid_vocabulary ?i" by code_simp
  have w: "denial_reason ?i = Some ReasonRoleForbidsAction" by code_simp
  have f: "in_StopLoop ?i = lm_stopLoop m" "in_Capability ?i = lm_response m"
    using m by (simp_all add: sample_input_def)
  have u: "\<not> unlisted ActionWorktree (sample_episode RoleAxisReviewer)" by code_simp
  obtain r d where r: "Decide ?i = Ok r" "Result_Decision r = Some d"
  proof -
    have "Decide ?i = Ok (decided_result \<lparr>d_kind = DecisionProceed, d_reason = ReasonUnenforcedDeny\<rparr>)" by code_simp
    then show thesis by (rule that) (simp add: Result_Decision_def decided_result_def Decision_IsValid_def)
  qed
  show ?thesis
    using enforced_denials_are_about_identity [OF row c f v r w] row m(2) f(2) w r by blast
qed

end
