(* ===== verification/GateReader.thy ===== *)
theory GateReader
  imports GatePolicy
begin

text \<open>
  The read side of the gate (\<^verbatim>\<open>internal/tasks/gate_reader.go\<close>) and the session claim it reads
  (\<^verbatim>\<open>internal/tasks/session_claim.go\<close>).  A snapshot answers who a session is claimed for and which
  episodes that actor owns; the two stores behind it, the actor parser of the library and the JSON
  decoders of the role records are arguments.  The claim table is a map, and the claim write is split
  at its store accesses, so that any number of hooks may interleave.  The lemmas show that a sealed
  snapshot answers about its own session and actor only, that its episodes always carry a valid
  role, and that the first claim of a session is the claim forever.
\<close>

section \<open>Session identity\<close>

record NativeBinding =
  nb_Kind :: NativeBindingKind
  nb_NativeName :: string
  nb_Value :: string

datatype session_error = TwoSessions

fun session_loop :: "string \<Rightarrow> NativeBinding list \<Rightarrow> session_error + string" where
  "session_loop session [] = Ok session"
| "session_loop session (b # bs) =
     (if nb_Kind b = BindingSession then
        (if session \<noteq> [] then Err TwoSessions else session_loop (nb_Value b) bs)
      else session_loop session bs)"

definition lifecycleSession :: "NativeBinding list \<Rightarrow> session_error + string" where
  "lifecycleSession bindings = session_loop [] bindings"

section \<open>What the stores answer\<close>

text \<open>What \<^verbatim>\<open>errors.As\<close> and \<^verbatim>\<open>errors.Is\<close> find in an error of the ownership read: the stage of a byte limit,
  an owner mismatch, the subtype sentinel and the stage of its typed carrier.\<close>

datatype ownership_stage = StageOwnedTasks | StageMaterials | StageEvidence

record ownership_error =
  oe_limit :: "ownership_stage option"
  oe_mismatch :: bool
  oe_subtype :: bool
  oe_subtypeStage :: "ownership_stage option"

record OwnedTaskRow =
  ot_AssignmentID :: string
  ot_TaskID :: string
  ot_Phase :: "8 word"
  ot_Predecessor :: "string option"
  ot_Materials :: "string list"
  ot_Evidence :: "(string \<times> string) list"
  ot_ProducingOperationID :: string

record Ownership =
  ow_Tasks :: "OwnedTaskRow list"
  ow_ActorKnown :: bool
  ow_Through :: nat

text \<open>The answers of the two stores and of the library: the claim row of a session, the parser of actor
  identifiers, the reserved generic actor, whether the journal offers the ownership query, and that
  query; the phases the store accepts.\<close>

record gate_store =
  gs_claim :: "Harness \<Rightarrow> string \<Rightarrow> unit + string option"
  gs_parseActor :: "string \<Rightarrow> string option"
  gs_defaultLLM :: string
  gs_ownershipAPI :: bool
  gs_ownership :: "string \<Rightarrow> ownership_error + Ownership"
  gs_phaseValid :: "8 word \<Rightarrow> bool"

text \<open>The decoders of the role records: the assignment and role token of a start record; whether a
  command record started a review, and the role token and members its binding declares.\<close>

record role_decoders =
  rd_start :: "string \<Rightarrow> (string \<times> string) option"
  rd_command :: "string \<Rightarrow> (bool \<times> (string \<times> (string \<times> string \<times> string) list) option) option"

definition assignmentCommandEvidenceKind :: string where
  "assignmentCommandEvidenceKind = ''pasture.assignment.command.v1''"

section \<open>Faults\<close>

datatype GateReadStage = GateReadStageClaim | GateReadStageOwnership

datatype role_fault =
    UnreadableMaterial
  | ManyMaterials nat
  | UnknownRoleToken string
  | CommandCount nat
  | UnreadableCommand
  | NotAReviewStart
  | UnreadableBinding
  | NotAMember

datatype gate_fault =
    GateReadError GateReadStage Harness string
  | GateReadIntegrityError "ownership_stage option"
  | GateClaimMalformedError Harness string
  | GateReaderCapabilityError
  | GateRoleSourceError string string role_fault
  | GateReaderScopeError
  | GateSnapshotClosedError

definition ownershipReadFault :: "ownership_error \<Rightarrow> Harness \<Rightarrow> string \<Rightarrow> gate_fault" where
  "ownershipReadFault e harness session =
     (case oe_limit e of
        Some stage \<Rightarrow> GateReadIntegrityError (Some stage)
      | None \<Rightarrow>
          if oe_mismatch e then GateReadIntegrityError (Some StageOwnedTasks)
          else if oe_subtype e then GateReadIntegrityError (oe_subtypeStage e)
          else GateReadError GateReadStageOwnership harness session)"

section \<open>The role of an owned episode\<close>

fun matched_starts :: "role_decoders \<Rightarrow> string \<Rightarrow> string list \<Rightarrow> role_fault + string list" where
  "matched_starts dec assignment [] = Ok []"
| "matched_starts dec assignment (m # ms) =
     (case rd_start dec m of
        None \<Rightarrow> Err UnreadableMaterial
      | Some (a, role) \<Rightarrow>
          result_bind (matched_starts dec assignment ms) (\<lambda>rest.
            Ok (if a = assignment then role # rest else rest)))"

definition legacyReviewRole :: "role_decoders \<Rightarrow> string \<Rightarrow> OwnedTaskRow \<Rightarrow> role_fault + AssignmentRole" where
  "legacyReviewRole dec actor row =
     (let commands = filter (\<lambda>(kind, _). kind = assignmentCommandEvidenceKind) (ot_Evidence row) in
      if length commands \<noteq> 1 then Err (CommandCount (length commands))
      else case rd_command dec (snd (hd commands)) of
          None \<Rightarrow> Err UnreadableCommand
        | Some (startsReview, binding) \<Rightarrow>
            if \<not> startsReview then Err NotAReviewStart
            else case binding of
                None \<Rightarrow> Err UnreadableBinding
              | Some (token, members) \<Rightarrow>
                  (case RoleFromToken token of
                     None \<Rightarrow> Err (UnknownRoleToken token)
                   | Some role \<Rightarrow>
                       if (ot_AssignmentID row, ot_TaskID row, actor) \<in> set members then Ok role
                       else Err NotAMember))"

definition ownedTaskRole :: "role_decoders \<Rightarrow> string \<Rightarrow> OwnedTaskRow \<Rightarrow> role_fault + AssignmentRole" where
  "ownedTaskRole dec actor row =
     result_bind (matched_starts dec (ot_AssignmentID row) (ot_Materials row)) (\<lambda>matched.
       case matched of
         [] \<Rightarrow> legacyReviewRole dec actor row
       | [token] \<Rightarrow> (case RoleFromToken token of None \<Rightarrow> Err (UnknownRoleToken token) | Some role \<Rightarrow> Ok role)
       | _ \<Rightarrow> Err (ManyMaterials (length matched)))"

definition ownedTaskEpisode :: "gate_store \<Rightarrow> role_decoders \<Rightarrow> string \<Rightarrow> OwnedTaskRow \<Rightarrow> gate_fault + Episode" where
  "ownedTaskEpisode st dec actor row =
     (let phase = (case PhaseFromProvenance (gs_phaseValid st) (ot_Phase row) of None \<Rightarrow> TaskPhaseUnset | Some p \<Rightarrow> p);
          episode = (\<lambda>role. \<lparr>ep_Assignment = ot_AssignmentID row, ep_Task = ot_TaskID row, ep_Role = role, ep_Phase = phase\<rparr>) in
      if ot_Predecessor row = None then
        (case ownedTaskRole dec actor row of
           Err f \<Rightarrow> Err (GateRoleSourceError (ot_TaskID row) (ot_AssignmentID row) f)
         | Ok role \<Rightarrow> Ok (episode role))
      else Ok (episode RoleOwnerResponsibility))"

fun episodes_loop :: "gate_store \<Rightarrow> role_decoders \<Rightarrow> string \<Rightarrow> OwnedTaskRow list \<Rightarrow> gate_fault + Episode list" where
  "episodes_loop st dec actor [] = Ok []"
| "episodes_loop st dec actor (row # rows) =
     result_bind (ownedTaskEpisode st dec actor row) (\<lambda>e.
       result_bind (episodes_loop st dec actor rows) (\<lambda>es. Ok (e # es)))"

section \<open>Snapshots\<close>

record gateSnapshotValue =
  sv_claim :: SessionClaim
  sv_authority :: ActorAuthority
  sv_through :: nat
  sv_harness :: Harness
  sv_session :: string
  sv_actor :: string
  sv_closed :: bool

definition no_authority :: ActorAuthority where
  "no_authority = \<lparr>au_Actor = [], au_Episodes = []\<rparr>"

definition sealUnbound :: "Harness \<Rightarrow> string \<Rightarrow> gateSnapshotValue" where
  "sealUnbound harness session =
     \<lparr>sv_claim = \<lparr>cl_Bound = False, cl_Actor = [], cl_Session = session, cl_Known = False, cl_AttributionOnly = False\<rparr>,
      sv_authority = no_authority, sv_through = 0, sv_harness = harness, sv_session = session, sv_actor = [],
      sv_closed = False\<rparr>"

definition Snapshot :: "gate_store \<Rightarrow> role_decoders \<Rightarrow> Harness \<Rightarrow> string \<Rightarrow> gate_fault + gateSnapshotValue" where
  "Snapshot st dec harness session =
     (if session = [] then Ok (sealUnbound harness session)
      else case gs_claim st harness session of
          Err _ \<Rightarrow> Err (GateReadError GateReadStageClaim harness session)
        | Ok None \<Rightarrow> Ok (sealUnbound harness session)
        | Ok (Some claimed) \<Rightarrow>
            (case gs_parseActor st claimed of
               None \<Rightarrow> Err (GateClaimMalformedError harness session)
             | Some actor \<Rightarrow>
                 if actor = gs_defaultLLM st then
                   Ok \<lparr>sv_claim = \<lparr>cl_Bound = True, cl_Actor = actor, cl_Session = session, cl_Known = True,
                         cl_AttributionOnly = True\<rparr>,
                       sv_authority = \<lparr>au_Actor = actor, au_Episodes = []\<rparr>, sv_through = 0, sv_harness = harness,
                       sv_session = session, sv_actor = actor, sv_closed = False\<rparr>
                 else if \<not> gs_ownershipAPI st then Err GateReaderCapabilityError
                 else case gs_ownership st actor of
                     Err e \<Rightarrow> Err (ownershipReadFault e harness session)
                   | Ok ownership \<Rightarrow>
                       result_bind (episodes_loop st dec actor (ow_Tasks ownership)) (\<lambda>episodes.
                         Ok \<lparr>sv_claim = \<lparr>cl_Bound = True, cl_Actor = actor, cl_Session = session,
                               cl_Known = ow_ActorKnown ownership, cl_AttributionOnly = False\<rparr>,
                             sv_authority = \<lparr>au_Actor = actor, au_Episodes = episodes\<rparr>,
                             sv_through = ow_Through ownership, sv_harness = harness, sv_session = session,
                             sv_actor = actor, sv_closed = False\<rparr>)))"

definition ResolveSession :: "gateSnapshotValue \<Rightarrow> Harness \<Rightarrow> string \<Rightarrow> gate_fault + SessionClaim" where
  "ResolveSession s harness session =
     (if sv_closed s then Err GateSnapshotClosedError
      else if harness \<noteq> sv_harness s \<or> session \<noteq> sv_session s then Err GateReaderScopeError
      else Ok (sv_claim s))"

definition Authority :: "gateSnapshotValue \<Rightarrow> string \<Rightarrow> gate_fault + ActorAuthority" where
  "Authority s actor =
     (if sv_closed s then Err GateSnapshotClosedError
      else if \<not> cl_Bound (sv_claim s) then Err GateReaderScopeError
      else if actor \<noteq> sv_actor s then Err GateReaderScopeError
      else Ok (sv_authority s))"

definition Snapshot_Close :: "gateSnapshotValue \<Rightarrow> gateSnapshotValue" where
  "Snapshot_Close s = s\<lparr>sv_closed := True\<rparr>"

section \<open>The session claim\<close>

datatype SessionClaimState = SessionClaimNotAttempted | SessionClaimWrote | SessionClaimAlreadyClaimed | SessionClaimLostRace

fun SessionClaimState_String :: "SessionClaimState \<Rightarrow> string" where
  "SessionClaimState_String SessionClaimWrote = ''wrote''"
| "SessionClaimState_String SessionClaimAlreadyClaimed = ''already_claimed''"
| "SessionClaimState_String SessionClaimLostRace = ''lost_race''"
| "SessionClaimState_String SessionClaimNotAttempted = ''not_attempted''"

record SessionClaimOutcome =
  so_State :: SessionClaimState
  so_StoredActor :: string

definition not_attempted :: SessionClaimOutcome where
  "not_attempted = \<lparr>so_State = SessionClaimNotAttempted, so_StoredActor = []\<rparr>"

definition Mismatch :: "SessionClaimOutcome \<Rightarrow> string \<Rightarrow> bool" where
  "Mismatch o1 attempted =
     (case so_State o1 of
        SessionClaimAlreadyClaimed \<Rightarrow> so_StoredActor o1 \<noteq> attempted
      | SessionClaimLostRace \<Rightarrow> so_StoredActor o1 \<noteq> attempted
      | _ \<Rightarrow> False)"

datatype claim_error = ClaimSession session_error | ClaimInvalid | ClaimRead | ClaimWrite

type_synonym claim_table = "Harness \<times> string \<Rightarrow> string option"

text \<open>The claim write up to its first store access: skipped, refused, or under way for a session.\<close>

definition claim_begin :: "NativeBinding list \<Rightarrow> string \<Rightarrow> claim_error + string option" where
  "claim_begin bindings claim =
     (if claim = [] then Ok None
      else case lifecycleSession bindings of
          Err e \<Rightarrow> Err (ClaimSession e)
        | Ok session \<Rightarrow>
            if TrimSpace session = [] then Ok None
            else if TrimSpace claim \<noteq> claim then Err ClaimInvalid
            else Ok (Some session))"

text \<open>The first read: a present row ends the attempt.\<close>

definition claim_read :: "claim_table \<Rightarrow> Harness \<times> string \<Rightarrow> SessionClaimOutcome option" where
  "claim_read t key = map_option (\<lambda>a. \<lparr>so_State = SessionClaimAlreadyClaimed, so_StoredActor = a\<rparr>) (t key)"

text \<open>The insert that does nothing on conflict: the table and the number of rows it changed.\<close>

definition claim_insert :: "claim_table \<Rightarrow> Harness \<times> string \<Rightarrow> string \<Rightarrow> claim_table \<times> nat" where
  "claim_insert t key claim = (if t key = None then (t(key \<mapsto> claim), 1) else (t, 0))"

text \<open>What follows the insert; the read-back of a winner may fail.\<close>

definition claim_settle :: "claim_table \<Rightarrow> Harness \<times> string \<Rightarrow> string \<Rightarrow> nat \<Rightarrow> bool \<Rightarrow> SessionClaimOutcome" where
  "claim_settle t key claim affected readable =
     (if affected = 0 then
        (case t key of
           Some winner \<Rightarrow> \<lparr>so_State = SessionClaimLostRace, so_StoredActor = (if readable then winner else [])\<rparr>
         | None \<Rightarrow> \<lparr>so_State = SessionClaimLostRace, so_StoredActor = []\<rparr>)
      else \<lparr>so_State = SessionClaimWrote, so_StoredActor = claim\<rparr>)"

text \<open>Hooks that claim, interleaved at their store accesses; a finished hook keeps its outcome.\<close>

datatype claimer =
    ClaimIdle
  | ClaimReading "Harness \<times> string" string
  | ClaimInserting "Harness \<times> string" string
  | ClaimSettling "Harness \<times> string" string nat
  | ClaimDone "Harness \<times> string" string SessionClaimOutcome
  | ClaimFailed

record claims =
  cm_table :: claim_table
  cm_hooks :: "nat \<Rightarrow> claimer"

inductive claim_step :: "claims \<Rightarrow> claims \<Rightarrow> bool" where
  begin_claim: "cm_hooks s i = ClaimIdle \<Longrightarrow> claim_begin bindings claim = Ok (Some session)
    \<Longrightarrow> claim_step s (s\<lparr>cm_hooks := (cm_hooks s)(i := ClaimReading (h, session) claim)\<rparr>)"
| read_present: "cm_hooks s i = ClaimReading key claim \<Longrightarrow> claim_read (cm_table s) key = Some o1
    \<Longrightarrow> claim_step s (s\<lparr>cm_hooks := (cm_hooks s)(i := ClaimDone key claim o1)\<rparr>)"
| read_absent: "cm_hooks s i = ClaimReading key claim \<Longrightarrow> claim_read (cm_table s) key = None
    \<Longrightarrow> claim_step s (s\<lparr>cm_hooks := (cm_hooks s)(i := ClaimInserting key claim)\<rparr>)"
| insert_row: "cm_hooks s i = ClaimInserting key claim \<Longrightarrow> claim_insert (cm_table s) key claim = (t, n)
    \<Longrightarrow> claim_step s (s\<lparr>cm_table := t, cm_hooks := (cm_hooks s)(i := ClaimSettling key claim n)\<rparr>)"
| settle_claim: "cm_hooks s i = ClaimSettling key claim n
    \<Longrightarrow> claim_step s (s\<lparr>cm_hooks := (cm_hooks s)(i := ClaimDone key claim (claim_settle (cm_table s) key claim n readable))\<rparr>)"
| store_fault: "cm_hooks s i \<in> {ClaimReading key claim, ClaimInserting key claim}
    \<Longrightarrow> claim_step s (s\<lparr>cm_hooks := (cm_hooks s)(i := ClaimFailed)\<rparr>)"

inductive_simps claim_step_iff: "claim_step s t"

section \<open>A snapshot answers for its own session\<close>

lemma matched_token_valid: "RoleFromToken token = Some r \<Longrightarrow> AssignmentRole_IsValid r \<and> AssignmentRole_String r = token"
  by (auto simp: RoleFromToken_def find_Some_iff valid_roles [symmetric])

lemma role_token_valid: "RoleFromToken token = Some r \<Longrightarrow> AssignmentRole_IsValid r"
  using matched_token_valid by blast

lemma legacy_role_valid: "legacyReviewRole dec a row = Ok r \<Longrightarrow> AssignmentRole_IsValid r"
  by (auto simp: legacyReviewRole_def Let_def split: if_splits option.splits) (erule role_token_valid)

lemma owned_role_valid:
  assumes "ownedTaskRole dec a row = Ok r"
  shows "AssignmentRole_IsValid r"
proof -
  obtain us where us: "matched_starts dec (ot_AssignmentID row) (ot_Materials row) = Ok us"
    using assms by (auto simp: ownedTaskRole_def)
  show ?thesis
  proof (cases us)
    case Nil
    then show ?thesis using assms us by (simp add: ownedTaskRole_def legacy_role_valid)
  next
    case (Cons u vs)
    then show ?thesis using assms us
      by (cases vs) (auto simp: ownedTaskRole_def split: option.splits intro: role_token_valid)
  qed
qed

lemma owned_episode:
  assumes "ownedTaskEpisode st dec a row = Ok e"
  shows "AssignmentRole_IsValid (ep_Role e)" "ep_Assignment e = ot_AssignmentID row" "ep_Task e = ot_TaskID row"
    "ep_Phase e = (case PhaseFromProvenance (gs_phaseValid st) (ot_Phase row) of None \<Rightarrow> TaskPhaseUnset | Some p \<Rightarrow> p)"
    "ot_Predecessor row \<noteq> None \<Longrightarrow> ep_Role e = RoleOwnerResponsibility"
  using assms by (auto simp: ownedTaskEpisode_def Let_def split: if_splits sum.splits dest: owned_role_valid)

lemma episodes_loop_Ok:
  assumes "episodes_loop st dec a rows = Ok es"
  shows "list_all2 (\<lambda>row e. ownedTaskEpisode st dec a row = Ok e) rows es"
  using assms by (induction rows arbitrary: es) auto

lemma episodes_valid_roles:
  assumes "episodes_loop st dec a rows = Ok es" "e \<in> set es"
  shows "AssignmentRole_IsValid (ep_Role e)"
proof -
  obtain i where "i < length es" "e = es ! i" using assms(2) by (auto simp: in_set_conv_nth)
  then show ?thesis using episodes_loop_Ok [OF assms(1)] owned_episode(1)
    by (auto simp: list_all2_conv_all_nth)
qed

lemma Snapshot_cases:
  assumes "Snapshot st dec h s = Ok v"
  obtains (unbound) "v = sealUnbound h s"
  | (generic) "cl_Bound (sv_claim v)" "cl_AttributionOnly (sv_claim v)" "cl_Actor (sv_claim v) = gs_defaultLLM st"
      "au_Episodes (sv_authority v) = []" "sv_actor v = cl_Actor (sv_claim v)" "au_Actor (sv_authority v) = sv_actor v"
      "sv_harness v = h" "sv_session v = s" "cl_Session (sv_claim v) = s" "\<not> sv_closed v"
  | (owner) ownership where "cl_Bound (sv_claim v)" "\<not> cl_AttributionOnly (sv_claim v)"
      "cl_Actor (sv_claim v) \<noteq> gs_defaultLLM st" "gs_ownership st (cl_Actor (sv_claim v)) = Ok ownership"
      "cl_Known (sv_claim v) = ow_ActorKnown ownership"
      "episodes_loop st dec (cl_Actor (sv_claim v)) (ow_Tasks ownership) = Ok (au_Episodes (sv_authority v))"
      "sv_actor v = cl_Actor (sv_claim v)" "au_Actor (sv_authority v) = sv_actor v"
      "sv_harness v = h" "sv_session v = s" "cl_Session (sv_claim v) = s" "\<not> sv_closed v"
  using assms
  by (auto simp: Snapshot_def split: if_splits sum.splits option.splits intro: that)

text \<open>A sealed gate snapshot answers for exactly the harness and session it was opened with and for
  exactly the actor that session is claimed for; every other question, and every question after it is
  closed, is refused.  The generic actor is only ever attributed and owns no episode, and every
  episode of an owner carries a valid role.\<close>

theorem snapshot_scope:
  assumes "Snapshot st dec h s = Ok v"
  shows "ResolveSession v h s = Ok (sv_claim v) \<and> cl_Session (sv_claim v) = s
    \<and> (\<forall>h' s'. (h', s') \<noteq> (h, s) \<longrightarrow> ResolveSession v h' s' = Err GateReaderScopeError)
    \<and> (cl_Bound (sv_claim v) \<longrightarrow> Authority v (cl_Actor (sv_claim v)) = Ok (sv_authority v)
         \<and> au_Actor (sv_authority v) = cl_Actor (sv_claim v))
    \<and> (\<forall>a. \<not> cl_Bound (sv_claim v) \<or> a \<noteq> cl_Actor (sv_claim v) \<longrightarrow> Authority v a = Err GateReaderScopeError)
    \<and> ResolveSession (Snapshot_Close v) h s = Err GateSnapshotClosedError
    \<and> (\<forall>a. Authority (Snapshot_Close v) a = Err GateSnapshotClosedError)
    \<and> (cl_Bound (sv_claim v) \<longrightarrow>
         (cl_AttributionOnly (sv_claim v) \<longleftrightarrow> cl_Actor (sv_claim v) = gs_defaultLLM st))
    \<and> (cl_AttributionOnly (sv_claim v) \<longrightarrow> au_Episodes (sv_authority v) = [])
    \<and> (\<forall>e\<in>set (au_Episodes (sv_authority v)). AssignmentRole_IsValid (ep_Role e))"
  using assms
proof (cases rule: Snapshot_cases)
  case unbound
  then show ?thesis
    by (auto simp: sealUnbound_def ResolveSession_def Authority_def Snapshot_Close_def no_authority_def)
next
  case generic
  then show ?thesis by (auto simp: ResolveSession_def Authority_def Snapshot_Close_def)
next
  case (owner ownership)
  then show ?thesis using episodes_valid_roles [OF owner(6)]
    by (auto simp: ResolveSession_def Authority_def Snapshot_Close_def)
qed

text \<open>A store with one claimed session whose actor owns one task.\<close>

definition sample_store :: gate_store where
  "sample_store =
     \<lparr>gs_claim = (\<lambda>h s. if s = ''s1'' then Ok (Some ''alice'') else Ok None), gs_parseActor = Some,
      gs_defaultLLM = ''generic'', gs_ownershipAPI = True,
      gs_ownership = (\<lambda>a. Ok \<lparr>ow_Tasks = [\<lparr>ot_AssignmentID = ''as'', ot_TaskID = ''t'', ot_Phase = 3, ot_Predecessor = None,
          ot_Materials = [''m''], ot_Evidence = [], ot_ProducingOperationID = ''op''\<rparr>], ow_ActorKnown = True, ow_Through = 9\<rparr>),
      gs_phaseValid = (\<lambda>p. p < 13)\<rparr>"

definition sample_decoders :: role_decoders where
  "sample_decoders = \<lparr>rd_start = (\<lambda>m. Some (''as'', ''axis-reviewer'')), rd_command = (\<lambda>_. None)\<rparr>"

definition sample_snapshot :: gateSnapshotValue where
  "sample_snapshot =
     \<lparr>sv_claim = \<lparr>cl_Bound = True, cl_Actor = ''alice'', cl_Session = ''s1'', cl_Known = True, cl_AttributionOnly = False\<rparr>,
      sv_authority = \<lparr>au_Actor = ''alice'', au_Episodes =
        [\<lparr>ep_Assignment = ''as'', ep_Task = ''t'', ep_Role = RoleAxisReviewer, ep_Phase = TaskPhaseReview\<rparr>]\<rparr>,
      sv_through = 9, sv_harness = HarnessCodex, sv_session = ''s1'', sv_actor = ''alice'', sv_closed = False\<rparr>"

lemma sample_snapshot_read: "Snapshot sample_store sample_decoders HarnessCodex ''s1'' = Ok sample_snapshot"
  by code_simp

theorem snapshot_scope_witness:
  "Snapshot sample_store sample_decoders HarnessCodex ''s1'' = Ok sample_snapshot
   \<and> ResolveSession sample_snapshot HarnessCodex ''s1'' = Ok (sv_claim sample_snapshot)
   \<and> Authority sample_snapshot ''mallory'' = Err GateReaderScopeError"
proof -
  note s = snapshot_scope [OF sample_snapshot_read]
  have "''mallory'' \<noteq> cl_Actor (sv_claim sample_snapshot)" by (simp add: sample_snapshot_def)
  then show ?thesis using s sample_snapshot_read by blast
qed

section \<open>Evaluation never meets an unlisted role\<close>

lemma phase_ordinal:
  assumes "store_valid p" "p < 13"
  shows "\<exists>q. PhaseFromProvenance store_valid p = Some q \<and> TaskPhase_IsValid q"
proof -
  have u: "unat p < 13" using assms(2) by (simp add: word_less_nat_alt)
  then have s: "unat (p + 1) = unat p + 1" by (simp add: unat_word_ariths)
  have l: "length TaskPhases = 13" by (simp add: TaskPhases_def)
  have "phase_of_ordinal (unat (p + 1)) \<in> set TaskPhases"
    using u s l by (auto simp: phase_of_ordinal_def)
  then show ?thesis using assms(1) by (simp add: PhaseFromProvenance_def Let_def valid_phases)
qed

text \<open>The store accepts, and returns, only the phases the gate knows.\<close>

definition known_phases :: "gate_store \<Rightarrow> bool" where
  "known_phases st \<longleftrightarrow> (\<forall>a ow row. gs_ownership st a = Ok ow \<longrightarrow> row \<in> set (ow_Tasks ow)
     \<longrightarrow> gs_phaseValid st (ot_Phase row) \<and> ot_Phase row < 13)"

lemma episode_row:
  assumes "episodes_loop st dec a rows = Ok es" "e \<in> set es"
  shows "\<exists>row\<in>set rows. ownedTaskEpisode st dec a row = Ok e"
proof -
  obtain i where i: "i < length es" "e = es ! i" using assms(2) by (auto simp: in_set_conv_nth)
  then have "i < length rows" "ownedTaskEpisode st dec a (rows ! i) = Ok e"
    using episodes_loop_Ok [OF assms(1)] by (auto simp: list_all2_conv_all_nth)
  then show ?thesis using nth_mem by blast
qed

lemma snapshot_phases:
  assumes "Snapshot st dec h s = Ok v" "e \<in> set (au_Episodes (sv_authority v))"
  shows "ep_Phase e = TaskPhaseUnset \<or> TaskPhase_IsValid (ep_Phase e)" "known_phases st \<Longrightarrow> TaskPhase_IsValid (ep_Phase e)"
proof -
  have "\<exists>ow. gs_ownership st (cl_Actor (sv_claim v)) = Ok ow
      \<and> episodes_loop st dec (cl_Actor (sv_claim v)) (ow_Tasks ow) = Ok (au_Episodes (sv_authority v))"
    using assms(1)
  proof (cases rule: Snapshot_cases)
    case unbound
    then show ?thesis using assms(2) by (simp add: sealUnbound_def no_authority_def)
  qed (use assms(2) in auto)
  then obtain ow where ow: "gs_ownership st (cl_Actor (sv_claim v)) = Ok ow"
    and l: "episodes_loop st dec (cl_Actor (sv_claim v)) (ow_Tasks ow) = Ok (au_Episodes (sv_authority v))" by blast
  obtain row where row: "row \<in> set (ow_Tasks ow)" "ownedTaskEpisode st dec (cl_Actor (sv_claim v)) row = Ok e"
    using episode_row [OF l assms(2)] by blast
  note p = owned_episode(4) [OF row(2)]
  show "ep_Phase e = TaskPhaseUnset \<or> TaskPhase_IsValid (ep_Phase e)"
    using p by (auto simp: PhaseFromProvenance_def Let_def split: option.splits if_splits)
  assume "known_phases st"
  then have "gs_phaseValid st (ot_Phase row)" "ot_Phase row < 13" using ow row(1) by (auto simp: known_phases_def)
  then show "TaskPhase_IsValid (ep_Phase e)" using p phase_ordinal by fastforce
qed

text \<open>For an action of a valid class the gate reads from a sealed snapshot, the policy never meets an
  unlisted cell: it refuses to evaluate only for a task phase the gate does not know, and with a store
  that accepts only the thirteen known phases it always decides.\<close>

theorem snapshot_evaluates:
  assumes snap: "Snapshot st dec h s = Ok v" and cls: "ActionClass_IsValid (in_Action i)"
    and facts: "in_Claim i = sv_claim v" "in_Authority i = sv_authority v" "valid_vocabulary i"
  shows "\<exists>r. Decide i = Ok r \<and> Result_Refusal r \<noteq> Some RefusalPolicyUnlisted
    \<and> (known_phases st \<longrightarrow> Result_Decision r \<noteq> None)"
proof -
  let ?eps = "set (au_Episodes (in_Authority i))"
  have unl: "unlisted (in_Action i) e \<longleftrightarrow> \<not> TaskPhase_IsValid (ep_Phase e)" if "e \<in> ?eps" for e
    using snapshot_scope [OF snap] that facts(2) cls by (simp add: unlisted_def RoleVerdict_eq PhaseVerdict_eq)
  note phase = snapshot_phases [OF snap, folded facts(2)]
  obtain r where r: "Decide i = Ok r" "Result_Refusal r \<noteq> None \<longleftrightarrow> Result_Decision r = None"
    "Result_Refusal r \<noteq> None \<longleftrightarrow> consults_assignments i \<and> (\<exists>ep\<in>?eps. unlisted (in_Action i) ep)"
    using decide_answers [OF facts(3)] by (elim exE conjE) (rule that)
  have "Result_Refusal r \<noteq> Some RefusalPolicyUnlisted"
  proof
    assume "Result_Refusal r = Some RefusalPolicyUnlisted"
    moreover have "r = policy_spec i" using r(1) Decide_spec [OF facts(3)] by simp
    ultimately have "\<not> (\<exists>ep\<in>?eps. ep_Phase ep = TaskPhaseUnset)" "\<exists>ep\<in>?eps. unlisted (in_Action i) ep"
      by (auto simp: policy_spec_def Result_Refusal_def refused_result_def decided_result_def Let_def
          split: if_splits option.splits)
    then show False using unl phase(1) by blast
  qed
  then show ?thesis using r unl phase(2) by blast
qed

theorem snapshot_evaluates_witness:
  "known_phases sample_store
   \<and> (\<exists>r. Decide ((sample_input (au_Episodes (sv_authority sample_snapshot)))\<lparr>in_Claim := sv_claim sample_snapshot,
            in_Authority := sv_authority sample_snapshot\<rparr>) = Ok r \<and> Result_Decision r \<noteq> None)"
proof -
  let ?i = "(sample_input (au_Episodes (sv_authority sample_snapshot)))\<lparr>in_Claim := sv_claim sample_snapshot,
      in_Authority := sv_authority sample_snapshot\<rparr>"
  have k: "known_phases sample_store" by (auto simp: known_phases_def sample_store_def)
  have c: "ActionClass_IsValid (in_Action ?i)" and v: "valid_vocabulary ?i"
    by (simp_all add: sample_input_def valid_vocabulary_def)
  show ?thesis
    using snapshot_evaluates [OF sample_snapshot_read c _ _ v] k by auto
qed

section \<open>The first claim wins\<close>

definition wrote :: "claims \<Rightarrow> nat \<Rightarrow> Harness \<times> string \<Rightarrow> bool" where
  "wrote s i key \<longleftrightarrow> (\<exists>claim. cm_hooks s i = ClaimSettling key claim 1
     \<or> (\<exists>o1. cm_hooks s i = ClaimDone key claim o1 \<and> so_State o1 = SessionClaimWrote))"

definition hook_ok :: "claim_table \<Rightarrow> claimer \<Rightarrow> bool" where
  "hook_ok t h = (case h of
       ClaimSettling key claim n \<Rightarrow> (n = 0 \<and> t key \<noteq> None) \<or> (n = 1 \<and> t key = Some claim)
     | ClaimDone key claim o1 \<Rightarrow> (\<exists>a. t key = Some a \<and>
         (case so_State o1 of
            SessionClaimNotAttempted \<Rightarrow> False
          | SessionClaimWrote \<Rightarrow> a = claim \<and> so_StoredActor o1 = claim
          | SessionClaimAlreadyClaimed \<Rightarrow> so_StoredActor o1 = a
          | SessionClaimLostRace \<Rightarrow> so_StoredActor o1 \<in> {a, []}))
     | _ \<Rightarrow> True)"

definition claims_inv :: "claims \<Rightarrow> bool" where
  "claims_inv s \<longleftrightarrow> (\<forall>i. hook_ok (cm_table s) (cm_hooks s i))
     \<and> (\<forall>i j key. wrote s i key \<longrightarrow> wrote s j key \<longrightarrow> i = j)"

lemma hook_ok_mono: "hook_ok t h \<Longrightarrow> t \<subseteq>\<^sub>m t' \<Longrightarrow> hook_ok t' h"
  by (auto simp: hook_ok_def map_le_def dom_def split: claimer.splits SessionClaimState.splits)

lemma claim_step_table: "claim_step s t \<Longrightarrow> cm_table s \<subseteq>\<^sub>m cm_table t"
  by (induction rule: claim_step.induct) (auto simp: claim_insert_def map_le_def split: if_splits)

lemma wrote_table: "hook_ok (cm_table s) (cm_hooks s i) \<Longrightarrow> wrote s i key \<Longrightarrow> cm_table s key \<noteq> None"
  by (auto simp: wrote_def hook_ok_def)

text \<open>One hook moves; the others keep their state and the table only grows.\<close>

lemma claims_inv_move:
  assumes "claims_inv s" "cm_table s \<subseteq>\<^sub>m t" "hook_ok t h"
    and new: "\<And>key. wrote \<lparr>cm_table = t, cm_hooks = (cm_hooks s)(i := h)\<rparr> i key \<Longrightarrow> wrote s i key \<or> cm_table s key = None"
  shows "claims_inv (s\<lparr>cm_table := t, cm_hooks := (cm_hooks s)(i := h)\<rparr>)"
proof -
  let ?s' = "s\<lparr>cm_table := t, cm_hooks := (cm_hooks s)(i := h)\<rparr>"
  have ok: "hook_ok (cm_table s) (cm_hooks s j)" for j using assms(1) by (simp add: claims_inv_def)
  have same: "wrote ?s' j key \<longleftrightarrow> wrote s j key" if "j \<noteq> i" for j key using that by (simp add: wrote_def)
  have mine: "wrote ?s' i key \<Longrightarrow> wrote s i key \<or> cm_table s key = None" for key
    using new [of key] by (simp add: wrote_def)
  have "j = k" if "wrote ?s' j key" "wrote ?s' k key" for j k key
  proof (cases "j = i \<or> k = i")
    case True
    have once: "wrote s a key \<Longrightarrow> wrote s b key \<Longrightarrow> a = b" for a b using assms(1) unfolding claims_inv_def by blast
    show ?thesis using True that same mine wrote_table [OF ok] once by metis
  next
    case False
    then show ?thesis using that same assms(1) unfolding claims_inv_def by blast
  qed
  moreover have "hook_ok t (((cm_hooks s)(i := h)) j)" for j
    using assms(3) hook_ok_mono [OF ok assms(2)] by simp
  ultimately show ?thesis unfolding claims_inv_def by simp
qed

lemma claim_step_inv: "claim_step s t \<Longrightarrow> claims_inv s \<Longrightarrow> claims_inv t"
proof (induction rule: claim_step.induct)
  case (begin_claim s i bindings claim session h)
  then show ?case using claims_inv_move [of s "cm_table s" "ClaimReading (h, session) claim" i]
    by (simp add: hook_ok_def wrote_def)
next
  case (read_present s i key claim o1)
  then show ?case using claims_inv_move [of s "cm_table s" "ClaimDone key claim o1" i]
    by (auto simp: hook_ok_def wrote_def claim_read_def)
next
  case (read_absent s i key claim)
  then show ?case using claims_inv_move [of s "cm_table s" "ClaimInserting key claim" i]
    by (simp add: hook_ok_def wrote_def)
next
  case (insert_row s i key claim t n)
  have "cm_table s \<subseteq>\<^sub>m t" "hook_ok t (ClaimSettling key claim n)" "n = 1 \<Longrightarrow> cm_table s key = None"
    using insert_row(2) by (auto simp: claim_insert_def map_le_def hook_ok_def split: if_splits)
  then show ?case using claims_inv_move [of s t "ClaimSettling key claim n" i] insert_row
    by (auto simp: wrote_def)
next
  case (settle_claim s i key claim n readable)
  have "hook_ok (cm_table s) (ClaimSettling key claim n)" using settle_claim by (metis claims_inv_def)
  then have "hook_ok (cm_table s) (ClaimDone key claim (claim_settle (cm_table s) key claim n readable))"
    by (auto simp: hook_ok_def claim_settle_def)
  moreover have "wrote s i k" if "k = key" "so_State (claim_settle (cm_table s) key claim n readable) = SessionClaimWrote" for k
    using that \<open>hook_ok (cm_table s) (ClaimSettling key claim n)\<close> settle_claim
    by (auto simp: wrote_def hook_ok_def claim_settle_def split: if_splits option.splits)
  ultimately show ?case
    using claims_inv_move [of s "cm_table s" "ClaimDone key claim (claim_settle (cm_table s) key claim n readable)" i] settle_claim
    by (auto simp: wrote_def)
next
  case (store_fault s i key claim)
  then show ?case using claims_inv_move [of s "cm_table s" ClaimFailed i] by (simp add: hook_ok_def wrote_def)
qed

lemma claims_reach:
  assumes "claim_step\<^sup>*\<^sup>* s t" "claims_inv s"
  shows "claims_inv t \<and> cm_table s \<subseteq>\<^sub>m cm_table t"
  using assms
  by (induction rule: rtranclp_induct) (auto intro: claim_step_inv map_le_trans dest: claim_step_table)

text \<open>C25: However hooks claiming sessions interleave, the first claim of a session stands forever, at most
  one hook reports that it wrote it, and every report names the actor the table holds: the writer its
  own, the others the holder, or nobody when the winner of a lost race could not be read back.\<close>

theorem first_claim_wins:
  assumes start: "\<forall>i. cm_hooks s i = ClaimIdle" and run: "claim_step\<^sup>*\<^sup>* s t"
  shows "(\<forall>key a. cm_table s key = Some a \<longrightarrow> cm_table t key = Some a)
    \<and> (\<forall>u key a. claim_step\<^sup>*\<^sup>* t u \<longrightarrow> cm_table t key = Some a \<longrightarrow> cm_table u key = Some a)
    \<and> (\<forall>i key claim o1. cm_hooks t i = ClaimDone key claim o1 \<longrightarrow>
         (\<exists>a. cm_table t key = Some a \<and> so_State o1 \<noteq> SessionClaimNotAttempted
            \<and> (so_State o1 = SessionClaimWrote \<longrightarrow> a = claim \<and> so_StoredActor o1 = claim \<and> \<not> Mismatch o1 claim
                 \<and> (\<forall>j. j \<noteq> i \<longrightarrow> \<not> wrote t j key))
            \<and> (so_State o1 \<noteq> SessionClaimLostRace \<longrightarrow> so_StoredActor o1 = a)
            \<and> so_StoredActor o1 \<in> {a, []}))"
proof (intro conjI allI impI)
  have i: "claims_inv s" using start by (simp add: claims_inv_def hook_ok_def wrote_def)
  note t = claims_reach [OF run i]
  show "cm_table t key = Some a" if "cm_table s key = Some a" for key a
    using t that by (metis map_le_def domI)
  show "cm_table u key = Some a" if "claim_step\<^sup>*\<^sup>* t u" "cm_table t key = Some a" for u key a
    using claims_reach [OF that(1)] t that(2) by (metis map_le_def domI)
  fix i key claim o1
  assume d: "cm_hooks t i = ClaimDone key claim o1"
  have ok: "hook_ok (cm_table t) (ClaimDone key claim o1)" using t d by (metis claims_inv_def)
  have once: "j = i" if "so_State o1 = SessionClaimWrote" "wrote t j key" for j
  proof -
    have "wrote t i key" using d that(1) by (auto simp: wrote_def)
    then show ?thesis using t that(2) unfolding claims_inv_def by blast
  qed
  show "\<exists>a. cm_table t key = Some a \<and> so_State o1 \<noteq> SessionClaimNotAttempted
            \<and> (so_State o1 = SessionClaimWrote \<longrightarrow> a = claim \<and> so_StoredActor o1 = claim \<and> \<not> Mismatch o1 claim
                 \<and> (\<forall>j. j \<noteq> i \<longrightarrow> \<not> wrote t j key))
            \<and> (so_State o1 \<noteq> SessionClaimLostRace \<longrightarrow> so_StoredActor o1 = a)
            \<and> so_StoredActor o1 \<in> {a, []}"
    using ok once by (cases "so_State o1") (auto simp: hook_ok_def Mismatch_def)
qed

text \<open>One hook claims a free session for \<^verbatim>\<open>alice\<close>.\<close>

definition free_claims :: "claimer \<Rightarrow> claim_table \<Rightarrow> claims" where
  "free_claims h t = \<lparr>cm_table = t, cm_hooks = (\<lambda>_. ClaimIdle)(0 := h)\<rparr>"

definition alice_done :: claims where
  "alice_done = free_claims (ClaimDone (HarnessCodex, ''s1'') ''alice'' \<lparr>so_State = SessionClaimWrote, so_StoredActor = ''alice''\<rparr>)
     [(HarnessCodex, ''s1'') \<mapsto> ''alice'']"

lemma alice_claims: "claim_step\<^sup>*\<^sup>* (free_claims ClaimIdle Map.empty) alice_done"
proof -
  let ?k = "(HarnessCodex, ''s1'')"
  let ?b = "[\<lparr>nb_Kind = BindingSession, nb_NativeName = ''session_id'', nb_Value = ''s1''\<rparr>]"
  have b: "claim_begin ?b ''alice'' = Ok (Some ''s1'')" by code_simp
  have 1: "claim_step (free_claims ClaimIdle Map.empty) (free_claims (ClaimReading ?k ''alice'') Map.empty)"
    using claim_step.begin_claim [OF _ b, of "free_claims ClaimIdle Map.empty" 0 HarnessCodex] by (simp add: free_claims_def)
  have 2: "claim_step (free_claims (ClaimReading ?k ''alice'') Map.empty) (free_claims (ClaimInserting ?k ''alice'') Map.empty)"
    using claim_step.read_absent [of "free_claims (ClaimReading ?k ''alice'') Map.empty" 0 ?k "''alice''"]
    by (simp add: free_claims_def claim_read_def)
  have 3: "claim_step (free_claims (ClaimInserting ?k ''alice'') Map.empty) (free_claims (ClaimSettling ?k ''alice'' 1) [?k \<mapsto> ''alice''])"
    using claim_step.insert_row [of "free_claims (ClaimInserting ?k ''alice'') Map.empty" 0 ?k "''alice''" "[?k \<mapsto> ''alice'']" 1]
    by (simp add: free_claims_def claim_insert_def)
  have 4: "claim_step (free_claims (ClaimSettling ?k ''alice'' 1) [?k \<mapsto> ''alice'']) alice_done"
    using claim_step.settle_claim [of "free_claims (ClaimSettling ?k ''alice'' 1) [?k \<mapsto> ''alice'']" 0 ?k "''alice''" 1 True]
    by (simp add: free_claims_def claim_settle_def alice_done_def)
  from 1 2 3 4 show ?thesis by (meson converse_rtranclp_into_rtranclp rtranclp.rtrancl_refl)
qed

theorem first_claim_wins_witness:
  "cm_hooks alice_done 0 = ClaimDone (HarnessCodex, ''s1'') ''alice'' \<lparr>so_State = SessionClaimWrote, so_StoredActor = ''alice''\<rparr>
   \<and> (\<exists>a. cm_table alice_done (HarnessCodex, ''s1'') = Some a \<and> a = ''alice'' \<and> \<not> wrote alice_done 1 (HarnessCodex, ''s1''))"
proof -
  have i: "\<forall>i. cm_hooks (free_claims ClaimIdle Map.empty) i = ClaimIdle" by (simp add: free_claims_def)
  have d: "cm_hooks alice_done 0 = ClaimDone (HarnessCodex, ''s1'') ''alice'' \<lparr>so_State = SessionClaimWrote, so_StoredActor = ''alice''\<rparr>"
    by (simp add: alice_done_def free_claims_def)
  note w = first_claim_wins [OF i alice_claims, THEN conjunct2, THEN conjunct2, rule_format, OF d]
  show ?thesis using w d by auto
qed

end
