(* ===== verification/Runes.thy ===== *)
theory Runes
  imports Prelude
begin

text \<open>
  The part of \<^verbatim>\<open>unicode/utf8\<close>, \<^verbatim>\<open>unicode\<close> and \<^verbatim>\<open>strings\<close> that validates text: a Go
  string is its bytes, decoded rune by rune.
\<close>

section \<open>Runes\<close>

text \<open>The runes of a byte sequence as \<^verbatim>\<open>range\<close> decodes it; an invalid byte is one \<open>None\<close>.\<close>

definition cont_byte :: "nat \<Rightarrow> bool" where
  "cont_byte b \<longleftrightarrow> 128 \<le> b \<and> b \<le> 191"

definition second_byte :: "nat \<Rightarrow> nat \<Rightarrow> bool" where
  "second_byte a b \<longleftrightarrow> (if a = 224 then 160 else if a = 240 then 144 else 128) \<le> b
     \<and> b \<le> (if a = 237 then 159 else if a = 244 then 143 else 191)"

definition rune_width :: "nat list \<Rightarrow> nat option" where
  "rune_width bs =
     (case bs of
        [] \<Rightarrow> None
      | a # r \<Rightarrow>
          if a < 128 then Some 1
          else if 194 \<le> a \<and> a \<le> 223 then
            (case r of b # _ \<Rightarrow> if cont_byte b then Some 2 else None | _ \<Rightarrow> None)
          else if 224 \<le> a \<and> a \<le> 239 then
            (case r of b # c # _ \<Rightarrow> if second_byte a b \<and> cont_byte c then Some 3 else None | _ \<Rightarrow> None)
          else if 240 \<le> a \<and> a \<le> 244 then
            (case r of b # c # d # _ \<Rightarrow> if second_byte a b \<and> cont_byte c \<and> cont_byte d then Some 4 else None | _ \<Rightarrow> None)
          else None)"

definition rune_value :: "nat list \<Rightarrow> nat" where
  "rune_value bs =
     (case bs of
        [a] \<Rightarrow> a
      | [a, b] \<Rightarrow> (a mod 32) * 64 + b mod 64
      | [a, b, c] \<Rightarrow> (a mod 16) * 4096 + (b mod 64) * 64 + c mod 64
      | [a, b, c, d] \<Rightarrow> (a mod 8) * 262144 + (b mod 64) * 4096 + (c mod 64) * 64 + d mod 64
      | _ \<Rightarrow> 0)"

fun runes :: "nat list \<Rightarrow> nat option list" where
  "runes [] = []"
| "runes (b # bs) =
     (case rune_width (b # bs) of
        None \<Rightarrow> None # runes bs
      | Some w \<Rightarrow> Some (rune_value (b # take (w - 1) bs)) # runes (drop (w - 1) bs))"

definition string_runes :: "string \<Rightarrow> nat option list" where
  "string_runes s = runes (map of_char s)"

definition ValidString :: "string \<Rightarrow> bool" where
  "ValidString s \<longleftrightarrow> list_all (\<lambda>r. r \<noteq> None) (string_runes s)"

definition IsControl :: "nat option \<Rightarrow> bool" where
  "IsControl r \<longleftrightarrow> (case r of None \<Rightarrow> False | Some n \<Rightarrow> n < 32 \<or> (127 \<le> n \<and> n < 160))"

definition IsSpace :: "nat option \<Rightarrow> bool" where
  "IsSpace r \<longleftrightarrow> (case r of None \<Rightarrow> False | Some n \<Rightarrow>
     (9 \<le> n \<and> n \<le> 13) \<or> n \<in> {32, 133, 160, 5760, 8232, 8233, 8239, 8287, 12288} \<or> (8192 \<le> n \<and> n \<le> 8202))"

text \<open>Whether \<^verbatim>\<open>strings.TrimSpace\<close> changes a value.\<close>

definition padded :: "string \<Rightarrow> bool" where
  "padded s \<longleftrightarrow> (let rs = string_runes s in rs \<noteq> [] \<and> (IsSpace (hd rs) \<or> IsSpace (last rs)))"

lemma runes_ascii: "list_all (\<lambda>b. b < 128) bs \<Longrightarrow> runes bs = map Some bs"
  by (induction bs) (simp_all add: rune_width_def rune_value_def)

end
