(* ===== verification/Waist.thy ===== *)
theory Waist
  imports GateReader Runes "HOL-Library.Multiset"
begin

text \<open>
  The frontends that bind a native event to its profile row and the verification of its correlation
  identities (\<^verbatim>\<open>internal/lifecycle/frontend\<close> with its host tables, \<^verbatim>\<open>internal/lifecycle/waist/event.go\<close>).  A
  Go string is its bytes; \<^verbatim>\<open>unicode/utf8\<close> is decoded rune by rune.  The lemmas characterise
  exactly the bindings that cross the waist, show that the verified event does not depend on the order of
  the bindings, and that the four host tables pair the registered events with the profile rows by name.
\<close>

section \<open>Identities\<close>

datatype waist_error =
    UnknownIdentityKind
  | PaddedFieldName string
  | EmptyValue string
  | NotUTF8 string
  | OverlongValue string
  | PaddedValue string
  | ControlCharacter string
  | EmptyRuntimeContract
  | EventNotDescribed
  | BindingNotConstructed
  | IdentityNotConstructed nat
  | UndeclaredCorrelation string
  | CorrelationKind string
  | RepeatedCorrelation string
  | MissingRequired string
  | UnsupportedUnresolved NativeIdentityKind
  | UndeclaredOrdinal ContractEventKind
  | NoPinnedMapping ContractEventKind
  | BindUndeclared nat string
  | BindRepeated nat string
  | BindKind nat string
  | BindValue nat string waist_error
  | ProfilePanic

definition identityValueMaxBytes :: nat where
  "identityValueMaxBytes = 512"

record waist_Identity =
  wi_kind :: NativeIdentityKind
  wi_nativeName :: string
  wi_value :: string
  wi_constructed :: bool

definition validateIdentityValue :: "string \<Rightarrow> string \<Rightarrow> waist_error + unit" where
  "validateIdentityValue nativeName value =
     (if value = [] then Err (EmptyValue nativeName)
      else if \<not> ValidString value then Err (NotUTF8 nativeName)
      else if length value > identityValueMaxBytes then Err (OverlongValue nativeName)
      else if padded value then Err (PaddedValue nativeName)
      else if list_ex IsControl (string_runes value) then Err (ControlCharacter nativeName)
      else Ok ())"

definition NewIdentity :: "NativeIdentityKind \<Rightarrow> string \<Rightarrow> string \<Rightarrow> waist_error + waist_Identity" where
  "NewIdentity kind nativeName value =
     (if \<not> NativeIdentityKind_IsValid kind then Err UnknownIdentityKind
      else if nativeName = [] \<or> TrimSpace nativeName \<noteq> nativeName then Err (PaddedFieldName nativeName)
      else result_bind (validateIdentityValue nativeName value) (\<lambda>_.
        Ok \<lparr>wi_kind = kind, wi_nativeName = nativeName, wi_value = value, wi_constructed = True\<rparr>))"

record SemanticIdentity =
  si_Kind :: NativeIdentityKind
  si_Value :: string

datatype UnresolvedReason = UnresolvedToolCall

record Semantics =
  se_semantic :: EventSemantic
  se_blocking :: BlockingMode
  se_identities :: "SemanticIdentity list"
  se_unresolved :: "UnresolvedReason list"

record Origin =
  og_contract :: string
  og_nativeName :: string

text \<open>An event binding built by the constructor, or the zero one.\<close>

record EventBinding =
  eb_contract :: string
  eb_mapping :: LifecycleEventMapping
  eb_nativeName :: string
  eb_constructed :: bool

record waist_Event =
  we_semantics :: Semantics
  we_origin :: Origin

section \<open>Verification\<close>

definition BindEvent :: "'e LifecycleContract \<Rightarrow> 'e \<Rightarrow> waist_error + EventBinding" where
  "BindEvent contract event =
     (if \<not> lc_constructed contract then Err EmptyRuntimeContract
      else case Contract_Mapping contract event of
          Err _ \<Rightarrow> Err EventNotDescribed
        | Ok mapping \<Rightarrow> Ok \<lparr>eb_contract = lc_id contract, eb_mapping = mapping,
                          eb_nativeName = lm_nativeName mapping, eb_constructed = True\<rparr>)"

fun unresolvedFacts :: "NativeIdentityKind list \<Rightarrow> waist_error + UnresolvedReason list" where
  "unresolvedFacts [] = Ok []"
| "unresolvedFacts (k # ks) =
     (if k = IdentityToolCall then result_bind (unresolvedFacts ks) (\<lambda>facts. Ok (UnresolvedToolCall # facts))
      else Err (UnsupportedUnresolved k))"

fun verify_loop :: "LifecycleEventMapping \<Rightarrow> nat \<Rightarrow> (NativeIdentityKind \<times> string) list \<Rightarrow> waist_Identity list
    \<Rightarrow> waist_error + SemanticIdentity list" where
  "verify_loop m index seen [] = Ok []"
| "verify_loop m index seen (i # is) =
     (if \<not> wi_constructed i then Err (IdentityNotConstructed index)
      else case validateIdentityValue (wi_nativeName i) (wi_value i) of
          Err e \<Rightarrow> Err e
        | Ok _ \<Rightarrow>
            (case DeclaredField m (wi_nativeName i) of
               None \<Rightarrow> Err (UndeclaredCorrelation (wi_nativeName i))
             | Some field \<Rightarrow>
                 if nif_kind field \<noteq> wi_kind i then Err (CorrelationKind (wi_nativeName i))
                 else if (wi_kind i, wi_nativeName i) \<in> set seen then Err (RepeatedCorrelation (wi_nativeName i))
                 else result_bind (verify_loop m (Suc index) ((wi_kind i, wi_nativeName i) # seen) is)
                   (\<lambda>semantic. Ok (\<lparr>si_Kind = wi_kind i, si_Value = wi_value i\<rparr> # semantic))))"

fun required_loop :: "string list \<Rightarrow> NativeIdentityField list \<Rightarrow> waist_error + unit" where
  "required_loop present [] = Ok ()"
| "required_loop present (f # fs) =
     (if \<not> nif_required f then required_loop present fs
      else if nif_nativeName f \<in> set present then required_loop present fs
      else Err (MissingRequired (nif_nativeName f)))"

fun identity_ordinal :: "NativeIdentityKind \<Rightarrow> nat" where
  "identity_ordinal IdentitySession = 1"
| "identity_ordinal IdentityTurn = 2"
| "identity_ordinal IdentityRequest = 3"
| "identity_ordinal IdentityToolCall = 4"
| "identity_ordinal IdentityAgent = 5"
| "identity_ordinal IdentityMessage = 6"
| "identity_ordinal (NativeIdentityKind_value n) = n"

definition cmp_Compare :: "nat \<Rightarrow> nat \<Rightarrow> int" where
  "cmp_Compare a b = (if a < b then -1 else if a > b then 1 else 0)"

definition compareSemanticIdentities :: "SemanticIdentity \<Rightarrow> SemanticIdentity \<Rightarrow> int" where
  "compareSemanticIdentities left right =
     (let order = cmp_Compare (identity_ordinal (si_Kind left)) (identity_ordinal (si_Kind right)) in
      if order \<noteq> 0 then order else strings_Compare (si_Value left) (si_Value right))"

text \<open>\<^verbatim>\<open>slices.SortFunc\<close>: a permutation ascending for the comparison.\<close>

fun insert_by :: "('a \<Rightarrow> 'a \<Rightarrow> int) \<Rightarrow> 'a \<Rightarrow> 'a list \<Rightarrow> 'a list" where
  "insert_by cmp x [] = [x]"
| "insert_by cmp x (y # ys) = (if cmp x y \<le> 0 then x # y # ys else y # insert_by cmp x ys)"

definition SortFunc :: "('a \<Rightarrow> 'a \<Rightarrow> int) \<Rightarrow> 'a list \<Rightarrow> 'a list" where
  "SortFunc cmp xs = foldr (insert_by cmp) xs []"

definition verifyIdentities :: "EventBinding \<Rightarrow> waist_Identity list \<Rightarrow> waist_error + SemanticIdentity list" where
  "verifyIdentities b supplied =
     result_bind (verify_loop (eb_mapping b) 0 [] supplied) (\<lambda>semantic.
       result_bind (required_loop (map wi_nativeName supplied) (lm_identities (eb_mapping b))) (\<lambda>_.
         Ok (SortFunc compareSemanticIdentities semantic)))"

definition NewEvent :: "EventBinding \<Rightarrow> waist_Identity list \<Rightarrow> waist_error + waist_Event" where
  "NewEvent b identities =
     (if \<not> eb_constructed b then Err BindingNotConstructed
      else result_bind (verifyIdentities b identities) (\<lambda>semanticIdentities.
        result_bind (unresolvedFacts (lm_unresolved (eb_mapping b))) (\<lambda>unresolved.
          Ok \<lparr>we_semantics = \<lparr>se_semantic = lm_semantic (eb_mapping b), se_blocking = lm_blocking (eb_mapping b),
                se_identities = semanticIdentities, se_unresolved = unresolved\<rparr>,
              we_origin = \<lparr>og_contract = eb_contract b, og_nativeName = eb_nativeName b\<rparr>\<rparr>)))"

section \<open>Frontends\<close>

record 'e Host =
  ho_Label :: string
  ho_Contract :: "'e LifecycleContract option"
  ho_Events :: "(ContractEventKind \<times> 'e) list"

fun binding_ordinal :: "NativeBindingKind \<Rightarrow> nat" where
  "binding_ordinal BindingSession = 1"
| "binding_ordinal BindingTurn = 2"
| "binding_ordinal BindingRequest = 3"
| "binding_ordinal BindingToolCall = 4"
| "binding_ordinal BindingAgent = 5"
| "binding_ordinal BindingMessage = 6"
| "binding_ordinal BindingTask = 7"
| "binding_ordinal BindingWorktree = 8"

fun bind_loop :: "LifecycleEventMapping \<Rightarrow> nat \<Rightarrow> string list \<Rightarrow> NativeBinding list \<Rightarrow> waist_error + waist_Identity list" where
  "bind_loop m index seenNames [] = Ok []"
| "bind_loop m index seenNames (b # bs) =
     (case DeclaredField m (nb_NativeName b) of
        None \<Rightarrow> Err (BindUndeclared index (nb_NativeName b))
      | Some field \<Rightarrow>
          if nb_NativeName b \<in> set seenNames then Err (BindRepeated index (nb_NativeName b))
          else if binding_ordinal (nb_Kind b) \<noteq> identity_ordinal (nif_kind field) then Err (BindKind index (nb_NativeName b))
          else case NewIdentity (nif_kind field) (nif_nativeName field) (nb_Value b) of
              Err e \<Rightarrow> Err (BindValue index (nb_NativeName b) e)
            | Ok identity \<Rightarrow>
                result_bind (bind_loop m (Suc index) (nb_NativeName b # seenNames) bs) (\<lambda>ids. Ok (identity # ids)))"

definition Bind :: "'e Host \<Rightarrow> ContractEventKind \<Rightarrow> NativeBinding list \<Rightarrow> waist_error + (EventBinding \<times> waist_Identity list)" where
  "Bind host modelKind bindings =
     (case map_of (ho_Events host) modelKind of
        None \<Rightarrow> Err (UndeclaredOrdinal modelKind)
      | Some runtimeKind \<Rightarrow>
          (case ho_Contract host of
             None \<Rightarrow> Err ProfilePanic
           | Some contract \<Rightarrow>
               (case Contract_Mapping contract runtimeKind of
                  Err _ \<Rightarrow> Err (NoPinnedMapping modelKind)
                | Ok mapping \<Rightarrow>
                    result_bind (BindEvent contract runtimeKind) (\<lambda>l1.
                      result_bind (bind_loop mapping 0 [] bindings) (\<lambda>identities. Ok (l1, identities))))))"

subsection \<open>The host tables\<close>

definition claudeEventMappings :: "(ContractEventKind \<times> ClaudeLifecycleEvent) list" where
  "claudeEventMappings =
    [(EventSessionStart, ClaudeEventSessionStart),
     (EventSetup, ClaudeEventSetup),
     (EventSessionEnd, ClaudeEventSessionEnd),
     (EventUserPromptSubmit, ClaudeEventUserPromptSubmit),
     (EventUserPromptExpansion, ClaudeEventUserPromptExpansion),
     (EventStop, ClaudeEventStop),
     (EventStopFailure, ClaudeEventStopFailure),
     (EventPreToolUse, ClaudeEventPreToolUse),
     (EventPermissionRequest, ClaudeEventPermissionRequest),
     (EventPermissionDenied, ClaudeEventPermissionDenied),
     (EventPostToolUse, ClaudeEventPostToolUse),
     (EventPostToolUseFailure, ClaudeEventPostToolUseFailure),
     (EventPostToolBatch, ClaudeEventPostToolBatch),
     (EventFileChanged, ClaudeEventFileChanged),
     (EventCwdChanged, ClaudeEventCwdChanged),
     (EventConfigChange, ClaudeEventConfigChange),
     (EventInstructionsLoaded, ClaudeEventInstructionsLoaded),
     (EventWorktreeCreate, ClaudeEventWorktreeCreate),
     (EventWorktreeRemove, ClaudeEventWorktreeRemove),
     (EventSubagentStart, ClaudeEventSubagentStart),
     (EventSubagentStop, ClaudeEventSubagentStop),
     (EventTeammateIdle, ClaudeEventTeammateIdle),
     (EventTaskCreated, ClaudeEventTaskCreated),
     (EventTaskCompleted, ClaudeEventTaskCompleted),
     (EventPreCompact, ClaudeEventPreCompact),
     (EventPostCompact, ClaudeEventPostCompact),
     (EventNotification, ClaudeEventNotification),
     (EventMessageDisplay, ClaudeEventMessageDisplay),
     (EventElicitation, ClaudeEventElicitation),
     (EventElicitationResult, ClaudeEventElicitationResult),
     (EventPreModelSwitch, ClaudeEventPreModelSwitch),
     (EventPostModelSwitch, ClaudeEventPostModelSwitch),
     (EventDirectoryAdded, ClaudeEventDirectoryAdded)]"

definition codexEventMappings :: "(ContractEventKind \<times> CodexLifecycleEvent) list" where
  "codexEventMappings =
    [(EventCodexSessionStart, CodexEventSessionStart),
     (EventCodexUserPromptSubmit, CodexEventUserPromptSubmit),
     (EventCodexPreToolUse, CodexEventPreToolUse),
     (EventCodexPermissionRequest, CodexEventPermissionRequest),
     (EventCodexPostToolUse, CodexEventPostToolUse),
     (EventCodexPreCompact, CodexEventPreCompact),
     (EventCodexPostCompact, CodexEventPostCompact),
     (EventCodexSubagentStart, CodexEventSubagentStart),
     (EventCodexSubagentStop, CodexEventSubagentStop),
     (EventCodexStop, CodexEventStop),
     (EventCodexSessionEnd, CodexEventSessionEnd),
     (EventCodexInterrupt, CodexEventInterrupt)]"

definition openCodeEventMappings :: "(ContractEventKind \<times> OpenCodeLifecycleEvent) list" where
  "openCodeEventMappings =
    [(EventOpenCodeCommandExecuted, OpenCodeEventCommandExecuted),
     (EventOpenCodeFileEdited, OpenCodeEventFileEdited),
     (EventOpenCodeFileWatcherUpdated, OpenCodeEventFileWatcherUpdated),
     (EventOpenCodeInstallationUpdated, OpenCodeEventInstallationUpdated),
     (EventOpenCodeInstallationUpdate_available, OpenCodeEventInstallationUpdateAvailable),
     (EventOpenCodeLspClientDiagnostics, OpenCodeEventLSPClientDiagnostics),
     (EventOpenCodeLspUpdated, OpenCodeEventLSPUpdated),
     (EventOpenCodeMessageUpdated, OpenCodeEventMessageUpdated),
     (EventOpenCodeMessageRemoved, OpenCodeEventMessageRemoved),
     (EventOpenCodeMessagePartUpdated, OpenCodeEventMessagePartUpdated),
     (EventOpenCodeMessagePartRemoved, OpenCodeEventMessagePartRemoved),
     (EventOpenCodePermissionUpdated, OpenCodeEventPermissionUpdated),
     (EventOpenCodePermissionReplied, OpenCodeEventPermissionReplied),
     (EventOpenCodeServerConnected, OpenCodeEventServerConnected),
     (EventOpenCodeServerInstanceDisposed, OpenCodeEventServerInstanceDisposed),
     (EventOpenCodeSessionCreated, OpenCodeEventSessionCreated),
     (EventOpenCodeSessionUpdated, OpenCodeEventSessionUpdated),
     (EventOpenCodeSessionDeleted, OpenCodeEventSessionDeleted),
     (EventOpenCodeSessionCompacted, OpenCodeEventSessionCompacted),
     (EventOpenCodeSessionDiff, OpenCodeEventSessionDiff),
     (EventOpenCodeSessionError, OpenCodeEventSessionError),
     (EventOpenCodeSessionIdle, OpenCodeEventSessionIdle),
     (EventOpenCodeSessionStatus, OpenCodeEventSessionStatus),
     (EventOpenCodeTodoUpdated, OpenCodeEventTodoUpdated),
     (EventOpenCodeTuiPromptAppend, OpenCodeEventTUIPromptAppend),
     (EventOpenCodeTuiCommandExecute, OpenCodeEventTUICommandExecute),
     (EventOpenCodeTuiToastShow, OpenCodeEventTUIToastShow),
     (EventOpenCodePtyCreated, OpenCodeEventPTYCreated),
     (EventOpenCodePtyUpdated, OpenCodeEventPTYUpdated),
     (EventOpenCodePtyExited, OpenCodeEventPTYExited),
     (EventOpenCodePtyDeleted, OpenCodeEventPTYDeleted),
     (EventOpenCodeVcsBranchUpdated, OpenCodeEventVCSBranchUpdated),
     (EventOpenCodeChatMessage, OpenCodeEventChatMessage),
     (EventOpenCodeChatParams, OpenCodeEventChatParams),
     (EventOpenCodeChatHeaders, OpenCodeEventChatHeaders),
     (EventOpenCodePermissionAsk, OpenCodeEventPermissionAsk),
     (EventOpenCodeCommandExecuteBefore, OpenCodeEventCommandExecuteBefore),
     (EventOpenCodeToolExecuteBefore, OpenCodeEventToolExecuteBefore),
     (EventOpenCodeShellEnv, OpenCodeEventShellEnv),
     (EventOpenCodeToolExecuteAfter, OpenCodeEventToolExecuteAfter),
     (EventOpenCodeExperimentalChatMessagesTransform, OpenCodeEventExperimentalChatMessagesTransform),
     (EventOpenCodeExperimentalChatSystemTransform, OpenCodeEventExperimentalChatSystemTransform),
     (EventOpenCodeExperimentalProviderSmall_model, OpenCodeEventExperimentalProviderSmallModel),
     (EventOpenCodeExperimentalSessionCompacting, OpenCodeEventExperimentalSessionCompacting),
     (EventOpenCodeExperimentalCompactionAutocontinue, OpenCodeEventExperimentalCompactionAutocontinue),
     (EventOpenCodeExperimentalTextComplete, OpenCodeEventExperimentalTextComplete),
     (EventOpenCodeToolDefinition, OpenCodeEventToolDefinition)]"

definition eventMappingsV2 :: "(ContractEventKind \<times> OpenCode2LifecycleEvent) list" where
  "eventMappingsV2 =
    [(EventOpenCode2SessionCreated, OpenCode2EventSessionCreated),
     (EventOpenCode2SessionPrompt, OpenCode2EventSessionPrompt),
     (EventOpenCode2SessionContext, OpenCode2EventSessionContext),
     (EventOpenCode2SessionCompaction, OpenCode2EventSessionCompaction),
     (EventOpenCode2SessionGenerate, OpenCode2EventSessionGenerate),
     (EventOpenCode2SessionTitle, OpenCode2EventSessionTitle),
     (EventOpenCode2SessionModelRequest, OpenCode2EventSessionModelRequest),
     (EventOpenCode2SessionHttpRequest, OpenCode2EventSessionHTTPRequest),
     (EventOpenCode2SessionHttpResponse, OpenCode2EventSessionHTTPResponse),
     (EventOpenCode2SessionExperimentalWsHandshake, OpenCode2EventSessionExperimentalWSHandshake),
     (EventOpenCode2SessionExperimentalWsSend, OpenCode2EventSessionExperimentalWSSend),
     (EventOpenCode2SessionExperimentalWsReceive, OpenCode2EventSessionExperimentalWSReceive),
     (EventOpenCode2SessionRetry, OpenCode2EventSessionRetry),
     (EventOpenCode2ToolExecuteBefore, OpenCode2EventToolExecuteBefore),
     (EventOpenCode2ToolExecuteAfter, OpenCode2EventToolExecuteAfter),
     (EventOpenCode2PermissionEvaluate, OpenCode2EventPermissionEvaluate),
     (EventOpenCode2ShellCreateBefore, OpenCode2EventShellCreateBefore)]"

definition claude_host :: "ClaudeLifecycleEvent Host" where
  "claude_host = \<lparr>ho_Label = ''Claude'', ho_Contract = ClaudeCode2_1_261Lifecycle, ho_Events = claudeEventMappings\<rparr>"

definition codex_host :: "CodexLifecycleEvent Host" where
  "codex_host = \<lparr>ho_Label = ''Codex'', ho_Contract = Codex0_153_0Lifecycle, ho_Events = codexEventMappings\<rparr>"

definition opencode_host :: "OpenCodeLifecycleEvent Host" where
  "opencode_host = \<lparr>ho_Label = ''OpenCode'', ho_Contract = OpenCode1_18_29Lifecycle, ho_Events = openCodeEventMappings\<rparr>"

definition hostV2 :: "OpenCode2LifecycleEvent Host" where
  "hostV2 = \<lparr>ho_Label = ''OpenCode'', ho_Contract = OpenCode2_0_20Lifecycle, ho_Events = eventMappingsV2\<rparr>"

section \<open>Sorting\<close>

context go_comparator
begin

lemma insert_by_mset: "mset (insert_by cmp x xs) = add_mset x (mset xs)"
  by (induction xs) auto

lemma SortFunc_mset: "mset (SortFunc cmp xs) = mset xs"
  by (induction xs) (simp_all add: SortFunc_def insert_by_mset)

lemma insert_by_sorted:
  "sorted_wrt (\<lambda>x y. cmp x y \<le> 0) xs \<Longrightarrow> sorted_wrt (\<lambda>x y. cmp x y \<le> 0) (insert_by cmp x xs)"
proof (induction xs)
  case (Cons y ys)
  have "z = x \<or> z \<in> set ys" if "z \<in> set (insert_by cmp x ys)" for z
    using that insert_by_mset [of x ys] by (metis insert_iff set_mset_add_mset_insert set_mset_mset)
  then show ?case
    using Cons cmp_total [of x y] cmp_le_trans [of x y] by auto
qed simp

lemma SortFunc_sorted: "sorted_wrt (\<lambda>x y. cmp x y \<le> 0) (SortFunc cmp xs)"
  by (induction xs) (simp_all add: SortFunc_def insert_by_sorted)

lemma insert_by_commute:
  assumes "cmp x y = 0 \<Longrightarrow> x = y"
  shows "insert_by cmp x (insert_by cmp y zs) = insert_by cmp y (insert_by cmp x zs)"
proof (induction zs)
  case Nil
  then show ?case using assms cmp_swap [of x y] by auto
next
  case (Cons z zs)
  note t = cmp_le_trans [of x y z] cmp_le_trans [of y x z] cmp_le_trans [of x z y] cmp_le_trans [of y z x]
  consider "cmp x z \<le> 0" "cmp y z \<le> 0" | "cmp x z \<le> 0" "\<not> cmp y z \<le> 0"
    | "\<not> cmp x z \<le> 0" "cmp y z \<le> 0" | "\<not> cmp x z \<le> 0" "\<not> cmp y z \<le> 0" by blast
  then show ?case
  proof cases
    case 1
    then show ?thesis using assms cmp_swap [of x y] by auto
  next
    case 2
    then have "\<not> cmp y x \<le> 0" using t(2) by auto
    then show ?thesis using 2 by simp
  next
    case 3
    then have "\<not> cmp x y \<le> 0" using t(1) by auto
    then show ?thesis using 3 by simp
  next
    case 4
    then show ?thesis using Cons by simp
  qed
qed

text \<open>Where the comparison only identifies equal elements there is one sorted permutation.\<close>

lemma SortFunc_permutation:
  assumes "\<And>x y. x \<in> set xs \<Longrightarrow> y \<in> set xs \<Longrightarrow> cmp x y = 0 \<Longrightarrow> x = y" and "mset xs = mset ys"
  shows "SortFunc cmp xs = SortFunc cmp ys"
proof -
  have "fold (insert_by cmp) (rev xs) = fold (insert_by cmp) (rev ys)"
    by (rule fold_multiset_equiv) (use assms insert_by_commute in \<open>auto simp: fun_eq_iff\<close>)
  then show ?thesis by (simp add: SortFunc_def foldr_conv_fold)
qed

end

interpretation nat_cmp: go_comparator cmp_Compare
  by unfold_locales (auto simp: cmp_Compare_def split: if_splits)

lemma compareSemanticIdentities_lex:
  "compareSemanticIdentities = lex_cmp (\<lambda>a b. cmp_Compare (identity_ordinal (si_Kind a)) (identity_ordinal (si_Kind b)))
     (\<lambda>a b. strings_Compare (si_Value a) (si_Value b))"
  by (intro ext) (simp add: compareSemanticIdentities_def lex_cmp_def Let_def)

interpretation identity_cmp: go_comparator compareSemanticIdentities
  unfolding compareSemanticIdentities_lex
  by (rule comparator_pair.lex_comparator [OF comparator_pair.intro
      [OF go_comparator_key [OF nat_cmp.go_comparator_axioms] go_comparator_key [OF string_cmp.go_comparator_axioms]]])

lemma identity_ordinal_inj:
  "NativeIdentityKind_IsValid k \<Longrightarrow> NativeIdentityKind_IsValid k' \<Longrightarrow> identity_ordinal k = identity_ordinal k' \<longleftrightarrow> k = k'"
  by (cases k; cases k') simp_all

section \<open>What crosses the waist\<close>

definition value_ok :: "string \<Rightarrow> bool" where
  "value_ok v \<longleftrightarrow> v \<noteq> [] \<and> ValidString v \<and> length v \<le> identityValueMaxBytes \<and> \<not> padded v
     \<and> \<not> list_ex IsControl (string_runes v)"

definition binding_ok :: "LifecycleEventMapping \<Rightarrow> NativeBinding \<Rightarrow> bool" where
  "binding_ok m b \<longleftrightarrow> (case DeclaredField m (nb_NativeName b) of
     None \<Rightarrow> False
   | Some f \<Rightarrow> binding_ordinal (nb_Kind b) = identity_ordinal (nif_kind f) \<and> value_ok (nb_Value b))"

text \<open>The bindings a row admits: each declared, of the declared kind and with a plain value, no name twice,
  every required name present, and no gap the waist cannot name.\<close>

definition crosses :: "LifecycleEventMapping \<Rightarrow> NativeBinding list \<Rightarrow> bool" where
  "crosses m bs \<longleftrightarrow> list_all (binding_ok m) bs \<and> distinct (map nb_NativeName bs)
     \<and> list_all (\<lambda>f. \<not> nif_required f \<or> nif_nativeName f \<in> set (map nb_NativeName bs)) (lm_identities m)
     \<and> list_all (\<lambda>k. k = IdentityToolCall) (lm_unresolved m)"

definition kind_of :: "LifecycleEventMapping \<Rightarrow> NativeBinding \<Rightarrow> NativeIdentityKind" where
  "kind_of m b = (case DeclaredField m (nb_NativeName b) of None \<Rightarrow> NativeIdentityKind_value 0 | Some f \<Rightarrow> nif_kind f)"

definition identity_of :: "LifecycleEventMapping \<Rightarrow> NativeBinding \<Rightarrow> waist_Identity" where
  "identity_of m b = \<lparr>wi_kind = kind_of m b, wi_nativeName = nb_NativeName b, wi_value = nb_Value b, wi_constructed = True\<rparr>"

definition correlation :: "LifecycleEventMapping \<Rightarrow> NativeBinding \<Rightarrow> SemanticIdentity" where
  "correlation m b = \<lparr>si_Kind = kind_of m b, si_Value = nb_Value b\<rparr>"

lemma validateIdentityValue_Ok: "validateIdentityValue n v = Ok u \<longleftrightarrow> value_ok v"
  by (simp add: validateIdentityValue_def value_ok_def not_less)

lemma identity_loop_valid: "identity_loop n seen fs = Ok () \<Longrightarrow> f \<in> set fs \<Longrightarrow> NativeIdentityField_IsValid f"
  by (induction n seen fs rule: identity_loop.induct) (auto split: if_splits)

lemma DeclaredField_Some:
  assumes "Mapping_IsValid m" "DeclaredField m n = Some f"
  shows "NativeIdentityField_IsValid f" "nif_nativeName f = n" "f \<in> set (lm_identities m)"
proof -
  show "nif_nativeName f = n" "f \<in> set (lm_identities m)"
    using assms(2) by (auto simp: DeclaredField_def find_Some_iff)
  then show "NativeIdentityField_IsValid f"
    using assms(1) identity_loop_valid by (auto simp: Mapping_IsValid_def validate_iff)
qed

lemma NewIdentity_field:
  assumes "Mapping_IsValid m" "DeclaredField m n = Some f"
  shows "NewIdentity (nif_kind f) (nif_nativeName f) v =
     (case validateIdentityValue n v of Err e \<Rightarrow> Err e
      | Ok _ \<Rightarrow> Ok \<lparr>wi_kind = nif_kind f, wi_nativeName = n, wi_value = v, wi_constructed = True\<rparr>)"
  using DeclaredField_Some [OF assms]
  by (auto simp: NewIdentity_def NativeIdentityField_IsValid_def split: sum.splits)

lemma bind_loop_Ok:
  assumes "Mapping_IsValid m"
  shows "bind_loop m i seen bs = Ok ids \<longleftrightarrow> list_all (binding_ok m) bs \<and> distinct (map nb_NativeName bs)
     \<and> set (map nb_NativeName bs) \<inter> set seen = {} \<and> ids = map (identity_of m) bs"
proof (induction bs arbitrary: i seen ids)
  case (Cons b bs)
  show ?case
  proof (cases "DeclaredField m (nb_NativeName b)")
    case None
    then show ?thesis by (simp add: binding_ok_def)
  next
    case (Some f)
    show ?thesis
    proof (cases "value_ok (nb_Value b)")
      case True
      then obtain u where "validateIdentityValue (nb_NativeName b) (nb_Value b) = Ok u"
        by (cases "validateIdentityValue (nb_NativeName b) (nb_Value b)")
          (use validateIdentityValue_Ok in \<open>auto simp: validateIdentityValue_def value_ok_def\<close>)
      then show ?thesis
        using Some True by (auto simp: NewIdentity_field [OF assms Some] Cons binding_ok_def identity_of_def kind_of_def)
    next
      case False
      then obtain e where "validateIdentityValue (nb_NativeName b) (nb_Value b) = Err e"
        by (cases "validateIdentityValue (nb_NativeName b) (nb_Value b)") (auto simp: validateIdentityValue_Ok)
      then show ?thesis using Some False by (simp add: NewIdentity_field [OF assms Some] binding_ok_def)
    qed
  qed
qed auto

lemma verify_loop_Ok:
  "list_all (binding_ok m) bs \<Longrightarrow> distinct (map nb_NativeName bs) \<Longrightarrow> snd ` set seen \<inter> set (map nb_NativeName bs) = {}
     \<Longrightarrow> verify_loop m i seen (map (identity_of m) bs) = Ok (map (correlation m) bs)"
proof (induction bs arbitrary: i seen)
  case (Cons b bs)
  obtain f where f: "DeclaredField m (nb_NativeName b) = Some f" "value_ok (nb_Value b)"
    using Cons.prems(1) by (auto simp: binding_ok_def split: option.splits)
  have v: "validateIdentityValue (nb_NativeName b) (nb_Value b) = Ok ()"
    using f(2) by (simp add: validateIdentityValue_Ok)
  have k: "kind_of m b = nif_kind f" using f(1) by (simp add: kind_of_def)
  have n: "(kind_of m b, nb_NativeName b) \<notin> set seen" using Cons.prems(3) by force
  have "verify_loop m (Suc i) ((kind_of m b, nb_NativeName b) # seen) (map (identity_of m) bs) = Ok (map (correlation m) bs)"
    by (rule Cons.IH) (use Cons.prems in auto)
  then show ?case using f(1) v k n by (simp add: identity_of_def [of m b] correlation_def [of m b])
qed simp

lemma required_loop_Ok:
  "required_loop present fs = Ok u \<longleftrightarrow> list_all (\<lambda>f. \<not> nif_required f \<or> nif_nativeName f \<in> set present) fs"
  by (induction fs) auto

lemma unresolvedFacts_Ok:
  "unresolvedFacts ks = Ok us \<longleftrightarrow> list_all (\<lambda>k. k = IdentityToolCall) ks \<and> us = map (\<lambda>_. UnresolvedToolCall) ks"
  by (induction ks arbitrary: us) auto

text \<open>Binding and verification, composed as the handler composes them, and the event of an admitted row.\<close>

definition cross :: "'e Host \<Rightarrow> ContractEventKind \<Rightarrow> NativeBinding list \<Rightarrow> waist_error + waist_Event" where
  "cross host kind bs = result_bind (Bind host kind bs) (\<lambda>(l1, identities). NewEvent l1 identities)"

definition crossed :: "string \<Rightarrow> LifecycleEventMapping \<Rightarrow> NativeBinding list \<Rightarrow> waist_Event" where
  "crossed contract m bs =
     \<lparr>we_semantics = \<lparr>se_semantic = lm_semantic m, se_blocking = lm_blocking m,
        se_identities = SortFunc compareSemanticIdentities (map (correlation m) bs),
        se_unresolved = map (\<lambda>_. UnresolvedToolCall) (lm_unresolved m)\<rparr>,
      we_origin = \<lparr>og_contract = contract, og_nativeName = lm_nativeName m\<rparr>\<rparr>"

lemma NewEvent_identities:
  assumes "list_all (binding_ok m) bs" "distinct (map nb_NativeName bs)"
  shows "NewEvent \<lparr>eb_contract = c, eb_mapping = m, eb_nativeName = lm_nativeName m, eb_constructed = True\<rparr>
       (map (identity_of m) bs) = Ok e \<longleftrightarrow> crosses m bs \<and> e = crossed c m bs"
  using verify_loop_Ok [OF assms, of "[]" 0] assms
  by (auto simp: NewEvent_def verifyIdentities_def required_loop_Ok unresolvedFacts_Ok crosses_def crossed_def
      comp_def identity_of_def)

text \<open>A frontend: a host whose contract is a constructed profile.\<close>

locale frontend = lifecycle_contract contract for contract :: "'e LifecycleContract" +
  fixes host :: "'e Host"
  assumes host_contract: "ho_Contract host = Some contract"
begin

lemma BindEvent_row: "Contract_Mapping contract x = Ok m \<Longrightarrow>
    BindEvent contract x = Ok \<lparr>eb_contract = lc_id contract, eb_mapping = m, eb_nativeName = lm_nativeName m, eb_constructed = True\<rparr>"
  using constructed by (simp add: BindEvent_def)

lemma Bind_Ok:
  "Bind host k bs = Ok (l1, ids) \<longleftrightarrow>
     (\<exists>x m. map_of (ho_Events host) k = Some x \<and> Contract_Mapping contract x = Ok m
        \<and> list_all (binding_ok m) bs \<and> distinct (map nb_NativeName bs) \<and> ids = map (identity_of m) bs
        \<and> l1 = \<lparr>eb_contract = lc_id contract, eb_mapping = m, eb_nativeName = lm_nativeName m, eb_constructed = True\<rparr>)"
proof (cases "map_of (ho_Events host) k")
  case (Some x)
  show ?thesis
  proof (cases "Contract_Mapping contract x")
    case (Inr m)
    then show ?thesis
      using Some by (auto simp: Bind_def host_contract BindEvent_row bind_loop_Ok [OF Mapping_valid [OF Inr]])
  qed (use Some in \<open>simp add: Bind_def host_contract\<close>)
qed (simp add: Bind_def)

lemma cross_Ok:
  "cross host k bs = Ok e \<longleftrightarrow>
     (\<exists>x m. map_of (ho_Events host) k = Some x \<and> Contract_Mapping contract x = Ok m
        \<and> crosses m bs \<and> e = crossed (lc_id contract) m bs)"
proof
  assume "cross host k bs = Ok e"
  then obtain l1 ids where b: "Bind host k bs = Ok (l1, ids)" and n: "NewEvent l1 ids = Ok e"
    by (auto simp: cross_def)
  from b obtain x m where xm: "map_of (ho_Events host) k = Some x" "Contract_Mapping contract x = Ok m"
      "list_all (binding_ok m) bs" "distinct (map nb_NativeName bs)" "ids = map (identity_of m) bs"
      "l1 = \<lparr>eb_contract = lc_id contract, eb_mapping = m, eb_nativeName = lm_nativeName m, eb_constructed = True\<rparr>"
    unfolding Bind_Ok by (elim exE conjE) (rule that)
  then show "\<exists>x m. map_of (ho_Events host) k = Some x \<and> Contract_Mapping contract x = Ok m
        \<and> crosses m bs \<and> e = crossed (lc_id contract) m bs"
    using n NewEvent_identities [OF xm(3,4)] by auto
next
  assume "\<exists>x m. map_of (ho_Events host) k = Some x \<and> Contract_Mapping contract x = Ok m
        \<and> crosses m bs \<and> e = crossed (lc_id contract) m bs"
  then obtain x m where xm: "map_of (ho_Events host) k = Some x" "Contract_Mapping contract x = Ok m"
      "crosses m bs" "e = crossed (lc_id contract) m bs" by (elim exE conjE) (rule that)
  then have l: "list_all (binding_ok m) bs" "distinct (map nb_NativeName bs)" by (simp_all add: crosses_def)
  have "Bind host k bs = Ok (\<lparr>eb_contract = lc_id contract, eb_mapping = m, eb_nativeName = lm_nativeName m, eb_constructed = True\<rparr>,
      map (identity_of m) bs)"
    unfolding Bind_Ok using xm l by blast
  then show "cross host k bs = Ok e" using NewEvent_identities [OF l] xm by (simp add: cross_def)
qed

lemma kind_of_valid: "Contract_Mapping contract x = Ok m \<Longrightarrow> binding_ok m b \<Longrightarrow> NativeIdentityKind_IsValid (kind_of m b)"
  using DeclaredField_Some(1) [OF Mapping_valid]
  by (auto simp: binding_ok_def kind_of_def NativeIdentityField_IsValid_def split: option.splits)

lemma crossed_permutation:
  assumes m: "Contract_Mapping contract x = Ok m" and c: "crosses m bs" and p: "mset bs = mset bs'"
  shows "crosses m bs' \<and> crossed i m bs' = crossed i m bs"
proof
  have s: "set bs' = set bs" using p by (metis set_mset_mset)
  have d: "distinct (map nb_NativeName bs')" using c p by (metis crosses_def distinct_map mset_eq_imp_distinct_iff s)
  show "crosses m bs'" using c d s by (simp add: crosses_def list_all_iff)
  have "SortFunc compareSemanticIdentities (map (correlation m) bs) = SortFunc compareSemanticIdentities (map (correlation m) bs')"
  proof (rule identity_cmp.SortFunc_permutation)
    show "mset (map (correlation m) bs) = mset (map (correlation m) bs')" using p by simp
    fix u v assume "u \<in> set (map (correlation m) bs)" "v \<in> set (map (correlation m) bs)" and z: "compareSemanticIdentities u v = 0"
    then obtain a b where "a \<in> set bs" "u = correlation m a" "b \<in> set bs" "v = correlation m b" by auto
    then show "u = v"
      using z c kind_of_valid [OF m] identity_ordinal_inj
      by (auto simp: crosses_def list_all_iff compareSemanticIdentities_def cmp_Compare_def correlation_def Let_def
          split: if_splits)
  qed
  then show "crossed i m bs' = crossed i m bs" by (simp add: crossed_def)
qed

lemma cross_permutation: "cross host k bs = Ok e \<Longrightarrow> mset bs = mset bs' \<Longrightarrow> cross host k bs' = Ok e"
  unfolding cross_Ok using crossed_permutation by metis

end

section \<open>The four hosts\<close>

interpretation claude_frontend: frontend "the ClaudeCode2_1_261Lifecycle" claude_host
  by unfold_locales (simp add: claude_host_def profiles_defined(1) [symmetric])

interpretation codex_frontend: frontend "the Codex0_153_0Lifecycle" codex_host
  by unfold_locales (simp add: codex_host_def profiles_defined(2) [symmetric])

interpretation opencode_frontend: frontend "the OpenCode1_18_29Lifecycle" opencode_host
  by unfold_locales (simp add: opencode_host_def profiles_defined(3) [symmetric])

interpretation opencode2_frontend: frontend "the OpenCode2_0_20Lifecycle" hostV2
  by unfold_locales (simp add: hostV2_def profiles_defined(4) [symmetric])

text \<open>The native name of the profile row a frontend binds a registered event to.\<close>

definition bound_name :: "'e Host \<Rightarrow> Event \<Rightarrow> string option" where
  "bound_name host event =
     (case (map_of (ho_Events host) (ev_Kind event), ho_Contract host) of
        (Some x, Some c) \<Rightarrow> (case Contract_Mapping c x of Ok m \<Rightarrow> Some (lm_nativeName m) | Err _ \<Rightarrow> None)
      | _ \<Rightarrow> None)"

definition pairs_by_name :: "'e Host \<Rightarrow> Manifest option \<Rightarrow> bool" where
  "pairs_by_name host manifest \<longleftrightarrow>
     (case manifest of
        None \<Rightarrow> False
      | Some mf \<Rightarrow> length (ho_Events host) = length (mf_Events mf)
                 \<and> list_all (\<lambda>e. bound_name host e = Some (ev_NativeName e)) (mf_Events mf))"

lemma table_row_name:
  assumes "mustLifecycleContract base events mappings = Some c" "map fst mappings = events"
    "map_of mappings x = Some m"
  shows "\<exists>m'. Contract_Mapping c x = Ok m' \<and> lm_nativeName m' = lm_nativeName m"
proof -
  note p = profile_contract [OF assms(1)]
  have z: "lc_mappings c = zip events (owned_rows mappings)"
    using profile_rows [OF assms(1,2)] lifecycle_contract.keys [OF p(1)] p(2) by (metis zip_map_fst_snd)
  also have "\<dots> = map (\<lambda>(e, m). (e, m\<lparr>lm_response := derivedResponse m\<rparr>)) mappings"
    unfolding owned_rows_def assms(2) [symmetric] by (induction mappings) auto
  finally have "(x, m\<lparr>lm_response := derivedResponse m\<rparr>) \<in> set (lc_mappings c)"
    using map_of_SomeD [OF assms(3)] by force
  then show ?thesis using lifecycle_contract.Mapping_iff [OF p(1)] by fastforce
qed

definition table_pairs :: "(ContractEventKind \<times> 'e) list \<Rightarrow> ('e \<times> LifecycleEventMapping) list \<Rightarrow> Event list \<Rightarrow> bool" where
  "table_pairs table mappings events \<longleftrightarrow> length table = length events
     \<and> list_all (\<lambda>e. (case map_of table (ev_Kind e) of
           None \<Rightarrow> False
         | Some x \<Rightarrow> (case map_of mappings x of None \<Rightarrow> False | Some m \<Rightarrow> lm_nativeName m = ev_NativeName e))) events"

lemma pairs_by_table:
  assumes c: "mustLifecycleContract base events mappings = Some c" "map fst mappings = events"
    and h: "ho_Contract host = Some c"
    and t: "map_option (\<lambda>mf. table_pairs (ho_Events host) mappings (mf_Events mf)) manifest = Some True"
  shows "pairs_by_name host manifest"
proof -
  obtain mf where mf: "manifest = Some mf" and p: "table_pairs (ho_Events host) mappings (mf_Events mf)"
    using t by auto
  have "bound_name host e = Some (ev_NativeName e)" if e: "e \<in> set (mf_Events mf)" for e
  proof -
    obtain x m where xm: "map_of (ho_Events host) (ev_Kind e) = Some x" "map_of mappings x = Some m"
        "lm_nativeName m = ev_NativeName e"
    proof -
      have "case map_of (ho_Events host) (ev_Kind e) of None \<Rightarrow> False
          | Some x \<Rightarrow> (case map_of mappings x of None \<Rightarrow> False | Some m \<Rightarrow> lm_nativeName m = ev_NativeName e)"
        using p e by (simp add: table_pairs_def list_all_iff)
      then show thesis by (cases "map_of (ho_Events host) (ev_Kind e)") (auto split: option.splits intro: that)
    qed
    obtain m' where "Contract_Mapping c x = Ok m'" "lm_nativeName m' = lm_nativeName m"
      using table_row_name [OF c xm(2)] by blast
    then show ?thesis using xm h by (simp add: bound_name_def)
  qed
  then show ?thesis using p mf by (simp add: pairs_by_name_def table_pairs_def list_all_iff)
qed

lemma host_tables:
  "map_option (\<lambda>mf. table_pairs claudeEventMappings claudeLifecycleMappings (mf_Events mf)) ClaudeCode__2_1_261 = Some True"
  "map_option (\<lambda>mf. table_pairs codexEventMappings codexLifecycleMappings (mf_Events mf)) Codex__0_153_0 = Some True"
  "map_option (\<lambda>mf. table_pairs openCodeEventMappings openCodeLifecycleMappings (mf_Events mf)) OpenCode__1_18_29 = Some True"
  "map_option (\<lambda>mf. table_pairs eventMappingsV2 openCode2LifecycleMappings (mf_Events mf)) OpenCode__2_0_20 = Some True"
  by code_simp+

lemma pairs_hosts:
  "pairs_by_name claude_host ClaudeCode__2_1_261" "pairs_by_name codex_host Codex__0_153_0"
  "pairs_by_name opencode_host OpenCode__1_18_29" "pairs_by_name hostV2 OpenCode__2_0_20"
     apply (rule pairs_by_table [OF profiles_built(1) tables_in_order(1) claude_frontend.host_contract])
     apply (simp add: claude_host_def host_tables)
    apply (rule pairs_by_table [OF profiles_built(2) tables_in_order(2) codex_frontend.host_contract])
    apply (simp add: codex_host_def host_tables)
   apply (rule pairs_by_table [OF profiles_built(3) tables_in_order(3) opencode_frontend.host_contract])
   apply (simp add: opencode_host_def host_tables)
  apply (rule pairs_by_table [OF profiles_built(4) tables_in_order(4) opencode2_frontend.host_contract])
  apply (simp add: hostV2_def host_tables)
  done

text \<open>A frontend with the manifest it is registered for.\<close>

locale registered_frontend = frontend +
  fixes manifest :: Manifest
  assumes paired: "pairs_by_name host (Some manifest)"
begin

lemma registered_cross:
  assumes "e \<in> set (mf_Events manifest)" "cross host (ev_Kind e) bs = Ok l2"
    and m: "Contract_Mapping contract y = Ok m" "lm_nativeName m = ev_NativeName e"
  shows "crosses m bs \<and> l2 = crossed (lc_id contract) m bs"
proof -
  obtain x m' where x: "map_of (ho_Events host) (ev_Kind e) = Some x" "Contract_Mapping contract x = Ok m'"
      "crosses m' bs" "l2 = crossed (lc_id contract) m' bs"
    using assms(2) unfolding cross_Ok by (elim exE conjE) (rule that)
  have "bound_name host e = Some (ev_NativeName e)"
    using paired assms(1) by (simp add: pairs_by_name_def list_all_iff)
  then have "lm_nativeName m' = lm_nativeName m" using x host_contract m(2) by (simp add: bound_name_def)
  then have "m' = m" using native_name_unique [OF x(2) m(1)] by simp
  then show ?thesis using x by simp
qed

end

lemma registered_frontendI:
  assumes "frontend c host" "pairs_by_name host mf" "mf = Some m"
  shows "registered_frontend c host m"
  using assms by (simp add: registered_frontend_def registered_frontend_axioms_def)

lemma pairs_defined: "pairs_by_name host mf \<Longrightarrow> mf = Some (the mf)"
  by (cases mf) (simp_all add: pairs_by_name_def)

interpretation claude_registered: registered_frontend "the ClaudeCode2_1_261Lifecycle" claude_host "the ClaudeCode__2_1_261"
  by (rule registered_frontendI [OF claude_frontend.frontend_axioms pairs_hosts(1) pairs_defined [OF pairs_hosts(1)]])

interpretation codex_registered: registered_frontend "the Codex0_153_0Lifecycle" codex_host "the Codex__0_153_0"
  by (rule registered_frontendI [OF codex_frontend.frontend_axioms pairs_hosts(2) pairs_defined [OF pairs_hosts(2)]])

interpretation opencode_registered: registered_frontend "the OpenCode1_18_29Lifecycle" opencode_host "the OpenCode__1_18_29"
  by (rule registered_frontendI [OF opencode_frontend.frontend_axioms pairs_hosts(3) pairs_defined [OF pairs_hosts(3)]])

interpretation opencode2_registered: registered_frontend "the OpenCode2_0_20Lifecycle" hostV2 "the OpenCode__2_0_20"
  by (rule registered_frontendI [OF opencode2_frontend.frontend_axioms pairs_hosts(4) pairs_defined [OF pairs_hosts(4)]])

text \<open>Every frontend binds each event its manifest registers, and only those, to the profile row of
  the same native name.\<close>

theorem frontends_pair_events:
  "pairs_by_name claude_host ClaudeCode__2_1_261 \<and> pairs_by_name codex_host Codex__0_153_0
   \<and> pairs_by_name opencode_host OpenCode__1_18_29 \<and> pairs_by_name hostV2 OpenCode__2_0_20"
  using pairs_hosts by simp

text \<open>C20: A native event crosses the waist exactly when its bindings are the admissible ones of its profile
  row; the verified event then has the semantic and blocking mode of that row, its correlation is the
  supplied bindings in ascending order, and any other order of the same bindings yields the same event.\<close>

theorem waist_admission:
  assumes c: "lifecycle_contract c" "ho_Contract host = Some c"
    and x: "map_of (ho_Events host) k = Some x" "Contract_Mapping c x = Ok m"
  shows "(is_ok (cross host k bs) \<longleftrightarrow> crosses m bs)
    \<and> (\<forall>e. cross host k bs = Ok e \<longrightarrow>
         se_semantic (we_semantics e) = lm_semantic m \<and> se_blocking (we_semantics e) = lm_blocking m
         \<and> og_nativeName (we_origin e) = lm_nativeName m
         \<and> mset (se_identities (we_semantics e)) = mset (map (correlation m) bs)
         \<and> sorted_wrt (\<lambda>a b. compareSemanticIdentities a b \<le> 0) (se_identities (we_semantics e))
         \<and> (\<forall>bs'. mset bs' = mset bs \<longrightarrow> cross host k bs' = Ok e))"
proof -
  have f: "frontend c host" using c by (simp add: frontend_def frontend_axioms_def)
  have ok: "cross host k bs = Ok e \<longleftrightarrow> crosses m bs \<and> e = crossed (lc_id c) m bs" for e
    unfolding frontend.cross_Ok [OF f] using x by auto
  have "is_ok (cross host k bs) \<longleftrightarrow> (\<exists>e. cross host k bs = Ok e)" by (cases "cross host k bs") auto
  then have i: "is_ok (cross host k bs) \<longleftrightarrow> crosses m bs" unfolding ok by simp
  moreover have "se_semantic (we_semantics e) = lm_semantic m \<and> se_blocking (we_semantics e) = lm_blocking m
         \<and> og_nativeName (we_origin e) = lm_nativeName m
         \<and> mset (se_identities (we_semantics e)) = mset (map (correlation m) bs)
         \<and> sorted_wrt (\<lambda>a b. compareSemanticIdentities a b \<le> 0) (se_identities (we_semantics e))"
    if "cross host k bs = Ok e" for e
    using that unfolding ok by (simp add: crossed_def identity_cmp.SortFunc_mset identity_cmp.SortFunc_sorted)
  moreover have "cross host k bs' = Ok e" if "cross host k bs = Ok e" "mset bs' = mset bs" for e bs'
    using frontend.cross_permutation [OF f that(1)] that(2) by metis
  ultimately show ?thesis by blast
qed

theorem waist_admission_witness:
  "\<exists>e. cross codex_host EventCodexStop [\<lparr>nb_Kind = BindingTurn, nb_NativeName = ''turn_id'', nb_Value = ''t1''\<rparr>,
       \<lparr>nb_Kind = BindingSession, nb_NativeName = ''session_id'', nb_Value = ''s1''\<rparr>] = Ok e
     \<and> cross codex_host EventCodexStop [\<lparr>nb_Kind = BindingSession, nb_NativeName = ''session_id'', nb_Value = ''s1''\<rparr>,
       \<lparr>nb_Kind = BindingTurn, nb_NativeName = ''turn_id'', nb_Value = ''t1''\<rparr>] = Ok e"
proof -
  let ?t = "\<lparr>nb_Kind = BindingTurn, nb_NativeName = ''turn_id'', nb_Value = ''t1''\<rparr>"
  let ?s = "\<lparr>nb_Kind = BindingSession, nb_NativeName = ''session_id'', nb_Value = ''s1''\<rparr>"
  have x: "map_of (ho_Events codex_host) EventCodexStop = Some CodexEventStop" by code_simp
  have "(case Contract_Mapping (the Codex0_153_0Lifecycle) CodexEventStop of Err _ \<Rightarrow> False
      | Ok m \<Rightarrow> lm_identities m = [codexSessionIdentity, codexTurnIdentity] \<and> lm_unresolved m = [])"
    by code_simp
  then obtain m where m: "Contract_Mapping (the Codex0_153_0Lifecycle) CodexEventStop = Ok m"
      "lm_identities m = [codexSessionIdentity, codexTurnIdentity]" "lm_unresolved m = []"
    by (cases "Contract_Mapping (the Codex0_153_0Lifecycle) CodexEventStop") auto
  have v: "value_ok ''t1''" "value_ok ''s1''"
    by (simp_all add: value_ok_def ValidString_def string_runes_def rune_width_def rune_value_def identityValueMaxBytes_def
        padded_def IsSpace_def IsControl_def)
  have c: "crosses m [?t, ?s]"
    using m(2,3) v by (simp add: crosses_def binding_ok_def DeclaredField_def codexSessionIdentity_def codexTurnIdentity_def
        nativeIdentity_def)
  note w = waist_admission [OF codex.lifecycle_contract_axioms codex_frontend.host_contract x m(1), of "[?t, ?s]"]
  obtain e where "cross codex_host EventCodexStop [?t, ?s] = Ok e"
    using w c by (cases "cross codex_host EventCodexStop [?t, ?s]") auto
  moreover have "mset [?s, ?t] = mset [?t, ?s]" by (simp add: add_mset_commute)
  ultimately show ?thesis using w by blast
qed

end
