(* ===== verification/Settlement.thy ===== *)
theory Settlement
  imports HostExit
begin

text \<open>
  The commit settlement of a hook invocation (\<^verbatim>\<open>internal/lifecycle/receipt/settlement.go\<close>): the fence
  that orders the timeout of the host against the entry into the journal append.  Each critical
  section under the mutex is one function on the fence; the append runs outside the mutex.  A run of
  the system is a sequence of these sections taken by any number of callers in any order, and the
  journal is observed through the rows the appends write.  The lemmas give the invariant of the
  fence by induction over runs, and from it that a channel is never closed twice, that an abandoned
  invocation never appends, and that what the host is told is what was committed.
\<close>

section \<open>The fence\<close>

datatype settlementState = settlementIdle | settlementActive | settlementFinished | settlementAbandoned

text \<open>The signal channel is absent in a zero fence, then open, then closed.\<close>

datatype signal = NilChannel | OpenChannel | ClosedChannel

record CommitSettlement =
  cs_state :: settlementState
  cs_done :: signal
  cs_outcome :: Outcome
  cs_committed :: bool

definition NewCommitSettlement :: CommitSettlement where
  "NewCommitSettlement = \<lparr>cs_state = settlementIdle, cs_done = OpenChannel, cs_outcome = zero_outcome, cs_committed = False\<rparr>"

datatype settlement_error =
    NoExitStatus
  | AlreadySettled
  | CancelledBeforeEntry
  | AppendFailed
  | NoOccurrenceIdentity

text \<open>Closing a channel that is nil or already closed panics.\<close>

definition close_done :: "CommitSettlement \<Rightarrow> CommitSettlement option" where
  "close_done s = (if cs_done s = OpenChannel then Some (s\<lparr>cs_done := ClosedChannel\<rparr>) else None)"

definition make_done :: "CommitSettlement \<Rightarrow> CommitSettlement" where
  "make_done s = (if cs_done s = NilChannel then s\<lparr>cs_done := OpenChannel\<rparr> else s)"

text \<open>The entry section of \<^verbatim>\<open>run\<close>: \<^verbatim>\<open>None\<close> is a panic, an error is a refused entry.\<close>

definition run_enter :: "CommitSettlement \<Rightarrow> Outcome \<Rightarrow> bool \<Rightarrow> bool \<Rightarrow> (CommitSettlement \<times> settlement_error option) option" where
  "run_enter s outcome publish cancelled =
     (if publish \<and> ExitStatus_Code (out_Exit outcome) = None then Some (s, Some NoExitStatus)
      else if cs_state s \<noteq> settlementIdle then Some (s, Some AlreadySettled)
      else if cancelled then
        map_option (\<lambda>t. (t, Some CancelledBeforeEntry)) (close_done (make_done (s\<lparr>cs_state := settlementAbandoned\<rparr>)))
      else Some ((make_done s)\<lparr>cs_state := settlementActive\<rparr>, None))"

text \<open>What the append callback returns: an identity or an error; it may also panic.\<close>

datatype append_result = AppendReturned nat | AppendError | AppendPanic

definition run_result :: "append_result \<Rightarrow> settlement_error + nat" where
  "run_result r = (case r of
       AppendReturned n \<Rightarrow> if n = 0 then Err NoOccurrenceIdentity else Ok n
     | _ \<Rightarrow> Err AppendFailed)"

definition run_committed :: "bool \<Rightarrow> append_result \<Rightarrow> bool" where
  "run_committed publish r \<longleftrightarrow> publish \<and> is_ok (run_result r)"

text \<open>The deferred section of \<^verbatim>\<open>run\<close>, which also runs when the callback panics.\<close>

definition run_finish :: "CommitSettlement \<Rightarrow> Outcome \<Rightarrow> bool \<Rightarrow> CommitSettlement option" where
  "run_finish s outcome committed =
     close_done ((if committed then s\<lparr>cs_committed := True, cs_outcome := outcome\<rparr> else s\<lparr>cs_committed := False\<rparr>)
       \<lparr>cs_state := settlementFinished\<rparr>)"

definition Expire :: "CommitSettlement \<Rightarrow> CommitSettlement option" where
  "Expire s =
     (let s1 = make_done s in
      if cs_state s1 = settlementIdle then close_done (s1\<lparr>cs_state := settlementAbandoned\<rparr>) else Some s1)"

definition CommittedOutcome :: "CommitSettlement \<Rightarrow> Outcome \<times> bool" where
  "CommittedOutcome s = (cs_outcome s, cs_committed s)"

text \<open>The zero value of the Go type is usable too: its channel is made on first use.\<close>

definition zero_settlement :: CommitSettlement where
  "zero_settlement = \<lparr>cs_state = settlementIdle, cs_done = NilChannel, cs_outcome = zero_outcome, cs_committed = False\<rparr>"

section \<open>Runs\<close>

text \<open>A caller of \<^verbatim>\<open>Run\<close> or \<^verbatim>\<open>RunRecordOnly\<close> is outside, appending, or at its deferred section; the
  journal holds, for each row an append wrote, the caller with its candidate outcome and whether it
  publishes it.\<close>

datatype caller = Outside | Appending Outcome bool | Deferred Outcome bool append_result

record system =
  sy_fence :: CommitSettlement
  sy_callers :: "nat \<Rightarrow> caller"
  sy_journal :: "(nat \<times> Outcome \<times> bool) list"
  sy_panic :: bool

definition start :: "CommitSettlement \<Rightarrow> system" where
  "start f = \<lparr>sy_fence = f, sy_callers = (\<lambda>_. Outside), sy_journal = [], sy_panic = False\<rparr>"

text \<open>A row exists whenever the append reports an identity; an append that fails may still have
  written one.\<close>

datatype action =
    Enter nat Outcome bool bool
  | Append nat append_result bool
  | Finish nat
  | ExpireNow

definition on_fence :: "system \<Rightarrow> CommitSettlement option \<Rightarrow> system" where
  "on_fence y f = (case f of None \<Rightarrow> y\<lparr>sy_panic := True\<rparr> | Some s \<Rightarrow> y\<lparr>sy_fence := s\<rparr>)"

fun act :: "action \<Rightarrow> system \<Rightarrow> system option" where
  "act (Enter c outcome publish cancelled) y =
     (if sy_callers y c \<noteq> Outside then None
      else case run_enter (sy_fence y) outcome publish cancelled of
          None \<Rightarrow> Some (y\<lparr>sy_panic := True\<rparr>)
        | Some (s, Some _) \<Rightarrow> Some (y\<lparr>sy_fence := s\<rparr>)
        | Some (s, None) \<Rightarrow> Some (y\<lparr>sy_fence := s, sy_callers := (sy_callers y)(c := Appending outcome publish)\<rparr>))"
| "act (Append c result wrote) y =
     (case sy_callers y c of
        Appending outcome publish \<Rightarrow>
          if is_ok (run_result result) \<and> \<not> wrote then None
          else Some (y\<lparr>sy_callers := (sy_callers y)(c := Deferred outcome publish result),
                       sy_journal := (if wrote then sy_journal y @ [(c, outcome, publish)] else sy_journal y)\<rparr>)
      | _ \<Rightarrow> None)"
| "act (Finish c) y =
     (case sy_callers y c of
        Deferred outcome publish result \<Rightarrow>
          Some ((on_fence y (run_finish (sy_fence y) outcome (run_committed publish result)))
            \<lparr>sy_callers := (sy_callers y)(c := Outside)\<rparr>)
      | _ \<Rightarrow> None)"
| "act ExpireNow y = Some (on_fence y (Expire (sy_fence y)))"

inductive runs :: "system \<Rightarrow> action list \<Rightarrow> system \<Rightarrow> bool" where
  here: "runs y [] y"
| more: "runs y as z \<Longrightarrow> act a z = Some z' \<Longrightarrow> runs y (as @ [a]) z'"

inductive_cases act_cases: "runs y as z"

section \<open>The invariant\<close>

definition quiet :: "system \<Rightarrow> bool" where
  "quiet y \<longleftrightarrow> (\<forall>c. sy_callers y c = Outside)"

definition busy :: "system \<Rightarrow> bool" where
  "busy y \<longleftrightarrow> (\<exists>c. (\<forall>b. b \<noteq> c \<longrightarrow> sy_callers y b = Outside)
     \<and> (\<exists>o1 p. sy_callers y c = Appending o1 p \<and> sy_journal y = []
        \<or> (\<exists>r. sy_callers y c = Deferred o1 p r \<and> sy_journal y \<in> {[], [(c, o1, p)]}
             \<and> (is_ok (run_result r) \<longrightarrow> sy_journal y = [(c, o1, p)]))))"

definition settlement_inv :: "system \<Rightarrow> bool" where
  "settlement_inv y \<longleftrightarrow> \<not> sy_panic y \<and>
     (let s = sy_fence y in
      case cs_state s of
        settlementIdle \<Rightarrow> quiet y \<and> sy_journal y = [] \<and> cs_done s \<noteq> ClosedChannel \<and> \<not> cs_committed s
      | settlementActive \<Rightarrow> busy y \<and> cs_done s = OpenChannel \<and> \<not> cs_committed s
      | settlementFinished \<Rightarrow> quiet y \<and> cs_done s = ClosedChannel \<and> length (sy_journal y) \<le> 1
          \<and> (cs_committed s \<longrightarrow> (\<exists>c. sy_journal y = [(c, cs_outcome s, True)]))
      | settlementAbandoned \<Rightarrow> quiet y \<and> sy_journal y = [] \<and> cs_done s = ClosedChannel \<and> \<not> cs_committed s)"

lemma start_inv:
  assumes "f \<in> {NewCommitSettlement, zero_settlement}"
  shows "settlement_inv (start f)"
  using assms by (auto simp: settlement_inv_def start_def NewCommitSettlement_def zero_settlement_def quiet_def)

lemma enter_inv:
  assumes "settlement_inv y" "act (Enter c out publish cancelled) y = Some z"
  shows "settlement_inv z"
  using assms
  by (cases "cs_done (sy_fence y)")
    (auto simp: settlement_inv_def run_enter_def close_done_def make_done_def quiet_def busy_def Let_def
      split: if_splits settlementState.splits)

lemma append_inv:
  assumes "settlement_inv y" "act (Append c result wrote) y = Some z"
  shows "settlement_inv z"
proof -
  obtain o1 p where c: "sy_callers y c = Appending o1 p"
    using assms(2) by (cases "sy_callers y c") auto
  then have a: "cs_state (sy_fence y) = settlementActive" and b: "busy y"
    using assms(1) by (auto simp: settlement_inv_def quiet_def Let_def split: settlementState.splits)
  have others: "\<forall>b. b \<noteq> c \<longrightarrow> sy_callers y b = Outside" and j: "sy_journal y = []"
    using b c by (auto simp: busy_def) (metis caller.distinct(1,5))+
  show ?thesis using assms a c others j
    by (auto simp: settlement_inv_def busy_def Let_def split: if_splits)
qed

lemma finish_inv:
  assumes "settlement_inv y" "act (Finish c) y = Some z"
  shows "settlement_inv z"
proof -
  obtain o1 p r where c: "sy_callers y c = Deferred o1 p r"
    using assms(2) by (cases "sy_callers y c") auto
  then have a: "cs_state (sy_fence y) = settlementActive" and b: "busy y"
    using assms(1) by (auto simp: settlement_inv_def quiet_def Let_def split: settlementState.splits)
  have others: "\<forall>b. b \<noteq> c \<longrightarrow> sy_callers y b = Outside"
    and j: "sy_journal y \<in> {[], [(c, o1, p)]}" "is_ok (run_result r) \<longrightarrow> sy_journal y = [(c, o1, p)]"
    using b c by (auto simp: busy_def) (metis caller.distinct(3,5) caller.inject(2))+
  show ?thesis using assms a c others j
    by (cases "run_committed p r")
      (auto simp: settlement_inv_def on_fence_def run_finish_def close_done_def quiet_def Let_def, auto simp: run_committed_def)
qed

lemma expire_inv:
  assumes "settlement_inv y" "act ExpireNow y = Some z"
  shows "settlement_inv z"
  using assms
  by (cases "cs_done (sy_fence y)") (auto simp: settlement_inv_def on_fence_def Expire_def close_done_def make_done_def quiet_def busy_def Let_def
      split: settlementState.splits signal.splits if_splits)

lemma act_inv: "settlement_inv y \<Longrightarrow> act a y = Some z \<Longrightarrow> settlement_inv z"
  by (cases a) (metis enter_inv append_inv finish_inv expire_inv)+

lemma runs_inv: "runs y as z \<Longrightarrow> settlement_inv y \<Longrightarrow> settlement_inv z"
  by (induction rule: runs.induct) (auto dest: act_inv)

lemmas runs_start_inv = runs_inv [OF _ start_inv]

section \<open>What the fence promises\<close>

text \<open>C9: In every run of any number of appends against any number of expiries the fence never closes its
  signal twice, at most one append writes a journal row, an abandoned invocation writes none, the
  signal is closed exactly when the invocation is settled, and an outcome is published as committed
  only when the row of exactly that outcome is in the journal.\<close>

theorem settlement_safety:
  assumes "f \<in> {NewCommitSettlement, zero_settlement}" "runs (start f) as y"
  shows "\<not> sy_panic y \<and> length (sy_journal y) \<le> 1
    \<and> (cs_done (sy_fence y) = ClosedChannel \<longleftrightarrow> cs_state (sy_fence y) \<in> {settlementFinished, settlementAbandoned})
    \<and> (cs_state (sy_fence y) = settlementAbandoned \<longrightarrow> sy_journal y = [] \<and> \<not> snd (CommittedOutcome (sy_fence y)))
    \<and> (\<forall>out. CommittedOutcome (sy_fence y) = (out, True) \<longrightarrow> (\<exists>c. sy_journal y = [(c, out, True)]))"
proof -
  have "settlement_inv y" using runs_start_inv [OF assms(2,1)] .
  then show ?thesis
    by (auto simp: settlement_inv_def CommittedOutcome_def busy_def Let_def split: settlementState.splits)
qed

lemma settled_act:
  assumes "settlement_inv y" "cs_done (sy_fence y) = ClosedChannel" "act a y = Some z"
  shows "cs_done (sy_fence z) = ClosedChannel \<and> CommittedOutcome (sy_fence z) = CommittedOutcome (sy_fence y)
    \<and> sy_journal z = sy_journal y"
proof -
  have st: "cs_state (sy_fence y) \<in> {settlementFinished, settlementAbandoned}" and q: "quiet y"
    using assms by (auto simp: settlement_inv_def Let_def split: settlementState.splits)
  show ?thesis using assms st q
    by (cases a)
      (auto simp: quiet_def run_enter_def on_fence_def Expire_def make_done_def Let_def split: if_splits)
qed

text \<open>Once the signal is closed the settlement is final: no later action of any caller changes the
  outcome a reader sees or adds a row to the journal.\<close>

theorem settlement_final:
  assumes "f \<in> {NewCommitSettlement, zero_settlement}" "runs (start f) as y"
    and "cs_done (sy_fence y) = ClosedChannel" "runs y bs z"
  shows "CommittedOutcome (sy_fence z) = CommittedOutcome (sy_fence y) \<and> sy_journal z = sy_journal y"
proof -
  have i: "settlement_inv y" using runs_start_inv [OF assms(2,1)] .
  have "cs_done (sy_fence z) = ClosedChannel \<and> CommittedOutcome (sy_fence z) = CommittedOutcome (sy_fence y)
      \<and> sy_journal z = sy_journal y"
    using assms(4,3) i
  proof (induction rule: runs.induct)
    case (more y as z a z')
    then show ?case using settled_act [of z a z'] runs_inv [of y as z] by simp
  qed simp
  then show ?thesis by blast
qed

lemma runs_trans: "runs y as z \<Longrightarrow> runs x bs y \<Longrightarrow> runs x (bs @ as) z"
proof (induction rule: runs.induct)
  case (more y as z a z')
  then show ?case using runs.more [of x "bs @ as" z a z'] by simp
qed simp

lemma runs_one: "act a y = Some z \<Longrightarrow> runs y [a] z"
  using runs.more [OF runs.here, of a y z] by simp

text \<open>Waiting on the signal ends: from every reachable state an expiry followed by the return of the
  append under way, whatever it returns, closes the signal, and no other caller has to move.\<close>

theorem expiry_settles:
  assumes "f \<in> {NewCommitSettlement, zero_settlement}" "runs (start f) as y"
  shows "\<exists>z. act ExpireNow y = Some z \<and>
    (cs_done (sy_fence z) = ClosedChannel
     \<or> (\<exists>c. \<forall>r wrote. (is_ok (run_result r) \<longrightarrow> wrote) \<longrightarrow>
          (\<exists>bs w. set bs \<subseteq> {Append c r wrote, Finish c} \<and> runs z bs w \<and> cs_done (sy_fence w) = ClosedChannel)))"
proof -
  have i: "settlement_inv y" using runs_start_inv [OF assms(2,1)] .
  obtain z where z: "act ExpireNow y = Some z" by simp
  have iz: "settlement_inv z" using expire_inv [OF i z] .
  show ?thesis
  proof (cases "cs_done (sy_fence z) = ClosedChannel")
    case False
    have "cs_state (sy_fence z) = settlementActive"
    proof (rule ccontr)
      assume "cs_state (sy_fence z) \<noteq> settlementActive"
      then have "cs_state (sy_fence z) = settlementIdle" using iz False
        by (auto simp: settlement_inv_def Let_def split: settlementState.splits)
      then show False using z i
        by (cases "cs_done (sy_fence y)")
          (auto simp: on_fence_def Expire_def make_done_def close_done_def settlement_inv_def Let_def split: if_splits)
    qed
    then have b: "busy z" and o: "cs_done (sy_fence z) = OpenChannel"
      using iz by (auto simp: settlement_inv_def Let_def)
    then obtain c o1 p where c: "sy_callers z c = Appending o1 p \<or> (\<exists>r. sy_callers z c = Deferred o1 p r)"
      by (auto simp: busy_def)
    have fin: "\<exists>w. act (Finish c) x = Some w \<and> cs_done (sy_fence w) = ClosedChannel"
      if "sy_callers x c = Deferred o1 p r" "cs_done (sy_fence x) = OpenChannel" for x r
      using that by (auto simp: on_fence_def run_finish_def close_done_def)
    have "\<exists>bs w. set bs \<subseteq> {Append c r wrote, Finish c} \<and> runs z bs w \<and> cs_done (sy_fence w) = ClosedChannel"
      if ok: "is_ok (run_result r) \<longrightarrow> wrote" for r wrote
      using c
    proof
      assume "\<exists>r. sy_callers z c = Deferred o1 p r"
      then obtain r' where "sy_callers z c = Deferred o1 p r'" by blast
      then obtain w where w: "act (Finish c) z = Some w" "cs_done (sy_fence w) = ClosedChannel"
        using fin [of z r'] o by blast
      have "runs z [Finish c] w" using w(1) by (rule runs_one)
      then show ?thesis using w(2) by (intro exI [of _ "[Finish c]"]) auto
    next
      assume a: "sy_callers z c = Appending o1 p"
      let ?x = "z\<lparr>sy_callers := (sy_callers z)(c := Deferred o1 p r), 
        sy_journal := (if wrote then sy_journal z @ [(c, o1, p)] else sy_journal z)\<rparr>"
      have s1: "act (Append c r wrote) z = Some ?x" using a ok by simp
      obtain w where w: "act (Finish c) ?x = Some w" "cs_done (sy_fence w) = ClosedChannel"
        using fin [of ?x r] o by auto
      have "runs z ([Append c r wrote] @ [Finish c]) w" using runs_trans [OF runs_one [OF w(1)] runs_one [OF s1]] .
      then show ?thesis using w(2) by (intro exI [of _ "[Append c r wrote, Finish c]"]) auto
    qed
    then show ?thesis using z by blast
  qed (use z in blast)
qed

section \<open>A run\<close>

fun play :: "action list \<Rightarrow> system \<Rightarrow> system option" where
  "play [] y = Some y"
| "play (a # as) y = Option.bind (act a y) (play as)"

lemma play_runs: "play as y = Some z \<Longrightarrow> runs y as z"
proof (induction "as" arbitrary: y)
  case (Cons a as)
  then obtain x where x: "act a y = Some x" "play as x = Some z" by (auto simp: bind_eq_Some_conv)
  show ?case using runs_trans [OF Cons.IH [OF x(2)] runs_one [OF x(1)]] by simp
qed (auto intro: runs.here)

text \<open>The host times out while the append is under way; the append then succeeds.\<close>

definition proceed_outcome :: Outcome where
  "proceed_outcome = ForDecision canonicalProceedContinuation ExitContinue []"

definition late_append :: "action list" where
  "late_append = [Enter 1 proceed_outcome True False, ExpireNow, Append 1 (AppendReturned 7) True, Finish 1]"

lemma late_append_runs:
  obtains y where "runs (start NewCommitSettlement) late_append y" "cs_done (sy_fence y) = ClosedChannel"
    "CommittedOutcome (sy_fence y) = (proceed_outcome, True)" "sy_journal y = [(1, proceed_outcome, True)]"
proof -
  obtain y where p: "play late_append (start NewCommitSettlement) = Some y" and "cs_done (sy_fence y) = ClosedChannel"
    "CommittedOutcome (sy_fence y) = (proceed_outcome, True)" "sy_journal y = [(1, proceed_outcome, True)]"
    by (simp add: late_append_def start_def NewCommitSettlement_def run_enter_def make_done_def proceed_outcome_def
        ForDecision_def on_fence_def Expire_def run_finish_def close_done_def run_committed_def run_result_def
        CommittedOutcome_def Let_def)
  then show thesis using that play_runs [OF p] by blast
qed

theorem settlement_safety_witness:
  "\<exists>y. runs (start NewCommitSettlement) late_append y \<and> \<not> sy_panic y \<and> (\<exists>c. sy_journal y = [(c, proceed_outcome, True)])"
proof -
  obtain y where y: "runs (start NewCommitSettlement) late_append y" "CommittedOutcome (sy_fence y) = (proceed_outcome, True)"
    by (rule late_append_runs)
  then show ?thesis using settlement_safety [OF _ y(1)] by blast
qed

theorem settlement_final_witness:
  "\<exists>y z. runs (start NewCommitSettlement) late_append y \<and> runs y [ExpireNow] z
     \<and> CommittedOutcome (sy_fence z) = (proceed_outcome, True) \<and> sy_journal z = [(1, proceed_outcome, True)]"
proof -
  obtain y where y: "runs (start NewCommitSettlement) late_append y" "cs_done (sy_fence y) = ClosedChannel"
    "CommittedOutcome (sy_fence y) = (proceed_outcome, True)" "sy_journal y = [(1, proceed_outcome, True)]"
    by (rule late_append_runs)
  have r: "runs y [ExpireNow] (on_fence y (Expire (sy_fence y)))" by (rule runs_one) simp
  show ?thesis using settlement_final [OF _ y(1,2) r] y r by auto
qed

theorem expiry_settles_witness:
  "\<exists>y z. runs (start NewCommitSettlement) [] y \<and> act ExpireNow y = Some z \<and> cs_done (sy_fence z) = ClosedChannel"
proof -
  have r: "runs (start NewCommitSettlement) [] (start NewCommitSettlement)" by (rule runs.here)
  obtain z where z: "act ExpireNow (start NewCommitSettlement) = Some z"
    using expiry_settles [OF _ r] by blast
  then have "cs_done (sy_fence z) = ClosedChannel"
    by (auto simp: start_def NewCommitSettlement_def on_fence_def Expire_def make_done_def close_done_def)
  then show ?thesis using r z by blast
qed

end
