(* ===== verification/WriteGate.thy ===== *)
theory WriteGate
  imports LifecycleProfiles
begin

text \<open>
  The write gate of the lifecycle journal (\<^verbatim>\<open>internal/lifecycle/gate/gate.go\<close> and \<^verbatim>\<open>refusal.go\<close>): the
  closed set of durable write classes, the intents that keep nothing but their class, the warrants
  only \<^verbatim>\<open>Legalize\<close> issues, and the check every commit surface makes first.  The lemmas show which
  requests reach which surface, refused ones with their reason, that a surface admits exactly the
  warrants the gate issued for a well-formed request of its class, and that the spelling of a class
  can be read back.
\<close>

section \<open>Write classes\<close>

definition MaxLinksPerOperation :: int where
  "MaxLinksPerOperation = 64"

datatype WriteClass =
    WriteClassZero | WriteDeliveryReceipt | WriteDefinitionActivation | WriteLineageLinks | WriteDisclosure
  | WriteClass_value nat

fun WriteClass_IsValid :: "WriteClass \<Rightarrow> bool" where
  "WriteClass_IsValid WriteClassZero = False"
| "WriteClass_IsValid (WriteClass_value _) = False"
| "WriteClass_IsValid _ = True"

fun WriteClass_String :: "WriteClass \<Rightarrow> string" where
  "WriteClass_String WriteDeliveryReceipt = ''delivery-receipt''"
| "WriteClass_String WriteDefinitionActivation = ''definition-activation''"
| "WriteClass_String WriteLineageLinks = ''lineage-links''"
| "WriteClass_String WriteDisclosure = ''disclosure''"
| "WriteClass_String _ = ''unknown-write-class''"

interpretation writeClass_tokens: token_enum WriteClass_IsValid WriteClass_String
  "[WriteDeliveryReceipt, WriteDefinitionActivation, WriteLineageLinks, WriteDisclosure]"
proof
  show "WriteClass_IsValid x \<longleftrightarrow> x \<in> set [WriteDeliveryReceipt, WriteDefinitionActivation, WriteLineageLinks, WriteDisclosure]" for x
    by (cases x) auto
qed auto

definition ParseWriteClass :: "string \<Rightarrow> WriteClass option" where
  "ParseWriteClass token =
     (if token = ''delivery-receipt'' then Some WriteDeliveryReceipt
      else if token = ''definition-activation'' then Some WriteDefinitionActivation
      else if token = ''lineage-links'' then Some WriteLineageLinks
      else if token = ''disclosure'' then Some WriteDisclosure
      else None)"

section \<open>Refusals\<close>

datatype RefusalReason = RefusalUnknownClass | RefusalInvalidIntent | RefusalClassMismatch

fun RefusalReason_String :: "RefusalReason \<Rightarrow> string" where
  "RefusalReason_String RefusalUnknownClass = ''unknown-class''"
| "RefusalReason_String RefusalInvalidIntent = ''invalid-intent''"
| "RefusalReason_String RefusalClassMismatch = ''class-mismatch''"

text \<open>A refusal without its prose.\<close>

record Refusal =
  rf_class :: WriteClass
  rf_reason :: RefusalReason

definition newRefusal :: "WriteClass \<Rightarrow> RefusalReason \<Rightarrow> Refusal" where
  "newRefusal class reason = \<lparr>rf_class = class, rf_reason = reason\<rparr>"

definition refuseInvalidIntent :: "WriteClass \<Rightarrow> Refusal" where
  "refuseInvalidIntent class = newRefusal class RefusalInvalidIntent"

section \<open>Intents\<close>

text \<open>An intent keeps its class and drops every coordinate; content identities are thirty-two bytes.\<close>

record WriteIntent = wi_class :: WriteClass

type_synonym ContentIdentity = string

definition zero_identity :: ContentIdentity where
  "zero_identity = replicate 32 (CHR 0x00)"

datatype DefinitionKind =
    DefinitionRuntimeContract | DefinitionLifecycleSchema | DefinitionMetamodel | DefinitionInterpreter
  | DefinitionEpochImplementation | DefinitionContextPolicy | DefinitionContextPacketSchema
  | DefinitionRetentionPolicy | DefinitionKind_value nat

fun IsEnvelopeDefinitionKind :: "DefinitionKind \<Rightarrow> bool" where
  "IsEnvelopeDefinitionKind DefinitionRuntimeContract = True"
| "IsEnvelopeDefinitionKind DefinitionLifecycleSchema = True"
| "IsEnvelopeDefinitionKind DefinitionInterpreter = True"
| "IsEnvelopeDefinitionKind DefinitionEpochImplementation = True"
| "IsEnvelopeDefinitionKind DefinitionRetentionPolicy = True"
| "IsEnvelopeDefinitionKind _ = False"

text \<open>A runtime contract identity is its text; identities are ASCII.\<close>

definition parseRuntimeContractID :: "string \<Rightarrow> Harness option" where
  "parseRuntimeContractID value =
     (if TrimSpace value \<noteq> value \<or> value = [] then None
      else if list_ex (\<lambda>c. is_space c \<or> (of_char c :: nat) < 32 \<or> (of_char c :: nat) = 127) value then None
      else find (\<lambda>h. HasPrefix value (h @ ''/'') \<and> length value > length h + 1)
        [HarnessClaudeCode, HarnessOpenCode, HarnessCodex])"

definition ContractID_IsValid :: "string \<Rightarrow> bool" where
  "ContractID_IsValid value \<longleftrightarrow> parseRuntimeContractID value \<noteq> None"

definition NewDeliveryIntent :: "string \<Rightarrow> nat \<Rightarrow> Refusal + WriteIntent" where
  "NewDeliveryIntent contract event =
     (if \<not> ContractID_IsValid contract then Err (refuseInvalidIntent WriteDeliveryReceipt)
      else if event = 0 then Err (refuseInvalidIntent WriteDeliveryReceipt)
      else Ok \<lparr>wi_class = WriteDeliveryReceipt\<rparr>)"

definition NewDefinitionActivationIntent :: "ContentIdentity \<Rightarrow> Refusal + WriteIntent" where
  "NewDefinitionActivationIntent content =
     (if content = zero_identity then Err (refuseInvalidIntent WriteDefinitionActivation)
      else Ok \<lparr>wi_class = WriteDefinitionActivation\<rparr>)"

definition NewEnvelopeDefinitionActivationIntent :: "DefinitionKind \<Rightarrow> ContentIdentity \<Rightarrow> Refusal + WriteIntent" where
  "NewEnvelopeDefinitionActivationIntent kind content =
     (if \<not> IsEnvelopeDefinitionKind kind \<or> content = zero_identity
      then Err (refuseInvalidIntent WriteDefinitionActivation)
      else Ok \<lparr>wi_class = WriteDefinitionActivation\<rparr>)"

definition NewLineageIntent :: "Harness \<Rightarrow> int \<Rightarrow> Refusal + WriteIntent" where
  "NewLineageIntent harness links =
     (if \<not> Harness_IsValid harness then Err (refuseInvalidIntent WriteLineageLinks)
      else if links < 1 \<or> links > MaxLinksPerOperation then Err (refuseInvalidIntent WriteLineageLinks)
      else Ok \<lparr>wi_class = WriteLineageLinks\<rparr>)"

definition NewDisclosureIntent :: "ContentIdentity \<Rightarrow> Refusal + WriteIntent" where
  "NewDisclosureIntent scope =
     (if scope = zero_identity then Err (refuseInvalidIntent WriteDisclosure)
      else Ok \<lparr>wi_class = WriteDisclosure\<rparr>)"

section \<open>Warrants\<close>

record Warrant =
  wt_class :: WriteClass
  wt_issued :: bool

definition zero_warrant :: Warrant where
  "zero_warrant = \<lparr>wt_class = WriteClassZero, wt_issued = False\<rparr>"

definition Warrant_IsValid :: "Warrant \<Rightarrow> bool" where
  "Warrant_IsValid w \<longleftrightarrow> wt_issued w \<and> WriteClass_IsValid (wt_class w)"

definition Legalize :: "WriteIntent \<Rightarrow> Refusal + Warrant" where
  "Legalize intent =
     (if \<not> WriteClass_IsValid (wi_class intent) then Err (newRefusal (wi_class intent) RefusalUnknownClass)
      else Ok \<lparr>wt_class = wi_class intent, wt_issued = True\<rparr>)"

definition Authorize :: "Warrant \<Rightarrow> WriteClass \<Rightarrow> Refusal option" where
  "Authorize warrant expected =
     (if \<not> WriteClass_IsValid expected then Some (newRefusal expected RefusalUnknownClass)
      else if \<not> Warrant_IsValid warrant then Some (newRefusal expected RefusalInvalidIntent)
      else if wt_class warrant \<noteq> expected then Some (newRefusal (wt_class warrant) RefusalClassMismatch)
      else None)"

section \<open>Only a legalised intent opens a commit surface\<close>

text \<open>What a caller may ask the gate for: the coordinates it hands to one of the five constructors.\<close>

datatype write_request =
    DeliveryRequest string nat
  | DefinitionRequest ContentIdentity
  | EnvelopeRequest DefinitionKind ContentIdentity
  | LineageRequest Harness int
  | DisclosureRequest ContentIdentity

fun intent_of :: "write_request \<Rightarrow> Refusal + WriteIntent" where
  "intent_of (DeliveryRequest contract event) = NewDeliveryIntent contract event"
| "intent_of (DefinitionRequest content) = NewDefinitionActivationIntent content"
| "intent_of (EnvelopeRequest kind content) = NewEnvelopeDefinitionActivationIntent kind content"
| "intent_of (LineageRequest harness links) = NewLineageIntent harness links"
| "intent_of (DisclosureRequest scope) = NewDisclosureIntent scope"

fun request_class :: "write_request \<Rightarrow> WriteClass" where
  "request_class (DeliveryRequest _ _) = WriteDeliveryReceipt"
| "request_class (DefinitionRequest _) = WriteDefinitionActivation"
| "request_class (EnvelopeRequest _ _) = WriteDefinitionActivation"
| "request_class (LineageRequest _ _) = WriteLineageLinks"
| "request_class (DisclosureRequest _) = WriteDisclosure"

text \<open>The warrant of a request, and the way of a request to a commit surface: every writer constructs its
  intent, has it legalised and presents the warrant, and the surface makes its check.\<close>

definition warrant_for :: "write_request \<Rightarrow> Refusal + Warrant" where
  "warrant_for q = result_bind (intent_of q) Legalize"

definition surface_admission :: "write_request \<Rightarrow> WriteClass \<Rightarrow> Refusal option" where
  "surface_admission q surface =
     (case warrant_for q of Err r \<Rightarrow> Some r | Ok w \<Rightarrow> Authorize w surface)"

text \<open>The specification of a well-formed request: a delivery names a contract of one of the three hosts,
  a slash and a non-empty profile without white space or control characters, and an event; a content
  identity is not all zeros; an envelope is of one of the five document kinds; a lineage write has
  between one and sixty-four links.\<close>

fun well_formed :: "write_request \<Rightarrow> bool" where
  "well_formed (DeliveryRequest contract event) \<longleftrightarrow> event \<noteq> 0 \<and>
     (\<exists>host \<in> {''claude-code'', ''opencode'', ''codex''}. \<exists>profile. contract = host @ ''/'' @ profile \<and>
        profile \<noteq> [] \<and> (\<forall>c \<in> set profile. 32 < (of_char c :: nat) \<and> (of_char c :: nat) \<noteq> 127))"
| "well_formed (DefinitionRequest content) \<longleftrightarrow> content \<noteq> zero_identity"
| "well_formed (EnvelopeRequest kind content) \<longleftrightarrow> content \<noteq> zero_identity \<and>
     kind \<in> {DefinitionRuntimeContract, DefinitionLifecycleSchema, DefinitionInterpreter,
       DefinitionEpochImplementation, DefinitionRetentionPolicy}"
| "well_formed (LineageRequest harness links) \<longleftrightarrow>
     harness \<in> {''claude-code'', ''opencode'', ''codex''} \<and> 1 \<le> links \<and> links \<le> 64"
| "well_formed (DisclosureRequest scope) \<longleftrightarrow> scope \<noteq> zero_identity"

lemma HasPrefix_split: "HasPrefix s p \<longleftrightarrow> (\<exists>t. s = p @ t)"
  unfolding HasPrefix_def by (metis append_eq_conv_conj append_take_drop_id)

text \<open>The parser of contract identities accepts exactly the texts of the specification.\<close>

lemma contract_char_iff:
  "\<not> (is_space c \<or> (of_char c :: nat) < 32 \<or> (of_char c :: nat) = 127) \<longleftrightarrow>
     32 < (of_char c :: nat) \<and> (of_char c :: nat) \<noteq> 127"
  by (auto simp: is_space_def Let_def)

lemma ContractID_IsValid_iff:
  "ContractID_IsValid value \<longleftrightarrow>
     (\<exists>host \<in> {''claude-code'', ''opencode'', ''codex''}. \<exists>profile. value = host @ ''/'' @ profile \<and>
        profile \<noteq> [] \<and> (\<forall>c \<in> set profile. 32 < (of_char c :: nat) \<and> (of_char c :: nat) \<noteq> 127))"
  (is "_ \<longleftrightarrow> (\<exists>host \<in> ?hosts. ?ok host)")
proof -
  let ?good = "\<lambda>c. 32 < (of_char c :: nat) \<and> (of_char c :: nat) \<noteq> 127"
  have chars: "list_ex (\<lambda>c. is_space c \<or> (of_char c :: nat) < 32 \<or> (of_char c :: nat) = 127) value
      \<longleftrightarrow> \<not> (\<forall>c \<in> set value. ?good c)"
    unfolding list_ex_iff using contract_char_iff by blast
  have trim: "TrimSpace value = value" if "\<forall>c \<in> set value. ?good c"
  proof -
    have "\<not> is_space c" if "c \<in> set value" for c
      using \<open>\<forall>c \<in> set value. ?good c\<close> that contract_char_iff [of c] by blast
    then show ?thesis using hd_in_set last_in_set by (intro TrimSpace_id) blast
  qed
  have host: "(\<forall>c \<in> set host. ?good c)" if "host \<in> ?hosts" for host :: string
    using that by auto
  have "ContractID_IsValid value \<longleftrightarrow> (\<forall>c \<in> set value. ?good c) \<and>
      (\<exists>host \<in> ?hosts. HasPrefix value (host @ ''/'') \<and> length value > length host + 1)"
    unfolding ContractID_IsValid_def parseRuntimeContractID_def chars
    using trim by (auto simp: find_None_iff HarnessClaudeCode_def HarnessOpenCode_def HarnessCodex_def)
  also have "\<dots> \<longleftrightarrow> (\<exists>host \<in> ?hosts. ?ok host)"
    using host by (fastforce simp: HasPrefix_split)
  finally show ?thesis .
qed

lemma intent_of_eq:
  "intent_of q = (if well_formed q then Ok \<lparr>wi_class = request_class q\<rparr>
     else Err \<lparr>rf_class = request_class q, rf_reason = RefusalInvalidIntent\<rparr>)"
proof (cases q)
  case (DeliveryRequest contract event)
  then show ?thesis
    by (simp add: NewDeliveryIntent_def ContractID_IsValid_iff refuseInvalidIntent_def newRefusal_def)
next
  case (EnvelopeRequest kind content)
  then show ?thesis
    by (cases kind) (simp_all add: NewEnvelopeDefinitionActivationIntent_def refuseInvalidIntent_def newRefusal_def)
next
  case (LineageRequest harness links)
  then show ?thesis
    by (auto simp: NewLineageIntent_def MaxLinksPerOperation_def Harness_IsValid_def HarnessClaudeCode_def
        HarnessOpenCode_def HarnessCodex_def refuseInvalidIntent_def newRefusal_def)
qed (simp_all add: NewDefinitionActivationIntent_def NewDisclosureIntent_def refuseInvalidIntent_def newRefusal_def)

lemma request_class_valid: "WriteClass_IsValid (request_class q)"
  by (cases q) simp_all

lemma warrant_for_eq:
  "warrant_for q = (if well_formed q then Ok \<lparr>wt_class = request_class q, wt_issued = True\<rparr>
     else Err \<lparr>rf_class = request_class q, rf_reason = RefusalInvalidIntent\<rparr>)"
  by (simp add: warrant_for_def intent_of_eq Legalize_def request_class_valid)

lemma Authorize_None_iff:
  "Authorize w c = None \<longleftrightarrow> WriteClass_IsValid c \<and> w = \<lparr>wt_class = c, wt_issued = True\<rparr>"
  by (cases w) (auto simp: Authorize_def Warrant_IsValid_def)

lemma not_zero_identity: "''x'' \<noteq> zero_identity"
  by (simp add: zero_identity_def numeral_eq_Suc)

text \<open>Every class has a well-formed request.\<close>

lemma class_has_request:
  assumes "WriteClass_IsValid c"
  shows "\<exists>q. well_formed q \<and> request_class q = c"
proof -
  have delivery: "well_formed (DeliveryRequest ''codex/x'' 1)"
  proof -
    have "ContractID_IsValid ''codex/x''" by code_simp
    then show ?thesis unfolding ContractID_IsValid_iff by (simp only: well_formed.simps) simp
  qed
  have others: "well_formed (DefinitionRequest ''x'')" "well_formed (LineageRequest ''codex'' 1)"
    "well_formed (DisclosureRequest ''x'')"
    by (simp_all add: not_zero_identity)
  show ?thesis
  proof (cases c)
    case WriteDeliveryReceipt
    then show ?thesis using delivery by (metis request_class.simps(1))
  next
    case WriteDefinitionActivation
    then show ?thesis using others(1) by (metis request_class.simps(2))
  next
    case WriteLineageLinks
    then show ?thesis using others(2) by (metis request_class.simps(4))
  next
    case WriteDisclosure
    then show ?thesis using others(3) by (metis request_class.simps(5))
  qed (use assms in auto)
qed

text \<open>C32: A request reaches a commit surface exactly when it is well formed and of the class of that surface:
  a delivery without a valid contract or without an event, an empty or oversized lineage, a zero
  identity and a foreign document kind are refused as invalid intents, and a well-formed request at
  another surface as a misrouted one.  The surface itself admits exactly the warrants the gate issued
  for a well-formed request of its class; an unissued warrant, one of another class and an
  unenumerated class are each refused for their own reason; the spelling of a class reads back to it
  and to nothing else.\<close>

theorem write_gate:
  "surface_admission q c =
     (if \<not> well_formed q then Some \<lparr>rf_class = request_class q, rf_reason = RefusalInvalidIntent\<rparr>
      else if \<not> WriteClass_IsValid c then Some \<lparr>rf_class = c, rf_reason = RefusalUnknownClass\<rparr>
      else if request_class q \<noteq> c then Some \<lparr>rf_class = request_class q, rf_reason = RefusalClassMismatch\<rparr>
      else None)
   \<and> (Authorize w c = None \<longleftrightarrow> (\<exists>p. well_formed p \<and> request_class p = c \<and> warrant_for p = Ok w))
   \<and> (\<forall>r. Authorize w c = Some r \<longrightarrow>
        rf_reason r = (if \<not> WriteClass_IsValid c then RefusalUnknownClass
          else if \<not> Warrant_IsValid w then RefusalInvalidIntent else RefusalClassMismatch))
   \<and> Authorize zero_warrant c \<noteq> None
   \<and> (ParseWriteClass t = Some c \<longleftrightarrow> WriteClass_IsValid c \<and> WriteClass_String c = t)"
proof (intro conjI)
  show "surface_admission q c =
     (if \<not> well_formed q then Some \<lparr>rf_class = request_class q, rf_reason = RefusalInvalidIntent\<rparr>
      else if \<not> WriteClass_IsValid c then Some \<lparr>rf_class = c, rf_reason = RefusalUnknownClass\<rparr>
      else if request_class q \<noteq> c then Some \<lparr>rf_class = request_class q, rf_reason = RefusalClassMismatch\<rparr>
      else None)"
    by (simp add: surface_admission_def warrant_for_eq Authorize_def Warrant_IsValid_def request_class_valid newRefusal_def)
  show "Authorize w c = None \<longleftrightarrow> (\<exists>p. well_formed p \<and> request_class p = c \<and> warrant_for p = Ok w)"
  proof
    assume "Authorize w c = None"
    then have "WriteClass_IsValid c" and w: "w = \<lparr>wt_class = c, wt_issued = True\<rparr>"
      by (simp_all add: Authorize_None_iff)
    then obtain p where "well_formed p" "request_class p = c" using class_has_request by blast
    then show "\<exists>p. well_formed p \<and> request_class p = c \<and> warrant_for p = Ok w"
      using w by (intro exI [of _ p]) (simp add: warrant_for_eq)
  next
    assume "\<exists>p. well_formed p \<and> request_class p = c \<and> warrant_for p = Ok w"
    then obtain p where "well_formed p" "request_class p = c" "warrant_for p = Ok w" by blast
    then show "Authorize w c = None" using request_class_valid [of p]
      by (simp add: Authorize_None_iff warrant_for_eq)
  qed
  show "\<forall>r. Authorize w c = Some r \<longrightarrow>
        rf_reason r = (if \<not> WriteClass_IsValid c then RefusalUnknownClass
          else if \<not> Warrant_IsValid w then RefusalInvalidIntent else RefusalClassMismatch)"
    by (auto simp: Authorize_def newRefusal_def)
  show "Authorize zero_warrant c \<noteq> None" by (simp add: Authorize_def zero_warrant_def Warrant_IsValid_def)
  show "ParseWriteClass t = Some c \<longleftrightarrow> WriteClass_IsValid c \<and> WriteClass_String c = t"
    by (cases c) (auto simp: ParseWriteClass_def)
qed

text \<open>A lineage of sixty-five links is refused before any surface; one of sixty-four opens the surface of
  its class and no other.\<close>

theorem write_gate_witness:
  "surface_admission (LineageRequest ''codex'' 65) WriteLineageLinks
     = Some \<lparr>rf_class = WriteLineageLinks, rf_reason = RefusalInvalidIntent\<rparr> \<and>
   surface_admission (LineageRequest ''codex'' 64) WriteLineageLinks = None \<and>
   (\<exists>r. Authorize \<lparr>wt_class = WriteDeliveryReceipt, wt_issued = True\<rparr> WriteDisclosure = Some r
     \<and> rf_reason r = RefusalClassMismatch)"
proof -
  let ?w = "\<lparr>wt_class = WriteDeliveryReceipt, wt_issued = True\<rparr>"
  obtain r where r: "Authorize ?w WriteDisclosure = Some r"
    by (cases "Authorize ?w WriteDisclosure") (simp_all add: Authorize_None_iff)
  moreover have "Warrant_IsValid ?w" by (simp add: Warrant_IsValid_def)
  ultimately have "rf_reason r = RefusalClassMismatch"
    using write_gate [of "LineageRequest ''codex'' 65" WriteDisclosure ?w] by simp
  then show ?thesis
    using r write_gate [of "LineageRequest ''codex'' 65" WriteLineageLinks]
      write_gate [of "LineageRequest ''codex'' 64" WriteLineageLinks]
    by simp
qed

end
