(* ===== verification/HookDelivery.thy ===== *)
theory HookDelivery
  imports Waist Settlement WriteGate
begin

text \<open>
  One delivery of a lifecycle hook (\<^verbatim>\<open>internal/handlers/hook_lifecycle.go\<close>): the dispatch rows, admission,
  the gate evaluation, the shared commit tail and the native entry, with the legalisation and the
  derivation it calls (\<^verbatim>\<open>internal/lifecycle/legalize\<close>, \<^verbatim>\<open>internal/lifecycle/middleend\<close>) and the receipt
  write behind the settlement fence (\<^verbatim>\<open>internal/lifecycle/receipt/service.go\<close>).  Errors are causes
  wrapped in the sentinels the command reads.  What the delivery asks of code that is not modelled
  (the per-host parsers, the activation catalogue, the stores, the preparation of the
  journal operation) are arguments.  The lemmas show that the evidence of a delivery and the outcome
  of its host carry one decision, and that each sentinel is true of the journal.
\<close>

section \<open>Errors\<close>

datatype sentinel =
    ErrLifecycleCommittedWithoutContinuation
  | ErrLifecycleDeliveryRefused
  | ErrLifecycleBeforeDurableWrite
  | ErrLifecycleWorkPanicked

datatype hook_cause =
    IncompleteWiring
  | UnsupportedHarness Harness
  | ActivationFailed
  | MissingHostVersion
  | UndeclaredVersionSource
  | UnknownNativeEvent string
  | EventWithheld string
  | PayloadUnreadable
  | EmptyPayload
  | OversizedPayload
  | InconsistentCapture
  | StoreFault
  | ServiceFault
  | WriteRefused Refusal
  | UnbindableCapture
  | NoImmutableMapping string
  | NoActionClass string
  | AmbiguousSession session_error
  | GateFault gate_fault
  | PolicyFault policy_error
  | PolicyRefused RefusalKind
  | EmptyPolicyResult
  | NoEvaluatedDecision
  | MetamodelFault
  | BindFault waist_error
  | DerivationFault
  | DecisionForObservation
  | FaultAsConsultation
  | NativeFault native_error
  | ResponseFault decision_error
  | ForeignEffects
  | PreparationFault
  | SettlementRefused settlement_error
  | SessionTailFault
  | BarrierFault
  | NoPublishedOutcome
  | HandlerPanic
  | LaneNotAdmitted
  | BatchNotDurable

datatype hook_error = Plain hook_cause | Wrapped sentinel hook_error

fun errors_Is :: "hook_error \<Rightarrow> sentinel \<Rightarrow> bool" where
  "errors_Is (Plain _) s = False"
| "errors_Is (Wrapped t e) s = (t = s \<or> errors_Is e s)"

abbreviation refuse :: "hook_cause \<Rightarrow> hook_error + 'a" where
  "refuse c \<equiv> Err (Plain c)"

section \<open>Dispatch\<close>

fun mappingLookup :: "'e LifecycleContract \<Rightarrow> 'e list \<Rightarrow> string \<Rightarrow> hook_error + LifecycleEventMapping" where
  "mappingLookup c [] name = refuse (NoImmutableMapping name)"
| "mappingLookup c (e # es) name =
     (case Contract_Mapping c e of
        Err _ \<Rightarrow> refuse (NoImmutableMapping name)
      | Ok m \<Rightarrow> if lm_nativeName m = name then Ok m else mappingLookup c es name)"

record lifecycleDispatch =
  dp_name :: string
  dp_manifest :: Manifest
  dp_mapping :: "string \<Rightarrow> hook_error + LifecycleEventMapping"
  dp_bind :: "ContractEventKind \<Rightarrow> NativeBinding list \<Rightarrow> waist_error + (EventBinding \<times> waist_Identity list)"
  dp_encode :: "LifecycleEventMapping \<Rightarrow> HostResponse \<Rightarrow> native_error + Outcome"

definition dispatch_row :: "string \<Rightarrow> Manifest option \<Rightarrow> 'e LifecycleContract option \<Rightarrow> 'e Host
    \<Rightarrow> (LifecycleEventMapping \<Rightarrow> HostResponse \<Rightarrow> native_error + Outcome) \<Rightarrow> lifecycleDispatch option" where
  "dispatch_row name manifest contract host encode =
     (case (manifest, contract) of
        (Some mf, Some c) \<Rightarrow> Some \<lparr>dp_name = name, dp_manifest = mf, dp_mapping = mappingLookup c (lc_events c),
                                dp_bind = Bind host, dp_encode = encode\<rparr>
      | _ \<Rightarrow> None)"

definition claudeDispatch :: "lifecycleDispatch option" where
  "claudeDispatch = dispatch_row ''Claude'' ClaudeCode__2_1_261 ClaudeCode2_1_261Lifecycle claude_host EncodeClaude"

definition openCodeDispatch :: "lifecycleDispatch option" where
  "openCodeDispatch = dispatch_row ''OpenCode'' OpenCode__1_18_29 OpenCode1_18_29Lifecycle opencode_host EncodeOpenCode"

definition codexDispatch :: "lifecycleDispatch option" where
  "codexDispatch = dispatch_row ''Codex'' Codex__0_153_0 Codex0_153_0Lifecycle codex_host EncodeCodex"

definition openCodeV2Dispatch :: "lifecycleDispatch option" where
  "openCodeV2Dispatch = dispatch_row ''OpenCode'' OpenCode__2_0_20 OpenCode2_0_20Lifecycle hostV2 EncodeOpenCode"

definition frontendRegistry :: "Harness \<Rightarrow> lifecycleDispatch option" where
  "frontendRegistry h =
     (if h = HarnessClaudeCode then claudeDispatch
      else if h = HarnessOpenCode then openCodeDispatch
      else if h = HarnessCodex then codexDispatch
      else None)"

definition openCodeV2FloorReached :: "string \<Rightarrow> bool" where
  "openCodeV2FloorReached hostVersion =
     (case ParseHostVersion (TrimSpace hostVersion) of
        Err _ \<Rightarrow> False
      | Ok version \<Rightarrow> (case OpenCode2_0_20 of None \<Rightarrow> False | Some c \<Rightarrow> Allows (rc_versions c) version))"

definition dispatchLifecycle :: "Harness \<Rightarrow> hook_error + lifecycleDispatch" where
  "dispatchLifecycle harness =
     (case frontendRegistry harness of None \<Rightarrow> refuse (UnsupportedHarness harness) | Some d \<Rightarrow> Ok d)"

definition dispatchLifecycleFor :: "Harness \<Rightarrow> string \<Rightarrow> hook_error + lifecycleDispatch" where
  "dispatchLifecycleFor harness hostVersion =
     (case openCodeV2Dispatch of
        Some d \<Rightarrow> if harness = HarnessOpenCode \<and> openCodeV2FloorReached hostVersion then Ok d else dispatchLifecycle harness
      | None \<Rightarrow> dispatchLifecycle harness)"

section \<open>Admission\<close>

datatype CaptureDisposition =
    CaptureValid | CaptureMalformed | CaptureDuplicateField | CaptureInvalidUTF8 | CaptureTruncated
  | CaptureOverLimit | CaptureUnsupportedSchema | CaptureEventMismatch

record Delivery =
  dl_Contract :: string
  dl_Event :: ContractEventKind
  dl_Bindings :: "NativeBinding list"
  dl_Capture :: CaptureDisposition

record lifecycleCapture =
  cp_disposition :: CaptureDisposition
  cp_causeAgrees :: bool
  cp_delivery :: Delivery

definition HostVersionSource_IsValid :: "string \<Rightarrow> bool" where
  "HostVersionSource_IsValid s \<longleftrightarrow> s \<in> {[], ''caller-supplied'', ''executable-query''}"

definition EventByNativeName :: "Manifest \<Rightarrow> string \<Rightarrow> Event option" where
  "EventByNativeName manifest name = find (\<lambda>e. ev_NativeName e = name) (mf_Events manifest)"

definition activationFor :: "ContractEventKind \<Rightarrow> (ContractEventKind \<times> bool) list \<Rightarrow> bool option" where
  "activationFor kind entries = map_of entries kind"

definition MaxNativePayloadBytes :: nat where
  "MaxNativePayloadBytes = 1048576"

text \<open>The invocation: its coordinates, the activation catalogue of its harness or an override (an entry is
  an event and whether it is enabled), the payload the bounded read returns and the parser.\<close>

record lifecycleAdmission =
  ad_Harness :: Harness
  ad_Event :: string
  ad_HostVersion :: string
  ad_HostVersionSource :: string
  ad_Catalogue :: "(ContractEventKind \<times> bool) list option"
  ad_Activations :: "(ContractEventKind \<times> bool) list option"
  ad_Payload :: "string option"
  ad_parse :: "string \<Rightarrow> Event \<Rightarrow> string \<Rightarrow> lifecycleCapture"

definition limit_reader :: "string \<Rightarrow> string" where
  "limit_reader raw = take (MaxNativePayloadBytes + 1) raw"

definition prepareLifecycleDelivery :: "lifecycleAdmission \<Rightarrow> hook_error + (lifecycleDispatch \<times> Event \<times> lifecycleCapture)" where
  "prepareLifecycleDelivery a =
     result_bind (dispatchLifecycleFor (ad_Harness a) (ad_HostVersion a)) (\<lambda>dispatch.
       case ad_Catalogue a of
         None \<Rightarrow> refuse ActivationFailed
       | Some catalogue \<Rightarrow>
           let activations = (case ad_Activations a of None \<Rightarrow> catalogue | Some override \<Rightarrow> override) in
           if TrimSpace (ad_HostVersion a) = [] then refuse MissingHostVersion
           else if \<not> HostVersionSource_IsValid (ad_HostVersionSource a) then refuse UndeclaredVersionSource
           else case EventByNativeName (dp_manifest dispatch) (ad_Event a) of
               None \<Rightarrow> refuse (UnknownNativeEvent (ad_Event a))
             | Some event \<Rightarrow>
                 if activationFor (ev_Kind event) activations \<noteq> Some True then refuse (EventWithheld (ev_NativeName event))
                 else case ad_Payload a of
                     None \<Rightarrow> refuse PayloadUnreadable
                   | Some stream \<Rightarrow>
                       let raw = limit_reader stream in
                       if raw = [] then refuse EmptyPayload
                       else if length raw > MaxNativePayloadBytes then refuse OversizedPayload
                       else let capture = ad_parse a raw event (ad_HostVersion a) in
                         if \<not> cp_causeAgrees capture then refuse InconsistentCapture
                         else Ok (dispatch, event, capture))"

section \<open>The gate\<close>

definition evaluateGate :: "gate_store \<Rightarrow> role_decoders \<Rightarrow> lifecycleDispatch \<Rightarrow> Event \<Rightarrow> NativeBinding list \<Rightarrow> Harness
    \<Rightarrow> hook_error + Decision option" where
  "evaluateGate st dec dispatch event bindings harness =
     result_bind (dp_mapping dispatch (ev_NativeName event)) (\<lambda>mapping.
       if lm_semantic mapping = SemanticObservation then Ok None
       else case ClassForEvent harness (ev_NativeName event) of
           None \<Rightarrow> refuse (NoActionClass (ev_NativeName event))
         | Some action \<Rightarrow>
             (case lifecycleSession bindings of
                Err e \<Rightarrow> refuse (AmbiguousSession e)
              | Ok session \<Rightarrow>
                  (case Snapshot st dec harness session of
                     Err f \<Rightarrow> refuse (GateFault f)
                   | Ok snap \<Rightarrow>
                       (case ResolveSession snap harness session of
                          Err f \<Rightarrow> refuse (GateFault f)
                        | Ok claim \<Rightarrow>
                            (case (if cl_Bound claim then Authority snap (cl_Actor claim) else Ok no_authority) of
                               Err f \<Rightarrow> refuse (GateFault f)
                             | Ok authority \<Rightarrow>
                                 (case Decide \<lparr>in_Event = ev_Kind event, in_Action = action, in_Semantic = lm_semantic mapping,
                                       in_StopLoop = lm_stopLoop mapping, in_Capability = lm_response mapping,
                                       in_Claim = claim, in_Authority = authority\<rparr> of
                                    Err e \<Rightarrow> refuse (PolicyFault e)
                                  | Ok result \<Rightarrow>
                                      (case Result_Refusal result of
                                         Some k \<Rightarrow> refuse (PolicyRefused k)
                                       | None \<Rightarrow>
                                           (case Result_Decision result of
                                              None \<Rightarrow> refuse EmptyPolicyResult
                                            | Some d \<Rightarrow> Ok (Some d)))))))))"

section \<open>Legalisation and derivation\<close>

record legalize_Result =
  lr_semantic :: EventSemantic
  lr_legalized :: bool
  lr_noAuthority :: bool

definition legalize_Event :: "EventSemantic \<Rightarrow> legalize_Result option" where
  "legalize_Event semantic =
     (case semantic of
        SemanticObservation \<Rightarrow> Some \<lparr>lr_semantic = semantic, lr_legalized = False, lr_noAuthority = False\<rparr>
      | SemanticGateConsultation \<Rightarrow> Some \<lparr>lr_semantic = semantic, lr_legalized = True, lr_noAuthority = False\<rparr>
      | SemanticExplicitHumanResponse \<Rightarrow> Some \<lparr>lr_semantic = semantic, lr_legalized = False, lr_noAuthority = True\<rparr>
      | EventSemantic_value _ \<Rightarrow> None)"

text \<open>The prepared evidence of an event: its interpretation and, for a gate, a consultation with a decision.\<close>

datatype effect = InterpretedEffect | ConsultationEffect Decision

record Derivation =
  dv_effects :: "effect list"
  dv_response :: HostResponse

definition BuildConsultation :: "effect \<times> HostResponse" where
  "BuildConsultation =
     (let d = \<lparr>d_kind = DecisionProceed, d_reason = ReasonLegal\<rparr> in
      (ConsultationEffect d, \<lparr>hr_decision = d, hr_fault = False, hr_constructed = True\<rparr>))"

definition Derive :: "EventSemantic \<Rightarrow> Derivation option" where
  "Derive semantic =
     (case legalize_Event semantic of
        None \<Rightarrow> None
      | Some result \<Rightarrow>
          (case lr_semantic result of
             SemanticObservation \<Rightarrow> Some \<lparr>dv_effects = [InterpretedEffect], dv_response = zero_response\<rparr>
           | SemanticGateConsultation \<Rightarrow>
               if \<not> lr_legalized result then None
               else let (consultation, response) = BuildConsultation in
                 Some \<lparr>dv_effects = [InterpretedEffect, consultation], dv_response = response\<rparr>
           | SemanticExplicitHumanResponse \<Rightarrow>
               if \<not> lr_noAuthority result then None
               else Some \<lparr>dv_effects = [InterpretedEffect], dv_response = zero_response\<rparr>
           | EventSemantic_value _ \<Rightarrow> None))"

definition ReplaceConsultationDecision :: "effect list \<Rightarrow> Decision \<Rightarrow> effect list option" where
  "ReplaceConsultationDecision effects d =
     (if length effects \<noteq> 2 \<or> \<not> Decision_IsValid d then None
      else case effects of
          [InterpretedEffect, ConsultationEffect _] \<Rightarrow> Some [InterpretedEffect, ConsultationEffect d]
        | _ \<Rightarrow> None)"

section \<open>The commit tail\<close>

record preparedDelivery =
  pd_response :: HostResponse
  pd_effects :: "effect list"
  pd_outcome :: Outcome

definition prepareDelivery :: "lifecycleDispatch \<Rightarrow> Event \<Rightarrow> Derivation \<Rightarrow> Decision option \<Rightarrow> hook_error + preparedDelivery" where
  "prepareDelivery dispatch event derivation decision =
     result_bind (dp_mapping dispatch (ev_NativeName event)) (\<lambda>mapping.
       let response = dv_response derivation; effects = dv_effects derivation in
       result_bind
         (if decision \<noteq> None \<and> \<not> HostResponse_IsValid response then refuse DecisionForObservation
          else if HostResponse_IsValid response then
            (case HostResponse_Value response of
               (derived, ok) \<Rightarrow>
                 if \<not> ok then refuse FaultAsConsultation
                 else case NormalizeDecision mapping (case decision of Some d \<Rightarrow> d | None \<Rightarrow> derived) of
                     Err e \<Rightarrow> refuse (NativeFault e)
                   | Ok final \<Rightarrow>
                       (case NewHostResponse final of
                          Err e \<Rightarrow> refuse (ResponseFault e)
                        | Ok r \<Rightarrow>
                            (case ReplaceConsultationDecision effects final of
                               None \<Rightarrow> refuse ForeignEffects
                             | Some es \<Rightarrow> Ok (r, es))))
          else Ok (response, effects))
         (\<lambda>(response, effects).
            case dp_encode dispatch mapping response of
              Err e \<Rightarrow> refuse (NativeFault e)
            | Ok outcome \<Rightarrow> Ok \<lparr>pd_response = response, pd_effects = effects, pd_outcome = outcome\<rparr>))"

definition deliveryWarrant :: "Delivery \<Rightarrow> hook_error + Warrant" where
  "deliveryWarrant delivery =
     (case NewDeliveryIntent (dl_Contract delivery) (dl_Event delivery) of
        Err r \<Rightarrow> refuse (WriteRefused r)
      | Ok intent \<Rightarrow> (case Legalize intent of Err r \<Rightarrow> refuse (WriteRefused r) | Ok w \<Rightarrow> Ok w))"

text \<open>A delivery acts on its settlement fence and on the occurrence journal; a row keeps the outcome it was
  committed with, whether that outcome is published, and its effects.\<close>

record hook_state =
  hk_fence :: CommitSettlement
  hk_journal :: "(Outcome \<times> bool \<times> effect list) list"

text \<open>What the receipt write meets past its warrant: whether the operation could be prepared, whether the
  context was already cancelled, what the appender returned and whether it wrote the row.\<close>

record receipt_env =
  re_prepared :: bool
  re_cancelled :: bool
  re_append :: append_result
  re_wrote :: bool

definition Receive :: "receipt_env \<Rightarrow> hook_state \<Rightarrow> Warrant \<Rightarrow> Delivery \<Rightarrow> effect list \<Rightarrow> Outcome
    \<Rightarrow> (hook_error + nat) \<times> hook_state" where
  "Receive env st warrant delivery effects outcome =
     (case Authorize warrant WriteDeliveryReceipt of
        Some r \<Rightarrow> (refuse (WriteRefused r), st)
      | None \<Rightarrow>
          let publish = (dl_Capture delivery = CaptureValid) in
          if publish \<and> ExitStatus_Code (out_Exit outcome) = None then (refuse PreparationFault, st)
          else if \<not> re_prepared env then (refuse PreparationFault, st)
          else let candidate = (if publish then outcome else zero_outcome) in
            case run_enter (hk_fence st) candidate publish (re_cancelled env) of
              None \<Rightarrow> (Err (Wrapped ErrLifecycleWorkPanicked (Plain HandlerPanic)), st)
            | Some (f, Some e) \<Rightarrow> (refuse (SettlementRefused e), st\<lparr>hk_fence := f\<rparr>)
            | Some (f, None) \<Rightarrow>
                let journal = (if re_wrote env then hk_journal st @ [(candidate, publish, effects)] else hk_journal st) in
                case run_finish f candidate (run_committed publish (re_append env)) of
                  None \<Rightarrow> (Err (Wrapped ErrLifecycleWorkPanicked (Plain HandlerPanic)), st\<lparr>hk_journal := journal\<rparr>)
                | Some f' \<Rightarrow>
                    let st' = st\<lparr>hk_fence := f', hk_journal := journal\<rparr> in
                    if re_append env = AppendPanic then (Err (Wrapped ErrLifecycleWorkPanicked (Plain HandlerPanic)), st')
                    else case run_result (re_append env) of
                        Err e \<Rightarrow> (refuse (SettlementRefused e), st')
                      | Ok n \<Rightarrow> (Ok n, st'))"

text \<open>The rest of what a delivery asks: whether the boundary is wired, the store opens, the receipt service
  and the metamodel are available, and the session tail.\<close>

record hook_env =
  hv_wired :: bool
  hv_admission :: lifecycleAdmission
  hv_open :: bool
  hv_service :: bool
  hv_store :: gate_store
  hv_decoders :: role_decoders
  hv_metamodel :: bool
  hv_receipt :: receipt_env
  hv_tail :: bool

definition deliveryDerive :: "lifecycleDispatch \<Rightarrow> Event \<Rightarrow> Delivery \<Rightarrow> hook_error + Derivation" where
  "deliveryDerive dispatch event delivery =
     (case dp_bind dispatch (ev_Kind event) (dl_Bindings delivery) of
        Err e \<Rightarrow> refuse (BindFault e)
      | Ok (l1, identities) \<Rightarrow>
          (case NewEvent l1 identities of
             Err e \<Rightarrow> refuse (BindFault e)
           | Ok l2 \<Rightarrow>
               (case Derive (se_semantic (we_semantics l2)) of
                  None \<Rightarrow> refuse DerivationFault
                | Some d \<Rightarrow> Ok d)))"

definition decision_present :: "lifecycleDispatch \<Rightarrow> Event \<Rightarrow> Decision option \<Rightarrow> hook_error + unit" where
  "decision_present dispatch event decision =
     (if decision \<noteq> None then Ok ()
      else result_bind (dp_mapping dispatch (ev_NativeName event)) (\<lambda>mapping.
        if lm_semantic mapping \<noteq> SemanticObservation
        then Err (Wrapped ErrLifecycleBeforeDurableWrite (Plain NoEvaluatedDecision)) else Ok ()))"

definition deliveryCommit :: "hook_env \<Rightarrow> hook_state \<Rightarrow> lifecycleDispatch \<Rightarrow> Event \<Rightarrow> Delivery \<Rightarrow> Decision option
    \<Rightarrow> (hook_error + (HostResponse \<times> nat)) \<times> hook_state" where
  "deliveryCommit env st dispatch event delivery decision =
     (case decision_present dispatch event decision of
        Err e \<Rightarrow> (Err e, st)
      | Ok _ \<Rightarrow>
          (case deliveryWarrant delivery of
             Err e \<Rightarrow> (Err (Wrapped ErrLifecycleBeforeDurableWrite e), st)
           | Ok warrant \<Rightarrow>
               if \<not> hv_metamodel env then (refuse MetamodelFault, st)
               else case deliveryDerive dispatch event delivery of
                   Err e \<Rightarrow> (Err e, st)
                 | Ok derivation \<Rightarrow>
                     (case prepareDelivery dispatch event derivation decision of
                        Err e \<Rightarrow> (Err e, st)
                      | Ok prepared \<Rightarrow>
                          (case Receive (hv_receipt env) st warrant delivery (pd_effects prepared) (pd_outcome prepared) of
                             (Err e, st') \<Rightarrow> (Err e, st')
                           | (Ok n, st') \<Rightarrow> (Ok (pd_response prepared, n), st')))))"

section \<open>The handler\<close>

text \<open>The body of the handler: whether a write was attempted, the result, and the state.\<close>

definition hook_body :: "hook_env \<Rightarrow> hook_state \<Rightarrow> bool \<times> (hook_error + HostResponse) \<times> hook_state" where
  "hook_body env st =
     (if \<not> hv_wired env then (False, refuse IncompleteWiring, st)
      else case prepareLifecycleDelivery (hv_admission env) of
          Err e \<Rightarrow> (False, Err e, st)
        | Ok (dispatch, event, capture) \<Rightarrow>
            if \<not> hv_open env then (False, refuse StoreFault, st)
            else if \<not> hv_service env then (False, refuse ServiceFault, st)
            else if cp_disposition capture \<noteq> CaptureValid then
              (case deliveryWarrant (cp_delivery capture) of
                 Err e \<Rightarrow> (False, Err e, st)
               | Ok warrant \<Rightarrow>
                   (case Receive (hv_receipt env) st warrant (cp_delivery capture) [] zero_outcome of
                      (Err e, st') \<Rightarrow> (True, Err e, st')
                    | (Ok _, st') \<Rightarrow> (True, Err (Wrapped ErrLifecycleDeliveryRefused (Plain UnbindableCapture)), st')))
            else (case evaluateGate (hv_store env) (hv_decoders env) dispatch event (dl_Bindings (cp_delivery capture))
                     (ad_Harness (hv_admission env)) of
                Err e \<Rightarrow> (False, Err e, st)
              | Ok decision \<Rightarrow>
                  (case deliveryCommit env st dispatch event (cp_delivery capture) decision of
                     (Err e, st') \<Rightarrow> (True, Err e, st')
                   | (Ok (response, _), st') \<Rightarrow>
                       if \<not> hv_tail env
                       then (True, Err (Wrapped ErrLifecycleCommittedWithoutContinuation (Plain SessionTailFault)), st')
                       else (True, Ok response, st'))))"

definition hookLifecycle :: "hook_env \<Rightarrow> hook_state \<Rightarrow> (hook_error + HostResponse) \<times> hook_state" where
  "hookLifecycle env st =
     (case hook_body env st of
        (durablePossible, Err e, st') \<Rightarrow>
          (if \<not> durablePossible then (Err (Wrapped ErrLifecycleBeforeDurableWrite e), st') else (Err e, st'))
      | (_, Ok r, st') \<Rightarrow> (Ok r, st'))"

definition HookLifecycleNative :: "hook_env \<Rightarrow> bool \<Rightarrow> hook_state \<Rightarrow> (Outcome \<times> hook_error option) \<times> hook_state" where
  "HookLifecycleNative env barrier st =
     (case dispatchLifecycle (ad_Harness (hv_admission env)) of
        Err e \<Rightarrow> ((zero_outcome, Some (Wrapped ErrLifecycleBeforeDurableWrite e)), st)
      | Ok _ \<Rightarrow>
          (case hookLifecycle env st of
             (Err e, st') \<Rightarrow>
               (case CommittedOutcome (hk_fence st') of
                  (outcome, True) \<Rightarrow> ((outcome, Some e), st')
                | _ \<Rightarrow> ((zero_outcome, Some e), st'))
           | (Ok _, st') \<Rightarrow>
               (case CommittedOutcome (hk_fence st') of
                  (outcome, committed) \<Rightarrow>
                    if \<not> barrier then
                      ((if committed then outcome else zero_outcome,
                        Some (Wrapped ErrLifecycleCommittedWithoutContinuation (Plain BarrierFault))), st')
                    else if \<not> committed then ((zero_outcome, Some (Plain NoPublishedOutcome)), st')
                    else ((outcome, None), st'))))"

section \<open>The receipt write\<close>

text \<open>An appender reports an identity only for a row it wrote.\<close>

definition honest :: "receipt_env \<Rightarrow> bool" where
  "honest env \<longleftrightarrow> (is_ok (run_result (re_append env)) \<longrightarrow> re_wrote env)"

lemma run_finish_committed:
  "run_finish f o1 c = Some f' \<Longrightarrow> CommittedOutcome f' = (if c then o1 else cs_outcome f, c)"
  by (auto simp: run_finish_def close_done_def CommittedOutcome_def split: if_splits)

lemma Receive_Ok:
  assumes "Receive env st w dl es out = (Ok n, st')" "honest env"
  shows "Authorize w WriteDeliveryReceipt = None"
    "hk_journal st' = hk_journal st @ [(if dl_Capture dl = CaptureValid then out else zero_outcome, dl_Capture dl = CaptureValid, es)]"
    "dl_Capture dl = CaptureValid \<Longrightarrow> CommittedOutcome (hk_fence st') = (out, True)"
  using assms
  by (auto simp: Receive_def Let_def honest_def run_committed_def dest!: run_finish_committed
      split: option.splits if_splits sum.splits prod.splits)

lemma Receive_Err:
  assumes "Receive env st w dl es out = (Err e, st')"
  shows "\<not> errors_Is e ErrLifecycleCommittedWithoutContinuation" "\<not> errors_Is e ErrLifecycleDeliveryRefused"
    "\<not> errors_Is e ErrLifecycleBeforeDurableWrite"
  using assms by (auto simp: Receive_def Let_def split: option.splits if_splits sum.splits prod.splits)

section \<open>Errors before a write\<close>

definition unwrapped :: "hook_error + 'a \<Rightarrow> bool" where
  "unwrapped r \<longleftrightarrow> (\<forall>e s. r = Err e \<longrightarrow> \<not> errors_Is e s)"

lemma unwrapped_simps [simp]:
  "unwrapped (Ok v)" "unwrapped (refuse c)"
  by (simp_all add: unwrapped_def)

lemma unwrapped_bind [intro]:
  "unwrapped r \<Longrightarrow> (\<And>v. r = Ok v \<Longrightarrow> unwrapped (f v)) \<Longrightarrow> unwrapped (result_bind r f)"
  by (cases r) (auto simp: unwrapped_def)

text \<open>The rows of the four pinned contracts.\<close>

definition pinned_dispatch :: "lifecycleDispatch \<Rightarrow> bool" where
  "pinned_dispatch d \<longleftrightarrow> Some d \<in> {claudeDispatch, codexDispatch, openCodeDispatch, openCodeV2Dispatch}"

lemma mappingLookup_unwrapped: "unwrapped (mappingLookup c es name)"
  by (induction es) (auto split: sum.splits)

lemma dispatchFor_pinned: "dispatchLifecycleFor h v = Ok d \<Longrightarrow> pinned_dispatch d"
  by (auto simp: dispatchLifecycleFor_def dispatchLifecycle_def frontendRegistry_def pinned_dispatch_def
      split: option.splits if_splits)

lemma dispatchFor_unwrapped: "unwrapped (dispatchLifecycleFor h v)"
  by (auto simp: dispatchLifecycleFor_def dispatchLifecycle_def split: option.splits)

lemma prepare_unwrapped: "unwrapped (prepareLifecycleDelivery a)"
  unfolding prepareLifecycleDelivery_def
  by (intro unwrapped_bind dispatchFor_unwrapped) (auto simp: Let_def split: option.splits)

lemma prepare_dispatch:
  assumes "prepareLifecycleDelivery a = Ok (d, e, c)"
  shows "dispatchLifecycleFor (ad_Harness a) (ad_HostVersion a) = Ok d"
proof -
  obtain u where u: "dispatchLifecycleFor (ad_Harness a) (ad_HostVersion a) = Ok u"
    using assms by (auto simp: prepareLifecycleDelivery_def result_bind_Ok_iff)
  show ?thesis
    using assms u
    by (simp add: prepareLifecycleDelivery_def Let_def split: option.split_asm if_split_asm)
qed

lemma prepare_pinned: "prepareLifecycleDelivery a = Ok (d, e, c) \<Longrightarrow> pinned_dispatch d"
  by (rule dispatchFor_pinned [OF prepare_dispatch])

lemma deliveryWarrant_unwrapped: "unwrapped (deliveryWarrant dl)"
  by (auto simp: deliveryWarrant_def split: sum.splits)

lemma deliveryDerive_unwrapped: "unwrapped (deliveryDerive d ev dl)"
  by (auto simp: deliveryDerive_def split: option.splits sum.splits prod.splits)

section \<open>The pinned dispatch rows\<close>

text \<open>What the pipeline relies on in a dispatch row: its mappings are valid and named as asked, its encoder is
  that of their surface, and binding a registered event verifies it against the row of its name.\<close>

locale dispatch =
  fixes d :: lifecycleDispatch
  assumes mapping_valid: "dp_mapping d name = Ok m \<Longrightarrow> Mapping_IsValid m"
    and mapping_name: "dp_mapping d name = Ok m \<Longrightarrow> lm_nativeName m = name"
    and mapping_encode: "dp_mapping d name = Ok m \<Longrightarrow> dp_encode d m r = encode_for m r"
    and registered_semantic: "e \<in> set (mf_Events (dp_manifest d)) \<Longrightarrow> dp_mapping d (ev_NativeName e) = Ok m
      \<Longrightarrow> dp_bind d (ev_Kind e) bs = Ok (l1, ids) \<Longrightarrow> NewEvent l1 ids = Ok l2
      \<Longrightarrow> crosses m bs \<and> se_semantic (we_semantics l2) = lm_semantic m"
    and mapping_unwrapped: "unwrapped (dp_mapping d name)"

lemma mappingLookup_Ok:
  "mappingLookup c es name = Ok m \<Longrightarrow> (\<exists>e. Contract_Mapping c e = Ok m) \<and> lm_nativeName m = name"
  by (induction es) (auto split: sum.splits if_splits)

context registered_frontend
begin

lemma row_dispatch:
  assumes enc: "\<forall>m\<in>set (map snd (lc_mappings contract)). \<forall>r. enc m r = encode_for m r"
  shows "dispatch \<lparr>dp_name = n, dp_manifest = manifest, dp_mapping = mappingLookup contract (lc_events contract),
      dp_bind = Bind host, dp_encode = enc\<rparr>"
proof (unfold_locales, simp_all)
  fix name m assume "mappingLookup contract (lc_events contract) name = Ok m"
  then obtain e where e: "Contract_Mapping contract e = Ok m" "lm_nativeName m = name"
    using mappingLookup_Ok by fastforce
  show "Mapping_IsValid m" using e(1) by (rule Mapping_valid)
  show "lm_nativeName m = name" by (rule e(2))
  show "enc m r = encode_for m r" for r
  proof -
    have "m \<in> set (map snd (lc_mappings contract))" using e(1) unfolding Mapping_iff by force
    then show ?thesis using enc by blast
  qed
next
  fix e m bs l1 ids l2
  assume e: "e \<in> set (mf_Events manifest)" and m: "mappingLookup contract (lc_events contract) (ev_NativeName e) = Ok m"
    and b: "Bind host (ev_Kind e) bs = Ok (l1, ids)" "NewEvent l1 ids = Ok l2"
  obtain y where y: "Contract_Mapping contract y = Ok m" "lm_nativeName m = ev_NativeName e"
    using mappingLookup_Ok [OF m] by blast
  have c: "cross host (ev_Kind e) bs = Ok l2" using b by (simp add: cross_def)
  show "crosses m bs \<and> se_semantic (we_semantics l2) = lm_semantic m"
    using registered_cross [OF e c y] by (simp add: crossed_def)
next
  show "unwrapped (mappingLookup contract (lc_events contract) name)" for name by (rule mappingLookup_unwrapped)
qed

end

lemma dispatch_rowI:
  assumes d: "dispatch_row n mf c h enc = Some d" and f: "registered_frontend (the c) h (the mf)"
    and r: "list_all (\<lambda>m. lm_surface m \<in> set ss) (map snd (lc_mappings (the c)))"
    and e: "\<And>m r. lm_surface m \<in> set ss \<Longrightarrow> enc m r = encode_for m r"
  shows "dispatch d"
proof -
  have dd: "d = \<lparr>dp_name = n, dp_manifest = the mf, dp_mapping = mappingLookup (the c) (lc_events (the c)),
      dp_bind = Bind h, dp_encode = enc\<rparr>"
    using d by (auto simp: dispatch_row_def split: option.splits)
  show ?thesis unfolding dd
    by (rule registered_frontend.row_dispatch [OF f]) (use r e in \<open>auto simp: list_all_iff\<close>)
qed

lemma row_surfaces:
  "list_all (\<lambda>m. lm_surface m \<in> set [SurfaceClaudeCommandJSON]) (owned_rows claudeLifecycleMappings)"
  "list_all (\<lambda>m. lm_surface m \<in> set [SurfaceCodexStrictCommandJSON]) (owned_rows codexLifecycleMappings)"
  "list_all (\<lambda>m. lm_surface m \<in> set [SurfaceOpenCodeNamedOutput, SurfaceOpenCodeCatchAllSSE]) (owned_rows openCodeLifecycleMappings)"
  "list_all (\<lambda>m. lm_surface m \<in> set [SurfaceOpenCodeNamedOutput, SurfaceOpenCodeCatchAllSSE]) (owned_rows openCode2LifecycleMappings)"
  by code_simp+

lemma pinned_is_dispatch:
  assumes "pinned_dispatch d"
  shows "dispatch d"
proof -
  consider "claudeDispatch = Some d" | "codexDispatch = Some d" | "openCodeDispatch = Some d" | "openCodeV2Dispatch = Some d"
    using assms unfolding pinned_dispatch_def by auto
  then show ?thesis
  proof cases
    case 1
    show ?thesis
      by (rule dispatch_rowI [OF 1 [unfolded claudeDispatch_def] claude_registered.registered_frontend_axioms
          row_surfaces(1) [folded profile_row_tables(1)]]) (simp add: encode_for_def)
  next
    case 2
    show ?thesis
      by (rule dispatch_rowI [OF 2 [unfolded codexDispatch_def] codex_registered.registered_frontend_axioms
          row_surfaces(2) [folded profile_row_tables(2)]]) (simp add: encode_for_def)
  next
    case 3
    show ?thesis
      by (rule dispatch_rowI [OF 3 [unfolded openCodeDispatch_def] opencode_registered.registered_frontend_axioms
          row_surfaces(3) [folded profile_row_tables(3)]]) (auto simp: encode_for_def)
  next
    case 4
    show ?thesis
      by (rule dispatch_rowI [OF 4 [unfolded openCodeV2Dispatch_def] opencode2_registered.registered_frontend_axioms
          row_surfaces(4) [folded profile_row_tables(4)]]) (auto simp: encode_for_def)
  qed
qed

section \<open>One decision\<close>

text \<open>What a prepared delivery carries for its row: an observation nothing but its interpretation; a gate the
  normalised decision, in its evidence, in its response and in what the host reads.\<close>

definition carries :: "LifecycleEventMapping \<Rightarrow> Decision option \<Rightarrow> preparedDelivery \<Rightarrow> bool" where
  "carries m decision p \<longleftrightarrow>
     (case decision of
        None \<Rightarrow> lm_semantic m = SemanticObservation \<and> pd_response p = zero_response \<and> pd_effects p = [InterpretedEffect]
          \<and> host_reads m (pd_outcome p) = Some DecisionProceed
      | Some x \<Rightarrow> lm_semantic m = SemanticGateConsultation
          \<and> (\<exists>f. NormalizeDecision m x = Ok f \<and> pd_response p = decided f
               \<and> pd_effects p = [InterpretedEffect, ConsultationEffect f]
               \<and> host_reads m (pd_outcome p) = Some (d_kind f)))"

lemma observation_told:
  assumes "Mapping_IsValid m" "lm_semantic m = SemanticObservation" "encode_for m zero_response = Ok out"
  shows "host_reads m out = Some DecisionProceed"
  using assms Mapping_IsValid_enums [OF assms(1)]
  by (cases "lm_surface m")
    (auto simp: encode_for_def EncodeClaude_def EncodeCodex_def EncodeOpenCode_def nativeDecision_def host_reads_def
      ForDecision_def)

lemma unevaluated_refused:
  assumes "lm_semantic m \<noteq> SemanticObservation"
  shows "\<not> is_ok (encode_for m zero_response)"
  using assms
  by (cases "lm_surface m")
    (auto simp: encode_for_def EncodeClaude_def EncodeCodex_def EncodeOpenCode_def nativeDecision_def)

lemma Derive_cases:
  assumes "Derive s = Some dv"
  obtains "s = SemanticObservation" "dv = \<lparr>dv_effects = [InterpretedEffect], dv_response = zero_response\<rparr>"
  | x where "s = SemanticGateConsultation" "Decision_IsValid x"
    "dv = \<lparr>dv_effects = [InterpretedEffect, ConsultationEffect x], dv_response = decided x\<rparr>"
  | "s = SemanticExplicitHumanResponse" "dv = \<lparr>dv_effects = [InterpretedEffect], dv_response = zero_response\<rparr>"
proof -
  have v: "Decision_IsValid \<lparr>d_kind = DecisionProceed, d_reason = ReasonLegal\<rparr>" by (simp add: Decision_IsValid_def)
  show thesis
    using assms that(1,3) that(2) [OF _ v]
    by (cases s) (auto simp: Derive_def legalize_Event_def BuildConsultation_def Let_def)
qed

context dispatch
begin

lemma prepareDelivery_carries:
  assumes m: "dp_mapping d (ev_NativeName ev) = Ok m" and dv: "Derive (lm_semantic m) = Some dv"
    and v: "\<And>x. decision = Some x \<Longrightarrow> Decision_IsValid x"
    and n: "decision = None \<Longrightarrow> lm_semantic m = SemanticObservation"
    and p: "prepareDelivery d ev dv decision = Ok p"
  shows "carries m decision p"
  using dv
proof (cases rule: Derive_cases)
  case 1
  then have "decision = None" using p m by (cases decision) (auto simp: prepareDelivery_def Let_def)
  moreover from this 1 have "encode_for m zero_response = Ok (pd_outcome p) \<and> pd_response p = zero_response
      \<and> pd_effects p = [InterpretedEffect]"
    using p m mapping_encode [OF m] by (auto simp: prepareDelivery_def Let_def split: sum.splits)
  ultimately show ?thesis
    using 1 observation_told [OF mapping_valid [OF m]] by (simp add: carries_def)
next
  case (2 x)
  then obtain y where y: "decision = Some y" using n by (cases decision) auto
  note mv = mapping_valid [OF m] and yv = v [OF y]
  let ?f = "normalized m y"
  have f: "NormalizeDecision m y = Ok ?f" "Decision_IsValid ?f" "NewHostResponse ?f = Ok (decided ?f)"
    using NormalizeDecision_eq [OF mv yv] normalized_valid [OF yv] by simp_all
  have "pd_response p = decided ?f \<and> pd_effects p = [InterpretedEffect, ConsultationEffect ?f]
      \<and> encode_for m (decided ?f) = Ok (pd_outcome p)"
    using p m 2 y f mapping_encode [OF m]
    by (auto simp: prepareDelivery_def Let_def ReplaceConsultationDecision_def HostResponse_Value_def split: sum.splits)
  then show ?thesis
    using host_told [OF mv yv f(1,3)] f(1) 2 y by (simp add: carries_def)
next
  case 3
  then have "encode_for m zero_response = Ok (pd_outcome p)"
    using p m n mapping_encode [OF m] by (cases decision) (auto simp: prepareDelivery_def Let_def split: sum.splits)
  then show ?thesis using unevaluated_refused [of m] 3 by simp
qed

lemma deliveryDerive_row:
  assumes "e \<in> set (mf_Events (dp_manifest d))" "dp_mapping d (ev_NativeName e) = Ok m" "deliveryDerive d e dl = Ok dv"
  shows "Derive (lm_semantic m) = Some dv \<and> crosses m (dl_Bindings dl)"
proof -
  obtain l1 ids l2 where "dp_bind d (ev_Kind e) (dl_Bindings dl) = Ok (l1, ids)" "NewEvent l1 ids = Ok l2"
    "Derive (se_semantic (we_semantics l2)) = Some dv"
    using assms(3) by (auto simp: deliveryDerive_def split: sum.splits prod.splits option.splits)
  then show ?thesis using registered_semantic [OF assms(1,2)] by auto
qed

end

lemma evaluateGate_decision:
  assumes "evaluateGate gs dec d e bs h = Ok decision" "dp_mapping d (ev_NativeName e) = Ok m"
  shows "decision = Some x \<Longrightarrow> Decision_IsValid x" "decision = None \<Longrightarrow> lm_semantic m = SemanticObservation"
  using assms
  by (auto simp: evaluateGate_def Result_Decision_def split: if_splits option.splits sum.splits)

lemma deliveryCommit_Ok:
  assumes "deliveryCommit env st d e dl decision = (Ok (r, n), st')"
  obtains w dv p where "deliveryWarrant dl = Ok w" "deliveryDerive d e dl = Ok dv" "prepareDelivery d e dv decision = Ok p"
    "Receive (hv_receipt env) st w dl (pd_effects p) (pd_outcome p) = (Ok n, st')" "r = pd_response p"
  using assms by (auto simp: deliveryCommit_def split: sum.splits if_splits prod.splits)

lemma prepareDelivery_mapping: "prepareDelivery d e dv decision = Ok p \<Longrightarrow> \<exists>m. dp_mapping d (ev_NativeName e) = Ok m"
  by (auto simp: prepareDelivery_def)

lemma prepare_event:
  assumes "prepareLifecycleDelivery a = Ok (d, e, c)"
  shows "e \<in> set (mf_Events (dp_manifest d)) \<and> (\<exists>raw. c = ad_parse a raw e (ad_HostVersion a))"
proof -
  have u: "dispatchLifecycleFor (ad_Harness a) (ad_HostVersion a) = Ok d" by (rule prepare_dispatch [OF assms])
  show ?thesis
    using assms u
    by (auto simp: prepareLifecycleDelivery_def Let_def EventByNativeName_def find_Some_iff
        split: option.split_asm if_split_asm)
qed

text \<open>A parser that gives the delivery the disposition of its capture.\<close>

definition faithful_parser :: "lifecycleAdmission \<Rightarrow> bool" where
  "faithful_parser a \<longleftrightarrow> (\<forall>raw e v. dl_Capture (cp_delivery (ad_parse a raw e v)) = cp_disposition (ad_parse a raw e v))"

lemma hookLifecycle_Ok:
  assumes "hookLifecycle env st = (Ok r, st')"
  obtains d e c decision n where "prepareLifecycleDelivery (hv_admission env) = Ok (d, e, c)" "cp_disposition c = CaptureValid"
    "evaluateGate (hv_store env) (hv_decoders env) d e (dl_Bindings (cp_delivery c)) (ad_Harness (hv_admission env)) = Ok decision"
    "deliveryCommit env st d e (cp_delivery c) decision = (Ok (r, n), st')"
  using assms by (auto simp: hookLifecycle_def hook_body_def split: sum.splits if_splits prod.splits)

text \<open>C8: An evaluated hook leaves exactly one journal row, and the row, the fence and the host agree on one
  decision: the row of an observation holds its interpretation and the host reads a proceed; the row of a
  gate holds the interpretation and the decision of the policy as normalised for the host, the response
  returned is that decision, and the outcome that was committed and published is read by the host as it.\<close>

theorem delivery_one_decision:
  assumes h: "hookLifecycle env st = (Ok r, st')" and a: "honest (hv_receipt env)" and f: "faithful_parser (hv_admission env)"
  shows "\<exists>d e c m decision p. prepareLifecycleDelivery (hv_admission env) = Ok (d, e, c)
    \<and> dp_mapping d (ev_NativeName e) = Ok m \<and> crosses m (dl_Bindings (cp_delivery c))
    \<and> evaluateGate (hv_store env) (hv_decoders env) d e (dl_Bindings (cp_delivery c)) (ad_Harness (hv_admission env)) = Ok decision
    \<and> carries m decision p \<and> r = pd_response p
    \<and> hk_journal st' = hk_journal st @ [(pd_outcome p, True, pd_effects p)]
    \<and> CommittedOutcome (hk_fence st') = (pd_outcome p, True)"
proof -
  obtain d e c decision n where p: "prepareLifecycleDelivery (hv_admission env) = Ok (d, e, c)" "cp_disposition c = CaptureValid"
    and g: "evaluateGate (hv_store env) (hv_decoders env) d e (dl_Bindings (cp_delivery c)) (ad_Harness (hv_admission env)) = Ok decision"
    and k: "deliveryCommit env st d e (cp_delivery c) decision = (Ok (r, n), st')"
    by (rule hookLifecycle_Ok [OF h])
  obtain w dv q where q: "deliveryDerive d e (cp_delivery c) = Ok dv" "prepareDelivery d e dv decision = Ok q"
      "Receive (hv_receipt env) st w (cp_delivery c) (pd_effects q) (pd_outcome q) = (Ok n, st')" "r = pd_response q"
    by (rule deliveryCommit_Ok [OF k])
  have D: "dispatch d" by (rule pinned_is_dispatch [OF prepare_pinned [OF p(1)]])
  note e = prepare_event [OF p(1)]
  obtain m where m: "dp_mapping d (ev_NativeName e) = Ok m" using prepareDelivery_mapping [OF q(2)] by blast
  have dr: "Derive (lm_semantic m) = Some dv \<and> crosses m (dl_Bindings (cp_delivery c))"
    using dispatch.deliveryDerive_row [OF D conjunct1 [OF e] m q(1)] .
  have "carries m decision q"
    by (rule dispatch.prepareDelivery_carries [OF D m conjunct1 [OF dr] _ _ q(2)])
      (use evaluateGate_decision [OF g m] in blast)+
  moreover have "dl_Capture (cp_delivery c) = CaptureValid" using e p(2) f by (auto simp: faithful_parser_def)
  ultimately show ?thesis using Receive_Ok [OF q(3) a] p(1) m dr g q(4) by auto
qed

section \<open>The sentinels are true of the journal\<close>

lemma Receive_journal:
  "Receive env st w dl es out = (res, st') \<Longrightarrow> hk_journal st' = hk_journal st \<or> (\<exists>row. hk_journal st' = hk_journal st @ [row])"
  by (auto simp: Receive_def Let_def split: option.splits if_splits sum.splits prod.splits)

lemma deliveryCommit_journal:
  assumes "deliveryCommit env st d e dl dn = (res, st')"
  shows "hk_journal st' = hk_journal st \<or> (\<exists>row. hk_journal st' = hk_journal st @ [row])"
  using assms Receive_journal
  by (auto simp: deliveryCommit_def split: sum.splits if_splits prod.splits)

lemma hook_body_journal:
  assumes "hook_body env st = (b, res, st')"
  shows "hk_journal st' = hk_journal st \<or> (\<exists>row. hk_journal st' = hk_journal st @ [row])"
  using assms Receive_journal deliveryCommit_journal
  by (auto simp: hook_body_def split: sum.splits if_splits prod.splits)

lemma unwrapped_Err: "r = Err e \<Longrightarrow> unwrapped r \<Longrightarrow> \<forall>s. \<not> errors_Is e s"
  by (simp add: unwrapped_def)

context dispatch
begin

lemma evaluate_unwrapped: "unwrapped (evaluateGate st dec d ev bs h)"
  unfolding evaluateGate_def
  by (intro unwrapped_bind mapping_unwrapped) (auto split: option.splits sum.splits)

lemma prepareDelivery_plain: "unwrapped (prepareDelivery d ev dv dn)"
  unfolding prepareDelivery_def Let_def
  by (intro unwrapped_bind mapping_unwrapped) (auto split: option.splits sum.splits prod.splits if_splits)

lemma decision_present_Err:
  assumes "decision_present d ev dn = Err er"
  shows "\<not> errors_Is er ErrLifecycleCommittedWithoutContinuation \<and> \<not> errors_Is er ErrLifecycleDeliveryRefused"
proof (cases "dp_mapping d (ev_NativeName ev)")
  case (Inl x)
  then show ?thesis using assms unwrapped_Err [OF Inl mapping_unwrapped]
    by (auto simp: decision_present_def split: if_splits)
next
  case (Inr m)
  then show ?thesis using assms by (auto simp: decision_present_def split: if_splits)
qed

lemma deliveryCommit_Err:
  assumes "deliveryCommit env st d ev dl dn = (Err er, st')"
  shows "\<not> errors_Is er ErrLifecycleCommittedWithoutContinuation \<and> \<not> errors_Is er ErrLifecycleDeliveryRefused
    \<and> (errors_Is er ErrLifecycleBeforeDurableWrite \<longrightarrow> st' = st)"
proof (cases "decision_present d ev dn")
  case (Inl x)
  then show ?thesis using assms decision_present_Err [OF Inl] by (simp add: deliveryCommit_def)
next
  case Present: (Inr u)
  show ?thesis
  proof (cases "deliveryWarrant dl")
    case (Inl x)
    then show ?thesis using assms Present unwrapped_Err [OF Inl deliveryWarrant_unwrapped]
      by (auto simp: deliveryCommit_def)
  next
    case Warrant: (Inr w)
    show ?thesis
    proof (cases "deliveryDerive d ev dl")
      case (Inl x)
      then show ?thesis using assms Present Warrant unwrapped_Err [OF Inl deliveryDerive_unwrapped]
        by (auto simp: deliveryCommit_def split: if_splits)
    next
      case Derived: (Inr dv)
      show ?thesis
      proof (cases "prepareDelivery d ev dv dn")
        case (Inl x)
        then show ?thesis using assms Present Warrant Derived unwrapped_Err [OF Inl prepareDelivery_plain]
          by (auto simp: deliveryCommit_def split: if_splits)
      next
        case (Inr p)
        then show ?thesis using assms Present Warrant Derived Receive_Err
          by (fastforce simp: deliveryCommit_def split: if_splits prod.splits sum.splits)
      qed
    qed
  qed
qed

end

lemma hook_body_Err:
  assumes b: "hook_body env st = (attempted, Err er, st')" and a: "honest (hv_receipt env)"
  shows "(\<not> attempted \<longrightarrow> st' = st \<and> (\<forall>s. \<not> errors_Is er s))
    \<and> (errors_Is er ErrLifecycleCommittedWithoutContinuation \<or> errors_Is er ErrLifecycleDeliveryRefused
        \<longrightarrow> (\<exists>row. hk_journal st' = hk_journal st @ [row]) \<and> \<not> errors_Is er ErrLifecycleBeforeDurableWrite)
    \<and> (errors_Is er ErrLifecycleBeforeDurableWrite \<longrightarrow> st' = st)"
proof (cases "prepareLifecycleDelivery (hv_admission env)")
  case (Inl x)
  then show ?thesis using b unwrapped_Err [OF Inl prepare_unwrapped]
    by (auto simp: hook_body_def split: if_splits)
next
  case (Inr t)
  then obtain d e c where t: "prepareLifecycleDelivery (hv_admission env) = Ok (d, e, c)" by (cases t) auto
  have D: "dispatch d" by (rule pinned_is_dispatch [OF prepare_pinned [OF t]])
  show ?thesis
  proof (cases "\<not> hv_wired env \<or> \<not> hv_open env \<or> \<not> hv_service env")
    case True
    then show ?thesis using b t by (auto simp: hook_body_def split: if_splits)
  next
    case wired: False
    show ?thesis
    proof (cases "cp_disposition c = CaptureValid")
      case False
      show ?thesis
      proof (cases "deliveryWarrant (cp_delivery c)")
        case (Inl x)
        then show ?thesis using b t wired False unwrapped_Err [OF Inl deliveryWarrant_unwrapped]
          by (auto simp: hook_body_def)
      next
        case (Inr w)
        then show ?thesis
          using b t wired False Receive_Err [of "hv_receipt env" st w "cp_delivery c" "[]" zero_outcome]
            Receive_Ok(2) [OF _ a, of st w "cp_delivery c" "[]" zero_outcome]
          by (auto simp: hook_body_def split: prod.splits sum.splits)
      qed
    next
      case valid: True
      let ?g = "evaluateGate (hv_store env) (hv_decoders env) d e (dl_Bindings (cp_delivery c)) (ad_Harness (hv_admission env))"
      show ?thesis
      proof (cases ?g)
        case (Inl x)
        then show ?thesis using b t wired valid unwrapped_Err [OF Inl dispatch.evaluate_unwrapped [OF D]]
          by (auto simp: hook_body_def)
      next
        case (Inr dn)
        obtain res st1 where r: "deliveryCommit env st d e (cp_delivery c) dn = (res, st1)" by fastforce
        show ?thesis
        proof (cases res)
          case (Inl x)
          then show ?thesis using b t wired valid Inr r dispatch.deliveryCommit_Err [OF D, of env st e "cp_delivery c" dn x st1]
            by (auto simp: hook_body_def)
        next
          case res: (Inr y)
          obtain h n where y: "y = (h, n)" by (cases y)
          have "\<exists>row. hk_journal st1 = hk_journal st @ [row]"
            using deliveryCommit_Ok [OF r [unfolded res y]] Receive_Ok(2) [OF _ a] by metis
          then show ?thesis using b t wired valid Inr r res y by (auto simp: hook_body_def split: if_splits)
        qed
      qed
    qed
  qed
qed

text \<open>C27: Whatever goes wrong in a hook, the sentinel on its error is true of the journal: an error marked as
  before any durable write left the journal and the fence as they were, an error marked as committed or as
  a refused delivery left exactly one new row, no error carries both marks, and no hook ever leaves more
  than one row.\<close>

theorem sentinels_true:
  assumes h: "hookLifecycle env st = (Err er, st')" and a: "honest (hv_receipt env)"
  shows "(errors_Is er ErrLifecycleBeforeDurableWrite \<longrightarrow> st' = st)
    \<and> (errors_Is er ErrLifecycleCommittedWithoutContinuation \<or> errors_Is er ErrLifecycleDeliveryRefused
        \<longrightarrow> (\<exists>row. hk_journal st' = hk_journal st @ [row]) \<and> \<not> errors_Is er ErrLifecycleBeforeDurableWrite)
    \<and> (hk_journal st' = hk_journal st \<or> (\<exists>row. hk_journal st' = hk_journal st @ [row]))"
proof -
  obtain attempted er' where b: "hook_body env st = (attempted, Err er', st')"
    and e: "er = (if attempted then er' else Wrapped ErrLifecycleBeforeDurableWrite er')"
    using h by (auto simp: hookLifecycle_def split: prod.splits sum.splits if_splits)
  show ?thesis using hook_body_Err [OF b a] hook_body_journal [OF b] e by (cases attempted) auto
qed

section \<open>A delivered hook\<close>

text \<open>The Stop event of Codex, from the session of the sample store; the session tail fails or not.\<close>

definition sample_admission :: lifecycleAdmission where
  "sample_admission =
     \<lparr>ad_Harness = HarnessCodex, ad_Event = ''Stop'', ad_HostVersion = ''0.153.0'', ad_HostVersionSource = ''caller-supplied'',
      ad_Catalogue = Some [(EventCodexStop, True)], ad_Activations = None, ad_Payload = Some ''{}'',
      ad_parse = (\<lambda>raw e v. \<lparr>cp_disposition = CaptureValid, cp_causeAgrees = True,
        cp_delivery = \<lparr>dl_Contract = ''codex/x'', dl_Event = ev_Kind e,
          dl_Bindings = [\<lparr>nb_Kind = BindingTurn, nb_NativeName = ''turn_id'', nb_Value = ''t1''\<rparr>,
            \<lparr>nb_Kind = BindingSession, nb_NativeName = ''session_id'', nb_Value = ''s1''\<rparr>], dl_Capture = CaptureValid\<rparr>\<rparr>)\<rparr>"

definition sample_env :: "bool \<Rightarrow> hook_env" where
  "sample_env tail =
     \<lparr>hv_wired = True, hv_admission = sample_admission, hv_open = True, hv_service = True, hv_store = sample_store,
      hv_decoders = sample_decoders, hv_metamodel = True,
      hv_receipt = \<lparr>re_prepared = True, re_cancelled = False, re_append = AppendReturned 7, re_wrote = True\<rparr>, hv_tail = tail\<rparr>"

definition fresh_state :: hook_state where
  "fresh_state = \<lparr>hk_fence = NewCommitSettlement, hk_journal = []\<rparr>"

lemma codex_row:
  "codexDispatch = Some \<lparr>dp_name = ''Codex'', dp_manifest = the Codex__0_153_0,
     dp_mapping = mappingLookup (the Codex0_153_0Lifecycle) (lc_events (the Codex0_153_0Lifecycle)),
     dp_bind = Bind codex_host, dp_encode = EncodeCodex\<rparr>"
  unfolding codexDispatch_def dispatch_row_def
  by (subst profiles_defined(2), subst pairs_defined [OF pairs_hosts(2)]) simp

lemma stop_event:
  obtains e where "EventByNativeName (the Codex__0_153_0) ''Stop'' = Some e" "ev_Kind e = EventCodexStop" "ev_NativeName e = ''Stop''"
proof -
  have "map_option ev_Kind (EventByNativeName (the Codex__0_153_0) ''Stop'') = Some EventCodexStop" by code_simp
  then show thesis using that by (auto simp: EventByNativeName_def find_Some_iff)
qed

lemma stop_row:
  obtains m where "mappingLookup (the Codex0_153_0Lifecycle) (lc_events (the Codex0_153_0Lifecycle)) ''Stop'' = Ok m"
    "Contract_Mapping (the Codex0_153_0Lifecycle) CodexEventStop = Ok m" "lm_semantic m = SemanticGateConsultation"
    "lm_identities m = [codexSessionIdentity, codexTurnIdentity]" "lm_unresolved m = []" "lm_response m = CapabilityNone"
    "lm_stopLoop m = StopLoopConsultWhenInactive" "lm_surface m = SurfaceCodexStrictCommandJSON"
proof -
  let ?C = "the Codex0_153_0Lifecycle"
  have "case (mappingLookup ?C (lc_events ?C) ''Stop'', Contract_Mapping ?C CodexEventStop) of
      (Ok m, Ok m') \<Rightarrow> m' = m \<and> lm_semantic m = SemanticGateConsultation
        \<and> lm_identities m = [codexSessionIdentity, codexTurnIdentity] \<and> lm_unresolved m = []
        \<and> lm_response m = CapabilityNone \<and> lm_stopLoop m = StopLoopConsultWhenInactive
        \<and> lm_surface m = SurfaceCodexStrictCommandJSON
    | _ \<Rightarrow> False"
    by code_simp
  then show thesis using that by (auto split: sum.splits)
qed

lemma stop_decision:
  obtains a x where "ClassForEvent HarnessCodex ''Stop'' = Some a"
    "case Decide \<lparr>in_Event = EventCodexStop, in_Action = a, in_Semantic = SemanticGateConsultation,
        in_StopLoop = StopLoopConsultWhenInactive, in_Capability = CapabilityNone,
        in_Claim = sv_claim sample_snapshot, in_Authority = sv_authority sample_snapshot\<rparr> of
      Ok r \<Rightarrow> Result_Refusal r = None \<and> Result_Decision r = Some x | Err _ \<Rightarrow> False"
proof -
  have "case ClassForEvent HarnessCodex ''Stop'' of None \<Rightarrow> False | Some a \<Rightarrow>
      (case Decide \<lparr>in_Event = EventCodexStop, in_Action = a, in_Semantic = SemanticGateConsultation,
          in_StopLoop = StopLoopConsultWhenInactive, in_Capability = CapabilityNone,
          in_Claim = sv_claim sample_snapshot, in_Authority = sv_authority sample_snapshot\<rparr> of
        Ok r \<Rightarrow> Result_Refusal r = None \<and> Result_Decision r \<noteq> None | Err _ \<Rightarrow> False)"
    by code_simp
  then show thesis using that by (force split: option.splits sum.splits)
qed

abbreviation stop_bindings :: "NativeBinding list" where
  "stop_bindings \<equiv> [\<lparr>nb_Kind = BindingTurn, nb_NativeName = ''turn_id'', nb_Value = ''t1''\<rparr>,
     \<lparr>nb_Kind = BindingSession, nb_NativeName = ''session_id'', nb_Value = ''s1''\<rparr>]"

lemma stop_crosses:
  assumes "lm_identities m = [codexSessionIdentity, codexTurnIdentity]" "lm_unresolved m = []"
  shows "crosses m stop_bindings"
proof -
  have v: "value_ok ''t1''" "value_ok ''s1''"
    by (simp_all add: value_ok_def ValidString_def string_runes_def rune_width_def rune_value_def identityValueMaxBytes_def
        padded_def IsSpace_def IsControl_def)
  then show ?thesis using assms by (simp add: crosses_def binding_ok_def DeclaredField_def codexSessionIdentity_def
        codexTurnIdentity_def nativeIdentity_def)
qed

lemma dispatchLifecycleFor_other:
  assumes "h \<noteq> HarnessOpenCode"
  shows "dispatchLifecycleFor h v = dispatchLifecycle h"
proof -
  have "(case x of None \<Rightarrow> y | Some d \<Rightarrow> if h = HarnessOpenCode \<and> c then Ok d else y) = y"
    for x :: "lifecycleDispatch option" and y :: "hook_error + lifecycleDispatch" and c
    using assms by (cases x) simp_all
  then show ?thesis unfolding dispatchLifecycleFor_def .
qed

lemma prepareDelivery_decided:
  assumes "dp_mapping d (ev_NativeName e) = Ok m" "HostResponse_IsValid (dv_response v)" "HostResponse_Value (dv_response v) = (l, True)"
    "NormalizeDecision m x = Ok f" "NewHostResponse f = Ok r" "ReplaceConsultationDecision (dv_effects v) f = Some es"
    "dp_encode d m r = Ok w"
  shows "prepareDelivery d e v (Some x) = Ok \<lparr>pd_response = r, pd_effects = es, pd_outcome = w\<rparr>"
  using assms by (auto simp: prepareDelivery_def NewHostResponse_def Let_def split: if_splits)

lemma sample_delivered:
  obtains d e c m x where "codexDispatch = Some d" "dp_mapping d ''Stop'' = Ok m" "dp_encode d = EncodeCodex"
    "ev_Kind e = EventCodexStop" "ev_NativeName e = ''Stop''"
    "lm_semantic m = SemanticGateConsultation" "lm_response m = CapabilityNone" "lm_surface m = SurfaceCodexStrictCommandJSON"
    "prepareLifecycleDelivery sample_admission = Ok (d, e, c)" "c = ad_parse sample_admission ''{}'' e ''0.153.0''"
    "evaluateGate sample_store sample_decoders d e stop_bindings HarnessCodex = Ok (Some x)" "Decision_IsValid x"
    "deliveryDerive d e (cp_delivery c) = Ok \<lparr>dv_effects = [InterpretedEffect, ConsultationEffect
        \<lparr>d_kind = DecisionProceed, d_reason = ReasonLegal\<rparr>], dv_response = decided \<lparr>d_kind = DecisionProceed, d_reason = ReasonLegal\<rparr>\<rparr>"
proof -
  obtain m where m: "mappingLookup (the Codex0_153_0Lifecycle) (lc_events (the Codex0_153_0Lifecycle)) ''Stop'' = Ok m"
    "Contract_Mapping (the Codex0_153_0Lifecycle) CodexEventStop = Ok m" "lm_semantic m = SemanticGateConsultation"
    "lm_identities m = [codexSessionIdentity, codexTurnIdentity]" "lm_unresolved m = []" "lm_response m = CapabilityNone"
    "lm_stopLoop m = StopLoopConsultWhenInactive" "lm_surface m = SurfaceCodexStrictCommandJSON"
    by (rule stop_row)
  obtain e where e: "EventByNativeName (the Codex__0_153_0) ''Stop'' = Some e" "ev_Kind e = EventCodexStop" "ev_NativeName e = ''Stop''"
    by (rule stop_event)
  obtain a x where a: "ClassForEvent HarnessCodex ''Stop'' = Some a"
    "case Decide \<lparr>in_Event = EventCodexStop, in_Action = a, in_Semantic = SemanticGateConsultation,
        in_StopLoop = StopLoopConsultWhenInactive, in_Capability = CapabilityNone,
        in_Claim = sv_claim sample_snapshot, in_Authority = sv_authority sample_snapshot\<rparr> of
      Ok r \<Rightarrow> Result_Refusal r = None \<and> Result_Decision r = Some x | Err _ \<Rightarrow> False"
    by (rule stop_decision)
  let ?d = "\<lparr>dp_name = ''Codex'', dp_manifest = the Codex__0_153_0,
     dp_mapping = mappingLookup (the Codex0_153_0Lifecycle) (lc_events (the Codex0_153_0Lifecycle)),
     dp_bind = Bind codex_host, dp_encode = EncodeCodex\<rparr>"
  let ?c = "ad_parse sample_admission ''{}'' e ''0.153.0''"
  have h: "HarnessCodex \<noteq> HarnessOpenCode" "HarnessCodex \<noteq> HarnessClaudeCode" by code_simp+
  have "dispatchLifecycle HarnessCodex = Ok ?d"
    unfolding dispatchLifecycle_def frontendRegistry_def codex_row using h by simp
  then have "dispatchLifecycleFor HarnessCodex v = Ok ?d" for v
    using dispatchLifecycleFor_other [OF h(1)] by (rule trans [rotated])
  moreover have "TrimSpace ''0.153.0'' \<noteq> []" "HostVersionSource_IsValid ''caller-supplied''" by code_simp+
  ultimately have p: "prepareLifecycleDelivery sample_admission = Ok (?d, e, ?c)"
    using e by (simp add: prepareLifecycleDelivery_def sample_admission_def activationFor_def limit_reader_def
        MaxNativePayloadBytes_def Let_def)
  have s: "lifecycleSession stop_bindings = Ok ''s1''" by (simp add: lifecycleSession_def)
  have r: "ResolveSession sample_snapshot HarnessCodex ''s1'' = Ok (sv_claim sample_snapshot)"
    "Authority sample_snapshot ''alice'' = Ok (sv_authority sample_snapshot)" by code_simp+
  have cl: "cl_Bound (sv_claim sample_snapshot)" "cl_Actor (sv_claim sample_snapshot) = ''alice''"
    by (simp_all add: sample_snapshot_def)
  have g: "evaluateGate sample_store sample_decoders ?d e stop_bindings HarnessCodex = Ok (Some x)"
    using a m e cl r s sample_snapshot_read by (simp add: evaluateGate_def split: sum.splits)
  have xv: "Decision_IsValid x" using a(2) by (auto simp: Result_Decision_def split: sum.splits if_splits)
  have k: "map_of (ho_Events codex_host) EventCodexStop = Some CodexEventStop" by code_simp
  have "cross codex_host EventCodexStop stop_bindings = Ok (crossed (lc_id (the Codex0_153_0Lifecycle)) m stop_bindings)"
    unfolding codex_frontend.cross_Ok using k m(2) stop_crosses [OF m(4,5)] by blast
  then obtain l1 ids where "Bind codex_host EventCodexStop stop_bindings = Ok (l1, ids)"
    "NewEvent l1 ids = Ok (crossed (lc_id (the Codex0_153_0Lifecycle)) m stop_bindings)"
    by (auto simp: cross_def)
  then have dd: "deliveryDerive ?d e (cp_delivery ?c) = Ok \<lparr>dv_effects = [InterpretedEffect, ConsultationEffect
        \<lparr>d_kind = DecisionProceed, d_reason = ReasonLegal\<rparr>], dv_response = decided \<lparr>d_kind = DecisionProceed, d_reason = ReasonLegal\<rparr>\<rparr>"
    using e m(3) by (simp add: deliveryDerive_def sample_admission_def crossed_def Derive_def legalize_Event_def
        BuildConsultation_def Let_def)
  show thesis
    by (rule that [OF codex_row _ _ e(2,3) m(3,6,8) p refl g xv dd]) (simp_all add: m(1))
qed

lemma sample_commit:
  obtains d e c x r st' where "prepareLifecycleDelivery sample_admission = Ok (d, e, c)" "cp_disposition c = CaptureValid"
    "evaluateGate sample_store sample_decoders d e (dl_Bindings (cp_delivery c)) HarnessCodex = Ok (Some x)"
    "\<And>tail. deliveryCommit (sample_env tail) fresh_state d e (cp_delivery c) (Some x) = (Ok (r, 7), st')"
proof (rule sample_delivered)
  fix d e c m x
  assume cd: "codexDispatch = Some d" and m: "dp_mapping d ''Stop'' = Ok m" and en: "dp_encode d = EncodeCodex"
    and k: "ev_Kind e = EventCodexStop" "ev_NativeName e = ''Stop''"
    and ms: "lm_semantic m = SemanticGateConsultation" "lm_response m = CapabilityNone" "lm_surface m = SurfaceCodexStrictCommandJSON"
    and p: "prepareLifecycleDelivery sample_admission = Ok (d, e, c)" and c: "c = ad_parse sample_admission ''{}'' e ''0.153.0''"
    and g: "evaluateGate sample_store sample_decoders d e stop_bindings HarnessCodex = Ok (Some x)" and xv: "Decision_IsValid x"
    and dv: "deliveryDerive d e (cp_delivery c) = Ok \<lparr>dv_effects = [InterpretedEffect, ConsultationEffect
        \<lparr>d_kind = DecisionProceed, d_reason = ReasonLegal\<rparr>], dv_response = decided \<lparr>d_kind = DecisionProceed, d_reason = ReasonLegal\<rparr>\<rparr>"
  have D: "dispatch d" by (rule pinned_is_dispatch [OF prepare_pinned [OF p]])
  have mv: "Mapping_IsValid m" by (rule dispatch.mapping_valid [OF D m])
  let ?f = "normalized m x"
  have f: "NormalizeDecision m x = Ok ?f" "Decision_IsValid ?f" "d_kind ?f = DecisionProceed"
    using NormalizeDecision_eq [OF mv xv] normalized_valid [OF xv] ms(2) by (simp_all add: normalized_def AllowsDeny_def)
  have o: "EncodeCodex m (decided ?f) = Ok (ForDecision codexProceedContinuation ExitContinue [])"
    using nativeDecision_decided [OF mv f(2), of "[SurfaceCodexStrictCommandJSON]"] ms f(3)
    by (simp add: EncodeCodex_def normalized_idem)
  have q: "prepareDelivery d e \<lparr>dv_effects = [InterpretedEffect, ConsultationEffect
        \<lparr>d_kind = DecisionProceed, d_reason = ReasonLegal\<rparr>], dv_response = decided \<lparr>d_kind = DecisionProceed, d_reason = ReasonLegal\<rparr>\<rparr> (Some x)
      = Ok \<lparr>pd_response = decided ?f, pd_effects = [InterpretedEffect, ConsultationEffect ?f],
          pd_outcome = ForDecision codexProceedContinuation ExitContinue []\<rparr>"
  proof -
    let ?l = "\<lparr>d_kind = DecisionProceed, d_reason = ReasonLegal\<rparr>"
    have "Decision_IsValid ?l" by code_simp
    then have v: "HostResponse_IsValid (decided ?l)" "HostResponse_Value (decided ?l) = (?l, True)"
      by (simp_all add: HostResponse_IsValid_def HostResponse_Value_def)
    have n: "NewHostResponse ?f = Ok (decided ?f)"
      "ReplaceConsultationDecision [InterpretedEffect, ConsultationEffect ?l] ?f = Some [InterpretedEffect, ConsultationEffect ?f]"
      using f(2) by (simp_all add: NewHostResponse_def ReplaceConsultationDecision_def)
    have m': "dp_mapping d (ev_NativeName e) = Ok m" and o': "dp_encode d m (decided ?f) = Ok (ForDecision codexProceedContinuation ExitContinue [])"
      using m k(2) en o by simp_all
    show ?thesis by (rule prepareDelivery_decided [OF m' _ _ f(1) n(1) _ o', where l = ?l]) (simp_all only: v n Derivation.simps)
  qed
  have "ContractID_IsValid ''codex/x''" by code_simp
  then have w: "deliveryWarrant (cp_delivery c) = Ok \<lparr>wt_class = WriteDeliveryReceipt, wt_issued = True\<rparr>"
    using c k by (simp add: deliveryWarrant_def sample_admission_def NewDeliveryIntent_def Legalize_def)
  have "\<exists>st'. Receive (hv_receipt (sample_env tail)) fresh_state \<lparr>wt_class = WriteDeliveryReceipt, wt_issued = True\<rparr>
      (cp_delivery c) es (ForDecision codexProceedContinuation ExitContinue []) = (Ok 7, st')" for tail es
    using c by (simp add: Receive_def sample_env_def sample_admission_def fresh_state_def Authorize_def Warrant_IsValid_def
        ForDecision_def run_enter_def make_done_def NewCommitSettlement_def run_finish_def close_done_def run_result_def Let_def)
  then obtain st' where "Receive (hv_receipt (sample_env tail)) fresh_state \<lparr>wt_class = WriteDeliveryReceipt, wt_issued = True\<rparr>
      (cp_delivery c) [InterpretedEffect, ConsultationEffect ?f] (ForDecision codexProceedContinuation ExitContinue []) = (Ok 7, st')" for tail
    by (auto simp: sample_env_def)
  then have "deliveryCommit (sample_env tail) fresh_state d e (cp_delivery c) (Some x) = (Ok (decided ?f, 7), st')" for tail
    using w dv q by (simp add: deliveryCommit_def decision_present_def sample_env_def)
  moreover have "cp_disposition c = CaptureValid" "dl_Bindings (cp_delivery c) = stop_bindings"
    using c by (simp_all add: sample_admission_def)
  ultimately show thesis using that p g by metis
qed

lemma sample_honest: "honest (hv_receipt (sample_env tail))" "faithful_parser (hv_admission (sample_env tail))"
  by (simp_all add: honest_def sample_env_def faithful_parser_def sample_admission_def)

theorem delivery_one_decision_witness:
  "\<exists>r st' (p :: preparedDelivery). hookLifecycle (sample_env True) fresh_state = (Ok r, st')
     \<and> hk_journal st' = [(pd_outcome p, True, pd_effects p)] \<and> CommittedOutcome (hk_fence st') = (pd_outcome p, True)"
proof (rule sample_commit)
  fix d e c x r st'
  assume "prepareLifecycleDelivery sample_admission = Ok (d, e, c)" "cp_disposition c = CaptureValid"
    "evaluateGate sample_store sample_decoders d e (dl_Bindings (cp_delivery c)) HarnessCodex = Ok (Some x)"
    "\<And>tail. deliveryCommit (sample_env tail) fresh_state d e (cp_delivery c) (Some x) = (Ok (r, 7), st')"
  then have h: "hookLifecycle (sample_env True) fresh_state = (Ok r, st')"
    by (simp add: hookLifecycle_def hook_body_def) (simp add: sample_env_def sample_admission_def)
  have j: "hk_journal fresh_state = []" by (simp add: fresh_state_def)
  show ?thesis using delivery_one_decision [OF h sample_honest] h unfolding j append_Nil by blast
qed

theorem sentinels_true_witness:
  "\<exists>er st' row. hookLifecycle (sample_env False) fresh_state = (Err er, st')
     \<and> errors_Is er ErrLifecycleCommittedWithoutContinuation \<and> hk_journal st' = [row]"
proof (rule sample_commit)
  fix d e c x r st'
  assume "prepareLifecycleDelivery sample_admission = Ok (d, e, c)" "cp_disposition c = CaptureValid"
    "evaluateGate sample_store sample_decoders d e (dl_Bindings (cp_delivery c)) HarnessCodex = Ok (Some x)"
    "\<And>tail. deliveryCommit (sample_env tail) fresh_state d e (cp_delivery c) (Some x) = (Ok (r, 7), st')"
  then have h: "hookLifecycle (sample_env False) fresh_state
      = (Err (Wrapped ErrLifecycleCommittedWithoutContinuation (Plain SessionTailFault)), st')"
    by (simp add: hookLifecycle_def hook_body_def) (simp add: sample_env_def sample_admission_def)
  show ?thesis using sentinels_true [OF h sample_honest(1)] h by (auto simp: fresh_state_def)
qed

end
