(* ===== verification/LaneServe.thy ===== *)
theory LaneServe
  imports HookDelivery WriteLane
begin

text \<open>
  The served lifecycle path of the daemon (\<^verbatim>\<open>internal/handlers/hook_lifecycle_server.go\<close>): one
  consult-and-record request is admitted and evaluated as the direct path does it, and its write goes
  through the write lane as a record that is prepared before the shared transaction and settled with
  its own outcome of the batch.  A submitted record is either not admitted or answered with the report of
  its own turn (\<^verbatim>\<open>WriteLane\<close>): the error of its preparation, or its settlement with the outcome of its
  operation.  What the batch answered for the operation, the journal identity it produced and whether a row
  was written are arguments.  The lemmas show that the stage the daemon answers is true of the
  journal, and that the daemon answers and records what the direct path would.
\<close>

section \<open>The record of a request\<close>

record served_env =
  sr_wired :: bool
  sr_admission :: lifecycleAdmission
  sr_service :: bool
  sr_store :: gate_store
  sr_decoders :: role_decoders
  sr_admitted :: bool
  sr_metamodel :: bool
  sr_prepared :: bool
  sr_batch :: BatchRecordResult
  sr_occurrence :: nat
  sr_wrote :: bool
  sr_tail :: bool

text \<open>The outcome is the one the service carries; the session tail runs only for a record that has a tracker.\<close>

record servedLifecycleRecord =
  sl_warrant :: Warrant
  sl_delivery :: Delivery
  sl_effects :: "effect list"
  sl_outcome :: Outcome
  sl_ensureMetamodel :: bool
  sl_tracker :: bool

definition servedRecord_Prepare :: "served_env \<Rightarrow> servedLifecycleRecord \<Rightarrow> hook_error + unit" where
  "servedRecord_Prepare env r =
     (if sl_ensureMetamodel r \<and> \<not> sr_metamodel env then refuse MetamodelFault
      else case Authorize (sl_warrant r) WriteDeliveryReceipt of
          Some x \<Rightarrow> refuse (WriteRefused x)
        | None \<Rightarrow> if \<not> sr_prepared env then refuse PreparationFault else Ok ())"

definition servedRecord_Settle :: "served_env \<Rightarrow> servedLifecycleRecord \<Rightarrow> BatchRecordResult \<Rightarrow> hook_error + nat" where
  "servedRecord_Settle env r result =
     (if Report result \<noteq> None then refuse BatchNotDurable
      else if sr_occurrence env = 0 then refuse (SettlementRefused NoOccurrenceIdentity)
      else if \<not> sl_tracker r then Ok (sr_occurrence env)
      else if \<not> sr_tail env then Err (Wrapped ErrLifecycleCommittedWithoutContinuation (Plain SessionTailFault))
      else Ok (sr_occurrence env))"

type_synonym receipt_journal = "(Outcome \<times> bool \<times> effect list) list"

definition submitToLane :: "served_env \<Rightarrow> receipt_journal \<Rightarrow> servedLifecycleRecord \<Rightarrow> (hook_error + nat) \<times> receipt_journal" where
  "submitToLane env j r =
     (if \<not> sr_admitted env then (Err (Wrapped ErrLifecycleBeforeDurableWrite (Plain LaneNotAdmitted)), j)
      else case servedRecord_Prepare env r of
          Err e \<Rightarrow> (Err e, j)
        | Ok _ \<Rightarrow>
            (servedRecord_Settle env r (sr_batch env),
             if sr_wrote env then j @ [(sl_outcome r, dl_Capture (sl_delivery r) = CaptureValid, sl_effects r)] else j))"

section \<open>The request\<close>

definition prepareServedDelivery :: "lifecycleDispatch \<Rightarrow> Event \<Rightarrow> Delivery \<Rightarrow> Decision option
    \<Rightarrow> hook_error + (Warrant \<times> preparedDelivery)" where
  "prepareServedDelivery row event delivery decision =
     result_bind (decision_present row event decision) (\<lambda>_.
     result_bind (deliveryWarrant delivery) (\<lambda>warrant.
     result_bind (deliveryDerive row event delivery) (\<lambda>derivation.
     result_bind (prepareDelivery row event derivation decision) (\<lambda>prepared.
     Ok (warrant, prepared)))))"

text \<open>The body of \<^verbatim>\<open>Serve\<close>: whether a write was attempted, the committed answer, and the journal.\<close>

definition serve_body :: "served_env \<Rightarrow> receipt_journal \<Rightarrow> bool \<times> (hook_error + (Outcome \<times> nat)) \<times> receipt_journal" where
  "serve_body env j =
     (if \<not> sr_wired env then (False, refuse IncompleteWiring, j)
      else case prepareLifecycleDelivery (sr_admission env) of
          Err e \<Rightarrow> (False, Err e, j)
        | Ok (row, event, capture) \<Rightarrow>
            if \<not> sr_service env then (False, refuse ServiceFault, j)
            else if cp_disposition capture \<noteq> CaptureValid then
              (case deliveryWarrant (cp_delivery capture) of
                 Err e \<Rightarrow> (False, Err e, j)
               | Ok warrant \<Rightarrow>
                   (case submitToLane env j \<lparr>sl_warrant = warrant, sl_delivery = cp_delivery capture, sl_effects = [],
                         sl_outcome = zero_outcome, sl_ensureMetamodel = False, sl_tracker = False\<rparr> of
                      (Err e, j') \<Rightarrow> (True, Err e, j')
                    | (Ok _, j') \<Rightarrow> (True, Err (Wrapped ErrLifecycleDeliveryRefused (Plain UnbindableCapture)), j')))
            else (case evaluateGate (sr_store env) (sr_decoders env) row event (dl_Bindings (cp_delivery capture))
                     (ad_Harness (sr_admission env)) of
                Err e \<Rightarrow> (False, Err e, j)
              | Ok decision \<Rightarrow>
                  (case prepareServedDelivery row event (cp_delivery capture) decision of
                     Err e \<Rightarrow> (False, Err e, j)
                   | Ok (warrant, prepared) \<Rightarrow>
                       (case submitToLane env j \<lparr>sl_warrant = warrant, sl_delivery = cp_delivery capture,
                             sl_effects = pd_effects prepared, sl_outcome = pd_outcome prepared,
                             sl_ensureMetamodel = True, sl_tracker = True\<rparr> of
                          (Err e, j') \<Rightarrow> (True, Err e, j')
                        | (Ok n, j') \<Rightarrow> (True, Ok (pd_outcome prepared, n), j')))))"

definition Serve :: "served_env \<Rightarrow> receipt_journal \<Rightarrow> (hook_error + (Outcome \<times> nat)) \<times> receipt_journal" where
  "Serve env j =
     (case serve_body env j of
        (durablePossible, Err e, j') \<Rightarrow>
          (if \<not> durablePossible then (Err (Wrapped ErrLifecycleBeforeDurableWrite e), j') else (Err e, j'))
      | (_, Ok r, j') \<Rightarrow> (Ok r, j'))"

definition LifecycleFaultStageForError :: "hook_error \<Rightarrow> FaultStage" where
  "LifecycleFaultStageForError e =
     (if errors_Is e ErrLifecycleBeforeDurableWrite then FaultStageNotRecorded
      else if errors_Is e ErrLifecycleCommittedWithoutContinuation then FaultStageRecorded
      else if errors_Is e ErrLifecycleDeliveryRefused then FaultStageRecorded
      else FaultStageRecordUnknown)"

section \<open>What a submitted record leaves\<close>

text \<open>A batch reports a durable outcome only for an operation whose row is in the journal.\<close>

definition served_honest :: "served_env \<Rightarrow> bool" where
  "served_honest env \<longleftrightarrow> (OutcomeIsDurable (br_Outcome (sr_batch env)) \<longrightarrow> sr_wrote env)"

lemma Report_None: "Report r = None \<longleftrightarrow> OutcomeIsDurable (br_Outcome r)"
  by (auto simp: Report_def split: option.splits)

lemma submit_Ok:
  assumes "submitToLane env j r = (Ok n, j')" "served_honest env"
  shows "j' = j @ [(sl_outcome r, dl_Capture (sl_delivery r) = CaptureValid, sl_effects r)]"
    "Authorize (sl_warrant r) WriteDeliveryReceipt = None"
  using assms
  by (auto simp: submitToLane_def servedRecord_Prepare_def servedRecord_Settle_def Report_None served_honest_def
      split: if_splits sum.splits option.splits)

lemma submit_Err:
  assumes "submitToLane env j r = (Err e, j')" "served_honest env"
  shows "\<not> errors_Is e ErrLifecycleDeliveryRefused"
    "errors_Is e ErrLifecycleBeforeDurableWrite \<Longrightarrow> j' = j \<and> \<not> errors_Is e ErrLifecycleCommittedWithoutContinuation"
    "errors_Is e ErrLifecycleCommittedWithoutContinuation
      \<Longrightarrow> j' = j @ [(sl_outcome r, dl_Capture (sl_delivery r) = CaptureValid, sl_effects r)]"
  using assms
  by (auto simp: submitToLane_def servedRecord_Prepare_def servedRecord_Settle_def Report_None served_honest_def
      split: if_splits sum.splits option.splits)

lemma submit_journal:
  "submitToLane env j r = (res, j')
    \<Longrightarrow> j' = j \<or> j' = j @ [(sl_outcome r, dl_Capture (sl_delivery r) = CaptureValid, sl_effects r)]"
  by (auto simp: submitToLane_def split: if_splits sum.splits)

text \<open>The errors before the lane: nothing was written.\<close>

lemma serve_body_before:
  "serve_body env j = (False, res, j') \<Longrightarrow> j' = j \<and> \<not> is_ok res"
  by (auto simp: serve_body_def split: if_splits sum.splits prod.splits)

lemma serve_body_Ok:
  assumes "serve_body env j = (b, Ok (out, n), j')"
  obtains d e c decision w p where "sr_wired env" "sr_service env" "prepareLifecycleDelivery (sr_admission env) = Ok (d, e, c)" "cp_disposition c = CaptureValid"
    "evaluateGate (sr_store env) (sr_decoders env) d e (dl_Bindings (cp_delivery c)) (ad_Harness (sr_admission env)) = Ok decision"
    "prepareServedDelivery d e (cp_delivery c) decision = Ok (w, p)" "out = pd_outcome p"
    "submitToLane env j \<lparr>sl_warrant = w, sl_delivery = cp_delivery c, sl_effects = pd_effects p, sl_outcome = pd_outcome p,
       sl_ensureMetamodel = True, sl_tracker = True\<rparr> = (Ok n, j')"
  using assms by (auto simp: serve_body_def split: if_splits sum.splits prod.splits)

lemma serve_body_Err:
  assumes "serve_body env j = (True, Err er, j')" "served_honest env"
  shows "(errors_Is er ErrLifecycleBeforeDurableWrite \<longrightarrow> j' = j
        \<and> \<not> errors_Is er ErrLifecycleCommittedWithoutContinuation \<and> \<not> errors_Is er ErrLifecycleDeliveryRefused)
    \<and> (errors_Is er ErrLifecycleCommittedWithoutContinuation \<or> errors_Is er ErrLifecycleDeliveryRefused
        \<longrightarrow> (\<exists>row. j' = j @ [row]))"
  using assms(1) submit_Err [OF _ assms(2)] submit_Ok(1) [OF _ assms(2)]
  by (fastforce simp: serve_body_def split: if_splits sum.splits prod.splits)

lemma serve_body_journal: "serve_body env j = (b, res, j') \<Longrightarrow> j' = j \<or> (\<exists>row. j' = j @ [row])"
  using submit_journal [of env j] by (fastforce simp: serve_body_def split: if_splits sum.splits prod.splits)

lemma prepareServed_Ok:
  assumes "prepareServedDelivery d e dl dn = Ok (w, p)"
  obtains dv where "decision_present d e dn = Ok ()" "deliveryWarrant dl = Ok w" "deliveryDerive d e dl = Ok dv"
    "prepareDelivery d e dv dn = Ok p"
  using assms by (auto simp: prepareServedDelivery_def)

text \<open>A delivery that is prepared is prepared the same way on both paths.\<close>

lemma deliveryCommit_served:
  assumes "prepareServedDelivery d e dl dn = Ok (w, p)"
  shows "deliveryCommit env st d e dl dn =
    (if \<not> hv_metamodel env then (refuse MetamodelFault, st)
     else case Receive (hv_receipt env) st w dl (pd_effects p) (pd_outcome p) of
         (Err x, st') \<Rightarrow> (Err x, st') | (Ok n, st') \<Rightarrow> (Ok (pd_response p, n), st'))"
  using assms by (rule prepareServed_Ok) (simp add: deliveryCommit_def)

lemma carries_exit: "carries m dn p \<Longrightarrow> ExitStatus_Code (out_Exit (pd_outcome p)) \<noteq> None"
  by (auto simp: carries_def host_reads_def split: option.splits HookSurface.splits if_splits)

lemma prepared_carries:
  assumes p: "prepareLifecycleDelivery a = Ok (d, e, c)"
    and g: "evaluateGate gs dec d e bs h = Ok decision"
    and q: "prepareServedDelivery d e (cp_delivery c) decision = Ok (w, p)"
  obtains m where "dp_mapping d (ev_NativeName e) = Ok m" "crosses m (dl_Bindings (cp_delivery c))" "carries m decision p"
proof -
  obtain dv where dv: "deliveryDerive d e (cp_delivery c) = Ok dv" "prepareDelivery d e dv decision = Ok p"
    using q by (rule prepareServed_Ok)
  have D: "dispatch d" by (rule pinned_is_dispatch [OF prepare_pinned [OF p]])
  obtain m where m: "dp_mapping d (ev_NativeName e) = Ok m" using prepareDelivery_mapping [OF dv(2)] by blast
  have r: "Derive (lm_semantic m) = Some dv \<and> crosses m (dl_Bindings (cp_delivery c))"
    by (rule dispatch.deliveryDerive_row [OF D conjunct1 [OF prepare_event [OF p]] m dv(1)])
  have "carries m decision p"
    by (rule dispatch.prepareDelivery_carries [OF D m conjunct1 [OF r] _ _ dv(2)])
      (use evaluateGate_decision [OF g m] in blast)+
  then show thesis using that m r by blast
qed

section \<open>The daemon's answer is true of the journal\<close>

text \<open>The daemon's answer to a hook is true of the journal.  A committed answer carries the outcome of the
  decision the gate took on the admitted event, with a status the host knows, and its row is in the journal; a
  refusal with the stage not-recorded left the journal as it was, one with the stage recorded left exactly one
  new row, and no request leaves more than one.\<close>

theorem served_stage_true:
  assumes h: "served_honest env" and f: "faithful_parser (sr_admission env)"
  shows "case Serve env j of
      (Ok (out, n), j') \<Rightarrow> \<exists>d e c m decision p. prepareLifecycleDelivery (sr_admission env) = Ok (d, e, c)
          \<and> dp_mapping d (ev_NativeName e) = Ok m \<and> crosses m (dl_Bindings (cp_delivery c))
          \<and> evaluateGate (sr_store env) (sr_decoders env) d e (dl_Bindings (cp_delivery c)) (ad_Harness (sr_admission env)) = Ok decision
          \<and> carries m decision p \<and> out = pd_outcome p \<and> ExitStatus_Code (out_Exit out) \<noteq> None
          \<and> j' = j @ [(out, True, pd_effects p)]
    | (Err e, j') \<Rightarrow> (LifecycleFaultStageForError e = FaultStageNotRecorded \<longrightarrow> j' = j)
          \<and> (LifecycleFaultStageForError e = FaultStageRecorded \<longrightarrow> (\<exists>row. j' = j @ [row]))
          \<and> (j' = j \<or> (\<exists>row. j' = j @ [row]))"
proof -
  obtain b res j' where s: "serve_body env j = (b, res, j')" by (metis prod_cases3)
  show ?thesis
  proof (cases res)
    case (Inl er)
    then show ?thesis
      using serve_body_before [of env j res j'] serve_body_Err [of env j er j', OF _ h] serve_body_journal [OF s] s
      by (cases b) (auto simp: Serve_def LifecycleFaultStageForError_def)
  next
    case (Inr y)
    obtain out n where y: "y = (out, n)" by (cases y)
    obtain d e c decision w p where p: "prepareLifecycleDelivery (sr_admission env) = Ok (d, e, c)" "cp_disposition c = CaptureValid"
      "evaluateGate (sr_store env) (sr_decoders env) d e (dl_Bindings (cp_delivery c)) (ad_Harness (sr_admission env)) = Ok decision"
      "prepareServedDelivery d e (cp_delivery c) decision = Ok (w, p)" "out = pd_outcome p"
      and r: "submitToLane env j \<lparr>sl_warrant = w, sl_delivery = cp_delivery c, sl_effects = pd_effects p, sl_outcome = pd_outcome p,
         sl_ensureMetamodel = True, sl_tracker = True\<rparr> = (Ok n, j')"
      using s [unfolded Inr y] by (rule serve_body_Ok)
    obtain m where m: "dp_mapping d (ev_NativeName e) = Ok m" "crosses m (dl_Bindings (cp_delivery c))" "carries m decision p"
      by (rule prepared_carries [OF p(1,3,4)])
    have "dl_Capture (cp_delivery c) = CaptureValid"
      using prepare_event [OF p(1)] p(2) f by (auto simp: faithful_parser_def)
    then have "j' = j @ [(out, True, pd_effects p)]" using submit_Ok(1) [OF r h] p(5) by simp
    moreover have "Serve env j = (Ok (out, n), j')" using s Inr y by (simp add: Serve_def)
    ultimately show ?thesis using p m carries_exit [OF m(3)] by auto
  qed
qed

section \<open>The daemon answers what the direct path would\<close>

text \<open>The direct path over the same request, and a write that succeeds on either path.\<close>

definition direct_env :: "served_env \<Rightarrow> receipt_env \<Rightarrow> hook_env" where
  "direct_env env re =
     \<lparr>hv_wired = sr_wired env, hv_admission = sr_admission env, hv_open = True, hv_service = sr_service env,
      hv_store = sr_store env, hv_decoders = sr_decoders env, hv_metamodel = sr_metamodel env, hv_receipt = re,
      hv_tail = sr_tail env\<rparr>"

definition direct_writes :: "receipt_env \<Rightarrow> CommitSettlement \<Rightarrow> bool" where
  "direct_writes re fence \<longleftrightarrow> re_prepared re \<and> \<not> re_cancelled re \<and> is_ok (run_result (re_append re)) \<and> re_wrote re
     \<and> cs_state fence = settlementIdle \<and> cs_done fence \<noteq> ClosedChannel"

definition lane_writes :: "served_env \<Rightarrow> bool" where
  "lane_writes env \<longleftrightarrow> sr_admitted env \<and> sr_prepared env \<and> OutcomeIsDurable (br_Outcome (sr_batch env))
     \<and> sr_occurrence env \<noteq> 0 \<and> sr_wrote env"

lemma warrant_authorized: "deliveryWarrant dl = Ok w \<Longrightarrow> Authorize w WriteDeliveryReceipt = None"
  by (auto simp: deliveryWarrant_def NewDeliveryIntent_def Legalize_def Authorize_def Warrant_IsValid_def
      split: sum.splits if_splits)

lemma Receive_writes:
  assumes "direct_writes re (hk_fence st)" "Authorize w WriteDeliveryReceipt = None" "dl_Capture dl = CaptureValid"
    "ExitStatus_Code (out_Exit out) \<noteq> None"
  obtains n st' where "Receive re st w dl es out = (Ok n, st')" "hk_journal st' = hk_journal st @ [(out, True, es)]"
    "CommittedOutcome (hk_fence st') = (out, True)"
proof -
  obtain n where n: "re_append re = AppendReturned n" "n \<noteq> 0"
    using assms(1) by (auto simp: direct_writes_def run_result_def split: append_result.splits if_splits)
  show thesis
    using assms that n
    by (cases "cs_done (hk_fence st)")
      (auto simp: direct_writes_def Receive_def Let_def run_enter_def make_done_def run_finish_def close_done_def
        run_committed_def run_result_def CommittedOutcome_def)
qed

lemma lane_submits:
  assumes "lane_writes env" "sr_metamodel env" "Authorize (sl_warrant r) WriteDeliveryReceipt = None" "sl_tracker r"
  shows "submitToLane env j r =
    (if sr_tail env then Ok (sr_occurrence env)
     else Err (Wrapped ErrLifecycleCommittedWithoutContinuation (Plain SessionTailFault)),
     j @ [(sl_outcome r, dl_Capture (sl_delivery r) = CaptureValid, sl_effects r)])"
  using assms Report_None [of "sr_batch env"]
  by (auto simp: lane_writes_def submitToLane_def servedRecord_Prepare_def servedRecord_Settle_def)

lemma hook_wired: "hookLifecycle env st = (Ok r, st') \<Longrightarrow> hv_wired env \<and> hv_service env \<and> hv_tail env"
  by (auto simp: hookLifecycle_def hook_body_def split: sum.splits if_splits prod.splits)

lemma commit_metamodel: "deliveryCommit env st d e dl dn = (Ok r, st') \<Longrightarrow> hv_metamodel env"
  by (auto simp: deliveryCommit_def split: sum.splits if_splits)

text \<open>C16: When the writes succeed, the daemon and the direct path are the same function of the request: one answers
  exactly when the other does, with the same outcome for the host and the same journal.\<close>

theorem served_matches_direct:
  assumes dw: "direct_writes re (hk_fence st)" and lw: "lane_writes env" and f: "faithful_parser (sr_admission env)"
  shows "(\<exists>n. Serve env (hk_journal st) = (Ok (out, n), j')) \<longleftrightarrow>
    (\<exists>r st'. hookLifecycle (direct_env env re) st = (Ok r, st') \<and> hk_journal st' = j' \<and> CommittedOutcome (hk_fence st') = (out, True))"
  (is "?L \<longleftrightarrow> ?R")
proof
  assume ?L
  then obtain n b where "serve_body env (hk_journal st) = (b, Ok (out, n), j')"
    by (auto simp: Serve_def split: prod.splits sum.splits if_splits)
  then obtain d e c decision w p where p: "prepareLifecycleDelivery (sr_admission env) = Ok (d, e, c)" "cp_disposition c = CaptureValid"
      "evaluateGate (sr_store env) (sr_decoders env) d e (dl_Bindings (cp_delivery c)) (ad_Harness (sr_admission env)) = Ok decision"
      "prepareServedDelivery d e (cp_delivery c) decision = Ok (w, p)" "out = pd_outcome p"
      and r: "submitToLane env (hk_journal st) \<lparr>sl_warrant = w, sl_delivery = cp_delivery c, sl_effects = pd_effects p,
         sl_outcome = pd_outcome p, sl_ensureMetamodel = True, sl_tracker = True\<rparr> = (Ok n, j')"
      and wired: "sr_wired env" "sr_service env"
    by (rule serve_body_Ok)
  have cap: "dl_Capture (cp_delivery c) = CaptureValid" using prepare_event [OF p(1)] p(2) f by (auto simp: faithful_parser_def)
  have au: "Authorize w WriteDeliveryReceipt = None" using p(4) by (rule prepareServed_Ok) (rule warrant_authorized)
  have mt: "sr_metamodel env \<and> sr_tail env"
    using r by (auto simp: submitToLane_def servedRecord_Prepare_def servedRecord_Settle_def split: if_splits sum.splits option.splits)
  have j': "j' = hk_journal st @ [(out, True, pd_effects p)]" using r lane_submits [OF lw] mt au cap p(5) by simp
  obtain m where "carries m decision p" by (rule prepared_carries [OF p(1,3,4)])
  then obtain n' st' where "Receive re st w (cp_delivery c) (pd_effects p) (pd_outcome p) = (Ok n', st')"
      "hk_journal st' = hk_journal st @ [(pd_outcome p, True, pd_effects p)]" "CommittedOutcome (hk_fence st') = (pd_outcome p, True)"
    using Receive_writes [OF dw au cap] carries_exit by blast
  then show ?R using p deliveryCommit_served [OF p(4)] j' wired mt
    by (auto simp: hookLifecycle_def hook_body_def direct_env_def)
next
  assume ?R
  then obtain r st' where h: "hookLifecycle (direct_env env re) st = (Ok r, st')" and j': "hk_journal st' = j'"
    and co: "CommittedOutcome (hk_fence st') = (out, True)" by blast
  obtain d e c decision n where p: "prepareLifecycleDelivery (sr_admission env) = Ok (d, e, c)" "cp_disposition c = CaptureValid"
    and g: "evaluateGate (sr_store env) (sr_decoders env) d e (dl_Bindings (cp_delivery c)) (ad_Harness (sr_admission env)) = Ok decision"
    and k: "deliveryCommit (direct_env env re) st d e (cp_delivery c) decision = (Ok (r, n), st')"
    by (rule hookLifecycle_Ok [OF h]) (simp add: direct_env_def)
  have wired: "sr_wired env" "sr_service env" "sr_metamodel env" "sr_tail env"
    using hook_wired [OF h] commit_metamodel [OF k] by (simp_all add: direct_env_def)
  have dp: "decision_present d e decision = Ok ()" using k by (auto simp: deliveryCommit_def split: sum.splits)
  obtain w dv q where q: "deliveryWarrant (cp_delivery c) = Ok w" "deliveryDerive d e (cp_delivery c) = Ok dv"
    "prepareDelivery d e dv decision = Ok q"
    and rc: "Receive re st w (cp_delivery c) (pd_effects q) (pd_outcome q) = (Ok n, st')"
    by (rule deliveryCommit_Ok [OF k]) (simp add: direct_env_def)
  have pq: "prepareServedDelivery d e (cp_delivery c) decision = Ok (w, q)" using dp q by (simp add: prepareServedDelivery_def)
  have cap: "dl_Capture (cp_delivery c) = CaptureValid" using prepare_event [OF p(1)] p(2) f by (auto simp: faithful_parser_def)
  have "honest re" using dw by (simp add: honest_def direct_writes_def)
  then have "hk_journal st' = hk_journal st @ [(pd_outcome q, True, pd_effects q)]" "out = pd_outcome q"
    using Receive_Ok [OF rc] cap co by auto
  then show ?L using p g pq wired j' cap lane_submits [OF lw wired(3)] warrant_authorized [OF q(1)]
    by (auto simp: Serve_def serve_body_def)
qed

section \<open>A served hook\<close>

definition sample_served :: "bool \<Rightarrow> served_env" where
  "sample_served durable =
     \<lparr>sr_wired = True, sr_admission = sample_admission, sr_service = True, sr_store = sample_store,
      sr_decoders = sample_decoders, sr_admitted = True, sr_metamodel = True, sr_prepared = True,
      sr_batch = \<lparr>br_Outcome = (if durable then BatchRecordCommitted else BatchRecordFailed), br_Err = None\<rparr>,
      sr_occurrence = 7, sr_wrote = durable, sr_tail = True\<rparr>"

lemma sample_direct: "direct_env (sample_served d) (hv_receipt (sample_env True)) = sample_env True"
  by (simp add: direct_env_def sample_served_def sample_env_def)

lemma sample_writes: "direct_writes (hv_receipt (sample_env True)) (hk_fence fresh_state)" "lane_writes (sample_served True)"
  "faithful_parser (sr_admission (sample_served d))" "served_honest (sample_served d)"
  using sample_honest(2) [of True]
  by (simp_all add: direct_writes_def lane_writes_def sample_env_def sample_served_def fresh_state_def NewCommitSettlement_def
      run_result_def OutcomeIsDurable_def served_honest_def)

lemma sample_hook:
  obtains r st' where "hookLifecycle (sample_env True) fresh_state = (Ok r, st')" "snd (CommittedOutcome (hk_fence st'))"
proof (rule sample_commit)
  fix d e c x r st'
  assume a: "prepareLifecycleDelivery sample_admission = Ok (d, e, c)" "cp_disposition c = CaptureValid"
    "evaluateGate sample_store sample_decoders d e (dl_Bindings (cp_delivery c)) HarnessCodex = Ok (Some x)"
    "\<And>tail. deliveryCommit (sample_env tail) fresh_state d e (cp_delivery c) (Some x) = (Ok (r, 7), st')"
  then have h: "hookLifecycle (sample_env True) fresh_state = (Ok r, st')"
    by (simp add: hookLifecycle_def hook_body_def) (simp add: sample_env_def sample_admission_def)
  obtain w dv p where "deliveryWarrant (cp_delivery c) = Ok w" "deliveryDerive d e (cp_delivery c) = Ok dv"
    "prepareDelivery d e dv (Some x) = Ok p"
    "Receive (hv_receipt (sample_env True)) fresh_state w (cp_delivery c) (pd_effects p) (pd_outcome p) = (Ok 7, st')"
    by (rule deliveryCommit_Ok [OF a(4) [of True]])
  moreover have "dl_Capture (cp_delivery c) = CaptureValid"
    using prepare_event [OF a(1)] a(2) sample_honest(2) [of True] by (auto simp: faithful_parser_def sample_env_def)
  ultimately show thesis using Receive_Ok(3) [OF _ sample_honest(1)] that [OF h] by auto
qed

theorem served_matches_direct_witness:
  "\<exists>out n j'. Serve (sample_served True) [] = (Ok (out, n), j')"
proof (rule sample_hook)
  fix r st'
  assume h: "hookLifecycle (sample_env True) fresh_state = (Ok r, st')" "snd (CommittedOutcome (hk_fence st'))"
  obtain out where "CommittedOutcome (hk_fence st') = (out, True)" using h(2) by (metis prod.collapse)
  moreover have "hk_journal fresh_state = []" by (simp add: fresh_state_def)
  ultimately show ?thesis
    using served_matches_direct [OF sample_writes(1,2,3), of out "hk_journal st'"] h(1) unfolding sample_direct by auto
qed

lemma sample_refused: "\<exists>j'. Serve (sample_served False) [] = (refuse BatchNotDurable, j')"
proof (rule sample_hook)
  fix r st'
  assume h: "hookLifecycle (sample_env True) fresh_state = (Ok r, st')"
  obtain d e c decision n where p: "prepareLifecycleDelivery sample_admission = Ok (d, e, c)" "cp_disposition c = CaptureValid"
    "evaluateGate sample_store sample_decoders d e (dl_Bindings (cp_delivery c)) (ad_Harness sample_admission) = Ok decision"
    and k: "deliveryCommit (sample_env True) fresh_state d e (cp_delivery c) decision = (Ok (r, n), st')"
    by (rule hookLifecycle_Ok [OF h]) (simp add: sample_env_def)
  obtain w dv q where q: "deliveryWarrant (cp_delivery c) = Ok w" "deliveryDerive d e (cp_delivery c) = Ok dv"
    "prepareDelivery d e dv decision = Ok q" by (rule deliveryCommit_Ok [OF k])
  have "decision_present d e decision = Ok ()" using k by (auto simp: deliveryCommit_def split: sum.splits)
  then have "prepareServedDelivery d e (cp_delivery c) decision = Ok (w, q)" using q by (simp add: prepareServedDelivery_def)
  then show ?thesis using p warrant_authorized [OF q(1)]
    by (simp add: Serve_def serve_body_def sample_served_def submitToLane_def servedRecord_Prepare_def servedRecord_Settle_def
        Report_def OutcomeIsDurable_def)
qed

theorem served_stage_true_witness:
  "\<exists>e j'. Serve (sample_served False) [] = (Err e, j') \<and> LifecycleFaultStageForError e = FaultStageRecordUnknown
     \<and> (j' = [] \<or> (\<exists>row. j' = [row]))"
proof -
  obtain j' where s: "Serve (sample_served False) [] = (refuse BatchNotDurable, j')" using sample_refused by blast
  show ?thesis using served_stage_true [OF sample_writes(4) sample_writes(3) [of False], of "[]"] s
    by (auto simp: LifecycleFaultStageForError_def)
qed

end
