(* ===== verification/LaneWire.thy ===== *)
theory LaneWire
  imports LaneServe "HOL-Library.Sublist"
begin

text \<open>
  The wire between a lifecycle hook and the write lane of the daemon: the frames
  (\<^verbatim>\<open>internal/lifecycle/lanewire/wire.go\<close>), the client of the hook (\<^verbatim>\<open>internal/lifecycle/laneclient/client.go\<close>)
  and the connection server of the daemon (\<^verbatim>\<open>internal/lifecycle/laneserve/serve.go\<close>).  A connection is two byte
  streams, each of which may stop at any byte, with writes that may fail after any number of bytes.  The
  reflective JSON encoding of the two header types is an argument; a header comes back from it with the
  texts made valid UTF-8.  The lemmas show that a frame is read exactly when all of it has arrived, that a
  client which reports the lane unavailable has not made the daemon serve anything, and that an answered
  request was served once, with the answer the daemon's handler gave.
\<close>

section \<open>Frames\<close>

definition ProtocolVersion :: int where "ProtocolVersion = 4"
definition KindCommitted :: string where "KindCommitted = ''committed''"
definition KindRefused :: string where "KindRefused = ''refused''"
definition KindReady :: string where "KindReady = ''ready''"
definition MaxHeaderBytes :: nat where "MaxHeaderBytes = 65536"
definition MaxBodyBytes :: nat where "MaxBodyBytes = 4194304"

record Invocation =
  iv_Provider :: "string option"
  iv_Model :: "string option"
  iv_Role :: "string option"

record Request =
  rq_Version :: int
  rq_Harness :: string
  rq_Event :: string
  rq_HostVersion :: string
  rq_HostVersionSource :: string
  rq_ActorClaim :: string
  rq_ImplicitClaim :: bool
  rq_Execution :: Invocation

record Response =
  rs_Version :: int
  rs_Kind :: string
  rs_ExitStatus :: int
  rs_Stdout :: string
  rs_Stderr :: string
  rs_OccurrenceID :: string
  rs_ClaimState :: string
  rs_Stage :: string
  rs_Refusal :: string

definition zero_response_header :: Response where
  "zero_response_header = \<lparr>rs_Version = 0, rs_Kind = [], rs_ExitStatus = 0, rs_Stdout = [], rs_Stderr = [],
     rs_OccurrenceID = [], rs_ClaimState = [], rs_Stage = [], rs_Refusal = []\<rparr>"

datatype wire_error = FrameTooLarge | HeaderUndecodable | UnexpectedEOF | StreamBroken

text \<open>The encoding of a header and its strict decoding, which also refuses an unknown member and anything after
  the object.\<close>

record 'h codec =
  cd_marshal :: "'h \<Rightarrow> string"
  cd_unmarshal :: "string \<Rightarrow> 'h option"

definition AppendUint32 :: "nat \<Rightarrow> string" where
  "AppendUint32 n = map (\<lambda>k. char_of ((n div 256 ^ k) mod 256)) [3, 2, 1, 0]"

definition BigEndian_Uint32 :: "string \<Rightarrow> nat" where
  "BigEndian_Uint32 s = foldl (\<lambda>acc c. acc * 256 + of_char c) 0 s"

definition encode_frame :: "'h codec \<Rightarrow> 'h \<Rightarrow> string \<Rightarrow> wire_error + string" where
  "encode_frame c header body =
     (let encoded = cd_marshal c header in
      if length encoded > MaxHeaderBytes then Err FrameTooLarge
      else if length body > MaxBodyBytes then Err FrameTooLarge
      else Ok (AppendUint32 (length encoded) @ encoded @ AppendUint32 (length body) @ body))"

text \<open>The results of the writes to a stream, in order: how many bytes it took, and whether it then failed.\<close>

datatype write_result = Wrote nat | WriteError nat

type_synonym writer = "nat \<Rightarrow> write_result"

function write_frame :: "writer \<Rightarrow> nat \<Rightarrow> string \<Rightarrow> string \<times> wire_error option" where
  "write_frame w i frame =
     (if frame = [] then ([], None)
      else case w i of
          WriteError n \<Rightarrow> (take n frame, Some StreamBroken)
        | Wrote n \<Rightarrow>
            if n = 0 then ([], Some StreamBroken)
            else (case write_frame w (Suc i) (drop n frame) of (sent, e) \<Rightarrow> (take n frame @ sent, e)))"
  by pat_completeness auto
termination by (relation "measure (\<lambda>(w, i, frame). length frame)") auto

declare write_frame.simps [simp del]

definition WriteMessage :: "'h codec \<Rightarrow> writer \<Rightarrow> 'h \<Rightarrow> string \<Rightarrow> string \<times> wire_error option" where
  "WriteMessage c w header body =
     (case encode_frame c header body of Err e \<Rightarrow> ([], Some e) | Ok frame \<Rightarrow> write_frame w 0 frame)"

text \<open>Reading from what a stream delivers: the value read and the bytes after it.\<close>

definition ReadFull :: "nat \<Rightarrow> string \<Rightarrow> wire_error + (string \<times> string)" where
  "ReadFull n s = (if length s < n then Err UnexpectedEOF else Ok (take n s, drop n s))"

definition readUint32 :: "string \<Rightarrow> wire_error + (nat \<times> string)" where
  "readUint32 s = result_bind (ReadFull 4 s) (\<lambda>(buf, rest). Ok (BigEndian_Uint32 buf, rest))"

definition ReadMessage :: "'h codec \<Rightarrow> string \<Rightarrow> wire_error + ('h \<times> string \<times> string)" where
  "ReadMessage c s =
     result_bind (readUint32 s) (\<lambda>(headerLength, s1).
     if headerLength > MaxHeaderBytes then Err FrameTooLarge
     else result_bind (ReadFull headerLength s1) (\<lambda>(encoded, s2).
       case cd_unmarshal c encoded of
         None \<Rightarrow> Err HeaderUndecodable
       | Some header \<Rightarrow>
           result_bind (readUint32 s2) (\<lambda>(bodyLength, s3).
           if bodyLength > MaxBodyBytes then Err FrameTooLarge
           else result_bind (ReadFull bodyLength s3) (\<lambda>(body, rest). Ok (header, body, rest)))))"

definition CheckVersion :: "int \<Rightarrow> bool" where
  "CheckVersion version \<longleftrightarrow> version = ProtocolVersion"

section \<open>The client\<close>

datatype consult_error = ErrUnavailable | ErrRecordUnknown

text \<open>The two writes of a client, whether it was constructed and connected, and its peer: what the client has
  received once it has sent some bytes.\<close>

record lane_link =
  lk_client :: bool
  lk_dial :: bool
  lk_probe :: writer
  lk_request :: writer

definition version_probe :: Request where
  "version_probe = \<lparr>rq_Version = ProtocolVersion, rq_Harness = [], rq_Event = [], rq_HostVersion = [],
     rq_HostVersionSource = [], rq_ActorClaim = [], rq_ImplicitClaim = False,
     rq_Execution = \<lparr>iv_Provider = None, iv_Model = None, iv_Role = None\<rparr>\<rparr>"

text \<open>The answer, and all bytes that left the client.\<close>

definition Consult :: "Request codec \<Rightarrow> Response codec \<Rightarrow> lane_link \<Rightarrow> (string \<Rightarrow> string) \<Rightarrow> Request \<Rightarrow> string
    \<Rightarrow> (consult_error + Response) \<times> string" where
  "Consult cq cr link peer request payload =
     (if \<not> lk_client link then (Err ErrUnavailable, [])
      else let request = request\<lparr>rq_Version := ProtocolVersion\<rparr> in
      if \<not> lk_dial link then (Err ErrUnavailable, [])
      else case WriteMessage cq (lk_probe link) version_probe [] of
          (sent1, Some _) \<Rightarrow> (Err ErrUnavailable, sent1)
        | (sent1, None) \<Rightarrow>
            (case ReadMessage cr (peer sent1) of
               Err _ \<Rightarrow> (Err ErrUnavailable, sent1)
             | Ok (ready, _, rest1) \<Rightarrow>
                 if \<not> CheckVersion (rs_Version ready) \<or> rs_Kind ready \<noteq> KindReady then (Err ErrUnavailable, sent1)
                 else (case WriteMessage cq (lk_request link) request payload of
                     (sent2, Some _) \<Rightarrow> (Err ErrRecordUnknown, sent1 @ sent2)
                   | (sent2, None) \<Rightarrow>
                       let received = drop (length (peer sent1) - length rest1) (peer (sent1 @ sent2)) in
                       (case ReadMessage cr received of
                          Err _ \<Rightarrow> (Err ErrRecordUnknown, sent1 @ sent2)
                        | Ok (response, _, _) \<Rightarrow>
                            if \<not> CheckVersion (rs_Version response) then (Err ErrRecordUnknown, sent1 @ sent2)
                            else if rs_Kind response = KindCommitted \<or> rs_Kind response = KindRefused
                            then (Ok response, sent1 @ sent2)
                            else (Err ErrRecordUnknown, sent1 @ sent2)))))"

section \<open>The connection server\<close>

record HookLifecycleServeInput =
  si_Harness :: Harness
  si_Event :: string
  si_HostVersion :: string
  si_HostVersionSource :: string
  si_Payload :: string
  si_ActorClaim :: string
  si_ImplicitClaim :: bool
  si_Execution :: Invocation

record HookLifecycleServed =
  sd_Exit :: ExitStatus
  sd_Stdout :: string
  sd_Stderr :: string
  sd_OccurrenceID :: string
  sd_ClaimState :: string

text \<open>The handler serves one request against the state of the daemon; the text of an error is an argument.\<close>

type_synonym 's handler = "HookLifecycleServeInput \<Rightarrow> 's \<Rightarrow> (hook_error + HookLifecycleServed) \<times> 's"

text \<open>The number of an exit status: its position in the enumeration.\<close>

definition ExitStatus_int :: "ExitStatus \<Rightarrow> int" where
  "ExitStatus_int s = (case s of ExitStatusUnset \<Rightarrow> 0 | ExitContinue \<Rightarrow> 1 | ExitNonBlockingError \<Rightarrow> 2 | ExitBlock \<Rightarrow> 3
     | ExitStatus_value n \<Rightarrow> int n)"

definition refusal_response :: "FaultStage \<Rightarrow> string \<Rightarrow> Response" where
  "refusal_response stage text = zero_response_header\<lparr>rs_Version := ProtocolVersion, rs_Kind := KindRefused,
     rs_Stage := FaultStage_String stage, rs_Refusal := text\<rparr>"

definition ready_response :: Response where
  "ready_response = zero_response_header\<lparr>rs_Version := ProtocolVersion, rs_Kind := KindReady\<rparr>"

definition committed_response :: "HookLifecycleServed \<Rightarrow> Response" where
  "committed_response served = zero_response_header\<lparr>rs_Version := ProtocolVersion, rs_Kind := KindCommitted,
     rs_ExitStatus := ExitStatus_int (sd_Exit served), rs_Stdout := sd_Stdout served, rs_Stderr := sd_Stderr served,
     rs_OccurrenceID := sd_OccurrenceID served, rs_ClaimState := sd_ClaimState served\<rparr>"

definition served_answer :: "(hook_error \<Rightarrow> string) \<Rightarrow> string \<Rightarrow> hook_error + HookLifecycleServed \<Rightarrow> Response" where
  "served_answer render noStatus result =
     (case result of
        Err e \<Rightarrow> refusal_response (LifecycleFaultStageForError e) (render e)
      | Ok served \<Rightarrow>
          if ExitStatus_Code (sd_Exit served) = None then refusal_response FaultStageRecordUnknown noStatus
          else committed_response served)"

definition serve_input :: "Request \<Rightarrow> string \<Rightarrow> HookLifecycleServeInput" where
  "serve_input request payload =
     \<lparr>si_Harness = rq_Harness request, si_Event = rq_Event request, si_HostVersion = rq_HostVersion request,
      si_HostVersionSource = rq_HostVersionSource request, si_Payload = payload, si_ActorClaim = rq_ActorClaim request,
      si_ImplicitClaim = rq_ImplicitClaim request, si_Execution = rq_Execution request\<rparr>"

definition version_only :: "Request \<Rightarrow> string \<Rightarrow> bool" where
  "version_only request payload \<longleftrightarrow> rq_Harness request = [] \<and> rq_Event request = [] \<and> rq_HostVersion request = []
     \<and> rq_HostVersionSource request = [] \<and> rq_ActorClaim request = [] \<and> \<not> rq_ImplicitClaim request
     \<and> rq_Execution request = \<lparr>iv_Provider = None, iv_Model = None, iv_Role = None\<rparr> \<and> payload = []"

text \<open>The texts of the refusals the server composes itself, and its two writes.\<close>

record lane_server =
  ls_ack :: writer
  ls_answer :: writer
  ls_render :: "hook_error \<Rightarrow> string"
  ls_otherVersion :: string
  ls_expectedProbe :: string
  ls_noStatus :: string

text \<open>A connection: the bytes the server wrote, the state it left, and the requests it handed to its handler.\<close>

definition ServeConn :: "Request codec \<Rightarrow> Response codec \<Rightarrow> lane_server \<Rightarrow> 's handler \<Rightarrow> string \<Rightarrow> 's
    \<Rightarrow> string \<times> 's \<times> HookLifecycleServeInput list" where
  "ServeConn cq cr server handler input st =
     (case ReadMessage cq input of
        Err _ \<Rightarrow> ([], st, [])
      | Ok (request, payload, rest) \<Rightarrow>
          if \<not> CheckVersion (rq_Version request) then
            (fst (WriteMessage cr (ls_ack server) (refusal_response FaultStageNotRecorded (ls_otherVersion server)) []), st, [])
          else if \<not> version_only request payload then
            (fst (WriteMessage cr (ls_ack server) (refusal_response FaultStageNotRecorded (ls_expectedProbe server)) []), st, [])
          else (case WriteMessage cr (ls_ack server) ready_response [] of
              (out1, Some _) \<Rightarrow> (out1, st, [])
            | (out1, None) \<Rightarrow>
                (case ReadMessage cq rest of
                   Err _ \<Rightarrow> (out1, st, [])
                 | Ok (request, payload, _) \<Rightarrow>
                     if \<not> CheckVersion (rq_Version request) then
                       (out1 @ fst (WriteMessage cr (ls_answer server)
                          (refusal_response FaultStageNotRecorded (ls_otherVersion server)) []), st, [])
                     else (case handler (serve_input request payload) st of
                         (result, st') \<Rightarrow>
                           (out1 @ fst (WriteMessage cr (ls_answer server)
                              (served_answer (ls_render server) (ls_noStatus server) result) []),
                            st', [serve_input request payload])))))"

section \<open>A frame is read when all of it has arrived\<close>

lemma length_AppendUint32 [simp]: "length (AppendUint32 n) = 4"
  by (simp add: AppendUint32_def)

lemma Uint32_Append: "n < 2 ^ 32 \<Longrightarrow> BigEndian_Uint32 (AppendUint32 n) = n"
proof -
  assume n: "n < 2 ^ 32"
  have q: "n div 65536 = n div 256 div 256" "n div 16777216 = n div 256 div 256 div 256"
    by (simp_all add: div_mult2_eq [symmetric])
  have "n div 256 div 256 div 256 < 256" using n by (simp add: div_mult2_eq [symmetric] less_mult_imp_div_less)
  then show ?thesis by (simp add: BigEndian_Uint32_def AppendUint32_def q div_mult_mod_eq)
qed

lemma readUint32_Append: "n < 2 ^ 32 \<Longrightarrow> readUint32 (AppendUint32 n @ s) = Ok (n, s)"
  by (simp add: readUint32_def ReadFull_def Uint32_Append)

lemma ReadFull_append [simp]: "ReadFull (length xs) (xs @ s) = Ok (xs, s)"
  by (simp add: ReadFull_def)

text \<open>The headers a codec returns as they are, with their texts made valid.\<close>

definition decodes :: "'h codec \<Rightarrow> 'h \<Rightarrow> 'h \<Rightarrow> bool" where
  "decodes c header header' \<longleftrightarrow> cd_unmarshal c (cd_marshal c header) = Some header'"

lemma ReadMessage_frame:
  assumes "encode_frame c h b = Ok frame" "decodes c h h'"
  shows "ReadMessage c (frame @ rest) = Ok (h', b, rest)"
proof -
  have l: "length (cd_marshal c h) \<le> 65536" "length b \<le> 4194304"
    and f: "frame = AppendUint32 (length (cd_marshal c h)) @ cd_marshal c h @ AppendUint32 (length b) @ b"
    using assms(1) by (auto simp: encode_frame_def Let_def MaxHeaderBytes_def MaxBodyBytes_def split: if_splits)
  have "readUint32 (AppendUint32 (length (cd_marshal c h)) @ s) = Ok (length (cd_marshal c h), s)"
    "readUint32 (AppendUint32 (length b) @ s) = Ok (length b, s)" for s
    using l by (simp_all add: readUint32_Append)
  then show ?thesis using assms(2) l by (simp add: ReadMessage_def f decodes_def MaxHeaderBytes_def MaxBodyBytes_def)
qed

lemma ReadFull_mono: "ReadFull n s = Ok (x, rest) \<Longrightarrow> ReadFull n (s @ t) = Ok (x, rest @ t)"
  by (auto simp: ReadFull_def split: if_splits)

lemma readUint32_mono: "readUint32 s = Ok (x, rest) \<Longrightarrow> readUint32 (s @ t) = Ok (x, rest @ t)"
  using ReadFull_mono by (fastforce simp: readUint32_def)

lemma ReadMessage_mono:
  assumes "ReadMessage c s = Ok (h, b, rest)"
  shows "ReadMessage c (s @ t) = Ok (h, b, rest @ t)"
proof -
  obtain hl s1 where 1: "readUint32 s = Ok (hl, s1)" "\<not> hl > MaxHeaderBytes"
    using assms by (cases "readUint32 s") (auto simp: ReadMessage_def split: if_splits)
  obtain encoded s2 where 2: "ReadFull hl s1 = Ok (encoded, s2)"
    using assms 1 by (cases "ReadFull hl s1") (auto simp: ReadMessage_def)
  obtain h0 where 3: "cd_unmarshal c encoded = Some h0"
    using assms 1 2 by (cases "cd_unmarshal c encoded") (auto simp: ReadMessage_def)
  obtain bl s3 where 4: "readUint32 s2 = Ok (bl, s3)" "\<not> bl > MaxBodyBytes"
    using assms 1 2 3 by (cases "readUint32 s2") (auto simp: ReadMessage_def split: if_splits)
  obtain b0 r0 where 5: "ReadFull bl s3 = Ok (b0, r0)"
    using assms 1 2 3 4 by (cases "ReadFull bl s3") (auto simp: ReadMessage_def)
  show ?thesis
    using assms 1(2) 3 4(2) readUint32_mono [OF 1(1), of t] ReadFull_mono [OF 2, of t] readUint32_mono [OF 4(1), of t]
      ReadFull_mono [OF 5, of t] 1(1) 2 4(1) 5
    by (simp add: ReadMessage_def)
qed

text \<open>C35: A frame is read back exactly when all of it has arrived, with its body byte for byte and whatever follows left
  on the stream; every proper prefix of it is refused.\<close>

theorem frame_roundtrip:
  assumes "encode_frame c h b = Ok frame" "decodes c h h'"
  shows "ReadMessage c (frame @ rest) = Ok (h', b, rest)
    \<and> (strict_prefix s frame \<longrightarrow> \<not> is_ok (ReadMessage c s))"
proof (intro conjI impI)
  show "ReadMessage c (frame @ rest) = Ok (h', b, rest)" by (rule ReadMessage_frame [OF assms])
  assume "strict_prefix s frame"
  then obtain t where t: "frame = s @ t" "t \<noteq> []" by (auto simp: strict_prefix_def prefix_def)
  show "\<not> is_ok (ReadMessage c s)"
  proof
    assume "is_ok (ReadMessage c s)"
    then obtain h1 b1 r1 where "ReadMessage c s = Ok (h1, b1, r1)" by (cases "ReadMessage c s") auto
    then have "ReadMessage c (frame @ []) = Ok (h1, b1, r1 @ t)" using ReadMessage_mono t(1) by simp
    then show False using ReadMessage_frame [OF assms, of "[]"] t(2) by simp
  qed
qed

lemma read_prefix:
  assumes "encode_frame c h b = Ok frame" "decodes c h h'" "prefix s frame" "ReadMessage c s = Ok (h1, b1, r1)"
  shows "s = frame \<and> h1 = h' \<and> b1 = b \<and> r1 = []"
proof -
  obtain t where t: "frame = s @ t" using assms(3) by (auto simp: prefix_def)
  then show ?thesis using ReadMessage_mono [OF assms(4), of t] ReadMessage_frame [OF assms(1,2), of "[]"] by simp
qed

section \<open>What a write leaves on the stream\<close>

lemma write_frame_prefix: "write_frame w i frame = (sent, e) \<Longrightarrow> prefix sent frame \<and> (e = None \<longrightarrow> sent = frame)"
proof (induction w i frame arbitrary: sent rule: write_frame.induct)
  case (1 w i frame)
  show ?case
  proof (cases "frame = []")
    case True
    then show ?thesis using 1(2) by (simp add: write_frame.simps)
  next
    case False
    show ?thesis
    proof (cases "w i")
      case (WriteError n)
      then show ?thesis using 1(2) False by (auto simp: write_frame.simps take_is_prefix)
    next
      case (Wrote n)
      show ?thesis
      proof (cases "n = 0")
        case True
        then show ?thesis using 1(2) False Wrote by (auto simp: write_frame.simps)
      next
        case n: False
        obtain sent' where s: "write_frame w (Suc i) (drop n frame) = (sent', e)" "sent = take n frame @ sent'"
          using 1(2) False Wrote n by (auto simp: write_frame.simps split: prod.splits)
        then have "prefix sent' (drop n frame) \<and> (e = None \<longrightarrow> sent' = drop n frame)"
          using 1(1) [OF False Wrote n] by blast
        then show ?thesis using s(2) by (metis append_take_drop_id same_prefix_prefix)
      qed
    qed
  qed
qed

lemma WriteMessage_sent:
  assumes "WriteMessage c w h b = (sent, e)"
  obtains "encode_frame c h b = Err FrameTooLarge" "sent = []" "e \<noteq> None"
  | frame where "encode_frame c h b = Ok frame" "prefix sent frame" "e = None \<longrightarrow> sent = frame"
proof (cases "encode_frame c h b")
  case (Inl x)
  then have "x = FrameTooLarge" by (auto simp: encode_frame_def Let_def split: if_splits)
  then show thesis using that(1) assms Inl by (auto simp: WriteMessage_def)
next
  case (Inr frame)
  then show thesis using that(2) assms write_frame_prefix by (auto simp: WriteMessage_def)
qed

section \<open>The client sends its request only to a peer that is ready\<close>

text \<open>Whatever is at the other end of the socket, a client that reports the lane unavailable has sent at most the
  version probe: the request with the delivery has not left it, so writing directly cannot record the event
  twice.\<close>

theorem unavailable_sent_only_probe:
  assumes "Consult cq cr link peer request payload = (Err ErrUnavailable, sent)"
  shows "sent = [] \<or> (\<exists>probe. encode_frame cq version_probe [] = Ok probe \<and> prefix sent probe)"
proof -
  obtain s1 e1 where w: "WriteMessage cq (lk_probe link) version_probe [] = (s1, e1)" by fastforce
  have s: "sent = [] \<or> sent = s1"
    using assms w by (auto simp: Consult_def Let_def split: if_splits option.splits sum.splits prod.splits)
  show ?thesis using w s by (cases rule: WriteMessage_sent) auto
qed

section \<open>One connection\<close>

text \<open>The daemon behind the socket: it receives at most so many bytes of what the client sends, and the client
  receives at most so many bytes of what it answers.\<close>

definition daemon_peer :: "Request codec \<Rightarrow> Response codec \<Rightarrow> lane_server \<Rightarrow> 's handler \<Rightarrow> 's \<Rightarrow> nat \<Rightarrow> nat \<Rightarrow> string \<Rightarrow> string" where
  "daemon_peer cq cr server handler st delivered received sent =
     take received (fst (ServeConn cq cr server handler (take delivered sent) st))"

lemma ServeConn_quiet:
  assumes "ServeConn cq cr server handler input st = (out, st', [])"
  shows "st' = st"
  using assms by (auto simp: ServeConn_def split: sum.splits prod.splits if_splits option.splits)

lemma ServeConn_once: "length (snd (snd (ServeConn cq cr server handler input st))) \<le> 1"
  by (auto simp: ServeConn_def split: sum.splits prod.splits if_splits option.splits)

text \<open>Only a whole probe followed by a whole request reaches the handler.\<close>

lemma ServeConn_probe:
  assumes f: "encode_frame cq version_probe [] = Ok probe" and d: "decodes cq version_probe version_probe" and p: "prefix input probe"
  shows "snd (ServeConn cq cr server handler input st) = (st, [])"
    "input = probe \<Longrightarrow> fst (ServeConn cq cr server handler input st) = fst (WriteMessage cr (ls_ack server) ready_response [])"
    "input \<noteq> probe \<Longrightarrow> fst (ServeConn cq cr server handler input st) = []"
proof -
  have e: "ReadMessage cq [] = Err UnexpectedEOF" by (simp add: ReadMessage_def readUint32_def ReadFull_def)
  have v: "CheckVersion (rq_Version version_probe)" "version_only version_probe []"
    by (simp_all add: version_probe_def CheckVersion_def version_only_def)
  have "\<not> is_ok (ReadMessage cq input)" if "input \<noteq> probe"
    using read_prefix [OF f d p] that by (cases "ReadMessage cq input") auto
  then have n: "ServeConn cq cr server handler input st = ([], st, [])" if "input \<noteq> probe"
    using that by (cases "ReadMessage cq input") (auto simp: ServeConn_def)
  have y: "ServeConn cq cr server handler probe st = (fst (WriteMessage cr (ls_ack server) ready_response []), st, [])"
    using ReadMessage_frame [OF f d, of "[]"] e v by (simp add: ServeConn_def split: prod.split option.split)
  show "snd (ServeConn cq cr server handler input st) = (st, [])"
    using n y by (cases "input = probe") auto
  show "input = probe \<Longrightarrow> fst (ServeConn cq cr server handler input st) = fst (WriteMessage cr (ls_ack server) ready_response [])"
    using y by simp
  show "input \<noteq> probe \<Longrightarrow> fst (ServeConn cq cr server handler input st) = []"
    using n by simp
qed

lemma ServeConn_request:
  assumes f1: "encode_frame cq version_probe [] = Ok probe" and d1: "decodes cq version_probe version_probe"
    and f2: "encode_frame cq request payload = Ok frame" and d2: "decodes cq request request'"
    and v: "rq_Version request' = ProtocolVersion" and p: "prefix input frame"
    and w: "WriteMessage cr (ls_ack server) ready_response [] = (out1, e)"
  shows "e = None \<and> input = frame \<Longrightarrow> ServeConn cq cr server handler (probe @ input) st =
      (case handler (serve_input request' payload) st of (result, st') \<Rightarrow>
         (out1 @ fst (WriteMessage cr (ls_answer server) (served_answer (ls_render server) (ls_noStatus server) result) []),
          st', [serve_input request' payload]))"
    "\<not> (e = None \<and> input = frame) \<Longrightarrow> ServeConn cq cr server handler (probe @ input) st = (out1, st, [])"
proof -
  have v1: "CheckVersion (rq_Version version_probe)" "version_only version_probe []" "CheckVersion (rq_Version request')"
    using v by (simp_all add: version_probe_def CheckVersion_def version_only_def)
  have r1: "ReadMessage cq (probe @ input) = Ok (version_probe, [], input)" by (rule ReadMessage_frame [OF f1 d1])
  show "e = None \<and> input = frame \<Longrightarrow> ServeConn cq cr server handler (probe @ input) st =
      (case handler (serve_input request' payload) st of (result, st') \<Rightarrow>
         (out1 @ fst (WriteMessage cr (ls_answer server) (served_answer (ls_render server) (ls_noStatus server) result) []),
          st', [serve_input request' payload]))"
    using r1 v1 w ReadMessage_frame [OF f2 d2, of "[]"] by (simp add: ServeConn_def)
  have "\<exists>x. ReadMessage cq input = Err x" if "input \<noteq> frame"
    using read_prefix [OF f2 d2 p] that by (cases "ReadMessage cq input") auto
  then show "\<not> (e = None \<and> input = frame) \<Longrightarrow> ServeConn cq cr server handler (probe @ input) st = (out1, st, [])"
    using r1 v1 w by (cases e) (auto simp: ServeConn_def)
qed

text \<open>A header as the peer reads it: JSON replaces each byte of a text that is not UTF-8 by the replacement character.
  The bytes of the standard output travel in base 64.\<close>

fun utf8_bytes :: "nat list \<Rightarrow> nat list" where
  "utf8_bytes [] = []"
| "utf8_bytes (b # bs) =
     (case rune_width (b # bs) of
        None \<Rightarrow> 239 # 191 # 189 # utf8_bytes bs
      | Some w \<Rightarrow> b # take (w - 1) bs @ utf8_bytes (drop (w - 1) bs))"

definition json_text :: "string \<Rightarrow> string" where
  "json_text s = map char_of (utf8_bytes (map of_char s))"

definition json_request :: "Request \<Rightarrow> Request" where
  "json_request r = r\<lparr>rq_Harness := json_text (rq_Harness r), rq_Event := json_text (rq_Event r),
     rq_HostVersion := json_text (rq_HostVersion r), rq_HostVersionSource := json_text (rq_HostVersionSource r),
     rq_ActorClaim := json_text (rq_ActorClaim r),
     rq_Execution := \<lparr>iv_Provider = map_option json_text (iv_Provider (rq_Execution r)),
       iv_Model = map_option json_text (iv_Model (rq_Execution r)), iv_Role = map_option json_text (iv_Role (rq_Execution r))\<rparr>\<rparr>"

definition json_response :: "Response \<Rightarrow> Response" where
  "json_response r = r\<lparr>rs_Kind := json_text (rs_Kind r), rs_Stderr := json_text (rs_Stderr r),
     rs_OccurrenceID := json_text (rs_OccurrenceID r), rs_ClaimState := json_text (rs_ClaimState r),
     rs_Stage := json_text (rs_Stage r), rs_Refusal := json_text (rs_Refusal r)\<rparr>"

lemma utf8_bytes_valid: "list_all (\<lambda>r. r \<noteq> None) (runes bs) \<Longrightarrow> utf8_bytes bs = bs"
  by (induction bs rule: utf8_bytes.induct) (auto split: option.splits)

lemma json_text_valid: "ValidString s \<Longrightarrow> json_text s = s"
  by (simp add: json_text_def ValidString_def string_runes_def utf8_bytes_valid)

lemma json_kinds:
  "json_text [] = []" "json_text KindReady = KindReady" "json_text KindCommitted = KindCommitted" "json_text KindRefused = KindRefused"
  "json_text (FaultStage_String stage) = FaultStage_String stage"
proof -
  show "json_text (FaultStage_String stage) = FaultStage_String stage" by (cases stage; simp; code_simp)
qed code_simp+

lemma json_probe: "json_request version_probe = version_probe"
  by (simp add: json_request_def version_probe_def json_kinds)

lemma json_ready: "json_response ready_response = ready_response"
  by (simp add: json_response_def ready_response_def zero_response_header_def json_kinds)

lemma served_answer_version:
  "rs_Version (json_response (served_answer render text result)) = ProtocolVersion"
  "rs_Kind (json_response (served_answer render text result)) \<in> {KindCommitted, KindRefused}"
  by (auto simp: json_response_def served_answer_def refusal_response_def committed_response_def json_kinds
      split: sum.split)

text \<open>What the codecs of one exchange do with its four headers.\<close>

definition exchange_codecs :: "Request codec \<Rightarrow> Response codec \<Rightarrow> Request \<Rightarrow> Response \<Rightarrow> bool" where
  "exchange_codecs cq cr request answer \<longleftrightarrow> decodes cq version_probe (json_request version_probe)
     \<and> decodes cq request (json_request request) \<and> decodes cr ready_response (json_response ready_response)
     \<and> decodes cr answer (json_response answer)"

lemma ReadMessage_Nil: "ReadMessage c [] = Err UnexpectedEOF"
  by (simp add: ReadMessage_def readUint32_def ReadFull_def)

text \<open>An acknowledgment is read only when the whole probe and the whole acknowledgment have arrived.\<close>

lemma ready_read:
  fixes handler :: "'s handler"
  assumes c: "exchange_codecs cq cr request answer" and f: "encode_frame cq version_probe [] = Ok probe"
    and r: "ReadMessage cr (daemon_peer cq cr server handler st dlv rcv probe) = Ok (ready, b, rest)"
    and a: "WriteMessage cr (ls_ack server) ready_response [] = (ack, e)"
  shows "length probe \<le> dlv" "length ack \<le> rcv" "daemon_peer cq cr server handler st dlv rcv probe = ack" "rest = []"
proof -
  have d1: "decodes cq version_probe version_probe" and d3: "decodes cr ready_response ready_response"
    using c by (simp_all add: exchange_codecs_def json_probe json_ready)
  have pre: "prefix (take dlv probe) probe" by (rule take_is_prefix)
  note sp = ServeConn_probe [OF f d1 pre, of cr server handler st]
  have t: "take dlv probe = probe"
  proof (rule ccontr)
    assume "take dlv probe \<noteq> probe"
    then have "daemon_peer cq cr server handler st dlv rcv probe = []" using sp(3) by (simp add: daemon_peer_def)
    then show False using r by (simp add: ReadMessage_Nil)
  qed
  then have p: "daemon_peer cq cr server handler st dlv rcv probe = take rcv ack"
    using sp(2) a by (simp add: daemon_peer_def)
  have "take rcv ack = ack \<and> rest = []" using a
  proof (cases rule: WriteMessage_sent)
    case 1
    then show ?thesis using r p by (simp add: ReadMessage_Nil)
  next
    case (2 fr)
    have "prefix (take rcv ack) fr" using 2(2) by (meson take_is_prefix prefix_order.trans)
    then show ?thesis using read_prefix [OF 2(1) d3 _ r [unfolded p]] 2(2)
      by (metis prefix_order.antisym take_is_prefix)
  qed
  then show "length ack \<le> rcv" "daemon_peer cq cr server handler st dlv rcv probe = ack" "rest = []"
    using p by (simp_all add: take_all_iff)
  show "length probe \<le> dlv" using t by (simp add: take_all_iff)
qed

text \<open>After its probe the client has either given up or read the whole acknowledgment.\<close>

definition read_answer :: "Response codec \<Rightarrow> string \<Rightarrow> consult_error + Response" where
  "read_answer cr received =
     (case ReadMessage cr received of
        Err _ \<Rightarrow> Err ErrRecordUnknown
      | Ok (response, _, _) \<Rightarrow>
          if \<not> CheckVersion (rs_Version response) then Err ErrRecordUnknown
          else if rs_Kind response = KindCommitted \<or> rs_Kind response = KindRefused then Ok response
          else Err ErrRecordUnknown)"

lemma Consult_cases:
  fixes handler :: "'s handler"
  assumes c: "exchange_codecs cq cr request' answer"
    and k: "Consult cq cr link (daemon_peer cq cr server handler st dlv rcv) request payload = (res, sent)"
    and q: "request' = request\<lparr>rq_Version := ProtocolVersion\<rparr>"
  obtains "res = Err ErrUnavailable" "snd (ServeConn cq cr server handler (take dlv sent) st) = (st, [])"
  | probe ack e sent2 e2 where "encode_frame cq version_probe [] = Ok probe" "length probe \<le> dlv"
    "WriteMessage cr (ls_ack server) ready_response [] = (ack, e)" "length ack \<le> rcv"
    "WriteMessage cq (lk_request link) request' payload = (sent2, e2)" "sent = probe @ sent2"
    "res = (if e2 \<noteq> None then Err ErrRecordUnknown
       else read_answer cr (drop (length ack) (daemon_peer cq cr server handler st dlv rcv (probe @ sent2))))"
proof -
  let ?peer = "daemon_peer cq cr server handler st dlv rcv"
  obtain s1 e1 where w1: "WriteMessage cq (lk_probe link) version_probe [] = (s1, e1)" by fastforce
  let ?up = "lk_client link \<and> lk_dial link \<and> e1 = None"
  have d1: "decodes cq version_probe version_probe" using c by (simp add: exchange_codecs_def json_probe)
  have quiet: "snd (ServeConn cq cr server handler (take dlv s1) st) = (st, [])" using w1
  proof (cases rule: WriteMessage_sent)
    case 1
    then show ?thesis by (simp add: ServeConn_def ReadMessage_Nil)
  next
    case (2 probe)
    have "prefix (take dlv s1) probe" using 2(2) by (meson take_is_prefix prefix_order.trans)
    then show ?thesis by (rule ServeConn_probe(1) [OF 2(1) d1])
  qed
  obtain ack e where a: "WriteMessage cr (ls_ack server) ready_response [] = (ack, e)" by fastforce
  obtain s2 e2 where w2: "WriteMessage cq (lk_request link) request' payload = (s2, e2)" by fastforce
  show thesis
  proof (cases "?up \<and> (\<exists>ready b rest. ReadMessage cr (?peer s1) = Ok (ready, b, rest) \<and> CheckVersion (rs_Version ready)
      \<and> rs_Kind ready = KindReady)")
    case False
    then have "res = Err ErrUnavailable \<and> (sent = [] \<or> sent = s1)" using k w1
      by (cases e1; cases "ReadMessage cr (?peer s1)") (auto simp: Consult_def Let_def split: if_splits)
    moreover have "snd (ServeConn cq cr server handler [] st) = (st, [])" by (simp add: ServeConn_def ReadMessage_Nil)
    ultimately show thesis using that(1) quiet by fastforce
  next
    case True
    then obtain ready b rest where up: ?up and r: "ReadMessage cr (?peer s1) = Ok (ready, b, rest)" "CheckVersion (rs_Version ready)"
      "rs_Kind ready = KindReady" by blast
    obtain probe where f: "encode_frame cq version_probe [] = Ok probe" "s1 = probe"
      using w1 up by (cases rule: WriteMessage_sent) auto
    note ack = ready_read [OF c f(1) r(1) [unfolded f(2)] a]
    have "(res, sent) = (if e2 \<noteq> None then Err ErrRecordUnknown
        else read_answer cr (drop (length ack) (?peer (probe @ s2))), probe @ s2)"
      using k up w1 r w2 ack(3,4) unfolding q f(2)
      by (cases e2) (auto simp: Consult_def read_answer_def Let_def split: sum.split)
    then show thesis using that(2) [OF f(1) ack(1) a ack(2) w2] by simp
  qed
qed

text \<open>The answer is read only when the whole request and the whole answer have arrived.\<close>

lemma answer_read:
  fixes handler :: "'s handler"
  defines "answer \<equiv> \<lambda>st q payload sv h. served_answer (ls_render sv) (ls_noStatus sv) (fst (h (serve_input q payload) st))"
  assumes c: "exchange_codecs cq cr request (answer st (json_request request) payload server handler)"
    and v: "rq_Version request = ProtocolVersion"
    and f: "encode_frame cq version_probe [] = Ok probe" "length probe \<le> dlv"
    and a: "WriteMessage cr (ls_ack server) ready_response [] = (ack, e)" "length ack \<le> rcv"
    and w: "encode_frame cq request payload = Ok frame"
    and r: "read_answer cr (drop (length ack) (daemon_peer cq cr server handler st dlv rcv (probe @ frame))) = Ok response"
  shows "response = json_response (answer st (json_request request) payload server handler)"
    "snd (ServeConn cq cr server handler (take dlv (probe @ frame)) st)
      = (snd (handler (serve_input (json_request request) payload) st), [serve_input (json_request request) payload])"
proof -
  let ?q = "json_request request"
  let ?h = "handler (serve_input ?q payload) st"
  let ?an = "answer st ?q payload server handler"
  have d: "decodes cq version_probe version_probe" "decodes cq request ?q" "decodes cr ?an (json_response ?an)"
    using c by (simp_all add: exchange_codecs_def json_probe)
  have v': "rq_Version ?q = ProtocolVersion" using v by (simp add: json_request_def)
  let ?in = "take (dlv - length probe) frame"
  have in2: "take dlv (probe @ frame) = probe @ ?in" using f(2) by simp
  have pre: "prefix ?in frame" by (rule take_is_prefix)
  note sr = ServeConn_request [OF f(1) d(1) w d(2) v' pre a(1), of handler st]
  have full: "e = None \<and> ?in = frame"
  proof (rule ccontr)
    assume "\<not> (e = None \<and> ?in = frame)"
    then have "drop (length ack) (daemon_peer cq cr server handler st dlv rcv (probe @ frame)) = []"
      using sr(2) in2 by (simp add: daemon_peer_def)
    then show False using r by (simp add: read_answer_def ReadMessage_Nil)
  qed
  have s: "ServeConn cq cr server handler (take dlv (probe @ frame)) st =
      (ack @ fst (WriteMessage cr (ls_answer server) ?an []), snd ?h, [serve_input ?q payload])"
    using sr(1) [OF full] in2 full by (cases ?h) (simp add: answer_def)
  then show "snd (ServeConn cq cr server handler (take dlv (probe @ frame)) st) = (snd ?h, [serve_input ?q payload])" by simp
  obtain out2 e2 where o: "WriteMessage cr (ls_answer server) ?an [] = (out2, e2)" by fastforce
  have rd: "read_answer cr (take (rcv - length ack) out2) = Ok response"
    using r a(2) unfolding daemon_peer_def s o by simp
  show "response = json_response ?an" using o
  proof (cases rule: WriteMessage_sent)
    case 1
    then show ?thesis using rd by (simp add: read_answer_def ReadMessage_Nil)
  next
    case (2 fr)
    have "prefix (take (rcv - length ack) out2) fr" using 2(2) by (meson take_is_prefix prefix_order.trans)
    then show ?thesis using read_prefix [OF 2(1) d(3)] rd
      by (auto simp: read_answer_def split: sum.splits if_splits)
  qed
qed

lemma exchange:
  fixes handler :: "'s handler"
  assumes q: "request' = request\<lparr>rq_Version := ProtocolVersion\<rparr>"
    and h: "handler (serve_input (json_request request') payload) st = (result, served)"
    and c: "exchange_codecs cq cr request' (served_answer (ls_render server) (ls_noStatus server) result)"
    and k: "Consult cq cr link (daemon_peer cq cr server handler st dlv rcv) request payload = (res, sent)"
    and s: "ServeConn cq cr server handler (take dlv sent) st = (out, st', calls)"
  shows "(res = Err ErrUnavailable \<longrightarrow> calls = [] \<and> st' = st)
    \<and> (\<forall>response. res = Ok response \<longrightarrow> calls = [serve_input (json_request request') payload] \<and> st' = served
        \<and> response = json_response (served_answer (ls_render server) (ls_noStatus server) result))
    \<and> (calls = [] \<longrightarrow> st' = st) \<and> length calls \<le> 1"
proof -
  have always: "calls = [] \<longrightarrow> st' = st" "length calls \<le> 1"
    using ServeConn_quiet [of cq cr server handler "take dlv sent" st out st'] ServeConn_once [of cq cr server handler "take dlv sent" st]
      s by auto
  show ?thesis using c k q
  proof (cases rule: Consult_cases)
    case 1
    then show ?thesis using s by auto
  next
    case (2 probe ack e sent2 e2)
    have v: "rq_Version request' = ProtocolVersion" using q by simp
    have "calls = [serve_input (json_request request') payload] \<and> st' = served
        \<and> response = json_response (served_answer (ls_render server) (ls_noStatus server) result)" if "res = Ok response" for response
    proof -
      have e2: "e2 = None" using 2(7) that by (cases e2) simp_all
      obtain frame where w: "encode_frame cq request' payload = Ok frame" "sent2 = frame"
        using 2(5) e2 by (cases rule: WriteMessage_sent) auto
      have r: "read_answer cr (drop (length ack) (daemon_peer cq cr server handler st dlv rcv (probe @ frame))) = Ok response"
        using 2(7) e2 that w(2) by simp
      show ?thesis
        using answer_read [OF _ v 2(1,2,3,4) w(1) r] c h s 2(6) w(2) by simp
    qed
    moreover have "res \<noteq> Err ErrUnavailable"
      using 2(7) by (auto simp: read_answer_def split: sum.splits if_splits)
    ultimately show ?thesis using always by blast
  qed
qed

text \<open>C11: A hook and a daemon over a connection that may break at any byte, with writes that may fail at any point:
  when the client reports the lane unavailable the daemon has served nothing; when the client has an
  answer, the daemon served exactly this request with this payload, once, and the answer is the one its handler gave
  (with the stage of its error, or with the status and the bytes of its outcome); no connection serves more than one
  request, and one that serves none changes nothing.\<close>

theorem lane_exchange:
  fixes handler :: "'s handler"
  assumes q: "request' = request\<lparr>rq_Version := ProtocolVersion\<rparr>"
    and h: "handler (serve_input (json_request request') payload) st = (result, served)"
    and c: "exchange_codecs cq cr request' (served_answer (ls_render server) (ls_noStatus server) result)"
    and k: "Consult cq cr link (daemon_peer cq cr server handler st dlv rcv) request payload = (res, sent)"
    and s: "ServeConn cq cr server handler (take dlv sent) st = (out, st', calls)"
  shows "(res = Err ErrUnavailable \<longrightarrow> calls = [] \<and> st' = st)
    \<and> (\<forall>response. res = Ok response \<longrightarrow> calls = [serve_input (json_request request') payload] \<and> st' = served
        \<and> response = json_response (served_answer (ls_render server) (ls_noStatus server) result))
    \<and> (calls = [] \<longrightarrow> st' = st) \<and> length calls \<le> 1"
  by (rule exchange [OF assms])

section \<open>An exchange\<close>

text \<open>A daemon that counts the requests it serves, over a connection that delivers everything.\<close>

definition sample_request :: Request where
  "sample_request = version_probe\<lparr>rq_Harness := ''codex'', rq_Event := ''Stop'', rq_HostVersion := ''0.153.0''\<rparr>"

definition sample_handler :: "nat handler" where
  "sample_handler i n = (Ok \<lparr>sd_Exit = ExitContinue, sd_Stdout = si_Payload i, sd_Stderr = [], sd_OccurrenceID = ''7'',
     sd_ClaimState = []\<rparr>, Suc n)"

definition sample_answer :: Response where
  "sample_answer = committed_response \<lparr>sd_Exit = ExitContinue, sd_Stdout = ''{}'', sd_Stderr = [], sd_OccurrenceID = ''7'',
     sd_ClaimState = []\<rparr>"

definition request_codec :: "Request codec" where
  "request_codec = \<lparr>cd_marshal = (\<lambda>r. if r = version_probe then ''p'' else ''q''),
     cd_unmarshal = (\<lambda>s. if s = ''p'' then Some version_probe else Some sample_request)\<rparr>"

definition response_codec :: "Response codec" where
  "response_codec = \<lparr>cd_marshal = (\<lambda>r. if r = ready_response then ''r'' else ''a''),
     cd_unmarshal = (\<lambda>s. if s = ''r'' then Some ready_response else Some sample_answer)\<rparr>"

definition whole_writer :: writer where "whole_writer i = Wrote 100"

definition sample_link :: lane_link where
  "sample_link = \<lparr>lk_client = True, lk_dial = True, lk_probe = whole_writer, lk_request = whole_writer\<rparr>"

definition sample_server :: lane_server where
  "sample_server = \<lparr>ls_ack = whole_writer, ls_answer = whole_writer, ls_render = (\<lambda>_. []), ls_otherVersion = [],
     ls_expectedProbe = [], ls_noStatus = []\<rparr>"

lemma sample_json: "json_request sample_request = sample_request" "json_response sample_answer = sample_answer"
  "sample_request\<lparr>rq_Version := ProtocolVersion\<rparr> = sample_request"
  "serve_input sample_request ''{}'' = \<lparr>si_Harness = ''codex'', si_Event = ''Stop'', si_HostVersion = ''0.153.0'',
     si_HostVersionSource = [], si_Payload = ''{}'', si_ActorClaim = [], si_ImplicitClaim = False,
     si_Execution = \<lparr>iv_Provider = None, iv_Model = None, iv_Role = None\<rparr>\<rparr>"
  by code_simp+

lemma sample_codecs: "exchange_codecs request_codec response_codec sample_request sample_answer"
proof -
  have "sample_request \<noteq> version_probe" "sample_answer \<noteq> ready_response" by code_simp+
  then show ?thesis
    by (simp add: exchange_codecs_def decodes_def json_probe json_ready sample_json request_codec_def response_codec_def)
qed

lemma sample_frame: "encode_frame c h b = Ok (AppendUint32 (length (cd_marshal c h)) @ cd_marshal c h @ AppendUint32 (length b) @ b)"
  if "length (cd_marshal c h) < 10" "length b < 10"
  using that by (simp add: encode_frame_def MaxHeaderBytes_def MaxBodyBytes_def Let_def)

lemma sample_written:
  assumes "length (cd_marshal c h) < 10" "length b < 10"
  shows "WriteMessage c whole_writer h b = (AppendUint32 (length (cd_marshal c h)) @ cd_marshal c h @ AppendUint32 (length b) @ b, None)"
proof -
  have "write_frame whole_writer 0 frame = (frame, None)" if "length frame < 100" for frame
    using that by (simp add: write_frame.simps whole_writer_def)
  then show ?thesis using assms by (simp add: WriteMessage_def sample_frame)
qed

theorem frame_roundtrip_witness:
  "ReadMessage request_codec ((AppendUint32 1 @ ''p'' @ AppendUint32 0) @ ''next'') = Ok (version_probe, [], ''next'')
   \<and> \<not> is_ok (ReadMessage request_codec (AppendUint32 1 @ ''p''))"
proof -
  have f: "encode_frame request_codec version_probe [] = Ok (AppendUint32 1 @ ''p'' @ AppendUint32 0)"
    by (subst sample_frame) (simp_all add: request_codec_def)
  have d: "decodes request_codec version_probe version_probe" using sample_codecs by (simp add: exchange_codecs_def json_probe)
  have "strict_prefix (AppendUint32 1 @ ''p'') (AppendUint32 1 @ ''p'' @ AppendUint32 0)"
    by (rule strict_prefixI') (simp_all add: AppendUint32_def)
  then show ?thesis using frame_roundtrip [OF f d] by blast
qed

abbreviation sample_probe_frame :: string where
  "sample_probe_frame \<equiv> AppendUint32 1 @ ''p'' @ AppendUint32 0"

abbreviation sample_request_frame :: string where
  "sample_request_frame \<equiv> AppendUint32 1 @ ''q'' @ AppendUint32 2 @ ''{}''"

lemma sample_writes_out:
  "WriteMessage request_codec whole_writer version_probe [] = (sample_probe_frame, None)"
  "WriteMessage request_codec whole_writer sample_request ''{}'' = (sample_request_frame, None)"
  "WriteMessage response_codec whole_writer ready_response [] = (AppendUint32 1 @ ''r'' @ AppendUint32 0, None)"
  "WriteMessage response_codec whole_writer sample_answer [] = (AppendUint32 1 @ ''a'' @ AppendUint32 0, None)"
proof -
  have "sample_request \<noteq> version_probe" "sample_answer \<noteq> ready_response" by code_simp+
  then show "WriteMessage request_codec whole_writer version_probe [] = (sample_probe_frame, None)"
    "WriteMessage request_codec whole_writer sample_request ''{}'' = (sample_request_frame, None)"
    "WriteMessage response_codec whole_writer ready_response [] = (AppendUint32 1 @ ''r'' @ AppendUint32 0, None)"
    "WriteMessage response_codec whole_writer sample_answer [] = (AppendUint32 1 @ ''a'' @ AppendUint32 0, None)"
    by (subst sample_written; simp add: request_codec_def response_codec_def numeral_2_eq_2)+
qed

lemma sample_frames:
  "encode_frame request_codec version_probe [] = Ok sample_probe_frame"
  "encode_frame request_codec sample_request ''{}'' = Ok sample_request_frame"
  "encode_frame response_codec ready_response [] = Ok (AppendUint32 1 @ ''r'' @ AppendUint32 0)"
  "encode_frame response_codec sample_answer [] = Ok (AppendUint32 1 @ ''a'' @ AppendUint32 0)"
  using sample_writes_out [THEN WriteMessage_sent] by auto

theorem unavailable_sent_only_probe_witness:
  "\<exists>sent. Consult request_codec response_codec sample_link (\<lambda>_. []) sample_request ''{}'' = (Err ErrUnavailable, sent)
     \<and> prefix sent sample_probe_frame"
proof -
  have c: "Consult request_codec response_codec sample_link (\<lambda>_. []) sample_request ''{}'' = (Err ErrUnavailable, sample_probe_frame)"
    using sample_writes_out(1) by (simp add: Consult_def sample_link_def ReadMessage_Nil Let_def)
  show ?thesis using unavailable_sent_only_probe [OF c] c sample_frames(1) by auto
qed

abbreviation sample_ack :: string where
  "sample_ack \<equiv> AppendUint32 1 @ ''r'' @ AppendUint32 0"

abbreviation sample_reply :: string where
  "sample_reply \<equiv> AppendUint32 1 @ ''a'' @ AppendUint32 0"

lemma sample_decodes: "decodes request_codec version_probe version_probe" "decodes request_codec sample_request sample_request"
  "decodes response_codec ready_response ready_response" "decodes response_codec sample_answer sample_answer"
  using sample_codecs by (simp_all add: exchange_codecs_def json_probe json_ready sample_json)

lemma sample_handled:
  "sample_handler (serve_input sample_request ''{}'') n = (Ok \<lparr>sd_Exit = ExitContinue, sd_Stdout = ''{}'', sd_Stderr = [],
     sd_OccurrenceID = ''7'', sd_ClaimState = []\<rparr>, Suc n)"
  "served_answer render t (Ok \<lparr>sd_Exit = ExitContinue, sd_Stdout = ''{}'', sd_Stderr = [], sd_OccurrenceID = ''7'',
     sd_ClaimState = []\<rparr>) = sample_answer"
  by (simp_all add: sample_handler_def sample_json served_answer_def sample_answer_def)

lemma sample_conn:
  "ServeConn request_codec response_codec sample_server sample_handler sample_probe_frame 0 = (sample_ack, 0, [])"
  "ServeConn request_codec response_codec sample_server sample_handler (sample_probe_frame @ sample_request_frame) 0
    = (sample_ack @ sample_reply, 1, [serve_input sample_request ''{}''])"
proof -
  have w: "WriteMessage response_codec (ls_ack sample_server) ready_response [] = (sample_ack, None)"
    "WriteMessage response_codec (ls_answer sample_server) sample_answer [] = (sample_reply, None)"
    using sample_writes_out(3,4) by (simp_all add: sample_server_def)
  note sp = ServeConn_probe [OF sample_frames(1) sample_decodes(1) prefix_order.refl, of response_codec sample_server sample_handler 0]
  show "ServeConn request_codec response_codec sample_server sample_handler sample_probe_frame 0 = (sample_ack, 0, [])"
    using sp(1) sp(2) [OF refl] w by (simp add: prod_eq_iff)
  have v: "rq_Version sample_request = ProtocolVersion" by (simp add: sample_request_def version_probe_def)
  show "ServeConn request_codec response_codec sample_server sample_handler (sample_probe_frame @ sample_request_frame) 0
    = (sample_ack @ sample_reply, 1, [serve_input sample_request ''{}''])"
    using ServeConn_request(1) [OF sample_frames(1) sample_decodes(1) sample_frames(2) sample_decodes(2) v prefix_order.refl w(1), of sample_handler 0] w(2)
    by (simp add: sample_handled)
qed

lemma sample_consult:
  "Consult request_codec response_codec sample_link
     (daemon_peer request_codec response_codec sample_server sample_handler 0 100 100) sample_request ''{}''
   = (Ok sample_answer, sample_probe_frame @ sample_request_frame)"
proof -
  let ?peer = "daemon_peer request_codec response_codec sample_server sample_handler 0 100 100"
  have p: "?peer sample_probe_frame = sample_ack" "?peer (sample_probe_frame @ sample_request_frame) = sample_ack @ sample_reply"
    using sample_conn by (simp_all add: daemon_peer_def del: append_assoc)
  have r: "ReadMessage response_codec sample_ack = Ok (ready_response, [], [])"
    "ReadMessage response_codec sample_reply = Ok (sample_answer, [], [])"
    using ReadMessage_frame [OF sample_frames(3) sample_decodes(3), of "[]"] ReadMessage_frame [OF sample_frames(4) sample_decodes(4), of "[]"]
    by simp_all
  have k: "CheckVersion (rs_Version ready_response)" "rs_Kind ready_response = KindReady"
    "CheckVersion (rs_Version sample_answer)" "rs_Kind sample_answer = KindCommitted" by code_simp+
  have "drop (length xs) (xs @ ys) = ys" for xs ys :: string by simp
  then have d: "drop (length sample_ack) (sample_ack @ sample_reply) = sample_reply" .
  show ?thesis
    using sample_writes_out(1,2) p r k d sample_json(3)
    by (simp add: Consult_def sample_link_def Let_def)
qed

theorem lane_exchange_witness:
  "\<exists>sent out. Consult request_codec response_codec sample_link
       (daemon_peer request_codec response_codec sample_server sample_handler 0 100 100) sample_request ''{}'' = (Ok sample_answer, sent)
     \<and> ServeConn request_codec response_codec sample_server sample_handler (take 100 sent) 0
       = (out, 1, [serve_input sample_request ''{}''])"
proof -
  let ?sent = "sample_probe_frame @ sample_request_frame"
  have t: "take 100 ?sent = ?sent" by simp
  obtain out st' calls where s: "ServeConn request_codec response_codec sample_server sample_handler (take 100 ?sent) 0 = (out, st', calls)"
    by (metis prod_cases3)
  have q: "sample_request = sample_request\<lparr>rq_Version := ProtocolVersion\<rparr>" using sample_json(3) by simp
  have h: "sample_handler (serve_input (json_request sample_request) ''{}'') 0 = (Ok \<lparr>sd_Exit = ExitContinue, sd_Stdout = ''{}'',
      sd_Stderr = [], sd_OccurrenceID = ''7'', sd_ClaimState = []\<rparr>, 1)"
    by (simp add: sample_json sample_handler_def)
  have c: "exchange_codecs request_codec response_codec sample_request (served_answer (ls_render sample_server) (ls_noStatus sample_server)
      (Ok \<lparr>sd_Exit = ExitContinue, sd_Stdout = ''{}'', sd_Stderr = [], sd_OccurrenceID = ''7'', sd_ClaimState = []\<rparr>))"
    unfolding sample_handled(2) by (rule sample_codecs)
  show ?thesis using lane_exchange [OF q h c sample_consult s] sample_consult s by (auto simp: sample_json(1))
qed

end
