(* ===== verification/HookEnvironment.thy ===== *)
theory HookEnvironment
  imports LaneWire
begin

text \<open>
  What a lifecycle hook reads before it does any work: its process environment
  (\<^verbatim>\<open>cmd/pasture/hook_environment.go\<close>) and the version of its host
  (\<^verbatim>\<open>cmd/pasture/hook_lifecycle_host_version.go\<close>).  The environment is a partial function from names to values;
  the parser of Go durations, the default actor, the search of the executable path and the version query are
  arguments.  The lemmas show that the parser never guesses: a variable that is unset or empty keeps its
  default, a value it does not understand is refused, and every setting it accepts is the one that was typed.
\<close>

section \<open>Execution declarations\<close>

definition MaxValueBytes :: nat where "MaxValueBytes = 512"

definition ValidValue :: "string \<Rightarrow> bool" where
  "ValidValue value \<longleftrightarrow> \<not> (value = [] \<or> length value > MaxValueBytes \<or> \<not> ValidString value \<or> padded value)
     \<and> \<not> list_ex IsControl (string_runes value)"

definition BoundedInvocation :: "string option \<Rightarrow> string option \<Rightarrow> string option \<Rightarrow> Invocation" where
  "BoundedInvocation provider model role =
     (let bounded = map_option (\<lambda>v. if \<not> ValidValue v then [] else v) in
      \<lparr>iv_Provider = bounded provider, iv_Model = bounded model, iv_Role = bounded role\<rparr>)"

section \<open>The environment\<close>

definition hookFailClosedEnv :: string where "hookFailClosedEnv = ''PASTURE_HOOK_FAIL_CLOSED''"
definition hookCaptureDirEnv :: string where "hookCaptureDirEnv = ''PASTURE_CAPTURE_DIR''"
definition hookActorIDEnv :: string where "hookActorIDEnv = ''PASTURE_ACTOR_ID''"
definition hookInvocationTimeoutEnv :: string where "hookInvocationTimeoutEnv = ''PASTURE_HOOK_INVOCATION_TIMEOUT''"
definition hookIngressTimeoutEnv :: string where "hookIngressTimeoutEnv = ''PASTURE_INGRESS_TIMEOUT''"
definition hookStartSliceTimeoutEnv :: string where "hookStartSliceTimeoutEnv = ''PASTURE_START_SLICE_TIMEOUT''"
definition hookWriteLaneEnv :: string where "hookWriteLaneEnv = ''PASTURE_WRITE_LANE''"
definition hookWriteLaneSocketEnv :: string where "hookWriteLaneSocketEnv = ''PASTURE_WRITE_LANE_SOCKET''"

datatype WriteLaneMode = WriteLaneAuto | WriteLaneDirect

record HookEnvironment =
  he_Execution :: Invocation
  he_FaultPolicy :: FaultPolicy
  he_CaptureDir :: string
  he_ActorClaim :: string
  he_ImplicitClaim :: bool
  he_BudgetOverride :: Override
  he_WriteLane :: WriteLaneMode
  he_WriteLaneSocket :: string

datatype environment_error =
    NoLookup
  | UnknownWriteLane string
  | InexactValue string string
  | UnknownFailClosed string
  | NotADuration string string
  | NotPositiveDuration string string

type_synonym lookup = "string \<Rightarrow> string option"

text \<open>A value that is blank or padded is not exact.\<close>

definition inexact :: "string \<Rightarrow> bool" where
  "inexact raw \<longleftrightarrow> padded raw \<or> raw = []"

text \<open>The value of a variable that is set and not empty.\<close>

definition given :: "lookup \<Rightarrow> string \<Rightarrow> string option" where
  "given lookup name = (case lookup name of Some raw \<Rightarrow> if raw \<noteq> [] then Some raw else None | None \<Rightarrow> None)"

definition parseHookDuration :: "(string \<Rightarrow> int option) \<Rightarrow> string \<Rightarrow> string \<Rightarrow> environment_error + int" where
  "parseHookDuration parseDuration name raw =
     (if inexact raw then Err (InexactValue name raw)
      else case parseDuration raw of
          None \<Rightarrow> Err (NotADuration name raw)
        | Some d \<Rightarrow> if d \<le> 0 then Err (NotPositiveDuration name raw) else Ok d)"

text \<open>One knob of the time budget: zero when it is not given.\<close>

definition read_knob :: "(string \<Rightarrow> int option) \<Rightarrow> lookup \<Rightarrow> string \<Rightarrow> environment_error + int" where
  "read_knob parseDuration lookup name =
     (case given lookup name of None \<Rightarrow> Ok 0 | Some raw \<Rightarrow> parseHookDuration parseDuration name raw)"

definition read_exact :: "lookup \<Rightarrow> string \<Rightarrow> string \<Rightarrow> environment_error + string" where
  "read_exact lookup name dv =
     (case given lookup name of None \<Rightarrow> Ok dv | Some raw \<Rightarrow> if inexact raw then Err (InexactValue name raw) else Ok raw)"

definition read_lane :: "lookup \<Rightarrow> environment_error + WriteLaneMode" where
  "read_lane lookup =
     (case given lookup hookWriteLaneEnv of
        None \<Rightarrow> Ok WriteLaneAuto
      | Some raw \<Rightarrow>
          if raw = ''auto'' then Ok WriteLaneAuto
          else if raw = ''direct'' then Ok WriteLaneDirect
          else Err (UnknownWriteLane raw))"

definition read_policy :: "lookup \<Rightarrow> environment_error + FaultPolicy" where
  "read_policy lookup =
     (case given lookup hookFailClosedEnv of
        None \<Rightarrow> Ok FaultFailOpen
      | Some raw \<Rightarrow>
          if raw = ''1'' then Ok FaultFailClosed
          else if raw = ''0'' then Ok FaultFailOpen
          else Err (UnknownFailClosed raw))"

definition HookEnvironmentFromOS :: "string \<Rightarrow> (string \<Rightarrow> int option) \<Rightarrow> lookup option \<Rightarrow> environment_error + HookEnvironment" where
  "HookEnvironmentFromOS defaultActor parseDuration lookup =
     (case lookup of
        None \<Rightarrow> Err NoLookup
      | Some lookup \<Rightarrow>
          let execution = BoundedInvocation (lookup ''PASTURE_EXECUTION_PROVIDER'') (lookup ''PASTURE_EXECUTION_MODEL'')
                (lookup ''PASTURE_EXECUTION_ROLE'') in
          result_bind (read_lane lookup) (\<lambda>lane.
          result_bind (read_exact lookup hookWriteLaneSocketEnv []) (\<lambda>socket.
          result_bind (read_policy lookup) (\<lambda>policy.
          result_bind (read_exact lookup hookCaptureDirEnv []) (\<lambda>capture.
          result_bind (read_exact lookup hookActorIDEnv defaultActor) (\<lambda>actor.
          result_bind (read_knob parseDuration lookup hookInvocationTimeoutEnv) (\<lambda>invocation.
          result_bind (read_knob parseDuration lookup hookIngressTimeoutEnv) (\<lambda>ingress.
          result_bind (read_knob parseDuration lookup hookStartSliceTimeoutEnv) (\<lambda>startSlice.
          Ok \<lparr>he_Execution = execution, he_FaultPolicy = policy, he_CaptureDir = capture, he_ActorClaim = actor,
              he_ImplicitClaim = (given lookup hookActorIDEnv = None),
              he_BudgetOverride = \<lparr>o_HookInvocation = invocation, o_Ingress = ingress, o_StartSlice = startSlice\<rparr>,
              he_WriteLane = lane, he_WriteLaneSocket = socket\<rparr>)))))))))"

section \<open>The version of the host\<close>

record version_flags =
  vf_executable :: "string option"
  vf_versionChanged :: bool
  vf_hint :: string
  vf_lookPath :: "string \<Rightarrow> string option"
  vf_query :: "string \<Rightarrow> string option"

datatype version_fault =
    ExclusiveFlags
  | UnsupportedQuery
  | EmptyExecutable
  | RelativeExecutable
  | NoExecutable string
  | QueryFailed
  | BannerMismatch string
  | BannerNotARelease string

definition lifecycleVersionQuerySupported :: "Harness \<Rightarrow> bool" where
  "lifecycleVersionQuerySupported harness \<longleftrightarrow>
     harness = HarnessClaudeCode \<or> harness = HarnessCodex \<or> harness = HarnessOpenCode"

text \<open>The banners: an optional end of line is dropped; the version is a dotted triple of digits, or a word without
  spaces and ends of line.\<close>

definition chomp :: "string \<Rightarrow> string" where
  "chomp s =
     (if length s \<ge> 2 \<and> drop (length s - 2) s = [char_of (13::nat), char_of (10::nat)] then take (length s - 2) s
      else if s \<noteq> [] \<and> last s = char_of (10::nat) then butlast s
      else s)"

definition is_word :: "string \<Rightarrow> bool" where
  "is_word s \<longleftrightarrow> s \<noteq> [] \<and> list_all (\<lambda>c. c \<notin> {char_of (13::nat), char_of (10::nat), char_of (32::nat)}) s"

definition is_triple :: "string \<Rightarrow> bool" where
  "is_triple s \<longleftrightarrow> (let parts = Split CHR ''.'' s in length parts = 3 \<and> list_all (\<lambda>p. p \<noteq> [] \<and> list_all is_digit p) parts)"

definition strip_prefix :: "string \<Rightarrow> string \<Rightarrow> string option" where
  "strip_prefix p s = (if HasPrefix s p then Some (drop (length p) s) else None)"

definition claude_banner :: "string \<Rightarrow> string option" where
  "claude_banner output =
     (let line = chomp output; suffix = '' (Claude Code)''; n = length line - length suffix in
      if length suffix \<le> length line \<and> drop n line = suffix \<and> is_triple (take n line) then Some (take n line) else None)"

definition codex_banner :: "string \<Rightarrow> string option" where
  "codex_banner output =
     (case strip_prefix ''codex-cli '' (chomp output) of Some v \<Rightarrow> if is_word v then Some v else None | None \<Rightarrow> None)"

definition opencode_banner :: "string \<Rightarrow> string option" where
  "opencode_banner output =
     (let line = chomp output;
          v = (case strip_prefix ''opencode '' line of Some v \<Rightarrow> v | None \<Rightarrow> line) in
      if is_word v then Some v else None)"

definition host_banner :: "Harness \<Rightarrow> string \<times> (string \<Rightarrow> string option)" where
  "host_banner harness =
     (if harness = HarnessCodex then (''codex'', codex_banner)
      else if harness = HarnessOpenCode then (''opencode'', opencode_banner)
      else (''claude'', claude_banner))"

definition select_executable :: "version_flags \<Rightarrow> Harness \<Rightarrow> string \<Rightarrow> version_fault + string" where
  "select_executable flags harness name =
     (case vf_executable flags of
        Some executable \<Rightarrow> Ok executable
      | None \<Rightarrow>
          let hinted = (if harness = HarnessClaudeCode \<and> HasPrefix (vf_hint flags) ''/'' then vf_lookPath flags (vf_hint flags) else None) in
          case hinted of
            Some usable \<Rightarrow> if usable \<noteq> [] then Ok usable
              else (case vf_lookPath flags name of None \<Rightarrow> Err (NoExecutable name) | Some e \<Rightarrow> Ok e)
          | None \<Rightarrow> (case vf_lookPath flags name of None \<Rightarrow> Err (NoExecutable name) | Some e \<Rightarrow> Ok e))"

definition resolveLifecycleHostVersion :: "version_flags \<Rightarrow> Harness \<Rightarrow> string \<Rightarrow> version_fault + string" where
  "resolveLifecycleHostVersion flags harness hostVersion =
     (let explicit = (vf_executable flags \<noteq> None) in
      if \<not> explicit \<and> (vf_versionChanged flags \<or> \<not> lifecycleVersionQuerySupported harness) then Ok hostVersion
      else if explicit \<and> vf_versionChanged flags then Err ExclusiveFlags
      else if \<not> lifecycleVersionQuerySupported harness then Err UnsupportedQuery
      else if vf_executable flags = Some [] then Err EmptyExecutable
      else if explicit \<and> \<not> HasPrefix (the (vf_executable flags)) ''/'' then Err RelativeExecutable
      else case host_banner harness of
          (name, banner) \<Rightarrow>
            result_bind (select_executable flags harness name) (\<lambda>executable.
              case vf_query flags executable of
                None \<Rightarrow> Err QueryFailed
              | Some output \<Rightarrow>
                  (case banner output of
                     None \<Rightarrow> Err (BannerMismatch name)
                   | Some v \<Rightarrow>
                       (case ParseHostVersion v of
                          Err _ \<Rightarrow> Err (BannerNotARelease name)
                        | Ok version \<Rightarrow> Ok (HostVersion_String version)))))"

section \<open>The parser never guesses\<close>

lemma given_Some: "given lookup n = Some raw \<longleftrightarrow> lookup n = Some raw \<and> raw \<noteq> []"
  by (auto simp: given_def split: option.splits)

lemma given_None: "given lookup n = None \<longleftrightarrow> lookup n = None \<or> lookup n = Some []"
  by (auto simp: given_def split: option.splits)

lemma read_exact_Ok:
  "read_exact lookup n dv = Ok v \<longleftrightarrow> (given lookup n = None \<and> v = dv) \<or> (given lookup n = Some v \<and> \<not> inexact v)"
  by (auto simp: read_exact_def split: option.splits)

lemma read_knob_Ok:
  "read_knob pd lookup n = Ok d \<longleftrightarrow> (given lookup n = None \<and> d = 0)
     \<or> (\<exists>raw. given lookup n = Some raw \<and> \<not> inexact raw \<and> pd raw = Some d \<and> 0 < d)"
  by (auto simp: read_knob_def parseHookDuration_def split: option.splits if_splits)

lemma read_lane_Ok:
  "read_lane lookup = Ok m \<longleftrightarrow> (m = WriteLaneAuto \<and> given lookup hookWriteLaneEnv \<in> {None, Some ''auto''})
     \<or> (m = WriteLaneDirect \<and> given lookup hookWriteLaneEnv = Some ''direct'')"
  by (auto simp: read_lane_def split: option.splits)

lemma read_policy_Ok:
  "read_policy lookup = Ok p \<longleftrightarrow> (p = FaultFailOpen \<and> given lookup hookFailClosedEnv \<in> {None, Some ''0''})
     \<or> (p = FaultFailClosed \<and> given lookup hookFailClosedEnv = Some ''1'')"
  by (auto simp: read_policy_def split: option.splits)

text \<open>An environment the hook accepts is the one the operator typed: it fails closed exactly for the value 1, writes
  directly exactly for the value direct, claims an explicit actor exactly when one is given and then that one, and
  each knob of the time budget is either not given, and zero, or a positive duration parsed from the exact value.
  A variable that is set but empty reads as one that is not set.\<close>

theorem environment_exact:
  assumes "HookEnvironmentFromOS defaultActor parseDuration (Some lookup) = Ok env"
  shows "(he_FaultPolicy env = FaultFailClosed \<longleftrightarrow> lookup hookFailClosedEnv = Some ''1'')
    \<and> (he_FaultPolicy env = FaultFailOpen \<longleftrightarrow> lookup hookFailClosedEnv \<in> {None, Some [], Some ''0''})
    \<and> (he_WriteLane env = WriteLaneDirect \<longleftrightarrow> lookup hookWriteLaneEnv = Some ''direct'')
    \<and> (if lookup hookActorIDEnv \<in> {None, Some []} then he_ImplicitClaim env \<and> he_ActorClaim env = defaultActor
       else \<not> he_ImplicitClaim env \<and> lookup hookActorIDEnv = Some (he_ActorClaim env) \<and> \<not> padded (he_ActorClaim env))
    \<and> (\<forall>(n, d) \<in> set [(hookInvocationTimeoutEnv, o_HookInvocation (he_BudgetOverride env)),
          (hookIngressTimeoutEnv, o_Ingress (he_BudgetOverride env)), (hookStartSliceTimeoutEnv, o_StartSlice (he_BudgetOverride env))].
        if lookup n \<in> {None, Some []} then d = 0 else 0 < d \<and> (\<exists>raw. lookup n = Some raw \<and> parseDuration raw = Some d))
    \<and> HookEnvironmentFromOS defaultActor parseDuration
        (Some (\<lambda>n. if lookup n = Some [] \<and> n \<in> set [hookFailClosedEnv, hookCaptureDirEnv, hookActorIDEnv,
            hookInvocationTimeoutEnv, hookIngressTimeoutEnv, hookStartSliceTimeoutEnv, hookWriteLaneEnv, hookWriteLaneSocketEnv]
          then None else lookup n)) = Ok env"
proof -
  obtain lane socket policy capture actor i1 i2 i3 where r:
      "read_lane lookup = Ok lane" "read_exact lookup hookWriteLaneSocketEnv [] = Ok socket" "read_policy lookup = Ok policy"
      "read_exact lookup hookCaptureDirEnv [] = Ok capture" "read_exact lookup hookActorIDEnv defaultActor = Ok actor"
      "read_knob parseDuration lookup hookInvocationTimeoutEnv = Ok i1" "read_knob parseDuration lookup hookIngressTimeoutEnv = Ok i2"
      "read_knob parseDuration lookup hookStartSliceTimeoutEnv = Ok i3"
    and e: "env = \<lparr>he_Execution = BoundedInvocation (lookup ''PASTURE_EXECUTION_PROVIDER'') (lookup ''PASTURE_EXECUTION_MODEL'')
        (lookup ''PASTURE_EXECUTION_ROLE''), he_FaultPolicy = policy, he_CaptureDir = capture, he_ActorClaim = actor,
        he_ImplicitClaim = (given lookup hookActorIDEnv = None),
        he_BudgetOverride = \<lparr>o_HookInvocation = i1, o_Ingress = i2, o_StartSlice = i3\<rparr>,
        he_WriteLane = lane, he_WriteLaneSocket = socket\<rparr>"
    using assms by (auto simp: HookEnvironmentFromOS_def Let_def)
  let ?names = "[hookFailClosedEnv, hookCaptureDirEnv, hookActorIDEnv, hookInvocationTimeoutEnv, hookIngressTimeoutEnv,
    hookStartSliceTimeoutEnv, hookWriteLaneEnv, hookWriteLaneSocketEnv]"
  let ?lookup = "\<lambda>n. if lookup n = Some [] \<and> n \<in> set ?names then None else lookup n"
  have g: "given ?lookup n = given lookup n" for n by (auto simp: given_def)
  have x: "''PASTURE_EXECUTION_PROVIDER'' \<notin> set ?names" "''PASTURE_EXECUTION_MODEL'' \<notin> set ?names"
    "''PASTURE_EXECUTION_ROLE'' \<notin> set ?names" by code_simp+
  have same: "HookEnvironmentFromOS defaultActor parseDuration (Some ?lookup) = Ok env"
    using r x by (simp only: HookEnvironmentFromOS_def read_lane_def read_exact_def read_policy_def read_knob_def g e
        Let_def option.case result_bind_simps) simp
  have 1: "he_FaultPolicy env = FaultFailClosed \<longleftrightarrow> lookup hookFailClosedEnv = Some ''1''"
    "he_FaultPolicy env = FaultFailOpen \<longleftrightarrow> lookup hookFailClosedEnv \<in> {None, Some [], Some ''0''}"
    "he_WriteLane env = WriteLaneDirect \<longleftrightarrow> lookup hookWriteLaneEnv = Some ''direct''"
    using r(1,3) by (auto simp: e read_policy_Ok read_lane_Ok given_Some given_None)
  have 2: "if lookup hookActorIDEnv \<in> {None, Some []} then he_ImplicitClaim env \<and> he_ActorClaim env = defaultActor
       else \<not> he_ImplicitClaim env \<and> lookup hookActorIDEnv = Some (he_ActorClaim env) \<and> \<not> padded (he_ActorClaim env)"
    using r(5) by (auto simp: e read_exact_Ok given_Some given_None inexact_def)
  have 3: "if lookup n \<in> {None, Some []} then d = 0 else 0 < d \<and> (\<exists>raw. lookup n = Some raw \<and> parseDuration raw = Some d)"
    if "read_knob parseDuration lookup n = Ok d" for n d
    using that by (auto simp: read_knob_Ok given_Some given_None)
  show ?thesis using 1 2 3 [OF r(6)] 3 [OF r(7)] 3 [OF r(8)] same by (simp add: e)
qed

definition sample_lookup :: lookup where
  "sample_lookup = [hookFailClosedEnv \<mapsto> ''1'', hookWriteLaneEnv \<mapsto> ''direct'', hookIngressTimeoutEnv \<mapsto> ''3s'',
     hookActorIDEnv \<mapsto> []]"

definition sample_durations :: "string \<Rightarrow> int option" where
  "sample_durations s = (if s = ''3s'' then Some 3000000000 else None)"

lemma sample_environment:
  "HookEnvironmentFromOS ''llm'' sample_durations (Some sample_lookup) = Ok \<lparr>he_Execution = BoundedInvocation None None None,
     he_FaultPolicy = FaultFailClosed, he_CaptureDir = [], he_ActorClaim = ''llm'', he_ImplicitClaim = True,
     he_BudgetOverride = \<lparr>o_HookInvocation = 0, o_Ingress = 3000000000, o_StartSlice = 0\<rparr>,
     he_WriteLane = WriteLaneDirect, he_WriteLaneSocket = []\<rparr>"
proof -
  note names = hookFailClosedEnv_def hookCaptureDirEnv_def hookActorIDEnv_def hookInvocationTimeoutEnv_def hookIngressTimeoutEnv_def
    hookStartSliceTimeoutEnv_def hookWriteLaneEnv_def hookWriteLaneSocketEnv_def
  have g: "map (given sample_lookup) [hookWriteLaneEnv, hookWriteLaneSocketEnv, hookFailClosedEnv, hookCaptureDirEnv, hookActorIDEnv,
      hookInvocationTimeoutEnv, hookIngressTimeoutEnv, hookStartSliceTimeoutEnv]
    = [Some ''direct'', None, Some ''1'', None, None, None, Some ''3s'', None]"
    by code_simp
  have x: "map sample_lookup [''PASTURE_EXECUTION_PROVIDER'', ''PASTURE_EXECUTION_MODEL'', ''PASTURE_EXECUTION_ROLE''] = [None, None, None]"
    by code_simp
  have "\<not> inexact ''3s''"
    by (simp add: inexact_def padded_def string_runes_def rune_width_def rune_value_def IsSpace_def)
  then show ?thesis using g x
    by (simp add: HookEnvironmentFromOS_def read_lane_def read_exact_def read_policy_def read_knob_def parseHookDuration_def
        sample_durations_def Let_def)
qed

theorem environment_exact_witness:
  "\<exists>env. HookEnvironmentFromOS ''llm'' sample_durations (Some sample_lookup) = Ok env
     \<and> he_FaultPolicy env = FaultFailClosed \<and> o_Ingress (he_BudgetOverride env) = 3000000000"
proof -
  have "sample_lookup hookFailClosedEnv = Some ''1''" by code_simp
  then show ?thesis using environment_exact [OF sample_environment] sample_environment by auto
qed

text \<open>A version the hook resolves is never arbitrary process output: it is the version the caller supplied, or the
  canonical spelling of a release that the banner of the selected executable names, and that spelling parses back
  to the same release.\<close>

theorem version_evidence:
  assumes "resolveLifecycleHostVersion flags harness hostVersion = Ok v"
  shows "(vf_executable flags = None \<and> (vf_versionChanged flags \<or> \<not> lifecycleVersionQuerySupported harness) \<and> v = hostVersion)
    \<or> (\<exists>executable output w release. select_executable flags harness (fst (host_banner harness)) = Ok executable
        \<and> vf_query flags executable = Some output \<and> snd (host_banner harness) output = Some w
        \<and> ParseHostVersion w = Ok release \<and> v = HostVersion_String release \<and> ParseHostVersion v = Ok release
        \<and> \<not> vf_versionChanged flags)"
proof (cases "vf_executable flags = None \<and> (vf_versionChanged flags \<or> \<not> lifecycleVersionQuerySupported harness)")
  case True
  then show ?thesis using assms by (simp add: resolveLifecycleHostVersion_def)
next
  case False
  let ?banner = "host_banner harness"
  obtain executable where e: "select_executable flags harness (fst ?banner) = Ok executable" "\<not> vf_versionChanged flags"
    and t: "(case vf_query flags executable of None \<Rightarrow> Err QueryFailed
      | Some t \<Rightarrow> (case snd ?banner t of None \<Rightarrow> Err (BannerMismatch (fst ?banner))
         | Some w \<Rightarrow> (case ParseHostVersion w of Err _ \<Rightarrow> Err (BannerNotARelease (fst ?banner))
            | Ok release \<Rightarrow> Ok (HostVersion_String release)))) = Ok v"
    using assms False by (auto simp: resolveLifecycleHostVersion_def Let_def split_beta split: if_split_asm)
  obtain t w release where q: "select_executable flags harness (fst ?banner) = Ok executable"
    "vf_query flags executable = Some t" "snd ?banner t = Some w" "ParseHostVersion w = Ok release"
    "v = HostVersion_String release" "\<not> vf_versionChanged flags"
    using e t by (auto split: option.split_asm sum.split_asm)
  moreover have "ParseHostVersion v = Ok release" using q(4,5) ParseHostVersion_wf ParseHostVersion_String by blast
  ultimately show ?thesis by blast
qed

definition sample_flags :: version_flags where
  "sample_flags = \<lparr>vf_executable = None, vf_versionChanged = False, vf_hint = [],
     vf_lookPath = (\<lambda>name. if name = ''opencode'' then Some ''/usr/bin/opencode'' else None),
     vf_query = (\<lambda>_. Some (''opencode v2.0.20'' @ [char_of (10::nat)]))\<rparr>"

theorem version_evidence_witness:
  "resolveLifecycleHostVersion sample_flags HarnessOpenCode [] = Ok ''2.0.20'' \<and> is_ok (ParseHostVersion ''2.0.20'')"
proof -
  have r: "resolveLifecycleHostVersion sample_flags HarnessOpenCode [] = Ok ''2.0.20''" by code_simp
  have "lifecycleVersionQuerySupported HarnessOpenCode" "\<not> vf_versionChanged sample_flags" by code_simp+
  then show ?thesis using version_evidence [OF r] r by auto
qed

end
