(* ===== verification/HookCommand.thy ===== *)
theory HookCommand
  imports HookEnvironment
begin

text \<open>
  The command a host runs for a lifecycle event (\<^verbatim>\<open>cmd/pasture/hook_lifecycle.go\<close>) with its write-lane branch
  (\<^verbatim>\<open>cmd/pasture/hook_lifecycle_lane.go\<close>): the failure policy of the event, the environment, the version, the worker
  that asks the daemon first and writes directly only when nothing was sent, the deadline that races the
  worker, the panics of the worker, and the one outcome the host receives.  The worker and the deadline are two goroutines; their critical
  sections on the settlement fence can interleave in two ways that matter, the expiry before the worker enters
  the append or after it, and a third way is that the worker finishes first.  The daemon and the worker write
  to one store, so the journal of the state is shared.  The texts of errors are an argument.
\<close>

section \<open>Coordinates, policy, faults\<close>

record lifecycleCoordinates =
  co_Harness :: Harness
  co_Event :: string
  co_HostVersion :: string
  co_HostVersionSource :: string

text \<open>The policy of an event no row declares: observe only, with an unset semantic.\<close>

definition undeclared_policy :: LifecycleFailurePolicy where
  "undeclared_policy = \<lparr>fp_Mode = FailureObserveOnly, fp_DeclaredMode = FailureObserveOnly, fp_Evidence = no_evidence,
     fp_Semantic = EventSemantic_value 0, fp_Blocking = BlockingMode_value 0, fp_Response = CapabilityUnset\<rparr>"

definition lifecycleFailurePolicy :: "lifecycleCoordinates \<Rightarrow> LifecycleFailurePolicy" where
  "lifecycleFailurePolicy coords =
     (case LookupLifecycleFailure (co_Harness coords) (co_Event coords) of
        Some policy \<Rightarrow> policy
      | None \<Rightarrow> undeclared_policy)"

definition lifecycleContinuation :: "lifecycleCoordinates \<Rightarrow> LifecycleFailurePolicy \<Rightarrow> Continuation" where
  "lifecycleContinuation coords failure =
     (case FaultContinuation (co_Harness coords) (fp_Semantic failure) of
        Err _ \<Rightarrow> EmptyContinuation
      | Ok continuation \<Rightarrow> continuation)"

datatype work_error =
    HandlerError hook_error
  | LaneSilent consult_error
  | LaneUndeclaredStatus int
  | LaneRefused string
  | WorkPanicked

datatype command_cause =
    EnvironmentFault environment_error
  | UnexpectedArguments
  | OverrideFault profile_error
  | VersionFault version_fault
  | DeadlineExpired
  | WorkFault work_error
  | CommandPanic

definition lifecycleFault :: "(command_cause \<Rightarrow> string) \<Rightarrow> LifecycleFailurePolicy \<Rightarrow> FaultPolicy \<Rightarrow> Continuation \<Rightarrow> FaultStage
    \<Rightarrow> command_cause \<Rightarrow> Outcome" where
  "lifecycleFault describe failure policy continuation stage cause =
     (let rawFault = \<lparr>ft_Mode = fp_Mode failure, ft_DeclaredMode = fp_DeclaredMode failure,
            ft_Undeclared = (\<not> FailurePolicy_Declared failure), ft_Evidence = fp_Evidence failure, ft_Policy = policy,
            ft_Stage = stage, ft_Continuation = continuation, ft_Cause = Some (describe cause)\<rparr> in
      case ForFault rawFault of
        (outcome, mapped) \<Rightarrow>
          if \<not> mapped then
            \<lparr>out_Exit = ExitNonBlockingError, out_Stdout = [],
             out_Stderr = StderrUnclassifiable (UnusableInputs rawFault) (Some (describe cause))\<rparr>
          else outcome)"

text \<open>The stage of an error of the worker: the table of sentinels, and record-unknown for everything else.\<close>

definition faultStageByError :: "(sentinel \<times> FaultStage) list" where
  "faultStageByError =
     [(ErrLifecycleCommittedWithoutContinuation, FaultStageRecorded),
      (ErrLifecycleDeliveryRefused, FaultStageRecorded),
      (ErrLifecycleBeforeDurableWrite, FaultStageNotRecorded),
      (ErrLifecycleWorkPanicked, FaultStageRecordUnknown)]"

definition work_error_is :: "work_error \<Rightarrow> sentinel \<Rightarrow> bool" where
  "work_error_is e s \<longleftrightarrow> (case e of HandlerError h \<Rightarrow> errors_Is h s | WorkPanicked \<Rightarrow> s = ErrLifecycleWorkPanicked | _ \<Rightarrow> False)"

definition faultStageForWorkError :: "work_error \<Rightarrow> FaultStage" where
  "faultStageForWorkError e =
     (case find (\<lambda>(s, _). work_error_is e s) faultStageByError of
        Some (_, stage) \<Rightarrow> stage
      | None \<Rightarrow> FaultStageRecordUnknown)"

record lifecycleWork =
  wk_outcome :: Outcome
  wk_err :: "work_error option"
  wk_stage :: FaultStage

section \<open>The write lane\<close>

definition lifecycleLaneConnectTimeout :: "Profile \<Rightarrow> int" where
  "lifecycleLaneConnectTimeout budget =
     (let timeout = quot (p_hookInvocation budget) 100 in if timeout < 1000000 then 1000000 else timeout)"

text \<open>The conversion of the number on the wire to the 8-bit exit status.\<close>

definition ExitStatus_of_int :: "int \<Rightarrow> ExitStatus" where
  "ExitStatus_of_int n =
     (let b = n mod 256 in
      if b = 0 then ExitStatusUnset else if b = 1 then ExitContinue else if b = 2 then ExitNonBlockingError
      else if b = 3 then ExitBlock else ExitStatus_value (nat b))"

definition faultStageFromName :: "string \<Rightarrow> FaultStage \<times> bool" where
  "faultStageFromName name =
     (if name = FaultStage_String FaultStageNotRecorded then (FaultStageNotRecorded, True)
      else if name = FaultStage_String FaultStageRecordUnknown then (FaultStageRecordUnknown, True)
      else if name = FaultStage_String FaultStageRecorded then (FaultStageRecorded, True)
      else (FaultStageRecordUnknown, False))"

definition lifecycleLaneAnswered :: "Response \<Rightarrow> lifecycleWork" where
  "lifecycleLaneAnswered response =
     (if rs_Kind response = KindCommitted then
        (let status = ExitStatus_of_int (rs_ExitStatus response) in
         if \<not> ExitStatus_IsValid status then
           \<lparr>wk_outcome = zero_outcome, wk_err = Some (LaneUndeclaredStatus (rs_ExitStatus response)), wk_stage = FaultStageUnset\<rparr>
         else
           \<lparr>wk_outcome = \<lparr>out_Exit = status, out_Stdout = rs_Stdout response, out_Stderr = StderrText (rs_Stderr response)\<rparr>,
            wk_err = None, wk_stage = FaultStageUnset\<rparr>)
      else
        (let stage = (case faultStageFromName (rs_Stage response) of (s, known) \<Rightarrow> if \<not> known then FaultStageRecordUnknown else s) in
         \<lparr>wk_outcome = zero_outcome, wk_err = Some (LaneRefused (rs_Refusal response)), wk_stage = stage\<rparr>))"

text \<open>The hook is either settled by the lane or falls back with the bytes it has read; \<open>None\<close> is a stream that fails.
  The exchange with the daemon acts on the journal.\<close>

datatype lane_result = Decided lifecycleWork | Fallback "string option"

type_synonym consult = "Request \<Rightarrow> string \<Rightarrow> receipt_journal \<Rightarrow> (consult_error + Response) \<times> receipt_journal"

definition lane_request :: "lifecycleCoordinates \<Rightarrow> HookEnvironment \<Rightarrow> Request" where
  "lane_request coords env =
     \<lparr>rq_Version = 0, rq_Harness = co_Harness coords, rq_Event = co_Event coords, rq_HostVersion = co_HostVersion coords,
      rq_HostVersionSource = co_HostVersionSource coords, rq_ActorClaim = he_ActorClaim env,
      rq_ImplicitClaim = he_ImplicitClaim env, rq_Execution = he_Execution env\<rparr>"

definition lifecycleLaneAttempt :: "bool \<Rightarrow> consult \<Rightarrow> lifecycleCoordinates \<Rightarrow> HookEnvironment \<Rightarrow> string option \<Rightarrow> receipt_journal
    \<Rightarrow> lane_result \<times> receipt_journal" where
  "lifecycleLaneAttempt windows consult coords env input j =
     (if he_WriteLane env = WriteLaneDirect then (Fallback input, j)
      else if windows then (Fallback input, j)
      else case input of
          None \<Rightarrow> (Fallback None, j)
        | Some bytes \<Rightarrow>
            (let raw = limit_reader bytes in
             case consult (lane_request coords env) raw j of
               (Ok response, j') \<Rightarrow> (Decided (lifecycleLaneAnswered response), j')
             | (Err ErrUnavailable, j') \<Rightarrow> (Fallback (Some raw), j')
             | (Err e, j') \<Rightarrow>
                 (Decided \<lparr>wk_outcome = zero_outcome, wk_err = Some (LaneSilent e), wk_stage = FaultStageUnset\<rparr>, j')))"

section \<open>The worker\<close>

text \<open>Where the worker panics, if it does: before it has changed anything, or after.\<close>

datatype panic_point = NoPanic | PanicBefore | PanicAfter

text \<open>What the command is given: its flags and arguments, the environment, the host's payload, whether a
  capture directory is usable, the lane, the direct path, and the texts of its faults.\<close>

record command_env =
  cx_coords :: lifecycleCoordinates
  cx_arguments :: "string list"
  cx_lookup :: "lookup option"
  cx_defaultActor :: string
  cx_parseDuration :: "string \<Rightarrow> int option"
  cx_flags :: version_flags
  cx_budget :: "Profile option"
  cx_payload :: "string option"
  cx_sink :: bool
  cx_windows :: bool
  cx_consult :: consult
  cx_hook :: hook_env
  cx_barrier :: bool
  cx_panic :: panic_point
  cx_describe :: "command_cause \<Rightarrow> string"

text \<open>A capture reads the payload under the same bound as the handler and hands the same bytes on.\<close>

definition captureHostPayload :: "bool \<Rightarrow> string option \<Rightarrow> string option" where
  "captureHostPayload sink input = (if \<not> sink then input else map_option limit_reader input)"

definition worker_hook :: "command_env \<Rightarrow> lifecycleCoordinates \<Rightarrow> string option \<Rightarrow> hook_env" where
  "worker_hook cx coords input =
     (cx_hook cx)\<lparr>hv_admission := (hv_admission (cx_hook cx))\<lparr>ad_Harness := co_Harness coords, ad_Event := co_Event coords,
        ad_HostVersion := co_HostVersion coords, ad_HostVersionSource := co_HostVersionSource coords, ad_Payload := input\<rparr>\<rparr>"

definition worker_body :: "command_env \<Rightarrow> lifecycleCoordinates \<Rightarrow> HookEnvironment \<Rightarrow> hook_state \<Rightarrow> lifecycleWork \<times> hook_state" where
  "worker_body cx coords env st =
     (let input = (if he_CaptureDir env \<noteq> [] then captureHostPayload (cx_sink cx) (cx_payload cx) else cx_payload cx) in
      case lifecycleLaneAttempt (cx_windows cx) (cx_consult cx) coords env input (hk_journal st) of
        (Decided work, j) \<Rightarrow> (work, st\<lparr>hk_journal := j\<rparr>)
      | (Fallback input, j) \<Rightarrow>
          (case HookLifecycleNative (worker_hook cx coords input) (cx_barrier cx) (st\<lparr>hk_journal := j\<rparr>) of
             ((outcome, err), st') \<Rightarrow>
               (\<lparr>wk_outcome = outcome, wk_err = map_option HandlerError err, wk_stage = FaultStageUnset\<rparr>, st')))"

text \<open>A panic of the worker is recovered and travels as its sentinel.\<close>

definition panicked :: lifecycleWork where
  "panicked = \<lparr>wk_outcome = zero_outcome, wk_err = Some WorkPanicked, wk_stage = FaultStageUnset\<rparr>"

definition lifecycle_worker :: "command_env \<Rightarrow> lifecycleCoordinates \<Rightarrow> HookEnvironment \<Rightarrow> hook_state \<Rightarrow> lifecycleWork \<times> hook_state" where
  "lifecycle_worker cx coords env st =
     (case cx_panic cx of
        NoPanic \<Rightarrow> worker_body cx coords env st
      | PanicBefore \<Rightarrow> (panicked, st)
      | PanicAfter \<Rightarrow> (panicked, snd (worker_body cx coords env st)))"

section \<open>The outcome\<close>

datatype schedule = WorkerFirst | ExpiryBeforeEntry | ExpiryAfterEntry

text \<open>The deadline arm: the fence is expired and its signal awaited, then the published outcome is read.\<close>

definition deadline_outcome :: "(FaultStage \<Rightarrow> command_cause \<Rightarrow> Outcome) \<Rightarrow> CommitSettlement \<Rightarrow> Outcome \<times> CommitSettlement" where
  "deadline_outcome fault fence =
     (case Expire fence of
        None \<Rightarrow> ((case CommittedOutcome fence of (o1, True) \<Rightarrow> o1 | _ \<Rightarrow> fault FaultStageRecordUnknown CommandPanic), fence)
      | Some f \<Rightarrow> ((case CommittedOutcome f of (o1, True) \<Rightarrow> o1 | _ \<Rightarrow> fault FaultStageRecordUnknown DeadlineExpired), f))"

definition work_outcome :: "(FaultStage \<Rightarrow> command_cause \<Rightarrow> Outcome) \<Rightarrow> lifecycleWork \<Rightarrow> CommitSettlement \<Rightarrow> Outcome" where
  "work_outcome fault work fence =
     (case CommittedOutcome fence of
        (committed, True) \<Rightarrow> committed
      | _ \<Rightarrow>
          (case wk_err work of
             Some e \<Rightarrow>
               fault (if \<not> FaultStage_IsValid (wk_stage work) then faultStageForWorkError e else wk_stage work) (WorkFault e)
           | None \<Rightarrow> wk_outcome work))"

definition run_worker :: "command_env \<Rightarrow> lifecycleCoordinates \<Rightarrow> HookEnvironment \<Rightarrow> (FaultStage \<Rightarrow> command_cause \<Rightarrow> Outcome) \<Rightarrow> schedule
    \<Rightarrow> hook_state \<Rightarrow> Outcome \<times> hook_state" where
  "run_worker cx coords env fault schedule st =
     (case schedule of
        WorkerFirst \<Rightarrow>
          (case lifecycle_worker cx coords env st of (work, st') \<Rightarrow> (work_outcome fault work (hk_fence st'), st'))
      | ExpiryBeforeEntry \<Rightarrow>
          (case deadline_outcome fault (hk_fence st) of
             (out, f) \<Rightarrow> (out, snd (lifecycle_worker cx coords env (st\<lparr>hk_fence := f\<rparr>))))
      | ExpiryAfterEntry \<Rightarrow>
          (case lifecycle_worker cx coords env st of
             (_, st') \<Rightarrow> (case deadline_outcome fault (hk_fence st') of (out, f) \<Rightarrow> (out, st'\<lparr>hk_fence := f\<rparr>))))"

definition version_source :: "version_flags \<Rightarrow> Harness \<Rightarrow> string \<Rightarrow> string" where
  "version_source flags harness hostVersion =
     (if vf_executable flags \<noteq> None \<or> (lifecycleVersionQuerySupported harness \<and> \<not> vf_versionChanged flags) then ''executable-query''
      else if vf_versionChanged flags \<and> TrimSpace hostVersion \<noteq> [] then ''caller-supplied''
      else [])"

definition lifecycleOutcome :: "command_env \<Rightarrow> schedule \<Rightarrow> hook_state \<Rightarrow> Outcome \<times> hook_state" where
  "lifecycleOutcome cx schedule st =
     (let coords = cx_coords cx;
          failure = lifecycleFailurePolicy coords;
          continuation = lifecycleContinuation coords failure;
          fault = (\<lambda>policy. lifecycleFault (cx_describe cx) failure policy continuation) in
      case HookEnvironmentFromOS (cx_defaultActor cx) (cx_parseDuration cx) (cx_lookup cx) of
        Err e \<Rightarrow> (fault FaultFailOpen FaultStageNotRecorded (EnvironmentFault e), st)
      | Ok env \<Rightarrow>
          let policy = he_FaultPolicy env in
          if cx_arguments cx \<noteq> [] then (fault policy FaultStageNotRecorded UnexpectedArguments, st)
          else case (case cx_budget cx of Some b \<Rightarrow> Some b | None \<Rightarrow> ProductionProfile) of
              None \<Rightarrow> (fault policy FaultStageNotRecorded CommandPanic, st)
            | Some base \<Rightarrow>
                (case (if Override_IsZero (he_BudgetOverride env) then Ok base else WithOverride base (he_BudgetOverride env)) of
                   Err e \<Rightarrow> (fault policy FaultStageNotRecorded (OverrideFault e), st)
                 | Ok budget \<Rightarrow>
                     (case resolveLifecycleHostVersion (cx_flags cx) (co_Harness coords) (co_HostVersion coords) of
                        Err e \<Rightarrow> (fault policy FaultStageNotRecorded (VersionFault e), st)
                      | Ok v \<Rightarrow>
                          run_worker cx (coords\<lparr>co_HostVersion := v,
                              co_HostVersionSource := version_source (cx_flags cx) (co_Harness coords) v\<rparr>)
                            env (fault policy) schedule st)))"

section \<open>Leaving the process\<close>

definition noExitDecisionExit :: ExitStatus where
  "noExitDecisionExit = ExitNonBlockingError"

text \<open>The bytes on standard output, what is on standard error (with the note that an outcome named no status), and the
  exit code.\<close>

definition emitLifecycleOutcome :: "Outcome \<Rightarrow> string \<times> stderr_text \<times> bool \<times> nat" where
  "emitLifecycleOutcome outcome =
     (case ExitStatus_Code (out_Exit outcome) of
        None \<Rightarrow> (out_Stdout outcome, out_Stderr outcome, True, the (ExitStatus_Code noExitDecisionExit))
      | Some code \<Rightarrow> (out_Stdout outcome, out_Stderr outcome, False, code))"

section \<open>A fault always has an outcome\<close>

lemma policy_modes:
  "FailureMode_IsValid (fp_Mode (lifecycleFailurePolicy coords)) \<and> FailureMode_IsValid (fp_DeclaredMode (lifecycleFailurePolicy coords))"
proof -
  have row: "FailureMode_IsValid (fp_Mode p) \<and> FailureMode_IsValid (fp_DeclaredMode p)"
    if "lifecycle_contract c" "lc_events c = es" "lookupLifecycleFailure (Some c) es n = Some p"
    for c :: "'e LifecycleContract" and es n p
    using that lifecycle_contract.lookup_valid [OF that(1), of n] Mapping_IsValid_enums
    by (auto simp: lookupLifecycleFailure_def failure_policy_of_def)
  have "FailureMode_IsValid (fp_Mode p) \<and> FailureMode_IsValid (fp_DeclaredMode p)"
    if "LookupLifecycleFailure (co_Harness coords) (co_Event coords) = Some p" for p
    using that row [OF claude.lifecycle_contract_axioms profile_events(1)] row [OF codex.lifecycle_contract_axioms profile_events(2)]
      row [OF opencode.lifecycle_contract_axioms profile_events(3)] row [OF opencode2.lifecycle_contract_axioms profile_events(4)]
      profiles_defined
    by (simp add: LookupLifecycleFailure_def split: if_splits option.splits)
  then show ?thesis by (auto simp: lifecycleFailurePolicy_def undeclared_policy_def split: option.splits)
qed

lemma continuation_set: "cont_set (lifecycleContinuation coords failure)"
  by (auto simp: lifecycleContinuation_def FaultContinuation_def EmptyContinuation_def ContinuationOf_def split: sum.splits if_splits)

text \<open>A fault of the command: the host is let go on, or refused when the operator asked for it, never in silence, and
  the diagnostic names the stage.\<close>

definition reported_fault :: "FaultPolicy \<Rightarrow> FaultStage \<Rightarrow> Outcome \<Rightarrow> bool" where
  "reported_fault policy stage out \<longleftrightarrow> (\<exists>fd. out_Stderr out = StderrFault fd \<and> fd_stage fd = stage \<and> fd_exit fd = out_Exit out
     \<and> (out_Exit out = ExitContinue \<or> (out_Exit out = ExitBlock \<and> policy = FaultFailClosed)))"

lemma fault_reported:
  assumes "FaultPolicy_IsValid policy" "FaultStage_IsValid stage"
  shows "reported_fault policy stage (lifecycleFault describe (lifecycleFailurePolicy coords) policy
    (lifecycleContinuation coords (lifecycleFailurePolicy coords)) stage cause)"
  using assms policy_modes [of coords] continuation_set [of coords "lifecycleFailurePolicy coords"]
  by (auto simp: reported_fault_def lifecycleFault_def ForFault_def UnusableInputs_def faultDiagnostic_def Let_def)

lemma stage_valid: "FaultStage_IsValid (faultStageForWorkError e)"
  by (auto simp: faultStageForWorkError_def faultStageByError_def)

section \<open>What the direct path leaves\<close>

text \<open>An outcome is published only with its row, whatever the result of the write.\<close>

lemma Receive_published:
  assumes "Receive env st w dl es out = (res, st')" "honest env" "\<not> cs_committed (hk_fence st)" "cs_committed (hk_fence st')"
  shows "\<exists>o1. CommittedOutcome (hk_fence st') = (o1, True) \<and> hk_journal st' = hk_journal st @ [(o1, True, es)]
    \<and> ExitStatus_Code (out_Exit o1) \<noteq> None"
  using assms
  by (auto simp: Receive_def Let_def honest_def run_committed_def run_enter_def run_finish_def close_done_def make_done_def
      CommittedOutcome_def split: option.splits if_splits sum.splits prod.splits)

lemma Receive_abandoned:
  "Receive env st w dl es out = (res, st') \<Longrightarrow> cs_state (hk_fence st) = settlementAbandoned \<Longrightarrow> st' = st"
  by (auto simp: Receive_def Let_def run_enter_def split: option.splits if_splits sum.splits prod.splits)

text \<open>What every step of the direct path keeps: it leaves the state as it was, or as one receipt write left it.\<close>

definition one_write :: "receipt_env \<Rightarrow> hook_state \<Rightarrow> hook_state \<Rightarrow> bool" where
  "one_write env st st' \<longleftrightarrow> st' = st \<or> (\<exists>w dl es out res. Receive env st w dl es out = (res, st'))"

lemma deliveryCommit_write: "deliveryCommit env st d e dl dn = (res, st') \<Longrightarrow> one_write (hv_receipt env) st st'"
  by (auto simp: one_write_def deliveryCommit_def split: sum.splits if_splits prod.splits)

lemma hook_body_write: "hook_body env st = (b, res, st') \<Longrightarrow> one_write (hv_receipt env) st st'"
  using deliveryCommit_write
  by (auto simp: hook_body_def one_write_def split: sum.splits if_splits prod.splits)

lemma native_write: "HookLifecycleNative env barrier st = (res, st') \<Longrightarrow> one_write (hv_receipt env) st st'"
  using hook_body_write [of env st]
  by (auto simp: HookLifecycleNative_def hookLifecycle_def one_write_def split: sum.splits if_splits prod.splits bool.splits)

lemma native_journal:
  assumes "HookLifecycleNative env barrier st = (res, st')"
  shows "hk_journal st' = hk_journal st \<or> (\<exists>row. hk_journal st' = hk_journal st @ [row])"
  using native_write [OF assms] Receive_journal by (fastforce simp: one_write_def)

lemma native_published:
  assumes "HookLifecycleNative env barrier st = (res, st')" "honest (hv_receipt env)" "\<not> cs_committed (hk_fence st)" "cs_committed (hk_fence st')"
  shows "\<exists>o1 es. CommittedOutcome (hk_fence st') = (o1, True) \<and> hk_journal st' = hk_journal st @ [(o1, True, es)]
    \<and> ExitStatus_Code (out_Exit o1) \<noteq> None"
  using native_write [OF assms(1)] assms(3,4) unfolding one_write_def
  by (elim disjE exE) (blast dest: Receive_published [OF _ assms(2,3,4)])+

lemma native_abandoned:
  assumes "HookLifecycleNative env barrier st = (res, st')" "cs_state (hk_fence st) = settlementAbandoned"
  shows "st' = st"
  using native_write [OF assms(1)] Receive_abandoned [OF _ assms(2)] by (auto simp: one_write_def)

lemma hookLifecycle_stage:
  assumes h: "hookLifecycle env st = (Err er, st')" and a: "honest (hv_receipt env)"
  shows "(faultStageForWorkError (HandlerError er) = FaultStageNotRecorded \<longrightarrow> st' = st)
    \<and> (faultStageForWorkError (HandlerError er) = FaultStageRecorded \<longrightarrow> (\<exists>row. hk_journal st' = hk_journal st @ [row]))"
proof -
  obtain attempted er' where b: "hook_body env st = (attempted, Err er', st')"
    and e: "er = (if attempted then er' else Wrapped ErrLifecycleBeforeDurableWrite er')"
    using h by (auto simp: hookLifecycle_def split: prod.splits sum.splits if_splits)
  show ?thesis using hook_body_Err [OF b a] e
    by (cases attempted) (auto simp: faultStageForWorkError_def faultStageByError_def work_error_is_def split: if_splits)
qed

lemma hookLifecycle_row:
  assumes "hookLifecycle env st = (Ok r, st')" "honest (hv_receipt env)"
  shows "\<exists>row. hk_journal st' = hk_journal st @ [row]"
proof (rule hookLifecycle_Ok [OF assms(1)])
  fix d e c dn n
  assume "deliveryCommit env st d e (cp_delivery c) dn = (Ok (r, n), st')"
  then show ?thesis by (rule deliveryCommit_Ok) (use Receive_Ok(2) [OF _ assms(2)] in blast)
qed

text \<open>The result of the native entry when nothing was published.\<close>

lemma native_result:
  assumes n: "HookLifecycleNative env barrier st = ((out, err), st')" and a: "honest (hv_receipt env)"
    and f: "\<not> cs_committed (hk_fence st')"
  obtains er where "err = Some er" "faultStageForWorkError (HandlerError er) = FaultStageNotRecorded \<longrightarrow> st' = st"
    "faultStageForWorkError (HandlerError er) = FaultStageRecorded \<longrightarrow> (\<exists>row. hk_journal st' = hk_journal st @ [row])"
proof (cases "dispatchLifecycle (ad_Harness (hv_admission env))")
  case (Inl x)
  then have "err = Some (Wrapped ErrLifecycleBeforeDurableWrite x) \<and> st' = st" using n by (simp add: HookLifecycleNative_def)
  moreover have "\<not> errors_Is x s" for s using unwrapped_Err [OF Inl] by (auto simp: dispatchLifecycle_def unwrapped_def split: option.splits)
  ultimately show thesis using that by (auto simp: faultStageForWorkError_def faultStageByError_def work_error_is_def)
next
  case (Inr d)
  obtain res st1 where h: "hookLifecycle env st = (res, st1)" by fastforce
  show thesis
  proof (cases res)
    case (Inl er)
    have "err = Some er \<and> st1 = st'" using n Inr h Inl f
      by (auto simp: HookLifecycleNative_def CommittedOutcome_def split: bool.splits)
    then show thesis using that hookLifecycle_stage [OF h [unfolded Inl] a] by blast
  next
    case (Inr r)
    have row: "\<exists>row. hk_journal st1 = hk_journal st @ [row]" by (rule hookLifecycle_row [OF h [unfolded Inr] a])
    show thesis
    proof (cases barrier)
      case True
      then have "err = Some (Plain NoPublishedOutcome) \<and> st1 = st'"
        using n Inr h f \<open>dispatchLifecycle _ = Inr d\<close> by (auto simp: HookLifecycleNative_def CommittedOutcome_def split: if_splits)
      then show thesis using that by (auto simp: faultStageForWorkError_def faultStageByError_def work_error_is_def)
    next
      case False
      then have "err = Some (Wrapped ErrLifecycleCommittedWithoutContinuation (Plain BarrierFault)) \<and> st1 = st'"
        using n Inr h f \<open>dispatchLifecycle _ = Inr d\<close> by (auto simp: HookLifecycleNative_def CommittedOutcome_def split: if_splits)
      then show thesis using that row by (auto simp: faultStageForWorkError_def faultStageByError_def work_error_is_def)
    qed
  qed
qed

section \<open>The daemon behind the lane\<close>

text \<open>The daemon of one machine: the codecs, the connection, the wiring of the served path for a request and the
  state of the session claim it names.\<close>

record lane_world =
  lw_requests :: "Request codec"
  lw_responses :: "Response codec"
  lw_link :: lane_link
  lw_server :: lane_server
  lw_delivered :: nat
  lw_received :: nat
  lw_served :: "HookLifecycleServeInput \<Rightarrow> served_env"
  lw_claim :: "HookLifecycleServeInput \<Rightarrow> string"

definition stderr_string :: "stderr_text \<Rightarrow> string" where
  "stderr_string t = (case t of StderrText s \<Rightarrow> s | _ \<Rightarrow> [])"

definition daemon_handler :: "lane_world \<Rightarrow> receipt_journal handler" where
  "daemon_handler lw i j =
     (case Serve (lw_served lw i) j of
        (Err e, j') \<Rightarrow> (Err e, j')
      | (Ok (out, n), j') \<Rightarrow>
          (Ok \<lparr>sd_Exit = out_Exit out, sd_Stdout = out_Stdout out, sd_Stderr = stderr_string (out_Stderr out),
               sd_OccurrenceID = dec_nat n, sd_ClaimState = lw_claim lw i\<rparr>, j'))"

definition daemon_consult :: "lane_world \<Rightarrow> consult" where
  "daemon_consult lw request payload j =
     (case Consult (lw_requests lw) (lw_responses lw) (lw_link lw)
         (daemon_peer (lw_requests lw) (lw_responses lw) (lw_server lw) (daemon_handler lw) j (lw_delivered lw) (lw_received lw))
         request payload of
        (res, sent) \<Rightarrow>
          (res, fst (snd (ServeConn (lw_requests lw) (lw_responses lw) (lw_server lw) (daemon_handler lw)
             (take (lw_delivered lw) sent) j))))"

definition world_ok :: "lane_world \<Rightarrow> bool" where
  "world_ok lw \<longleftrightarrow> (\<forall>request answer. exchange_codecs (lw_requests lw) (lw_responses lw) request answer)
     \<and> (\<forall>i. served_honest (lw_served lw i) \<and> faithful_parser (sr_admission (lw_served lw i)))"

lemma Serve_row:
  assumes "Serve env j = (Ok (out, n), j')" "served_honest env" "faithful_parser (sr_admission env)"
  shows "\<exists>es. j' = j @ [(out, True, es)]" "ExitStatus_Code (out_Exit out) \<noteq> None"
proof -
  obtain b where "serve_body env j = (b, Ok (out, n), j')"
    using assms(1) by (auto simp: Serve_def split: prod.splits sum.splits if_splits)
  then obtain d e c decision w p where p: "prepareLifecycleDelivery (sr_admission env) = Ok (d, e, c)" "cp_disposition c = CaptureValid"
    "evaluateGate (sr_store env) (sr_decoders env) d e (dl_Bindings (cp_delivery c)) (ad_Harness (sr_admission env)) = Ok decision"
    "prepareServedDelivery d e (cp_delivery c) decision = Ok (w, p)" "out = pd_outcome p"
    and r: "submitToLane env j \<lparr>sl_warrant = w, sl_delivery = cp_delivery c, sl_effects = pd_effects p, sl_outcome = pd_outcome p,
       sl_ensureMetamodel = True, sl_tracker = True\<rparr> = (Ok n, j')"
    by (rule serve_body_Ok)
  have "dl_Capture (cp_delivery c) = CaptureValid"
    using prepare_event [OF p(1)] p(2) assms(3) by (auto simp: faithful_parser_def)
  then show "\<exists>es. j' = j @ [(out, True, es)]" using submit_Ok(1) [OF r assms(2)] p(5) by simp
  obtain m where "carries m decision p" by (rule prepared_carries [OF p(1,3,4)])
  then show "ExitStatus_Code (out_Exit out) \<noteq> None" using carries_exit p(5) by simp
qed

lemma Serve_refusal:
  assumes "Serve env j = (Err er, j')" "served_honest env"
  shows "LifecycleFaultStageForError er = FaultStageNotRecorded \<Longrightarrow> j' = j"
    "LifecycleFaultStageForError er = FaultStageRecorded \<Longrightarrow> \<exists>row. j' = j @ [row]"
proof -
  obtain b er' where s: "serve_body env j = (b, Err er', j')" "er = (if b then er' else Wrapped ErrLifecycleBeforeDurableWrite er')"
    using assms(1) by (auto simp: Serve_def split: prod.splits sum.splits if_splits)
  show "LifecycleFaultStageForError er = FaultStageNotRecorded \<Longrightarrow> j' = j"
    "LifecycleFaultStageForError er = FaultStageRecorded \<Longrightarrow> \<exists>row. j' = j @ [row]"
    using s serve_body_before [of env j "Err er'" j'] serve_body_Err [of env j er' j', OF _ assms(2)]
    by (cases b; auto simp: LifecycleFaultStageForError_def split: if_splits)+
qed

lemma Serve_journal: "Serve env j = (res, j') \<Longrightarrow> j' = j \<or> (\<exists>row. j' = j @ [row])"
  using serve_body_journal [of env j] by (auto simp: Serve_def split: prod.splits sum.splits if_splits)

lemma daemon_handler_journal: "daemon_handler lw i j = (res, j') \<Longrightarrow> j' = j \<or> (\<exists>row. j' = j @ [row])"
  using Serve_journal by (fastforce simp: daemon_handler_def split: prod.splits sum.splits)

lemma ServeConn_state:
  "fst (snd (ServeConn cq cr sv h inp st)) = st \<or> (\<exists>i. fst (snd (ServeConn cq cr sv h inp st)) = snd (h i st))"
  by (auto simp: ServeConn_def split: sum.splits prod.splits if_splits option.splits) (metis snd_conv)+

text \<open>What one exchange leaves: nothing for an unavailable lane, and otherwise at most one row; an answer tells the row.\<close>

lemma consult_journal:
  assumes "daemon_consult lw q raw j = (res, j')"
  shows "j' = j \<or> (\<exists>row. j' = j @ [row])"
proof -
  obtain sent where "j' = fst (snd (ServeConn (lw_requests lw) (lw_responses lw) (lw_server lw) (daemon_handler lw)
      (take (lw_delivered lw) sent) j))"
    using assms by (auto simp: daemon_consult_def split: prod.splits)
  then show ?thesis
    using ServeConn_state [of "lw_requests lw" "lw_responses lw" "lw_server lw" "daemon_handler lw" "take (lw_delivered lw) sent" j]
      daemon_handler_journal by (metis prod.collapse)
qed

lemma consult_result:
  assumes w: "world_ok lw" and k: "daemon_consult lw q raw j = (res, j')"
  shows "res = Err ErrUnavailable \<Longrightarrow> j' = j"
    "res = Ok response \<Longrightarrow> \<exists>i result. daemon_handler lw i j = (result, j')
      \<and> response = json_response (served_answer (ls_render (lw_server lw)) (ls_noStatus (lw_server lw)) result)"
proof -
  let ?q = "q\<lparr>rq_Version := ProtocolVersion\<rparr>"
  let ?i = "serve_input (json_request ?q) raw"
  let ?peer = "daemon_peer (lw_requests lw) (lw_responses lw) (lw_server lw) (daemon_handler lw) j (lw_delivered lw) (lw_received lw)"
  obtain sent where c: "Consult (lw_requests lw) (lw_responses lw) (lw_link lw) ?peer q raw = (res, sent)"
    and j: "j' = fst (snd (ServeConn (lw_requests lw) (lw_responses lw) (lw_server lw) (daemon_handler lw) (take (lw_delivered lw) sent) j))"
    using k by (auto simp: daemon_consult_def split: prod.splits)
  obtain out calls where s: "ServeConn (lw_requests lw) (lw_responses lw) (lw_server lw) (daemon_handler lw) (take (lw_delivered lw) sent) j
      = (out, j', calls)" using j by (metis prod.collapse)
  obtain result served where h: "daemon_handler lw ?i j = (result, served)" by fastforce
  have x: "exchange_codecs (lw_requests lw) (lw_responses lw) ?q
      (served_answer (ls_render (lw_server lw)) (ls_noStatus (lw_server lw)) result)"
    using w by (simp add: world_ok_def)
  note ex = exchange [OF refl h x c s]
  show "res = Err ErrUnavailable \<Longrightarrow> j' = j" using ex by blast
  show "res = Ok response \<Longrightarrow> \<exists>i result. daemon_handler lw i j = (result, j')
      \<and> response = json_response (served_answer (ls_render (lw_server lw)) (ls_noStatus (lw_server lw)) result)"
    using ex h by blast
qed

section \<open>What the worker reports\<close>

text \<open>A stage is true of what happened to the journal; an outcome tells the row it was committed with.\<close>

definition stage_true :: "FaultStage \<Rightarrow> receipt_journal \<Rightarrow> receipt_journal \<Rightarrow> bool" where
  "stage_true stage j j' \<longleftrightarrow> (stage = FaultStageNotRecorded \<longrightarrow> j' = j) \<and> (stage = FaultStageRecorded \<longrightarrow> (\<exists>row. j' = j @ [row]))"

definition tells_row :: "Outcome \<Rightarrow> receipt_journal \<Rightarrow> receipt_journal \<Rightarrow> bool" where
  "tells_row out j j' \<longleftrightarrow> (\<exists>o1 es. j' = j @ [(o1, True, es)] \<and> out_Exit out = out_Exit o1 \<and> out_Stdout out = out_Stdout o1
     \<and> ExitStatus_Code (out_Exit o1) \<noteq> None)"

definition work_true :: "lifecycleWork \<Rightarrow> receipt_journal \<Rightarrow> receipt_journal \<Rightarrow> bool" where
  "work_true work j j' \<longleftrightarrow>
     (case wk_err work of
        None \<Rightarrow> tells_row (wk_outcome work) j j'
      | Some e \<Rightarrow> stage_true (if \<not> FaultStage_IsValid (wk_stage work) then faultStageForWorkError e else wk_stage work) j j')"

lemma stage_unknown [simp]: "stage_true FaultStageRecordUnknown j j'"
  by (simp add: stage_true_def)

lemma lane_errors_unknown [simp]:
  "faultStageForWorkError (LaneSilent e) = FaultStageRecordUnknown"
  "faultStageForWorkError (LaneUndeclaredStatus n) = FaultStageRecordUnknown"
  "faultStageForWorkError WorkPanicked = FaultStageRecordUnknown"
  by (simp_all add: faultStageForWorkError_def faultStageByError_def work_error_is_def)

lemma status_on_wire: "ExitStatus_Code s \<noteq> None \<Longrightarrow> ExitStatus_of_int (ExitStatus_int s) = s"
  by (cases s) (simp_all add: ExitStatus_of_int_def ExitStatus_int_def)

lemma stage_on_wire: "FaultStage_IsValid s \<Longrightarrow> faultStageFromName (FaultStage_String s) = (s, True)"
  by (cases s) (simp_all add: faultStageFromName_def)

lemma daemon_stage_valid: "FaultStage_IsValid (LifecycleFaultStageForError e)"
  by (simp add: LifecycleFaultStageForError_def)

lemma kinds_differ: "KindRefused \<noteq> KindCommitted"
  by (simp add: KindRefused_def KindCommitted_def)

text \<open>A refusal keeps its stage on the wire, a committed answer its status and its bytes.\<close>

lemma refused_answer:
  assumes "FaultStage_IsValid stage"
  shows "wk_err (lifecycleLaneAnswered (json_response (refusal_response stage t))) \<noteq> None"
    "wk_stage (lifecycleLaneAnswered (json_response (refusal_response stage t))) = stage"
  using assms kinds_differ
  by (simp_all add: lifecycleLaneAnswered_def json_response_def refusal_response_def json_kinds stage_on_wire Let_def)

lemma committed_answer:
  assumes "ExitStatus_Code (sd_Exit sv) \<noteq> None"
  shows "lifecycleLaneAnswered (json_response (committed_response sv)) =
    \<lparr>wk_outcome = \<lparr>out_Exit = sd_Exit sv, out_Stdout = sd_Stdout sv, out_Stderr = StderrText (json_text (sd_Stderr sv))\<rparr>,
     wk_err = None, wk_stage = FaultStageUnset\<rparr>"
  using assms
  by (cases "sd_Exit sv")
    (simp_all add: lifecycleLaneAnswered_def json_response_def committed_response_def json_kinds ExitStatus_of_int_def
      ExitStatus_int_def zero_response_header_def Let_def)

lemma answered_true:
  assumes w: "world_ok lw" and h: "daemon_handler lw i j = (result, j')"
  shows "work_true (lifecycleLaneAnswered (json_response (served_answer render t result))) j j'"
proof -
  have a: "served_honest (lw_served lw i)" "faithful_parser (sr_admission (lw_served lw i))" using w by (simp_all add: world_ok_def)
  obtain res where s: "Serve (lw_served lw i) j = (res, j')"
    using h by (auto simp: daemon_handler_def split: prod.splits sum.splits)
  show ?thesis
  proof (cases res)
    case (Inl er)
    then have "result = Err er" using h s by (simp add: daemon_handler_def)
    then show ?thesis
      using refused_answer [OF daemon_stage_valid, of er "render er"] Serve_refusal [OF s [unfolded Inl] a(1)] daemon_stage_valid [of er]
      by (auto simp: work_true_def served_answer_def stage_true_def)
  next
    case (Inr y)
    obtain out n where y: "y = (out, n)" by (cases y)
    then have r: "result = Ok \<lparr>sd_Exit = out_Exit out, sd_Stdout = out_Stdout out, sd_Stderr = stderr_string (out_Stderr out),
        sd_OccurrenceID = dec_nat n, sd_ClaimState = lw_claim lw i\<rparr>"
      using h s Inr by (simp add: daemon_handler_def)
    note row = Serve_row [OF s [unfolded Inr y] a]
    show ?thesis using row by (auto simp: r served_answer_def committed_answer work_true_def tells_row_def)
  qed
qed

lemma lane_attempt:
  assumes w: "world_ok lw" and k: "lifecycleLaneAttempt win (daemon_consult lw) coords env input j = (r, j')"
  shows "r = Fallback x \<Longrightarrow> j' = j" "r = Decided work \<Longrightarrow> work_true work j j'" "j' = j \<or> (\<exists>row. j' = j @ [row])"
proof -
  have silent: "work_true \<lparr>wk_outcome = zero_outcome, wk_err = Some (LaneSilent e), wk_stage = FaultStageUnset\<rparr> j j'" for e j'
    by (simp add: work_true_def)
  show "r = Fallback x \<Longrightarrow> j' = j"
    using k consult_result(1) [OF w]
    by (auto simp: lifecycleLaneAttempt_def Let_def split: if_splits option.splits sum.splits prod.splits consult_error.splits)
  show "j' = j \<or> (\<exists>row. j' = j @ [row])"
    using k consult_journal
    by (auto simp: lifecycleLaneAttempt_def Let_def split: if_splits option.splits sum.splits prod.splits consult_error.splits)
  show "work_true work j j'" if d: "r = Decided work"
  proof -
    obtain res q raw where c: "daemon_consult lw q raw j = (res, j')"
      and wk: "(\<exists>response. res = Ok response \<and> work = lifecycleLaneAnswered response)
        \<or> (\<exists>e. work = \<lparr>wk_outcome = zero_outcome, wk_err = Some (LaneSilent e), wk_stage = FaultStageUnset\<rparr>)"
      using k d
      by (auto simp: lifecycleLaneAttempt_def Let_def split: if_splits option.splits sum.splits prod.splits consult_error.splits)
    from wk show ?thesis
    proof (elim disjE exE conjE)
      fix response
      assume "res = Ok response" "work = lifecycleLaneAnswered response"
      then show ?thesis using consult_result(2) [OF w c] answered_true [OF w] by blast
    qed (simp add: silent)
  qed
qed

lemma worker_hook_receipt [simp]: "hv_receipt (worker_hook cx coords input) = hv_receipt (cx_hook cx)"
  by (simp add: worker_hook_def)

text \<open>The worker either was settled by the lane, which leaves its fence alone, or wrote directly.\<close>

lemma worker_cases:
  assumes w: "world_ok lw" and c: "cx_consult cx = daemon_consult lw"
    and k: "worker_body cx coords env st = (work, st')"
  obtains j where "st' = st\<lparr>hk_journal := j\<rparr>" "work_true work (hk_journal st) j" "j = hk_journal st \<or> (\<exists>row. j = hk_journal st @ [row])"
  | input out err where "HookLifecycleNative (worker_hook cx coords input) (cx_barrier cx) st = ((out, err), st')"
    "work = \<lparr>wk_outcome = out, wk_err = map_option HandlerError err, wk_stage = FaultStageUnset\<rparr>"
proof -
  let ?input = "if he_CaptureDir env \<noteq> [] then captureHostPayload (cx_sink cx) (cx_payload cx) else cx_payload cx"
  obtain r j where a: "lifecycleLaneAttempt (cx_windows cx) (daemon_consult lw) coords env ?input (hk_journal st) = (r, j)" by fastforce
  show thesis
  proof (cases r)
    case (Decided wk)
    then have "wk = work \<and> st' = st\<lparr>hk_journal := j\<rparr>" using k a c by (auto simp: worker_body_def Let_def)
    then show thesis using that(1) [of j] lane_attempt(2,3) [OF w a] Decided by blast
  next
    case (Fallback x)
    then have "st\<lparr>hk_journal := j\<rparr> = st" using lane_attempt(1) [OF w a] by simp
    then show thesis using that(2) k a c Fallback by (auto simp: worker_body_def Let_def split: prod.splits)
  qed
qed

lemma body_journal:
  assumes "world_ok lw" "cx_consult cx = daemon_consult lw" "worker_body cx coords env st = (work, st')"
  shows "hk_journal st' = hk_journal st \<or> (\<exists>row. hk_journal st' = hk_journal st @ [row])"
  using assms by (rule worker_cases) (auto dest: native_journal)

lemma body_true:
  assumes w: "world_ok lw" "cx_consult cx = daemon_consult lw" "worker_body cx coords env st = (work, st')"
    and h: "honest (hv_receipt (cx_hook cx))" and u: "\<not> cs_committed (hk_fence st)"
  shows "cs_committed (hk_fence st') \<Longrightarrow> tells_row (fst (CommittedOutcome (hk_fence st'))) (hk_journal st) (hk_journal st')"
    "\<not> cs_committed (hk_fence st') \<Longrightarrow> work_true work (hk_journal st) (hk_journal st')"
proof -
  have h': "honest (hv_receipt (worker_hook cx coords input))" for input using h by simp
  show "cs_committed (hk_fence st') \<Longrightarrow> tells_row (fst (CommittedOutcome (hk_fence st'))) (hk_journal st) (hk_journal st')"
    using w
  proof (cases rule: worker_cases)
    case (2 input out err)
    assume "cs_committed (hk_fence st')"
    then show ?thesis using native_published [OF 2(1) h' u] by (auto simp: tells_row_def)
  qed (use u in simp)
  show "\<not> cs_committed (hk_fence st') \<Longrightarrow> work_true work (hk_journal st) (hk_journal st')"
    using w
  proof (cases rule: worker_cases)
    case (2 input out err)
    assume "\<not> cs_committed (hk_fence st')"
    with 2(1) h' show ?thesis
      by (rule native_result) (auto simp: work_true_def stage_true_def 2(2))
  qed simp
qed

text \<open>With its panics the worker leaves the state its body leaves, or the state it found.\<close>

lemma worker_body_cases:
  assumes "lifecycle_worker cx coords env st = (work, st')"
  obtains "worker_body cx coords env st = (work, st')"
  | "work = panicked" "st' = st"
  | w where "work = panicked" "worker_body cx coords env st = (w, st')"
  using assms
  by (cases "cx_panic cx"; cases "worker_body cx coords env st") (auto simp: lifecycle_worker_def)

lemma panicked_true [simp]: "work_true panicked j j'"
  by (simp add: work_true_def panicked_def)

lemma worker_journal:
  assumes "world_ok lw" "cx_consult cx = daemon_consult lw" "lifecycle_worker cx coords env st = (work, st')"
  shows "hk_journal st' = hk_journal st \<or> (\<exists>row. hk_journal st' = hk_journal st @ [row])"
  using assms(3) by (rule worker_body_cases) (auto dest: body_journal [OF assms(1,2)])

lemma worker_true:
  assumes w: "world_ok lw" "cx_consult cx = daemon_consult lw" "lifecycle_worker cx coords env st = (work, st')"
    and h: "honest (hv_receipt (cx_hook cx))" and u: "\<not> cs_committed (hk_fence st)"
  shows "cs_committed (hk_fence st') \<Longrightarrow> tells_row (fst (CommittedOutcome (hk_fence st'))) (hk_journal st) (hk_journal st')"
    "\<not> cs_committed (hk_fence st') \<Longrightarrow> work_true work (hk_journal st) (hk_journal st')"
  using w(3) by (rule worker_body_cases; use body_true [OF w(1,2) _ h u] u in auto)+

section \<open>What the host is told\<close>

lemma Expire_published: "Expire f = Some f' \<Longrightarrow> CommittedOutcome f' = CommittedOutcome f"
  by (auto simp: Expire_def close_done_def make_done_def CommittedOutcome_def Let_def split: if_splits)

lemma deadline_told:
  assumes "deadline_outcome fault f = (out, f')"
  shows "CommittedOutcome f' = CommittedOutcome f" "cs_committed f \<Longrightarrow> out = fst (CommittedOutcome f)"
    "\<not> cs_committed f \<Longrightarrow> \<exists>cause. out = fault FaultStageRecordUnknown cause"
  using assms Expire_published [of f]
  by (auto simp: deadline_outcome_def CommittedOutcome_def split: option.splits bool.splits)

text \<open>A reported fault whose stage is true of the journal, with nothing published.\<close>

definition true_fault :: "Outcome \<Rightarrow> hook_state \<Rightarrow> hook_state \<Rightarrow> bool" where
  "true_fault out st st' \<longleftrightarrow> \<not> cs_committed (hk_fence st') \<and> (\<exists>policy stage. reported_fault policy stage out
     \<and> stage_true stage (hk_journal st) (hk_journal st'))"

text \<open>The three schedules of the worker and the deadline, for a fault that is always reported.\<close>

definition reporting :: "(FaultStage \<Rightarrow> command_cause \<Rightarrow> Outcome) \<Rightarrow> bool" where
  "reporting fault \<longleftrightarrow> (\<exists>policy. \<forall>stage cause. FaultStage_IsValid stage \<longrightarrow> reported_fault policy stage (fault stage cause))"

definition told :: "Outcome \<Rightarrow> hook_state \<Rightarrow> hook_state \<Rightarrow> bool" where
  "told out st st' \<longleftrightarrow> (tells_row out (hk_journal st) (hk_journal st') \<or> true_fault out st st')
     \<and> (cs_committed (hk_fence st') \<longrightarrow> CommittedOutcome (hk_fence st') = (out, True))"

lemma told_unknown: "reporting fault \<Longrightarrow> \<not> cs_committed (hk_fence st') \<Longrightarrow> told (fault FaultStageRecordUnknown cause) st st'"
  unfolding reporting_def told_def true_fault_def by (metis FaultStage_IsValid.simps(4) stage_unknown)

lemma told_worker_first:
  assumes w: "world_ok lw" "cx_consult cx = daemon_consult lw" "lifecycle_worker cx coords env st = (work, st')"
    and h: "honest (hv_receipt (cx_hook cx))" and u: "\<not> cs_committed (hk_fence st)" and f: "reporting fault"
  shows "told (work_outcome fault work (hk_fence st')) st st'"
proof (cases "cs_committed (hk_fence st')")
  case True
  then show ?thesis using worker_true(1) [OF w h u] by (auto simp: told_def work_outcome_def CommittedOutcome_def)
next
  case False
  note t = worker_true(2) [OF w h u False]
  show ?thesis
  proof (cases "wk_err work")
    case None
    then show ?thesis using t False by (simp add: told_def work_outcome_def CommittedOutcome_def work_true_def)
  next
    case (Some e)
    let ?stage = "if \<not> FaultStage_IsValid (wk_stage work) then faultStageForWorkError e else wk_stage work"
    have "FaultStage_IsValid ?stage" using stage_valid by simp
    then obtain policy where "reported_fault policy ?stage (fault ?stage (WorkFault e))" using f unfolding reporting_def by blast
    moreover have "stage_true ?stage (hk_journal st) (hk_journal st')" using t Some by (simp add: work_true_def)
    ultimately show ?thesis using False Some by (auto simp: told_def true_fault_def work_outcome_def CommittedOutcome_def)
  qed
qed

lemma told_expiry_before:
  assumes w: "world_ok lw" "cx_consult cx = daemon_consult lw" and u: "hk_fence st = NewCommitSettlement" and f: "reporting fault"
    and d: "deadline_outcome fault (hk_fence st) = (out, f1)"
    and k: "lifecycle_worker cx coords env (st\<lparr>hk_fence := f1\<rparr>) = (work, st')"
  shows "told out st st'"
proof -
  have "f1 = NewCommitSettlement\<lparr>cs_state := settlementAbandoned, cs_done := ClosedChannel\<rparr>"
    using d u by (simp add: deadline_outcome_def Expire_def make_done_def close_done_def NewCommitSettlement_def Let_def)
  then have ab: "cs_state f1 = settlementAbandoned" "\<not> cs_committed f1" by (simp_all add: NewCommitSettlement_def)
  have body: "hk_fence st2 = f1" if "worker_body cx coords env (st\<lparr>hk_fence := f1\<rparr>) = (work2, st2)" for work2 st2
    using w that
  proof (cases rule: worker_cases)
    case (2 input o1 err)
    then show ?thesis using native_abandoned [OF 2(1)] ab(1) by simp
  qed simp
  have "hk_fence st' = f1" using k by (rule worker_body_cases) (use body in auto)
  moreover obtain cause where "out = fault FaultStageRecordUnknown cause"
    using deadline_told(3) [OF d] u by (auto simp: NewCommitSettlement_def)
  ultimately show ?thesis using told_unknown [OF f] ab(2) by simp
qed

lemma told_expiry_after:
  assumes w: "world_ok lw" "cx_consult cx = daemon_consult lw" "lifecycle_worker cx coords env st = (work, st1)"
    and h: "honest (hv_receipt (cx_hook cx))" and u: "\<not> cs_committed (hk_fence st)" and f: "reporting fault"
    and d: "deadline_outcome fault (hk_fence st1) = (out, f1)"
  shows "told out st (st1\<lparr>hk_fence := f1\<rparr>)"
proof -
  have same: "CommittedOutcome f1 = CommittedOutcome (hk_fence st1)" by (rule deadline_told(1) [OF d])
  show ?thesis
  proof (cases "cs_committed (hk_fence st1)")
    case True
    then show ?thesis using worker_true(1) [OF w h u] deadline_told(2) [OF d] same by (simp add: told_def CommittedOutcome_def)
  next
    case False
    obtain cause where "out = fault FaultStageRecordUnknown cause" using deadline_told(3) [OF d False] by blast
    then show ?thesis using False same told_unknown [OF f, of "st1\<lparr>hk_fence := f1\<rparr>"] by (simp add: CommittedOutcome_def)
  qed
qed

lemma run_worker_told:
  assumes w: "world_ok lw" "cx_consult cx = daemon_consult lw" and h: "honest (hv_receipt (cx_hook cx))"
    and u: "hk_fence st = NewCommitSettlement" and f: "reporting fault"
    and r: "run_worker cx coords env fault schedule st = (out, st')"
  shows "told out st st'"
proof -
  have u0: "\<not> cs_committed (hk_fence st)" using u by (simp add: NewCommitSettlement_def)
  show ?thesis
  proof (cases schedule)
    case WorkerFirst
    then show ?thesis using r told_worker_first [OF w _ h u0 f] by (auto simp: run_worker_def split: prod.splits)
  next
    case ExpiryBeforeEntry
    then show ?thesis using r told_expiry_before [OF w u f] by (auto simp: run_worker_def split: prod.splits) (metis prod.collapse)
  next
    case ExpiryAfterEntry
    then show ?thesis using r told_expiry_after [OF w _ h u0 f] by (auto simp: run_worker_def split: prod.splits)
  qed
qed

lemma run_worker_journal:
  assumes w: "world_ok lw" "cx_consult cx = daemon_consult lw" and r: "run_worker cx coords env fault schedule st = (out, st')"
  shows "hk_journal st' = hk_journal st \<or> (\<exists>row. hk_journal st' = hk_journal st @ [row])"
proof -
  have "hk_journal (snd (lifecycle_worker cx coords env st1)) = hk_journal st1
      \<or> (\<exists>row. hk_journal (snd (lifecycle_worker cx coords env st1)) = hk_journal st1 @ [row])" for st1
    using worker_journal [OF w] by (metis prod.collapse)
  note this [of st] this [of "st\<lparr>hk_fence := f\<rparr>" for f]
  then show ?thesis using r by (cases schedule) (auto simp: run_worker_def split: prod.splits)
qed

text \<open>The command leaves before its worker with a fault that says nothing was recorded, or runs it.\<close>

lemma lifecycleOutcome_cases:
  assumes "lifecycleOutcome cx schedule st = (out, st')"
  obtains "st' = st" "\<exists>policy. reported_fault policy FaultStageNotRecorded out"
  | coords env fault where "reporting fault" "run_worker cx coords env fault schedule st = (out, st')"
proof -
  let ?fault = "\<lambda>policy. lifecycleFault (cx_describe cx) (lifecycleFailurePolicy (cx_coords cx)) policy
    (lifecycleContinuation (cx_coords cx) (lifecycleFailurePolicy (cx_coords cx)))"
  have rep: "reported_fault policy stage (?fault policy stage cause)"
    if "FaultPolicy_IsValid policy" "FaultStage_IsValid stage" for policy stage cause
    by (rule fault_reported [OF that])
  have never: "\<exists>policy. reported_fault policy FaultStageNotRecorded (?fault policy' FaultStageNotRecorded cause)"
    if "FaultPolicy_IsValid policy'" for policy' cause using rep [OF that, of FaultStageNotRecorded cause] by auto
  show thesis
  proof (cases "HookEnvironmentFromOS (cx_defaultActor cx) (cx_parseDuration cx) (cx_lookup cx)")
    case (Inl e)
    then show thesis using assms that(1) never [of FaultFailOpen] by (auto simp: lifecycleOutcome_def Let_def)
  next
    case (Inr env)
    have v: "FaultPolicy_IsValid (he_FaultPolicy env)"
      using Inr by (auto simp: HookEnvironmentFromOS_def read_policy_Ok Let_def split: option.splits)
    have "reporting (?fault (he_FaultPolicy env))" unfolding reporting_def using rep [OF v] by blast
    then show thesis
      using assms Inr that never [OF v]
      by (auto simp: lifecycleOutcome_def Let_def split: if_split_asm option.split_asm sum.split_asm)
  qed
qed

text \<open>C3: Whatever the host, the environment, the daemon, the point at which the connection to it breaks, a panic of the
  worker and the moment at which the deadline falls, the one outcome of a hook is true.  Either it tells the host exactly the status and
  the bytes of the one row that was recorded, by the hook itself or by the daemon, or it is a reported fault that lets
  the host go on (or refuses it, when the operator asked to fail closed), and its claim about the record is true:
  not-recorded only when the journal is as it was, recorded only when there is exactly one new row.  An outcome the
  hook committed is always the one the host receives, and every outcome names an exit status.\<close>

theorem hook_outcome_true:
  assumes w: "world_ok lw" "cx_consult cx = daemon_consult lw" and h: "honest (hv_receipt (cx_hook cx))"
    and u: "hk_fence st = NewCommitSettlement" and r: "lifecycleOutcome cx schedule st = (out, st')"
  shows "((\<exists>o1 es. hk_journal st' = hk_journal st @ [(o1, True, es)] \<and> out_Exit out = out_Exit o1 \<and> out_Stdout out = out_Stdout o1)
      \<or> (\<not> snd (CommittedOutcome (hk_fence st'))
          \<and> (\<exists>policy stage. reported_fault policy stage out
              \<and> (stage = FaultStageNotRecorded \<longrightarrow> hk_journal st' = hk_journal st)
              \<and> (stage = FaultStageRecorded \<longrightarrow> (\<exists>row. hk_journal st' = hk_journal st @ [row])))))
    \<and> (\<forall>o1. CommittedOutcome (hk_fence st') = (o1, True) \<longrightarrow> out = o1)
    \<and> ExitStatus_Code (out_Exit out) \<noteq> None"
proof -
  have "told out st st'" using r
  proof (cases rule: lifecycleOutcome_cases)
    case 1
    then show ?thesis using u by (auto simp: told_def true_fault_def stage_true_def NewCommitSettlement_def)
  next
    case (2 coords env fault)
    then show ?thesis by (rule run_worker_told [OF w h u])
  qed
  then show ?thesis
    by (auto simp: told_def tells_row_def true_fault_def stage_true_def CommittedOutcome_def reported_fault_def)
qed

text \<open>C6: One invocation of the hook records at most one occurrence, on every schedule and however the exchange with the
  daemon ends: the direct write never follows a request the daemon may have served.\<close>

theorem recorded_at_most_once:
  assumes w: "world_ok lw" "cx_consult cx = daemon_consult lw" and r: "lifecycleOutcome cx schedule st = (out, st')"
  shows "hk_journal st' = hk_journal st \<or> (\<exists>row. hk_journal st' = hk_journal st @ [row])"
  using r
proof (cases rule: lifecycleOutcome_cases)
  case (2 coords env fault)
  then show ?thesis using run_worker_journal [OF w] by blast
qed simp

section \<open>A machine without a daemon\<close>

lemma limit_reader_idem: "limit_reader (limit_reader raw) = limit_reader raw"
  by (simp add: limit_reader_def)

lemma prepare_bounded:
  "prepareLifecycleDelivery (a\<lparr>ad_Payload := Some (limit_reader raw)\<rparr>) = prepareLifecycleDelivery (a\<lparr>ad_Payload := Some raw\<rparr>)"
  by (simp add: prepareLifecycleDelivery_def limit_reader_idem Let_def cong del: if_weak_cong option.case_cong_weak)

lemma native_bounded:
  "HookLifecycleNative (env\<lparr>hv_admission := a\<lparr>ad_Payload := Some (limit_reader raw)\<rparr>\<rparr>) barrier st
   = HookLifecycleNative (env\<lparr>hv_admission := a\<lparr>ad_Payload := Some raw\<rparr>\<rparr>) barrier st"
proof -
  have commit: "deliveryCommit (env\<lparr>hv_admission := x\<rparr>) s d e dl dn = deliveryCommit env s d e dl dn" for x s d e dl dn
    by (simp add: deliveryCommit_def cong del: if_weak_cong sum.case_cong_weak)
  have "hook_body (env\<lparr>hv_admission := a\<lparr>ad_Payload := Some (limit_reader raw)\<rparr>\<rparr>) st
      = hook_body (env\<lparr>hv_admission := a\<lparr>ad_Payload := Some raw\<rparr>\<rparr>) st"
    by (simp add: hook_body_def prepare_bounded commit cong del: if_weak_cong sum.case_cong_weak prod.case_cong_weak)
  then have "hookLifecycle (env\<lparr>hv_admission := a\<lparr>ad_Payload := Some (limit_reader raw)\<rparr>\<rparr>) st
      = hookLifecycle (env\<lparr>hv_admission := a\<lparr>ad_Payload := Some raw\<rparr>\<rparr>) st"
    unfolding hookLifecycle_def by simp
  then show ?thesis by (simp add: HookLifecycleNative_def cong del: sum.case_cong_weak)
qed

text \<open>On a machine whose lane cannot be reached the hook does exactly what it does with the lane switched off: the same
  work, the same journal, the same fence, whatever the payload.\<close>

theorem lane_fallback_invisible:
  assumes "\<And>q raw j. cx_consult cx q raw j = (Err ErrUnavailable, j)"
  shows "lifecycle_worker cx coords env st = lifecycle_worker cx coords (env\<lparr>he_WriteLane := WriteLaneDirect\<rparr>) st"
proof -
  let ?input = "if he_CaptureDir env \<noteq> [] then captureHostPayload (cx_sink cx) (cx_payload cx) else cx_payload cx"
  have "worker_body cx coords env st = worker_body cx coords (env\<lparr>he_WriteLane := WriteLaneDirect\<rparr>) st"
  proof (cases "?input")
    case None
    then show ?thesis by (simp add: worker_body_def lifecycleLaneAttempt_def Let_def)
  next
    case (Some raw)
    have "HookLifecycleNative (worker_hook cx coords (Some (limit_reader raw))) (cx_barrier cx) st
        = HookLifecycleNative (worker_hook cx coords (Some raw)) (cx_barrier cx) st"
      unfolding worker_hook_def using native_bounded by simp
    then show ?thesis using Some assms
      by (cases "he_WriteLane env"; cases "cx_windows cx") (simp_all add: worker_body_def lifecycleLaneAttempt_def Let_def)
  qed
  then show ?thesis by (cases "cx_panic cx") (simp_all add: lifecycle_worker_def)
qed

section \<open>The status on the wire\<close>

text \<open>A status of the daemon is read modulo 256 before it is checked: a number outside the enumeration can pass as a
  declared status.\<close>

lemma undeclared_status_accepted:
  assumes "rs_Kind response = KindCommitted" "rs_ExitStatus response = 257"
  shows "wk_err (lifecycleLaneAnswered response) = None" "out_Exit (wk_outcome (lifecycleLaneAnswered response)) = ExitContinue"
  using assms by (simp_all add: lifecycleLaneAnswered_def ExitStatus_of_int_def)

section \<open>A delivered hook\<close>

text \<open>A pair of codecs for every header: the fields as a list of texts, each ended by a mark, with every character behind
  another mark.\<close>

fun pack :: "string list \<Rightarrow> string" where
  "pack [] = []"
| "pack (s # ss) = concat (map (\<lambda>c. [CHR ''x'', c]) s) @ CHR ''.'' # pack ss"

fun unpack :: "string \<Rightarrow> string list" where
  "unpack [] = []"
| "unpack (m # rest) =
     (if m = CHR ''.'' then [] # unpack rest
      else case rest of
          [] \<Rightarrow> []
        | c # rest' \<Rightarrow> (case unpack rest' of [] \<Rightarrow> [] | s # ss \<Rightarrow> (c # s) # ss))"

lemma unpack_pack: "unpack (pack ss) = ss"
proof (induction ss)
  case (Cons s ss)
  show ?case using Cons by (induction s) auto
qed simp

definition int_text :: "int \<Rightarrow> string" where
  "int_text n = (if n < 0 then CHR ''-'' # replicate (nat (- n)) CHR ''1'' else replicate (nat n) CHR ''1'')"

definition text_int :: "string \<Rightarrow> int" where
  "text_int s = (case s of [] \<Rightarrow> 0 | c # cs \<Rightarrow> if c = CHR ''-'' then - int (length cs) else int (length s))"

lemma text_int_text: "text_int (int_text n) = n"
  by (cases "nat n") (auto simp: text_int_def int_text_def)

definition option_text :: "string option \<Rightarrow> string" where
  "option_text v = (case v of None \<Rightarrow> [] | Some s \<Rightarrow> CHR ''s'' # s)"

definition text_option :: "string \<Rightarrow> string option" where
  "text_option s = (case s of [] \<Rightarrow> None | _ # t \<Rightarrow> Some t)"

lemma text_option_text: "text_option (option_text v) = v"
  by (simp add: text_option_def option_text_def split: option.splits)

definition request_texts :: "Request \<Rightarrow> string list" where
  "request_texts r = [int_text (rq_Version r), rq_Harness r, rq_Event r, rq_HostVersion r, rq_HostVersionSource r, rq_ActorClaim r,
     if rq_ImplicitClaim r then ''t'' else [], option_text (iv_Provider (rq_Execution r)), option_text (iv_Model (rq_Execution r)),
     option_text (iv_Role (rq_Execution r))]"

definition texts_request :: "string list \<Rightarrow> Request" where
  "texts_request t = \<lparr>rq_Version = text_int (t ! 0), rq_Harness = t ! 1, rq_Event = t ! 2, rq_HostVersion = t ! 3,
     rq_HostVersionSource = t ! 4, rq_ActorClaim = t ! 5, rq_ImplicitClaim = (t ! 6 \<noteq> []),
     rq_Execution = \<lparr>iv_Provider = text_option (t ! 7), iv_Model = text_option (t ! 8), iv_Role = text_option (t ! 9)\<rparr>\<rparr>"

definition response_texts :: "Response \<Rightarrow> string list" where
  "response_texts r = [int_text (rs_Version r), rs_Kind r, int_text (rs_ExitStatus r), rs_Stdout r, rs_Stderr r, rs_OccurrenceID r,
     rs_ClaimState r, rs_Stage r, rs_Refusal r]"

definition texts_response :: "string list \<Rightarrow> Response" where
  "texts_response t = \<lparr>rs_Version = text_int (t ! 0), rs_Kind = t ! 1, rs_ExitStatus = text_int (t ! 2), rs_Stdout = t ! 3,
     rs_Stderr = t ! 4, rs_OccurrenceID = t ! 5, rs_ClaimState = t ! 6, rs_Stage = t ! 7, rs_Refusal = t ! 8\<rparr>"

definition packed_requests :: "Request codec" where
  "packed_requests = \<lparr>cd_marshal = (\<lambda>r. pack (request_texts (json_request r))),
     cd_unmarshal = (\<lambda>s. let t = unpack s in if length t = 10 then Some (texts_request t) else None)\<rparr>"

definition packed_responses :: "Response codec" where
  "packed_responses = \<lparr>cd_marshal = (\<lambda>r. pack (response_texts (json_response r))),
     cd_unmarshal = (\<lambda>s. let t = unpack s in if length t = 9 then Some (texts_response t) else None)\<rparr>"

lemma texts_read:
  "texts_request (request_texts r) = r" "length (request_texts r) = 10"
  "texts_response (response_texts t) = t" "length (response_texts t) = 9"
  by (simp_all add: texts_request_def request_texts_def texts_response_def response_texts_def text_int_text text_option_text)

lemma packed_codecs: "exchange_codecs packed_requests packed_responses request answer"
  by (simp add: exchange_codecs_def decodes_def packed_requests_def packed_responses_def unpack_pack texts_read)

text \<open>A machine whose daemon does not answer, and the Stop event of Codex on it.\<close>

definition sample_world :: lane_world where
  "sample_world = \<lparr>lw_requests = packed_requests, lw_responses = packed_responses,
     lw_link = \<lparr>lk_client = True, lk_dial = False, lk_probe = whole_writer, lk_request = whole_writer\<rparr>, lw_server = sample_server,
     lw_delivered = 100, lw_received = 100, lw_served = (\<lambda>_. sample_served True), lw_claim = (\<lambda>_. [])\<rparr>"

definition sample_command :: command_env where
  "sample_command = \<lparr>cx_coords = \<lparr>co_Harness = HarnessCodex, co_Event = ''Stop'', co_HostVersion = ''0.153.0'', co_HostVersionSource = []\<rparr>,
     cx_arguments = [], cx_lookup = Some (\<lambda>_. None), cx_defaultActor = ''llm'', cx_parseDuration = (\<lambda>_. None),
     cx_flags = \<lparr>vf_executable = None, vf_versionChanged = True, vf_hint = [], vf_lookPath = (\<lambda>_. None), vf_query = (\<lambda>_. None)\<rparr>,
     cx_budget = None, cx_payload = Some ''{}'', cx_sink = False, cx_windows = False, cx_consult = daemon_consult sample_world,
     cx_hook = sample_env True, cx_barrier = True, cx_panic = NoPanic, cx_describe = (\<lambda>_. [])\<rparr>"

lemma sample_world_ok: "world_ok sample_world"
  using packed_codecs sample_writes(3,4) by (simp add: world_ok_def sample_world_def)

lemma sample_unreachable: "daemon_consult sample_world q raw j = (Err ErrUnavailable, j)"
  by (simp add: daemon_consult_def sample_world_def Consult_def ServeConn_def ReadMessage_Nil)

lemma sample_worker_hook:
  "worker_hook sample_command \<lparr>co_Harness = HarnessCodex, co_Event = ''Stop'', co_HostVersion = ''0.153.0'',
     co_HostVersionSource = ''caller-supplied''\<rparr> (Some ''{}'') = sample_env True"
  by (simp add: worker_hook_def sample_command_def sample_env_def sample_admission_def)

definition sample_environment_read :: HookEnvironment where
  "sample_environment_read = \<lparr>he_Execution = BoundedInvocation None None None, he_FaultPolicy = FaultFailOpen, he_CaptureDir = [],
     he_ActorClaim = ''llm'', he_ImplicitClaim = True,
     he_BudgetOverride = \<lparr>o_HookInvocation = 0, o_Ingress = 0, o_StartSlice = 0\<rparr>, he_WriteLane = WriteLaneAuto, he_WriteLaneSocket = []\<rparr>"

lemma sample_read: "HookEnvironmentFromOS ''llm'' (\<lambda>_. None) (Some (\<lambda>_. None)) = Ok sample_environment_read"
  by (simp add: HookEnvironmentFromOS_def sample_environment_read_def read_lane_def read_exact_def read_policy_def read_knob_def given_def Let_def)

lemma sample_budget: "\<exists>base. ProductionProfile = Some base"
proof -
  have "ProductionProfile \<noteq> None" by code_simp
  then show ?thesis by blast
qed

lemma sample_runs:
  "\<exists>fault. lifecycleOutcome sample_command schedule st =
     run_worker sample_command \<lparr>co_Harness = HarnessCodex, co_Event = ''Stop'', co_HostVersion = ''0.153.0'',
       co_HostVersionSource = ''caller-supplied''\<rparr> sample_environment_read fault schedule st"
proof -
  have "version_source (cx_flags sample_command) HarnessCodex ''0.153.0'' = ''caller-supplied''" by code_simp
  moreover have "resolveLifecycleHostVersion (cx_flags sample_command) HarnessCodex ''0.153.0'' = Ok ''0.153.0''"
    by (simp add: resolveLifecycleHostVersion_def sample_command_def)
  moreover have "cx_coords sample_command = \<lparr>co_Harness = HarnessCodex, co_Event = ''Stop'', co_HostVersion = ''0.153.0'',
      co_HostVersionSource = []\<rparr>" "cx_arguments sample_command = []" "cx_budget sample_command = None"
    "HookEnvironmentFromOS (cx_defaultActor sample_command) (cx_parseDuration sample_command) (cx_lookup sample_command)
      = Ok sample_environment_read"
    using sample_read by (simp_all add: sample_command_def)
  moreover have "Override_IsZero (he_BudgetOverride sample_environment_read)"
    by (simp add: sample_environment_read_def Override_IsZero_def)
  moreover obtain base where base: "ProductionProfile = Some base" using sample_budget by blast
  ultimately show ?thesis
    by (simp add: base lifecycleOutcome_def Let_def cong del: option.case_cong_weak) (rule exI, rule refl)
qed

lemma sample_native:
  obtains out st' where "HookLifecycleNative (sample_env True) True fresh_state = ((out, None), st')"
    "CommittedOutcome (hk_fence st') = (out, True)" "\<exists>row. hk_journal st' = [row]"
proof (rule sample_hook)
  fix r st'
  assume h: "hookLifecycle (sample_env True) fresh_state = (Ok r, st')" "snd (CommittedOutcome (hk_fence st'))"
  obtain out where c: "CommittedOutcome (hk_fence st') = (out, True)" using h(2) by (metis prod.collapse)
  have "is_ok (dispatchLifecycle (ad_Harness (hv_admission (sample_env True))))"
    by (simp add: dispatchLifecycle_def frontendRegistry_def codex_row sample_env_def sample_admission_def
        HarnessCodex_def HarnessOpenCode_def HarnessClaudeCode_def)
  then obtain d where "dispatchLifecycle (ad_Harness (hv_admission (sample_env True))) = Ok d" by (auto simp: is_ok_def split: sum.splits)
  then have "HookLifecycleNative (sample_env True) True fresh_state = ((out, None), st')"
    using h(1) c by (simp add: HookLifecycleNative_def)
  moreover have "\<exists>row. hk_journal st' = [row]"
    using hookLifecycle_row [OF h(1) sample_honest(1)] by (simp add: fresh_state_def)
  ultimately show thesis using that c by blast
qed

lemma sample_worker:
  obtains work st' out where "lifecycle_worker sample_command \<lparr>co_Harness = HarnessCodex, co_Event = ''Stop'',
      co_HostVersion = ''0.153.0'', co_HostVersionSource = ''caller-supplied''\<rparr> sample_environment_read fresh_state = (work, st')"
    "CommittedOutcome (hk_fence st') = (out, True)" "\<exists>row. hk_journal st' = [row]"
proof (rule sample_native)
  fix out st'
  assume n: "HookLifecycleNative (sample_env True) True fresh_state = ((out, None), st')"
    "CommittedOutcome (hk_fence st') = (out, True)" "\<exists>row. hk_journal st' = [row]"
  have raw: "limit_reader ''{}'' = ''{}''" by (simp add: limit_reader_def MaxNativePayloadBytes_def)
  have "cx_windows sample_command = False" "cx_consult sample_command = daemon_consult sample_world" "cx_barrier sample_command"
    "cx_payload sample_command = Some ''{}''" "cx_panic sample_command = NoPanic"
    by (simp_all add: sample_command_def)
  then show thesis
    using n that sample_worker_hook raw
    by (simp add: lifecycle_worker_def worker_body_def lifecycleLaneAttempt_def sample_unreachable Let_def sample_environment_read_def)
qed

theorem hook_outcome_true_witness:
  "\<exists>out st' row. lifecycleOutcome sample_command WorkerFirst fresh_state = (out, st') \<and> hk_journal st' = [row]
     \<and> ExitStatus_Code (out_Exit out) \<noteq> None \<and> CommittedOutcome (hk_fence st') = (out, True)"
proof (rule sample_worker)
  fix work st' out
  assume w: "lifecycle_worker sample_command \<lparr>co_Harness = HarnessCodex, co_Event = ''Stop'',
      co_HostVersion = ''0.153.0'', co_HostVersionSource = ''caller-supplied''\<rparr> sample_environment_read fresh_state = (work, st')"
    "CommittedOutcome (hk_fence st') = (out, True)" "\<exists>row. hk_journal st' = [row]"
  have r: "lifecycleOutcome sample_command WorkerFirst fresh_state = (out, st')"
    using sample_runs [of WorkerFirst fresh_state] w(1,2) by (auto simp: run_worker_def work_outcome_def)
  have c: "cx_consult sample_command = daemon_consult sample_world" "honest (hv_receipt (cx_hook sample_command))"
    "hk_fence fresh_state = NewCommitSettlement"
    using sample_honest(1) by (simp_all add: sample_command_def fresh_state_def)
  show ?thesis using hook_outcome_true [OF sample_world_ok c r] r w(2,3) by blast
qed

theorem recorded_at_most_once_witness:
  "\<exists>out st' row. lifecycleOutcome sample_command ExpiryAfterEntry fresh_state = (out, st') \<and> hk_journal st' = [row]"
proof (rule sample_worker)
  fix work st' out
  assume w: "lifecycle_worker sample_command \<lparr>co_Harness = HarnessCodex, co_Event = ''Stop'',
      co_HostVersion = ''0.153.0'', co_HostVersionSource = ''caller-supplied''\<rparr> sample_environment_read fresh_state = (work, st')"
    "CommittedOutcome (hk_fence st') = (out, True)" "\<exists>row. hk_journal st' = [row]"
  obtain out2 st2 where r: "lifecycleOutcome sample_command ExpiryAfterEntry fresh_state = (out2, st2)" by fastforce
  have "hk_journal st2 \<noteq> hk_journal fresh_state"
    using sample_runs [of ExpiryAfterEntry fresh_state] w(1,3) r by (auto simp: run_worker_def fresh_state_def split_beta)
  moreover have "cx_consult sample_command = daemon_consult sample_world" by (simp add: sample_command_def)
  ultimately show ?thesis using recorded_at_most_once [OF sample_world_ok _ r] r by (auto simp: fresh_state_def)
qed

theorem lane_fallback_invisible_witness:
  "lifecycle_worker sample_command (cx_coords sample_command) sample_environment_read fresh_state
     = lifecycle_worker sample_command (cx_coords sample_command) (sample_environment_read\<lparr>he_WriteLane := WriteLaneDirect\<rparr>) fresh_state
   \<and> he_WriteLane sample_environment_read = WriteLaneAuto"
proof -
  have "cx_consult sample_command q raw j = (Err ErrUnavailable, j)" for q raw j
    using sample_unreachable by (simp add: sample_command_def)
  note lane_fallback_invisible [OF this, of "cx_coords sample_command" sample_environment_read fresh_state]
  then show ?thesis by (simp add: sample_environment_read_def)
qed

end
