(* ===== verification/DecisionPolicy.thy ===== *)
theory DecisionPolicy
  imports Prelude
begin

text \<open>
  The decision ledger of the task tracker and the policy laid over it
  (\<^verbatim>\<open>internal/tasks\<close>): typed descriptors, drafts and the immutable catalogue
  (\<^verbatim>\<open>decision_ledger.go\<close>), the interaction mode as a fold over the ledger
  (\<^verbatim>\<open>interaction_mode.go\<close>), the Plan and Implementation UAT payloads
  (\<^verbatim>\<open>uat_policy.go\<close>), the deferral and ratification predicates
  (\<^verbatim>\<open>afk_ratify.go\<close>) and the production set of descriptors (\<^verbatim>\<open>policy_set.go\<close>).

  The JSON codec of each payload type and SHA-256 are parameters.  A descriptor's token is a
  fresh pointer in the code and a fresh number here; the supply is passed along.  Byte
  slices are values, so the defensive copies of the code are the identity.
\<close>

section \<open>Values\<close>

text \<open>Identifiers of the provenance library that the tracker only compares, prints and
  parses: a namespace and the sixteen bytes of a UUID.\<close>

record TaskID =
  tk_Namespace :: string
  tk_UUID :: string

definition zero_TaskID :: TaskID where
  "zero_TaskID = \<lparr>tk_Namespace = [], tk_UUID = replicate 16 (char_of (0::nat))\<rparr>"

datatype AgentKind = AgentKindHuman | AgentKindMachineLearning | AgentKindSoftware

record 'v json_codec =
  js_Marshal :: "'v \<Rightarrow> string option"
  js_Unmarshal :: "string \<Rightarrow> 'v option"

text \<open>Errors carry the place and the complaint of the code's structured errors.\<close>

datatype policy_error =
    decisionErr string string
  | modeErr string string
  | uatErr string string
  | afkErr string string
  | coverageErr string string
  | wrapped string policy_error
  | codecErr

type_synonym digest = string

definition zero_digest :: digest where
  "zero_digest = replicate 32 (char_of (0::nat))"

section \<open>Descriptors and drafts\<close>

record 'v DecisionDescriptor =
  dd_kind :: string
  dd_codec :: string
  dd_schema :: digest
  dd_token :: "nat option"
  dd_validate :: "'v \<Rightarrow> policy_error + unit"
  dd_encode :: "'v \<Rightarrow> policy_error + string"
  dd_decode :: "string \<Rightarrow> policy_error + 'v"

text \<open>A function argument that may be nil is an option; the first result is the token supply
  after the call.\<close>

definition NewDecisionDescriptor ::
  "nat \<Rightarrow> string \<Rightarrow> string \<Rightarrow> digest \<Rightarrow> ('v \<Rightarrow> policy_error + unit) option
    \<Rightarrow> ('v \<Rightarrow> policy_error + string) option \<Rightarrow> (string \<Rightarrow> policy_error + 'v) option
    \<Rightarrow> nat \<times> (policy_error + 'v DecisionDescriptor)" where
  "NewDecisionDescriptor next kind codec schema validate encode decode =
     (if kind = [] then (next, Err (decisionErr ''DecisionDescriptor'' ''the decision kind is empty''))
      else if codec = [] then (next, Err (decisionErr ''DecisionDescriptor'' ''the codec id is empty''))
      else if schema = zero_digest then (next, Err (decisionErr ''DecisionDescriptor'' ''the schema digest is zero''))
      else case (validate, encode, decode) of
          (Some v, Some e, Some d) \<Rightarrow>
            (Suc next, Ok \<lparr>dd_kind = kind, dd_codec = codec, dd_schema = schema, dd_token = Some next,
                dd_validate = v, dd_encode = e, dd_decode = d\<rparr>)
        | _ \<Rightarrow> (next, Err (decisionErr ''DecisionDescriptor'' ''a validate/encode/decode function is nil'')))"

definition constructed :: "'v DecisionDescriptor \<Rightarrow> bool" where
  "constructed d \<longleftrightarrow> dd_token d \<noteq> None"

record DecisionDraft =
  dr_kind :: string
  dr_codec :: string
  dr_schema :: digest
  dr_token :: "nat option"
  dr_payload :: string

record DecisionEncoding =
  de_Kind :: string
  de_Codec :: string
  de_Schema :: digest
  de_Payload :: string

definition wrap_error :: "string \<Rightarrow> policy_error + 'a \<Rightarrow> policy_error + 'a" where
  "wrap_error what r = (case r of Err e \<Rightarrow> Err (wrapped what e) | Ok v \<Rightarrow> Ok v)"

definition Draft :: "'v DecisionDescriptor \<Rightarrow> 'v \<Rightarrow> policy_error + DecisionDraft" where
  "Draft d value =
     (if \<not> constructed d then Err (decisionErr ''Draft'' ''the descriptor is a zero value'')
      else result_bind (wrap_error (''decision draft for kind '' @ quote (dd_kind d) @ '': value validation failed'')
             (dd_validate d value)) (\<lambda>_.
           result_bind (wrap_error (''decision draft for kind '' @ quote (dd_kind d) @ '': canonical encode failed'')
             (dd_encode d value)) (\<lambda>payload.
           Ok \<lparr>dr_kind = dd_kind d, dr_codec = dd_codec d, dr_schema = dd_schema d, dr_token = dd_token d,
               dr_payload = payload\<rparr>)))"

definition encoding :: "DecisionDraft \<Rightarrow> DecisionEncoding" where
  "encoding d = \<lparr>de_Kind = dr_kind d, de_Codec = dr_codec d, de_Schema = dr_schema d, de_Payload = dr_payload d\<rparr>"

section \<open>Bindings and the catalogue\<close>

record DecisionCatalogEntry =
  ce_Kind :: string
  ce_Codec :: string
  ce_Schema :: digest

text \<open>The type-erased binding keeps the three methods of the interface.\<close>

record DecisionBinding =
  bd_entry :: DecisionCatalogEntry
  bd_token :: "nat option"
  bd_validateStored :: "DecisionEncoding \<Rightarrow> policy_error + unit"

definition typed_entry :: "'v DecisionDescriptor \<Rightarrow> DecisionCatalogEntry" where
  "typed_entry d = \<lparr>ce_Kind = dd_kind d, ce_Codec = dd_codec d, ce_Schema = dd_schema d\<rparr>"

definition typed_validateStored :: "'v DecisionDescriptor \<Rightarrow> DecisionEncoding \<Rightarrow> policy_error + unit" where
  "typed_validateStored d enc =
     (if de_Kind enc \<noteq> dd_kind d \<or> de_Codec enc \<noteq> dd_codec d \<or> de_Schema enc \<noteq> dd_schema d
      then Err (decisionErr ''ValidateStored'' (''stored encoding identity ('' @ quote (de_Kind enc) @ ''/'' @
             quote (de_Codec enc) @ '') does not match the registered descriptor ('' @ quote (dd_kind d) @ ''/'' @
             quote (dd_codec d) @ '')''))
      else let at = ''validate stored decision '' @ quote (de_Kind enc) in
        result_bind (wrap_error (at @ '': decode failed'') (dd_decode d (de_Payload enc))) (\<lambda>value.
        result_bind (wrap_error (at @ '': decoded value invalid'') (dd_validate d value)) (\<lambda>_.
        result_bind (wrap_error (at @ '': re-encode failed'') (dd_encode d value)) (\<lambda>reencoded.
        fail_if (reencoded \<noteq> de_Payload enc) (decisionErr ''ValidateStored''
          (''stored payload for kind '' @ quote (de_Kind enc) @ '' is not canonical''))))))"

definition BindDecision :: "'v DecisionDescriptor \<Rightarrow> DecisionBinding" where
  "BindDecision d = \<lparr>bd_entry = typed_entry d, bd_token = dd_token d, bd_validateStored = typed_validateStored d\<rparr>"

record DecisionCatalog =
  ca_byKind :: "string \<rightharpoonup> DecisionBinding"
  ca_manifest :: "DecisionCatalogEntry list"

text \<open>The loop over the bindings, from index \<open>i\<close> with what was registered before; a nil
  interface is \<open>None\<close>.\<close>

fun register_all :: "nat \<Rightarrow> DecisionCatalog \<Rightarrow> DecisionBinding option list \<Rightarrow> policy_error + DecisionCatalog" where
  "register_all i c [] = Ok c"
| "register_all i c (b # bs) =
     (case b of
        None \<Rightarrow> Err (decisionErr ''DecisionCatalog'' (''binding '' @ dec_nat i @ '' is nil''))
      | Some bd \<Rightarrow>
          let e = bd_entry bd in
          if ce_Kind e = [] then Err (decisionErr ''DecisionCatalog'' (''binding '' @ dec_nat i @ '' has an empty kind''))
          else if ca_byKind c (ce_Kind e) \<noteq> None
          then Err (decisionErr ''DecisionCatalog'' (''kind '' @ quote (ce_Kind e) @ '' is registered more than once''))
          else register_all (Suc i) \<lparr>ca_byKind = (ca_byKind c)(ce_Kind e \<mapsto> bd), ca_manifest = ca_manifest c @ [e]\<rparr> bs)"

definition NewDecisionCatalog :: "DecisionBinding option list \<Rightarrow> policy_error + DecisionCatalog" where
  "NewDecisionCatalog bindings = register_all 0 \<lparr>ca_byKind = Map.empty, ca_manifest = []\<rparr> bindings"

definition Manifest :: "DecisionCatalog \<Rightarrow> DecisionCatalogEntry list" where
  "Manifest c = ca_manifest c"

definition ValidateDraft :: "DecisionCatalog \<Rightarrow> DecisionDraft \<Rightarrow> policy_error + unit" where
  "ValidateDraft c draft =
     (case ca_byKind c (dr_kind draft) of
        None \<Rightarrow> Err (decisionErr ''ValidateDraft'' (''kind '' @ quote (dr_kind draft) @ '' is not registered''))
      | Some b \<Rightarrow>
          if bd_token b \<noteq> dr_token draft
          then Err (decisionErr ''ValidateDraft'' (''draft for kind '' @ quote (dr_kind draft) @
                 '' carries an unregistered descriptor token''))
          else fail_if (dr_codec draft \<noteq> ce_Codec (bd_entry b) \<or> dr_schema draft \<noteq> ce_Schema (bd_entry b))
                 (decisionErr ''ValidateDraft'' (''draft codec/schema for kind '' @ quote (dr_kind draft) @
                   '' does not match the registered descriptor'')))"

definition ValidateStored :: "DecisionCatalog \<Rightarrow> DecisionEncoding \<Rightarrow> policy_error + unit" where
  "ValidateStored c enc =
     (case ca_byKind c (de_Kind enc) of
        None \<Rightarrow> Err (decisionErr ''ValidateStored'' (''kind '' @ quote (de_Kind enc) @ '' is not registered''))
      | Some b \<Rightarrow> bd_validateStored b enc)"

definition DecodeDecision ::
  "DecisionCatalog \<Rightarrow> 'v DecisionDescriptor \<Rightarrow> DecisionEncoding \<Rightarrow> policy_error + 'v" where
  "DecodeDecision c d enc =
     (if \<not> constructed d then Err (decisionErr ''DecodeDecision'' ''the descriptor is a zero value'')
      else case ca_byKind c (de_Kind enc) of
        None \<Rightarrow> Err (decisionErr ''DecodeDecision'' (''kind '' @ quote (de_Kind enc) @ '' is not registered''))
      | Some b \<Rightarrow>
          if bd_token b \<noteq> dd_token d
          then Err (decisionErr ''DecodeDecision'' (''descriptor for kind '' @ quote (de_Kind enc) @ '' is not the registered one''))
          else if de_Codec enc \<noteq> dd_codec d \<or> de_Schema enc \<noteq> dd_schema d \<or> de_Kind enc \<noteq> dd_kind d
          then Err (decisionErr ''DecodeDecision'' (''encoding identity does not match descriptor for kind '' @ quote (de_Kind enc)))
          else let at = ''decode decision '' @ quote (de_Kind enc) in
            result_bind (wrap_error at (dd_decode d (de_Payload enc))) (\<lambda>value.
            result_bind (wrap_error (at @ '': decoded value invalid'') (dd_validate d value)) (\<lambda>_.
            result_bind (wrap_error (at @ '': re-encode failed'') (dd_encode d value)) (\<lambda>reencoded.
            if reencoded \<noteq> de_Payload enc
            then Err (decisionErr ''DecodeDecision'' (''stored payload for kind '' @ quote (de_Kind enc) @ '' is not canonical''))
            else Ok value))))"

section \<open>Ledger entries\<close>

record DecisionAttribution =
  at_Decider :: string
  at_DeciderKind :: AgentKind
  at_Recorder :: string
  at_RecorderKind :: AgentKind

record DecisionLedgerEntry =
  le_ID :: string
  le_Epoch :: string
  le_Actor :: DecisionAttribution
  le_SourceRequest :: "string option"
  le_Context :: "DecisionEncoding option"
  le_Decision :: DecisionEncoding

record PlanUATSnapshot =
  ps_ID :: string
  ps_UATTaskID :: TaskID
  ps_Proposal :: string
  ps_DecisionEntry :: string
  ps_InputLedger :: string
  ps_OutputLedger :: string

text \<open>The text form of a coverage digest.  \<^verbatim>\<open>hex.DecodeString\<close> also takes upper-case
  letters.\<close>

definition coverageDigestPrefix :: string where "coverageDigestPrefix = ''sha256:''"

definition hex_byte :: "char \<Rightarrow> string" where
  "hex_byte c = [hex_char ((of_char c :: nat) div 16), hex_char ((of_char c :: nat) mod 16)]"

definition EncodeToString :: "string \<Rightarrow> string" where
  "EncodeToString bs = concat (map hex_byte bs)"

definition hex_val :: "char \<Rightarrow> nat option" where
  "hex_val c = (let n = (of_char c :: nat) in
     if 48 \<le> n \<and> n \<le> 57 then Some (n - 48) else if 97 \<le> n \<and> n \<le> 102 then Some (n - 87)
     else if 65 \<le> n \<and> n \<le> 70 then Some (n - 55) else None)"

fun DecodeString :: "string \<Rightarrow> string option" where
  "DecodeString [] = Some []"
| "DecodeString [c] = None"
| "DecodeString (c # d # cs) =
     (case (hex_val c, hex_val d) of
        (Some h, Some l) \<Rightarrow> map_option ((#) (char_of (16 * h + l))) (DecodeString cs)
      | _ \<Rightarrow> None)"

definition CoverageDigest_MarshalText :: "digest \<Rightarrow> string" where
  "CoverageDigest_MarshalText d = coverageDigestPrefix @ EncodeToString d"

definition ParseCoverageDigest :: "string \<Rightarrow> policy_error + digest" where
  "ParseCoverageDigest s =
     (if length s < length coverageDigestPrefix \<or> take (length coverageDigestPrefix) s \<noteq> coverageDigestPrefix
      then Err (decisionErr ''ParseCoverageDigest'' (quote s @ '' has no '' @ quote coverageDigestPrefix @ '' prefix''))
      else let body = drop (length coverageDigestPrefix) s in
        case DecodeString body of
          None \<Rightarrow> Err (decisionErr ''ParseCoverageDigest'' (''body '' @ quote body @ '' is not valid hex''))
        | Some raw \<Rightarrow>
            if length raw \<noteq> 32
            then Err (decisionErr ''ParseCoverageDigest'' (''body decodes to '' @ dec_nat (length raw) @ '' bytes, want 32''))
            else Ok raw)"

section \<open>The interaction mode\<close>

definition InteractionNormal :: string where "InteractionNormal = ''normal''"
definition InteractionAFK :: string where "InteractionAFK = ''afk''"

definition InteractionMode_valid :: "string \<Rightarrow> bool" where
  "InteractionMode_valid m \<longleftrightarrow> m = InteractionNormal \<or> m = InteractionAFK"

record InteractionModeCursor =
  mc_Entry :: "string option"
  mc_Mode :: string

record InteractionModeChanged =
  mo_From :: string
  mo_To :: string

definition validateInteractionModeChanged :: "InteractionModeChanged \<Rightarrow> policy_error + unit" where
  "validateInteractionModeChanged c =
     (if \<not> InteractionMode_valid (mo_From c)
      then Err (modeErr ''InteractionModeChanged'' (''the source mode '' @ quote (mo_From c) @ '' is not a known interaction mode''))
      else fail_if (\<not> InteractionMode_valid (mo_To c))
        (modeErr ''InteractionModeChanged'' (''the target mode '' @ quote (mo_To c) @ '' is not a known interaction mode'')))"

section \<open>UAT payloads\<close>

record UATInteraction =
  ui_Prompt :: string
  ui_Response :: string

fun validate_interactions_from :: "nat \<Rightarrow> string \<Rightarrow> UATInteraction list \<Rightarrow> policy_error + unit" where
  "validate_interactions_from i field [] = Ok ()"
| "validate_interactions_from i field (x # xs) =
     (if ui_Prompt x = [] then Err (uatErr field (''interaction '' @ dec_nat i @ '' has an empty prompt''))
      else if ui_Response x = [] then Err (uatErr field (''interaction '' @ dec_nat i @ '' has an empty response''))
      else validate_interactions_from (Suc i) field xs)"

definition validateInteractions :: "string \<Rightarrow> UATInteraction list \<Rightarrow> policy_error + unit" where
  "validateInteractions field xs = validate_interactions_from 0 field xs"

record UATFeedbackItem =
  fb_ID :: string
  fb_Body :: string
  fb_FixNow :: bool

text \<open>The two loops that refuse empty and repeated identities differ in what they call the
  items; the seen set is the list of the identities passed.\<close>

fun validate_ids_from :: "nat \<Rightarrow> string list \<Rightarrow> string \<Rightarrow> string \<Rightarrow> string \<Rightarrow> string list \<Rightarrow> policy_error + unit" where
  "validate_ids_from i seen field item noun [] = Ok ()"
| "validate_ids_from i seen field item noun (x # xs) =
     (if x = [] then Err (uatErr field (item @ '' '' @ dec_nat i @ '' has an empty id''))
      else if x \<in> set seen then Err (uatErr field (noun @ '' '' @ quote x @ '' appears more than once''))
      else validate_ids_from (Suc i) (x # seen) field item noun xs)"

definition validateFeedback :: "string \<Rightarrow> UATFeedbackItem list \<Rightarrow> policy_error + unit" where
  "validateFeedback field xs = validate_ids_from 0 [] field ''feedback item'' ''feedback id'' (map fb_ID xs)"

definition hasFixNowFeedback :: "UATFeedbackItem list \<Rightarrow> bool" where
  "hasFixNowFeedback xs \<longleftrightarrow> list_ex fb_FixNow xs"

record HeldUATQuestion =
  hq_ID :: string
  hq_Question :: string
  hq_Stable :: bool

definition validateHeldQuestions :: "string \<Rightarrow> HeldUATQuestion list \<Rightarrow> policy_error + unit" where
  "validateHeldQuestions field xs = validate_ids_from 0 [] field ''held question'' ''held question id'' (map hq_ID xs)"

definition hasStableHeldQuestion :: "HeldUATQuestion list \<Rightarrow> bool" where
  "hasStableHeldQuestion xs \<longleftrightarrow> list_ex hq_Stable xs"

type_synonym PlanUATVerdict = int
abbreviation (input) PlanUATAccepted :: PlanUATVerdict where "PlanUATAccepted \<equiv> 1"
abbreviation (input) PlanUATChangesRequested :: PlanUATVerdict where "PlanUATChangesRequested \<equiv> 2"
abbreviation (input) PlanUATDeferredByAFK :: PlanUATVerdict where "PlanUATDeferredByAFK \<equiv> 3"

definition PlanUATVerdict_valid :: "PlanUATVerdict \<Rightarrow> bool" where
  "PlanUATVerdict_valid v \<longleftrightarrow> v = PlanUATAccepted \<or> v = PlanUATChangesRequested \<or> v = PlanUATDeferredByAFK"

definition PlanUATVerdict_String :: "PlanUATVerdict \<Rightarrow> string" where
  "PlanUATVerdict_String v =
     (if v = PlanUATAccepted then ''accepted'' else if v = PlanUATChangesRequested then ''changes_requested''
      else if v = PlanUATDeferredByAFK then ''deferred_by_afk'' else ''PlanUATVerdict('' @ dec_int v @ '')'')"

definition validatePlanSnapshot :: "string \<Rightarrow> PlanUATSnapshot \<Rightarrow> policy_error + unit" where
  "validatePlanSnapshot field s =
     (if ps_ID s = [] then Err (uatErr field ''the plan-UAT snapshot id is empty'')
      else if ps_UATTaskID s = zero_TaskID then Err (uatErr field ''the snapshot names no UAT task'')
      else if ps_Proposal s = [] then Err (uatErr field ''the snapshot names no proposal revision'')
      else if ps_DecisionEntry s = [] then Err (uatErr field ''the snapshot names no decision-ledger entry'')
      else fail_if (ps_InputLedger s = [] \<or> ps_OutputLedger s = [])
        (uatErr field ''the snapshot names an empty input or output ledger revision''))"

record PlanAccepted =
  pa_Snapshot :: PlanUATSnapshot
  pa_Interactions :: "UATInteraction list"
  pa_Feedback :: "UATFeedbackItem list"

definition validatePlanAccepted :: "PlanAccepted \<Rightarrow> policy_error + unit" where
  "validatePlanAccepted p =
     result_bind (validatePlanSnapshot ''PlanAccepted.Snapshot'' (pa_Snapshot p)) (\<lambda>_.
     result_bind (validateInteractions ''PlanAccepted.Interactions'' (pa_Interactions p)) (\<lambda>_.
     result_bind (validateFeedback ''PlanAccepted.Feedback'' (pa_Feedback p)) (\<lambda>_.
     fail_if (hasFixNowFeedback (pa_Feedback p))
       (uatErr ''PlanAccepted'' ''an accepted plan UAT carries FIX-NOW feedback''))))"

record PlanChangesRequested =
  pc_Snapshot :: PlanUATSnapshot
  pc_Interactions :: "UATInteraction list"
  pc_Feedback :: "UATFeedbackItem list"

definition validatePlanChangesRequested :: "PlanChangesRequested \<Rightarrow> policy_error + unit" where
  "validatePlanChangesRequested p =
     result_bind (validatePlanSnapshot ''PlanChangesRequested.Snapshot'' (pc_Snapshot p)) (\<lambda>_.
     result_bind (validateInteractions ''PlanChangesRequested.Interactions'' (pc_Interactions p)) (\<lambda>_.
     validateFeedback ''PlanChangesRequested.Feedback'' (pc_Feedback p)))"

record PlanDeferredByAFK =
  pd_Snapshot :: PlanUATSnapshot
  pd_Interactions :: "UATInteraction list"
  pd_Feedback :: "UATFeedbackItem list"
  pd_HeldQuestions :: "HeldUATQuestion list"
  pd_ModeEntry :: string

definition validatePlanDeferredByAFK :: "PlanDeferredByAFK \<Rightarrow> policy_error + unit" where
  "validatePlanDeferredByAFK p =
     result_bind (validatePlanSnapshot ''PlanDeferredByAFK.Snapshot'' (pd_Snapshot p)) (\<lambda>_.
     result_bind (validateInteractions ''PlanDeferredByAFK.Interactions'' (pd_Interactions p)) (\<lambda>_.
     result_bind (validateFeedback ''PlanDeferredByAFK.Feedback'' (pd_Feedback p)) (\<lambda>_.
     result_bind (validateHeldQuestions ''PlanDeferredByAFK.HeldQuestions'' (pd_HeldQuestions p)) (\<lambda>_.
     if pd_ModeEntry p = [] then Err (uatErr ''PlanDeferredByAFK'' ''the deferral records no AFK mode entry'')
     else if \<not> hasStableHeldQuestion (pd_HeldQuestions p)
     then Err (uatErr ''PlanDeferredByAFK'' ''the deferral carries no stable held question'')
     else fail_if (hasFixNowFeedback (pd_Feedback p))
       (uatErr ''PlanDeferredByAFK'' ''the deferral carries FIX-NOW feedback'')))))"

record PlanUATDecision =
  pu_Snapshot :: PlanUATSnapshot
  pu_ReportedVerdict :: PlanUATVerdict
  pu_Interactions :: "UATInteraction list"
  pu_Feedback :: "UATFeedbackItem list"
  pu_HeldQuestions :: "HeldUATQuestion list"
  pu_Mode :: InteractionModeCursor

type_synonym ImplementationUATVerdict = int
abbreviation (input) ImplUATAccepted :: ImplementationUATVerdict where "ImplUATAccepted \<equiv> 1"
abbreviation (input) ImplUATChangesRequested :: ImplementationUATVerdict where "ImplUATChangesRequested \<equiv> 2"

definition ImplUATVerdict_valid :: "ImplementationUATVerdict \<Rightarrow> bool" where
  "ImplUATVerdict_valid v \<longleftrightarrow> v = ImplUATAccepted \<or> v = ImplUATChangesRequested"

definition ImplUATVerdict_String :: "ImplementationUATVerdict \<Rightarrow> string" where
  "ImplUATVerdict_String v =
     (if v = ImplUATAccepted then ''accepted'' else if v = ImplUATChangesRequested then ''changes_requested''
      else ''ImplementationUATVerdict('' @ dec_int v @ '')'')"

type_synonym ResolutionKind = int
abbreviation (input) ResolutionConfirm :: ResolutionKind where "ResolutionConfirm \<equiv> 1"
abbreviation (input) ResolutionDefer :: ResolutionKind where "ResolutionDefer \<equiv> 2"
abbreviation (input) ResolutionReplace :: ResolutionKind where "ResolutionReplace \<equiv> 3"

definition ResolutionKind_valid :: "ResolutionKind \<Rightarrow> bool" where
  "ResolutionKind_valid k \<longleftrightarrow> k = ResolutionConfirm \<or> k = ResolutionDefer \<or> k = ResolutionReplace"

definition ResolutionKind_String :: "ResolutionKind \<Rightarrow> string" where
  "ResolutionKind_String k =
     (if k = ResolutionConfirm then ''confirm'' else if k = ResolutionDefer then ''defer''
      else if k = ResolutionReplace then ''replace'' else ''ResolutionKind('' @ dec_int k @ '')'')"

text \<open>The three resolution structs have the same fields; their targets are three named string
  types.\<close>

record Resolution =
  rs_Target :: string
  rs_Kind :: ResolutionKind
  rs_Note :: string

record ImplUATPayload =
  im_Interactions :: "UATInteraction list"
  im_Feedback :: "UATFeedbackItem list"
  im_HeldAnswers :: "Resolution list"
  im_PlanFeedback :: "Resolution list"
  im_LedgerDecisions :: "Resolution list"

definition replaces :: "Resolution list \<Rightarrow> bool" where
  "replaces rs \<longleftrightarrow> list_ex (\<lambda>r. rs_Kind r = ResolutionReplace) rs"

definition forcesChangesRequested :: "ImplUATPayload \<Rightarrow> bool" where
  "forcesChangesRequested p =
     (if hasFixNowFeedback (im_Feedback p) then True
      else if replaces (im_HeldAnswers p) then True
      else if replaces (im_PlanFeedback p) then True
      else replaces (im_LedgerDecisions p))"

text \<open>The loop over one resolution domain, called \<open>item\<close> and \<open>noun\<close> in its complaints.\<close>

fun validate_resolutions_from ::
  "nat \<Rightarrow> string list \<Rightarrow> string \<Rightarrow> string \<Rightarrow> string \<Rightarrow> Resolution list \<Rightarrow> policy_error + unit" where
  "validate_resolutions_from i seen field item noun [] = Ok ()"
| "validate_resolutions_from i seen field item noun (r # rs) =
     (if \<not> ResolutionKind_valid (rs_Kind r)
      then Err (uatErr field (item @ '' '' @ dec_nat i @ '' has resolution kind '' @ quote (ResolutionKind_String (rs_Kind r))))
      else if rs_Target r = [] then Err (uatErr field (item @ '' '' @ dec_nat i @ '' has an empty target''))
      else if rs_Target r \<in> set seen
      then Err (uatErr field (noun @ '' target '' @ quote (rs_Target r) @ '' is resolved more than once''))
      else validate_resolutions_from (Suc i) (rs_Target r # seen) field item noun rs)"

definition validateImplUATPayloadContents :: "ImplUATPayload \<Rightarrow> policy_error + unit" where
  "validateImplUATPayloadContents p =
     result_bind (validateInteractions ''ImplUATPayload.Interactions'' (im_Interactions p)) (\<lambda>_.
     result_bind (validateFeedback ''ImplUATPayload.Feedback'' (im_Feedback p)) (\<lambda>_.
     result_bind (validate_resolutions_from 0 [] ''ImplUATPayload.HeldAnswers'' ''held-answer'' ''held-question''
       (im_HeldAnswers p)) (\<lambda>_.
     result_bind (validate_resolutions_from 0 [] ''ImplUATPayload.PlanFeedback'' ''plan-feedback'' ''deferred-feedback''
       (im_PlanFeedback p)) (\<lambda>_.
     validate_resolutions_from 0 [] ''ImplUATPayload.LedgerDecisions'' ''ledger-decision'' ''ledger-decision''
       (im_LedgerDecisions p)))))"

definition validateImplUATPayload :: "ImplementationUATVerdict \<Rightarrow> ImplUATPayload \<Rightarrow> policy_error + unit" where
  "validateImplUATPayload verdict p =
     (if \<not> ImplUATVerdict_valid verdict
      then Err (uatErr ''ImplementationUATVerdict'' (''the verdict '' @ quote (ImplUATVerdict_String verdict) @
             '' is not accepted or changes_requested''))
      else result_bind (validateImplUATPayloadContents p) (\<lambda>_.
        fail_if (forcesChangesRequested p \<and> verdict \<noteq> ImplUATChangesRequested)
          (uatErr ''ImplementationUATVerdict'' ''an accepted verdict carries a REPLACE resolution or FIX-NOW feedback'')))"

section \<open>Deferral\<close>

record PlanDeferralInput =
  di_Mode :: InteractionModeCursor
  di_HeldQuestions :: "HeldUATQuestion list"
  di_Feedback :: "UATFeedbackItem list"
  di_Snapshot :: PlanUATSnapshot

definition EvaluatePlanDeferral :: "PlanDeferralInput \<Rightarrow> policy_error + unit" where
  "EvaluatePlanDeferral inp =
     (if mc_Mode (di_Mode inp) \<noteq> InteractionAFK
      then Err (afkErr ''EvaluatePlanDeferral'' (''the current interaction mode is '' @ quote (mc_Mode (di_Mode inp)) @ '', not afk''))
      else if mc_Entry (di_Mode inp) = None
      then Err (afkErr ''EvaluatePlanDeferral'' ''the afk mode cursor has no anchoring entry'')
      else if \<not> hasStableHeldQuestion (di_HeldQuestions inp)
      then Err (afkErr ''EvaluatePlanDeferral'' ''there is no stable held question'')
      else if hasFixNowFeedback (di_Feedback inp)
      then Err (afkErr ''EvaluatePlanDeferral'' ''the plan UAT carries FIX-NOW feedback'')
      else validatePlanSnapshot ''EvaluatePlanDeferral.Snapshot'' (di_Snapshot inp))"

section \<open>The production policy set\<close>

definition policyCanonicalJSONCodec :: string where
  "policyCanonicalJSONCodec = ''pasture.canonical-json/v1''"

definition DecisionInteractionModeChanged :: string where
  "DecisionInteractionModeChanged = ''pasture.interaction-mode.changed/v1''"
definition DecisionPlanUATAccepted :: string where
  "DecisionPlanUATAccepted = ''pasture.plan-uat.accepted/v1''"
definition DecisionPlanUATChangesRequested :: string where
  "DecisionPlanUATChangesRequested = ''pasture.plan-uat.changes-requested/v1''"
definition DecisionPlanUATDeferredByAFK :: string where
  "DecisionPlanUATDeferredByAFK = ''pasture.plan-uat.deferred-by-afk/v1''"
definition DecisionImplementationUAT :: string where
  "DecisionImplementationUAT = ''pasture.implementation-uat/v1''"
definition DecisionPlanRatified :: string where
  "DecisionPlanRatified = ''pasture.plan.ratified/v1''"
definition DecisionLanded :: string where
  "DecisionLanded = ''pasture.epoch.landed/v1''"

record PlanRatified =
  pr_Proposal :: string
  pr_ReviewRound :: string
  pr_PlanUAT :: string

definition validatePlanRatified :: "PlanRatified \<Rightarrow> policy_error + unit" where
  "validatePlanRatified v = fail_if (pr_Proposal v = [] \<or> pr_ReviewRound v = [] \<or> pr_PlanUAT v = [])
     (decisionErr ''PlanRatified'' ''ratification is missing its proposal, review round, or Plan UAT evidence'')"

record EpochLanded =
  el_Candidate :: string
  el_ImplementationUAT :: string

definition validateEpochLanded :: "EpochLanded \<Rightarrow> policy_error + unit" where
  "validateEpochLanded v = fail_if (el_Candidate v = [] \<or> el_ImplementationUAT v = [])
     (decisionErr ''EpochLanded'' ''landing is missing its candidate or Implementation UAT evidence'')"

record implementationUATRecord =
  iu_Outcome :: ImplementationUATVerdict
  iu_Payload :: ImplUATPayload

definition validateImplementationUATRecord :: "implementationUATRecord \<Rightarrow> policy_error + unit" where
  "validateImplementationUATRecord r = validateImplUATPayload (iu_Outcome r) (iu_Payload r)"

text \<open>The library code the descriptors call: SHA-256 and the JSON codec of each payload type.\<close>

record policy_lib =
  pl_sha256 :: "string \<Rightarrow> digest"
  pl_modeChanged :: "InteractionModeChanged json_codec"
  pl_planAccepted :: "PlanAccepted json_codec"
  pl_planChanges :: "PlanChangesRequested json_codec"
  pl_planDeferred :: "PlanDeferredByAFK json_codec"
  pl_implementationUAT :: "implementationUATRecord json_codec"
  pl_planRatified :: "PlanRatified json_codec"
  pl_landed :: "EpochLanded json_codec"

definition policySchemaDigest :: "(string \<Rightarrow> digest) \<Rightarrow> string \<Rightarrow> string \<Rightarrow> digest" where
  "policySchemaDigest sha256 kind shape =
     sha256 (''pasture.decision-schema/v1'' @ [char_of (0::nat)] @ kind @ [char_of (0::nat)] @ shape)"

definition newJSONDescriptor ::
  "(string \<Rightarrow> digest) \<Rightarrow> 'v json_codec \<Rightarrow> nat \<Rightarrow> string \<Rightarrow> string \<Rightarrow> ('v \<Rightarrow> policy_error + unit)
    \<Rightarrow> nat \<times> (policy_error + 'v DecisionDescriptor)" where
  "newJSONDescriptor sha256 codec next kind shape validate =
     (let encode = (\<lambda>v. case js_Marshal codec v of
              None \<Rightarrow> Err (wrapped (''canonical encode decision '' @ quote kind) codecErr) | Some b \<Rightarrow> Ok b);
          decode = (\<lambda>p. case js_Unmarshal codec p of
              None \<Rightarrow> Err (wrapped (''decode decision '' @ quote kind) codecErr) | Some v \<Rightarrow> Ok v) in
      NewDecisionDescriptor next kind policyCanonicalJSONCodec (policySchemaDigest sha256 kind shape)
        (Some validate) (Some encode) (Some decode))"

record PolicySet =
  po_Catalog :: DecisionCatalog
  po_modeChanged :: "InteractionModeChanged DecisionDescriptor"
  po_planAccepted :: "PlanAccepted DecisionDescriptor"
  po_planChanges :: "PlanChangesRequested DecisionDescriptor"
  po_planDeferred :: "PlanDeferredByAFK DecisionDescriptor"
  po_implementationUAT :: "implementationUATRecord DecisionDescriptor"
  po_planRatified :: "PlanRatified DecisionDescriptor"
  po_landed :: "EpochLanded DecisionDescriptor"

text \<open>A call that mints a token, and what follows it on success.\<close>

definition mint :: "nat \<times> (policy_error + 'a) \<Rightarrow> ('a \<Rightarrow> nat \<Rightarrow> nat \<times> (policy_error + 'b)) \<Rightarrow> nat \<times> (policy_error + 'b)" where
  "mint r k = (case snd r of Err e \<Rightarrow> (fst r, Err e) | Ok d \<Rightarrow> k d (fst r))"

definition NewProductionPolicySet :: "policy_lib \<Rightarrow> nat \<Rightarrow> nat \<times> (policy_error + PolicySet)" where
  "NewProductionPolicySet lib next0 =
     mint (newJSONDescriptor (pl_sha256 lib) (pl_modeChanged lib) next0 DecisionInteractionModeChanged
       ''interaction-mode.changed{from,to}'' validateInteractionModeChanged) (\<lambda>modeChanged next1.
     mint (newJSONDescriptor (pl_sha256 lib) (pl_planAccepted lib) next1 DecisionPlanUATAccepted
       ''plan-uat.accepted{snapshot,interactions,feedback}'' validatePlanAccepted) (\<lambda>planAccepted next2.
     mint (newJSONDescriptor (pl_sha256 lib) (pl_planChanges lib) next2 DecisionPlanUATChangesRequested
       ''plan-uat.changes-requested{snapshot,interactions,feedback}'' validatePlanChangesRequested) (\<lambda>planChanges next3.
     mint (newJSONDescriptor (pl_sha256 lib) (pl_planDeferred lib) next3 DecisionPlanUATDeferredByAFK
       ''plan-uat.deferred-by-afk{snapshot,interactions,feedback,heldQuestions,modeEntry}'' validatePlanDeferredByAFK)
       (\<lambda>planDeferred next4.
     mint (newJSONDescriptor (pl_sha256 lib) (pl_implementationUAT lib) next4 DecisionImplementationUAT
       ''implementation-uat{outcome,payload{interactions,feedback,heldAnswers,planFeedback,ledgerDecisions}}''
       validateImplementationUATRecord) (\<lambda>implementationUAT next5.
     mint (newJSONDescriptor (pl_sha256 lib) (pl_planRatified lib) next5 DecisionPlanRatified
       ''plan.ratified{proposal,reviewRound,planUat}'' validatePlanRatified) (\<lambda>planRatified next6.
     mint (newJSONDescriptor (pl_sha256 lib) (pl_landed lib) next6 DecisionLanded
       ''epoch.landed{candidate,implementationUat}'' validateEpochLanded) (\<lambda>landed next7.
     (next7, result_bind (NewDecisionCatalog [Some (BindDecision modeChanged), Some (BindDecision planAccepted),
         Some (BindDecision planChanges), Some (BindDecision planDeferred), Some (BindDecision implementationUAT),
         Some (BindDecision planRatified), Some (BindDecision landed)]) (\<lambda>catalog.
       Ok \<lparr>po_Catalog = catalog, po_modeChanged = modeChanged, po_planAccepted = planAccepted,
           po_planChanges = planChanges, po_planDeferred = planDeferred, po_implementationUAT = implementationUAT,
           po_planRatified = planRatified, po_landed = landed\<rparr>)))))))))"

definition DraftModeChange :: "PolicySet \<Rightarrow> InteractionModeChanged \<Rightarrow> policy_error + DecisionDraft" where
  "DraftModeChange s c = Draft (po_modeChanged s) c"

definition DraftPlanUAT :: "PolicySet \<Rightarrow> PlanUATDecision \<Rightarrow> policy_error + DecisionDraft" where
  "DraftPlanUAT s d =
     (if \<not> PlanUATVerdict_valid (pu_ReportedVerdict d)
      then Err (uatErr ''PlanUATDecision.ReportedVerdict'' (''the reported verdict '' @
             quote (PlanUATVerdict_String (pu_ReportedVerdict d)) @ '' is not a known plan-UAT verdict''))
      else if pu_ReportedVerdict d = PlanUATAccepted then
        if pu_HeldQuestions d \<noteq> []
        then Err (uatErr ''PlanUATDecision.HeldQuestions'' ''accepted Plan UAT carries held questions'')
        else Draft (po_planAccepted s) \<lparr>pa_Snapshot = pu_Snapshot d, pa_Interactions = pu_Interactions d,
               pa_Feedback = pu_Feedback d\<rparr>
      else if pu_ReportedVerdict d = PlanUATChangesRequested then
        if pu_HeldQuestions d \<noteq> []
        then Err (uatErr ''PlanUATDecision.HeldQuestions'' ''changes-requested Plan UAT carries held questions'')
        else Draft (po_planChanges s) \<lparr>pc_Snapshot = pu_Snapshot d, pc_Interactions = pu_Interactions d,
               pc_Feedback = pu_Feedback d\<rparr>
      else if pu_ReportedVerdict d = PlanUATDeferredByAFK then
        result_bind (EvaluatePlanDeferral \<lparr>di_Mode = pu_Mode d, di_HeldQuestions = pu_HeldQuestions d,
            di_Feedback = pu_Feedback d, di_Snapshot = pu_Snapshot d\<rparr>) (\<lambda>_.
          Draft (po_planDeferred s) \<lparr>pd_Snapshot = pu_Snapshot d, pd_Interactions = pu_Interactions d,
            pd_Feedback = pu_Feedback d, pd_HeldQuestions = pu_HeldQuestions d,
            pd_ModeEntry = the (mc_Entry (pu_Mode d))\<rparr>)
      else Err (uatErr ''PlanUATDecision.ReportedVerdict'' (''unhandled plan-UAT verdict '' @
             quote (PlanUATVerdict_String (pu_ReportedVerdict d)))))"

definition DraftImplementationUAT ::
  "PolicySet \<Rightarrow> ImplementationUATVerdict \<Rightarrow> ImplUATPayload \<Rightarrow> policy_error + DecisionDraft" where
  "DraftImplementationUAT s verdict p = Draft (po_implementationUAT s) \<lparr>iu_Outcome = verdict, iu_Payload = p\<rparr>"

definition DraftPlanRatified :: "PolicySet \<Rightarrow> PlanRatified \<Rightarrow> policy_error + DecisionDraft" where
  "DraftPlanRatified s v = Draft (po_planRatified s) v"

definition DraftLanded :: "PolicySet \<Rightarrow> EpochLanded \<Rightarrow> policy_error + DecisionDraft" where
  "DraftLanded s v = Draft (po_landed s) v"

section \<open>The effective mode and ratification\<close>

text \<open>The loop of \<open>EffectiveMode\<close> from a cursor on.\<close>

fun fold_modes :: "PolicySet \<Rightarrow> InteractionModeCursor \<Rightarrow> DecisionLedgerEntry list \<Rightarrow> policy_error + InteractionModeCursor" where
  "fold_modes policy cursor [] = Ok cursor"
| "fold_modes policy cursor (entry # entries) =
     (if de_Kind (le_Decision entry) \<noteq> DecisionInteractionModeChanged then fold_modes policy cursor entries
      else case DecodeDecision (po_Catalog policy) (po_modeChanged policy) (le_Decision entry) of
          Err e \<Rightarrow> Err (wrapped (''effective interaction mode: decode mode-change entry '' @ quote (le_ID entry)) e)
        | Ok changed \<Rightarrow>
            if mo_From changed \<noteq> mc_Mode cursor
            then Err (modeErr ''EffectiveMode'' (''mode-change entry '' @ quote (le_ID entry) @ '' records source mode '' @
                   quote (mo_From changed) @ '' but the effective mode at that point is '' @ quote (mc_Mode cursor)))
            else fold_modes policy \<lparr>mc_Entry = Some (le_ID entry), mc_Mode = mo_To changed\<rparr> entries)"

definition EffectiveMode :: "PolicySet \<Rightarrow> DecisionLedgerEntry list \<Rightarrow> policy_error + InteractionModeCursor" where
  "EffectiveMode policy entries = fold_modes policy \<lparr>mc_Entry = None, mc_Mode = InteractionNormal\<rparr> entries"

record RatifyInput =
  ri_Deferred :: PlanDeferredByAFK
  ri_CurrentLedger :: "DecisionLedgerEntry list"

definition EvaluateRatify :: "PolicySet \<Rightarrow> RatifyInput \<Rightarrow> policy_error + unit" where
  "EvaluateRatify policy inp =
     result_bind (validatePlanDeferredByAFK (ri_Deferred inp)) (\<lambda>_.
     result_bind (EffectiveMode policy (ri_CurrentLedger inp)) (\<lambda>cursor.
     if mc_Mode cursor \<noteq> InteractionAFK
     then Err (afkErr ''EvaluateRatify'' (''the current effective interaction mode is '' @ quote (mc_Mode cursor) @ '', not afk''))
     else case mc_Entry cursor of
         None \<Rightarrow> Err (afkErr ''EvaluateRatify'' ''the current afk mode cursor has no anchoring entry'')
       | Some entry \<Rightarrow>
           fail_if (entry \<noteq> pd_ModeEntry (ri_Deferred inp)) (afkErr ''EvaluateRatify''
             (''the current afk mode entry '' @ quote entry @ '' is not the entry '' @ quote (pd_ModeEntry (ri_Deferred inp)) @
              '' the deferral was anchored to''))))"

section \<open>Drafting and validation\<close>

lemma wrap_error_Ok [simp]: "wrap_error w r = Ok v \<longleftrightarrow> r = Ok v"
  by (cases r) (simp_all add: wrap_error_def)

lemma NewDecisionDescriptor_Ok:
  assumes "NewDecisionDescriptor n k c s v e d = (m, Ok dd)"
  shows "constructed dd" "dd_token dd = Some n" "dd_kind dd = k" "m = Suc n"
    "v = Some (dd_validate dd)" "e = Some (dd_encode dd)" "d = Some (dd_decode dd)"
  using assms by (auto simp: NewDecisionDescriptor_def constructed_def split: if_splits option.splits)

lemma Draft_Ok_iff:
  "Draft d v = Ok dr \<longleftrightarrow> constructed d \<and> dd_validate d v = Ok () \<and>
     (\<exists>payload. dd_encode d v = Ok payload \<and> dr = \<lparr>dr_kind = dd_kind d, dr_codec = dd_codec d,
        dr_schema = dd_schema d, dr_token = dd_token d, dr_payload = payload\<rparr>)"
  by (auto simp: Draft_def)

lemma register_all_keeps:
  "register_all i c bs = Ok c' \<Longrightarrow> ca_byKind c k = Some b \<Longrightarrow> ca_byKind c' k = Some b"
proof (induction bs arbitrary: i c)
  case (Cons a bs)
  then obtain bd where a: "a = Some bd" by (auto split: option.splits)
  let ?c = "\<lparr>ca_byKind = (ca_byKind c)(ce_Kind (bd_entry bd) \<mapsto> bd), ca_manifest = ca_manifest c @ [bd_entry bd]\<rparr>"
  have step: "register_all (Suc i) ?c bs = Ok c'" "ca_byKind ?c k = Some b"
    using Cons.prems by (auto simp: a Let_def split: if_splits)
  then show ?case by (rule Cons.IH)
qed simp

lemma register_all_registers:
  "register_all i c bs = Ok c' \<Longrightarrow> Some b \<in> set bs \<Longrightarrow> ca_byKind c' (ce_Kind (bd_entry b)) = Some b"
proof (induction bs arbitrary: i c)
  case (Cons a bs)
  then obtain bd where a: "a = Some bd" by (auto split: option.splits)
  let ?c = "\<lparr>ca_byKind = (ca_byKind c)(ce_Kind (bd_entry bd) \<mapsto> bd), ca_manifest = ca_manifest c @ [bd_entry bd]\<rparr>"
  have step: "register_all (Suc i) ?c bs = Ok c'"
    using Cons.prems(1) by (simp add: a Let_def split: if_splits)
  show ?case
  proof (cases "Some b \<in> set bs")
    case True
    with step show ?thesis by (rule Cons.IH)
  next
    case False
    with Cons.prems(2) have "b = bd" by (simp add: a)
    with register_all_keeps [OF step] show ?thesis by simp
  qed
qed simp

lemma register_all_manifest:
  "register_all i c bs = Ok c' \<Longrightarrow> ca_manifest c' = ca_manifest c @ map (bd_entry \<circ> the) bs"
  by (induction bs arbitrary: i c) (auto simp: Let_def split: option.splits if_splits)

text \<open>
  The contract of a descriptor that a construction of policy sets registers: the catalogue
  maps its kind to its own binding, and its token was minted.  Everything a client of the
  ledger does with such a descriptor follows from this.
\<close>

locale registered_descriptor =
  fixes build :: "'p \<Rightarrow> nat \<Rightarrow> nat \<times> (policy_error + PolicySet)"
    and sel :: "PolicySet \<Rightarrow> 'v DecisionDescriptor"
  assumes registered: "build p n = (m, Ok ps) \<Longrightarrow>
      ca_byKind (po_Catalog ps) (dd_kind (sel ps)) = Some (BindDecision (sel ps))"
    and minted: "build p n = (m, Ok ps) \<Longrightarrow> constructed (sel ps)"
begin

lemma decode_Ok_iff:
  assumes "build p n = (m, Ok ps)"
  shows "DecodeDecision (po_Catalog ps) (sel ps) enc = Ok v \<longleftrightarrow>
    de_Kind enc = dd_kind (sel ps) \<and> de_Codec enc = dd_codec (sel ps) \<and> de_Schema enc = dd_schema (sel ps) \<and>
    dd_decode (sel ps) (de_Payload enc) = Ok v \<and> dd_validate (sel ps) v = Ok () \<and>
    dd_encode (sel ps) v = Ok (de_Payload enc)"
proof (cases "de_Kind enc = dd_kind (sel ps)")
  case True
  with registered [OF assms] minted [OF assms] show ?thesis
    by (auto simp: DecodeDecision_def BindDecision_def Let_def)
next
  case False
  with minted [OF assms] show ?thesis
    by (auto simp: DecodeDecision_def Let_def split: option.splits)
qed

lemma stored_iff:
  assumes "build p n = (m, Ok ps)" "de_Kind enc = dd_kind (sel ps)"
  shows "ValidateStored (po_Catalog ps) enc = Ok () \<longleftrightarrow>
    (\<exists>v. DecodeDecision (po_Catalog ps) (sel ps) enc = Ok v)"
  using registered [OF assms(1)] assms(2)
  by (auto simp: ValidateStored_def BindDecision_def typed_validateStored_def decode_Ok_iff [OF assms(1)] Let_def)

lemma draft_admitted:
  assumes "build p n = (m, Ok ps)" "Draft (sel ps) v = Ok dr"
  shows "ValidateDraft (po_Catalog ps) dr = Ok ()"
  using registered [OF assms(1)] assms(2)
  by (auto simp: Draft_Ok_iff ValidateDraft_def BindDecision_def typed_entry_def)

lemma draft_decodes:
  assumes "build p n = (m, Ok ps)" "Draft (sel ps) v = Ok dr" "dd_decode (sel ps) (dr_payload dr) = Ok v"
  shows "DecodeDecision (po_Catalog ps) (sel ps) (encoding dr) = Ok v"
  using assms(2,3) by (auto simp: Draft_Ok_iff decode_Ok_iff [OF assms(1)] encoding_def)

lemma stored_value_valid:
  assumes "build p n = (m, Ok ps)" "de_Kind enc = dd_kind (sel ps)" "ValidateStored (po_Catalog ps) enc = Ok ()"
    "dd_decode (sel ps) (de_Payload enc) = Ok v"
  shows "dd_validate (sel ps) v = Ok ()"
  using assms(3,4) unfolding stored_iff [OF assms(1,2)] decode_Ok_iff [OF assms(1)] by auto

end

section \<open>The production set\<close>

definition json_descriptor ::
  "(string \<Rightarrow> digest) \<Rightarrow> 'v json_codec \<Rightarrow> nat \<Rightarrow> string \<Rightarrow> string \<Rightarrow> ('v \<Rightarrow> policy_error + unit) \<Rightarrow> 'v DecisionDescriptor" where
  "json_descriptor sha256 codec n kind shape validate =
     \<lparr>dd_kind = kind, dd_codec = policyCanonicalJSONCodec, dd_schema = policySchemaDigest sha256 kind shape,
      dd_token = Some n, dd_validate = validate,
      dd_encode = (\<lambda>v. case js_Marshal codec v of
          None \<Rightarrow> Err (wrapped (''canonical encode decision '' @ quote kind) codecErr) | Some b \<Rightarrow> Ok b),
      dd_decode = (\<lambda>p. case js_Unmarshal codec p of
          None \<Rightarrow> Err (wrapped (''decode decision '' @ quote kind) codecErr) | Some v \<Rightarrow> Ok v)\<rparr>"

lemma json_descriptor_simps [simp]:
  "dd_kind (json_descriptor sha codec n kind shape val) = kind"
  "dd_codec (json_descriptor sha codec n kind shape val) = policyCanonicalJSONCodec"
  "dd_schema (json_descriptor sha codec n kind shape val) = policySchemaDigest sha kind shape"
  "dd_token (json_descriptor sha codec n kind shape val) = Some n"
  "dd_validate (json_descriptor sha codec n kind shape val) = val"
  "constructed (json_descriptor sha codec n kind shape val)"
  "dd_encode (json_descriptor sha codec n kind shape val) v = Ok p \<longleftrightarrow> js_Marshal codec v = Some p"
  "dd_decode (json_descriptor sha codec n kind shape val) p = Ok v \<longleftrightarrow> js_Unmarshal codec p = Some v"
  by (simp_all add: json_descriptor_def constructed_def split: option.splits)

text \<open>The shape text of each kind, which its schema digest covers.\<close>

definition shape_of :: "string \<Rightarrow> string" where
  "shape_of k =
     (if k = DecisionInteractionModeChanged then ''interaction-mode.changed{from,to}''
      else if k = DecisionPlanUATAccepted then ''plan-uat.accepted{snapshot,interactions,feedback}''
      else if k = DecisionPlanUATChangesRequested then ''plan-uat.changes-requested{snapshot,interactions,feedback}''
      else if k = DecisionPlanUATDeferredByAFK
      then ''plan-uat.deferred-by-afk{snapshot,interactions,feedback,heldQuestions,modeEntry}''
      else if k = DecisionImplementationUAT
      then ''implementation-uat{outcome,payload{interactions,feedback,heldAnswers,planFeedback,ledgerDecisions}}''
      else if k = DecisionPlanRatified then ''plan.ratified{proposal,reviewRound,planUat}''
      else ''epoch.landed{candidate,implementationUat}'')"

definition production_kinds :: "string list" where
  "production_kinds = [DecisionInteractionModeChanged, DecisionPlanUATAccepted, DecisionPlanUATChangesRequested,
     DecisionPlanUATDeferredByAFK, DecisionImplementationUAT, DecisionPlanRatified, DecisionLanded]"

lemmas kind_defs = DecisionInteractionModeChanged_def DecisionPlanUATAccepted_def DecisionPlanUATChangesRequested_def
  DecisionPlanUATDeferredByAFK_def DecisionImplementationUAT_def DecisionPlanRatified_def DecisionLanded_def

lemma kinds_distinct: "distinct production_kinds"
  by (simp add: production_kinds_def kind_defs)

lemma kinds_not_empty: "k \<in> set production_kinds \<Longrightarrow> k \<noteq> []"
  by (auto simp: production_kinds_def kind_defs)

lemma newJSONDescriptor_eq:
  assumes "kind \<noteq> []"
  shows "newJSONDescriptor sha codec n kind shape validate =
     (if policySchemaDigest sha kind shape = zero_digest
      then (n, Err (decisionErr ''DecisionDescriptor'' ''the schema digest is zero''))
      else (Suc n, Ok (json_descriptor sha codec n kind shape validate)))"
  using assms by (simp add: newJSONDescriptor_def NewDecisionDescriptor_def json_descriptor_def
      policyCanonicalJSONCodec_def Let_def)

text \<open>The seven digests the construction computes.\<close>

definition digests_nonzero :: "policy_lib \<Rightarrow> bool" where
  "digests_nonzero lib \<longleftrightarrow>
     list_all (\<lambda>k. policySchemaDigest (pl_sha256 lib) k (shape_of k) \<noteq> zero_digest) production_kinds"

lemma kinds_distinct_rev: "distinct (rev production_kinds)"
  by (simp add: kinds_distinct)

lemmas kinds_neq [simp] = kinds_distinct [unfolded production_kinds_def, simplified]
  kinds_distinct_rev [unfolded production_kinds_def, simplified rev.simps append.simps distinct.simps, simplified]

lemma mint_if:
  "mint (if z then (n, Err e) else (n', Ok d)) k = (if z then (n, Err e) else k d n')"
  by (simp add: mint_def)

lemma if_Err_pair: "(if z then (n, Err e) else r) = (m, Ok x) \<longleftrightarrow> \<not> z \<and> r = (m, Ok x)"
  by simp

definition policy_bindings :: "PolicySet \<Rightarrow> DecisionBinding option list" where
  "policy_bindings ps = [Some (BindDecision (po_modeChanged ps)), Some (BindDecision (po_planAccepted ps)),
     Some (BindDecision (po_planChanges ps)), Some (BindDecision (po_planDeferred ps)),
     Some (BindDecision (po_implementationUAT ps)), Some (BindDecision (po_planRatified ps)),
     Some (BindDecision (po_landed ps))]"

lemma kinds_in [simp]:
  "DecisionInteractionModeChanged \<in> set production_kinds" "DecisionPlanUATAccepted \<in> set production_kinds"
  "DecisionPlanUATChangesRequested \<in> set production_kinds" "DecisionPlanUATDeferredByAFK \<in> set production_kinds"
  "DecisionImplementationUAT \<in> set production_kinds" "DecisionPlanRatified \<in> set production_kinds"
  "DecisionLanded \<in> set production_kinds"
  by (simp_all add: production_kinds_def)

lemmas kinds_nonempty [simp] = kinds_in [THEN kinds_not_empty]

text \<open>The descriptors of the set built from token \<open>n\<close> on, without the catalogue.\<close>

definition production_set :: "policy_lib \<Rightarrow> nat \<Rightarrow> DecisionCatalog \<Rightarrow> PolicySet" where
  "production_set lib n c =
     \<lparr>po_Catalog = c,
      po_modeChanged = json_descriptor (pl_sha256 lib) (pl_modeChanged lib) n DecisionInteractionModeChanged
        (shape_of DecisionInteractionModeChanged) validateInteractionModeChanged,
      po_planAccepted = json_descriptor (pl_sha256 lib) (pl_planAccepted lib) (n + 1) DecisionPlanUATAccepted
        (shape_of DecisionPlanUATAccepted) validatePlanAccepted,
      po_planChanges = json_descriptor (pl_sha256 lib) (pl_planChanges lib) (n + 2) DecisionPlanUATChangesRequested
        (shape_of DecisionPlanUATChangesRequested) validatePlanChangesRequested,
      po_planDeferred = json_descriptor (pl_sha256 lib) (pl_planDeferred lib) (n + 3) DecisionPlanUATDeferredByAFK
        (shape_of DecisionPlanUATDeferredByAFK) validatePlanDeferredByAFK,
      po_implementationUAT = json_descriptor (pl_sha256 lib) (pl_implementationUAT lib) (n + 4) DecisionImplementationUAT
        (shape_of DecisionImplementationUAT) validateImplementationUATRecord,
      po_planRatified = json_descriptor (pl_sha256 lib) (pl_planRatified lib) (n + 5) DecisionPlanRatified
        (shape_of DecisionPlanRatified) validatePlanRatified,
      po_landed = json_descriptor (pl_sha256 lib) (pl_landed lib) (n + 6) DecisionLanded
        (shape_of DecisionLanded) validateEpochLanded\<rparr>"

lemma shape_simps:
  "shape_of DecisionInteractionModeChanged = ''interaction-mode.changed{from,to}''"
  "shape_of DecisionPlanUATAccepted = ''plan-uat.accepted{snapshot,interactions,feedback}''"
  "shape_of DecisionPlanUATChangesRequested = ''plan-uat.changes-requested{snapshot,interactions,feedback}''"
  "shape_of DecisionPlanUATDeferredByAFK =
     ''plan-uat.deferred-by-afk{snapshot,interactions,feedback,heldQuestions,modeEntry}''"
  "shape_of DecisionImplementationUAT =
     ''implementation-uat{outcome,payload{interactions,feedback,heldAnswers,planFeedback,ledgerDecisions}}''"
  "shape_of DecisionPlanRatified = ''plan.ratified{proposal,reviewRound,planUat}''"
  "shape_of DecisionLanded = ''epoch.landed{candidate,implementationUat}''"
  by (simp_all add: shape_of_def)

lemma production_Ok_iff:
  "NewProductionPolicySet lib n = (m, Ok ps) \<longleftrightarrow>
     digests_nonzero lib \<and> m = n + 7 \<and>
     (\<exists>c. NewDecisionCatalog (policy_bindings (production_set lib n c)) = Ok c \<and> ps = production_set lib n c)"
  by (simp only: NewProductionPolicySet_def newJSONDescriptor_eq kinds_nonempty mint_if if_Err_pair not_False_eq_True)
    (auto simp: digests_nonzero_def production_kinds_def shape_simps policy_bindings_def production_set_def eval_nat_numeral)

lemma production_set_simps [simp]:
  "po_Catalog (production_set lib n c) = c"
  "dd_kind (po_modeChanged (production_set lib n c)) = DecisionInteractionModeChanged"
  "dd_kind (po_planAccepted (production_set lib n c)) = DecisionPlanUATAccepted"
  "dd_kind (po_planChanges (production_set lib n c)) = DecisionPlanUATChangesRequested"
  "dd_kind (po_planDeferred (production_set lib n c)) = DecisionPlanUATDeferredByAFK"
  "dd_kind (po_implementationUAT (production_set lib n c)) = DecisionImplementationUAT"
  "dd_kind (po_planRatified (production_set lib n c)) = DecisionPlanRatified"
  "dd_kind (po_landed (production_set lib n c)) = DecisionLanded"
  by (simp_all add: production_set_def)

lemma production_total:
  assumes "digests_nonzero lib"
  obtains ps where "NewProductionPolicySet lib n = (n + 7, Ok ps)"
    "map ce_Kind (Manifest (po_Catalog ps)) = production_kinds"
proof -
  have "\<exists>c. NewDecisionCatalog (policy_bindings (production_set lib n x)) = Ok c" for x
    by (simp add: NewDecisionCatalog_def policy_bindings_def BindDecision_def typed_entry_def Let_def)
  moreover have "policy_bindings (production_set lib n x) = policy_bindings (production_set lib n y)" for x y
    by (simp add: policy_bindings_def production_set_def)
  ultimately obtain c where c: "NewDecisionCatalog (policy_bindings (production_set lib n c)) = Ok c"
    by metis
  show ?thesis
  proof (rule that)
    show "NewProductionPolicySet lib n = (n + 7, Ok (production_set lib n c))"
      using assms c by (auto simp: production_Ok_iff)
    show "map ce_Kind (Manifest (po_Catalog (production_set lib n c))) = production_kinds"
      using register_all_manifest [OF c [unfolded NewDecisionCatalog_def]]
      by (simp add: Manifest_def policy_bindings_def production_kinds_def BindDecision_def typed_entry_def)
  qed
qed

text \<open>Whatever the construction registers is registered under its own binding.\<close>

lemma production_registers:
  assumes "NewProductionPolicySet lib n = (m, Ok ps)" "Some (BindDecision d) \<in> set (policy_bindings ps)"
  shows "ca_byKind (po_Catalog ps) (dd_kind d) = Some (BindDecision d)"
proof -
  obtain c where c: "NewDecisionCatalog (policy_bindings (production_set lib n c)) = Ok c" "ps = production_set lib n c"
    using assms(1) by (auto simp: production_Ok_iff)
  have "ca_byKind c (ce_Kind (bd_entry (BindDecision d))) = Some (BindDecision d)"
    using c assms(2) by (intro register_all_registers [OF c(1) [unfolded NewDecisionCatalog_def]]) simp
  then show ?thesis by (simp add: c(2) BindDecision_def typed_entry_def)
qed

lemma production_minted:
  assumes "NewProductionPolicySet lib n = (m, Ok ps)"
  shows "constructed (po_modeChanged ps)" "constructed (po_planAccepted ps)" "constructed (po_planChanges ps)"
    "constructed (po_planDeferred ps)" "constructed (po_implementationUAT ps)" "constructed (po_planRatified ps)"
    "constructed (po_landed ps)"
  using assms by (auto simp: production_Ok_iff production_set_def)

interpretation mode_reg: registered_descriptor NewProductionPolicySet po_modeChanged
  by unfold_locales (auto intro: production_registers production_minted simp: policy_bindings_def)

interpretation accepted_reg: registered_descriptor NewProductionPolicySet po_planAccepted
  by unfold_locales (auto intro: production_registers production_minted simp: policy_bindings_def)

interpretation changes_reg: registered_descriptor NewProductionPolicySet po_planChanges
  by unfold_locales (auto intro: production_registers production_minted simp: policy_bindings_def)

interpretation deferred_reg: registered_descriptor NewProductionPolicySet po_planDeferred
  by unfold_locales (auto intro: production_registers production_minted simp: policy_bindings_def)

interpretation impl_reg: registered_descriptor NewProductionPolicySet po_implementationUAT
  by unfold_locales (auto intro: production_registers production_minted simp: policy_bindings_def)

interpretation ratified_reg: registered_descriptor NewProductionPolicySet po_planRatified
  by unfold_locales (auto intro: production_registers production_minted simp: policy_bindings_def)

interpretation landed_reg: registered_descriptor NewProductionPolicySet po_landed
  by unfold_locales (auto intro: production_registers production_minted simp: policy_bindings_def)

section \<open>Payload validation\<close>

lemma validate_interactions_Ok:
  "validate_interactions_from i field xs = Ok u \<longleftrightarrow> (\<forall>x \<in> set xs. ui_Prompt x \<noteq> [] \<and> ui_Response x \<noteq> [])"
  by (induction xs arbitrary: i) auto

lemma validate_ids_Ok:
  "validate_ids_from i seen field item noun xs = Ok u \<longleftrightarrow> [] \<notin> set xs \<and> distinct xs \<and> set xs \<inter> set seen = {}"
  by (induction xs arbitrary: i seen) auto

lemma validate_resolutions_Ok:
  "validate_resolutions_from i seen field item noun rs = Ok u \<longleftrightarrow>
     (\<forall>r \<in> set rs. ResolutionKind_valid (rs_Kind r) \<and> rs_Target r \<noteq> []) \<and> distinct (map rs_Target rs) \<and>
     rs_Target ` set rs \<inter> set seen = {}"
  by (induction rs arbitrary: i seen) auto

text \<open>What the snapshot and item checks of the Plan payloads amount to.\<close>

definition snapshot_complete :: "PlanUATSnapshot \<Rightarrow> bool" where
  "snapshot_complete s \<longleftrightarrow> ps_UATTaskID s \<noteq> zero_TaskID \<and>
     [] \<notin> {ps_ID s, ps_Proposal s, ps_DecisionEntry s, ps_InputLedger s, ps_OutputLedger s}"

definition session_complete :: "UATInteraction list \<Rightarrow> UATFeedbackItem list \<Rightarrow> bool" where
  "session_complete xs fs \<longleftrightarrow> (\<forall>x \<in> set xs. ui_Prompt x \<noteq> [] \<and> ui_Response x \<noteq> []) \<and>
     [] \<notin> fb_ID ` set fs \<and> distinct (map fb_ID fs)"

lemma validatePlanSnapshot_Ok [simp]: "validatePlanSnapshot field s = Ok u \<longleftrightarrow> snapshot_complete s"
  by (auto simp: validatePlanSnapshot_def snapshot_complete_def)

lemma session_Ok [simp]:
  "validateInteractions field xs = Ok u \<longleftrightarrow> (\<forall>x \<in> set xs. ui_Prompt x \<noteq> [] \<and> ui_Response x \<noteq> [])"
  "validateFeedback field' fs = Ok u' \<longleftrightarrow> [] \<notin> fb_ID ` set fs \<and> distinct (map fb_ID fs)"
  "validateHeldQuestions field'' qs = Ok u'' \<longleftrightarrow> [] \<notin> hq_ID ` set qs \<and> distinct (map hq_ID qs)"
  by (simp_all add: validateInteractions_def validate_interactions_Ok validateFeedback_def validateHeldQuestions_def
      validate_ids_Ok)

lemma plan_payloads_Ok [simp]:
  "validatePlanAccepted p = Ok u \<longleftrightarrow> snapshot_complete (pa_Snapshot p) \<and>
     session_complete (pa_Interactions p) (pa_Feedback p) \<and> \<not> hasFixNowFeedback (pa_Feedback p)"
  "validatePlanChangesRequested c = Ok u \<longleftrightarrow> snapshot_complete (pc_Snapshot c) \<and>
     session_complete (pc_Interactions c) (pc_Feedback c)"
  "validatePlanDeferredByAFK d = Ok u \<longleftrightarrow> snapshot_complete (pd_Snapshot d) \<and>
     session_complete (pd_Interactions d) (pd_Feedback d) \<and> \<not> hasFixNowFeedback (pd_Feedback d) \<and>
     [] \<notin> hq_ID ` set (pd_HeldQuestions d) \<and> distinct (map hq_ID (pd_HeldQuestions d)) \<and>
     pd_ModeEntry d \<noteq> [] \<and> hasStableHeldQuestion (pd_HeldQuestions d)"
  by (auto simp: validatePlanAccepted_def validatePlanChangesRequested_def validatePlanDeferredByAFK_def session_complete_def)

lemma EvaluatePlanDeferral_Ok [simp]:
  "EvaluatePlanDeferral i = Ok u \<longleftrightarrow> mc_Mode (di_Mode i) = InteractionAFK \<and> mc_Entry (di_Mode i) \<noteq> None \<and>
     hasStableHeldQuestion (di_HeldQuestions i) \<and> \<not> hasFixNowFeedback (di_Feedback i) \<and> snapshot_complete (di_Snapshot i)"
  by (simp add: EvaluatePlanDeferral_def)

section \<open>Plan UAT drafts\<close>

definition plan_codecs_total :: "policy_lib \<Rightarrow> bool" where
  "plan_codecs_total lib \<longleftrightarrow> (\<forall>v. js_Marshal (pl_planAccepted lib) v \<noteq> None) \<and>
     (\<forall>v. js_Marshal (pl_planChanges lib) v \<noteq> None) \<and> (\<forall>v. js_Marshal (pl_planDeferred lib) v \<noteq> None)"

definition plan_uat_admissible :: "PlanUATDecision \<Rightarrow> bool" where
  "plan_uat_admissible d \<longleftrightarrow> snapshot_complete (pu_Snapshot d) \<and> session_complete (pu_Interactions d) (pu_Feedback d) \<and>
     (pu_ReportedVerdict d = PlanUATAccepted \<and> pu_HeldQuestions d = [] \<and> \<not> hasFixNowFeedback (pu_Feedback d) \<or>
      pu_ReportedVerdict d = PlanUATChangesRequested \<and> pu_HeldQuestions d = [] \<or>
      pu_ReportedVerdict d = PlanUATDeferredByAFK \<and> \<not> hasFixNowFeedback (pu_Feedback d) \<and>
      mc_Mode (pu_Mode d) = InteractionAFK \<and> mc_Entry (pu_Mode d) \<notin> {None, Some []} \<and>
      hasStableHeldQuestion (pu_HeldQuestions d) \<and> [] \<notin> hq_ID ` set (pu_HeldQuestions d) \<and>
      distinct (map hq_ID (pu_HeldQuestions d)))"

definition plan_uat_kind :: "PlanUATVerdict \<Rightarrow> string" where
  "plan_uat_kind v = (if v = PlanUATAccepted then DecisionPlanUATAccepted
     else if v = PlanUATChangesRequested then DecisionPlanUATChangesRequested else DecisionPlanUATDeferredByAFK)"

lemma plan_draft_iff:
  assumes "NewProductionPolicySet lib n = (m, Ok ps)" "plan_codecs_total lib"
  shows "(\<exists>dr. Draft (po_planAccepted ps) a = Ok dr) \<longleftrightarrow> validatePlanAccepted a = Ok ()"
    "(\<exists>dr. Draft (po_planChanges ps) c = Ok dr) \<longleftrightarrow> validatePlanChangesRequested c = Ok ()"
    "(\<exists>dr. Draft (po_planDeferred ps) d = Ok dr) \<longleftrightarrow> validatePlanDeferredByAFK d = Ok ()"
  using assms by (auto simp: production_Ok_iff production_set_def Draft_Ok_iff plan_codecs_total_def)

lemma PlanUATVerdict_cases:
  assumes "PlanUATVerdict_valid v"
  obtains "v = PlanUATAccepted" | "v = PlanUATChangesRequested" | "v = PlanUATDeferredByAFK"
  using assms by (auto simp: PlanUATVerdict_valid_def)

lemma DraftPlanUAT_simps:
  "pu_ReportedVerdict d = PlanUATAccepted \<Longrightarrow> (DraftPlanUAT s d = Ok dr) = (pu_HeldQuestions d = [] \<and>
     Draft (po_planAccepted s) \<lparr>pa_Snapshot = pu_Snapshot d, pa_Interactions = pu_Interactions d,
       pa_Feedback = pu_Feedback d\<rparr> = Ok dr)"
  "pu_ReportedVerdict d = PlanUATChangesRequested \<Longrightarrow> (DraftPlanUAT s d = Ok dr) = (pu_HeldQuestions d = [] \<and>
     Draft (po_planChanges s) \<lparr>pc_Snapshot = pu_Snapshot d, pc_Interactions = pu_Interactions d,
       pc_Feedback = pu_Feedback d\<rparr> = Ok dr)"
  "pu_ReportedVerdict d = PlanUATDeferredByAFK \<Longrightarrow> (DraftPlanUAT s d = Ok dr) =
     (EvaluatePlanDeferral \<lparr>di_Mode = pu_Mode d, di_HeldQuestions = pu_HeldQuestions d,
       di_Feedback = pu_Feedback d, di_Snapshot = pu_Snapshot d\<rparr> = Ok () \<and>
     Draft (po_planDeferred s) \<lparr>pd_Snapshot = pu_Snapshot d, pd_Interactions = pu_Interactions d,
       pd_Feedback = pu_Feedback d, pd_HeldQuestions = pu_HeldQuestions d,
       pd_ModeEntry = the (mc_Entry (pu_Mode d))\<rparr> = Ok dr)"
  "\<not> PlanUATVerdict_valid (pu_ReportedVerdict d) \<Longrightarrow> (DraftPlanUAT s d = Ok dr) = False"
  by (simp_all add: DraftPlanUAT_def PlanUATVerdict_valid_def)

lemma DraftPlanUAT_Ok_kind:
  assumes "NewProductionPolicySet lib n = (m, Ok ps)" "DraftPlanUAT ps d = Ok dr"
  shows "dr_kind dr = plan_uat_kind (pu_ReportedVerdict d)" "ValidateDraft (po_Catalog ps) dr = Ok ()"
proof -
  have kinds: "dd_kind (po_planAccepted ps) = DecisionPlanUATAccepted" "dd_kind (po_planDeferred ps) = DecisionPlanUATDeferredByAFK"
    "dd_kind (po_planChanges ps) = DecisionPlanUATChangesRequested"
    using assms(1) by (auto simp: production_Ok_iff)
  have valid: "PlanUATVerdict_valid (pu_ReportedVerdict d)"
    using assms(2) DraftPlanUAT_simps(4) by blast
  then have "dr_kind dr = plan_uat_kind (pu_ReportedVerdict d) \<and> ValidateDraft (po_Catalog ps) dr = Ok ()"
  proof (cases rule: PlanUATVerdict_cases)
    case 1
    then show ?thesis using assms(2) accepted_reg.draft_admitted [OF assms(1)]
      by (auto simp: DraftPlanUAT_simps(1) Draft_Ok_iff plan_uat_kind_def kinds)
  next
    case 2
    then show ?thesis using assms(2) changes_reg.draft_admitted [OF assms(1)]
      by (auto simp: DraftPlanUAT_simps(2) Draft_Ok_iff plan_uat_kind_def kinds)
  next
    case 3
    then show ?thesis using assms(2) deferred_reg.draft_admitted [OF assms(1)]
      by (auto simp: DraftPlanUAT_simps(3) Draft_Ok_iff plan_uat_kind_def kinds)
  qed
  then show "dr_kind dr = plan_uat_kind (pu_ReportedVerdict d)" "ValidateDraft (po_Catalog ps) dr = Ok ()"
    by simp_all
qed

text \<open>C21: \<open>DraftPlanUAT\<close> of a production policy set issues a draft exactly for the decisions the policy
  admits: the snapshot and the session are complete; an acceptance carries no held question
  and no FIX-NOW feedback, a change request no held question, a deferral no FIX-NOW feedback
  but a stable held question, distinct questions and an AFK cursor anchored at a mode entry.
  Every issued draft has the kind of its verdict and passes the append gate of the
  catalogue.\<close>

theorem plan_uat_draft_exact:
  assumes "NewProductionPolicySet lib n = (m, Ok ps)" "plan_codecs_total lib"
  shows "((\<exists>dr. DraftPlanUAT ps d = Ok dr) \<longleftrightarrow> plan_uat_admissible d) \<and>
    (\<forall>dr. DraftPlanUAT ps d = Ok dr \<longrightarrow>
       dr_kind dr = plan_uat_kind (pu_ReportedVerdict d) \<and> ValidateDraft (po_Catalog ps) dr = Ok ())"
proof (intro conjI)
  show "(\<exists>dr. DraftPlanUAT ps d = Ok dr) \<longleftrightarrow> plan_uat_admissible d"
  proof (cases "PlanUATVerdict_valid (pu_ReportedVerdict d)")
    case True
    then show ?thesis
      by (cases rule: PlanUATVerdict_cases)
        (auto simp: DraftPlanUAT_simps plan_draft_iff [OF assms] plan_uat_admissible_def)
  next
    case False
    then show ?thesis
      by (simp add: DraftPlanUAT_simps(4) plan_uat_admissible_def) (auto simp: PlanUATVerdict_valid_def)
  qed
  show "\<forall>dr. DraftPlanUAT ps d = Ok dr \<longrightarrow>
     dr_kind dr = plan_uat_kind (pu_ReportedVerdict d) \<and> ValidateDraft (po_Catalog ps) dr = Ok ()"
    using DraftPlanUAT_Ok_kind [OF assms(1)] by blast
qed

section \<open>Implementation UAT\<close>

lemma validateImplUATPayload_Ok:
  "validateImplUATPayload v p = Ok u \<longleftrightarrow> ImplUATVerdict_valid v \<and> session_complete (im_Interactions p) (im_Feedback p) \<and>
     (\<forall>rs \<in> {im_HeldAnswers p, im_PlanFeedback p, im_LedgerDecisions p}.
        (\<forall>r \<in> set rs. ResolutionKind_valid (rs_Kind r) \<and> rs_Target r \<noteq> []) \<and> distinct (map rs_Target rs)) \<and>
     (forcesChangesRequested p \<longrightarrow> v = ImplUATChangesRequested)"
  by (auto simp: validateImplUATPayload_def validateImplUATPayloadContents_def validate_resolutions_Ok session_complete_def)

lemma forcesChangesRequested_iff:
  "forcesChangesRequested p \<longleftrightarrow> hasFixNowFeedback (im_Feedback p) \<or>
     (\<exists>r \<in> set (im_HeldAnswers p @ im_PlanFeedback p @ im_LedgerDecisions p). rs_Kind r = ResolutionReplace)"
  by (auto simp: forcesChangesRequested_def replaces_def list_ex_iff)

lemma stored_implementation_value:
  assumes "NewProductionPolicySet lib n = (m, Ok ps)" "de_Kind enc = DecisionImplementationUAT"
    "ValidateStored (po_Catalog ps) enc = Ok ()" "js_Unmarshal (pl_implementationUAT lib) (de_Payload enc) = Some r"
  shows "validateImplUATPayload (iu_Outcome r) (iu_Payload r) = Ok ()"
    "js_Marshal (pl_implementationUAT lib) r = Some (de_Payload enc)"
proof -
  obtain c where ps: "ps = production_set lib n c"
    using assms(1) by (auto simp: production_Ok_iff)
  have kind: "de_Kind enc = dd_kind (po_implementationUAT ps)"
    using assms(2) by (simp add: ps)
  have dec: "dd_decode (po_implementationUAT ps) (de_Payload enc) = Ok r"
    using assms(4) by (simp add: ps production_set_def)
  have "DecodeDecision (po_Catalog ps) (po_implementationUAT ps) enc = Ok r"
    using assms(3) dec unfolding impl_reg.stored_iff [OF assms(1) kind] impl_reg.decode_Ok_iff [OF assms(1)] by auto
  then show "validateImplUATPayload (iu_Outcome r) (iu_Payload r) = Ok ()"
    "js_Marshal (pl_implementationUAT lib) r = Some (de_Payload enc)"
    unfolding impl_reg.decode_Ok_iff [OF assms(1)] by (auto simp: ps production_set_def validateImplementationUATRecord_def)
qed

text \<open>C31: whatever the catalogue of a production policy set accepts as a stored Implementation UAT decision
  obeys the policy: its outcome is accepted or changes-requested; an accepted one carries no FIX-NOW
  feedback and no REPLACE resolution; in each of the three domains every target is named,
  resolved once, and resolved by a known disposition; and the stored bytes are the
  canonical encoding of the decision.\<close>

theorem stored_implementation_uat_obeys:
  assumes "NewProductionPolicySet lib n = (m, Ok ps)" "de_Kind enc = DecisionImplementationUAT"
    "ValidateStored (po_Catalog ps) enc = Ok ()" "js_Unmarshal (pl_implementationUAT lib) (de_Payload enc) = Some r"
  shows "ImplUATVerdict_valid (iu_Outcome r) \<and>
    (iu_Outcome r = ImplUATAccepted \<longrightarrow> \<not> (\<exists>f \<in> set (im_Feedback (iu_Payload r)). fb_FixNow f) \<and>
       (\<forall>x \<in> set (im_HeldAnswers (iu_Payload r) @ im_PlanFeedback (iu_Payload r) @ im_LedgerDecisions (iu_Payload r)).
          rs_Kind x \<in> {ResolutionConfirm, ResolutionDefer})) \<and>
    (\<forall>rs \<in> {im_HeldAnswers (iu_Payload r), im_PlanFeedback (iu_Payload r), im_LedgerDecisions (iu_Payload r)}.
       distinct (map rs_Target rs) \<and> [] \<notin> rs_Target ` set rs) \<and>
    js_Marshal (pl_implementationUAT lib) r = Some (de_Payload enc)"
proof (intro conjI)
  note val = stored_implementation_value [OF assms]
  show "ImplUATVerdict_valid (iu_Outcome r)" "js_Marshal (pl_implementationUAT lib) r = Some (de_Payload enc)"
    using val by (simp_all add: validateImplUATPayload_Ok)
  show "\<forall>rs \<in> {im_HeldAnswers (iu_Payload r), im_PlanFeedback (iu_Payload r), im_LedgerDecisions (iu_Payload r)}.
       distinct (map rs_Target rs) \<and> [] \<notin> rs_Target ` set rs"
    using val(1) by (auto simp: validateImplUATPayload_Ok)
  show "iu_Outcome r = ImplUATAccepted \<longrightarrow> \<not> (\<exists>f \<in> set (im_Feedback (iu_Payload r)). fb_FixNow f) \<and>
       (\<forall>x \<in> set (im_HeldAnswers (iu_Payload r) @ im_PlanFeedback (iu_Payload r) @ im_LedgerDecisions (iu_Payload r)).
          rs_Kind x \<in> {ResolutionConfirm, ResolutionDefer})"
    using val(1) by (fastforce simp: validateImplUATPayload_Ok forcesChangesRequested_iff hasFixNowFeedback_def list_ex_iff
        ResolutionKind_valid_def)
qed

section \<open>The mode chain and ratification\<close>

definition mode_entries :: "DecisionLedgerEntry list \<Rightarrow> DecisionLedgerEntry list" where
  "mode_entries L = filter (\<lambda>e. de_Kind (le_Decision e) = DecisionInteractionModeChanged) L"

fun mode_chain :: "string \<Rightarrow> InteractionModeChanged list \<Rightarrow> bool" where
  "mode_chain m [] = True"
| "mode_chain m (c # cs) \<longleftrightarrow> mo_From c = m \<and> mode_chain (mo_To c) cs"

definition mode_changes :: "PolicySet \<Rightarrow> DecisionLedgerEntry list \<Rightarrow> InteractionModeChanged list \<Rightarrow> bool" where
  "mode_changes policy L cs \<longleftrightarrow>
     list_all2 (\<lambda>e c. DecodeDecision (po_Catalog policy) (po_modeChanged policy) (le_Decision e) = Ok c) (mode_entries L) cs"

lemma mode_entries_append [simp]: "mode_entries (L @ L') = mode_entries L @ mode_entries L'"
  by (simp add: mode_entries_def)

lemma fold_modes_Ok:
  "fold_modes policy cur L = Ok c \<longleftrightarrow>
     (\<exists>cs. mode_changes policy L cs \<and> mode_chain (mc_Mode cur) cs \<and>
        c = (if cs = [] then cur else \<lparr>mc_Entry = Some (le_ID (last (mode_entries L))), mc_Mode = mo_To (last cs)\<rparr>))"
proof (induction L arbitrary: cur)
  case Nil
  then show ?case by (auto simp: mode_changes_def mode_entries_def)
next
  case (Cons e L)
  show ?case
  proof (cases "de_Kind (le_Decision e) = DecisionInteractionModeChanged")
    case False
    then show ?thesis by (simp add: Cons.IH mode_changes_def mode_entries_def)
  next
    case True
    then have me: "mode_entries (e # L) = e # mode_entries L" by (simp add: mode_entries_def)
    have last: "(if ds = [] then \<lparr>mc_Entry = Some (le_ID e), mc_Mode = mo_To d\<rparr>
          else \<lparr>mc_Entry = Some (le_ID (last (mode_entries L))), mc_Mode = mo_To (last ds)\<rparr>) =
        \<lparr>mc_Entry = Some (le_ID (last (e # mode_entries L))), mc_Mode = mo_To (last (d # ds))\<rparr>"
      if "mode_changes policy L ds" for ds d
      using that by (auto simp: mode_changes_def)
    show ?thesis
    proof (cases "DecodeDecision (po_Catalog policy) (po_modeChanged policy) (le_Decision e)")
      case (Inl err)
      then show ?thesis using True by (auto simp: mode_changes_def me list_all2_Cons1)
    next
      case (Inr d)
      let ?c = "\<lambda>ds. \<lparr>mc_Entry = Some (le_ID (last (e # mode_entries L))), mc_Mode = mo_To (last (d # ds))\<rparr>"
      have "fold_modes policy cur (e # L) = Ok c \<longleftrightarrow>
          mo_From d = mc_Mode cur \<and> fold_modes policy \<lparr>mc_Entry = Some (le_ID e), mc_Mode = mo_To d\<rparr> L = Ok c"
        using True Inr by simp
      also have "\<dots> \<longleftrightarrow> mo_From d = mc_Mode cur \<and>
          (\<exists>ds. mode_changes policy L ds \<and> mode_chain (mo_To d) ds \<and> c = ?c ds)"
        by (simp only: Cons.IH InteractionModeCursor.select_convs last cong: conj_cong)
      also have "\<dots> \<longleftrightarrow> (\<exists>cs. mode_changes policy (e # L) cs \<and> mode_chain (mc_Mode cur) cs \<and>
          c = (if cs = [] then cur else \<lparr>mc_Entry = Some (le_ID (last (mode_entries (e # L)))), mc_Mode = mo_To (last cs)\<rparr>))"
        (is "?l \<longleftrightarrow> ?r")
      proof
        assume ?l
        then obtain ds where "mo_From d = mc_Mode cur" "mode_changes policy L ds" "mode_chain (mo_To d) ds" "c = ?c ds"
          by blast
        then show ?r by (intro exI [of _ "d # ds"]) (simp add: mode_changes_def me Inr)
      next
        assume ?r
        then obtain cs where cs: "mode_changes policy (e # L) cs" "mode_chain (mc_Mode cur) cs"
          "c = (if cs = [] then cur else \<lparr>mc_Entry = Some (le_ID (last (mode_entries (e # L)))), mc_Mode = mo_To (last cs)\<rparr>)"
          by blast
        then obtain ds where "cs = d # ds" "mode_changes policy L ds"
          by (auto simp: mode_changes_def me list_all2_Cons1 Inr)
        with cs show ?l by (auto simp: me)
      qed
      finally show ?thesis .
    qed
  qed
qed

lemma EvaluateRatify_Ok:
  "EvaluateRatify policy inp = Ok u \<longleftrightarrow> validatePlanDeferredByAFK (ri_Deferred inp) = Ok () \<and>
     (\<exists>cs. mode_changes policy (ri_CurrentLedger inp) cs \<and> mode_chain InteractionNormal cs \<and> cs \<noteq> [] \<and>
        mo_To (last cs) = InteractionAFK \<and>
        le_ID (last (mode_entries (ri_CurrentLedger inp))) = pd_ModeEntry (ri_Deferred inp))"
proof -
  let ?L = "ri_CurrentLedger inp" and ?a = "pd_ModeEntry (ri_Deferred inp)"
  have "EvaluateRatify policy inp = Ok u \<longleftrightarrow> validatePlanDeferredByAFK (ri_Deferred inp) = Ok () \<and>
      (\<exists>c. EffectiveMode policy ?L = Ok c \<and> mc_Mode c = InteractionAFK \<and> mc_Entry c = Some ?a)"
    by (auto simp: EvaluateRatify_def split: option.splits)
  moreover have "(\<exists>c. EffectiveMode policy ?L = Ok c \<and> mc_Mode c = InteractionAFK \<and> mc_Entry c = Some ?a) \<longleftrightarrow>
      (\<exists>cs. mode_changes policy ?L cs \<and> mode_chain InteractionNormal cs \<and> cs \<noteq> [] \<and> mo_To (last cs) = InteractionAFK \<and>
        le_ID (last (mode_entries ?L)) = ?a)" (is "?l \<longleftrightarrow> ?r")
  proof
    assume ?l
    then show ?r by (auto simp: EffectiveMode_def fold_modes_Ok split: if_splits)
  next
    assume ?r
    then obtain cs where "mode_changes policy ?L cs" "mode_chain InteractionNormal cs" "cs \<noteq> []"
      "mo_To (last cs) = InteractionAFK" "le_ID (last (mode_entries ?L)) = ?a" by blast
    then have "EffectiveMode policy ?L = Ok \<lparr>mc_Entry = Some ?a, mc_Mode = InteractionAFK\<rparr>"
      unfolding EffectiveMode_def fold_modes_Ok by (intro exI [of _ cs]) simp
    then show ?l by simp
  qed
  ultimately show ?thesis by (simp only:)
qed

text \<open>C22: \<open>EvaluateRatify\<close> accepts a deferral on a ledger exactly when the deferral is well formed and the
  ledger's mode entries decode to one chain from the normal mode whose last entry is the
  anchor of the deferral and leads to AFK.  Hence a later mode entry under another identity,
  whatever mode it leads to, makes the deferral stale for good: no continuation without the
  anchor's identity revives it; entries of other kinds change nothing.\<close>

theorem ratify_exact:
  "(EvaluateRatify policy \<lparr>ri_Deferred = d, ri_CurrentLedger = L\<rparr> = Ok () \<longleftrightarrow>
      validatePlanDeferredByAFK d = Ok () \<and>
      (\<exists>cs. mode_changes policy L cs \<and> mode_chain InteractionNormal cs \<and> cs \<noteq> [] \<and> mo_To (last cs) = InteractionAFK \<and>
         le_ID (last (mode_entries L)) = pd_ModeEntry d)) \<and>
   (\<forall>L'. mode_entries L' \<noteq> [] \<and> pd_ModeEntry d \<notin> le_ID ` set (mode_entries L') \<longrightarrow>
      EvaluateRatify policy \<lparr>ri_Deferred = d, ri_CurrentLedger = L @ L'\<rparr> \<noteq> Ok ()) \<and>
   (\<forall>L'. mode_entries L' = [] \<longrightarrow>
      (EvaluateRatify policy \<lparr>ri_Deferred = d, ri_CurrentLedger = L @ L'\<rparr> = Ok () \<longleftrightarrow>
       EvaluateRatify policy \<lparr>ri_Deferred = d, ri_CurrentLedger = L\<rparr> = Ok ()))"
proof (intro conjI allI impI)
  fix L' assume later: "mode_entries L' \<noteq> [] \<and> pd_ModeEntry d \<notin> le_ID ` set (mode_entries L')"
  then have "last (mode_entries (L @ L')) \<in> set (mode_entries L')" by simp
  then have "le_ID (last (mode_entries (L @ L'))) \<in> le_ID ` set (mode_entries L')" by (rule imageI)
  with later have "le_ID (last (mode_entries (L @ L'))) \<noteq> pd_ModeEntry d" by metis
  then show "EvaluateRatify policy \<lparr>ri_Deferred = d, ri_CurrentLedger = L @ L'\<rparr> \<noteq> Ok ()"
    by (simp add: EvaluateRatify_Ok del: mode_entries_append)
qed (simp_all add: EvaluateRatify_Ok mode_changes_def)

section \<open>An instance\<close>

text \<open>A library whose codecs know one value each.\<close>

definition one_value :: "'v \<Rightarrow> 'v json_codec" where
  "one_value v = \<lparr>js_Marshal = (\<lambda>_. Some ''{}''), js_Unmarshal = (\<lambda>_. Some v)\<rparr>"

definition sample_snapshot :: PlanUATSnapshot where
  "sample_snapshot = \<lparr>ps_ID = ''d'', ps_UATTaskID = \<lparr>tk_Namespace = ''n'', tk_UUID = ''u''\<rparr>, ps_Proposal = ''p'',
     ps_DecisionEntry = ''d'', ps_InputLedger = ''e'', ps_OutputLedger = ''o''\<rparr>"

definition sample_deferral :: PlanDeferredByAFK where
  "sample_deferral = \<lparr>pd_Snapshot = sample_snapshot, pd_Interactions = [], pd_Feedback = [],
     pd_HeldQuestions = [\<lparr>hq_ID = ''q'', hq_Question = ''?'', hq_Stable = True\<rparr>], pd_ModeEntry = ''m1''\<rparr>"

definition sample_acceptance :: implementationUATRecord where
  "sample_acceptance = \<lparr>iu_Outcome = ImplUATAccepted, iu_Payload = \<lparr>im_Interactions = [], im_Feedback = [],
     im_HeldAnswers = [\<lparr>rs_Target = ''q'', rs_Kind = ResolutionConfirm, rs_Note = []\<rparr>], im_PlanFeedback = [],
     im_LedgerDecisions = []\<rparr>\<rparr>"

definition sample_lib :: policy_lib where
  "sample_lib = \<lparr>pl_sha256 = (\<lambda>_. ''x''), pl_modeChanged = one_value \<lparr>mo_From = InteractionNormal, mo_To = InteractionAFK\<rparr>,
     pl_planAccepted = one_value \<lparr>pa_Snapshot = sample_snapshot, pa_Interactions = [], pa_Feedback = []\<rparr>,
     pl_planChanges = one_value \<lparr>pc_Snapshot = sample_snapshot, pc_Interactions = [], pc_Feedback = []\<rparr>,
     pl_planDeferred = one_value sample_deferral, pl_implementationUAT = one_value sample_acceptance,
     pl_planRatified = one_value \<lparr>pr_Proposal = ''p'', pr_ReviewRound = ''r'', pr_PlanUAT = ''d''\<rparr>,
     pl_landed = one_value \<lparr>el_Candidate = ''c'', el_ImplementationUAT = ''d''\<rparr>\<rparr>"

lemma sample_digests: "digests_nonzero sample_lib"
  by (simp add: digests_nonzero_def policySchemaDigest_def sample_lib_def zero_digest_def production_kinds_def numeral_eq_Suc)

lemma sample_plan_codecs: "plan_codecs_total sample_lib"
  by (simp add: plan_codecs_total_def sample_lib_def one_value_def)

lemma sample_snapshot_complete: "snapshot_complete sample_snapshot"
  by (simp add: snapshot_complete_def sample_snapshot_def zero_TaskID_def)

theorem plan_uat_draft_exact_witness:
  "\<exists>ps. NewProductionPolicySet sample_lib 0 = (7, Ok ps) \<and>
    (\<exists>dr. DraftPlanUAT ps \<lparr>pu_Snapshot = sample_snapshot, pu_ReportedVerdict = PlanUATDeferredByAFK, pu_Interactions = [],
       pu_Feedback = [], pu_HeldQuestions = [\<lparr>hq_ID = ''q'', hq_Question = ''?'', hq_Stable = True\<rparr>],
       pu_Mode = \<lparr>mc_Entry = Some ''m1'', mc_Mode = InteractionAFK\<rparr>\<rparr> = Ok dr)"
proof -
  obtain ps where ps: "NewProductionPolicySet sample_lib 0 = (0 + 7, Ok ps)"
    using production_total [OF sample_digests] by blast
  show ?thesis
    using ps plan_uat_draft_exact [OF ps sample_plan_codecs] sample_snapshot_complete
    by (auto simp: plan_uat_admissible_def session_complete_def hasFixNowFeedback_def hasStableHeldQuestion_def)
qed

text \<open>The entry a production set stores for the one value its codec knows.\<close>

lemma sample_stored:
  assumes "NewProductionPolicySet sample_lib n = (m, Ok ps)"
  shows "ValidateStored (po_Catalog ps) \<lparr>de_Kind = DecisionImplementationUAT, de_Codec = policyCanonicalJSONCodec,
      de_Schema = ''x'', de_Payload = ''{}''\<rparr> = Ok ()"
    "DecodeDecision (po_Catalog ps) (po_modeChanged ps) \<lparr>de_Kind = DecisionInteractionModeChanged,
      de_Codec = policyCanonicalJSONCodec, de_Schema = ''x'', de_Payload = ''{}''\<rparr> =
      Ok \<lparr>mo_From = InteractionNormal, mo_To = InteractionAFK\<rparr>"
proof -
  obtain c where ps: "ps = production_set sample_lib n c"
    using assms by (auto simp: production_Ok_iff)
  let ?enc = "\<lparr>de_Kind = DecisionImplementationUAT, de_Codec = policyCanonicalJSONCodec, de_Schema = ''x'', de_Payload = ''{}''\<rparr>"
  have "DecodeDecision (po_Catalog ps) (po_implementationUAT ps) ?enc = Ok sample_acceptance"
    by (simp add: impl_reg.decode_Ok_iff [OF assms])
      (simp add: ps production_set_def policySchemaDigest_def sample_lib_def one_value_def validateImplementationUATRecord_def
        validateImplUATPayload_Ok sample_acceptance_def ImplUATVerdict_valid_def session_complete_def ResolutionKind_valid_def
        forcesChangesRequested_def hasFixNowFeedback_def replaces_def)
  moreover have "de_Kind ?enc = dd_kind (po_implementationUAT ps)" by (simp add: ps)
  ultimately show "ValidateStored (po_Catalog ps) ?enc = Ok ()"
    using impl_reg.stored_iff [OF assms] by blast
  show "DecodeDecision (po_Catalog ps) (po_modeChanged ps) \<lparr>de_Kind = DecisionInteractionModeChanged,
      de_Codec = policyCanonicalJSONCodec, de_Schema = ''x'', de_Payload = ''{}''\<rparr> =
      Ok \<lparr>mo_From = InteractionNormal, mo_To = InteractionAFK\<rparr>"
    by (simp add: mode_reg.decode_Ok_iff [OF assms])
      (simp add: ps production_set_def policySchemaDigest_def sample_lib_def one_value_def validateInteractionModeChanged_def
        fail_if_def InteractionMode_valid_def)
qed

theorem stored_implementation_uat_obeys_witness:
  "\<exists>ps. NewProductionPolicySet sample_lib 0 = (7, Ok ps) \<and> iu_Outcome sample_acceptance = ImplUATAccepted \<and>
     \<not> (\<exists>f \<in> set (im_Feedback (iu_Payload sample_acceptance)). fb_FixNow f) \<and>
     js_Marshal (pl_implementationUAT sample_lib) sample_acceptance = Some ''{}''"
proof -
  obtain ps where ps: "NewProductionPolicySet sample_lib 0 = (0 + 7, Ok ps)"
    using production_total [OF sample_digests] by blast
  have "js_Unmarshal (pl_implementationUAT sample_lib) ''{}'' = Some sample_acceptance"
    by (simp add: sample_lib_def one_value_def)
  then show ?thesis
    using ps stored_implementation_uat_obeys [OF ps _ sample_stored(1) [OF ps], of sample_acceptance]
    by (simp add: sample_acceptance_def)
qed

definition sample_entry :: "string \<Rightarrow> DecisionLedgerEntry" where
  "sample_entry i = \<lparr>le_ID = i, le_Epoch = ''e'', le_Actor = \<lparr>at_Decider = ''h'', at_DeciderKind = AgentKindHuman, at_Recorder = ''h'',
     at_RecorderKind = AgentKindHuman\<rparr>, le_SourceRequest = None, le_Context = None,
     le_Decision = \<lparr>de_Kind = DecisionInteractionModeChanged, de_Codec = policyCanonicalJSONCodec, de_Schema = ''x'', de_Payload = ''{}''\<rparr>\<rparr>"

theorem ratify_exact_witness:
  "\<exists>ps. NewProductionPolicySet sample_lib 0 = (7, Ok ps) \<and>
     EvaluateRatify ps \<lparr>ri_Deferred = sample_deferral, ri_CurrentLedger = [sample_entry ''m1'']\<rparr> = Ok () \<and>
     EvaluateRatify ps \<lparr>ri_Deferred = sample_deferral, ri_CurrentLedger = [sample_entry ''m1''] @ [sample_entry ''m2'']\<rparr> \<noteq> Ok ()"
proof -
  obtain ps where ps: "NewProductionPolicySet sample_lib 0 = (0 + 7, Ok ps)"
    using production_total [OF sample_digests] by blast
  have changes: "mode_changes ps [sample_entry ''m1''] [\<lparr>mo_From = InteractionNormal, mo_To = InteractionAFK\<rparr>]"
    using sample_stored(2) [OF ps] by (simp add: mode_changes_def mode_entries_def sample_entry_def)
  have valid: "validatePlanDeferredByAFK sample_deferral = Ok ()"
    using sample_snapshot_complete
    by (simp add: sample_deferral_def session_complete_def hasFixNowFeedback_def hasStableHeldQuestion_def)
  have "EvaluateRatify ps \<lparr>ri_Deferred = sample_deferral, ri_CurrentLedger = [sample_entry ''m1'']\<rparr> = Ok ()"
    using ratify_exact [of ps sample_deferral "[sample_entry ''m1'']"] changes valid
    by (auto simp: mode_entries_def sample_entry_def sample_deferral_def
        intro!: exI [of _ "[\<lparr>mo_From = InteractionNormal, mo_To = InteractionAFK\<rparr>]"])
  moreover have "EvaluateRatify ps \<lparr>ri_Deferred = sample_deferral, ri_CurrentLedger = [sample_entry ''m1''] @ [sample_entry ''m2'']\<rparr> \<noteq> Ok ()"
    by (rule ratify_exact [THEN conjunct2, THEN conjunct1, rule_format])
      (simp add: mode_entries_def sample_entry_def sample_deferral_def)
  ultimately show ?thesis using ps by auto
qed

end
