(* ===== verification/UatCoverage.thy ===== *)
theory UatCoverage
  imports DecisionPolicy "HOL-Library.Char_ord" "HOL-Library.List_Lexorder" "HOL-Library.Product_Lexorder"
    "HOL-Library.Multiset"
begin

text \<open>
  The coverage of an Implementation UAT (\<^verbatim>\<open>internal/tasks/uat_coverage.go\<close>): the set of
  decisions it has to resolve and the digest over a length-delimited encoding of what was
  decided.  \<^verbatim>\<open>sort.Slice\<close> with a comparison of keys is \<open>sort_key\<close>; elements with equal
  keys are equal where the code sorts, so its order among them does not matter.  SHA-256 is
  a parameter.
\<close>

section \<open>Required decisions\<close>

type_synonym RequiredRefKind = int
abbreviation (input) RequiredLedgerDecision :: RequiredRefKind where "RequiredLedgerDecision \<equiv> 1"
abbreviation (input) RequiredHeldQuestion :: RequiredRefKind where "RequiredHeldQuestion \<equiv> 2"
abbreviation (input) RequiredDeferredFeedback :: RequiredRefKind where "RequiredDeferredFeedback \<equiv> 3"

definition RequiredRefKind_String :: "RequiredRefKind \<Rightarrow> string" where
  "RequiredRefKind_String k =
     (if k = RequiredLedgerDecision then ''ledger-decision'' else if k = RequiredHeldQuestion then ''held-question''
      else if k = RequiredDeferredFeedback then ''deferred-feedback'' else ''RequiredRefKind('' @ dec_int k @ '')'')"

record RequiredRef =
  rr_Kind :: RequiredRefKind
  rr_ID :: string

definition RequiredRef_less :: "RequiredRef \<Rightarrow> RequiredRef \<Rightarrow> bool" where
  "RequiredRef_less r q = (if rr_Kind r \<noteq> rr_Kind q then rr_Kind r < rr_Kind q else rr_ID r < rr_ID q)"

definition ref_key :: "RequiredRef \<Rightarrow> RequiredRefKind \<times> string" where
  "ref_key r = (rr_Kind r, rr_ID r)"

record CoverageInput =
  ci_LedgerEntries :: "DecisionLedgerEntry list"
  ci_DeferredPlan :: "PlanDeferredByAFK option"
  ci_PriorResolutions :: "ImplUATPayload list"

definition isMaterialAgentJudgment :: "DecisionLedgerEntry \<Rightarrow> bool" where
  "isMaterialAgentJudgment e \<longleftrightarrow> at_DeciderKind (le_Actor e) \<noteq> AgentKindHuman"

text \<open>Appending what was not seen: the seen map always holds what the slice holds.\<close>

definition append_new :: "'a \<Rightarrow> 'a list \<Rightarrow> 'a list" where
  "append_new x out = (if x \<in> set out then out else out @ [x])"

definition MaterialAgentJudgments :: "DecisionLedgerEntry list \<Rightarrow> string list" where
  "MaterialAgentJudgments entries =
     sort (fold (\<lambda>e out. if \<not> isMaterialAgentJudgment e then out else append_new (le_ID e) out) entries [])"

definition resolved :: "(ImplUATPayload \<Rightarrow> Resolution list) \<Rightarrow> ImplUATPayload list \<Rightarrow> string list" where
  "resolved domain priors = concat (map (\<lambda>p. map rs_Target (domain p)) priors)"

definition RequiredDecisions :: "CoverageInput \<Rightarrow> RequiredRef list" where
  "RequiredDecisions inp =
     (let resolvedLedger = resolved im_LedgerDecisions (ci_PriorResolutions inp);
          resolvedHeld = resolved im_HeldAnswers (ci_PriorResolutions inp);
          resolvedFeedback = resolved im_PlanFeedback (ci_PriorResolutions inp);
          add = (\<lambda>gone kind i out. if i \<in> set gone then out else append_new \<lparr>rr_Kind = kind, rr_ID = i\<rparr> out);
          out1 = fold (add resolvedLedger RequiredLedgerDecision) (MaterialAgentJudgments (ci_LedgerEntries inp)) [];
          out2 = (case ci_DeferredPlan inp of
              None \<Rightarrow> out1
            | Some plan \<Rightarrow>
                fold (add resolvedFeedback RequiredDeferredFeedback) (map fb_ID (pd_Feedback plan))
                  (fold (add resolvedHeld RequiredHeldQuestion) (map hq_ID (pd_HeldQuestions plan)) out1)) in
      sort_key ref_key out2)"

section \<open>The digest\<close>

record CoverageDigestSpec =
  cs_RequiredRefs :: "RequiredRef list"
  cs_Outcome :: ImplementationUATVerdict
  cs_Payload :: ImplUATPayload
  cs_PlanDecision :: string
  cs_IntegrationSet :: string
  cs_InputLedger :: string

definition coverageDigestVersion :: string where
  "coverageDigestVersion = ''pasture.coverage-digest/v1''"

text \<open>\<^verbatim>\<open>binary.PutUvarint\<close>: seven bits a byte, least significant first, the high bit on all
  but the last.\<close>

fun writeCount :: "nat \<Rightarrow> string" where
  "writeCount n = (if n < 128 then [char_of n] else char_of (128 + n mod 128) # writeCount (n div 128))"

declare writeCount.simps [simp del]

definition writeDelimited :: "string \<Rightarrow> string" where
  "writeDelimited b = writeCount (length b) @ b"

definition resolution_list :: "ImplUATPayload \<Rightarrow> (string \<times> string \<times> string) list" where
  "resolution_list p =
     map (\<lambda>r. (''ledger-decision'', rs_Target r, ResolutionKind_String (rs_Kind r))) (im_LedgerDecisions p) @
     map (\<lambda>r. (''held-question'', rs_Target r, ResolutionKind_String (rs_Kind r))) (im_HeldAnswers p) @
     map (\<lambda>r. (''deferred-feedback'', rs_Target r, ResolutionKind_String (rs_Kind r))) (im_PlanFeedback p)"

definition coverage_preimage :: "CoverageDigestSpec \<Rightarrow> string" where
  "coverage_preimage spec =
     (let refs = sort_key ref_key (cs_RequiredRefs spec);
          resolutions = sort_key (\<lambda>(domain, target, kind). (domain, target)) (resolution_list (cs_Payload spec)) in
      writeDelimited coverageDigestVersion @ writeDelimited (cs_PlanDecision spec) @
      writeDelimited (cs_IntegrationSet spec) @ writeDelimited (cs_InputLedger spec) @
      writeCount (length refs) @
      concat (map (\<lambda>ref. writeDelimited (RequiredRefKind_String (rr_Kind ref)) @ writeDelimited (rr_ID ref)) refs) @
      writeCount (length resolutions) @
      concat (map (\<lambda>(domain, target, kind). writeDelimited domain @ writeDelimited target @ writeDelimited kind) resolutions) @
      writeDelimited (ImplUATVerdict_String (cs_Outcome spec)))"

definition ComputeCoverageDigest :: "(string \<Rightarrow> digest) \<Rightarrow> CoverageDigestSpec \<Rightarrow> policy_error + digest" where
  "ComputeCoverageDigest sha256 spec =
     result_bind (validateImplUATPayload (cs_Outcome spec) (cs_Payload spec)) (\<lambda>_. Ok (sha256 (coverage_preimage spec)))"

definition VerifyCoverage :: "(string \<Rightarrow> digest) \<Rightarrow> digest \<Rightarrow> CoverageDigestSpec \<Rightarrow> policy_error + unit" where
  "VerifyCoverage sha256 stored spec =
     result_bind (ComputeCoverageDigest sha256 spec) (\<lambda>recomputed.
       fail_if (recomputed \<noteq> stored) (coverageErr ''VerifyCoverage'' (''the recomputed coverage digest '' @
         CoverageDigest_MarshalText recomputed @ '' does not match the accepted digest '' @ CoverageDigest_MarshalText stored)))"

section \<open>The required set\<close>

lemma set_append_new [simp]: "set (append_new x out) = insert x (set out)"
  by (auto simp: append_new_def)

lemma distinct_append_new [simp]: "distinct out \<Longrightarrow> distinct (append_new x out)"
  by (auto simp: append_new_def)

text \<open>The loops collect, without repetition, the images of the elements they do not skip.\<close>

lemma fold_append_new:
  assumes "distinct out"
  shows "set (fold (\<lambda>x out. if P x then out else append_new (f x) out) xs out) = set out \<union> f ` {x \<in> set xs. \<not> P x}"
    "distinct (fold (\<lambda>x out. if P x then out else append_new (f x) out) xs out)"
  using assms by (induction xs arbitrary: out) auto

lemma MaterialAgentJudgments_set: "set (MaterialAgentJudgments L) = le_ID ` {e \<in> set L. isMaterialAgentJudgment e}"
  using fold_append_new(1) [of "[]" "\<lambda>e. \<not> isMaterialAgentJudgment e" le_ID L]
  by (simp add: MaterialAgentJudgments_def)

lemma ref_key_inj [simp]: "ref_key r = ref_key q \<longleftrightarrow> r = q"
  by (cases r; cases q) (auto simp: ref_key_def)

lemma RequiredRef_less_key: "RequiredRef_less r q \<longleftrightarrow> ref_key r < ref_key q"
  by (auto simp: RequiredRef_less_def ref_key_def less_prod_def)

lemma set_resolved: "set (resolved d ps) = (\<Union>p \<in> set ps. rs_Target ` set (d p))"
  by (auto simp: resolved_def)

text \<open>What an Implementation UAT has to resolve.\<close>

definition required_set :: "CoverageInput \<Rightarrow> RequiredRef set" where
  "required_set inp =
     {\<lparr>rr_Kind = RequiredLedgerDecision, rr_ID = le_ID e\<rparr> | e. e \<in> set (ci_LedgerEntries inp) \<and>
        isMaterialAgentJudgment e \<and> le_ID e \<notin> set (resolved im_LedgerDecisions (ci_PriorResolutions inp))} \<union>
     {\<lparr>rr_Kind = RequiredHeldQuestion, rr_ID = hq_ID q\<rparr> | q plan. ci_DeferredPlan inp = Some plan \<and>
        q \<in> set (pd_HeldQuestions plan) \<and> hq_ID q \<notin> set (resolved im_HeldAnswers (ci_PriorResolutions inp))} \<union>
     {\<lparr>rr_Kind = RequiredDeferredFeedback, rr_ID = fb_ID f\<rparr> | f plan. ci_DeferredPlan inp = Some plan \<and>
        f \<in> set (pd_Feedback plan) \<and> fb_ID f \<notin> set (resolved im_PlanFeedback (ci_PriorResolutions inp))}"

definition collect_refs :: "string list \<Rightarrow> RequiredRefKind \<Rightarrow> string list \<Rightarrow> RequiredRef list \<Rightarrow> RequiredRef list" where
  "collect_refs gone kind ids out =
     fold (\<lambda>i out. if i \<in> set gone then out else append_new \<lparr>rr_Kind = kind, rr_ID = i\<rparr> out) ids out"

lemma collect_refs:
  assumes "distinct out"
  shows "set (collect_refs gone kind ids out) = set out \<union> (\<lambda>i. \<lparr>rr_Kind = kind, rr_ID = i\<rparr>) ` (set ids - set gone)"
    "distinct (collect_refs gone kind ids out)"
  using fold_append_new [OF assms, of "\<lambda>i. i \<in> set gone" "\<lambda>i. \<lparr>rr_Kind = kind, rr_ID = i\<rparr>" ids]
  by (auto simp: collect_refs_def)

lemma RequiredDecisions_collect:
  "RequiredDecisions inp = sort_key ref_key
     (let out1 = collect_refs (resolved im_LedgerDecisions (ci_PriorResolutions inp)) RequiredLedgerDecision
          (MaterialAgentJudgments (ci_LedgerEntries inp)) [] in
      case ci_DeferredPlan inp of None \<Rightarrow> out1
      | Some plan \<Rightarrow> collect_refs (resolved im_PlanFeedback (ci_PriorResolutions inp)) RequiredDeferredFeedback
          (map fb_ID (pd_Feedback plan))
          (collect_refs (resolved im_HeldAnswers (ci_PriorResolutions inp)) RequiredHeldQuestion
            (map hq_ID (pd_HeldQuestions plan)) out1))"
  by (cases "ci_DeferredPlan inp") (simp_all add: RequiredDecisions_def collect_refs_def Let_def)

lemma RequiredDecisions_set: "set (RequiredDecisions inp) = required_set inp"
  and RequiredDecisions_distinct: "distinct (RequiredDecisions inp)"
  by (auto simp: RequiredDecisions_collect Let_def collect_refs MaterialAgentJudgments_set required_set_def split: option.splits)

lemma sorted_less_wrt:
  assumes "sorted (map f xs)" "distinct xs" "\<And>x y. f x = f y \<longleftrightarrow> x = y"
  shows "sorted_wrt (\<lambda>x y. f x < f y) xs"
  using assms by (induction xs) (auto simp: order.order_iff_strict)

text \<open>\<open>RequiredDecisions\<close> lists, strictly ascending for the canonical order of references and so
  without repetition, exactly the targets that are still open: the entries of the epoch's
  ledger that a non-human decided, the held questions and the feedback of the deferred plan,
  less what an earlier Implementation UAT resolved in the same domain.\<close>

theorem required_decisions_exact:
  "set (RequiredDecisions inp) = required_set inp \<and> sorted_wrt RequiredRef_less (RequiredDecisions inp)"
proof -
  have "sorted (map ref_key (RequiredDecisions inp))"
    by (simp add: RequiredDecisions_collect)
  then have "sorted_wrt (\<lambda>x y. ref_key x < ref_key y) (RequiredDecisions inp)"
    by (rule sorted_less_wrt) (simp_all add: RequiredDecisions_distinct)
  then show ?thesis by (simp add: RequiredDecisions_set RequiredRef_less_key [abs_def])
qed

section \<open>Unique decoding of the preimage\<close>

lemma char_of_small_eq: "m < 256 \<Longrightarrow> n < 256 \<Longrightarrow> (char_of m :: char) = char_of n \<longleftrightarrow> m = (n :: nat)"
  by (metis of_char_char_of_small)

lemma writeCount_prefix: "writeCount m @ x = writeCount n @ y \<Longrightarrow> m = n \<and> x = y"
proof (induction m arbitrary: n rule: writeCount.induct)
  case (1 m)
  have lt: "128 + k mod 128 < 256" for k :: nat by (simp add: less_le_trans [OF add_strict_left_mono [of "k mod 128" 128 128]])
  show ?case
  proof (cases "m < 128 \<or> n < 128")
    case True
    then show ?thesis using "1.prems" lt [of m] lt [of n]
      by (auto simp: writeCount.simps [of m] writeCount.simps [of n] char_of_small_eq split: if_splits)
  next
    case False
    then have "m mod 128 = n mod 128" "writeCount (m div 128) @ x = writeCount (n div 128) @ y"
      using "1.prems" lt [of m] lt [of n]
      by (simp_all add: writeCount.simps [of m] writeCount.simps [of n] char_of_small_eq)
    with "1.IH" False have "m mod 128 = n mod 128 \<and> m div 128 = n div 128 \<and> x = y" by blast
    then show ?thesis by (metis div_mult_mod_eq)
  qed
qed

lemma writeDelimited_prefix: "writeDelimited a @ x = writeDelimited b @ y \<Longrightarrow> a = b \<and> x = y"
  using writeCount_prefix [of "length a" "a @ x" "length b" "b @ y"]
  by (auto simp: writeDelimited_def)

lemma concat_prefix:
  assumes step: "\<And>a b x y. a \<in> A \<Longrightarrow> b \<in> A \<Longrightarrow> f a @ x = f b @ y \<Longrightarrow> a = b \<and> x = y"
    and "length xs = length ys" "set xs \<subseteq> A" "set ys \<subseteq> A"
    and "concat (map f xs) @ x = concat (map f ys) @ y"
  shows "xs = ys \<and> x = y"
  using assms(2-)
proof (induction xs ys rule: list_induct2)
  case (Cons a xs b ys)
  then have "a = b \<and> concat (map f xs) @ x = concat (map f ys) @ y"
    by (intro step) simp_all
  with Cons show ?case by simp
qed simp

lemma counted_prefix:
  assumes "\<And>a b x y. a \<in> A \<Longrightarrow> b \<in> A \<Longrightarrow> f a @ x = f b @ y \<Longrightarrow> a = b \<and> x = y"
    and "set xs \<subseteq> A" "set ys \<subseteq> A"
    and "writeCount (length xs) @ concat (map f xs) @ x = writeCount (length ys) @ concat (map f ys) @ y"
  shows "xs = ys \<and> x = y"
  using writeCount_prefix [OF assms(4)] concat_prefix [OF assms(1) _ assms(2,3)] by blast

definition ref_valid :: "RequiredRef \<Rightarrow> bool" where
  "ref_valid r \<longleftrightarrow> rr_Kind r \<in> {RequiredLedgerDecision, RequiredHeldQuestion, RequiredDeferredFeedback}"

lemma ref_encoding_prefix:
  assumes "ref_valid a" "ref_valid b"
    "(writeDelimited (RequiredRefKind_String (rr_Kind a)) @ writeDelimited (rr_ID a)) @ x =
     (writeDelimited (RequiredRefKind_String (rr_Kind b)) @ writeDelimited (rr_ID b)) @ y"
  shows "a = b \<and> x = y"
proof -
  have "RequiredRefKind_String (rr_Kind a) = RequiredRefKind_String (rr_Kind b) \<and>
      writeDelimited (rr_ID a) @ x = writeDelimited (rr_ID b) @ y"
    using assms(3) by (intro writeDelimited_prefix) simp
  moreover from this have "rr_ID a = rr_ID b \<and> x = y"
    by (intro writeDelimited_prefix) simp
  moreover have "rr_Kind a = rr_Kind b" if "RequiredRefKind_String (rr_Kind a) = RequiredRefKind_String (rr_Kind b)"
    using that assms(1,2) by (auto simp: ref_valid_def RequiredRefKind_String_def split: if_splits)
  ultimately show ?thesis by simp
qed

lemma resolution_encoding_prefix:
  fixes a b :: "string \<times> string \<times> string"
  assumes "(\<lambda>(domain, target, kind). writeDelimited domain @ writeDelimited target @ writeDelimited kind) a @ x =
     (\<lambda>(domain, target, kind). writeDelimited domain @ writeDelimited target @ writeDelimited kind) b @ y"
  shows "a = b \<and> x = y"
  using assms by (cases a; cases b) (auto dest!: writeDelimited_prefix)

abbreviation (input) resolution_key :: "string \<times> string \<times> string \<Rightarrow> string \<times> string" where
  "resolution_key \<equiv> \<lambda>(domain, target, kind). (domain, target)"

lemma preimage_fields:
  assumes "coverage_preimage s = coverage_preimage t" "list_all ref_valid (cs_RequiredRefs s)" "list_all ref_valid (cs_RequiredRefs t)"
  shows "cs_PlanDecision s = cs_PlanDecision t" "cs_IntegrationSet s = cs_IntegrationSet t" "cs_InputLedger s = cs_InputLedger t"
    "sort_key ref_key (cs_RequiredRefs s) = sort_key ref_key (cs_RequiredRefs t)"
    "sort_key resolution_key (resolution_list (cs_Payload s)) = sort_key resolution_key (resolution_list (cs_Payload t))"
    "ImplUATVerdict_String (cs_Outcome s) = ImplUATVerdict_String (cs_Outcome t)"
proof -
  let ?f = "\<lambda>ref. writeDelimited (RequiredRefKind_String (rr_Kind ref)) @ writeDelimited (rr_ID ref)"
  let ?g = "\<lambda>(domain, target, kind). writeDelimited domain @ writeDelimited target @ writeDelimited kind"
  let ?refs = "\<lambda>s. sort_key ref_key (cs_RequiredRefs s)"
  let ?res = "\<lambda>s. sort_key resolution_key (resolution_list (cs_Payload s))"
  let ?out = "\<lambda>s. writeDelimited (ImplUATVerdict_String (cs_Outcome s))"
  let ?t2 = "\<lambda>s. writeCount (length (?res s)) @ concat (map ?g (?res s)) @ ?out s"
  let ?t1 = "\<lambda>s. writeCount (length (?refs s)) @ concat (map ?f (?refs s)) @ ?t2 s"
  have "writeDelimited coverageDigestVersion @ writeDelimited (cs_PlanDecision s) @ writeDelimited (cs_IntegrationSet s) @
        writeDelimited (cs_InputLedger s) @ ?t1 s =
      writeDelimited coverageDigestVersion @ writeDelimited (cs_PlanDecision t) @ writeDelimited (cs_IntegrationSet t) @
        writeDelimited (cs_InputLedger t) @ ?t1 t"
    using assms(1) by (simp only: coverage_preimage_def Let_def)
  then have heads: "cs_PlanDecision s = cs_PlanDecision t \<and> cs_IntegrationSet s = cs_IntegrationSet t \<and>
      cs_InputLedger s = cs_InputLedger t" and t1: "?t1 s = ?t1 t"
    by (blast dest: writeDelimited_prefix)+
  have refs: "?refs s = ?refs t \<and> ?t2 s = ?t2 t"
  proof (rule counted_prefix [where A = "Collect ref_valid", OF _ _ _ t1])
    show "a = b \<and> x = y" if "a \<in> Collect ref_valid" "b \<in> Collect ref_valid" "?f a @ x = ?f b @ y" for a b x y
      using that ref_encoding_prefix by blast
  qed (use assms(2,3) in \<open>auto simp: list_all_iff\<close>)
  then have "?res s = ?res t \<and> ?out s = ?out t"
    by (intro counted_prefix [where A = UNIV and f = ?g] resolution_encoding_prefix) auto
  moreover from this have "ImplUATVerdict_String (cs_Outcome s) = ImplUATVerdict_String (cs_Outcome t)"
    using writeDelimited_prefix [of _ "[]" _ "[]"] by auto
  ultimately show "cs_PlanDecision s = cs_PlanDecision t" "cs_IntegrationSet s = cs_IntegrationSet t"
    "cs_InputLedger s = cs_InputLedger t" "?refs s = ?refs t" "?res s = ?res t"
    "ImplUATVerdict_String (cs_Outcome s) = ImplUATVerdict_String (cs_Outcome t)"
    using heads refs by simp_all
qed

section \<open>The digest is one of the decided content\<close>

definition decided :: "Resolution list \<Rightarrow> (string \<times> ResolutionKind) multiset" where
  "decided rs = mset (map (\<lambda>r. (rs_Target r, rs_Kind r)) rs)"

definition same_resolutions :: "ImplUATPayload \<Rightarrow> ImplUATPayload \<Rightarrow> bool" where
  "same_resolutions p q \<longleftrightarrow> decided (im_LedgerDecisions p) = decided (im_LedgerDecisions q) \<and>
     decided (im_HeldAnswers p) = decided (im_HeldAnswers q) \<and> decided (im_PlanFeedback p) = decided (im_PlanFeedback q)"

definition kind_of_text :: "string \<Rightarrow> ResolutionKind" where
  "kind_of_text s = (if s = ''confirm'' then ResolutionConfirm else if s = ''defer'' then ResolutionDefer else ResolutionReplace)"

lemma kind_of_text [simp]: "ResolutionKind_valid k \<Longrightarrow> kind_of_text (ResolutionKind_String k) = k"
  by (auto simp: ResolutionKind_valid_def kind_of_text_def ResolutionKind_String_def)

definition tagged :: "string \<Rightarrow> Resolution list \<Rightarrow> (string \<times> string \<times> string) list" where
  "tagged domain rs = map (\<lambda>r. (domain, rs_Target r, ResolutionKind_String (rs_Kind r))) rs"

lemma tagged_mset: "mset (tagged d rs) = image_mset (\<lambda>(t, k). (d, t, ResolutionKind_String k)) (decided rs)"
  by (simp add: tagged_def decided_def image_mset.compositionality comp_def)

lemma decided_tagged:
  assumes "\<forall>r \<in> set rs. ResolutionKind_valid (rs_Kind r)"
  shows "image_mset (\<lambda>(d, t, k). (t, kind_of_text k)) (mset (tagged d rs)) = decided rs"
proof -
  have "map (\<lambda>(d, t, k). (t, kind_of_text k)) (tagged d rs) = map (\<lambda>r. (rs_Target r, rs_Kind r)) rs"
    using assms by (simp add: tagged_def)
  then show ?thesis by (metis decided_def mset_map)
qed

lemma resolution_list_tagged:
  "resolution_list p = tagged ''ledger-decision'' (im_LedgerDecisions p) @ tagged ''held-question'' (im_HeldAnswers p) @
     tagged ''deferred-feedback'' (im_PlanFeedback p)"
  by (simp add: resolution_list_def tagged_def)

lemma filter_tagged: "filter (\<lambda>x. fst x = d) (tagged d' rs) = (if d = d' then tagged d' rs else [])"
  by (auto simp: tagged_def filter_empty_conv)

lemma resolution_list_domains:
  "filter (\<lambda>x. fst x = ''ledger-decision'') (resolution_list p) = tagged ''ledger-decision'' (im_LedgerDecisions p)"
  "filter (\<lambda>x. fst x = ''held-question'') (resolution_list p) = tagged ''held-question'' (im_HeldAnswers p)"
  "filter (\<lambda>x. fst x = ''deferred-feedback'') (resolution_list p) = tagged ''deferred-feedback'' (im_PlanFeedback p)"
  by (simp_all add: resolution_list_tagged filter_tagged)

lemma same_resolutions_iff:
  assumes "validateImplUATPayload v p = Ok ()" "validateImplUATPayload w q = Ok ()"
  shows "mset (resolution_list p) = mset (resolution_list q) \<longleftrightarrow> same_resolutions p q"
proof
  assume same: "mset (resolution_list p) = mset (resolution_list q)"
  have "mset (filter P (resolution_list p)) = mset (filter P (resolution_list q))" for P
    using same by (simp add: mset_filter)
  then have eq: "mset (tagged ''ledger-decision'' (im_LedgerDecisions p)) = mset (tagged ''ledger-decision'' (im_LedgerDecisions q))"
    "mset (tagged ''held-question'' (im_HeldAnswers p)) = mset (tagged ''held-question'' (im_HeldAnswers q))"
    "mset (tagged ''deferred-feedback'' (im_PlanFeedback p)) = mset (tagged ''deferred-feedback'' (im_PlanFeedback q))"
    by (metis resolution_list_domains)+
  have kinds: "\<forall>r \<in> set rs. ResolutionKind_valid (rs_Kind r)"
    if "rs \<in> {im_LedgerDecisions p, im_HeldAnswers p, im_PlanFeedback p, im_LedgerDecisions q, im_HeldAnswers q, im_PlanFeedback q}" for rs
    using that assms by (auto simp: validateImplUATPayload_Ok)
  have dec: "decided rs = decided rs'" if "mset (tagged d rs) = mset (tagged d rs')" "\<forall>r \<in> set rs. ResolutionKind_valid (rs_Kind r)"
    "\<forall>r \<in> set rs'. ResolutionKind_valid (rs_Kind r)" for rs rs' d
    using that by (metis decided_tagged)
  show "same_resolutions p q"
    unfolding same_resolutions_def by (intro conjI dec [OF eq(1)] dec [OF eq(2)] dec [OF eq(3)] kinds) simp_all
next
  assume "same_resolutions p q"
  then show "mset (resolution_list p) = mset (resolution_list q)"
    by (simp add: resolution_list_tagged tagged_mset same_resolutions_def)
qed

lemma resolution_keys_inj:
  assumes "validateImplUATPayload v p = Ok ()"
  shows "inj_on resolution_key (set (resolution_list p))"
proof -
  have "inj_on rs_Target (set rs)" if "rs \<in> {im_LedgerDecisions p, im_HeldAnswers p, im_PlanFeedback p}" for rs
    using that assms by (auto simp: validateImplUATPayload_Ok distinct_map)
  then have inj: "inj_on rs_Target (set (im_LedgerDecisions p))" "inj_on rs_Target (set (im_HeldAnswers p))"
    "inj_on rs_Target (set (im_PlanFeedback p))" by simp_all
  show ?thesis
    by (rule inj_onI) (auto simp: resolution_list_def dest: inj_onD [OF inj(1)] inj_onD [OF inj(2)] inj_onD [OF inj(3)])
qed

text \<open>Sorting by a key that tells the elements apart depends on the multiset alone.\<close>

lemma sort_key_mset_iff:
  assumes "inj_on f (set xs)" "inj_on f (set ys)"
  shows "sort_key f xs = sort_key f ys \<longleftrightarrow> mset xs = mset ys"
proof
  assume "mset xs = mset ys"
  then show "sort_key f xs = sort_key f ys"
    using assms(1) by (intro sort_key_inj_key_eq) simp_all
qed (metis mset_sort)

lemma ImplUATVerdict_String_inj:
  "ImplUATVerdict_valid v \<Longrightarrow> ImplUATVerdict_valid w \<Longrightarrow> ImplUATVerdict_String v = ImplUATVerdict_String w \<longleftrightarrow> v = w"
  by (auto simp: ImplUATVerdict_valid_def ImplUATVerdict_String_def)

text \<open>What a coverage digest is about.\<close>

definition same_decision :: "CoverageDigestSpec \<Rightarrow> CoverageDigestSpec \<Rightarrow> bool" where
  "same_decision s t \<longleftrightarrow> cs_PlanDecision s = cs_PlanDecision t \<and> cs_IntegrationSet s = cs_IntegrationSet t \<and>
     cs_InputLedger s = cs_InputLedger t \<and> mset (cs_RequiredRefs s) = mset (cs_RequiredRefs t) \<and>
     same_resolutions (cs_Payload s) (cs_Payload t) \<and> cs_Outcome s = cs_Outcome t"

lemma preimage_iff:
  assumes "validateImplUATPayload (cs_Outcome s) (cs_Payload s) = Ok ()" "validateImplUATPayload (cs_Outcome t) (cs_Payload t) = Ok ()"
    "list_all ref_valid (cs_RequiredRefs s)" "list_all ref_valid (cs_RequiredRefs t)"
  shows "coverage_preimage s = coverage_preimage t \<longleftrightarrow> same_decision s t"
proof -
  have refs: "sort_key ref_key (cs_RequiredRefs s) = sort_key ref_key (cs_RequiredRefs t) \<longleftrightarrow>
      mset (cs_RequiredRefs s) = mset (cs_RequiredRefs t)"
    by (rule sort_key_mset_iff) (auto intro: inj_onI)
  have res: "sort_key resolution_key (resolution_list (cs_Payload s)) = sort_key resolution_key (resolution_list (cs_Payload t)) \<longleftrightarrow>
      same_resolutions (cs_Payload s) (cs_Payload t)"
    using sort_key_mset_iff [OF resolution_keys_inj [OF assms(1)] resolution_keys_inj [OF assms(2)]]
      same_resolutions_iff [OF assms(1,2)] by simp
  have out: "ImplUATVerdict_String (cs_Outcome s) = ImplUATVerdict_String (cs_Outcome t) \<longleftrightarrow> cs_Outcome s = cs_Outcome t"
    using assms(1,2) by (intro ImplUATVerdict_String_inj) (simp_all add: validateImplUATPayload_Ok)
  show ?thesis
  proof
    assume "coverage_preimage s = coverage_preimage t"
    from preimage_fields [OF this assms(3,4)] show "same_decision s t"
      using refs res out by (simp add: same_decision_def)
  next
    assume "same_decision s t"
    then show "coverage_preimage s = coverage_preimage t"
      using refs res out by (simp add: same_decision_def coverage_preimage_def)
  qed
qed

text \<open>C23: two accepted coverage specifications have the same digest exactly when they decide the same: the
  same plan decision, candidate set, input ledger and verdict, the same required references
  and, per domain, the same targets with the same dispositions, in whatever order either lists
  them and whatever the notes say.  This holds where SHA-256 does not collide on the two
  encodings: no two contents share an encoding.\<close>

theorem coverage_digest_content:
  assumes "ComputeCoverageDigest sha256 s = Ok d" "ComputeCoverageDigest sha256 t = Ok e"
    "list_all ref_valid (cs_RequiredRefs s)" "list_all ref_valid (cs_RequiredRefs t)"
    "sha256 (coverage_preimage s) = sha256 (coverage_preimage t) \<Longrightarrow> coverage_preimage s = coverage_preimage t"
  shows "d = e \<longleftrightarrow> same_decision s t"
  using assms preimage_iff [of s t] by (auto simp: ComputeCoverageDigest_def)

lemma required_refs_valid: "list_all ref_valid (RequiredDecisions inp)"
  unfolding list_all_iff RequiredDecisions_set by (auto simp: required_set_def ref_valid_def)

text \<open>What one more entry does to the required set.\<close>

lemma required_set_append:
  "required_set (inp\<lparr>ci_LedgerEntries := ci_LedgerEntries inp @ [e]\<rparr>) \<noteq> required_set inp \<longleftrightarrow>
     isMaterialAgentJudgment e \<and> le_ID e \<notin> set (resolved im_LedgerDecisions (ci_PriorResolutions inp)) \<and>
     (\<forall>f \<in> set (ci_LedgerEntries inp). isMaterialAgentJudgment f \<longrightarrow> le_ID f \<noteq> le_ID e)"
proof -
  let ?r = "\<lparr>rr_Kind = RequiredLedgerDecision, rr_ID = le_ID e\<rparr>"
  have app: "required_set (inp\<lparr>ci_LedgerEntries := ci_LedgerEntries inp @ [e]\<rparr>) =
      required_set inp \<union> (if isMaterialAgentJudgment e \<and> le_ID e \<notin> set (resolved im_LedgerDecisions (ci_PriorResolutions inp))
        then {?r} else {})"
    by (auto simp: required_set_def)
  have "?r \<in> required_set inp \<longleftrightarrow> le_ID e \<notin> set (resolved im_LedgerDecisions (ci_PriorResolutions inp)) \<and>
      (\<exists>f \<in> set (ci_LedgerEntries inp). isMaterialAgentJudgment f \<and> le_ID f = le_ID e)"
    by (simp add: required_set_def) metis
  then show ?thesis unfolding app by auto
qed

text \<open>C33: a digest accepted for the required decisions of one state of the ledger verifies against another
  state, read at another revision of the ledger document, exactly when the required sets agree and
  the revision is the accepted one.  At the accepted revision an entry appended later makes it stale
  exactly when it is a judgement of an agent that no earlier payload has resolved, under an
  identity no listed judgement of an agent has; an entry decided by a human, one already resolved and one
  repeated leave the digest valid, so the ledger revision, and not the required set, is what marks
  every append.  (Where SHA-256 does not collide on the two encodings.)\<close>

theorem coverage_stale:
  assumes "cs_RequiredRefs spec = RequiredDecisions inp" "VerifyCoverage sha256 d spec = Ok ()"
    "\<And>refs rev. sha256 (coverage_preimage (spec\<lparr>cs_RequiredRefs := refs, cs_InputLedger := rev\<rparr>)) = sha256 (coverage_preimage spec) \<Longrightarrow>
       coverage_preimage (spec\<lparr>cs_RequiredRefs := refs, cs_InputLedger := rev\<rparr>) = coverage_preimage spec"
  shows "(VerifyCoverage sha256 d (spec\<lparr>cs_RequiredRefs := RequiredDecisions inp', cs_InputLedger := rev'\<rparr>) = Ok () \<longleftrightarrow>
      required_set inp' = required_set inp \<and> rev' = cs_InputLedger spec) \<and>
    (VerifyCoverage sha256 d (spec\<lparr>cs_RequiredRefs :=
        RequiredDecisions (inp\<lparr>ci_LedgerEntries := ci_LedgerEntries inp @ [e]\<rparr>)\<rparr>) \<noteq> Ok () \<longleftrightarrow>
      isMaterialAgentJudgment e \<and> le_ID e \<notin> set (resolved im_LedgerDecisions (ci_PriorResolutions inp)) \<and>
      (\<forall>f \<in> set (ci_LedgerEntries inp). isMaterialAgentJudgment f \<longrightarrow> le_ID f \<noteq> le_ID e))"
proof -
  have valid: "validateImplUATPayload (cs_Outcome spec) (cs_Payload spec) = Ok ()" and d: "sha256 (coverage_preimage spec) = d"
    using assms(2) by (auto simp: VerifyCoverage_def ComputeCoverageDigest_def)
  have exact: "VerifyCoverage sha256 d (spec\<lparr>cs_RequiredRefs := RequiredDecisions i, cs_InputLedger := rev\<rparr>) = Ok () \<longleftrightarrow>
      required_set i = required_set inp \<and> rev = cs_InputLedger spec" for i rev
  proof -
    let ?t = "spec\<lparr>cs_RequiredRefs := RequiredDecisions i, cs_InputLedger := rev\<rparr>"
    have "VerifyCoverage sha256 d ?t = Ok () \<longleftrightarrow> coverage_preimage ?t = coverage_preimage spec"
      using valid d assms(3) [of rev "RequiredDecisions i"]
      by (auto simp: VerifyCoverage_def ComputeCoverageDigest_def)
    also have "\<dots> \<longleftrightarrow> mset (RequiredDecisions i) = mset (RequiredDecisions inp) \<and> rev = cs_InputLedger spec"
      using valid by (subst preimage_iff) (auto simp: assms(1) required_refs_valid same_decision_def same_resolutions_def)
    also have "\<dots> \<longleftrightarrow> required_set i = required_set inp \<and> rev = cs_InputLedger spec"
      by (metis RequiredDecisions_distinct RequiredDecisions_set set_eq_iff_mset_eq_distinct)
    finally show ?thesis .
  qed
  have "VerifyCoverage sha256 d (spec\<lparr>cs_RequiredRefs := RequiredDecisions i\<rparr>) = Ok () \<longleftrightarrow>
      required_set i = required_set inp" for i
    using exact [of "cs_InputLedger spec" i] by simp
  then show ?thesis using exact [of rev' inp'] required_set_append [of inp e] by blast
qed

section \<open>The text of a digest\<close>

lemma hex_val_hex_char: "n < 16 \<Longrightarrow> hex_val (hex_char n) = Some n"
  by (auto simp: hex_val_def hex_char_def Let_def)

lemma DecodeString_Encode: "DecodeString (EncodeToString bs) = Some bs"
proof (induction bs)
  case (Cons c bs)
  have "(of_char c :: nat) < 256" by (rule nat_of_char_less_256)
  then have "(of_char c :: nat) div 16 < 16" by (intro less_mult_imp_div_less) simp
  moreover have "char_of (16 * ((of_char c :: nat) div 16) + of_char c mod 16) = c"
    by simp
  ultimately show ?case using Cons by (simp add: EncodeToString_def hex_byte_def hex_val_hex_char)
qed (simp add: EncodeToString_def)

text \<open>The text form of a coverage digest parses back to the digest, and only digests of 32 bytes parse.\<close>

theorem digest_text_roundtrip:
  "(length d = 32 \<longrightarrow> ParseCoverageDigest (CoverageDigest_MarshalText d) = Ok d) \<and>
   (\<forall>s d'. ParseCoverageDigest s = Ok d' \<longrightarrow> length d' = 32 \<and> HasPrefix s coverageDigestPrefix)"
  by (auto simp: ParseCoverageDigest_def CoverageDigest_MarshalText_def coverageDigestPrefix_def DecodeString_Encode
      HasPrefix_def Let_def split: option.splits if_splits)

section \<open>An instance\<close>

definition sample_coverage_input :: CoverageInput where
  "sample_coverage_input = \<lparr>ci_LedgerEntries = [], ci_DeferredPlan = Some sample_deferral, ci_PriorResolutions = []\<rparr>"

definition sample_spec :: CoverageDigestSpec where
  "sample_spec = \<lparr>cs_RequiredRefs = RequiredDecisions sample_coverage_input, cs_Outcome = ImplUATAccepted,
     cs_Payload = iu_Payload sample_acceptance, cs_PlanDecision = ''d'', cs_IntegrationSet = ''c'', cs_InputLedger = ''e''\<rparr>"

lemma sample_spec_valid: "validateImplUATPayload (cs_Outcome sample_spec) (cs_Payload sample_spec) = Ok ()"
  by (simp add: validateImplUATPayload_Ok sample_spec_def sample_acceptance_def ImplUATVerdict_valid_def session_complete_def
      ResolutionKind_valid_def forcesChangesRequested_def hasFixNowFeedback_def replaces_def)

theorem coverage_digest_content_witness:
  "ComputeCoverageDigest (\<lambda>s. s) sample_spec \<noteq> ComputeCoverageDigest (\<lambda>s. s) (sample_spec\<lparr>cs_InputLedger := ''f''\<rparr>)"
proof -
  obtain d where d: "ComputeCoverageDigest (\<lambda>s. s) sample_spec = Ok d"
    using sample_spec_valid by (simp add: ComputeCoverageDigest_def)
  obtain e where e: "ComputeCoverageDigest (\<lambda>s. s) (sample_spec\<lparr>cs_InputLedger := ''f''\<rparr>) = Ok e"
    using sample_spec_valid by (simp add: ComputeCoverageDigest_def)
  have "list_all ref_valid (cs_RequiredRefs sample_spec)"
    by (simp add: sample_spec_def required_refs_valid)
  then have "d = e \<longleftrightarrow> same_decision sample_spec (sample_spec\<lparr>cs_InputLedger := ''f''\<rparr>)"
    by (intro coverage_digest_content [OF d e]) simp_all
  then show ?thesis using d e by (simp add: same_decision_def sample_spec_def)
qed

text \<open>The accepted digest of the instance does not verify without the deferral it covers, nor at another
  revision.\<close>

theorem coverage_stale_witness:
  "VerifyCoverage (\<lambda>s. s) (coverage_preimage sample_spec) sample_spec = Ok () \<and>
   VerifyCoverage (\<lambda>s. s) (coverage_preimage sample_spec) (sample_spec\<lparr>cs_RequiredRefs := RequiredDecisions
     (sample_coverage_input\<lparr>ci_DeferredPlan := None\<rparr>), cs_InputLedger := ''e''\<rparr>) \<noteq> Ok () \<and>
   VerifyCoverage (\<lambda>s. s) (coverage_preimage sample_spec) (sample_spec\<lparr>cs_RequiredRefs := RequiredDecisions
     sample_coverage_input, cs_InputLedger := ''f''\<rparr>) \<noteq> Ok ()"
proof -
  have ok: "VerifyCoverage (\<lambda>s. s) (coverage_preimage sample_spec) sample_spec = Ok ()"
    using sample_spec_valid by (simp add: VerifyCoverage_def ComputeCoverageDigest_def)
  have refs: "cs_RequiredRefs sample_spec = RequiredDecisions sample_coverage_input" by (simp add: sample_spec_def)
  have "required_set (sample_coverage_input\<lparr>ci_DeferredPlan := None\<rparr>) \<noteq> required_set sample_coverage_input"
    by (simp add: required_set_def sample_coverage_input_def sample_deferral_def resolved_def)
  moreover have "cs_InputLedger sample_spec \<noteq> ''f''" by (simp add: sample_spec_def)
  ultimately show ?thesis
    using coverage_stale [OF refs ok, THEN conjunct1, of "''e''" "sample_coverage_input\<lparr>ci_DeferredPlan := None\<rparr>"]
      coverage_stale [OF refs ok, THEN conjunct1, of "''f''" sample_coverage_input] ok by simp
qed

theorem digest_text_roundtrip_witness:
  "ParseCoverageDigest (CoverageDigest_MarshalText (replicate 32 (CHR ''a''))) = Ok (replicate 32 (CHR ''a''))"
  using digest_text_roundtrip [of "replicate 32 (CHR ''a'')"] by simp

end
