(* ===== verification/EpochAuthority.thy ===== *)
theory EpochAuthority
  imports DecisionPolicy Runes "HOL-Library.Char_ord" "HOL-Library.List_Lexorder" "HOL-Library.Product_Lexorder"
    "HOL-Library.Multiset"
begin

text \<open>
  The typed authority facts of an epoch (\<^verbatim>\<open>internal/tasks/epoch_authority.go\<close>): the review
  authority of an integration candidate, its immutable manifest, the snapshot of its
  publications, the binding of an Implementation UAT to the review it consulted, the binding
  of a landing to everything it consulted, and the evidence of a subject's state.  Each has
  one constructor that normalises and validates, an evidence effect and a strict decoder.

  Parameters: the identity functions of the provenance library (parsing and printing task
  identities, the legality of operations and Git objects), the canonical JSON encoding and
  the strict decoding of each fact, and SHA-256.
\<close>

section \<open>The provenance library\<close>

type_synonym JournalID = int

record prov_ids =
  pi_ParseTaskID :: "string \<Rightarrow> TaskID option"
  pi_String :: "TaskID \<Rightarrow> string"
  pi_TaskContext :: "TaskID \<Rightarrow> bool"
  pi_ValidateOperationID :: "string \<Rightarrow> bool"
  pi_GitContext :: "string \<Rightarrow> bool"

datatype authority_error =
    authorityErr string string
  | memberErr string nat authority_error
  | malformedTask string string
  | operationErr
  | decodeFailed string
  | encodeFailed string

section \<open>Scalars\<close>

definition validateAuthorityUTF8 :: "string \<Rightarrow> string \<Rightarrow> authority_error + unit" where
  "validateAuthorityUTF8 value label =
     fail_if (\<not> ValidString value) (authorityErr ''typed scalar'' (''the '' @ label @ '' contains invalid UTF-8''))"

definition validateAuthorityJSONUTF8 :: "string \<Rightarrow> string \<Rightarrow> authority_error + unit" where
  "validateAuthorityJSONUTF8 payload label =
     fail_if (\<not> ValidString payload) (authorityErr ''authority JSON'' (''the '' @ label @ '' contains invalid UTF-8''))"

definition parseAuthorityTaskID :: "prov_ids \<Rightarrow> string \<Rightarrow> string \<Rightarrow> authority_error + TaskID" where
  "parseAuthorityTaskID ids raw label =
     result_bind (validateAuthorityUTF8 raw label) (\<lambda>_.
       case pi_ParseTaskID ids raw of None \<Rightarrow> Err (malformedTask label raw) | Some t \<Rightarrow> Ok t)"

definition canonicalAuthorityTaskID :: "prov_ids \<Rightarrow> string \<Rightarrow> string \<Rightarrow> authority_error + string" where
  "canonicalAuthorityTaskID ids raw label =
     result_bind (parseAuthorityTaskID ids raw label) (\<lambda>t. Ok (pi_String ids t))"

definition validateTaskWrapper :: "prov_ids \<Rightarrow> string \<Rightarrow> string \<Rightarrow> authority_error + unit" where
  "validateTaskWrapper ids raw label =
     result_bind (canonicalAuthorityTaskID ids raw label) (\<lambda>canonical.
       fail_if (raw \<noteq> canonical) (authorityErr ''task identity'' (''the '' @ label @ '' identity is not canonical'')))"

definition validateEpoch :: "prov_ids \<Rightarrow> string \<Rightarrow> authority_error + unit" where
  "validateEpoch ids epoch = validateTaskWrapper ids epoch ''epoch''"

definition validateText :: "string \<Rightarrow> string \<Rightarrow> authority_error + unit" where
  "validateText value label =
     result_bind (validateAuthorityUTF8 value label) (\<lambda>_.
       if value = [] \<or> padded value then Err (authorityErr ''typed scalar'' (''the '' @ label @ '' is empty or padded''))
       else fail_if (list_ex (\<lambda>r. IsControl r \<or> IsSpace r) (string_runes value))
         (authorityErr ''typed scalar'' (''the '' @ label @ '' contains whitespace or control data'')))"

definition validateRepositoryID :: "string \<Rightarrow> authority_error + unit" where
  "validateRepositoryID repository = validateText repository ''repository''"

text \<open>\<^verbatim>\<open>strings.Contains\<close>, \<^verbatim>\<open>strings.HasSuffix\<close> and \<^verbatim>\<open>strings.Split\<close> at a byte.\<close>

fun Contains :: "string \<Rightarrow> string \<Rightarrow> bool" where
  "Contains [] sub \<longleftrightarrow> sub = []"
| "Contains (c # cs) sub \<longleftrightarrow> HasPrefix (c # cs) sub \<or> Contains cs sub"

definition HasSuffix :: "string \<Rightarrow> string \<Rightarrow> bool" where
  "HasSuffix s p \<longleftrightarrow> HasPrefix (rev s) (rev p)"

fun split_at_char :: "char \<Rightarrow> string \<Rightarrow> string list" where
  "split_at_char sep [] = [[]]"
| "split_at_char sep (c # cs) =
     (if c = sep then [] # split_at_char sep cs
      else case split_at_char sep cs of w # ws \<Rightarrow> (c # w) # ws | [] \<Rightarrow> [[c]])"

definition validateGitRef :: "string \<Rightarrow> authority_error + unit" where
  "validateGitRef value =
     (let malformed = authorityErr ''git ref'' (''the ref '' @ quote value @ '' is malformed'') in
      result_bind (validateAuthorityUTF8 value ''git ref'') (\<lambda>_.
        if value = ''@'' \<or> \<not> Contains value ''/'' \<or> Contains value ''..'' \<or> Contains value [CHR ''@'', CHR ''{''] \<or>
           list_ex (\<lambda>c. c \<in> set ('' ~^:?*['' @ [CHR 0x5C])) value \<or>
           HasPrefix value ''/'' \<or> HasSuffix value ''/'' \<or> HasSuffix value ''.'' \<or> Contains value ''//''
        then Err malformed
        else if list_ex (\<lambda>r. case r of Some n \<Rightarrow> n \<le> 31 \<or> n = 127 | None \<Rightarrow> False) (string_runes value) then Err malformed
        else fail_if (list_ex (\<lambda>component. component = [] \<or> HasPrefix component ''.'' \<or> HasSuffix component ''.lock'')
               (split_at_char (CHR ''/'') value)) malformed))"

definition validateGitOID :: "prov_ids \<Rightarrow> string \<Rightarrow> authority_error + unit" where
  "validateGitOID ids oid =
     result_bind (validateAuthorityUTF8 oid ''git object identity'') (\<lambda>_.
       fail_if (\<not> pi_GitContext ids oid)
         (authorityErr ''git object identity'' (''the Git object id '' @ quote oid @ '' is malformed'')))"

definition validateOperationID :: "prov_ids \<Rightarrow> string \<Rightarrow> authority_error + unit" where
  "validateOperationID ids operation =
     result_bind (validateAuthorityUTF8 operation ''operation identity'') (\<lambda>_.
       fail_if (\<not> pi_ValidateOperationID ids operation) operationErr)"

text \<open>A check whose error is replaced by the caller's.\<close>

definition instead :: "authority_error + unit \<Rightarrow> authority_error \<Rightarrow> authority_error + unit" where
  "instead r e = (case r of Err _ \<Rightarrow> Err e | Ok u \<Rightarrow> Ok u)"

section \<open>The review authority\<close>

type_synonym reviewAuthorityState = nat
abbreviation (input) reviewStarted :: reviewAuthorityState where "reviewStarted \<equiv> 1"
abbreviation (input) reviewFinalizedRevising :: reviewAuthorityState where "reviewFinalizedRevising \<equiv> 2"
abbreviation (input) reviewFinalizedClean :: reviewAuthorityState where "reviewFinalizedClean \<equiv> 3"
abbreviation (input) reviewInvalidated :: reviewAuthorityState where "reviewInvalidated \<equiv> 4"

definition reviewAuthorityState_valid :: "reviewAuthorityState \<Rightarrow> bool" where
  "reviewAuthorityState_valid s \<longleftrightarrow> reviewStarted \<le> s \<and> s \<le> reviewInvalidated"

type_synonym Verdict = int
abbreviation (input) VerdictAccept :: Verdict where "VerdictAccept \<equiv> 1"
abbreviation (input) VerdictRevise :: Verdict where "VerdictRevise \<equiv> 2"

definition Verdict_valid :: "Verdict \<Rightarrow> bool" where
  "Verdict_valid v \<longleftrightarrow> v = VerdictAccept \<or> v = VerdictRevise"

definition Verdict_String :: "Verdict \<Rightarrow> string" where
  "Verdict_String v = (if v = VerdictAccept then ''accept'' else if v = VerdictRevise then ''revise''
     else ''Verdict('' @ dec_int v @ '')'')"

type_synonym ReviewAxis = int
abbreviation (input) AxisCorrectness :: ReviewAxis where "AxisCorrectness \<equiv> 1"
abbreviation (input) AxisTestQuality :: ReviewAxis where "AxisTestQuality \<equiv> 2"
abbreviation (input) AxisElegance :: ReviewAxis where "AxisElegance \<equiv> 3"

definition ReviewAxis_String :: "ReviewAxis \<Rightarrow> string" where
  "ReviewAxis_String a = (if a = AxisCorrectness then ''correctness'' else if a = AxisTestQuality then ''test-quality''
     else if a = AxisElegance then ''elegance'' else ''ReviewAxis('' @ dec_int a @ '')'')"

record reviewAxisAuthority =
  ax_Axis :: ReviewAxis
  ax_Event :: JournalID
  ax_Verdict :: Verdict

text \<open>An array of three.\<close>

type_synonym review_axes = "reviewAxisAuthority \<times> reviewAxisAuthority \<times> reviewAxisAuthority"

definition axes_list :: "review_axes \<Rightarrow> reviewAxisAuthority list" where
  "axes_list axes = (case axes of (a, b, c) \<Rightarrow> [a, b, c])"

definition zero_axis :: reviewAxisAuthority where
  "zero_axis = \<lparr>ax_Axis = 0, ax_Event = 0, ax_Verdict = 0\<rparr>"

definition zeroReviewAxes :: "review_axes \<Rightarrow> bool" where
  "zeroReviewAxes axes \<longleftrightarrow> axes = (zero_axis, zero_axis, zero_axis)"

definition canonicalReviewAxes :: "ReviewAxis list" where
  "canonicalReviewAxes = [AxisCorrectness, AxisTestQuality, AxisElegance]"

record implementationReviewAuthority =
  ra_Epoch :: string
  ra_Candidate :: string
  ra_Round :: string
  ra_State :: reviewAuthorityState
  ra_Axes :: review_axes
  ra_Operation :: string

text \<open>The loop over the three axes; the second argument lists the events seen.\<close>

fun validate_axes_from :: "nat \<Rightarrow> JournalID list \<Rightarrow> (reviewAxisAuthority \<times> ReviewAxis) list \<Rightarrow> authority_error + unit" where
  "validate_axes_from i seen [] = Ok ()"
| "validate_axes_from i seen ((axis, want) # rest) =
     (if ax_Axis axis \<noteq> want
      then Err (authorityErr ''reviewAxisAuthority'' (''axis '' @ dec_nat i @ '' is '' @ ReviewAxis_String (ax_Axis axis)))
      else if ax_Event axis \<le> 0
      then Err (authorityErr ''reviewAxisAuthority'' (''axis '' @ dec_nat i @ '' has invalid event '' @ dec_int (ax_Event axis)))
      else if ax_Event axis \<in> set seen
      then Err (authorityErr ''reviewAxisAuthority'' (''axis '' @ dec_nat i @ '' repeats event '' @ dec_int (ax_Event axis)))
      else if \<not> Verdict_valid (ax_Verdict axis)
      then Err (authorityErr ''reviewAxisAuthority'' (''axis '' @ dec_nat i @ '' has an unknown verdict''))
      else validate_axes_from (Suc i) (ax_Event axis # seen) rest)"

definition has_revise :: "review_axes \<Rightarrow> bool" where
  "has_revise axes \<longleftrightarrow> list_ex (\<lambda>a. ax_Verdict a = VerdictRevise) (axes_list axes)"

definition validateReviewAxes :: "review_axes \<Rightarrow> reviewAuthorityState \<Rightarrow> authority_error + unit" where
  "validateReviewAxes axes state =
     result_bind (validate_axes_from 0 [] (zip (axes_list axes) canonicalReviewAxes)) (\<lambda>_.
       if state = reviewFinalizedClean \<and> has_revise axes
       then Err (authorityErr ''reviewAxisAuthority'' ''a clean finalized authority contains a revise verdict'')
       else fail_if (state = reviewFinalizedRevising \<and> \<not> has_revise axes)
         (authorityErr ''reviewAxisAuthority'' ''a revising finalized authority contains no revise verdict''))"

definition validateImplementationReviewAuthority :: "prov_ids \<Rightarrow> implementationReviewAuthority \<Rightarrow> authority_error + unit" where
  "validateImplementationReviewAuthority ids value =
     result_bind (instead (validateEpoch ids (ra_Epoch value))
       (authorityErr ''implementationReviewAuthority'' ''the epoch identity is malformed'')) (\<lambda>_.
     result_bind (validateTaskWrapper ids (ra_Candidate value) ''candidate'') (\<lambda>_.
     result_bind (validateText (ra_Round value) ''review round'') (\<lambda>_.
     result_bind (instead (validateOperationID ids (ra_Operation value))
       (authorityErr ''implementationReviewAuthority'' ''the producing operation identity is malformed'')) (\<lambda>_.
     if \<not> reviewAuthorityState_valid (ra_State value)
     then Err (authorityErr ''implementationReviewAuthority'' ''the review authority state is unknown'')
     else if ra_State value = reviewStarted \<or> ra_State value = reviewInvalidated
     then fail_if (\<not> zeroReviewAxes (ra_Axes value))
       (authorityErr ''implementationReviewAuthority'' ''a started or invalidated review carries axis authority'')
     else validateReviewAxes (ra_Axes value) (ra_State value)))))"

definition newImplementationReviewAuthority ::
  "prov_ids \<Rightarrow> implementationReviewAuthority \<Rightarrow> authority_error + implementationReviewAuthority" where
  "newImplementationReviewAuthority ids value =
     result_bind (canonicalAuthorityTaskID ids (ra_Epoch value) ''epoch'') (\<lambda>epoch.
     result_bind (canonicalAuthorityTaskID ids (ra_Candidate value) ''candidate'') (\<lambda>candidate.
     let value' = value\<lparr>ra_Epoch := epoch, ra_Candidate := candidate\<rparr> in
     result_bind (validateImplementationReviewAuthority ids value') (\<lambda>_. Ok value')))"

definition newReviewStartedAuthority ::
  "prov_ids \<Rightarrow> string \<Rightarrow> string \<Rightarrow> string \<Rightarrow> string \<Rightarrow> authority_error + implementationReviewAuthority" where
  "newReviewStartedAuthority ids epoch candidate round operation =
     newImplementationReviewAuthority ids \<lparr>ra_Epoch = epoch, ra_Candidate = candidate, ra_Round = round, ra_State = reviewStarted,
       ra_Axes = (zero_axis, zero_axis, zero_axis), ra_Operation = operation\<rparr>"

definition newFinalizedReviewAuthority ::
  "prov_ids \<Rightarrow> string \<Rightarrow> string \<Rightarrow> string \<Rightarrow> review_axes \<Rightarrow> string \<Rightarrow> authority_error + implementationReviewAuthority" where
  "newFinalizedReviewAuthority ids epoch candidate round axes operation =
     newImplementationReviewAuthority ids \<lparr>ra_Epoch = epoch, ra_Candidate = candidate, ra_Round = round,
       ra_State = (if has_revise axes then reviewFinalizedRevising else reviewFinalizedClean),
       ra_Axes = axes, ra_Operation = operation\<rparr>"

definition newInvalidatedReviewAuthority ::
  "prov_ids \<Rightarrow> string \<Rightarrow> string \<Rightarrow> string \<Rightarrow> string \<Rightarrow> authority_error + implementationReviewAuthority" where
  "newInvalidatedReviewAuthority ids epoch candidate priorRound operation =
     newImplementationReviewAuthority ids \<lparr>ra_Epoch = epoch, ra_Candidate = candidate, ra_Round = priorRound,
       ra_State = reviewInvalidated, ra_Axes = (zero_axis, zero_axis, zero_axis), ra_Operation = operation\<rparr>"

section \<open>Manifest and publications\<close>

record candidateMember =
  cm_Repository :: string
  cm_Candidate :: string
  cm_Commit :: string

record integrationCandidateManifest =
  mf_Epoch :: string
  mf_Candidate :: string
  mf_Members :: "candidateMember list"
  mf_Operation :: string

record repositoryPublication =
  rp_Repository :: string
  rp_Candidate :: string
  rp_Ref :: string
  rp_Commit :: string
  rp_VerificationOperation :: string

record candidatePublicationSet =
  pb_Epoch :: string
  pb_Candidate :: string
  pb_Publications :: "repositoryPublication list"
  pb_Operation :: string

definition at_member :: "string \<Rightarrow> nat \<Rightarrow> authority_error + 'a \<Rightarrow> authority_error + 'a" where
  "at_member what i r = (case r of Err e \<Rightarrow> Err (memberErr what i e) | Ok v \<Rightarrow> Ok v)"

text \<open>The loop of \<open>normalizeCandidateMembers\<close>: the maps of repositories and candidates seen hold
  the indices they were seen at.\<close>

fun normalize_members_from ::
  "prov_ids \<Rightarrow> nat \<Rightarrow> (string \<rightharpoonup> nat) \<Rightarrow> (string \<rightharpoonup> nat) \<Rightarrow> candidateMember list \<Rightarrow> authority_error + candidateMember list" where
  "normalize_members_from ids i repos cands [] = Ok []"
| "normalize_members_from ids i repos cands (m # ms) =
     (result_bind (at_member ''candidate manifest member'' i (validateRepositoryID (cm_Repository m))) (\<lambda>_.
      result_bind (at_member ''candidate manifest member'' i (canonicalAuthorityTaskID ids (cm_Candidate m) ''candidate member'')) (\<lambda>candidate.
      result_bind (at_member ''candidate manifest member'' i (validateGitOID ids (cm_Commit m))) (\<lambda>_.
      case repos (cm_Repository m) of
        Some prior \<Rightarrow> Err (authorityErr ''candidateManifest'' (''members '' @ dec_nat prior @ '' and '' @ dec_nat i @
          '' duplicate repository '' @ quote (cm_Repository m)))
      | None \<Rightarrow>
        (case cands candidate of
           Some prior \<Rightarrow> Err (authorityErr ''candidateManifest'' (''members '' @ dec_nat prior @ '' and '' @ dec_nat i @
             '' duplicate candidate '' @ quote candidate))
         | None \<Rightarrow>
             result_bind (normalize_members_from ids (Suc i) (repos(cm_Repository m \<mapsto> i)) (cands(candidate \<mapsto> i)) ms)
               (\<lambda>rest. Ok (m\<lparr>cm_Candidate := candidate\<rparr> # rest)))))))"

definition normalizeCandidateMembers :: "prov_ids \<Rightarrow> candidateMember list \<Rightarrow> authority_error + candidateMember list" where
  "normalizeCandidateMembers ids members =
     (if members = [] then Err (authorityErr ''candidateManifest'' ''the candidate manifest has no members'')
      else result_bind (normalize_members_from ids 0 Map.empty Map.empty members) (\<lambda>copyMembers.
        Ok (sort_key (\<lambda>m. (cm_Repository m, cm_Candidate m)) copyMembers)))"

definition newIntegrationCandidateManifest ::
  "prov_ids \<Rightarrow> string \<Rightarrow> string \<Rightarrow> candidateMember list \<Rightarrow> string \<Rightarrow> authority_error + integrationCandidateManifest" where
  "newIntegrationCandidateManifest ids epoch candidate members operation =
     result_bind (canonicalAuthorityTaskID ids epoch ''epoch'') (\<lambda>canonicalEpoch.
     result_bind (canonicalAuthorityTaskID ids candidate ''candidate set'') (\<lambda>canonicalCandidate.
     result_bind (instead (validateOperationID ids operation)
       (authorityErr ''candidateManifest'' ''the manifest operation identity is malformed'')) (\<lambda>_.
     result_bind (normalizeCandidateMembers ids members) (\<lambda>normalized.
     Ok \<lparr>mf_Epoch = canonicalEpoch, mf_Candidate = canonicalCandidate, mf_Members = normalized, mf_Operation = operation\<rparr>))))"

fun normalize_publications_from ::
  "prov_ids \<Rightarrow> nat \<Rightarrow> (string \<rightharpoonup> nat) \<Rightarrow> (string \<rightharpoonup> nat) \<Rightarrow> repositoryPublication list
    \<Rightarrow> authority_error + repositoryPublication list" where
  "normalize_publications_from ids i repos cands [] = Ok []"
| "normalize_publications_from ids i repos cands (p # ps) =
     (result_bind (at_member ''publication'' i (validateRepositoryID (rp_Repository p))) (\<lambda>_.
      result_bind (at_member ''publication'' i (canonicalAuthorityTaskID ids (rp_Candidate p) ''published candidate'')) (\<lambda>candidate.
      result_bind (at_member ''publication'' i (validateGitRef (rp_Ref p))) (\<lambda>_.
      result_bind (at_member ''publication'' i (validateGitOID ids (rp_Commit p))) (\<lambda>_.
      result_bind (instead (validateOperationID ids (rp_VerificationOperation p))
        (authorityErr ''candidatePublicationSet'' (''publication '' @ dec_nat i @ '' has a malformed verification operation''))) (\<lambda>_.
      case repos (rp_Repository p) of
        Some prior \<Rightarrow> Err (authorityErr ''candidatePublicationSet'' (''publications '' @ dec_nat prior @ '' and '' @ dec_nat i @
          '' duplicate repository '' @ quote (rp_Repository p)))
      | None \<Rightarrow>
        (case cands candidate of
           Some prior \<Rightarrow> Err (authorityErr ''candidatePublicationSet'' (''publications '' @ dec_nat prior @ '' and '' @ dec_nat i @
             '' duplicate candidate '' @ quote candidate))
         | None \<Rightarrow>
             result_bind (normalize_publications_from ids (Suc i) (repos(rp_Repository p \<mapsto> i)) (cands(candidate \<mapsto> i)) ps)
               (\<lambda>rest. Ok (p\<lparr>rp_Candidate := candidate\<rparr> # rest)))))))))"

definition normalizePublications :: "prov_ids \<Rightarrow> repositoryPublication list \<Rightarrow> authority_error + repositoryPublication list" where
  "normalizePublications ids publications =
     (if publications = []
      then Err (authorityErr ''candidatePublicationSet'' ''the publication set has no verified members'')
      else result_bind (normalize_publications_from ids 0 Map.empty Map.empty publications) (\<lambda>copyPublications.
        Ok (sort_key (\<lambda>p. (rp_Repository p, rp_Candidate p)) copyPublications)))"

definition newCandidatePublicationSet ::
  "prov_ids \<Rightarrow> string \<Rightarrow> string \<Rightarrow> repositoryPublication list \<Rightarrow> string \<Rightarrow> authority_error + candidatePublicationSet" where
  "newCandidatePublicationSet ids epoch candidate publications operation =
     result_bind (canonicalAuthorityTaskID ids epoch ''epoch'') (\<lambda>canonicalEpoch.
     result_bind (canonicalAuthorityTaskID ids candidate ''candidate set'') (\<lambda>canonicalCandidate.
     result_bind (instead (validateOperationID ids operation)
       (authorityErr ''candidatePublicationSet'' ''the publication-set operation identity is malformed'')) (\<lambda>_.
     result_bind (normalizePublications ids publications) (\<lambda>normalized.
     Ok \<lparr>pb_Epoch = canonicalEpoch, pb_Candidate = canonicalCandidate, pb_Publications = normalized, pb_Operation = operation\<rparr>))))"

fun members_match :: "nat \<Rightarrow> candidateMember list \<Rightarrow> repositoryPublication list \<Rightarrow> authority_error + unit" where
  "members_match i (m # ms) (p # ps) =
     (if rp_Repository p \<noteq> cm_Repository m \<or> rp_Candidate p \<noteq> cm_Candidate m \<or> rp_Commit p \<noteq> cm_Commit m
      then Err (authorityErr ''publication completeness'' (''publication '' @ dec_nat i @ '' does not match its manifest member''))
      else members_match (Suc i) ms ps)"
| "members_match i _ _ = Ok ()"

definition validatePublicationSetAgainstManifest ::
  "integrationCandidateManifest \<Rightarrow> candidatePublicationSet \<Rightarrow> authority_error + unit" where
  "validatePublicationSetAgainstManifest manifest publicationSet =
     (if mf_Epoch manifest \<noteq> pb_Epoch publicationSet \<or> mf_Candidate manifest \<noteq> pb_Candidate publicationSet
      then Err (authorityErr ''publication completeness'' ''the publication set is scoped to a different epoch or candidate'')
      else if length (mf_Members manifest) \<noteq> length (pb_Publications publicationSet)
      then Err (authorityErr ''publication completeness'' ''the publication set is incomplete'')
      else members_match 0 (mf_Members manifest) (pb_Publications publicationSet))"

section \<open>Bindings\<close>

record implementationUATReviewBinding =
  ub_Epoch :: string
  ub_Candidate :: string
  ub_ReviewRound :: string
  ub_ReviewFact :: JournalID
  ub_Operation :: string

definition newImplementationUATReviewBinding ::
  "prov_ids \<Rightarrow> string \<Rightarrow> string \<Rightarrow> string \<Rightarrow> JournalID \<Rightarrow> string \<Rightarrow> authority_error + implementationUATReviewBinding" where
  "newImplementationUATReviewBinding ids epoch candidate round reviewFact operation =
     result_bind (canonicalAuthorityTaskID ids epoch ''epoch'') (\<lambda>canonicalEpoch.
     result_bind (canonicalAuthorityTaskID ids candidate ''candidate set'') (\<lambda>canonicalCandidate.
     result_bind (validateText round ''review round'') (\<lambda>_.
     if reviewFact \<le> 0
     then Err (authorityErr ''implementationUATReviewBinding'' (''the review fact '' @ dec_int reviewFact @ '' is not positive''))
     else result_bind (instead (validateOperationID ids operation)
       (authorityErr ''implementationUATReviewBinding'' ''the UAT operation identity is malformed'')) (\<lambda>_.
     Ok \<lparr>ub_Epoch = canonicalEpoch, ub_Candidate = canonicalCandidate, ub_ReviewRound = round, ub_ReviewFact = reviewFact,
         ub_Operation = operation\<rparr>))))"

record landAuthorityBinding =
  lb_Epoch :: string
  lb_Candidate :: string
  lb_LandOperation :: string
  lb_ImplementationUAT :: string
  lb_ImplementationUATOperation :: string
  lb_ImplementationUATDecisionFact :: JournalID
  lb_ImplementationUATStateFact :: JournalID
  lb_ImplementationUATReviewBindingFact :: JournalID
  lb_ReviewFact :: JournalID
  lb_ReviewRound :: string
  lb_ReviewAxes :: review_axes
  lb_ManifestFact :: JournalID
  lb_Members :: "candidateMember list"
  lb_PublicationSetFact :: JournalID
  lb_Publications :: "repositoryPublication list"

definition decisionIDForOperation :: "string \<Rightarrow> string" where
  "decisionIDForOperation op = ''decision:'' @ op"

fun references_positive :: "(string \<times> JournalID) list \<Rightarrow> authority_error + unit" where
  "references_positive [] = Ok ()"
| "references_positive ((label, i) # rest) =
     (if i \<le> 0 then Err (authorityErr ''landAuthorityBinding'' (''the '' @ label @ '' '' @ dec_int i @ '' is not positive''))
      else references_positive rest)"

definition newLandAuthorityBinding :: "prov_ids \<Rightarrow> landAuthorityBinding \<Rightarrow> authority_error + landAuthorityBinding" where
  "newLandAuthorityBinding ids value =
     result_bind (canonicalAuthorityTaskID ids (lb_Epoch value) ''epoch'') (\<lambda>epoch.
     result_bind (canonicalAuthorityTaskID ids (lb_Candidate value) ''candidate set'') (\<lambda>candidate.
     result_bind (instead (validateOperationID ids (lb_LandOperation value))
       (authorityErr ''landAuthorityBinding'' ''the Land operation identity is malformed'')) (\<lambda>_.
     result_bind (instead (validateOperationID ids (lb_ImplementationUATOperation value))
       (authorityErr ''landAuthorityBinding'' ''the Implementation UAT operation identity is malformed'')) (\<lambda>_.
     if lb_ImplementationUAT value \<noteq> decisionIDForOperation (lb_ImplementationUATOperation value)
     then Err (authorityErr ''landAuthorityBinding'' ''the Implementation UAT decision does not match its operation'')
     else
     result_bind (validateText (lb_ReviewRound value) ''review round'') (\<lambda>_.
     result_bind (references_positive
       [(''Implementation UAT decision fact'', lb_ImplementationUATDecisionFact value),
        (''Implementation UAT state fact'', lb_ImplementationUATStateFact value),
        (''Implementation UAT review-binding fact'', lb_ImplementationUATReviewBindingFact value),
        (''review fact'', lb_ReviewFact value), (''manifest fact'', lb_ManifestFact value),
        (''publication-set fact'', lb_PublicationSetFact value)]) (\<lambda>_.
     result_bind (validateReviewAxes (lb_ReviewAxes value) reviewFinalizedClean) (\<lambda>_.
     result_bind (normalizeCandidateMembers ids (lb_Members value)) (\<lambda>members.
     result_bind (normalizePublications ids (lb_Publications value)) (\<lambda>publications.
     result_bind (validatePublicationSetAgainstManifest
       \<lparr>mf_Epoch = epoch, mf_Candidate = candidate, mf_Members = members, mf_Operation = []\<rparr>
       \<lparr>pb_Epoch = epoch, pb_Candidate = candidate, pb_Publications = publications, pb_Operation = []\<rparr>) (\<lambda>_.
     Ok (value\<lparr>lb_Epoch := epoch, lb_Candidate := candidate, lb_Members := members, lb_Publications := publications\<rparr>)))))))))))"

section \<open>Subject states\<close>

definition planSubjectEvidenceKind :: string where "planSubjectEvidenceKind = ''pasture.plan.proposal.v1''"
definition candidateEvidenceKind :: string where "candidateEvidenceKind = ''pasture.integration.candidate.v1''"
definition implementationReviewAuthorityEvidenceKind :: string where
  "implementationReviewAuthorityEvidenceKind = ''pasture.implementation-review.authority.v1''"
definition candidateManifestEvidenceKind :: string where
  "candidateManifestEvidenceKind = ''pasture.integration.candidate-manifest.v1''"
definition candidatePublicationSetEvidenceKind :: string where
  "candidatePublicationSetEvidenceKind = ''pasture.integration.publication-set.v1''"
definition implementationUATReviewBindingEvidenceKind :: string where
  "implementationUATReviewBindingEvidenceKind = ''pasture.implementation-uat.review-binding.v1''"
definition landAuthorityBindingEvidenceKind :: string where
  "landAuthorityBindingEvidenceKind = ''pasture.land.authority-binding.v1''"

type_synonym subjectState = string
definition subjectStatePlanAccepted :: subjectState where "subjectStatePlanAccepted = ''plan-accepted''"
definition subjectStatePlanChangesRequested :: subjectState where
  "subjectStatePlanChangesRequested = ''plan-changes-requested''"
definition subjectStatePlanDeferred :: subjectState where "subjectStatePlanDeferred = ''plan-deferred''"
definition subjectStatePlanRatified :: subjectState where "subjectStatePlanRatified = ''plan-ratified''"
definition subjectStateCandidateCurrent :: subjectState where "subjectStateCandidateCurrent = ''candidate-current''"
definition subjectStateImplementationAccepted :: subjectState where
  "subjectStateImplementationAccepted = ''implementation-accepted''"
definition subjectStateImplementationChanges :: subjectState where
  "subjectStateImplementationChanges = ''implementation-changes-requested''"
definition subjectStateImplementationLanded :: subjectState where
  "subjectStateImplementationLanded = ''implementation-landed''"
definition subjectStateReworked :: subjectState where "subjectStateReworked = ''reworked''"

lemmas subject_state_defs = subjectStatePlanAccepted_def subjectStatePlanChangesRequested_def subjectStatePlanDeferred_def
  subjectStatePlanRatified_def subjectStateCandidateCurrent_def subjectStateImplementationAccepted_def
  subjectStateImplementationChanges_def subjectStateImplementationLanded_def subjectStateReworked_def

text \<open>The source discriminator is not part of the wire form: decoding derives it from the
  presence of a decision.\<close>

type_synonym subjectStateSource = nat
abbreviation (input) subjectStateSourceHumanDecision :: subjectStateSource where "subjectStateSourceHumanDecision \<equiv> 1"
abbreviation (input) subjectStateSourceAssignmentOperation :: subjectStateSource where
  "subjectStateSourceAssignmentOperation \<equiv> 2"

record subject_wire =
  ss_Epoch :: string
  ss_Subject :: string
  ss_State :: subjectState
  ss_Decision :: string
  ss_DecisionKind :: string
  ss_Operation :: string

record subjectStateEvidence = subject_wire +
  ss_Source :: subjectStateSource

definition subject_of_wire :: "subject_wire \<Rightarrow> subjectStateEvidence" where
  "subject_of_wire w = subject_wire.extend w \<lparr>ss_Source =
     (if ss_Decision w \<noteq> [] \<or> ss_DecisionKind w \<noteq> [] then subjectStateSourceHumanDecision
      else subjectStateSourceAssignmentOperation)\<rparr>"

definition subjectStateDecisionKind :: "subjectState \<Rightarrow> string option" where
  "subjectStateDecisionKind state =
     (if state = subjectStatePlanAccepted then Some DecisionPlanUATAccepted
      else if state = subjectStatePlanChangesRequested then Some DecisionPlanUATChangesRequested
      else if state = subjectStatePlanDeferred then Some DecisionPlanUATDeferredByAFK
      else if state = subjectStatePlanRatified then Some DecisionPlanRatified
      else if state = subjectStateImplementationAccepted \<or> state = subjectStateImplementationChanges
      then Some DecisionImplementationUAT
      else if state = subjectStateImplementationLanded then Some DecisionLanded
      else None)"

definition subjectStateBelongsToFamily :: "subjectState \<Rightarrow> string \<Rightarrow> bool" where
  "subjectStateBelongsToFamily state family =
     (if state = subjectStateReworked then family = planSubjectEvidenceKind \<or> family = candidateEvidenceKind
      else if state = subjectStateCandidateCurrent then family = candidateEvidenceKind
      else case subjectStateDecisionKind state of
          None \<Rightarrow> False
        | Some kind \<Rightarrow>
            if family = planSubjectEvidenceKind
            then kind = DecisionPlanUATAccepted \<or> kind = DecisionPlanUATChangesRequested \<or>
                 kind = DecisionPlanUATDeferredByAFK \<or> kind = DecisionPlanRatified
            else family = candidateEvidenceKind \<and> (kind = DecisionImplementationUAT \<or> kind = DecisionLanded))"

definition familyForSubjectState :: "subjectState \<Rightarrow> string" where
  "familyForSubjectState state =
     (if state = subjectStatePlanAccepted \<or> state = subjectStatePlanChangesRequested \<or> state = subjectStatePlanDeferred \<or>
         state = subjectStatePlanRatified
      then planSubjectEvidenceKind else candidateEvidenceKind)"

fun validate_scalars :: "(string \<times> string) list \<Rightarrow> authority_error + unit" where
  "validate_scalars [] = Ok ()"
| "validate_scalars ((value, label) # rest) = result_bind (validateAuthorityUTF8 value label) (\<lambda>_. validate_scalars rest)"

definition validateSubjectStateEvidence ::
  "prov_ids \<Rightarrow> subjectStateEvidence \<Rightarrow> TaskID \<Rightarrow> TaskID \<Rightarrow> string \<Rightarrow> string \<Rightarrow> authority_error + unit" where
  "validateSubjectStateEvidence ids value epoch subject family producingOperation =
     (let bad = authorityErr ''subjectStateEvidence'' in
      result_bind (validate_scalars [(ss_Epoch value, ''subject-state epoch''), (ss_Subject value, ''subject-state subject''),
        (ss_State value, ''subject-state value''), (ss_Decision value, ''subject-state decision''),
        (ss_DecisionKind value, ''subject-state decision kind'')]) (\<lambda>_.
      if epoch = zero_TaskID \<or> subject = zero_TaskID \<or> ss_Epoch value \<noteq> pi_String ids epoch \<or> ss_Subject value \<noteq> pi_String ids subject
      then Err (bad ''the epoch or subject identity is inconsistent'')
      else if \<not> pi_TaskContext ids epoch then Err (bad ''the epoch identity is malformed'')
      else if \<not> pi_TaskContext ids subject then Err (bad ''the subject identity is malformed'')
      else if validateOperationID ids (ss_Operation value) \<noteq> Ok () \<or> ss_Operation value \<noteq> producingOperation
      then Err (bad ''the producing operation identity is inconsistent'')
      else if \<not> subjectStateBelongsToFamily (ss_State value) family \<and> family \<noteq> []
      then Err (bad ''the state does not belong to its evidence family'')
      else if ss_Source value = subjectStateSourceHumanDecision then
        fail_if (subjectStateDecisionKind (ss_State value) = None \<or> ss_Decision value = [] \<or>
            subjectStateDecisionKind (ss_State value) \<noteq> Some (ss_DecisionKind value) \<or>
            ss_Decision value \<noteq> decisionIDForOperation (ss_Operation value))
          (bad ''human state lacks its exact decision binding'')
      else if ss_Source value = subjectStateSourceAssignmentOperation then
        fail_if (ss_Decision value \<noteq> [] \<or> ss_DecisionKind value \<noteq> [] \<or>
            (ss_State value \<noteq> subjectStateCandidateCurrent \<and> ss_State value \<noteq> subjectStateReworked) \<or>
            family \<noteq> candidateEvidenceKind)
          (bad ''assignment state carries an impossible decision binding'')
      else Err (bad ''the state source discriminator is unknown'')))"

definition newHumanSubjectStateEvidence ::
  "prov_ids \<Rightarrow> TaskID \<Rightarrow> TaskID \<Rightarrow> subjectState \<Rightarrow> string \<Rightarrow> string \<Rightarrow> string \<Rightarrow> authority_error + subjectStateEvidence" where
  "newHumanSubjectStateEvidence ids epoch subject state decision kind operation =
     (let value = \<lparr>ss_Epoch = pi_String ids epoch, ss_Subject = pi_String ids subject, ss_State = state, ss_Decision = decision,
        ss_DecisionKind = kind, ss_Operation = operation, ss_Source = subjectStateSourceHumanDecision\<rparr> in
      result_bind (validateSubjectStateEvidence ids value epoch subject [] operation) (\<lambda>_. Ok value))"

definition newAssignmentSubjectStateEvidence ::
  "prov_ids \<Rightarrow> TaskID \<Rightarrow> TaskID \<Rightarrow> subjectState \<Rightarrow> string \<Rightarrow> authority_error + subjectStateEvidence" where
  "newAssignmentSubjectStateEvidence ids epoch subject state operation =
     (let value = \<lparr>ss_Epoch = pi_String ids epoch, ss_Subject = pi_String ids subject, ss_State = state, ss_Decision = [],
        ss_DecisionKind = [], ss_Operation = operation, ss_Source = subjectStateSourceAssignmentOperation\<rparr> in
      result_bind (validateSubjectStateEvidence ids value epoch subject candidateEvidenceKind operation) (\<lambda>_. Ok value))"

section \<open>Effects\<close>

type_synonym ActorID = TaskID
type_synonym ActivityID = TaskID

text \<open>The effects of one journal operation, with the fields each sort uses, and the phases, the
  stage and the event contexts the service names.\<close>

datatype Phase = PhaseUnscoped | PhaseRequest | PhasePlanUAT | PhaseRatify | PhaseImplUAT | PhaseLanding
datatype Stage = StageComplete
datatype EventContext = TaskContext TaskID | ActorContext ActorID | ActivityContext ActivityID

datatype Effect =
    EffectDecision (slot_of: string) (task_of: TaskID) string string
  | EffectEvidence (slot_of: string) (task_of: TaskID) string digest string
  | EffectActivityCreate (slot_of: string) ActivityID ActorID Phase Stage string
  | EffectTaskEvent (slot_of: string) (task_of: TaskID) string string "EventContext list"

text \<open>The JSON of the authority facts: canonical encoding and strict decoding.\<close>

record authority_codecs =
  ac_review :: "implementationReviewAuthority json_codec"
  ac_manifest :: "integrationCandidateManifest json_codec"
  ac_publications :: "candidatePublicationSet json_codec"
  ac_uatBinding :: "implementationUATReviewBinding json_codec"
  ac_landBinding :: "landAuthorityBinding json_codec"
  ac_subject :: "subject_wire json_codec"

definition newTypedEvidenceEffect ::
  "prov_ids \<Rightarrow> (string \<Rightarrow> digest) \<Rightarrow> 'v json_codec \<Rightarrow> TaskID \<Rightarrow> string \<Rightarrow> 'v \<Rightarrow> string \<Rightarrow> string \<Rightarrow> authority_error + Effect" where
  "newTypedEvidenceEffect ids sha256 codec subject kind value resultSlot label =
     (if subject = zero_TaskID then Err (authorityErr ''newTypedEvidenceEffect'' ''the evidence subject is zero'')
      else if \<not> pi_TaskContext ids subject then Err (authorityErr ''newTypedEvidenceEffect'' ''the evidence subject is malformed'')
      else if resultSlot = [] then Err (authorityErr ''newTypedEvidenceEffect'' ''the evidence result slot is empty'')
      else case js_Marshal codec value of
          None \<Rightarrow> Err (encodeFailed label)
        | Some payload \<Rightarrow> Ok (EffectEvidence resultSlot subject kind (sha256 payload) payload))"

definition validateEvidenceSubject :: "prov_ids \<Rightarrow> TaskID \<Rightarrow> string \<Rightarrow> string \<Rightarrow> authority_error + unit" where
  "validateEvidenceSubject ids subject candidate label =
     (if subject = zero_TaskID then Err (authorityErr ''evidence subject'' (''the '' @ label @ '' subject is zero''))
      else fail_if (parseAuthorityTaskID ids candidate (label @ '' candidate'') \<noteq> Ok subject)
        (authorityErr ''evidence subject'' (''the '' @ label @ '' candidate does not match its task subject'')))"

definition newReviewAuthorityEvidenceEffect ::
  "prov_ids \<Rightarrow> (string \<Rightarrow> digest) \<Rightarrow> authority_codecs \<Rightarrow> TaskID \<Rightarrow> implementationReviewAuthority \<Rightarrow> string \<Rightarrow> authority_error + Effect" where
  "newReviewAuthorityEvidenceEffect ids sha256 codecs subject value resultSlot =
     result_bind (newImplementationReviewAuthority ids value) (\<lambda>canonical.
     result_bind (validateEvidenceSubject ids subject (ra_Candidate canonical) ''review authority'') (\<lambda>_.
     newTypedEvidenceEffect ids sha256 (ac_review codecs) subject implementationReviewAuthorityEvidenceKind canonical resultSlot
       ''implementation review authority''))"

definition newCandidateManifestEvidenceEffect ::
  "prov_ids \<Rightarrow> (string \<Rightarrow> digest) \<Rightarrow> authority_codecs \<Rightarrow> TaskID \<Rightarrow> integrationCandidateManifest \<Rightarrow> string \<Rightarrow> authority_error + Effect" where
  "newCandidateManifestEvidenceEffect ids sha256 codecs subject value resultSlot =
     result_bind (newIntegrationCandidateManifest ids (mf_Epoch value) (mf_Candidate value) (mf_Members value) (mf_Operation value))
     (\<lambda>canonical.
     result_bind (validateEvidenceSubject ids subject (mf_Candidate canonical) ''candidate manifest'') (\<lambda>_.
     newTypedEvidenceEffect ids sha256 (ac_manifest codecs) subject candidateManifestEvidenceKind canonical resultSlot
       ''candidate manifest''))"

definition newCandidatePublicationSetEvidenceEffect ::
  "prov_ids \<Rightarrow> (string \<Rightarrow> digest) \<Rightarrow> authority_codecs \<Rightarrow> TaskID \<Rightarrow> candidatePublicationSet \<Rightarrow> string \<Rightarrow> authority_error + Effect" where
  "newCandidatePublicationSetEvidenceEffect ids sha256 codecs subject value resultSlot =
     result_bind (newCandidatePublicationSet ids (pb_Epoch value) (pb_Candidate value) (pb_Publications value) (pb_Operation value))
     (\<lambda>canonical.
     result_bind (validateEvidenceSubject ids subject (pb_Candidate canonical) ''candidate publication set'') (\<lambda>_.
     newTypedEvidenceEffect ids sha256 (ac_publications codecs) subject candidatePublicationSetEvidenceKind canonical resultSlot
       ''candidate publication set''))"

definition newImplementationUATReviewBindingEvidenceEffect ::
  "prov_ids \<Rightarrow> (string \<Rightarrow> digest) \<Rightarrow> authority_codecs \<Rightarrow> TaskID \<Rightarrow> implementationUATReviewBinding \<Rightarrow> string \<Rightarrow> authority_error + Effect" where
  "newImplementationUATReviewBindingEvidenceEffect ids sha256 codecs subject value resultSlot =
     result_bind (newImplementationUATReviewBinding ids (ub_Epoch value) (ub_Candidate value) (ub_ReviewRound value)
       (ub_ReviewFact value) (ub_Operation value)) (\<lambda>canonical.
     result_bind (validateEvidenceSubject ids subject (ub_Candidate canonical) ''Implementation UAT review binding'') (\<lambda>_.
     newTypedEvidenceEffect ids sha256 (ac_uatBinding codecs) subject implementationUATReviewBindingEvidenceKind canonical resultSlot
       ''Implementation UAT review binding''))"

definition newLandAuthorityBindingEvidenceEffect ::
  "prov_ids \<Rightarrow> (string \<Rightarrow> digest) \<Rightarrow> authority_codecs \<Rightarrow> TaskID \<Rightarrow> landAuthorityBinding \<Rightarrow> string \<Rightarrow> authority_error + Effect" where
  "newLandAuthorityBindingEvidenceEffect ids sha256 codecs subject value resultSlot =
     result_bind (newLandAuthorityBinding ids value) (\<lambda>canonical.
     if parseAuthorityTaskID ids (lb_Epoch canonical) ''Land authority epoch'' \<noteq> Ok subject
     then Err (authorityErr ''landAuthorityBinding'' ''the Land authority evidence subject does not match its epoch'')
     else newTypedEvidenceEffect ids sha256 (ac_landBinding codecs) subject landAuthorityBindingEvidenceKind canonical resultSlot
       ''Land authority binding'')"

definition newSubjectStateEvidenceEffect ::
  "prov_ids \<Rightarrow> (string \<Rightarrow> digest) \<Rightarrow> authority_codecs \<Rightarrow> TaskID \<Rightarrow> subjectStateEvidence \<Rightarrow> string \<Rightarrow> authority_error + Effect" where
  "newSubjectStateEvidenceEffect ids sha256 codecs subject value resultSlot =
     result_bind (parseAuthorityTaskID ids (ss_Epoch value) ''subject-state epoch'') (\<lambda>epoch.
     result_bind (canonicalAuthorityTaskID ids (ss_Subject value) ''subject-state subject'') (\<lambda>stateSubject.
     let value' = value\<lparr>ss_Epoch := pi_String ids epoch, ss_Subject := stateSubject\<rparr> in
     result_bind (validateSubjectStateEvidence ids value' epoch subject (familyForSubjectState (ss_State value')) (ss_Operation value'))
     (\<lambda>_. newTypedEvidenceEffect ids sha256 (ac_subject codecs) subject (familyForSubjectState (ss_State value'))
       (subject_wire.truncate value') resultSlot ''candidate state'')))"

section \<open>Strict decoding\<close>

definition decodeAuthorityJSON :: "'v json_codec \<Rightarrow> string \<Rightarrow> string \<Rightarrow> authority_error + 'v" where
  "decodeAuthorityJSON codec what payload =
     result_bind (validateAuthorityJSONUTF8 payload ''authority payload'') (\<lambda>_.
       case js_Unmarshal codec payload of None \<Rightarrow> Err (decodeFailed what) | Some v \<Rightarrow> Ok v)"

definition decodeImplementationReviewAuthority ::
  "prov_ids \<Rightarrow> authority_codecs \<Rightarrow> string \<Rightarrow> authority_error + implementationReviewAuthority" where
  "decodeImplementationReviewAuthority ids codecs payload =
     result_bind (decodeAuthorityJSON (ac_review codecs) ''implementation review authority'' payload) (\<lambda>value.
     result_bind (newImplementationReviewAuthority ids value) (\<lambda>canonical.
     if ra_Epoch value \<noteq> ra_Epoch canonical \<or> ra_Candidate value \<noteq> ra_Candidate canonical
     then Err (authorityErr ''decodeImplementationReviewAuthority'' ''the review authority contains a noncanonical task identity'')
     else Ok canonical))"

definition decodeCandidateManifest :: "prov_ids \<Rightarrow> authority_codecs \<Rightarrow> string \<Rightarrow> authority_error + integrationCandidateManifest" where
  "decodeCandidateManifest ids codecs payload =
     result_bind (decodeAuthorityJSON (ac_manifest codecs) ''candidate manifest'' payload) (\<lambda>value.
     result_bind (newIntegrationCandidateManifest ids (mf_Epoch value) (mf_Candidate value) (mf_Members value) (mf_Operation value))
     (\<lambda>normalized.
     if mf_Epoch value \<noteq> mf_Epoch normalized \<or> mf_Candidate value \<noteq> mf_Candidate normalized \<or> mf_Members value \<noteq> mf_Members normalized
     then Err (authorityErr ''decodeCandidateManifest'' ''the manifest members are not in canonical order'')
     else Ok normalized))"

definition decodeCandidatePublicationSet :: "prov_ids \<Rightarrow> authority_codecs \<Rightarrow> string \<Rightarrow> authority_error + candidatePublicationSet" where
  "decodeCandidatePublicationSet ids codecs payload =
     result_bind (decodeAuthorityJSON (ac_publications codecs) ''candidate publication set'' payload) (\<lambda>value.
     result_bind (newCandidatePublicationSet ids (pb_Epoch value) (pb_Candidate value) (pb_Publications value) (pb_Operation value))
     (\<lambda>normalized.
     if pb_Epoch value \<noteq> pb_Epoch normalized \<or> pb_Candidate value \<noteq> pb_Candidate normalized \<or>
        pb_Publications value \<noteq> pb_Publications normalized
     then Err (authorityErr ''decodeCandidatePublicationSet'' ''the publication set is not in canonical order'')
     else Ok normalized))"

definition decodeImplementationUATReviewBinding ::
  "prov_ids \<Rightarrow> authority_codecs \<Rightarrow> string \<Rightarrow> authority_error + implementationUATReviewBinding" where
  "decodeImplementationUATReviewBinding ids codecs payload =
     result_bind (decodeAuthorityJSON (ac_uatBinding codecs) ''Implementation UAT review binding'' payload) (\<lambda>value.
     result_bind (newImplementationUATReviewBinding ids (ub_Epoch value) (ub_Candidate value) (ub_ReviewRound value)
       (ub_ReviewFact value) (ub_Operation value)) (\<lambda>canonical.
     if ub_Epoch value \<noteq> ub_Epoch canonical \<or> ub_Candidate value \<noteq> ub_Candidate canonical
     then Err (authorityErr ''decodeImplementationUATReviewBinding'' ''the review binding contains a noncanonical task identity'')
     else Ok canonical))"

definition decodeLandAuthorityBinding :: "prov_ids \<Rightarrow> authority_codecs \<Rightarrow> string \<Rightarrow> authority_error + landAuthorityBinding" where
  "decodeLandAuthorityBinding ids codecs payload =
     result_bind (decodeAuthorityJSON (ac_landBinding codecs) ''Land authority binding'' payload) (\<lambda>value.
     result_bind (newLandAuthorityBinding ids value) (\<lambda>canonical.
     if lb_Epoch value \<noteq> lb_Epoch canonical \<or> lb_Candidate value \<noteq> lb_Candidate canonical \<or>
        lb_Members value \<noteq> lb_Members canonical \<or> lb_Publications value \<noteq> lb_Publications canonical
     then Err (authorityErr ''decodeLandAuthorityBinding''
       ''the Land authority binding contains noncanonical task identities or member ordering'')
     else case js_Marshal (ac_landBinding codecs) canonical of
         None \<Rightarrow> Err (encodeFailed ''canonical Land authority binding'')
       | Some canonicalPayload \<Rightarrow>
           if payload \<noteq> canonicalPayload
           then Err (authorityErr ''decodeLandAuthorityBinding'' ''the Land authority binding is not canonically encoded'')
           else Ok canonical))"

definition decodeSubjectStateEvidence ::
  "prov_ids \<Rightarrow> authority_codecs \<Rightarrow> string \<Rightarrow> TaskID \<Rightarrow> TaskID \<Rightarrow> string \<Rightarrow> string \<Rightarrow> authority_error + subjectStateEvidence" where
  "decodeSubjectStateEvidence ids codecs payload epoch subject family producingOperation =
     result_bind (decodeAuthorityJSON (ac_subject codecs) ''subject state evidence'' payload) (\<lambda>wire.
     let value = subject_of_wire wire in
     result_bind (validateSubjectStateEvidence ids value epoch subject family producingOperation) (\<lambda>_. Ok value))"

section \<open>Canonical identities\<close>

text \<open>What the library documents of task identities: printing a parsed identity gives a spelling
  that is text and parses to the same identity.\<close>

definition lawful_ids :: "prov_ids \<Rightarrow> bool" where
  "lawful_ids ids \<longleftrightarrow> (\<forall>s t. pi_ParseTaskID ids s = Some t \<longrightarrow>
     pi_ParseTaskID ids (pi_String ids t) = Some t \<and> ValidString (pi_String ids t))"

lemma instead_Ok [simp]: "instead r e = Ok u \<longleftrightarrow> r = Ok ()"
  by (cases r) (simp_all add: instead_def)

lemma at_member_Ok [simp]: "at_member w i r = Ok v \<longleftrightarrow> r = Ok v"
  by (cases r) (simp_all add: at_member_def)

lemma parseAuthorityTaskID_Ok [simp]:
  "parseAuthorityTaskID ids raw label = Ok t \<longleftrightarrow> ValidString raw \<and> pi_ParseTaskID ids raw = Some t"
  by (auto simp: parseAuthorityTaskID_def validateAuthorityUTF8_def split: option.splits)

lemma canonicalAuthorityTaskID_Ok:
  "canonicalAuthorityTaskID ids raw label = Ok s \<longleftrightarrow>
     ValidString raw \<and> (\<exists>t. pi_ParseTaskID ids raw = Some t \<and> s = pi_String ids t)"
  by (auto simp: canonicalAuthorityTaskID_def)

lemma canonical_idem:
  assumes "lawful_ids ids" "canonicalAuthorityTaskID ids raw label = Ok s"
  shows "canonicalAuthorityTaskID ids s label' = Ok s" "validateTaskWrapper ids s label' = Ok ()"
proof -
  show c: "canonicalAuthorityTaskID ids s label'' = Ok s" for label''
    using assms by (auto simp: canonicalAuthorityTaskID_Ok lawful_ids_def)
  show "validateTaskWrapper ids s label' = Ok ()"
    by (simp add: validateTaskWrapper_def c)
qed

section \<open>Normal forms of manifests and publications\<close>

definition canon_member :: "prov_ids \<Rightarrow> candidateMember \<Rightarrow> candidateMember option" where
  "canon_member ids m =
     (if validateRepositoryID (cm_Repository m) = Ok () \<and> validateGitOID ids (cm_Commit m) = Ok () then
        case canonicalAuthorityTaskID ids (cm_Candidate m) ''candidate member'' of
          Err _ \<Rightarrow> None | Ok c \<Rightarrow> Some (m\<lparr>cm_Candidate := c\<rparr>)
      else None)"

definition canon_publication :: "prov_ids \<Rightarrow> repositoryPublication \<Rightarrow> repositoryPublication option" where
  "canon_publication ids p =
     (if validateRepositoryID (rp_Repository p) = Ok () \<and> validateGitRef (rp_Ref p) = Ok () \<and>
         validateGitOID ids (rp_Commit p) = Ok () \<and> validateOperationID ids (rp_VerificationOperation p) = Ok () then
        case canonicalAuthorityTaskID ids (rp_Candidate p) ''published candidate'' of
          Err _ \<Rightarrow> None | Ok c \<Rightarrow> Some (p\<lparr>rp_Candidate := c\<rparr>)
      else None)"

lemma canon_member_Some:
  "canon_member ids m = Some m' \<longleftrightarrow> validateRepositoryID (cm_Repository m) = Ok () \<and> validateGitOID ids (cm_Commit m) = Ok () \<and>
     (\<exists>c. canonicalAuthorityTaskID ids (cm_Candidate m) ''candidate member'' = Ok c \<and> m' = m\<lparr>cm_Candidate := c\<rparr>)"
  by (auto simp: canon_member_def split: sum.splits)

lemma canon_publication_Some:
  "canon_publication ids p = Some p' \<longleftrightarrow> validateRepositoryID (rp_Repository p) = Ok () \<and> validateGitRef (rp_Ref p) = Ok () \<and>
     validateGitOID ids (rp_Commit p) = Ok () \<and> validateOperationID ids (rp_VerificationOperation p) = Ok () \<and>
     (\<exists>c. canonicalAuthorityTaskID ids (rp_Candidate p) ''published candidate'' = Ok c \<and> p' = p\<lparr>rp_Candidate := c\<rparr>)"
  by (auto simp: canon_publication_def split: sum.splits)

lemma normalize_members_step:
  "normalize_members_from ids i R C (m # ms) = Ok out \<longleftrightarrow>
     (\<exists>m' rest. canon_member ids m = Some m' \<and> R (cm_Repository m') = None \<and> C (cm_Candidate m') = None \<and> out = m' # rest \<and>
        normalize_members_from ids (Suc i) (R(cm_Repository m' \<mapsto> i)) (C(cm_Candidate m' \<mapsto> i)) ms = Ok rest)"
  by (auto simp: canon_member_Some split: option.splits)

lemma normalize_publications_step:
  "normalize_publications_from ids i R C (p # ps) = Ok out \<longleftrightarrow>
     (\<exists>p' rest. canon_publication ids p = Some p' \<and> R (rp_Repository p') = None \<and> C (rp_Candidate p') = None \<and> out = p' # rest \<and>
        normalize_publications_from ids (Suc i) (R(rp_Repository p' \<mapsto> i)) (C(rp_Candidate p' \<mapsto> i)) ps = Ok rest)"
  by (auto simp: canon_publication_Some split: option.splits)

lemma normalize_members_Ok:
  "normalize_members_from ids i R C ms = Ok out \<longleftrightarrow> map (canon_member ids) ms = map Some out \<and>
     distinct (map cm_Repository out) \<and> distinct (map cm_Candidate out) \<and>
     (\<forall>m \<in> set out. R (cm_Repository m) = None \<and> C (cm_Candidate m) = None)"
proof (induction ms arbitrary: i R C out)
  case (Cons m ms)
  show ?case
    by (cases out) (auto simp: normalize_members_step Cons.IH simp del: normalize_members_from.simps, (metis imageI)+)
qed auto

lemma normalize_publications_Ok:
  "normalize_publications_from ids i R C ps = Ok out \<longleftrightarrow> map (canon_publication ids) ps = map Some out \<and>
     distinct (map rp_Repository out) \<and> distinct (map rp_Candidate out) \<and>
     (\<forall>p \<in> set out. R (rp_Repository p) = None \<and> C (rp_Candidate p) = None)"
proof (induction ps arbitrary: i R C out)
  case (Cons p ps)
  show ?case
    by (cases out) (auto simp: normalize_publications_step Cons.IH simp del: normalize_publications_from.simps, (metis imageI)+)
qed auto

text \<open>What both normalisations compute: the canonical entries, one per repository and one per
  candidate, in the order of their repositories and candidates.\<close>

lemma normalizeCandidateMembers_Ok:
  "normalizeCandidateMembers ids ms = Ok out \<longleftrightarrow> ms \<noteq> [] \<and>
     (\<exists>cs. map (canon_member ids) ms = map Some cs \<and> distinct (map cm_Repository cs) \<and> distinct (map cm_Candidate cs) \<and>
        out = sort_key (\<lambda>m. (cm_Repository m, cm_Candidate m)) cs)"
  by (auto simp: normalizeCandidateMembers_def normalize_members_Ok)

lemma normalizePublications_Ok:
  "normalizePublications ids ps = Ok out \<longleftrightarrow> ps \<noteq> [] \<and>
     (\<exists>cs. map (canon_publication ids) ps = map Some cs \<and> distinct (map rp_Repository cs) \<and> distinct (map rp_Candidate cs) \<and>
        out = sort_key (\<lambda>p. (rp_Repository p, rp_Candidate p)) cs)"
  by (auto simp: normalizePublications_def normalize_publications_Ok)

lemma map_Some_permuted:
  assumes "map f xs = map Some cs" "mset ys = mset xs"
  obtains ds where "map f ys = map Some ds" "mset ds = mset cs"
proof -
  have "set (map f ys) = Some ` set cs"
    using assms by (metis mset_eq_setD set_map)
  then have "\<forall>y \<in> set ys. f y \<in> Some ` set cs" by (metis imageI set_map)
  then have "map f ys = map Some (map (the \<circ> f) ys)" by auto
  moreover have "mset (map (the \<circ> f) ys) = mset cs"
  proof -
    have "mset (map (the \<circ> f) ys) = mset (map (the \<circ> f) xs)" using assms(2) by simp
    also have "map (the \<circ> f) xs = map the (map f xs)" by simp
    also have "\<dots> = cs" unfolding assms(1) by (simp add: comp_def)
    finally show ?thesis .
  qed
  ultimately show ?thesis by (rule that)
qed

lemma distinct_map_permuted: "mset ds = mset cs \<Longrightarrow> distinct (map f cs) \<Longrightarrow> distinct (map f ds)"
  by (metis mset_eq_imp_distinct_iff mset_map)

lemma sort_key_permuted:
  assumes "mset ds = mset cs" "distinct (map g cs)" "\<And>x y. f x = f y \<Longrightarrow> g x = g y"
  shows "sort_key f ds = sort_key f cs"
proof (rule sort_key_inj_key_eq)
  show "mset ds = mset (sort_key f cs)" using assms(1) by simp
  have "inj_on g (set cs)" using assms(2) by (simp add: distinct_map)
  then have "inj_on f (set cs)" by (meson assms(3) inj_on_def)
  then show "inj_on f (set ds)" using mset_eq_setD [OF assms(1)] by simp
qed simp

lemma canon_member_idem: "lawful_ids ids \<Longrightarrow> canon_member ids m = Some m' \<Longrightarrow> canon_member ids m' = Some m'"
  using canonical_idem(1) by (fastforce simp: canon_member_Some)

lemma canon_publication_idem: "lawful_ids ids \<Longrightarrow> canon_publication ids p = Some p' \<Longrightarrow> canon_publication ids p' = Some p'"
  using canonical_idem(1) by (fastforce simp: canon_publication_Some)

lemma map_Some_idem:
  assumes "\<And>x y. f x = Some y \<Longrightarrow> f y = Some y" "map f xs = map Some cs" "mset ds = mset cs"
  shows "map f ds = map Some ds"
proof -
  have "f y = Some y" if "y \<in> set cs" for y
  proof -
    have "Some y \<in> set (map f xs)" using that assms(2) by simp
    then show ?thesis using assms(1) by auto
  qed
  moreover have "set ds = set cs" using assms(3) by (rule mset_eq_setD)
  ultimately show ?thesis by simp
qed

lemma normalizeCandidateMembers_idem:
  assumes "lawful_ids ids" "normalizeCandidateMembers ids ms = Ok out"
  shows "normalizeCandidateMembers ids out = Ok out"
proof -
  let ?k = "\<lambda>m. (cm_Repository m, cm_Candidate m)"
  obtain cs where cs: "map (canon_member ids) ms = map Some cs" "distinct (map cm_Repository cs)" "distinct (map cm_Candidate cs)"
    "out = sort_key ?k cs" "ms \<noteq> []"
    using assms(2) by (auto simp: normalizeCandidateMembers_Ok)
  have out: "mset out = mset cs" by (simp add: cs(4))
  have "map (canon_member ids) out = map Some out"
    using canon_member_idem [OF assms(1)] cs(1) out by (rule map_Some_idem)
  moreover have "sort_key ?k out = out"
    by (rule sort_key_inj_key_eq) (use cs(2) out in \<open>auto simp: cs(4) distinct_map inj_on_def\<close>)
  moreover have "out \<noteq> []" using cs(1,5) out by auto
  ultimately show ?thesis
    using distinct_map_permuted [OF out] cs(2,3) by (auto simp: normalizeCandidateMembers_Ok intro!: exI [of _ out])
qed

lemma normalizePublications_idem:
  assumes "lawful_ids ids" "normalizePublications ids ps = Ok out"
  shows "normalizePublications ids out = Ok out"
proof -
  let ?k = "\<lambda>p. (rp_Repository p, rp_Candidate p)"
  obtain cs where cs: "map (canon_publication ids) ps = map Some cs" "distinct (map rp_Repository cs)" "distinct (map rp_Candidate cs)"
    "out = sort_key ?k cs" "ps \<noteq> []"
    using assms(2) by (auto simp: normalizePublications_Ok)
  have out: "mset out = mset cs" by (simp add: cs(4))
  have "map (canon_publication ids) out = map Some out"
    using canon_publication_idem [OF assms(1)] cs(1) out by (rule map_Some_idem)
  moreover have "sort_key ?k out = out"
    by (rule sort_key_inj_key_eq) (use cs(2) out in \<open>auto simp: cs(4) distinct_map inj_on_def\<close>)
  moreover have "out \<noteq> []" using cs(1,5) out by auto
  ultimately show ?thesis
    using distinct_map_permuted [OF out] cs(2,3) by (auto simp: normalizePublications_Ok intro!: exI [of _ out])
qed

lemma normalizeCandidateMembers_permuted:
  assumes "mset ns = mset ms" "normalizeCandidateMembers ids ms = Ok out"
  shows "normalizeCandidateMembers ids ns = Ok out"
proof -
  obtain cs where cs: "map (canon_member ids) ms = map Some cs" "distinct (map cm_Repository cs)" "distinct (map cm_Candidate cs)"
    "out = sort_key (\<lambda>m. (cm_Repository m, cm_Candidate m)) cs" "ms \<noteq> []"
    using assms(2) by (auto simp: normalizeCandidateMembers_Ok)
  obtain ds where ds: "map (canon_member ids) ns = map Some ds" "mset ds = mset cs"
    using map_Some_permuted [OF cs(1) assms(1)] by blast
  have "sort_key (\<lambda>m. (cm_Repository m, cm_Candidate m)) ds = out"
    unfolding cs(4) by (rule sort_key_permuted [OF ds(2) cs(2)]) simp
  moreover have "ns \<noteq> []" using assms(1) cs(5) by auto
  ultimately show ?thesis
    using ds distinct_map_permuted [OF ds(2)] cs(2,3) by (auto simp: normalizeCandidateMembers_Ok intro!: exI [of _ ds])
qed

lemma normalizePublications_permuted:
  assumes "mset ns = mset ps" "normalizePublications ids ps = Ok out"
  shows "normalizePublications ids ns = Ok out"
proof -
  obtain cs where cs: "map (canon_publication ids) ps = map Some cs" "distinct (map rp_Repository cs)" "distinct (map rp_Candidate cs)"
    "out = sort_key (\<lambda>p. (rp_Repository p, rp_Candidate p)) cs" "ps \<noteq> []"
    using assms(2) by (auto simp: normalizePublications_Ok)
  obtain ds where ds: "map (canon_publication ids) ns = map Some ds" "mset ds = mset cs"
    using map_Some_permuted [OF cs(1) assms(1)] by blast
  have "sort_key (\<lambda>p. (rp_Repository p, rp_Candidate p)) ds = out"
    unfolding cs(4) by (rule sort_key_permuted [OF ds(2) cs(2)]) simp
  moreover have "ns \<noteq> []" using assms(1) cs(5) by auto
  ultimately show ?thesis
    using ds distinct_map_permuted [OF ds(2)] cs(2,3) by (auto simp: normalizePublications_Ok intro!: exI [of _ ds])
qed

section \<open>Review axes\<close>

lemma validate_axes_Ok:
  "validate_axes_from i seen axs = Ok u \<longleftrightarrow> (\<forall>(a, want) \<in> set axs. ax_Axis a = want \<and> 0 < ax_Event a \<and> Verdict_valid (ax_Verdict a)) \<and>
     distinct (map (ax_Event \<circ> fst) axs) \<and> (\<forall>(a, want) \<in> set axs. ax_Event a \<notin> set seen)"
  proof (induction i seen axs rule: validate_axes_from.induct)
  case (2 i seen axis want rest)
  have "(\<forall>(a, w) \<in> set rest. ax_Event a \<notin> set (ax_Event axis # seen)) \<longleftrightarrow>
      ax_Event axis \<notin> (ax_Event \<circ> fst) ` set rest \<and> (\<forall>(a, w) \<in> set rest. ax_Event a \<notin> set seen)"
    by (force simp: image_iff)
  then show ?case using 2 by (auto simp: not_le)
qed simp

text \<open>Three distinct committed events, one per axis in the canonical order.\<close>

definition axes_committed :: "review_axes \<Rightarrow> bool" where
  "axes_committed axes \<longleftrightarrow> map ax_Axis (axes_list axes) = canonicalReviewAxes \<and> distinct (map ax_Event (axes_list axes)) \<and>
     (\<forall>a \<in> set (axes_list axes). 0 < ax_Event a \<and> Verdict_valid (ax_Verdict a))"

lemma validateReviewAxes_Ok:
  "validateReviewAxes axes state = Ok u \<longleftrightarrow> axes_committed axes \<and>
     (state = reviewFinalizedClean \<longrightarrow> \<not> has_revise axes) \<and> (state = reviewFinalizedRevising \<longrightarrow> has_revise axes)"
  by (cases axes) (auto simp: validateReviewAxes_def validate_axes_Ok axes_committed_def axes_list_def canonicalReviewAxes_def)

lemma not_revise_accept: "axes_committed axes \<Longrightarrow> \<not> has_revise axes \<longleftrightarrow> (\<forall>a \<in> set (axes_list axes). ax_Verdict a = VerdictAccept)"
  by (auto simp: axes_committed_def has_revise_def Verdict_valid_def list_ex_iff)

lemma validateImplementationReviewAuthority_Ok:
  "validateImplementationReviewAuthority ids v = Ok u \<longleftrightarrow>
     validateTaskWrapper ids (ra_Epoch v) ''epoch'' = Ok () \<and> validateTaskWrapper ids (ra_Candidate v) ''candidate'' = Ok () \<and>
     validateText (ra_Round v) ''review round'' = Ok () \<and> validateOperationID ids (ra_Operation v) = Ok () \<and>
     reviewAuthorityState_valid (ra_State v) \<and>
     (if ra_State v = reviewStarted \<or> ra_State v = reviewInvalidated then zeroReviewAxes (ra_Axes v)
      else validateReviewAxes (ra_Axes v) (ra_State v) = Ok ())"
  by (auto simp: validateImplementationReviewAuthority_def validateEpoch_def)

section \<open>Canonical facts\<close>

text \<open>
  The contract of an authority fact: its constructor leaves its own results alone, and its
  strict decoder returns exactly such results, all of them.
\<close>

locale canonical_fact =
  fixes norm :: "prov_ids \<Rightarrow> 'v \<Rightarrow> authority_error + 'v"
    and decode :: "prov_ids \<Rightarrow> authority_codecs \<Rightarrow> string \<Rightarrow> authority_error + 'v"
    and codec :: "authority_codecs \<Rightarrow> 'v json_codec"
  assumes norm_idem: "lawful_ids ids \<Longrightarrow> norm ids v = Ok w \<Longrightarrow> norm ids w = Ok w"
    and decode_accepts: "norm ids w = Ok w \<Longrightarrow> ValidString p \<Longrightarrow> js_Unmarshal (codec cs) p = Some w \<Longrightarrow>
      js_Marshal (codec cs) w = Some p \<Longrightarrow> decode ids cs p = Ok w"
    and decode_normal: "decode ids cs p = Ok w \<Longrightarrow> js_Unmarshal (codec cs) p = Some w \<and> norm ids w = Ok w"
begin

lemma stored_fact_decodes:
  assumes "lawful_ids ids" "norm ids v = Ok w" "js_Marshal (codec cs) w = Some p" "js_Unmarshal (codec cs) p = Some w" "ValidString p"
  shows "decode ids cs p = Ok w"
  using decode_accepts [OF norm_idem [OF assms(1,2)] assms(5,4,3)] .

lemma decoded_same:
  "decode ids cs p = Ok w \<Longrightarrow> decode ids cs p' = Ok w' \<Longrightarrow> js_Marshal (codec cs) w = Some p \<Longrightarrow>
     js_Marshal (codec cs) w' = Some p' \<Longrightarrow> w = w' \<longleftrightarrow> p = p'"
  using decode_normal by fastforce

end

lemma decodeAuthorityJSON_Ok [simp]:
  "decodeAuthorityJSON codec what p = Ok v \<longleftrightarrow> ValidString p \<and> js_Unmarshal codec p = Some v"
  by (auto simp: decodeAuthorityJSON_def validateAuthorityJSONUTF8_def split: option.splits)

lemma newImplementationReviewAuthority_Ok:
  "newImplementationReviewAuthority ids v = Ok w \<longleftrightarrow>
     (\<exists>e c. canonicalAuthorityTaskID ids (ra_Epoch v) ''epoch'' = Ok e \<and> canonicalAuthorityTaskID ids (ra_Candidate v) ''candidate'' = Ok c \<and>
        w = v\<lparr>ra_Epoch := e, ra_Candidate := c\<rparr> \<and> validateImplementationReviewAuthority ids w = Ok ())"
  by (auto simp: newImplementationReviewAuthority_def Let_def)

lemma newIntegrationCandidateManifest_Ok:
  "newIntegrationCandidateManifest ids epoch candidate members operation = Ok w \<longleftrightarrow>
     canonicalAuthorityTaskID ids epoch ''epoch'' = Ok (mf_Epoch w) \<and>
     canonicalAuthorityTaskID ids candidate ''candidate set'' = Ok (mf_Candidate w) \<and>
     validateOperationID ids operation = Ok () \<and> normalizeCandidateMembers ids members = Ok (mf_Members w) \<and> mf_Operation w = operation"
  by (cases w) (auto simp: newIntegrationCandidateManifest_def)

lemma newCandidatePublicationSet_Ok:
  "newCandidatePublicationSet ids epoch candidate publications operation = Ok w \<longleftrightarrow>
     canonicalAuthorityTaskID ids epoch ''epoch'' = Ok (pb_Epoch w) \<and>
     canonicalAuthorityTaskID ids candidate ''candidate set'' = Ok (pb_Candidate w) \<and>
     validateOperationID ids operation = Ok () \<and> normalizePublications ids publications = Ok (pb_Publications w) \<and>
     pb_Operation w = operation"
  by (cases w) (auto simp: newCandidatePublicationSet_def)

lemma newImplementationUATReviewBinding_Ok:
  "newImplementationUATReviewBinding ids epoch candidate round reviewFact operation = Ok w \<longleftrightarrow>
     canonicalAuthorityTaskID ids epoch ''epoch'' = Ok (ub_Epoch w) \<and>
     canonicalAuthorityTaskID ids candidate ''candidate set'' = Ok (ub_Candidate w) \<and>
     validateText round ''review round'' = Ok () \<and> 0 < reviewFact \<and> validateOperationID ids operation = Ok () \<and>
     ub_ReviewRound w = round \<and> ub_ReviewFact w = reviewFact \<and> ub_Operation w = operation"
  by (cases w) (auto simp: newImplementationUATReviewBinding_def)

lemma members_match_Ok:
  "length ms = length ps \<Longrightarrow> members_match i ms ps = Ok u \<longleftrightarrow>
     map (\<lambda>m. (cm_Repository m, cm_Candidate m, cm_Commit m)) ms = map (\<lambda>p. (rp_Repository p, rp_Candidate p, rp_Commit p)) ps"
  by (induction i ms ps rule: members_match.induct) auto

text \<open>Every member published at its exact commit, and nothing else.\<close>

definition publishes_exactly :: "candidateMember list \<Rightarrow> repositoryPublication list \<Rightarrow> bool" where
  "publishes_exactly ms ps \<longleftrightarrow>
     map (\<lambda>m. (cm_Repository m, cm_Candidate m, cm_Commit m)) ms = map (\<lambda>p. (rp_Repository p, rp_Candidate p, rp_Commit p)) ps"

lemma validatePublicationSetAgainstManifest_Ok:
  "validatePublicationSetAgainstManifest m p = Ok u \<longleftrightarrow> mf_Epoch m = pb_Epoch p \<and> mf_Candidate m = pb_Candidate p \<and>
     publishes_exactly (mf_Members m) (pb_Publications p)"
proof (cases "length (mf_Members m) = length (pb_Publications p)")
  case True
  then show ?thesis by (auto simp: validatePublicationSetAgainstManifest_def members_match_Ok publishes_exactly_def)
next
  case False
  then show ?thesis
    by (auto simp: validatePublicationSetAgainstManifest_def publishes_exactly_def dest: map_eq_imp_length_eq)
qed

lemma references_positive_Ok: "references_positive rs = Ok u \<longleftrightarrow> (\<forall>r \<in> set rs. 0 < snd r)"
  by (induction rs rule: references_positive.induct) auto

definition land_references_ok :: "prov_ids \<Rightarrow> landAuthorityBinding \<Rightarrow> bool" where
  "land_references_ok ids v \<longleftrightarrow> validateOperationID ids (lb_LandOperation v) = Ok () \<and>
     validateOperationID ids (lb_ImplementationUATOperation v) = Ok () \<and>
     lb_ImplementationUAT v = decisionIDForOperation (lb_ImplementationUATOperation v) \<and>
     validateText (lb_ReviewRound v) ''review round'' = Ok () \<and>
     (\<forall>i \<in> {lb_ImplementationUATDecisionFact v, lb_ImplementationUATStateFact v, lb_ImplementationUATReviewBindingFact v,
        lb_ReviewFact v, lb_ManifestFact v, lb_PublicationSetFact v}. 0 < i) \<and>
     validateReviewAxes (lb_ReviewAxes v) reviewFinalizedClean = Ok ()"

lemma newLandAuthorityBinding_Ok:
  "newLandAuthorityBinding ids v = Ok w \<longleftrightarrow> land_references_ok ids v \<and>
     (\<exists>e c ms ps. canonicalAuthorityTaskID ids (lb_Epoch v) ''epoch'' = Ok e \<and>
        canonicalAuthorityTaskID ids (lb_Candidate v) ''candidate set'' = Ok c \<and>
        normalizeCandidateMembers ids (lb_Members v) = Ok ms \<and> normalizePublications ids (lb_Publications v) = Ok ps \<and>
        publishes_exactly ms ps \<and> w = v\<lparr>lb_Epoch := e, lb_Candidate := c, lb_Members := ms, lb_Publications := ps\<rparr>)"
  by (auto simp: newLandAuthorityBinding_def land_references_ok_def references_positive_Ok validatePublicationSetAgainstManifest_Ok)

interpretation review_fact: canonical_fact newImplementationReviewAuthority decodeImplementationReviewAuthority ac_review
proof
  show "newImplementationReviewAuthority ids w = Ok w"
    if "lawful_ids ids" "newImplementationReviewAuthority ids v = Ok w" for ids v w
    using that canonical_idem(1) by (fastforce simp: newImplementationReviewAuthority_Ok)
  show "js_Unmarshal (ac_review cs) p = Some w \<and> newImplementationReviewAuthority ids w = Ok w"
    if d: "decodeImplementationReviewAuthority ids cs p = Ok w" for ids cs p w
  proof -
    obtain u where u: "js_Unmarshal (ac_review cs) p = Some u" "newImplementationReviewAuthority ids u = Ok w" and same: "u = w"
      using d by (auto simp: decodeImplementationReviewAuthority_def if_Err_eq_Ok newImplementationReviewAuthority_Ok intro!: implementationReviewAuthority.equality)
    show ?thesis using u by (simp add: same)
  qed
qed (simp add: decodeImplementationReviewAuthority_def)

interpretation manifest_fact: canonical_fact
  "\<lambda>ids v. newIntegrationCandidateManifest ids (mf_Epoch v) (mf_Candidate v) (mf_Members v) (mf_Operation v)"
  decodeCandidateManifest ac_manifest
proof
  show "newIntegrationCandidateManifest ids (mf_Epoch w) (mf_Candidate w) (mf_Members w) (mf_Operation w) = Ok w"
    if "lawful_ids ids" "newIntegrationCandidateManifest ids (mf_Epoch v) (mf_Candidate v) (mf_Members v) (mf_Operation v) = Ok w" for ids v w
    using that canonical_idem(1) normalizeCandidateMembers_idem by (fastforce simp: newIntegrationCandidateManifest_Ok)
  show "js_Unmarshal (ac_manifest cs) p = Some w \<and> newIntegrationCandidateManifest ids (mf_Epoch w) (mf_Candidate w) (mf_Members w) (mf_Operation w) = Ok w"
    if d: "decodeCandidateManifest ids cs p = Ok w" for ids cs p w
  proof -
    obtain u where u: "js_Unmarshal (ac_manifest cs) p = Some u" "newIntegrationCandidateManifest ids (mf_Epoch u) (mf_Candidate u) (mf_Members u) (mf_Operation u) = Ok w" and same: "u = w"
      using d by (auto simp: decodeCandidateManifest_def if_Err_eq_Ok newIntegrationCandidateManifest_Ok intro!: integrationCandidateManifest.equality)
    show ?thesis using u by (simp add: same)
  qed
qed (simp add: decodeCandidateManifest_def)

interpretation publication_fact: canonical_fact
  "\<lambda>ids v. newCandidatePublicationSet ids (pb_Epoch v) (pb_Candidate v) (pb_Publications v) (pb_Operation v)"
  decodeCandidatePublicationSet ac_publications
proof
  show "newCandidatePublicationSet ids (pb_Epoch w) (pb_Candidate w) (pb_Publications w) (pb_Operation w) = Ok w"
    if "lawful_ids ids" "newCandidatePublicationSet ids (pb_Epoch v) (pb_Candidate v) (pb_Publications v) (pb_Operation v) = Ok w" for ids v w
    using that canonical_idem(1) normalizePublications_idem by (fastforce simp: newCandidatePublicationSet_Ok)
  show "js_Unmarshal (ac_publications cs) p = Some w \<and> newCandidatePublicationSet ids (pb_Epoch w) (pb_Candidate w) (pb_Publications w) (pb_Operation w) = Ok w"
    if d: "decodeCandidatePublicationSet ids cs p = Ok w" for ids cs p w
  proof -
    obtain u where u: "js_Unmarshal (ac_publications cs) p = Some u" "newCandidatePublicationSet ids (pb_Epoch u) (pb_Candidate u) (pb_Publications u) (pb_Operation u) = Ok w" and same: "u = w"
      using d by (auto simp: decodeCandidatePublicationSet_def if_Err_eq_Ok newCandidatePublicationSet_Ok intro!: candidatePublicationSet.equality)
    show ?thesis using u by (simp add: same)
  qed
qed (simp add: decodeCandidatePublicationSet_def)

interpretation uat_binding_fact: canonical_fact
  "\<lambda>ids v. newImplementationUATReviewBinding ids (ub_Epoch v) (ub_Candidate v) (ub_ReviewRound v) (ub_ReviewFact v) (ub_Operation v)"
  decodeImplementationUATReviewBinding ac_uatBinding
proof
  show "newImplementationUATReviewBinding ids (ub_Epoch w) (ub_Candidate w) (ub_ReviewRound w) (ub_ReviewFact w) (ub_Operation w) = Ok w"
    if "lawful_ids ids" "newImplementationUATReviewBinding ids (ub_Epoch v) (ub_Candidate v) (ub_ReviewRound v) (ub_ReviewFact v)
      (ub_Operation v) = Ok w" for ids v w
    using that canonical_idem(1) by (fastforce simp: newImplementationUATReviewBinding_Ok)
  show "js_Unmarshal (ac_uatBinding cs) p = Some w \<and> newImplementationUATReviewBinding ids (ub_Epoch w) (ub_Candidate w) (ub_ReviewRound w) (ub_ReviewFact w) (ub_Operation w) = Ok w"
    if d: "decodeImplementationUATReviewBinding ids cs p = Ok w" for ids cs p w
  proof -
    obtain u where u: "js_Unmarshal (ac_uatBinding cs) p = Some u" "newImplementationUATReviewBinding ids (ub_Epoch u) (ub_Candidate u) (ub_ReviewRound u) (ub_ReviewFact u) (ub_Operation u) = Ok w" and same: "u = w"
      using d by (auto simp: decodeImplementationUATReviewBinding_def if_Err_eq_Ok newImplementationUATReviewBinding_Ok intro!: implementationUATReviewBinding.equality)
    show ?thesis using u by (simp add: same)
  qed
qed (simp add: decodeImplementationUATReviewBinding_def)

interpretation land_fact: canonical_fact newLandAuthorityBinding decodeLandAuthorityBinding ac_landBinding
proof
  show "newLandAuthorityBinding ids w = Ok w" if l: "lawful_ids ids" and ok: "newLandAuthorityBinding ids v = Ok w" for ids v w
  proof -
    obtain e c ms ps where *: "canonicalAuthorityTaskID ids (lb_Epoch v) ''epoch'' = Ok e"
      "canonicalAuthorityTaskID ids (lb_Candidate v) ''candidate set'' = Ok c"
      "normalizeCandidateMembers ids (lb_Members v) = Ok ms" "normalizePublications ids (lb_Publications v) = Ok ps"
      "publishes_exactly ms ps" "w = v\<lparr>lb_Epoch := e, lb_Candidate := c, lb_Members := ms, lb_Publications := ps\<rparr>"
      "land_references_ok ids v"
      using ok by (auto simp: newLandAuthorityBinding_Ok)
    show ?thesis
      using * canonical_idem(1) [OF l *(1)] canonical_idem(1) [OF l *(2)]
        normalizeCandidateMembers_idem [OF l *(3)] normalizePublications_idem [OF l *(4)]
      by (auto simp: newLandAuthorityBinding_Ok land_references_ok_def)
  qed
  show "js_Unmarshal (ac_landBinding cs) p = Some w \<and> newLandAuthorityBinding ids w = Ok w"
    if d: "decodeLandAuthorityBinding ids cs p = Ok w" for ids cs p w
  proof -
    obtain u where u: "js_Unmarshal (ac_landBinding cs) p = Some u" "newLandAuthorityBinding ids u = Ok w"
      "lb_Epoch u = lb_Epoch w" "lb_Candidate u = lb_Candidate w" "lb_Members u = lb_Members w" "lb_Publications u = lb_Publications w"
      using d by (auto simp: decodeLandAuthorityBinding_def split: option.splits if_splits)
    obtain e c ms ps where "w = u\<lparr>lb_Epoch := e, lb_Candidate := c, lb_Members := ms, lb_Publications := ps\<rparr>"
      using u(2) by (auto simp: newLandAuthorityBinding_Ok)
    with u(3-6) have "w = u" by simp
    with u show ?thesis by simp
  qed
qed (simp add: decodeLandAuthorityBinding_def)

text \<open>C24: a landing authority binding that the constructor accepts binds a complete candidate: the published
  repositories are exactly the members of the manifest, each at its commit, one per
  repository; the review it cites has the three axes in order, each accepted by its own
  committed event; the decision it cites is the one of the accepted Implementation UAT
  operation.  The binding is a fixed point of its constructor, does not depend on the order
  the members and publications were given in, and what is stored of it decodes to it.\<close>

theorem land_binding_complete:
  assumes "newLandAuthorityBinding ids v = Ok w"
  shows "publishes_exactly (lb_Members w) (lb_Publications w) \<and> lb_Members w \<noteq> [] \<and>
    distinct (map cm_Repository (lb_Members w)) \<and> distinct (map cm_Candidate (lb_Members w)) \<and>
    map ax_Axis (axes_list (lb_ReviewAxes w)) = canonicalReviewAxes \<and> distinct (map ax_Event (axes_list (lb_ReviewAxes w))) \<and>
    (\<forall>a \<in> set (axes_list (lb_ReviewAxes w)). 0 < ax_Event a \<and> ax_Verdict a = VerdictAccept) \<and>
    lb_ImplementationUAT w = decisionIDForOperation (lb_ImplementationUATOperation w) \<and>
    (\<forall>ms ps. mset ms = mset (lb_Members v) \<and> mset ps = mset (lb_Publications v) \<longrightarrow>
       newLandAuthorityBinding ids (v\<lparr>lb_Members := ms, lb_Publications := ps\<rparr>) = Ok w) \<and>
    (lawful_ids ids \<longrightarrow> newLandAuthorityBinding ids w = Ok w \<and>
      (\<forall>codecs p. js_Marshal (ac_landBinding codecs) w = Some p \<and> js_Unmarshal (ac_landBinding codecs) p = Some w \<and>
         ValidString p \<longrightarrow> decodeLandAuthorityBinding ids codecs p = Ok w))"
proof -
  obtain e c ms ps where *: "canonicalAuthorityTaskID ids (lb_Epoch v) ''epoch'' = Ok e"
    "canonicalAuthorityTaskID ids (lb_Candidate v) ''candidate set'' = Ok c"
    "normalizeCandidateMembers ids (lb_Members v) = Ok ms" "normalizePublications ids (lb_Publications v) = Ok ps"
    "publishes_exactly ms ps" "w = v\<lparr>lb_Epoch := e, lb_Candidate := c, lb_Members := ms, lb_Publications := ps\<rparr>"
    "land_references_ok ids v"
    using assms by (auto simp: newLandAuthorityBinding_Ok)
  obtain cs where cs: "map (canon_member ids) (lb_Members v) = map Some cs" "distinct (map cm_Repository cs)"
    "distinct (map cm_Candidate cs)" "ms = sort_key (\<lambda>m. (cm_Repository m, cm_Candidate m)) cs" "lb_Members v \<noteq> []"
    using *(3) by (auto simp: normalizeCandidateMembers_Ok)
  have ms: "mset ms = mset cs" by (simp add: cs(4))
  have "length cs = length (lb_Members v)" using cs(1) by (metis length_map)
  then have "ms \<noteq> []" using cs(5) size_mset [of ms] size_mset [of cs] ms by fastforce
  then have members: "lb_Members w \<noteq> []" "distinct (map cm_Repository (lb_Members w))" "distinct (map cm_Candidate (lb_Members w))"
    using distinct_map_permuted [OF ms] cs(2,3) *(6) by simp_all
  have axes: "axes_committed (lb_ReviewAxes w)" "\<not> has_revise (lb_ReviewAxes w)"
    using *(6,7) by (simp_all add: land_references_ok_def validateReviewAxes_Ok)
  have perm: "newLandAuthorityBinding ids (v\<lparr>lb_Members := ns, lb_Publications := qs\<rparr>) = Ok w"
    if "mset ns = mset (lb_Members v)" "mset qs = mset (lb_Publications v)" for ns qs
    using * normalizeCandidateMembers_permuted [OF that(1) *(3)] normalizePublications_permuted [OF that(2) *(4)]
    by (auto simp: newLandAuthorityBinding_Ok land_references_ok_def)
  have canonical: "newLandAuthorityBinding ids w = Ok w" if "lawful_ids ids"
    using land_fact.norm_idem [OF that assms] .
  have stored: "decodeLandAuthorityBinding ids codecs p = Ok w"
    if "lawful_ids ids" "js_Marshal (ac_landBinding codecs) w = Some p" "js_Unmarshal (ac_landBinding codecs) p = Some w" "ValidString p"
    for codecs p
    using land_fact.stored_fact_decodes [OF that(1) assms that(2-4)] .
  show ?thesis
    using * members axes perm canonical stored not_revise_accept [OF axes(1)]
    by (auto simp: axes_committed_def land_references_ok_def)
qed

section \<open>An instance\<close>

definition sample_ids :: prov_ids where
  "sample_ids = \<lparr>pi_ParseTaskID = (\<lambda>s. if list_all (\<lambda>c. of_char c < (128 :: nat)) s then Some \<lparr>tk_Namespace = s, tk_UUID = ''u''\<rparr> else None),
     pi_String = tk_Namespace,
     pi_TaskContext = (\<lambda>_. True), pi_ValidateOperationID = (\<lambda>s. s \<noteq> []), pi_GitContext = (\<lambda>s. s \<noteq> [])\<rparr>"

lemma ascii_valid: "list_all (\<lambda>c. of_char c < (128 :: nat)) s \<Longrightarrow> ValidString s"
proof -
  assume "list_all (\<lambda>c. of_char c < (128 :: nat)) s"
  then have "list_all (\<lambda>b. b < (128 :: nat)) (map of_char s)" by (induction s) simp_all
  then show ?thesis by (simp add: ValidString_def string_runes_def runes_ascii list_all_iff)
qed

lemma lawful_sample_ids: "lawful_ids sample_ids"
  using ascii_valid by (auto simp: lawful_ids_def sample_ids_def split: if_splits)

definition sample_axes :: review_axes where
  "sample_axes = (\<lparr>ax_Axis = AxisCorrectness, ax_Event = 11, ax_Verdict = VerdictAccept\<rparr>,
     \<lparr>ax_Axis = AxisTestQuality, ax_Event = 12, ax_Verdict = VerdictAccept\<rparr>,
     \<lparr>ax_Axis = AxisElegance, ax_Event = 13, ax_Verdict = VerdictAccept\<rparr>)"

definition sample_members :: "candidateMember list" where
  "sample_members = [\<lparr>cm_Repository = ''b'', cm_Candidate = ''y'', cm_Commit = ''2''\<rparr>, \<lparr>cm_Repository = ''a'', cm_Candidate = ''x'', cm_Commit = ''1''\<rparr>]"

definition sample_publications :: "repositoryPublication list" where
  "sample_publications = [\<lparr>rp_Repository = ''a'', rp_Candidate = ''x'', rp_Ref = ''r/a'', rp_Commit = ''1'', rp_VerificationOperation = ''p''\<rparr>,
     \<lparr>rp_Repository = ''b'', rp_Candidate = ''y'', rp_Ref = ''r/b'', rp_Commit = ''2'', rp_VerificationOperation = ''p''\<rparr>]"

definition sample_land :: landAuthorityBinding where
  "sample_land = \<lparr>lb_Epoch = ''e'', lb_Candidate = ''c'', lb_LandOperation = ''l'', lb_ImplementationUAT = ''decision:i'',
     lb_ImplementationUATOperation = ''i'', lb_ImplementationUATDecisionFact = 21, lb_ImplementationUATStateFact = 22,
     lb_ImplementationUATReviewBindingFact = 23, lb_ReviewFact = 20, lb_ReviewRound = ''r'', lb_ReviewAxes = sample_axes,
     lb_ManifestFact = 10, lb_Members = sample_members, lb_PublicationSetFact = 15, lb_Publications = sample_publications\<rparr>"

lemma sample_land_Ok:
  "newLandAuthorityBinding sample_ids sample_land = Ok (sample_land\<lparr>lb_Members := rev sample_members\<rparr>)"
proof -
  note scalar = ValidString_def string_runes_def rune_width_def rune_value_def padded_def IsSpace_def IsControl_def
    validateText_def validateAuthorityUTF8_def fail_if_def
  have task: "canonicalAuthorityTaskID sample_ids s l = Ok s" if "s \<in> set [''e'', ''c'', ''x'', ''y'']" for s l
    using that by (auto simp: canonicalAuthorityTaskID_Ok sample_ids_def scalar)
  have op: "validateOperationID sample_ids s = Ok ()" if "s \<in> set [''l'', ''i'', ''p'']" for s
    using that by (auto simp: validateOperationID_def sample_ids_def scalar)
  have oid: "validateGitOID sample_ids s = Ok ()" if "s \<in> set [''1'', ''2'']" for s
    using that by (auto simp: validateGitOID_def sample_ids_def scalar)
  have word: "validateText s l = Ok ()" if "s \<in> set [''a'', ''b'', ''r'']" for s l
    using that by (auto simp: scalar)
  have ref: "validateGitRef s = Ok ()" if "s \<in> set [''r/a'', ''r/b'']" for s
    using that by (auto simp: validateGitRef_def scalar HasPrefix_def HasSuffix_def Let_def)
  have members: "normalizeCandidateMembers sample_ids sample_members = Ok (rev sample_members)"
    by (simp add: normalizeCandidateMembers_def sample_members_def validateRepositoryID_def task oid word at_member_def)
  have publications: "normalizePublications sample_ids sample_publications = Ok sample_publications"
    by (simp add: normalizePublications_def sample_publications_def validateRepositoryID_def task oid word ref op at_member_def instead_def)
  have "land_references_ok sample_ids sample_land"
    by (simp add: land_references_ok_def sample_land_def op word decisionIDForOperation_def validateReviewAxes_Ok
        axes_committed_def sample_axes_def axes_list_def canonicalReviewAxes_def Verdict_valid_def has_revise_def)
  moreover have "publishes_exactly (rev sample_members) sample_publications"
    by (simp add: publishes_exactly_def sample_members_def sample_publications_def)
  ultimately show ?thesis
    using members publications task by (simp add: newLandAuthorityBinding_Ok) (simp add: sample_land_def)
qed

theorem land_binding_complete_witness:
  "newLandAuthorityBinding sample_ids sample_land = Ok (sample_land\<lparr>lb_Members := rev sample_members\<rparr>) \<and>
   publishes_exactly (rev sample_members) sample_publications"
  using sample_land_Ok land_binding_complete [OF sample_land_Ok] by (simp add: sample_land_def)

end
