(* ===== verification/HumanService.thy ===== *)
theory HumanService
  imports EpochAuthority
begin

text \<open>
  The explicit human decisions of an epoch (\<^verbatim>\<open>internal/tasks/epoch_human_service.go\<close>): setting
  the interaction mode, recording Plan and Implementation UAT, ratifying a plan and landing a
  candidate.  A command reads the journal, decides, and hands one operation to the journal's
  atomic \<^verbatim>\<open>Apply\<close>; the conditions it puts into the operation pin the facts it relied on.

  The journal belongs to the provenance library and is a parameter: the queries a command
  makes are functions of the reads record, each giving the pages a cursor visits until the
  library reports no next one; \<^verbatim>\<open>Apply\<close> is a function from the operation to its result.
  Further parameters are the JSON encodings, SHA-256, name-based UUIDs, the synchronisation
  barrier and the time read right before \<^verbatim>\<open>Apply\<close>; an operation input is prepared first and
  stamped with that time.
\<close>

section \<open>Journal rows and queries\<close>

record FactRow =
  fr_JournalID :: JournalID
  fr_TaskID :: "TaskID option"
  fr_Kind :: string
  fr_ProducingOperationID :: string
  fr_EffectiveActorID :: ActorID
  fr_Payload :: string

text \<open>A fact query: the task scope (\<open>None\<close> is any task), the producing operations (none means
  all) and the decision or evidence kinds.\<close>

record FactQuery =
  fq_Task :: "TaskID option"
  fq_OperationIDs :: "string list"
  fq_Kinds :: "string list"

type_synonym 'r pages = "(unit + 'r list) list"

datatype ConditionKind = ConditionCurrentFact | ConditionExactFact
datatype FactKind = FactDecision | FactEvidence | FactOther

record Condition =
  cd_Kind :: ConditionKind
  cd_FactKind :: FactKind
  cd_Task :: "TaskID option"
  cd_DecisionKind :: string
  cd_EvidenceKind :: string
  cd_AssertedJournalID :: JournalID

record prepared_input =
  oi_OperationID :: string
  oi_ActorID :: ActorID
  oi_AuthorityJournalID :: JournalID
  oi_CommandDigest :: string
  oi_Conditions :: "Condition list"
  oi_Effects :: "Effect list"

record OperationInput = prepared_input +
  oi_RecordedAt :: int

datatype JournalKind = JournalKindDecision | JournalKindActivity | JournalKindTaskEvent | JournalKindOther

record ResultSlot =
  rl_Slot :: string
  rl_Kind :: JournalKind
  rl_TaskID :: "TaskID option"
  rl_ActivityID :: "ActivityID option"

record CommittedResult =
  cr_ShortCircuited :: bool
  cr_ResultSlots :: "ResultSlot list"
  cr_EmittedEvents :: "JournalID list"

datatype human_error =
    humanServiceErr string string
  | policyFailed string policy_error
  | authorityFailed authority_error
  | queryFailed string
  | operationConflict string
  | encodingFailed string
  | eventRejected string
  | applyFailed string

definition of_policy :: "string \<Rightarrow> policy_error + 'a \<Rightarrow> human_error + 'a" where
  "of_policy what r = (case r of Err e \<Rightarrow> Err (policyFailed what e) | Ok v \<Rightarrow> Ok v)"

definition of_authority :: "authority_error + 'a \<Rightarrow> human_error + 'a" where
  "of_authority r = (case r of Err e \<Rightarrow> Err (authorityFailed e) | Ok v \<Rightarrow> Ok v)"

definition of_marshal :: "string \<Rightarrow> 'a option \<Rightarrow> human_error + 'a" where
  "of_marshal what r = (case r of None \<Rightarrow> Err (encodingFailed what) | Some v \<Rightarrow> Ok v)"

text \<open>A row processed after another, and the walk over the pages of a query.\<close>

fun fold_rows :: "('r \<Rightarrow> 's \<Rightarrow> human_error + 's) \<Rightarrow> 'r list \<Rightarrow> 's \<Rightarrow> human_error + 's" where
  "fold_rows f [] s = Ok s"
| "fold_rows f (r # rs) s = result_bind (f r s) (fold_rows f rs)"

fun walk_pages :: "string \<Rightarrow> ('r \<Rightarrow> 's \<Rightarrow> human_error + 's) \<Rightarrow> 'r pages \<Rightarrow> 's \<Rightarrow> human_error + 's" where
  "walk_pages what f [] s = Ok s"
| "walk_pages what f (p # ps) s =
     (case p of Err _ \<Rightarrow> Err (queryFailed what) | Ok rows \<Rightarrow> result_bind (fold_rows f rows s) (walk_pages what f ps))"

text \<open>The walk of \<open>foldDecisionFacts\<close>, whose visitor may stop it.\<close>

fun walk_rows_until :: "('r \<Rightarrow> 's \<Rightarrow> human_error + ('s \<times> bool)) \<Rightarrow> 'r list \<Rightarrow> 's \<Rightarrow> human_error + ('s \<times> bool)" where
  "walk_rows_until f [] s = Ok (s, False)"
| "walk_rows_until f (r # rs) s =
     result_bind (f r s) (\<lambda>(s', stop). if stop then Ok (s', True) else walk_rows_until f rs s')"

fun walk_pages_until :: "string \<Rightarrow> ('r \<Rightarrow> 's \<Rightarrow> human_error + ('s \<times> bool)) \<Rightarrow> 'r pages \<Rightarrow> 's \<Rightarrow> human_error + 's" where
  "walk_pages_until what f [] s = Ok s"
| "walk_pages_until what f (p # ps) s =
     (case p of Err _ \<Rightarrow> Err (queryFailed what)
      | Ok rows \<Rightarrow> result_bind (walk_rows_until f rows s) (\<lambda>(s', stop). if stop then Ok s' else walk_pages_until what f ps s'))"

section \<open>Inputs, results and stored envelopes\<close>

record SetInteractionModeInput =
  sm_OperationID :: string
  sm_Epoch :: string
  sm_Mode :: string
  sm_Actor :: ActorID

record PlanUATPayload =
  pp_Interactions :: "UATInteraction list"
  pp_Feedback :: "UATFeedbackItem list"
  pp_HeldQuestions :: "HeldUATQuestion list"

record PlanUATInput =
  pt_OperationID :: string
  pt_Epoch :: string
  pt_Proposal :: TaskID
  pt_Outcome :: PlanUATVerdict
  pt_Actor :: ActorID
  pt_Payload :: "PlanUATPayload option"

record RatifyPlanInput =
  rt_OperationID :: string
  rt_Epoch :: string
  rt_Proposal :: TaskID
  rt_ReviewRound :: string
  rt_PlanUAT :: string
  rt_Actor :: ActorID

record ImplementationUATInput =
  it_OperationID :: string
  it_Epoch :: string
  it_Candidate :: string
  it_Outcome :: ImplementationUATVerdict
  it_Actor :: ActorID
  it_Payload :: "ImplUATPayload option"

record LandInput =
  ln_OperationID :: string
  ln_Epoch :: string
  ln_Candidate :: string
  ln_ImplementationUAT :: string
  ln_Actor :: ActorID

record DecisionResult =
  dt_OperationID :: string
  dt_Replayed :: bool
  dt_Epoch :: string
  dt_ActivityID :: ActivityID
  dt_EventIDs :: "JournalID list"
  dt_DecisionID :: string
  dt_ActorID :: ActorID

record persistedDecision =
  pe_ID :: string
  pe_Epoch :: string
  pe_Subject :: string
  pe_Actor :: string
  pe_Decision :: DecisionEncoding

type_synonym decisionFact = "FactRow \<times> persistedDecision"

record evidenceRef =
  er_Kind :: string
  er_Value :: string
  er_State :: subjectState
  er_stateSubject :: TaskID

record conditionSnapshot =
  sp_Kind :: ConditionKind
  sp_FactKind :: FactKind
  sp_Task :: string
  sp_DecisionKind :: string
  sp_EvidenceKind :: string
  sp_AssertedJournalID :: JournalID

record subjectStateSnapshot =
  sn_subject :: TaskID
  sn_state :: subjectState
  sn_decision :: string
  sn_decisionKind :: string
  sn_operation :: string
  sn_source :: subjectStateSource
  sn_journalID :: JournalID
  sn_family :: string

section \<open>The service and what it calls\<close>

record human_lib =
  hl_ids :: prov_ids
  hl_ParseActorID :: "string \<Rightarrow> ActorID option"
  hl_ActorString :: "ActorID \<Rightarrow> string"
  hl_sha256 :: "string \<Rightarrow> digest"
  hl_uuidSHA1 :: "string \<Rightarrow> string"
  hl_payloads :: policy_lib
  hl_policy :: PolicySet
  hl_facts :: authority_codecs
  hl_envelope :: "persistedDecision json_codec"
  hl_conditions :: "conditionSnapshot list json_codec"
  hl_reference :: "string \<Rightarrow> string \<Rightarrow> string \<Rightarrow> string \<Rightarrow> string option"
  hl_command :: "string \<Rightarrow> string \<Rightarrow> string \<Rightarrow> DecisionEncoding \<Rightarrow> evidenceRef list \<Rightarrow> string option"
  hl_recorded :: "TaskID \<Rightarrow> ActivityID \<Rightarrow> ActorID \<Rightarrow> string \<Rightarrow> string \<Rightarrow> string option"
  hl_reviewFinalized :: "string \<Rightarrow> (string \<times> string \<times> string) option"
  hl_EventKindTaskClosed :: string
  hl_ValidateEventKind :: "string \<Rightarrow> bool"
  hl_ActorContext :: "ActorID \<Rightarrow> bool"
  hl_ActivityContext :: "ActivityID \<Rightarrow> bool"
  hl_authority :: JournalID
  hl_barrier :: "int \<Rightarrow> bool"

record journal_reads =
  rd_Show :: "TaskID \<Rightarrow> bool"
  rd_Agent :: "ActorID \<Rightarrow> AgentKind option"
  rd_QueryDecisions :: "FactQuery \<Rightarrow> FactRow pages"
  rd_QueryEvidence :: "FactQuery \<Rightarrow> FactRow pages"
  rd_QueryTaskEvents :: "TaskID \<Rightarrow> string \<Rightarrow> string pages"

abbreviation (input) MutationSetInteractionMode :: int where "MutationSetInteractionMode \<equiv> 1"
abbreviation (input) MutationRecordPlanUAT :: int where "MutationRecordPlanUAT \<equiv> 12"
abbreviation (input) MutationRatifyPlan :: int where "MutationRatifyPlan \<equiv> 13"
abbreviation (input) MutationRecordImplementationUAT :: int where "MutationRecordImplementationUAT \<equiv> 14"
abbreviation (input) MutationLand :: int where "MutationLand \<equiv> 15"

definition parseTaskID :: "human_lib \<Rightarrow> string \<Rightarrow> string \<Rightarrow> string \<Rightarrow> human_error + TaskID" where
  "parseTaskID lib place raw label =
     (case pi_ParseTaskID (hl_ids lib) raw of
        None \<Rightarrow> Err (humanServiceErr place (label @ '' id '' @ quote raw @ '' is malformed''))
      | Some t \<Rightarrow> Ok t)"

definition preflightCommon ::
  "human_lib \<Rightarrow> journal_reads \<Rightarrow> string \<Rightarrow> string \<Rightarrow> ActorID \<Rightarrow> human_error + TaskID" where
  "preflightCommon lib rd operation epochID actor =
     (if operation = [] then Err (humanServiceErr ''preflight'' ''the internal operation identity is empty'')
      else result_bind (parseTaskID lib ''preflight'' epochID ''epoch'') (\<lambda>epoch.
        if \<not> rd_Show rd epoch then Err (humanServiceErr ''preflight'' (''epoch '' @ quote epochID @ '' could not be read''))
        else if actor = zero_TaskID then Err (humanServiceErr ''preflight'' ''no human actor was supplied'')
        else case rd_Agent rd actor of
            None \<Rightarrow> Err (humanServiceErr ''preflight'' (''actor '' @ quote (hl_ActorString lib actor) @ '' is not registered''))
          | Some kind \<Rightarrow>
              if kind \<noteq> AgentKindHuman
              then Err (humanServiceErr ''preflight'' (''actor '' @ quote (hl_ActorString lib actor) @ '' is not human''))
              else Ok epoch))"

definition journalDecisionKind :: "string \<Rightarrow> string" where
  "journalDecisionKind kind = map (\<lambda>c. if c = CHR ''/'' then CHR ''.'' else c) kind"

definition planUATDecisionKinds :: "string list" where
  "planUATDecisionKinds = [DecisionPlanUATAccepted, DecisionPlanUATChangesRequested, DecisionPlanUATDeferredByAFK]"

definition decisionKindID :: "string \<Rightarrow> string option" where
  "decisionKindID kind = find (\<lambda>candidate. journalDecisionKind candidate = kind)
     [DecisionInteractionModeChanged, DecisionPlanUATAccepted, DecisionPlanUATChangesRequested, DecisionPlanUATDeferredByAFK,
      DecisionImplementationUAT, DecisionPlanRatified, DecisionLanded]"

section \<open>Reading decisions\<close>

definition decodeDecisionFact ::
  "human_lib \<Rightarrow> FactRow \<Rightarrow> TaskID \<Rightarrow> string \<Rightarrow> human_error + decisionFact" where
  "decodeDecisionFact lib row subject expectedKind =
     (let bad = humanServiceErr ''decodeDecisionFact'' in
      if fr_TaskID row \<noteq> Some subject \<or> fr_Kind row \<noteq> journalDecisionKind expectedKind
      then Err (bad ''a queried decision fact has an unexpected task or kind'')
      else case js_Unmarshal (hl_envelope lib) (fr_Payload row) of
          None \<Rightarrow> Err (bad ''a canonical decision fact has malformed payload'')
        | Some record' \<Rightarrow>
            if hl_ParseActorID lib (pe_Actor record') \<noteq> Some (fr_EffectiveActorID row) \<or>
               pe_ID record' \<noteq> decisionIDForOperation (fr_ProducingOperationID row) \<or>
               pe_Subject record' \<noteq> pi_String (hl_ids lib) subject \<or> de_Kind (pe_Decision record') \<noteq> expectedKind
            then Err (bad ''a canonical decision fact has inconsistent identity or attribution'')
            else if pi_ParseTaskID (hl_ids lib) (pe_Epoch record') = None
            then Err (bad ''a canonical decision fact has malformed epoch identity'')
            else if pi_ParseTaskID (hl_ids lib) (pe_Subject record') = None \<or> pe_Subject record' \<noteq> pi_String (hl_ids lib) subject \<or>
               fr_ProducingOperationID row = []
            then Err (bad ''a canonical decision fact has malformed subject or operation identity'')
            else result_bind (of_policy ''decode canonical decision fact'' (ValidateStored (po_Catalog (hl_policy lib)) (pe_Decision record')))
              (\<lambda>_. Ok (row, record')))"

definition foldDecisionFacts ::
  "human_lib \<Rightarrow> journal_reads \<Rightarrow> TaskID \<Rightarrow> string \<Rightarrow> (decisionFact \<Rightarrow> 's \<Rightarrow> human_error + ('s \<times> bool)) \<Rightarrow> 's \<Rightarrow> human_error + 's" where
  "foldDecisionFacts lib rd subject kind visit s =
     walk_pages_until ''query bounded decision facts''
       (\<lambda>row s. result_bind (decodeDecisionFact lib row subject kind) (\<lambda>fact. visit fact s))
       (rd_QueryDecisions rd \<lparr>fq_Task = Some subject, fq_OperationIDs = [], fq_Kinds = [journalDecisionKind kind]\<rparr>) s"

text \<open>The state of the loop is the decision found; a second one is an error.\<close>

definition committed_step :: "human_lib \<Rightarrow> string \<Rightarrow> FactRow \<Rightarrow> decisionFact option \<Rightarrow> human_error + decisionFact option" where
  "committed_step lib op row found =
     (case fr_TaskID row of
        None \<Rightarrow> Err (humanServiceErr ''committedOperationDecision'' (''operation '' @ quote op @ '' produced an unscoped decision fact''))
      | Some task \<Rightarrow>
          (case decisionKindID (fr_Kind row) of
             None \<Rightarrow> Err (humanServiceErr ''committedOperationDecision'' (''operation '' @ quote op @ '' produced unknown decision kind '' @
               quote (fr_Kind row)))
           | Some kind \<Rightarrow>
               result_bind (decodeDecisionFact lib row task kind) (\<lambda>fact.
                 if found \<noteq> None
                 then Err (humanServiceErr ''committedOperationDecision'' (''operation '' @ quote op @ '' has multiple canonical decision facts''))
                 else Ok (Some fact))))"

definition committedOperationDecision ::
  "human_lib \<Rightarrow> journal_reads \<Rightarrow> string \<Rightarrow> string list \<Rightarrow> human_error + decisionFact option" where
  "committedOperationDecision lib rd op kinds =
     walk_pages ''query bounded committed decision'' (committed_step lib op)
       (rd_QueryDecisions rd \<lparr>fq_Task = None, fq_OperationIDs = [op], fq_Kinds = map journalDecisionKind kinds\<rparr>) None"

definition draftFromStored :: "human_lib \<Rightarrow> DecisionEncoding \<Rightarrow> human_error + DecisionDraft" where
  "draftFromStored lib enc =
     result_bind (of_policy ''reconstruct catalog-issued decision draft'' (ValidateStored (po_Catalog (hl_policy lib)) enc)) (\<lambda>_.
       case ca_byKind (po_Catalog (hl_policy lib)) (de_Kind enc) of
         None \<Rightarrow> Err (humanServiceErr ''draftFromStored'' (''stored decision kind '' @ quote (de_Kind enc) @
           '' is absent from the production catalog''))
       | Some binding \<Rightarrow> Ok \<lparr>dr_kind = de_Kind enc, dr_codec = de_Codec enc, dr_schema = de_Schema enc, dr_token = bd_token binding,
           dr_payload = de_Payload enc\<rparr>)"

definition sameDecisionEncoding :: "DecisionEncoding \<Rightarrow> DecisionEncoding \<Rightarrow> bool" where
  "sameDecisionEncoding l r \<longleftrightarrow> de_Kind l = de_Kind r \<and> de_Codec l = de_Codec r \<and> de_Schema l = de_Schema r \<and> de_Payload l = de_Payload r"

section \<open>Conditions\<close>

definition evidenceCondition :: "TaskID \<Rightarrow> string \<Rightarrow> JournalID \<Rightarrow> ConditionKind \<Rightarrow> Condition" where
  "evidenceCondition subject kind asserted conditionKind =
     \<lparr>cd_Kind = conditionKind, cd_FactKind = FactEvidence, cd_Task = Some subject, cd_DecisionKind = [], cd_EvidenceKind = kind,
      cd_AssertedJournalID = asserted\<rparr>"

definition conditionCurrent :: "subjectStateSnapshot \<Rightarrow> Condition" where
  "conditionCurrent s = evidenceCondition (sn_subject s) (sn_family s) (sn_journalID s) ConditionCurrentFact"

definition terminal :: "subjectStateSnapshot \<Rightarrow> bool" where
  "terminal s \<longleftrightarrow> sn_state s = subjectStatePlanRatified \<or> sn_state s = subjectStateImplementationLanded"

definition reviewAuthorityCurrentCondition :: "TaskID \<Rightarrow> JournalID \<Rightarrow> Condition" where
  "reviewAuthorityCurrentCondition subject asserted =
     evidenceCondition subject implementationReviewAuthorityEvidenceKind asserted ConditionCurrentFact"

definition candidateManifestExactCondition :: "TaskID \<Rightarrow> JournalID \<Rightarrow> Condition" where
  "candidateManifestExactCondition subject asserted =
     evidenceCondition subject candidateManifestEvidenceKind asserted ConditionExactFact"

definition candidatePublicationSetCurrentCondition :: "TaskID \<Rightarrow> JournalID \<Rightarrow> Condition" where
  "candidatePublicationSetCurrentCondition subject asserted =
     evidenceCondition subject candidatePublicationSetEvidenceKind asserted ConditionCurrentFact"

definition currentDecisionCondition :: "TaskID \<Rightarrow> string \<Rightarrow> JournalID \<Rightarrow> Condition" where
  "currentDecisionCondition subject kind journalID =
     \<lparr>cd_Kind = ConditionCurrentFact, cd_FactKind = FactDecision, cd_Task = Some subject, cd_DecisionKind = journalDecisionKind kind,
      cd_EvidenceKind = [], cd_AssertedJournalID = journalID\<rparr>"

fun snapshot_conditions :: "human_lib \<Rightarrow> nat \<Rightarrow> Condition list \<Rightarrow> human_error + conditionSnapshot list" where
  "snapshot_conditions lib i [] = Ok []"
| "snapshot_conditions lib i (c # cs) =
     (let bad = humanServiceErr ''encodeConditionEvidence'' in
      case cd_Task c of
        None \<Rightarrow> Err (bad ''a command condition has an unsupported task selector'')
      | Some task \<Rightarrow>
          if task = zero_TaskID then Err (bad ''a command condition has an unsupported task selector'')
          else
            let snapshot = \<lparr>sp_Kind = cd_Kind c, sp_FactKind = cd_FactKind c, sp_Task = pi_String (hl_ids lib) task, sp_DecisionKind = [],
                  sp_EvidenceKind = [], sp_AssertedJournalID = cd_AssertedJournalID c\<rparr>;
                one = (case cd_FactKind c of
                    FactDecision \<Rightarrow>
                      if cd_DecisionKind c = [] \<or> cd_EvidenceKind c \<noteq> []
                      then Err (bad (''condition '' @ dec_nat i @ '' does not select exactly one decision arm''))
                      else Ok (snapshot\<lparr>sp_DecisionKind := cd_DecisionKind c\<rparr>)
                  | FactEvidence \<Rightarrow>
                      if cd_EvidenceKind c = [] \<or> cd_DecisionKind c \<noteq> []
                      then Err (bad (''condition '' @ dec_nat i @ '' does not select exactly one evidence arm''))
                      else Ok (snapshot\<lparr>sp_EvidenceKind := cd_EvidenceKind c\<rparr>)
                  | FactOther \<Rightarrow> Err (bad (''condition '' @ dec_nat i @ '' has unknown fact kind''))) in
            result_bind one (\<lambda>s. result_bind (snapshot_conditions lib (Suc i) cs) (\<lambda>rest. Ok (s # rest))))"

definition encodeConditionEvidence :: "human_lib \<Rightarrow> Condition list \<Rightarrow> human_error + string" where
  "encodeConditionEvidence lib conditions =
     result_bind (snapshot_conditions lib 0 conditions) (\<lambda>snapshots.
       of_marshal ''condition evidence'' (js_Marshal (hl_conditions lib) snapshots))"

definition conditionFromSnapshot :: "human_lib \<Rightarrow> conditionSnapshot \<Rightarrow> Condition option" where
  "conditionFromSnapshot lib s =
     (case pi_ParseTaskID (hl_ids lib) (sp_Task s) of
        None \<Rightarrow> None
      | Some task \<Rightarrow>
          let c = \<lparr>cd_Kind = sp_Kind s, cd_FactKind = sp_FactKind s, cd_Task = Some task, cd_DecisionKind = [], cd_EvidenceKind = [],
                cd_AssertedJournalID = sp_AssertedJournalID s\<rparr> in
          (case sp_FactKind s of
             FactDecision \<Rightarrow> if sp_DecisionKind s = [] \<or> sp_EvidenceKind s \<noteq> [] then None else Some (c\<lparr>cd_DecisionKind := sp_DecisionKind s\<rparr>)
           | FactEvidence \<Rightarrow> if sp_EvidenceKind s = [] \<or> sp_DecisionKind s \<noteq> [] then None else Some (c\<lparr>cd_EvidenceKind := sp_EvidenceKind s\<rparr>)
           | FactOther \<Rightarrow> None))"

definition preconditionEvidenceKind :: string where
  "preconditionEvidenceKind = ''pasture.epoch.precondition.v1''"

definition single_row :: "human_error \<Rightarrow> FactRow \<Rightarrow> FactRow option \<Rightarrow> human_error + FactRow option" where
  "single_row many row found = (if found \<noteq> None then Err many else Ok (Some row))"

definition restoreCommittedConditions ::
  "human_lib \<Rightarrow> journal_reads \<Rightarrow> string \<Rightarrow> Condition list \<Rightarrow> human_error + Condition list" where
  "restoreCommittedConditions lib rd op current =
     result_bind (walk_pages ''query bounded operation precondition evidence'' (single_row (operationConflict op))
       (rd_QueryEvidence rd \<lparr>fq_Task = None, fq_OperationIDs = [op], fq_Kinds = [preconditionEvidenceKind]\<rparr>) None) (\<lambda>found.
       case found of
         None \<Rightarrow> Ok current
       | Some row \<Rightarrow>
           (case js_Unmarshal (hl_conditions lib) (fr_Payload row) of
              None \<Rightarrow> Err (humanServiceErr ''restoreCommittedConditions'' ''the committed precondition evidence is malformed'')
            | Some stored \<Rightarrow>
                (case those (map (conditionFromSnapshot lib) stored) of
                   None \<Rightarrow> Err (operationConflict op)
                 | Some restored \<Rightarrow> Ok restored)))"

section \<open>Reading states and authorities\<close>

definition no_state :: "TaskID \<Rightarrow> string \<Rightarrow> subjectStateSnapshot" where
  "no_state subject family = \<lparr>sn_subject = subject, sn_state = [], sn_decision = [], sn_decisionKind = [], sn_operation = [], sn_source = 0,
     sn_journalID = 0, sn_family = family\<rparr>"

definition state_step ::
  "human_lib \<Rightarrow> TaskID \<Rightarrow> TaskID \<Rightarrow> string \<Rightarrow> FactRow \<Rightarrow> subjectStateSnapshot \<Rightarrow> human_error + subjectStateSnapshot" where
  "state_step lib epoch subject family row s =
     (if fr_TaskID row \<noteq> Some subject \<or> fr_Kind row \<noteq> family \<or> fr_ProducingOperationID row = []
      then Err (humanServiceErr ''currentSubjectState'' ''a subject-state evidence row has an unexpected task, family, or operation'')
      else case decodeSubjectStateEvidence (hl_ids lib) (hl_facts lib) (fr_Payload row) epoch subject family (fr_ProducingOperationID row) of
          Err _ \<Rightarrow> Err (humanServiceErr ''currentSubjectState'' ''a subject-state evidence payload is malformed or uses an impossible source'')
        | Ok e \<Rightarrow> Ok \<lparr>sn_subject = subject, sn_state = ss_State e, sn_decision = ss_Decision e, sn_decisionKind = ss_DecisionKind e,
            sn_operation = ss_Operation e, sn_source = ss_Source e, sn_journalID = fr_JournalID row, sn_family = family\<rparr>)"

definition currentSubjectState ::
  "human_lib \<Rightarrow> journal_reads \<Rightarrow> TaskID \<Rightarrow> TaskID \<Rightarrow> string \<Rightarrow> human_error + subjectStateSnapshot" where
  "currentSubjectState lib rd epoch subject family =
     walk_pages ''query bounded current subject state'' (state_step lib epoch subject family)
       (rd_QueryEvidence rd \<lparr>fq_Task = Some subject, fq_OperationIDs = [], fq_Kinds = [family]\<rparr>) (no_state subject family)"

definition planSubjectState :: "human_lib \<Rightarrow> journal_reads \<Rightarrow> TaskID \<Rightarrow> TaskID \<Rightarrow> human_error + subjectStateSnapshot" where
  "planSubjectState lib rd epoch proposal = currentSubjectState lib rd epoch proposal planSubjectEvidenceKind"

definition candidateSubjectState :: "human_lib \<Rightarrow> journal_reads \<Rightarrow> TaskID \<Rightarrow> TaskID \<Rightarrow> human_error + subjectStateSnapshot" where
  "candidateSubjectState lib rd epoch candidate = currentSubjectState lib rd epoch candidate candidateEvidenceKind"

definition requireEligibleCandidateLifecycle :: "human_lib \<Rightarrow> string \<Rightarrow> TaskID \<Rightarrow> subjectStateSnapshot \<Rightarrow> human_error + unit" where
  "requireEligibleCandidateLifecycle lib place candidate state =
     (if sn_journalID state = 0 \<or> sn_state state = []
      then Err (humanServiceErr place (''candidate '' @ quote (pi_String (hl_ids lib) candidate) @ '' has no current lifecycle authority''))
      else fail_if (sn_state state = subjectStateReworked \<or> sn_state state = subjectStateImplementationLanded)
        (humanServiceErr place (''candidate '' @ quote (pi_String (hl_ids lib) candidate) @ '' is in ineligible lifecycle state '' @
          quote (sn_state state))))"

text \<open>The two loops that keep the row with the greatest journal identity.\<close>

definition review_step ::
  "human_lib \<Rightarrow> TaskID \<Rightarrow> TaskID \<Rightarrow> FactRow \<Rightarrow> (implementationReviewAuthority \<times> JournalID) option
    \<Rightarrow> human_error + (implementationReviewAuthority \<times> JournalID) option" where
  "review_step lib epoch candidate row cur =
     (let bad = humanServiceErr ''currentImplementationReviewAuthority'' in
      if fr_TaskID row \<noteq> Some candidate \<or> fr_Kind row \<noteq> implementationReviewAuthorityEvidenceKind \<or> fr_ProducingOperationID row = []
      then Err (bad ''a review authority row has inconsistent task, kind, or producer identity'')
      else case decodeImplementationReviewAuthority (hl_ids lib) (hl_facts lib) (fr_Payload row) of
          Err _ \<Rightarrow> Err (bad ''a review authority payload is inconsistent with its fact metadata'')
        | Ok value \<Rightarrow>
            if ra_Epoch value \<noteq> pi_String (hl_ids lib) epoch \<or> ra_Candidate value \<noteq> pi_String (hl_ids lib) candidate \<or>
               ra_Operation value \<noteq> fr_ProducingOperationID row
            then Err (bad ''a review authority payload is inconsistent with its fact metadata'')
            else Ok (if fr_JournalID row > (case cur of None \<Rightarrow> 0 | Some (_, j) \<Rightarrow> j) then Some (value, fr_JournalID row) else cur))"

definition currentImplementationReviewAuthority ::
  "human_lib \<Rightarrow> journal_reads \<Rightarrow> TaskID \<Rightarrow> TaskID \<Rightarrow> human_error + (implementationReviewAuthority \<times> JournalID)" where
  "currentImplementationReviewAuthority lib rd epoch candidate =
     result_bind (walk_pages ''query bounded implementation review authority'' (review_step lib epoch candidate)
       (rd_QueryEvidence rd \<lparr>fq_Task = Some candidate, fq_OperationIDs = [], fq_Kinds = [implementationReviewAuthorityEvidenceKind]\<rparr>) None)
     (\<lambda>cur. case cur of
        None \<Rightarrow> Err (humanServiceErr ''currentImplementationReviewAuthority'' (''candidate '' @
          quote (pi_String (hl_ids lib) candidate) @ '' has no implementation review authority''))
      | Some c \<Rightarrow> Ok c)"

definition publication_step ::
  "human_lib \<Rightarrow> TaskID \<Rightarrow> TaskID \<Rightarrow> FactRow \<Rightarrow> (candidatePublicationSet \<times> JournalID) option
    \<Rightarrow> human_error + (candidatePublicationSet \<times> JournalID) option" where
  "publication_step lib epoch candidate row cur =
     (let bad = humanServiceErr ''currentCandidatePublicationSet'' in
      if fr_TaskID row \<noteq> Some candidate \<or> fr_Kind row \<noteq> candidatePublicationSetEvidenceKind \<or> fr_ProducingOperationID row = []
      then Err (bad ''a publication authority row has inconsistent task, kind, or producer identity'')
      else case decodeCandidatePublicationSet (hl_ids lib) (hl_facts lib) (fr_Payload row) of
          Err _ \<Rightarrow> Err (bad ''a publication snapshot payload is inconsistent with its fact metadata'')
        | Ok value \<Rightarrow>
            if pb_Epoch value \<noteq> pi_String (hl_ids lib) epoch \<or> pb_Candidate value \<noteq> pi_String (hl_ids lib) candidate \<or>
               pb_Operation value \<noteq> fr_ProducingOperationID row
            then Err (bad ''a publication snapshot payload is inconsistent with its fact metadata'')
            else Ok (if fr_JournalID row > (case cur of None \<Rightarrow> 0 | Some (_, j) \<Rightarrow> j) then Some (value, fr_JournalID row) else cur))"

definition currentCandidatePublicationSet ::
  "human_lib \<Rightarrow> journal_reads \<Rightarrow> TaskID \<Rightarrow> TaskID \<Rightarrow> human_error + (candidatePublicationSet \<times> JournalID)" where
  "currentCandidatePublicationSet lib rd epoch candidate =
     result_bind (walk_pages ''query bounded candidate publication authority'' (publication_step lib epoch candidate)
       (rd_QueryEvidence rd \<lparr>fq_Task = Some candidate, fq_OperationIDs = [], fq_Kinds = [candidatePublicationSetEvidenceKind]\<rparr>) None)
     (\<lambda>cur. case cur of
        None \<Rightarrow> Err (humanServiceErr ''currentCandidatePublicationSet'' (''candidate '' @ quote (pi_String (hl_ids lib) candidate) @
          '' has no current publication set''))
      | Some c \<Rightarrow> Ok c)"

text \<open>The loops that allow one row.\<close>

definition manifest_step ::
  "human_lib \<Rightarrow> TaskID \<Rightarrow> TaskID \<Rightarrow> FactRow \<Rightarrow> (integrationCandidateManifest \<times> JournalID) option
    \<Rightarrow> human_error + (integrationCandidateManifest \<times> JournalID) option" where
  "manifest_step lib epoch candidate row found =
     (let bad = humanServiceErr ''exactCandidateManifest'' in
      if found \<noteq> None then Err (bad (''candidate '' @ quote (pi_String (hl_ids lib) candidate) @ '' has multiple immutable manifests''))
      else if fr_TaskID row \<noteq> Some candidate \<or> fr_Kind row \<noteq> candidateManifestEvidenceKind \<or> fr_ProducingOperationID row = []
      then Err (bad ''a candidate manifest row has inconsistent task, kind, or producer identity'')
      else case decodeCandidateManifest (hl_ids lib) (hl_facts lib) (fr_Payload row) of
          Err _ \<Rightarrow> Err (bad ''a candidate manifest payload is inconsistent with its fact metadata'')
        | Ok value \<Rightarrow>
            if mf_Epoch value \<noteq> pi_String (hl_ids lib) epoch \<or> mf_Candidate value \<noteq> pi_String (hl_ids lib) candidate \<or>
               mf_Operation value \<noteq> fr_ProducingOperationID row
            then Err (bad ''a candidate manifest payload is inconsistent with its fact metadata'')
            else Ok (Some (value, fr_JournalID row)))"

definition exactCandidateManifest ::
  "human_lib \<Rightarrow> journal_reads \<Rightarrow> TaskID \<Rightarrow> TaskID \<Rightarrow> human_error + (integrationCandidateManifest \<times> JournalID)" where
  "exactCandidateManifest lib rd epoch candidate =
     result_bind (walk_pages ''query bounded candidate manifest'' (manifest_step lib epoch candidate)
       (rd_QueryEvidence rd \<lparr>fq_Task = Some candidate, fq_OperationIDs = [], fq_Kinds = [candidateManifestEvidenceKind]\<rparr>) None)
     (\<lambda>found. case found of
        None \<Rightarrow> Err (humanServiceErr ''exactCandidateManifest'' (''candidate '' @ quote (pi_String (hl_ids lib) candidate) @
          '' has no immutable manifest''))
      | Some m \<Rightarrow> Ok m)"

definition uat_binding_step ::
  "human_lib \<Rightarrow> TaskID \<Rightarrow> TaskID \<Rightarrow> string \<Rightarrow> FactRow \<Rightarrow> (implementationUATReviewBinding \<times> JournalID) option
    \<Rightarrow> human_error + (implementationUATReviewBinding \<times> JournalID) option" where
  "uat_binding_step lib epoch candidate operation row found =
     (let bad = humanServiceErr ''implementationUATReviewBindingForOperation'' in
      if found \<noteq> None then Err (bad (''Implementation UAT operation '' @ quote operation @ '' has multiple review bindings''))
      else if fr_TaskID row \<noteq> Some candidate \<or> fr_Kind row \<noteq> implementationUATReviewBindingEvidenceKind \<or>
         fr_ProducingOperationID row \<noteq> operation
      then Err (bad ''an Implementation UAT review binding has inconsistent task, kind, or producer identity'')
      else case decodeImplementationUATReviewBinding (hl_ids lib) (hl_facts lib) (fr_Payload row) of
          Err _ \<Rightarrow> Err (bad ''an Implementation UAT review-binding payload is inconsistent with its fact metadata'')
        | Ok value \<Rightarrow>
            if ub_Epoch value \<noteq> pi_String (hl_ids lib) epoch \<or> ub_Candidate value \<noteq> pi_String (hl_ids lib) candidate \<or>
               ub_Operation value \<noteq> operation
            then Err (bad ''an Implementation UAT review-binding payload is inconsistent with its fact metadata'')
            else Ok (Some (value, fr_JournalID row)))"

definition implementationUATReviewBindingForOperation ::
  "human_lib \<Rightarrow> journal_reads \<Rightarrow> decisionFact \<Rightarrow> human_error + (implementationUATReviewBinding \<times> JournalID)" where
  "implementationUATReviewBindingForOperation lib rd stored =
     (let bad = humanServiceErr ''implementationUATReviewBindingForOperation''; row = fst stored; rc = snd stored in
      case fr_TaskID row of
        None \<Rightarrow> Err (bad ''the stored Implementation UAT decision has inconsistent task, operation, or subject metadata'')
      | Some candidate \<Rightarrow>
          if fr_ProducingOperationID row = [] \<or> de_Kind (pe_Decision rc) \<noteq> DecisionImplementationUAT \<or>
             pe_ID rc \<noteq> decisionIDForOperation (fr_ProducingOperationID row) \<or> pe_Subject rc \<noteq> pi_String (hl_ids lib) candidate
          then Err (bad ''the stored Implementation UAT decision has inconsistent task, operation, or subject metadata'')
          else case pi_ParseTaskID (hl_ids lib) (pe_Epoch rc) of
              None \<Rightarrow> Err (bad ''the stored Implementation UAT decision has a malformed or noncanonical epoch'')
            | Some epoch \<Rightarrow>
                if pe_Epoch rc \<noteq> pi_String (hl_ids lib) epoch
                then Err (bad ''the stored Implementation UAT decision has a malformed or noncanonical epoch'')
                else let operation = fr_ProducingOperationID row in
                  result_bind (walk_pages ''query bounded Implementation UAT review binding''
                    (uat_binding_step lib epoch candidate operation)
                    (rd_QueryEvidence rd \<lparr>fq_Task = Some candidate, fq_OperationIDs = [operation],
                       fq_Kinds = [implementationUATReviewBindingEvidenceKind]\<rparr>) None)
                  (\<lambda>found. case found of
                     None \<Rightarrow> Err (bad (''Implementation UAT operation '' @ quote operation @ '' has no review binding''))
                   | Some b \<Rightarrow> Ok b))"

definition land_binding_step ::
  "human_lib \<Rightarrow> string \<Rightarrow> FactRow \<Rightarrow> (landAuthorityBinding \<times> JournalID) option \<Rightarrow> human_error + (landAuthorityBinding \<times> JournalID) option" where
  "land_binding_step lib operation row found =
     (let bad = humanServiceErr ''landAuthorityBindingForOperation'' in
      if found \<noteq> None then Err (bad (''Land operation '' @ quote operation @ '' has multiple authority bindings''))
      else if fr_TaskID row = None \<or> fr_Kind row \<noteq> landAuthorityBindingEvidenceKind \<or> fr_ProducingOperationID row \<noteq> operation
      then Err (bad ''a Land authority binding has inconsistent task, kind, or producer identity'')
      else case decodeLandAuthorityBinding (hl_ids lib) (hl_facts lib) (fr_Payload row) of
          Err _ \<Rightarrow> Err (bad ''the Land authority binding payload is malformed'')
        | Ok value \<Rightarrow>
            (case parseAuthorityTaskID (hl_ids lib) (lb_Epoch value) ''Land authority epoch'' of
               Err _ \<Rightarrow> Err (bad ''the Land authority binding disagrees with its persisted fact metadata'')
             | Ok epoch \<Rightarrow>
                 if fr_TaskID row \<noteq> Some epoch \<or> lb_LandOperation value \<noteq> operation
                 then Err (bad ''the Land authority binding disagrees with its persisted fact metadata'')
                 else Ok (Some (value, fr_JournalID row))))"

definition landAuthorityBindingForOperation ::
  "human_lib \<Rightarrow> journal_reads \<Rightarrow> decisionFact \<Rightarrow> human_error + (landAuthorityBinding \<times> JournalID)" where
  "landAuthorityBindingForOperation lib rd stored =
     (let bad = humanServiceErr ''landAuthorityBindingForOperation''; operation = fr_ProducingOperationID (fst stored) in
      result_bind (walk_pages ''query bounded Land authority binding'' (land_binding_step lib operation)
        (rd_QueryEvidence rd \<lparr>fq_Task = None, fq_OperationIDs = [operation], fq_Kinds = [landAuthorityBindingEvidenceKind]\<rparr>) None)
      (\<lambda>found. case found of
         None \<Rightarrow> Err (bad (''Land operation '' @ quote operation @ '' has no authority binding''))
       | Some binding \<Rightarrow>
           (case js_Unmarshal (pl_landed (hl_payloads lib)) (de_Payload (pe_Decision (snd stored))) of
              None \<Rightarrow> Err (bad ''the Land authority binding disagrees with its stored Land decision'')
            | Some landed \<Rightarrow>
                if lb_ImplementationUAT (fst binding) \<noteq> el_ImplementationUAT landed \<or> lb_Candidate (fst binding) \<noteq> el_Candidate landed \<or>
                   pe_ID (snd stored) \<noteq> decisionIDForOperation operation
                then Err (bad ''the Land authority binding disagrees with its stored Land decision'')
                else Ok binding)))"

text \<open>The fold over the mode decisions of an epoch: the cursor and the decision it rests on.\<close>

definition mode_visit ::
  "human_lib \<Rightarrow> TaskID \<Rightarrow> decisionFact \<Rightarrow> InteractionModeCursor \<times> JournalID \<Rightarrow> human_error + ((InteractionModeCursor \<times> JournalID) \<times> bool)" where
  "mode_visit lib epoch fact' st =
     (let bad = humanServiceErr ''interactionModeState''; rc = snd fact' in
      if pe_Epoch rc \<noteq> pi_String (hl_ids lib) epoch then Err (bad ''a mode decision is scoped to a different epoch'')
      else case js_Unmarshal (pl_modeChanged (hl_payloads lib)) (de_Payload (pe_Decision rc)) of
          None \<Rightarrow> Err (bad ''a mode decision payload is malformed'')
        | Some changed \<Rightarrow>
            result_bind (of_policy ''fold canonical mode decision'' (validateInteractionModeChanged changed)) (\<lambda>_.
              if mo_From changed \<noteq> mc_Mode (fst st)
              then Err (bad (''mode decision '' @ quote (pe_ID rc) @ '' starts from '' @ quote (mo_From changed) @ '' but current mode is '' @
                     quote (mc_Mode (fst st))))
              else Ok ((\<lparr>mc_Entry = Some (pe_ID rc), mc_Mode = mo_To changed\<rparr>, fr_JournalID (fst fact')), False)))"

definition interactionModeState :: "human_lib \<Rightarrow> journal_reads \<Rightarrow> TaskID \<Rightarrow> human_error + (InteractionModeCursor \<times> Condition)" where
  "interactionModeState lib rd epoch =
     result_bind (foldDecisionFacts lib rd epoch DecisionInteractionModeChanged (mode_visit lib epoch)
       (\<lparr>mc_Entry = None, mc_Mode = InteractionNormal\<rparr>, 0)) (\<lambda>(cursor, j).
     Ok (cursor, currentDecisionCondition epoch DecisionInteractionModeChanged j))"

definition ShowInteractionMode :: "human_lib \<Rightarrow> journal_reads \<Rightarrow> string \<Rightarrow> human_error + InteractionModeCursor" where
  "ShowInteractionMode lib rd epochID =
     result_bind (parseTaskID lib ''ShowInteractionMode'' epochID ''epoch'') (\<lambda>task.
       if \<not> rd_Show rd task then Err (humanServiceErr ''ShowInteractionMode'' (''epoch '' @ quote epochID @ '' could not be read''))
       else result_bind (interactionModeState lib rd task) (\<lambda>(cursor, _). Ok cursor))"

definition FamilyReviewRoundFinalized_EventKind :: string where
  "FamilyReviewRoundFinalized_EventKind = ''pasture.review.round-finalized.v1''"

definition review_accepts :: "human_lib \<Rightarrow> TaskID \<Rightarrow> string \<Rightarrow> string \<Rightarrow> bool" where
  "review_accepts lib epoch round payload \<longleftrightarrow>
     hl_reviewFinalized lib payload = Some (pi_String (hl_ids lib) epoch, round, Verdict_String VerdictAccept)"

definition requireAcceptedReview :: "human_lib \<Rightarrow> journal_reads \<Rightarrow> TaskID \<Rightarrow> TaskID \<Rightarrow> string \<Rightarrow> human_error + unit" where
  "requireAcceptedReview lib rd subject epoch round =
     result_bind (walk_pages_until ''query bounded accepted review events''
       (\<lambda>payload found. Ok (if review_accepts lib epoch round payload then (True, True) else (found, False)))
       (rd_QueryTaskEvents rd subject FamilyReviewRoundFinalized_EventKind) False) (\<lambda>found.
     fail_if (\<not> found) (humanServiceErr ''RatifyPlan'' (''review round '' @ quote round @ '' is not an accepted finalized round for proposal '' @
       quote (pi_String (hl_ids lib) subject))))"

definition requireAcceptedDecision ::
  "human_lib \<Rightarrow> journal_reads \<Rightarrow> TaskID \<Rightarrow> TaskID \<Rightarrow> string \<Rightarrow> string \<Rightarrow> string \<Rightarrow> human_error + unit" where
  "requireAcceptedDecision lib rd subject epoch i kind place =
     result_bind (foldDecisionFacts lib rd subject kind
       (\<lambda>fact' found. Ok (if pe_Epoch (snd fact') = pi_String (hl_ids lib) epoch \<and> pe_ID (snd fact') = i then (True, True) else (found, False)))
       False) (\<lambda>found.
     fail_if (\<not> found) (humanServiceErr place (''decision '' @ quote i @ '' is not accepted evidence for subject '' @
       quote (pi_String (hl_ids lib) subject))))"

definition acceptedImplementationUATFact ::
  "human_lib \<Rightarrow> journal_reads \<Rightarrow> TaskID \<Rightarrow> TaskID \<Rightarrow> string \<Rightarrow> string \<Rightarrow> human_error + decisionFact" where
  "acceptedImplementationUATFact lib rd subject epoch candidate i =
     result_bind (foldDecisionFacts lib rd subject DecisionImplementationUAT
       (\<lambda>fact' found. Ok (
          if pe_Epoch (snd fact') \<noteq> pi_String (hl_ids lib) epoch \<or> pe_ID (snd fact') \<noteq> i then (found, False)
          else case js_Unmarshal (pl_implementationUAT (hl_payloads lib)) (de_Payload (pe_Decision (snd fact'))) of
              None \<Rightarrow> (found, False)
            | Some r \<Rightarrow> if iu_Outcome r = ImplUATAccepted then (Some fact', True) else (found, False)))
       None) (\<lambda>found.
     case found of
       None \<Rightarrow> Err (humanServiceErr ''Land'' (''Implementation UAT decision '' @ quote i @ '' is not an accepted decision bound to candidate '' @
         quote candidate))
     | Some fact' \<Rightarrow> Ok fact')"

section \<open>Commands\<close>

definition subjectStateForMutation :: "human_lib \<Rightarrow> int \<Rightarrow> DecisionEncoding \<Rightarrow> human_error + (subjectState \<times> string)" where
  "subjectStateForMutation lib mutation enc =
     (if mutation = MutationRecordPlanUAT then
        Ok (if de_Kind enc = DecisionPlanUATAccepted then (subjectStatePlanAccepted, planSubjectEvidenceKind)
            else if de_Kind enc = DecisionPlanUATChangesRequested then (subjectStatePlanChangesRequested, planSubjectEvidenceKind)
            else if de_Kind enc = DecisionPlanUATDeferredByAFK then (subjectStatePlanDeferred, planSubjectEvidenceKind)
            else ([], []))
      else if mutation = MutationRatifyPlan then Ok (subjectStatePlanRatified, planSubjectEvidenceKind)
      else if mutation = MutationRecordImplementationUAT then
        (case js_Unmarshal (pl_implementationUAT (hl_payloads lib)) (de_Payload enc) of
           None \<Rightarrow> Err (humanServiceErr ''subjectStateForMutation'' ''the Implementation UAT decision payload is malformed'')
         | Some r \<Rightarrow>
             Ok (if iu_Outcome r = ImplUATAccepted then (subjectStateImplementationAccepted, candidateEvidenceKind)
                 else if iu_Outcome r = ImplUATChangesRequested then (subjectStateImplementationChanges, candidateEvidenceKind)
                 else ([], [])))
      else if mutation = MutationLand then Ok (subjectStateImplementationLanded, candidateEvidenceKind)
      else Ok ([], []))"

definition humanDecisionActivityMetadata :: "int \<Rightarrow> string \<Rightarrow> Phase \<times> string" where
  "humanDecisionActivityMetadata mutation kind =
     (if mutation = MutationSetInteractionMode then (PhaseRequest, ''explicit interaction-mode decision'')
      else if mutation = MutationRecordPlanUAT then (PhasePlanUAT, ''explicit Plan UAT decision'')
      else if mutation = MutationRatifyPlan then (PhaseRatify, ''explicit plan-ratification decision'')
      else if mutation = MutationRecordImplementationUAT then (PhaseImplUAT, ''explicit Implementation UAT decision'')
      else if mutation = MutationLand then (PhaseLanding, ''explicit landing decision'')
      else (PhaseUnscoped, ''explicit human decision: '' @ kind))"

definition lifecycleEffect :: "TaskID \<Rightarrow> string \<Rightarrow> Effect" where
  "lifecycleEffect i kind = EffectTaskEvent [] i kind [] []"

text \<open>The material event that refers to a decision (\<^verbatim>\<open>material_events.go\<close>), put into the result
  slot of the command.\<close>

definition FamilyEpochDecisionRecorded_EventKind :: string where
  "FamilyEpochDecisionRecorded_EventKind = ''pasture.epoch.decision-recorded.v1''"

definition validateDecisionRecorded :: "TaskID \<Rightarrow> TaskID \<Rightarrow> ActivityID \<Rightarrow> ActorID \<Rightarrow> string \<Rightarrow> string \<Rightarrow> human_error + unit" where
  "validateDecisionRecorded subject epoch activity actor decision kind =
     (if subject = zero_TaskID then Err (eventRejected ''EpochDecisionRecordedEvent.Subject'')
      else if epoch = zero_TaskID then Err (eventRejected ''EpochDecisionRecordedEvent.Epoch'')
      else if activity = zero_TaskID \<or> decision = [] \<or> kind = [] then Err (eventRejected ''EpochDecisionRecordedEvent'')
      else fail_if (actor = zero_TaskID) (eventRejected ''EpochDecisionRecordedEvent.Actor''))"

definition buildContexts :: "human_lib \<Rightarrow> EventContext list \<Rightarrow> human_error + EventContext list" where
  "buildContexts lib cs =
     (if list_all (\<lambda>c. case c of TaskContext t \<Rightarrow> pi_TaskContext (hl_ids lib) t | ActorContext a \<Rightarrow> hl_ActorContext lib a
           | ActivityContext a \<Rightarrow> hl_ActivityContext lib a) cs
      then Ok cs else Err (eventRejected ''build contexts''))"

definition mapDecisionRecorded ::
  "human_lib \<Rightarrow> string \<Rightarrow> TaskID \<Rightarrow> TaskID \<Rightarrow> ActivityID \<Rightarrow> ActorID \<Rightarrow> string \<Rightarrow> string \<Rightarrow> human_error + Effect" where
  "mapDecisionRecorded lib slot subject epoch activity actor decision kind =
     (if \<not> hl_ValidateEventKind lib FamilyEpochDecisionRecorded_EventKind
      then Err (eventRejected FamilyEpochDecisionRecorded_EventKind)
      else result_bind (validateDecisionRecorded subject epoch activity actor decision kind) (\<lambda>_.
        result_bind (of_marshal ''material event'' (hl_recorded lib epoch activity actor decision kind)) (\<lambda>payload.
        result_bind (buildContexts lib [TaskContext subject, TaskContext epoch, ActorContext actor, ActivityContext activity]) (\<lambda>contexts.
        Ok (EffectTaskEvent slot subject FamilyEpochDecisionRecorded_EventKind payload contexts)))))"

text \<open>What a command hands to \<open>commitWithAuthority\<close>.\<close>

record commit_request =
  cq_OperationID :: string
  cq_EpochID :: string
  cq_epoch :: TaskID
  cq_subject :: TaskID
  cq_actor :: ActorID
  cq_mutation :: int
  cq_draft :: DecisionDraft
  cq_refs :: "evidenceRef list"
  cq_conditions :: "Condition list"
  cq_trailing :: "Effect list"
  cq_authority :: "Effect list"

definition state_ref :: "string \<Rightarrow> subjectState \<Rightarrow> TaskID \<Rightarrow> evidenceRef" where
  "state_ref family state subject = \<lparr>er_Kind = family, er_Value = [], er_State = state, er_stateSubject = subject\<rparr>"

definition plain_ref :: "string \<Rightarrow> string \<Rightarrow> evidenceRef" where
  "plain_ref kind value = \<lparr>er_Kind = kind, er_Value = value, er_State = [], er_stateSubject = zero_TaskID\<rparr>"

definition first_state_subject :: "evidenceRef list \<Rightarrow> TaskID \<Rightarrow> TaskID" where
  "first_state_subject refs subject =
     (case find (\<lambda>r. er_stateSubject r \<noteq> zero_TaskID) refs of None \<Rightarrow> subject | Some r \<Rightarrow> er_stateSubject r)"

definition evidence_subject :: "evidenceRef \<Rightarrow> TaskID \<Rightarrow> TaskID" where
  "evidence_subject ref subject =
     (if er_State ref \<noteq> [] \<and> er_stateSubject ref \<noteq> zero_TaskID then er_stateSubject ref else subject)"

definition ref_payload :: "human_lib \<Rightarrow> commit_request \<Rightarrow> evidenceRef \<Rightarrow> human_error + string" where
  "ref_payload lib q ref =
     (let decisionID = decisionIDForOperation (cq_OperationID q); ids = hl_ids lib in
      if er_State ref \<noteq> [] then
        result_bind (of_authority (newHumanSubjectStateEvidence ids (cq_epoch q) (evidence_subject ref (cq_subject q)) (er_State ref)
            decisionID (de_Kind (encoding (cq_draft q))) (cq_OperationID q))) (\<lambda>e.
          of_marshal ''subject state'' (js_Marshal (ac_subject (hl_facts lib)) (subject_wire.truncate e)))
      else of_marshal ''reference'' (hl_reference lib (pi_String ids (cq_epoch q)) (pi_String ids (cq_subject q)) decisionID (er_Value ref)))"

definition evidence_slot :: "nat \<Rightarrow> string" where
  "evidence_slot i = ''evidence-'' @ dec_nat i"

fun ref_effects :: "human_lib \<Rightarrow> commit_request \<Rightarrow> nat \<Rightarrow> evidenceRef list \<Rightarrow> human_error + Effect list" where
  "ref_effects lib q i [] = Ok []"
| "ref_effects lib q i (ref # refs) =
     result_bind (ref_payload lib q ref) (\<lambda>payload.
     result_bind (ref_effects lib q (Suc i) refs) (\<lambda>rest.
       Ok (EffectEvidence (evidence_slot i) (evidence_subject ref (cq_subject q)) (er_Kind ref) (hl_sha256 lib payload) payload # rest)))"

fun authority_effects :: "TaskID \<Rightarrow> nat \<Rightarrow> nat \<Rightarrow> Effect list \<Rightarrow> human_error + Effect list" where
  "authority_effects subject n i [] = Ok []"
| "authority_effects subject n i (e # es) =
     (case e of
        EffectEvidence slot task kind digest payload \<Rightarrow>
          if task \<noteq> subject \<or> slot \<noteq> evidence_slot (n + i)
          then Err (humanServiceErr ''commitWithAuthority'' (''authority evidence '' @ dec_nat i @ '' has an unexpected effect shape''))
          else result_bind (authority_effects subject n (Suc i) es) (\<lambda>rest. Ok (e # rest))
      | _ \<Rightarrow> Err (humanServiceErr ''commitWithAuthority'' (''authority evidence '' @ dec_nat i @ '' has an unexpected effect shape'')))"

definition activityIDFor :: "human_lib \<Rightarrow> string \<Rightarrow> ActivityID" where
  "activityIDFor lib op = \<lparr>tk_Namespace = ''pasture'', tk_UUID = hl_uuidSHA1 lib (''activity:'' @ op)\<rparr>"

definition with_state_ref :: "subjectState \<times> string \<Rightarrow> TaskID \<Rightarrow> evidenceRef list \<Rightarrow> evidenceRef list" where
  "with_state_ref sf subject refs =
     (if fst sf \<noteq> [] then state_ref (snd sf) (fst sf) (first_state_subject refs subject) # refs else refs)"

definition commit_effects :: "human_lib \<Rightarrow> commit_request \<Rightarrow> evidenceRef list \<Rightarrow> string \<Rightarrow> human_error + Effect list" where
  "commit_effects lib q refs conditionPayload =
     (let op = cq_OperationID q; decisionID = decisionIDForOperation op; ids = hl_ids lib; enc = encoding (cq_draft q);
          activityID = activityIDFor lib op; meta = humanDecisionActivityMetadata (cq_mutation q) (de_Kind enc) in
      result_bind (of_marshal ''envelope'' (js_Marshal (hl_envelope lib) \<lparr>pe_ID = decisionID, pe_Epoch = pi_String ids (cq_epoch q),
        pe_Subject = pi_String ids (cq_subject q), pe_Actor = hl_ActorString lib (cq_actor q), pe_Decision = enc\<rparr>)) (\<lambda>envelope.
      result_bind (ref_effects lib q 0 refs) (\<lambda>evidence.
      result_bind (authority_effects (cq_subject q) (length refs) 0 (cq_authority q)) (\<lambda>authority.
      result_bind (mapDecisionRecorded lib ''event'' (cq_subject q) (cq_epoch q) activityID (cq_actor q) decisionID (de_Kind enc)) (\<lambda>event.
      Ok ([EffectDecision ''decision'' (cq_subject q) (journalDecisionKind (de_Kind enc)) envelope] @ evidence @ authority @
          [EffectEvidence [] (cq_subject q) preconditionEvidenceKind (hl_sha256 lib conditionPayload) conditionPayload,
           EffectActivityCreate ''activity'' activityID (cq_actor q) (fst meta) StageComplete (snd meta), event] @ cq_trailing q))))))"

definition commitInput :: "human_lib \<Rightarrow> journal_reads \<Rightarrow> commit_request \<Rightarrow> human_error + prepared_input" where
  "commitInput lib rd q =
     (let op = cq_OperationID q; enc = encoding (cq_draft q) in
      result_bind (subjectStateForMutation lib (cq_mutation q) enc) (\<lambda>sf.
      let refs = with_state_ref sf (cq_subject q) (cq_refs q) in
      result_bind (restoreCommittedConditions lib rd op (cq_conditions q)) (\<lambda>conditions.
      result_bind (encodeConditionEvidence lib conditions) (\<lambda>conditionPayload.
      result_bind (commit_effects lib q refs conditionPayload) (\<lambda>effects.
      result_bind (of_marshal ''command'' (hl_command lib (cq_EpochID q) (pi_String (hl_ids lib) (cq_subject q))
        (hl_ActorString lib (cq_actor q)) enc refs)) (\<lambda>command.
      if \<not> hl_barrier lib (cq_mutation q)
      then Err (humanServiceErr ''commit'' ''the operation was cancelled at the post-preflight barrier'')
      else Ok \<lparr>oi_OperationID = op, oi_ActorID = cq_actor q, oi_AuthorityJournalID = hl_authority lib, oi_CommandDigest = command,
        oi_Conditions = conditions, oi_Effects = effects\<rparr>))))))"

text \<open>The slots of a result, scanned in order: a later slot of the same name overrides.\<close>

fun scan_slots :: "TaskID \<Rightarrow> bool \<times> bool \<times> ActivityID \<Rightarrow> ResultSlot list \<Rightarrow> bool \<times> bool \<times> ActivityID" where
  "scan_slots subject st [] = st"
| "scan_slots subject (decisionFound, eventFound, activity) (s # ss) =
     scan_slots subject
       (if rl_Slot s = ''decision'' then (rl_Kind s = JournalKindDecision \<and> rl_TaskID s = None \<and> rl_ActivityID s = None, eventFound, activity)
        else if rl_Slot s = ''activity'' then
          (case rl_ActivityID s of
             Some a \<Rightarrow> (decisionFound, eventFound, if rl_Kind s = JournalKindActivity then a else activity)
           | None \<Rightarrow> (decisionFound, eventFound, activity))
        else if rl_Slot s = ''event''
        then (decisionFound, rl_Kind s = JournalKindTaskEvent \<and> rl_TaskID s = Some subject \<and> rl_ActivityID s = None, activity)
        else (decisionFound, eventFound, activity)) ss"

definition decisionResult ::
  "string \<Rightarrow> string \<Rightarrow> TaskID \<Rightarrow> ActorID \<Rightarrow> string \<Rightarrow> ActivityID \<Rightarrow> CommittedResult \<Rightarrow> human_error + DecisionResult" where
  "decisionResult op epoch subject actor decision expectedActivity result =
     (case scan_slots subject (False, False, zero_TaskID) (cr_ResultSlots result) of (decisionFound, eventFound, activity) \<Rightarrow>
        if \<not> decisionFound \<or> \<not> eventFound \<or> activity = zero_TaskID \<or> activity \<noteq> expectedActivity
        then Err (humanServiceErr ''decisionResult''
               ''the committed operation omitted a canonical decision, activity, or lifecycle-event result binding'')
        else Ok \<lparr>dt_OperationID = op, dt_Replayed = cr_ShortCircuited result, dt_Epoch = epoch, dt_ActivityID = activity,
          dt_EventIDs = cr_EmittedEvents result, dt_DecisionID = decision, dt_ActorID = actor\<rparr>)"

definition commitWithAuthority ::
  "human_lib \<Rightarrow> journal_reads \<Rightarrow> int \<Rightarrow> (OperationInput \<Rightarrow> string + CommittedResult) \<Rightarrow> commit_request \<Rightarrow> human_error + DecisionResult" where
  "commitWithAuthority lib rd now Apply q =
     result_bind (commitInput lib rd q) (\<lambda>input.
       case Apply (prepared_input.extend input \<lparr>oi_RecordedAt = now\<rparr>) of
         Err e \<Rightarrow> Err (applyFailed e)
       | Ok result \<Rightarrow> decisionResult (cq_OperationID q) (cq_EpochID q) (cq_subject q) (cq_actor q)
           (decisionIDForOperation (cq_OperationID q)) (activityIDFor lib (cq_OperationID q)) result)"

text \<open>Each command up to its call of \<open>commit\<close> or \<open>commitWithAuthority\<close>, which ends every
  branch that does not fail.\<close>

definition request :: "string \<Rightarrow> string \<Rightarrow> TaskID \<Rightarrow> TaskID \<Rightarrow> ActorID \<Rightarrow> int \<Rightarrow> DecisionDraft \<Rightarrow> commit_request" where
  "request op epochID epoch subject actor mutation draft =
     \<lparr>cq_OperationID = op, cq_EpochID = epochID, cq_epoch = epoch, cq_subject = subject, cq_actor = actor, cq_mutation = mutation,
      cq_draft = draft, cq_refs = [], cq_conditions = [], cq_trailing = [], cq_authority = []\<rparr>"

definition setInteractionModeRequest :: "human_lib \<Rightarrow> journal_reads \<Rightarrow> SetInteractionModeInput \<Rightarrow> human_error + commit_request" where
  "setInteractionModeRequest lib rd i =
     result_bind (preflightCommon lib rd (sm_OperationID i) (sm_Epoch i) (sm_Actor i)) (\<lambda>epoch.
     if \<not> InteractionMode_valid (sm_Mode i)
     then Err (humanServiceErr ''SetInteractionMode'' (''mode '' @ quote (sm_Mode i) @ '' is unknown''))
     else
       let ask = (\<lambda>draft conditions. (request (sm_OperationID i) (sm_Epoch i) epoch epoch (sm_Actor i) MutationSetInteractionMode draft)
             \<lparr>cq_refs := [plain_ref ''pasture.epoch.subject.v1'' (pi_String (hl_ids lib) epoch)], cq_conditions := conditions\<rparr>);
           live = (\<lambda>pinned. result_bind (interactionModeState lib rd epoch) (\<lambda>(cursor, condition).
             result_bind (of_policy ''draft mode change'' (DraftModeChange (hl_policy lib)
               \<lparr>mo_From = mc_Mode cursor, mo_To = sm_Mode i\<rparr>)) (\<lambda>draft.
             Ok (ask draft (if pinned then [condition] else []))))) in
       result_bind (committedOperationDecision lib rd (sm_OperationID i) [DecisionInteractionModeChanged]) (\<lambda>committed.
       case committed of
         None \<Rightarrow> live True
       | Some stored \<Rightarrow>
           (case js_Unmarshal (pl_modeChanged (hl_payloads lib)) (de_Payload (pe_Decision (snd stored))) of
              None \<Rightarrow> Err (humanServiceErr ''SetInteractionMode'' ''the committed mode-decision payload is malformed'')
            | Some changed \<Rightarrow>
                if mo_To changed = sm_Mode i
                then result_bind (draftFromStored lib (pe_Decision (snd stored))) (\<lambda>draft. Ok (ask draft []))
                else live False)))"

definition servicePlanSnapshot :: "human_lib \<Rightarrow> PlanUATInput \<Rightarrow> TaskID \<Rightarrow> PlanUATSnapshot" where
  "servicePlanSnapshot lib i epoch =
     (let d = decisionIDForOperation (pt_OperationID i) in
      \<lparr>ps_ID = d, ps_UATTaskID = pt_Proposal i, ps_Proposal = pi_String (hl_ids lib) (pt_Proposal i), ps_DecisionEntry = d,
       ps_InputLedger = pi_String (hl_ids lib) epoch, ps_OutputLedger = pt_OperationID i\<rparr>)"

definition plan_decision :: "human_lib \<Rightarrow> PlanUATInput \<Rightarrow> PlanUATPayload \<Rightarrow> TaskID \<Rightarrow> InteractionModeCursor \<Rightarrow> PlanUATDecision" where
  "plan_decision lib i payload epoch mode =
     \<lparr>pu_Snapshot = servicePlanSnapshot lib i epoch, pu_ReportedVerdict = pt_Outcome i, pu_Interactions = pp_Interactions payload,
      pu_Feedback = pp_Feedback payload, pu_HeldQuestions = pp_HeldQuestions payload, pu_Mode = mode\<rparr>"

definition normal_mode :: InteractionModeCursor where
  "normal_mode = \<lparr>mc_Entry = None, mc_Mode = InteractionNormal\<rparr>"

definition planUATDraft ::
  "human_lib \<Rightarrow> journal_reads \<Rightarrow> PlanUATInput \<Rightarrow> PlanUATPayload \<Rightarrow> TaskID \<Rightarrow> subjectStateSnapshot
    \<Rightarrow> human_error + (DecisionDraft \<times> Condition list)" where
  "planUATDraft lib rd i payload epoch state =
     result_bind (if pt_Outcome i = PlanUATDeferredByAFK
        then result_bind (interactionModeState lib rd epoch) (\<lambda>(cursor, condition). Ok (cursor, [conditionCurrent state, condition]))
        else Ok (normal_mode, [conditionCurrent state])) (\<lambda>(mode, conditions).
     result_bind (of_policy ''draft Plan UAT'' (DraftPlanUAT (hl_policy lib) (plan_decision lib i payload epoch mode))) (\<lambda>draft.
     Ok (draft, conditions)))"

definition planUATReplayDraft ::
  "human_lib \<Rightarrow> journal_reads \<Rightarrow> PlanUATInput \<Rightarrow> PlanUATPayload \<Rightarrow> TaskID \<Rightarrow> decisionFact \<Rightarrow> human_error + DecisionDraft" where
  "planUATReplayDraft lib rd i payload epoch stored =
     (let enc = pe_Decision (snd stored) in
      result_bind (
        if de_Kind enc = DecisionPlanUATDeferredByAFK then
          (case js_Unmarshal (pl_planDeferred (hl_payloads lib)) (de_Payload enc) of
             None \<Rightarrow> Err (humanServiceErr ''planUATReplayDraft'' ''the committed AFK Plan UAT payload is malformed'')
           | Some existing \<Rightarrow> Ok \<lparr>mc_Entry = Some (pd_ModeEntry existing), mc_Mode = InteractionAFK\<rparr>)
        else if pt_Outcome i = PlanUATDeferredByAFK then
          result_bind (interactionModeState lib rd epoch) (\<lambda>(cursor, _). Ok cursor)
        else Ok normal_mode) (\<lambda>mode.
      result_bind (of_policy ''draft Plan UAT'' (DraftPlanUAT (hl_policy lib) (plan_decision lib i payload epoch mode))) (\<lambda>expected.
      if \<not> sameDecisionEncoding enc (encoding expected) then Ok expected else draftFromStored lib enc)))"

definition recordPlanUATRequest :: "human_lib \<Rightarrow> journal_reads \<Rightarrow> PlanUATInput \<Rightarrow> human_error + commit_request" where
  "recordPlanUATRequest lib rd i =
     (let bad = humanServiceErr ''RecordPlanUAT''; op = pt_OperationID i;
          payload = (case pt_Payload i of None \<Rightarrow> \<lparr>pp_Interactions = [], pp_Feedback = [], pp_HeldQuestions = []\<rparr> | Some p \<Rightarrow> p) in
      result_bind (preflightCommon lib rd op (pt_Epoch i) (pt_Actor i)) (\<lambda>epoch.
      let ask = request op (pt_Epoch i) epoch (pt_Proposal i) (pt_Actor i) MutationRecordPlanUAT in
      if pt_Proposal i = zero_TaskID then Err (bad ''the proposal is empty'')
      else result_bind (committedOperationDecision lib rd op planUATDecisionKinds) (\<lambda>committed.
        case committed of
          Some stored \<Rightarrow> result_bind (planUATReplayDraft lib rd i payload epoch stored) (\<lambda>draft. Ok (ask draft))
        | None \<Rightarrow>
            if \<not> rd_Show rd (pt_Proposal i)
            then Err (bad (''proposal '' @ quote (pi_String (hl_ids lib) (pt_Proposal i)) @ '' could not be read''))
            else result_bind (planSubjectState lib rd epoch (pt_Proposal i)) (\<lambda>state.
              if terminal state
              then Err (bad (''proposal '' @ quote (pi_String (hl_ids lib) (pt_Proposal i)) @ '' is already in terminal state '' @
                     quote (sn_state state)))
              else result_bind (planUATDraft lib rd i payload epoch state) (\<lambda>(draft, conditions).
                Ok ((ask draft)\<lparr>cq_conditions := conditions\<rparr>))))))"

definition ratify_refs :: "RatifyPlanInput \<Rightarrow> evidenceRef list" where
  "ratify_refs i = [plain_ref ''pasture.review.round.v1'' (rt_ReviewRound i), plain_ref ''pasture.plan-uat.decision.v1'' (rt_PlanUAT i)]"

definition ratifyPlanRequest :: "human_lib \<Rightarrow> journal_reads \<Rightarrow> RatifyPlanInput \<Rightarrow> human_error + commit_request" where
  "ratifyPlanRequest lib rd i =
     (let bad = humanServiceErr ''RatifyPlan''; op = rt_OperationID i; proposal = rt_Proposal i;
          close = [lifecycleEffect proposal (hl_EventKindTaskClosed lib)] in
      result_bind (preflightCommon lib rd op (rt_Epoch i) (rt_Actor i)) (\<lambda>epoch.
      let ask = request op (rt_Epoch i) epoch proposal (rt_Actor i) MutationRatifyPlan in
      result_bind (of_policy ''draft plan ratified'' (DraftPlanRatified (hl_policy lib)
        \<lparr>pr_Proposal = pi_String (hl_ids lib) proposal, pr_ReviewRound = rt_ReviewRound i, pr_PlanUAT = rt_PlanUAT i\<rparr>)) (\<lambda>draft.
      result_bind (committedOperationDecision lib rd op [DecisionPlanRatified]) (\<lambda>committed.
      case committed of
        Some stored \<Rightarrow>
          if sameDecisionEncoding (pe_Decision (snd stored)) (encoding draft)
          then result_bind (draftFromStored lib (pe_Decision (snd stored))) (\<lambda>replay.
            Ok ((ask replay)\<lparr>cq_refs := ratify_refs i, cq_trailing := close\<rparr>))
          else Ok (ask draft)
      | None \<Rightarrow>
          if \<not> rd_Show rd proposal then Err (bad (''proposal '' @ quote (pi_String (hl_ids lib) proposal) @ '' could not be read''))
          else result_bind (requireAcceptedReview lib rd proposal epoch (rt_ReviewRound i)) (\<lambda>_.
            result_bind (planSubjectState lib rd epoch proposal) (\<lambda>state.
            if sn_state state \<noteq> subjectStatePlanAccepted \<or> sn_decision state \<noteq> rt_PlanUAT i
            then Err (bad (''Plan UAT decision '' @ quote (rt_PlanUAT i) @ '' is not the current accepted state for proposal '' @
                   quote (pi_String (hl_ids lib) proposal)))
            else result_bind (requireAcceptedDecision lib rd proposal epoch (rt_PlanUAT i) DecisionPlanUATAccepted ''RatifyPlan'') (\<lambda>_.
              Ok ((ask draft)\<lparr>cq_refs := ratify_refs i, cq_conditions := [conditionCurrent state], cq_trailing := close\<rparr>))))))))"

definition recordImplementationUATRequest ::
  "human_lib \<Rightarrow> journal_reads \<Rightarrow> ImplementationUATInput \<Rightarrow> human_error + commit_request" where
  "recordImplementationUATRequest lib rd i =
     (let bad = humanServiceErr ''RecordImplementationUAT''; op = it_OperationID i; ids = hl_ids lib;
          payload = (case it_Payload i of None \<Rightarrow> \<lparr>im_Interactions = [], im_Feedback = [], im_HeldAnswers = [], im_PlanFeedback = [], im_LedgerDecisions = []\<rparr> | Some p \<Rightarrow> p);
          bind_effect = (\<lambda>candidate b. of_authority (newImplementationUATReviewBindingEvidenceEffect ids (hl_sha256 lib) (hl_facts lib)
            candidate b (evidence_slot 1))) in
      result_bind (parseTaskID lib ''RecordImplementationUAT'' (it_Candidate i) ''candidate'') (\<lambda>candidate.
      result_bind (preflightCommon lib rd op (it_Epoch i) (it_Actor i)) (\<lambda>epoch.
      let ask = request op (it_Epoch i) epoch candidate (it_Actor i) MutationRecordImplementationUAT in
      if \<not> rd_Show rd candidate then Err (bad (''candidate '' @ quote (it_Candidate i) @ '' could not be read''))
      else result_bind (of_policy ''draft Implementation UAT'' (DraftImplementationUAT (hl_policy lib) (it_Outcome i) payload)) (\<lambda>draft.
        result_bind (committedOperationDecision lib rd op [DecisionImplementationUAT]) (\<lambda>committed.
        case committed of
          Some stored \<Rightarrow>
            if sameDecisionEncoding (pe_Decision (snd stored)) (encoding draft) then
              result_bind (implementationUATReviewBindingForOperation lib rd stored) (\<lambda>(binding, _).
                if pe_Epoch (snd stored) = pi_String ids epoch \<and> pe_Subject (snd stored) = pi_String ids candidate \<and>
                   pe_Actor (snd stored) = hl_ActorString lib (it_Actor i) \<and> ub_Epoch binding = pi_String ids epoch \<and>
                   ub_Candidate binding = pi_String ids candidate
                then result_bind (draftFromStored lib (pe_Decision (snd stored))) (\<lambda>replay.
                  result_bind (bind_effect candidate binding) (\<lambda>effect. Ok ((ask replay)\<lparr>cq_authority := [effect]\<rparr>)))
                else Ok (ask draft))
            else Ok (ask draft)
        | None \<Rightarrow>
            result_bind (candidateSubjectState lib rd epoch candidate) (\<lambda>state.
            result_bind (requireEligibleCandidateLifecycle lib ''RecordImplementationUAT'' candidate state) (\<lambda>_.
            result_bind (currentImplementationReviewAuthority lib rd epoch candidate) (\<lambda>(review, reviewID).
            if ra_State review \<noteq> reviewFinalizedClean
            then Err (bad (''candidate '' @ quote (it_Candidate i) @ '' has current review state '' @ dec_nat (ra_State review)))
            else result_bind (bind_effect candidate \<lparr>ub_Epoch = pi_String ids epoch, ub_Candidate = it_Candidate i,
                   ub_ReviewRound = ra_Round review, ub_ReviewFact = reviewID, ub_Operation = op\<rparr>) (\<lambda>effect.
              Ok ((ask draft)\<lparr>cq_conditions := [conditionCurrent state, reviewAuthorityCurrentCondition candidate reviewID],
                cq_authority := [effect]\<rparr>))))))))))"

definition land_refs :: "LandInput \<Rightarrow> TaskID \<Rightarrow> evidenceRef list" where
  "land_refs i candidate = [(plain_ref ''pasture.implementation-uat.decision.v1'' (ln_ImplementationUAT i))\<lparr>er_stateSubject := candidate\<rparr>]"

text \<open>The authorities a landing rests on, read and matched against each other.\<close>

record land_reading =
  lr_state :: subjectStateSnapshot
  lr_uat :: decisionFact
  lr_binding :: "implementationUATReviewBinding \<times> JournalID"
  lr_review :: "implementationReviewAuthority \<times> JournalID"
  lr_manifest :: "integrationCandidateManifest \<times> JournalID"
  lr_publications :: "candidatePublicationSet \<times> JournalID"

definition landReading :: "human_lib \<Rightarrow> journal_reads \<Rightarrow> LandInput \<Rightarrow> TaskID \<Rightarrow> TaskID \<Rightarrow> human_error + land_reading" where
  "landReading lib rd i epoch candidate =
     (let bad = humanServiceErr ''Land''; uat = ln_ImplementationUAT i in
      if \<not> rd_Show rd candidate then Err (bad (''candidate '' @ quote (ln_Candidate i) @ '' could not be read''))
      else result_bind (candidateSubjectState lib rd epoch candidate) (\<lambda>state.
        if sn_state state \<noteq> subjectStateImplementationAccepted \<or> sn_decision state \<noteq> uat \<or> sn_source state \<noteq> subjectStateSourceHumanDecision \<or>
           sn_operation state = []
        then Err (bad (''Implementation UAT decision '' @ quote uat @ '' is not the current accepted state for candidate '' @ quote (ln_Candidate i)))
        else result_bind (acceptedImplementationUATFact lib rd candidate epoch (ln_Candidate i) uat) (\<lambda>implementationUAT.
          if fr_ProducingOperationID (fst implementationUAT) \<noteq> sn_operation state
          then Err (bad (''Implementation UAT decision '' @ quote uat @ '' and current candidate state have different producing operations''))
          else result_bind (implementationUATReviewBindingForOperation lib rd implementationUAT) (\<lambda>binding.
            result_bind (currentImplementationReviewAuthority lib rd epoch candidate) (\<lambda>review.
            if ra_State (fst review) \<noteq> reviewFinalizedClean \<or> ub_ReviewFact (fst binding) \<noteq> snd review \<or>
               ub_ReviewRound (fst binding) \<noteq> ra_Round (fst review)
            then Err (bad (''Implementation UAT decision '' @ quote uat @ '' is not bound to the current clean review for candidate '' @
                   quote (ln_Candidate i)))
            else result_bind (exactCandidateManifest lib rd epoch candidate) (\<lambda>manifest.
              result_bind (currentCandidatePublicationSet lib rd epoch candidate) (\<lambda>publications.
              case validatePublicationSetAgainstManifest (fst manifest) (fst publications) of
                Err _ \<Rightarrow> Err (bad (''candidate '' @ quote (ln_Candidate i) @ '' has incomplete or mismatched publication authority''))
              | Ok _ \<Rightarrow> Ok \<lparr>lr_state = state, lr_uat = implementationUAT, lr_binding = binding, lr_review = review,
                  lr_manifest = manifest, lr_publications = publications\<rparr>)))))))"

definition land_binding_of :: "human_lib \<Rightarrow> LandInput \<Rightarrow> TaskID \<Rightarrow> TaskID \<Rightarrow> land_reading \<Rightarrow> landAuthorityBinding" where
  "land_binding_of lib i epoch candidate r =
     \<lparr>lb_Epoch = pi_String (hl_ids lib) epoch, lb_Candidate = pi_String (hl_ids lib) candidate, lb_LandOperation = ln_OperationID i,
      lb_ImplementationUAT = ln_ImplementationUAT i, lb_ImplementationUATOperation = sn_operation (lr_state r),
      lb_ImplementationUATDecisionFact = fr_JournalID (fst (lr_uat r)), lb_ImplementationUATStateFact = sn_journalID (lr_state r),
      lb_ImplementationUATReviewBindingFact = snd (lr_binding r), lb_ReviewFact = snd (lr_review r),
      lb_ReviewRound = ra_Round (fst (lr_review r)), lb_ReviewAxes = ra_Axes (fst (lr_review r)), lb_ManifestFact = snd (lr_manifest r),
      lb_Members = mf_Members (fst (lr_manifest r)), lb_PublicationSetFact = snd (lr_publications r),
      lb_Publications = pb_Publications (fst (lr_publications r))\<rparr>"

definition land_conditions :: "TaskID \<Rightarrow> land_reading \<Rightarrow> Condition list" where
  "land_conditions candidate r =
     [conditionCurrent (lr_state r), reviewAuthorityCurrentCondition candidate (snd (lr_review r)),
      candidateManifestExactCondition candidate (snd (lr_manifest r)),
      candidatePublicationSetCurrentCondition candidate (snd (lr_publications r))]"

definition landRequest :: "human_lib \<Rightarrow> journal_reads \<Rightarrow> LandInput \<Rightarrow> human_error + commit_request" where
  "landRequest lib rd i =
     (let op = ln_OperationID i; ids = hl_ids lib in
      result_bind (parseTaskID lib ''Land'' (ln_Candidate i) ''candidate'') (\<lambda>candidate.
      result_bind (preflightCommon lib rd op (ln_Epoch i) (ln_Actor i)) (\<lambda>epoch.
      let ask = request op (ln_Epoch i) epoch epoch (ln_Actor i) MutationLand;
          close = [lifecycleEffect epoch (hl_EventKindTaskClosed lib)];
          bind_effect = (\<lambda>b. of_authority (newLandAuthorityBindingEvidenceEffect ids (hl_sha256 lib) (hl_facts lib) epoch b (evidence_slot 2))) in
      result_bind (of_policy ''draft landed'' (DraftLanded (hl_policy lib)
        \<lparr>el_Candidate = ln_Candidate i, el_ImplementationUAT = ln_ImplementationUAT i\<rparr>)) (\<lambda>draft.
      result_bind (committedOperationDecision lib rd op [DecisionLanded]) (\<lambda>committed.
      case committed of
        Some stored \<Rightarrow>
          if sameDecisionEncoding (pe_Decision (snd stored)) (encoding draft) then
            result_bind (draftFromStored lib (pe_Decision (snd stored))) (\<lambda>replay.
            result_bind (landAuthorityBindingForOperation lib rd stored) (\<lambda>(binding, _).
            let ask' = (ask replay)\<lparr>cq_refs := land_refs i candidate, cq_trailing := close\<rparr> in
            if lb_Epoch binding = pi_String ids epoch \<and> lb_Candidate binding = pi_String ids candidate \<and>
               lb_ImplementationUAT binding = ln_ImplementationUAT i
            then result_bind (bind_effect binding) (\<lambda>effect. Ok (ask'\<lparr>cq_authority := [effect]\<rparr>))
            else Ok ask'))
          else Ok (ask draft)
      | None \<Rightarrow>
          result_bind (landReading lib rd i epoch candidate) (\<lambda>r.
          result_bind (of_authority (newLandAuthorityBinding ids (land_binding_of lib i epoch candidate r))) (\<lambda>binding.
          result_bind (bind_effect binding) (\<lambda>effect.
          Ok ((ask draft)\<lparr>cq_refs := land_refs i candidate, cq_conditions := land_conditions candidate r, cq_trailing := close,
            cq_authority := [effect]\<rparr>)))))))))"

type_synonym apply_journal = "OperationInput \<Rightarrow> string + CommittedResult"

definition SetInteractionMode :: "human_lib \<Rightarrow> journal_reads \<Rightarrow> int \<Rightarrow> apply_journal \<Rightarrow> SetInteractionModeInput \<Rightarrow> human_error + DecisionResult" where
  "SetInteractionMode lib rd now Apply i = result_bind (setInteractionModeRequest lib rd i) (commitWithAuthority lib rd now Apply)"

definition RecordPlanUAT :: "human_lib \<Rightarrow> journal_reads \<Rightarrow> int \<Rightarrow> apply_journal \<Rightarrow> PlanUATInput \<Rightarrow> human_error + DecisionResult" where
  "RecordPlanUAT lib rd now Apply i = result_bind (recordPlanUATRequest lib rd i) (commitWithAuthority lib rd now Apply)"

definition RatifyPlan :: "human_lib \<Rightarrow> journal_reads \<Rightarrow> int \<Rightarrow> apply_journal \<Rightarrow> RatifyPlanInput \<Rightarrow> human_error + DecisionResult" where
  "RatifyPlan lib rd now Apply i = result_bind (ratifyPlanRequest lib rd i) (commitWithAuthority lib rd now Apply)"

definition RecordImplementationUAT ::
  "human_lib \<Rightarrow> journal_reads \<Rightarrow> int \<Rightarrow> apply_journal \<Rightarrow> ImplementationUATInput \<Rightarrow> human_error + DecisionResult" where
  "RecordImplementationUAT lib rd now Apply i = result_bind (recordImplementationUATRequest lib rd i) (commitWithAuthority lib rd now Apply)"

definition Land :: "human_lib \<Rightarrow> journal_reads \<Rightarrow> int \<Rightarrow> apply_journal \<Rightarrow> LandInput \<Rightarrow> human_error + DecisionResult" where
  "Land lib rd now Apply i = result_bind (landRequest lib rd i) (commitWithAuthority lib rd now Apply)"

end
