(* ===== verification/HumanGates.thy ===== *)
theory HumanGates
  imports HumanService "HOL-Library.Sublist"
begin

text \<open>
  What the explicit human decisions guarantee at the moment their operation is applied.  A
  command reads the journal, page by page and possibly while others append to it, and only
  then hands its operation over; the conditions inside the operation are what ties the two
  moments together.

  The journal is two growing lists of facts.  A read gives facts the journal held, a
  condition on the current fact of a task and kind asserts the identity of the latest one
  (or zero when there is none), and a condition on an exact fact asserts that it exists:
  this is the documented behaviour of the provenance journal and enters the theorems as
  hypotheses (\<open>reads_from\<close>, \<open>wf_journal\<close>, \<open>condition_holds\<close>).
\<close>

section \<open>The journal\<close>

record journal =
  jn_Decisions :: "FactRow list"
  jn_Evidence :: "FactRow list"

definition query_matches :: "FactQuery \<Rightarrow> FactRow \<Rightarrow> bool" where
  "query_matches q r \<longleftrightarrow> (fq_Task q = None \<or> fr_TaskID r = fq_Task q) \<and>
     (fq_OperationIDs q = [] \<or> fr_ProducingOperationID r \<in> set (fq_OperationIDs q)) \<and> fr_Kind r \<in> set (fq_Kinds q)"

definition reads_from :: "journal_reads \<Rightarrow> journal \<Rightarrow> bool" where
  "reads_from rd J \<longleftrightarrow> (\<forall>q rows r. r \<in> set rows \<longrightarrow>
     (Ok rows \<in> set (rd_QueryDecisions rd q) \<longrightarrow> r \<in> set (jn_Decisions J) \<and> query_matches q r) \<and>
     (Ok rows \<in> set (rd_QueryEvidence rd q) \<longrightarrow> r \<in> set (jn_Evidence J) \<and> query_matches q r))"

definition ascending :: "FactRow list \<Rightarrow> bool" where
  "ascending rows \<longleftrightarrow> sorted_wrt (<) (0 # map fr_JournalID rows)"

definition wf_journal :: "journal \<Rightarrow> bool" where
  "wf_journal J \<longleftrightarrow> ascending (jn_Decisions J) \<and> ascending (jn_Evidence J)"

definition grows_to :: "journal \<Rightarrow> journal \<Rightarrow> bool" where
  "grows_to J J' \<longleftrightarrow> prefix (jn_Decisions J) (jn_Decisions J') \<and> prefix (jn_Evidence J) (jn_Evidence J')"

definition fresh :: "string \<Rightarrow> journal \<Rightarrow> bool" where
  "fresh op J \<longleftrightarrow> op \<notin> fr_ProducingOperationID ` (set (jn_Decisions J) \<union> set (jn_Evidence J))"

definition about :: "TaskID \<Rightarrow> string \<Rightarrow> FactRow list \<Rightarrow> FactRow list" where
  "about task kind rows = filter (\<lambda>r. fr_TaskID r = Some task \<and> fr_Kind r = kind) rows"

definition current_fact :: "FactRow list \<Rightarrow> TaskID \<Rightarrow> string \<Rightarrow> FactRow option" where
  "current_fact rows task kind = (case about task kind rows of [] \<Rightarrow> None | r # rs \<Rightarrow> Some (last (r # rs)))"

definition condition_rows :: "journal \<Rightarrow> Condition \<Rightarrow> FactRow list \<times> string" where
  "condition_rows J c = (case cd_FactKind c of FactDecision \<Rightarrow> (jn_Decisions J, cd_DecisionKind c)
     | FactEvidence \<Rightarrow> (jn_Evidence J, cd_EvidenceKind c) | FactOther \<Rightarrow> ([], []))"

definition condition_holds :: "journal \<Rightarrow> Condition \<Rightarrow> bool" where
  "condition_holds J c \<longleftrightarrow> (case cd_Task c of None \<Rightarrow> False | Some task \<Rightarrow>
     (case condition_rows J c of (rows, kind) \<Rightarrow>
       (case cd_Kind c of
          ConditionCurrentFact \<Rightarrow> cd_AssertedJournalID c = (case current_fact rows task kind of None \<Rightarrow> 0 | Some r \<Rightarrow> fr_JournalID r)
        | ConditionExactFact \<Rightarrow> list_ex (\<lambda>r. fr_JournalID r = cd_AssertedJournalID c) (about task kind rows))))"

lemma fresh_earlier: "fresh op J' \<Longrightarrow> grows_to J J' \<Longrightarrow> fresh op J"
  by (auto simp: fresh_def grows_to_def dest: set_mono_prefix)

lemma grows_to_mem:
  "grows_to J J' \<Longrightarrow> r \<in> set (jn_Evidence J) \<Longrightarrow> r \<in> set (jn_Evidence J')"
  "grows_to J J' \<Longrightarrow> r \<in> set (jn_Decisions J) \<Longrightarrow> r \<in> set (jn_Decisions J')"
  by (auto simp: grows_to_def dest: set_mono_prefix)

lemma ascending_positive: "ascending rows \<Longrightarrow> r \<in> set rows \<Longrightarrow> 0 < fr_JournalID r"
  by (simp add: ascending_def)

lemma ascending_unique:
  assumes "ascending rows" "r \<in> set rows" "s \<in> set rows" "fr_JournalID r = fr_JournalID s"
  shows "r = s"
proof -
  have "distinct (map fr_JournalID rows)"
    using assms(1) strict_sorted_iff by (auto simp: ascending_def)
  then show ?thesis using assms(2-4) by (auto simp: distinct_map inj_on_def)
qed

lemma current_fact_mem: "current_fact rows task kind = Some r \<Longrightarrow> r \<in> set (about task kind rows)"
  by (cases "about task kind rows") (auto simp: current_fact_def)

lemma about_mem: "r \<in> set (about task kind rows) \<longleftrightarrow> r \<in> set rows \<and> fr_TaskID r = Some task \<and> fr_Kind r = kind"
  by (auto simp: about_def)

text \<open>An assertion of the current fact that names a fact once read singles it out.\<close>

lemma current_pinned:
  assumes "wf_journal J" "condition_holds J (evidenceCondition task kind (fr_JournalID r) ConditionCurrentFact)"
    "r \<in> set (jn_Evidence J)"
  shows "current_fact (jn_Evidence J) task kind = Some r"
proof -
  have asc: "ascending (jn_Evidence J)" using assms(1) by (simp add: wf_journal_def)
  have eq: "fr_JournalID r = (case current_fact (jn_Evidence J) task kind of None \<Rightarrow> 0 | Some s \<Rightarrow> fr_JournalID s)"
    using assms(2) by (simp add: condition_holds_def condition_rows_def evidenceCondition_def)
  have "fr_JournalID r \<noteq> 0" using ascending_positive[OF asc assms(3)] by simp
  then obtain s where s: "current_fact (jn_Evidence J) task kind = Some s" "fr_JournalID s = fr_JournalID r"
    using eq by (auto split: option.splits)
  then have "s \<in> set (jn_Evidence J)" using current_fact_mem about_mem by blast
  then show ?thesis using ascending_unique[OF asc _ assms(3) s(2)] s(1) by simp
qed

section \<open>Reading rows\<close>

text \<open>A reader visits rows and keeps a value; what it ends with is either what it started with
  or comes from a row it visited.\<close>

lemma fold_rows_from:
  assumes "\<And>r s s'. step r s = Ok s' \<Longrightarrow> s' = s \<or> P r s'" "fold_rows step rows s = Ok s'"
  shows "s' = s \<or> (\<exists>r \<in> set rows. P r s')"
  using assms(2)
proof (induction rows arbitrary: s)
  case (Cons r rows)
  then obtain t where "step r s = Ok t" "fold_rows step rows t = Ok s'" by auto
  then show ?case using Cons.IH assms(1) by fastforce
qed simp

lemma walk_pages_from:
  assumes "\<And>r s s'. step r s = Ok s' \<Longrightarrow> s' = s \<or> P r s'" "walk_pages what step pages s = Ok s'"
  shows "s' = s \<or> (\<exists>rows r. Ok rows \<in> set pages \<and> r \<in> set rows \<and> P r s')"
  using assms(2)
proof (induction pages arbitrary: s)
  case (Cons p pages)
  then obtain rows t where p: "p = Ok rows" "fold_rows step rows s = Ok t" "walk_pages what step pages t = Ok s'"
    by (auto split: sum.splits)
  then show ?case using Cons.IH[of t] fold_rows_from[OF assms(1) p(2)] by fastforce
qed simp

lemma walk_rows_until_from:
  assumes "\<And>r s s' b. step r s = Ok (s', b) \<Longrightarrow> s' = s \<or> P r s'" "walk_rows_until step rows s = Ok (s', b)"
  shows "s' = s \<or> (\<exists>r \<in> set rows. P r s')"
  using assms(2)
proof (induction rows arbitrary: s)
  case (Cons r rows)
  then obtain t c where "step r s = Ok (t, c)" "if c then s' = t else walk_rows_until step rows t = Ok (s', b)"
    by (auto split: if_splits)
  then show ?case using Cons.IH[of t] assms(1)[of r s t c] by (auto split: if_splits)
qed simp

lemma walk_pages_until_from:
  assumes "\<And>r s s' b. step r s = Ok (s', b) \<Longrightarrow> s' = s \<or> P r s'" "walk_pages_until what step pages s = Ok s'"
  shows "s' = s \<or> (\<exists>rows r. Ok rows \<in> set pages \<and> r \<in> set rows \<and> P r s')"
  using assms(2)
proof (induction pages arbitrary: s)
  case (Cons p pages)
  then obtain rows t c where p: "p = Ok rows" "walk_rows_until step rows s = Ok (t, c)"
    "if c then s' = t else walk_pages_until what step pages t = Ok s'"
    by (auto split: sum.splits if_splits)
  then show ?case using Cons.IH[of t] walk_rows_until_from[OF assms(1) p(2)] by (fastforce split: if_splits)
qed simp

lemma read_decisions:
  "reads_from rd J \<Longrightarrow> Ok rows \<in> set (rd_QueryDecisions rd q) \<Longrightarrow> r \<in> set rows \<Longrightarrow> r \<in> set (jn_Decisions J) \<and> query_matches q r"
  by (simp add: reads_from_def)

lemma read_evidence:
  "reads_from rd J \<Longrightarrow> Ok rows \<in> set (rd_QueryEvidence rd q) \<Longrightarrow> r \<in> set rows \<Longrightarrow> r \<in> set (jn_Evidence J) \<and> query_matches q r"
  by (simp add: reads_from_def)

locale evidence_reader =
  fixes step :: "FactRow \<Rightarrow> 's \<Rightarrow> human_error + 's"
    and taken :: "FactRow \<Rightarrow> 's \<Rightarrow> bool"
  assumes keeps_or_takes: "step r s = Ok s' \<Longrightarrow> s' = s \<or> taken r s'"
begin

lemma read_value:
  assumes "reads_from rd J" "walk_pages what step (rd_QueryEvidence rd q) s = Ok s'"
  shows "s' = s \<or> (\<exists>r. r \<in> set (jn_Evidence J) \<and> query_matches q r \<and> taken r s')"
proof -
  consider "s' = s" | rows r where "Ok rows \<in> set (rd_QueryEvidence rd q)" "r \<in> set rows" "taken r s'"
    using walk_pages_from[of step taken] keeps_or_takes assms(2) by blast
  then show ?thesis using read_evidence[OF assms(1)] by cases auto
qed

lemma untaken:
  assumes "reads_from rd J" "walk_pages what step (rd_QueryEvidence rd q) s = Ok s'" "fresh op J" "fq_OperationIDs q = [op]"
  shows "s' = s"
  using read_value[OF assms(1,2)] assms(3,4) by (auto simp: fresh_def query_matches_def)

end

text \<open>What each reader of the service takes from a row.\<close>

definition state_taken :: "human_lib \<Rightarrow> TaskID \<Rightarrow> TaskID \<Rightarrow> string \<Rightarrow> FactRow \<Rightarrow> subjectStateSnapshot \<Rightarrow> bool" where
  "state_taken lib epoch subject family r s \<longleftrightarrow>
     (\<exists>e. decodeSubjectStateEvidence (hl_ids lib) (hl_facts lib) (fr_Payload r) epoch subject family (fr_ProducingOperationID r) = Ok e \<and>
       s = \<lparr>sn_subject = subject, sn_state = ss_State e, sn_decision = ss_Decision e, sn_decisionKind = ss_DecisionKind e,
         sn_operation = ss_Operation e, sn_source = ss_Source e, sn_journalID = fr_JournalID r, sn_family = family\<rparr>)"

definition review_taken ::
  "human_lib \<Rightarrow> TaskID \<Rightarrow> TaskID \<Rightarrow> FactRow \<Rightarrow> (implementationReviewAuthority \<times> JournalID) option \<Rightarrow> bool" where
  "review_taken lib epoch candidate r s \<longleftrightarrow>
     (\<exists>v. s = Some (v, fr_JournalID r) \<and> decodeImplementationReviewAuthority (hl_ids lib) (hl_facts lib) (fr_Payload r) = Ok v \<and>
       ra_Epoch v = pi_String (hl_ids lib) epoch \<and> ra_Candidate v = pi_String (hl_ids lib) candidate)"

definition publications_taken ::
  "human_lib \<Rightarrow> TaskID \<Rightarrow> TaskID \<Rightarrow> FactRow \<Rightarrow> (candidatePublicationSet \<times> JournalID) option \<Rightarrow> bool" where
  "publications_taken lib epoch candidate r s \<longleftrightarrow>
     (\<exists>v. s = Some (v, fr_JournalID r) \<and> decodeCandidatePublicationSet (hl_ids lib) (hl_facts lib) (fr_Payload r) = Ok v \<and>
       pb_Epoch v = pi_String (hl_ids lib) epoch \<and> pb_Candidate v = pi_String (hl_ids lib) candidate)"

definition manifest_taken ::
  "human_lib \<Rightarrow> TaskID \<Rightarrow> TaskID \<Rightarrow> FactRow \<Rightarrow> (integrationCandidateManifest \<times> JournalID) option \<Rightarrow> bool" where
  "manifest_taken lib epoch candidate r s \<longleftrightarrow>
     (\<exists>v. s = Some (v, fr_JournalID r) \<and> decodeCandidateManifest (hl_ids lib) (hl_facts lib) (fr_Payload r) = Ok v \<and>
       mf_Epoch v = pi_String (hl_ids lib) epoch \<and> mf_Candidate v = pi_String (hl_ids lib) candidate)"

definition uat_binding_taken ::
  "human_lib \<Rightarrow> TaskID \<Rightarrow> TaskID \<Rightarrow> FactRow \<Rightarrow> (implementationUATReviewBinding \<times> JournalID) option \<Rightarrow> bool" where
  "uat_binding_taken lib epoch candidate r s \<longleftrightarrow>
     (\<exists>v. s = Some (v, fr_JournalID r) \<and> decodeImplementationUATReviewBinding (hl_ids lib) (hl_facts lib) (fr_Payload r) = Ok v \<and>
       ub_Epoch v = pi_String (hl_ids lib) epoch \<and> ub_Candidate v = pi_String (hl_ids lib) candidate)"

lemmas taken_defs = state_taken_def review_taken_def publications_taken_def manifest_taken_def uat_binding_taken_def

interpretation state_reader: evidence_reader "state_step lib epoch subject family" "state_taken lib epoch subject family"
  for lib epoch subject family
  by unfold_locales (auto simp: state_step_def taken_defs split: if_splits sum.splits)

interpretation review_reader: evidence_reader "review_step lib epoch candidate" "review_taken lib epoch candidate"
  for lib epoch candidate
  by unfold_locales (auto simp: review_step_def taken_defs Let_def split: if_splits sum.splits)

interpretation publications_reader: evidence_reader "publication_step lib epoch candidate" "publications_taken lib epoch candidate"
  for lib epoch candidate
  by unfold_locales (auto simp: publication_step_def taken_defs Let_def split: if_splits sum.splits)

interpretation manifest_reader: evidence_reader "manifest_step lib epoch candidate" "manifest_taken lib epoch candidate"
  for lib epoch candidate
  by unfold_locales (auto simp: manifest_step_def taken_defs Let_def split: if_splits sum.splits)

interpretation uat_binding_reader: evidence_reader "uat_binding_step lib epoch candidate operation" "uat_binding_taken lib epoch candidate"
  for lib epoch candidate operation
  by unfold_locales (auto simp: uat_binding_step_def taken_defs Let_def split: if_splits sum.splits)

interpretation single_reader: evidence_reader "single_row many" "\<lambda>r s. s = Some r"
  for many
  by unfold_locales (auto simp: single_row_def split: if_splits)

text \<open>A decision found by a fold over the decisions of a subject.\<close>

lemma foldDecisionFacts_from:
  assumes "reads_from rd J" "foldDecisionFacts lib rd subject kind visit s = Ok s'"
    "\<And>fact s s' b. visit fact s = Ok (s', b) \<Longrightarrow> s' = s \<or> P fact s'"
  shows "s' = s \<or> (\<exists>r rc. r \<in> set (jn_Decisions J) \<and> decodeDecisionFact lib r subject kind = Ok (r, rc) \<and> P (r, rc) s')"
proof -
  define Q where "Q r s' = (\<exists>rc. decodeDecisionFact lib r subject kind = Ok (r, rc) \<and> P (r, rc) s')" for r s'
  have same: "decodeDecisionFact lib r subject kind = Ok fact \<Longrightarrow> fst fact = r" for r fact
    by (auto simp: decodeDecisionFact_def Let_def split: if_splits option.splits)
  have "s' = s \<or> (\<exists>rows r. Ok rows \<in> set (rd_QueryDecisions rd \<lparr>fq_Task = Some subject, fq_OperationIDs = [],
      fq_Kinds = [journalDecisionKind kind]\<rparr>) \<and> r \<in> set rows \<and> Q r s')"
  proof (rule walk_pages_until_from[OF _ assms(2)[unfolded foldDecisionFacts_def]])
    fix r t t' b
    assume "result_bind (decodeDecisionFact lib r subject kind) (\<lambda>fact. visit fact t) = Ok (t', b)"
    then obtain fact where f: "decodeDecisionFact lib r subject kind = Ok fact" "visit fact t = Ok (t', b)" by auto
    moreover obtain rc where "fact = (r, rc)" using same[OF f(1)] by (cases fact) simp
    ultimately show "t' = t \<or> Q r t'" using assms(3) by (auto simp: Q_def)
  qed
  then show ?thesis using read_decisions[OF assms(1)] by (fastforce simp: Q_def)
qed

lemma no_committed_decision:
  assumes "reads_from rd J" "fresh op J" "committedOperationDecision lib rd op kinds = Ok c"
  shows "c = None"
proof -
  have "c = None \<or> (\<exists>rows r. Ok rows \<in> set (rd_QueryDecisions rd \<lparr>fq_Task = None, fq_OperationIDs = [op],
      fq_Kinds = map journalDecisionKind kinds\<rparr>) \<and> r \<in> set rows \<and> True)"
    by (rule walk_pages_from[OF _ assms(3)[unfolded committedOperationDecision_def]]) simp
  then show ?thesis using assms(2) read_decisions[OF assms(1)] by (fastforce simp: query_matches_def fresh_def)
qed

lemma restored_when_fresh:
  assumes "reads_from rd J" "fresh op J" "restoreCommittedConditions lib rd op current = Ok conditions"
  shows "conditions = current"
  using assms(3) single_reader.untaken[OF assms(1) _ assms(2)]
  by (fastforce simp: restoreCommittedConditions_def split: option.splits)

section \<open>Landing\<close>

text \<open>The candidate's latest state is the acceptance \<open>uat\<close>, written by \<open>op\<close>; the decision itself
  is in the journal, and so is the binding \<open>op\<close> wrote, which names a review.\<close>

definition accepted_state :: "human_lib \<Rightarrow> journal \<Rightarrow> TaskID \<Rightarrow> TaskID \<Rightarrow> string \<Rightarrow> string \<Rightarrow> bool" where
  "accepted_state lib J epoch candidate uat op \<longleftrightarrow>
     (\<exists>r e. current_fact (jn_Evidence J) candidate candidateEvidenceKind = Some r \<and> fr_ProducingOperationID r = op \<and>
       decodeSubjectStateEvidence (hl_ids lib) (hl_facts lib) (fr_Payload r) epoch candidate candidateEvidenceKind op = Ok e \<and>
       ss_State e = subjectStateImplementationAccepted \<and> ss_Decision e = uat \<and> ss_Source e = subjectStateSourceHumanDecision)"

definition accepting_decision :: "human_lib \<Rightarrow> journal \<Rightarrow> TaskID \<Rightarrow> TaskID \<Rightarrow> string \<Rightarrow> string \<Rightarrow> bool" where
  "accepting_decision lib J epoch candidate uat op \<longleftrightarrow>
     (\<exists>r rc v. r \<in> set (jn_Decisions J) \<and> fr_ProducingOperationID r = op \<and>
       decodeDecisionFact lib r candidate DecisionImplementationUAT = Ok (r, rc) \<and>
       pe_ID rc = uat \<and> pe_Epoch rc = pi_String (hl_ids lib) epoch \<and>
       js_Unmarshal (pl_implementationUAT (hl_payloads lib)) (de_Payload (pe_Decision rc)) = Some v \<and> iu_Outcome v = ImplUATAccepted)"

definition reviewed_clean :: "human_lib \<Rightarrow> journal \<Rightarrow> TaskID \<Rightarrow> TaskID \<Rightarrow> string \<Rightarrow> bool" where
  "reviewed_clean lib J epoch candidate op \<longleftrightarrow>
     (\<exists>r v b bv. current_fact (jn_Evidence J) candidate implementationReviewAuthorityEvidenceKind = Some r \<and>
       review_taken lib epoch candidate r (Some (v, fr_JournalID r)) \<and> ra_State v = reviewFinalizedClean \<and>
       b \<in> set (about candidate implementationUATReviewBindingEvidenceKind (jn_Evidence J)) \<and> fr_ProducingOperationID b = op \<and>
       uat_binding_taken lib epoch candidate b (Some (bv, fr_JournalID b)) \<and>
       ub_ReviewFact bv = fr_JournalID r \<and> ub_ReviewRound bv = ra_Round v)"

definition published_exactly :: "human_lib \<Rightarrow> journal \<Rightarrow> TaskID \<Rightarrow> TaskID \<Rightarrow> bool" where
  "published_exactly lib J epoch candidate \<longleftrightarrow>
     (\<exists>m mv p pv. m \<in> set (about candidate candidateManifestEvidenceKind (jn_Evidence J)) \<and>
       manifest_taken lib epoch candidate m (Some (mv, fr_JournalID m)) \<and>
       current_fact (jn_Evidence J) candidate candidatePublicationSetEvidenceKind = Some p \<and>
       publications_taken lib epoch candidate p (Some (pv, fr_JournalID p)) \<and>
       publishes_exactly (mf_Members mv) (pb_Publications pv))"

lemma decoded_operation:
  "decodeSubjectStateEvidence ids codecs p epoch subject family op = Ok e \<Longrightarrow> ss_Operation e = op"
  by (auto simp: decodeSubjectStateEvidence_def validateSubjectStateEvidence_def Let_def split: if_splits)

lemma state_read:
  assumes "reads_from rd J" "currentSubjectState lib rd epoch subject family = Ok s"
  shows "s = no_state subject family \<or> (\<exists>r. r \<in> set (about subject family (jn_Evidence J)) \<and> state_taken lib epoch subject family r s)"
  using state_reader.read_value[OF assms(1) assms(2)[unfolded currentSubjectState_def]] by (auto simp: query_matches_def about_mem)

lemma review_read:
  assumes "reads_from rd J" "currentImplementationReviewAuthority lib rd epoch candidate = Ok (v, j)"
  shows "\<exists>r. r \<in> set (about candidate implementationReviewAuthorityEvidenceKind (jn_Evidence J)) \<and> j = fr_JournalID r \<and>
    review_taken lib epoch candidate r (Some (v, j))"
  using assms(2) review_reader.read_value[OF assms(1)]
  by (fastforce simp: currentImplementationReviewAuthority_def query_matches_def about_mem taken_defs split: option.splits)

lemma publications_read:
  assumes "reads_from rd J" "currentCandidatePublicationSet lib rd epoch candidate = Ok (v, j)"
  shows "\<exists>r. r \<in> set (about candidate candidatePublicationSetEvidenceKind (jn_Evidence J)) \<and> j = fr_JournalID r \<and>
    publications_taken lib epoch candidate r (Some (v, j))"
  using assms(2) publications_reader.read_value[OF assms(1)]
  by (fastforce simp: currentCandidatePublicationSet_def query_matches_def about_mem taken_defs split: option.splits)

lemma manifest_read:
  assumes "reads_from rd J" "exactCandidateManifest lib rd epoch candidate = Ok (v, j)"
  shows "\<exists>r. r \<in> set (about candidate candidateManifestEvidenceKind (jn_Evidence J)) \<and> j = fr_JournalID r \<and>
    manifest_taken lib epoch candidate r (Some (v, j))"
  using assms(2) manifest_reader.read_value[OF assms(1)]
  by (fastforce simp: exactCandidateManifest_def query_matches_def about_mem taken_defs split: option.splits)

lemma uat_fact_read:
  assumes "reads_from rd J" "acceptedImplementationUATFact lib rd subject epoch candidate i = Ok stored"
  shows "\<exists>r rc v. stored = (r, rc) \<and> r \<in> set (jn_Decisions J) \<and> decodeDecisionFact lib r subject DecisionImplementationUAT = Ok (r, rc) \<and>
    pe_ID rc = i \<and> pe_Epoch rc = pi_String (hl_ids lib) epoch \<and>
    js_Unmarshal (pl_implementationUAT (hl_payloads lib)) (de_Payload (pe_Decision rc)) = Some v \<and> iu_Outcome v = ImplUATAccepted"
proof -
  define P where "P f s' \<longleftrightarrow> s' = Some f \<and> pe_ID (snd f) = i \<and> pe_Epoch (snd f) = pi_String (hl_ids lib) epoch \<and>
    (\<exists>v. js_Unmarshal (pl_implementationUAT (hl_payloads lib)) (de_Payload (pe_Decision (snd f))) = Some v \<and> iu_Outcome v = ImplUATAccepted)"
    for f :: decisionFact and s' :: "decisionFact option"
  obtain found where f: "found = Some stored"
    and w: "foldDecisionFacts lib rd subject DecisionImplementationUAT (\<lambda>stored' found. Ok (
          if pe_Epoch (snd stored') \<noteq> pi_String (hl_ids lib) epoch \<or> pe_ID (snd stored') \<noteq> i then (found, False)
          else case js_Unmarshal (pl_implementationUAT (hl_payloads lib)) (de_Payload (pe_Decision (snd stored'))) of
              None \<Rightarrow> (found, False)
            | Some r \<Rightarrow> if iu_Outcome r = ImplUATAccepted then (Some stored', True) else (found, False))) None = Ok found"
    using assms(2) by (auto simp: acceptedImplementationUATFact_def split: option.splits)
  have "found = None \<or> (\<exists>r rc. r \<in> set (jn_Decisions J) \<and> decodeDecisionFact lib r subject DecisionImplementationUAT = Ok (r, rc) \<and>
      P (r, rc) found)"
    by (rule foldDecisionFacts_from[OF assms(1) w]) (auto simp: P_def split: if_splits option.splits)
  then show ?thesis using f by (auto simp: P_def)
qed

lemma uat_binding_read:
  assumes "reads_from rd J" "implementationUATReviewBindingForOperation lib rd (r, rc) = Ok (v, j)" "lawful_ids (hl_ids lib)"
    "fr_TaskID r = Some candidate" "pe_Epoch rc = pi_String (hl_ids lib) epoch" "pi_ParseTaskID (hl_ids lib) raw = Some epoch"
  shows "\<exists>b. b \<in> set (about candidate implementationUATReviewBindingEvidenceKind (jn_Evidence J)) \<and>
    fr_ProducingOperationID b = fr_ProducingOperationID r \<and> j = fr_JournalID b \<and> uat_binding_taken lib epoch candidate b (Some (v, j))"
proof -
  have parse: "pi_ParseTaskID (hl_ids lib) (pi_String (hl_ids lib) epoch) = Some epoch"
    using assms(3,6) by (auto simp: lawful_ids_def)
  let ?op = "fr_ProducingOperationID r"
  have w: "walk_pages ''query bounded Implementation UAT review binding'' (uat_binding_step lib epoch candidate ?op)
      (rd_QueryEvidence rd \<lparr>fq_Task = Some candidate, fq_OperationIDs = [?op], fq_Kinds = [implementationUATReviewBindingEvidenceKind]\<rparr>)
      None = Ok (Some (v, j))"
    using assms(2,4,5) parse
    by (auto simp: implementationUATReviewBindingForOperation_def Let_def split: if_splits option.splits)
  show ?thesis
    using uat_binding_reader.read_value[OF assms(1) w] by (auto simp: query_matches_def about_mem taken_defs)
qed

text \<open>What a fresh landing that got as far as its operation has read.\<close>

lemma land_prepared:
  assumes "reads_from rd J" "fresh (ln_OperationID i) J" "result_bind (landRequest lib rd i) (commitInput lib rd) = Ok inp"
  obtains candidate epoch r where
    "pi_ParseTaskID (hl_ids lib) (ln_Candidate i) = Some candidate" "pi_ParseTaskID (hl_ids lib) (ln_Epoch i) = Some epoch"
    "rd_Agent rd (ln_Actor i) = Some AgentKindHuman" "oi_ActorID inp = ln_Actor i"
    "landReading lib rd i epoch candidate = Ok r" "oi_Conditions inp = land_conditions candidate r"
proof -
  obtain q where q: "landRequest lib rd i = Ok q" "commitInput lib rd q = Ok inp" using assms(3) by auto
  obtain candidate where c: "pi_ParseTaskID (hl_ids lib) (ln_Candidate i) = Some candidate"
    using q(1) by (auto simp: landRequest_def parseTaskID_def Let_def split: option.splits)
  obtain epoch where e: "preflightCommon lib rd (ln_OperationID i) (ln_Epoch i) (ln_Actor i) = Ok epoch"
    using q(1) c by (auto simp: landRequest_def parseTaskID_def Let_def)
  obtain com where com: "committedOperationDecision lib rd (ln_OperationID i) [DecisionLanded] = Ok com"
    using q(1) c e by (auto simp: landRequest_def parseTaskID_def Let_def)
  have none: "com = None" by (rule no_committed_decision[OF assms(1,2) com])
  obtain r where r: "landReading lib rd i epoch candidate = Ok r" "cq_OperationID q = ln_OperationID i" "cq_actor q = ln_Actor i"
    "cq_conditions q = land_conditions candidate r"
    using q(1) c e com none by (auto simp: landRequest_def parseTaskID_def Let_def request_def)
  have "oi_Conditions inp = cq_conditions q" "oi_ActorID inp = cq_actor q"
    using q(2) restored_when_fresh[OF assms(1)] assms(2) r(2) by (auto simp: commitInput_def Let_def split: if_splits)
  moreover have "pi_ParseTaskID (hl_ids lib) (ln_Epoch i) = Some epoch" "rd_Agent rd (ln_Actor i) = Some AgentKindHuman"
    using e by (auto simp: preflightCommon_def parseTaskID_def split: if_splits option.splits)
  ultimately show ?thesis using that c r by simp
qed

text \<open>The readings of a landing, each at the journal it was read from.\<close>

lemma guarded_Ok: "(case r of Err _ \<Rightarrow> Err e | Ok (_ :: unit) \<Rightarrow> Ok v) = Ok w \<longleftrightarrow> r = Ok () \<and> v = w"
  by (cases r) auto

lemma land_reading_facts:
  assumes "landReading lib rd i epoch candidate = Ok r"
  shows "currentSubjectState lib rd epoch candidate candidateEvidenceKind = Ok (lr_state r)"
    "sn_state (lr_state r) = subjectStateImplementationAccepted" "sn_decision (lr_state r) = ln_ImplementationUAT i"
    "sn_source (lr_state r) = subjectStateSourceHumanDecision"
    "acceptedImplementationUATFact lib rd candidate epoch (ln_Candidate i) (ln_ImplementationUAT i) = Ok (lr_uat r)"
    "fr_ProducingOperationID (fst (lr_uat r)) = sn_operation (lr_state r)"
    "implementationUATReviewBindingForOperation lib rd (lr_uat r) = Ok (lr_binding r)"
    "currentImplementationReviewAuthority lib rd epoch candidate = Ok (lr_review r)"
    "ra_State (fst (lr_review r)) = reviewFinalizedClean" "ub_ReviewFact (fst (lr_binding r)) = snd (lr_review r)"
    "ub_ReviewRound (fst (lr_binding r)) = ra_Round (fst (lr_review r))"
    "exactCandidateManifest lib rd epoch candidate = Ok (lr_manifest r)"
    "currentCandidatePublicationSet lib rd epoch candidate = Ok (lr_publications r)"
    "validatePublicationSetAgainstManifest (fst (lr_manifest r)) (fst (lr_publications r)) = Ok ()"
  using assms by (auto simp: landReading_def candidateSubjectState_def Let_def guarded_Ok if_Err_eq_Ok)

lemma land_state_pinned:
  assumes "reads_from rd J" "grows_to J J'" "wf_journal J'" "landReading lib rd i epoch candidate = Ok r"
    "list_all (condition_holds J') (land_conditions candidate r)"
  shows "accepted_state lib J' epoch candidate (ln_ImplementationUAT i) (sn_operation (lr_state r))"
proof -
  note f = land_reading_facts[OF assms(4)]
  have "lr_state r \<noteq> no_state candidate candidateEvidenceKind" using f(2) by (auto simp: no_state_def subject_state_defs)
  then obtain s where s: "s \<in> set (about candidate candidateEvidenceKind (jn_Evidence J))"
    "state_taken lib epoch candidate candidateEvidenceKind s (lr_state r)"
    using state_read[OF assms(1) f(1)] by blast
  have mem: "s \<in> set (jn_Evidence J')" using s(1) grows_to_mem(1)[OF assms(2)] by (simp add: about_mem)
  have "condition_holds J' (evidenceCondition candidate candidateEvidenceKind (fr_JournalID s) ConditionCurrentFact)"
    using assms(5) s(2) by (auto simp: land_conditions_def conditionCurrent_def state_taken_def)
  then have "current_fact (jn_Evidence J') candidate candidateEvidenceKind = Some s"
    by (rule current_pinned[OF assms(3) _ mem])
  then show ?thesis using s(2) f(2-4) decoded_operation by (fastforce simp: accepted_state_def state_taken_def)
qed

lemma land_review_pinned:
  assumes "reads_from rd J" "grows_to J J'" "wf_journal J'" "landReading lib rd i epoch candidate = Ok r"
    "list_all (condition_holds J') (land_conditions candidate r)" "lawful_ids (hl_ids lib)"
    "pi_ParseTaskID (hl_ids lib) (ln_Epoch i) = Some epoch"
  shows "accepting_decision lib J' epoch candidate (ln_ImplementationUAT i) (sn_operation (lr_state r))"
    "reviewed_clean lib J' epoch candidate (sn_operation (lr_state r))"
proof -
  note f = land_reading_facts[OF assms(4)]
  obtain d rc v where d: "lr_uat r = (d, rc)" "d \<in> set (jn_Decisions J)" "decodeDecisionFact lib d candidate DecisionImplementationUAT = Ok (d, rc)"
    "pe_ID rc = ln_ImplementationUAT i" "pe_Epoch rc = pi_String (hl_ids lib) epoch"
    "js_Unmarshal (pl_implementationUAT (hl_payloads lib)) (de_Payload (pe_Decision rc)) = Some v" "iu_Outcome v = ImplUATAccepted"
    using uat_fact_read[OF assms(1) f(5)] by blast
  have task: "fr_TaskID d = Some candidate" using d(3) by (auto simp: decodeDecisionFact_def Let_def split: if_splits)
  show "accepting_decision lib J' epoch candidate (ln_ImplementationUAT i) (sn_operation (lr_state r))"
    using d f(6) grows_to_mem(2)[OF assms(2)] by (auto simp: accepting_decision_def)
  obtain bv bj where b: "lr_binding r = (bv, bj)" by (cases "lr_binding r") simp
  obtain rv rj where rr: "lr_review r = (rv, rj)" by (cases "lr_review r") simp
  obtain b' where b': "b' \<in> set (about candidate implementationUATReviewBindingEvidenceKind (jn_Evidence J))"
    "fr_ProducingOperationID b' = fr_ProducingOperationID d" "bj = fr_JournalID b'" "uat_binding_taken lib epoch candidate b' (Some (bv, bj))"
    using uat_binding_read[OF assms(1) _ assms(6) task d(5) assms(7)] f(7) b d(1) by metis
  obtain s where s: "s \<in> set (about candidate implementationReviewAuthorityEvidenceKind (jn_Evidence J))" "rj = fr_JournalID s"
    "review_taken lib epoch candidate s (Some (rv, rj))"
    using review_read[OF assms(1)] f(8) rr by metis
  have mem: "s \<in> set (jn_Evidence J')" using s(1) grows_to_mem(1)[OF assms(2)] by (simp add: about_mem)
  have "condition_holds J' (evidenceCondition candidate implementationReviewAuthorityEvidenceKind (fr_JournalID s) ConditionCurrentFact)"
    using assms(5) s(2) rr by (simp add: land_conditions_def reviewAuthorityCurrentCondition_def)
  then have "current_fact (jn_Evidence J') candidate implementationReviewAuthorityEvidenceKind = Some s"
    by (rule current_pinned[OF assms(3) _ mem])
  moreover have "b' \<in> set (about candidate implementationUATReviewBindingEvidenceKind (jn_Evidence J'))"
    using b'(1) grows_to_mem(1)[OF assms(2)] by (simp add: about_mem)
  ultimately show "reviewed_clean lib J' epoch candidate (sn_operation (lr_state r))"
    unfolding reviewed_clean_def using s b' b rr f(6,9-11) d(1) by (intro exI conjI) auto
qed

lemma land_publication_pinned:
  assumes "reads_from rd J" "grows_to J J'" "wf_journal J'" "landReading lib rd i epoch candidate = Ok r"
    "list_all (condition_holds J') (land_conditions candidate r)"
  shows "published_exactly lib J' epoch candidate"
proof -
  note f = land_reading_facts[OF assms(4)]
  obtain mv mj where m: "lr_manifest r = (mv, mj)" by (cases "lr_manifest r") simp
  obtain pv pj where p: "lr_publications r = (pv, pj)" by (cases "lr_publications r") simp
  obtain s where s: "s \<in> set (about candidate candidateManifestEvidenceKind (jn_Evidence J))" "mj = fr_JournalID s"
    "manifest_taken lib epoch candidate s (Some (mv, mj))"
    using manifest_read[OF assms(1)] f(12) m by metis
  obtain t where t: "t \<in> set (about candidate candidatePublicationSetEvidenceKind (jn_Evidence J))" "pj = fr_JournalID t"
    "publications_taken lib epoch candidate t (Some (pv, pj))"
    using publications_read[OF assms(1)] f(13) p by metis
  have mem: "t \<in> set (jn_Evidence J')" using t(1) grows_to_mem(1)[OF assms(2)] by (simp add: about_mem)
  have "condition_holds J' (evidenceCondition candidate candidatePublicationSetEvidenceKind (fr_JournalID t) ConditionCurrentFact)"
    using assms(5) t(2) p by (simp add: land_conditions_def candidatePublicationSetCurrentCondition_def)
  then have "current_fact (jn_Evidence J') candidate candidatePublicationSetEvidenceKind = Some t"
    by (rule current_pinned[OF assms(3) _ mem])
  moreover have "s \<in> set (about candidate candidateManifestEvidenceKind (jn_Evidence J'))"
    using s(1) grows_to_mem(1)[OF assms(2)] by (simp add: about_mem)
  moreover have "publishes_exactly (mf_Members mv) (pb_Publications pv)"
    using f(14) m p by (simp add: validatePublicationSetAgainstManifest_Ok)
  ultimately show ?thesis unfolding published_exactly_def using s t by (intro exI conjI) auto
qed

text \<open>C2: Landing is safe against everything that happens between its reads and its commit.  Take
  a Land command with an operation identity the journal has not seen, which read a journal
  \<open>J\<close> and produced its operation; let the journal have grown to \<open>J'\<close> meanwhile, and let the
  conditions of the operation hold there, as the journal's Apply demands.  Then at \<open>J'\<close> the
  candidate's latest state is the acceptance the command names, the accepting decision and the
  review binding of that same operation are in the journal, the binding names the review that
  is still the latest one and finalized clean, the latest publication set publishes the
  members of the immutable manifest exactly, and the actor is a registered human.\<close>

theorem land_justified:
  assumes "reads_from rd J" "grows_to J J'" "wf_journal J'" "fresh (ln_OperationID i) J" "lawful_ids (hl_ids lib)"
    "result_bind (landRequest lib rd i) (commitInput lib rd) = Ok inp" "list_all (condition_holds J') (oi_Conditions inp)"
  shows "\<exists>epoch candidate op. pi_ParseTaskID (hl_ids lib) (ln_Epoch i) = Some epoch \<and>
    pi_ParseTaskID (hl_ids lib) (ln_Candidate i) = Some candidate \<and>
    rd_Agent rd (ln_Actor i) = Some AgentKindHuman \<and> oi_ActorID inp = ln_Actor i \<and>
    accepted_state lib J' epoch candidate (ln_ImplementationUAT i) op \<and>
    accepting_decision lib J' epoch candidate (ln_ImplementationUAT i) op \<and>
    reviewed_clean lib J' epoch candidate op \<and> published_exactly lib J' epoch candidate"
proof -
  obtain candidate epoch r where p:
    "pi_ParseTaskID (hl_ids lib) (ln_Candidate i) = Some candidate" "pi_ParseTaskID (hl_ids lib) (ln_Epoch i) = Some epoch"
    "rd_Agent rd (ln_Actor i) = Some AgentKindHuman" "oi_ActorID inp = ln_Actor i"
    "landReading lib rd i epoch candidate = Ok r" "oi_Conditions inp = land_conditions candidate r"
    using land_prepared[OF assms(1,4,6)] by blast
  have c: "list_all (condition_holds J') (land_conditions candidate r)" using assms(7) p(6) by simp
  show ?thesis
    using p(1-4) land_state_pinned[OF assms(1-3) p(5) c] land_review_pinned[OF assms(1-3) p(5) c assms(5) p(2)]
      land_publication_pinned[OF assms(1-3) p(5) c]
    by blast
qed

section \<open>Ratifying\<close>

lemma fresh_conditions:
  assumes "reads_from rd J" "fresh (cq_OperationID q) J" "commitInput lib rd q = Ok inp"
  shows "oi_Conditions inp = cq_conditions q"
  using assms(3) restored_when_fresh[OF assms(1,2)] by (auto simp: commitInput_def Let_def split: if_splits)

text \<open>What a fresh ratification that got as far as its operation has read.\<close>

lemma ratify_prepared:
  assumes "reads_from rd J" "fresh (rt_OperationID i) J" "ratifyPlanRequest lib rd i = Ok q"
  obtains epoch state where "preflightCommon lib rd (rt_OperationID i) (rt_Epoch i) (rt_Actor i) = Ok epoch"
    "requireAcceptedReview lib rd (rt_Proposal i) epoch (rt_ReviewRound i) = Ok ()"
    "currentSubjectState lib rd epoch (rt_Proposal i) planSubjectEvidenceKind = Ok state"
    "sn_state state = subjectStatePlanAccepted" "sn_decision state = rt_PlanUAT i"
    "requireAcceptedDecision lib rd (rt_Proposal i) epoch (rt_PlanUAT i) DecisionPlanUATAccepted ''RatifyPlan'' = Ok ()"
    "cq_OperationID q = rt_OperationID i" "cq_conditions q = [conditionCurrent state]" "cq_refs q = ratify_refs i"
    "cq_mutation q = MutationRatifyPlan" "cq_subject q = rt_Proposal i" "cq_authority q = []"
    "cq_trailing q = [lifecycleEffect (rt_Proposal i) (hl_EventKindTaskClosed lib)]" "cq_actor q = rt_Actor i"
proof -
  obtain epoch where e: "preflightCommon lib rd (rt_OperationID i) (rt_Epoch i) (rt_Actor i) = Ok epoch"
    using assms(3) by (auto simp: ratifyPlanRequest_def Let_def)
  obtain com where com: "committedOperationDecision lib rd (rt_OperationID i) [DecisionPlanRatified] = Ok com"
    using assms(3) e by (auto simp: ratifyPlanRequest_def Let_def)
  have "com = None" by (rule no_committed_decision[OF assms(1,2) com])
  then show ?thesis
    using assms(3) e com that by (auto simp: ratifyPlanRequest_def Let_def planSubjectState_def request_def if_Err_eq_Ok)
qed

text \<open>The proposal's latest state and the decision behind it.\<close>

definition plan_accepted :: "human_lib \<Rightarrow> journal \<Rightarrow> TaskID \<Rightarrow> TaskID \<Rightarrow> string \<Rightarrow> bool" where
  "plan_accepted lib J epoch proposal uat \<longleftrightarrow>
     (\<exists>r e. current_fact (jn_Evidence J) proposal planSubjectEvidenceKind = Some r \<and>
       decodeSubjectStateEvidence (hl_ids lib) (hl_facts lib) (fr_Payload r) epoch proposal planSubjectEvidenceKind
         (fr_ProducingOperationID r) = Ok e \<and>
       ss_State e = subjectStatePlanAccepted \<and> ss_Decision e = uat) \<and>
     (\<exists>r rc. r \<in> set (jn_Decisions J) \<and> decodeDecisionFact lib r proposal DecisionPlanUATAccepted = Ok (r, rc) \<and>
       pe_ID rc = uat \<and> pe_Epoch rc = pi_String (hl_ids lib) epoch)"

text \<open>A condition on a state that was read: it is the latest still, or there is none still.\<close>

lemma state_pinned:
  assumes "reads_from rd J" "grows_to J J'" "wf_journal J'" "currentSubjectState lib rd epoch subject family = Ok s"
    "condition_holds J' (conditionCurrent s)"
  shows "(s = no_state subject family \<and> current_fact (jn_Evidence J') subject family = None) \<or>
    (\<exists>r. current_fact (jn_Evidence J') subject family = Some r \<and> state_taken lib epoch subject family r s)"
  using state_read[OF assms(1,4)]
proof (elim disjE exE conjE)
  assume s: "s = no_state subject family"
  have "0 = (case current_fact (jn_Evidence J') subject family of None \<Rightarrow> 0 | Some r \<Rightarrow> fr_JournalID r)"
    using assms(5) by (simp add: s conditionCurrent_def evidenceCondition_def condition_holds_def condition_rows_def no_state_def)
  moreover have "fr_JournalID r \<noteq> 0" if "current_fact (jn_Evidence J') subject family = Some r" for r
    using current_fact_mem[OF that] assms(3) ascending_positive by (force simp: about_mem wf_journal_def)
  ultimately have "current_fact (jn_Evidence J') subject family = None" by (auto split: option.splits)
  with s show ?thesis by simp
next
  fix r assume r: "r \<in> set (about subject family (jn_Evidence J))" "state_taken lib epoch subject family r s"
  have mem: "r \<in> set (jn_Evidence J')" using r(1) grows_to_mem(1)[OF assms(2)] by (simp add: about_mem)
  have "condition_holds J' (evidenceCondition subject family (fr_JournalID r) ConditionCurrentFact)"
    using assms(5) r(2) by (auto simp: conditionCurrent_def state_taken_def)
  then show ?thesis using current_pinned[OF assms(3) _ mem] r(2) by blast
qed

lemma review_accepted_read:
  assumes "requireAcceptedReview lib rd subject epoch round = Ok ()"
  shows "\<exists>rows p. Ok rows \<in> set (rd_QueryTaskEvents rd subject FamilyReviewRoundFinalized_EventKind) \<and> p \<in> set rows \<and>
    review_accepts lib epoch round p"
proof -
  have w: "walk_pages_until ''query bounded accepted review events''
      (\<lambda>payload found. Ok (if review_accepts lib epoch round payload then (True, True) else (found, False)))
      (rd_QueryTaskEvents rd subject FamilyReviewRoundFinalized_EventKind) False = Ok True"
    using assms by (auto simp: requireAcceptedReview_def)
  have "True = False \<or> (\<exists>rows p. Ok rows \<in> set (rd_QueryTaskEvents rd subject FamilyReviewRoundFinalized_EventKind) \<and> p \<in> set rows \<and>
      review_accepts lib epoch round p)"
    by (rule walk_pages_until_from[OF _ w]) (auto split: if_splits)
  then show ?thesis by simp
qed

lemma decision_accepted_read:
  assumes "reads_from rd J" "requireAcceptedDecision lib rd subject epoch i kind place = Ok ()"
  shows "\<exists>r rc. r \<in> set (jn_Decisions J) \<and> decodeDecisionFact lib r subject kind = Ok (r, rc) \<and> pe_ID rc = i \<and>
    pe_Epoch rc = pi_String (hl_ids lib) epoch"
proof -
  have w: "foldDecisionFacts lib rd subject kind (\<lambda>fact' found. Ok (
      if pe_Epoch (snd fact') = pi_String (hl_ids lib) epoch \<and> pe_ID (snd fact') = i then (True, True) else (found, False))) False = Ok True"
    using assms(2) by (auto simp: requireAcceptedDecision_def)
  have "True = False \<or> (\<exists>r rc. r \<in> set (jn_Decisions J) \<and> decodeDecisionFact lib r subject kind = Ok (r, rc) \<and>
      (pe_ID (snd (r, rc)) = i \<and> pe_Epoch (snd (r, rc)) = pi_String (hl_ids lib) epoch))"
    by (rule foldDecisionFacts_from[OF assms(1) w]) (auto split: if_splits)
  then show ?thesis by simp
qed

text \<open>C13: Ratification is safe against what happens between its reads and its commit.  A RatifyPlan
  command with an unseen operation identity, whose condition holds at the journal it is
  applied to, ratifies a proposal whose latest state there is the acceptance it names, whose
  accepting decision is in the journal for this epoch, and for which it read an accepted,
  finalized review of the named round; the actor is a registered human, and the operation
  closes the proposal.\<close>

theorem ratify_justified:
  assumes "reads_from rd J" "grows_to J J'" "wf_journal J'" "fresh (rt_OperationID i) J"
    "result_bind (ratifyPlanRequest lib rd i) (commitInput lib rd) = Ok inp" "list_all (condition_holds J') (oi_Conditions inp)"
  shows "\<exists>epoch. pi_ParseTaskID (hl_ids lib) (rt_Epoch i) = Some epoch \<and>
    rd_Agent rd (rt_Actor i) = Some AgentKindHuman \<and> oi_ActorID inp = rt_Actor i \<and>
    plan_accepted lib J' epoch (rt_Proposal i) (rt_PlanUAT i) \<and>
    (\<exists>rows p. Ok rows \<in> set (rd_QueryTaskEvents rd (rt_Proposal i) FamilyReviewRoundFinalized_EventKind) \<and> p \<in> set rows \<and>
       review_accepts lib epoch (rt_ReviewRound i) p) \<and>
    lifecycleEffect (rt_Proposal i) (hl_EventKindTaskClosed lib) \<in> set (oi_Effects inp)"
proof -
  obtain q where q: "ratifyPlanRequest lib rd i = Ok q" "commitInput lib rd q = Ok inp" using assms(5) by auto
  obtain epoch state where p: "preflightCommon lib rd (rt_OperationID i) (rt_Epoch i) (rt_Actor i) = Ok epoch"
    "requireAcceptedReview lib rd (rt_Proposal i) epoch (rt_ReviewRound i) = Ok ()"
    "currentSubjectState lib rd epoch (rt_Proposal i) planSubjectEvidenceKind = Ok state"
    "sn_state state = subjectStatePlanAccepted" "sn_decision state = rt_PlanUAT i"
    "requireAcceptedDecision lib rd (rt_Proposal i) epoch (rt_PlanUAT i) DecisionPlanUATAccepted ''RatifyPlan'' = Ok ()"
    "cq_OperationID q = rt_OperationID i" "cq_conditions q = [conditionCurrent state]"
    "cq_trailing q = [lifecycleEffect (rt_Proposal i) (hl_EventKindTaskClosed lib)]" "cq_actor q = rt_Actor i"
    using ratify_prepared[OF assms(1,4) q(1)] by metis
  have "condition_holds J' (conditionCurrent state)"
    using fresh_conditions[OF assms(1) _ q(2)] assms(4,6) p(7,8) by simp
  moreover have "state \<noteq> no_state (rt_Proposal i) planSubjectEvidenceKind"
    using p(4) by (auto simp: no_state_def subject_state_defs)
  ultimately obtain r where r: "current_fact (jn_Evidence J') (rt_Proposal i) planSubjectEvidenceKind = Some r"
    "state_taken lib epoch (rt_Proposal i) planSubjectEvidenceKind r state"
    using state_pinned[OF assms(1-3) p(3)] by blast
  have "plan_accepted lib J' epoch (rt_Proposal i) (rt_PlanUAT i)"
    using r p(4,5) decision_accepted_read[OF assms(1) p(6)] grows_to_mem(2)[OF assms(2)]
    by (fastforce simp: plan_accepted_def state_taken_def)
  moreover have "oi_ActorID inp = rt_Actor i" "lifecycleEffect (rt_Proposal i) (hl_EventKindTaskClosed lib) \<in> set (oi_Effects inp)"
    using q(2) p(9,10) by (auto simp: commitInput_def commit_effects_def Let_def split: if_splits)
  ultimately show ?thesis
    using p(1) review_accepted_read[OF p(2)]
    by (auto simp: preflightCommon_def parseTaskID_def split: if_splits option.splits)
qed

section \<open>The history of a proposal\<close>

text \<open>The facts an applied operation adds: its decision and evidence effects in their order,
  under the operation's identity, with identities of the journal's choice that keep it
  ascending.\<close>

definition evidence_of :: "Effect \<Rightarrow> (TaskID \<times> string \<times> string) option" where
  "evidence_of e = (case e of EffectEvidence _ t k _ p \<Rightarrow> Some (t, k, p) | _ \<Rightarrow> None)"

definition decision_of :: "Effect \<Rightarrow> (TaskID \<times> string \<times> string) option" where
  "decision_of e = (case e of EffectDecision _ t k p \<Rightarrow> Some (t, k, p) | _ \<Rightarrow> None)"

lemma evidence_of_simps [simp]:
  "evidence_of (EffectEvidence s t k d p) = Some (t, k, p)" "evidence_of (EffectDecision s t k p) = None"
  "evidence_of (EffectActivityCreate s a b ph st n) = None" "evidence_of (EffectTaskEvent s t k p cs) = None"
  by (simp_all add: evidence_of_def)

lemma decision_of_simps [simp]:
  "decision_of (EffectDecision s t k p) = Some (t, k, p)" "decision_of (EffectEvidence s t k d p) = None"
  "decision_of (EffectActivityCreate s a b ph st n) = None" "decision_of (EffectTaskEvent s t k p cs) = None"
  by (simp_all add: decision_of_def)

definition records :: "prepared_input \<Rightarrow> (TaskID \<times> string \<times> string) list \<Rightarrow> FactRow list \<Rightarrow> bool" where
  "records inp facts rows \<longleftrightarrow>
     map (\<lambda>r. (fr_TaskID r, fr_Kind r, fr_Payload r)) rows = map (\<lambda>(t, k, p). (Some t, k, p)) facts \<and>
     list_all (\<lambda>r. fr_ProducingOperationID r = oi_OperationID inp \<and> fr_EffectiveActorID r = oi_ActorID inp) rows"

definition applied :: "prepared_input \<Rightarrow> journal \<Rightarrow> journal \<Rightarrow> bool" where
  "applied inp J J' \<longleftrightarrow> wf_journal J' \<and> list_all (condition_holds J) (oi_Conditions inp) \<and> fresh (oi_OperationID inp) J \<and>
     (\<exists>ds es. jn_Decisions J' = jn_Decisions J @ ds \<and> jn_Evidence J' = jn_Evidence J @ es \<and>
       records inp (List.map_filter decision_of (oi_Effects inp)) ds \<and> records inp (List.map_filter evidence_of (oi_Effects inp)) es)"

text \<open>A step of the journal: one of the five human commands, having read some earlier journal, or
  an operation of another service, none of which writes evidence of the proposal family.\<close>

datatype command =
    cmdMode SetInteractionModeInput
  | cmdPlanUAT PlanUATInput
  | cmdRatify RatifyPlanInput
  | cmdImplementationUAT ImplementationUATInput
  | cmdLand LandInput

fun command_request :: "human_lib \<Rightarrow> journal_reads \<Rightarrow> command \<Rightarrow> human_error + commit_request" where
  "command_request lib rd (cmdMode i) = setInteractionModeRequest lib rd i"
| "command_request lib rd (cmdPlanUAT i) = recordPlanUATRequest lib rd i"
| "command_request lib rd (cmdRatify i) = ratifyPlanRequest lib rd i"
| "command_request lib rd (cmdImplementationUAT i) = recordImplementationUATRequest lib rd i"
| "command_request lib rd (cmdLand i) = landRequest lib rd i"

inductive human_step :: "human_lib \<Rightarrow> journal \<Rightarrow> journal \<Rightarrow> bool" for lib where
  command: "reads_from rd J0 \<Longrightarrow> grows_to J0 J \<Longrightarrow> command_request lib rd c = Ok q \<Longrightarrow> commitInput lib rd q = Ok inp \<Longrightarrow>
    applied inp J J' \<Longrightarrow> human_step lib J J'"
| other: "applied inp J J' \<Longrightarrow> list_all (\<lambda>e. \<forall>t p. evidence_of e \<noteq> Some (t, planSubjectEvidenceKind, p)) (oi_Effects inp) \<Longrightarrow>
    human_step lib J J'"

inductive_cases human_stepE: "human_step lib J J'"

definition empty_journal :: journal where
  "empty_journal = \<lparr>jn_Decisions = [], jn_Evidence = []\<rparr>"

definition reachable_journal :: "human_lib \<Rightarrow> journal \<Rightarrow> bool" where
  "reachable_journal lib J \<longleftrightarrow> (human_step lib)\<^sup>*\<^sup>* empty_journal J"

text \<open>The states the journal records for a proposal, oldest first, and the order they obey.\<close>

definition state_of :: "human_lib \<Rightarrow> FactRow \<Rightarrow> subjectState" where
  "state_of lib r = (case js_Unmarshal (ac_subject (hl_facts lib)) (fr_Payload r) of None \<Rightarrow> [] | Some w \<Rightarrow> ss_State w)"

definition plan_states :: "human_lib \<Rightarrow> journal \<Rightarrow> TaskID \<Rightarrow> subjectState list" where
  "plan_states lib J proposal = map (state_of lib) (about proposal planSubjectEvidenceKind (jn_Evidence J))"

definition plan_lawful :: "subjectState list \<Rightarrow> bool" where
  "plan_lawful ss \<longleftrightarrow> list_all (\<lambda>n. ss ! n = subjectStatePlanRatified \<longrightarrow>
     Suc n = length ss \<and> 0 < n \<and> ss ! (n - 1) = subjectStatePlanAccepted) [0..<length ss]"

lemma plan_lawful_snoc:
  "plan_lawful (ss @ [s]) \<longleftrightarrow> subjectStatePlanRatified \<notin> set ss \<and>
     (s = subjectStatePlanRatified \<longrightarrow> ss \<noteq> [] \<and> last ss = subjectStatePlanAccepted)"
proof -
  have "plan_lawful (ss @ [s]) \<longleftrightarrow> (\<forall>n < length ss. ss ! n \<noteq> subjectStatePlanRatified) \<and>
      (s = subjectStatePlanRatified \<longrightarrow> 0 < length ss \<and> ss ! (length ss - 1) = subjectStatePlanAccepted)"
    by (auto simp: plan_lawful_def list_all_iff nth_append less_Suc_eq)
  then show ?thesis by (auto simp: in_set_conv_nth last_conv_nth)
qed

lemma plan_lawful_last:
  assumes "plan_lawful ss" "ss = [] \<or> last ss \<noteq> subjectStatePlanRatified"
  shows "subjectStatePlanRatified \<notin> set ss"
  using assms by (cases ss rule: rev_cases) (auto simp: plan_lawful_snoc)

text \<open>The evidence of an operation: one fact per reference, those of the caller, the conditions.\<close>

lemma ref_effects_evidence:
  assumes "ref_effects lib q n refs = Ok es"
  shows "\<exists>ps. list_all2 (\<lambda>ref p. ref_payload lib q ref = Ok p) refs ps \<and>
    List.map_filter evidence_of es = map (\<lambda>(ref, p). (evidence_subject ref (cq_subject q), er_Kind ref, p)) (zip refs ps)"
  using assms
proof (induction refs arbitrary: n es)
  case (Cons ref refs)
  then obtain p rest where p: "ref_payload lib q ref = Ok p" "ref_effects lib q (Suc n) refs = Ok rest"
    "es = EffectEvidence (evidence_slot n) (evidence_subject ref (cq_subject q)) (er_Kind ref) (hl_sha256 lib p) p # rest"
    by auto
  obtain ps where "list_all2 (\<lambda>ref p. ref_payload lib q ref = Ok p) refs ps"
    "List.map_filter evidence_of rest = map (\<lambda>(ref, p). (evidence_subject ref (cq_subject q), er_Kind ref, p)) (zip refs ps)"
    using Cons.IH[OF p(2)] by blast
  then show ?case using p by (intro exI[of _ "p # ps"]) (simp add: List.map_filter_simps)
qed (simp add: List.map_filter_simps)

lemma authority_effects_same: "authority_effects subject n i es = Ok es' \<Longrightarrow> es' = es"
  by (induction es arbitrary: i es') (auto split: Effect.splits if_splits)

lemma map_filter_append: "List.map_filter f (xs @ ys) = List.map_filter f xs @ List.map_filter f ys"
  by (simp add: List.map_filter_def)

lemma commit_evidence:
  assumes "commitInput lib rd q = Ok inp"
  obtains sf ps cp where "subjectStateForMutation lib (cq_mutation q) (encoding (cq_draft q)) = Ok sf"
    "list_all2 (\<lambda>ref p. ref_payload lib q ref = Ok p) (with_state_ref sf (cq_subject q) (cq_refs q)) ps"
    "List.map_filter evidence_of (oi_Effects inp) =
       map (\<lambda>(ref, p). (evidence_subject ref (cq_subject q), er_Kind ref, p)) (zip (with_state_ref sf (cq_subject q) (cq_refs q)) ps) @
       List.map_filter evidence_of (cq_authority q) @ [(cq_subject q, preconditionEvidenceKind, cp)] @
       List.map_filter evidence_of (cq_trailing q)"
    "oi_OperationID inp = cq_OperationID q"
proof -
  obtain sf cp effects where c: "subjectStateForMutation lib (cq_mutation q) (encoding (cq_draft q)) = Ok sf"
    "commit_effects lib q (with_state_ref sf (cq_subject q) (cq_refs q)) cp = Ok effects"
    "oi_Effects inp = effects" "oi_OperationID inp = cq_OperationID q"
    using assms by (auto simp: commitInput_def Let_def split: if_splits)
  obtain ev au where e: "ref_effects lib q 0 (with_state_ref sf (cq_subject q) (cq_refs q)) = Ok ev"
    "authority_effects (cq_subject q) (length (with_state_ref sf (cq_subject q) (cq_refs q))) 0 (cq_authority q) = Ok au"
    "List.map_filter evidence_of effects = List.map_filter evidence_of ev @ List.map_filter evidence_of au @
      [(cq_subject q, preconditionEvidenceKind, cp)] @ List.map_filter evidence_of (cq_trailing q)"
    using c(2)
    by (auto simp: commit_effects_def Let_def mapDecisionRecorded_def map_filter_append List.map_filter_simps if_Err_eq_Ok)
  obtain ps where ps: "list_all2 (\<lambda>ref p. ref_payload lib q ref = Ok p) (with_state_ref sf (cq_subject q) (cq_refs q)) ps"
    "List.map_filter evidence_of ev = map (\<lambda>(ref, p). (evidence_subject ref (cq_subject q), er_Kind ref, p))
       (zip (with_state_ref sf (cq_subject q) (cq_refs q)) ps)"
    using ref_effects_evidence[OF e(1)] by blast
  have "List.map_filter evidence_of effects = List.map_filter evidence_of ev @ List.map_filter evidence_of (cq_authority q) @
      [(cq_subject q, preconditionEvidenceKind, cp)] @ List.map_filter evidence_of (cq_trailing q)"
    using e(3) authority_effects_same[OF e(2)] by simp
  then show ?thesis using that[OF c(1) ps(1) _ c(4)] c(3) ps(2) by simp
qed

text \<open>What every command adds on its own is never evidence of the proposal family.\<close>

definition off_plan :: "Effect \<Rightarrow> bool" where
  "off_plan e \<longleftrightarrow> (case evidence_of e of None \<Rightarrow> True | Some (t, k, p) \<Rightarrow> k \<noteq> planSubjectEvidenceKind)"

definition plan_free :: "commit_request \<Rightarrow> bool" where
  "plan_free q \<longleftrightarrow> list_all off_plan (cq_authority q @ cq_trailing q) \<and>
     list_all (\<lambda>r. er_Kind r \<noteq> planSubjectEvidenceKind \<and> er_State r = []) (cq_refs q)"

lemmas evidence_kind_defs = planSubjectEvidenceKind_def candidateEvidenceKind_def implementationReviewAuthorityEvidenceKind_def
  candidateManifestEvidenceKind_def candidatePublicationSetEvidenceKind_def implementationUATReviewBindingEvidenceKind_def
  landAuthorityBindingEvidenceKind_def preconditionEvidenceKind_def

lemma off_plan_effects:
  "of_authority (newImplementationUATReviewBindingEvidenceEffect ids sha codecs t b slot) = Ok e \<Longrightarrow> off_plan e"
  "of_authority (newLandAuthorityBindingEvidenceEffect ids sha codecs t l slot) = Ok e \<Longrightarrow> off_plan e"
  "off_plan (lifecycleEffect t k)"
  by (auto simp: of_authority_def newImplementationUATReviewBindingEvidenceEffect_def newLandAuthorityBindingEvidenceEffect_def
      newTypedEvidenceEffect_def off_plan_def lifecycleEffect_def evidence_kind_defs split: sum.splits if_splits option.splits)

lemma plain_ref_kinds:
  "er_Kind (plain_ref k v) = k" "er_State (plain_ref k v) = []" "er_stateSubject (plain_ref k v) = zero_TaskID"
  by (simp_all add: plain_ref_def)

fun command_mutation :: "command \<Rightarrow> int" where
  "command_mutation (cmdMode i) = MutationSetInteractionMode"
| "command_mutation (cmdPlanUAT i) = MutationRecordPlanUAT"
| "command_mutation (cmdRatify i) = MutationRatifyPlan"
| "command_mutation (cmdImplementationUAT i) = MutationRecordImplementationUAT"
| "command_mutation (cmdLand i) = MutationLand"

fun command_operation :: "command \<Rightarrow> string" where
  "command_operation (cmdMode i) = sm_OperationID i"
| "command_operation (cmdPlanUAT i) = pt_OperationID i"
| "command_operation (cmdRatify i) = rt_OperationID i"
| "command_operation (cmdImplementationUAT i) = it_OperationID i"
| "command_operation (cmdLand i) = ln_OperationID i"

lemma request_shape:
  assumes "command_request lib rd c = Ok q"
  shows "plan_free q \<and> cq_mutation q = command_mutation c \<and> cq_OperationID q = command_operation c"
proof (cases c)
  case (cmdMode i)
  then obtain epoch com where e: "preflightCommon lib rd (sm_OperationID i) (sm_Epoch i) (sm_Actor i) = Ok epoch"
    "committedOperationDecision lib rd (sm_OperationID i) [DecisionInteractionModeChanged] = Ok com" "InteractionMode_valid (sm_Mode i)"
    using assms by (auto simp: setInteractionModeRequest_def Let_def if_Err_eq_Ok)
  then show ?thesis using assms cmdMode
    by (cases com) (auto simp: setInteractionModeRequest_def request_def plan_free_def plain_ref_kinds evidence_kind_defs Let_def
        split: if_split_asm option.split_asm)
next
  case (cmdPlanUAT i)
  then obtain epoch com where e: "preflightCommon lib rd (pt_OperationID i) (pt_Epoch i) (pt_Actor i) = Ok epoch" "pt_Proposal i \<noteq> zero_TaskID"
    "committedOperationDecision lib rd (pt_OperationID i) planUATDecisionKinds = Ok com"
    using assms by (auto simp: recordPlanUATRequest_def Let_def if_Err_eq_Ok)
  then show ?thesis using assms cmdPlanUAT
    by (cases com) (auto simp: recordPlanUATRequest_def request_def plan_free_def Let_def if_Err_eq_Ok)
next
  case (cmdRatify i)
  then obtain epoch draft com where e: "preflightCommon lib rd (rt_OperationID i) (rt_Epoch i) (rt_Actor i) = Ok epoch"
    "of_policy ''draft plan ratified'' (DraftPlanRatified (hl_policy lib)
        \<lparr>pr_Proposal = pi_String (hl_ids lib) (rt_Proposal i), pr_ReviewRound = rt_ReviewRound i, pr_PlanUAT = rt_PlanUAT i\<rparr>) = Ok draft"
    "committedOperationDecision lib rd (rt_OperationID i) [DecisionPlanRatified] = Ok com"
    using assms by (auto simp: ratifyPlanRequest_def Let_def)
  then show ?thesis using assms cmdRatify off_plan_effects(3)
    by (cases com) (auto simp: ratifyPlanRequest_def request_def plan_free_def ratify_refs_def plain_ref_kinds evidence_kind_defs Let_def
        if_Err_eq_Ok split: if_split_asm)
next
  case (cmdImplementationUAT i)
  then obtain candidate epoch draft com where
    e: "parseTaskID lib ''RecordImplementationUAT'' (it_Candidate i) ''candidate'' = Ok candidate"
    "preflightCommon lib rd (it_OperationID i) (it_Epoch i) (it_Actor i) = Ok epoch" "rd_Show rd candidate"
    "of_policy ''draft Implementation UAT'' (DraftImplementationUAT (hl_policy lib) (it_Outcome i)
       (case it_Payload i of None \<Rightarrow> \<lparr>im_Interactions = [], im_Feedback = [], im_HeldAnswers = [], im_PlanFeedback = [], im_LedgerDecisions = []\<rparr>
        | Some p \<Rightarrow> p)) = Ok draft"
    "committedOperationDecision lib rd (it_OperationID i) [DecisionImplementationUAT] = Ok com"
    using assms by (auto simp: recordImplementationUATRequest_def Let_def if_Err_eq_Ok)
  then show ?thesis using assms cmdImplementationUAT off_plan_effects(1)
    by (cases com) (auto simp: recordImplementationUATRequest_def request_def plan_free_def Let_def if_Err_eq_Ok split: if_split_asm)
next
  case (cmdLand i)
  then obtain candidate epoch draft com where e: "parseTaskID lib ''Land'' (ln_Candidate i) ''candidate'' = Ok candidate"
    "preflightCommon lib rd (ln_OperationID i) (ln_Epoch i) (ln_Actor i) = Ok epoch"
    "of_policy ''draft landed'' (DraftLanded (hl_policy lib)
        \<lparr>el_Candidate = ln_Candidate i, el_ImplementationUAT = ln_ImplementationUAT i\<rparr>) = Ok draft"
    "committedOperationDecision lib rd (ln_OperationID i) [DecisionLanded] = Ok com"
    using assms by (auto simp: landRequest_def Let_def)
  then show ?thesis using assms cmdLand off_plan_effects(2,3)
    by (cases com) (auto simp: landRequest_def request_def plan_free_def land_refs_def plain_ref_kinds evidence_kind_defs Let_def
        split: if_split_asm)
qed

text \<open>What an operation records of the proposal family is the state its mutation stands for, if that
  state belongs to the family.\<close>

definition subject_codec :: "human_lib \<Rightarrow> bool" where
  "subject_codec lib \<longleftrightarrow> (\<forall>w p. js_Marshal (ac_subject (hl_facts lib)) w = Some p \<longrightarrow> js_Unmarshal (ac_subject (hl_facts lib)) p = Some w)"

definition of_plan :: "(TaskID \<times> string \<times> string) list \<Rightarrow> (TaskID \<times> string \<times> string) list" where
  "of_plan facts = filter (\<lambda>(t, k, p). k = planSubjectEvidenceKind) facts"

lemma of_plan_off: "list_all off_plan es \<Longrightarrow> of_plan (List.map_filter evidence_of es) = []"
  by (induction es) (auto simp: of_plan_def off_plan_def List.map_filter_simps split: option.splits)

lemma of_plan_refs:
  "list_all (\<lambda>r. er_Kind r \<noteq> planSubjectEvidenceKind \<and> er_State r = []) refs \<Longrightarrow>
    of_plan (map (\<lambda>(ref, p). (f ref, er_Kind ref, p)) (zip refs ps)) = []"
proof (induction refs arbitrary: ps)
  case (Cons r refs)
  then show ?case by (cases ps) (auto simp: of_plan_def)
qed (simp add: of_plan_def)

lemma commit_plan_evidence:
  assumes "commitInput lib rd q = Ok inp" "plan_free q"
    "subjectStateForMutation lib (cq_mutation q) (encoding (cq_draft q)) = Ok (st, family)"
  shows "if st \<noteq> [] \<and> family = planSubjectEvidenceKind
    then \<exists>p. of_plan (List.map_filter evidence_of (oi_Effects inp)) =
        [(evidence_subject (state_ref family st (first_state_subject (cq_refs q) (cq_subject q))) (cq_subject q), planSubjectEvidenceKind, p)] \<and>
      ref_payload lib q (state_ref family st (first_state_subject (cq_refs q) (cq_subject q))) = Ok p
    else of_plan (List.map_filter evidence_of (oi_Effects inp)) = []"
proof -
  let ?refs = "with_state_ref (st, family) (cq_subject q) (cq_refs q)"
  obtain sf ps cp where sf: "subjectStateForMutation lib (cq_mutation q) (encoding (cq_draft q)) = Ok sf"
    "list_all2 (\<lambda>ref p. ref_payload lib q ref = Ok p) (with_state_ref sf (cq_subject q) (cq_refs q)) ps"
    "List.map_filter evidence_of (oi_Effects inp) = map (\<lambda>(ref, p). (evidence_subject ref (cq_subject q), er_Kind ref, p))
       (zip (with_state_ref sf (cq_subject q) (cq_refs q)) ps) @
       List.map_filter evidence_of (cq_authority q) @ [(cq_subject q, preconditionEvidenceKind, cp)] @
       List.map_filter evidence_of (cq_trailing q)"
    by (rule commit_evidence[OF assms(1)])
  then have c: "list_all2 (\<lambda>ref p. ref_payload lib q ref = Ok p) ?refs ps"
    "List.map_filter evidence_of (oi_Effects inp) = map (\<lambda>(ref, p). (evidence_subject ref (cq_subject q), er_Kind ref, p)) (zip ?refs ps) @
       List.map_filter evidence_of (cq_authority q) @ [(cq_subject q, preconditionEvidenceKind, cp)] @
       List.map_filter evidence_of (cq_trailing q)"
    using assms(3) by simp_all
  have free: "of_plan (List.map_filter evidence_of (cq_authority q)) = []" "of_plan (List.map_filter evidence_of (cq_trailing q)) = []"
    "list_all (\<lambda>r. er_Kind r \<noteq> planSubjectEvidenceKind \<and> er_State r = []) (cq_refs q)"
    using assms(2) of_plan_off by (auto simp: plan_free_def)
  have "of_plan (List.map_filter evidence_of (oi_Effects inp)) =
      of_plan (map (\<lambda>(ref, p). (evidence_subject ref (cq_subject q), er_Kind ref, p)) (zip ?refs ps))"
    using free(1,2) by (simp add: c(2) of_plan_def evidence_kind_defs)
  moreover have "of_plan (map (\<lambda>(ref, p). (evidence_subject ref (cq_subject q), er_Kind ref, p)) (zip (cq_refs q) ps')) = []" for ps'
    by (rule of_plan_refs[OF free(3)])
  moreover have "of_plan ((t, k, p) # fs) = (if k = planSubjectEvidenceKind then [(t, k, p)] else []) @ of_plan fs" for t k p fs
    by (simp add: of_plan_def)
  moreover have "?refs = (if st \<noteq> [] then [state_ref family st (first_state_subject (cq_refs q) (cq_subject q))] else []) @ cq_refs q"
    by (simp add: with_state_ref_def)
  moreover have "er_Kind (state_ref family st t) = family" for t by (simp add: state_ref_def)
  ultimately show ?thesis using c(1) by (cases "st = []"; cases ps) auto
qed

text \<open>How an applied operation extends the states of a proposal.\<close>

definition payload_state :: "human_lib \<Rightarrow> string \<Rightarrow> subjectState" where
  "payload_state lib p = (case js_Unmarshal (ac_subject (hl_facts lib)) p of None \<Rightarrow> [] | Some w \<Rightarrow> ss_State w)"

lemma applied_plan_states:
  assumes "applied inp J J'"
  shows "plan_states lib J' proposal = plan_states lib J proposal @
    map (\<lambda>(t, k, p). payload_state lib p) (filter (\<lambda>(t, k, p). t = proposal) (of_plan (List.map_filter evidence_of (oi_Effects inp))))"
proof -
  obtain es where es: "jn_Evidence J' = jn_Evidence J @ es"
    "map (\<lambda>r. (fr_TaskID r, fr_Kind r, fr_Payload r)) es = map (\<lambda>(t, k, p). (Some t, k, p)) (List.map_filter evidence_of (oi_Effects inp))"
    using assms by (auto simp: applied_def records_def)
  have "map (state_of lib) (about proposal planSubjectEvidenceKind es) =
      map (\<lambda>(t, k, p). payload_state lib p) (filter (\<lambda>(t, k, p). t = Some proposal \<and> k = planSubjectEvidenceKind)
        (map (\<lambda>r. (fr_TaskID r, fr_Kind r, fr_Payload r)) es))"
    by (simp add: about_def filter_map comp_def state_of_def payload_state_def)
  also have "\<dots> = map (\<lambda>(t, k, p). payload_state lib p) (filter (\<lambda>(t, k, p). t = proposal)
      (of_plan (List.map_filter evidence_of (oi_Effects inp))))"
    unfolding es(2) by (simp add: of_plan_def filter_map comp_def case_prod_unfold conj_commute)
  finally show ?thesis using es(1) by (simp add: plan_states_def about_def)
qed

lemma last_plan_state:
  "current_fact (jn_Evidence J) proposal planSubjectEvidenceKind = None \<longleftrightarrow> plan_states lib J proposal = []"
  "current_fact (jn_Evidence J) proposal planSubjectEvidenceKind = Some r \<Longrightarrow>
     plan_states lib J proposal \<noteq> [] \<and> last (plan_states lib J proposal) = state_of lib r"
  by (auto simp: current_fact_def plan_states_def last_map split: list.splits)

lemma taken_state: "state_taken lib epoch subject family r s \<Longrightarrow> sn_state s = state_of lib r"
  by (auto simp: state_taken_def state_of_def decodeSubjectStateEvidence_def subject_of_wire_def subject_wire.defs Let_def split: option.splits)

lemma pinned_plan_state:
  assumes "reads_from rd J" "grows_to J J'" "wf_journal J'" "currentSubjectState lib rd epoch proposal planSubjectEvidenceKind = Ok s"
    "condition_holds J' (conditionCurrent s)"
  shows "(plan_states lib J' proposal = [] \<and> sn_state s = []) \<or>
    (plan_states lib J' proposal \<noteq> [] \<and> last (plan_states lib J' proposal) = sn_state s)"
  using state_pinned[OF assms]
proof (elim disjE exE conjE)
  assume "s = no_state proposal planSubjectEvidenceKind" "current_fact (jn_Evidence J') proposal planSubjectEvidenceKind = None"
  then show ?thesis using last_plan_state(1)[of J' proposal lib] by (simp add: no_state_def)
next
  fix r assume "current_fact (jn_Evidence J') proposal planSubjectEvidenceKind = Some r"
    "state_taken lib epoch proposal planSubjectEvidenceKind r s"
  then show ?thesis using last_plan_state(2) taken_state by metis
qed

lemma recorded_state:
  assumes "subject_codec lib" "ref_payload lib q (state_ref family st t) = Ok p" "st \<noteq> []"
  shows "payload_state lib p = st"
  using assms
  by (auto simp: ref_payload_def state_ref_def of_authority_def of_marshal_def newHumanSubjectStateEvidence_def payload_state_def
      subject_codec_def subject_wire.defs Let_def split: sum.splits option.splits)

text \<open>What a fresh Plan UAT that got as far as its operation has read.\<close>

lemma plan_uat_prepared:
  assumes "reads_from rd J" "fresh (pt_OperationID i) J" "recordPlanUATRequest lib rd i = Ok q"
  obtains epoch state where "currentSubjectState lib rd epoch (pt_Proposal i) planSubjectEvidenceKind = Ok state" "\<not> terminal state"
    "conditionCurrent state \<in> set (cq_conditions q)" "cq_mutation q = MutationRecordPlanUAT" "cq_refs q = []" "cq_subject q = pt_Proposal i"
proof -
  obtain epoch com where e: "preflightCommon lib rd (pt_OperationID i) (pt_Epoch i) (pt_Actor i) = Ok epoch" "pt_Proposal i \<noteq> zero_TaskID"
    "committedOperationDecision lib rd (pt_OperationID i) planUATDecisionKinds = Ok com"
    using assms(3) by (auto simp: recordPlanUATRequest_def Let_def if_Err_eq_Ok)
  have none: "com = None" by (rule no_committed_decision[OF assms(1,2) e(3)])
  obtain state draft conditions where s: "currentSubjectState lib rd epoch (pt_Proposal i) planSubjectEvidenceKind = Ok state" "\<not> terminal state"
    "planUATDraft lib rd i (case pt_Payload i of None \<Rightarrow> \<lparr>pp_Interactions = [], pp_Feedback = [], pp_HeldQuestions = []\<rparr> | Some p \<Rightarrow> p)
       epoch state = Ok (draft, conditions)"
    "q = (request (pt_OperationID i) (pt_Epoch i) epoch (pt_Proposal i) (pt_Actor i) MutationRecordPlanUAT draft)\<lparr>cq_conditions := conditions\<rparr>"
    using assms(3) e none by (auto simp: recordPlanUATRequest_def Let_def if_Err_eq_Ok planSubjectState_def)
  then have "conditionCurrent state \<in> set conditions" by (auto simp: planUATDraft_def split: if_splits)
  then show ?thesis using that[OF s(1,2)] s(4) by (simp add: request_def)
qed

text \<open>One command applied: it adds at most one state to its own proposal, and only lawfully.\<close>

lemma mutation_state_plan:
  assumes "subjectStateForMutation lib m enc = Ok (st, family)" "family = planSubjectEvidenceKind" "st \<noteq> []"
  shows "(m = MutationRecordPlanUAT \<and> st \<noteq> subjectStatePlanRatified) \<or> (m = MutationRatifyPlan \<and> st = subjectStatePlanRatified)"
  using assms by (auto simp: subjectStateForMutation_def subject_state_defs evidence_kind_defs split: if_splits option.splits)

definition may_follow :: "subjectState list \<Rightarrow> subjectState \<Rightarrow> bool" where
  "may_follow ss s \<longleftrightarrow> subjectStatePlanRatified \<notin> set ss \<and>
     (s = subjectStatePlanRatified \<longrightarrow> ss \<noteq> [] \<and> last ss = subjectStatePlanAccepted)"

definition state_task :: "commit_request \<Rightarrow> subjectState \<Rightarrow> string \<Rightarrow> TaskID" where
  "state_task q st family = evidence_subject (state_ref family st (first_state_subject (cq_refs q) (cq_subject q))) (cq_subject q)"

lemma plan_uat_follows:
  assumes "reads_from rd J0" "grows_to J0 J" "wf_journal J" "fresh (pt_OperationID i) J0" "recordPlanUATRequest lib rd i = Ok q"
    "list_all (condition_holds J) (cq_conditions q)" "st \<noteq> subjectStatePlanRatified" "plan_lawful (plan_states lib J (state_task q st family))"
  shows "may_follow (plan_states lib J (state_task q st family)) st"
proof -
  obtain epoch state where s: "currentSubjectState lib rd epoch (pt_Proposal i) planSubjectEvidenceKind = Ok state" "\<not> terminal state"
    "conditionCurrent state \<in> set (cq_conditions q)" "cq_refs q = []" "cq_subject q = pt_Proposal i"
    using plan_uat_prepared[OF assms(1,4,5)] by metis
  have t: "state_task q st family = pt_Proposal i"
    using s(4,5) by (simp add: state_task_def evidence_subject_def state_ref_def first_state_subject_def)
  have "condition_holds J (conditionCurrent state)" using assms(6) s(3) by (simp add: list_all_iff)
  then have "plan_states lib J (pt_Proposal i) = [] \<or> last (plan_states lib J (pt_Proposal i)) \<noteq> subjectStatePlanRatified"
    using pinned_plan_state[OF assms(1-3) s(1)] s(2) by (auto simp: terminal_def)
  then show ?thesis using plan_lawful_last assms(7,8) t by (simp add: may_follow_def)
qed

lemma ratify_follows:
  assumes "reads_from rd J0" "grows_to J0 J" "wf_journal J" "fresh (rt_OperationID i) J0" "ratifyPlanRequest lib rd i = Ok q"
    "list_all (condition_holds J) (cq_conditions q)" "plan_lawful (plan_states lib J (state_task q st family))"
  shows "may_follow (plan_states lib J (state_task q st family)) st"
proof -
  obtain epoch state where s: "currentSubjectState lib rd epoch (rt_Proposal i) planSubjectEvidenceKind = Ok state"
    "sn_state state = subjectStatePlanAccepted" "cq_conditions q = [conditionCurrent state]" "cq_refs q = ratify_refs i" "cq_subject q = rt_Proposal i"
    using ratify_prepared[OF assms(1,4,5)] by metis
  have t: "state_task q st family = rt_Proposal i"
    using s(4,5) by (simp add: state_task_def evidence_subject_def state_ref_def first_state_subject_def ratify_refs_def plain_ref_kinds)
  have "condition_holds J (conditionCurrent state)" using assms(6) s(3) by simp
  then have "plan_states lib J (rt_Proposal i) \<noteq> [] \<and> last (plan_states lib J (rt_Proposal i)) = subjectStatePlanAccepted"
    using pinned_plan_state[OF assms(1-3) s(1)] s(2) by (auto simp: subject_state_defs)
  then show ?thesis using plan_lawful_last assms(7) t by (auto simp: may_follow_def subject_state_defs)
qed

lemma command_keeps_lawful:
  assumes "reads_from rd J0" "grows_to J0 J" "wf_journal J" "command_request lib rd c = Ok q" "commitInput lib rd q = Ok inp"
    "applied inp J J'" "subject_codec lib" "\<And>t. plan_lawful (plan_states lib J t)"
  shows "plan_lawful (plan_states lib J' proposal)"
proof -
  obtain st family where sf: "subjectStateForMutation lib (cq_mutation q) (encoding (cq_draft q)) = Ok (st, family)"
    using assms(5) by (auto simp: commitInput_def Let_def)
  note shape = request_shape[OF assms(4)] and states = applied_plan_states[OF assms(6), of lib proposal]
  note ev = commit_plan_evidence[OF assms(5) shape[THEN conjunct1] sf]
  show ?thesis
  proof (cases "st \<noteq> [] \<and> family = planSubjectEvidenceKind")
    case False
    then show ?thesis using ev states assms(8) by (auto split: if_splits)
  next
    case True
    obtain p where p: "of_plan (List.map_filter evidence_of (oi_Effects inp)) = [(state_task q st family, planSubjectEvidenceKind, p)]"
      "payload_state lib p = st"
      using ev True recorded_state[OF assms(7)] by (auto simp: state_task_def)
    have fr: "fresh (cq_OperationID q) J0" "list_all (condition_holds J) (oi_Conditions inp)"
      using assms(2,5,6) fresh_earlier by (auto simp: applied_def commitInput_def Let_def split: if_splits)
    have conds: "oi_Conditions inp = cq_conditions q" by (rule fresh_conditions[OF assms(1) fr(1) assms(5)])
    have "may_follow (plan_states lib J (state_task q st family)) st"
      using mutation_state_plan[OF sf] True shape assms(4,8) fr conds plan_uat_follows[OF assms(1-3)] ratify_follows[OF assms(1-3)]
      by (cases c) auto
    then show ?thesis using states p assms(8) by (auto simp: plan_lawful_snoc may_follow_def)
  qed
qed

lemma human_step_lawful:
  assumes "human_step lib J J'" "subject_codec lib" "wf_journal J" "\<And>t. plan_lawful (plan_states lib J t)"
  shows "wf_journal J' \<and> plan_lawful (plan_states lib J' proposal)"
  using assms(1)
proof (cases rule: human_step.cases)
  case (command rd J0 c q inp)
  then show ?thesis using command_keeps_lawful assms(2-4) by (auto simp: applied_def)
next
  case (other inp)
  have "list_all off_plan (oi_Effects inp)" using other(2) by (auto simp: list_all_iff off_plan_def split: option.splits)
  then show ?thesis using other(1) applied_plan_states[OF other(1), of lib proposal] of_plan_off assms(4) by (simp add: applied_def)
qed

text \<open>C5: The history of a proposal.  Start from an empty journal and let it grow by any
  interleaving of human commands, each of which may have read any earlier state of the
  journal, and of operations of other services.  Then, in the states recorded for a proposal,
  a ratification is the last one, and the state right before it is an acceptance: a plan is
  never ratified twice, never reopened after it, and never ratified on changes requested or a
  deferral, whatever the commands raced with.\<close>

theorem plan_history_lawful:
  assumes "subject_codec lib" "reachable_journal lib J"
  shows "\<forall>n < length (plan_states lib J proposal). plan_states lib J proposal ! n = subjectStatePlanRatified \<longrightarrow>
    Suc n = length (plan_states lib J proposal) \<and> 0 < n \<and> plan_states lib J proposal ! (n - 1) = subjectStatePlanAccepted"
proof -
  have "(human_step lib)\<^sup>*\<^sup>* empty_journal J" using assms(2) by (simp add: reachable_journal_def)
  then have "wf_journal J \<and> (\<forall>t. plan_lawful (plan_states lib J t))"
  proof (induction rule: rtranclp_induct)
    case base
    then show ?case
      by (simp add: empty_journal_def wf_journal_def ascending_def plan_states_def about_def plan_lawful_def)
  next
    case (step J' J'')
    then show ?case using human_step_lawful assms(1) by blast
  qed
  then show ?thesis by (simp add: plan_lawful_def list_all_iff)
qed

section \<open>An instance\<close>

text \<open>A library whose codecs know the values of one epoch \<open>e\<close>, with a proposal \<open>p\<close> and a candidate
  \<open>c\<close>, and reads that return all a journal holds in one page.\<close>

definition table :: "('v \<times> string) list \<Rightarrow> 'v json_codec" where
  "table vs = \<lparr>js_Marshal = map_of vs, js_Unmarshal = map_of (map (\<lambda>(v, p). (p, v)) vs)\<rparr>"

definition task :: "string \<Rightarrow> TaskID" where
  "task s = \<lparr>tk_Namespace = s, tk_UUID = ''u''\<rparr>"

definition wire :: "string \<Rightarrow> string \<Rightarrow> string \<Rightarrow> string \<Rightarrow> subject_wire" where
  "wire subject state kind op = \<lparr>ss_Epoch = ''e'', ss_Subject = subject, ss_State = state, ss_Decision = ''decision:'' @ op,
     ss_DecisionKind = kind, ss_Operation = op\<rparr>"

definition enc_of :: "string \<Rightarrow> DecisionEncoding" where
  "enc_of kind = \<lparr>de_Kind = kind, de_Codec = policyCanonicalJSONCodec, de_Schema = ''x'', de_Payload = ''{}''\<rparr>"

definition envelope :: "string \<Rightarrow> string \<Rightarrow> string \<Rightarrow> persistedDecision" where
  "envelope subject kind op = \<lparr>pe_ID = ''decision:'' @ op, pe_Epoch = ''e'', pe_Subject = subject, pe_Actor = ''h'', pe_Decision = enc_of kind\<rparr>"

definition gate_policy :: PolicySet where
  "gate_policy = (case snd (NewProductionPolicySet sample_lib 0) of Ok ps \<Rightarrow> ps)"

definition gate_review :: implementationReviewAuthority where
  "gate_review = \<lparr>ra_Epoch = ''e'', ra_Candidate = ''c'', ra_Round = ''r'', ra_State = reviewFinalizedClean, ra_Axes = sample_axes,
     ra_Operation = ''v''\<rparr>"

definition gate_codecs :: authority_codecs where
  "gate_codecs = \<lparr>ac_review = one_value gate_review,
     ac_manifest = one_value \<lparr>mf_Epoch = ''e'', mf_Candidate = ''c'', mf_Members = rev sample_members, mf_Operation = ''m''\<rparr>,
     ac_publications = one_value \<lparr>pb_Epoch = ''e'', pb_Candidate = ''c'', pb_Publications = sample_publications, pb_Operation = ''p''\<rparr>,
     ac_uatBinding = one_value \<lparr>ub_Epoch = ''e'', ub_Candidate = ''c'', ub_ReviewRound = ''r'', ub_ReviewFact = 20, ub_Operation = ''i''\<rparr>,
     ac_landBinding = one_value (sample_land\<lparr>lb_Members := rev sample_members\<rparr>),
     ac_subject = table [(wire ''p'' subjectStatePlanAccepted DecisionPlanUATAccepted ''a'', ''A''),
       (wire ''p'' subjectStatePlanRatified DecisionPlanRatified ''t'', ''T''),
       (wire ''c'' subjectStateImplementationAccepted DecisionImplementationUAT ''i'', ''I''),
       (wire ''c'' subjectStateImplementationLanded DecisionLanded ''l'', ''L'')]\<rparr>"

definition gate_lib :: human_lib where
  "gate_lib = \<lparr>hl_ids = sample_ids, hl_ParseActorID = (\<lambda>s. Some (task s)), hl_ActorString = tk_Namespace, hl_sha256 = (\<lambda>_. ''x''),
     hl_uuidSHA1 = (\<lambda>s. s), hl_payloads = sample_lib, hl_policy = gate_policy, hl_facts = gate_codecs,
     hl_envelope = table [(envelope ''p'' DecisionPlanUATAccepted ''a'', ''A''), (envelope ''p'' DecisionPlanRatified ''t'', ''T''),
       (envelope ''c'' DecisionImplementationUAT ''i'', ''I''), (envelope ''e'' DecisionLanded ''l'', ''L'')],
     hl_conditions = \<lparr>js_Marshal = (\<lambda>_. Some ''[]''), js_Unmarshal = (\<lambda>_. None)\<rparr>, hl_reference = (\<lambda>_ _ _ _. Some ''f''),
     hl_command = (\<lambda>_ _ _ _ _. Some ''k''), hl_recorded = (\<lambda>_ _ _ _ _. Some ''n''),
     hl_reviewFinalized = (\<lambda>_. Some (''e'', ''r'', ''accept'')), hl_EventKindTaskClosed = ''task.closed'',
     hl_ValidateEventKind = (\<lambda>_. True), hl_ActorContext = (\<lambda>_. True), hl_ActivityContext = (\<lambda>_. True), hl_authority = 1,
     hl_barrier = (\<lambda>_. True)\<rparr>"

definition all_reads :: "journal \<Rightarrow> journal_reads" where
  "all_reads J = \<lparr>rd_Show = (\<lambda>_. True), rd_Agent = (\<lambda>_. Some AgentKindHuman),
     rd_QueryDecisions = (\<lambda>q. [Ok (filter (query_matches q) (jn_Decisions J))]),
     rd_QueryEvidence = (\<lambda>q. [Ok (filter (query_matches q) (jn_Evidence J))]), rd_QueryTaskEvents = (\<lambda>_ _. [Ok [''v'']])\<rparr>"

definition row :: "JournalID \<Rightarrow> string \<Rightarrow> string \<Rightarrow> string \<Rightarrow> string \<Rightarrow> FactRow" where
  "row j t kind op payload = \<lparr>fr_JournalID = j, fr_TaskID = Some (task t), fr_Kind = kind, fr_ProducingOperationID = op,
     fr_EffectiveActorID = task ''h'', fr_Payload = payload\<rparr>"

definition plan_journal :: journal where
  "plan_journal = \<lparr>jn_Decisions = [row 1 ''p'' (journalDecisionKind DecisionPlanUATAccepted) ''a'' ''A''],
     jn_Evidence = [row 2 ''p'' planSubjectEvidenceKind ''a'' ''A'', row 3 ''p'' preconditionEvidenceKind ''a'' ''[]'']\<rparr>"

definition land_journal :: journal where
  "land_journal = \<lparr>jn_Decisions = [row 21 ''c'' (journalDecisionKind DecisionImplementationUAT) ''i'' ''I''],
     jn_Evidence = [row 10 ''c'' candidateManifestEvidenceKind ''m'' ''{}'', row 15 ''c'' candidatePublicationSetEvidenceKind ''p'' ''{}'',
       row 20 ''c'' implementationReviewAuthorityEvidenceKind ''v'' ''{}'', row 22 ''c'' candidateEvidenceKind ''i'' ''I'',
       row 23 ''c'' implementationUATReviewBindingEvidenceKind ''i'' ''{}'']\<rparr>"

lemma all_reads_from: "reads_from (all_reads J) J"
  by (auto simp: reads_from_def all_reads_def)

lemma grows_to_refl [simp]: "grows_to J J"
  by (simp add: grows_to_def)

lemma gate_policy: "NewProductionPolicySet sample_lib 0 = (7, Ok gate_policy)"
proof -
  obtain ps where "NewProductionPolicySet sample_lib 0 = (0 + 7, Ok ps)" using production_total[OF sample_digests] by blast
  then show ?thesis by (simp add: gate_policy_def)
qed

lemma gate_lib_simps [simp]:
  "hl_ids gate_lib = sample_ids" "hl_policy gate_lib = gate_policy" "hl_payloads gate_lib = sample_lib" "hl_facts gate_lib = gate_codecs"
  "hl_ActorString gate_lib = tk_Namespace" "hl_sha256 gate_lib s = ''x''" "hl_barrier gate_lib m"
  "hl_reference gate_lib a b d f = Some ''f''" "hl_command gate_lib a b d f2 g = Some ''k''" "hl_authority gate_lib = 1"
  "hl_ParseActorID gate_lib s = Some (task s)" "hl_EventKindTaskClosed gate_lib = ''task.closed''"
  "js_Marshal (hl_conditions gate_lib) cs = Some ''[]''"
  by (simp_all add: gate_lib_def)

lemma sample_ids_simps [simp]:
  "pi_ParseTaskID sample_ids s = (if list_all (\<lambda>c. of_char c < (128 :: nat)) s then Some (task s) else None)"
  "pi_String sample_ids (task s) = s" "pi_TaskContext sample_ids t"
  "tk_Namespace (task s) = s" "task s = task s' \<longleftrightarrow> s = s'" "task s \<noteq> zero_TaskID" "zero_TaskID \<noteq> task s"
  by (simp_all add: sample_ids_def task_def zero_TaskID_def numeral_eq_Suc)

lemma all_reads_simps [simp]:
  "rd_Show (all_reads J) t" "rd_Agent (all_reads J) a = Some AgentKindHuman"
  "rd_QueryDecisions (all_reads J) q = [Ok (filter (query_matches q) (jn_Decisions J))]"
  "rd_QueryEvidence (all_reads J) q = [Ok (filter (query_matches q) (jn_Evidence J))]"
  "rd_QueryTaskEvents (all_reads J) t k = [Ok [''v'']]"
  by (simp_all add: all_reads_def)

lemma row_simps [simp]:
  "fr_JournalID (row j t k op p) = j" "fr_TaskID (row j t k op p) = Some (task t)" "fr_Kind (row j t k op p) = k"
  "fr_ProducingOperationID (row j t k op p) = op" "fr_EffectiveActorID (row j t k op p) = task ''h''" "fr_Payload (row j t k op p) = p"
  by (simp_all add: row_def)


lemma utf8_Ok: "ValidString s \<Longrightarrow> validateAuthorityUTF8 s l = Ok ()"
  by (simp add: validateAuthorityUTF8_def fail_if_def)

lemma gate_operation: "op \<in> set [''a'', ''t'', ''i'', ''l'', ''m'', ''p'', ''v''] \<Longrightarrow> validateOperationID sample_ids op = Ok ()"
  by (auto simp: validateOperationID_def sample_ids_def ValidString_def string_runes_def rune_width_def rune_value_def padded_def IsSpace_def
      IsControl_def validateText_def validateAuthorityUTF8_def fail_if_def)

lemmas gate_values = wire_def subject_of_wire_def subject_wire.defs decisionIDForOperation_def subject_state_defs kind_defs evidence_kind_defs

lemma gate_texts:
  "list_all ValidString [subjectStatePlanAccepted, subjectStatePlanRatified, subjectStateImplementationAccepted, subjectStateImplementationLanded,
     DecisionPlanUATAccepted, DecisionPlanRatified, DecisionImplementationUAT, DecisionLanded]"
  "list_all ValidString [''e'', ''p'', ''c'', ''decision:a'', ''decision:t'', ''decision:i'', ''decision:l'']"
  by (simp_all add: subject_state_defs kind_defs ascii_valid)

lemma gate_kinds:
  "subjectStateDecisionKind subjectStatePlanAccepted = Some DecisionPlanUATAccepted"
  "subjectStateDecisionKind subjectStatePlanRatified = Some DecisionPlanRatified"
  "subjectStateDecisionKind subjectStateImplementationAccepted = Some DecisionImplementationUAT"
  "subjectStateDecisionKind subjectStateImplementationLanded = Some DecisionLanded"
  by (simp_all add: subjectStateDecisionKind_def subject_state_defs)

lemma gate_families:
  "subjectStateBelongsToFamily subjectStatePlanAccepted planSubjectEvidenceKind"
  "subjectStateBelongsToFamily subjectStatePlanRatified planSubjectEvidenceKind"
  "subjectStateBelongsToFamily subjectStateImplementationAccepted candidateEvidenceKind"
  "subjectStateBelongsToFamily subjectStateImplementationLanded candidateEvidenceKind"
proof -
  have "s \<noteq> subjectStateReworked \<and> s \<noteq> subjectStateCandidateCurrent"
    if "s \<in> {subjectStatePlanAccepted, subjectStatePlanRatified, subjectStateImplementationAccepted, subjectStateImplementationLanded}" for s
    using that by (elim insertE emptyE) (simp_all add: subject_state_defs)
  moreover have "candidateEvidenceKind \<noteq> planSubjectEvidenceKind" by (simp add: evidence_kind_defs)
  ultimately show "subjectStateBelongsToFamily subjectStatePlanAccepted planSubjectEvidenceKind"
    "subjectStateBelongsToFamily subjectStatePlanRatified planSubjectEvidenceKind"
    "subjectStateBelongsToFamily subjectStateImplementationAccepted candidateEvidenceKind"
    "subjectStateBelongsToFamily subjectStateImplementationLanded candidateEvidenceKind"
    by (simp_all add: subjectStateBelongsToFamily_def gate_kinds)
qed

lemma gate_state:
  assumes "(subject, state, kind, op) \<in> set [(''p'', subjectStatePlanAccepted, DecisionPlanUATAccepted, ''a''),
    (''p'', subjectStatePlanRatified, DecisionPlanRatified, ''t''), (''c'', subjectStateImplementationAccepted, DecisionImplementationUAT, ''i''),
    (''c'', subjectStateImplementationLanded, DecisionLanded, ''l'')]"
    "family = (if subject = ''p'' then planSubjectEvidenceKind else candidateEvidenceKind) \<or> family = []"
  shows "validateSubjectStateEvidence sample_ids (subject_of_wire (wire subject state kind op)) (task ''e'') (task subject) family op = Ok ()"
proof -
  have "ValidString s" if "s \<in> set [''e'', subject, state, ''decision:'' @ op, kind]" for s
    using that assms(1) gate_texts by auto
  moreover have "subjectStateDecisionKind state = Some kind" "subjectStateBelongsToFamily state family \<or> family = []"
    using assms gate_kinds gate_families by auto
  moreover have "validateOperationID sample_ids op = Ok ()" by (rule gate_operation) (use assms(1) in auto)
  ultimately show ?thesis
    by (auto simp: validateSubjectStateEvidence_def utf8_Ok wire_def subject_of_wire_def subject_wire.defs decisionIDForOperation_def fail_if_def Let_def)
qed

text \<open>The decisions of the instance: their drafts, and their stored rows.\<close>

lemma gate_policy_set: "\<exists>c. gate_policy = production_set sample_lib 0 c"
  using gate_policy by (auto simp: production_Ok_iff)

lemma enc_of_simps [simp]: "de_Kind (enc_of k) = k" "de_Payload (enc_of k) = ''{}''" "de_Codec (enc_of k) = policyCanonicalJSONCodec"
  "de_Schema (enc_of k) = ''x''"
  by (simp_all add: enc_of_def)

lemma gate_descriptors:
  "po_landed gate_policy = json_descriptor (\<lambda>_. ''x'') (pl_landed sample_lib) 6 DecisionLanded (shape_of DecisionLanded) validateEpochLanded"
  "po_planRatified gate_policy =
     json_descriptor (\<lambda>_. ''x'') (pl_planRatified sample_lib) 5 DecisionPlanRatified (shape_of DecisionPlanRatified) validatePlanRatified"
  "po_planAccepted gate_policy =
     json_descriptor (\<lambda>_. ''x'') (pl_planAccepted sample_lib) 1 DecisionPlanUATAccepted (shape_of DecisionPlanUATAccepted) validatePlanAccepted"
proof -
  obtain c where c: "gate_policy = production_set sample_lib 0 c" using gate_policy_set by blast
  have "pl_sha256 sample_lib = (\<lambda>_. ''x'')" by (simp add: sample_lib_def)
  then show
    "po_landed gate_policy = json_descriptor (\<lambda>_. ''x'') (pl_landed sample_lib) 6 DecisionLanded (shape_of DecisionLanded) validateEpochLanded"
    "po_planRatified gate_policy =
       json_descriptor (\<lambda>_. ''x'') (pl_planRatified sample_lib) 5 DecisionPlanRatified (shape_of DecisionPlanRatified) validatePlanRatified"
    "po_planAccepted gate_policy =
       json_descriptor (\<lambda>_. ''x'') (pl_planAccepted sample_lib) 1 DecisionPlanUATAccepted (shape_of DecisionPlanUATAccepted) validatePlanAccepted"
    by (simp_all add: c production_set_def)
qed

lemma draft_of_descriptor:
  "val v = Ok () \<Longrightarrow> js_Marshal codec v = Some ''{}'' \<Longrightarrow>
    \<exists>dr. Draft (json_descriptor (\<lambda>_. ''x'') codec n kind shape val) v = Ok dr \<and> encoding dr = enc_of kind"
  by (auto simp: Draft_Ok_iff encoding_def enc_of_def policySchemaDigest_def)

lemma gate_draft:
  "\<exists>dr. DraftLanded gate_policy \<lparr>el_Candidate = ''c'', el_ImplementationUAT = ''decision:i''\<rparr> = Ok dr \<and> encoding dr = enc_of DecisionLanded"
  "\<exists>dr. DraftPlanRatified gate_policy \<lparr>pr_Proposal = ''p'', pr_ReviewRound = ''r'', pr_PlanUAT = ''decision:a''\<rparr> = Ok dr \<and>
     encoding dr = enc_of DecisionPlanRatified"
  unfolding DraftLanded_def DraftPlanRatified_def gate_descriptors
  by (rule draft_of_descriptor; simp add: validateEpochLanded_def validatePlanRatified_def sample_lib_def one_value_def)+

lemma gate_stored:
  "ValidateStored (po_Catalog gate_policy) (enc_of DecisionImplementationUAT) = Ok ()"
  "ValidateStored (po_Catalog gate_policy) (enc_of DecisionPlanUATAccepted) = Ok ()"
proof -
  show "ValidateStored (po_Catalog gate_policy) (enc_of DecisionImplementationUAT) = Ok ()"
    using sample_stored(1)[OF gate_policy] by (simp add: enc_of_def)
  have "DecodeDecision (po_Catalog gate_policy) (po_planAccepted gate_policy) (enc_of DecisionPlanUATAccepted) =
      Ok \<lparr>pa_Snapshot = sample_snapshot, pa_Interactions = [], pa_Feedback = []\<rparr>"
    using sample_snapshot_complete unfolding accepted_reg.decode_Ok_iff[OF gate_policy]
    by (simp add: gate_descriptors policySchemaDigest_def sample_lib_def one_value_def session_complete_def hasFixNowFeedback_def)
  then show "ValidateStored (po_Catalog gate_policy) (enc_of DecisionPlanUATAccepted) = Ok ()"
    using accepted_reg.stored_iff[OF gate_policy] gate_descriptors(3) by (metis enc_of_simps(1) json_descriptor_simps(1))
qed

lemma envelope_simps [simp]:
  "pe_ID (envelope s k op) = ''decision:'' @ op" "pe_Epoch (envelope s k op) = ''e''" "pe_Subject (envelope s k op) = s"
  "pe_Actor (envelope s k op) = ''h''" "pe_Decision (envelope s k op) = enc_of k"
  by (simp_all add: envelope_def)

lemma gate_decision:
  "decodeDecisionFact gate_lib (row j ''c'' (journalDecisionKind DecisionImplementationUAT) ''i'' ''I'') (task ''c'') DecisionImplementationUAT =
     Ok (row j ''c'' (journalDecisionKind DecisionImplementationUAT) ''i'' ''I'', envelope ''c'' DecisionImplementationUAT ''i'')"
  "decodeDecisionFact gate_lib (row j ''p'' (journalDecisionKind DecisionPlanUATAccepted) ''a'' ''A'') (task ''p'') DecisionPlanUATAccepted =
     Ok (row j ''p'' (journalDecisionKind DecisionPlanUATAccepted) ''a'' ''A'', envelope ''p'' DecisionPlanUATAccepted ''a'')"
proof -
  have "js_Unmarshal (hl_envelope gate_lib) ''I'' = Some (envelope ''c'' DecisionImplementationUAT ''i'')"
    "js_Unmarshal (hl_envelope gate_lib) ''A'' = Some (envelope ''p'' DecisionPlanUATAccepted ''a'')"
    by (simp_all add: gate_lib_def table_def)
  then show "decodeDecisionFact gate_lib (row j ''c'' (journalDecisionKind DecisionImplementationUAT) ''i'' ''I'') (task ''c'') DecisionImplementationUAT =
     Ok (row j ''c'' (journalDecisionKind DecisionImplementationUAT) ''i'' ''I'', envelope ''c'' DecisionImplementationUAT ''i'')"
    "decodeDecisionFact gate_lib (row j ''p'' (journalDecisionKind DecisionPlanUATAccepted) ''a'' ''A'') (task ''p'') DecisionPlanUATAccepted =
     Ok (row j ''p'' (journalDecisionKind DecisionPlanUATAccepted) ''a'' ''A'', envelope ''p'' DecisionPlanUATAccepted ''a'')"
    by (simp_all add: decodeDecisionFact_def decisionIDForOperation_def gate_stored of_policy_def)
qed

lemma gate_codec:
  "js_Unmarshal (ac_subject gate_codecs) ''A'' = Some (wire ''p'' subjectStatePlanAccepted DecisionPlanUATAccepted ''a'')"
  "js_Unmarshal (ac_subject gate_codecs) ''I'' = Some (wire ''c'' subjectStateImplementationAccepted DecisionImplementationUAT ''i'')"
  "js_Marshal (ac_subject gate_codecs) (wire ''p'' subjectStatePlanAccepted DecisionPlanUATAccepted ''a'') = Some ''A''"
  "js_Marshal (ac_subject gate_codecs) (wire ''p'' subjectStatePlanRatified DecisionPlanRatified ''t'') = Some ''T''"
  "js_Marshal (ac_subject gate_codecs) (wire ''c'' subjectStateImplementationLanded DecisionLanded ''l'') = Some ''L''"
  "js_Marshal (hl_envelope gate_lib) (envelope ''p'' DecisionPlanUATAccepted ''a'') = Some ''A''"
  "js_Marshal (hl_envelope gate_lib) (envelope ''p'' DecisionPlanRatified ''t'') = Some ''T''"
  "js_Marshal (hl_envelope gate_lib) (envelope ''e'' DecisionLanded ''l'') = Some ''L''"
  by (simp_all add: gate_codecs_def gate_lib_def table_def wire_def envelope_def)

lemma evidence_kinds_distinct:
  "distinct [planSubjectEvidenceKind, candidateEvidenceKind, implementationReviewAuthorityEvidenceKind, candidateManifestEvidenceKind,
     candidatePublicationSetEvidenceKind, implementationUATReviewBindingEvidenceKind, landAuthorityBindingEvidenceKind, preconditionEvidenceKind]"
  by (simp add: evidence_kind_defs)

lemmas evidence_kinds_neq = evidence_kinds_distinct[simplified]
  evidence_kinds_distinct[unfolded distinct_rev[symmetric, of "_ # _"], simplified rev.simps append.simps distinct.simps, simplified]

lemma gate_preflight: "op \<noteq> [] \<Longrightarrow> preflightCommon gate_lib (all_reads J) op ''e'' (task ''h'') = Ok (task ''e'')"
  by (simp add: preflightCommon_def parseTaskID_def)

definition gate_land :: LandInput where
  "gate_land = \<lparr>ln_OperationID = ''l'', ln_Epoch = ''e'', ln_Candidate = ''c'', ln_ImplementationUAT = ''decision:i'', ln_Actor = task ''h''\<rparr>"

lemma gate_decodes:
  "decodeImplementationReviewAuthority sample_ids gate_codecs ''{}'' = Ok gate_review"
  "decodeCandidateManifest sample_ids gate_codecs ''{}'' = Ok \<lparr>mf_Epoch = ''e'', mf_Candidate = ''c'', mf_Members = rev sample_members, mf_Operation = ''m''\<rparr>"
  "decodeCandidatePublicationSet sample_ids gate_codecs ''{}'' =
     Ok \<lparr>pb_Epoch = ''e'', pb_Candidate = ''c'', pb_Publications = sample_publications, pb_Operation = ''p''\<rparr>"
  "decodeImplementationUATReviewBinding sample_ids gate_codecs ''{}'' =
     Ok \<lparr>ub_Epoch = ''e'', ub_Candidate = ''c'', ub_ReviewRound = ''r'', ub_ReviewFact = 20, ub_Operation = ''i''\<rparr>"
proof -
  have w: "newLandAuthorityBinding sample_ids (sample_land\<lparr>lb_Members := rev sample_members\<rparr>) = Ok (sample_land\<lparr>lb_Members := rev sample_members\<rparr>)"
    by (rule land_fact.norm_idem[OF lawful_sample_ids sample_land_Ok])
  have members: "normalizeCandidateMembers sample_ids (rev sample_members) = Ok (rev sample_members)"
    and publications: "normalizePublications sample_ids sample_publications = Ok sample_publications"
    and axes: "validateReviewAxes sample_axes reviewFinalizedClean = Ok ()" and round: "validateText ''r'' ''review round'' = Ok ()"
    using w by (auto simp: newLandAuthorityBinding_Ok land_references_ok_def sample_land_def)
  have texts: "ValidString ''{}''" "ValidString ''e''" "ValidString ''c''" by (simp_all add: ascii_valid)
  then have scalars: "canonicalAuthorityTaskID sample_ids ''e'' l = Ok ''e''" "canonicalAuthorityTaskID sample_ids ''c'' l = Ok ''c''" for l
    by (simp_all add: canonicalAuthorityTaskID_Ok)
  have ops: "validateOperationID sample_ids ''v'' = Ok ()" "validateOperationID sample_ids ''m'' = Ok ()" "validateOperationID sample_ids ''p'' = Ok ()"
    "validateOperationID sample_ids ''i'' = Ok ()"
    by (simp_all add: gate_operation)
  note codec = gate_codecs_def one_value_def
  have "validateTaskWrapper sample_ids ''e'' l = Ok ()" "validateTaskWrapper sample_ids ''c'' l = Ok ()" for l
    by (simp_all add: validateTaskWrapper_def scalars fail_if_def)
  then have review: "newImplementationReviewAuthority sample_ids gate_review = Ok gate_review"
    using scalars axes round ops
    by (auto simp: newImplementationReviewAuthority_Ok validateImplementationReviewAuthority_Ok gate_review_def reviewAuthorityState_valid_def)
  show "decodeImplementationReviewAuthority sample_ids gate_codecs ''{}'' = Ok gate_review"
    by (rule review_fact.stored_fact_decodes[OF lawful_sample_ids review]) (simp_all add: codec texts)
  let ?m = "\<lparr>mf_Epoch = ''e'', mf_Candidate = ''c'', mf_Members = rev sample_members, mf_Operation = ''m''\<rparr>"
  show "decodeCandidateManifest sample_ids gate_codecs ''{}'' = Ok ?m"
    by (rule manifest_fact.stored_fact_decodes[OF lawful_sample_ids, of ?m])
      (simp_all add: codec texts newIntegrationCandidateManifest_Ok scalars members ops)
  let ?p = "\<lparr>pb_Epoch = ''e'', pb_Candidate = ''c'', pb_Publications = sample_publications, pb_Operation = ''p''\<rparr>"
  show "decodeCandidatePublicationSet sample_ids gate_codecs ''{}'' = Ok ?p"
    by (rule publication_fact.stored_fact_decodes[OF lawful_sample_ids, of ?p])
      (simp_all add: codec texts newCandidatePublicationSet_Ok scalars publications ops)
  let ?b = "\<lparr>ub_Epoch = ''e'', ub_Candidate = ''c'', ub_ReviewRound = ''r'', ub_ReviewFact = 20, ub_Operation = ''i''\<rparr>"
  show "decodeImplementationUATReviewBinding sample_ids gate_codecs ''{}'' = Ok ?b"
    by (rule uat_binding_fact.stored_fact_decodes[OF lawful_sample_ids, of ?b])
      (simp_all add: codec texts newImplementationUATReviewBinding_Ok scalars round ops)
qed

lemma gate_states:
  "decodeSubjectStateEvidence sample_ids gate_codecs ''I'' (task ''e'') (task ''c'') candidateEvidenceKind ''i'' =
     Ok (subject_of_wire (wire ''c'' subjectStateImplementationAccepted DecisionImplementationUAT ''i''))"
  "decodeSubjectStateEvidence sample_ids gate_codecs ''A'' (task ''e'') (task ''p'') planSubjectEvidenceKind ''a'' =
     Ok (subject_of_wire (wire ''p'' subjectStatePlanAccepted DecisionPlanUATAccepted ''a''))"
  using gate_state[of "''c''" subjectStateImplementationAccepted DecisionImplementationUAT "''i''" candidateEvidenceKind]
    gate_state[of "''p''" subjectStatePlanAccepted DecisionPlanUATAccepted "''a''" planSubjectEvidenceKind]
  by (simp_all add: decodeSubjectStateEvidence_def decodeAuthorityJSON_def validateAuthorityJSONUTF8_def fail_if_def ascii_valid gate_codec)

definition gate_reading :: land_reading where
  "gate_reading = \<lparr>lr_state = \<lparr>sn_subject = task ''c'', sn_state = subjectStateImplementationAccepted, sn_decision = ''decision:i'',
       sn_decisionKind = DecisionImplementationUAT, sn_operation = ''i'', sn_source = subjectStateSourceHumanDecision, sn_journalID = 22,
       sn_family = candidateEvidenceKind\<rparr>,
     lr_uat = (row 21 ''c'' (journalDecisionKind DecisionImplementationUAT) ''i'' ''I'', envelope ''c'' DecisionImplementationUAT ''i''),
     lr_binding = (\<lparr>ub_Epoch = ''e'', ub_Candidate = ''c'', ub_ReviewRound = ''r'', ub_ReviewFact = 20, ub_Operation = ''i''\<rparr>, 23),
     lr_review = (gate_review, 20),
     lr_manifest = (\<lparr>mf_Epoch = ''e'', mf_Candidate = ''c'', mf_Members = rev sample_members, mf_Operation = ''m''\<rparr>, 10),
     lr_publications = (\<lparr>pb_Epoch = ''e'', pb_Candidate = ''c'', pb_Publications = sample_publications, pb_Operation = ''p''\<rparr>, 15)\<rparr>"

lemma gate_land_reads:
  defines "rd \<equiv> all_reads land_journal"
  shows "candidateSubjectState gate_lib rd (task ''e'') (task ''c'') = Ok (lr_state gate_reading)"
    "acceptedImplementationUATFact gate_lib rd (task ''c'') (task ''e'') ''c'' ''decision:i'' = Ok (lr_uat gate_reading)"
    "implementationUATReviewBindingForOperation gate_lib rd (lr_uat gate_reading) = Ok (lr_binding gate_reading)"
    "currentImplementationReviewAuthority gate_lib rd (task ''e'') (task ''c'') = Ok (lr_review gate_reading)"
    "exactCandidateManifest gate_lib rd (task ''e'') (task ''c'') = Ok (lr_manifest gate_reading)"
    "currentCandidatePublicationSet gate_lib rd (task ''e'') (task ''c'') = Ok (lr_publications gate_reading)"
proof -
  note [simp] = land_journal_def query_matches_def evidence_kinds_neq gate_reading_def assms
  show "candidateSubjectState gate_lib rd (task ''e'') (task ''c'') = Ok (lr_state gate_reading)"
    by (simp add: candidateSubjectState_def currentSubjectState_def state_step_def gate_states)
      (simp add: wire_def subject_of_wire_def subject_wire.defs)
  show "acceptedImplementationUATFact gate_lib rd (task ''c'') (task ''e'') ''c'' ''decision:i'' = Ok (lr_uat gate_reading)"
    by (simp add: acceptedImplementationUATFact_def foldDecisionFacts_def gate_decision sample_lib_def one_value_def sample_acceptance_def
        del: result_bind_Ok_iff)
  show "implementationUATReviewBindingForOperation gate_lib rd (lr_uat gate_reading) = Ok (lr_binding gate_reading)"
    by (simp add: implementationUATReviewBindingForOperation_def decisionIDForOperation_def uat_binding_step_def gate_decodes)
  show "currentImplementationReviewAuthority gate_lib rd (task ''e'') (task ''c'') = Ok (lr_review gate_reading)"
    by (simp add: currentImplementationReviewAuthority_def review_step_def gate_decodes) (simp add: gate_review_def)
  show "exactCandidateManifest gate_lib rd (task ''e'') (task ''c'') = Ok (lr_manifest gate_reading)"
    by (simp add: exactCandidateManifest_def manifest_step_def gate_decodes)
  show "currentCandidatePublicationSet gate_lib rd (task ''e'') (task ''c'') = Ok (lr_publications gate_reading)"
    by (simp add: currentCandidatePublicationSet_def publication_step_def gate_decodes)
qed

lemma gate_land_simps [simp]:
  "ln_OperationID gate_land = ''l''" "ln_Epoch gate_land = ''e''" "ln_Candidate gate_land = ''c''"
  "ln_ImplementationUAT gate_land = ''decision:i''" "ln_Actor gate_land = task ''h''"
  by (simp_all add: gate_land_def)

lemma gate_landReading: "landReading gate_lib (all_reads land_journal) gate_land (task ''e'') (task ''c'') = Ok gate_reading"
proof -
  have "validatePublicationSetAgainstManifest (fst (lr_manifest gate_reading)) (fst (lr_publications gate_reading)) = Ok ()"
    by (simp add: validatePublicationSetAgainstManifest_Ok gate_reading_def publishes_exactly_def sample_members_def sample_publications_def)
  moreover have "sn_state (lr_state gate_reading) = subjectStateImplementationAccepted" "sn_decision (lr_state gate_reading) = ''decision:i''"
    "sn_source (lr_state gate_reading) = subjectStateSourceHumanDecision" "sn_operation (lr_state gate_reading) = ''i''"
    "fr_ProducingOperationID (fst (lr_uat gate_reading)) = ''i''" "ra_State (fst (lr_review gate_reading)) = reviewFinalizedClean"
    "ub_ReviewFact (fst (lr_binding gate_reading)) = snd (lr_review gate_reading)"
    "ub_ReviewRound (fst (lr_binding gate_reading)) = ra_Round (fst (lr_review gate_reading))"
    by (simp_all add: gate_reading_def gate_review_def)
  ultimately show ?thesis
    by (simp add: landReading_def Let_def gate_land_reads del: result_bind_Ok_iff)
qed

lemma gate_binding:
  "newLandAuthorityBinding sample_ids (land_binding_of gate_lib gate_land (task ''e'') (task ''c'') gate_reading) =
     Ok (sample_land\<lparr>lb_Members := rev sample_members\<rparr>)"
proof -
  have "land_binding_of gate_lib gate_land (task ''e'') (task ''c'') gate_reading = sample_land\<lparr>lb_Members := rev sample_members\<rparr>"
    by (simp add: land_binding_of_def gate_reading_def gate_review_def sample_land_def)
  then show ?thesis using land_fact.norm_idem[OF lawful_sample_ids sample_land_Ok] by simp
qed

lemma gate_uncommitted:
  "committedOperationDecision gate_lib (all_reads land_journal) ''l'' [DecisionLanded] = Ok None"
  "committedOperationDecision gate_lib (all_reads plan_journal) ''t'' [DecisionPlanRatified] = Ok None"
  by (simp_all add: committedOperationDecision_def land_journal_def plan_journal_def query_matches_def)

lemma gate_land_request:
  "\<exists>q. landRequest gate_lib (all_reads land_journal) gate_land = Ok q \<and> cq_conditions q = land_conditions (task ''c'') gate_reading \<and>
     cq_OperationID q = ''l'' \<and> cq_epoch q = task ''e'' \<and> cq_subject q = task ''e'' \<and> cq_actor q = task ''h'' \<and>
     cq_mutation q = MutationLand \<and> encoding (cq_draft q) = enc_of DecisionLanded \<and> cq_refs q = land_refs gate_land (task ''c'') \<and>
     (\<exists>d p. cq_authority q = [EffectEvidence (evidence_slot 2) (task ''e'') landAuthorityBindingEvidenceKind d p])"
proof -
  obtain dr where dr: "DraftLanded gate_policy \<lparr>el_Candidate = ''c'', el_ImplementationUAT = ''decision:i''\<rparr> = Ok dr" "encoding dr = enc_of DecisionLanded"
    using gate_draft(1) by blast
  let ?b = "sample_land\<lparr>lb_Members := rev sample_members\<rparr>"
  have "newLandAuthorityBinding sample_ids ?b = Ok ?b" by (rule land_fact.norm_idem[OF lawful_sample_ids sample_land_Ok])
  moreover have "lb_Epoch ?b = ''e''" "js_Marshal (ac_landBinding gate_codecs) ?b = Some ''{}''"
    by (simp_all add: sample_land_def gate_codecs_def one_value_def)
  moreover have "evidence_slot 2 \<noteq> []" by (simp add: evidence_slot_def)
  ultimately have effect: "newLandAuthorityBindingEvidenceEffect sample_ids (hl_sha256 gate_lib) gate_codecs (task ''e'') ?b (evidence_slot 2) =
      Ok (EffectEvidence (evidence_slot 2) (task ''e'') landAuthorityBindingEvidenceKind ''x'' ''{}'')"
    by (simp add: newLandAuthorityBindingEvidenceEffect_def newTypedEvidenceEffect_def parseAuthorityTaskID_def ascii_valid validateAuthorityUTF8_def fail_if_def)
  show ?thesis
    by (simp add: landRequest_def parseTaskID_def gate_preflight of_policy_def dr gate_uncommitted gate_landReading of_authority_def gate_binding effect
        request_def Let_def del: result_bind_Ok_iff)
qed

lemma evidence_kinds_nonempty:
  "planSubjectEvidenceKind \<noteq> []" "candidateEvidenceKind \<noteq> []" "implementationReviewAuthorityEvidenceKind \<noteq> []"
  "candidateManifestEvidenceKind \<noteq> []" "candidatePublicationSetEvidenceKind \<noteq> []"
  by (simp_all add: evidence_kind_defs)

lemma gate_state_payload:
  assumes "(t, state, kind, op) \<in> set [(''p'', subjectStatePlanAccepted, DecisionPlanUATAccepted, ''a''),
    (''p'', subjectStatePlanRatified, DecisionPlanRatified, ''t''), (''c'', subjectStateImplementationAccepted, DecisionImplementationUAT, ''i''),
    (''c'', subjectStateImplementationLanded, DecisionLanded, ''l'')]"
    "cq_OperationID q = op" "cq_epoch q = task ''e''" "encoding (cq_draft q) = enc_of kind"
    "js_Marshal (ac_subject gate_codecs) (wire t state kind op) = Some p"
  shows "ref_payload gate_lib q (state_ref family state (task t)) = Ok p"
proof -
  have "state \<noteq> []" using assms(1) by (auto simp: subject_state_defs)
  moreover have "\<lparr>ss_Epoch = ''e'', ss_Subject = t, ss_State = state, ss_Decision = decisionIDForOperation op, ss_DecisionKind = kind,
      ss_Operation = op, ss_Source = subjectStateSourceHumanDecision\<rparr> = subject_of_wire (wire t state kind op)"
    by (simp add: subject_of_wire_def wire_def subject_wire.defs decisionIDForOperation_def)
  moreover have "subject_wire.truncate (subject_of_wire (wire t state kind op)) = wire t state kind op"
    by (simp add: subject_of_wire_def wire_def subject_wire.defs)
  ultimately show ?thesis using gate_state[OF assms(1), of "[]"] assms(2-5)
    by (simp add: ref_payload_def state_ref_def evidence_subject_def newHumanSubjectStateEvidence_def of_authority_def of_marshal_def Let_def
        del: result_bind_Ok_iff)
qed

lemma gate_recorded:
  assumes "op \<noteq> []" "kind \<noteq> []"
  shows "mapDecisionRecorded gate_lib ''event'' (task s) (task ''e'') (activityIDFor gate_lib op) (task ''h'') (decisionIDForOperation op) kind =
     Ok (EffectTaskEvent ''event'' (task s) FamilyEpochDecisionRecorded_EventKind ''n''
       [TaskContext (task s), TaskContext (task ''e''), ActorContext (task ''h''), ActivityContext (activityIDFor gate_lib op)])"
proof -
  have "activityIDFor gate_lib op \<noteq> zero_TaskID" by (simp add: activityIDFor_def zero_TaskID_def)
  moreover have "decisionIDForOperation op \<noteq> []" by (simp add: decisionIDForOperation_def)
  moreover have "hl_ValidateEventKind gate_lib k" "hl_ActorContext gate_lib t" "hl_ActivityContext gate_lib t"
    "hl_recorded gate_lib a b c d e = Some ''n''" for k t a b c d e
    by (simp_all add: gate_lib_def)
  ultimately show ?thesis
    using assms by (simp add: mapDecisionRecorded_def validateDecisionRecorded_def buildContexts_def of_marshal_def fail_if_def)
qed

lemma land_journal_restores:
  "restoreCommittedConditions gate_lib (all_reads land_journal) ''l'' cs = Ok cs"
  "restoreCommittedConditions gate_lib (all_reads plan_journal) ''t'' cs = Ok cs"
  by (simp_all add: restoreCommittedConditions_def land_journal_def plan_journal_def query_matches_def)

lemma gate_ref_effects:
  "list_all (\<lambda>r. er_State r = []) refs \<Longrightarrow>
    \<exists>es. ref_effects gate_lib q n refs = Ok es \<and> List.map_filter evidence_of es = map (\<lambda>r. (cq_subject q, er_Kind r, ''f'')) refs \<and>
      List.map_filter decision_of es = []"
proof (induction refs arbitrary: n)
  case (Cons r refs)
  then obtain es where "ref_effects gate_lib q (Suc n) refs = Ok es" "List.map_filter evidence_of es = map (\<lambda>r. (cq_subject q, er_Kind r, ''f'')) refs"
    "List.map_filter decision_of es = []"
    by (metis list.pred_inject(2))
  then show ?case using Cons.prems
    by (simp add: ref_payload_def of_marshal_def evidence_subject_def List.map_filter_simps del: result_bind_Ok_iff)
qed (simp add: List.map_filter_simps)

text \<open>A command of the instance, committed.\<close>

lemma gate_commit:
  assumes q: "cq_OperationID q = op" "cq_epoch q = task ''e''" "cq_subject q = task s" "cq_actor q = task ''h''" "encoding (cq_draft q) = enc_of kind"
    and sf: "subjectStateForMutation gate_lib (cq_mutation q) (enc_of kind) = Ok (state, family)"
    and mem: "(t, state, kind, op) \<in> set [(''p'', subjectStatePlanAccepted, DecisionPlanUATAccepted, ''a''),
      (''p'', subjectStatePlanRatified, DecisionPlanRatified, ''t''), (''c'', subjectStateImplementationAccepted, DecisionImplementationUAT, ''i''),
      (''c'', subjectStateImplementationLanded, DecisionLanded, ''l'')]"
    and refs: "first_state_subject (cq_refs q) (task s) = task t" "list_all (\<lambda>r. er_State r = []) (cq_refs q)"
    and codec: "js_Marshal (ac_subject gate_codecs) (wire t state kind op) = Some p" "js_Marshal (hl_envelope gate_lib) (envelope s kind op) = Some ep"
    and conds: "restoreCommittedConditions gate_lib rd op (cq_conditions q) = Ok (cq_conditions q)" "encodeConditionEvidence gate_lib (cq_conditions q) = Ok ''[]''"
    and au: "authority_effects (task s) (Suc (length (cq_refs q))) 0 (cq_authority q) = Ok (cq_authority q)"
  shows "\<exists>inp. commitInput gate_lib rd q = Ok inp \<and> oi_Conditions inp = cq_conditions q \<and> oi_OperationID inp = op \<and> oi_ActorID inp = task ''h'' \<and>
    List.map_filter evidence_of (oi_Effects inp) = (task t, family, p) # map (\<lambda>r. (task s, er_Kind r, ''f'')) (cq_refs q) @
      List.map_filter evidence_of (cq_authority q) @ [(task s, preconditionEvidenceKind, ''[]'')] @ List.map_filter evidence_of (cq_trailing q) \<and>
    List.map_filter decision_of (oi_Effects inp) = (task s, journalDecisionKind kind, ep) #
      List.map_filter decision_of (cq_authority q) @ List.map_filter decision_of (cq_trailing q)"
proof -
  have ne: "state \<noteq> []" "kind \<noteq> []" "op \<noteq> []" using mem by (auto simp: subject_state_defs kind_defs)
  have pay: "ref_payload gate_lib q (state_ref family state (task t)) = Ok p"
    using gate_state_payload[OF mem q(1,2,5) codec(1)] .
  obtain es where es: "ref_effects gate_lib q (Suc 0) (cq_refs q) = Ok es"
    "List.map_filter evidence_of es = map (\<lambda>r. (task s, er_Kind r, ''f'')) (cq_refs q)" "List.map_filter decision_of es = []"
    using gate_ref_effects[OF refs(2)] q(3) by metis
  have env: "\<lparr>pe_ID = decisionIDForOperation op, pe_Epoch = ''e'', pe_Subject = s, pe_Actor = ''h'', pe_Decision = enc_of kind\<rparr> = envelope s kind op"
    by (simp add: envelope_def decisionIDForOperation_def)
  have rf: "with_state_ref (state, family) (task s) (cq_refs q) = state_ref family state (task t) # cq_refs q"
    by (simp add: with_state_ref_def ne refs(1))
  have kinds: "evidence_subject (state_ref family state (task t)) x = task t" "er_Kind (state_ref family state (task t)) = family" for x
    by (simp_all add: evidence_subject_def state_ref_def ne)
  show ?thesis
    by (simp add: commitInput_def commit_effects_def q sf rf conds env codec(2) of_marshal_def pay es au gate_recorded ne kinds
        map_filter_append List.map_filter_simps Let_def del: result_bind_Ok_iff)
qed

lemma gate_land_commit:
  "\<exists>inp. result_bind (landRequest gate_lib (all_reads land_journal) gate_land) (commitInput gate_lib (all_reads land_journal)) = Ok inp \<and>
     oi_Conditions inp = land_conditions (task ''c'') gate_reading"
proof -
  obtain q d p where q: "landRequest gate_lib (all_reads land_journal) gate_land = Ok q" "cq_conditions q = land_conditions (task ''c'') gate_reading"
     "cq_OperationID q = ''l''" "cq_epoch q = task ''e''" "cq_subject q = task ''e''" "cq_actor q = task ''h''"
     "cq_mutation q = MutationLand" "encoding (cq_draft q) = enc_of DecisionLanded" "cq_refs q = land_refs gate_land (task ''c'')"
     "cq_authority q = [EffectEvidence (evidence_slot 2) (task ''e'') landAuthorityBindingEvidenceKind d p]"
    using gate_land_request by blast
  have "encodeConditionEvidence gate_lib (land_conditions (task ''c'') gate_reading) = Ok ''[]''"
    by (simp add: evidence_kinds_nonempty encodeConditionEvidence_def land_conditions_def conditionCurrent_def gate_reading_def evidenceCondition_def
        reviewAuthorityCurrentCondition_def candidateManifestExactCondition_def candidatePublicationSetCurrentCondition_def of_marshal_def Let_def
        del: result_bind_Ok_iff)
  then have "\<exists>inp. commitInput gate_lib (all_reads land_journal) q = Ok inp \<and> oi_Conditions inp = cq_conditions q"
    using gate_commit[OF q(3-6,8), of subjectStateImplementationLanded candidateEvidenceKind "''c''" "''L''" "''L''" "all_reads land_journal"]
    by (auto simp: q subjectStateForMutation_def land_refs_def first_state_subject_def plain_ref_kinds gate_codec land_journal_restores numeral_2_eq_2)
  then show ?thesis using q(1,2) by auto
qed

text \<open>The journal the landing is applied to has grown by an unrelated fact.\<close>

definition grown_journal :: journal where
  "grown_journal = land_journal\<lparr>jn_Evidence := jn_Evidence land_journal @ [row 30 ''d'' candidateEvidenceKind ''z'' ''I'']\<rparr>"

lemma gate_land_holds: "list_all (condition_holds grown_journal) (land_conditions (task ''c'') gate_reading)"
  by (simp add: land_conditions_def gate_reading_def conditionCurrent_def reviewAuthorityCurrentCondition_def candidateManifestExactCondition_def
      candidatePublicationSetCurrentCondition_def evidenceCondition_def condition_holds_def condition_rows_def current_fact_def about_def
      grown_journal_def land_journal_def evidence_kinds_neq)

theorem land_justified_witness:
  "\<exists>inp. result_bind (landRequest gate_lib (all_reads land_journal) gate_land) (commitInput gate_lib (all_reads land_journal)) = Ok inp \<and>
     list_all (condition_holds grown_journal) (oi_Conditions inp) \<and>
     (\<exists>op. accepted_state gate_lib grown_journal (task ''e'') (task ''c'') ''decision:i'' op \<and>
        reviewed_clean gate_lib grown_journal (task ''e'') (task ''c'') op) \<and> published_exactly gate_lib grown_journal (task ''e'') (task ''c'')"
proof -
  obtain inp where inp: "result_bind (landRequest gate_lib (all_reads land_journal) gate_land) (commitInput gate_lib (all_reads land_journal)) = Ok inp"
    "list_all (condition_holds grown_journal) (oi_Conditions inp)"
    using gate_land_commit gate_land_holds by auto
  have "grows_to land_journal grown_journal" by (simp add: grows_to_def grown_journal_def)
  moreover have "wf_journal grown_journal" by (simp add: wf_journal_def ascending_def grown_journal_def land_journal_def)
  moreover have "fresh (ln_OperationID gate_land) land_journal" by (simp add: fresh_def land_journal_def)
  moreover have "lawful_ids (hl_ids gate_lib)" by (simp add: lawful_sample_ids)
  ultimately show ?thesis
    using land_justified[OF all_reads_from _ _ _ _ inp] inp by auto
qed

definition gate_ratify :: RatifyPlanInput where
  "gate_ratify = \<lparr>rt_OperationID = ''t'', rt_Epoch = ''e'', rt_Proposal = task ''p'', rt_ReviewRound = ''r'', rt_PlanUAT = ''decision:a'', rt_Actor = task ''h''\<rparr>"

lemma gate_ratify_simps [simp]:
  "rt_OperationID gate_ratify = ''t''" "rt_Epoch gate_ratify = ''e''" "rt_Proposal gate_ratify = task ''p''"
  "rt_ReviewRound gate_ratify = ''r''" "rt_PlanUAT gate_ratify = ''decision:a''" "rt_Actor gate_ratify = task ''h''"
  by (simp_all add: gate_ratify_def)

definition gate_accepted :: subjectStateSnapshot where
  "gate_accepted = \<lparr>sn_subject = task ''p'', sn_state = subjectStatePlanAccepted, sn_decision = ''decision:a'',
     sn_decisionKind = DecisionPlanUATAccepted, sn_operation = ''a'', sn_source = subjectStateSourceHumanDecision, sn_journalID = 2,
     sn_family = planSubjectEvidenceKind\<rparr>"

lemma gate_ratify_reads:
  "planSubjectState gate_lib (all_reads plan_journal) (task ''e'') (task ''p'') = Ok gate_accepted"
  "requireAcceptedReview gate_lib (all_reads plan_journal) (task ''p'') (task ''e'') ''r'' = Ok ()"
  "requireAcceptedDecision gate_lib (all_reads plan_journal) (task ''p'') (task ''e'') ''decision:a'' DecisionPlanUATAccepted ''RatifyPlan'' = Ok ()"
proof -
  note [simp] = plan_journal_def query_matches_def evidence_kinds_neq
  show "planSubjectState gate_lib (all_reads plan_journal) (task ''e'') (task ''p'') = Ok gate_accepted"
    by (simp add: planSubjectState_def currentSubjectState_def state_step_def gate_states)
      (simp add: wire_def subject_of_wire_def subject_wire.defs gate_accepted_def)
  show "requireAcceptedReview gate_lib (all_reads plan_journal) (task ''p'') (task ''e'') ''r'' = Ok ()"
    by (simp add: requireAcceptedReview_def review_accepts_def gate_lib_def Verdict_String_def del: result_bind_Ok_iff)
  show "requireAcceptedDecision gate_lib (all_reads plan_journal) (task ''p'') (task ''e'') ''decision:a'' DecisionPlanUATAccepted ''RatifyPlan'' = Ok ()"
    by (simp add: requireAcceptedDecision_def foldDecisionFacts_def gate_decision del: result_bind_Ok_iff)
qed

lemma gate_ratify_commit:
  "\<exists>q inp. ratifyPlanRequest gate_lib (all_reads plan_journal) gate_ratify = Ok q \<and> commitInput gate_lib (all_reads plan_journal) q = Ok inp \<and>
     oi_Conditions inp = [conditionCurrent gate_accepted] \<and> oi_OperationID inp = ''t'' \<and> oi_ActorID inp = task ''h'' \<and>
     List.map_filter evidence_of (oi_Effects inp) = [(task ''p'', planSubjectEvidenceKind, ''T''), (task ''p'', ''pasture.review.round.v1'', ''f''),
       (task ''p'', ''pasture.plan-uat.decision.v1'', ''f''), (task ''p'', preconditionEvidenceKind, ''[]'')] \<and>
     List.map_filter decision_of (oi_Effects inp) = [(task ''p'', journalDecisionKind DecisionPlanRatified, ''T'')]"
proof -
  obtain dr where dr: "DraftPlanRatified gate_policy \<lparr>pr_Proposal = ''p'', pr_ReviewRound = ''r'', pr_PlanUAT = ''decision:a''\<rparr> = Ok dr"
    "encoding dr = enc_of DecisionPlanRatified"
    using gate_draft(2) by blast
  have acc: "sn_state gate_accepted = subjectStatePlanAccepted" "sn_decision gate_accepted = ''decision:a''" by (simp_all add: gate_accepted_def)
  define q where "q = (request ''t'' ''e'' (task ''e'') (task ''p'') (task ''h'') MutationRatifyPlan dr)\<lparr>cq_refs := ratify_refs gate_ratify,
    cq_conditions := [conditionCurrent gate_accepted], cq_trailing := [lifecycleEffect (task ''p'') ''task.closed'']\<rparr>"
  have "ratifyPlanRequest gate_lib (all_reads plan_journal) gate_ratify = Ok q"
    by (simp add: ratifyPlanRequest_def gate_preflight of_policy_def dr gate_uncommitted gate_ratify_reads acc q_def Let_def del: result_bind_Ok_iff)
  moreover have "encodeConditionEvidence gate_lib [conditionCurrent gate_accepted] = Ok ''[]''"
    by (simp add: evidence_kinds_nonempty encodeConditionEvidence_def conditionCurrent_def gate_accepted_def evidenceCondition_def of_marshal_def
        Let_def del: result_bind_Ok_iff)
  ultimately show ?thesis
    using gate_commit[of q "''t''" "''p''" DecisionPlanRatified subjectStatePlanRatified planSubjectEvidenceKind "''p''" "''T''" "''T''" "all_reads plan_journal"]
    by (auto simp: q_def request_def dr subjectStateForMutation_def ratify_refs_def first_state_subject_def plain_ref_kinds gate_codec
        land_journal_restores lifecycleEffect_def List.map_filter_simps)
qed

theorem ratify_justified_witness:
  "\<exists>inp. result_bind (ratifyPlanRequest gate_lib (all_reads plan_journal) gate_ratify) (commitInput gate_lib (all_reads plan_journal)) = Ok inp \<and>
     list_all (condition_holds plan_journal) (oi_Conditions inp) \<and> plan_accepted gate_lib plan_journal (task ''e'') (task ''p'') ''decision:a''"
proof -
  obtain inp where inp: "result_bind (ratifyPlanRequest gate_lib (all_reads plan_journal) gate_ratify) (commitInput gate_lib (all_reads plan_journal)) = Ok inp"
    "oi_Conditions inp = [conditionCurrent gate_accepted]"
    using gate_ratify_commit by auto
  have holds: "list_all (condition_holds plan_journal) (oi_Conditions inp)"
    by (simp add: inp(2) gate_accepted_def conditionCurrent_def evidenceCondition_def condition_holds_def condition_rows_def current_fact_def about_def
        plan_journal_def evidence_kinds_neq)
  have "wf_journal plan_journal" "fresh (rt_OperationID gate_ratify) plan_journal"
    by (simp_all add: wf_journal_def ascending_def plan_journal_def fresh_def)
  then show ?thesis using ratify_justified[OF all_reads_from grows_to_refl _ _ inp(1) holds] inp(1) holds by auto
qed

definition gate_plan_uat :: PlanUATInput where
  "gate_plan_uat = \<lparr>pt_OperationID = ''a'', pt_Epoch = ''e'', pt_Proposal = task ''p'', pt_Outcome = PlanUATAccepted, pt_Actor = task ''h'',
     pt_Payload = None\<rparr>"

lemma gate_plan_uat_commit:
  "\<exists>q inp. recordPlanUATRequest gate_lib (all_reads empty_journal) gate_plan_uat = Ok q \<and> commitInput gate_lib (all_reads empty_journal) q = Ok inp \<and>
     oi_Conditions inp = [conditionCurrent (no_state (task ''p'') planSubjectEvidenceKind)] \<and> oi_OperationID inp = ''a'' \<and> oi_ActorID inp = task ''h'' \<and>
     List.map_filter evidence_of (oi_Effects inp) = [(task ''p'', planSubjectEvidenceKind, ''A''), (task ''p'', preconditionEvidenceKind, ''[]'')] \<and>
     List.map_filter decision_of (oi_Effects inp) = [(task ''p'', journalDecisionKind DecisionPlanUATAccepted, ''A'')]"
proof -
  let ?d = "plan_decision gate_lib gate_plan_uat \<lparr>pp_Interactions = [], pp_Feedback = [], pp_HeldQuestions = []\<rparr> (task ''e'') normal_mode"
  let ?s = "no_state (task ''p'') planSubjectEvidenceKind"
  obtain dr where dr: "DraftPlanUAT gate_policy ?d = Ok dr" "encoding dr = enc_of DecisionPlanUATAccepted"
  proof -
    have snap: "snapshot_complete (pu_Snapshot ?d)"
      by (simp add: snapshot_complete_def plan_decision_def servicePlanSnapshot_def gate_plan_uat_def decisionIDForOperation_def Let_def)
    have "\<exists>dr. Draft (po_planAccepted gate_policy) \<lparr>pa_Snapshot = pu_Snapshot ?d, pa_Interactions = [], pa_Feedback = []\<rparr> = Ok dr \<and>
        encoding dr = enc_of DecisionPlanUATAccepted"
      unfolding gate_descriptors
      by (rule draft_of_descriptor) (use snap in \<open>simp_all add: session_complete_def hasFixNowFeedback_def sample_lib_def one_value_def\<close>)
    then show ?thesis using that by (auto simp: DraftPlanUAT_simps plan_decision_def gate_plan_uat_def)
  qed
  define q where "q = (request ''a'' ''e'' (task ''e'') (task ''p'') (task ''h'') MutationRecordPlanUAT dr)\<lparr>cq_conditions := [conditionCurrent ?s]\<rparr>"
  have reads: "planSubjectState gate_lib (all_reads empty_journal) (task ''e'') (task ''p'') = Ok ?s"
    "committedOperationDecision gate_lib (all_reads empty_journal) ''a'' planUATDecisionKinds = Ok None"
    "restoreCommittedConditions gate_lib (all_reads empty_journal) ''a'' cs = Ok cs" for cs
    by (simp_all add: planSubjectState_def currentSubjectState_def committedOperationDecision_def restoreCommittedConditions_def empty_journal_def)
  have "\<not> terminal ?s" by (simp add: terminal_def no_state_def subject_state_defs)
  then have "recordPlanUATRequest gate_lib (all_reads empty_journal) gate_plan_uat = Ok q"
    using dr(1) reads
    by (simp add: recordPlanUATRequest_def gate_plan_uat_def gate_preflight planUATDraft_def of_policy_def q_def Let_def del: result_bind_Ok_iff)
  moreover have "encodeConditionEvidence gate_lib [conditionCurrent ?s] = Ok ''[]''"
    by (simp add: evidence_kinds_nonempty encodeConditionEvidence_def conditionCurrent_def no_state_def evidenceCondition_def of_marshal_def
        Let_def del: result_bind_Ok_iff)
  ultimately show ?thesis
    using gate_commit[of q "''a''" "''p''" DecisionPlanUATAccepted subjectStatePlanAccepted planSubjectEvidenceKind "''p''" "''A''" "''A''" "all_reads empty_journal"]
    by (auto simp: q_def request_def dr subjectStateForMutation_def first_state_subject_def gate_codec reads List.map_filter_simps)
qed

definition ratified_journal :: journal where
  "ratified_journal = \<lparr>jn_Decisions = jn_Decisions plan_journal @ [row 4 ''p'' (journalDecisionKind DecisionPlanRatified) ''t'' ''T''],
     jn_Evidence = jn_Evidence plan_journal @ [row 5 ''p'' planSubjectEvidenceKind ''t'' ''T'', row 6 ''p'' ''pasture.review.round.v1'' ''t'' ''f'',
       row 7 ''p'' ''pasture.plan-uat.decision.v1'' ''t'' ''f'', row 8 ''p'' preconditionEvidenceKind ''t'' ''[]'']\<rparr>"

lemma gate_codec_lawful: "subject_codec gate_lib"
  by (auto simp: subject_codec_def gate_codecs_def table_def wire_def dest!: map_of_SomeD)

lemma gate_reachable: "reachable_journal gate_lib ratified_journal"
proof -
  have "human_step gate_lib empty_journal plan_journal"
  proof -
    obtain q inp where i: "recordPlanUATRequest gate_lib (all_reads empty_journal) gate_plan_uat = Ok q" "commitInput gate_lib (all_reads empty_journal) q = Ok inp"
      "oi_Conditions inp = [conditionCurrent (no_state (task ''p'') planSubjectEvidenceKind)]" "oi_OperationID inp = ''a''" "oi_ActorID inp = task ''h''"
      "List.map_filter evidence_of (oi_Effects inp) = [(task ''p'', planSubjectEvidenceKind, ''A''), (task ''p'', preconditionEvidenceKind, ''[]'')]"
      "List.map_filter decision_of (oi_Effects inp) = [(task ''p'', journalDecisionKind DecisionPlanUATAccepted, ''A'')]"
      using gate_plan_uat_commit by blast
    have "applied inp empty_journal plan_journal"
      by (simp add: applied_def i(3-7) records_def wf_journal_def ascending_def plan_journal_def empty_journal_def fresh_def conditionCurrent_def no_state_def
          evidenceCondition_def condition_holds_def condition_rows_def current_fact_def about_def)
    then show ?thesis
      using i(1,2) by (intro human_step.command[OF all_reads_from grows_to_refl, where c = "cmdPlanUAT gate_plan_uat"]) simp_all
  qed
  moreover have "human_step gate_lib plan_journal ratified_journal"
  proof -
    obtain q inp where i: "ratifyPlanRequest gate_lib (all_reads plan_journal) gate_ratify = Ok q" "commitInput gate_lib (all_reads plan_journal) q = Ok inp"
      "oi_Conditions inp = [conditionCurrent gate_accepted]" "oi_OperationID inp = ''t''" "oi_ActorID inp = task ''h''"
      "List.map_filter evidence_of (oi_Effects inp) = [(task ''p'', planSubjectEvidenceKind, ''T''), (task ''p'', ''pasture.review.round.v1'', ''f''),
       (task ''p'', ''pasture.plan-uat.decision.v1'', ''f''), (task ''p'', preconditionEvidenceKind, ''[]'')]"
      "List.map_filter decision_of (oi_Effects inp) = [(task ''p'', journalDecisionKind DecisionPlanRatified, ''T'')]"
      using gate_ratify_commit by blast
    have "applied inp plan_journal ratified_journal"
      by (simp add: applied_def i(3-7) records_def wf_journal_def ascending_def ratified_journal_def plan_journal_def fresh_def conditionCurrent_def
          gate_accepted_def evidenceCondition_def condition_holds_def condition_rows_def current_fact_def about_def evidence_kinds_neq)
    then show ?thesis
      using i(1,2) by (intro human_step.command[OF all_reads_from grows_to_refl, where c = "cmdRatify gate_ratify"]) simp_all
  qed
  ultimately show ?thesis by (simp add: reachable_journal_def)
qed

theorem plan_history_lawful_witness:
  "plan_states gate_lib ratified_journal (task ''p'') = [subjectStatePlanAccepted, subjectStatePlanRatified] \<and>
   plan_states gate_lib ratified_journal (task ''p'') ! 0 = subjectStatePlanAccepted"
proof -
  have states: "plan_states gate_lib ratified_journal (task ''p'') = [subjectStatePlanAccepted, subjectStatePlanRatified]"
    by (simp add: plan_states_def about_def ratified_journal_def plan_journal_def evidence_kinds_neq state_of_def gate_codecs_def table_def wire_def)
      (simp add: evidence_kind_defs)
  then show ?thesis
    using plan_history_lawful[OF gate_codec_lawful gate_reachable, of "task ''p''"] by auto
qed

end
