(* ===== verification/Spec2Isabelle.thy ===== *)
theory Spec2Isabelle
  imports EpochMachine AuditTrail AuditMigrate AuditWrite Engine SubWorkflows Hooks Timeouts WriteLane
    HookCommand UatCoverage HumanGates
begin

text \<open>
  A verification development for \<^bold>\<open>pasture\<close>, a runtime that drives the multi-agent
  development protocol \<^emph>\<open>epoch\<close>, records what happened in an append-only forensic trail,
  answers the lifecycle hooks of the hosts the agents run in, and keeps the decisions of the
  humans who accept the work.  This header says which part of the program each theory models,
  how its state and operations correspond to the code under \<^verbatim>\<open>src/\<close>, what the theorems
  show, and what is left out.

  \<^bold>\<open>The program.\<close>  It has three parts that meet in the stores.

  \<^item> \<^emph>\<open>The epoch.\<close>  An epoch moves through twelve phases under a pure state machine
    (\<^verbatim>\<open>pkg/protocol\<close>).  A durable workflow owns one machine and feeds it with signals: votes,
    sessions, slice progress, advances (\<^verbatim>\<open>internal/engine\<close>).  Each transition is one
    durable step that refreshes a projection row and writes one audit event under a
    deterministic deduplication key.  Reviews and slices are sub-workflows dispatched through
    a queue.  The audit trail (\<^verbatim>\<open>internal/audit\<close>) has an in-memory and a SQLite
    implementation; the SQLite one migrates its schema in versioned steps and writes under a
    retry policy.  Hook handlers are dispatched concurrently (\<^verbatim>\<open>internal/hooks\<close>).
  \<^item> \<^emph>\<open>The lifecycle hooks.\<close>  A host (Claude Code, Codex, OpenCode) runs
    \<^verbatim>\<open>pasture hook\<close> for an event.  The command reads its environment and the version of the
    host, binds the native event to the row of a pinned profile (\<^verbatim>\<open>internal/runtime\<close>,
    \<^verbatim>\<open>internal/lifecycle\<close>), asks the gate whether the actor may act, records the delivery
    with its decision under a settlement fence and tells the host the outcome as bytes and an
    exit status.  The record goes through the write lane of the daemon
    (\<^verbatim>\<open>internal/writelane\<close>, with the frames of \<^verbatim>\<open>internal/lifecycle/lanewire\<close>), whose
    budget comes from the timeout hierarchy (\<^verbatim>\<open>internal/timeouts\<close>), or is written directly
    when the daemon cannot be reached.
  \<^item> \<^emph>\<open>The human decisions.\<close>  The task tracker (\<^verbatim>\<open>internal/tasks\<close>) records changes of
    the interaction mode, the UAT of plans and implementations, ratifications and landings.
    A decision is a typed draft of a policy catalogue; a command reads the facts of the
    journal, builds one operation with the conditions it relied on, and the journal applies
    it atomically or not at all.

  \<^bold>\<open>The theories: shared.\<close>

  \<^item> \<open>Prelude\<close>: Go results as sums, 64-bit integers with the wrap-around written out, the
    string functions the sources use, the interface \<open>wire_enum\<close> of the string enumerations
    and the interface \<open>machine_invariant\<close> of deterministic machines with an invariant.
  \<^item> \<open>Runes\<close>: UTF-8 decoding of byte strings, control characters and spaces.

  \<^bold>\<open>The theories: the epoch.\<close>

  \<^item> \<open>Protocol\<close>: the enumerations (each an interpretation of \<open>wire_enum\<close>), the phase
    pipeline and the phase parser of \<^verbatim>\<open>types.go\<close>, signals, audit events and derived
    identifiers.  The parser inverts every documented spelling; its digit accumulator wraps.
  \<^item> \<open>EpochMachine\<close>: \<^verbatim>\<open>state_machine.go\<close> and \<^verbatim>\<open>epoch_state.go\<close>.  The state is the record
    \<open>EpochState\<close>, the operations are \<open>Advance\<close>, \<open>RecordVote\<close>, \<open>RecordBlocker\<close> and
    \<open>RecordFailedTransition\<close>; a run is a list of operations.  Nothing passes the plan and
    code review gates without consensus and without open blockers, the offered transitions
    are exactly the accepted ones, the history is a path of the table, every reachable epoch
    can complete.
  \<^item> \<open>AuditTrail\<close>: \<^verbatim>\<open>memory.go\<close>, \<^verbatim>\<open>sqlite.go\<close>, \<^verbatim>\<open>query.go\<close>.  Both backends interpret the
    interface \<open>audit_trail\<close>, whose clients get the append-only log; the SQLite one is
    idempotent in the deduplication key.
  \<^item> \<open>AuditMigrate\<close>: the version protocol of \<^verbatim>\<open>migrate.go\<close>, \<^verbatim>\<open>schema_meta.go\<close> and
    \<^verbatim>\<open>plan.go\<close> with other processes migrating at the same time: every step is applied once
    and in order, whoever applies it.
  \<^item> \<open>AuditWrite\<close>: the transaction shell and retry loop of \<^verbatim>\<open>write_retry.go\<close> with its clock:
    it returns, it waits the delays of its schedule within its budget, and a write happens at
    most once.
  \<^item> \<open>Engine\<close>: the scripted and the signal-driven driver (\<^verbatim>\<open>workflow.go\<close>,
    \<^verbatim>\<open>control.go\<close>) and the projection (\<^verbatim>\<open>projection.go\<close>) over the machine of
    \<open>EpochMachine\<close> and the trail of \<open>AuditTrail\<close>.  The trail mirrors the transitions, the
    projection is current whenever the workflow is parked, a step that crashes at any
    point is recorded once, and a workflow that completes took an ACCEPT vote for every axis
    from its queue while it was in code review.
  \<^item> \<open>Hooks\<close>: registration and concurrent dispatch (\<^verbatim>\<open>hooks.go\<close>).
  \<^item> \<open>Timeouts\<close>: profiles and overrides (\<^verbatim>\<open>profile.go\<close>, \<^verbatim>\<open>override.go\<close>).
  \<^item> \<open>SubWorkflows\<close>: reviews, slices and queues (\<^verbatim>\<open>review.go\<close>, \<^verbatim>\<open>slice.go\<close>,
    \<^verbatim>\<open>queue.go\<close>).

  \<^bold>\<open>The theories: the lifecycle hooks.\<close>

  \<^item> \<open>HostVersion\<close>, \<open>LifecycleRuntime\<close>, \<open>LifecycleProfiles\<close>: host versions and their
    constraints, the event mappings with their validation, the four pinned profiles.
  \<^item> \<open>Registration\<close>: the registration manifests, compared with the profiles.
  \<^item> \<open>Waist\<close>: frontends and the verification of correlation identities; exactly the
    admissible bindings cross, in any order.
  \<^item> \<open>GateAuthority\<close>, \<open>GatePolicy\<close>, \<open>GateReader\<close>: the legality tables (interpretations
    of \<open>legality_grid\<close>), the rules that proceed or deny, and the sealed snapshot with the
    session claims they read.  The verdict is characterised exactly; the first claim of a
    session stands whatever the interleaving of the claimers.
  \<^item> \<open>HostDecision\<close>, \<open>HostExit\<close>: decisions with their JSON codec and what a host is told:
    the encoder sends exactly what was persisted, which the response reader of the OpenCode
    adapter (\<^verbatim>\<open>opencode-lifecycle.ts\<close>) reads back, and a fault fails open unless the operator asked
    otherwise on a row that cites evidence.
  \<^item> \<open>Settlement\<close>: the fence between commit and deadline as a transition system.
  \<^item> \<open>WriteGate\<close>: intents and warrants of the commit surfaces; exactly the well-formed requests
    of its class open a surface.
  \<^item> \<open>HookDelivery\<close>: one delivery, from dispatch to the commit: recorded decision, answer
    and outcome are one decision, and every sentinel is true of the journal.
  \<^item> \<open>WriteLane\<close>: budget and lane (\<^verbatim>\<open>budget.go\<close>, \<^verbatim>\<open>lane.go\<close>) as a transition system
    whose transitions are the critical sections of the code; conservation of records, bounds,
    progress and honest acknowledgement hold for every interleaving.
  \<^item> \<open>LaneServe\<close>, \<open>LaneWire\<close>: the daemon's side and the frames, over connections that break
    at any byte.  The daemon does what the direct path does; an unavailable lane left the
    daemon unchanged.
  \<^item> \<open>HookEnvironment\<close>, \<open>HookCommand\<close>: the environment and the whole command with its
    worker, its deadline and its panics: the outcome is true of the record, which is written
    at most once.

  \<^bold>\<open>The theories: the human decisions.\<close>

  \<^item> \<open>DecisionPolicy\<close>: descriptors, drafts, the catalogue, the payloads, the interaction
    mode and the predicates of deferral and ratification.  The locale
    \<open>registered_descriptor\<close> is the contract of a descriptor of the catalogue, interpreted for
    the seven of production.  Drafts are issued exactly where the policy admits them, and
    nothing else is accepted from the store.
  \<^item> \<open>UatCoverage\<close>: required decisions and the coverage digest, one of the decided content;
    which later entries make an accepted digest stale, and which do not.
  \<^item> \<open>EpochAuthority\<close>: the typed facts of reviews, manifests, publications, bindings and
    subject states.  The locale \<open>canonical_fact\<close> states that a constructor is idempotent and
    that what it stores decodes to it; five facts interpret it.
  \<^item> \<open>HumanService\<close>: every read and every command of \<^verbatim>\<open>epoch_human_service.go\<close> up to the
    single Apply and its result.
  \<^item> \<open>HumanGates\<close>: the journal as growing lists of facts, the locale \<open>evidence_reader\<close> for the
    loops that walk pages, and the step relation of commands that read any earlier journal.
    A landing or a ratification is justified at the moment it is applied, and the history of
    a proposal is lawful in every reachable journal.

  \<^bold>\<open>Conventions.\<close>  A Go struct is a record, a string enumeration stays a string because
  invalid values are representable, an integer enumeration is a number or a datatype with a
  constructor for the undeclared values, a map that is iterated is an association list
  without duplicate keys, a method with a pointer receiver takes its receiver and returns it
  updated.  An error is a value of a sum or an option; error texts are constructors where only
  their cause matters.  Timestamps and durations are integers.

  \<^bold>\<open>Parameters.\<close>  Code outside the repository appears as arguments: the name-based UUID
  (assumed injective and not empty where keys must differ), the random UUID generator, JSON
  encodings (assumed to decode to what was encoded where a theorem reads back), SHA-256
  (assumed not to collide on the encodings compared), the durable runtime (outcomes of
  receives, step ordinals, assumed distinct for distinct operations, and failures), the SQL
  of the single migration steps and of the reads of the stores, the driver's answers to begin,
  commit and rollback, the batch journal of the provenance library and its batch cap, its
  identities, its fact queries and its Apply, the parsers of durations and of the version
  banners, the search for executables, \<^verbatim>\<open>JSON.parse\<close> of the adapter (assumed to read flat
  objects of plain strings), and the texts of diagnostics.  Every theorem that has
  such a hypothesis has a witness with a concrete instance.

  \<^bold>\<open>Bounds and fuel.\<close>  The only fuel is that of the audit retry loop: 36 rounds are shown to
  be enough for the default policy, because the loop's own back-offs add up to more than its
  thirty seconds.
  The other loops recurse over the signals received, over the registry of steps, over the
  staged records, over bytes or over the pages a query returns, which are a finite list.  The
  write lane assumes record sizes and a queue bound below \<open>2 ^ 62\<close> bytes, beyond which the
  byte counter could wrap.

  \<^bold>\<open>Not modelled.\<close>  Opening and closing databases, the SQL text, listening sockets with the
  election of a daemon, HTTP and the command line beyond the hook command, host JSON decoders,
  raw ingestion, code generation, installation, releases, rendering, the assignment, review
  and slice commands of the tracker and its projections.
\<close>

end
